(* ===== verification/Panel_Prelude.thy ===== *)
theory Panel_Prelude
  imports Main Complex_Main
    "HOL-Library.AList" "HOL-Library.Char_ord" "HOL-Library.List_Lexorder"
    "HOL-Library.Product_Lexorder" "HOL-Library.Monad_Syntax"
begin

text \<open>
  What every component theory shares.  A Python value read from JSON (or handed to a
  validator typed \<open>object\<close> or \<open>Any\<close>) is a \<open>pyval\<close>; a Python \<open>str\<close> is a \<open>string\<close>, one
  \<open>char\<close> for one code point, which covers the code points up to U+00FF; a Python \<open>dict\<close> is an
  association list in insertion order (HOL-Library.AList keeps a key's place on update, as
  Python does); a raise is the \<open>Inl\<close> of a sum, or \<open>None\<close> where the code has a single
  exception.  \<open>float\<close> values are rationals plus the three special values.
\<close>

named_theorems pa_simps \<open>characteristic equations shared by the component proofs\<close>

section \<open>Python values\<close>

datatype pyfloat = FFinite rat | FInf | FNegInf | FNaN

datatype pyval =
    PNone
  | PBool bool
  | PInt int
  | PFloat pyfloat
  | PStr string
  | PList "pyval list"
  | PTuple "pyval list"
  | PDict "(string \<times> pyval) list"

type_synonym pydict = "(string \<times> pyval) list"

text \<open>\<open>d.get(k)\<close>: a missing key and a key holding \<open>None\<close> both read as \<open>None\<close>.\<close>

definition dict_get :: "pydict \<Rightarrow> string \<Rightarrow> pyval" where
  "dict_get d k = (case map_of d k of None \<Rightarrow> PNone | Some v \<Rightarrow> v)"

definition dict_get_default :: "pydict \<Rightarrow> string \<Rightarrow> pyval \<Rightarrow> pyval" where
  "dict_get_default d k v = (case map_of d k of None \<Rightarrow> v | Some w \<Rightarrow> w)"

lemma dict_get_Cons [simp]: "dict_get ((k, v) # d) j = (if j = k then v else dict_get d j)"
  by (simp add: dict_get_def)

lemma dict_get_Nil [simp]: "dict_get [] j = PNone"
  by (simp add: dict_get_def)

lemma dict_get_default_Cons [simp]:
  "dict_get_default ((k, v) # d) j w = (if j = k then v else dict_get_default d j w)"
  by (simp add: dict_get_default_def)

lemma dict_get_default_Nil [simp]: "dict_get_default [] j w = w"
  by (simp add: dict_get_default_def)

definition dict_keys :: "('k \<times> 'v) list \<Rightarrow> 'k set" where
  "dict_keys d = set (map fst d)"

definition dict_values :: "('k \<times> 'v) list \<Rightarrow> 'v list" where
  "dict_values d = map snd d"

text \<open>Every Python \<open>dict\<close> has distinct keys; the model's lists keep it as an invariant.\<close>

definition dict_ok :: "('k \<times> 'v) list \<Rightarrow> bool" where
  "dict_ok d \<longleftrightarrow> distinct (map fst d)"

lemma dict_ok_Nil [simp]: "dict_ok []"
  by (simp add: dict_ok_def)

lemma dict_ok_update [intro]: "dict_ok d \<Longrightarrow> dict_ok (AList.update k v d)"
  by (simp add: dict_ok_def distinct_update)

lemma dict_ok_delete [intro]: "dict_ok d \<Longrightarrow> dict_ok (AList.delete k d)"
  by (simp add: dict_ok_def distinct_delete)

lemma dict_ok_filter [intro]: "dict_ok d \<Longrightarrow> dict_ok (filter P d)"
  by (induction d) (auto simp: dict_ok_def)

lemma dict_ok_map_snd [intro]: "dict_ok d \<Longrightarrow> dict_ok (map (\<lambda>(k, v). (k, f k v)) d)"
  by (simp add: dict_ok_def comp_def case_prod_unfold)

lemma map_of_dict_iff: "dict_ok d \<Longrightarrow> map_of d k = Some v \<longleftrightarrow> (k, v) \<in> set d"
  by (simp add: dict_ok_def)

lemma dict_mem_update:
  "dict_ok d \<Longrightarrow> (k', v') \<in> set (AList.update k v d) \<longleftrightarrow>
    (if k' = k then v' = v else (k', v') \<in> set d)"
  by (auto simp: map_of_dict_iff [OF dict_ok_update, symmetric] map_of_dict_iff [symmetric]
      update_conv')

lemma dict_mem_delete: "(k', v') \<in> set (AList.delete k d) \<longleftrightarrow> k' \<noteq> k \<and> (k', v') \<in> set d"
  by (auto simp: AList.delete_eq)

lemma map_of_map_snd:
  "map_of (map (\<lambda>(k, v). (k, f k v)) d) k = map_option (f k) (map_of d k)"
  by (induction d) auto

text \<open>\<open>a == b\<close> of two dicts: the same keys with the same values, in any order.\<close>

definition dict_eq :: "('k \<times> 'v) list \<Rightarrow> ('k \<times> 'v) list \<Rightarrow> bool" where
  "dict_eq a b \<longleftrightarrow> length a = length b \<and> list_all (\<lambda>(k, v). map_of b k = Some v) a"

text \<open>\<open>d.update(e)\<close>\<close>

definition dict_update :: "('k \<times> 'v) list \<Rightarrow> ('k \<times> 'v) list \<Rightarrow> ('k \<times> 'v) list" where
  "dict_update d e = foldl (\<lambda>acc (k, v). AList.update k v acc) d e"

text \<open>A dict comprehension: later pairs overwrite earlier ones.\<close>

definition dict_of :: "('k \<times> 'v) list \<Rightarrow> ('k \<times> 'v) list" where
  "dict_of ps = dict_update [] ps"

lemma dict_eq_set: "dict_ok a \<Longrightarrow> dict_ok b \<Longrightarrow> dict_eq a b \<longleftrightarrow> set a = set b"
proof
  assume ok: "dict_ok a" "dict_ok b" and eq: "dict_eq a b"
  have "set a \<subseteq> set b"
    using eq ok by (auto simp: dict_eq_def list_all_iff map_of_dict_iff)
  moreover have "card (set a) = card (set b)"
    using eq ok by (metis dict_eq_def dict_ok_def distinct_card distinct_map)
  ultimately show "set a = set b" by (simp add: card_subset_eq)
next
  assume ok: "dict_ok a" "dict_ok b" and eq: "set a = set b"
  then have "length a = length b"
    by (metis dict_ok_def distinct_card distinct_map)
  with ok eq show "dict_eq a b" by (auto simp: dict_eq_def list_all_iff map_of_dict_iff)
qed

lemma dict_eq_map_of: "dict_ok a \<Longrightarrow> dict_ok b \<Longrightarrow> dict_eq a b \<longleftrightarrow> map_of a = map_of b"
  by (simp add: dict_eq_set dict_ok_def map_of_inject_set)

lemma dict_ok_dict_update [intro]: "dict_ok d \<Longrightarrow> dict_ok (dict_update d e)"
  by (induction e arbitrary: d) (auto simp: dict_update_def dict_ok_update)

lemma dict_ok_dict_of [intro, simp]: "dict_ok (dict_of ps)"
  by (simp add: dict_of_def dict_ok_dict_update)

lemma map_of_dict_update: "map_of (dict_update d e) k =
    (case map_of (rev e) k of None \<Rightarrow> map_of d k | Some v \<Rightarrow> Some v)"
proof (induction e arbitrary: d)
  case (Cons p e)
  then show ?case
    by (cases p) (auto simp: dict_update_def update_conv' map_add_def split: option.splits)
qed (simp add: dict_update_def)

section \<open>Results that may raise\<close>

definition bind_res :: "'e + 'a \<Rightarrow> ('a \<Rightarrow> 'e + 'b) \<Rightarrow> 'e + 'b" where
  "bind_res m f = (case m of Inl e \<Rightarrow> Inl e | Inr x \<Rightarrow> f x)"

definition or_raise :: "'a option \<Rightarrow> 'e \<Rightarrow> 'e + 'a" where
  "or_raise m e = (case m of None \<Rightarrow> Inl e | Some x \<Rightarrow> Inr x)"

lemma bind_res_simps [simp]:
  "bind_res (Inl e) f = Inl e" "bind_res (Inr x) f = f x"
  by (simp_all add: bind_res_def)

lemma bind_res_Inr_iff: "bind_res m f = Inr y \<longleftrightarrow> (\<exists>x. m = Inr x \<and> f x = Inr y)"
  by (cases m) auto

lemma or_raise_simps [simp]: "or_raise None e = Inl e" "or_raise (Some x) e = Inr x"
  by (simp_all add: or_raise_def)

lemma or_raise_Inr_iff: "or_raise m e = Inr x \<longleftrightarrow> m = Some x"
  by (cases m) auto

definition guard :: "bool \<Rightarrow> unit option" where
  "guard b = (if b then Some () else None)"

lemma guard_Some_iff [simp]: "guard b = Some u \<longleftrightarrow> b"
  by (simp add: guard_def)

lemma guard_True [simp]: "guard True = Some ()"
  by (simp add: guard_def)

section \<open>Characters and strings\<close>

definition code_of :: "char \<Rightarrow> nat" where
  "code_of c = of_char c"

definition is_digit :: "char \<Rightarrow> bool" where
  "is_digit c \<longleftrightarrow> CHR ''0'' \<le> c \<and> c \<le> CHR ''9''"

definition is_lower :: "char \<Rightarrow> bool" where
  "is_lower c \<longleftrightarrow> CHR ''a'' \<le> c \<and> c \<le> CHR ''z''"

definition is_upper :: "char \<Rightarrow> bool" where
  "is_upper c \<longleftrightarrow> CHR ''A'' \<le> c \<and> c \<le> CHR ''Z''"

definition is_alnum :: "char \<Rightarrow> bool" where
  "is_alnum c \<longleftrightarrow> is_digit c \<or> is_lower c \<or> is_upper c"

definition is_lower_hex :: "char \<Rightarrow> bool" where
  "is_lower_hex c \<longleftrightarrow> is_digit c \<or> (CHR ''a'' \<le> c \<and> c \<le> CHR ''f'')"

definition is_hex :: "char \<Rightarrow> bool" where
  "is_hex c \<longleftrightarrow> is_lower_hex c \<or> (CHR ''A'' \<le> c \<and> c \<le> CHR ''F'')"

text \<open>\<open>ord(c) < 32 or ord(c) == 127\<close>, the class \<open>[\x00-\x1f\x7f]\<close>.\<close>

definition is_control :: "char \<Rightarrow> bool" where
  "is_control c \<longleftrightarrow> code_of c < 32 \<or> code_of c = 127"

text \<open>\<open>str.isspace\<close> of one code point up to U+00FF, also what \<open>str.strip\<close> removes.\<close>

definition is_space :: "char \<Rightarrow> bool" where
  "is_space c \<longleftrightarrow> (9 \<le> code_of c \<and> code_of c \<le> 13) \<or> (28 \<le> code_of c \<and> code_of c \<le> 32)
    \<or> code_of c = 133 \<or> code_of c = 160"

text \<open>\<open>str.isprintable\<close> of one code point up to U+00FF.\<close>

definition is_printable :: "char \<Rightarrow> bool" where
  "is_printable c \<longleftrightarrow> (32 \<le> code_of c \<and> code_of c < 127)
    \<or> (161 \<le> code_of c \<and> code_of c \<noteq> 173)"

text \<open>\<open>" " <= c <= "~"\<close>.\<close>

definition is_ascii_print :: "char \<Rightarrow> bool" where
  "is_ascii_print c \<longleftrightarrow> CHR '' '' \<le> c \<and> c \<le> CHR ''~''"

definition to_lower_char :: "char \<Rightarrow> char" where
  "to_lower_char c = (if is_upper c \<or> (192 \<le> code_of c \<and> code_of c \<le> 222 \<and> code_of c \<noteq> 215)
     then char_of (code_of c + 32) else c)"

definition py_lower :: "string \<Rightarrow> string" where
  "py_lower s = map to_lower_char s"

definition py_strip :: "string \<Rightarrow> string" where
  "py_strip s = rev (dropWhile is_space (rev (dropWhile is_space s)))"

definition starts_with :: "string \<Rightarrow> string \<Rightarrow> bool" where
  "starts_with s p \<longleftrightarrow> take (length p) s = p"

definition ends_with :: "string \<Rightarrow> string \<Rightarrow> bool" where
  "ends_with s p \<longleftrightarrow> length p \<le> length s \<and> drop (length s - length p) s = p"

text \<open>\<open>str.removeprefix\<close>.\<close>

definition remove_prefix :: "string \<Rightarrow> string \<Rightarrow> string" where
  "remove_prefix p s = (if starts_with s p then drop (length p) s else s)"

text \<open>\<open>s.split(c)\<close> for one character: never empty, keeps empty pieces.\<close>

fun split_on :: "'a \<Rightarrow> 'a list \<Rightarrow> 'a list list" where
  "split_on c [] = [[]]"
| "split_on c (x # xs) =
     (if x = c then [] # split_on c xs
      else (case split_on c xs of [] \<Rightarrow> [[x]] | p # ps \<Rightarrow> (x # p) # ps))"

fun join_with :: "'a list \<Rightarrow> 'a list list \<Rightarrow> 'a list" where
  "join_with sep [] = []"
| "join_with sep [p] = p"
| "join_with sep (p # q # ps) = p @ sep @ join_with sep (q # ps)"

text \<open>\<open>s.partition(c)\<close>: what precedes the first \<open>c\<close>, whether there was one, what follows.\<close>

fun partition_on :: "'a \<Rightarrow> 'a list \<Rightarrow> 'a list \<times> bool \<times> 'a list" where
  "partition_on c [] = ([], False, [])"
| "partition_on c (x # xs) =
     (if x = c then ([], True, xs)
      else (let (a, f, b) = partition_on c xs in (x # a, f, b)))"

lemma split_on_ne [simp]: "split_on c s \<noteq> []"
  by (induction s) (auto split: list.splits)

lemma join_split_on: "join_with [c] (split_on c s) = s"
proof (induction s)
  case (Cons x xs)
  then show ?case by (cases "split_on c xs" rule: list.exhaust; cases "tl (split_on c xs)") auto
qed simp

lemma split_on_no_sep: "c \<notin> set s \<Longrightarrow> split_on c s = [s]"
  by (induction s) auto

lemma split_on_append_sep:
  "c \<notin> set p \<Longrightarrow> split_on c (p @ c # s) = p # split_on c s"
  by (induction p) auto

lemma split_on_join:
  "ps \<noteq> [] \<Longrightarrow> \<forall>p \<in> set ps. c \<notin> set p \<Longrightarrow> split_on c (join_with [c] ps) = ps"
  by (induction "[c]" ps rule: join_with.induct) (auto simp: split_on_no_sep split_on_append_sep)

lemma split_on_parts: "\<forall>p \<in> set (split_on c s). c \<notin> set p"
  by (induction s) (auto split: list.splits)

lemma split_on_parts_subset: "p \<in> set (split_on c s) \<Longrightarrow> set p \<subseteq> set s"
proof (induction s arbitrary: p)
  case (Cons x xs)
  then show ?case by (fastforce split: if_splits list.splits)
qed simp

section \<open>Decimal numerals\<close>

definition digit_value :: "char \<Rightarrow> int" where
  "digit_value c = int (code_of c) - 48"

definition digit_char :: "int \<Rightarrow> char" where
  "digit_char d = char_of (nat (48 + d))"

text \<open>\<open>int(s)\<close> of a string of ASCII digits.\<close>

definition dec_value :: "string \<Rightarrow> int" where
  "dec_value s = foldl (\<lambda>n c. 10 * n + digit_value c) 0 s"

text \<open>\<open>str(n)\<close> of a non-negative integer, and of any integer.\<close>

function dec_string :: "int \<Rightarrow> string" where
  "dec_string n = (if n < 10 then [digit_char n] else dec_string (n div 10) @ [digit_char (n mod 10)])"
  by pat_completeness auto
termination
  by (relation "measure nat") auto

declare dec_string.simps [simp del]

definition int_string :: "int \<Rightarrow> string" where
  "int_string i = (if i < 0 then CHR ''-'' # dec_string (- i) else dec_string i)"

lemma digit_value_char [simp]: "0 \<le> d \<Longrightarrow> d < 10 \<Longrightarrow> digit_value (digit_char d) = d"
  by (simp add: digit_value_def digit_char_def code_of_def)

lemma is_digit_char [simp]: "0 \<le> d \<Longrightarrow> d < 10 \<Longrightarrow> is_digit (digit_char d)"
  by (simp add: is_digit_def digit_char_def less_eq_char_def, linarith)

lemma dec_value_snoc: "dec_value (s @ [c]) = 10 * dec_value s + digit_value c"
  by (simp add: dec_value_def)

lemma dec_value_string [simp]: "0 \<le> n \<Longrightarrow> dec_value (dec_string n) = n"
proof (induction n rule: dec_string.induct)
  case (1 n)
  show ?case
  proof (cases "n < 10")
    case True
    with 1 show ?thesis by (subst dec_string.simps) (simp add: dec_value_def)
  next
    case False
    with 1 show ?thesis
      by (subst dec_string.simps) (simp add: dec_value_snoc)
  qed
qed

lemma dec_string_digits: "0 \<le> n \<Longrightarrow> list_all is_digit (dec_string n)"
proof (induction n rule: dec_string.induct)
  case (1 n)
  then show ?case by (subst dec_string.simps) auto
qed

lemma dec_string_ne [simp]: "dec_string n \<noteq> []"
  by (subst dec_string.simps) simp

lemma dec_value_nonneg: "list_all is_digit s \<Longrightarrow> 0 \<le> dec_value s"
proof (induction s rule: rev_induct)
  case (snoc c s)
  then show ?case
    by (auto simp: dec_value_snoc is_digit_def digit_value_def code_of_def less_eq_char_def)
qed (simp add: dec_value_def)

lemma int_string_digits: "0 \<le> n \<Longrightarrow> int_string n = dec_string n"
  by (simp add: int_string_def)

section \<open>Writers and readers that belong together\<close>

text \<open>
  The contract of a printed form: what a valid value is printed as reads back as its normal form.
  A chain of two such pairs (a record printed as a JSON value, the value printed as a text) is
  again one.
\<close>

locale codec =
  fixes enc :: "'a \<Rightarrow> 'b" and dec :: "'b \<Rightarrow> 'a option"
    and valid :: "'a \<Rightarrow> bool" and norm :: "'a \<Rightarrow> 'a"
  assumes dec_enc: "valid x \<Longrightarrow> dec (enc x) = Some (norm x)"
begin

lemma enc_inject: "valid x \<Longrightarrow> valid y \<Longrightarrow> enc x = enc y \<Longrightarrow> norm x = norm y"
  using dec_enc [of x] dec_enc [of y] by simp

lemma accepted: "valid x \<Longrightarrow> dec (enc x) \<noteq> None"
  by (simp add: dec_enc)

end

locale codec_chain = inner: codec enc1 dec1 valid1 norm1 + outer: codec enc2 dec2 valid2 norm2
  for enc1 :: "'a \<Rightarrow> 'b" and dec1 valid1 norm1 and enc2 :: "'b \<Rightarrow> 'c" and dec2 valid2 norm2 +
  assumes passes: "valid1 x \<Longrightarrow> valid2 (enc1 x)"
    and kept: "valid1 x \<Longrightarrow> norm2 (enc1 x) = enc1 x"
begin

definition read_both :: "'c \<Rightarrow> 'a option" where
  "read_both t = Option.bind (dec2 t) dec1"

lemma read_both_enc: "valid1 x \<Longrightarrow> read_both (enc2 (enc1 x)) = Some (norm1 x)"
  by (simp add: read_both_def outer.dec_enc passes kept inner.dec_enc)

lemma text_inject: "valid1 x \<Longrightarrow> valid1 y \<Longrightarrow> enc2 (enc1 x) = enc2 (enc1 y) \<Longrightarrow> norm1 x = norm1 y"
  using outer.enc_inject [of "enc1 x" "enc1 y"] inner.enc_inject [of x y] by (simp add: passes kept)

end

sublocale codec_chain \<subseteq> chain: codec "\<lambda>x. enc2 (enc1 x)" read_both valid1 norm1
  by unfold_locales (rule read_both_enc)

section \<open>Platform code outside the repository\<close>

text \<open>
  Functions the code calls and this repository does not define: SHA-256 of a byte string as
  lower-case hex (\<open>hashlib.sha256(...).hexdigest()\<close>), the text of a float and its reading,
  Home Assistant's ULID check, the C library's \<open>inet_aton\<close> and the user of this process
  (\<open>os.geteuid()\<close>).  Every definition that uses one takes this record; nothing is assumed of it.
\<close>

record platform =
  pf_sha256 :: "string \<Rightarrow> string"
  pf_float_repr :: "pyfloat \<Rightarrow> string"
  pf_float_read :: "string \<Rightarrow> pyfloat"
  pf_canonical_ulid :: "string \<Rightarrow> bool"
  pf_inet_aton :: "string \<Rightarrow> bool"
  pf_euid :: int

end
