(* ===== verification/Json_Text.thy ===== *)
theory Json_Text
  imports Panel_Prelude
begin

text \<open>
  The JSON text the code writes and reads: \<open>json.dumps(..., ensure_ascii=True)\<close> with
  \<open>indent=2\<close> or with compact separators, \<open>sort_keys\<close>, and \<open>json.loads\<close> with the object hook
  of \<open>release.py\<close> (\<open>unique_json_object\<close>) that refuses a duplicate key.  The text of a
  float is a parameter (\<open>fr\<close> prints it, \<open>rd\<close> reads it): no document of the components
  modelled here holds one.  \<open>json_value_print\<close> is the round trip.
\<close>

section \<open>Strings\<close>

definition nibble_char :: "nat \<Rightarrow> char" where
  "nibble_char n = char_of (if n < 10 then 48 + n else 87 + n)"

definition nibble_value :: "char \<Rightarrow> nat" where
  "nibble_value c = (if is_digit c then code_of c - 48
     else if code_of c < 97 then code_of c - 55 else code_of c - 87)"

definition quote_char :: char where "quote_char = CHR 0x22"
definition backslash_char :: char where "backslash_char = CHR 0x5C"

text \<open>\<open>ESCAPE_DCT\<close> and the \<open>\uXXXX\<close> form for what is not printable ASCII.\<close>

definition json_escape :: "char \<Rightarrow> string" where
  "json_escape c =
     (if c = quote_char then [backslash_char, quote_char]
      else if c = backslash_char then [backslash_char, backslash_char]
      else if c = CHR 0x0A then [backslash_char, CHR ''n'']
      else if c = CHR 0x0D then [backslash_char, CHR ''r'']
      else if c = CHR 0x09 then [backslash_char, CHR ''t'']
      else if c = CHR 0x0C then [backslash_char, CHR ''f'']
      else if c = CHR 0x08 then [backslash_char, CHR ''b'']
      else if 32 \<le> code_of c \<and> code_of c \<le> 126 then [c]
      else [backslash_char, CHR ''u'', CHR ''0'', CHR ''0'',
            nibble_char (code_of c div 16), nibble_char (code_of c mod 16)])"

definition json_string :: "string \<Rightarrow> string" where
  "json_string s = quote_char # concat (map json_escape s) @ [quote_char]"

text \<open>The character an escape stands for, after the backslash.\<close>

definition simple_escape :: "char \<Rightarrow> char option" where
  "simple_escape e =
     (if e = quote_char \<or> e = backslash_char \<or> e = CHR ''/'' then Some e
      else if e = CHR ''n'' then Some (CHR 0x0A) else if e = CHR ''r'' then Some (CHR 0x0D)
      else if e = CHR ''t'' then Some (CHR 0x09) else if e = CHR ''f'' then Some (CHR 0x0C)
      else if e = CHR ''b'' then Some (CHR 0x08) else None)"

text \<open>
  \<open>scanstring\<close> after the opening quote.  A \<open>\u\<close> escape above U+00FF has no \<open>char\<close> in this
  model and reads as a failure.
\<close>

fun scan_string :: "string \<Rightarrow> (string \<times> string) option" where
  "scan_string [] = None"
| "scan_string (c # cs) =
     (if c = quote_char then Some ([], cs)
      else if c = backslash_char then
        (case cs of
           [] \<Rightarrow> None
         | e # r \<Rightarrow>
            (if e = CHR ''u'' then
               (case r of
                  h1 # h2 # h3 # h4 # r' \<Rightarrow>
                    (if list_all is_hex [h1, h2, h3, h4]
                        \<and> nibble_value h1 = 0 \<and> nibble_value h2 = 0
                     then map_option (\<lambda>(s, q).
                            (char_of (16 * nibble_value h3 + nibble_value h4) # s, q))
                          (scan_string r')
                     else None)
                | _ \<Rightarrow> None)
             else (case simple_escape e of
                     None \<Rightarrow> None
                   | Some x \<Rightarrow> map_option (\<lambda>(s, q). (x # s, q)) (scan_string r))))
      else if code_of c < 32 then None
      else map_option (\<lambda>(s, q). (c # s, q)) (scan_string cs))"

section \<open>Values\<close>

definition json_newline :: "bool \<Rightarrow> nat \<Rightarrow> string" where
  "json_newline ind level = (if ind then CHR 0x0A # replicate (2 * level) (CHR '' '') else [])"

definition json_colon :: "bool \<Rightarrow> string" where
  "json_colon ind = (if ind then '': '' else '':'')"

text \<open>The elements between the brackets: each on its own line when indenting.\<close>

definition json_block :: "bool \<Rightarrow> nat \<Rightarrow> char \<Rightarrow> char \<Rightarrow> string list \<Rightarrow> string" where
  "json_block ind level op cl parts =
     (if parts = [] then [op, cl]
      else op # json_newline ind (Suc level)
        @ join_with (CHR '','' # json_newline ind (Suc level)) parts
        @ json_newline ind level @ [cl])"

lemma size_pair_list [termination_simp]:
  "(k, v) \<in> set d \<Longrightarrow> size v < Suc (size_list (size_prod (\<lambda>_. 0) size) d)"
  by (induction d) auto

fun json_print :: "(pyfloat \<Rightarrow> string) \<Rightarrow> bool \<Rightarrow> nat \<Rightarrow> pyval \<Rightarrow> string" where
  "json_print fr ind l PNone = ''null''"
| "json_print fr ind l (PBool b) = (if b then ''true'' else ''false'')"
| "json_print fr ind l (PInt i) = int_string i"
| "json_print fr ind l (PFloat f) = fr f"
| "json_print fr ind l (PStr s) = json_string s"
| "json_print fr ind l (PList xs) =
     json_block ind l (CHR ''['') (CHR '']'') (map (json_print fr ind (Suc l)) xs)"
| "json_print fr ind l (PTuple xs) =
     json_block ind l (CHR ''['') (CHR '']'') (map (json_print fr ind (Suc l)) xs)"
| "json_print fr ind l (PDict d) =
     json_block ind l (CHR ''{'') (CHR ''}'')
       (map (\<lambda>(k, v). json_string k @ json_colon ind @ json_print fr ind (Suc l) v) d)"

text \<open>\<open>sort_keys=True\<close> prints every dict in the order of its keys.\<close>

fun json_sorted :: "pyval \<Rightarrow> pyval" where
  "json_sorted (PList xs) = PList (map json_sorted xs)"
| "json_sorted (PTuple xs) = PTuple (map json_sorted xs)"
| "json_sorted (PDict d) = PDict (sort_key fst (map (\<lambda>(k, v). (k, json_sorted v)) d))"
| "json_sorted v = v"

definition json_indented :: "(pyfloat \<Rightarrow> string) \<Rightarrow> pyval \<Rightarrow> string" where
  "json_indented fr v = json_print fr True 0 v"

definition json_canonical :: "(pyfloat \<Rightarrow> string) \<Rightarrow> pyval \<Rightarrow> string" where
  "json_canonical fr v = json_print fr False 0 (json_sorted v)"

section \<open>Reading\<close>

definition json_space :: "char \<Rightarrow> bool" where
  "json_space c \<longleftrightarrow> c = CHR '' '' \<or> c = CHR 0x09 \<or> c = CHR 0x0A \<or> c = CHR 0x0D"

definition skip_space :: "string \<Rightarrow> string" where
  "skip_space s = dropWhile json_space s"

text \<open>
  \<open>NUMBER_RE\<close>: an integer without leading zeros, then an optional fraction and exponent.
  \<open>int\<close> refuses more than 4300 digits.
\<close>

definition number_digits :: "string \<Rightarrow> string" where
  "number_digits s = (if starts_with s ''0'' then ''0'' else takeWhile is_digit s)"

definition number_frac :: "string \<Rightarrow> string" where
  "number_frac s = (if starts_with s ''.'' \<and> takeWhile is_digit (tl s) \<noteq> []
     then CHR ''.'' # takeWhile is_digit (tl s) else [])"

definition number_expo :: "string \<Rightarrow> string" where
  "number_expo s = (case s of
     [] \<Rightarrow> []
   | e # r \<Rightarrow>
      (let sign = (if r \<noteq> [] \<and> hd r \<in> set ''+-'' then [hd r] else []);
           digits = takeWhile is_digit (drop (length sign) r)
       in if e \<in> set ''eE'' \<and> digits \<noteq> [] then e # sign @ digits else []))"

definition scan_number :: "(string \<Rightarrow> pyfloat) \<Rightarrow> string \<Rightarrow> (pyval \<times> string) option" where
  "scan_number rd s =
     (let neg = starts_with s ''-'';
          s1 = (if neg then tl s else s);
          digits = number_digits s1;
          s2 = drop (length digits) s1;
          frac = number_frac s2;
          s3 = drop (length frac) s2;
          expo = number_expo s3;
          s4 = drop (length expo) s3
      in if digits = [] then None
         else if frac = [] \<and> expo = [] then
           (if length digits \<le> 4300
            then Some (PInt (if neg then - dec_value digits else dec_value digits), s4) else None)
         else Some (PFloat (rd ((if neg then ''-'' else []) @ digits @ frac @ expo)), s4))"

definition scan_atom :: "(string \<Rightarrow> pyfloat) \<Rightarrow> string \<Rightarrow> (pyval \<times> string) option" where
  "scan_atom rd s =
     (if starts_with s ''null'' then Some (PNone, drop 4 s)
      else if starts_with s ''true'' then Some (PBool True, drop 4 s)
      else if starts_with s ''false'' then Some (PBool False, drop 5 s)
      else if starts_with s ''NaN'' then Some (PFloat FNaN, drop 3 s)
      else if starts_with s ''Infinity'' then Some (PFloat FInf, drop 8 s)
      else if starts_with s ''-Infinity'' then Some (PFloat FNegInf, drop 9 s)
      else scan_number rd s)"

text \<open>
  The scanner, with fuel for the nesting and the elements; the length of the text is always
  enough.  Python's own limit on nesting (\<open>RecursionError\<close>) depends on its stack and is not
  modelled.
\<close>

fun json_value :: "(string \<Rightarrow> pyfloat) \<Rightarrow> nat \<Rightarrow> string \<Rightarrow> (pyval \<times> string) option"
and json_items :: "(string \<Rightarrow> pyfloat) \<Rightarrow> nat \<Rightarrow> string \<Rightarrow> (pyval list \<times> string) option"
and json_members :: "(string \<Rightarrow> pyfloat) \<Rightarrow> nat \<Rightarrow> string \<Rightarrow> (pydict \<times> string) option" where
  "json_value rd 0 s = None"
| "json_value rd (Suc n) s =
     (case s of
        [] \<Rightarrow> None
      | c # cs \<Rightarrow>
         (if c = quote_char then map_option (\<lambda>(t, r). (PStr t, r)) (scan_string cs)
          else if c = CHR ''['' then
            (case skip_space cs of
               [] \<Rightarrow> None
             | d # ds \<Rightarrow> (if d = CHR '']'' then Some (PList [], ds)
                        else map_option (\<lambda>(xs, r). (PList xs, r)) (json_items rd n (d # ds))))
          else if c = CHR ''{'' then
            (case skip_space cs of
               [] \<Rightarrow> None
             | d # ds \<Rightarrow> (if d = CHR ''}'' then Some (PDict [], ds)
                        else (case json_members rd n (d # ds) of
                                None \<Rightarrow> None
                              | Some (m, r) \<Rightarrow> if dict_ok m then Some (PDict m, r) else None)))
          else scan_atom rd s))"
| "json_items rd 0 s = None"
| "json_items rd (Suc n) s =
     (case json_value rd n s of
        None \<Rightarrow> None
      | Some (v, r) \<Rightarrow>
         (case skip_space r of
            [] \<Rightarrow> None
          | c # cs \<Rightarrow>
             (if c = CHR '']'' then Some ([v], cs)
              else if c = CHR '','' then
                map_option (\<lambda>(vs, q). (v # vs, q)) (json_items rd n (skip_space cs))
              else None)))"
| "json_members rd 0 s = None"
| "json_members rd (Suc n) s =
     (case s of
        [] \<Rightarrow> None
      | q # qs \<Rightarrow>
         (if q \<noteq> quote_char then None
          else (case scan_string qs of
             None \<Rightarrow> None
           | Some (k, r) \<Rightarrow>
              (case skip_space r of
                 [] \<Rightarrow> None
               | co # r1 \<Rightarrow>
                  (if co \<noteq> CHR '':'' then None
                   else (case json_value rd n (skip_space r1) of
                      None \<Rightarrow> None
                    | Some (v, r2) \<Rightarrow>
                       (case skip_space r2 of
                          [] \<Rightarrow> None
                        | c # cs \<Rightarrow>
                           (if c = CHR ''}'' then Some ([(k, v)], cs)
                            else if c = CHR '','' then
                              map_option (\<lambda>(m, r3). ((k, v) # m, r3))
                                (json_members rd n (skip_space cs))
                            else None)))))))) "

definition json_loads :: "(string \<Rightarrow> pyfloat) \<Rightarrow> string \<Rightarrow> pyval option" where
  "json_loads rd s = (case json_value rd (Suc (length s)) (skip_space s) of
     None \<Rightarrow> None
   | Some (v, r) \<Rightarrow> if skip_space r = [] then Some v else None)"

text \<open>
  \<open>body.decode('utf-8')\<close>, as far as U+00FF: a byte below 128 is its character, a two-byte
  sequence the one it encodes.  Longer sequences have no \<open>char\<close> in the model.
\<close>

fun utf8_decode :: "string \<Rightarrow> string option" where
  "utf8_decode [] = Some []"
| "utf8_decode (b # bs) =
     (if code_of b < 128 then map_option ((#) b) (utf8_decode bs)
      else if code_of b = 194 \<or> code_of b = 195 then
        (case bs of
           [] \<Rightarrow> None
         | t # ts \<Rightarrow> (if 128 \<le> code_of t \<and> code_of t < 192
             then map_option ((#) (char_of (64 * (code_of b - 192) + (code_of t - 128))))
                    (utf8_decode ts)
             else None))
      else None)"

section \<open>Round trip\<close>


lemma nibble_value_char [simp]: "n < 16 \<Longrightarrow> nibble_value (nibble_char n) = n"
  by (auto simp: nibble_value_def nibble_char_def code_of_def is_digit_def less_eq_char_def)

lemma is_hex_nibble [simp]: "n < 16 \<Longrightarrow> is_hex (nibble_char n)"
  by (auto simp: nibble_char_def code_of_def is_digit_def is_hex_def is_lower_hex_def less_eq_char_def)

lemma code_of_less [simp]: "code_of c < 256"
  by (simp add: code_of_def)

lemma char_of_code [simp]: "char_of (code_of c) = c"
  by (simp add: code_of_def)

lemma nibble_0 [simp]: "nibble_value CHR ''0'' = 0" "is_hex CHR ''0''"
  by (simp_all add: nibble_value_def is_digit_def code_of_def is_hex_def is_lower_hex_def)

lemma scan_string_unicode:
  "scan_string (backslash_char # CHR ''u'' # CHR ''0'' # CHR ''0''
       # nibble_char (code_of c div 16) # nibble_char (code_of c mod 16) # t)
     = map_option (\<lambda>(s, q). (c # s, q)) (scan_string t)"
proof -
  have "code_of c div 16 < 16" using code_of_less [of c] by linarith
  moreover have "16 * (code_of c div 16) + code_of c mod 16 = code_of c" by simp
  ultimately show ?thesis
    by (simp add: quote_char_def backslash_char_def del: code_of_less)
qed

lemma scan_string_escape:
  "scan_string (json_escape c @ t) = map_option (\<lambda>(s, q). (c # s, q)) (scan_string t)"
proof (cases "c \<in> {quote_char, backslash_char, CHR 0x0A, CHR 0x0D, CHR 0x09, CHR 0x0C, CHR 0x08}")
  case True
  then show ?thesis
    by (elim insertE emptyE)
      (simp_all add: json_escape_def quote_char_def backslash_char_def simple_escape_def)
next
  case False
  show ?thesis
  proof (cases "32 \<le> code_of c \<and> code_of c \<le> 126")
    case True
    with False show ?thesis by (simp add: json_escape_def)
  next
    case no: False
    then have "json_escape c = [backslash_char, CHR ''u'', CHR ''0'', CHR ''0'',
        nibble_char (code_of c div 16), nibble_char (code_of c mod 16)]"
      using False by (auto simp: json_escape_def)
    then show ?thesis by (simp only: append.simps scan_string_unicode)
  qed
qed

lemma scan_json_string: "scan_string (concat (map json_escape s) @ quote_char # r) = Some (s, r)"
  by (induction s) (simp_all add: scan_string_escape)


text \<open>What a document of the code is: no float, distinct keys, integers \<open>int\<close> can read.\<close>

fun json_plain :: "pyval \<Rightarrow> bool" where
  "json_plain (PFloat f) \<longleftrightarrow> False"
| "json_plain (PInt i) \<longleftrightarrow> length (dec_string \<bar>i\<bar>) \<le> 4300"
| "json_plain (PList xs) \<longleftrightarrow> list_all json_plain xs"
| "json_plain (PTuple xs) \<longleftrightarrow> list_all json_plain xs"
| "json_plain (PDict d) \<longleftrightarrow> dict_ok d \<and> list_all (\<lambda>(k, v). json_plain v) d"
| "json_plain v \<longleftrightarrow> True"

text \<open>A tuple reads back as a list.\<close>

fun json_norm :: "pyval \<Rightarrow> pyval" where
  "json_norm (PList xs) = PList (map json_norm xs)"
| "json_norm (PTuple xs) = PList (map json_norm xs)"
| "json_norm (PDict d) = PDict (map (\<lambda>(k, v). (k, json_norm v)) d)"
| "json_norm v = v"

fun json_need :: "pyval \<Rightarrow> nat" where
  "json_need (PList xs) = Suc (sum_list (map (\<lambda>x. Suc (json_need x)) xs))"
| "json_need (PTuple xs) = Suc (sum_list (map (\<lambda>x. Suc (json_need x)) xs))"
| "json_need (PDict d) = Suc (sum_list (map (\<lambda>(k, v). Suc (json_need v)) d))"
| "json_need v = 1"

definition json_stop :: "string \<Rightarrow> bool" where
  "json_stop r \<longleftrightarrow> r = [] \<or> hd r \<in> {CHR '','', CHR '']'', CHR ''}'', CHR 0x0A}"

lemma json_stop_simps [simp]:
  "json_stop (CHR '','' # r)" "json_stop []"
  "json_stop (json_newline ind l @ CHR '']'' # r)" "json_stop (json_newline ind l @ CHR ''}'' # r)"
  by (simp_all add: json_stop_def json_newline_def)

lemma json_stop_cases:
  "json_stop r \<Longrightarrow> (r = [] \<Longrightarrow> Q) \<Longrightarrow> (\<And>c cs. r = c # cs \<Longrightarrow> c \<in> {CHR '','', CHR '']'', CHR ''}'', CHR 0x0A} \<Longrightarrow> Q) \<Longrightarrow> Q"
  by (cases r) (auto simp: json_stop_def)

lemma takeWhile_digits_stop:
  "list_all is_digit s \<Longrightarrow> json_stop r \<Longrightarrow> takeWhile is_digit (s @ r) = s"
  by (induction s) (auto elim!: json_stop_cases simp: is_digit_def)

lemma digit_char_0 [simp]: "digit_char 0 = CHR ''0''"
  by code_simp

lemma digit_char_eq_0: "0 \<le> d \<Longrightarrow> d < 10 \<Longrightarrow> digit_char d = CHR ''0'' \<longleftrightarrow> d = 0"
  by (metis digit_char_0 digit_value_char zero_less_numeral order_refl)

lemma dec_string_zero: "0 \<le> n \<Longrightarrow> starts_with (dec_string n) ''0'' \<longleftrightarrow> n = 0"
proof (induction n rule: dec_string.induct)
  case (1 n)
  show ?case
  proof (cases "n < 10")
    case True
    with 1 show ?thesis
      by (subst dec_string.simps) (simp add: starts_with_def digit_char_eq_0)
  next
    case False
    with 1 have "starts_with (dec_string (n div 10)) ''0'' \<longleftrightarrow> n div 10 = 0" by simp
    moreover have "starts_with (dec_string (n div 10) @ [digit_char (n mod 10)]) ''0''
        = starts_with (dec_string (n div 10)) ''0''"
      by (cases "dec_string (n div 10)") (auto simp: starts_with_def)
    ultimately show ?thesis using False by (subst dec_string.simps) auto
  qed
qed

lemma dec_string_zero_eq [simp]: "dec_string 0 = ''0''"
  by (subst dec_string.simps) simp

lemma dec_string_hd: "0 \<le> n \<Longrightarrow> \<exists>c cs. dec_string n = c # cs \<and> is_digit c"
  using dec_string_digits [of n] dec_string_ne [of n] by (cases "dec_string n") auto

lemma starts_with_Cons: "starts_with (c # s) (d # p) \<longleftrightarrow> c = d \<and> starts_with s p"
  by (simp add: starts_with_def)

lemma starts_with_Nil [simp]: "starts_with s []"
  by (simp add: starts_with_def)

lemma number_digits_dec:
  assumes n: "0 \<le> n" and stop: "json_stop r"
  shows "number_digits (dec_string n @ r) = dec_string n"
proof (cases "n = 0")
  case True
  then show ?thesis by (simp add: number_digits_def starts_with_def)
next
  case False
  obtain c cs where c: "dec_string n = c # cs" using dec_string_hd [OF n] by blast
  have "\<not> starts_with (dec_string n @ r) ''0''"
    using dec_string_zero [OF n] False by (simp add: c starts_with_Cons)
  then show ?thesis
    using takeWhile_digits_stop [OF dec_string_digits [OF n] stop] by (simp add: number_digits_def)
qed

lemma number_tail: "json_stop r \<Longrightarrow> number_frac r = []" "json_stop r \<Longrightarrow> number_expo r = []"
  by (auto elim!: json_stop_cases simp: number_frac_def number_expo_def starts_with_def Let_def)

lemma scan_number_dec:
  assumes n: "0 \<le> n" and stop: "json_stop r" and len: "length (dec_string n) \<le> 4300"
  shows "scan_number rd (dec_string n @ r) = Some (PInt n, r)"
    and "scan_number rd (CHR ''-'' # dec_string n @ r) = Some (PInt (- n), r)"
proof -
  obtain c cs where c: "dec_string n = c # cs" "is_digit c" using dec_string_hd [OF n] by blast
  have neg: "\<not> starts_with (dec_string n @ r) ''-''"
    using c by (simp add: starts_with_Cons) (auto simp: is_digit_def)
  show "scan_number rd (dec_string n @ r) = Some (PInt n, r)"
    unfolding scan_number_def Let_def
    using neg len n by (simp add: number_digits_dec [OF n stop] number_tail [OF stop])
  show "scan_number rd (CHR ''-'' # dec_string n @ r) = Some (PInt (- n), r)"
    unfolding scan_number_def Let_def
    using len n by (simp add: number_digits_dec [OF n stop] number_tail [OF stop] starts_with_Cons)
qed

lemma scan_atom_digit:
  assumes "is_digit d"
  shows "scan_atom rd (d # ds) = scan_number rd (d # ds)"
    and "scan_atom rd (CHR ''-'' # d # ds) = scan_number rd (CHR ''-'' # d # ds)"
proof -
  have "d \<noteq> CHR ''n'' \<and> d \<noteq> CHR ''t'' \<and> d \<noteq> CHR ''f'' \<and> d \<noteq> CHR ''N'' \<and> d \<noteq> CHR ''I'' \<and> d \<noteq> CHR ''-''"
    using assms by (auto simp: is_digit_def)
  then show "scan_atom rd (d # ds) = scan_number rd (d # ds)"
    and "scan_atom rd (CHR ''-'' # d # ds) = scan_number rd (CHR ''-'' # d # ds)"
    by (simp_all add: scan_atom_def starts_with_Cons)
qed

lemma scan_atom_int:
  assumes "json_stop r" and "length (dec_string \<bar>i\<bar>) \<le> 4300"
  shows "scan_atom rd (int_string i @ r) = Some (PInt i, r)"
proof -
  obtain c cs where c: "dec_string \<bar>i\<bar> = c # cs" "is_digit c"
    using dec_string_hd [of "\<bar>i\<bar>"] by auto
  show ?thesis
  proof (cases "0 \<le> i")
    case True
    then have "int_string i = c # cs" using c by (simp add: int_string_def)
    then show ?thesis
      using scan_number_dec(1) [of i r rd] assms True c scan_atom_digit(1) [of c rd "cs @ r"]
      by simp
  next
    case False
    then have "int_string i = CHR ''-'' # c # cs" "dec_string (- i) = c # cs"
      using c by (simp_all add: int_string_def)
    then show ?thesis
      using scan_number_dec(2) [of "- i" r rd] assms False c scan_atom_digit(2) [of c rd "cs @ r"]
      by simp
  qed
qed

text \<open>How a printed value starts.\<close>

lemma json_print_hd:
  "json_plain v \<Longrightarrow> \<exists>c cs. json_print fr ind l v = c # cs \<and> \<not> json_space c
     \<and> c \<noteq> CHR '']'' \<and> c \<noteq> CHR ''}''
     \<and> (\<forall>s. v = PStr s \<longrightarrow> c = quote_char)
     \<and> (c = quote_char \<longrightarrow> (\<exists>s. v = PStr s))"
proof (cases v)
  case (PInt i)
  obtain c cs where c: "dec_string \<bar>i\<bar> = c # cs" "is_digit c"
    using dec_string_hd [of "\<bar>i\<bar>"] by auto
  then have "int_string i = (if i < 0 then CHR ''-'' # c # cs else c # cs)"
    by (cases "i < 0") (simp_all add: int_string_def)
  moreover have "c \<noteq> quote_char \<and> \<not> json_space c \<and> c \<noteq> CHR '']'' \<and> c \<noteq> CHR ''}''"
    using c by (auto simp: is_digit_def json_space_def quote_char_def)
  ultimately show ?thesis
    using PInt by (simp add: json_space_def quote_char_def)
qed (auto simp: json_block_def json_space_def quote_char_def json_string_def)

lemma skip_newline [simp]: "skip_space (json_newline ind l @ s) = skip_space s"
  by (auto simp: skip_space_def json_newline_def json_space_def dropWhile_append)

lemma skip_nospace: "\<not> json_space c \<Longrightarrow> skip_space (c # s) = c # s"
  by (simp add: skip_space_def)

lemma skip_print:
  "json_plain v \<Longrightarrow> skip_space (json_print fr ind l v @ s) = json_print fr ind l v @ s"
  using json_print_hd [of v fr ind l] by (auto simp: skip_space_def)

definition prints :: "(pyfloat \<Rightarrow> string) \<Rightarrow> (string \<Rightarrow> pyfloat) \<Rightarrow> bool \<Rightarrow> pyval \<Rightarrow> bool" where
  "prints fr rd ind v \<longleftrightarrow> (\<forall>l n r. json_plain v \<longrightarrow> json_stop r \<longrightarrow> json_need v \<le> n \<longrightarrow>
     json_value rd n (json_print fr ind l v @ r) = Some (json_norm v, r))"

lemma json_items_print:
  assumes "\<forall>x \<in> set xs. prints fr rd ind x" and "list_all json_plain xs" and "xs \<noteq> []"
    and "sum_list (map (\<lambda>x. Suc (json_need x)) xs) \<le> n"
  shows "json_items rd n (join_with (CHR '','' # json_newline ind l) (map (json_print fr ind l) xs)
           @ json_newline ind l' @ CHR '']'' # r) = Some (map json_norm xs, r)"
  using assms
proof (induction xs arbitrary: n)
  case (Cons x xs)
  then obtain m where n: "n = Suc m" by (cases n) auto
  show ?case
  proof (cases xs)
    case Nil
    with Cons n show ?thesis
      by (simp add: prints_def skip_nospace json_space_def)
  next
    case (Cons y ys)
    note xs = this
    have rest: "skip_space (join_with (CHR '','' # json_newline ind l) (map (json_print fr ind l) xs) @ q)
        = join_with (CHR '','' # json_newline ind l) (map (json_print fr ind l) xs) @ q" for q
      using Cons.prems(2) xs skip_print [of y fr ind l]
      by (cases ys) simp_all
    have "json_items rd m (join_with (CHR '','' # json_newline ind l) (map (json_print fr ind l) xs)
           @ json_newline ind l' @ CHR '']'' # r) = Some (map json_norm xs, r)"
      using Cons.IH [of m] Cons.prems n xs by simp
    moreover have "json_value rd m (json_print fr ind l x @ CHR '','' # q) = Some (json_norm x, CHR '','' # q)" for q
      using Cons.prems n by (simp add: prints_def)
    ultimately show ?thesis
      using rest n xs by (simp add: skip_nospace json_space_def)
  qed
qed simp
lemma scan_string_printed:
  "scan_string (tl (json_string k) @ r) = Some (k, r)"
  using scan_json_string [of k r] by (simp add: json_string_def)

lemma json_string_Cons: "json_string k = quote_char # tl (json_string k)"
  by (simp add: json_string_def)

lemma skip_colon: "\<exists>q. json_colon ind @ s = CHR '':'' # q \<and> skip_space q = skip_space s"
  by (cases ind) (simp_all add: json_colon_def skip_space_def json_space_def)

abbreviation print_member :: "(pyfloat \<Rightarrow> string) \<Rightarrow> bool \<Rightarrow> nat \<Rightarrow> string \<times> pyval \<Rightarrow> string" where
  "print_member fr ind l m \<equiv> json_string (fst m) @ json_colon ind @ json_print fr ind l (snd m)"

lemma json_member_step:
  assumes "prints fr rd ind v" "json_plain v" "json_need v \<le> n" "json_stop q"
  shows "json_members rd (Suc n) (print_member fr ind l (k, v) @ q) =
     (case skip_space q of
        [] \<Rightarrow> None
      | c # cs \<Rightarrow> (if c = CHR ''}'' then Some ([(k, json_norm v)], cs)
           else if c = CHR '','' then
             map_option (\<lambda>(m, r3). ((k, json_norm v) # m, r3)) (json_members rd n (skip_space cs))
           else None))"
proof -
  obtain z where z: "json_colon ind @ json_print fr ind l v @ q = CHR '':'' # z"
      "skip_space z = json_print fr ind l v @ q"
    using skip_colon [of ind "json_print fr ind l v @ q"] skip_print [OF assms(2)] by auto
  have "print_member fr ind l (k, v) @ q = quote_char # tl (json_string k) @ CHR '':'' # z"
    using z(1) json_string_Cons [of k] by (metis append.assoc append_Cons fst_conv snd_conv)
  moreover have "json_value rd n (json_print fr ind l v @ q) = Some (json_norm v, q)"
    using assms by (simp add: prints_def)
  ultimately show ?thesis
    using z(2) by (simp add: scan_string_printed skip_nospace json_space_def)
qed

lemma json_members_print:
  assumes "\<forall>m \<in> set d. prints fr rd ind (snd m)" and "list_all (\<lambda>m. json_plain (snd m)) d" and "d \<noteq> []"
    and "sum_list (map (\<lambda>m. Suc (json_need (snd m))) d) \<le> n"
  shows "json_members rd n (join_with (CHR '','' # json_newline ind l) (map (print_member fr ind l) d)
           @ json_newline ind l' @ CHR ''}'' # r) = Some (map (\<lambda>m. (fst m, json_norm (snd m))) d, r)"
  using assms
proof (induction d arbitrary: n)
  case (Cons m d)
  then obtain j where n: "n = Suc j" by (cases n) auto
  have hd: "prints fr rd ind (snd m)" "json_plain (snd m)" "json_need (snd m) \<le> j"
    using Cons.prems n by simp_all
  show ?case
  proof (cases d)
    case Nil
    with n show ?thesis
      using json_member_step [OF hd, where q = "json_newline ind l' @ CHR ''}'' # r" and l = l and k = "fst m"]
      by (simp add: skip_nospace json_space_def)
  next
    case (Cons m' d')
    note d = this
    have rest: "skip_space (join_with (CHR '','' # json_newline ind l) (map (print_member fr ind l) d) @ q)
        = join_with (CHR '','' # json_newline ind l) (map (print_member fr ind l) d) @ q" for q
      using d by (cases d') (simp_all add: json_string_def skip_nospace json_space_def quote_char_def)
    have "json_members rd j (join_with (CHR '','' # json_newline ind l) (map (print_member fr ind l) d)
           @ json_newline ind l' @ CHR ''}'' # r) = Some (map (\<lambda>m. (fst m, json_norm (snd m))) d, r)"
      using Cons.IH [of j] Cons.prems n d by simp
    then show ?thesis
      using rest n d json_member_step [OF hd, where q = "CHR '','' # json_newline ind l
         @ join_with (CHR '','' # json_newline ind l) (map (print_member fr ind l) d)
         @ json_newline ind l' @ CHR ''}'' # r" and l = l and k = "fst m"]
      by (simp add: skip_nospace json_space_def)
  qed
qed simp

lemma prints_list:
  assumes "\<forall>x \<in> set xs. prints fr rd ind x"
  shows "prints fr rd ind (PList xs)" and "prints fr rd ind (PTuple xs)"
proof -
  have go: "json_value rd n (json_block ind l (CHR ''['') (CHR '']'') (map (json_print fr ind (Suc l)) xs) @ r)
      = Some (PList (map json_norm xs), r)"
    if p: "list_all json_plain xs" "Suc (sum_list (map (\<lambda>x. Suc (json_need x)) xs)) \<le> n" for l n r
  proof -
    obtain m where n: "n = Suc m" using p by (cases n) auto
    show ?thesis
    proof (cases xs)
      case Nil
      with n show ?thesis by (simp add: json_block_def quote_char_def skip_nospace json_space_def)
    next
      case (Cons x ys)
      let ?body = "join_with (CHR '','' # json_newline ind (Suc l)) (map (json_print fr ind (Suc l)) xs)
           @ json_newline ind l @ CHR '']'' # r"
      have items: "json_items rd m ?body = Some (map json_norm xs, r)"
        using json_items_print [OF assms p(1)] p n Cons by simp
      obtain c cs where c: "?body = c # cs" "\<not> json_space c" "c \<noteq> CHR '']''"
        using json_print_hd [of x fr ind "Suc l"] p(1) Cons by (cases ys) auto
      show ?thesis
        using items n c Cons by (simp add: json_block_def quote_char_def skip_nospace)
    qed
  qed
  show "prints fr rd ind (PList xs)" and "prints fr rd ind (PTuple xs)"
    using go by (auto simp: prints_def)
qed

lemma prints_dict:
  assumes "\<forall>m \<in> set d. prints fr rd ind (snd m)"
  shows "prints fr rd ind (PDict d)"
proof -
  have go: "json_value rd n (json_block ind l (CHR ''{'') (CHR ''}'') (map (print_member fr ind (Suc l)) d) @ r)
      = Some (PDict (map (\<lambda>m. (fst m, json_norm (snd m))) d), r)"
    if p: "dict_ok d" "list_all (\<lambda>m. json_plain (snd m)) d"
      "Suc (sum_list (map (\<lambda>m. Suc (json_need (snd m))) d)) \<le> n" for l n r
  proof -
    obtain m where n: "n = Suc m" using p by (cases n) auto
    show ?thesis
    proof (cases d)
      case Nil
      with n show ?thesis by (simp add: json_block_def quote_char_def skip_nospace json_space_def)
    next
      case (Cons x ys)
      let ?body = "join_with (CHR '','' # json_newline ind (Suc l)) (map (print_member fr ind (Suc l)) d)
           @ json_newline ind l @ CHR ''}'' # r"
      have items: "json_members rd m ?body = Some (map (\<lambda>m. (fst m, json_norm (snd m))) d, r)"
        using json_members_print [OF assms p(2)] p n Cons by simp
      obtain cs where c: "?body = quote_char # cs"
        using Cons by (cases ys) (simp_all add: json_string_def)
      have ok: "dict_ok (map (\<lambda>m. (fst m, json_norm (snd m))) d)"
        using p(1) by (simp add: dict_ok_def comp_def)
      show ?thesis
        using items n c ok Cons by (simp add: json_block_def quote_char_def skip_nospace json_space_def)
    qed
  qed
  show ?thesis
    using go by (auto simp: prints_def case_prod_unfold)
qed

lemma prints_all: "prints fr rd ind v"
proof (induction v)
  case PNone
  then show ?case by (auto simp: prints_def scan_atom_def starts_with_def gr0_conv_Suc Suc_le_eq quote_char_def)
next
  case (PBool b)
  then show ?case by (cases b) (auto simp: prints_def scan_atom_def starts_with_def gr0_conv_Suc Suc_le_eq quote_char_def)
next
  case (PInt i)
  show ?case
    unfolding prints_def
  proof (intro allI impI)
    fix l n r
    assume p: "json_plain (PInt i)" "json_stop r" "json_need (PInt i) \<le> n"
    then obtain m where n: "n = Suc m" by (cases n) auto
    obtain d ds where d: "dec_string \<bar>i\<bar> = d # ds" "is_digit d"
      using dec_string_hd [of "\<bar>i\<bar>"] by auto
    define c where "c = (if i < 0 then CHR ''-'' else d)"
    define cs where "cs = (if i < 0 then d # ds else ds)"
    have "int_string i = c # cs"
      using d by (cases "i < 0") (simp_all add: int_string_def c_def cs_def)
    moreover have "c \<noteq> quote_char \<and> c \<noteq> CHR ''['' \<and> c \<noteq> CHR ''{''"
      using d(2) by (auto simp: c_def is_digit_def quote_char_def)
    ultimately show "json_value rd n (json_print fr ind l (PInt i) @ r) = Some (json_norm (PInt i), r)"
      using scan_atom_int [OF p(2), of i rd] p(1) n by simp
  qed
next
  case (PFloat f)
  then show ?case by (simp add: prints_def)
next
  case (PStr s)
  then show ?case
    by (auto simp: prints_def json_string_def scan_json_string gr0_conv_Suc Suc_le_eq)
next
  case (PList xs)
  then show ?case by (auto intro: prints_list)
next
  case (PTuple xs)
  then show ?case by (auto intro: prints_list)
next
  case (PDict d)
  then show ?case by (auto intro!: prints_dict)
qed

text \<open>\<open>json.loads(json.dumps(v))\<close> is \<open>v\<close> with its tuples as lists.\<close>

theorem json_value_print:
  "json_plain v \<Longrightarrow> json_stop r \<Longrightarrow> json_need v \<le> n \<Longrightarrow>
     json_value rd n (json_print fr ind l v @ r) = Some (json_norm v, r)"
  using prints_all [of fr rd ind v] by (simp add: prints_def)


lemma length_join: "sep \<noteq> [] \<Longrightarrow> sum_list (map (\<lambda>p. Suc (length p)) ps) \<le> Suc (length (join_with sep ps))"
proof (induction sep ps rule: join_with.induct)
  case (3 sep p q ps)
  then show ?case by (cases sep) auto
qed auto

lemma length_block:
  "sum_list (map (\<lambda>p. Suc (length p)) ps) < length (json_block ind l op cl ps)"
  using length_join [of "CHR '','' # json_newline ind (Suc l)" ps] by (simp add: json_block_def)

lemma sum_list_need:
  "(\<And>x. x \<in> set xs \<Longrightarrow> f x \<le> length (g x)) \<Longrightarrow>
     sum_list (map (\<lambda>x. Suc (f x)) xs) \<le> sum_list (map (\<lambda>p. Suc (length p)) (map g xs))"
  by (induction xs) (fastforce intro: add_mono)+

lemma json_need_length: "json_plain v \<Longrightarrow> json_need v \<le> length (json_print fr ind l v)"
proof (induction v arbitrary: l)
  case (PInt i)
  have "1 \<le> length (dec_string \<bar>i\<bar>)" using dec_string_ne [of "\<bar>i\<bar>"] by (cases "dec_string \<bar>i\<bar>") auto
  then show ?case by (auto simp: int_string_def abs_if split: if_splits)
next
  case (PList xs)
  have "sum_list (map (\<lambda>x. Suc (json_need x)) xs)
      \<le> sum_list (map (\<lambda>p. Suc (length p)) (map (json_print fr ind (Suc l)) xs))"
    using PList by (intro sum_list_need) (auto simp: list_all_iff)
  also have "\<dots> < length (json_print fr ind l (PList xs))" by (simp only: json_print.simps length_block)
  finally show ?case by simp
next
  case (PTuple xs)
  have "sum_list (map (\<lambda>x. Suc (json_need x)) xs)
      \<le> sum_list (map (\<lambda>p. Suc (length p)) (map (json_print fr ind (Suc l)) xs))"
    using PTuple by (intro sum_list_need) (auto simp: list_all_iff)
  also have "\<dots> < length (json_print fr ind l (PTuple xs))" by (simp only: json_print.simps length_block)
  finally show ?case by simp
next
  case (PDict d)
  have "sum_list (map (\<lambda>m. Suc (json_need (snd m))) d)
      \<le> sum_list (map (\<lambda>p. Suc (length p)) (map (print_member fr ind (Suc l)) d))"
    using PDict by (intro sum_list_need) (fastforce simp: list_all_iff intro: le_SucI trans_le_add2)
  also have "\<dots> < length (json_print fr ind l (PDict d))"
    by (simp only: json_print.simps length_block case_prod_unfold)
  finally show ?case by (simp add: case_prod_unfold)
qed (auto simp: json_string_def)

theorem json_loads_print:
  assumes "json_plain v"
  shows "json_loads rd (json_print fr ind 0 v) = Some (json_norm v)"
proof -
  have "json_value rd (Suc (length (json_print fr ind 0 v))) (json_print fr ind 0 v @ [])
      = Some (json_norm v, [])"
    using json_need_length [OF assms, of fr ind 0] by (intro json_value_print [OF assms]) simp_all
  then show ?thesis
    using skip_print [OF assms, of fr ind 0 "[]"] by (simp add: json_loads_def skip_space_def)
qed

interpretation json: codec "json_print fr ind 0" "json_loads rd" json_plain json_norm
  for fr ind rd
  by unfold_locales (rule json_loads_print)

lemma dict_ok_sorted [intro]: "dict_ok d \<Longrightarrow> dict_ok (sort_key fst d)"
  by (simp add: dict_ok_def distinct_map)

lemma json_sorted_plain: "json_plain v \<Longrightarrow> json_plain (json_sorted v)"
proof (induction v)
  case (PDict d)
  then show ?case
    by (fastforce simp: list_all_iff)
qed (auto simp: list_all_iff)

text \<open>Two documents with the same canonical text have the same sorted form.\<close>

theorem json_canonical_inject:
  assumes "json_plain v" "json_plain w" "json_canonical fr v = json_canonical fr w"
  shows "json_norm (json_sorted v) = json_norm (json_sorted w)"
proof -
  have "Some (json_norm (json_sorted v)) = Some (json_norm (json_sorted w))"
    using json_loads_print [OF json_sorted_plain [OF assms(1)], of undefined fr False]
      json_loads_print [OF json_sorted_plain [OF assms(2)], of undefined fr False] assms(3)
    by (simp add: json_canonical_def)
  then show ?thesis by simp
qed

lemma map_of_sorted: "dict_ok d \<Longrightarrow> map_of (sort_key fst d) = map_of d"
proof
  fix k assume "dict_ok d"
  then have "map_of (sort_key fst d) k = Some v \<longleftrightarrow> map_of d k = Some v" for v
    by (simp add: map_of_dict_iff dict_ok_sorted)
  then show "map_of (sort_key fst d) k = map_of d k" by (metis not_None_eq)
qed

section \<open>The text is ASCII\<close>

definition ascii_text :: "string \<Rightarrow> bool" where
  "ascii_text s \<longleftrightarrow> list_all (\<lambda>c. code_of c < 128) s"

lemma utf8_decode_ascii: "ascii_text s \<Longrightarrow> utf8_decode s = Some s"
  by (induction s) (auto simp: ascii_text_def)

lemma ascii_append [simp]: "ascii_text (s @ t) \<longleftrightarrow> ascii_text s \<and> ascii_text t"
  by (simp add: ascii_text_def)

lemma ascii_Cons [simp]: "ascii_text (c # t) \<longleftrightarrow> code_of c < 128 \<and> ascii_text t"
  by (simp add: ascii_text_def)

lemma ascii_Nil [simp]: "ascii_text []"
  by (simp add: ascii_text_def)

lemma ascii_concat: "(\<And>x. x \<in> set xs \<Longrightarrow> ascii_text x) \<Longrightarrow> ascii_text (concat xs)"
  by (induction xs) auto

lemma ascii_join: "ascii_text sep \<Longrightarrow> (\<And>x. x \<in> set xs \<Longrightarrow> ascii_text x) \<Longrightarrow> ascii_text (join_with sep xs)"
  by (induction sep xs rule: join_with.induct) auto

lemma nibble_ascii: "n < 16 \<Longrightarrow> code_of (nibble_char n) < 128"
  by (auto simp: nibble_char_def code_of_def)

lemma ascii_escape: "ascii_text (json_escape c)"
proof -
  have "code_of c div 16 < 16" using code_of_less [of c] by linarith
  then have "code_of (nibble_char (code_of c div 16)) < 128" "code_of (nibble_char (code_of c mod 16)) < 128"
    by (simp_all add: nibble_ascii)
  moreover have "code_of backslash_char < 128" "code_of quote_char < 128"
      "code_of CHR ''u'' < 128" "code_of CHR ''0'' < 128" "code_of CHR ''n'' < 128" "code_of CHR ''r'' < 128"
      "code_of CHR ''t'' < 128" "code_of CHR ''f'' < 128" "code_of CHR ''b'' < 128"
    by (simp_all add: backslash_char_def quote_char_def code_of_def)
  ultimately show ?thesis by (simp add: json_escape_def)
qed

lemma ascii_json_string: "ascii_text (json_string s)"
proof -
  have "ascii_text (concat (map json_escape s))" by (intro ascii_concat) (auto simp: ascii_escape)
  moreover have "code_of quote_char < 128" by (simp add: quote_char_def code_of_def)
  ultimately show ?thesis by (simp add: json_string_def)
qed

lemma ascii_digits: "list_all is_digit s \<Longrightarrow> ascii_text s"
  by (induction s) (auto simp: is_digit_def code_of_def less_eq_char_def)

lemma ascii_newline: "ascii_text (json_newline ind l)"
proof -
  have "code_of CHR '' '' < 128" "code_of CHR 0x0A < 128" by (simp_all add: code_of_def)
  then show ?thesis by (auto simp: json_newline_def ascii_text_def list_all_iff)
qed

lemma ascii_block:
  "code_of op < 128 \<Longrightarrow> code_of cl < 128 \<Longrightarrow> (\<And>x. x \<in> set ps \<Longrightarrow> ascii_text x) \<Longrightarrow>
     ascii_text (json_block ind l op cl ps)"
proof -
  have "code_of CHR '','' < 128" by (simp add: code_of_def)
  then show "code_of op < 128 \<Longrightarrow> code_of cl < 128 \<Longrightarrow> (\<And>x. x \<in> set ps \<Longrightarrow> ascii_text x) \<Longrightarrow>
     ascii_text (json_block ind l op cl ps)"
    by (auto simp: json_block_def ascii_newline intro!: ascii_join)
qed

lemma ascii_print: "json_plain v \<Longrightarrow> ascii_text (json_print fr ind l v)"
proof (induction v arbitrary: l)
  case (PInt i)
  have "code_of CHR ''-'' < 128" by (simp add: code_of_def)
  then show ?case
    using ascii_digits [OF dec_string_digits [of i]] ascii_digits [OF dec_string_digits [of "- i"]]
    by (auto simp: int_string_def)
next
  case (PList xs)
  have "code_of CHR ''['' < 128" "code_of CHR '']'' < 128" by (simp_all add: code_of_def)
  with PList show ?case by (auto intro!: ascii_block simp: list_all_iff)
next
  case (PTuple xs)
  have "code_of CHR ''['' < 128" "code_of CHR '']'' < 128" by (simp_all add: code_of_def)
  with PTuple show ?case by (auto intro!: ascii_block simp: list_all_iff)
next
  case (PDict d)
  have "code_of CHR ''{'' < 128" "code_of CHR ''}'' < 128" "ascii_text (json_colon ind)"
    by (simp_all add: code_of_def json_colon_def)
  moreover have "ascii_text (json_print fr ind l v)" if "(k, v) \<in> set d" for k v l
    using PDict.IH [OF that] PDict.prems that by (auto simp: list_all_iff)
  ultimately show ?case
    by (auto intro!: ascii_block simp: list_all_iff ascii_json_string)
qed (auto simp: ascii_json_string code_of_def)

section \<open>Digests of canonical documents\<close>

text \<open>\<open>sha256(json.dumps(v, sort_keys=True, separators=(",", ":")) + suffix).hexdigest()\<close>\<close>

definition json_digest :: "platform \<Rightarrow> string \<Rightarrow> pyval \<Rightarrow> string" where
  "json_digest P suffix v = pf_sha256 P (json_canonical (pf_float_repr P) v @ suffix)"

text \<open>SHA-256 does not collide on the canonical texts of two documents.\<close>

definition no_collision :: "platform \<Rightarrow> string \<Rightarrow> pyval \<Rightarrow> pyval \<Rightarrow> bool" where
  "no_collision P suffix v w \<longleftrightarrow>
     (let a = json_canonical (pf_float_repr P) v @ suffix;
          b = json_canonical (pf_float_repr P) w @ suffix
      in pf_sha256 P a = pf_sha256 P b \<longrightarrow> a = b)"

lemma json_digest_eq:
  "no_collision P suffix v w \<Longrightarrow> json_digest P suffix v = json_digest P suffix w \<Longrightarrow>
     json_plain v \<Longrightarrow> json_plain w \<Longrightarrow>
     json_norm (json_sorted v) = json_norm (json_sorted w)"
  by (rule json_canonical_inject [where fr = "pf_float_repr P"])
    (simp_all add: no_collision_def json_digest_def Let_def)

end
