(* ===== verification/Net_Address.thy ===== *)
theory Net_Address
  imports Panel_Prelude
begin

text \<open>
  Panel addresses (client.py: \<open>PanelAddress\<close>, \<open>normalize_address\<close>), the addresses a session
  offers to poll (address.py) and the pinning of an installer target (install_network.py).
  The parts of Python's \<open>ipaddress\<close> and \<open>urllib.parse\<close> these call are modelled first:
  an IP address is its integer value, with the scope of an IPv6 address.
\<close>

section \<open>IP literals (Python's \<open>ipaddress\<close>)\<close>

datatype ip_addr = IPv4 int | IPv6 int "string option"

definition hex_digit_value :: "char \<Rightarrow> int" where
  "hex_digit_value c = (if is_digit c then int (code_of c) - 48
     else if code_of c < 97 then int (code_of c) - 55 else int (code_of c) - 87)"

definition hex_value :: "string \<Rightarrow> int" where
  "hex_value s = foldl (\<lambda>n c. 16 * n + hex_digit_value c) 0 s"

definition hex_char :: "int \<Rightarrow> char" where
  "hex_char d = (if d < 10 then digit_char d else char_of (nat (87 + d)))"

function hex_string :: "int \<Rightarrow> string" where
  "hex_string n = (if n < 16 then [hex_char n] else hex_string (n div 16) @ [hex_char (n mod 16)])"
  by pat_completeness auto
termination
  by (relation "measure nat") auto

declare hex_string.simps [simp del]

definition parse_octet :: "string \<Rightarrow> int option" where
  "parse_octet s = (if s = [] \<or> \<not> list_all is_digit s \<or> 3 < length s
       \<or> (s \<noteq> ''0'' \<and> hd s = CHR ''0'') \<or> 255 < dec_value s
     then None else Some (dec_value s))"

definition parse_ipv4 :: "string \<Rightarrow> int option" where
  "parse_ipv4 s = (case split_on (CHR ''.'') s of
     [a, b, c, d] \<Rightarrow> do { w \<leftarrow> parse_octet a; x \<leftarrow> parse_octet b; y \<leftarrow> parse_octet c;
        z \<leftarrow> parse_octet d; Some (((w * 256 + x) * 256 + y) * 256 + z) }
   | _ \<Rightarrow> None)"

definition ipv4_string :: "int \<Rightarrow> string" where
  "ipv4_string n = join_with ''.'' (map (\<lambda>i::nat. dec_string (n div 256 ^ i mod 256)) [3, 2, 1, 0])"

definition parse_hextet :: "string \<Rightarrow> int option" where
  "parse_hextet s = (if s = [] \<or> \<not> list_all is_hex s \<or> 4 < length s then None
     else Some (hex_value s))"

fun parse_hextets :: "string list \<Rightarrow> int list option" where
  "parse_hextets [] = Some []"
| "parse_hextets (p # ps) =
     do { h \<leftarrow> parse_hextet p; hs \<leftarrow> parse_hextets ps; Some (h # hs) }"

definition hextets_value :: "int list \<Rightarrow> int" where
  "hextets_value hs = foldl (\<lambda>n h. 65536 * n + h) 0 hs"

text \<open>The two hextets a dotted quad in the last place stands for.\<close>

definition expand_dotted :: "string list \<Rightarrow> string list option" where
  "expand_dotted ps = (if CHR ''.'' \<in> set (last ps)
     then do { v \<leftarrow> parse_ipv4 (last ps);
               Some (butlast ps @ [hex_string (v div 65536), hex_string (v mod 65536)]) }
     else Some ps)"

text \<open>The positions of the empty parts strictly between the first and the last.\<close>

definition inner_gaps :: "string list \<Rightarrow> nat list" where
  "inner_gaps ps = filter (\<lambda>i. ps ! i = []) [1..<length ps - 1]"

text \<open>
  \<open>IPv6Address._ip_int_from_string\<close>.  With one gap, the parts before and after it are read and
  zeros fill the rest; an empty first or last part is only the edge of a leading or trailing
  \<open>::\<close>.
\<close>

definition parse_ipv6_body :: "string \<Rightarrow> int option" where
  "parse_ipv6_body s = (let ps0 = split_on (CHR '':'') s in
     if length ps0 < 3 then None else
     case expand_dotted ps0 of None \<Rightarrow> None | Some ps \<Rightarrow>
     (if 9 < length ps then None
      else case inner_gaps ps of
        [] \<Rightarrow> (if length ps \<noteq> 8 then None else map_option hextets_value (parse_hextets ps))
      | [k] \<Rightarrow>
         (let hi = (if hd ps = [] then k - 1 else k);
              lo = (if last ps = [] then length ps - k - 2 else length ps - k - 1)
          in if (hd ps = [] \<and> hi \<noteq> 0) \<or> (last ps = [] \<and> lo \<noteq> 0) \<or> 8 \<le> hi + lo then None
             else do { a \<leftarrow> parse_hextets (take hi ps);
                       b \<leftarrow> parse_hextets (drop (length ps - lo) ps);
                       Some (hextets_value (a @ replicate (8 - (hi + lo)) 0 @ b)) })
      | _ \<Rightarrow> None))"

definition parse_ipv6 :: "string \<Rightarrow> ip_addr option" where
  "parse_ipv6 s = (if CHR ''/'' \<in> set s then None else
     case partition_on (CHR ''%'') s of (a, has_scope, z) \<Rightarrow>
       if has_scope \<and> (z = [] \<or> CHR ''%'' \<in> set z) then None
       else map_option (\<lambda>v. IPv6 v (if has_scope then Some z else None)) (parse_ipv6_body a))"

text \<open>\<open>ipaddress.ip_address\<close>: an IPv4 literal first, then an IPv6 one.\<close>

definition ip_address :: "string \<Rightarrow> ip_addr option" where
  "ip_address s = (case parse_ipv4 s of Some n \<Rightarrow> Some (IPv4 n) | None \<Rightarrow> parse_ipv6 s)"

text \<open>\<open>str(address)\<close>: the longest run of two or more zero hextets, the first one of that
  length, becomes \<open>::\<close>; an IPv4-mapped address ends in its dotted quad.\<close>

definition hextets_of :: "int \<Rightarrow> int list" where
  "hextets_of n = map (\<lambda>i::nat. n div 65536 ^ i mod 65536) [7, 6, 5, 4, 3, 2, 1, 0]"

fun zero_run :: "int list \<Rightarrow> nat" where
  "zero_run [] = 0"
| "zero_run (h # hs) = (if h = 0 then Suc (zero_run hs) else 0)"

definition best_run :: "int list \<Rightarrow> nat \<times> nat" where
  "best_run hs = foldl (\<lambda>(i, n) j. if n < zero_run (drop j hs) then (j, zero_run (drop j hs))
     else (i, n)) (0, 0) [0..<length hs]"

definition ipv6_plain_string :: "int \<Rightarrow> string" where
  "ipv6_plain_string n = (let hs = hextets_of n; (i, len) = best_run hs in
     if 1 < len
     then join_with '':'' (map hex_string (take i hs)) @ ''::''
        @ join_with '':'' (map hex_string (drop (i + len) hs))
     else join_with '':'' (map hex_string hs))"

definition ipv4_mapped :: "int \<Rightarrow> int option" where
  "ipv4_mapped n = (if n div 2 ^ 32 = 65535 then Some (n mod 2 ^ 32) else None)"

fun ip_string :: "ip_addr \<Rightarrow> string" where
  "ip_string (IPv4 n) = ipv4_string n"
| "ip_string (IPv6 n z) =
     (case ipv4_mapped n of Some m \<Rightarrow> ''::ffff:'' @ ipv4_string m | None \<Rightarrow> ipv6_plain_string n)
     @ (case z of None \<Rightarrow> [] | Some s \<Rightarrow> CHR ''%'' # s)"

fun ip_int :: "ip_addr \<Rightarrow> int" where
  "ip_int (IPv4 n) = n"
| "ip_int (IPv6 n z) = n"

definition in_net :: "nat \<Rightarrow> int \<Rightarrow> int \<Rightarrow> bool" where
  "in_net width prefix_len_base n \<longleftrightarrow> n div 2 ^ width = prefix_len_base"

text \<open>install_network.py, \<open>is_allowed_install_address\<close>: 10/8, 172.16/12, 192.168/16, and an
  unscoped fc00::/7.\<close>

fun is_allowed_install_address :: "ip_addr \<Rightarrow> bool" where
  "is_allowed_install_address (IPv4 n) \<longleftrightarrow>
     in_net 24 10 n \<or> in_net 20 2753 n \<or> in_net 16 49320 n"
| "is_allowed_install_address (IPv6 n z) \<longleftrightarrow> z = None \<and> in_net 121 126 n"

fun is_unspecified :: "ip_addr \<Rightarrow> bool" where
  "is_unspecified a \<longleftrightarrow> ip_int a = 0"

fun is_multicast :: "ip_addr \<Rightarrow> bool" where
  "is_multicast (IPv4 n) \<longleftrightarrow> in_net 28 14 n"
| "is_multicast (IPv6 n z) \<longleftrightarrow> in_net 120 255 n"

fun is_loopback :: "ip_addr \<Rightarrow> bool" where
  "is_loopback (IPv4 n) \<longleftrightarrow> in_net 24 127 n"
| "is_loopback (IPv6 n z) \<longleftrightarrow> n = 1"

fun is_link_local :: "ip_addr \<Rightarrow> bool" where
  "is_link_local (IPv4 n) \<longleftrightarrow> in_net 16 43518 n"
| "is_link_local (IPv6 n z) \<longleftrightarrow> in_net 118 1018 n"

section \<open>Panel addresses (client.py)\<close>

record panel_address =
  pa_host :: string
  pa_port :: int

abbreviation default_port :: int where "default_port \<equiv> 8888"

definition bracketed :: "string \<Rightarrow> string" where
  "bracketed h = (if CHR '':'' \<in> set h then ''['' @ h @ '']'' else h)"

definition stored_value :: "panel_address \<Rightarrow> string" where
  "stored_value a = (if pa_port a = default_port then bracketed (pa_host a)
     else bracketed (pa_host a) @ '':'' @ int_string (pa_port a))"

text \<open>
  \<open>urlsplit('//' + candidate)\<close>, the parts the code reads.  The network location ends at the
  first of \<open>/ ? #\<close>; what follows is a path, a query after \<open>?\<close> and a fragment after \<open>#\<close>.
\<close>

definition is_netloc_end :: "char \<Rightarrow> bool" where
  "is_netloc_end c \<longleftrightarrow> c = CHR ''/'' \<or> c = CHR ''?'' \<or> c = CHR ''#''"

definition url_rest_empty :: "string \<Rightarrow> bool" where
  "url_rest_empty r \<longleftrightarrow> (let (u, f, fragment) = partition_on (CHR ''#'') r;
     (path, q, query) = partition_on (CHR ''?'') u in path = [] \<and> query = [] \<and> fragment = [])"

text \<open>\<open>_check_bracketed_host\<close>: an IPvFuture literal, or an IPv6 one.\<close>

definition bracketed_host_ok :: "string \<Rightarrow> bool" where
  "bracketed_host_ok h = (if starts_with h ''v''
     then (let (hx, dot, more) = partition_on (CHR ''.'') (tl h)
           in dot \<and> hx \<noteq> [] \<and> list_all is_hex hx \<and> more \<noteq> [] \<and> CHR 0x0A \<notin> set more)
     else (case ip_address h of Some (IPv6 n z) \<Rightarrow> True | _ \<Rightarrow> False))"

text \<open>\<open>_hostinfo\<close> and \<open>_check_bracketed_netloc\<close> of a location without user information:
  the host and the port text, or \<open>None\<close> for a \<open>ValueError\<close>.\<close>

definition netloc_host_port :: "string \<Rightarrow> (string \<times> string) option" where
  "netloc_host_port nl = (let opens = CHR ''['' \<in> set nl; closes = CHR '']'' \<in> set nl in
     if opens \<noteq> closes then None
     else if opens then
       (let (pre, f, rest) = partition_on (CHR ''['') nl;
            (h, g, after) = partition_on (CHR '']'') rest;
            (x, c, p) = partition_on (CHR '':'') after
        in if pre \<noteq> [] \<or> (after \<noteq> [] \<and> \<not> starts_with after '':'') \<or> \<not> bracketed_host_ok h
           then None else Some (h, p))
     else (let (h, c, p) = partition_on (CHR '':'') nl in Some (h, p)))"

text \<open>The \<open>hostname\<close> property: lower case up to a scope, which keeps its case.\<close>

definition url_hostname :: "string \<Rightarrow> string" where
  "url_hostname h = (let (a, pct, z) = partition_on (CHR ''%'') h
     in py_lower a @ (if pct then CHR ''%'' # z else []))"

text \<open>The \<open>port\<close> property: absent when empty; \<open>None\<close> for a \<open>ValueError\<close>.\<close>

definition url_port :: "string \<Rightarrow> int option option" where
  "url_port p = (if p = [] then Some None
     else if list_all is_digit p \<and> dec_value p \<le> 65535 then Some (Some (dec_value p))
     else None)"

definition normalize_address :: "string \<Rightarrow> panel_address option" where
  "normalize_address value = (let candidate = py_strip value in
     if candidate = [] \<or> (\<exists>i \<in> set [0..<length candidate]. starts_with (drop i candidate) ''://'')
     then None
     else let nl = takeWhile (\<lambda>c. \<not> is_netloc_end c) candidate;
              rest = dropWhile (\<lambda>c. \<not> is_netloc_end c) candidate in
     if CHR ''@'' \<in> set nl then None
     else case netloc_host_port nl of None \<Rightarrow> None | Some (h, p) \<Rightarrow>
     (case url_port p of None \<Rightarrow> None | Some given \<Rightarrow>
      (let prt = (case given of None \<Rightarrow> default_port | Some n \<Rightarrow> n) in
       if h = [] \<or> \<not> url_rest_empty rest \<or> ends_with candidate '':''
          \<or> list_ex is_space candidate \<or> \<not> (1 \<le> prt \<and> prt \<le> 65535) then None
       else Some \<lparr>pa_host = py_lower (url_hostname h), pa_port = prt\<rparr>)))"

section \<open>Addresses a session offers to poll (address.py)\<close>

text \<open>\<open>is_global\<close> reads Python's table of the IANA registries; it is an argument.\<close>

fun unmapped :: "ip_addr \<Rightarrow> ip_addr option" where
  "unmapped (IPv4 n) = Some (IPv4 n)"
| "unmapped (IPv6 n z) = (case ipv4_mapped n of Some m \<Rightarrow> Some (IPv4 m)
     | None \<Rightarrow> (if z = None then Some (IPv6 n None) else None))"

definition url_host :: "ip_addr \<Rightarrow> string" where
  "url_host a = (case a of IPv6 n z \<Rightarrow> ''['' @ ip_string a @ '']'' | IPv4 n \<Rightarrow> ip_string a)"

definition session_candidate ::
  "(ip_addr \<Rightarrow> bool) \<Rightarrow> string option \<Rightarrow> panel_address \<Rightarrow> panel_address option" where
  "session_candidate is_global remote stored =
     do { r \<leftarrow> remote;
          literal \<leftarrow> ip_address r;
          parsed \<leftarrow> unmapped literal;
          guard (\<not> (is_global parsed \<or> is_multicast parsed \<or> is_unspecified parsed));
          candidate \<leftarrow> normalize_address (url_host parsed @ '':'' @ int_string (pa_port stored));
          guard (candidate \<noteq> stored);
          Some candidate }"

text \<open>\<open>dict.fromkeys\<close>: first occurrences, in order.\<close>

definition from_keys :: "'a list \<Rightarrow> 'a list" where
  "from_keys xs = rev (remdups (rev xs))"

definition session_candidates ::
  "(ip_addr \<Rightarrow> bool) \<Rightarrow> string option \<Rightarrow> panel_address \<Rightarrow> string list \<Rightarrow> int option
   \<Rightarrow> panel_address list" where
  "session_candidates is_global remote stored reported http_port =
     (let listener = \<lparr>pa_host = pa_host stored,
            pa_port = (case http_port of Some n \<Rightarrow> if n \<noteq> 0 then n else pa_port stored
                                       | None \<Rightarrow> pa_port stored)\<rparr>;
          candidates = from_keys (List.map_filter (\<lambda>h. session_candidate is_global h listener)
            (map Some reported @ [remote]))
      in if listener \<noteq> stored then listener # candidates else candidates)"

section \<open>Pinning an installer target (install_network.py)\<close>

datatype install_network_error =
  InvalidHost | ResolutionFailed | ResolutionTimeout | TooManyResults | UnsafeTarget
  | PinnedTargetRemoved | EmbeddedNull

record pinned_panel_target =
  pt_original :: panel_address
  pt_pinned :: panel_address

text \<open>One label of a DNS name: \<open>^[a-z0-9](?:[a-z0-9-]{0,61}[a-z0-9])?$\<close>, case ignored.\<close>

definition dns_label :: "string \<Rightarrow> bool" where
  "dns_label s \<longleftrightarrow> s \<noteq> [] \<and> length s \<le> 63 \<and> is_alnum (hd s) \<and> is_alnum (last s)
     \<and> list_all (\<lambda>c. is_alnum c \<or> c = CHR ''-'') s"

definition is_ascii :: "string \<Rightarrow> bool" where
  "is_ascii s \<longleftrightarrow> list_all (\<lambda>c. code_of c < 128) s"

definition dns_labels :: "string \<Rightarrow> string list" where
  "dns_labels h = split_on (CHR ''.'') (if ends_with h ''.'' then butlast h else h)"

text \<open>\<open>EmbeddedNull\<close> is the \<open>ValueError\<close> of \<open>inet_aton\<close> for a NUL, which the code does not
  turn into an installer error.\<close>

definition resolver_hostname :: "platform \<Rightarrow> string \<Rightarrow> install_network_error + string" where
  "resolver_hostname P h =
     (if h = [] \<or> CHR ''%'' \<in> set h \<or> \<not> is_ascii h then Inl InvalidHost
      else if CHR 0x00 \<in> set h then Inl EmbeddedNull
      else if pf_inet_aton P h \<or> 253 < length h \<or> \<not> list_all dns_label (dns_labels h)
      then Inl InvalidHost else Inr (py_lower h))"

text \<open>\<open>ipaddress.ip_address\<close> of a resolver's first socket-address field; integers are read
  as addresses too.\<close>

definition ip_address_of :: "pyval \<Rightarrow> ip_addr option" where
  "ip_address_of v = (case v of PStr s \<Rightarrow> ip_address s
     | PInt i \<Rightarrow> (if 0 \<le> i \<and> i < 2 ^ 32 then Some (IPv4 i)
                else if 0 \<le> i \<and> i < 2 ^ 128 then Some (IPv6 i None) else None)
     | PBool b \<Rightarrow> Some (IPv4 (if b then 1 else 0))
     | _ \<Rightarrow> None)"

abbreviation af_inet :: int where "af_inet \<equiv> 2"
abbreviation af_inet6 :: int where "af_inet6 \<equiv> 10"

definition parse_resolver_result :: "pyval \<Rightarrow> install_network_error + ip_addr" where
  "parse_resolver_result r = (case r of
     PTuple [PInt family, _, _, _, PTuple (sa # _)] \<Rightarrow>
       (if family \<noteq> af_inet \<and> family \<noteq> af_inet6 then Inl ResolutionFailed
        else case ip_address_of sa of
          None \<Rightarrow> Inl ResolutionFailed
        | Some a \<Rightarrow>
          (if family = af_inet \<and> \<not> (case a of IPv4 _ \<Rightarrow> True | _ \<Rightarrow> False) then Inl ResolutionFailed
           else if family = af_inet6 \<and> \<not> (case a of IPv6 _ _ \<Rightarrow> True | _ \<Rightarrow> False)
           then Inl ResolutionFailed
           else if \<not> is_allowed_install_address a then Inl UnsafeTarget
           else Inr a))
   | _ \<Rightarrow> Inl ResolutionFailed)"

fun parse_each_result :: "pyval list \<Rightarrow> install_network_error + ip_addr list" where
  "parse_each_result [] = Inr []"
| "parse_each_result (r # rs) =
     bind_res (parse_resolver_result r) (\<lambda>a.
     bind_res (parse_each_result rs) (\<lambda>as. Inr (a # as)))"

definition parse_resolver_results :: "pyval \<Rightarrow> install_network_error + ip_addr list" where
  "parse_resolver_results v =
     (case (case v of PList rs \<Rightarrow> Some rs | PTuple rs \<Rightarrow> Some rs | _ \<Rightarrow> None) of
        None \<Rightarrow> Inl ResolutionFailed
      | Some rs \<Rightarrow>
        (if 16 < length rs then Inl TooManyResults
         else bind_res (parse_each_result rs) (\<lambda>as.
              if as = [] then Inl ResolutionFailed else Inr (remdups as))))"

text \<open>What \<open>getaddrinfo\<close> in the executor did within the bounded wait.\<close>

datatype resolver_outcome = ResolverTimedOut | ResolverFailed | ResolverAnswered pyval

definition async_resolve ::
  "platform \<Rightarrow> (string \<Rightarrow> int \<Rightarrow> resolver_outcome) \<Rightarrow> panel_address
   \<Rightarrow> install_network_error + ip_addr list" where
  "async_resolve P getaddrinfo a =
     bind_res (resolver_hostname P (pa_host a)) (\<lambda>h.
       case getaddrinfo h (pa_port a) of
         ResolverTimedOut \<Rightarrow> Inl ResolutionTimeout
       | ResolverFailed \<Rightarrow> Inl ResolutionFailed
       | ResolverAnswered v \<Rightarrow> parse_resolver_results v)"

definition preference :: "ip_addr \<Rightarrow> int \<times> int" where
  "preference a = ((case a of IPv4 _ \<Rightarrow> 0 | IPv6 _ _ \<Rightarrow> 1), ip_int a)"

definition preferred_address :: "ip_addr list \<Rightarrow> ip_addr" where
  "preferred_address as = foldl (\<lambda>b a. if preference a < preference b then a else b) (hd as) (tl as)"

definition async_pin_install_target ::
  "platform \<Rightarrow> (string \<Rightarrow> int \<Rightarrow> resolver_outcome) \<Rightarrow> panel_address
   \<Rightarrow> install_network_error + pinned_panel_target" where
  "async_pin_install_target P getaddrinfo a =
     bind_res
       (case ip_address (pa_host a) of
          Some literal \<Rightarrow> (if is_allowed_install_address literal then Inr literal
                          else Inl UnsafeTarget)
        | None \<Rightarrow> bind_res (async_resolve P getaddrinfo a) (\<lambda>as. Inr (preferred_address as)))
       (\<lambda>selected. Inr \<lparr>pt_original = a,
          pt_pinned = \<lparr>pa_host = ip_string selected, pa_port = pa_port a\<rparr>\<rparr>)"

definition async_revalidate_install_target ::
  "platform \<Rightarrow> (string \<Rightarrow> int \<Rightarrow> resolver_outcome) \<Rightarrow> pinned_panel_target
   \<Rightarrow> install_network_error + pinned_panel_target" where
  "async_revalidate_install_target P getaddrinfo t =
     (case ip_address (pa_host (pt_pinned t)) of
        None \<Rightarrow> Inl UnsafeTarget
      | Some p \<Rightarrow>
        (if \<not> is_allowed_install_address p then Inl UnsafeTarget
         else if pa_port (pt_pinned t) \<noteq> pa_port (pt_original t) then Inl PinnedTargetRemoved
         else bind_res
           (case ip_address (pa_host (pt_original t)) of
              Some literal \<Rightarrow> Inr [literal]
            | None \<Rightarrow> async_resolve P getaddrinfo (pt_original t))
           (\<lambda>current. if p \<in> set current then Inr t else Inl PinnedTargetRemoved)))"

end
