(* ===== verification/Release_Identity.thy ===== *)
theory Release_Identity
  imports Panel_Prelude
begin

text \<open>
  How a panel build is named, ordered and admitted: the version keys of client.py, the release
  and feed tags of release.py, the application ids of app_identity.py and the admission rules
  of update_policy.py.  A key is compared as Python compares tuples (HOL-Library's
  Product_Lexorder and List_Lexorder).
\<close>

section \<open>Version names (client.py, release.py)\<close>

definition numeral_text :: "string \<Rightarrow> bool" where
  "numeral_text s \<longleftrightarrow> s = ''0'' \<or> (s \<noteq> [] \<and> list_all is_digit s \<and> hd s \<noteq> CHR ''0'')"

text \<open>\<open>_VERSION_PATTERN\<close>: three numerals, then an optional pre-release after the first dash.\<close>

definition version_parts :: "string \<Rightarrow> ((int \<times> int \<times> int) \<times> string) option" where
  "version_parts s = (case partition_on (CHR ''-'') s of (c, dash, pre) \<Rightarrow>
     (case split_on (CHR ''.'') c of
        [x, y, z] \<Rightarrow>
          (if numeral_text x \<and> numeral_text y \<and> numeral_text z
              \<and> (dash \<longrightarrow> pre \<noteq> [] \<and> is_alnum (hd pre)
                    \<and> list_all (\<lambda>k. is_alnum k \<or> k = CHR ''.'' \<or> k = CHR ''-'') pre)
           then Some ((dec_value x, dec_value y, dec_value z), pre) else None)
      | _ \<Rightarrow> None))"

definition rstrip_digits :: "string \<Rightarrow> string" where
  "rstrip_digits s = rev (dropWhile is_digit (rev s))"

definition prerelease_key :: "string \<Rightarrow> int \<times> string \<times> int" where
  "prerelease_key s = (if s \<noteq> [] \<and> list_all is_digit s then (0, [], dec_value s)
     else let stem = rstrip_digits s; digits = drop (length stem) s
          in (1, stem, if digits = [] then -1 else dec_value digits))"

type_synonym version_key = "(int \<times> int \<times> int) \<times> bool \<times> (int \<times> string \<times> int) list"

definition version_key :: "string \<Rightarrow> version_key option" where
  "version_key s = map_option (\<lambda>(core, pre). (core, pre = [],
     map prerelease_key (filter (\<lambda>p. p \<noteq> []) (split_on (CHR ''.'') pre)))) (version_parts s)"

definition is_version_at_least :: "string \<Rightarrow> string \<Rightarrow> bool option" where
  "is_version_at_least v m = (case (version_key v, version_key m) of
     (Some c, Some r) \<Rightarrow> Some (r \<le> c) | _ \<Rightarrow> None)"

definition is_newer_stable_version :: "string \<Rightarrow> string \<Rightarrow> bool" where
  "is_newer_stable_version candidate installed =
     (case (version_key candidate, version_key installed) of
        (Some c, Some i) \<Rightarrow> fst (snd c) \<and> i < c | _ \<Rightarrow> False)"

text \<open>\<open>[0-9A-Za-z][0-9A-Za-z._+-]{0,63}\<close>\<close>

definition is_build_version_name :: "string \<Rightarrow> bool" where
  "is_build_version_name s \<longleftrightarrow> s \<noteq> [] \<and> length s \<le> 64 \<and> is_alnum (hd s)
     \<and> list_all (\<lambda>c. is_alnum c \<or> c \<in> set ''._+-'') s"

definition is_valid_panel_version :: "string \<Rightarrow> bool" where
  "is_valid_panel_version s \<longleftrightarrow> (length s \<le> 63 \<and> version_parts s \<noteq> None)
     \<or> is_build_version_name s"

definition sha256_text :: "string \<Rightarrow> bool" where
  "sha256_text s \<longleftrightarrow> length s = 64 \<and> list_all is_lower_hex s"

definition is_valid_discovery_id :: "string \<Rightarrow> bool" where
  "is_valid_discovery_id s \<longleftrightarrow> length s = 64 \<and> list_all is_lower_hex s"

section \<open>Application ids (app_identity.py)\<close>

definition package_id_current :: string where
  "package_id_current = ''io.panelassistant.android''"

definition legacy_package_id :: string where
  "legacy_package_id = ''io.github.maxlyth.hapaneld''"

definition legacy_launch_component :: string where
  "legacy_launch_component = ''io.github.maxlyth.hapaneld/.MainActivity''"

definition old_classes_launch :: string where
  "old_classes_launch = ''io.panelassistant.android/io.github.maxlyth.hapaneld.MainActivity''"

definition new_classes_launch :: string where
  "new_classes_launch = ''io.panelassistant.android/io.panelassistant.android.MainActivity''"

definition install_descriptor_schemas :: "string list" where
  "install_descriptor_schemas =
     [''io.panelassistant.android.install.v1'', ''io.github.maxlyth.hapaneld.install.v1'']"

definition install_plan_schemas :: "string list" where
  "install_plan_schemas =
     [''io.panelassistant.android.install-plan.v1'', ''io.github.maxlyth.hapaneld.install-plan.v1'']"

definition is_launch_component :: "pyval \<Rightarrow> pyval \<Rightarrow> bool" where
  "is_launch_component pkg component \<longleftrightarrow> pkg = PStr package_id_current
     \<and> component \<in> {PStr old_classes_launch, PStr new_classes_launch}"

definition reports_package :: "string option \<Rightarrow> string \<Rightarrow> bool" where
  "reports_package reported pkg \<longleftrightarrow>
     (if pkg = package_id_current then reported = Some pkg
      else reported = None \<or> reported = Some pkg)"

section \<open>Release and feed tags (release.py)\<close>

abbreviation max_android_version_code :: int where
  "max_android_version_code \<equiv> 2147483647"

definition stable_core :: "string \<Rightarrow> bool" where
  "stable_core s \<longleftrightarrow> (case split_on (CHR ''.'') s of
     [x, y, z] \<Rightarrow> numeral_text x \<and> numeral_text y \<and> numeral_text z | _ \<Rightarrow> False)"

definition positive_numeral :: "string \<Rightarrow> bool" where
  "positive_numeral s \<longleftrightarrow> s \<noteq> [] \<and> list_all is_digit s \<and> hd s \<noteq> CHR ''0''"

definition is_stable_tag :: "string \<Rightarrow> bool" where
  "is_stable_tag t \<longleftrightarrow> (case t of [] \<Rightarrow> False | v # s \<Rightarrow> v = CHR ''v'' \<and> stable_core s)"

definition is_rc_tag :: "string \<Rightarrow> bool" where
  "is_rc_tag t \<longleftrightarrow> (case t of [] \<Rightarrow> False | v # s \<Rightarrow> v = CHR ''v'' \<and>
     (case partition_on (CHR ''-'') s of (c, dash, pre) \<Rightarrow> dash \<and> stable_core c \<and>
        ((starts_with pre ''rc'' \<and> positive_numeral (drop 2 pre))
         \<or> (starts_with pre ''preview'' \<and> positive_numeral (drop 7 pre)))))"

definition is_install_release_tag :: "string \<Rightarrow> bool" where
  "is_install_release_tag t \<longleftrightarrow> length t \<le> 64 \<and> (is_stable_tag t \<or> is_rc_tag t)"

text \<open>\<open>^build-([1-9][0-9]{0,9})(-successor)?$\<close>, its code within Android's range.\<close>

definition feed_build_code :: "string \<Rightarrow> int option" where
  "feed_build_code t = (if \<not> starts_with t ''build-'' then None
     else let body = drop 6 t;
              digits = (if ends_with body ''-successor'' then take (length body - 10) body else body)
          in if positive_numeral digits \<and> length digits \<le> 10
                \<and> dec_value digits \<le> max_android_version_code
             then Some (dec_value digits) else None)"

definition feed_build_package :: "string \<Rightarrow> string option" where
  "feed_build_package t = (if feed_build_code t = None then None
     else Some (if ends_with t ''-successor'' then package_id_current else legacy_package_id))"

definition is_feed_build_tag :: "string \<Rightarrow> bool" where
  "is_feed_build_tag t \<longleftrightarrow> feed_build_code t \<noteq> None"

definition feed_build_tag :: "int \<Rightarrow> string" where
  "feed_build_tag code = ''build-'' @ int_string code @ ''-successor''"

definition release_apk_name :: "string \<Rightarrow> string \<Rightarrow> string" where
  "release_apk_name tag pkg = (if pkg = legacy_package_id then ''ha-paneld'' else ''panel-assistant'')
     @ ''-'' @ tag @ ''-manual-setup-required.apk''"

definition release_apk_names :: "string \<Rightarrow> string \<Rightarrow> string list" where
  "release_apk_names tag pkg = (let name = release_apk_name tag pkg in
     if pkg = package_id_current then [name @ ''.bin'', name] else [name])"

text \<open>\<open>^hapaneld-db:v1:ha-paneld\.db:([1-9][0-9]*):([1-9][0-9]*)$\<close>, both within ten digits.\<close>

definition database_range_valid :: "string \<Rightarrow> bool" where
  "database_range_valid s \<longleftrightarrow> (case split_on (CHR '':'') s of
     [a, b, c, low, high] \<Rightarrow> a = ''hapaneld-db'' \<and> b = ''v1'' \<and> c = ''ha-paneld.db''
        \<and> positive_numeral low \<and> positive_numeral high \<and> length low \<le> 10 \<and> length high \<le> 10
        \<and> dec_value low \<le> dec_value high \<and> dec_value high \<le> max_android_version_code
   | _ \<Rightarrow> False)"

text \<open>Python's \<open>==\<close> of an unchecked value with an integer: booleans and floats compare too.\<close>

definition py_eq_int :: "pyval \<Rightarrow> int \<Rightarrow> bool" where
  "py_eq_int v n = (case v of PInt i \<Rightarrow> i = n | PBool b \<Rightarrow> (if b then 1 else 0) = n
     | PFloat (FFinite q) \<Rightarrow> q = of_int n | _ \<Rightarrow> False)"

definition artifact_identity_matches ::
  "string \<Rightarrow> string \<Rightarrow> pyval \<Rightarrow> string \<Rightarrow> string \<Rightarrow> pyval \<Rightarrow> bool" where
  "artifact_identity_matches tag version code apk sha pkg =
     (if is_install_release_tag tag
      then (case pkg of PStr p \<Rightarrow> p \<in> {package_id_current, legacy_package_id}
              \<and> version = remove_prefix ''v'' tag \<and> apk \<in> set (release_apk_names tag p)
            | _ \<Rightarrow> False)
      else (case feed_build_code tag of
              None \<Rightarrow> False
            | Some c \<Rightarrow> (case feed_build_package tag of
                  None \<Rightarrow> False | Some p \<Rightarrow> pkg = PStr p)
                \<and> py_eq_int code c \<and> is_build_version_name version \<and> sha256_text sha
                \<and> apk = sha @ ''.apk''))"

section \<open>Admission (update_policy.py)\<close>

abbreviation protocol_min :: int where "protocol_min \<equiv> 5"
abbreviation protocol_max :: int where "protocol_max \<equiv> 5"
abbreviation max_android_integer :: int where "max_android_integer \<equiv> 2147483647"

text \<open>The entry's opt-in is the option's value being exactly \<open>True\<close>; \<open>False\<close> without an entry.\<close>

definition prereleases_allowed :: "string \<Rightarrow> bool \<Rightarrow> bool" where
  "prereleases_allowed integration_version opted_in =
     (case version_key integration_version of None \<Rightarrow> False
      | Some (_, final, _) \<Rightarrow> \<not> final \<or> opted_in)"

definition overlaps :: "int \<Rightarrow> int \<Rightarrow> bool" where
  "overlaps low high \<longleftrightarrow> low \<le> protocol_max \<and> high \<ge> protocol_min"

definition canonical_prerelease :: "string \<Rightarrow> bool" where
  "canonical_prerelease pre \<longleftrightarrow> \<not> list_ex (\<lambda>part. part = []
     \<or> (list_all is_digit part \<and> 1 < length part \<and> hd part = CHR ''0'')) (split_on (CHR ''.'') pre)"

definition build_allowed :: "string \<Rightarrow> int option \<Rightarrow> int option \<Rightarrow> bool \<Rightarrow> bool" where
  "build_allowed name pmin pmax allow_prerelease =
     (case (pmin, pmax) of
        (Some lo, Some hi) \<Rightarrow>
          (if \<not> is_valid_panel_version name
              \<or> \<not> (1 \<le> lo \<and> lo \<le> hi \<and> hi \<le> max_android_integer) \<or> \<not> overlaps lo hi then False
           else case partition_on (CHR ''-'') name of (c, dash, pre) \<Rightarrow>
             if dash \<and> \<not> canonical_prerelease pre then False
             else (case version_key name of None \<Rightarrow> False
                   | Some (_, final, _) \<Rightarrow> final \<or> allow_prerelease))
      | _ \<Rightarrow> False)"

definition feed_build_key :: "string \<Rightarrow> int \<Rightarrow> int \<times> version_key" where
  "feed_build_key name code =
     (code, (case version_key name of None \<Rightarrow> ((0, 0, 0), False, []) | Some k \<Rightarrow> k))"

definition feed_build_newer :: "string \<Rightarrow> int option \<Rightarrow> string \<Rightarrow> int option \<Rightarrow> bool" where
  "feed_build_newer name code installed installed_code =
     (case (code, installed_code) of
        (Some c, Some ic) \<Rightarrow> feed_build_key installed ic < feed_build_key name c
      | _ \<Rightarrow> False)"

definition version_not_older :: "string \<Rightarrow> int option \<Rightarrow> string \<Rightarrow> int option \<Rightarrow> bool" where
  "version_not_older name code installed installed_code =
     (case (version_key installed, version_key name) of
        (Some i, Some c) \<Rightarrow> i \<le> c
          \<and> (case (code, installed_code) of (Some a, Some b) \<Rightarrow> b \<le> a | _ \<Rightarrow> True)
      | _ \<Rightarrow> False)"

definition version_allowed ::
  "string \<Rightarrow> int option \<Rightarrow> string \<Rightarrow> int option \<Rightarrow> bool \<Rightarrow> bool" where
  "version_allowed name code installed installed_code feed =
     (case version_key installed of None \<Rightarrow> False
      | Some i \<Rightarrow>
        (if version_key name = None then False
         else if fst i < (1, 0, 0) then True
         else if feed \<and> installed_code \<noteq> None
         then (case code of None \<Rightarrow> False
               | Some c \<Rightarrow> feed_build_key installed (the installed_code) \<le> feed_build_key name c)
         else version_not_older name code installed installed_code))"

section \<open>Ordering facts\<close>

lemma version_key_of_parts:
  "version_key s = Some (core, final, ids) \<Longrightarrow>
     \<exists>pre. version_parts s = Some (core, pre) \<and> final = (pre = [])"
  by (auto simp: version_key_def)

lemma split_on_Nil_filter [simp]: "filter (\<lambda>p. p \<noteq> []) (split_on c []) = []"
  by simp

lemma version_key_stable_ids:
  "version_key s = Some (core, True, ids) \<Longrightarrow> ids = []"
  by (auto simp: version_key_def)

end
