(* ===== verification/Install_Receipt.thy ===== *)
theory Install_Receipt
  imports Json_Text Net_Address Release_Identity
begin

text \<open>
  install_receipt.py: what a first-install job receipt is.  Its phases and result codes, the
  tables of the workflow, the receipt record, the strict readers of its stored form, the
  invariants every stored receipt meets, and the writer.  \<open>InstallJobStoreError\<close>, the one
  exception these functions raise, is \<open>None\<close>.
\<close>

section \<open>Phases and result codes\<close>

datatype install_phase =
  Approved | Authorizing | Preflight | Downloading | ArtifactReady | Revalidating | Staging
  | Installing | Installed | Launching | HealthCheck | HealthyUnclaimed | Consumed | Cancelled
  | Failed | RecoveryRequired

datatype result_code =
  EntryCreated | CancelledByUser | CancelledAfterStagingCleanup | AuthorizationFailed
  | PreflightRejected | ArtifactRejected | TransportFailed | InstallFailed | LaunchFailed
  | HealthCheckFailed | AmbiguousMutation | VerificationRequired

fun phase_value :: "install_phase \<Rightarrow> string" where
  "phase_value Approved = ''approved''"
| "phase_value Authorizing = ''authorizing''"
| "phase_value Preflight = ''preflight''"
| "phase_value Downloading = ''downloading''"
| "phase_value ArtifactReady = ''artifact_ready''"
| "phase_value Revalidating = ''revalidating''"
| "phase_value Staging = ''staging''"
| "phase_value Installing = ''installing''"
| "phase_value Installed = ''installed''"
| "phase_value Launching = ''launching''"
| "phase_value HealthCheck = ''health_check''"
| "phase_value HealthyUnclaimed = ''healthy_unclaimed''"
| "phase_value Consumed = ''consumed''"
| "phase_value Cancelled = ''cancelled''"
| "phase_value Failed = ''failed''"
| "phase_value RecoveryRequired = ''recovery_required''"

fun result_value :: "result_code \<Rightarrow> string" where
  "result_value EntryCreated = ''entry_created''"
| "result_value CancelledByUser = ''cancelled_by_user''"
| "result_value CancelledAfterStagingCleanup = ''cancelled_after_staging_cleanup''"
| "result_value AuthorizationFailed = ''authorization_failed''"
| "result_value PreflightRejected = ''preflight_rejected''"
| "result_value ArtifactRejected = ''artifact_rejected''"
| "result_value TransportFailed = ''transport_failed''"
| "result_value InstallFailed = ''install_failed''"
| "result_value LaunchFailed = ''launch_failed''"
| "result_value HealthCheckFailed = ''health_check_failed''"
| "result_value AmbiguousMutation = ''ambiguous_mutation''"
| "result_value VerificationRequired = ''verification_required''"

definition all_phases :: "install_phase list" where
  "all_phases = [Approved, Authorizing, Preflight, Downloading, ArtifactReady, Revalidating,
     Staging, Installing, Installed, Launching, HealthCheck, HealthyUnclaimed, Consumed,
     Cancelled, Failed, RecoveryRequired]"

definition all_results :: "result_code list" where
  "all_results = [EntryCreated, CancelledByUser, CancelledAfterStagingCleanup,
     AuthorizationFailed, PreflightRejected, ArtifactRejected, TransportFailed, InstallFailed,
     LaunchFailed, HealthCheckFailed, AmbiguousMutation, VerificationRequired]"

text \<open>\<open>InstallPhase(value)\<close> and \<open>InstallResultCode(value)\<close>: the member with that value.\<close>

definition phase_of_value :: "pyval \<Rightarrow> install_phase option" where
  "phase_of_value v = (case v of PStr s \<Rightarrow> find (\<lambda>p. phase_value p = s) all_phases | _ \<Rightarrow> None)"

definition result_of_value :: "pyval \<Rightarrow> result_code option" where
  "result_of_value v = (case v of PStr s \<Rightarrow> find (\<lambda>p. result_value p = s) all_results | _ \<Rightarrow> None)"

section \<open>The workflow's tables\<close>

definition terminal_phases :: "install_phase set" where
  "terminal_phases = {Consumed, Cancelled, Failed, RecoveryRequired}"

definition mutation_barriers :: "install_phase set" where
  "mutation_barriers = {Staging, Installing, Launching, HealthCheck}"

fun cleanup_barrier_cancel_polarity :: "install_phase \<Rightarrow> bool option" where
  "cleanup_barrier_cancel_polarity Staging = Some True"
| "cleanup_barrier_cancel_polarity Installing = Some False"
| "cleanup_barrier_cancel_polarity Launching = Some False"
| "cleanup_barrier_cancel_polarity _ = None"

definition artifact_required_phases :: "install_phase set" where
  "artifact_required_phases = {ArtifactReady, Revalidating, Staging, Installing, Installed,
     Launching, HealthCheck, HealthyUnclaimed, Consumed}"

definition root_mode_required_phases :: "install_phase set" where
  "root_mode_required_phases = {Downloading, ArtifactReady, Revalidating, Staging, Installing,
     Installed, Launching, HealthCheck, HealthyUnclaimed, Consumed}"

definition root_mode_forbidden_phases :: "install_phase set" where
  "root_mode_forbidden_phases = {Approved, Authorizing, Preflight}"

definition cancellable_phases :: "install_phase set" where
  "cancellable_phases = {Approved, Authorizing, Preflight, Downloading, ArtifactReady,
     Revalidating, Staging}"

definition failure_codes :: "result_code set" where
  "failure_codes = {AuthorizationFailed, PreflightRejected, ArtifactRejected, TransportFailed,
     InstallFailed, LaunchFailed, HealthCheckFailed}"

definition recovery_codes :: "result_code set" where
  "recovery_codes = {AmbiguousMutation, VerificationRequired}"

fun failure_codes_by_phase :: "install_phase \<Rightarrow> result_code set" where
  "failure_codes_by_phase Authorizing = {AuthorizationFailed, TransportFailed}"
| "failure_codes_by_phase Preflight = {PreflightRejected, TransportFailed}"
| "failure_codes_by_phase Downloading = {ArtifactRejected, TransportFailed}"
| "failure_codes_by_phase ArtifactReady = {ArtifactRejected, TransportFailed}"
| "failure_codes_by_phase Revalidating = {ArtifactRejected, PreflightRejected, TransportFailed}"
| "failure_codes_by_phase Staging = {ArtifactRejected, TransportFailed}"
| "failure_codes_by_phase Installing = {InstallFailed}"
| "failure_codes_by_phase Installed = {InstallFailed}"
| "failure_codes_by_phase Launching = {LaunchFailed, TransportFailed}"
| "failure_codes_by_phase HealthCheck = {HealthCheckFailed, TransportFailed}"
| "failure_codes_by_phase _ = {}"

definition restart_ambiguous_phases :: "install_phase set" where
  "restart_ambiguous_phases = {Staging, Installing, Launching}"

fun next_phase :: "install_phase \<Rightarrow> install_phase set" where
  "next_phase Approved = {Authorizing, Cancelled, Failed}"
| "next_phase Authorizing = {Preflight, Cancelled, Failed}"
| "next_phase Preflight = {Downloading, Installed, Cancelled, Failed}"
| "next_phase Downloading = {ArtifactReady, Cancelled, Failed}"
| "next_phase ArtifactReady = {Revalidating, Cancelled, Failed}"
| "next_phase Revalidating = {Staging, Cancelled, Failed}"
| "next_phase Staging = {Installing, Cancelled, Failed, RecoveryRequired}"
| "next_phase Installing = {Installed, Failed, RecoveryRequired}"
| "next_phase Installed = {Launching, Failed, RecoveryRequired}"
| "next_phase Launching = {HealthCheck, Failed, RecoveryRequired}"
| "next_phase HealthCheck = {HealthyUnclaimed, Failed, RecoveryRequired}"
| "next_phase HealthyUnclaimed = {Consumed, RecoveryRequired}"
| "next_phase _ = {}"

section \<open>The receipt\<close>

record install_target =
  tg_address :: string
  tg_pinned_address :: string
  tg_adb_serial :: string
  tg_model :: string
  tg_primary_abi :: string
  tg_android_sdk :: int

record install_artifact =
  ar_descriptor_schema :: string
  ar_release_tag :: string
  ar_version_name :: string
  ar_version_code :: int
  ar_apk_name :: string
  ar_apk_sha256 :: string
  ar_apk_size :: int
  ar_package_id :: string
  ar_signer :: string
  ar_min_sdk :: int
  ar_supported_abis :: "string list"
  ar_database :: string
  ar_launch_component :: string
  ar_protocol_min :: "int option"
  ar_protocol_max :: "int option"
  ar_prerelease_opt_in :: bool

record receipt =
  rc_job_id :: string
  rc_revision :: int
  rc_executor_generation :: int
  rc_created_at :: string
  rc_updated_at :: string
  rc_phase :: install_phase
  rc_cancel_requested :: bool
  rc_attempt :: int
  rc_target :: install_target
  rc_artifact :: install_artifact
  rc_plan_sha256 :: string
  rc_adb_credential_id :: string
  rc_preflight_root_mode :: "string option"
  rc_actual_apk_bytes :: "int option"
  rc_health_checked_at :: "string option"
  rc_result_code :: "result_code option"
  rc_consumed_entry_id :: "string option"
  rc_failure_stage :: "install_phase option"
  rc_result_subcode :: "string option"
  rc_home_claim_deferred :: bool

definition is_terminal :: "receipt \<Rightarrow> bool" where
  "is_terminal r \<longleftrightarrow> rc_phase r \<in> terminal_phases"

section \<open>Field readers\<close>

abbreviation max_android_sdk :: int where "max_android_sdk \<equiv> 100"
abbreviation max_apk_bytes :: int where "max_apk_bytes \<equiv> 67108864"
abbreviation max_attempts :: int where "max_attempts \<equiv> 32"
abbreviation max_executor_generation :: int where "max_executor_generation \<equiv> 2147483647"
abbreviation max_revision :: int where "max_revision \<equiv> 9223372036854775807"

definition hex_32 :: "string \<Rightarrow> bool" where
  "hex_32 s \<longleftrightarrow> length s = 32 \<and> list_all is_lower_hex s"

definition adb_serial_text :: "string \<Rightarrow> bool" where
  "adb_serial_text s \<longleftrightarrow> s \<noteq> [] \<and> length s \<le> 128
     \<and> list_all (\<lambda>c. is_alnum c \<or> c \<in> set ''._:-'') s"

definition abi_text :: "string \<Rightarrow> bool" where
  "abi_text s \<longleftrightarrow> s \<noteq> [] \<and> length s \<le> 64
     \<and> list_all (\<lambda>c. is_alnum c \<or> c \<in> set ''_.-'') s"

definition subcode_part :: "string \<Rightarrow> bool" where
  "subcode_part s \<longleftrightarrow> s \<noteq> [] \<and> is_lower (hd s)
     \<and> list_all (\<lambda>c. is_lower c \<or> is_digit c \<or> c = CHR ''_'') s"

definition subcode_text :: "string \<Rightarrow> bool" where
  "subcode_text s \<longleftrightarrow> length s \<le> 96 \<and> (case split_on (CHR '':'') s of
     [a, b] \<Rightarrow> subcode_part a \<and> subcode_part b | _ \<Rightarrow> False)"

text \<open>\<open>^[A-Za-z0-9][A-Za-z0-9._-]*\.apk(?:\.bin)?$\<close>\<close>

definition apk_name_text :: "string \<Rightarrow> bool" where
  "apk_name_text s \<longleftrightarrow> (let stem = (if ends_with s ''.apk.bin'' then take (length s - 8) s
       else if ends_with s ''.apk'' then take (length s - 4) s else [])
     in stem \<noteq> [] \<and> is_alnum (hd stem) \<and> list_all (\<lambda>c. is_alnum c \<or> c \<in> set ''._-'') stem)"

definition root_modes :: "string set" where
  "root_modes = {''root_adbd'', ''rootless'', ''root_su''}"

definition safe_text :: "pyval \<Rightarrow> nat \<Rightarrow> string option" where
  "safe_text v maximum = (case v of
     PStr s \<Rightarrow> (if s = [] \<or> s \<noteq> py_strip s \<or> maximum < length s \<or> list_ex is_control s
              then None else Some s)
   | _ \<Rightarrow> None)"

definition integer_in :: "pyval \<Rightarrow> int \<Rightarrow> int \<Rightarrow> int option" where
  "integer_in v lo hi = (case v of PInt i \<Rightarrow> (if lo \<le> i \<and> i \<le> hi then Some i else None)
                       | _ \<Rightarrow> None)"

definition leap_year :: "int \<Rightarrow> bool" where
  "leap_year y \<longleftrightarrow> 4 dvd y \<and> (\<not> 100 dvd y \<or> 400 dvd y)"

definition days_in_month :: "int \<Rightarrow> int \<Rightarrow> int" where
  "days_in_month y m = (if m = 2 then (if leap_year y then 29 else 28)
     else if m \<in> {4, 6, 9, 11} then 30 else 31)"

definition digits_at :: "string \<Rightarrow> nat \<Rightarrow> nat \<Rightarrow> int" where
  "digits_at s i n = dec_value (take n (drop i s))"

text \<open>
  \<open>_timestamp\<close> accepts exactly the texts \<open>isoformat(timespec='seconds')\<close> writes for a UTC
  moment: the parsed value must print back to the same text.
\<close>

definition timestamp_text :: "string \<Rightarrow> bool" where
  "timestamp_text s \<longleftrightarrow> length s = 25 \<and> s ! 4 = CHR ''-'' \<and> s ! 7 = CHR ''-'' \<and> s ! 10 = CHR ''T''
     \<and> s ! 13 = CHR '':'' \<and> s ! 16 = CHR '':'' \<and> drop 19 s = ''+00:00''
     \<and> list_all (\<lambda>i. is_digit (s ! i)) [0, 1, 2, 3, 5, 6, 8, 9, 11, 12, 14, 15, 17, 18]
     \<and> 1 \<le> digits_at s 0 4 \<and> 1 \<le> digits_at s 5 2 \<and> digits_at s 5 2 \<le> 12
     \<and> 1 \<le> digits_at s 8 2 \<and> digits_at s 8 2 \<le> days_in_month (digits_at s 0 4) (digits_at s 5 2)
     \<and> digits_at s 11 2 \<le> 23 \<and> digits_at s 14 2 \<le> 59 \<and> digits_at s 17 2 \<le> 59"

definition timestamp :: "pyval \<Rightarrow> string option" where
  "timestamp v = do { s \<leftarrow> safe_text v 40; guard (timestamp_text s); Some s }"

section \<open>Targets and artifacts\<close>

definition target_document :: "install_target \<Rightarrow> pydict" where
  "target_document t = [(''address'', PStr (tg_address t)),
     (''pinned_address'', PStr (tg_pinned_address t)), (''adb_serial'', PStr (tg_adb_serial t)),
     (''model'', PStr (tg_model t)), (''primary_abi'', PStr (tg_primary_abi t)),
     (''android_sdk'', PInt (tg_android_sdk t))]"

text \<open>The address facts of a target: canonical texts, one port, an allowed pinned literal that a
  literal original equals, and a resolvable name otherwise.\<close>

definition target_addresses_ok :: "platform \<Rightarrow> string \<Rightarrow> string \<Rightarrow> bool" where
  "target_addresses_ok P address pinned_address =
     (case (normalize_address address, normalize_address pinned_address) of
        (Some original, Some pinned) \<Rightarrow>
          (case ip_address (pa_host pinned) of
             None \<Rightarrow> False
           | Some pinned_ip \<Rightarrow>
               stored_value original = address \<and> stored_value pinned = pinned_address
               \<and> pa_host pinned = ip_string pinned_ip \<and> pa_port pinned = pa_port original
               \<and> is_allowed_install_address pinned_ip
               \<and> (case ip_address (pa_host original) of
                    Some original_ip \<Rightarrow> original_ip = pinned_ip
                  | None \<Rightarrow> (case resolver_hostname P (pa_host original) of
                      Inl _ \<Rightarrow> False | Inr _ \<Rightarrow> True)))
      | _ \<Rightarrow> False)"

definition target_keys :: "string set" where
  "target_keys = {''address'', ''pinned_address'', ''adb_serial'', ''model'', ''primary_abi'',
     ''android_sdk''}"

definition parse_target :: "platform \<Rightarrow> pyval \<Rightarrow> install_target option" where
  "parse_target P value = (case value of
     PDict d \<Rightarrow> do {
       guard (dict_keys d = target_keys);
       address \<leftarrow> safe_text (dict_get d ''address'') 255;
       pinned_address \<leftarrow> safe_text (dict_get d ''pinned_address'') 255;
       guard (target_addresses_ok P address pinned_address);
       model \<leftarrow> safe_text (dict_get d ''model'') 128;
       serial \<leftarrow> safe_text (dict_get d ''adb_serial'') 128;
       abi \<leftarrow> safe_text (dict_get d ''primary_abi'') 64;
       guard (list_all is_printable model \<and> adb_serial_text serial \<and> abi_text abi);
       sdk \<leftarrow> integer_in (dict_get d ''android_sdk'') 1 max_android_sdk;
       Some \<lparr>tg_address = address, tg_pinned_address = pinned_address, tg_adb_serial = serial,
             tg_model = model, tg_primary_abi = abi, tg_android_sdk = sdk\<rparr> }
   | _ \<Rightarrow> None)"

definition release_signer :: string where
  "release_signer = ''ac6193307fb0b70113aae205d7549406f96e063bc5491b67b1d5694a34b0e339''"

definition supported_abis :: "string list" where
  "supported_abis = [''arm64-v8a'', ''armeabi-v7a'']"

definition opt_int :: "int option \<Rightarrow> pyval" where
  "opt_int x = (case x of None \<Rightarrow> PNone | Some i \<Rightarrow> PInt i)"

definition opt_str :: "string option \<Rightarrow> pyval" where
  "opt_str x = (case x of None \<Rightarrow> PNone | Some s \<Rightarrow> PStr s)"

text \<open>\<open>asdict(artifact)\<close>, and the document without the fields an older shape lacks.\<close>

definition artifact_fields :: "(pyval list \<Rightarrow> pyval) \<Rightarrow> install_artifact \<Rightarrow> pydict" where
  "artifact_fields seq a = [(''descriptor_schema'', PStr (ar_descriptor_schema a)),
     (''release_tag'', PStr (ar_release_tag a)), (''version_name'', PStr (ar_version_name a)),
     (''version_code'', PInt (ar_version_code a)), (''apk_name'', PStr (ar_apk_name a)),
     (''apk_sha256'', PStr (ar_apk_sha256 a)), (''apk_size'', PInt (ar_apk_size a)),
     (''package_id'', PStr (ar_package_id a)),
     (''signer_certificate_sha256'', PStr (ar_signer a)), (''min_sdk'', PInt (ar_min_sdk a)),
     (''supported_abis'', seq (map PStr (ar_supported_abis a))),
     (''database_compatibility'', PStr (ar_database a)),
     (''launch_component'', PStr (ar_launch_component a)),
     (''protocol_min'', opt_int (ar_protocol_min a)),
     (''protocol_max'', opt_int (ar_protocol_max a)),
     (''prerelease_opt_in'', PBool (ar_prerelease_opt_in a))]"

definition artifact_document :: "(pyval list \<Rightarrow> pyval) \<Rightarrow> install_artifact \<Rightarrow> pydict" where
  "artifact_document seq a =
     (let d = artifact_fields seq a;
          d1 = (if ar_protocol_min a = None \<and> ar_protocol_max a = None
                then AList.delete ''protocol_max'' (AList.delete ''protocol_min'' d) else d)
      in if ar_prerelease_opt_in a then d1 else AList.delete ''prerelease_opt_in'' d1)"

definition artifact_required_keys :: "string set" where
  "artifact_required_keys = {''descriptor_schema'', ''release_tag'', ''version_name'',
     ''version_code'', ''apk_name'', ''apk_sha256'', ''apk_size'', ''package_id'',
     ''signer_certificate_sha256'', ''min_sdk'', ''supported_abis'', ''database_compatibility'',
     ''launch_component''}"

definition artifact_key_shapes :: "string set set" where
  "artifact_key_shapes = {artifact_required_keys,
     artifact_required_keys \<union> {''prerelease_opt_in''},
     artifact_required_keys \<union> {''protocol_min'', ''protocol_max''},
     artifact_required_keys \<union> {''protocol_min'', ''protocol_max'', ''prerelease_opt_in''}}"

definition sequence_items :: "pyval \<Rightarrow> pyval list option" where
  "sequence_items v = (case v of PList xs \<Rightarrow> Some xs | PTuple xs \<Rightarrow> Some xs | _ \<Rightarrow> None)"

text \<open>The two protocol bounds: both absent, or an ordered pair of Android integers.\<close>

definition parse_protocol_range :: "pyval \<Rightarrow> pyval \<Rightarrow> (int option \<times> int option) option" where
  "parse_protocol_range lo hi = (if lo = PNone \<and> hi = PNone then Some (None, None)
     else do { l \<leftarrow> integer_in lo 1 max_android_version_code;
               h \<leftarrow> integer_in hi l max_android_version_code; Some (Some l, Some h) })"

definition parse_artifact :: "pyval \<Rightarrow> install_artifact option" where
  "parse_artifact value = (case value of
     PDict d \<Rightarrow> do {
       guard (dict_keys d \<in> artifact_key_shapes);
       opt_in \<leftarrow> (case dict_get_default d ''prerelease_opt_in'' (PBool False) of
                   PBool b \<Rightarrow> Some b | _ \<Rightarrow> None);
       protocol \<leftarrow> parse_protocol_range (dict_get d ''protocol_min'') (dict_get d ''protocol_max'');
       tag \<leftarrow> safe_text (dict_get d ''release_tag'') 128;
       version \<leftarrow> safe_text (dict_get d ''version_name'') 128;
       apk \<leftarrow> safe_text (dict_get d ''apk_name'') 255;
       sha \<leftarrow> safe_text (dict_get d ''apk_sha256'') 64;
       signer \<leftarrow> safe_text (dict_get d ''signer_certificate_sha256'') 64;
       db \<leftarrow> safe_text (dict_get d ''database_compatibility'') 128;
       schema \<leftarrow> (case dict_get d ''descriptor_schema'' of
                   PStr s \<Rightarrow> (if s \<in> set install_descriptor_schemas then Some s else None)
                 | _ \<Rightarrow> None);
       guard (is_launch_component (dict_get d ''package_id'') (dict_get d ''launch_component'')
              \<or> (dict_get d ''package_id'', dict_get d ''launch_component'')
                 = (PStr legacy_package_id, PStr legacy_launch_component));
       guard (signer = release_signer);
       guard (sequence_items (dict_get d ''supported_abis'') = Some (map PStr supported_abis));
       guard (artifact_identity_matches tag version (dict_get d ''version_code'') apk sha
                (dict_get d ''package_id''));
       guard (apk_name_text apk \<and> sha256_text sha \<and> database_range_valid db);
       pkg \<leftarrow> (case dict_get d ''package_id'' of PStr s \<Rightarrow> Some s | _ \<Rightarrow> None);
       launch \<leftarrow> (case dict_get d ''launch_component'' of PStr s \<Rightarrow> Some s | _ \<Rightarrow> None);
       code \<leftarrow> integer_in (dict_get d ''version_code'') 1 max_android_version_code;
       size \<leftarrow> integer_in (dict_get d ''apk_size'') 1 max_apk_bytes;
       min_sdk \<leftarrow> integer_in (dict_get d ''min_sdk'') 1 max_android_sdk;
       Some \<lparr>ar_descriptor_schema = schema, ar_release_tag = tag, ar_version_name = version,
             ar_version_code = code, ar_apk_name = apk, ar_apk_sha256 = sha, ar_apk_size = size,
             ar_package_id = pkg, ar_signer = signer, ar_min_sdk = min_sdk,
             ar_supported_abis = supported_abis, ar_database = db, ar_launch_component = launch,
             ar_protocol_min = fst protocol, ar_protocol_max = snd protocol,
             ar_prerelease_opt_in = opt_in\<rparr> }
   | _ \<Rightarrow> None)"

section \<open>The plan digest\<close>

definition plan_document :: "install_target \<Rightarrow> install_artifact \<Rightarrow> string \<Rightarrow> string \<Rightarrow> pyval" where
  "plan_document t a credential schema = PDict [(''schema'', PStr schema),
     (''target'', PDict (target_document t)), (''artifact'', PDict (artifact_document PTuple a)),
     (''adb_credential_id'', PStr credential)]"

definition install_plan_sha256 ::
  "platform \<Rightarrow> install_target \<Rightarrow> install_artifact \<Rightarrow> string \<Rightarrow> string \<Rightarrow> string option" where
  "install_plan_sha256 P t a credential schema = do {
     pt \<leftarrow> parse_target P (PDict (target_document t));
     pa \<leftarrow> parse_artifact (PDict (artifact_fields PTuple a));
     cid \<leftarrow> safe_text (PStr credential) 64;
     guard (sha256_text cid);
     Some (json_digest P [CHR 0x0A] (plan_document pt pa cid schema)) }"

definition is_config_entry_id :: "platform \<Rightarrow> string \<Rightarrow> bool" where
  "is_config_entry_id P s \<longleftrightarrow> hex_32 s \<or> (length s = 26 \<and> pf_canonical_ulid P s)"

section \<open>Receipt invariants, reader and writer\<close>

definition plan_matches :: "platform \<Rightarrow> receipt \<Rightarrow> bool" where
  "plan_matches P r \<longleftrightarrow> list_ex (\<lambda>schema.
     install_plan_sha256 P (rc_target r) (rc_artifact r) (rc_adb_credential_id r) schema
       = Some (rc_plan_sha256 r)) install_plan_schemas"

definition failure_detail_ok :: "receipt \<Rightarrow> bool" where
  "failure_detail_ok r \<longleftrightarrow>
     \<not> (rc_result_subcode r \<noteq> None \<and> rc_failure_stage r = None)
     \<and> (case rc_result_subcode r of None \<Rightarrow> True
        | Some c \<Rightarrow> subcode_text c
            \<and> (case rc_failure_stage r of None \<Rightarrow> True | Some p \<Rightarrow> p \<notin> terminal_phases))
     \<and> \<not> (rc_phase r \<notin> {Failed, RecoveryRequired}
           \<and> (rc_failure_stage r \<noteq> None \<or> rc_result_subcode r \<noteq> None))
     \<and> (case rc_failure_stage r of None \<Rightarrow> True
        | Some p \<Rightarrow> rc_phase r = Failed \<longrightarrow> rc_result_code r \<in> Some ` failure_codes_by_phase p)"

definition bookkeeping_ok :: "platform \<Rightarrow> receipt \<Rightarrow> bool" where
  "bookkeeping_ok P r \<longleftrightarrow>
     \<not> rc_updated_at r < rc_created_at r
     \<and> (case rc_actual_apk_bytes r of None \<Rightarrow> True | Some n \<Rightarrow> n = ar_apk_size (rc_artifact r))
     \<and> plan_matches P r
     \<and> tg_primary_abi (rc_target r) \<in> set (ar_supported_abis (rc_artifact r))
     \<and> \<not> tg_android_sdk (rc_target r) < ar_min_sdk (rc_artifact r)
     \<and> rc_attempt r = rc_executor_generation r
     \<and> \<not> rc_revision r < rc_executor_generation r"

definition phase_facts_ok :: "receipt \<Rightarrow> bool" where
  "phase_facts_ok r \<longleftrightarrow>
     \<not> (rc_phase r \<in> root_mode_forbidden_phases \<and> rc_preflight_root_mode r \<noteq> None)
     \<and> \<not> (rc_phase r \<in> root_mode_required_phases
           \<and> rc_preflight_root_mode r \<notin> Some ` root_modes)
     \<and> \<not> (rc_phase r \<in> artifact_required_phases \<and> rc_actual_apk_bytes r = None)
     \<and> \<not> (rc_phase r \<notin> artifact_required_phases \<and> rc_phase r \<notin> terminal_phases
           \<and> rc_actual_apk_bytes r \<noteq> None)"

definition result_facts_ok :: "receipt \<Rightarrow> bool" where
  "result_facts_ok r \<longleftrightarrow>
     (if rc_phase r = Consumed
      then rc_result_code r = Some EntryCreated \<and> rc_consumed_entry_id r \<noteq> None
           \<and> rc_health_checked_at r \<noteq> None
      else rc_consumed_entry_id r = None)
     \<and> (if rc_phase r = Cancelled
        then rc_result_code r \<in> {Some CancelledByUser, Some CancelledAfterStagingCleanup}
             \<and> rc_cancel_requested r
        else if rc_phase r = Failed then rc_result_code r \<in> Some ` failure_codes
        else if rc_phase r = RecoveryRequired then rc_result_code r \<in> Some ` recovery_codes
        else \<not> (rc_phase r \<noteq> Consumed \<and> rc_result_code r \<noteq> None))
     \<and> (if rc_phase r \<in> {HealthyUnclaimed, Consumed} then rc_health_checked_at r \<noteq> None
        else rc_health_checked_at r = None)
     \<and> (case rc_health_checked_at r of None \<Rightarrow> True
        | Some h \<Rightarrow> rc_created_at r \<le> h \<and> h \<le> rc_updated_at r)"

text \<open>\<open>_validate_receipt_invariants\<close>: true where the code returns, false where it raises.\<close>

definition receipt_invariants :: "platform \<Rightarrow> receipt \<Rightarrow> bool" where
  "receipt_invariants P r \<longleftrightarrow> failure_detail_ok r \<and> bookkeeping_ok P r \<and> phase_facts_ok r
     \<and> result_facts_ok r"

definition receipt_old_keys :: "string set" where
  "receipt_old_keys = {''job_id'', ''revision'', ''executor_generation'', ''created_at'',
     ''updated_at'', ''phase'', ''cancel_requested'', ''attempt'', ''target'', ''artifact'',
     ''plan_sha256'', ''adb_credential_id'', ''preflight_root_mode'', ''actual_apk_bytes'',
     ''health_checked_at'', ''result_code'', ''consumed_entry_id''}"

definition optional_field :: "(pyval \<Rightarrow> 'a option) \<Rightarrow> pyval \<Rightarrow> 'a option option" where
  "optional_field f v = (if v = PNone then Some None else map_option Some (f v))"

definition bool_of :: "pyval \<Rightarrow> bool option" where
  "bool_of v = (case v of PBool b \<Rightarrow> Some b | _ \<Rightarrow> None)"

definition root_mode_of :: "pyval \<Rightarrow> string option" where
  "root_mode_of v = (case v of PStr s \<Rightarrow> (if s \<in> root_modes then Some s else None) | _ \<Rightarrow> None)"

definition entry_id_of :: "platform \<Rightarrow> pyval \<Rightarrow> string option" where
  "entry_id_of P v = do { s \<leftarrow> safe_text v 32; guard (is_config_entry_id P s); Some s }"

definition parse_receipt :: "platform \<Rightarrow> pyval \<Rightarrow> receipt option" where
  "parse_receipt P value = (case value of
     PDict d \<Rightarrow> do {
       guard (dict_keys d - {''home_claim_deferred''} = receipt_old_keys);
       deferred \<leftarrow> bool_of (dict_get_default d ''home_claim_deferred'' (PBool False));
       job_id \<leftarrow> safe_text (dict_get d ''job_id'') 32;
       plan \<leftarrow> safe_text (dict_get d ''plan_sha256'') 64;
       credential \<leftarrow> safe_text (dict_get d ''adb_credential_id'') 64;
       guard (hex_32 job_id \<and> sha256_text plan \<and> sha256_text credential);
       phase \<leftarrow> phase_of_value (dict_get d ''phase'');
       result \<leftarrow> optional_field result_of_value (dict_get d ''result_code'');
       cancel \<leftarrow> bool_of (dict_get d ''cancel_requested'');
       root_mode \<leftarrow> optional_field root_mode_of (dict_get d ''preflight_root_mode'');
       actual \<leftarrow> optional_field (\<lambda>v. integer_in v 1 max_apk_bytes) (dict_get d ''actual_apk_bytes'');
       health \<leftarrow> optional_field timestamp (dict_get d ''health_checked_at'');
       entry_id \<leftarrow> optional_field (entry_id_of P) (dict_get d ''consumed_entry_id'');
       revision \<leftarrow> integer_in (dict_get d ''revision'') 0 max_revision;
       generation \<leftarrow> integer_in (dict_get d ''executor_generation'') 0 max_executor_generation;
       created \<leftarrow> timestamp (dict_get d ''created_at'');
       updated \<leftarrow> timestamp (dict_get d ''updated_at'');
       attempt \<leftarrow> integer_in (dict_get d ''attempt'') 0 max_attempts;
       target \<leftarrow> parse_target P (dict_get d ''target'');
       artifact \<leftarrow> parse_artifact (dict_get d ''artifact'');
       let r = \<lparr>rc_job_id = job_id, rc_revision = revision, rc_executor_generation = generation,
          rc_created_at = created, rc_updated_at = updated, rc_phase = phase,
          rc_cancel_requested = cancel, rc_attempt = attempt, rc_target = target,
          rc_artifact = artifact, rc_plan_sha256 = plan, rc_adb_credential_id = credential,
          rc_preflight_root_mode = root_mode, rc_actual_apk_bytes = actual,
          rc_health_checked_at = health, rc_result_code = result,
          rc_consumed_entry_id = entry_id, rc_failure_stage = None, rc_result_subcode = None,
          rc_home_claim_deferred = deferred\<rparr>;
       guard (receipt_invariants P r);
       Some r }
   | _ \<Rightarrow> None)"

definition result_pyval :: "result_code option \<Rightarrow> pyval" where
  "result_pyval c = (case c of None \<Rightarrow> PNone | Some x \<Rightarrow> PStr (result_value x))"

definition receipt_document :: "receipt \<Rightarrow> pydict" where
  "receipt_document r = ([(''job_id'', PStr (rc_job_id r)),
     (''revision'', PInt (rc_revision r)),
     (''executor_generation'', PInt (rc_executor_generation r)),
     (''created_at'', PStr (rc_created_at r)), (''updated_at'', PStr (rc_updated_at r)),
     (''phase'', PStr (phase_value (rc_phase r))),
     (''cancel_requested'', PBool (rc_cancel_requested r)), (''attempt'', PInt (rc_attempt r)),
     (''target'', PDict (target_document (rc_target r))),
     (''artifact'', PDict (artifact_document PList (rc_artifact r))),
     (''plan_sha256'', PStr (rc_plan_sha256 r)),
     (''adb_credential_id'', PStr (rc_adb_credential_id r)),
     (''preflight_root_mode'', opt_str (rc_preflight_root_mode r)),
     (''actual_apk_bytes'', opt_int (rc_actual_apk_bytes r)),
     (''health_checked_at'', opt_str (rc_health_checked_at r)),
     (''result_code'', result_pyval (rc_result_code r)),
     (''consumed_entry_id'', opt_str (rc_consumed_entry_id r))]
     @ (if rc_home_claim_deferred r then [(''home_claim_deferred'', PBool True)] else []))"

definition serialize_receipt :: "receipt \<Rightarrow> pyval" where
  "serialize_receipt r = PDict (receipt_document r)"

text \<open>The receipt as the primary Store keeps it: failure details live in their own Store.\<close>

definition without_detail :: "receipt \<Rightarrow> receipt" where
  "without_detail r = r\<lparr>rc_failure_stage := None, rc_result_subcode := None\<rparr>"

section \<open>Round trips\<close>

lemma phase_of_value_value [simp]: "phase_of_value (PStr (phase_value p)) = Some p"
  by (cases p) (simp_all add: phase_of_value_def all_phases_def)

lemma result_of_value_value [simp]: "result_of_value (PStr (result_value c)) = Some c"
  by (cases c) (simp_all add: result_of_value_def all_results_def)

text \<open>Each reader accepts exactly one value for a result, when the result meets its rule.\<close>

definition safe_str :: "string \<Rightarrow> nat \<Rightarrow> bool" where
  "safe_str s maximum \<longleftrightarrow> s \<noteq> [] \<and> s = py_strip s \<and> length s \<le> maximum \<and> \<not> list_ex is_control s"

lemma safe_text_iff: "safe_text v m = Some s \<longleftrightarrow> v = PStr s \<and> safe_str s m"
  by (cases v) (auto simp: safe_text_def safe_str_def)

lemma integer_in_iff: "integer_in v lo hi = Some i \<longleftrightarrow> v = PInt i \<and> lo \<le> i \<and> i \<le> hi"
  by (cases v) (auto simp: integer_in_def)

lemma timestamp_iff: "timestamp v = Some s \<longleftrightarrow> v = PStr s \<and> safe_str s 40 \<and> timestamp_text s"
  by (auto simp: timestamp_def bind_eq_Some_conv safe_text_iff)

lemma bool_of_iff: "bool_of v = Some b \<longleftrightarrow> v = PBool b"
  by (cases v) (auto simp: bool_of_def)

lemma root_mode_of_iff: "root_mode_of v = Some s \<longleftrightarrow> v = PStr s \<and> s \<in> root_modes"
  by (cases v) (auto simp: root_mode_of_def)

lemma entry_id_of_iff:
  "entry_id_of P v = Some s \<longleftrightarrow> v = PStr s \<and> safe_str s 32 \<and> is_config_entry_id P s"
  by (auto simp: entry_id_of_def bind_eq_Some_conv safe_text_iff)

lemma find_value: "find P xs = Some x \<Longrightarrow> P x"
  by (induction xs) (auto split: if_splits)

lemma phase_of_value_iff: "phase_of_value v = Some p \<longleftrightarrow> v = PStr (phase_value p)"
proof
  assume "phase_of_value v = Some p"
  then show "v = PStr (phase_value p)"
    by (cases v) (auto simp: phase_of_value_def dest: find_value)
qed simp

lemma result_of_value_iff: "result_of_value v = Some c \<longleftrightarrow> v = PStr (result_value c)"
proof
  assume "result_of_value v = Some c"
  then show "v = PStr (result_value c)"
    by (cases v) (auto simp: result_of_value_def dest: find_value)
qed simp

lemma optional_field_iff:
  "optional_field f v = Some x \<longleftrightarrow>
     (case x of None \<Rightarrow> v = PNone | Some y \<Rightarrow> v \<noteq> PNone \<and> f v = Some y)"
  by (auto simp: optional_field_def split: option.splits)

lemmas reader_iffs = safe_text_iff integer_in_iff timestamp_iff bool_of_iff root_mode_of_iff
  entry_id_of_iff phase_of_value_iff result_of_value_iff optional_field_iff
lemmas parse_steps = bind_eq_Some_conv guard_Some_iff pyval.case option.inject reader_iffs

definition target_facts :: "platform \<Rightarrow> install_target \<Rightarrow> bool" where
  "target_facts P t \<longleftrightarrow> safe_str (tg_address t) 255 \<and> safe_str (tg_pinned_address t) 255
     \<and> target_addresses_ok P (tg_address t) (tg_pinned_address t)
     \<and> safe_str (tg_model t) 128 \<and> safe_str (tg_adb_serial t) 128 \<and> safe_str (tg_primary_abi t) 64
     \<and> list_all is_printable (tg_model t) \<and> adb_serial_text (tg_adb_serial t)
     \<and> abi_text (tg_primary_abi t) \<and> 1 \<le> tg_android_sdk t \<and> tg_android_sdk t \<le> max_android_sdk"

lemma parse_target_iff:
  "parse_target P (PDict d) = Some t \<longleftrightarrow> dict_keys d = target_keys
     \<and> dict_get d ''address'' = PStr (tg_address t)
     \<and> dict_get d ''pinned_address'' = PStr (tg_pinned_address t)
     \<and> dict_get d ''adb_serial'' = PStr (tg_adb_serial t)
     \<and> dict_get d ''model'' = PStr (tg_model t)
     \<and> dict_get d ''primary_abi'' = PStr (tg_primary_abi t)
     \<and> dict_get d ''android_sdk'' = PInt (tg_android_sdk t) \<and> target_facts P t"
  unfolding parse_target_def target_facts_def
  by (cases t) (simp only: parse_steps, auto)

lemma parse_target_dict: "parse_target P v = Some t \<Longrightarrow> \<exists>d. v = PDict d"
  by (cases v) (auto simp: parse_target_def)

lemma parse_target_facts: "parse_target P v = Some t \<Longrightarrow> target_facts P t"
  by (metis parse_target_dict parse_target_iff)

lemma dict_keys_target_document [simp]: "dict_keys (target_document t) = target_keys"
  by (simp add: dict_keys_def target_document_def target_keys_def)

lemma parse_target_document [simp]:
  "parse_target P (PDict (target_document t)) = Some t' \<longleftrightarrow> t' = t \<and> target_facts P t"
  unfolding parse_target_iff dict_keys_target_document
  by (cases t; cases t') (auto simp: target_document_def)

text \<open>The same characterisation for artifacts.\<close>

definition artifact_facts :: "install_artifact \<Rightarrow> bool" where
  "artifact_facts a \<longleftrightarrow> safe_str (ar_release_tag a) 128 \<and> safe_str (ar_version_name a) 128
     \<and> safe_str (ar_apk_name a) 255 \<and> safe_str (ar_apk_sha256 a) 64
     \<and> ar_signer a = release_signer \<and> safe_str (ar_signer a) 64 \<and> safe_str (ar_database a) 128
     \<and> ar_descriptor_schema a \<in> set install_descriptor_schemas
     \<and> (is_launch_component (PStr (ar_package_id a)) (PStr (ar_launch_component a))
        \<or> (ar_package_id a, ar_launch_component a) = (legacy_package_id, legacy_launch_component))
     \<and> ar_supported_abis a = supported_abis
     \<and> artifact_identity_matches (ar_release_tag a) (ar_version_name a) (PInt (ar_version_code a))
         (ar_apk_name a) (ar_apk_sha256 a) (PStr (ar_package_id a))
     \<and> apk_name_text (ar_apk_name a) \<and> sha256_text (ar_apk_sha256 a)
     \<and> database_range_valid (ar_database a)
     \<and> 1 \<le> ar_version_code a \<and> ar_version_code a \<le> max_android_version_code
     \<and> 1 \<le> ar_apk_size a \<and> ar_apk_size a \<le> max_apk_bytes
     \<and> 1 \<le> ar_min_sdk a \<and> ar_min_sdk a \<le> max_android_sdk
     \<and> (case (ar_protocol_min a, ar_protocol_max a) of (None, None) \<Rightarrow> True
        | (Some l, Some h) \<Rightarrow> 1 \<le> l \<and> l \<le> h \<and> h \<le> max_android_version_code | _ \<Rightarrow> False)"

definition str_in :: "string set \<Rightarrow> pyval \<Rightarrow> string option" where
  "str_in A v = (case v of PStr s \<Rightarrow> (if s \<in> A then Some s else None) | _ \<Rightarrow> None)"

lemma str_in_iff: "str_in A v = Some s \<longleftrightarrow> v = PStr s \<and> s \<in> A"
  by (cases v) (auto simp: str_in_def)

lemma str_in_UNIV: "(case v of PStr s \<Rightarrow> Some s | _ \<Rightarrow> None) = str_in UNIV v"
  by (cases v) (auto simp: str_in_def)

lemma str_in_fold:
  "(case v of PStr s \<Rightarrow> (if s \<in> A then Some s else None) | _ \<Rightarrow> None) = str_in A v"
  by (simp add: str_in_def)

lemma bool_of_fold: "(case v of PBool b \<Rightarrow> Some b | _ \<Rightarrow> None) = bool_of v"
  by (simp add: bool_of_def)

lemma parse_protocol_range_iff:
  "parse_protocol_range v w = Some (lo, hi) \<longleftrightarrow> v = opt_int lo \<and> w = opt_int hi
     \<and> (case (lo, hi) of (None, None) \<Rightarrow> True
        | (Some l, Some h) \<Rightarrow> 1 \<le> l \<and> l \<le> h \<and> h \<le> max_android_version_code | _ \<Rightarrow> False)"
  by (cases lo; cases hi)
    (auto simp: parse_protocol_range_def opt_int_def bind_eq_Some_conv integer_in_iff)

lemma parse_artifact_iff:
  "parse_artifact (PDict d) = Some a \<longleftrightarrow> dict_keys d \<in> artifact_key_shapes
     \<and> dict_get_default d ''prerelease_opt_in'' (PBool False) = PBool (ar_prerelease_opt_in a)
     \<and> dict_get d ''protocol_min'' = opt_int (ar_protocol_min a)
     \<and> dict_get d ''protocol_max'' = opt_int (ar_protocol_max a)
     \<and> dict_get d ''release_tag'' = PStr (ar_release_tag a)
     \<and> dict_get d ''version_name'' = PStr (ar_version_name a)
     \<and> dict_get d ''apk_name'' = PStr (ar_apk_name a)
     \<and> dict_get d ''apk_sha256'' = PStr (ar_apk_sha256 a)
     \<and> dict_get d ''signer_certificate_sha256'' = PStr (ar_signer a)
     \<and> dict_get d ''database_compatibility'' = PStr (ar_database a)
     \<and> dict_get d ''descriptor_schema'' = PStr (ar_descriptor_schema a)
     \<and> dict_get d ''package_id'' = PStr (ar_package_id a)
     \<and> dict_get d ''launch_component'' = PStr (ar_launch_component a)
     \<and> sequence_items (dict_get d ''supported_abis'') = Some (map PStr (ar_supported_abis a))
     \<and> dict_get d ''version_code'' = PInt (ar_version_code a)
     \<and> dict_get d ''apk_size'' = PInt (ar_apk_size a)
     \<and> dict_get d ''min_sdk'' = PInt (ar_min_sdk a) \<and> artifact_facts a"
  unfolding parse_artifact_def artifact_facts_def
  apply (cases a)
  apply (simp only: str_in_UNIV str_in_fold bool_of_fold parse_steps str_in_iff)
  apply (auto simp: parse_protocol_range_iff)
  done

lemma parse_artifact_facts: "parse_artifact v = Some a \<Longrightarrow> artifact_facts a"
  by (cases v) (simp_all add: parse_artifact_iff, simp_all add: parse_artifact_def)

lemma dict_keys_artifact_fields: "dict_keys (artifact_fields seq a) \<in> artifact_key_shapes"
proof -
  have "dict_keys (artifact_fields seq a) = artifact_required_keys
      \<union> {''protocol_min'', ''protocol_max'', ''prerelease_opt_in''}"
    by (auto simp: dict_keys_def artifact_fields_def artifact_required_keys_def)
  then show ?thesis by (simp add: artifact_key_shapes_def)
qed

lemma dict_keys_delete: "dict_keys (AList.delete k d) = dict_keys d - {k}"
  by (simp add: dict_keys_def delete_keys)

lemma dict_keys_artifact_document: "dict_keys (artifact_document seq a) \<in> artifact_key_shapes"
proof -
  have keys: "dict_keys (artifact_fields seq a) = artifact_required_keys
      \<union> {''protocol_min'', ''protocol_max'', ''prerelease_opt_in''}"
    by (auto simp: dict_keys_def artifact_fields_def artifact_required_keys_def)
  have out: "''protocol_min'' \<notin> artifact_required_keys" "''protocol_max'' \<notin> artifact_required_keys"
      "''prerelease_opt_in'' \<notin> artifact_required_keys"
    by (simp_all add: artifact_required_keys_def)
  show ?thesis
    by (auto simp: artifact_document_def Let_def dict_keys_delete keys artifact_key_shapes_def
        Un_Diff out insert_Diff_if)
qed

lemma dict_get_delete: "dict_get (AList.delete k d) j = (if j = k then PNone else dict_get d j)"
  by (simp add: dict_get_def delete_conv')

lemma dict_get_default_delete:
  "dict_get_default (AList.delete k d) j w = (if j = k then w else dict_get_default d j w)"
  by (simp add: dict_get_default_def delete_conv')

lemma artifact_fields_get:
  "dict_get (artifact_fields seq a) ''protocol_min'' = opt_int (ar_protocol_min a)"
  "dict_get (artifact_fields seq a) ''protocol_max'' = opt_int (ar_protocol_max a)"
  "dict_get (artifact_fields seq a) ''release_tag'' = PStr (ar_release_tag a)"
  "dict_get (artifact_fields seq a) ''version_name'' = PStr (ar_version_name a)"
  "dict_get (artifact_fields seq a) ''apk_name'' = PStr (ar_apk_name a)"
  "dict_get (artifact_fields seq a) ''apk_sha256'' = PStr (ar_apk_sha256 a)"
  "dict_get (artifact_fields seq a) ''signer_certificate_sha256'' = PStr (ar_signer a)"
  "dict_get (artifact_fields seq a) ''database_compatibility'' = PStr (ar_database a)"
  "dict_get (artifact_fields seq a) ''descriptor_schema'' = PStr (ar_descriptor_schema a)"
  "dict_get (artifact_fields seq a) ''package_id'' = PStr (ar_package_id a)"
  "dict_get (artifact_fields seq a) ''launch_component'' = PStr (ar_launch_component a)"
  "dict_get (artifact_fields seq a) ''supported_abis'' = seq (map PStr (ar_supported_abis a))"
  "dict_get (artifact_fields seq a) ''version_code'' = PInt (ar_version_code a)"
  "dict_get (artifact_fields seq a) ''apk_size'' = PInt (ar_apk_size a)"
  "dict_get (artifact_fields seq a) ''min_sdk'' = PInt (ar_min_sdk a)"
  "dict_get_default (artifact_fields seq a) ''prerelease_opt_in'' (PBool False)
     = PBool (ar_prerelease_opt_in a)"
  by (simp_all add: artifact_fields_def)

lemma artifact_document_get:
  "j \<notin> {''protocol_min'', ''protocol_max'', ''prerelease_opt_in''} \<Longrightarrow>
     dict_get (artifact_document seq a) j = dict_get (artifact_fields seq a) j"
  "dict_get (artifact_document seq a) ''protocol_min'' = opt_int (ar_protocol_min a)"
  "dict_get (artifact_document seq a) ''protocol_max'' = opt_int (ar_protocol_max a)"
  "dict_get_default (artifact_document seq a) ''prerelease_opt_in'' (PBool False)
     = PBool (ar_prerelease_opt_in a)"
  by (auto simp: artifact_document_def Let_def dict_get_delete dict_get_default_delete
      artifact_fields_get opt_int_def)

lemma sequence_items_map:
  "seq \<in> {PList, PTuple} \<Longrightarrow> sequence_items (seq xs) = Some xs"
  by (auto simp: sequence_items_def)

lemma map_PStr_inject [simp]: "map PStr xs = map PStr ys \<longleftrightarrow> xs = ys"
  by (auto simp: inj_map_eq_map inj_def)

lemma parse_artifact_fields:
  "artifact_facts a \<Longrightarrow> parse_artifact (PDict (artifact_fields PTuple a)) = Some a"
  by (simp add: parse_artifact_iff dict_keys_artifact_fields artifact_fields_get
      sequence_items_map)

lemma parse_artifact_document:
  "artifact_facts a \<Longrightarrow> seq \<in> {PList, PTuple} \<Longrightarrow>
     parse_artifact (PDict (artifact_document seq a)) = Some a"
  unfolding parse_artifact_iff
  by (simp add: dict_keys_artifact_document artifact_document_get artifact_fields_get
      sequence_items_map)

text \<open>The plan digest is a function of the frozen facts alone.\<close>

lemma parse_target_target: "target_facts P t \<Longrightarrow> parse_target P (PDict (target_document t)) = Some t"
  by simp

lemma safe_text_PStr: "safe_text (PStr c) m = (if safe_str c m then Some c else None)"
  by (auto simp: safe_text_def safe_str_def)

lemma guard_If: "guard b = (if b then Some () else None)"
  by (simp add: guard_def)

lemma install_plan_sha256_eq:
  "target_facts P t \<Longrightarrow> artifact_facts a \<Longrightarrow>
     install_plan_sha256 P t a c schema =
       (if safe_str c 64 \<and> sha256_text c
        then Some (json_digest P [CHR 0x0A] (plan_document t a c schema)) else None)"
  by (simp add: install_plan_sha256_def parse_artifact_fields safe_text_PStr guard_If
      parse_target_target)

section \<open>Stored receipts\<close>

definition receipt_facts :: "platform \<Rightarrow> receipt \<Rightarrow> bool" where
  "receipt_facts P r \<longleftrightarrow> safe_str (rc_job_id r) 32 \<and> safe_str (rc_plan_sha256 r) 64
     \<and> safe_str (rc_adb_credential_id r) 64 \<and> hex_32 (rc_job_id r) \<and> sha256_text (rc_plan_sha256 r)
     \<and> sha256_text (rc_adb_credential_id r)
     \<and> (case rc_preflight_root_mode r of None \<Rightarrow> True | Some m \<Rightarrow> m \<in> root_modes)
     \<and> (case rc_actual_apk_bytes r of None \<Rightarrow> True | Some n \<Rightarrow> 1 \<le> n \<and> n \<le> max_apk_bytes)
     \<and> (case rc_health_checked_at r of None \<Rightarrow> True | Some h \<Rightarrow> safe_str h 40 \<and> timestamp_text h)
     \<and> (case rc_consumed_entry_id r of None \<Rightarrow> True
        | Some e \<Rightarrow> safe_str e 32 \<and> is_config_entry_id P e)
     \<and> 0 \<le> rc_revision r \<and> rc_revision r \<le> max_revision
     \<and> 0 \<le> rc_executor_generation r \<and> rc_executor_generation r \<le> max_executor_generation
     \<and> safe_str (rc_created_at r) 40 \<and> timestamp_text (rc_created_at r)
     \<and> safe_str (rc_updated_at r) 40 \<and> timestamp_text (rc_updated_at r)
     \<and> 0 \<le> rc_attempt r \<and> rc_attempt r \<le> max_attempts
     \<and> target_facts P (rc_target r) \<and> artifact_facts (rc_artifact r)"

text \<open>A receipt the store may hold: well-formed fields and the receipt invariants.\<close>

definition receipt_ok :: "platform \<Rightarrow> receipt \<Rightarrow> bool" where
  "receipt_ok P r \<longleftrightarrow> receipt_facts P r \<and> receipt_invariants P r"

definition opt_all :: "('a \<Rightarrow> bool) \<Rightarrow> 'a option \<Rightarrow> bool" where
  "opt_all Q x = (case x of None \<Rightarrow> True | Some y \<Rightarrow> Q y)"

lemma opt_all_fold: "(case x of None \<Rightarrow> True | Some y \<Rightarrow> Q y) = opt_all Q x"
  by (simp add: opt_all_def)

lemma optional_result_iff:
  "optional_field result_of_value v = Some c \<longleftrightarrow> v = result_pyval c"
  by (cases c) (auto simp: optional_field_iff result_pyval_def result_of_value_iff)

lemma optional_root_iff:
  "optional_field root_mode_of v = Some m \<longleftrightarrow> v = opt_str m \<and> opt_all (\<lambda>x. x \<in> root_modes) m"
  by (cases m) (auto simp: optional_field_iff opt_str_def root_mode_of_iff opt_all_def)

lemma optional_integer_iff:
  "optional_field (\<lambda>v. integer_in v lo hi) v = Some n \<longleftrightarrow>
     v = opt_int n \<and> opt_all (\<lambda>x. lo \<le> x \<and> x \<le> hi) n"
  by (cases n) (auto simp: optional_field_iff opt_int_def integer_in_iff opt_all_def)

lemma optional_timestamp_iff:
  "optional_field timestamp v = Some h \<longleftrightarrow>
     v = opt_str h \<and> opt_all (\<lambda>x. safe_str x 40 \<and> timestamp_text x) h"
  by (cases h) (auto simp: optional_field_iff opt_str_def timestamp_iff opt_all_def)

lemma optional_entry_iff:
  "optional_field (entry_id_of P) v = Some e \<longleftrightarrow>
     v = opt_str e \<and> opt_all (\<lambda>x. safe_str x 32 \<and> is_config_entry_id P x) e"
  by (cases e) (auto simp: optional_field_iff opt_str_def entry_id_of_iff opt_all_def)

lemmas optional_iffs = optional_result_iff optional_root_iff optional_integer_iff
  optional_timestamp_iff optional_entry_iff
lemmas receipt_steps = bind_eq_Some_conv guard_Some_iff pyval.case option.inject optional_iffs
  safe_text_iff integer_in_iff timestamp_iff bool_of_iff phase_of_value_iff Let_def

lemma parse_receipt_iff:
  "parse_receipt P (PDict d) = Some r \<longleftrightarrow> dict_keys d - {''home_claim_deferred''} = receipt_old_keys
     \<and> dict_get_default d ''home_claim_deferred'' (PBool False) = PBool (rc_home_claim_deferred r)
     \<and> dict_get d ''job_id'' = PStr (rc_job_id r)
     \<and> dict_get d ''plan_sha256'' = PStr (rc_plan_sha256 r)
     \<and> dict_get d ''adb_credential_id'' = PStr (rc_adb_credential_id r)
     \<and> dict_get d ''phase'' = PStr (phase_value (rc_phase r))
     \<and> dict_get d ''result_code'' = result_pyval (rc_result_code r)
     \<and> dict_get d ''cancel_requested'' = PBool (rc_cancel_requested r)
     \<and> dict_get d ''preflight_root_mode'' = opt_str (rc_preflight_root_mode r)
     \<and> dict_get d ''actual_apk_bytes'' = opt_int (rc_actual_apk_bytes r)
     \<and> dict_get d ''health_checked_at'' = opt_str (rc_health_checked_at r)
     \<and> dict_get d ''consumed_entry_id'' = opt_str (rc_consumed_entry_id r)
     \<and> dict_get d ''revision'' = PInt (rc_revision r)
     \<and> dict_get d ''executor_generation'' = PInt (rc_executor_generation r)
     \<and> dict_get d ''created_at'' = PStr (rc_created_at r)
     \<and> dict_get d ''updated_at'' = PStr (rc_updated_at r)
     \<and> dict_get d ''attempt'' = PInt (rc_attempt r)
     \<and> parse_target P (dict_get d ''target'') = Some (rc_target r)
     \<and> parse_artifact (dict_get d ''artifact'') = Some (rc_artifact r)
     \<and> rc_failure_stage r = None \<and> rc_result_subcode r = None \<and> receipt_ok P r"
  unfolding parse_receipt_def receipt_ok_def receipt_facts_def opt_all_fold
  by (cases r) (simp only: receipt_steps receipt.simps, auto dest: parse_target_facts parse_artifact_facts)

lemma parse_receipt_dict: "parse_receipt P v = Some r \<Longrightarrow> \<exists>d. v = PDict d"
  by (cases v) (auto simp: parse_receipt_def)

lemma parse_receipt_ok: "parse_receipt P v = Some r \<Longrightarrow> receipt_ok P r \<and> without_detail r = r"
  using parse_receipt_dict [of P v r] by (cases r) (auto simp: parse_receipt_iff without_detail_def)

lemma without_detail_simps [simp]:
  "rc_job_id (without_detail r) = rc_job_id r" "rc_revision (without_detail r) = rc_revision r"
  "rc_executor_generation (without_detail r) = rc_executor_generation r"
  "rc_created_at (without_detail r) = rc_created_at r"
  "rc_updated_at (without_detail r) = rc_updated_at r" "rc_phase (without_detail r) = rc_phase r"
  "rc_cancel_requested (without_detail r) = rc_cancel_requested r"
  "rc_attempt (without_detail r) = rc_attempt r" "rc_target (without_detail r) = rc_target r"
  "rc_artifact (without_detail r) = rc_artifact r"
  "rc_plan_sha256 (without_detail r) = rc_plan_sha256 r"
  "rc_adb_credential_id (without_detail r) = rc_adb_credential_id r"
  "rc_preflight_root_mode (without_detail r) = rc_preflight_root_mode r"
  "rc_actual_apk_bytes (without_detail r) = rc_actual_apk_bytes r"
  "rc_health_checked_at (without_detail r) = rc_health_checked_at r"
  "rc_result_code (without_detail r) = rc_result_code r"
  "rc_consumed_entry_id (without_detail r) = rc_consumed_entry_id r"
  "rc_failure_stage (without_detail r) = None" "rc_result_subcode (without_detail r) = None"
  "rc_home_claim_deferred (without_detail r) = rc_home_claim_deferred r"
  by (simp_all add: without_detail_def)

lemma receipt_facts_without_detail [simp]: "receipt_facts P (without_detail r) = receipt_facts P r"
  by (simp add: receipt_facts_def cong: option.case_cong)

lemma bookkeeping_without_detail [simp]: "bookkeeping_ok P (without_detail r) = bookkeeping_ok P r"
  by (simp add: bookkeeping_ok_def plan_matches_def cong: option.case_cong)

lemma phase_facts_without_detail [simp]: "phase_facts_ok (without_detail r) = phase_facts_ok r"
  by (simp add: phase_facts_ok_def cong: option.case_cong)

lemma result_facts_without_detail [simp]: "result_facts_ok (without_detail r) = result_facts_ok r"
  by (simp add: result_facts_ok_def cong: option.case_cong)

lemma failure_detail_without_detail [simp]: "failure_detail_ok (without_detail r)"
  by (simp add: failure_detail_ok_def)

lemma receipt_ok_without_detail: "receipt_ok P r \<Longrightarrow> receipt_ok P (without_detail r)"
  by (simp add: receipt_ok_def receipt_invariants_def)

lemma receipt_document_keys: "dict_keys (receipt_document r) - {''home_claim_deferred''} = receipt_old_keys"
  by (cases "rc_home_claim_deferred r")
    (simp_all add: receipt_document_def dict_keys_def receipt_old_keys_def insert_Diff_if)

lemma receipt_document_get:
  "dict_get (receipt_document r) ''job_id'' = PStr (rc_job_id r)"
  "dict_get (receipt_document r) ''plan_sha256'' = PStr (rc_plan_sha256 r)"
  "dict_get (receipt_document r) ''adb_credential_id'' = PStr (rc_adb_credential_id r)"
  "dict_get (receipt_document r) ''phase'' = PStr (phase_value (rc_phase r))"
  "dict_get (receipt_document r) ''result_code'' = result_pyval (rc_result_code r)"
  "dict_get (receipt_document r) ''cancel_requested'' = PBool (rc_cancel_requested r)"
  "dict_get (receipt_document r) ''preflight_root_mode'' = opt_str (rc_preflight_root_mode r)"
  "dict_get (receipt_document r) ''actual_apk_bytes'' = opt_int (rc_actual_apk_bytes r)"
  "dict_get (receipt_document r) ''health_checked_at'' = opt_str (rc_health_checked_at r)"
  "dict_get (receipt_document r) ''consumed_entry_id'' = opt_str (rc_consumed_entry_id r)"
  "dict_get (receipt_document r) ''revision'' = PInt (rc_revision r)"
  "dict_get (receipt_document r) ''executor_generation'' = PInt (rc_executor_generation r)"
  "dict_get (receipt_document r) ''created_at'' = PStr (rc_created_at r)"
  "dict_get (receipt_document r) ''updated_at'' = PStr (rc_updated_at r)"
  "dict_get (receipt_document r) ''attempt'' = PInt (rc_attempt r)"
  "dict_get (receipt_document r) ''target'' = PDict (target_document (rc_target r))"
  "dict_get (receipt_document r) ''artifact'' = PDict (artifact_document PList (rc_artifact r))"
  "dict_get_default (receipt_document r) ''home_claim_deferred'' (PBool False)
     = PBool (rc_home_claim_deferred r)"
  by (simp_all add: receipt_document_def)

lemma parse_serialize_receipt:
  assumes "receipt_ok P r"
  shows "parse_receipt P (serialize_receipt r) = Some (without_detail r)"
proof -
  have "target_facts P (rc_target r)" "artifact_facts (rc_artifact r)"
    using assms by (simp_all add: receipt_ok_def receipt_facts_def)
  then show ?thesis
    unfolding serialize_receipt_def parse_receipt_iff
    by (simp only: receipt_document_keys receipt_document_get without_detail_simps
        parse_artifact_document parse_target_target insertI1 simp_thms
        receipt_ok_without_detail [OF assms])
qed

end
