(* ===== verification/Install_Store.thy ===== *)
theory Install_Store
  imports Install_Receipt
begin

text \<open>
  The two documents the job manager keeps on disk (install\_jobs.py, module level): the jobs,
  which an older release can read, and the failure details, each bound to one exact receipt by
  job, revision and digest.  Here are their readers and writers, the join of the two, the
  checks of a candidate before it is written, and the guarded read of a private file.
  \<open>InstallJobStoreError\<close> and \<open>OSError\<close>, which the code turns into it, are \<open>None\<close>.
\<close>

type_synonym jobs = "(string \<times> receipt) list"

abbreviation max_store_bytes :: int where "max_store_bytes \<equiv> 131072"
abbreviation max_active_jobs :: nat where "max_active_jobs \<equiv> 4"
abbreviation max_terminal_jobs :: nat where "max_terminal_jobs \<equiv> 32"
abbreviation max_detail_jobs :: nat where "max_detail_jobs \<equiv> 64"

definition jobs_format :: string where "jobs_format = ''ha-paneld-install-jobs-v1''"
definition details_format :: string where "details_format = ''ha-paneld-install-job-details-v1''"
definition jobs_store_key :: string where "jobs_store_key = ''panel_assistant.install_jobs''"
definition details_store_key :: string where
  "details_store_key = ''panel_assistant.install_jobs.details''"

section \<open>The jobs document\<close>

definition same_device :: "install_target \<Rightarrow> install_target \<Rightarrow> bool" where
  "same_device t u \<longleftrightarrow> tg_address t = tg_address u \<or> tg_pinned_address t = tg_pinned_address u
     \<or> tg_adb_serial t = tg_adb_serial u"

definition active_jobs :: "jobs \<Rightarrow> receipt list" where
  "active_jobs jobs = filter (\<lambda>r. \<not> is_terminal r) (dict_values jobs)"

definition terminal_jobs :: "jobs \<Rightarrow> receipt list" where
  "terminal_jobs jobs = filter is_terminal (dict_values jobs)"

text \<open>The loop over the stored jobs: distinct ids, and no two active jobs on one device.\<close>

fun parse_jobs :: "platform \<Rightarrow> pyval list \<Rightarrow> jobs \<Rightarrow> jobs option" where
  "parse_jobs P [] parsed = Some parsed"
| "parse_jobs P (raw # raws) parsed = do {
     r \<leftarrow> parse_receipt P raw;
     guard (rc_job_id r \<notin> dict_keys parsed);
     guard (is_terminal r
            \<or> list_all (\<lambda>q. \<not> same_device (rc_target r) (rc_target q)) (active_jobs parsed));
     parse_jobs P raws (parsed @ [(rc_job_id r, r)]) }"

definition parse_document :: "platform \<Rightarrow> pyval \<Rightarrow> jobs option" where
  "parse_document P value = (case value of
     PDict d \<Rightarrow> do {
       guard (dict_keys d = {''format'', ''jobs''});
       guard (dict_get d ''format'' = PStr jobs_format);
       raws \<leftarrow> (case dict_get d ''jobs'' of PList xs \<Rightarrow> Some xs | _ \<Rightarrow> None);
       guard (length raws \<le> max_active_jobs + max_terminal_jobs);
       parsed \<leftarrow> parse_jobs P raws [];
       guard (length (active_jobs parsed) \<le> max_active_jobs
              \<and> length (terminal_jobs parsed) \<le> max_terminal_jobs);
       Some parsed }
   | _ \<Rightarrow> None)"

definition listed :: "jobs \<Rightarrow> receipt list" where
  "listed jobs = sort_key (\<lambda>r. (rc_created_at r, rc_job_id r)) (dict_values jobs)"

definition serialize_document :: "jobs \<Rightarrow> pyval" where
  "serialize_document jobs = PDict [(''format'', PStr jobs_format),
     (''jobs'', PList (map serialize_receipt (listed jobs)))]"

section \<open>The details document\<close>

record receipt_detail =
  dt_job_id :: string
  dt_revision :: int
  dt_receipt_sha256 :: string
  dt_failure_stage :: install_phase
  dt_result_subcode :: "string option"

type_synonym detail_key = "string \<times> int \<times> string"
type_synonym details = "(detail_key \<times> receipt_detail) list"

definition receipt_digest :: "platform \<Rightarrow> receipt \<Rightarrow> string" where
  "receipt_digest P r = json_digest P [] (serialize_receipt r)"

definition detail_for :: "platform \<Rightarrow> receipt \<Rightarrow> receipt_detail option" where
  "detail_for P r = (case rc_failure_stage r of
     None \<Rightarrow> None
   | Some stage \<Rightarrow> Some \<lparr>dt_job_id = rc_job_id r, dt_revision = rc_revision r,
       dt_receipt_sha256 = receipt_digest P r, dt_failure_stage = stage,
       dt_result_subcode = rc_result_subcode r\<rparr>)"

definition detail_key :: "receipt_detail \<Rightarrow> detail_key" where
  "detail_key d = (dt_job_id d, dt_revision d, dt_receipt_sha256 d)"

definition serialize_detail :: "receipt_detail \<Rightarrow> pyval" where
  "serialize_detail d = PDict [(''job_id'', PStr (dt_job_id d)),
     (''revision'', PInt (dt_revision d)), (''receipt_sha256'', PStr (dt_receipt_sha256 d)),
     (''failure_stage'', PStr (phase_value (dt_failure_stage d))),
     (''result_subcode'', opt_str (dt_result_subcode d))]"

definition serialize_detail_document :: "details \<Rightarrow> pyval" where
  "serialize_detail_document ds = PDict [(''format'', PStr details_format),
     (''details'', PList (map serialize_detail (sort_key detail_key (dict_values ds))))]"

definition detail_keys :: "string set" where
  "detail_keys = {''job_id'', ''revision'', ''receipt_sha256'', ''failure_stage'',
     ''result_subcode''}"

definition subcode_of :: "pyval \<Rightarrow> string option" where
  "subcode_of v = (case v of PStr s \<Rightarrow> (if subcode_text s then Some s else None) | _ \<Rightarrow> None)"

definition parse_detail :: "pyval \<Rightarrow> receipt_detail option" where
  "parse_detail raw = (case raw of
     PDict d \<Rightarrow> do {
       guard (dict_keys d = detail_keys);
       job_id \<leftarrow> safe_text (dict_get d ''job_id'') 32;
       digest \<leftarrow> safe_text (dict_get d ''receipt_sha256'') 64;
       guard (hex_32 job_id \<and> sha256_text digest);
       subcode \<leftarrow> optional_field subcode_of (dict_get d ''result_subcode'');
       stage \<leftarrow> phase_of_value (dict_get d ''failure_stage'');
       guard (stage \<notin> terminal_phases);
       revision \<leftarrow> integer_in (dict_get d ''revision'') 0 max_revision;
       Some \<lparr>dt_job_id = job_id, dt_revision = revision, dt_receipt_sha256 = digest,
             dt_failure_stage = stage, dt_result_subcode = subcode\<rparr> }
   | _ \<Rightarrow> None)"

fun parse_details :: "pyval list \<Rightarrow> details \<Rightarrow> details option" where
  "parse_details [] ds = Some ds"
| "parse_details (raw # raws) ds = do {
     d \<leftarrow> parse_detail raw;
     guard (detail_key d \<notin> dict_keys ds);
     parse_details raws (ds @ [(detail_key d, d)]) }"

definition parse_detail_document :: "pyval \<Rightarrow> details option" where
  "parse_detail_document value = (case value of
     PDict d \<Rightarrow> do {
       guard (dict_keys d = {''format'', ''details''});
       guard (dict_get d ''format'' = PStr details_format);
       raws \<leftarrow> (case dict_get d ''details'' of PList xs \<Rightarrow> Some xs | _ \<Rightarrow> None);
       guard (length raws \<le> max_detail_jobs);
       parse_details raws [] }
   | _ \<Rightarrow> None)"

text \<open>
  \<open>_join_details\<close> gives each receipt the detail bound to exactly it; a receipt that already
  has another one, or that the detail would break, fails the whole load.
\<close>

definition with_detail :: "receipt \<Rightarrow> receipt_detail \<Rightarrow> receipt" where
  "with_detail r d = r\<lparr>rc_failure_stage := Some (dt_failure_stage d),
                       rc_result_subcode := dt_result_subcode d\<rparr>"

definition join_one :: "platform \<Rightarrow> details \<Rightarrow> string \<Rightarrow> receipt \<Rightarrow> receipt option" where
  "join_one P ds job_id r = (case map_of ds (job_id, rc_revision r, receipt_digest P r) of
     None \<Rightarrow> Some r
   | Some d \<Rightarrow> do {
       guard (\<not> (rc_failure_stage r \<noteq> None
                 \<and> (rc_failure_stage r \<noteq> Some (dt_failure_stage d)
                    \<or> rc_result_subcode r \<noteq> dt_result_subcode d)));
       guard (receipt_invariants P (with_detail r d));
       Some (with_detail r d) })"

fun join_details :: "platform \<Rightarrow> jobs \<Rightarrow> details \<Rightarrow> jobs option" where
  "join_details P [] ds = Some []"
| "join_details P ((job_id, r) # jobs) ds = do {
     r' \<leftarrow> join_one P ds job_id r;
     rest \<leftarrow> join_details P jobs ds;
     Some ((job_id, r') # rest) }"

section \<open>Store files\<close>

text \<open>The document around a Store's data.\<close>

definition wrapped_document :: "string \<Rightarrow> pyval \<Rightarrow> pyval" where
  "wrapped_document key data = PDict [(''version'', PInt 1), (''minor_version'', PInt 1),
     (''key'', PStr key), (''data'', data)]"

definition parse_store_body :: "platform \<Rightarrow> string \<Rightarrow> string \<Rightarrow> pyval option" where
  "parse_store_body P body key = do {
     text \<leftarrow> utf8_decode body;
     document \<leftarrow> json_loads (pf_float_read P) text;
     d \<leftarrow> (case document of PDict d \<Rightarrow> Some d | _ \<Rightarrow> None);
     guard (dict_keys d = {''version'', ''minor_version'', ''key'', ''data''});
     guard (dict_get d ''version'' = PInt 1 \<and> dict_get d ''minor_version'' = PInt 1
            \<and> dict_get d ''key'' = PStr key);
     Some (dict_get d ''data'') }"

definition parse_store_document :: "platform \<Rightarrow> string \<Rightarrow> jobs option" where
  "parse_store_document P body = do {
     data \<leftarrow> parse_store_body P body jobs_store_key; parse_document P data }"

definition parse_detail_store_document :: "platform \<Rightarrow> string \<Rightarrow> details option" where
  "parse_detail_store_document P body = do {
     data \<leftarrow> parse_store_body P body details_store_key; parse_detail_document data }"

text \<open>The exact candidate is printed, bounded, read back and compared before it may be written.\<close>

definition validated_document_for_save :: "platform \<Rightarrow> jobs \<Rightarrow> pyval option" where
  "validated_document_for_save P jobs =
     (let document = serialize_document jobs;
          body = json_indented (pf_float_repr P) (wrapped_document jobs_store_key document)
      in do {
        guard (1 \<le> int (length body) \<and> int (length body) \<le> max_store_bytes);
        verified \<leftarrow> parse_store_document P body;
        guard (dict_eq verified (map (\<lambda>(job_id, r). (job_id, without_detail r)) jobs)
               \<and> serialize_document verified = document);
        Some document })"

definition validated_detail_document :: "platform \<Rightarrow> details \<Rightarrow> pyval option" where
  "validated_detail_document P ds =
     (let document = serialize_detail_document ds;
          body = json_indented (pf_float_repr P) (wrapped_document details_store_key document)
      in do {
        guard (1 \<le> int (length body) \<and> int (length body) \<le> max_store_bytes);
        verified \<leftarrow> parse_detail_store_document P body;
        guard (dict_eq verified ds);
        Some document })"

section \<open>The guarded read\<close>

record file_stat =
  st_dev :: int
  st_ino :: int
  st_mode :: int
  st_uid :: int
  st_nlink :: int
  st_size :: int
  st_mtime_ns :: int
  st_ctime_ns :: int

text \<open>\<open>S_ISREG\<close> and \<open>S_IMODE\<close> of \<open>st_mode\<close>, on Linux.\<close>

definition is_regular :: "int \<Rightarrow> bool" where
  "is_regular mode \<longleftrightarrow> (mode div 4096) mod 16 = 8"

definition permission_bits :: "int \<Rightarrow> int" where
  "permission_bits mode = mode mod 4096"

definition private_file :: "platform \<Rightarrow> file_stat \<Rightarrow> bool" where
  "private_file P s \<longleftrightarrow> is_regular (st_mode s) \<and> permission_bits (st_mode s) = 384
     \<and> st_uid s = pf_euid P \<and> st_nlink s = 1"

text \<open>
  What the operating system answers during one read: \<open>None\<close> is an \<open>OSError\<close>.  The chunks are
  what \<open>os.read\<close> returns; an empty one, or the end of the list, is the end of the file.
\<close>

record read_observation =
  ro_open :: bool
  ro_before :: "file_stat option"
  ro_chunks :: "string option list"
  ro_after :: "file_stat option"
  ro_path_after :: "file_stat option"
  ro_final :: "file_stat option"
  ro_final_path :: "file_stat option"

fun read_chunks :: "string option list \<Rightarrow> string \<Rightarrow> string option" where
  "read_chunks [] body = Some body"
| "read_chunks (None # cs) body = None"
| "read_chunks (Some c # cs) body =
     (if c = [] then Some body
      else if max_store_bytes < int (length (body @ c)) then None
      else read_chunks cs (body @ c))"

definition read_durable_document ::
  "platform \<Rightarrow> (string \<Rightarrow> 'a option) \<Rightarrow> read_observation \<Rightarrow> 'a option" where
  "read_durable_document P parse ob = do {
     guard (ro_open ob);
     first \<leftarrow> ro_before ob;
     guard (private_file P first \<and> 1 \<le> st_size first \<and> st_size first \<le> max_store_bytes);
     body \<leftarrow> read_chunks (ro_chunks ob) [];
     after \<leftarrow> ro_after ob;
     path_after \<leftarrow> ro_path_after ob;
     guard (first = after \<and> after = path_after \<and> int (length body) = st_size first);
     value \<leftarrow> parse body;
     final \<leftarrow> ro_final ob;
     final_path \<leftarrow> ro_final_path ob;
     guard (after = final \<and> final = final_path);
     Some value }"

text \<open>
  A Store's place on disk: the file, when there is one, and the names beside it.
\<close>

record store_file =
  sf_stat :: "file_stat option"
  sf_body :: string
  sf_siblings :: "string list"

definition corrupt_marker :: "string \<Rightarrow> string" where
  "corrupt_marker key = key @ ''.corrupt.''"

definition store_presence :: "platform \<Rightarrow> string \<Rightarrow> store_file \<Rightarrow> (bool \<times> bool) option" where
  "store_presence P name f = do {
     guard (case sf_stat f of None \<Rightarrow> True
            | Some s \<Rightarrow> private_file P s \<and> st_size s \<le> max_store_bytes);
     Some (sf_stat f \<noteq> None, list_ex (\<lambda>n. starts_with n (corrupt_marker name)) (sf_siblings f)) }"

text \<open>The observation of a file that nobody else touches during the read.\<close>

fun chunks_of :: "nat \<Rightarrow> string \<Rightarrow> string list" where
  "chunks_of 0 s = []"
| "chunks_of (Suc n) s = (if s = [] then [] else take 4096 s # chunks_of n (drop 4096 s))"

definition quiet_observation :: "store_file \<Rightarrow> read_observation" where
  "quiet_observation f = \<lparr>ro_open = (sf_stat f \<noteq> None), ro_before = sf_stat f,
     ro_chunks = map Some (chunks_of (length (sf_body f)) (sf_body f)), ro_after = sf_stat f,
     ro_path_after = sf_stat f, ro_final = sf_stat f, ro_final_path = sf_stat f\<rparr>"

definition read_store_file :: "platform \<Rightarrow> (string \<Rightarrow> 'a option) \<Rightarrow> store_file \<Rightarrow> 'a option" where
  "read_store_file P parse f = read_durable_document P parse (quiet_observation f)"


section \<open>What a loaded document is\<close>

definition job_entry_ok :: "platform \<Rightarrow> string \<times> receipt \<Rightarrow> bool" where
  "job_entry_ok P e \<longleftrightarrow> rc_job_id (snd e) = fst e \<and> receipt_ok P (snd e)"

definition exclusive_devices :: "jobs \<Rightarrow> bool" where
  "exclusive_devices jobs \<longleftrightarrow> (\<forall>(k, r) \<in> set jobs. \<forall>(j, q) \<in> set jobs.
     k \<noteq> j \<and> \<not> is_terminal r \<and> \<not> is_terminal q \<longrightarrow> \<not> same_device (rc_target r) (rc_target q))"

definition jobs_wf :: "platform \<Rightarrow> jobs \<Rightarrow> bool" where
  "jobs_wf P jobs \<longleftrightarrow> dict_ok jobs \<and> list_all (job_entry_ok P) jobs \<and> exclusive_devices jobs"

definition jobs_ok :: "platform \<Rightarrow> jobs \<Rightarrow> bool" where
  "jobs_ok P jobs \<longleftrightarrow> jobs_wf P jobs \<and> length (active_jobs jobs) \<le> max_active_jobs
     \<and> length (terminal_jobs jobs) \<le> max_terminal_jobs"

lemma same_device_sym: "same_device t u = same_device u t"
  by (auto simp: same_device_def)

lemma set_active_jobs: "set (active_jobs jobs) = {r. (\<exists>k. (k, r) \<in> set jobs) \<and> \<not> is_terminal r}"
  by (force simp: active_jobs_def dict_values_def)

lemma set_terminal_jobs: "set (terminal_jobs jobs) = {r. (\<exists>k. (k, r) \<in> set jobs) \<and> is_terminal r}"
  by (force simp: terminal_jobs_def dict_values_def)

lemma exclusive_snoc:
  assumes "exclusive_devices jobs" and "is_terminal r
      \<or> list_all (\<lambda>q. \<not> same_device (rc_target r) (rc_target q)) (active_jobs jobs)"
  shows "exclusive_devices (jobs @ [(k, r)])"
  using assms by (auto simp: exclusive_devices_def list_all_iff set_active_jobs same_device_sym)

lemma parse_jobs_wf:
  "parse_jobs P raws parsed = Some jobs \<Longrightarrow> jobs_wf P parsed \<Longrightarrow> jobs_wf P jobs"
proof (induction raws arbitrary: parsed)
  case (Cons raw raws)
  then obtain r where r: "parse_receipt P raw = Some r" "rc_job_id r \<notin> dict_keys parsed"
      "is_terminal r \<or> list_all (\<lambda>q. \<not> same_device (rc_target r) (rc_target q)) (active_jobs parsed)"
      "parse_jobs P raws (parsed @ [(rc_job_id r, r)]) = Some jobs"
    by (auto simp: bind_eq_Some_conv)
  have "jobs_wf P (parsed @ [(rc_job_id r, r)])"
    using Cons.prems(2) r parse_receipt_ok [OF r(1)]
    by (auto simp: jobs_wf_def dict_ok_def dict_keys_def job_entry_ok_def intro!: exclusive_snoc)
  with Cons.IH r show ?case by blast
qed simp

lemma jobs_wf_Nil [simp]: "jobs_wf P []"
  by (simp add: jobs_wf_def exclusive_devices_def)

lemma parse_jobs_plain:
  "parse_jobs P raws parsed = Some jobs \<Longrightarrow> \<forall>r \<in> set (dict_values parsed). without_detail r = r \<Longrightarrow>
     \<forall>r \<in> set (dict_values jobs). without_detail r = r"
proof (induction raws arbitrary: parsed)
  case (Cons raw raws)
  then obtain r where r: "parse_receipt P raw = Some r"
      "parse_jobs P raws (parsed @ [(rc_job_id r, r)]) = Some jobs"
    by (auto simp: bind_eq_Some_conv)
  have "\<forall>q \<in> set (dict_values (parsed @ [(rc_job_id r, r)])). without_detail q = q"
    using Cons.prems(2) parse_receipt_ok [OF r(1)] by (simp add: dict_values_def)
  with Cons.IH r(2) show ?case by blast
qed simp

lemma parse_document_parts:
  assumes "parse_document P v = Some jobs"
  shows "\<exists>raws. parse_jobs P raws [] = Some jobs \<and> length (active_jobs jobs) \<le> max_active_jobs
     \<and> length (terminal_jobs jobs) \<le> max_terminal_jobs"
  using assms by (cases v) (auto simp: parse_document_def bind_eq_Some_conv)

lemma parse_document_ok:
  assumes "parse_document P v = Some jobs"
  shows "jobs_ok P jobs" and "\<forall>r \<in> set (dict_values jobs). without_detail r = r"
proof -
  obtain raws where r: "parse_jobs P raws [] = Some jobs" "length (active_jobs jobs) \<le> max_active_jobs"
      "length (terminal_jobs jobs) \<le> max_terminal_jobs"
    using parse_document_parts [OF assms] by blast
  show "jobs_ok P jobs" using parse_jobs_wf [OF r(1)] r by (simp add: jobs_ok_def)
  show "\<forall>r \<in> set (dict_values jobs). without_detail r = r"
    by (rule parse_jobs_plain [OF r(1)]) (simp add: dict_values_def)
qed

section \<open>The join\<close>

lemma with_detail_simps [simp]:
  "rc_job_id (with_detail r d) = rc_job_id r"
  "rc_revision (with_detail r d) = rc_revision r"
  "rc_executor_generation (with_detail r d) = rc_executor_generation r"
  "rc_created_at (with_detail r d) = rc_created_at r"
  "rc_updated_at (with_detail r d) = rc_updated_at r"
  "rc_phase (with_detail r d) = rc_phase r"
  "rc_cancel_requested (with_detail r d) = rc_cancel_requested r"
  "rc_attempt (with_detail r d) = rc_attempt r"
  "rc_target (with_detail r d) = rc_target r"
  "rc_artifact (with_detail r d) = rc_artifact r"
  "rc_plan_sha256 (with_detail r d) = rc_plan_sha256 r"
  "rc_adb_credential_id (with_detail r d) = rc_adb_credential_id r"
  "rc_preflight_root_mode (with_detail r d) = rc_preflight_root_mode r"
  "rc_actual_apk_bytes (with_detail r d) = rc_actual_apk_bytes r"
  "rc_health_checked_at (with_detail r d) = rc_health_checked_at r"
  "rc_result_code (with_detail r d) = rc_result_code r"
  "rc_consumed_entry_id (with_detail r d) = rc_consumed_entry_id r"
  "rc_home_claim_deferred (with_detail r d) = rc_home_claim_deferred r"
  by (simp_all add: with_detail_def)

lemma without_with_detail [simp]: "without_detail (with_detail r d) = without_detail r"
  by (simp add: with_detail_def without_detail_def)

lemma is_terminal_with_detail [simp]: "is_terminal (with_detail r d) = is_terminal r"
  by (simp add: is_terminal_def)

lemma receipt_facts_with_detail [simp]: "receipt_facts P (with_detail r d) = receipt_facts P r"
  by (simp add: receipt_facts_def cong: option.case_cong)

lemma join_one_cases:
  "join_one P ds k r = Some r' \<Longrightarrow> r' = r \<or>
     (\<exists>d. map_of ds (k, rc_revision r, receipt_digest P r) = Some d \<and> r' = with_detail r d
        \<and> receipt_invariants P r')"
  by (auto simp: join_one_def bind_eq_Some_conv split: option.splits)

lemma join_one_ok:
  assumes "join_one P ds k r = Some r'"
  shows "rc_job_id r' = rc_job_id r" "rc_target r' = rc_target r" "is_terminal r' = is_terminal r"
    "without_detail r' = without_detail r" "receipt_ok P r \<Longrightarrow> receipt_ok P r'"
    "rc_revision r' = rc_revision r" "rc_phase r' = rc_phase r"
  using join_one_cases [OF assms] by (auto simp: receipt_ok_def)

lemma join_details_Cons:
  "join_details P (e # jobs) ds = Some joined \<longleftrightarrow>
     (\<exists>r' rest. join_one P ds (fst e) (snd e) = Some r' \<and> join_details P jobs ds = Some rest
        \<and> joined = (fst e, r') # rest)"
  by (cases e) (auto simp: bind_eq_Some_conv)

lemma join_details_set:
  "join_details P jobs ds = Some joined \<Longrightarrow> (k, r') \<in> set joined \<Longrightarrow>
     \<exists>r. (k, r) \<in> set jobs \<and> join_one P ds k r = Some r'"
proof (induction jobs arbitrary: joined)
  case (Cons e jobs)
  then show ?case by (cases e) (fastforce simp: join_details_Cons simp del: join_details.simps)
qed simp

lemma join_details_keys:
  "join_details P jobs ds = Some joined \<Longrightarrow> map fst joined = map fst jobs"
proof (induction jobs arbitrary: joined)
  case (Cons e jobs)
  then show ?case by (auto simp: join_details_Cons simp del: join_details.simps)
qed simp

lemma join_details_counts:
  "join_details P jobs ds = Some joined \<Longrightarrow> length (active_jobs joined) = length (active_jobs jobs)
     \<and> length (terminal_jobs joined) = length (terminal_jobs jobs)"
proof (induction jobs arbitrary: joined)
  case (Cons e jobs)
  then obtain r' rest where r: "join_one P ds (fst e) (snd e) = Some r'"
      "join_details P jobs ds = Some rest" "joined = (fst e, r') # rest"
    by (auto simp: join_details_Cons simp del: join_details.simps)
  show ?case
    using Cons.IH [OF r(2)] join_one_ok(3) [OF r(1)] r(3)
    by (simp add: active_jobs_def terminal_jobs_def dict_values_def)
qed simp

lemma join_details_ok:
  assumes ok: "jobs_ok P jobs" and join: "join_details P jobs ds = Some joined"
  shows "jobs_ok P joined"
proof -
  have "dict_ok joined" using ok join_details_keys [OF join] by (simp add: jobs_ok_def jobs_wf_def dict_ok_def)
  moreover have "list_all (job_entry_ok P) joined"
    unfolding list_all_iff
  proof
    fix e assume "e \<in> set joined"
    then obtain r where r: "(fst e, r) \<in> set jobs" "join_one P ds (fst e) r = Some (snd e)"
      using join_details_set [OF join, of "fst e" "snd e"] by auto
    then have "job_entry_ok P (fst e, r)" using ok by (auto simp: jobs_ok_def jobs_wf_def list_all_iff)
    then show "job_entry_ok P e" using join_one_ok(1,5) [OF r(2)] by (simp add: job_entry_ok_def)
  qed
  moreover have "exclusive_devices joined"
    unfolding exclusive_devices_def
  proof (intro ballI, clarify)
    fix k r j q
    assume "(k, r) \<in> set joined" "(j, q) \<in> set joined" and d: "k \<noteq> j" "\<not> is_terminal r" "\<not> is_terminal q"
      and same: "same_device (rc_target r) (rc_target q)"
    then obtain r0 q0 where j: "(k, r0) \<in> set jobs" "join_one P ds k r0 = Some r"
        "(j, q0) \<in> set jobs" "join_one P ds j q0 = Some q"
      using join_details_set [OF join] by blast
    have "exclusive_devices jobs" using ok by (simp add: jobs_ok_def jobs_wf_def)
    then have "\<not> same_device (rc_target r0) (rc_target q0)"
      using j(1,3) d join_one_ok(3) [OF j(2)] join_one_ok(3) [OF j(4)]
      by (auto simp: exclusive_devices_def)
    with same show False using join_one_ok(2) [OF j(2)] join_one_ok(2) [OF j(4)] by simp
  qed
  ultimately show ?thesis
    using ok join_details_counts [OF join] by (simp add: jobs_ok_def jobs_wf_def)
qed

section \<open>Writing and reading back\<close>

lemma serialize_without_detail [simp]: "serialize_receipt (without_detail r) = serialize_receipt r"
  by (simp add: serialize_receipt_def receipt_document_def)

lemma receipt_digest_without_detail [simp]: "receipt_digest P (without_detail r) = receipt_digest P r"
  by (simp add: receipt_digest_def)

definition by_id :: "receipt list \<Rightarrow> jobs" where
  "by_id rs = map (\<lambda>r. (rc_job_id r, without_detail r)) rs"

lemma active_jobs_snoc:
  "active_jobs (jobs @ [(k, r)]) = active_jobs jobs @ (if is_terminal r then [] else [r])"
  by (simp add: active_jobs_def dict_values_def)

lemma is_terminal_without_detail [simp]: "is_terminal (without_detail r) = is_terminal r"
  by (simp add: is_terminal_def)

lemma parse_jobs_serialized:
  assumes "\<forall>r \<in> set rs. receipt_ok P r" and "distinct (map rc_job_id rs)"
    and "\<forall>r \<in> set rs. rc_job_id r \<notin> dict_keys parsed"
    and "\<forall>r \<in> set rs. \<forall>q \<in> set (active_jobs parsed). \<not> is_terminal r \<longrightarrow>
           \<not> same_device (rc_target r) (rc_target q)"
    and "\<forall>r \<in> set rs. \<forall>q \<in> set rs. rc_job_id r \<noteq> rc_job_id q \<and> \<not> is_terminal r \<and> \<not> is_terminal q
           \<longrightarrow> \<not> same_device (rc_target r) (rc_target q)"
  shows "parse_jobs P (map serialize_receipt rs) parsed = Some (parsed @ by_id rs)"
  using assms
proof (induction rs arbitrary: parsed)
  case (Cons r rs)
  let ?parsed = "parsed @ [(rc_job_id r, without_detail r)]"
  have "parse_jobs P (map serialize_receipt rs) ?parsed = Some (?parsed @ by_id rs)"
  proof (rule Cons.IH)
    show "\<forall>q \<in> set rs. rc_job_id q \<notin> dict_keys ?parsed"
      using Cons.prems(2,3) by (auto simp: dict_keys_def image_iff)
    show "\<forall>s \<in> set rs. \<forall>q \<in> set (active_jobs ?parsed). \<not> is_terminal s \<longrightarrow>
           \<not> same_device (rc_target s) (rc_target q)"
    proof (intro ballI impI)
      fix s q assume s: "s \<in> set rs" "q \<in> set (active_jobs ?parsed)" "\<not> is_terminal s"
      have ne: "rc_job_id s \<noteq> rc_job_id r" using Cons.prems(2) s(1) by (auto simp: image_iff)
      consider "q \<in> set (active_jobs parsed)" | "q = without_detail r" "\<not> is_terminal r"
        using s(2) by (auto simp: active_jobs_snoc split: if_splits)
      then show "\<not> same_device (rc_target s) (rc_target q)"
      proof cases
        case 1
        then show ?thesis using Cons.prems(4) s by simp
      next
        case 2
        then show ?thesis using Cons.prems(5) s ne by simp
      qed
    qed
  qed (use Cons.prems in simp_all)
  moreover have "list_all (\<lambda>q. \<not> same_device (rc_target r) (rc_target q)) (active_jobs parsed)
      \<or> is_terminal r"
    using Cons.prems(4) by (auto simp: list_all_iff)
  ultimately show ?case
    using Cons.prems parse_serialize_receipt [of P r] by (auto simp: by_id_def)
qed (simp add: by_id_def)

lemma set_listed [simp]: "set (listed jobs) = set (dict_values jobs)"
  by (simp add: listed_def)

lemma distinct_listed:
  assumes "jobs_wf P jobs" shows "distinct (map rc_job_id (listed jobs))"
proof -
  have "map rc_job_id (dict_values jobs) = map fst jobs"
    using assms by (auto simp: jobs_wf_def job_entry_ok_def list_all_iff dict_values_def)
  then have "distinct (map rc_job_id (dict_values jobs))"
    using assms by (simp add: jobs_wf_def dict_ok_def)
  then show ?thesis by (simp add: listed_def distinct_map)
qed

lemma values_mem: "r \<in> set (dict_values jobs) \<longleftrightarrow> (\<exists>k. (k, r) \<in> set jobs)"
  by (force simp: dict_values_def)

lemma jobs_wf_values:
  assumes "jobs_wf P jobs" "r \<in> set (dict_values jobs)"
  shows "(rc_job_id r, r) \<in> set jobs" "receipt_ok P r"
  using assms by (auto simp: values_mem jobs_wf_def list_all_iff job_entry_ok_def)

lemma exclusive_values:
  assumes wf: "jobs_wf P jobs"
    and r: "r \<in> set (dict_values jobs)" "q \<in> set (dict_values jobs)" "rc_job_id r \<noteq> rc_job_id q"
      "\<not> is_terminal r" "\<not> is_terminal q"
  shows "\<not> same_device (rc_target r) (rc_target q)"
proof -
  have "exclusive_devices jobs" using wf by (simp add: jobs_wf_def)
  then show ?thesis
    using jobs_wf_values(1) [OF wf r(1)] jobs_wf_values(1) [OF wf r(2)] r(3-5)
    by (auto simp: exclusive_devices_def)
qed

lemma length_filter_listed [simp]:
  "length (filter Q (listed jobs)) = length (filter Q (dict_values jobs))"
  by (simp add: listed_def filter_sort)

lemma parse_document_intro:
  "parse_jobs P raws [] = Some js \<Longrightarrow> length (active_jobs js) \<le> max_active_jobs \<Longrightarrow>
   length (terminal_jobs js) \<le> max_terminal_jobs \<Longrightarrow>
   length raws \<le> max_active_jobs + max_terminal_jobs \<Longrightarrow>
     parse_document P (PDict [(''format'', PStr jobs_format), (''jobs'', PList raws)]) = Some js"
  by (simp add: parse_document_def dict_keys_def)

text \<open>The document of a well-formed store reads back as the same jobs, in the printed order.\<close>

lemma parse_serialize_document:
  assumes ok: "jobs_ok P jobs"
  shows "parse_document P (serialize_document jobs) = Some (by_id (listed jobs))"
proof -
  have wf: "jobs_wf P jobs" using ok by (simp add: jobs_ok_def)
  have jobs: "parse_jobs P (map serialize_receipt (listed jobs)) [] = Some ([] @ by_id (listed jobs))"
  proof (rule parse_jobs_serialized)
    show "\<forall>r \<in> set (listed jobs). \<forall>q \<in> set (listed jobs). rc_job_id r \<noteq> rc_job_id q
        \<and> \<not> is_terminal r \<and> \<not> is_terminal q \<longrightarrow> \<not> same_device (rc_target r) (rc_target q)"
      using exclusive_values [OF wf] by simp
  qed (use jobs_wf_values [OF wf] distinct_listed [OF wf] in
      \<open>auto simp: dict_keys_def active_jobs_def dict_values_def\<close>)
  have len: "length (listed jobs) = length (active_jobs jobs) + length (terminal_jobs jobs)"
    using sum_length_filter_compl [of is_terminal "dict_values jobs"]
    by (simp add: listed_def active_jobs_def terminal_jobs_def)
  have counts: "active_jobs (by_id rs) = map without_detail (filter (\<lambda>r. \<not> is_terminal r) rs)"
      "terminal_jobs (by_id rs) = map without_detail (filter is_terminal rs)" for rs
    by (induction rs) (simp_all add: by_id_def active_jobs_def terminal_jobs_def dict_values_def
        is_terminal_def)
  have "length (active_jobs (by_id (listed jobs))) = length (active_jobs jobs)"
       "length (terminal_jobs (by_id (listed jobs))) = length (terminal_jobs jobs)"
    unfolding counts by (simp_all add: active_jobs_def terminal_jobs_def)
  then have "length (active_jobs (by_id (listed jobs))) \<le> max_active_jobs"
      "length (terminal_jobs (by_id (listed jobs))) \<le> max_terminal_jobs"
      "length (map serialize_receipt (listed jobs)) \<le> max_active_jobs + max_terminal_jobs"
    using ok len by (simp_all add: jobs_ok_def)
  then show ?thesis
    unfolding serialize_document_def using jobs
    by (intro parse_document_intro) (simp_all only: append_Nil)
qed

text \<open>The guards before a write hold for every well-formed store that is small enough.\<close>

lemma json_plain_wrapped [simp]:
  "json_plain (wrapped_document key data) \<longleftrightarrow> json_plain data"
proof -
  have "length (dec_string \<bar>1\<bar>) \<le> 4300" by (subst dec_string.simps) simp
  then show ?thesis by (simp add: wrapped_document_def dict_ok_def)
qed

lemma json_norm_wrapped [simp]:
  "json_norm (wrapped_document key data) = wrapped_document key (json_norm data)"
  by (simp add: wrapped_document_def)

lemma parse_store_body_print:
  assumes "json_plain data"
  shows "parse_store_body P (json_indented fr (wrapped_document key data)) key = Some (json_norm data)"
proof -
  let ?body = "json_indented fr (wrapped_document key data)"
  have "utf8_decode ?body = Some ?body"
    using assms by (intro utf8_decode_ascii) (simp add: json_indented_def ascii_print)
  moreover have "json_loads (pf_float_read P) ?body = Some (wrapped_document key (json_norm data))"
    using assms by (simp add: json_indented_def json_loads_print)
  ultimately show ?thesis
    by (simp add: parse_store_body_def wrapped_document_def dict_keys_def)
qed

lemma length_dec_string: "0 \<le> n \<Longrightarrow> n < 10 ^ Suc k \<Longrightarrow> length (dec_string n) \<le> Suc k"
proof (induction k arbitrary: n)
  case 0
  then show ?case by (subst dec_string.simps) simp
next
  case (Suc k)
  show ?case
  proof (cases "n < 10")
    case True
    then show ?thesis by (subst dec_string.simps) simp
  next
    case False
    have "n div 10 < 10 ^ Suc k" using Suc.prems by simp
    then have "length (dec_string (n div 10)) \<le> Suc k" using Suc by simp
    then show ?thesis using False by (subst dec_string.simps) simp
  qed
qed

lemma json_plain_bounded: "0 \<le> n \<Longrightarrow> n \<le> max_revision \<Longrightarrow> json_plain (PInt n)"
  using length_dec_string [of n 18] by simp

lemma json_plain_opt_str [simp]: "json_plain (opt_str s)"
  by (cases s) (simp_all add: opt_str_def)

lemma json_plain_result [simp]: "json_plain (result_pyval c)"
  by (cases c) (simp_all add: result_pyval_def)

lemma json_plain_opt_int:
  "opt_all (\<lambda>n. 0 \<le> n \<and> n \<le> max_revision) x \<Longrightarrow> json_plain (opt_int x)"
  by (cases x) (simp_all only: opt_int_def option.case json_plain.simps(6) opt_all_def json_plain_bounded)

lemma json_plain_delete: "json_plain (PDict d) \<Longrightarrow> json_plain (PDict (AList.delete k d))"
  by (auto simp: list_all_iff dict_ok_delete AList.delete_eq)

lemma json_plain_target: "target_facts P t \<Longrightarrow> json_plain (PDict (target_document t))"
  by (simp add: target_document_def dict_ok_def target_facts_def json_plain_bounded del: json_plain.simps(2))

lemma json_plain_artifact_fields:
  assumes "artifact_facts a"
  shows "json_plain (PDict (artifact_fields PList a))" and "json_plain (PDict (artifact_fields PTuple a))"
proof -
  have "json_plain (opt_int (ar_protocol_min a))" "json_plain (opt_int (ar_protocol_max a))"
    using assms by (auto simp: artifact_facts_def opt_all_def split: option.splits
        intro!: json_plain_opt_int)
  moreover have "json_plain (PInt (ar_version_code a))" "json_plain (PInt (ar_apk_size a))"
      "json_plain (PInt (ar_min_sdk a))"
    by (rule json_plain_bounded; use assms in \<open>simp add: artifact_facts_def\<close>)+
  moreover have "list_all json_plain (map PStr xs)" for xs
    by (simp add: list_all_iff)
  ultimately show "json_plain (PDict (artifact_fields PList a))" "json_plain (PDict (artifact_fields PTuple a))"
    by (simp_all add: artifact_fields_def dict_ok_def del: json_plain.simps(2))
qed

lemma json_plain_artifact:
  "artifact_facts a \<Longrightarrow> json_plain (PDict (artifact_document PList a))"
  "artifact_facts a \<Longrightarrow> json_plain (PDict (artifact_document PTuple a))"
  by (simp_all only: artifact_document_def Let_def split: if_splits)
    (intro impI conjI json_plain_delete json_plain_artifact_fields; assumption)+

lemma json_plain_receipt:
  assumes "receipt_ok P r" shows "json_plain (serialize_receipt r)"
proof -
  have "json_plain (PDict (target_document (rc_target r)))"
      "json_plain (PDict (artifact_document PList (rc_artifact r)))"
    using assms unfolding receipt_ok_def receipt_facts_def
    by (blast intro: json_plain_target json_plain_artifact)+
  moreover have "json_plain (opt_int (rc_actual_apk_bytes r))"
    using assms by (auto simp: receipt_ok_def receipt_facts_def opt_all_def split: option.splits
        intro!: json_plain_opt_int)
  moreover have "json_plain (PInt (rc_revision r))" "json_plain (PInt (rc_executor_generation r))"
      "json_plain (PInt (rc_attempt r))"
    by (rule json_plain_bounded; use assms in \<open>simp add: receipt_ok_def receipt_facts_def\<close>)+
  ultimately show ?thesis
    by (simp add: serialize_receipt_def receipt_document_def dict_ok_def
        del: json_plain.simps(2) json_plain.simps(5) add: json_plain.simps(5) [of "_ # _"])
qed

lemma json_norm_dict: "(\<And>k v. (k, v) \<in> set d \<Longrightarrow> json_norm v = v) \<Longrightarrow> json_norm (PDict d) = PDict d"
  by (auto intro!: map_idI)

lemma json_norm_opt [simp]: "json_norm (opt_int x) = opt_int x" "json_norm (opt_str s) = opt_str s"
  "json_norm (result_pyval c) = result_pyval c"
  by (simp_all add: opt_int_def opt_str_def result_pyval_def split: option.split)

lemma json_norm_artifact: "json_norm (PDict (artifact_document PList a)) = PDict (artifact_document PList a)"
proof (rule json_norm_dict)
  fix k v assume "(k, v) \<in> set (artifact_document PList a)"
  then have "(k, v) \<in> set (artifact_fields PList a)"
    by (auto simp: artifact_document_def Let_def AList.delete_eq split: if_splits)
  then show "json_norm v = v"
    by (auto simp: artifact_fields_def)
qed

lemma json_norm_receipt: "json_norm (serialize_receipt r) = serialize_receipt r"
proof -
  have "json_norm (PDict (target_document t)) = PDict (target_document t)" for t
    by (simp add: target_document_def)
  then show ?thesis
    unfolding serialize_receipt_def
    by (intro json_norm_dict)
      (auto simp: receipt_document_def json_norm_artifact simp del: json_norm.simps(3) split: if_splits)
qed

lemma json_norm_document: "json_norm (serialize_document jobs) = serialize_document jobs"
  by (simp add: serialize_document_def json_norm_receipt)

interpretation receipt_value: codec serialize_receipt "parse_receipt P" "receipt_ok P" without_detail
  for P
  by unfold_locales (rule parse_serialize_receipt)

interpretation receipt_text: codec_chain serialize_receipt "parse_receipt P" "receipt_ok P" without_detail
  "json_print fr ind 0" "json_loads rd" json_plain json_norm
  for P fr ind rd
  by unfold_locales (simp_all add: json_plain_receipt json_norm_receipt)

lemma json_plain_document:
  assumes "jobs_wf P jobs" shows "json_plain (serialize_document jobs)"
  using jobs_wf_values(2) [OF assms] json_plain_receipt
  by (auto simp: serialize_document_def dict_ok_def list_all_iff)

interpretation document_value: codec serialize_document "parse_document P" "jobs_ok P"
  "\<lambda>jobs. by_id (listed jobs)"
  for P
  by unfold_locales (rule parse_serialize_document)

text \<open>The file body of a store: its data wrapped, indented and printed.\<close>

interpretation store_body: codec "\<lambda>data. json_indented fr (wrapped_document key data)"
  "\<lambda>body. parse_store_body P body key" json_plain json_norm
  for fr key P
  by unfold_locales (rule parse_store_body_print)

interpretation jobs_file: codec_chain serialize_document "parse_document P" "jobs_ok P"
  "\<lambda>jobs. by_id (listed jobs)" "\<lambda>data. json_indented fr (wrapped_document jobs_store_key data)"
  "\<lambda>body. parse_store_body P body jobs_store_key" json_plain json_norm
  for P fr
  by unfold_locales (auto simp: jobs_ok_def json_norm_document intro: json_plain_document)

lemma listed_by_id: "listed (by_id (listed jobs)) = map without_detail (listed jobs)"
proof -
  let ?key = "\<lambda>r. (rc_created_at r, rc_job_id r)"
  have "sorted (map ?key (listed jobs))" by (simp add: listed_def)
  then have "sorted (map ?key (map without_detail (listed jobs)))" by (simp add: comp_def)
  moreover have "dict_values (by_id (listed jobs)) = map without_detail (listed jobs)"
    by (simp add: by_id_def dict_values_def)
  ultimately show ?thesis unfolding listed_def [of "by_id (listed jobs)"]
    by (simp only: sort_key_id_if_sorted)
qed

lemma serialize_by_id: "serialize_document (by_id (listed jobs)) = serialize_document jobs"
  by (simp add: serialize_document_def listed_by_id comp_def)

definition plain_jobs :: "jobs \<Rightarrow> jobs" where
  "plain_jobs jobs = map (\<lambda>(job_id, r). (job_id, without_detail r)) jobs"

lemma dict_ok_by_id: "jobs_wf P jobs \<Longrightarrow> dict_ok (by_id (listed jobs))"
  using distinct_listed [of P jobs] by (simp add: by_id_def dict_ok_def comp_def)

lemma dict_eq_by_id:
  assumes wf: "jobs_wf P jobs" shows "dict_eq (by_id (listed jobs)) (plain_jobs jobs)"
proof -
  have "dict_ok (plain_jobs jobs)" using wf by (auto simp: plain_jobs_def jobs_wf_def)
  moreover have "set (by_id (listed jobs)) = set (plain_jobs jobs)"
    using wf jobs_wf_values(1) [OF wf]
    by (force simp: by_id_def plain_jobs_def values_mem jobs_wf_def list_all_iff job_entry_ok_def)
  ultimately show ?thesis by (simp add: dict_eq_set dict_ok_by_id [OF wf])
qed

theorem validated_document_complete:
  assumes ok: "jobs_ok P jobs"
    and small: "int (length (json_indented (pf_float_repr P)
      (wrapped_document jobs_store_key (serialize_document jobs)))) \<le> max_store_bytes"
  shows "validated_document_for_save P jobs = Some (serialize_document jobs)"
proof -
  let ?body = "json_indented (pf_float_repr P) (wrapped_document jobs_store_key (serialize_document jobs))"
  have wf: "jobs_wf P jobs" using ok by (simp add: jobs_ok_def)
  have plain: "json_plain (serialize_document jobs)" by (rule json_plain_document [OF wf])
  have ne: "1 \<le> int (length ?body)"
    using json_print_hd [of "wrapped_document jobs_store_key (serialize_document jobs)"
        "pf_float_repr P" True 0] plain
    by (auto simp: json_indented_def)
  have "parse_store_document P ?body = Some (by_id (listed jobs))"
    using parse_store_body_print [OF plain] parse_serialize_document [OF ok]
    by (simp add: parse_store_document_def json_norm_document)
  then show ?thesis
    using ne small dict_eq_by_id [OF wf]
    by (simp add: validated_document_for_save_def Let_def serialize_by_id plain_jobs_def)
qed

text \<open>What passes the guards is well formed.\<close>

lemma validated_document_sound:
  assumes "validated_document_for_save P jobs = Some doc" "dict_ok jobs"
  shows "doc = serialize_document jobs" and "jobs_ok P (plain_jobs jobs)"
proof -
  obtain verified where v: "parse_store_document P (json_indented (pf_float_repr P)
        (wrapped_document jobs_store_key (serialize_document jobs))) = Some verified"
      "dict_eq verified (plain_jobs jobs)" and "doc = serialize_document jobs"
    using assms(1) by (auto simp: validated_document_for_save_def Let_def bind_eq_Some_conv plain_jobs_def)
  then show "doc = serialize_document jobs" by simp
  have ok: "jobs_ok P verified"
    using v(1) parse_document_ok(1) by (auto simp: parse_store_document_def bind_eq_Some_conv)
  have okp: "dict_ok (plain_jobs jobs)" using assms(2) by (auto simp: plain_jobs_def)
  have "dict_ok verified" using ok by (simp add: jobs_ok_def jobs_wf_def)
  with v(2) okp have eq: "set verified = set (plain_jobs jobs)" by (simp add: dict_eq_set)
  have count: "length (filter Q (map snd js)) = card {e \<in> set js. Q (snd e)}" if "dict_ok js" for Q and js :: jobs
  proof -
    have "distinct (filter (Q \<circ> snd) js)" using that by (simp add: dict_ok_def distinct_map)
    then show ?thesis by (simp add: filter_map distinct_card [symmetric])
  qed
  have counts: "length (filter Q (map snd verified)) = length (filter Q (map snd (plain_jobs jobs)))" for Q
    using count [OF \<open>dict_ok verified\<close>, of Q] count [OF okp, of Q] eq by simp
  show "jobs_ok P (plain_jobs jobs)"
    using ok okp counts
    by (simp add: jobs_ok_def jobs_wf_def list_all_iff exclusive_devices_def eq active_jobs_def
        terminal_jobs_def dict_values_def)
qed

section \<open>Details survive a write and a read\<close>

lemma join_details_restore:
  assumes "list_all (job_entry_ok P) jobs"
    and "\<And>k r. (k, r) \<in> set jobs \<Longrightarrow> map_of ds (k, rc_revision r, receipt_digest P r) = detail_for P r"
  shows "join_details P (plain_jobs jobs) ds = Some jobs"
  using assms
proof (induction jobs)
  case (Cons e jobs)
  obtain k r where e: "e = (k, r)" by fastforce
  have ok: "receipt_ok P r" using Cons.prems(1) e by (simp add: job_entry_ok_def)
  have look: "map_of ds (k, rc_revision r, receipt_digest P r) = detail_for P r"
    using Cons.prems(2) e by simp
  have "join_one P ds k (without_detail r) = Some r"
  proof (cases "rc_failure_stage r")
    case None
    then have "rc_result_subcode r = None"
      using ok by (simp add: receipt_ok_def receipt_invariants_def failure_detail_ok_def)
    with None look show ?thesis
      by (cases r) (simp add: join_one_def detail_for_def without_detail_def receipt_digest_def
          serialize_receipt_def receipt_document_def)
  next
    case (Some stage)
    have "with_detail (without_detail r) d = r" if "detail_for P r = Some d" for d
      using that Some by (cases r) (auto simp: with_detail_def without_detail_def detail_for_def)
    then show ?thesis
      using look Some ok by (auto simp: join_one_def receipt_ok_def detail_for_def)
  qed
  then show ?case using Cons e by (simp add: plain_jobs_def)
qed (simp add: plain_jobs_def)

definition retained_details :: "platform \<Rightarrow> jobs \<Rightarrow> details" where
  "retained_details P jobs =
     dict_of (map (\<lambda>d. (detail_key d, d)) (List.map_filter (detail_for P) (dict_values jobs)))"

lemma retained_details_lookup:
  assumes wf: "jobs_wf P jobs" and r: "(k, r) \<in> set jobs"
  shows "map_of (retained_details P jobs) (k, rc_revision r, receipt_digest P r) = detail_for P r"
proof -
  let ?ps = "map (\<lambda>d. (detail_key d, d)) (List.map_filter (detail_for P) (dict_values jobs))"
  let ?key = "(k, rc_revision r, receipt_digest P r)"
  have id: "rc_job_id r = k" using wf r by (auto simp: jobs_wf_def list_all_iff job_entry_ok_def)
  have mem: "(?key, d) \<in> set ?ps \<longleftrightarrow> detail_for P r = Some d" for d
  proof
    assume "(?key, d) \<in> set ?ps"
    then obtain q j where q: "(j, q) \<in> set jobs" "detail_for P q = Some d" "detail_key d = ?key"
      by (auto simp: List.map_filter_def dict_values_def)
    then have "rc_job_id q = k" by (auto simp: detail_for_def detail_key_def split: option.splits)
    moreover have "rc_job_id q = j" using wf q(1) by (auto simp: jobs_wf_def list_all_iff job_entry_ok_def)
    ultimately have "q = r" using q(1) r wf by (auto simp: jobs_wf_def dict_ok_def eq_key_imp_eq_value)
    with q show "detail_for P r = Some d" by simp
  next
    assume d: "detail_for P r = Some d"
    then have "detail_key d = ?key" using id by (auto simp: detail_for_def detail_key_def split: option.splits)
    with d r show "(?key, d) \<in> set ?ps"
      by (force simp: List.map_filter_def dict_values_def)
  qed
  have "map_of (retained_details P jobs) ?key = map_of (rev ?ps) ?key"
    by (simp add: retained_details_def dict_of_def map_of_dict_update split: option.split)
  also have "\<dots> = detail_for P r"
  proof (cases "detail_for P r")
    case None
    then have "?key \<notin> fst ` set (rev ?ps)" using mem by fastforce
    then have "map_of (rev ?ps) ?key = None" by (simp only: map_of_eq_None_iff not_False_eq_True)
    with None show ?thesis by simp
  next
    case (Some d)
    then have "(?key, d) \<in> set (rev ?ps)" using mem [of d] by (simp only: set_rev)
    then obtain d' where d': "map_of (rev ?ps) ?key = Some d'"
      using weak_map_of_SomeI by fast
    then have "(?key, d') \<in> set ?ps" using map_of_SomeD set_rev by fast
    then have "detail_for P r = Some d'" by (simp only: mem)
    with d' show ?thesis by (simp only:)
  qed
  finally show ?thesis .
qed

theorem join_retained_details:
  "jobs_wf P jobs \<Longrightarrow> join_details P (plain_jobs jobs) (retained_details P jobs) = Some jobs"
  by (rule join_details_restore) (auto simp: jobs_wf_def retained_details_lookup)

section \<open>Reading a quiet file\<close>

lemma read_chunks_quiet:
  "length s \<le> n \<Longrightarrow> int (length acc) \<le> max_store_bytes \<Longrightarrow>
     read_chunks (map Some (chunks_of n s)) acc =
       (if int (length acc + length s) \<le> max_store_bytes then Some (acc @ s) else None)"
proof (induction n arbitrary: s acc)
  case (Suc n)
  show ?case
  proof (cases "s = []")
    case True
    then show ?thesis using Suc.prems by simp
  next
    case False
    have len: "length (take 4096 s) + length (drop 4096 s) = length s"
      by (metis append_take_drop_id length_append)
    have "length (drop 4096 s) \<le> n" using Suc.prems False by (cases s) auto
    then show ?thesis
      using Suc.IH [of "drop 4096 s" "acc @ take 4096 s"] False len by auto
  qed
qed simp

theorem read_store_file_quiet:
  "read_store_file P parse f = (case sf_stat f of
     None \<Rightarrow> None
   | Some s \<Rightarrow> if private_file P s \<and> 1 \<le> st_size s \<and> st_size s \<le> max_store_bytes
                \<and> int (length (sf_body f)) = st_size s then parse (sf_body f) else None)"
proof (cases "sf_stat f")
  case (Some s)
  then show ?thesis
    using read_chunks_quiet [of "sf_body f" "length (sf_body f)" "[]"]
    by (auto simp: read_store_file_def read_durable_document_def quiet_observation_def guard_If
        split: option.split if_splits)
qed (simp add: read_store_file_def read_durable_document_def quiet_observation_def guard_If)

text \<open>Whatever happens during a read, a value it returns was parsed from what one unchanging
  private file of an acceptable size held.\<close>

theorem read_durable_sound:
  assumes "read_durable_document P parse ob = Some v"
  shows "\<exists>s body. ro_before ob = Some s \<and> ro_after ob = Some s \<and> ro_path_after ob = Some s
     \<and> ro_final ob = Some s \<and> ro_final_path ob = Some s \<and> private_file P s
     \<and> read_chunks (ro_chunks ob) [] = Some body \<and> int (length body) = st_size s
     \<and> 1 \<le> st_size s \<and> st_size s \<le> max_store_bytes \<and> parse body = Some v"
  using assms by (auto simp: read_durable_document_def bind_eq_Some_conv)

end
