(* ===== verification/Install_Jobs.thy ===== *)
theory Install_Jobs
  imports Install_Store
begin

text \<open>
  \<open>InstallJobManager\<close> of install\_jobs.py: the cache of the durable jobs, the in-memory claims,
  loading, saving with read-back, pruning, and the operations the executor and the user
  interface call.  Every \<open>await\<close> meets an \<open>op_io\<close>: what becomes of the file, whether the
  operation raises and whether the caller is cancelled meanwhile; the definitions take these
  as arguments, so the theorems hold for every behaviour of the disk and the event loop.
  One operation runs at a time (\<open>self._lock\<close>).
\<close>

datatype job_error =
    StoreError | ConflictError | CapacityError | NotFoundError | RevisionError
  | TransitionError | CleanupRequiredError
  | CallerCancelled  \<comment> \<open>\<open>asyncio.CancelledError\<close>\<close>
  | ClockUnderflow   \<comment> \<open>\<open>OverflowError\<close> of the retention cutoff\<close>
  | LostJob          \<comment> \<open>\<open>KeyError\<close> of the final look-up\<close>
  | TokensTaken      \<comment> \<open>every drawn id was in use: the code would draw again\<close>

section \<open>State and environment\<close>

datatype failure_event = RecordFailure receipt | ClearFailure receipt

record manager =
  mg_jobs :: "jobs option"
  mg_claimed :: "(string \<times> int) list"
  mg_jobs_file :: store_file
  mg_detail_file :: store_file
  mg_failures :: "failure_event list"

record op_io =
  oi_file :: "store_file option"
  oi_stopping :: bool
  oi_error :: bool
  oi_cancel :: bool

record details_io =
  de_presence :: op_io
  de_read :: op_io

record load_io =
  ld_presence :: op_io
  ld_read :: op_io
  ld_details :: details_io

record save_io =
  sv_stale :: details_io
  sv_detail_save :: op_io
  sv_detail_read :: details_io
  sv_save :: op_io
  sv_presence :: op_io
  sv_read :: op_io
  sv_reread :: details_io
  sv_compact_save :: op_io
  sv_compact_read :: details_io

definition touch :: "op_io \<Rightarrow> store_file \<Rightarrow> store_file" where
  "touch io f = (case oi_file io of None \<Rightarrow> f | Some g \<Rightarrow> g)"

definition run_presence ::
  "platform \<Rightarrow> string \<Rightarrow> op_io \<Rightarrow> store_file \<Rightarrow> (bool \<times> bool) option \<times> store_file" where
  "run_presence P name io f =
     (if oi_error io then None else store_presence P name (touch io f), touch io f)"

definition run_read ::
  "platform \<Rightarrow> (string \<Rightarrow> 'a option) \<Rightarrow> op_io \<Rightarrow> store_file \<Rightarrow> 'a option \<times> store_file" where
  "run_read P parse io f =
     (if oi_error io then None else read_store_file P parse (touch io f), touch io f)"

text \<open>\<open>_async_store_save\<close> and \<open>_async_detail_store_save\<close>: whether it raises, and the file.\<close>

definition run_save :: "op_io \<Rightarrow> store_file \<Rightarrow> bool \<times> store_file" where
  "run_save io f = (if oi_stopping io then (True, f) else (oi_error io, touch io f))"

text \<open>\<open>_async_read_details\<close>: the details, the file, and whether its caller was cancelled.\<close>

definition run_details ::
  "platform \<Rightarrow> details_io \<Rightarrow> store_file \<Rightarrow> details option \<times> store_file \<times> bool" where
  "run_details P io f =
     (let (p, f1) = run_presence P details_store_key (de_presence io) f;
          c1 = oi_cancel (de_presence io)
      in case p of
           None \<Rightarrow> (None, f1, c1)
         | Some (existed, corrupt) \<Rightarrow>
             (if corrupt then (None, f1, c1)
              else if \<not> existed then (Some [], f1, c1)
              else (let (r, f2) = run_read P (parse_detail_store_document P) (de_read io) f1
                    in (r, f2, c1 \<or> oi_cancel (de_read io)))))"

definition then_do ::
  "(job_error + 'a) \<times> manager \<Rightarrow> ('a \<Rightarrow> manager \<Rightarrow> (job_error + 'b) \<times> manager)
     \<Rightarrow> (job_error + 'b) \<times> manager" where
  "then_do m k = (case m of (Inl e, s) \<Rightarrow> (Inl e, s) | (Inr x, s) \<Rightarrow> k x s)"

section \<open>Cache and claims\<close>

definition invalidate_cache :: "manager \<Rightarrow> manager" where
  "invalidate_cache st = st\<lparr>mg_jobs := None, mg_claimed := []\<rparr>"

definition claim_stands :: "jobs \<Rightarrow> string \<times> int \<Rightarrow> bool" where
  "claim_stands jobs c = (case map_of jobs (fst c) of
     None \<Rightarrow> False
   | Some r \<Rightarrow> \<not> is_terminal r \<and> rc_phase r \<noteq> HealthyUnclaimed
               \<and> rc_executor_generation r = snd c)"

definition reconcile_claims :: "manager \<Rightarrow> manager" where
  "reconcile_claims st = (case mg_jobs st of
     None \<Rightarrow> st\<lparr>mg_claimed := []\<rparr>
   | Some jobs \<Rightarrow> st\<lparr>mg_claimed := filter (claim_stands jobs) (mg_claimed st)\<rparr>)"

definition raise_with_cache_dropped :: "job_error \<Rightarrow> manager \<Rightarrow> (job_error + 'a) \<times> manager" where
  "raise_with_cache_dropped e st = (Inl e, invalidate_cache st)"

section \<open>Loading\<close>

text \<open>
  \<open>_async_load_locked\<close>: presence, jobs, details, join; a claimed job that is not what the cache
  holds fails the load.  Cancellation and every error drop the cache and the claims.
\<close>

definition async_load_locked ::
  "platform \<Rightarrow> load_io \<Rightarrow> bool \<Rightarrow> manager \<Rightarrow> (job_error + jobs) \<times> manager" where
  "async_load_locked P io refresh st =
     (case (mg_jobs st, refresh) of
        (Some jobs, False) \<Rightarrow> (Inr jobs, st)
      | _ \<Rightarrow>
        (let (p, f1) = run_presence P jobs_store_key (ld_presence io) (mg_jobs_file st);
             st1 = st\<lparr>mg_jobs_file := f1\<rparr>
         in if oi_cancel (ld_presence io) then raise_with_cache_dropped CallerCancelled st1
            else case p of
              None \<Rightarrow> raise_with_cache_dropped StoreError st1
            | Some (existed, corrupt) \<Rightarrow>
               (if corrupt then raise_with_cache_dropped StoreError st1
                else
                  (let (r, f2) = (if existed
                          then run_read P (parse_store_document P) (ld_read io) f1 else (Some [], f1));
                       st2 = st1\<lparr>mg_jobs_file := f2\<rparr>
                   in if existed \<and> oi_cancel (ld_read io) then raise_with_cache_dropped CallerCancelled st2
                      else case r of
                        None \<Rightarrow> raise_with_cache_dropped StoreError st2
                      | Some loaded \<Rightarrow>
                         (let (d, f3, c) = run_details P (ld_details io) (mg_detail_file st2);
                              st3 = st2\<lparr>mg_detail_file := f3\<rparr>
                          in if c then raise_with_cache_dropped CallerCancelled st3
                             else case d of
                               None \<Rightarrow> raise_with_cache_dropped StoreError st3
                             | Some ds \<Rightarrow>
                                (case join_details P loaded ds of
                                   None \<Rightarrow> raise_with_cache_dropped StoreError st3
                                 | Some joined \<Rightarrow>
                                    (if (case mg_jobs st of None \<Rightarrow> False
                                         | Some old \<Rightarrow> list_ex (\<lambda>c. map_of joined (fst c) \<noteq> map_of old (fst c))
                                                        (mg_claimed st))
                                     then raise_with_cache_dropped StoreError st3
                                     else (Inr joined,
                                           reconcile_claims (st3\<lparr>mg_jobs := Some joined\<rparr>)))))))))"

text \<open>\<open>_async_load_durable_locked\<close>: two reads of both documents that must agree.\<close>

definition durable_snapshot ::
  "platform \<Rightarrow> load_io \<Rightarrow> manager \<Rightarrow> (job_error + jobs) \<times> manager" where
  "durable_snapshot P io st =
     (let (p, f1) = run_presence P jobs_store_key (ld_presence io) (mg_jobs_file st);
          st1 = st\<lparr>mg_jobs_file := f1\<rparr>
      in if oi_cancel (ld_presence io) then (Inl CallerCancelled, st1)
         else if p \<noteq> Some (True, False) then (Inl StoreError, st1)
         else
           (let (r, f2) = run_read P (parse_store_document P) (ld_read io) f1;
                st2 = st1\<lparr>mg_jobs_file := f2\<rparr>
            in if oi_cancel (ld_read io) then (Inl CallerCancelled, st2)
               else case r of
                 None \<Rightarrow> (Inl StoreError, st2)
               | Some loaded \<Rightarrow>
                  (let (d, f3, c) = run_details P (ld_details io) (mg_detail_file st2);
                       st3 = st2\<lparr>mg_detail_file := f3\<rparr>
                   in if c then (Inl CallerCancelled, st3)
                      else case d of
                        None \<Rightarrow> (Inl StoreError, st3)
                      | Some ds \<Rightarrow>
                         (case join_details P loaded ds of
                            None \<Rightarrow> (Inl StoreError, st3)
                          | Some joined \<Rightarrow> (Inr joined, st3)))))"

definition async_load_durable_locked ::
  "platform \<Rightarrow> load_io \<Rightarrow> load_io \<Rightarrow> manager \<Rightarrow> (job_error + jobs) \<times> manager" where
  "async_load_durable_locked P io1 io2 st =
     (case durable_snapshot P io1 st of
        (Inl e, st1) \<Rightarrow> raise_with_cache_dropped e st1
      | (Inr first, st1) \<Rightarrow>
         (case durable_snapshot P io2 st1 of
            (Inl e, st2) \<Rightarrow> raise_with_cache_dropped e st2
          | (Inr second, st2) \<Rightarrow>
             (if \<not> dict_eq first second then raise_with_cache_dropped StoreError st2
              else (Inr second, reconcile_claims (st2\<lparr>mg_jobs := Some second\<rparr>)))))"

section \<open>Saving\<close>

text \<open>No receipt of the candidate may be older than the cached one.\<close>

definition moves_back :: "jobs \<Rightarrow> jobs \<Rightarrow> bool" where
  "moves_back old jobs = list_ex (\<lambda>(job_id, previous). case map_of jobs job_id of
     None \<Rightarrow> False | Some candidate \<Rightarrow> rc_updated_at candidate < rc_updated_at previous) old"

text \<open>
  The first half of \<open>_async_save_locked\<close>: the details, the old and the new ones together, are
  written and read back before the jobs are touched.
\<close>

definition save_details ::
  "platform \<Rightarrow> save_io \<Rightarrow> details \<Rightarrow> manager \<Rightarrow> (job_error + details) \<times> manager" where
  "save_details P io ds st =
     (if ds = [] then (Inr [], st)
      else case validated_detail_document P ds of
        None \<Rightarrow> (Inl StoreError, st)
      | Some document \<Rightarrow>
         (let (failed, f1) = run_save (sv_detail_save io) (mg_detail_file st);
              (r, f2, c) = run_details P (sv_detail_read io) f1;
              st1 = st\<lparr>mg_detail_file := f2\<rparr>
          in if oi_cancel (sv_detail_save io) \<or> c then (Inl CallerCancelled, st1)
             else if failed then (Inl StoreError, st1)
             else case r of
               None \<Rightarrow> (Inl StoreError, st1)
             | Some verified \<Rightarrow> (if dict_eq verified ds then (Inr verified, st1)
                                else (Inl StoreError, st1))))"

text \<open>
  The second half: the jobs are written, and what the disk then holds is read, joined and
  compared.  The result carries whether the caller was cancelled meanwhile.
\<close>

definition save_primary ::
  "platform \<Rightarrow> save_io \<Rightarrow> jobs \<Rightarrow> pyval \<Rightarrow> details \<Rightarrow> details \<Rightarrow> manager
     \<Rightarrow> (job_error + jobs \<times> bool) \<times> manager" where
  "save_primary P io jobs document ds verified_details st =
     (let (failed0, f1) = run_save (sv_save io) (mg_jobs_file st);
          (p, f2) = run_presence P jobs_store_key (sv_presence io) f1;
          st1 = st\<lparr>mg_jobs_file := f2\<rparr>;
          cancelled1 = (oi_cancel (sv_save io) \<or> oi_cancel (sv_presence io))
      in if p \<noteq> Some (True, False)
         then (Inl (if cancelled1 then CallerCancelled else StoreError), st1)
         else
           (let (r, f3) = run_read P (parse_store_document P) (sv_read io) f2;
                st2 = st1\<lparr>mg_jobs_file := f3\<rparr>;
                cancelled2 = (cancelled1 \<or> oi_cancel (sv_read io))
            in case r of
                 None \<Rightarrow> (Inl (if cancelled2 then CallerCancelled else StoreError), st2)
               | Some loaded \<Rightarrow>
                  (let (again, f4, c) = (if ds = [] then (Some [], mg_detail_file st2, False)
                          else run_details P (sv_reread io) (mg_detail_file st2));
                       st3 = st2\<lparr>mg_detail_file := f4\<rparr>;
                       cancelled3 = (cancelled2 \<or> c)
                   in case join_details P loaded verified_details of
                        None \<Rightarrow> (Inl StoreError, st3)
                      | Some verified \<Rightarrow>
                         (let failed = (failed0
                                \<or> (case again of None \<Rightarrow> True | Some x \<Rightarrow> \<not> dict_eq x ds)
                                \<or> \<not> dict_eq verified jobs \<or> serialize_document loaded \<noteq> document)
                          in if failed
                             then (Inl (if cancelled3 then CallerCancelled else StoreError), st3)
                             else (Inr (verified, cancelled3), st3)))))"

definition failure_events :: "jobs option \<Rightarrow> jobs \<Rightarrow> failure_event list" where
  "failure_events old verified = concat (map (\<lambda>(job_id, r).
     let previous = (case old of None \<Rightarrow> None | Some jobs \<Rightarrow> map_of jobs job_id)
     in if rc_phase r \<in> {Failed, RecoveryRequired}
           \<and> (case previous of None \<Rightarrow> True | Some q \<Rightarrow> \<not> is_terminal q)
        then [RecordFailure r]
        else if rc_phase r = Consumed
           \<and> (case previous of None \<Rightarrow> True | Some q \<Rightarrow> rc_phase q \<noteq> Consumed)
        then [ClearFailure r] else []) verified)"

text \<open>The best-effort clean-up after the commit; only a cancellation shows.\<close>

definition compact_details :: "platform \<Rightarrow> save_io \<Rightarrow> manager \<Rightarrow> (job_error + unit) \<times> manager" where
  "compact_details P io st =
     (let (failed, f1) = run_save (sv_compact_save io) (mg_detail_file st);
          (r, f2, c) = run_details P (sv_compact_read io) f1;
          st1 = st\<lparr>mg_detail_file := f2\<rparr>
      in if oi_cancel (sv_compact_save io) \<or> c then raise_with_cache_dropped CallerCancelled st1
         else (Inr (), st1))"

definition commit_jobs :: "jobs \<Rightarrow> manager \<Rightarrow> manager" where
  "commit_jobs verified st =
     reconcile_claims (st\<lparr>mg_failures := mg_failures st @ failure_events (mg_jobs st) verified,
                          mg_jobs := Some verified\<rparr>)"

text \<open>Details, then jobs, then the commit to the cache; a cancelled caller may have committed.\<close>

definition save_documents ::
  "platform \<Rightarrow> save_io \<Rightarrow> jobs \<Rightarrow> pyval \<Rightarrow> details \<Rightarrow> bool \<Rightarrow> manager \<Rightarrow> (job_error + unit) \<times> manager" where
  "save_documents P io jobs document ds compacting st =
     (case save_details P io ds st of
        (Inl e, st1) \<Rightarrow> raise_with_cache_dropped e st1
      | (Inr verified_details, st1) \<Rightarrow>
         (case save_primary P io jobs document ds verified_details st1 of
            (Inl e, st2) \<Rightarrow> raise_with_cache_dropped e st2
          | (Inr (verified, cancelled), st2) \<Rightarrow>
             (if cancelled then raise_with_cache_dropped CallerCancelled (commit_jobs verified st2)
              else if compacting then compact_details P io (commit_jobs verified st2)
              else (Inr (), commit_jobs verified st2))))"

definition async_save_locked ::
  "platform \<Rightarrow> save_io \<Rightarrow> jobs \<Rightarrow> manager \<Rightarrow> (job_error + unit) \<times> manager" where
  "async_save_locked P io jobs st =
     (case (validated_document_for_save P jobs, mg_jobs st) of
        (Some document, Some old) \<Rightarrow>
          (if moves_back old jobs then raise_with_cache_dropped StoreError st
           else
             (let retained = retained_details P jobs;
                  ds = dict_update (retained_details P old) retained;
                  (stale_read, f0, c0) = (if ds = [] then run_details P (sv_stale io) (mg_detail_file st)
                                          else (Some [], mg_detail_file st, False));
                  st0 = st\<lparr>mg_detail_file := f0\<rparr>
              in if c0 then raise_with_cache_dropped CallerCancelled st0
                 else case stale_read of
                   None \<Rightarrow> raise_with_cache_dropped StoreError st0
                 | Some stale \<Rightarrow>
                    (let compacting = (\<not> dict_eq ds retained \<or> (ds = [] \<and> stale \<noteq> []))
                     in if compacting \<and> validated_detail_document P retained = None
                        then raise_with_cache_dropped StoreError st0
                        else save_documents P io jobs document ds compacting st0)))
      | _ \<Rightarrow> raise_with_cache_dropped StoreError st)"

section \<open>Retention\<close>

text \<open>Seconds since 0001-01-01T00:00:00 of a timestamp the code accepts.\<close>

definition days_before_year :: "int \<Rightarrow> int" where
  "days_before_year y = 365 * (y - 1) + (y - 1) div 4 - (y - 1) div 100 + (y - 1) div 400"

fun days_before_month :: "int \<Rightarrow> nat \<Rightarrow> int" where
  "days_before_month y 0 = 0"
| "days_before_month y (Suc m) = days_before_month y m + (if m = 0 then 0 else days_in_month y (int m))"

definition ts_seconds :: "string \<Rightarrow> int" where
  "ts_seconds s =
     (let y = digits_at s 0 4; m = digits_at s 5 2; d = digits_at s 8 2
      in 86400 * (days_before_year y + days_before_month y (nat m) + (d - 1))
         + 3600 * digits_at s 11 2 + 60 * digits_at s 14 2 + digits_at s 17 2)"

abbreviation terminal_retention :: int where "terminal_retention \<equiv> 604800"

text \<open>The terminal receipts, newest first.\<close>

definition by_recency :: "jobs \<Rightarrow> receipt list" where
  "by_recency jobs = rev (sort_key (\<lambda>r. (rc_updated_at r, rc_job_id r)) (terminal_jobs jobs))"

definition retained_ids :: "jobs \<Rightarrow> string \<Rightarrow> string list" where
  "retained_ids jobs now = map rc_job_id
     (filter (\<lambda>r. ts_seconds now - terminal_retention \<le> ts_seconds (rc_updated_at r))
       (take max_terminal_jobs (by_recency jobs)))"

definition prune :: "jobs \<Rightarrow> string \<Rightarrow> job_error + jobs" where
  "prune jobs now =
     (if ts_seconds now < terminal_retention then Inl ClockUnderflow
      else Inr (foldl (\<lambda>js r. if rc_job_id r \<in> set (retained_ids jobs now) then js
                             else AList.delete (rc_job_id r) js) jobs (by_recency jobs)))"

section \<open>Operations\<close>

definition checked_current :: "jobs \<Rightarrow> string \<Rightarrow> int \<Rightarrow> job_error + receipt" where
  "checked_current jobs job_id expected =
     (if \<not> hex_32 job_id then Inl NotFoundError
      else case map_of jobs job_id of
        None \<Rightarrow> Inl NotFoundError
      | Some r \<Rightarrow> if rc_revision r \<noteq> expected then Inl RevisionError else Inr r)"

definition clock :: "string \<Rightarrow> job_error + string" where
  "clock now = or_raise (timestamp (PStr now)) StoreError"

text \<open>Save the candidate and return one of its receipts from the verified cache.\<close>

definition save_and_return ::
  "platform \<Rightarrow> save_io \<Rightarrow> jobs \<Rightarrow> string \<Rightarrow> manager \<Rightarrow> (job_error + receipt) \<times> manager" where
  "save_and_return P io jobs job_id st =
     then_do (async_save_locked P io jobs st) (\<lambda>_ st'.
       case mg_jobs st' of
         None \<Rightarrow> (Inl LostJob, st')
       | Some js \<Rightarrow> (case map_of js job_id of None \<Rightarrow> (Inl LostJob, st') | Some r \<Rightarrow> (Inr r, st')))"

definition lift_res :: "job_error + 'a \<Rightarrow> manager \<Rightarrow> (job_error + 'a) \<times> manager" where
  "lift_res r st = (r, st)"

section \<open>Creating or joining\<close>

definition new_receipt ::
  "string \<Rightarrow> string \<Rightarrow> install_target \<Rightarrow> install_artifact \<Rightarrow> string \<Rightarrow> string \<Rightarrow> receipt" where
  "new_receipt job_id now t a plan credential =
     \<lparr>rc_job_id = job_id, rc_revision = 0, rc_executor_generation = 0, rc_created_at = now,
      rc_updated_at = now, rc_phase = Approved, rc_cancel_requested = False, rc_attempt = 0,
      rc_target = t, rc_artifact = a, rc_plan_sha256 = plan, rc_adb_credential_id = credential,
      rc_preflight_root_mode = None, rc_actual_apk_bytes = None, rc_health_checked_at = None,
      rc_result_code = None, rc_consumed_entry_id = None, rc_failure_stage = None,
      rc_result_subcode = None, rc_home_claim_deferred = False\<rparr>"

text \<open>The first active job on the device, in the order of the dict.\<close>

definition job_on_device :: "jobs \<Rightarrow> install_target \<Rightarrow> receipt option" where
  "job_on_device jobs t = find (\<lambda>r. \<not> is_terminal r \<and> same_device (rc_target r) t) (dict_values jobs)"

datatype create_plan = JoinJob receipt | CreateJob jobs string

definition plan_create ::
  "jobs \<Rightarrow> string \<Rightarrow> string list \<Rightarrow> install_target \<Rightarrow> install_artifact \<Rightarrow> string \<Rightarrow> string
     \<Rightarrow> job_error + create_plan" where
  "plan_create jobs now tokens t a plan credential =
     bind_res (prune jobs now) (\<lambda>pruned.
       case job_on_device pruned t of
         Some r \<Rightarrow>
           (if rc_target r = t \<and> rc_artifact r = a \<and> rc_plan_sha256 r = plan
               \<and> rc_adb_credential_id r = credential
            then Inr (JoinJob r) else Inl ConflictError)
       | None \<Rightarrow>
           (if max_active_jobs \<le> length (active_jobs pruned) then Inl CapacityError
            else case find (\<lambda>t. t \<notin> dict_keys pruned) tokens of
              None \<Rightarrow> Inl TokensTaken
            | Some job_id \<Rightarrow>
                Inr (CreateJob (AList.update job_id (new_receipt job_id now t a plan credential) pruned)
                       job_id)))"

text \<open>The checks of the arguments, before the lock is taken.\<close>

definition checked_plan ::
  "platform \<Rightarrow> install_target \<Rightarrow> install_artifact \<Rightarrow> string \<Rightarrow> string
     \<Rightarrow> job_error + install_target \<times> install_artifact" where
  "checked_plan P target artifact plan credential =
     bind_res (or_raise (parse_target P (PDict (target_document target))) StoreError) (\<lambda>t.
     bind_res (or_raise (parse_artifact (PDict (artifact_fields PTuple artifact))) StoreError) (\<lambda>a.
     bind_res (or_raise (install_plan_sha256 P t a credential (hd install_plan_schemas)) StoreError)
       (\<lambda>expected.
         if plan \<noteq> expected \<or> \<not> sha256_text credential
            \<or> tg_primary_abi t \<notin> set (ar_supported_abis a) \<or> tg_android_sdk t < ar_min_sdk a
         then Inl TransitionError else Inr (t, a))))"

definition async_create_or_join ::
  "platform \<Rightarrow> load_io \<Rightarrow> save_io \<Rightarrow> string \<Rightarrow> string list \<Rightarrow> install_target \<Rightarrow> install_artifact
     \<Rightarrow> string \<Rightarrow> string \<Rightarrow> manager \<Rightarrow> (job_error + receipt \<times> bool) \<times> manager" where
  "async_create_or_join P lio sio now tokens target artifact plan credential st =
     then_do (lift_res (checked_plan P target artifact plan credential) st) (\<lambda>(t, a) st0.
     then_do (async_load_locked P lio True st0) (\<lambda>jobs st1.
     then_do (lift_res (bind_res (clock now) (\<lambda>ts.
                plan_create jobs ts tokens t a plan credential)) st1) (\<lambda>decision st2.
       case decision of
         JoinJob r \<Rightarrow> (Inr (r, False), st2)
       | CreateJob candidate job_id \<Rightarrow>
           then_do (save_and_return P sio candidate job_id st2) (\<lambda>r st3. (Inr (r, True), st3)))))"

section \<open>Reading\<close>

definition async_get ::
  "platform \<Rightarrow> load_io \<Rightarrow> string \<Rightarrow> manager \<Rightarrow> (job_error + receipt) \<times> manager" where
  "async_get P io job_id st =
     (if \<not> hex_32 job_id then (Inl NotFoundError, st)
      else then_do (async_load_locked P io True st) (\<lambda>jobs st1.
        (or_raise (map_of jobs job_id) NotFoundError, st1)))"

definition async_list ::
  "platform \<Rightarrow> load_io \<Rightarrow> manager \<Rightarrow> (job_error + receipt list) \<times> manager" where
  "async_list P io st = then_do (async_load_locked P io True st) (\<lambda>jobs st1. (Inr (listed jobs), st1))"

definition job_at_address :: "jobs \<Rightarrow> string \<Rightarrow> string \<Rightarrow> job_error + receipt option" where
  "job_at_address jobs address pinned_address =
     (case find (\<lambda>r. \<not> is_terminal r \<and> (tg_address (rc_target r) = address
              \<or> tg_pinned_address (rc_target r) = pinned_address)) (dict_values jobs) of
        None \<Rightarrow> Inr None
      | Some r \<Rightarrow> (if tg_address (rc_target r) = address \<and> tg_pinned_address (rc_target r) = pinned_address
                 then Inr (Some r) else Inl ConflictError))"

definition async_find_active ::
  "platform \<Rightarrow> load_io \<Rightarrow> string \<Rightarrow> string \<Rightarrow> manager \<Rightarrow> (job_error + receipt option) \<times> manager" where
  "async_find_active P io address pinned_address st =
     (if \<not> target_addresses_ok P address pinned_address then (Inl StoreError, st)
      else then_do (async_load_locked P io True st) (\<lambda>jobs st1.
        (job_at_address jobs address pinned_address, st1)))"

section \<open>Cancelling\<close>

datatype receipt_plan = KeepReceipt receipt | StoreReceipt receipt

definition cancel_plan :: "string \<Rightarrow> receipt \<Rightarrow> job_error + receipt_plan" where
  "cancel_plan now current =
     (if rc_phase current \<notin> cancellable_phases then Inl TransitionError
      else if rc_cancel_requested current then Inr (KeepReceipt current)
      else bind_res (clock now) (\<lambda>ts. Inr (StoreReceipt (current\<lparr>
        rc_revision := rc_revision current + 1, rc_updated_at := ts,
        rc_cancel_requested := True\<rparr>))))"

definition async_request_cancel ::
  "platform \<Rightarrow> load_io \<Rightarrow> save_io \<Rightarrow> string \<Rightarrow> string \<Rightarrow> int \<Rightarrow> manager
     \<Rightarrow> (job_error + receipt) \<times> manager" where
  "async_request_cancel P lio sio now job_id expected st =
     then_do (async_load_locked P lio True st) (\<lambda>jobs st1.
     then_do (lift_res (bind_res (checked_current jobs job_id expected) (cancel_plan now)) st1)
       (\<lambda>plan st2. case plan of
          KeepReceipt r \<Rightarrow> (Inr r, st2)
        | StoreReceipt r \<Rightarrow> save_and_return P sio (AList.update job_id r jobs) job_id st2))"

section \<open>Claiming\<close>

definition attempts_exhausted :: "receipt \<Rightarrow> bool" where
  "attempts_exhausted r \<longleftrightarrow> max_executor_generation \<le> rc_executor_generation r
     \<or> max_attempts \<le> rc_attempt r"

text \<open>What a claim stores: recovery when the attempts are used up or an earlier process may have
  been interrupted while it changed the panel, the next generation otherwise.\<close>

definition exhausted_receipt :: "string \<Rightarrow> receipt \<Rightarrow> receipt" where
  "exhausted_receipt ts r = r\<lparr>rc_revision := rc_revision r + 1, rc_updated_at := ts,
     rc_phase := RecoveryRequired, rc_result_code := Some VerificationRequired,
     rc_failure_stage := Some (rc_phase r), rc_result_subcode := Some ''job:attempts_exhausted''\<rparr>"

definition claimed_receipt :: "string \<Rightarrow> receipt \<Rightarrow> receipt" where
  "claimed_receipt ts r =
     (let ambiguous = rc_phase r \<in> restart_ambiguous_phases;
          phase = (if ambiguous then RecoveryRequired else rc_phase r)
      in r\<lparr>rc_revision := rc_revision r + 1,
           rc_executor_generation := rc_executor_generation r + 1, rc_updated_at := ts,
           rc_phase := phase, rc_attempt := rc_attempt r + 1,
           rc_result_code := (if ambiguous then Some VerificationRequired else None),
           rc_failure_stage := (if phase = RecoveryRequired then Some (rc_phase r) else None),
           rc_result_subcode := (if phase = RecoveryRequired
                                 then Some ''job:interrupted_mutation'' else None)\<rparr>)"

definition claim_plan ::
  "string \<Rightarrow> (string \<times> int) list \<Rightarrow> string \<Rightarrow> int option \<Rightarrow> receipt \<Rightarrow> job_error + receipt_plan" where
  "claim_plan now claimed job_id confirmed current =
     (if is_terminal current \<or> rc_phase current = HealthyUnclaimed then Inl TransitionError
      else if confirmed \<noteq> None \<and> confirmed \<noteq> Some (rc_revision current) then Inl RevisionError
      else if map_of claimed job_id = Some (rc_executor_generation current)
        then Inr (KeepReceipt current)
      else if (attempts_exhausted current \<or> rc_phase current \<in> restart_ambiguous_phases)
              \<and> confirmed = None then Inl CleanupRequiredError
      else bind_res (clock now) (\<lambda>ts. Inr (StoreReceipt
        (if attempts_exhausted current then exhausted_receipt ts current
         else claimed_receipt ts current))))"

definition record_claim :: "string \<Rightarrow> receipt \<Rightarrow> manager \<Rightarrow> manager" where
  "record_claim job_id r st = (if \<not> is_terminal r
     then st\<lparr>mg_claimed := AList.update job_id (rc_executor_generation r) (mg_claimed st)\<rparr> else st)"

definition store_claim ::
  "platform \<Rightarrow> save_io \<Rightarrow> jobs \<Rightarrow> string \<Rightarrow> receipt \<Rightarrow> manager \<Rightarrow> (job_error + receipt) \<times> manager" where
  "store_claim P sio jobs job_id r st =
     then_do (lift_res (prune (AList.update job_id r jobs) (rc_updated_at r)) st) (\<lambda>candidate st1.
     then_do (save_and_return P sio candidate job_id st1) (\<lambda>persisted st2.
       (Inr persisted, record_claim job_id persisted st2)))"

definition async_claim ::
  "platform \<Rightarrow> load_io \<Rightarrow> save_io \<Rightarrow> string \<Rightarrow> string \<Rightarrow> int \<Rightarrow> int option \<Rightarrow> manager
     \<Rightarrow> (job_error + receipt) \<times> manager" where
  "async_claim P lio sio now job_id expected confirmed st =
     then_do (async_load_locked P lio True st) (\<lambda>jobs st1.
     then_do (lift_res (bind_res (checked_current jobs job_id expected)
                (claim_plan now (mg_claimed st1) job_id confirmed)) st1)
       (\<lambda>plan st2. case plan of
          KeepReceipt r \<Rightarrow> (Inr r, st2)
        | StoreReceipt r \<Rightarrow> store_claim P sio jobs job_id r st2))"

section \<open>Advancing\<close>

record transition_args =
  ta_phase :: install_phase
  ta_root_mode :: "string option"
  ta_actual_apk_bytes :: "int option"
  ta_health_checked_at :: "string option"
  ta_result_code :: "result_code option"
  ta_result_subcode :: "string option"
  ta_consumed_entry_id :: "string option"
  ta_home_claim_deferred :: "bool option"

text \<open>The argument checks before the lock.\<close>

definition transition_args_ok :: "platform \<Rightarrow> transition_args \<Rightarrow> bool" where
  "transition_args_ok P a \<longleftrightarrow>
     (case ta_result_subcode a of None \<Rightarrow> True | Some s \<Rightarrow> subcode_text s)
     \<and> (case ta_root_mode a of None \<Rightarrow> True
        | Some m \<Rightarrow> safe_text (PStr m) 16 \<noteq> None \<and> m \<in> root_modes)
     \<and> (case ta_actual_apk_bytes a of None \<Rightarrow> True
        | Some n \<Rightarrow> integer_in (PInt n) 1 max_apk_bytes \<noteq> None)
     \<and> (case ta_health_checked_at a of None \<Rightarrow> True | Some h \<Rightarrow> timestamp (PStr h) \<noteq> None)
     \<and> (case ta_consumed_entry_id a of None \<Rightarrow> True
        | Some e \<Rightarrow> safe_text (PStr e) 32 \<noteq> None \<and> is_config_entry_id P e)"

text \<open>Which facts the step brings: exactly those, and each only once.\<close>

definition transition_facts_ok :: "receipt \<Rightarrow> transition_args \<Rightarrow> bool" where
  "transition_facts_ok r a \<longleftrightarrow>
     (if rc_phase r = Preflight \<and> ta_phase a \<in> {Downloading, Installed}
      then ta_root_mode a \<noteq> None \<and> rc_preflight_root_mode r = None
      else ta_root_mode a = None)
     \<and> (if ta_phase a = ArtifactReady \<or> (rc_phase r = Preflight \<and> ta_phase a = Installed)
        then ta_actual_apk_bytes a \<noteq> None \<and> rc_actual_apk_bytes r = None
        else ta_actual_apk_bytes a = None)
     \<and> (if ta_phase a = HealthyUnclaimed
        then ta_health_checked_at a \<noteq> None \<and> rc_health_checked_at r = None
        else ta_health_checked_at a = None)
     \<and> (ta_home_claim_deferred a = None \<or> ta_phase a \<in> {HealthCheck, HealthyUnclaimed})"

text \<open>Which result the step may record.\<close>

definition transition_result_ok :: "receipt \<Rightarrow> transition_args \<Rightarrow> bool" where
  "transition_result_ok r a \<longleftrightarrow>
     (if ta_phase a = Cancelled then
        rc_cancel_requested r
        \<and> ta_result_code a = Some (if rc_phase r = Staging then CancelledAfterStagingCleanup
                                   else CancelledByUser)
        \<and> ta_consumed_entry_id a = None
      else if ta_phase a = Failed then ta_consumed_entry_id a = None
      else if ta_phase a = RecoveryRequired then
        ta_result_code a \<in> Some ` recovery_codes \<and> ta_consumed_entry_id a = None
      else if ta_phase a = Consumed then
        ta_result_code a = Some EntryCreated \<and> ta_consumed_entry_id a \<noteq> None
      else ta_result_code a = None \<and> ta_consumed_entry_id a = None)"

definition transition_allowed ::
  "(string \<times> int) list \<Rightarrow> string \<Rightarrow> receipt \<Rightarrow> transition_args \<Rightarrow> bool" where
  "transition_allowed claimed job_id r a \<longleftrightarrow>
     ta_phase a \<in> next_phase (rc_phase r)
     \<and> \<not> (rc_cancel_requested r \<and> ta_phase a \<notin> {Cancelled, Failed, RecoveryRequired})
     \<and> \<not> (\<not> (rc_phase r = HealthyUnclaimed \<and> ta_phase a \<in> {Consumed, RecoveryRequired})
           \<and> map_of claimed job_id \<noteq> Some (rc_executor_generation r))
     \<and> transition_facts_ok r a \<and> transition_result_ok r a"

definition or_keep :: "'a option \<Rightarrow> 'a \<Rightarrow> 'a" where
  "or_keep x y = (case x of None \<Rightarrow> y | Some z \<Rightarrow> z)"

definition transitioned :: "string \<Rightarrow> receipt \<Rightarrow> transition_args \<Rightarrow> receipt" where
  "transitioned ts r a = r\<lparr>
     rc_revision := rc_revision r + 1,
     rc_updated_at := ts,
     rc_phase := ta_phase a,
     rc_preflight_root_mode := (if ta_root_mode a = None then rc_preflight_root_mode r
                                else ta_root_mode a),
     rc_actual_apk_bytes := (if ta_actual_apk_bytes a = None then rc_actual_apk_bytes r
                             else ta_actual_apk_bytes a),
     rc_health_checked_at := (if rc_phase r = HealthyUnclaimed \<and> ta_phase a = RecoveryRequired
                              then None
                              else if ta_health_checked_at a = None then rc_health_checked_at r
                              else ta_health_checked_at a),
     rc_result_code := ta_result_code a,
     rc_failure_stage := (if ta_phase a \<in> {Failed, RecoveryRequired} then Some (rc_phase r)
                          else None),
     rc_result_subcode := (if ta_phase a \<in> {Failed, RecoveryRequired} \<and> ta_result_code a \<noteq> None
                           then ta_result_subcode a else None),
     rc_consumed_entry_id := ta_consumed_entry_id a,
     rc_home_claim_deferred := or_keep (ta_home_claim_deferred a) (rc_home_claim_deferred r)\<rparr>"

definition transition_plan ::
  "platform \<Rightarrow> string \<Rightarrow> (string \<times> int) list \<Rightarrow> string \<Rightarrow> transition_args \<Rightarrow> receipt
     \<Rightarrow> job_error + receipt" where
  "transition_plan P now claimed job_id a current =
     (if \<not> transition_allowed claimed job_id current a then Inl TransitionError
      else bind_res (clock now) (\<lambda>ts.
        if receipt_invariants P (transitioned ts current a)
        then Inr (transitioned ts current a) else Inl TransitionError))"

definition async_transition ::
  "platform \<Rightarrow> load_io \<Rightarrow> save_io \<Rightarrow> string \<Rightarrow> string \<Rightarrow> int \<Rightarrow> transition_args \<Rightarrow> manager
     \<Rightarrow> (job_error + receipt) \<times> manager" where
  "async_transition P lio sio now job_id expected a st =
     (if \<not> transition_args_ok P a then (Inl TransitionError, st)
      else then_do (async_load_locked P lio True st) (\<lambda>jobs st1.
        then_do (lift_res (bind_res (checked_current jobs job_id expected)
                   (transition_plan P now (mg_claimed st1) job_id a)) st1) (\<lambda>r st2.
        then_do (lift_res (prune (AList.update job_id r jobs) (rc_updated_at r)) st2)
          (\<lambda>candidate st3. save_and_return P sio candidate job_id st3))))"

section \<open>Barriers\<close>

text \<open>The two barriers differ only in the phases they allow and the cancellation they expect.\<close>

definition verify_barrier ::
  "platform \<Rightarrow> load_io \<Rightarrow> load_io \<Rightarrow> load_io \<Rightarrow> string \<Rightarrow> int \<Rightarrow> install_phase \<Rightarrow> bool \<Rightarrow> manager
     \<Rightarrow> (job_error + receipt) \<times> manager" where
  "verify_barrier P lio io1 io2 job_id expected phase cancel st =
     then_do (async_load_locked P lio False st) (\<lambda>jobs st1.
     then_do (lift_res (checked_current jobs job_id expected) st1) (\<lambda>in_memory st2.
     then_do (async_load_durable_locked P io1 io2 st2) (\<lambda>durable st3.
     then_do (lift_res (checked_current durable job_id expected) st3) (\<lambda>r st4.
       if r \<noteq> in_memory \<or> rc_phase r \<noteq> phase \<or> rc_cancel_requested r \<noteq> cancel
          \<or> map_of (mg_claimed st4) job_id \<noteq> Some (rc_executor_generation r)
       then raise_with_cache_dropped TransitionError st4 else (Inr r, st4)))))"

definition async_verify_mutation_barrier ::
  "platform \<Rightarrow> load_io \<Rightarrow> load_io \<Rightarrow> load_io \<Rightarrow> string \<Rightarrow> int \<Rightarrow> install_phase \<Rightarrow> manager
     \<Rightarrow> (job_error + receipt) \<times> manager" where
  "async_verify_mutation_barrier P lio io1 io2 job_id expected phase st =
     (if phase \<notin> mutation_barriers then (Inl TransitionError, st)
      else verify_barrier P lio io1 io2 job_id expected phase False st)"

definition async_verify_cleanup_barrier ::
  "platform \<Rightarrow> load_io \<Rightarrow> load_io \<Rightarrow> load_io \<Rightarrow> string \<Rightarrow> int \<Rightarrow> install_phase \<Rightarrow> manager
     \<Rightarrow> (job_error + receipt) \<times> manager" where
  "async_verify_cleanup_barrier P lio io1 io2 job_id expected phase st =
     (case cleanup_barrier_cancel_polarity phase of
        None \<Rightarrow> (Inl TransitionError, st)
      | Some cancel \<Rightarrow> verify_barrier P lio io1 io2 job_id expected phase cancel st)"


section \<open>The manager's invariant\<close>

definition manager_ok :: "platform \<Rightarrow> manager \<Rightarrow> bool" where
  "manager_ok P st \<longleftrightarrow> dict_ok (mg_claimed st) \<and> (case mg_jobs st of
     None \<Rightarrow> mg_claimed st = []
   | Some jobs \<Rightarrow> jobs_ok P jobs \<and> list_all (claim_stands jobs) (mg_claimed st))"

definition cache_dropped :: "manager \<Rightarrow> bool" where
  "cache_dropped st \<longleftrightarrow> mg_jobs st = None \<and> mg_claimed st = []"

lemma manager_ok_dropped: "cache_dropped st \<Longrightarrow> manager_ok P st"
  by (simp add: cache_dropped_def manager_ok_def)

lemma dropped_invalidate [simp]: "cache_dropped (invalidate_cache st)"
  by (simp add: cache_dropped_def invalidate_cache_def)

lemma raise_dropped: "raise_with_cache_dropped e st = (res, st') \<Longrightarrow> res = Inl e \<and> cache_dropped st'"
  by (auto simp: raise_with_cache_dropped_def)

lemma list_all_filter [simp]: "list_all Q (filter Q xs)"
  by (simp add: list_all_iff)

lemma reconcile_Some [simp]:
  "mg_jobs (reconcile_claims st) = mg_jobs st"
  "mg_jobs_file (reconcile_claims st) = mg_jobs_file st"
  "mg_detail_file (reconcile_claims st) = mg_detail_file st"
  "mg_failures (reconcile_claims st) = mg_failures st"
  "mg_jobs st = Some jobs \<Longrightarrow> mg_claimed (reconcile_claims st) = filter (claim_stands jobs) (mg_claimed st)"
  by (simp_all add: reconcile_claims_def split: option.split)

lemma join_loaded_ok:
  "run_read P (parse_store_document P) io f = (Some loaded, f') \<Longrightarrow> join_details P loaded ds = Some joined
     \<Longrightarrow> jobs_ok P joined"
  by (auto simp: run_read_def read_store_file_quiet parse_store_document_def bind_eq_Some_conv
      split: if_splits option.splits intro: join_details_ok dest: parse_document_ok(1))

lemma jobs_ok_Nil [simp]: "jobs_ok P []"
  by (simp add: jobs_ok_def active_jobs_def terminal_jobs_def dict_values_def)

text \<open>What a load leaves: a checked cache whose claims stand, or no cache at all.\<close>

lemma load_refresh_Inr:
  assumes "async_load_locked P io True st = (Inr jobs, st')"
  shows "jobs_ok P jobs \<and> mg_jobs st' = Some jobs
     \<and> mg_claimed st' = filter (claim_stands jobs) (mg_claimed st) \<and> mg_failures st' = mg_failures st"
  using assms
  by (auto simp: async_load_locked_def Let_def raise_with_cache_dropped_def
      split: prod.splits option.splits if_splits intro: join_loaded_ok)

lemma load_Inl:
  assumes "async_load_locked P io refresh st = (Inl e, st')"
  shows "e \<in> {StoreError, CallerCancelled} \<and> cache_dropped st'"
  using assms
  by (auto simp: async_load_locked_def Let_def raise_with_cache_dropped_def
      split: prod.splits option.splits if_splits bool.splits)

text \<open>What a save leaves: the candidate, verified on the disk, or no cache at all.\<close>

lemma run_read_Some:
  "run_read P parse io f = (Some v, f') \<Longrightarrow> read_store_file P parse f' = Some v"
  by (auto simp: run_read_def split: if_splits)

definition on_disk :: "platform \<Rightarrow> store_file \<Rightarrow> jobs \<Rightarrow> bool" where
  "on_disk P f loaded \<longleftrightarrow> read_store_file P (parse_store_document P) f = Some loaded"

lemma joined_on_disk_ok:
  "read_store_file P (parse_store_document P) f = Some loaded \<Longrightarrow>
     join_details P loaded ds = Some joined \<Longrightarrow> jobs_ok P joined"
  by (auto simp: read_store_file_quiet parse_store_document_def bind_eq_Some_conv
      split: if_splits option.splits intro: join_details_ok dest: parse_document_ok(1))

lemma save_primary_Inr:
  assumes "save_primary P io jobs document ds vds st = (Inr (verified, c), st')"
  shows "\<exists>loaded. on_disk P (mg_jobs_file st') loaded \<and> serialize_document loaded = document
     \<and> join_details P loaded vds = Some verified \<and> dict_eq verified jobs \<and> jobs_ok P verified
     \<and> mg_jobs st' = mg_jobs st \<and> mg_claimed st' = mg_claimed st \<and> mg_failures st' = mg_failures st"
  using assms
  by (auto simp: save_primary_def Let_def on_disk_def
      split: prod.splits option.splits if_splits intro: joined_on_disk_ok dest!: run_read_Some)

lemma save_primary_Inl:
  "save_primary P io jobs document ds vds st = (Inl e, st') \<Longrightarrow> e \<in> {StoreError, CallerCancelled}"
  by (auto simp: save_primary_def Let_def split: prod.splits option.splits if_splits)

lemma save_details_Inr:
  "save_details P io ds st = (Inr v, st') \<Longrightarrow> dict_eq v ds \<and> mg_jobs st' = mg_jobs st
     \<and> mg_claimed st' = mg_claimed st \<and> mg_failures st' = mg_failures st"
  by (auto simp: save_details_def Let_def dict_eq_def split: prod.splits option.splits if_splits)

lemma save_details_Inl:
  "save_details P io ds st = (Inl e, st') \<Longrightarrow> e \<in> {StoreError, CallerCancelled}"
  by (auto simp: save_details_def Let_def split: prod.splits option.splits if_splits)

lemma commit_jobs_simps [simp]:
  "mg_jobs (commit_jobs v st) = Some v"
  "mg_claimed (commit_jobs v st) = filter (claim_stands v) (mg_claimed st)"
  "mg_jobs_file (commit_jobs v st) = mg_jobs_file st"
  "mg_failures (commit_jobs v st) = mg_failures st @ failure_events (mg_jobs st) v"
  by (simp_all add: commit_jobs_def)

lemma compact_details_cases:
  "compact_details P io st = (res, st') \<Longrightarrow>
     (res = Inl CallerCancelled \<and> cache_dropped st') \<or>
     (res = Inr () \<and> mg_jobs st' = mg_jobs st \<and> mg_claimed st' = mg_claimed st
        \<and> mg_jobs_file st' = mg_jobs_file st \<and> mg_failures st' = mg_failures st)"
  by (auto simp: compact_details_def Let_def raise_with_cache_dropped_def split: prod.splits if_splits)

lemma save_documents_Inl:
  "save_documents P io jobs document ds compacting st = (Inl e, st') \<Longrightarrow>
     e \<in> {StoreError, CallerCancelled} \<and> cache_dropped st'"
  by (auto simp: save_documents_def raise_with_cache_dropped_def
      split: prod.splits if_splits sum.splits
      dest!: save_details_Inl save_primary_Inl dest: compact_details_cases)

lemma save_documents_Inr:
  assumes "save_documents P io jobs document ds compacting st = (Inr u, st')" "mg_jobs st = Some old"
  shows "\<exists>verified loaded. mg_jobs st' = Some verified \<and> dict_eq verified jobs \<and> jobs_ok P verified
     \<and> mg_claimed st' = filter (claim_stands verified) (mg_claimed st)
     \<and> on_disk P (mg_jobs_file st') loaded \<and> serialize_document loaded = document
     \<and> mg_failures st' = mg_failures st @ failure_events (Some old) verified"
proof -
  obtain vds st1 where sd: "save_details P io ds st = (Inr vds, st1)"
    using assms by (auto simp: save_documents_def raise_with_cache_dropped_def split: prod.splits sum.splits)
  obtain verified st2 where
    sp: "save_primary P io jobs document ds vds st1 = (Inr (verified, False), st2)" and
    fin: "compact_details P io (commit_jobs verified st2) = (Inr u, st')
        \<or> (Inr u, st') = (Inr (), commit_jobs verified st2)"
    using assms sd by (auto simp: save_documents_def raise_with_cache_dropped_def
        split: prod.splits sum.splits if_splits)
  note s1 = save_details_Inr [OF sd]
  from save_primary_Inr [OF sp] obtain loaded where l: "on_disk P (mg_jobs_file st2) loaded"
      "serialize_document loaded = document" "dict_eq verified jobs" "jobs_ok P verified"
      "mg_jobs st2 = mg_jobs st1" "mg_claimed st2 = mg_claimed st1" "mg_failures st2 = mg_failures st1"
    by blast
  have "mg_jobs st' = Some verified \<and> mg_claimed st' = filter (claim_stands verified) (mg_claimed st)
     \<and> mg_jobs_file st' = mg_jobs_file st2
     \<and> mg_failures st' = mg_failures st @ failure_events (Some old) verified"
    using fin compact_details_cases [of P io "commit_jobs verified st2" "Inr u" st'] s1 l assms(2)
    by auto
  with l show ?thesis by auto
qed

lemma save_Inl:
  assumes "async_save_locked P io jobs st = (Inl e, st')"
  shows "e \<in> {StoreError, CallerCancelled} \<and> cache_dropped st'"
  using assms
  by (auto simp: async_save_locked_def Let_def raise_with_cache_dropped_def
      split: prod.splits option.splits if_splits dest: save_documents_Inl)

lemma save_Inr:
  assumes "async_save_locked P io jobs st = (Inr u, st')"
  shows "\<exists>old verified loaded. mg_jobs st = Some old \<and> \<not> moves_back old jobs
     \<and> validated_document_for_save P jobs \<noteq> None
     \<and> mg_jobs st' = Some verified \<and> dict_eq verified jobs \<and> jobs_ok P verified
     \<and> mg_claimed st' = filter (claim_stands verified) (mg_claimed st)
     \<and> on_disk P (mg_jobs_file st') loaded \<and> serialize_document loaded = serialize_document jobs
     \<and> mg_failures st' = mg_failures st @ failure_events (Some old) verified"
proof -
  obtain document old where d: "validated_document_for_save P jobs = Some document" "mg_jobs st = Some old"
      "\<not> moves_back old jobs"
    using assms by (auto simp: async_save_locked_def raise_with_cache_dropped_def
        split: option.splits if_splits)
  have doc: "document = serialize_document jobs"
    using d(1) by (auto simp: validated_document_for_save_def Let_def bind_eq_Some_conv)
  have "(\<exists>ds compacting. save_documents P io jobs document ds compacting st = (Inr u, st'))
    \<or> (\<exists>f ds compacting.
          save_documents P io jobs document ds compacting (st\<lparr>mg_detail_file := f\<rparr>) = (Inr u, st'))"
    using assms d
    by (auto simp: async_save_locked_def Let_def raise_with_cache_dropped_def
        split: prod.splits option.splits if_splits)
  then show ?thesis
  proof (elim disjE exE)
    fix ds compacting assume "save_documents P io jobs document ds compacting st = (Inr u, st')"
    from save_documents_Inr [OF this d(2)] d doc show ?thesis by auto
  next
    fix f ds compacting
    assume go: "save_documents P io jobs document ds compacting (st\<lparr>mg_detail_file := f\<rparr>) = (Inr u, st')"
    have "mg_jobs (st\<lparr>mg_detail_file := f\<rparr>) = Some old" using d(2) by simp
    from save_documents_Inr [OF go this] d doc show ?thesis by auto
  qed
qed



section \<open>Retention\<close>

definition dropped_ids :: "jobs \<Rightarrow> string \<Rightarrow> string set" where
  "dropped_ids jobs now = rc_job_id ` set (by_recency jobs) - set (retained_ids jobs now)"

lemma set_by_recency [simp]: "set (by_recency jobs) = set (terminal_jobs jobs)"
  by (simp add: by_recency_def)

lemma foldl_delete:
  "foldl (\<lambda>js r. if rc_job_id r \<in> K then js else AList.delete (rc_job_id r) js) jobs rs
     = filter (\<lambda>(k, r). k \<notin> rc_job_id ` set rs - K) jobs"
proof (induction rs arbitrary: jobs)
  case (Cons r rs)
  then show ?case
    by (auto simp: AList.delete_eq case_prod_unfold intro!: filter_cong)
qed simp

lemma prune_Inr:
  "prune jobs now = Inr js \<longleftrightarrow> terminal_retention \<le> ts_seconds now
     \<and> js = filter (\<lambda>(k, r). k \<notin> dropped_ids jobs now) jobs"
  by (auto simp: prune_def foldl_delete dropped_ids_def)

lemma prune_Inl: "prune jobs now = Inl e \<Longrightarrow> e = ClockUnderflow"
  by (auto simp: prune_def split: if_splits)

lemma retained_subset: "set (retained_ids jobs now) \<subseteq> rc_job_id ` set (terminal_jobs jobs)"
  using set_take_subset [of max_terminal_jobs "by_recency jobs"] by (auto simp: retained_ids_def)

text \<open>Pruning drops terminal receipts only, keeps at most 32 of them, and none past retention.\<close>

lemma prune_keeps_active:
  assumes wf: "jobs_wf P jobs" and "prune jobs now = Inr js" and "(k, r) \<in> set jobs" "\<not> is_terminal r"
  shows "(k, r) \<in> set js"
proof -
  have "k \<notin> rc_job_id ` set (terminal_jobs jobs)"
  proof
    assume "k \<in> rc_job_id ` set (terminal_jobs jobs)"
    then obtain q j where q: "(j, q) \<in> set jobs" "is_terminal q" "rc_job_id q = k"
      by (auto simp: set_terminal_jobs)
    then have "j = k" using wf by (auto simp: jobs_wf_def list_all_iff job_entry_ok_def)
    then have "q = r" using q assms(3) wf by (auto simp: jobs_wf_def dict_ok_def eq_key_imp_eq_value)
    with q assms(4) show False by simp
  qed
  then show ?thesis using assms by (auto simp: prune_Inr dropped_ids_def)
qed

lemma prune_subset: "prune jobs now = Inr js \<Longrightarrow> set js \<subseteq> set jobs"
  by (auto simp: prune_Inr)

lemma jobs_wf_filter: "jobs_wf P jobs \<Longrightarrow> jobs_wf P (filter Q jobs)"
  by (auto simp: jobs_wf_def list_all_iff exclusive_devices_def)

lemma prune_kept_terminal:
  assumes wf: "jobs_wf P jobs" and pr: "prune jobs now = Inr js" and r: "(k, r) \<in> set js" "is_terminal r"
  shows "k \<in> set (retained_ids jobs now)"
proof -
  have "(k, r) \<in> set jobs" "k \<notin> dropped_ids jobs now" using pr r by (auto simp: prune_Inr)
  moreover have "rc_job_id r = k" using calculation(1) wf by (auto simp: jobs_wf_def list_all_iff job_entry_ok_def)
  ultimately show ?thesis using r(2) by (force simp: dropped_ids_def set_terminal_jobs)
qed

lemma prune_terminal_bound:
  assumes wf: "jobs_wf P jobs" and pr: "prune jobs now = Inr js"
  shows "length (terminal_jobs js) \<le> max_terminal_jobs"
proof -
  have wfj: "jobs_wf P js" using pr wf by (simp add: prune_Inr jobs_wf_filter)
  have "rc_job_id ` set (terminal_jobs js) \<subseteq> set (retained_ids jobs now)"
    using prune_kept_terminal [OF wf pr] wfj
    by (fastforce simp: set_terminal_jobs jobs_wf_def list_all_iff job_entry_ok_def)
  then have "card (rc_job_id ` set (terminal_jobs js)) \<le> length (retained_ids jobs now)"
    by (meson card_length card_mono finite_set le_trans)
  moreover have "length (retained_ids jobs now) \<le> max_terminal_jobs"
    by (auto simp: retained_ids_def intro: le_trans [OF length_filter_le])
  moreover have "map rc_job_id (dict_values js) = map fst js"
    using wfj by (auto simp: jobs_wf_def job_entry_ok_def list_all_iff dict_values_def)
  then have "distinct (map rc_job_id (terminal_jobs js))"
    using wfj by (simp add: terminal_jobs_def jobs_wf_def dict_ok_def distinct_map_filter)
  then have "card (rc_job_id ` set (terminal_jobs js)) = length (terminal_jobs js)"
    by (metis distinct_card length_map set_map)
  ultimately show ?thesis by simp
qed

lemma prune_kept_recent:
  assumes "jobs_wf P jobs" "prune jobs now = Inr js" "(k, r) \<in> set js" "is_terminal r"
  shows "ts_seconds now - terminal_retention \<le> ts_seconds (rc_updated_at r)"
proof -
  have k: "k \<in> set (retained_ids jobs now)" by (rule prune_kept_terminal [OF assms])
  then obtain q where q: "q \<in> set (by_recency jobs)" "rc_job_id q = k"
      "ts_seconds now - terminal_retention \<le> ts_seconds (rc_updated_at q)"
    by (auto simp: retained_ids_def dest: in_set_takeD)
  then obtain j where j: "(j, q) \<in> set jobs" by (auto simp: set_terminal_jobs)
  then have "j = k" using q(2) assms(1) by (auto simp: jobs_wf_def list_all_iff job_entry_ok_def)
  moreover have "(k, r) \<in> set jobs" using assms(2,3) prune_subset by blast
  ultimately have "q = r" using j assms(1) by (auto simp: jobs_wf_def dict_ok_def eq_key_imp_eq_value)
  with q show ?thesis by simp
qed

section \<open>Every operation keeps the manager's invariant\<close>

lemma then_do_elim:
  assumes "then_do m k = (res, s')"
  obtains (raised) e where "m = (Inl e, s')" "res = Inl e"
    | (returned) x s where "m = (Inr x, s)" "k x s = (res, s')"
  using assms by (cases m; cases "fst m") (auto simp: then_do_def)

lemma manager_ok_claims: "manager_ok P st \<Longrightarrow> dict_ok (mg_claimed st)"
  by (simp add: manager_ok_def)

lemma load_no_refresh:
  "async_load_locked P io False st = (case mg_jobs st of
     None \<Rightarrow> async_load_locked P io True st | Some jobs \<Rightarrow> (Inr jobs, st))"
  by (cases "mg_jobs st") (simp_all add: async_load_locked_def)

lemma refresh_keeps:
  assumes "dict_ok (mg_claimed st)" "async_load_locked P io True st = (res, st')"
  shows "manager_ok P st'"
proof (cases res)
  case (Inl e)
  then show ?thesis using load_Inl assms(2) manager_ok_dropped by blast
next
  case (Inr jobs)
  from load_refresh_Inr [OF assms(2) [unfolded Inr]] show ?thesis
    using assms(1) by (auto simp: manager_ok_def)
qed

lemma load_keeps:
  assumes "manager_ok P st" "async_load_locked P io refresh st = (res, st')"
  shows "manager_ok P st'"
proof (cases refresh)
  case True
  then show ?thesis using refresh_keeps [OF manager_ok_claims [OF assms(1)]] assms(2) by simp
next
  case False
  then show ?thesis
    using assms refresh_keeps [of st P io res st'] manager_ok_claims [OF assms(1)]
    by (cases "mg_jobs st") (auto simp: load_no_refresh)
qed

lemma save_keeps:
  assumes "dict_ok (mg_claimed st)" "async_save_locked P io jobs st = (res, st')"
  shows "manager_ok P st'"
proof (cases res)
  case (Inl e)
  then show ?thesis using save_Inl assms(2) manager_ok_dropped by blast
next
  case (Inr u)
  then show ?thesis using save_Inr [of P io jobs st u st'] assms by (auto simp: manager_ok_def)
qed

lemma durable_snapshot_claims:
  "durable_snapshot P io st = (res, st') \<Longrightarrow> mg_claimed st' = mg_claimed st \<and> mg_jobs st' = mg_jobs st
     \<and> mg_failures st' = mg_failures st"
  by (auto simp: durable_snapshot_def Let_def split: prod.splits option.splits if_splits)

lemma durable_snapshot_ok:
  "durable_snapshot P io st = (Inr jobs, st') \<Longrightarrow> jobs_ok P jobs"
  by (auto simp: durable_snapshot_def Let_def split: prod.splits option.splits if_splits
      intro: join_loaded_ok)

lemma durable_Inr:
  assumes "async_load_durable_locked P io1 io2 st = (Inr jobs, st')"
  shows "jobs_ok P jobs \<and> mg_jobs st' = Some jobs
     \<and> mg_claimed st' = filter (claim_stands jobs) (mg_claimed st)"
proof -
  obtain first st1 st2 where s: "durable_snapshot P io1 st = (Inr first, st1)"
      "durable_snapshot P io2 st1 = (Inr jobs, st2)"
      "st' = reconcile_claims (st2\<lparr>mg_jobs := Some jobs\<rparr>)"
    using assms by (auto simp: async_load_durable_locked_def raise_with_cache_dropped_def
        split: prod.splits sum.splits if_splits)
  then show ?thesis
    using durable_snapshot_claims [OF s(1)] durable_snapshot_claims [OF s(2)] durable_snapshot_ok [OF s(2)]
    by simp
qed

lemma durable_Inl:
  "async_load_durable_locked P io1 io2 st = (Inl e, st') \<Longrightarrow> cache_dropped st'"
  by (auto simp: async_load_durable_locked_def raise_with_cache_dropped_def
      split: prod.splits sum.splits if_splits)

lemma durable_keeps:
  assumes "dict_ok (mg_claimed st)" "async_load_durable_locked P io1 io2 st = (res, st')"
  shows "manager_ok P st'"
proof (cases res)
  case (Inl e)
  then show ?thesis using durable_Inl assms(2) manager_ok_dropped by blast
next
  case (Inr jobs)
  then show ?thesis using durable_Inr [of P io1 io2 st jobs st'] assms by (auto simp: manager_ok_def)
qed

text \<open>Operations that lead from one such state to another compose.\<close>

definition keeps :: "platform \<Rightarrow> (manager \<Rightarrow> (job_error + 'a) \<times> manager) \<Rightarrow> bool" where
  "keeps P f \<longleftrightarrow> (\<forall>st. manager_ok P st \<longrightarrow> manager_ok P (snd (f st)))"

lemma keepsI: "(\<And>st res st'. manager_ok P st \<Longrightarrow> f st = (res, st') \<Longrightarrow> manager_ok P st') \<Longrightarrow> keeps P f"
  unfolding keeps_def by (metis surjective_pairing)

lemma keepsD: "keeps P f \<Longrightarrow> manager_ok P st \<Longrightarrow> manager_ok P (snd (f st))"
  by (simp add: keeps_def)

lemma keeps_then: "keeps P m \<Longrightarrow> (\<And>x. keeps P (k x)) \<Longrightarrow> keeps P (\<lambda>st. then_do (m st) k)"
  unfolding keeps_def then_do_def by (fastforce split: prod.splits sum.splits)

lemma keeps_pure: "keeps P (\<lambda>st. (f st, st))" "keeps P (\<lambda>st. lift_res (f st) st)"
  by (simp_all add: keeps_def lift_res_def)

lemma keeps_if: "keeps P f \<Longrightarrow> keeps P g \<Longrightarrow> keeps P (\<lambda>st. if b st then f st else g st)"
  by (simp add: keeps_def)

lemma keeps_dropped: "keeps P (raise_with_cache_dropped e)"
  by (simp add: keeps_def raise_with_cache_dropped_def manager_ok_dropped)

lemma keeps_load: "keeps P (async_load_locked P io refresh)"
  by (rule keepsI) (rule load_keeps)

lemma keeps_save: "keeps P (async_save_locked P io jobs)"
  by (rule keepsI) (blast intro: save_keeps manager_ok_claims)

lemma keeps_durable: "keeps P (async_load_durable_locked P io1 io2)"
  by (rule keepsI) (blast intro: durable_keeps manager_ok_claims)

lemma keeps_save_and_return: "keeps P (save_and_return P io jobs job_id)"
  unfolding save_and_return_def
  by (intro keeps_then keeps_save) (auto simp: keeps_def split: option.splits)

lemma keeps_receipt_plan:
  "(\<And>r. keeps P (f r)) \<Longrightarrow> (\<And>r. keeps P (g r)) \<Longrightarrow>
     keeps P (\<lambda>st. case x of KeepReceipt r \<Rightarrow> f r st | StoreReceipt r \<Rightarrow> g r st)"
  by (cases x) simp_all

lemma keeps_create_plan:
  "(\<And>r. keeps P (f r)) \<Longrightarrow> (\<And>js j. keeps P (g js j)) \<Longrightarrow>
     keeps P (\<lambda>st. case x of JoinJob r \<Rightarrow> f r st | CreateJob js j \<Rightarrow> g js j st)"
  by (cases x) simp_all

lemmas keeps_intros = keeps_receipt_plan keeps_create_plan keeps_then keeps_pure keeps_if keeps_dropped keeps_load keeps_save keeps_durable
  keeps_save_and_return

lemma keeps_get: "keeps P (async_get P io job_id)"
  unfolding async_get_def by (intro keeps_intros)

lemma keeps_list: "keeps P (async_list P io)"
  unfolding async_list_def by (intro keeps_intros)

lemma keeps_find: "keeps P (async_find_active P io a b)"
  unfolding async_find_active_def by (intro keeps_intros)

lemma keeps_cancel: "keeps P (async_request_cancel P lio sio now job_id expected)"
  unfolding async_request_cancel_def
  by (intro keeps_intros)

lemma keeps_transition: "keeps P (async_transition P lio sio now job_id expected a)"
  unfolding async_transition_def by (intro keeps_intros)

lemma keeps_create: "keeps P (async_create_or_join P lio sio now tokens t a plan cred)"
  unfolding async_create_or_join_def case_prod_unfold
  by (intro keeps_intros)

lemma keeps_barrier: "keeps P (verify_barrier P lio io1 io2 job_id expected phase c)"
  unfolding verify_barrier_def by (intro keeps_intros)

text \<open>A saved receipt is the candidate's.\<close>

lemma save_and_return_Inr:
  assumes "save_and_return P io jobs job_id st = (Inr r, st')" and "dict_ok jobs"
  shows "\<exists>js old. mg_jobs st' = Some js \<and> map_of js job_id = Some r \<and> map_of jobs job_id = Some r
     \<and> map_of js = map_of jobs \<and> dict_eq js jobs \<and> jobs_ok P js \<and> mg_jobs st = Some old \<and> \<not> moves_back old jobs
     \<and> mg_claimed st' = filter (claim_stands js) (mg_claimed st)
     \<and> mg_failures st' = mg_failures st @ failure_events (Some old) js"
  using assms(1) unfolding save_and_return_def
proof (cases rule: then_do_elim)
  case (returned u s)
  obtain old v where v: "mg_jobs st = Some old" "\<not> moves_back old jobs" "mg_jobs s = Some v"
      "dict_eq v jobs" "jobs_ok P v" "mg_claimed s = filter (claim_stands v) (mg_claimed st)"
      "mg_failures s = mg_failures st @ failure_events (Some old) v"
    using save_Inr [OF returned(1)] by blast
  have "map_of v = map_of jobs"
    using v(4,5) assms(2) by (simp add: dict_eq_map_of jobs_ok_def jobs_wf_def)
  with v returned(2) show ?thesis by (auto split: option.splits)
qed simp

lemma checked_current_Inr:
  "checked_current jobs job_id expected = Inr r \<longleftrightarrow>
     hex_32 job_id \<and> map_of jobs job_id = Some r \<and> rc_revision r = expected"
  by (auto simp: checked_current_def split: option.splits)

lemma clock_Inr: "clock now = Inr ts \<longleftrightarrow> ts = now \<and> safe_str now 40 \<and> timestamp_text now"
  by (auto simp: clock_def or_raise_Inr_iff timestamp_iff)

lemma claim_plan_Store:
  "claim_plan now claimed job_id confirmed r = Inr (StoreReceipt r') \<Longrightarrow>
     \<not> is_terminal r \<and> rc_phase r \<noteq> HealthyUnclaimed \<and> clock now = Inr now
     \<and> r' = (if attempts_exhausted r then exhausted_receipt now r else claimed_receipt now r)
     \<and> ((attempts_exhausted r \<or> rc_phase r \<in> restart_ambiguous_phases) \<longrightarrow>
          confirmed = Some (rc_revision r))
     \<and> map_of claimed job_id \<noteq> Some (rc_executor_generation r)"
  by (auto simp: claim_plan_def bind_res_Inr_iff clock_Inr split: if_splits)

lemma dict_ok_prune: "prune jobs now = Inr js \<Longrightarrow> dict_ok jobs \<Longrightarrow> dict_ok js"
  by (auto simp: prune_Inr)

lemma map_of_pruned:
  assumes "prune jobs now = Inr js" "dict_ok jobs" "map_of js k = Some r"
  shows "map_of jobs k = Some r"
  using assms prune_subset [OF assms(1)] dict_ok_prune [OF assms(1,2)]
  by (auto simp: map_of_dict_iff)

lemma claimed_phase: "rc_phase r \<noteq> HealthyUnclaimed \<Longrightarrow> rc_phase (claimed_receipt ts r) \<noteq> HealthyUnclaimed"
  "rc_phase (exhausted_receipt ts r) \<noteq> HealthyUnclaimed"
  by (auto simp: claimed_receipt_def exhausted_receipt_def Let_def)

lemma lift_res_elim: "lift_res r st = (Inr x, s) \<longleftrightarrow> r = Inr x \<and> s = st"
  "lift_res r st = (Inl e, s) \<longleftrightarrow> r = Inl e \<and> s = st"
  by (auto simp: lift_res_def)

text \<open>A stored step: the receipt that comes back is the one that was planned.\<close>

lemma pruned_save_Inr:
  assumes "prune (AList.update job_id r jobs) now = Inr candidate" "dict_ok jobs"
    and "save_and_return P sio candidate job_id st = (Inr persisted, st')"
  shows "persisted = r" and "\<exists>js. mg_jobs st' = Some js \<and> map_of js job_id = Some r
     \<and> map_of js = map_of candidate"
proof -
  have du: "dict_ok (AList.update job_id r jobs)" using assms(2) by (rule dict_ok_update)
  obtain js where js: "mg_jobs st' = Some js" "map_of js job_id = Some persisted"
      "map_of candidate job_id = Some persisted" "map_of js = map_of candidate"
    using save_and_return_Inr [OF assms(3) dict_ok_prune [OF assms(1) du]] by blast
  show "persisted = r" using map_of_pruned [OF assms(1) du js(3)] by (simp add: update_conv')
  with js show "\<exists>js. mg_jobs st' = Some js \<and> map_of js job_id = Some r \<and> map_of js = map_of candidate"
    by blast
qed

lemma store_claim_elim:
  assumes "store_claim P sio jobs job_id r st = (res, st')"
  obtains (raised) e where "res = Inl e" "st' = st"
    | (unsaved) e candidate where "res = Inl e" "save_and_return P sio candidate job_id st = (Inl e, st')"
    | (stored) candidate persisted st2 where
        "prune (AList.update job_id r jobs) (rc_updated_at r) = Inr candidate"
        "save_and_return P sio candidate job_id st = (Inr persisted, st2)"
        "res = Inr persisted" "st' = record_claim job_id persisted st2"
  using assms unfolding store_claim_def by (auto elim!: then_do_elim simp: lift_res_elim)

lemma store_claim_keeps:
  assumes "manager_ok P st" "dict_ok jobs" "rc_phase r \<noteq> HealthyUnclaimed"
    and "store_claim P sio jobs job_id r st = (res, st')"
  shows "manager_ok P st'"
  using assms(4)
proof (cases rule: store_claim_elim)
  case raised
  then show ?thesis using assms(1) by simp
next
  case (unsaved e candidate)
  then show ?thesis using keepsD [OF keeps_save_and_return assms(1)] by (metis snd_conv)
next
  case (stored candidate persisted st2)
  have ok2: "manager_ok P st2"
    using keepsD [OF keeps_save_and_return assms(1)] stored(2) by (metis snd_conv)
  obtain js where js: "mg_jobs st2 = Some js" "map_of js job_id = Some r" and "persisted = r"
    using pruned_save_Inr [OF stored(1) assms(2) stored(2)] by blast
  then have "\<not> is_terminal persisted \<Longrightarrow> claim_stands js (job_id, rc_executor_generation persisted)"
    using assms(3) by (simp add: claim_stands_def)
  then show ?thesis
    using stored(4) ok2 js(1)
    by (auto simp: manager_ok_def record_claim_def list_all_iff dict_mem_update dict_ok_update
        split: if_splits)
qed

lemma keeps_claim: "keeps P (async_claim P lio sio now job_id expected confirmed)"
proof (rule keepsI)
  fix st res st'
  assume ok: "manager_ok P st"
    and run: "async_claim P lio sio now job_id expected confirmed st = (res, st')"
  show "manager_ok P st'"
    using run unfolding async_claim_def
  proof (cases rule: then_do_elim)
    case (raised e)
    then show ?thesis using load_keeps ok by blast
  next
    case (returned jobs st1)
    have ok1: "manager_ok P st1" by (rule load_keeps [OF ok returned(1)])
    have dj: "dict_ok jobs" using load_refresh_Inr [OF returned(1)] by (simp add: jobs_ok_def jobs_wf_def)
    have "rc_phase r \<noteq> HealthyUnclaimed"
      if "bind_res (checked_current jobs job_id expected)
            (claim_plan now (mg_claimed st1) job_id confirmed) = Inr (StoreReceipt r)" for r
      using that claimed_phase by (auto simp: bind_res_Inr_iff dest!: claim_plan_Store split: if_splits)
    with returned(2) ok1 dj show ?thesis
      by (auto elim!: then_do_elim simp: lift_res_elim split: receipt_plan.splits
          intro: store_claim_keeps)
  qed
qed


end
