(* ===== verification/Install_Workflow.thy ===== *)
theory Install_Workflow
  imports Install_Jobs
begin

text \<open>
  What the job manager's operations do to one receipt and over many calls: the step relation
  of a receipt, its frame, its progress measure and its validity; the requests a manager
  serves and the states it reaches; the guarantees of creating, advancing, claiming and of
  the two barriers.
\<close>

section \<open>The order of the phases\<close>

fun phase_rank :: "install_phase \<Rightarrow> nat" where
  "phase_rank Approved = 0" | "phase_rank Authorizing = 1" | "phase_rank Preflight = 2"
| "phase_rank Downloading = 3" | "phase_rank ArtifactReady = 4" | "phase_rank Revalidating = 5"
| "phase_rank Staging = 6" | "phase_rank Installing = 7" | "phase_rank Installed = 8"
| "phase_rank Launching = 9" | "phase_rank HealthCheck = 10" | "phase_rank HealthyUnclaimed = 11"
| "phase_rank Consumed = 12" | "phase_rank Cancelled = 13" | "phase_rank Failed = 14"
| "phase_rank RecoveryRequired = 15"

lemma phase_rank_inject: "phase_rank p = phase_rank q \<Longrightarrow> p = q"
  by (cases p; cases q) simp_all

instantiation install_phase :: linorder
begin

definition less_eq_install_phase :: "install_phase \<Rightarrow> install_phase \<Rightarrow> bool" where
  "p \<le> q \<longleftrightarrow> phase_rank p \<le> phase_rank q"

definition less_install_phase :: "install_phase \<Rightarrow> install_phase \<Rightarrow> bool" where
  "p < q \<longleftrightarrow> phase_rank p < phase_rank q"

instance
  by standard (auto simp: less_eq_install_phase_def less_install_phase_def dest: phase_rank_inject)

end

lemma phase_rank_bound: "phase_rank p \<le> 15"
  by (cases p) simp_all

lemma next_phase_later: "q \<in> next_phase p \<Longrightarrow> p < q"
  by (cases p) (auto simp: less_install_phase_def)

lemma next_phase_not_terminal: "q \<in> next_phase p \<Longrightarrow> p \<notin> terminal_phases"
  by (cases p) (auto simp: terminal_phases_def)

section \<open>Steps of a receipt\<close>

inductive receipt_step :: "platform \<Rightarrow> receipt \<Rightarrow> receipt \<Rightarrow> bool" for P where
  cancel: "cancel_plan now r = Inr (StoreReceipt r') \<Longrightarrow> receipt_step P r r'"
| claim: "claim_plan now claimed job_id confirmed r = Inr (StoreReceipt r') \<Longrightarrow> receipt_step P r r'"
| advance: "transition_args_ok P a \<Longrightarrow> transition_plan P now claimed job_id a r = Inr r'
     \<Longrightarrow> receipt_step P r r'"

inductive_cases receipt_stepE: "receipt_step P r r'"

lemma cancel_plan_Store:
  "cancel_plan now r = Inr (StoreReceipt r') \<longleftrightarrow> rc_phase r \<in> cancellable_phases
     \<and> \<not> rc_cancel_requested r \<and> clock now = Inr now
     \<and> r' = r\<lparr>rc_revision := rc_revision r + 1, rc_updated_at := now, rc_cancel_requested := True\<rparr>"
  by (auto simp: cancel_plan_def bind_res_Inr_iff clock_Inr)

lemma transition_plan_Inr:
  "transition_plan P now claimed job_id a r = Inr r' \<longleftrightarrow> transition_allowed claimed job_id r a
     \<and> clock now = Inr now \<and> r' = transitioned now r a \<and> receipt_invariants P r'"
  by (auto simp: transition_plan_def bind_res_Inr_iff clock_Inr)

lemma step_elim [consumes 1, case_names cancel exhausted claim advance]:
  assumes "receipt_step P r r'"
    and "\<And>now. rc_phase r \<in> cancellable_phases \<Longrightarrow> \<not> rc_cancel_requested r \<Longrightarrow> clock now = Inr now \<Longrightarrow>
        r' = r\<lparr>rc_revision := rc_revision r + 1, rc_updated_at := now, rc_cancel_requested := True\<rparr> \<Longrightarrow> Q"
    and "\<And>now. \<not> is_terminal r \<Longrightarrow> rc_phase r \<noteq> HealthyUnclaimed \<Longrightarrow> clock now = Inr now \<Longrightarrow>
        attempts_exhausted r \<Longrightarrow> r' = exhausted_receipt now r \<Longrightarrow> Q"
    and "\<And>now. \<not> is_terminal r \<Longrightarrow> rc_phase r \<noteq> HealthyUnclaimed \<Longrightarrow> clock now = Inr now \<Longrightarrow>
        \<not> attempts_exhausted r \<Longrightarrow> r' = claimed_receipt now r \<Longrightarrow> Q"
    and "\<And>now a. transition_args_ok P a \<Longrightarrow> clock now = Inr now \<Longrightarrow> ta_phase a \<in> next_phase (rc_phase r) \<Longrightarrow>
        r' = transitioned now r a \<Longrightarrow> receipt_invariants P r' \<Longrightarrow> (\<exists>claimed job_id. transition_allowed claimed job_id r a) \<Longrightarrow> Q"
  shows Q
  using assms(1)
proof (cases rule: receipt_step.cases)
  case (cancel now)
  then show ?thesis using assms(2) by (auto simp: cancel_plan_Store)
next
  case (claim now claimed job_id confirmed)
  then show ?thesis using assms(3,4) claim_plan_Store [OF claim] by (auto split: if_splits)
next
  case (advance a now claimed job_id)
  then show ?thesis using assms(5) [of a now]
    by (auto simp: transition_plan_Inr transition_allowed_def)
qed

text \<open>What no step touches, and the revision it takes.\<close>

lemma step_frame:
  assumes "receipt_step P r r'"
  shows "rc_job_id r' = rc_job_id r" "rc_created_at r' = rc_created_at r"
    "rc_target r' = rc_target r" "rc_artifact r' = rc_artifact r"
    "rc_plan_sha256 r' = rc_plan_sha256 r" "rc_adb_credential_id r' = rc_adb_credential_id r"
    "rc_revision r' = rc_revision r + 1" "rc_cancel_requested r \<longrightarrow> rc_cancel_requested r'"
  using assms by (cases rule: step_elim;
      simp add: exhausted_receipt_def claimed_receipt_def transitioned_def Let_def)+

lemma step_not_terminal: "receipt_step P r r' \<Longrightarrow> \<not> is_terminal r"
  by (cases rule: step_elim) (auto simp: is_terminal_def cancellable_phases_def terminal_phases_def
      dest: next_phase_not_terminal)

lemma step_phase:
  "receipt_step P r r' \<Longrightarrow> rc_phase r' = rc_phase r \<or> rc_phase r' \<in> next_phase (rc_phase r)
     \<or> (rc_phase r' = RecoveryRequired \<and> rc_result_code r' = Some VerificationRequired)"
  by (cases rule: step_elim, assumption)
    (auto simp: exhausted_receipt_def claimed_receipt_def transitioned_def Let_def split: if_splits)

lemma claimed_receipt_simps [simp]:
  "rc_phase (claimed_receipt ts r)
     = (if rc_phase r \<in> restart_ambiguous_phases then RecoveryRequired else rc_phase r)"
  "rc_attempt (claimed_receipt ts r) = rc_attempt r + 1"
  "rc_executor_generation (claimed_receipt ts r) = rc_executor_generation r + 1"
  "rc_cancel_requested (claimed_receipt ts r) = rc_cancel_requested r"
  by (simp_all add: claimed_receipt_def Let_def)

lemma exhausted_receipt_simps [simp]:
  "rc_phase (exhausted_receipt ts r) = RecoveryRequired"
  "rc_attempt (exhausted_receipt ts r) = rc_attempt r"
  "rc_cancel_requested (exhausted_receipt ts r) = rc_cancel_requested r"
  by (simp_all add: exhausted_receipt_def)

lemma transitioned_simps [simp]:
  "rc_phase (transitioned ts r a) = ta_phase a" "rc_attempt (transitioned ts r a) = rc_attempt r"
  "rc_executor_generation (transitioned ts r a) = rc_executor_generation r"
  "rc_cancel_requested (transitioned ts r a) = rc_cancel_requested r"
  by (simp_all add: transitioned_def)

text \<open>How many steps a receipt can still take.\<close>

definition steps_left :: "receipt \<Rightarrow> nat" where
  "steps_left r = (15 - phase_rank (rc_phase r)) + nat (32 - rc_attempt r)
     + (if rc_cancel_requested r then 0 else 1)"

lemma step_progress:
  assumes "receipt_step P r r'"
  shows "steps_left r' < steps_left r"
  using assms
proof (cases rule: step_elim)
  case (exhausted now)
  then have "phase_rank (rc_phase r) < 15"
    by (cases "rc_phase r") (auto simp: is_terminal_def terminal_phases_def)
  with exhausted show ?thesis by (simp add: steps_left_def)
next
  case (claim now)
  then have "rc_attempt r < 32" by (simp add: attempts_exhausted_def)
  then have "nat (32 - (rc_attempt r + 1)) < nat (32 - rc_attempt r)" by simp
  moreover have "15 - phase_rank (rc_phase r') \<le> 15 - phase_rank (rc_phase r)"
    using claim by simp
  ultimately show ?thesis using claim by (simp add: steps_left_def)
next
  case (advance now a)
  then have "phase_rank (rc_phase r) < phase_rank (ta_phase a)"
    using next_phase_later by (auto simp: less_install_phase_def)
  then have "15 - phase_rank (ta_phase a) < 15 - phase_rank (rc_phase r)"
    using phase_rank_bound [of "ta_phase a"] by linarith
  with advance show ?thesis by (simp add: steps_left_def)
qed (simp add: steps_left_def)

inductive receipt_steps :: "platform \<Rightarrow> nat \<Rightarrow> receipt \<Rightarrow> receipt \<Rightarrow> bool" for P where
  none: "receipt_steps P 0 r r"
| one_more: "receipt_steps P n r q \<Longrightarrow> receipt_step P q s \<Longrightarrow> receipt_steps P (Suc n) r s"

lemma receipt_steps_bound: "receipt_steps P n r r' \<Longrightarrow> n + steps_left r' \<le> steps_left r"
  by (induction rule: receipt_steps.induct) (auto dest: step_progress)

lemma receipt_steps_revision: "receipt_steps P n r r' \<Longrightarrow> rc_revision r' = rc_revision r + int n"
  by (induction rule: receipt_steps.induct) (auto simp: step_frame(7))

section \<open>Steps keep a receipt valid\<close>

lemma subcodes_ok [simp]: "subcode_text ''job:attempts_exhausted''" "subcode_text ''job:interrupted_mutation''"
  by (simp_all add: subcode_text_def subcode_part_def is_lower_def is_digit_def)

lemma non_terminal_facts:
  assumes "receipt_ok P r" "\<not> is_terminal r"
  shows "rc_result_code r = None" "rc_consumed_entry_id r = None" "rc_failure_stage r = None"
    "rc_result_subcode r = None" "rc_phase r \<noteq> HealthyUnclaimed \<Longrightarrow> rc_health_checked_at r = None"
  using assms
  by (auto simp: receipt_ok_def receipt_invariants_def result_facts_ok_def failure_detail_ok_def
      is_terminal_def terminal_phases_def split: if_splits)

definition later_than :: "receipt \<Rightarrow> receipt \<Rightarrow> bool" where
  "later_than r r' \<longleftrightarrow> rc_updated_at r \<le> rc_updated_at r' \<and> rc_revision r < max_revision"

lemma receipt_ok_parts:
  "receipt_ok P r \<longleftrightarrow> receipt_facts P r \<and> failure_detail_ok r \<and> bookkeeping_ok P r \<and> phase_facts_ok r
     \<and> result_facts_ok r"
  by (auto simp: receipt_ok_def receipt_invariants_def)

lemma bookkeeping_step:
  assumes "bookkeeping_ok P r" "rc_updated_at r \<le> rc_updated_at r'"
    and "rc_created_at r' = rc_created_at r" "rc_target r' = rc_target r" "rc_artifact r' = rc_artifact r"
      "rc_plan_sha256 r' = rc_plan_sha256 r" "rc_adb_credential_id r' = rc_adb_credential_id r"
      "rc_actual_apk_bytes r' = rc_actual_apk_bytes r" "rc_revision r' = rc_revision r + 1"
      "rc_attempt r' = rc_executor_generation r'"
      "rc_executor_generation r' \<le> rc_executor_generation r + 1"
  shows "bookkeeping_ok P r'"
  using assms by (auto simp: bookkeeping_ok_def plan_matches_def cong: option.case_cong)

lemma facts_step:
  assumes "receipt_facts P r" "clock (rc_updated_at r') = Inr (rc_updated_at r')" "rc_revision r < max_revision"
    and "rc_job_id r' = rc_job_id r" "rc_created_at r' = rc_created_at r" "rc_target r' = rc_target r"
      "rc_artifact r' = rc_artifact r"
      "rc_plan_sha256 r' = rc_plan_sha256 r" "rc_adb_credential_id r' = rc_adb_credential_id r"
      "rc_revision r' = rc_revision r + 1"
      "0 \<le> rc_attempt r'" "rc_attempt r' \<le> max_attempts" "0 \<le> rc_executor_generation r'"
      "rc_executor_generation r' \<le> max_executor_generation"
      "opt_all (\<lambda>m. m \<in> root_modes) (rc_preflight_root_mode r')"
      "opt_all (\<lambda>n. 1 \<le> n \<and> n \<le> max_apk_bytes) (rc_actual_apk_bytes r')"
      "opt_all (\<lambda>h. safe_str h 40 \<and> timestamp_text h) (rc_health_checked_at r')"
      "opt_all (\<lambda>e. safe_str e 32 \<and> is_config_entry_id P e) (rc_consumed_entry_id r')"
  shows "receipt_facts P r'"
  using assms unfolding receipt_facts_def opt_all_fold by (simp add: clock_Inr)

lemma facts_options:
  assumes "receipt_facts P r"
  shows "opt_all (\<lambda>m. m \<in> root_modes) (rc_preflight_root_mode r)"
      "opt_all (\<lambda>n. 1 \<le> n \<and> n \<le> max_apk_bytes) (rc_actual_apk_bytes r)"
      "opt_all (\<lambda>h. safe_str h 40 \<and> timestamp_text h) (rc_health_checked_at r)"
      "opt_all (\<lambda>e. safe_str e 32 \<and> is_config_entry_id P e) (rc_consumed_entry_id r)"
      "0 \<le> rc_attempt r" "rc_attempt r \<le> max_attempts" "0 \<le> rc_executor_generation r"
      "rc_executor_generation r \<le> max_executor_generation"
  using assms unfolding receipt_facts_def opt_all_fold by simp_all

lemma cancel_step_ok:
  assumes ok: "receipt_ok P r" and c: "clock now = Inr now" "rc_updated_at r \<le> now" "rc_revision r < max_revision"
    and ph: "rc_phase r \<in> cancellable_phases"
  shows "receipt_ok P (r\<lparr>rc_revision := rc_revision r + 1, rc_updated_at := now, rc_cancel_requested := True\<rparr>)"
    (is "receipt_ok P ?r")
proof -
  have nt: "\<not> is_terminal r" "rc_phase r \<noteq> HealthyUnclaimed"
    using ph by (auto simp: cancellable_phases_def is_terminal_def terminal_phases_def)
  have f: "receipt_facts P r" "bookkeeping_ok P r" "phase_facts_ok r" "failure_detail_ok r" "result_facts_ok r"
    using ok by (simp_all add: receipt_ok_parts)
  have "receipt_facts P ?r" using f(1) c facts_options [OF f(1)] by (intro facts_step [OF f(1)]) simp_all
  moreover have "bookkeeping_ok P ?r"
    using f(2) c(2) by (intro bookkeeping_step [OF f(2)]) (simp_all add: bookkeeping_ok_def)
  moreover have "phase_facts_ok ?r" using f(3) by (simp add: phase_facts_ok_def)
  moreover have "failure_detail_ok ?r" using non_terminal_facts [OF ok nt(1)] by (simp add: failure_detail_ok_def)
  moreover have "result_facts_ok ?r"
    using non_terminal_facts [OF ok nt(1)] nt by (auto simp: result_facts_ok_def is_terminal_def terminal_phases_def)
  ultimately show ?thesis by (simp add: receipt_ok_parts)
qed

lemma exhausted_step_ok:
  assumes ok: "receipt_ok P r" and c: "clock now = Inr now" "rc_updated_at r \<le> now" "rc_revision r < max_revision"
    and nt: "\<not> is_terminal r" "rc_phase r \<noteq> HealthyUnclaimed"
  shows "receipt_ok P (exhausted_receipt now r)" (is "receipt_ok P ?r")
proof -
  have f: "receipt_facts P r" "bookkeeping_ok P r" "phase_facts_ok r"
    using ok by (simp_all add: receipt_ok_parts)
  note nf = non_terminal_facts [OF ok nt(1)]
  have "receipt_facts P ?r"
    using f(1) c facts_options [OF f(1)] by (intro facts_step [OF f(1)]) (simp_all add: exhausted_receipt_def)
  moreover have "bookkeeping_ok P ?r"
    using f(2) c(2) by (intro bookkeeping_step [OF f(2)]) (simp_all add: bookkeeping_ok_def exhausted_receipt_def)
  moreover have "phase_facts_ok ?r" by (simp add: phase_facts_ok_def exhausted_receipt_def
        root_mode_forbidden_phases_def root_mode_required_phases_def artifact_required_phases_def terminal_phases_def)
  moreover have "failure_detail_ok ?r" using nt(1) by (simp add: failure_detail_ok_def exhausted_receipt_def is_terminal_def)
  moreover have "result_facts_ok ?r"
    using nf nt by (simp add: result_facts_ok_def exhausted_receipt_def recovery_codes_def)
  ultimately show ?thesis by (simp add: receipt_ok_parts)
qed

lemma claimed_step_ok:
  assumes ok: "receipt_ok P r" and c: "clock now = Inr now" "rc_updated_at r \<le> now" "rc_revision r < max_revision"
    and nt: "\<not> is_terminal r" "rc_phase r \<noteq> HealthyUnclaimed" and more: "\<not> attempts_exhausted r"
  shows "receipt_ok P (claimed_receipt now r)" (is "receipt_ok P ?r")
proof -
  have f: "receipt_facts P r" "bookkeeping_ok P r" "phase_facts_ok r" "failure_detail_ok r" "result_facts_ok r"
    using ok by (simp_all add: receipt_ok_parts)
  note nf = non_terminal_facts [OF ok nt(1)]
  have "receipt_facts P ?r"
    using f(1) c facts_options [OF f(1)] more
    by (intro facts_step [OF f(1)]) (simp_all add: claimed_receipt_def Let_def attempts_exhausted_def)
  moreover have "bookkeeping_ok P ?r"
    using f(2) c(2) by (intro bookkeeping_step [OF f(2)]) (simp_all add: bookkeeping_ok_def claimed_receipt_def Let_def)
  moreover have "phase_facts_ok ?r" using f(3)
    by (auto simp: phase_facts_ok_def claimed_receipt_def Let_def
        root_mode_forbidden_phases_def root_mode_required_phases_def artifact_required_phases_def terminal_phases_def)
  moreover have "failure_detail_ok ?r"
    using nt(1) nf by (auto simp: failure_detail_ok_def claimed_receipt_def Let_def is_terminal_def terminal_phases_def)
  moreover have "result_facts_ok ?r"
    using nf nt by (auto simp: result_facts_ok_def claimed_receipt_def Let_def recovery_codes_def is_terminal_def terminal_phases_def)
  ultimately show ?thesis by (simp add: receipt_ok_parts)
qed

lemma transition_step_ok:
  assumes ok: "receipt_ok P r" and c: "clock now = Inr now" "rc_revision r < max_revision"
    and args: "transition_args_ok P a" and inv: "receipt_invariants P (transitioned now r a)"
  shows "receipt_ok P (transitioned now r a)" (is "receipt_ok P ?r")
proof -
  have f: "receipt_facts P r" using ok by (simp add: receipt_ok_parts)
  note o = facts_options [OF f]
  have a: "opt_all (\<lambda>m. m \<in> root_modes) (ta_root_mode a)"
      "opt_all (\<lambda>n. 1 \<le> n \<and> n \<le> max_apk_bytes) (ta_actual_apk_bytes a)"
      "opt_all (\<lambda>h. safe_str h 40 \<and> timestamp_text h) (ta_health_checked_at a)"
      "opt_all (\<lambda>e. safe_str e 32 \<and> is_config_entry_id P e) (ta_consumed_entry_id a)"
    using args by (auto simp: transition_args_ok_def opt_all_def safe_text_PStr timestamp_iff
        integer_in_iff split: option.splits if_splits)
  have "receipt_facts P ?r"
    by (rule facts_step [OF f]; (use c o a in \<open>simp add: transitioned_def opt_all_def\<close>))
  with inv show ?thesis by (simp add: receipt_ok_def)
qed

lemma step_valid:
  assumes "receipt_step P r r'" "receipt_ok P r" "rc_updated_at r \<le> rc_updated_at r'" "rc_revision r < max_revision"
  shows "receipt_ok P r'"
  using assms(1)
proof (cases rule: step_elim)
  case (cancel now)
  then show ?thesis using cancel_step_ok assms by simp
next
  case (exhausted now)
  then show ?thesis using exhausted_step_ok assms by (simp add: exhausted_receipt_def)
next
  case (claim now)
  then show ?thesis using claimed_step_ok assms by (simp add: claimed_receipt_def Let_def)
next
  case (advance now a)
  then show ?thesis using transition_step_ok assms by simp
qed

section \<open>Requests and runs\<close>

datatype request =
    CreateOrJoin load_io save_io string "string list" install_target install_artifact string string
  | GetJob load_io string
  | ListJobs load_io
  | FindActive load_io string string
  | RequestCancel load_io save_io string string int
  | Claim load_io save_io string string int "int option"
  | Transition load_io save_io string string int transition_args
  | MutationBarrier load_io load_io load_io string int install_phase
  | CleanupBarrier load_io load_io load_io string int install_phase

text \<open>The manager after a request, whatever its caller got.\<close>

fun perform :: "platform \<Rightarrow> request \<Rightarrow> manager \<Rightarrow> manager" where
  "perform P (CreateOrJoin lio sio now tokens t a plan cred) st =
     snd (async_create_or_join P lio sio now tokens t a plan cred st)"
| "perform P (GetJob io job_id) st = snd (async_get P io job_id st)"
| "perform P (ListJobs io) st = snd (async_list P io st)"
| "perform P (FindActive io a b) st = snd (async_find_active P io a b st)"
| "perform P (RequestCancel lio sio now job_id expected) st =
     snd (async_request_cancel P lio sio now job_id expected st)"
| "perform P (Claim lio sio now job_id expected confirmed) st =
     snd (async_claim P lio sio now job_id expected confirmed st)"
| "perform P (Transition lio sio now job_id expected a) st =
     snd (async_transition P lio sio now job_id expected a st)"
| "perform P (MutationBarrier lio io1 io2 job_id expected phase) st =
     snd (async_verify_mutation_barrier P lio io1 io2 job_id expected phase st)"
| "perform P (CleanupBarrier lio io1 io2 job_id expected phase) st =
     snd (async_verify_cleanup_barrier P lio io1 io2 job_id expected phase st)"

definition serve :: "platform \<Rightarrow> request list \<Rightarrow> manager \<Rightarrow> manager" where
  "serve P reqs st = foldl (\<lambda>s r. perform P r s) st reqs"

text \<open>\<open>__init__\<close>: nothing cached, nothing claimed, whatever the disk holds.\<close>

definition new_manager :: "store_file \<Rightarrow> store_file \<Rightarrow> manager" where
  "new_manager jobs_file detail_file = \<lparr>mg_jobs = None, mg_claimed = [], mg_jobs_file = jobs_file,
     mg_detail_file = detail_file, mg_failures = []\<rparr>"

lemma keeps_mutation_barrier: "keeps P (async_verify_mutation_barrier P lio io1 io2 job_id expected phase)"
  unfolding async_verify_mutation_barrier_def by (intro keeps_intros keeps_barrier)

lemma keeps_cleanup_barrier: "keeps P (async_verify_cleanup_barrier P lio io1 io2 job_id expected phase)"
  unfolding async_verify_cleanup_barrier_def
  by (cases "cleanup_barrier_cancel_polarity phase") (simp_all add: keeps_pure keeps_barrier)

lemma perform_keeps: "manager_ok P st \<Longrightarrow> manager_ok P (perform P req st)"
  by (cases req) (simp_all add: keepsD keeps_create keeps_get keeps_list keeps_find keeps_cancel keeps_claim
      keeps_transition keeps_mutation_barrier keeps_cleanup_barrier)

lemma serve_Cons [simp]: "serve P [] st = st" "serve P (r # rs) st = serve P rs (perform P r st)"
  by (simp_all add: serve_def)

lemma serve_keeps: "manager_ok P st \<Longrightarrow> manager_ok P (serve P reqs st)"
  by (induction reqs arbitrary: st) (simp_all add: perform_keeps)

lemma new_manager_ok: "manager_ok P (new_manager f g)"
  by (simp add: manager_ok_def new_manager_def)

section \<open>Where claims come from\<close>

text \<open>Operations other than a claim only ever give claims up.\<close>

definition no_new_claims :: "(manager \<Rightarrow> (job_error + 'a) \<times> manager) \<Rightarrow> bool" where
  "no_new_claims f \<longleftrightarrow> (\<forall>st. set (mg_claimed (snd (f st))) \<subseteq> set (mg_claimed st))"

lemma nnc_then: "no_new_claims m \<Longrightarrow> (\<And>x. no_new_claims (k x)) \<Longrightarrow> no_new_claims (\<lambda>st. then_do (m st) k)"
  unfolding no_new_claims_def then_do_def
  by (smt (verit) case_prod_conv order_trans snd_conv split_beta sum.case_eq_if)

lemma nnc_pure: "no_new_claims (\<lambda>st. (f st, st))" "no_new_claims (\<lambda>st. lift_res (f st) st)"
  by (simp_all add: no_new_claims_def lift_res_def)

lemma nnc_if: "no_new_claims f \<Longrightarrow> no_new_claims g \<Longrightarrow> no_new_claims (\<lambda>st. if b st then f st else g st)"
  by (simp add: no_new_claims_def)

lemma nnc_dropped: "no_new_claims (raise_with_cache_dropped e)"
  by (simp add: no_new_claims_def raise_with_cache_dropped_def invalidate_cache_def)

lemma nnc_load: "no_new_claims (async_load_locked P io refresh)"
  unfolding no_new_claims_def
proof
  fix st
  obtain res st' where r: "async_load_locked P io True st = (res, st')" by fastforce
  have "set (mg_claimed st') \<subseteq> set (mg_claimed st)"
  proof (cases res)
    case (Inl e)
    then show ?thesis using load_Inl [of P io True st e st'] r by (simp add: cache_dropped_def)
  next
    case (Inr jobs)
    then show ?thesis using load_refresh_Inr [of P io st jobs st'] r by auto
  qed
  then show "set (mg_claimed (snd (async_load_locked P io refresh st))) \<subseteq> set (mg_claimed st)"
    using r by (cases refresh) (auto simp: load_no_refresh split: option.splits)
qed

lemma nnc_save: "no_new_claims (async_save_locked P io jobs)"
  unfolding no_new_claims_def
proof
  fix st
  obtain res st' where r: "async_save_locked P io jobs st = (res, st')" by fastforce
  show "set (mg_claimed (snd (async_save_locked P io jobs st))) \<subseteq> set (mg_claimed st)"
  proof (cases res)
    case (Inl e)
    then show ?thesis using save_Inl [of P io jobs st e st'] r by (simp add: cache_dropped_def)
  next
    case (Inr u)
    then show ?thesis using save_Inr [of P io jobs st u st'] r by auto
  qed
qed

lemma nnc_durable: "no_new_claims (async_load_durable_locked P io1 io2)"
  unfolding no_new_claims_def
proof
  fix st
  obtain res st' where r: "async_load_durable_locked P io1 io2 st = (res, st')" by fastforce
  show "set (mg_claimed (snd (async_load_durable_locked P io1 io2 st))) \<subseteq> set (mg_claimed st)"
  proof (cases res)
    case (Inl e)
    then show ?thesis using durable_Inl [of P io1 io2 st e st'] r by (simp add: cache_dropped_def)
  next
    case (Inr jobs)
    then show ?thesis using durable_Inr [of P io1 io2 st jobs st'] r by auto
  qed
qed

lemma nnc_save_and_return: "no_new_claims (save_and_return P io jobs job_id)"
  unfolding save_and_return_def
  by (intro nnc_then nnc_save) (simp add: no_new_claims_def split: option.splits)

lemma nnc_receipt_plan:
  "(\<And>r. no_new_claims (f r)) \<Longrightarrow> (\<And>r. no_new_claims (g r)) \<Longrightarrow>
     no_new_claims (\<lambda>st. case x of KeepReceipt r \<Rightarrow> f r st | StoreReceipt r \<Rightarrow> g r st)"
  by (cases x) simp_all

lemma nnc_create_plan:
  "(\<And>r. no_new_claims (f r)) \<Longrightarrow> (\<And>js j. no_new_claims (g js j)) \<Longrightarrow>
     no_new_claims (\<lambda>st. case x of JoinJob r \<Rightarrow> f r st | CreateJob js j \<Rightarrow> g js j st)"
  by (cases x) simp_all

lemmas nnc_intros = nnc_receipt_plan nnc_create_plan nnc_then nnc_pure nnc_if nnc_dropped nnc_load
  nnc_save nnc_durable nnc_save_and_return

lemma nnc_operations:
  "no_new_claims (async_get P io job_id)" "no_new_claims (async_list P io)"
  "no_new_claims (async_find_active P io a b)"
  "no_new_claims (async_request_cancel P lio sio now job_id expected)"
  "no_new_claims (async_transition P lio sio now job_id expected args)"
  "no_new_claims (async_create_or_join P lio sio now tokens t art plan cred)"
  unfolding async_get_def async_list_def async_find_active_def async_request_cancel_def
    async_transition_def async_create_or_join_def case_prod_unfold
  by (intro nnc_intros)+

lemma nnc_barriers:
  "no_new_claims (async_verify_mutation_barrier P lio io1 io2 job_id expected phase)"
  "no_new_claims (async_verify_cleanup_barrier P lio io1 io2 job_id expected phase)"
proof -
  have b: "no_new_claims (verify_barrier P lio io1 io2 job_id expected phase c)" for c
    unfolding verify_barrier_def by (intro nnc_intros)
  show "no_new_claims (async_verify_mutation_barrier P lio io1 io2 job_id expected phase)"
    unfolding async_verify_mutation_barrier_def by (intro nnc_intros b)
  show "no_new_claims (async_verify_cleanup_barrier P lio io1 io2 job_id expected phase)"
    unfolding async_verify_cleanup_barrier_def
    by (cases "cleanup_barrier_cancel_polarity phase") (simp_all add: nnc_pure b)
qed

text \<open>A claim adds at most the claim of its own job, and only when the stored receipt is past
  no ambiguous phase.\<close>

lemma set_update_subset: "set (AList.update k v d) \<subseteq> insert (k, v) (set d)"
  by (induction d) auto

lemma nnc_set: "no_new_claims f \<Longrightarrow> f st = (res, st') \<Longrightarrow> set (mg_claimed st') \<subseteq> set (mg_claimed st)"
  unfolding no_new_claims_def by (metis snd_conv)

lemma nnc_mem: "no_new_claims f \<Longrightarrow> x \<in> set (mg_claimed (snd (f st))) \<Longrightarrow> x \<in> set (mg_claimed st)"
  by (auto simp: no_new_claims_def)

lemma store_claim_adds:
  assumes "store_claim P sio jobs job_id r st = (res, st')" "dict_ok jobs"
    and new: "(k, g) \<in> set (mg_claimed st')" "(k, g) \<notin> set (mg_claimed st)"
  shows "k = job_id \<and> res = Inr r \<and> rc_executor_generation r = g \<and> \<not> is_terminal r"
  using assms(1)
proof (cases rule: store_claim_elim)
  case raised
  then show ?thesis using new by simp
next
  case (unsaved e candidate)
  then show ?thesis using nnc_set [OF nnc_save_and_return unsaved(2)] new by blast
next
  case (stored candidate persisted st2)
  have eq: "persisted = r" using pruned_save_Inr(1) [OF stored(1) assms(2) stored(2)] .
  have "(k, g) \<notin> set (mg_claimed st2)" using nnc_set [OF nnc_save_and_return stored(2)] new(2) by blast
  then show ?thesis
    using stored(3,4) new(1) eq set_update_subset [of job_id "rc_executor_generation r" "mg_claimed st2"]
    by (auto simp: record_claim_def split: if_splits)
qed

lemma claim_adds_one:
  assumes "async_claim P lio sio now job_id expected confirmed st = (res, st')"
    and new: "(k, g) \<in> set (mg_claimed st')" "(k, g) \<notin> set (mg_claimed st)"
  shows "k = job_id \<and> (\<exists>r. res = Inr r \<and> rc_executor_generation r = g
     \<and> rc_phase r \<notin> restart_ambiguous_phases \<and> \<not> is_terminal r)"
  using assms(1) unfolding async_claim_def
proof (cases rule: then_do_elim)
  case (raised e)
  then show ?thesis using nnc_set [OF nnc_load raised(1)] new by blast
next
  case (returned jobs st1)
  have new1: "(k, g) \<notin> set (mg_claimed st1)" using nnc_set [OF nnc_load returned(1)] new(2) by blast
  have dj: "dict_ok jobs" using load_refresh_Inr [OF returned(1)] by (simp add: jobs_ok_def jobs_wf_def)
  show ?thesis using returned(2)
  proof (cases rule: then_do_elim)
    case (raised e)
    then show ?thesis using new1 new(1) by (auto simp: lift_res_elim)
  next
    case (returned plan st2)
    then obtain current where c: "st2 = st1" "claim_plan now (mg_claimed st1) job_id confirmed current = Inr plan"
      by (auto simp: lift_res_elim bind_res_Inr_iff)
    show ?thesis
    proof (cases plan)
      case (KeepReceipt r)
      then show ?thesis using returned(2) c(1) new1 new(1) by simp
    next
      case (StoreReceipt r)
      then have "k = job_id \<and> res = Inr r \<and> rc_executor_generation r = g \<and> \<not> is_terminal r"
        using store_claim_adds [of P sio jobs job_id r st1 res st' k g] returned(2) c(1) dj new(1) new1 by simp
      moreover have "\<not> is_terminal r \<Longrightarrow> rc_phase r \<notin> restart_ambiguous_phases"
        using claim_plan_Store [OF c(2) [unfolded StoreReceipt]]
        by (auto simp: is_terminal_def terminal_phases_def restart_ambiguous_phases_def split: if_splits)
      ultimately show ?thesis by blast
    qed
  qed
qed

fun claims_job :: "string \<Rightarrow> request \<Rightarrow> bool" where
  "claims_job j (Claim lio sio now job_id expected confirmed) \<longleftrightarrow> job_id = j"
| "claims_job j _ \<longleftrightarrow> False"

lemma perform_claims:
  assumes "\<not> claims_job j req" "(j, g) \<in> set (mg_claimed (perform P req st))"
  shows "(j, g) \<in> set (mg_claimed st)"
proof (cases req)
  case (Claim lio sio now job_id expected confirmed)
  obtain res st' where run: "async_claim P lio sio now job_id expected confirmed st = (res, st')" by fastforce
  then show ?thesis using claim_adds_one [OF run, of j g] assms Claim by auto
qed (use assms in \<open>auto dest: nnc_mem [OF nnc_operations(1)] nnc_mem [OF nnc_operations(2)]
  nnc_mem [OF nnc_operations(3)] nnc_mem [OF nnc_operations(4)] nnc_mem [OF nnc_operations(5)]
  nnc_mem [OF nnc_operations(6)] nnc_mem [OF nnc_barriers(1)] nnc_mem [OF nnc_barriers(2)]\<close>)

lemma serve_claims:
  "\<forall>req \<in> set reqs. \<not> claims_job j req \<Longrightarrow> (j, g) \<in> set (mg_claimed (serve P reqs st)) \<Longrightarrow>
     (j, g) \<in> set (mg_claimed st)"
  by (induction reqs arbitrary: st) (auto dest: perform_claims)

section \<open>What a barrier proves\<close>

lemma durable_snapshot_disk:
  assumes "durable_snapshot P io st = (Inr jobs, st')"
  shows "\<exists>loaded ds. on_disk P (mg_jobs_file st') loaded \<and> join_details P loaded ds = Some jobs"
  using assms
  by (auto simp: durable_snapshot_def Let_def on_disk_def split: prod.splits option.splits if_splits
      dest!: run_read_Some)

lemma durable_disk:
  assumes "async_load_durable_locked P io1 io2 st = (Inr jobs, st')"
  shows "\<exists>loaded ds. on_disk P (mg_jobs_file st') loaded \<and> join_details P loaded ds = Some jobs"
proof -
  obtain first st1 st2 where s: "durable_snapshot P io1 st = (Inr first, st1)"
      "durable_snapshot P io2 st1 = (Inr jobs, st2)"
      "st' = reconcile_claims (st2\<lparr>mg_jobs := Some jobs\<rparr>)"
    using assms by (auto simp: async_load_durable_locked_def raise_with_cache_dropped_def
        split: prod.splits sum.splits if_splits)
  then show ?thesis using durable_snapshot_disk [OF s(2)] by simp
qed

lemma barrier_Inr:
  assumes "verify_barrier P lio io1 io2 job_id expected phase c st = (Inr r, st')"
  shows "rc_phase r = phase \<and> rc_cancel_requested r = c \<and> rc_revision r = expected
     \<and> map_of (mg_claimed st') job_id = Some (rc_executor_generation r)
     \<and> (\<exists>jobs loaded ds. mg_jobs st' = Some jobs \<and> jobs_ok P jobs \<and> map_of jobs job_id = Some r
          \<and> on_disk P (mg_jobs_file st') loaded \<and> join_details P loaded ds = Some jobs)"
proof -
  obtain jobs st1 memory durable where
    s: "async_load_locked P lio False st = (Inr jobs, st1)"
      "checked_current jobs job_id expected = Inr memory"
      "async_load_durable_locked P io1 io2 st1 = (Inr durable, st')"
      "checked_current durable job_id expected = Inr r"
      "r = memory" "rc_phase r = phase" "rc_cancel_requested r = c"
      "map_of (mg_claimed st') job_id = Some (rc_executor_generation r)"
    using assms unfolding verify_barrier_def
    by (auto elim!: then_do_elim simp: lift_res_elim raise_with_cache_dropped_def split: if_splits)
  then show ?thesis
    using durable_Inr [OF s(3)] durable_disk [OF s(3)] by (auto simp: checked_current_Inr)
qed

lemma barrier_claims:
  "verify_barrier P lio io1 io2 job_id expected phase c st = (Inr r, st') \<Longrightarrow>
     (job_id, rc_executor_generation r) \<in> set (mg_claimed st)"
proof -
  assume run: "verify_barrier P lio io1 io2 job_id expected phase c st = (Inr r, st')"
  have "no_new_claims (verify_barrier P lio io1 io2 job_id expected phase c)"
    unfolding verify_barrier_def by (intro nnc_intros)
  from nnc_set [OF this run] show ?thesis using barrier_Inr [OF run] map_of_SomeD by fast
qed

section \<open>What a stored step does to the others\<close>

text \<open>Everything of the loaded jobs survives a stored step, but for pruned terminal receipts.\<close>

definition others_kept :: "string \<Rightarrow> jobs \<Rightarrow> jobs \<Rightarrow> bool" where
  "others_kept job_id jobs js \<longleftrightarrow>
     (\<forall>k. k \<noteq> job_id \<longrightarrow> map_of js k = map_of jobs k
        \<or> (map_of js k = None \<and> (\<exists>r. map_of jobs k = Some r \<and> is_terminal r)))"

lemma pruned_update_others:
  assumes wf: "jobs_wf P jobs" and id: "rc_job_id r = job_id"
    and pr: "prune (AList.update job_id r jobs) now = Inr candidate"
  shows "others_kept job_id jobs candidate"
  unfolding others_kept_def
proof (intro allI impI)
  fix k assume k: "k \<noteq> job_id"
  let ?u = "AList.update job_id r jobs"
  have dj: "dict_ok jobs" using wf by (simp add: jobs_wf_def)
  have du: "dict_ok ?u" using dj by (rule dict_ok_update)
  have ids: "(j, q) \<in> set ?u \<Longrightarrow> rc_job_id q = j" for j q
    using wf id dj by (auto simp: dict_mem_update jobs_wf_def list_all_iff job_entry_ok_def split: if_splits)
  have uk: "map_of ?u k = map_of jobs k" using k by (simp add: update_conv')
  show "map_of candidate k = map_of jobs k
        \<or> (map_of candidate k = None \<and> (\<exists>r. map_of jobs k = Some r \<and> is_terminal r))"
  proof (cases "map_of candidate k")
    case (Some q)
    then show ?thesis using map_of_pruned [OF pr du Some] uk by simp
  next
    case None
    show ?thesis
    proof (cases "map_of jobs k")
      case (Some q)
      then have q: "(k, q) \<in> set ?u" using uk map_of_SomeD by metis
      have "k \<in> dropped_ids ?u now"
      proof (rule ccontr)
        assume "k \<notin> dropped_ids ?u now"
        then have "(k, q) \<in> set candidate" using q pr by (auto simp: prune_Inr)
        then show False using None by (force simp: map_of_eq_None_iff)
      qed
      then obtain j t where t: "(j, t) \<in> set ?u" "is_terminal t" "rc_job_id t = k"
        by (auto simp: dropped_ids_def set_terminal_jobs)
      then have "t = q" using ids [OF t(1)] q du by (auto simp: dict_ok_def eq_key_imp_eq_value)
      then show ?thesis using None Some t(2) by simp
    qed (simp add: None)
  qed
qed

lemma jobs_ok_entry:
  "jobs_ok P jobs \<Longrightarrow> map_of jobs k = Some r \<Longrightarrow> rc_job_id r = k \<and> receipt_ok P r"
  by (drule map_of_SomeD) (auto simp: jobs_ok_def jobs_wf_def list_all_iff job_entry_ok_def)

lemma jobs_ok_wf: "jobs_ok P jobs \<Longrightarrow> jobs_wf P jobs" "jobs_ok P jobs \<Longrightarrow> dict_ok jobs"
  by (simp_all add: jobs_ok_def jobs_wf_def)

lemma transition_Inr:
  assumes "async_transition P lio sio now job_id expected a st = (Inr r', st')"
  shows "\<exists>jobs js r. jobs_ok P jobs \<and> map_of jobs job_id = Some r \<and> rc_revision r = expected
     \<and> receipt_step P r r' \<and> ta_phase a \<in> next_phase (rc_phase r) \<and> rc_phase r' = ta_phase a
     \<and> mg_jobs st' = Some js \<and> map_of js job_id = Some r' \<and> others_kept job_id jobs js"
proof -
  obtain jobs st1 planned candidate where
    s: "transition_args_ok P a" "async_load_locked P lio True st = (Inr jobs, st1)"
      "bind_res (checked_current jobs job_id expected)
         (transition_plan P now (mg_claimed st1) job_id a) = Inr planned"
      "prune (AList.update job_id planned jobs) (rc_updated_at planned) = Inr candidate"
      "save_and_return P sio candidate job_id st1 = (Inr r', st')"
    using assms unfolding async_transition_def
    by (auto elim!: then_do_elim simp: lift_res_elim split: if_splits)
  note l = load_refresh_Inr [OF s(2)]
  have dj: "dict_ok jobs" using l jobs_ok_wf by blast
  obtain r where r: "map_of jobs job_id = Some r" "rc_revision r = expected"
      "transition_plan P now (mg_claimed st1) job_id a r = Inr planned"
    using s(3) by (auto simp: bind_res_Inr_iff checked_current_Inr)
  have eq: "r' = planned" using pruned_save_Inr(1) [OF s(4) dj s(5)] .
  obtain js where js: "mg_jobs st' = Some js" "map_of js job_id = Some r'" "map_of js = map_of candidate"
    using pruned_save_Inr(2) [OF s(4) dj s(5)] eq by blast
  have step: "receipt_step P r r'" using receipt_step.advance [OF s(1) r(3)] eq by simp
  have "rc_job_id r' = job_id" using step_frame(1) [OF step] jobs_ok_entry [of P jobs job_id r] l r(1) by simp
  then have "others_kept job_id jobs candidate"
    using pruned_update_others [OF jobs_ok_wf(1)] l s(4) eq by blast
  then have "others_kept job_id jobs js" using js(3) by (simp add: others_kept_def)
  with l r step js eq show ?thesis
    by (auto simp: transition_plan_Inr transition_allowed_def)
qed

lemma find_Some_props: "find Q xs = Some x \<Longrightarrow> x \<in> set xs \<and> Q x"
  by (auto simp: find_Some_iff)

lemma find_None_props: "find Q xs = None \<Longrightarrow> \<forall>x \<in> set xs. \<not> Q x"
  by (simp add: find_None_iff)

lemma job_on_device_Some:
  "job_on_device jobs t = Some r \<Longrightarrow> (\<exists>k. (k, r) \<in> set jobs) \<and> \<not> is_terminal r \<and> same_device (rc_target r) t"
  by (auto simp: job_on_device_def values_mem dest!: find_Some_props)

lemma checked_plan_Inr:
  "checked_plan P target artifact plan credential = Inr (t, a) \<Longrightarrow>
     t = target \<and> a = artifact \<and> target_facts P t \<and> artifact_facts a \<and> sha256_text credential
     \<and> tg_primary_abi t \<in> set (ar_supported_abis a) \<and> ar_min_sdk a \<le> tg_android_sdk t
     \<and> install_plan_sha256 P t a credential (hd install_plan_schemas) = Some plan"
proof -
  assume "checked_plan P target artifact plan credential = Inr (t, a)"
  then have *: "parse_target P (PDict (target_document target)) = Some t"
      "parse_artifact (PDict (artifact_fields PTuple artifact)) = Some a"
      "install_plan_sha256 P t a credential (hd install_plan_schemas) = Some plan"
      "sha256_text credential" "tg_primary_abi t \<in> set (ar_supported_abis a)" "ar_min_sdk a \<le> tg_android_sdk t"
    by (auto simp: checked_plan_def bind_res_Inr_iff or_raise_Inr_iff split: if_splits)
  then have "t = target" "target_facts P t" by simp_all
  moreover have af: "artifact_facts a" using parse_artifact_facts *(2) by blast
  moreover have "a = artifact"
    using *(2) by (cases a; cases artifact)
      (simp add: parse_artifact_iff artifact_fields_get sequence_items_def opt_int_def split: option.splits)
  ultimately show ?thesis using * by simp
qed

text \<open>A call that creates a job stores exactly the approved plan, on a device no other active job
  has; a call that joins returns the very same plan, which some job already carries out.\<close>

lemma create_Inr:
  assumes "async_create_or_join P lio sio now tokens target artifact plan credential st = (Inr (r, created), st')"
  shows "\<exists>jobs js. jobs_ok P jobs \<and> mg_jobs st' = Some js \<and> jobs_ok P js
     \<and> (rc_job_id r, r) \<in> set js \<and> \<not> is_terminal r
     \<and> rc_target r = target \<and> rc_artifact r = artifact \<and> rc_plan_sha256 r = plan
     \<and> rc_adb_credential_id r = credential
     \<and> (created \<longrightarrow> r = new_receipt (rc_job_id r) now target artifact plan credential
          \<and> rc_job_id r \<in> set tokens
          \<and> (\<forall>k q. (k, q) \<in> set jobs \<and> \<not> is_terminal q \<longrightarrow> (k, q) \<in> set js))
     \<and> (\<not> created \<longrightarrow> js = jobs)"
proof -
  obtain jobs st1 decision where
    s: "checked_plan P target artifact plan credential = Inr (target, artifact)"
      "async_load_locked P lio True st = (Inr jobs, st1)" "clock now = Inr now"
      "plan_create jobs now tokens target artifact plan credential = Inr decision"
      "(case decision of JoinJob r \<Rightarrow> (Inr (r, False), st1)
        | CreateJob candidate job_id \<Rightarrow> then_do (save_and_return P sio candidate job_id st1)
            (\<lambda>r st3. (Inr (r, True), st3))) = (Inr (r, created), st')"
    using assms unfolding async_create_or_join_def
    by (auto elim!: then_do_elim simp: lift_res_elim bind_res_Inr_iff clock_Inr
        dest!: checked_plan_Inr [where plan = plan])
  note l = load_refresh_Inr [OF s(2)]
  then have lk: "jobs_ok P jobs" by blast
  note wf = jobs_ok_wf [OF lk]
  obtain pruned where pr: "prune jobs now = Inr pruned" using s(4) by (auto simp: plan_create_def bind_res_Inr_iff)
  show ?thesis
  proof (cases decision)
    case (JoinJob q)
    then have q: "job_on_device pruned target = Some q" "rc_target q = target" "rc_artifact q = artifact"
        "rc_plan_sha256 q = plan" "rc_adb_credential_id q = credential"
      using s(4) pr by (auto simp: plan_create_def split: option.splits if_splits)
    obtain k where k: "(k, q) \<in> set pruned" "\<not> is_terminal q" using job_on_device_Some [OF q(1)] by blast
    have kj: "(k, q) \<in> set jobs" using k(1) prune_subset [OF pr] by blast
    then have "rc_job_id q = k" using lk by (auto simp: jobs_ok_def jobs_wf_def list_all_iff job_entry_ok_def)
    with kj k(2) q JoinJob s(5) l show ?thesis by auto
  next
    case (CreateJob candidate job_id)
    then have c: "candidate = AList.update job_id (new_receipt job_id now target artifact plan credential) pruned"
        "job_id \<in> set tokens" "job_id \<notin> dict_keys pruned"
      using s(4) pr by (auto simp: plan_create_def split: option.splits if_splits dest!: find_Some_props)
    have dp: "dict_ok pruned" by (rule dict_ok_prune [OF pr wf(2)])
    have dc: "dict_ok candidate" unfolding c(1) using dp by (rule dict_ok_update)
    have sv: "save_and_return P sio candidate job_id st1 = (Inr r, st')" "created"
      using s(5) CreateJob by (auto elim!: then_do_elim)
    obtain js where js: "mg_jobs st' = Some js" "map_of candidate job_id = Some r"
        "map_of js = map_of candidate" "jobs_ok P js" "dict_eq js candidate"
      using save_and_return_Inr [OF sv(1) dc] by blast
    have set_js: "set js = set candidate"
      using js(5) jobs_ok_wf(2) [OF js(4)] dc by (simp add: dict_eq_set)
    have r: "r = new_receipt job_id now target artifact plan credential"
      using js(2) c(1) by (simp add: update_conv')
    have "(k, q) \<in> set js" if "(k, q) \<in> set jobs" "\<not> is_terminal q" for k q
    proof -
      have "(k, q) \<in> set pruned" using prune_keeps_active [OF wf(1) pr that] .
      then have "k \<noteq> job_id" using c(3) by (force simp: dict_keys_def)
      with \<open>(k, q) \<in> set pruned\<close> show ?thesis using set_js c(1) dp by (simp add: dict_mem_update)
    qed
    moreover have "(job_id, r) \<in> set js" using set_js c(1) r dp by (simp add: dict_mem_update)
    ultimately show ?thesis
      using lk js r c(2) sv(2) by (auto simp: new_receipt_def is_terminal_def terminal_phases_def)
  qed
qed

end
