(* ===== verification/Install_Sample.thy ===== *)
theory Install_Sample
  imports Install_Jobs
begin

text \<open>
  One concrete platform, target, artifact and receipt, at which the properties of the install
  components are applied.
\<close>

definition sample_digest :: string where
  "sample_digest = replicate 64 (CHR ''a'')"

definition sample_platform :: platform where
  "sample_platform = \<lparr>pf_sha256 = (\<lambda>s. sample_digest), pf_float_repr = (\<lambda>f. ''0.0''),
     pf_float_read = (\<lambda>s. FNaN), pf_canonical_ulid = (\<lambda>s. False), pf_inet_aton = (\<lambda>s. False),
     pf_euid = 0\<rparr>"

lemma sample_sha256: "pf_sha256 sample_platform = (\<lambda>s. sample_digest)"
  by (simp add: sample_platform_def)

definition sample_target :: install_target where
  "sample_target = \<lparr>tg_address = ''192.168.1.5:8080'', tg_pinned_address = ''192.168.1.5:8080'',
     tg_adb_serial = ''SER-1'', tg_model = ''Panel 7'', tg_primary_abi = ''arm64-v8a'',
     tg_android_sdk = 30\<rparr>"

definition sample_artifact :: install_artifact where
  "sample_artifact = \<lparr>ar_descriptor_schema = hd install_descriptor_schemas,
     ar_release_tag = ''v1.2.3'', ar_version_name = ''1.2.3'', ar_version_code = 10203,
     ar_apk_name = release_apk_name ''v1.2.3'' package_id_current, ar_apk_sha256 = sample_digest,
     ar_apk_size = 1000, ar_package_id = package_id_current, ar_signer = release_signer,
     ar_min_sdk = 26, ar_supported_abis = supported_abis, ar_database = ''hapaneld-db:v1:ha-paneld.db:1:3'',
     ar_launch_component = new_classes_launch, ar_protocol_min = None, ar_protocol_max = None,
     ar_prerelease_opt_in = False\<rparr>"


definition sample_receipt :: receipt where
  "sample_receipt = \<lparr>rc_job_id = replicate 32 (CHR ''b''), rc_revision = 0,
     rc_executor_generation = 0, rc_created_at = ''2026-01-02T03:04:05+00:00'',
     rc_updated_at = ''2026-01-02T03:04:05+00:00'', rc_phase = Approved,
     rc_cancel_requested = False, rc_attempt = 0, rc_target = sample_target,
     rc_artifact = sample_artifact, rc_plan_sha256 = sample_digest,
     rc_adb_credential_id = sample_digest, rc_preflight_root_mode = None,
     rc_actual_apk_bytes = None, rc_health_checked_at = None, rc_result_code = None,
     rc_consumed_entry_id = None, rc_failure_stage = None, rc_result_subcode = None,
     rc_home_claim_deferred = False\<rparr>"

lemma sample_target_facts: "target_facts sample_platform sample_target"
  by code_simp

lemma sample_artifact_facts: "artifact_facts sample_artifact"
  by code_simp

lemma sample_receipt_facts: "receipt_facts sample_platform sample_receipt"
  unfolding receipt_facts_def by (simp add: sample_target_facts sample_artifact_facts sample_receipt_def) code_simp

lemma sample_plan: "install_plan_sha256 sample_platform sample_target sample_artifact sample_digest schema = Some sample_digest"
proof -
  have "safe_str sample_digest 64 \<and> sha256_text sample_digest" by code_simp
  then show ?thesis
    by (simp add: install_plan_sha256_eq sample_target_facts sample_artifact_facts json_digest_def sample_sha256)
qed

lemma sample_receipt_ok: "receipt_ok sample_platform sample_receipt"
proof -
  have "plan_matches sample_platform sample_receipt"
    by (simp add: plan_matches_def sample_receipt_def sample_plan install_plan_schemas_def)
  moreover have "tg_primary_abi sample_target \<in> set (ar_supported_abis sample_artifact)" by code_simp
  moreover have "ar_min_sdk sample_artifact \<le> tg_android_sdk sample_target" by code_simp
  ultimately have "bookkeeping_ok sample_platform sample_receipt"
    by (simp add: bookkeeping_ok_def sample_receipt_def)
  moreover have "phase_facts_ok sample_receipt" "failure_detail_ok sample_receipt" "result_facts_ok sample_receipt"
    by (simp_all add: phase_facts_ok_def failure_detail_ok_def result_facts_ok_def sample_receipt_def
        root_mode_required_phases_def artifact_required_phases_def)
  ultimately show ?thesis
    by (simp add: receipt_ok_def receipt_invariants_def sample_receipt_facts)
qed

definition sample_jobs :: jobs where
  "sample_jobs = [(rc_job_id sample_receipt, sample_receipt)]"

lemma sample_jobs_ok: "jobs_ok sample_platform sample_jobs"
  by (simp add: jobs_ok_def jobs_wf_def sample_jobs_def dict_ok_def job_entry_ok_def sample_receipt_ok
      exclusive_devices_def active_jobs_def terminal_jobs_def dict_values_def)

lemma sample_body_size: "length (json_indented (pf_float_repr sample_platform)
   (wrapped_document jobs_store_key (serialize_document sample_jobs))) \<le> 4000"
  by code_simp

text \<open>Storage that works: no error, no cancellation, nothing else touches the files.\<close>

definition quiet_op :: op_io where
  "quiet_op = \<lparr>oi_file = None, oi_stopping = False, oi_error = False, oi_cancel = False\<rparr>"

definition quiet_details :: details_io where
  "quiet_details = \<lparr>de_presence = quiet_op, de_read = quiet_op\<rparr>"

definition quiet_load :: load_io where
  "quiet_load = \<lparr>ld_presence = quiet_op, ld_read = quiet_op, ld_details = quiet_details\<rparr>"

definition absent_file :: store_file where
  "absent_file = \<lparr>sf_stat = None, sf_body = [], sf_siblings = []\<rparr>"

definition sample_cancelled :: receipt where
  "sample_cancelled = sample_receipt\<lparr>rc_revision := 1, rc_updated_at := ''2026-01-02T03:04:06+00:00'',
     rc_cancel_requested := True\<rparr>"

end
