(* ===== verification/Install_Properties.thy ===== *)
theory Install_Properties
  imports Install_Workflow Install_Sample
begin

text \<open>
  The properties of the install components: what the job manager promises its callers over any
  run, what reaches the disk, what the barriers prove, how a receipt moves, and that its printed
  forms read back.  Every property that has a hypothesis is followed by its application at the
  sample values.
\<close>

section \<open>Shared facts\<close>

text \<open>The canonical form of a value, as the digest sees it, determines each field's.\<close>

definition canon :: "pyval \<Rightarrow> pyval" where
  "canon v = json_norm (json_sorted v)"

lemma canon_scalar [simp]:
  "canon (PStr s) = PStr s" "canon (PInt i) = PInt i" "canon (PBool b) = PBool b" "canon PNone = PNone"
  "canon (PList xs) = PList (map canon xs)" "canon (PTuple xs) = PList (map canon xs)"
  by (simp_all add: canon_def [abs_def])

lemma sort_key_map_snd:
  "sort_key fst (map (\<lambda>(k, v). (k, f v)) d) = map (\<lambda>(k, v). (k, f v)) (sort_key fst d)"
proof (induction d)
  case (Cons p d)
  have ins: "insort_key fst (k, f v) (map (\<lambda>(k, v). (k, f v)) xs)
      = map (\<lambda>(k, v). (k, f v)) (insort_key fst (k, v) xs)" for k v xs
    by (induction xs) auto
  show ?case using Cons ins by (cases p) simp
qed simp

lemma canon_dict: "canon (PDict d) = PDict (map (\<lambda>(k, v). (k, canon v)) (sort_key fst d))"
  unfolding canon_def json_sorted.simps json_norm.simps sort_key_map_snd map_map
  by (simp add: comp_def case_prod_unfold canon_def)

lemma canon_dict_get:
  assumes "canon (PDict d) = canon (PDict e)" "dict_ok d" "dict_ok e"
  shows "canon (dict_get d k) = canon (dict_get e k)"
proof -
  have "map_of (map (\<lambda>(k, v). (k, canon v)) (sort_key fst d)) k
      = map_of (map (\<lambda>(k, v). (k, canon v)) (sort_key fst e)) k"
    using assms(1) by (simp add: canon_dict)
  then have "map_option canon (map_of d k) = map_option canon (map_of e k)"
    by (simp add: map_of_map_snd [where f = "\<lambda>_. canon"] map_of_sorted assms(2,3))
  then show ?thesis by (auto simp: dict_get_def split: option.splits)
qed

lemma canon_dict_default:
  assumes "canon (PDict d) = canon (PDict e)" "dict_ok d" "dict_ok e"
  shows "canon (dict_get_default d k w) = canon (dict_get_default e k w)"
proof -
  have "map_of (map (\<lambda>(k, v). (k, canon v)) (sort_key fst d)) k
      = map_of (map (\<lambda>(k, v). (k, canon v)) (sort_key fst e)) k"
    using assms(1) by (simp add: canon_dict)
  then have "map_option canon (map_of d k) = map_option canon (map_of e k)"
    by (simp add: map_of_map_snd [where f = "\<lambda>_. canon"] map_of_sorted assms(2,3))
  then show ?thesis by (auto simp: dict_get_default_def split: option.splits)
qed

lemma canon_opt_int [simp]: "canon (opt_int x) = opt_int x"
  by (simp add: opt_int_def split: option.split)

lemma opt_int_inject [simp]: "opt_int x = opt_int y \<longleftrightarrow> x = y"
  by (simp add: opt_int_def split: option.split)

lemma canon_target: "canon (PDict (target_document t)) = canon (PDict (target_document u)) \<Longrightarrow> t = u"
proof -
  have ok: "dict_ok (target_document x)" for x by (simp add: target_document_def dict_ok_def)
  assume eq: "canon (PDict (target_document t)) = canon (PDict (target_document u))"
  note get = canon_dict_get [OF eq ok ok]
  show ?thesis
    using get [of "''address''"] get [of "''pinned_address''"] get [of "''adb_serial''"]
      get [of "''model''"] get [of "''primary_abi''"] get [of "''android_sdk''"]
    by (cases t; cases u) (simp add: target_document_def)
qed

lemma dict_ok_artifact: "dict_ok (artifact_document seq a)"
proof -
  have "dict_ok (artifact_fields seq a)" by (simp add: artifact_fields_def dict_ok_def)
  then show ?thesis by (auto simp: artifact_document_def Let_def)
qed

lemma canon_artifact:
  assumes eq: "canon (PDict (artifact_document PTuple a)) = canon (PDict (artifact_document PTuple b))"
  shows "a = b"
proof -
  note get = canon_dict_get [OF eq dict_ok_artifact dict_ok_artifact]
  note def = canon_dict_default [OF eq dict_ok_artifact dict_ok_artifact]
  have abis: "ar_supported_abis a = ar_supported_abis b"
    using get [of "''supported_abis''"]
    by (simp add: artifact_document_get artifact_fields_get comp_def)
  show ?thesis
    using get [of "''release_tag''"] get [of "''version_name''"] get [of "''apk_name''"]
      get [of "''apk_sha256''"] get [of "''signer_certificate_sha256''"]
      get [of "''database_compatibility''"] get [of "''descriptor_schema''"] get [of "''package_id''"]
      get [of "''launch_component''"] get [of "''version_code''"] get [of "''apk_size''"]
      get [of "''min_sdk''"] get [of "''protocol_min''"] get [of "''protocol_max''"]
      def [of "''prerelease_opt_in''" "PBool False"] abis
    by (simp add: artifact_document_get artifact_fields_get)
qed

lemma parse_artifact_fields_eq:
  "parse_artifact (PDict (artifact_fields PTuple b)) = Some a \<Longrightarrow> a = b \<and> artifact_facts b"
  using parse_artifact_facts [of "PDict (artifact_fields PTuple b)" a]
  by (cases a; cases b)
    (simp add: parse_artifact_iff artifact_fields_get sequence_items_def opt_int_def split: option.splits)

lemma canon_plan:
  assumes "canon (plan_document t a c s) = canon (plan_document t' a' c' s')"
  shows "t = t' \<and> a = a' \<and> c = c' \<and> s = s'"
proof -
  have ok: "dict_ok [(''schema'', v), (''target'', w), (''artifact'', x), (''adb_credential_id'', y)]" for v w x y
    by (simp add: dict_ok_def)
  note get = canon_dict_get [OF assms [unfolded plan_document_def] ok ok]
  show ?thesis
    using get [of "''schema''"] get [of "''target''"] get [of "''artifact''"] get [of "''adb_credential_id''"]
    by (simp add: canon_target canon_artifact)
qed

text \<open>A job this process has not claimed can only be claimed by storing its next generation.\<close>

lemma claim_plan_result:
  assumes "claim_plan now claimed j confirmed current = Inr (StoreReceipt q)"
  shows "rc_phase q \<notin> restart_ambiguous_phases" and "rc_revision q = rc_revision current + 1"
  using claim_plan_Store [OF assms]
  by (auto simp: claimed_receipt_def exhausted_receipt_def Let_def restart_ambiguous_phases_def)

lemma unclaimed_claim:
  assumes run: "async_claim P lio sio now j expected confirmed st = (Inr r, st')"
    and none: "\<And>g. (j, g) \<notin> set (mg_claimed st)"
  shows "rc_phase r \<notin> restart_ambiguous_phases \<and> rc_revision r = expected + 1
     \<and> (is_terminal r \<or> map_of (mg_claimed st') j = Some (rc_executor_generation r))"
proof -
  obtain jobs st1 plan where
    s: "async_load_locked P lio True st = (Inr jobs, st1)"
      "bind_res (checked_current jobs j expected) (claim_plan now (mg_claimed st1) j confirmed) = Inr plan"
      "(case plan of KeepReceipt r \<Rightarrow> (Inr r, st1)
        | StoreReceipt r \<Rightarrow> store_claim P sio jobs j r st1) = (Inr r, st')"
    using run unfolding async_claim_def by (auto elim!: then_do_elim simp: lift_res_elim)
  have none1: "map_of (mg_claimed st1) j = None"
    using nnc_set [OF nnc_load s(1)] none by (fastforce simp: map_of_eq_None_iff)
  obtain current where c: "rc_revision current = expected"
      "claim_plan now (mg_claimed st1) j confirmed current = Inr plan"
    using s(2) by (auto simp: bind_res_Inr_iff checked_current_Inr)
  have "plan \<noteq> KeepReceipt q" for q
    using c(2) none1 by (auto simp: claim_plan_def bind_res_Inr_iff split: if_splits)
  then obtain q where q: "plan = StoreReceipt q" by (cases plan) auto
  have dj: "dict_ok jobs" using load_refresh_Inr [OF s(1)] by (simp add: jobs_ok_def jobs_wf_def)
  have "store_claim P sio jobs j q st1 = (Inr r, st')" using s(3) q by simp
  then show ?thesis
  proof (cases rule: store_claim_elim)
    case (stored candidate persisted st2)
    have "r = q" using pruned_save_Inr(1) [OF stored(1) dj stored(2)] stored(3) by simp
    moreover have "is_terminal r \<or> map_of (mg_claimed st') j = Some (rc_executor_generation r)"
      using stored(3,4) by (simp add: record_claim_def update_conv')
    ultimately show ?thesis
      using claim_plan_result [OF c(2) [unfolded q]] c(1) by simp
  qed simp_all
qed

lemma new_manager_claims: "mg_claimed (new_manager f g) = []"
  by (simp add: new_manager_def)

lemma unclaimed_run:
  "\<forall>req \<in> set reqs. \<not> claims_job j req \<Longrightarrow> (j, g) \<notin> set (mg_claimed (serve P reqs (new_manager f f')))"
  using serve_claims [of reqs j g P "new_manager f f'"] by (auto simp: new_manager_claims)

lemma barriers_without_claim:
  assumes "\<And>g. (j, g) \<notin> set (mg_claimed st)"
  shows "\<exists>e. fst (async_verify_mutation_barrier P lio io1 io2 j expected phase st) = Inl e"
    and "\<exists>e. fst (async_verify_cleanup_barrier P lio io1 io2 j expected phase st) = Inl e"
proof -
  have *: "\<exists>e. fst (verify_barrier P lio io1 io2 j expected phase c st) = Inl e" for c
  proof (cases "verify_barrier P lio io1 io2 j expected phase c st")
    case (Pair res st')
    then show ?thesis using barrier_claims [of P lio io1 io2 j expected phase c st _ st'] assms
      by (cases res) auto
  qed
  show "\<exists>e. fst (async_verify_mutation_barrier P lio io1 io2 j expected phase st) = Inl e"
    using * by (simp add: async_verify_mutation_barrier_def)
  show "\<exists>e. fst (async_verify_cleanup_barrier P lio io1 io2 j expected phase st) = Inl e"
    using * by (simp add: async_verify_cleanup_barrier_def split: option.split)
qed

section \<open>The manager\<close>

text \<open>C1. Whatever requests a new manager serves, in any order, with any storage faults, its cache
  stays a well-formed set of jobs (ids match, every receipt satisfies its invariants, active jobs
  on different devices, counts within bounds) and each claim it holds is of the cached
  generation of an active job.\<close>

theorem manager_run_invariant:
  "manager_ok P (serve P reqs (new_manager jobs_file detail_file))"
  by (rule serve_keeps) (rule new_manager_ok)

text \<open>C9. A save either returns with exactly the given jobs in the cache and on disk, read back
  and verified, or it raises with the cache and every claim dropped.\<close>

theorem save_outcome:
  "case async_save_locked P io jobs st of
     (Inr u, st') \<Rightarrow> (\<exists>verified loaded. mg_jobs st' = Some verified \<and> dict_eq verified jobs
        \<and> jobs_ok P verified \<and> on_disk P (mg_jobs_file st') loaded
        \<and> serialize_document loaded = serialize_document jobs)
   | (Inl e, st') \<Rightarrow> e \<in> {StoreError, CallerCancelled} \<and> cache_dropped st'"
proof (cases "async_save_locked P io jobs st")
  case (Pair res st')
  then show ?thesis using save_Inl [of P io jobs st _ st'] save_Inr [of P io jobs st _ st']
    by (cases res) auto
qed

text \<open>C6. A mutation barrier that passes names a phase that changes the panel, the receipt is in
  that phase at the expected revision with no cancellation requested, this process holds the
  claim of its generation, and the disk holds the very same receipt.\<close>

theorem mutation_barrier_proves:
  "case async_verify_mutation_barrier P lio io1 io2 job_id expected phase st of
     (Inl e, st') \<Rightarrow> True
   | (Inr r, st') \<Rightarrow> phase \<in> mutation_barriers \<and> rc_phase r = phase \<and> \<not> rc_cancel_requested r
        \<and> rc_revision r = expected
        \<and> map_of (mg_claimed st') job_id = Some (rc_executor_generation r)
        \<and> (\<exists>jobs loaded ds. mg_jobs st' = Some jobs \<and> jobs_ok P jobs \<and> map_of jobs job_id = Some r
             \<and> on_disk P (mg_jobs_file st') loaded \<and> join_details P loaded ds = Some jobs)"
proof (cases "async_verify_mutation_barrier P lio io1 io2 job_id expected phase st")
  case (Pair res st')
  then show ?thesis using barrier_Inr [of P lio io1 io2 job_id expected phase False st _ st']
    by (cases res) (auto simp: async_verify_mutation_barrier_def split: if_splits)
qed

text \<open>C22. After a restart, until this process has claimed a job again, neither barrier passes for
  it, whatever else the manager is asked and whatever the storage does.\<close>

theorem restart_needs_claim:
  assumes "\<forall>req \<in> set reqs. \<not> claims_job j req"
  shows "(\<exists>e. fst (async_verify_mutation_barrier P lio io1 io2 j expected phase
            (serve P reqs (new_manager jobs_file detail_file))) = Inl e)
       \<and> (\<exists>e. fst (async_verify_cleanup_barrier P lio io1 io2 j expected phase
            (serve P reqs (new_manager jobs_file detail_file))) = Inl e)"
  by (intro conjI barriers_without_claim unclaimed_run assms)

theorem restart_needs_claim_witness:
  "\<exists>e. fst (async_verify_mutation_barrier sample_platform quiet_load quiet_load quiet_load
     (rc_job_id sample_receipt) 0 Staging
     (serve sample_platform [ListJobs quiet_load] (new_manager absent_file absent_file))) = Inl e"
  using restart_needs_claim [of "[ListJobs quiet_load]" "rc_job_id sample_receipt" sample_platform
      quiet_load quiet_load quiet_load 0 Staging absent_file absent_file] by simp





section \<open>A receipt\<close>

text \<open>C31. A receipt makes at most 48 steps in its life, each raising its revision by one; so no
  job cycles, whatever calls and restarts there are.\<close>

theorem receipt_life_bounded:
  assumes "receipt_steps P n r r'" "0 \<le> rc_attempt r"
  shows "n \<le> 48 \<and> rc_revision r' = rc_revision r + int n"
proof -
  have "steps_left r \<le> 15 + 32 + 1"
    unfolding steps_left_def using assms(2) by (intro add_mono) simp_all
  with receipt_steps_bound [OF assms(1)] receipt_steps_revision [OF assms(1)] show ?thesis by simp
qed

lemma sample_cancel_step: "receipt_step sample_platform sample_receipt sample_cancelled"
proof (rule receipt_step.cancel)
  have "timestamp (PStr ''2026-01-02T03:04:06+00:00'') = Some ''2026-01-02T03:04:06+00:00''"
    by code_simp
  then show "cancel_plan ''2026-01-02T03:04:06+00:00'' sample_receipt
      = Inr (StoreReceipt sample_cancelled)"
    by (simp add: cancel_plan_def clock_def sample_receipt_def sample_cancelled_def
        cancellable_phases_def)
qed

theorem receipt_life_bounded_witness:
  "rc_revision sample_cancelled = rc_revision sample_receipt + int (Suc 0)"
  using receipt_life_bounded [OF receipt_steps.one_more [OF receipt_steps.none sample_cancel_step]]
  by (simp add: sample_receipt_def)

text \<open>A step keeps a receipt valid, as long as the clock does not go back and the revision
  has not reached its bound.\<close>

theorem receipt_step_valid:
  assumes "receipt_step P r r'" "receipt_ok P r" "rc_updated_at r \<le> rc_updated_at r'"
    and "rc_revision r < max_revision"
  shows "receipt_ok P r'"
  using assms by (rule step_valid)

theorem receipt_step_valid_witness: "receipt_ok sample_platform sample_cancelled"
proof (rule receipt_step_valid [OF sample_cancel_step sample_receipt_ok])
  have "''2026-01-02T03:04:05+00:00'' \<le> ''2026-01-02T03:04:06+00:00''" by code_simp
  then show "rc_updated_at sample_receipt \<le> rc_updated_at sample_cancelled"
    by (simp add: sample_receipt_def sample_cancelled_def)
qed (simp add: sample_receipt_def)

section \<open>What is written reads back\<close>

text \<open>C33. The JSON text of a valid receipt reads back as that receipt without its failure detail,
  which is kept in the other document; so different receipts have different texts.\<close>

theorem receipt_text_roundtrip:
  assumes "receipt_ok P r"
  shows "Option.bind (json_loads rd (json_print fr ind 0 (serialize_receipt r))) (parse_receipt P)
     = Some (without_detail r)"
  using receipt_text.read_both_enc [OF assms, of rd fr ind] by (simp add: receipt_text.read_both_def)

theorem receipt_text_roundtrip_witness:
  "Option.bind (json_loads (\<lambda>s. FNaN) (json_print (\<lambda>f. []) True 0 (serialize_receipt sample_receipt)))
     (parse_receipt sample_platform) = Some (without_detail sample_receipt)"
  using receipt_text_roundtrip [OF sample_receipt_ok] by simp

text \<open>C34. The file body written for valid jobs reads back, through the store's own reader, as
  the same receipts without their details, keyed by their ids.\<close>

theorem jobs_file_roundtrip:
  assumes "jobs_ok P jobs"
  shows "parse_store_document P (json_indented fr (wrapped_document jobs_store_key
     (serialize_document jobs))) = Some (by_id (listed jobs))"
  using jobs_file.read_both_enc [OF assms, of fr]
  by (simp add: jobs_file.read_both_def parse_store_document_def)

theorem jobs_file_roundtrip_witness:
  "parse_store_document sample_platform (json_indented (\<lambda>f. []) (wrapped_document jobs_store_key
     (serialize_document sample_jobs))) = Some (by_id (listed sample_jobs))"
  using jobs_file_roundtrip [OF sample_jobs_ok] by simp

text \<open>The guard before a write accepts every valid set of jobs whose body fits the bound.\<close>

theorem save_guard_complete:
  assumes "jobs_ok P jobs"
    and "int (length (json_indented (pf_float_repr P)
      (wrapped_document jobs_store_key (serialize_document jobs)))) \<le> max_store_bytes"
  shows "validated_document_for_save P jobs = Some (serialize_document jobs)"
  using assms by (rule validated_document_complete)

theorem save_guard_complete_witness:
  "validated_document_for_save sample_platform sample_jobs = Some (serialize_document sample_jobs)"
  using save_guard_complete [OF sample_jobs_ok] sample_body_size by simp

text \<open>Joining the details kept for a set of jobs to the jobs stored without them restores it
  exactly.\<close>

theorem details_restore:
  "jobs_wf P jobs \<Longrightarrow> join_details P (plain_jobs jobs) (retained_details P jobs) = Some jobs"
  by (rule join_retained_details)

theorem details_restore_witness:
  "join_details sample_platform (plain_jobs sample_jobs) (retained_details sample_platform sample_jobs)
     = Some sample_jobs"
  using details_restore [of sample_platform sample_jobs] sample_jobs_ok by (simp add: jobs_ok_def)

text \<open>Pruning keeps every active job, and of the terminal ones exactly the ids among the 32
  most recent that are within the retention time; it fails only before the first retention
  period of the calendar.\<close>

theorem prune_exact:
  assumes "jobs_wf P jobs"
  shows "case prune jobs now of
     Inl e \<Rightarrow> e = ClockUnderflow \<and> ts_seconds now < terminal_retention
   | Inr js \<Rightarrow> js = filter (\<lambda>(k, r). \<not> is_terminal r \<or> k \<in> set (retained_ids jobs now)) jobs
        \<and> length (terminal_jobs js) \<le> max_terminal_jobs"
proof (cases "prune jobs now")
  case (Inr js)
  have js: "js = filter (\<lambda>(k, r). k \<notin> dropped_ids jobs now) jobs" using Inr by (simp add: prune_Inr)
  have "k \<notin> dropped_ids jobs now \<longleftrightarrow> \<not> is_terminal r \<or> k \<in> set (retained_ids jobs now)"
    if kr: "(k, r) \<in> set jobs" for k r
  proof
    assume "k \<notin> dropped_ids jobs now"
    then have "(k, r) \<in> set js" using kr js by simp
    then show "\<not> is_terminal r \<or> k \<in> set (retained_ids jobs now)"
      using prune_kept_terminal [OF assms Inr] by blast
  next
    assume "\<not> is_terminal r \<or> k \<in> set (retained_ids jobs now)"
    moreover have "(k, r) \<in> set js" if "\<not> is_terminal r" using prune_keeps_active [OF assms Inr kr that] .
    ultimately show "k \<notin> dropped_ids jobs now" using js by (auto simp: dropped_ids_def)
  qed
  then have "js = filter (\<lambda>(k, r). \<not> is_terminal r \<or> k \<in> set (retained_ids jobs now)) jobs"
    unfolding js by (intro filter_cong refl) (auto simp only: case_prod_conv)
  with prune_terminal_bound [OF assms Inr] Inr show ?thesis by (simp only: sum.case)
qed (auto simp: prune_def split: if_splits)

theorem prune_exact_witness:
  "case prune sample_jobs ''2026-01-02T03:04:05+00:00'' of
     Inl e \<Rightarrow> e = ClockUnderflow \<and> ts_seconds ''2026-01-02T03:04:05+00:00'' < terminal_retention
   | Inr js \<Rightarrow> js = filter (\<lambda>(k, r). \<not> is_terminal r
          \<or> k \<in> set (retained_ids sample_jobs ''2026-01-02T03:04:05+00:00'')) sample_jobs
        \<and> length (terminal_jobs js) \<le> max_terminal_jobs"
  by (rule prune_exact [of sample_platform]) (use sample_jobs_ok in \<open>simp add: jobs_ok_def\<close>)

text \<open>The plan digest binds what was approved: unless SHA-256 collides on the two plan
  documents, equal digests are of the same target, artifact, credential and schema.\<close>

theorem plan_digest_binds:
  assumes "install_plan_sha256 P t a c s = Some d" "install_plan_sha256 P t' a' c' s' = Some d"
    and "no_collision P [CHR 0x0A] (plan_document t a c s) (plan_document t' a' c' s')"
  shows "t = t' \<and> a = a' \<and> c = c' \<and> s = s'"
proof -
  have facts: "target_facts P t" "artifact_facts a" "target_facts P t'" "artifact_facts a'"
    using assms(1,2) by (auto simp: install_plan_sha256_def bind_eq_Some_conv dest!: parse_artifact_fields_eq)
  have plain: "json_plain (plan_document x b k u)" if "target_facts P x" "artifact_facts b" for x b k u
    using json_plain_target [OF that(1)] json_plain_artifact [OF that(2)]
    by (simp add: plan_document_def dict_ok_def
        del: json_plain.simps(2) json_plain.simps(5) add: json_plain.simps(5) [of "_ # _"])
  have "json_digest P [CHR 0x0A] (plan_document t a c s) = json_digest P [CHR 0x0A] (plan_document t' a' c' s')"
    using assms(1,2) facts by (auto simp: install_plan_sha256_eq split: if_splits)
  from json_digest_eq [OF assms(3) this plain plain] facts show ?thesis
    by (intro canon_plan) (simp add: canon_def)
qed

theorem plan_digest_binds_witness:
  "sample_target = sample_target \<and> sample_artifact = sample_artifact \<and> sample_digest = sample_digest
     \<and> hd install_plan_schemas = hd install_plan_schemas"
  using sample_plan by (rule plan_digest_binds [OF sample_plan]) (simp add: no_collision_def)

text \<open>Whatever happens to the file during a read, a value the guarded read returns was parsed
  from the bytes of one private file of acceptable size, whose status did not change from the
  first look to the last.\<close>

theorem guarded_read_sound:
  "case read_durable_document P parse ob of
     None \<Rightarrow> True
   | Some v \<Rightarrow> (\<exists>s body. ro_before ob = Some s \<and> ro_after ob = Some s \<and> ro_path_after ob = Some s
        \<and> ro_final ob = Some s \<and> ro_final_path ob = Some s \<and> private_file P s
        \<and> read_chunks (ro_chunks ob) [] = Some body \<and> int (length body) = st_size s
        \<and> 1 \<le> st_size s \<and> st_size s \<le> max_store_bytes \<and> parse body = Some v)"
  using read_durable_sound [of P parse ob]
  by (cases "read_durable_document P parse ob") simp_all

text \<open>Nothing is believed of what is read: a document the reader accepts holds only valid
  receipts, under their own ids, with active jobs on different devices, and no failure detail.\<close>

theorem parsed_document_valid:
  "case parse_document P v of
     None \<Rightarrow> True
   | Some jobs \<Rightarrow> jobs_ok P jobs \<and> list_all (\<lambda>r. without_detail r = r) (dict_values jobs)"
  using parse_document_ok [of P v] by (cases "parse_document P v") (simp_all add: list_all_iff)


end
