(* ===== verification/Quiet_Store.thy ===== *)
theory Quiet_Store
  imports Install_Workflow Install_Sample
begin

text \<open>
  The job manager on a disk that works: no error, no cancellation, each save is written whole
  and nothing else touches the files.  For a store with one unfinished job, what each operation
  returns and leaves.
\<close>

section \<open>One job on the disk\<close>

definition one_job :: "receipt \<Rightarrow> jobs" where
  "one_job r = [(rc_job_id r, r)]"

definition stored_text :: "platform \<Rightarrow> receipt \<Rightarrow> string" where
  "stored_text P r = json_indented (pf_float_repr P) (wrapped_document jobs_store_key (serialize_document (one_job r)))"

definition private_stat :: "platform \<Rightarrow> string \<Rightarrow> file_stat" where
  "private_stat P body = \<lparr>st_dev = 0, st_ino = 0, st_mode = 33152, st_uid = pf_euid P, st_nlink = 1,
     st_size = int (length body), st_mtime_ns = 0, st_ctime_ns = 0\<rparr>"

definition stored :: "platform \<Rightarrow> receipt \<Rightarrow> store_file" where
  "stored P r = \<lparr>sf_stat = Some (private_stat P (stored_text P r)), sf_body = stored_text P r, sf_siblings = []\<rparr>"

text \<open>The manager once it has read the file.\<close>

definition held :: "platform \<Rightarrow> receipt \<Rightarrow> (string \<times> int) list \<Rightarrow> manager" where
  "held P r claimed = \<lparr>mg_jobs = Some (one_job r), mg_claimed = claimed, mg_jobs_file = stored P r,
     mg_detail_file = absent_file, mg_failures = []\<rparr>"

definition claim_of :: "receipt \<Rightarrow> (string \<times> int) list" where
  "claim_of r = [(rc_job_id r, rc_executor_generation r)]"

definition storable :: "platform \<Rightarrow> receipt \<Rightarrow> bool" where
  "storable P r \<longleftrightarrow> receipt_ok P r \<and> \<not> is_terminal r \<and> rc_failure_stage r = None
     \<and> rc_result_subcode r = None \<and> int (length (stored_text P r)) \<le> max_store_bytes"

definition quiet_save :: "store_file \<Rightarrow> save_io" where
  "quiet_save f = \<lparr>sv_stale = quiet_details, sv_detail_save = quiet_op, sv_detail_read = quiet_details,
     sv_save = quiet_op\<lparr>oi_file := Some f\<rparr>, sv_presence = quiet_op, sv_read = quiet_op,
     sv_reread = quiet_details, sv_compact_save = quiet_op, sv_compact_read = quiet_details\<rparr>"

lemma quiet_op_simps [simp]: "oi_file quiet_op = None" "\<not> oi_stopping quiet_op" "\<not> oi_error quiet_op" "\<not> oi_cancel quiet_op"
  by (simp_all add: quiet_op_def)

lemma quiet_simps [simp]: "ld_presence quiet_load = quiet_op" "ld_read quiet_load = quiet_op"
  "ld_details quiet_load = quiet_details" "de_presence quiet_details = quiet_op" "de_read quiet_details = quiet_op"
  by (simp_all add: quiet_load_def quiet_details_def)

lemma touch_quiet [simp]: "touch quiet_op f = f" "touch (quiet_op\<lparr>oi_file := Some g\<rparr>) f = g"
  by (simp_all add: touch_def)

lemma one_job_held_simps [simp]: "mg_jobs (held P r c) = Some (one_job r)" "mg_claimed (held P r c) = c"
  "mg_jobs_file (held P r c) = stored P r" "mg_detail_file (held P r c) = absent_file"
  by (simp_all add: held_def)

lemma held_reloaded: "held P r c\<lparr>mg_jobs_file := stored P q, mg_detail_file := absent_file, mg_jobs := Some (one_job q)\<rparr>
  = held P q c"
  by (simp add: held_def)

lemma plain_without: "rc_failure_stage r = None \<Longrightarrow> rc_result_subcode r = None \<Longrightarrow> without_detail r = r"
  by (simp add: without_detail_def)

lemma storable_parts:
  assumes "storable P r"
  shows "jobs_ok P (one_job r)" "without_detail r = r" "detail_for P r = None" "\<not> is_terminal r"
    "int (length (stored_text P r)) \<le> max_store_bytes" "receipt_ok P r"
  using assms
  by (auto simp: storable_def one_job_def jobs_ok_def jobs_wf_def dict_ok_def job_entry_ok_def exclusive_devices_def
      active_jobs_def terminal_jobs_def dict_values_def plain_without detail_for_def)

lemma one_job_listed: "listed (one_job r) = [r]"
  by (simp add: listed_def one_job_def dict_values_def)

lemma by_id_one: "without_detail r = r \<Longrightarrow> by_id (listed (one_job r)) = one_job r"
  by (simp add: one_job_listed by_id_def) (simp add: one_job_def)

lemma parse_stored: "storable P r \<Longrightarrow> parse_store_document P (stored_text P r) = Some (one_job r)"
  using jobs_file.read_both_enc [OF storable_parts(1), of P r "pf_float_repr P"]
  by (simp add: jobs_file.read_both_def parse_store_document_def stored_text_def by_id_one storable_parts(2))

lemma stored_not_empty: "stored_text P r \<noteq> []"
  by (simp add: stored_text_def json_indented_def wrapped_document_def json_block_def)

lemma stored_size: "storable P r \<Longrightarrow> length (stored_text P r) \<le> 131072"
  using storable_parts(5) [of P r] by simp

lemma read_stored: "storable P r \<Longrightarrow> read_store_file P (parse_store_document P) (stored P r) = Some (one_job r)"
  using stored_not_empty [of P r]
  by (simp add: read_store_file_quiet stored_def private_stat_def private_file_def is_regular_def permission_bits_def
      stored_size parse_stored Suc_le_eq)

lemma presence_stored: "storable P r \<Longrightarrow> store_presence P name (stored P r) = Some (True, False)"
  by (simp add: store_presence_def stored_def private_stat_def private_file_def is_regular_def permission_bits_def
      stored_size guard_If)

lemma no_details: "run_details P quiet_details absent_file = (Some [], absent_file, False)"
  by (simp add: run_details_def run_presence_def store_presence_def absent_file_def guard_If)

lemma join_one: "storable P r \<Longrightarrow> join_details P (one_job r) [] = Some (one_job r)"
  using join_retained_details [of P "one_job r"] storable_parts(1,2,3) [of P r]
  by (simp add: jobs_ok_def retained_details_def plain_jobs_def one_job_def dict_values_def List.map_filter_def dict_of_def dict_update_def)

section \<open>Reading\<close>

lemma quiet_loaded:
  assumes "storable P r" "rc_phase r \<noteq> HealthyUnclaimed \<or> c = []" "c = [] \<or> c = claim_of r"
  shows "async_load_locked P quiet_load refresh (held P r c) = (Inr (one_job r), held P r c)"
proof -
  have "filter (claim_stands (one_job r)) c = c"
    using assms storable_parts(4) [OF assms(1)] by (auto simp: claim_stands_def one_job_def claim_of_def)
  then have "reconcile_claims (held P r c) = held P r c"
    by (simp add: reconcile_claims_def held_def)
  then show ?thesis
    using assms(1) by (cases refresh) (simp_all add: async_load_locked_def Let_def run_presence_def run_read_def
      presence_stored read_stored no_details join_one held_reloaded list_ex_iff)
qed

definition unread :: "platform \<Rightarrow> receipt \<Rightarrow> manager" where
  "unread P r = new_manager (stored P r) absent_file"

lemma quiet_first_load:
  assumes "storable P r"
  shows "async_load_locked P quiet_load refresh (unread P r) = (Inr (one_job r), held P r [])"
  using assms by (simp add: async_load_locked_def Let_def run_presence_def run_read_def unread_def new_manager_def
      presence_stored read_stored no_details join_one reconcile_claims_def) (simp add: held_def)

lemma one_job_found [simp]: "map_of (one_job r) (rc_job_id r) = Some r"
  by (simp add: one_job_def)

lemma storable_id: "storable P r \<Longrightarrow> hex_32 (rc_job_id r)"
  by (simp add: storable_def receipt_ok_def receipt_facts_def)

lemma quiet_get:
  assumes "storable P r" "rc_phase r \<noteq> HealthyUnclaimed \<or> c = []" "c = [] \<or> c = claim_of r"
  shows "async_get P quiet_load (rc_job_id r) (held P r c) = (Inr r, held P r c)"
    "async_get P quiet_load (rc_job_id r) (unread P r) = (Inr r, held P r [])"
  using quiet_loaded [OF assms] quiet_first_load [OF assms(1)] storable_id [OF assms(1)]
  by (simp_all add: async_get_def then_do_def or_raise_def)

section \<open>Barriers\<close>

lemma held_reread: "held P r c\<lparr>mg_jobs_file := stored P r, mg_detail_file := absent_file\<rparr> = held P r c"
  "held P r c\<lparr>mg_jobs_file := stored P r\<rparr> = held P r c" "held P r c\<lparr>mg_detail_file := absent_file\<rparr> = held P r c"
  "held P r c\<lparr>mg_jobs := Some (one_job r)\<rparr> = held P r c"
  by (simp_all add: held_def)

lemma quiet_snapshot: "storable P r \<Longrightarrow> durable_snapshot P quiet_load (held P r c) = (Inr (one_job r), held P r c)"
  by (simp add: durable_snapshot_def Let_def run_presence_def run_read_def presence_stored read_stored no_details
      join_one held_reread)

lemma claims_stand:
  "storable P r \<Longrightarrow> filter (claim_stands (one_job r)) (claim_of r) = (if rc_phase r = HealthyUnclaimed then [] else claim_of r)"
  using storable_parts(4) [of P r] by (simp add: claim_stands_def one_job_def claim_of_def)

lemma quiet_durable:
  assumes "storable P r" "rc_phase r \<noteq> HealthyUnclaimed"
  shows "async_load_durable_locked P quiet_load quiet_load (held P r (claim_of r)) = (Inr (one_job r), held P r (claim_of r))"
proof -
  have "dict_eq (one_job r) (one_job r)" by (simp add: dict_eq_def one_job_def)
  moreover have "reconcile_claims (held P r (claim_of r)) = held P r (claim_of r)"
    using claims_stand [OF assms(1)] assms(2) by (simp add: reconcile_claims_def held_def)
  ultimately show ?thesis by (simp add: async_load_durable_locked_def quiet_snapshot [OF assms(1)] held_reread)
qed

lemma quiet_barrier:
  assumes "storable P r" "rc_phase r \<noteq> HealthyUnclaimed"
  shows "verify_barrier P quiet_load quiet_load quiet_load (rc_job_id r) (rc_revision r) (rc_phase r)
     (rc_cancel_requested r) (held P r (claim_of r)) = (Inr r, held P r (claim_of r))"
proof -
  have "async_load_locked P quiet_load False (held P r (claim_of r)) = (Inr (one_job r), held P r (claim_of r))"
    by (rule quiet_loaded) (use assms in simp_all)
  then show ?thesis
    using storable_id [OF assms(1)]
    by (simp add: verify_barrier_def then_do_def checked_current_def lift_res_def quiet_durable [OF assms]) (simp add: claim_of_def)
qed

lemma quiet_mutation_barrier:
  assumes "storable P r" "rc_phase r \<in> mutation_barriers" "\<not> rc_cancel_requested r"
  shows "async_verify_mutation_barrier P quiet_load quiet_load quiet_load (rc_job_id r) (rc_revision r) (rc_phase r)
     (held P r (claim_of r)) = (Inr r, held P r (claim_of r))"
  using quiet_barrier [OF assms(1)] assms(2,3)
  by (auto simp: async_verify_mutation_barrier_def mutation_barriers_def)

lemma quiet_cleanup_barrier:
  assumes "storable P r" "cleanup_barrier_cancel_polarity (rc_phase r) = Some (rc_cancel_requested r)"
  shows "async_verify_cleanup_barrier P quiet_load quiet_load quiet_load (rc_job_id r) (rc_revision r) (rc_phase r)
     (held P r (claim_of r)) = (Inr r, held P r (claim_of r))"
proof -
  have "rc_phase r \<noteq> HealthyUnclaimed" using assms(2) by auto
  then show ?thesis using quiet_barrier [OF assms(1)] assms(2) by (simp add: async_verify_cleanup_barrier_def)
qed

section \<open>Saving\<close>

lemma no_retained: "storable P r \<Longrightarrow> retained_details P (one_job r) = []"
  using storable_parts(3) [of P r]
  by (simp add: retained_details_def one_job_def dict_values_def List.map_filter_def dict_of_def dict_update_def)

lemma quiet_saved:
  assumes r: "storable P r" and q: "storable P q" and "rc_updated_at r \<le> rc_updated_at q" "rc_job_id q = rc_job_id r"
  shows "async_save_locked P (quiet_save (stored P q)) (one_job q) (held P r c)
     = (Inr (), held P q (filter (claim_stands (one_job q)) c))"
proof -
  have doc: "validated_document_for_save P (one_job q) = Some (serialize_document (one_job q))"
    by (rule validated_document_complete) (use storable_parts(1,5) [OF q] in \<open>simp_all add: stored_text_def\<close>)
  have later: "\<not> moves_back (one_job r) (one_job q)"
    using assms(3,4) by (auto simp: moves_back_def one_job_def not_less)
  have eq: "dict_eq (one_job q) (one_job q)" by (simp add: dict_eq_def one_job_def)
  have "failure_events (Some (one_job r)) (one_job q) = []"
    using storable_parts(4) [OF q] by (auto simp: failure_events_def one_job_def is_terminal_def terminal_phases_def)
  then show ?thesis
    using doc later
    by (simp add: async_save_locked_def Let_def no_retained [OF r] no_retained [OF q] dict_update_def quiet_save_def
        no_details save_documents_def save_details_def save_primary_def run_save_def run_presence_def run_read_def
        presence_stored [OF q] read_stored [OF q] join_one [OF q] eq dict_eq_def [of "[]"] commit_jobs_def
        reconcile_claims_def held_reread) (simp add: held_def)
qed

text \<open>What the claims of one job are once it is the receipt \<open>q\<close>.\<close>

definition claims_after :: "receipt \<Rightarrow> (string \<times> int) list" where
  "claims_after q = (if rc_phase q = HealthyUnclaimed then [] else claim_of q)"

lemma pruned_one:
  assumes "storable P q" "terminal_retention \<le> ts_seconds now"
  shows "prune (one_job q) now = Inr (one_job q)"
proof -
  have "by_recency (one_job q) = []"
    using storable_parts(4) [OF assms(1)] by (simp add: by_recency_def terminal_jobs_def one_job_def dict_values_def)
  then show ?thesis using assms(2) by (simp add: prune_def)
qed

lemma updated_one: "rc_job_id q = rc_job_id r \<Longrightarrow> AList.update (rc_job_id r) q (one_job r) = one_job q"
  by (simp add: one_job_def)

lemma quiet_save_and_return:
  assumes "storable P r" "storable P q" "rc_updated_at r \<le> rc_updated_at q" "rc_job_id q = rc_job_id r"
  shows "save_and_return P (quiet_save (stored P q)) (one_job q) (rc_job_id r) (held P r c)
     = (Inr q, held P q (filter (claim_stands (one_job q)) c))"
  using quiet_saved [OF assms] one_job_found [of q] assms(4) by (simp add: save_and_return_def then_do_def)

lemma quiet_transition:
  assumes r: "storable P r" "rc_phase r \<noteq> HealthyUnclaimed" and q: "storable P q" "q = transitioned now r a"
    and ok: "transition_args_ok P a" "transition_allowed (claim_of r) (rc_job_id r) r a" "receipt_invariants P q"
    and now: "clock now = Inr now" "terminal_retention \<le> ts_seconds now" "rc_updated_at r \<le> now"
  shows "async_transition P quiet_load (quiet_save (stored P q)) now (rc_job_id r) (rc_revision r) a
     (held P r (claim_of r)) = (Inr q, held P q (claims_after q))"
proof -
  have q': "rc_job_id q = rc_job_id r" "rc_updated_at q = now" "rc_executor_generation q = rc_executor_generation r"
    by (simp_all add: q(2) transitioned_def)
  have load: "async_load_locked P quiet_load True (held P r (claim_of r)) = (Inr (one_job r), held P r (claim_of r))"
    by (rule quiet_loaded) (use r in simp_all)
  have plan: "bind_res (checked_current (one_job r) (rc_job_id r) (rc_revision r))
      (transition_plan P now (claim_of r) (rc_job_id r) a) = Inr q"
    using storable_id [OF r(1)] ok now(1) q(2)
    by (simp add: checked_current_def bind_res_def transition_plan_def)
  have pr: "prune (one_job q) now = Inr (one_job q)" by (rule pruned_one [OF q(1) now(2)])
  have "claim_of r = claim_of q" by (simp add: claim_of_def q')
  then have "filter (claim_stands (one_job q)) (claim_of r) = claims_after q"
    using claims_stand [OF q(1)] by (simp add: claims_after_def)
  then show ?thesis
    using quiet_save_and_return [OF r(1) q(1), of "claim_of r"] now(3)
    by (simp add: async_transition_def ok(1) load then_do_def lift_res_def plan updated_one q' pr)
qed

lemma quiet_claim:
  assumes r: "storable P r" "rc_phase r \<noteq> HealthyUnclaimed" "rc_phase r \<notin> restart_ambiguous_phases"
      "\<not> attempts_exhausted r"
    and q: "storable P q" "q = claimed_receipt now r"
    and now: "clock now = Inr now" "terminal_retention \<le> ts_seconds now" "rc_updated_at r \<le> now"
  shows "async_claim P quiet_load (quiet_save (stored P q)) now (rc_job_id r) (rc_revision r) None (held P r [])
     = (Inr q, held P q (claim_of q))"
proof -
  have q': "rc_job_id q = rc_job_id r" "rc_updated_at q = now"
    by (simp_all add: q(2) claimed_receipt_def Let_def)
  have load: "async_load_locked P quiet_load True (held P r []) = (Inr (one_job r), held P r [])"
    by (rule quiet_loaded) (use r in simp_all)
  have plan: "bind_res (checked_current (one_job r) (rc_job_id r) (rc_revision r))
      (claim_plan now [] (rc_job_id r) None) = Inr (StoreReceipt q)"
    using storable_id [OF r(1)] storable_parts(4) [OF r(1)] r(2,3,4) now(1) q(2)
    by (simp add: checked_current_def bind_res_def claim_plan_def)
  have "prune (one_job q) now = Inr (one_job q)" by (rule pruned_one [OF q(1) now(2)])
  moreover have "held P q []\<lparr>mg_claimed := claim_of q\<rparr> = held P q (claim_of q)" by (simp add: held_def)
  ultimately show ?thesis
    using quiet_save_and_return [OF r(1) q(1), of "[]"] now(3) storable_parts(4) [OF q(1)]
    by (simp add: async_claim_def load then_do_def lift_res_def plan store_claim_def updated_one q' record_claim_def
        claim_of_def [of q, symmetric]) (simp add: claim_of_def held_def q')
qed

end
