(* ===== verification/Executor_World.thy ===== *)
theory Executor_World
  imports Install_Workflow
begin

text \<open>
  What the installer's worker (install\_executor.py) stands on.  The first part is data: the
  failures its callees raise, the frozen forms it rebuilds from a receipt (descriptor, release,
  pinned target, staging slot) and the decisions it takes on them.  The second part is its
  world: the job manager of \<open>Install_Jobs\<close> on its disk, other callers of that manager, the
  panel over ADB and HTTP, the artifact store and the credential store.  The panel and the
  stores are answers in the order of the calls (\<open>outside\<close>); each call leaves an event, so that
  theorems can speak of what was done to the panel and when.
\<close>

section \<open>Failures\<close>

datatype adb_code =
    AdbInvalidRequest | TargetUnreachable | AuthorizationRequired | TargetChanged | RootModeChanged
  | TargetResponseInvalid | TargetIncompatible | TargetNotClean | InstalledPackageMissing
  | RootStateAmbiguous | LocalArtifactInvalid | FilesyncUnsafe | StagingPathOccupied
  | StageAmbiguous | StageInterrupted | StageVerificationFailed | InstallAmbiguous
  | LaunchAmbiguous | CleanupAmbiguous

datatype artifact_code =
    DescriptorRequired | ContractInvalid | JobIdInvalid | PathInvalid | ReadyInvalid | ArtifactBusy
  | RedirectInvalid | HttpStatus | ResponseInvalid | TooLarge | SizeMismatch | DigestMismatch
  | ArtifactTimeout | DownloadFailed | IoFailed

fun adb_value :: "adb_code \<Rightarrow> string" where
  "adb_value AdbInvalidRequest = ''invalid_request''"
| "adb_value TargetUnreachable = ''target_unreachable''"
| "adb_value AuthorizationRequired = ''authorization_required''"
| "adb_value TargetChanged = ''target_changed''"
| "adb_value RootModeChanged = ''root_mode_changed''"
| "adb_value TargetResponseInvalid = ''target_response_invalid''"
| "adb_value TargetIncompatible = ''target_incompatible''"
| "adb_value TargetNotClean = ''target_not_clean''"
| "adb_value InstalledPackageMissing = ''installed_package_missing''"
| "adb_value RootStateAmbiguous = ''root_state_ambiguous''"
| "adb_value LocalArtifactInvalid = ''local_artifact_invalid''"
| "adb_value FilesyncUnsafe = ''filesync_unsafe''"
| "adb_value StagingPathOccupied = ''staging_path_occupied''"
| "adb_value StageAmbiguous = ''stage_ambiguous''"
| "adb_value StageInterrupted = ''stage_interrupted''"
| "adb_value StageVerificationFailed = ''stage_verification_failed''"
| "adb_value InstallAmbiguous = ''install_ambiguous''"
| "adb_value LaunchAmbiguous = ''launch_ambiguous''"
| "adb_value CleanupAmbiguous = ''cleanup_ambiguous''"

fun artifact_value :: "artifact_code \<Rightarrow> string" where
  "artifact_value DescriptorRequired = ''descriptor_required''"
| "artifact_value ContractInvalid = ''artifact_contract_invalid''"
| "artifact_value JobIdInvalid = ''artifact_job_id_invalid''"
| "artifact_value PathInvalid = ''artifact_path_invalid''"
| "artifact_value ReadyInvalid = ''artifact_ready_invalid''"
| "artifact_value ArtifactBusy = ''artifact_busy''"
| "artifact_value RedirectInvalid = ''artifact_redirect_invalid''"
| "artifact_value HttpStatus = ''artifact_http_status''"
| "artifact_value ResponseInvalid = ''artifact_response_invalid''"
| "artifact_value TooLarge = ''artifact_too_large''"
| "artifact_value SizeMismatch = ''artifact_size_mismatch''"
| "artifact_value DigestMismatch = ''artifact_digest_mismatch''"
| "artifact_value ArtifactTimeout = ''artifact_timeout''"
| "artifact_value DownloadFailed = ''artifact_download_failed''"
| "artifact_value IoFailed = ''artifact_io_failed''"

fun network_value :: "install_network_error \<Rightarrow> string" where
  "network_value InvalidHost = ''invalid_host''"
| "network_value ResolutionFailed = ''resolution_failed''"
| "network_value ResolutionTimeout = ''resolution_timeout''"
| "network_value TooManyResults = ''too_many_results''"
| "network_value UnsafeTarget = ''unsafe_target''"
| "network_value PinnedTargetRemoved = ''pinned_target_removed''"
| "network_value EmbeddedNull = ''''"

text \<open>
  Everything a statement of the worker can raise.  \<open>CancellationObserved\<close> and \<open>PauseJob\<close> are
  the worker's own; \<open>TaskCancelled\<close> is \<open>asyncio.CancelledError\<close>; \<open>OtherError\<close> is any exception
  no handler of the file names.
\<close>

datatype exc =
    CredentialError
  | NetworkError install_network_error
  | AdbError adb_code
  | CustodyError artifact_code
  | JobError job_error
  | CannotConnect
  | InvalidResponse
  | CancellationObserved receipt
  | PauseJob bool
  | TaskCancelled
  | OtherError

text \<open>The manager's failures that are not of the \<open>InstallJobError\<close> family.\<close>

definition job_exc :: "job_error \<Rightarrow> exc" where
  "job_exc e = (case e of CallerCancelled \<Rightarrow> TaskCancelled
     | ClockUnderflow \<Rightarrow> OtherError | LostJob \<Rightarrow> OtherError | TokensTaken \<Rightarrow> OtherError
     | _ \<Rightarrow> JobError e)"

text \<open>A name with a NUL makes \<open>getaddrinfo\<close> raise \<open>ValueError\<close>, which is no \<open>InstallNetworkError\<close>.\<close>

definition network_exc :: "install_network_error \<Rightarrow> exc" where
  "network_exc e = (if e = EmbeddedNull then OtherError else NetworkError e)"

fun result_subcode :: "exc \<Rightarrow> string" where
  "result_subcode CredentialError = ''credential:unavailable''"
| "result_subcode (NetworkError e) = ''network:'' @ network_value e"
| "result_subcode (AdbError e) = ''adb:'' @ adb_value e"
| "result_subcode (CustodyError e) = ''artifact:'' @ artifact_value e"
| "result_subcode _ = ''''"

definition ambiguous_adb_errors :: "adb_code set" where
  "ambiguous_adb_errors = {StageAmbiguous, StageVerificationFailed, InstallAmbiguous,
     LaunchAmbiguous, CleanupAmbiguous}"

definition preflight_rejections :: "adb_code set" where
  "preflight_rejections = {TargetChanged, TargetIncompatible, TargetNotClean, RootStateAmbiguous}"

definition artifact_rejections :: "artifact_code set" where
  "artifact_rejections = {DescriptorRequired, ContractInvalid, JobIdInvalid, PathInvalid,
     ReadyInvalid, RedirectInvalid, HttpStatus, ResponseInvalid, TooLarge, SizeMismatch,
     DigestMismatch, IoFailed}"

definition preflight_result :: "adb_code \<Rightarrow> result_code" where
  "preflight_result e = (if e \<in> preflight_rejections then PreflightRejected else TransportFailed)"

definition stage_result :: "adb_code \<Rightarrow> result_code" where
  "stage_result e = (if e \<in> {AdbInvalidRequest, LocalArtifactInvalid, FilesyncUnsafe, StagingPathOccupied}
     then ArtifactRejected else TransportFailed)"

definition cleanup_result :: "adb_code \<Rightarrow> result_code" where
  "cleanup_result e = (if e = CleanupAmbiguous then AmbiguousMutation else VerificationRequired)"

definition artifact_result :: "artifact_code \<Rightarrow> result_code" where
  "artifact_result e = (if e \<in> artifact_rejections then ArtifactRejected else TransportFailed)"

section \<open>What the worker rebuilds from a receipt\<close>

record install_descriptor =
  ds_schema :: string
  ds_release_tag :: string
  ds_version_name :: string
  ds_version_code :: int
  ds_apk_name :: string
  ds_apk_size :: int
  ds_apk_sha256 :: string
  ds_package_id :: string
  ds_signer :: string
  ds_min_sdk :: int
  ds_supported_abis :: "string list"
  ds_database :: string
  ds_launch_component :: string

record release_artifact =
  ra_tag :: string
  ra_version :: string
  ra_apk_name :: string
  ra_apk_url :: string
  ra_sha256 :: string
  ra_descriptor :: install_descriptor
  ra_protocol_min :: "int option"
  ra_protocol_max :: "int option"

record adb_target =
  at_address :: panel_address
  at_serial :: string
  at_model :: string
  at_primary_abi :: string
  at_android_sdk :: int

record custodied_artifact =
  cu_job_id :: string
  cu_path :: string
  cu_size :: int
  cu_sha256 :: string

record staged_apk =
  sg_job_id :: string
  sg_remote_path :: string
  sg_apk_size :: int
  sg_apk_sha256 :: string

datatype root_mode = RootAdbd | Rootless | RootSu

fun root_mode_value :: "root_mode \<Rightarrow> string" where
  "root_mode_value RootAdbd = ''root_adbd''"
| "root_mode_value Rootless = ''rootless''"
| "root_mode_value RootSu = ''root_su''"

definition root_mode_of_value :: "string \<Rightarrow> root_mode option" where
  "root_mode_of_value s = find (\<lambda>m. root_mode_value m = s) [RootAdbd, Rootless, RootSu]"

record adb_preflight =
  pv_serial :: string
  pv_model :: string
  pv_primary_abi :: string
  pv_android_sdk :: int
  pv_root_mode :: root_mode
  pv_target_installed :: bool

record frozen_execution =
  fx_pinned :: pinned_panel_target
  fx_adb_target :: adb_target
  fx_descriptor :: install_descriptor
  fx_release :: release_artifact
  fx_execution_id :: string

text \<open>\<open>bytes.fromhex\<close>: two hex digits a byte, white space between bytes skipped.\<close>

fun bytes_fromhex :: "string \<Rightarrow> string option" where
  "bytes_fromhex [] = Some []"
| "bytes_fromhex [c] = (if c \<in> set [CHR '' '', CHR 0x09, CHR 0x0A, CHR 0x0B, CHR 0x0C, CHR 0x0D]
     then Some [] else None)"
| "bytes_fromhex (c # d # s) =
     (if c \<in> set [CHR '' '', CHR 0x09, CHR 0x0A, CHR 0x0B, CHR 0x0C, CHR 0x0D] then bytes_fromhex (d # s)
      else if is_hex c \<and> is_hex d
      then map_option ((#) (char_of (nat (16 * hex_digit_value c + hex_digit_value d)))) (bytes_fromhex s)
      else None)"

definition execution_id_domain :: string where
  "execution_id_domain = ''ha-paneld-install-execution-v1'' @ [CHR 0x00]"

definition execution_id :: "platform \<Rightarrow> receipt \<Rightarrow> string option" where
  "execution_id P r = do {
     job \<leftarrow> bytes_fromhex (rc_job_id r);
     plan \<leftarrow> bytes_fromhex (rc_plan_sha256 r);
     Some (take 32 (pf_sha256 P (execution_id_domain @ job @ plan))) }"

definition remote_staging_slot_id :: "platform \<Rightarrow> string" where
  "remote_staging_slot_id P =
     take 32 (pf_sha256 P (''ha-paneld-device-local-staging-slot-v1'' @ [CHR 0x00]))"

definition remote_staging_prefix :: string where
  "remote_staging_prefix = ''/data/local/tmp/ha-paneld-install-''"

definition release_download_root :: string where
  "release_download_root = ''https://github.com/panel-assistant/android/releases/download''"

definition descriptor_of :: "install_artifact \<Rightarrow> install_descriptor" where
  "descriptor_of a = \<lparr>ds_schema = ar_descriptor_schema a, ds_release_tag = ar_release_tag a,
     ds_version_name = ar_version_name a, ds_version_code = ar_version_code a,
     ds_apk_name = ar_apk_name a, ds_apk_size = ar_apk_size a, ds_apk_sha256 = ar_apk_sha256 a,
     ds_package_id = ar_package_id a, ds_signer = ar_signer a, ds_min_sdk = ar_min_sdk a,
     ds_supported_abis = ar_supported_abis a, ds_database = ar_database a,
     ds_launch_component = ar_launch_component a\<rparr>"

text \<open>\<open>url_join\<close> is yarl's \<open>URL.join\<close> of the feed's URL with a relative one, as text.\<close>

definition apk_url :: "(string \<Rightarrow> string \<Rightarrow> string) \<Rightarrow> receipt \<Rightarrow> string option \<Rightarrow> string" where
  "apk_url url_join r feed_url = (let a = rc_artifact r in
     if is_feed_build_tag (ar_release_tag a)
     then (case feed_url of None \<Rightarrow> '''' | Some u \<Rightarrow> url_join u (''apks/'' @ ar_apk_name a))
     else release_download_root @ ''/'' @ ar_release_tag a @ ''/'' @ ar_apk_name a)"

definition pinned_target :: "receipt \<Rightarrow> pinned_panel_target option" where
  "pinned_target r = do {
     original \<leftarrow> normalize_address (tg_address (rc_target r));
     pinned \<leftarrow> normalize_address (tg_pinned_address (rc_target r));
     Some \<lparr>pt_original = original, pt_pinned = pinned\<rparr> }"

definition adb_target_of :: "receipt \<Rightarrow> adb_target option" where
  "adb_target_of r = do {
     address \<leftarrow> normalize_address (tg_pinned_address (rc_target r));
     Some \<lparr>at_address = address, at_serial = tg_adb_serial (rc_target r),
       at_model = tg_model (rc_target r), at_primary_abi = tg_primary_abi (rc_target r),
       at_android_sdk = tg_android_sdk (rc_target r)\<rparr> }"

definition frozen_execution ::
  "platform \<Rightarrow> (string \<Rightarrow> string \<Rightarrow> string) \<Rightarrow> receipt \<Rightarrow> string option \<Rightarrow> frozen_execution option" where
  "frozen_execution P url_join r feed_url = (let a = rc_artifact r in do {
     eid \<leftarrow> execution_id P r;
     pinned \<leftarrow> pinned_target r;
     adb \<leftarrow> adb_target_of r;
     Some \<lparr>fx_pinned = pinned, fx_adb_target = adb, fx_descriptor = descriptor_of a,
       fx_release = \<lparr>ra_tag = ar_release_tag a, ra_version = ar_version_name a,
         ra_apk_name = ar_apk_name a, ra_apk_url = apk_url url_join r feed_url,
         ra_sha256 = ar_apk_sha256 a, ra_descriptor = descriptor_of a,
         ra_protocol_min = ar_protocol_min a, ra_protocol_max = ar_protocol_max a\<rparr>,
       fx_execution_id = eid\<rparr> })"

definition staged_of :: "platform \<Rightarrow> install_artifact \<Rightarrow> staged_apk" where
  "staged_of P a = (let slot = remote_staging_slot_id P in
     \<lparr>sg_job_id = slot, sg_remote_path = remote_staging_prefix @ slot @ ''.apk'',
      sg_apk_size = ar_apk_size a, sg_apk_sha256 = ar_apk_sha256 a\<rparr>)"

section \<open>Decisions\<close>

record app_health =
  ah_version :: string
  ah_package :: "string option"

definition health_is_installed_app :: "app_health \<Rightarrow> string \<Rightarrow> string \<Rightarrow> bool" where
  "health_is_installed_app h version_name package_id \<longleftrightarrow>
     ah_version h = version_name \<and> reports_package (ah_package h) package_id"

text \<open>\<open>home_ui_allows\<close> (status.py) for the setup path, which is the one the installer takes.\<close>

definition home_ui_allows_setup :: "pydict option \<Rightarrow> bool" where
  "home_ui_allows_setup home_ui = (case home_ui of None \<Rightarrow> False
     | Some d \<Rightarrow> dict_get d ''state'' \<in> {PStr ''ready'', PStr ''setup''})"

definition same_physical_target :: "adb_preflight \<Rightarrow> adb_target \<Rightarrow> bool" where
  "same_physical_target p t \<longleftrightarrow>
     (pv_serial p, pv_model p, pv_primary_abi p, pv_android_sdk p)
     = (at_serial t, at_model t, at_primary_abi t, at_android_sdk t)"

text \<open>\<open>version\<close> is \<open>INTEGRATION_VERSION\<close>; no entry exists yet, so only the receipt's own opt-in
  stands beside the running release.\<close>

definition build_admitted :: "string \<Rightarrow> install_artifact \<Rightarrow> bool" where
  "build_admitted version a = build_allowed (ar_version_name a) (ar_protocol_min a) (ar_protocol_max a)
     (prereleases_allowed version False \<or> ar_prerelease_opt_in a)"

definition local_artifact_ok :: "custodied_artifact \<Rightarrow> string \<Rightarrow> install_artifact \<Rightarrow> bool" where
  "local_artifact_ok c eid a \<longleftrightarrow> cu_job_id c = eid \<and> cu_size c = ar_apk_size a
     \<and> cu_sha256 c = ar_apk_sha256 a \<and> cu_path c \<noteq> []"

section \<open>The world of a worker\<close>

datatype ('e, 'a) reply = Reply 'a | Fails 'e | Breaks

definition outcome :: "('e \<Rightarrow> exc) \<Rightarrow> ('e, 'a) reply \<Rightarrow> exc + 'a" where
  "outcome f r = (case r of Reply x \<Rightarrow> Inr x | Fails e \<Rightarrow> Inl (f e) | Breaks \<Rightarrow> Inl OtherError)"

datatype panel_error = PanelSilent | PanelUnreadable

fun panel_exc :: "panel_error \<Rightarrow> exc" where
  "panel_exc PanelSilent = CannotConnect"
| "panel_exc PanelUnreadable = InvalidResponse"

datatype install_outcome = PackageInstalled | PackageRefused | PackageUnknown
datatype launch_outcome = AppStarted | AppRefused | AppUnknown

record app_launch =
  la_outcome :: launch_outcome
  la_home_chooser :: "string option"

datatype cleanup_reason = CleanupCancelled | CleanupInstalled | CleanupRefused

text \<open>What a call changes on the panel.\<close>

datatype panel_change =
    StageApk string | InstallApk | LaunchApp | ApplySizing | SettleDisplay
  | RemoveStaged staged_apk cleanup_reason

datatype event =
    Changed panel_change adb_target string  \<comment> \<open>with the credential of this generation\<close>
  | Barred receipt | CleanupBarred receipt  \<comment> \<open>a barrier that let the worker pass\<close>
  | Moved receipt | Claimed receipt | JobRead receipt | JobsRead | Refused job_error
  | CredentialRead | Revalidated | Preflighted | SizeRead | InstallOpened | TargetVerified
  | Downloaded release_artifact | LocalCleaned string | LocalKept string
  | HealthRead | StatusRead | WebviewProvisioned | UrlOffered | SizingRead | Slept

text \<open>
  The answers of everything outside, in the order of the calls (\<open>nat\<close> counts them), and what
  other tasks ask of the manager before each of its calls.  \<open>ou_stop\<close> says at which call the
  worker's task is cancelled.  \<open>ou_install_opened\<close> is the part of \<open>async_install_staged_apk\<close>
  before its admission callback, \<open>ou_installed\<close> the package manager's run after it.
\<close>

record outside =
  ou_platform :: platform
  ou_integration :: string
  ou_url_join :: "string \<Rightarrow> string \<Rightarrow> string"
  ou_feed_url :: "nat \<Rightarrow> string option"
  ou_stop :: "nat \<Rightarrow> bool"
  ou_requests :: "nat \<Rightarrow> request list"
  ou_load :: "nat \<Rightarrow> load_io"
  ou_durable :: "nat \<Rightarrow> load_io \<times> load_io"
  ou_save :: "nat \<Rightarrow> save_io"
  ou_clock :: "nat \<Rightarrow> string"
  ou_resolver :: "nat \<Rightarrow> string \<Rightarrow> int \<Rightarrow> resolver_outcome"
  ou_credential :: "nat \<Rightarrow> (unit, string) reply"
  ou_preflight :: "nat \<Rightarrow> (adb_code, adb_preflight) reply"
  ou_size :: "nat \<Rightarrow> (adb_code, int option) reply"
  ou_download :: "nat \<Rightarrow> (artifact_code, custodied_artifact) reply"
  ou_clean_local :: "nat \<Rightarrow> (artifact_code, unit) reply"
  ou_stage :: "nat \<Rightarrow> (adb_code, staged_apk) reply"
  ou_install_opened :: "nat \<Rightarrow> (adb_code, unit) reply"
  ou_installed :: "nat \<Rightarrow> (adb_code, install_outcome) reply"
  ou_remove_staged :: "nat \<Rightarrow> (adb_code, unit) reply"
  ou_launch :: "nat \<Rightarrow> (adb_code, app_launch) reply"
  ou_verify :: "nat \<Rightarrow> (adb_code, unit) reply"
  ou_health :: "nat \<Rightarrow> (panel_error, app_health) reply"
  ou_status :: "nat \<Rightarrow> (panel_error, pydict option) reply"
  ou_offer_url :: "nat \<Rightarrow> (unit, string) reply"
  ou_sizing :: "nat \<Rightarrow> (unit, bool) reply"  \<comment> \<open>whether the panel recommends a size\<close>
  ou_apply_sizing :: "nat \<Rightarrow> (adb_code, bool) reply"  \<comment> \<open>\<open>converged\<close>\<close>
  ou_settle :: "nat \<Rightarrow> (adb_code, string) reply"

record bench =
  bn_jobs :: manager
  bn_time :: nat
  bn_log :: "event list"  \<comment> \<open>newest first\<close>

type_synonym 'a work = "bench \<Rightarrow> (exc + 'a) \<times> bench"

definition return_work :: "'a \<Rightarrow> 'a work" where
  "return_work x b = (Inr x, b)"

definition raise_work :: "exc \<Rightarrow> 'a work" where
  "raise_work e b = (Inl e, b)"

text \<open>\<open>try: x = m except e: h(e) else: k(x)\<close>; where \<open>h\<close> is silent the exception goes on.\<close>

definition attempt :: "'a work \<Rightarrow> (exc \<Rightarrow> 'b work option) \<Rightarrow> ('a \<Rightarrow> 'b work) \<Rightarrow> 'b work" where
  "attempt m h k b = (case m b of
     (Inr x, b') \<Rightarrow> k x b'
   | (Inl e, b') \<Rightarrow> (case h e of None \<Rightarrow> (Inl e, b') | Some w \<Rightarrow> w b'))"

definition sequel :: "'a work \<Rightarrow> ('a \<Rightarrow> 'b work) \<Rightarrow> 'b work" where
  "sequel m k = attempt m (\<lambda>_. None) k"

definition require :: "bool \<Rightarrow> exc \<Rightarrow> unit work" where
  "require c e = (if c then return_work () else raise_work e)"

definition or_other :: "'a option \<Rightarrow> 'a work" where
  "or_other x = (case x of None \<Rightarrow> raise_work OtherError | Some y \<Rightarrow> return_work y)"

text \<open>One awaited call: its event, and its answer unless the task is cancelled in it.\<close>

definition ask :: "outside \<Rightarrow> event \<Rightarrow> (nat \<Rightarrow> exc + 'a) \<Rightarrow> 'a work" where
  "ask E ev f b = (let t = bn_time b; b' = b\<lparr>bn_time := t + 1, bn_log := ev # bn_log b\<rparr>
     in (if ou_stop E t then Inl TaskCancelled else f t, b'))"

text \<open>One call of the job manager, after what other tasks asked of it meanwhile.\<close>

definition manager_call ::
  "outside \<Rightarrow> ('a \<Rightarrow> event) \<Rightarrow> (nat \<Rightarrow> manager \<Rightarrow> (job_error + 'a) \<times> manager) \<Rightarrow> 'a work" where
  "manager_call E ev f b = (let t = bn_time b in
     case f t (serve (ou_platform E) (ou_requests E t) (bn_jobs b)) of
       (Inl e, st) \<Rightarrow> (Inl (job_exc e), b\<lparr>bn_jobs := st, bn_time := t + 1, bn_log := Refused e # bn_log b\<rparr>)
     | (Inr x, st) \<Rightarrow> (Inr x, b\<lparr>bn_jobs := st, bn_time := t + 1, bn_log := ev x # bn_log b\<rparr>))"

end
