(* ===== verification/Install_Executor.thy ===== *)
theory Install_Executor
  imports Executor_World
begin

text \<open>
  The worker of one installation: \<open>InstallExecutor._async_run\<close> of install\_executor.py and
  every method it calls, one definition each, from taking up the durable receipt to
  \<open>HEALTHY_UNCLAIMED\<close>.  A method is a \<open>work\<close>: it runs in the world of \<open>Executor_World\<close> and
  returns or raises.  \<open>_async_run\<close>'s loop takes fuel; \<open>Executor_Runs\<close> shows how much is enough.
\<close>

section \<open>Calls of the job manager\<close>

definition job_get :: "outside \<Rightarrow> string \<Rightarrow> receipt work" where
  "job_get E job_id = manager_call E JobRead (\<lambda>t. async_get (ou_platform E) (ou_load E t) job_id)"

definition job_list :: "outside \<Rightarrow> receipt list work" where
  "job_list E = manager_call E (\<lambda>_. JobsRead) (\<lambda>t. async_list (ou_platform E) (ou_load E t))"

definition job_claim :: "outside \<Rightarrow> string \<Rightarrow> int \<Rightarrow> int option \<Rightarrow> receipt work" where
  "job_claim E job_id revision confirmed = manager_call E Claimed (\<lambda>t.
     async_claim (ou_platform E) (ou_load E t) (ou_save E t) (ou_clock E t) job_id revision confirmed)"

definition job_transition :: "outside \<Rightarrow> string \<Rightarrow> int \<Rightarrow> transition_args \<Rightarrow> receipt work" where
  "job_transition E job_id revision a = manager_call E Moved (\<lambda>t.
     async_transition (ou_platform E) (ou_load E t) (ou_save E t) (ou_clock E t) job_id revision a)"

definition job_mutation_barrier :: "outside \<Rightarrow> string \<Rightarrow> int \<Rightarrow> install_phase \<Rightarrow> receipt work" where
  "job_mutation_barrier E job_id revision phase = manager_call E Barred (\<lambda>t.
     async_verify_mutation_barrier (ou_platform E) (ou_load E t) (fst (ou_durable E t))
       (snd (ou_durable E t)) job_id revision phase)"

definition job_cleanup_barrier :: "outside \<Rightarrow> string \<Rightarrow> int \<Rightarrow> install_phase \<Rightarrow> receipt work" where
  "job_cleanup_barrier E job_id revision phase = manager_call E CleanupBarred (\<lambda>t.
     async_verify_cleanup_barrier (ou_platform E) (ou_load E t) (fst (ou_durable E t))
       (snd (ou_durable E t)) job_id revision phase)"

text \<open>The keyword arguments a caller leaves out.\<close>

definition move_to :: "install_phase \<Rightarrow> transition_args" where
  "move_to p = \<lparr>ta_phase = p, ta_root_mode = None, ta_actual_apk_bytes = None,
     ta_health_checked_at = None, ta_result_code = None, ta_result_subcode = None,
     ta_consumed_entry_id = None, ta_home_claim_deferred = None\<rparr>"

section \<open>Small steps of the worker\<close>

definition require_pin :: "outside \<Rightarrow> pinned_panel_target \<Rightarrow> unit work" where
  "require_pin E pinned =
     sequel (ask E Revalidated (\<lambda>t. map_sum network_exc id
         (async_revalidate_install_target (ou_platform E) (ou_resolver E t) pinned))) (\<lambda>revalidated.
     require (revalidated = pinned) (NetworkError PinnedTargetRemoved))"

definition current_credential :: "outside \<Rightarrow> receipt \<Rightarrow> string work" where
  "current_credential E r =
     sequel (ask E CredentialRead (\<lambda>t. outcome (\<lambda>_. CredentialError) (ou_credential E t))) (\<lambda>generation.
     sequel (require (generation = rc_adb_credential_id r) CredentialError) (\<lambda>_.
     return_work generation))"

definition require_build_admission :: "outside \<Rightarrow> install_artifact \<Rightarrow> unit work" where
  "require_build_admission E a =
     require (build_admitted (ou_integration E) a) (CustodyError ContractInvalid)"

definition require_local_artifact ::
  "custodied_artifact \<Rightarrow> string \<Rightarrow> install_artifact \<Rightarrow> unit work" where
  "require_local_artifact c eid a = require (local_artifact_ok c eid a) (CustodyError ReadyInvalid)"

definition expected_root_mode :: "receipt \<Rightarrow> root_mode work" where
  "expected_root_mode r = (case rc_preflight_root_mode r of
     None \<Rightarrow> raise_work (JobError StoreError)
   | Some s \<Rightarrow> (case root_mode_of_value s of
       None \<Rightarrow> raise_work (JobError StoreError) | Some m \<Rightarrow> return_work m))"

definition panel_preflight :: "outside \<Rightarrow> receipt \<Rightarrow> frozen_execution \<Rightarrow> adb_preflight work" where
  "panel_preflight E r x =
     sequel (require_pin E (fx_pinned x)) (\<lambda>_.
     sequel (current_credential E r) (\<lambda>_.
     sequel (ask E Preflighted (\<lambda>t. outcome AdbError (ou_preflight E t))) (\<lambda>observed.
     sequel (require (same_physical_target observed (fx_adb_target x)) (AdbError TargetChanged)) (\<lambda>_.
     return_work observed))))"

definition installed_bytes :: "outside \<Rightarrow> receipt \<Rightarrow> int option work" where
  "installed_bytes E r =
     sequel (current_credential E r) (\<lambda>_. ask E SizeRead (\<lambda>t. outcome AdbError (ou_size E t)))"

definition download :: "outside \<Rightarrow> frozen_execution \<Rightarrow> custodied_artifact work" where
  "download E x = ask E (Downloaded (fx_release x)) (\<lambda>t. outcome CustodyError (ou_download E t))"

definition ensure_local_artifact ::
  "outside \<Rightarrow> receipt \<Rightarrow> frozen_execution \<Rightarrow> custodied_artifact work" where
  "ensure_local_artifact E r x =
     sequel (require_build_admission E (rc_artifact r)) (\<lambda>_.
     sequel (download E x) (\<lambda>local.
     sequel (require_local_artifact local (fx_execution_id x) (rc_artifact r)) (\<lambda>_.
     return_work local)))"

text \<open>The event says whether the file is gone.\<close>

definition cleanup_local :: "outside \<Rightarrow> string \<Rightarrow> unit work" where
  "cleanup_local E eid b =
     ask E (if ou_clean_local E (bn_time b) = Reply () then LocalCleaned eid else LocalKept eid)
       (\<lambda>t. outcome CustodyError (ou_clean_local E t)) b"

text \<open>\<open>panel_call\<close> is one call that changes the panel.\<close>

definition panel_call ::
  "outside \<Rightarrow> panel_change \<Rightarrow> frozen_execution \<Rightarrow> string \<Rightarrow> (nat \<Rightarrow> (adb_code, 'a) reply) \<Rightarrow> 'a work" where
  "panel_call E change x credential f =
     ask E (Changed change (fx_adb_target x) credential) (\<lambda>t. outcome AdbError (f t))"

section \<open>Authority\<close>

text \<open>What both authorities check of the receipt read again.\<close>

definition same_hold :: "receipt \<Rightarrow> receipt \<Rightarrow> bool" where
  "same_hold current r \<longleftrightarrow> rc_revision current = rc_revision r \<and> rc_phase current = rc_phase r
     \<and> rc_executor_generation current = rc_executor_generation r"

definition cancel_seen :: "receipt \<Rightarrow> receipt \<Rightarrow> bool" where
  "cancel_seen current r \<longleftrightarrow> rc_phase current = rc_phase r
     \<and> rc_executor_generation current = rc_executor_generation r \<and> rc_cancel_requested current"

definition mutation_authority ::
  "outside \<Rightarrow> receipt \<Rightarrow> frozen_execution \<Rightarrow> (string \<times> receipt) work" where
  "mutation_authority E r x =
     sequel (require_pin E (fx_pinned x)) (\<lambda>_.
     sequel (job_get E (rc_job_id r)) (\<lambda>current.
     sequel (require (same_hold current r)
       (if cancel_seen current r then CancellationObserved current else JobError RevisionError)) (\<lambda>_.
     sequel (job_mutation_barrier E (rc_job_id current) (rc_revision current) (rc_phase current)) (\<lambda>held.
     sequel (current_credential E held) (\<lambda>credential.
     sequel (if rc_phase held \<in> {Staging, Installing}
             then require_build_admission E (rc_artifact held) else return_work ()) (\<lambda>_.
     return_work (credential, held)))))))"

definition cleanup_authority ::
  "outside \<Rightarrow> receipt \<Rightarrow> frozen_execution \<Rightarrow> (string \<times> receipt) work" where
  "cleanup_authority E r x =
     sequel (require_pin E (fx_pinned x)) (\<lambda>_.
     sequel (job_get E (rc_job_id r)) (\<lambda>current.
     sequel (require (same_hold current r) (JobError RevisionError)) (\<lambda>_.
     sequel (job_cleanup_barrier E (rc_job_id current) (rc_revision current) (rc_phase current)) (\<lambda>held.
     sequel (current_credential E held) (\<lambda>credential.
     return_work (credential, held))))))"

section \<open>Ending a job\<close>

definition worker_transition :: "outside \<Rightarrow> receipt \<Rightarrow> transition_args \<Rightarrow> receipt work" where
  "worker_transition E r a =
     attempt (job_transition E (rc_job_id r) (rc_revision r) a)
       (\<lambda>e. if e = JobError RevisionError
         then Some (sequel (job_get E (rc_job_id r)) (\<lambda>current.
                if cancel_seen current r then return_work current else raise_work e))
         else None)
       return_work"

definition worker_fail :: "outside \<Rightarrow> receipt \<Rightarrow> result_code \<Rightarrow> string \<Rightarrow> receipt work" where
  "worker_fail E r result subcode =
     sequel (job_get E (rc_job_id r)) (\<lambda>current.
     if is_terminal current then return_work current
     else job_transition E (rc_job_id current) (rc_revision current)
       ((move_to Failed)\<lparr>ta_result_code := Some result, ta_result_subcode := Some subcode\<rparr>))"

definition pause_on_custody :: "bool \<Rightarrow> exc \<Rightarrow> 'a work option" where
  "pause_on_custody nonrestartable e = (case e of
     CustodyError _ \<Rightarrow> Some (raise_work (PauseJob nonrestartable)) | _ \<Rightarrow> None)"

definition worker_recovery :: "outside \<Rightarrow> receipt \<Rightarrow> result_code \<Rightarrow> string \<Rightarrow> receipt work" where
  "worker_recovery E r result subcode =
     sequel (job_get E (rc_job_id r)) (\<lambda>current.
     if is_terminal current then return_work current
     else sequel (or_other (execution_id (ou_platform E) current)) (\<lambda>eid.
       attempt (cleanup_local E eid) (pause_on_custody True) (\<lambda>_.
       sequel (job_get E (rc_job_id r)) (\<lambda>current.
       if is_terminal current then return_work current
       else job_transition E (rc_job_id current) (rc_revision current)
         ((move_to RecoveryRequired)\<lparr>ta_result_code := Some result,
            ta_result_subcode := Some subcode\<rparr>)))))"

definition worker_claim :: "outside \<Rightarrow> receipt \<Rightarrow> receipt work" where
  "worker_claim E r =
     attempt (job_claim E (rc_job_id r) (rc_revision r) None)
       (\<lambda>e. if e = JobError CleanupRequiredError
         then Some (sequel (job_get E (rc_job_id r)) (\<lambda>current.
           sequel (or_other (execution_id (ou_platform E) current)) (\<lambda>eid.
           attempt (cleanup_local E eid) (pause_on_custody True) (\<lambda>_.
           job_claim E (rc_job_id current) (rc_revision current) (Some (rc_revision current))))))
         else None)
       return_work"

definition clear_stale_partial :: "outside \<Rightarrow> string \<Rightarrow> bool \<Rightarrow> bool work" where
  "clear_stale_partial E eid already_removed =
     (if already_removed then raise_work (PauseJob True)
      else attempt (cleanup_local E eid) (pause_on_custody False) (\<lambda>_. return_work True))"

definition cleanup_local_then_fail ::
  "outside \<Rightarrow> receipt \<Rightarrow> string \<Rightarrow> result_code \<Rightarrow> string \<Rightarrow> receipt work" where
  "cleanup_local_then_fail E r eid result subcode =
     attempt (cleanup_local E eid)
       (\<lambda>e. case e of
          CustodyError _ \<Rightarrow> Some (if rc_phase r = Staging
            then worker_recovery E r VerificationRequired (result_subcode e)
            else raise_work (PauseJob False))
        | _ \<Rightarrow> None)
       (\<lambda>_. worker_fail E r result subcode)"

fun transport_exc :: "exc \<Rightarrow> bool" where
  "transport_exc CredentialError = True"
| "transport_exc (NetworkError _) = True"
| "transport_exc _ = False"

fun custody_exc :: "exc \<Rightarrow> bool" where
  "custody_exc (CustodyError _) = True"
| "custody_exc _ = False"

definition remove_staged ::
  "outside \<Rightarrow> frozen_execution \<Rightarrow> string \<Rightarrow> receipt \<Rightarrow> staged_apk \<Rightarrow> cleanup_reason \<Rightarrow> unit work" where
  "remove_staged E x credential r sg reason =
     sequel (expected_root_mode r) (\<lambda>_.
     panel_call E (RemoveStaged sg reason) x credential (ou_remove_staged E))"

definition install_refused ::
  "outside \<Rightarrow> receipt \<Rightarrow> frozen_execution \<Rightarrow> staged_apk \<Rightarrow> receipt work" where
  "install_refused E r x sg =
     (let handler = (\<lambda>r e. case e of
            AdbError c \<Rightarrow> Some (worker_recovery E r (cleanup_result c) (result_subcode e))
          | _ \<Rightarrow> if transport_exc e \<or> custody_exc e
                then Some (worker_recovery E r VerificationRequired (result_subcode e)) else None)
      in attempt (cleanup_authority E r x) (handler r) (\<lambda>(credential, r).
         attempt (sequel (remove_staged E x credential r sg CleanupRefused) (\<lambda>_.
                  cleanup_local E (fx_execution_id x))) (handler r) (\<lambda>_.
         worker_fail E r InstallFailed ''install:refused'')))"

definition start_app :: "outside \<Rightarrow> frozen_execution \<Rightarrow> string \<Rightarrow> receipt \<Rightarrow> app_launch work" where
  "start_app E x credential r =
     sequel (expected_root_mode r) (\<lambda>_. panel_call E LaunchApp x credential (ou_launch E))"

text \<open>The second half of \<open>_async_cleanup_and_launch\<close>, once the staged file is gone.\<close>

definition launch_handler :: "outside \<Rightarrow> receipt \<Rightarrow> exc \<Rightarrow> receipt work option" where
  "launch_handler E r e = (case e of
     AdbError c \<Rightarrow> Some (
       if c \<in> ambiguous_adb_errors then worker_recovery E r AmbiguousMutation (result_subcode e)
       else if c \<in> {TargetChanged, RootModeChanged}
         then worker_recovery E r VerificationRequired (result_subcode e)
       else worker_fail E r LaunchFailed (result_subcode e))
   | _ \<Rightarrow> if transport_exc e then Some (worker_fail E r LaunchFailed (result_subcode e)) else None)"

definition launched :: "outside \<Rightarrow> receipt \<Rightarrow> app_launch \<Rightarrow> receipt work" where
  "launched E r launch = (case la_outcome launch of
     AppStarted \<Rightarrow> worker_transition E r ((move_to HealthCheck)\<lparr>
       ta_home_claim_deferred := Some (la_home_chooser launch = Some ''deferred'')\<rparr>)
   | AppRefused \<Rightarrow> worker_fail E r LaunchFailed ''launch:refused''
   | AppUnknown \<Rightarrow> worker_recovery E r AmbiguousMutation ''launch:unexpected_outcome'')"

definition cleanup_and_launch ::
  "outside \<Rightarrow> receipt \<Rightarrow> frozen_execution \<Rightarrow> staged_apk \<Rightarrow> receipt work" where
  "cleanup_and_launch E r x sg =
     (let handler = (\<lambda>r e. case e of
            AdbError c \<Rightarrow> Some (worker_recovery E r (cleanup_result c) (result_subcode e))
          | _ \<Rightarrow> if transport_exc e
                then Some (worker_recovery E r VerificationRequired (result_subcode e)) else None)
      in attempt (cleanup_authority E r x) (handler r) (\<lambda>(credential, r).
         attempt (remove_staged E x credential r sg CleanupInstalled) (handler r) (\<lambda>_.
         attempt (mutation_authority E r x) (launch_handler E r) (\<lambda>(credential, r).
         attempt (start_app E x credential r) (launch_handler E r) (launched E r)))))"

section \<open>Health\<close>

text \<open>\<open>_HEALTH_ATTEMPTS\<close>; \<open>asyncio.sleep\<close> between them.\<close>

abbreviation health_attempts :: nat where "health_attempts \<equiv> 90"

definition pause_between :: "outside \<Rightarrow> unit work" where
  "pause_between E = ask E Slept (\<lambda>_. Inr ())"

definition read_health :: "outside \<Rightarrow> app_health work" where
  "read_health E = ask E HealthRead (\<lambda>t. outcome panel_exc (ou_health E t))"

definition read_home_ui :: "outside \<Rightarrow> pydict option work" where
  "read_home_ui E = ask E StatusRead (\<lambda>t. outcome panel_exc (ou_status E t))"

fun panel_failure :: "exc \<Rightarrow> bool" where
  "panel_failure CannotConnect = True"
| "panel_failure InvalidResponse = True"
| "panel_failure _ = False"

text \<open>
  The attempts still to make, and the failure the last one left.  \<open>again\<close> is the \<open>continue\<close> of
  a failed attempt: it sleeps unless that was the last one.
\<close>

fun health_loop ::
  "outside \<Rightarrow> frozen_execution \<Rightarrow> nat \<Rightarrow> string \<Rightarrow> (app_health option \<times> string option) work" where
  "health_loop E x 0 failure = return_work (None, Some failure)"
| "health_loop E x (Suc n) failure =
     (let again = (\<lambda>why. if n = 0 then health_loop E x n why
                        else sequel (pause_between E) (\<lambda>_. health_loop E x n why))
      in attempt (sequel (require_pin E (fx_pinned x)) (\<lambda>_. read_health E))
           (\<lambda>e. case e of
              NetworkError _ \<Rightarrow> Some (return_work (None, Some (result_subcode e)))
            | CannotConnect \<Rightarrow> Some (again ''health:cannot_connect'')
            | InvalidResponse \<Rightarrow> Some (again ''health:invalid_response'')
            | _ \<Rightarrow> None)
           (\<lambda>health.
             if health_is_installed_app health (ds_version_name (fx_descriptor x))
                  (ds_package_id (fx_descriptor x))
             then attempt (read_home_ui E)
               (\<lambda>e. if panel_failure e then Some (again ''home_ui:unavailable'') else None)
               (\<lambda>home_ui. if home_ui_allows_setup home_ui then return_work (Some health, None)
                 else again ''home_ui:not_ready'')
             else if n = 0 then return_work (Some health, None)
             else sequel (pause_between E) (\<lambda>_. health_loop E x n failure)))"

definition worker_health ::
  "outside \<Rightarrow> frozen_execution \<Rightarrow> (app_health option \<times> string option) work" where
  "worker_health E x = health_loop E x health_attempts ''health:unavailable''"

text \<open>\<open>health is None or not health_is_installed_app(health, receipt.artifact)\<close>\<close>

definition health_refused :: "app_health option \<Rightarrow> receipt \<Rightarrow> bool" where
  "health_refused health r = (case health of None \<Rightarrow> True
     | Some h \<Rightarrow> \<not> health_is_installed_app h (ar_version_name (rc_artifact r)) (ar_package_id (rc_artifact r)))"

definition subcode_or :: "string option \<Rightarrow> string \<Rightarrow> string" where
  "subcode_or s d = (case s of None \<Rightarrow> d | Some t \<Rightarrow> (if t = [] then d else t))"

section \<open>Display sizing and settlement\<close>

definition offer_display_sizing :: "outside \<Rightarrow> receipt \<Rightarrow> frozen_execution \<Rightarrow> unit work" where
  "offer_display_sizing E r x =
     sequel (ask E SizingRead (\<lambda>t. outcome (\<lambda>_. OtherError) (ou_sizing E t))) (\<lambda>recommended.
     if \<not> recommended then return_work ()
     else sequel (mutation_authority E r x) (\<lambda>(credential, r).
          sequel (panel_call E ApplySizing x credential (ou_apply_sizing E)) (\<lambda>_. return_work ())))"

definition settle_display :: "outside \<Rightarrow> frozen_execution \<Rightarrow> string \<Rightarrow> receipt \<Rightarrow> string work" where
  "settle_display E x credential r =
     sequel (expected_root_mode r) (\<lambda>_. panel_call E SettleDisplay x credential (ou_settle E))"

definition read_size :: "outside \<Rightarrow> receipt \<Rightarrow> int option work" where
  "read_size E r =
     sequel (expected_root_mode r) (\<lambda>_. ask E SizeRead (\<lambda>t. outcome AdbError (ou_size E t)))"

text \<open>
  The handlers of \<open>_async_settle_display_and_launch\<close>, for the receipt its \<open>try\<close> block had
  reached.  What the block returns early through recovery raises nothing these handlers name,
  so recovery stands outside them here.
\<close>

definition settle_handler :: "outside \<Rightarrow> receipt \<Rightarrow> exc \<Rightarrow> receipt work option" where
  "settle_handler E r e = (case e of
     CancellationObserved current \<Rightarrow> Some (return_work current)
   | AdbError _ \<Rightarrow> Some (worker_recovery E r VerificationRequired (result_subcode e))
   | _ \<Rightarrow> if transport_exc e
         then Some (worker_recovery E r VerificationRequired (result_subcode e)) else None)"

definition settled_health :: "outside \<Rightarrow> receipt \<Rightarrow> frozen_execution \<Rightarrow> receipt work" where
  "settled_health E r x = sequel (worker_health E x) (\<lambda>(health, subcode).
     if health_refused health r
     then worker_recovery E r VerificationRequired (subcode_or subcode ''health:identity_mismatch'')
     else return_work r)"

definition relaunch_settled :: "outside \<Rightarrow> receipt \<Rightarrow> frozen_execution \<Rightarrow> receipt work" where
  "relaunch_settled E r x =
     attempt (mutation_authority E r x) (settle_handler E r) (\<lambda>(credential, r).
     attempt (start_app E x credential r) (settle_handler E r) (\<lambda>launch.
     if la_outcome launch \<noteq> AppStarted
     then worker_recovery E r VerificationRequired ''display_settlement:launch_refused''
     else settled_health E
       (r\<lparr>rc_home_claim_deferred := la_home_chooser launch = Some ''deferred''\<rparr>) x))"

definition settle_display_and_launch :: "outside \<Rightarrow> receipt \<Rightarrow> frozen_execution \<Rightarrow> receipt work" where
  "settle_display_and_launch E r x =
     attempt (mutation_authority E r x) (settle_handler E r) (\<lambda>(credential, r).
     attempt (settle_display E x credential r) (settle_handler E r) (\<lambda>settlement.
     if settlement = ''skipped'' then return_work r
     else if settlement \<noteq> ''settled''
     then worker_recovery E r VerificationRequired ''display_settlement:unexpected_outcome''
     else attempt (mutation_authority E r x) (settle_handler E r) (\<lambda>(credential, r).
          attempt (read_size E r) (settle_handler E r) (\<lambda>size.
          if size \<noteq> Some (ar_apk_size (rc_artifact r))
          then worker_recovery E r VerificationRequired ''display_settlement:artifact_changed''
          else relaunch_settled E r x))))"

section \<open>A requested cancellation\<close>

definition frozen :: "outside \<Rightarrow> receipt \<Rightarrow> frozen_execution work" where
  "frozen E r b = or_other (frozen_execution (ou_platform E) (ou_url_join E) r
     (ou_feed_url E (bn_time b))) b"

text \<open>The local file, if any step may have left one, then \<open>CANCELLED\<close>.\<close>

definition cancel_local :: "outside \<Rightarrow> receipt \<Rightarrow> frozen_execution \<Rightarrow> bool \<Rightarrow> receipt work" where
  "cancel_local E r x has_local =
     (let finish = worker_transition E r ((move_to Cancelled)\<lparr>ta_result_code := Some
            (if rc_phase r = Staging then CancelledAfterStagingCleanup else CancelledByUser)\<rparr>)
      in if has_local \<or> rc_actual_apk_bytes r \<noteq> None \<or> rc_phase r = Downloading
         then attempt (cleanup_local E (fx_execution_id x))
           (\<lambda>e. case e of
              CustodyError _ \<Rightarrow> Some (
                if rc_phase r \<in> {Staging, Installing, Installed, Launching, HealthCheck, HealthyUnclaimed}
                then worker_recovery E r VerificationRequired (result_subcode e)
                else raise_work (PauseJob False))
            | _ \<Rightarrow> None)
           (\<lambda>_. finish)
         else finish)"

definition cancel_requested ::
  "outside \<Rightarrow> receipt \<Rightarrow> bool \<Rightarrow> staged_apk option \<Rightarrow> receipt work" where
  "cancel_requested E r has_local sg =
     sequel (frozen E r) (\<lambda>x.
     case sg of
       Some s \<Rightarrow> (if rc_phase r = Staging then
         (let handler = (\<lambda>r e. case e of
                AdbError c \<Rightarrow> Some (worker_recovery E r (cleanup_result c) (result_subcode e))
              | _ \<Rightarrow> if transport_exc e
                    then Some (worker_recovery E r VerificationRequired (result_subcode e)) else None)
          in attempt (cleanup_authority E r x) (handler r) (\<lambda>(credential, r).
             attempt (remove_staged E x credential r s CleanupCancelled) (handler r) (\<lambda>_.
             cancel_local E r x has_local)))
         else cancel_local E r x has_local)
     | None \<Rightarrow> cancel_local E r x has_local)"

section \<open>The phases\<close>

text \<open>The variables of \<open>_async_run\<close> that live across iterations.\<close>

record worker =
  wk_receipt :: receipt
  wk_local :: "custodied_artifact option"
  wk_staged :: "staged_apk option"
  wk_stale_removed :: bool

text \<open>\<open>receipt = await m\<close>\<close>

definition hold :: "worker \<Rightarrow> receipt work \<Rightarrow> worker work" where
  "hold w m = sequel m (\<lambda>r. return_work (w\<lparr>wk_receipt := r\<rparr>))"

text \<open>A custody failure of a phase that holds the local file: a partial file another worker
  left is removed once, anything else ends the job.\<close>

definition custody_failure :: "outside \<Rightarrow> worker \<Rightarrow> string \<Rightarrow> artifact_code \<Rightarrow> worker work" where
  "custody_failure E w eid c =
     (if c = ArtifactBusy
      then sequel (clear_stale_partial E eid (wk_stale_removed w)) (\<lambda>removed.
             return_work (w\<lparr>wk_stale_removed := removed\<rparr>))
      else hold w (cleanup_local_then_fail E (wk_receipt w) eid (artifact_result c)
             (result_subcode (CustodyError c))))"

definition run_authorizing :: "outside \<Rightarrow> worker \<Rightarrow> worker work" where
  "run_authorizing E w = (let r = wk_receipt w in
     attempt (current_credential E r)
       (\<lambda>e. if e = CredentialError
         then Some (hold w (worker_fail E r AuthorizationFailed (result_subcode e))) else None)
       (\<lambda>_. hold w (worker_transition E r (move_to Preflight))))"

definition observe_panel :: "outside \<Rightarrow> receipt \<Rightarrow> frozen_execution \<Rightarrow> (adb_preflight \<times> int option) work" where
  "observe_panel E r x =
     sequel (panel_preflight E r x) (\<lambda>observed.
     if pv_target_installed observed
     then sequel (installed_bytes E r) (\<lambda>size.
          sequel (require (size \<noteq> None) (AdbError TargetNotClean)) (\<lambda>_.
          return_work (observed, size)))
     else return_work (observed, None))"

definition run_preflight :: "outside \<Rightarrow> frozen_execution \<Rightarrow> worker \<Rightarrow> worker work" where
  "run_preflight E x w = (let r = wk_receipt w in
     attempt (observe_panel E r x)
       (\<lambda>e. case e of
          AdbError c \<Rightarrow> Some (hold w (worker_fail E r (preflight_result c) (result_subcode e)))
        | _ \<Rightarrow> if transport_exc e
              then Some (hold w (worker_fail E r TransportFailed (result_subcode e))) else None)
       (\<lambda>(observed, size). hold w (worker_transition E r (case size of
          None \<Rightarrow> (move_to Downloading)\<lparr>ta_root_mode := Some (root_mode_value (pv_root_mode observed))\<rparr>
        | Some n \<Rightarrow> (move_to Installed)\<lparr>ta_root_mode := Some (root_mode_value (pv_root_mode observed)),
            ta_actual_apk_bytes := Some n\<rparr>))))"

text \<open>The downloaded file is kept in the variable even when it is not the one of the plan.\<close>

definition run_downloading :: "outside \<Rightarrow> frozen_execution \<Rightarrow> worker \<Rightarrow> worker work" where
  "run_downloading E x w = (let r = wk_receipt w;
        handler = (\<lambda>w e. case e of
            CustodyError c \<Rightarrow> Some (custody_failure E w (fx_execution_id x) c) | _ \<Rightarrow> None) in
     attempt (sequel (require_build_admission E (rc_artifact r)) (\<lambda>_. download E x)) (handler w) (\<lambda>local.
     let w' = w\<lparr>wk_local := Some local\<rparr> in
     attempt (require_local_artifact local (fx_execution_id x) (rc_artifact r)) (handler w') (\<lambda>_.
     hold w' (worker_transition E r ((move_to ArtifactReady)\<lparr>ta_actual_apk_bytes := Some (cu_size local)\<rparr>)))))"

definition run_artifact_ready :: "outside \<Rightarrow> frozen_execution \<Rightarrow> worker \<Rightarrow> worker work" where
  "run_artifact_ready E x w = (let r = wk_receipt w in
     attempt (case wk_local w of
         None \<Rightarrow> ensure_local_artifact E r x
       | Some local \<Rightarrow> sequel (require_local_artifact local (fx_execution_id x) (rc_artifact r))
           (\<lambda>_. return_work local))
       (\<lambda>e. case e of CustodyError c \<Rightarrow> Some (custody_failure E w (fx_execution_id x) c) | _ \<Rightarrow> None)
       (\<lambda>local. hold (w\<lparr>wk_local := Some local\<rparr>) (worker_transition E r (move_to Revalidating))))"

definition revalidate_panel :: "outside \<Rightarrow> receipt \<Rightarrow> frozen_execution \<Rightarrow> unit work" where
  "revalidate_panel E r x = sequel (panel_preflight E r x) (\<lambda>observed.
     require (Some (root_mode_value (pv_root_mode observed)) = rc_preflight_root_mode r)
       (AdbError RootStateAmbiguous))"

definition run_revalidating :: "outside \<Rightarrow> frozen_execution \<Rightarrow> worker \<Rightarrow> worker work" where
  "run_revalidating E x w = (let r = wk_receipt w; eid = fx_execution_id x;
        handler = (\<lambda>w e. case e of
            CustodyError c \<Rightarrow> Some (custody_failure E w eid c)
          | AdbError c \<Rightarrow> Some (hold w (cleanup_local_then_fail E r eid (preflight_result c) (result_subcode e)))
          | _ \<Rightarrow> if transport_exc e
                then Some (hold w (cleanup_local_then_fail E r eid TransportFailed (result_subcode e)))
                else None) in
     attempt (sequel (require_build_admission E (rc_artifact r)) (\<lambda>_. case wk_local w of
         None \<Rightarrow> ensure_local_artifact E r x | Some local \<Rightarrow> return_work local)) (handler w) (\<lambda>local.
     let w' = w\<lparr>wk_local := Some local\<rparr> in
     attempt (revalidate_panel E r x) (handler w') (\<lambda>_.
     hold w' (worker_transition E r (move_to Staging)))))"

definition stage_handler :: "outside \<Rightarrow> string \<Rightarrow> worker \<Rightarrow> exc \<Rightarrow> worker work option" where
  "stage_handler E eid w e = (let r = wk_receipt w in case e of
     CancellationObserved current \<Rightarrow> Some (return_work (w\<lparr>wk_receipt := current\<rparr>))
   | CustodyError _ \<Rightarrow> Some (hold w (cleanup_local_then_fail E r eid ArtifactRejected (result_subcode e)))
   | AdbError c \<Rightarrow> Some (hold w (if c \<in> ambiguous_adb_errors
       then worker_recovery E r AmbiguousMutation (result_subcode e)
       else cleanup_local_then_fail E r eid (stage_result c) (result_subcode e)))
   | _ \<Rightarrow> if transport_exc e
         then Some (hold w (cleanup_local_then_fail E r eid TransportFailed (result_subcode e))) else None)"

definition stage_apk ::
  "outside \<Rightarrow> frozen_execution \<Rightarrow> string \<Rightarrow> receipt \<Rightarrow> custodied_artifact \<Rightarrow> staged_apk work" where
  "stage_apk E x credential r local =
     sequel (expected_root_mode r) (\<lambda>_. panel_call E (StageApk (cu_path local)) x credential (ou_stage E))"

definition run_staging :: "outside \<Rightarrow> frozen_execution \<Rightarrow> worker \<Rightarrow> worker work" where
  "run_staging E x w = (let eid = fx_execution_id x in case wk_local w of
     None \<Rightarrow> hold w (worker_recovery E (wk_receipt w) AmbiguousMutation ''staging:local_artifact_missing'')
   | Some local \<Rightarrow>
     attempt (mutation_authority E (wk_receipt w) x) (stage_handler E eid w) (\<lambda>(credential, r).
     let w1 = w\<lparr>wk_receipt := r\<rparr> in
     attempt (stage_apk E x credential r local) (stage_handler E eid w1) (\<lambda>sg.
     let w2 = w1\<lparr>wk_staged := Some sg\<rparr> in
     attempt (require (sg = staged_of (ou_platform E) (rc_artifact r)) (AdbError StageVerificationFailed))
       (stage_handler E eid w2) (\<lambda>_.
     hold w2 (worker_transition E r (move_to Installing))))))"

text \<open>\<open>async_install_staged_apk\<close>: connect and check, ask the admission, run the package manager.\<close>

definition install_apk ::
  "outside \<Rightarrow> frozen_execution \<Rightarrow> string \<Rightarrow> receipt \<Rightarrow> install_outcome work" where
  "install_apk E x credential r =
     sequel (expected_root_mode r) (\<lambda>_.
     sequel (ask E InstallOpened (\<lambda>t. outcome AdbError (ou_install_opened E t))) (\<lambda>_.
     sequel (require_build_admission E (rc_artifact r)) (\<lambda>_.
     panel_call E InstallApk x credential (ou_installed E))))"

definition install_handler ::
  "outside \<Rightarrow> frozen_execution \<Rightarrow> staged_apk \<Rightarrow> receipt \<Rightarrow> exc \<Rightarrow> receipt work option" where
  "install_handler E x sg r e = (case e of
     CustodyError _ \<Rightarrow> Some (install_refused E r x sg)
   | AdbError c \<Rightarrow> Some (worker_recovery E r
       (if c \<in> ambiguous_adb_errors then AmbiguousMutation else VerificationRequired) (result_subcode e))
   | _ \<Rightarrow> if transport_exc e
         then Some (worker_recovery E r VerificationRequired (result_subcode e)) else None)"

definition install_staged :: "outside \<Rightarrow> frozen_execution \<Rightarrow> receipt \<Rightarrow> staged_apk \<Rightarrow> receipt work" where
  "install_staged E x r sg =
     attempt (mutation_authority E r x) (install_handler E x sg r) (\<lambda>(credential, r).
     attempt (install_apk E x credential r) (install_handler E x sg r) (\<lambda>out. case out of
         PackageRefused \<Rightarrow> install_refused E r x sg
       | PackageInstalled \<Rightarrow> worker_transition E r (move_to Installed)
       | PackageUnknown \<Rightarrow> worker_recovery E r AmbiguousMutation ''installing:unexpected_outcome''))"

definition run_installing :: "outside \<Rightarrow> frozen_execution \<Rightarrow> worker \<Rightarrow> worker work" where
  "run_installing E x w = hold w (case wk_staged w of
     None \<Rightarrow> worker_recovery E (wk_receipt w) AmbiguousMutation ''installing:staged_artifact_missing''
   | Some sg \<Rightarrow> install_staged E x (wk_receipt w) sg)"

definition run_installed :: "outside \<Rightarrow> frozen_execution \<Rightarrow> worker \<Rightarrow> worker work" where
  "run_installed E x w = (let r = wk_receipt w;
        w' = w\<lparr>wk_staged := Some (staged_of (ou_platform E) (rc_artifact r))\<rparr> in
     hold w' (attempt (cleanup_local E (fx_execution_id x))
       (\<lambda>e. if custody_exc e
         then Some (worker_recovery E r VerificationRequired (result_subcode e)) else None)
       (\<lambda>_. worker_transition E r (move_to Launching))))"

definition run_launching :: "outside \<Rightarrow> frozen_execution \<Rightarrow> worker \<Rightarrow> worker work" where
  "run_launching E x w = hold w (case wk_staged w of
     None \<Rightarrow> worker_recovery E (wk_receipt w) AmbiguousMutation ''launching:staged_artifact_missing''
   | Some sg \<Rightarrow> cleanup_and_launch E (wk_receipt w) x sg)"

text \<open>The tail of the health phase: settle the display, then give the receipt to the flow.\<close>

definition finish_health :: "outside \<Rightarrow> frozen_execution \<Rightarrow> receipt \<Rightarrow> receipt work" where
  "finish_health E x r =
     sequel (settle_display_and_launch E r x) (\<lambda>r.
     if rc_phase r \<noteq> HealthCheck \<or> rc_cancel_requested r then return_work r
     else (\<lambda>b. worker_transition E r ((move_to HealthyUnclaimed)\<lparr>
       ta_health_checked_at := Some (ou_clock E (bn_time b)),
       ta_home_claim_deferred := Some (rc_home_claim_deferred r)\<rparr>) b))"

definition run_health_check :: "outside \<Rightarrow> frozen_execution \<Rightarrow> worker \<Rightarrow> worker work" where
  "run_health_check E x w = (let r = wk_receipt w in
     hold w (sequel (worker_health E x) (\<lambda>(health, subcode).
     if health_refused health r
     then worker_recovery E r VerificationRequired (subcode_or subcode ''health:identity_mismatch'')
     else sequel (ask E WebviewProvisioned (\<lambda>_. Inr ())) (\<lambda>_.
     sequel (ask E UrlOffered (\<lambda>t. outcome (\<lambda>_. OtherError) (ou_offer_url E t))) (\<lambda>setup_state.
     if setup_state \<in> {''setup_complete'', ''setup_state_unreadable''} then finish_health E x r
     else attempt (offer_display_sizing E r x) (settle_handler E r) (\<lambda>_. finish_health E x r))))))"

section \<open>The loop\<close>

definition run_phase :: "outside \<Rightarrow> worker \<Rightarrow> worker work" where
  "run_phase E w = (let r = wk_receipt w in
     if rc_cancel_requested r
     then hold w (cancel_requested E r (wk_local w \<noteq> None) (wk_staged w))
     else sequel (frozen E r) (\<lambda>x. case rc_phase r of
         Approved \<Rightarrow> hold w (worker_transition E r (move_to Authorizing))
       | Authorizing \<Rightarrow> run_authorizing E w
       | Preflight \<Rightarrow> run_preflight E x w
       | Downloading \<Rightarrow> run_downloading E x w
       | ArtifactReady \<Rightarrow> run_artifact_ready E x w
       | Revalidating \<Rightarrow> run_revalidating E x w
       | Staging \<Rightarrow> run_staging E x w
       | Installing \<Rightarrow> run_installing E x w
       | Installed \<Rightarrow> run_installed E x w
       | Launching \<Rightarrow> run_launching E x w
       | HealthCheck \<Rightarrow> run_health_check E x w
       | _ \<Rightarrow> raise_work (JobError TransitionError)))"

definition worker_finished :: "worker \<Rightarrow> bool" where
  "worker_finished w \<longleftrightarrow> is_terminal (wk_receipt w) \<or> rc_phase (wk_receipt w) = HealthyUnclaimed"

text \<open>The \<open>while\<close> loop; \<open>None\<close> is a loop still running when the fuel is used up.\<close>

fun run_loop :: "outside \<Rightarrow> nat \<Rightarrow> worker \<Rightarrow> worker option work" where
  "run_loop E 0 w = return_work (if worker_finished w then Some w else None)"
| "run_loop E (Suc n) w = (if worker_finished w then return_work (Some w)
     else sequel (run_phase E w) (run_loop E n))"

definition take_up :: "outside \<Rightarrow> string \<Rightarrow> receipt work" where
  "take_up E job_id =
     sequel (job_get E job_id) (\<lambda>r.
     attempt (worker_claim E r)
       (\<lambda>e. if e = JobError RevisionError
         then Some (sequel (job_get E job_id) (worker_claim E)) else None)
       return_work)"

definition run_body :: "outside \<Rightarrow> nat \<Rightarrow> string \<Rightarrow> worker option work" where
  "run_body E fuel job_id = sequel (take_up E job_id) (\<lambda>r.
     run_loop E fuel \<lparr>wk_receipt = r, wk_local = None, wk_staged = None, wk_stale_removed = False\<rparr>)"

text \<open>How \<open>_async_run\<close> ends: it returns, or it raises; \<open>RunLooping\<close> is fuel used up.\<close>

datatype run_end = RunFinished worker | RunPaused bool | RunStopped job_error | RunCancelled
  | RunRaised exc | RunLooping

definition run_end_of :: "exc + worker option \<Rightarrow> run_end" where
  "run_end_of res = (case res of
     Inr (Some w) \<Rightarrow> RunFinished w
   | Inr None \<Rightarrow> RunLooping
   | Inl (PauseJob nonrestartable) \<Rightarrow> RunPaused nonrestartable
   | Inl TaskCancelled \<Rightarrow> RunCancelled
   | Inl (JobError e) \<Rightarrow> (if e \<in> {RevisionError, StoreError, TransitionError} then RunStopped e
                        else RunRaised (JobError e))
   | Inl e \<Rightarrow> RunRaised e)"

definition async_run :: "outside \<Rightarrow> nat \<Rightarrow> string \<Rightarrow> bench \<Rightarrow> run_end \<times> bench" where
  "async_run E fuel job_id b = (case run_body E fuel job_id b of (res, b') \<Rightarrow> (run_end_of res, b'))"

text \<open>Whether the job joins \<open>_nonrestartable_workers\<close>.\<close>

fun ends_worker :: "run_end \<Rightarrow> bool" where
  "ends_worker (RunFinished _) = False"
| "ends_worker (RunPaused nonrestartable) = nonrestartable"
| "ends_worker (RunStopped _) = True"
| "ends_worker RunCancelled = True"
| "ends_worker (RunRaised _) = True"
| "ends_worker RunLooping = False"

end
