(* ===== verification/Smooth_Run.thy ===== *)
theory Smooth_Run
  imports Quiet_Store Install_Executor
begin

text \<open>
  A run of the worker in which nothing goes wrong: what the world answers then, the receipts the
  job passes through, and that the run ends with the receipt the setup flow can claim.
\<close>

section \<open>The receipts\<close>

text \<open>The call of the run at which the receipt is saved in each phase, and how many saves there
  have been then.\<close>

fun saved_at :: "install_phase \<Rightarrow> nat" where
  "saved_at Approved = 1" | "saved_at Authorizing = 2" | "saved_at Preflight = 4"
| "saved_at Downloading = 8" | "saved_at ArtifactReady = 10" | "saved_at Revalidating = 11"
| "saved_at Staging = 15" | "saved_at Installing = 21" | "saved_at Installed = 28"
| "saved_at Launching = 30" | "saved_at HealthCheck = 41" | "saved_at HealthyUnclaimed = 52"
| "saved_at _ = 53"

fun saves :: "install_phase \<Rightarrow> int" where
  "saves Approved = 1" | "saves Authorizing = 2" | "saves Preflight = 3"
| "saves Downloading = 4" | "saves ArtifactReady = 5" | "saves Revalidating = 6"
| "saves Staging = 7" | "saves Installing = 8" | "saves Installed = 9"
| "saves Launching = 10" | "saves HealthCheck = 11" | "saves HealthyUnclaimed = 12"
| "saves _ = 13"

definition smooth_path :: "install_phase list" where
  "smooth_path = [Approved, Authorizing, Preflight, Downloading, ArtifactReady, Revalidating, Staging,
     Installing, Installed, Launching, HealthCheck, HealthyUnclaimed]"

text \<open>What the approved receipt \<open>r\<close> has become in phase \<open>p\<close>.\<close>

definition smooth_receipt :: "outside \<Rightarrow> receipt \<Rightarrow> root_mode \<Rightarrow> install_phase \<Rightarrow> receipt" where
  "smooth_receipt E r m p = (let now = ou_clock E (saved_at p) in r\<lparr>
     rc_revision := rc_revision r + saves p, rc_executor_generation := rc_executor_generation r + 1,
     rc_updated_at := now, rc_phase := p, rc_cancel_requested := False, rc_attempt := rc_attempt r + 1,
     rc_preflight_root_mode := (if p \<in> root_mode_required_phases then Some (root_mode_value m) else None),
     rc_actual_apk_bytes := (if p \<in> artifact_required_phases then Some (ar_apk_size (rc_artifact r)) else None),
     rc_health_checked_at := (if p = HealthyUnclaimed then Some now else None),
     rc_result_code := None, rc_consumed_entry_id := None, rc_failure_stage := None,
     rc_result_subcode := None, rc_home_claim_deferred := False\<rparr>)"

lemma smooth_fields [simp]:
  "rc_job_id (smooth_receipt E r m p) = rc_job_id r" "rc_revision (smooth_receipt E r m p) = rc_revision r + saves p"
  "rc_executor_generation (smooth_receipt E r m p) = rc_executor_generation r + 1"
  "rc_updated_at (smooth_receipt E r m p) = ou_clock E (saved_at p)" "rc_phase (smooth_receipt E r m p) = p"
  "\<not> rc_cancel_requested (smooth_receipt E r m p)" "rc_target (smooth_receipt E r m p) = rc_target r"
  "rc_artifact (smooth_receipt E r m p) = rc_artifact r" "rc_plan_sha256 (smooth_receipt E r m p) = rc_plan_sha256 r"
  "rc_adb_credential_id (smooth_receipt E r m p) = rc_adb_credential_id r"
  "rc_preflight_root_mode (smooth_receipt E r m p) = (if p \<in> root_mode_required_phases then Some (root_mode_value m) else None)"
  "rc_actual_apk_bytes (smooth_receipt E r m p) = (if p \<in> artifact_required_phases then Some (ar_apk_size (rc_artifact r)) else None)"
  "rc_health_checked_at (smooth_receipt E r m p) = (if p = HealthyUnclaimed then Some (ou_clock E (saved_at p)) else None)"
  "\<not> rc_home_claim_deferred (smooth_receipt E r m p)"
  by (simp_all add: smooth_receipt_def Let_def)

section \<open>The world\<close>

text \<open>The job: approved, not cancelled, with an attempt left and admitted by the integration.\<close>

definition smooth_job :: "outside \<Rightarrow> receipt \<Rightarrow> bool" where
  "smooth_job E r \<longleftrightarrow> storable (ou_platform E) r \<and> rc_phase r = Approved \<and> \<not> rc_cancel_requested r
     \<and> \<not> attempts_exhausted r \<and> \<not> rc_home_claim_deferred r \<and> rc_updated_at r \<le> ou_clock E 1
     \<and> build_admitted (ou_integration E) (rc_artifact r)"

text \<open>No cancellation of the task, nothing asked of the manager by others, a disk that works.\<close>

definition smooth_calls :: "outside \<Rightarrow> bool" where
  "smooth_calls E \<longleftrightarrow> (\<forall>t. \<not> ou_stop E t \<and> ou_requests E t = [] \<and> ou_load E t = quiet_load
     \<and> ou_durable E t = (quiet_load, quiet_load))"

text \<open>A clock that does not go back, and a disk that keeps each receipt saved to it.\<close>

definition smooth_saves :: "outside \<Rightarrow> receipt \<Rightarrow> root_mode \<Rightarrow> bool" where
  "smooth_saves E r m \<longleftrightarrow> (\<forall>p \<in> set smooth_path. let q = smooth_receipt E r m p; now = ou_clock E (saved_at p) in
     storable (ou_platform E) q \<and> ou_save E (saved_at p) = quiet_save (stored (ou_platform E) q)
     \<and> clock now = Inr now \<and> terminal_retention \<le> ts_seconds now)
   \<and> (\<forall>p \<in> set smooth_path. \<forall>q \<in> set smooth_path.
        saved_at p \<le> saved_at q \<longrightarrow> ou_clock E (saved_at p) \<le> ou_clock E (saved_at q))"

text \<open>A panel that is the approved one all along, without the app before, on which every step
  works, and a file that is the one of the plan.\<close>

definition smooth_panel :: "outside \<Rightarrow> receipt \<Rightarrow> root_mode \<Rightarrow> frozen_execution \<Rightarrow> custodied_artifact \<Rightarrow> bool" where
  "smooth_panel E r m x c \<longleftrightarrow> local_artifact_ok c (fx_execution_id x) (rc_artifact r)
     \<and> (\<forall>t. frozen_execution (ou_platform E) (ou_url_join E) r (ou_feed_url E t) = Some x
       \<and> async_revalidate_install_target (ou_platform E) (ou_resolver E t) (fx_pinned x) = Inr (fx_pinned x)
       \<and> ou_credential E t = Reply (rc_adb_credential_id r)
       \<and> (\<exists>v. ou_preflight E t = Reply v \<and> same_physical_target v (fx_adb_target x) \<and> pv_root_mode v = m
            \<and> \<not> pv_target_installed v)
       \<and> ou_download E t = Reply c \<and> ou_clean_local E t = Reply ()
       \<and> ou_stage E t = Reply (staged_of (ou_platform E) (rc_artifact r))
       \<and> ou_install_opened E t = Reply () \<and> ou_installed E t = Reply PackageInstalled
       \<and> ou_remove_staged E t = Reply ()
       \<and> (\<exists>l. ou_launch E t = Reply l \<and> la_outcome l = AppStarted \<and> la_home_chooser l \<noteq> Some ''deferred'')
       \<and> (\<exists>h. ou_health E t = Reply h
            \<and> health_is_installed_app h (ar_version_name (rc_artifact r)) (ar_package_id (rc_artifact r)))
       \<and> (\<exists>ui. ou_status E t = Reply ui \<and> home_ui_allows_setup ui)
       \<and> ou_offer_url E t = Reply ''setup_complete'' \<and> ou_settle E t = Reply ''skipped'')"

definition smooth :: "outside \<Rightarrow> receipt \<Rightarrow> root_mode \<Rightarrow> frozen_execution \<Rightarrow> custodied_artifact \<Rightarrow> bool" where
  "smooth E r m x c \<longleftrightarrow> smooth_job E r \<and> smooth_calls E \<and> smooth_saves E r m \<and> smooth_panel E r m x c"

lemma smoothD:
  assumes "smooth E r m x c"
  shows "ou_stop E t = False" "ou_requests E t = []" "ou_load E t = quiet_load" "ou_durable E t = (quiet_load, quiet_load)"
    "p \<in> set smooth_path \<Longrightarrow> storable (ou_platform E) (smooth_receipt E r m p)"
    "p \<in> set smooth_path \<Longrightarrow> ou_save E (saved_at p) = quiet_save (stored (ou_platform E) (smooth_receipt E r m p))"
    "p \<in> set smooth_path \<Longrightarrow> clock (ou_clock E (saved_at p)) = Inr (ou_clock E (saved_at p))"
    "p \<in> set smooth_path \<Longrightarrow> terminal_retention \<le> ts_seconds (ou_clock E (saved_at p))"
    "p \<in> set smooth_path \<Longrightarrow> q \<in> set smooth_path \<Longrightarrow> saved_at p \<le> saved_at q \<Longrightarrow>
       ou_clock E (saved_at p) \<le> ou_clock E (saved_at q)"
  using assms by (auto simp: smooth_def smooth_calls_def smooth_saves_def Let_def)

definition smooth_bench :: "outside \<Rightarrow> receipt \<Rightarrow> nat \<Rightarrow> event list \<Rightarrow> bench" where
  "smooth_bench E q t l = \<lparr>bn_jobs = held (ou_platform E) q (claims_after q), bn_time = t, bn_log = l\<rparr>"

lemma bench_simps [simp]: "bn_time (smooth_bench E q t l) = t" "bn_log (smooth_bench E q t l) = l"
  "smooth_bench E q t l\<lparr>bn_time := t', bn_log := l'\<rparr> = smooth_bench E q t' l'"
  by (simp_all add: smooth_bench_def)

section \<open>Calls\<close>

lemma smooth_ask:
  "smooth E r m x c \<Longrightarrow> ask E ev f (smooth_bench E q t l) = (f t, smooth_bench E q (t + 1) (ev # l))"
  using smoothD(1) [of E r m x c t] by (simp add: ask_def)

lemma smooth_get:
  assumes "smooth E r m x c" "p \<in> set smooth_path"
  shows "job_get E (rc_job_id r) (smooth_bench E (smooth_receipt E r m p) t l)
     = (Inr (smooth_receipt E r m p), smooth_bench E (smooth_receipt E r m p) (t + 1) (JobRead (smooth_receipt E r m p) # l))"
  using quiet_get(1) [OF smoothD(5) [OF assms], of "claims_after (smooth_receipt E r m p)"]
  by (simp add: job_get_def manager_call_def smooth_bench_def claims_after_def smoothD(2,3) [OF assms(1)])

lemma smooth_barrier:
  assumes "smooth E r m x c" "p \<in> mutation_barriers"
  shows "job_mutation_barrier E (rc_job_id r) (rc_revision r + saves p) p (smooth_bench E (smooth_receipt E r m p) t l)
     = (Inr (smooth_receipt E r m p), smooth_bench E (smooth_receipt E r m p) (t + 1) (Barred (smooth_receipt E r m p) # l))"
proof -
  have p: "p \<in> set smooth_path" "p \<noteq> HealthyUnclaimed" using assms(2) by (auto simp: mutation_barriers_def smooth_path_def)
  show ?thesis using quiet_mutation_barrier [OF smoothD(5) [OF assms(1) p(1)]] p(2) assms(2)
    by (simp add: job_mutation_barrier_def manager_call_def smooth_bench_def claims_after_def smoothD(2,3,4) [OF assms(1)])
qed

lemma smooth_cleanup_barrier:
  assumes "smooth E r m x c" "p \<in> {Installing, Launching}"
  shows "job_cleanup_barrier E (rc_job_id r) (rc_revision r + saves p) p (smooth_bench E (smooth_receipt E r m p) t l)
     = (Inr (smooth_receipt E r m p), smooth_bench E (smooth_receipt E r m p) (t + 1) (CleanupBarred (smooth_receipt E r m p) # l))"
proof -
  have p: "p \<in> set smooth_path" "p \<noteq> HealthyUnclaimed" "cleanup_barrier_cancel_polarity p = Some False"
    using assms(2) by (auto simp: smooth_path_def)
  show ?thesis using quiet_cleanup_barrier [OF smoothD(5) [OF assms(1) p(1)]] p(2,3)
    by (simp add: job_cleanup_barrier_def manager_call_def smooth_bench_def claims_after_def smoothD(2,3,4) [OF assms(1)])
qed

text \<open>The phase after each, and what the worker tells the manager of it.\<close>

fun after :: "install_phase \<Rightarrow> install_phase" where
  "after Approved = Authorizing" | "after Authorizing = Preflight" | "after Preflight = Downloading"
| "after Downloading = ArtifactReady" | "after ArtifactReady = Revalidating" | "after Revalidating = Staging"
| "after Staging = Installing" | "after Installing = Installed" | "after Installed = Launching"
| "after Launching = HealthCheck" | "after HealthCheck = HealthyUnclaimed" | "after p = p"

definition told :: "outside \<Rightarrow> receipt \<Rightarrow> root_mode \<Rightarrow> install_phase \<Rightarrow> transition_args" where
  "told E r m p = (move_to (after p))\<lparr>
     ta_root_mode := (if p = Preflight then Some (root_mode_value m) else None),
     ta_actual_apk_bytes := (if p = Downloading then Some (ar_apk_size (rc_artifact r)) else None),
     ta_health_checked_at := (if p = HealthCheck then Some (ou_clock E (saved_at HealthyUnclaimed)) else None),
     ta_home_claim_deferred := (if p \<in> {Launching, HealthCheck} then Some False else None)\<rparr>"

definition before_end :: "install_phase set" where
  "before_end = {Approved, Authorizing, Preflight, Downloading, ArtifactReady, Revalidating, Staging,
     Installing, Installed, Launching, HealthCheck}"

lemma before_end_path: "p \<in> before_end \<Longrightarrow> p \<in> set smooth_path \<and> after p \<in> set smooth_path
    \<and> p \<noteq> HealthyUnclaimed \<and> saved_at p \<le> saved_at (after p)"
  by (auto simp: before_end_def smooth_path_def)

lemma told_moves: "p \<in> before_end \<Longrightarrow>
  transitioned (ou_clock E (saved_at (after p))) (smooth_receipt E r m p) (told E r m p) = smooth_receipt E r m (after p)"
  by (auto simp: before_end_def transitioned_def told_def move_to_def smooth_receipt_def Let_def or_keep_def
      root_mode_required_phases_def artifact_required_phases_def)

lemma told_allowed: "p \<in> before_end \<Longrightarrow> map_of claimed (rc_job_id r) = Some (rc_executor_generation r + 1) \<Longrightarrow>
  transition_allowed claimed (rc_job_id r) (smooth_receipt E r m p) (told E r m p)"
  by (auto simp: before_end_def transition_allowed_def told_def move_to_def transition_facts_ok_def transition_result_ok_def
      root_mode_required_phases_def artifact_required_phases_def)

lemma clock_Inr_text: "clock s = Inr s \<Longrightarrow> timestamp (PStr s) \<noteq> None"
  by (auto simp: clock_def or_raise_def split: option.splits)

lemma mode_text: "safe_text (PStr (root_mode_value m)) 16 \<noteq> None \<and> root_mode_value m \<in> root_modes"
proof -
  have "\<forall>s \<in> set [''root_adbd'', ''rootless'', ''root_su'']. safe_text (PStr s) 16 \<noteq> None" by code_simp
  then show ?thesis by (cases m) (simp_all add: root_modes_def)
qed

lemma told_ok:
  assumes "smooth E r m x c" "p \<in> before_end"
  shows "transition_args_ok (ou_platform E) (told E r m p)"
proof -
  have "receipt_ok (ou_platform E) (smooth_receipt E r m ArtifactReady)"
    using storable_parts(6) [OF smoothD(5) [OF assms(1)]] by (simp add: smooth_path_def)
  then have "1 \<le> ar_apk_size (rc_artifact r) \<and> ar_apk_size (rc_artifact r) \<le> max_apk_bytes"
    by (simp add: receipt_ok_def receipt_facts_def artifact_required_phases_def)
  then have size: "integer_in (PInt (ar_apk_size (rc_artifact r))) 1 max_apk_bytes \<noteq> None"
    by (simp add: integer_in_def)
  have "HealthyUnclaimed \<in> set smooth_path" by (simp add: smooth_path_def)
  from clock_Inr_text [OF smoothD(7) [OF assms(1) this]] size mode_text show ?thesis
    by (auto simp: transition_args_ok_def told_def move_to_def)
qed

lemma smooth_move:
  assumes S: "smooth E r m x c" and p: "p \<in> before_end"
  shows "job_transition E (rc_job_id r) (rc_revision r + saves p) (told E r m p)
       (smooth_bench E (smooth_receipt E r m p) (saved_at (after p)) l)
     = (Inr (smooth_receipt E r m (after p)),
        smooth_bench E (smooth_receipt E r m (after p)) (saved_at (after p) + 1) (Moved (smooth_receipt E r m (after p)) # l))"
proof -
  let ?q = "smooth_receipt E r m p" and ?q' = "smooth_receipt E r m (after p)"
  have in_path: "p \<in> set smooth_path" "after p \<in> set smooth_path" "p \<noteq> HealthyUnclaimed" "saved_at p \<le> saved_at (after p)"
    using before_end_path [OF p] by simp_all
  note st = smoothD(5) [OF S in_path(1)] smoothD(5) [OF S in_path(2)]
  have "async_transition (ou_platform E) quiet_load (quiet_save (stored (ou_platform E) ?q')) (ou_clock E (saved_at (after p)))
      (rc_job_id ?q) (rc_revision ?q) (told E r m p) (held (ou_platform E) ?q (claim_of ?q))
    = (Inr ?q', held (ou_platform E) ?q' (claims_after ?q'))"
  proof (rule quiet_transition [OF st(1) _ st(2)])
    show "?q' = transitioned (ou_clock E (saved_at (after p))) ?q (told E r m p)" using told_moves [OF p] by simp
    show "transition_allowed (claim_of ?q) (rc_job_id ?q) ?q (told E r m p)"
      using told_allowed [OF p, of "claim_of ?q" r] by (simp add: claim_of_def)
    show "receipt_invariants (ou_platform E) ?q'" using storable_parts(6) [OF st(2)] by (simp add: receipt_ok_def)
    show "transition_args_ok (ou_platform E) (told E r m p)" by (rule told_ok [OF S p])
    show "rc_updated_at ?q \<le> ou_clock E (saved_at (after p))" using smoothD(9) [OF S in_path(1,2,4)] by simp
  qed (use in_path smoothD(7,8) [OF S in_path(2)] in simp_all)
  then show ?thesis
    using in_path(3) by (simp add: job_transition_def manager_call_def smooth_bench_def claims_after_def
        smoothD(2,3) [OF S] smoothD(6) [OF S in_path(2)])
qed

lemma smooth_first:
  assumes S: "smooth E r m x c"
  shows "job_get E (rc_job_id r) \<lparr>bn_jobs = unread (ou_platform E) r, bn_time = 0, bn_log = l\<rparr>
      = (Inr r, \<lparr>bn_jobs = held (ou_platform E) r [], bn_time = 1, bn_log = JobRead r # l\<rparr>)"
    "job_claim E (rc_job_id r) (rc_revision r) None \<lparr>bn_jobs = held (ou_platform E) r [], bn_time = 1, bn_log = l\<rparr>
      = (Inr (smooth_receipt E r m Approved),
         smooth_bench E (smooth_receipt E r m Approved) 2 (Claimed (smooth_receipt E r m Approved) # l))"
proof -
  have r: "storable (ou_platform E) r" "rc_phase r = Approved" "\<not> rc_cancel_requested r" "\<not> attempts_exhausted r"
      "\<not> rc_home_claim_deferred r" "rc_updated_at r \<le> ou_clock E 1"
    using S by (simp_all add: smooth_def smooth_job_def)
  show "job_get E (rc_job_id r) \<lparr>bn_jobs = unread (ou_platform E) r, bn_time = 0, bn_log = l\<rparr>
      = (Inr r, \<lparr>bn_jobs = held (ou_platform E) r [], bn_time = 1, bn_log = JobRead r # l\<rparr>)"
    using quiet_get(2) [OF r(1), of "[]"] r(2)
    by (simp add: job_get_def manager_call_def smoothD(2,3) [OF S])
  have p: "Approved \<in> set smooth_path" by (simp add: smooth_path_def)
  note nt = non_terminal_facts [OF storable_parts(6) [OF r(1)] storable_parts(4) [OF r(1)]]
  have "rc_preflight_root_mode r = None \<and> rc_actual_apk_bytes r = None"
    using storable_parts(6) [OF r(1)] r(2)
    by (auto simp: receipt_ok_def receipt_invariants_def phase_facts_ok_def root_mode_forbidden_phases_def
        artifact_required_phases_def terminal_phases_def)
  then have claimed: "claimed_receipt (ou_clock E 1) r = smooth_receipt E r m Approved"
    using r nt by (simp add: claimed_receipt_def smooth_receipt_def Let_def restart_ambiguous_phases_def
        root_mode_required_phases_def artifact_required_phases_def)
  have "async_claim (ou_platform E) quiet_load (quiet_save (stored (ou_platform E) (smooth_receipt E r m Approved)))
      (ou_clock E 1) (rc_job_id r) (rc_revision r) None (held (ou_platform E) r [])
    = (Inr (smooth_receipt E r m Approved), held (ou_platform E) (smooth_receipt E r m Approved) (claim_of (smooth_receipt E r m Approved)))"
    by (rule quiet_claim [OF r(1) _ _ r(4) smoothD(5) [OF S p]])
      (use r claimed smoothD(7,8) [OF S p] in \<open>simp_all add: restart_ambiguous_phases_def\<close>)
  then show "job_claim E (rc_job_id r) (rc_revision r) None \<lparr>bn_jobs = held (ou_platform E) r [], bn_time = 1, bn_log = l\<rparr>
      = (Inr (smooth_receipt E r m Approved),
         smooth_bench E (smooth_receipt E r m Approved) 2 (Claimed (smooth_receipt E r m Approved) # l))"
    using smoothD(6) [OF S p] by (simp add: job_claim_def manager_call_def smooth_bench_def claims_after_def smoothD(2,3) [OF S])
qed

section \<open>Steps\<close>

named_theorems smooth_steps

lemma return_step [smooth_steps]: "return_work y b = (Inr y, b)"
  by (simp add: return_work_def)

lemma require_step [smooth_steps]: "cnd \<Longrightarrow> require cnd e b = (Inr (), b)"
  by (simp add: require_def return_work_def)

lemma smooth_asked: "smooth E r m x c \<Longrightarrow> f t = Inr y \<Longrightarrow>
    ask E ev f (smooth_bench E q t l) = (Inr y, smooth_bench E q (t + 1) (ev # l))"
  by (simp add: smooth_ask)

lemma smooth_panelD:
  assumes "smooth E r m x c"
  shows "frozen_execution (ou_platform E) (ou_url_join E) r (ou_feed_url E t) = Some x"
    "async_revalidate_install_target (ou_platform E) (ou_resolver E t) (fx_pinned x) = Inr (fx_pinned x)"
    "ou_credential E t = Reply (rc_adb_credential_id r)"
    "\<exists>v. ou_preflight E t = Reply v \<and> same_physical_target v (fx_adb_target x) \<and> pv_root_mode v = m
       \<and> \<not> pv_target_installed v"
    "ou_download E t = Reply c" "ou_clean_local E t = Reply ()"
    "ou_stage E t = Reply (staged_of (ou_platform E) (rc_artifact r))"
    "ou_install_opened E t = Reply ()" "ou_installed E t = Reply PackageInstalled"
    "ou_remove_staged E t = Reply ()"
    "\<exists>l. ou_launch E t = Reply l \<and> la_outcome l = AppStarted \<and> la_home_chooser l \<noteq> Some ''deferred''"
    "\<exists>h. ou_health E t = Reply h
       \<and> health_is_installed_app h (ar_version_name (rc_artifact r)) (ar_package_id (rc_artifact r))"
    "\<exists>ui. ou_status E t = Reply ui \<and> home_ui_allows_setup ui"
    "ou_offer_url E t = Reply ''setup_complete''" "ou_settle E t = Reply ''skipped''"
    "local_artifact_ok c (fx_execution_id x) (rc_artifact r)"
    "build_admitted (ou_integration E) (rc_artifact r)"
  using assms by (simp_all add: smooth_def smooth_panel_def smooth_job_def)

lemma smooth_frozen:
  assumes "smooth E r m x c"
  shows "frozen E (smooth_receipt E r m p) b = (Inr x, b)"
proof -
  have "frozen_execution (ou_platform E) (ou_url_join E) (smooth_receipt E r m p) u =
      frozen_execution (ou_platform E) (ou_url_join E) r u" for u
    by (simp add: frozen_execution_def execution_id_def pinned_target_def adb_target_of_def apk_url_def Let_def)
  then show ?thesis by (simp add: frozen_def smooth_panelD(1) [OF assms] or_other_def return_work_def)
qed

lemma smooth_pin:
  assumes "smooth E r m x c"
  shows "require_pin E (fx_pinned x) (smooth_bench E q t l) = (Inr (), smooth_bench E q (t + 1) (Revalidated # l))"
  by (simp add: require_pin_def sequel_def attempt_def smooth_ask [OF assms] smooth_panelD(2) [OF assms] require_step)

lemma smooth_credential:
  assumes "smooth E r m x c"
  shows "current_credential E (smooth_receipt E r m p) (smooth_bench E q t l)
     = (Inr (rc_adb_credential_id r), smooth_bench E q (t + 1) (CredentialRead # l))"
  by (simp add: current_credential_def sequel_def attempt_def smooth_ask [OF assms] smooth_panelD(3) [OF assms]
      outcome_def require_step return_work_def)

lemma smooth_preflighted:
  assumes S: "smooth E r m x c"
  shows "\<exists>v. panel_preflight E (smooth_receipt E r m p) x (smooth_bench E q t l)
       = (Inr v, smooth_bench E q (t + 3) (Preflighted # CredentialRead # Revalidated # l))
     \<and> pv_root_mode v = m \<and> \<not> pv_target_installed v"
proof -
  obtain v where v: "ou_preflight E (t + 2) = Reply v" "same_physical_target v (fx_adb_target x)"
      "pv_root_mode v = m" "\<not> pv_target_installed v"
    using smooth_panelD(4) [OF S] by blast
  have "ask E Preflighted (\<lambda>t. outcome AdbError (ou_preflight E t)) (smooth_bench E q (t + 2) l')
      = (Inr v, smooth_bench E q (t + 3) (Preflighted # l'))" for l'
    using smooth_asked [OF S, of "\<lambda>t. outcome AdbError (ou_preflight E t)" "t + 2" v] v(1) by (simp add: outcome_def numeral_eq_Suc)
  then show ?thesis using v
    by (simp add: panel_preflight_def sequel_def attempt_def smooth_pin [OF S] smooth_credential [OF S]
        require_step return_work_def)
qed

lemma smooth_admission: "smooth E r m x c \<Longrightarrow> require_build_admission E (rc_artifact r) b = (Inr (), b)"
  by (simp add: require_build_admission_def require_step smooth_panelD(17))

lemma smooth_authority:
  assumes S: "smooth E r m x c" and p: "p \<in> mutation_barriers"
  shows "mutation_authority E (smooth_receipt E r m p) x (smooth_bench E (smooth_receipt E r m p) t l)
     = (Inr (rc_adb_credential_id r, smooth_receipt E r m p), smooth_bench E (smooth_receipt E r m p) (t + 4)
         (CredentialRead # Barred (smooth_receipt E r m p) # JobRead (smooth_receipt E r m p) # Revalidated # l))"
proof -
  have path: "p \<in> set smooth_path" using p by (auto simp: mutation_barriers_def smooth_path_def)
  have hold: "same_hold q q" for q by (simp add: same_hold_def)
  show ?thesis
    unfolding mutation_authority_def
    by (simp add: sequel_def attempt_def smooth_pin [OF S] smooth_get [OF S path]
        require_step hold smooth_barrier [OF S p]
        smooth_credential [OF S] smooth_admission [OF S]
        return_step return_work_def numeral_eq_Suc)
qed

lemma smooth_cleanup:
  assumes S: "smooth E r m x c" and p: "p \<in> {Installing, Launching}"
  shows "cleanup_authority E (smooth_receipt E r m p) x (smooth_bench E (smooth_receipt E r m p) t l)
     = (Inr (rc_adb_credential_id r, smooth_receipt E r m p), smooth_bench E (smooth_receipt E r m p) (t + 4)
         (CredentialRead # CleanupBarred (smooth_receipt E r m p) # JobRead (smooth_receipt E r m p) # Revalidated # l))"
proof -
  have path: "p \<in> set smooth_path" using p by (auto simp: smooth_path_def)
  have hold: "same_hold q q" for q by (simp add: same_hold_def)
  show ?thesis
    unfolding cleanup_authority_def
    by (simp add: sequel_def attempt_def smooth_pin [OF S] smooth_get [OF S path]
        require_step hold smooth_cleanup_barrier [OF S p]
        smooth_credential [OF S] return_work_def numeral_eq_Suc)
qed

lemma smooth_next:
  assumes "smooth E r m x c" "p \<in> before_end" "a = told E r m p" "t = saved_at (after p)"
  shows "worker_transition E (smooth_receipt E r m p) a (smooth_bench E (smooth_receipt E r m p) t l)
     = (Inr (smooth_receipt E r m (after p)),
        smooth_bench E (smooth_receipt E r m (after p)) (t + 1) (Moved (smooth_receipt E r m (after p)) # l))"
  by (simp add: worker_transition_def attempt_def assms(3,4) smooth_move [OF assms(1,2)] return_work_def)

lemma smooth_root: "p \<in> root_mode_required_phases \<Longrightarrow> expected_root_mode (smooth_receipt E r m p) b = (Inr m, b)"
  by (cases m) (simp_all add: expected_root_mode_def root_mode_of_value_def return_work_def)

lemma smooth_change:
  assumes "smooth E r m x c" "f t = Reply y"
  shows "panel_call E ch x cr f (smooth_bench E q t l)
     = (Inr y, smooth_bench E q (t + 1) (Changed ch (fx_adb_target x) cr # l))"
  unfolding panel_call_def by (rule smooth_asked [OF assms(1)]) (simp add: assms(2) outcome_def)

lemma smooth_local_gone:
  assumes "smooth E r m x c"
  shows "cleanup_local E eid (smooth_bench E q t l) = (Inr (), smooth_bench E q (t + 1) (LocalCleaned eid # l))"
  by (simp add: cleanup_local_def smooth_panelD(6) [OF assms] smooth_ask [OF assms] outcome_def)

end
