(* ===== verification/Executor_Runs.thy ===== *)
theory Executor_Runs
  imports Install_Executor
begin

text \<open>
  How to reason about a worker's run: what a call of the world returns and logs, when a panel
  change is permitted by the barrier before it, and the locale that carries a relation of logs
  through every method of the worker.
\<close>

section \<open>Results\<close>

named_theorems work_Inr

lemma return_work_eq [simp]: "return_work x b = (Inr x, b)"
  by (simp add: return_work_def)

lemma raise_work_eq [simp]: "raise_work e b = (Inl e, b)"
  by (simp add: raise_work_def)

lemma attempt_Inr:
  "attempt m h k b = (Inr y, b') \<longleftrightarrow>
     (\<exists>x b1. m b = (Inr x, b1) \<and> k x b1 = (Inr y, b'))
     \<or> (\<exists>e b1 w. m b = (Inl e, b1) \<and> h e = Some w \<and> w b1 = (Inr y, b'))"
  by (auto simp: attempt_def split: prod.splits sum.splits option.splits)

lemma sequel_Inr [work_Inr]:
  "sequel m k b = (Inr y, b') \<longleftrightarrow> (\<exists>x b1. m b = (Inr x, b1) \<and> k x b1 = (Inr y, b'))"
  by (auto simp: sequel_def attempt_Inr)

lemma require_Inr [work_Inr]: "require c e b = (Inr u, b') \<longleftrightarrow> c \<and> b' = b"
  by (auto simp: require_def)

lemma or_other_Inr [work_Inr]: "or_other x b = (Inr y, b') \<longleftrightarrow> x = Some y \<and> b' = b"
  by (auto simp: or_other_def split: option.splits)

lemma ask_Inr [work_Inr]:
  "ask E ev f b = (Inr x, b') \<longleftrightarrow> \<not> ou_stop E (bn_time b) \<and> f (bn_time b) = Inr x
     \<and> b' = b\<lparr>bn_time := bn_time b + 1, bn_log := ev # bn_log b\<rparr>"
  by (auto simp: ask_def Let_def)

lemma ask_log: "bn_log (snd (ask E ev f b)) = ev # bn_log b"
  by (simp add: ask_def Let_def)

lemma manager_call_Inr:
  "manager_call E ev f b = (Inr x, b') \<longleftrightarrow> (\<exists>st.
     f (bn_time b) (serve (ou_platform E) (ou_requests E (bn_time b)) (bn_jobs b)) = (Inr x, st)
     \<and> b' = b\<lparr>bn_jobs := st, bn_time := bn_time b + 1, bn_log := ev x # bn_log b\<rparr>)"
  by (auto simp: manager_call_def Let_def split: prod.splits sum.splits)

lemma manager_call_cases:
  obtains (refused) e e' b' where "manager_call E ev f b = (Inl e, b')" "bn_log b' = Refused e' # bn_log b"
  | (answered) x b' where "manager_call E ev f b = (Inr x, b')" "bn_log b' = ev x # bn_log b"
proof (cases "f (bn_time b) (serve (ou_platform E) (ou_requests E (bn_time b)) (bn_jobs b))")
  case (Pair res st)
  then show thesis using refused answered
    by (cases res) (simp_all add: manager_call_def Let_def)
qed

lemma job_transition_cases:
  obtains (refused) e e' b' where "job_transition E job_id revision a b = (Inl e, b')"
      "bn_log b' = Refused e' # bn_log b"
  | (moved) r b' where "job_transition E job_id revision a b = (Inr r, b')"
      "bn_log b' = Moved r # bn_log b" "rc_phase r = ta_phase a"
proof (cases rule: manager_call_cases [of E Moved "\<lambda>t. async_transition (ou_platform E) (ou_load E t)
    (ou_save E t) (ou_clock E t) job_id revision a" b])
  case (refused e e' b')
  show thesis by (rule that(1) [of e b' e']) (use refused in \<open>simp_all add: job_transition_def\<close>)
next
  case (answered r b')
  have *: "job_transition E job_id revision a b = (Inr r, b')" using answered by (simp add: job_transition_def)
  show thesis by (rule that(2) [OF * answered(2)]) (use * in \<open>auto simp: job_transition_def manager_call_Inr dest: transition_Inr\<close>)
qed

lemma manager_call_log:
  "bn_log (snd (manager_call E ev f b)) = (case fst (f (bn_time b)
       (serve (ou_platform E) (ou_requests E (bn_time b)) (bn_jobs b))) of
     Inl e \<Rightarrow> Refused e | Inr x \<Rightarrow> ev x) # bn_log b"
  by (auto simp: manager_call_def Let_def split: prod.splits sum.splits)

lemma job_transition_Inr:
  assumes "job_transition E job_id revision a b = (Inr r', b')"
  shows "rc_phase r' = ta_phase a" "bn_log b' = Moved r' # bn_log b"
  using assms by (auto simp: job_transition_def manager_call_Inr dest: transition_Inr)

lemma job_mutation_barrier_Inr:
  assumes "job_mutation_barrier E job_id revision phase b = (Inr h, b')"
  shows "rc_phase h = phase" "phase \<in> mutation_barriers" "\<not> rc_cancel_requested h"
    "rc_revision h = revision" "bn_log b' = Barred h # bn_log b"
  using assms by (auto simp: job_mutation_barrier_def manager_call_Inr async_verify_mutation_barrier_def
      dest: barrier_Inr split: if_splits)

lemma job_cleanup_barrier_Inr:
  assumes "job_cleanup_barrier E job_id revision phase b = (Inr h, b')"
  shows "rc_phase h = phase" "cleanup_barrier_cancel_polarity phase = Some (rc_cancel_requested h)"
    "rc_revision h = revision" "bn_log b' = CleanupBarred h # bn_log b"
  using assms by (auto simp: job_cleanup_barrier_def manager_call_Inr async_verify_cleanup_barrier_def
      dest: barrier_Inr split: option.splits)

section \<open>When a panel change is permitted\<close>

text \<open>The barrier that stands: nothing but reading the credential and opening the installer's
  connection has happened since it let the worker pass.  \<open>True\<close> is the mutation barrier.\<close>

fun authority :: "event list \<Rightarrow> (bool \<times> receipt) option" where
  "authority (Barred h # l) = Some (True, h)"
| "authority (CleanupBarred h # l) = Some (False, h)"
| "authority (CredentialRead # l) = authority l"
| "authority (InstallOpened # l) = authority l"
| "authority _ = None"

text \<open>Which change the standing barrier's receipt permits.\<close>

fun change_fits :: "outside \<Rightarrow> bool \<Rightarrow> receipt \<Rightarrow> panel_change \<Rightarrow> bool" where
  "change_fits E m h (StageApk p) \<longleftrightarrow> m \<and> rc_phase h = Staging \<and> build_admitted (ou_integration E) (rc_artifact h)"
| "change_fits E m h InstallApk \<longleftrightarrow> m \<and> rc_phase h = Installing \<and> build_admitted (ou_integration E) (rc_artifact h)"
| "change_fits E m h LaunchApp \<longleftrightarrow> m \<and> rc_phase h \<in> {Launching, HealthCheck}"
| "change_fits E m h ApplySizing \<longleftrightarrow> m \<and> rc_phase h = HealthCheck"
| "change_fits E m h SettleDisplay \<longleftrightarrow> m \<and> rc_phase h = HealthCheck"
| "change_fits E m h (RemoveStaged sg why) \<longleftrightarrow> \<not> m \<and>
     rc_phase h = (case why of CleanupCancelled \<Rightarrow> Staging | CleanupRefused \<Rightarrow> Installing | CleanupInstalled \<Rightarrow> Launching)"

definition permitted :: "outside \<Rightarrow> (bool \<times> receipt) option \<Rightarrow> panel_change \<Rightarrow> string \<Rightarrow> bool" where
  "permitted E au change credential \<longleftrightarrow> (case au of None \<Rightarrow> False
     | Some (m, h) \<Rightarrow> change_fits E m h change \<and> credential = rc_adb_credential_id h
         \<and> rc_cancel_requested h = (\<not> m \<and> rc_phase h = Staging))"

fun authorised :: "outside \<Rightarrow> event list \<Rightarrow> bool" where
  "authorised E [] \<longleftrightarrow> True"
| "authorised E (Changed change target credential # l) \<longleftrightarrow>
     permitted E (authority l) change credential \<and> authorised E l"
| "authorised E (_ # l) \<longleftrightarrow> authorised E l"

lemma current_credential_Inr:
  assumes "current_credential E r b = (Inr c, b')"
  shows "c = rc_adb_credential_id r" "bn_log b' = CredentialRead # bn_log b"
  using assms by (auto simp: current_credential_def work_Inr)

lemma mutation_authority_Inr:
  assumes "mutation_authority E r x b = (Inr (c, h), b')"
  shows "authority (bn_log b') = Some (True, h)" "c = rc_adb_credential_id h" "rc_phase h = rc_phase r"
    "\<not> rc_cancel_requested h" "rc_revision h = rc_revision r"
    "rc_phase h \<in> {Staging, Installing} \<Longrightarrow> build_admitted (ou_integration E) (rc_artifact h)"
proof -
  obtain current b1 b2 b3 where s: "same_hold current r"
      "job_mutation_barrier E (rc_job_id current) (rc_revision current) (rc_phase current) b1 = (Inr h, b2)"
      "current_credential E h b2 = (Inr c, b3)" "b' = b3"
      "rc_phase h \<in> {Staging, Installing} \<longrightarrow> build_admitted (ou_integration E) (rc_artifact h)"
    using assms by (auto simp: mutation_authority_def work_Inr require_build_admission_def split: if_splits)
  with job_mutation_barrier_Inr [OF s(2)] current_credential_Inr [OF s(3)]
  show "authority (bn_log b') = Some (True, h)" "c = rc_adb_credential_id h" "rc_phase h = rc_phase r"
    "\<not> rc_cancel_requested h" "rc_revision h = rc_revision r"
    "rc_phase h \<in> {Staging, Installing} \<Longrightarrow> build_admitted (ou_integration E) (rc_artifact h)"
    by (auto simp: same_hold_def)
qed

lemma cleanup_authority_Inr:
  assumes "cleanup_authority E r x b = (Inr (c, h), b')"
  shows "authority (bn_log b') = Some (False, h)" "c = rc_adb_credential_id h" "rc_phase h = rc_phase r"
    "rc_cancel_requested h = (rc_phase h = Staging)" "rc_revision h = rc_revision r"
proof -
  obtain current b1 b2 b3 where s: "same_hold current r"
      "job_cleanup_barrier E (rc_job_id current) (rc_revision current) (rc_phase current) b1 = (Inr h, b2)"
      "current_credential E h b2 = (Inr c, b3)" "b' = b3"
    using assms by (auto simp: cleanup_authority_def work_Inr)
  note h = job_cleanup_barrier_Inr [OF s(2)]
  have "rc_cancel_requested h = (rc_phase h = Staging)"
    using h(1,2) by (cases "rc_phase h") auto
  with s h current_credential_Inr [OF s(3)]
  show "authority (bn_log b') = Some (False, h)" "c = rc_adb_credential_id h" "rc_phase h = rc_phase r"
    "rc_cancel_requested h = (rc_phase h = Staging)" "rc_revision h = rc_revision r"
    by (simp_all add: same_hold_def)
qed

text \<open>What a worker holds right after an authority returned, in phase \<open>p\<close>.\<close>

definition mutation_held :: "outside \<Rightarrow> install_phase \<Rightarrow> string \<Rightarrow> receipt \<Rightarrow> bench \<Rightarrow> bool" where
  "mutation_held E p c h b \<longleftrightarrow> authority (bn_log b) = Some (True, h) \<and> c = rc_adb_credential_id h
     \<and> rc_phase h = p \<and> \<not> rc_cancel_requested h
     \<and> (p \<in> {Staging, Installing} \<longrightarrow> build_admitted (ou_integration E) (rc_artifact h))"

definition cleanup_held :: "install_phase \<Rightarrow> string \<Rightarrow> receipt \<Rightarrow> bench \<Rightarrow> bool" where
  "cleanup_held p c h b \<longleftrightarrow> authority (bn_log b) = Some (False, h) \<and> c = rc_adb_credential_id h
     \<and> rc_phase h = p \<and> rc_cancel_requested h = (p = Staging)"

lemma mutation_authority_held:
  "mutation_authority E r x b = (Inr (c, h), b') \<Longrightarrow> mutation_held E (rc_phase r) c h b'"
  using mutation_authority_Inr [of E r x b c h b'] by (simp add: mutation_held_def)

lemma cleanup_authority_held:
  "cleanup_authority E r x b = (Inr (c, h), b') \<Longrightarrow> cleanup_held (rc_phase r) c h b'"
  using cleanup_authority_Inr [of E r x b c h b'] by (simp add: cleanup_held_def)

section \<open>Relations of logs through the methods\<close>

definition relates :: "(event list \<Rightarrow> event list \<Rightarrow> bool) \<Rightarrow> 'a work \<Rightarrow> bool" where
  "relates L m \<longleftrightarrow> (\<forall>b. L (bn_log b) (bn_log (snd (m b))))"

definition relates_from :: "(event list \<Rightarrow> event list \<Rightarrow> bool) \<Rightarrow> bench \<Rightarrow> 'a work \<Rightarrow> bool" where
  "relates_from L b m \<longleftrightarrow> L (bn_log b) (bn_log (snd (m b)))"

text \<open>The events that neither change the panel nor put a job into recovery.\<close>

fun quiet :: "event \<Rightarrow> bool" where
  "quiet (Changed _ _ _) = False"
| "quiet (Moved r) = (rc_phase r \<noteq> RecoveryRequired)"
| "quiet _ = True"

text \<open>
  A relation of logs that every quiet event keeps, that the four events of recovery keep
  together, and that the panel changes in \<open>allowed\<close> keep where they are permitted.
\<close>

locale log_relation =
  fixes E :: outside and L :: "event list \<Rightarrow> event list \<Rightarrow> bool" and allowed :: "panel_change \<Rightarrow> bool"
  assumes L_refl: "L l l"
    and L_trans: "L l l' \<Longrightarrow> L l' l'' \<Longrightarrow> L l l''"
    and L_quiet: "quiet ev \<Longrightarrow> L l (ev # l)"
    and L_change: "allowed c \<Longrightarrow> permitted E (authority l) c credential
      \<Longrightarrow> L l (Changed c target credential # l)"
    and L_recovery: "rc_phase r = RecoveryRequired \<Longrightarrow> execution_id (ou_platform E) q = Some eid \<Longrightarrow>
      \<not> is_terminal q \<Longrightarrow> L (JobRead q # l) (Moved r # JobRead q' # LocalCleaned eid # JobRead q # l)"
begin

abbreviation keeps_log :: "'a work \<Rightarrow> bool" where
  "keeps_log \<equiv> relates L"

abbreviation keeps_from :: "bench \<Rightarrow> 'a work \<Rightarrow> bool" where
  "keeps_from \<equiv> relates_from L"

lemma keeps_at: "keeps_log m \<Longrightarrow> L (bn_log b) (bn_log (snd (m b)))"
  by (simp add: relates_def)

lemma keeps_from_log: "keeps_log m \<Longrightarrow> keeps_from b m"
  by (simp add: relates_def relates_from_def)

lemma keeps_return: "keeps_log (return_work x)" and keeps_raise: "keeps_log (raise_work e)"
  by (simp_all add: relates_def L_refl)

lemma keeps_require: "keeps_log (require c e)"
  by (simp add: require_def keeps_return keeps_raise)

lemma keeps_or_other: "keeps_log (or_other x)"
  by (simp add: or_other_def keeps_return keeps_raise split: option.split)

lemma keeps_attempt_at:
  assumes m: "keeps_log m" and h: "\<And>e w. h e = Some w \<Longrightarrow> keeps_log w"
    and k: "\<And>x b b'. m b = (Inr x, b') \<Longrightarrow> L (bn_log b') (bn_log (snd (k x b')))"
  shows "keeps_log (attempt m h k)"
  unfolding relates_def
proof
  fix b
  obtain res b1 where r: "m b = (res, b1)" by fastforce
  have m1: "L (bn_log b) (bn_log b1)" using keeps_at [OF m, of b] r by simp
  show "L (bn_log b) (bn_log (snd (attempt m h k b)))"
  proof (cases res)
    case (Inl e)
    show ?thesis
    proof (cases "h e")
      case None
      then show ?thesis using r Inl m1 by (simp add: attempt_def)
    next
      case (Some w)
      have "L (bn_log b1) (bn_log (snd (w b1)))" by (rule keeps_at [OF h [OF Some]])
      with m1 show ?thesis using r Inl Some by (simp add: attempt_def) (rule L_trans)
    qed
  next
    case (Inr x)
    have "L (bn_log b1) (bn_log (snd (k x b1)))" by (rule k) (use r Inr in simp)
    with m1 show ?thesis using r Inr by (simp add: attempt_def) (rule L_trans)
  qed
qed

lemma keeps_attempt:
  "keeps_log m \<Longrightarrow> (\<And>e w. h e = Some w \<Longrightarrow> keeps_log w) \<Longrightarrow> (\<And>x. keeps_log (k x)) \<Longrightarrow> keeps_log (attempt m h k)"
  by (rule keeps_attempt_at) (simp_all add: relates_def)

lemma keeps_sequel: "keeps_log m \<Longrightarrow> (\<And>x. keeps_log (k x)) \<Longrightarrow> keeps_log (sequel m k)"
  unfolding sequel_def by (rule keeps_attempt) simp_all

lemma keeps_ask: "quiet ev \<Longrightarrow> keeps_log (ask E ev f)"
  by (simp add: relates_def ask_log L_quiet)

lemma keeps_manager_call: "(\<And>x. quiet (ev x)) \<Longrightarrow> keeps_log (manager_call E ev f)"
  by (simp add: relates_def manager_call_log L_quiet split: sum.split)

lemma keeps_choice: "keeps_log m \<Longrightarrow> keeps_log m' \<Longrightarrow> keeps_log (if c then m else m')"
  by simp

end

context log_relation
begin

lemma keeps_job_get: "keeps_log (job_get E job_id)" and keeps_job_list: "keeps_log (job_list E)"
  and keeps_job_claim: "keeps_log (job_claim E job_id revision confirmed)"
  and keeps_mutation_barrier: "keeps_log (job_mutation_barrier E job_id revision phase)"
  and keeps_cleanup_barrier: "keeps_log (job_cleanup_barrier E job_id revision phase)"
  by (simp_all add: job_get_def job_list_def job_claim_def job_mutation_barrier_def job_cleanup_barrier_def
      keeps_manager_call)

lemma keeps_job_transition:
  assumes "ta_phase a \<noteq> RecoveryRequired"
  shows "keeps_log (job_transition E job_id revision a)"
  unfolding relates_def
proof
  fix b
  show "L (bn_log b) (bn_log (snd (job_transition E job_id revision a b)))"
    by (cases rule: job_transition_cases [of E job_id revision a b]) (use assms in \<open>simp_all add: L_quiet\<close>)
qed

lemma keeps_require_pin: "keeps_log (require_pin E pinned)"
  unfolding require_pin_def by (intro keeps_sequel keeps_ask keeps_require) simp

lemma keeps_current_credential: "keeps_log (current_credential E r)"
  unfolding current_credential_def by (intro keeps_sequel keeps_ask keeps_require keeps_return) simp

lemma keeps_build_admission: "keeps_log (require_build_admission E a)"
  and keeps_local_artifact: "keeps_log (require_local_artifact c eid a)"
  by (simp_all add: require_build_admission_def require_local_artifact_def keeps_require)

lemma keeps_expected_root_mode: "keeps_log (expected_root_mode r)"
  by (simp add: expected_root_mode_def keeps_return keeps_raise split: option.split)

lemma keeps_cleanup_local: "keeps_log (cleanup_local E eid)"
  by (simp add: relates_def cleanup_local_def ask_log L_quiet)

lemma keeps_download: "keeps_log (download E x)"
  and keeps_pause: "keeps_log (pause_between E)" and keeps_read_health: "keeps_log (read_health E)"
  and keeps_read_home_ui: "keeps_log (read_home_ui E)"
  by (simp_all add: download_def pause_between_def read_health_def read_home_ui_def keeps_ask)

lemmas keeps_intros = keeps_return keeps_raise keeps_require keeps_or_other keeps_sequel keeps_ask
  keeps_choice keeps_job_get keeps_job_list keeps_job_claim keeps_mutation_barrier keeps_cleanup_barrier
  keeps_require_pin keeps_current_credential keeps_build_admission keeps_local_artifact
  keeps_expected_root_mode keeps_download keeps_cleanup_local keeps_pause keeps_read_health keeps_read_home_ui

lemma keeps_panel_preflight: "keeps_log (panel_preflight E r x)"
  unfolding panel_preflight_def by (intro keeps_intros) simp

lemma keeps_installed_bytes: "keeps_log (installed_bytes E r)"
  unfolding installed_bytes_def by (intro keeps_intros) simp

lemma keeps_ensure_local: "keeps_log (ensure_local_artifact E r x)"
  unfolding ensure_local_artifact_def by (intro keeps_intros)

lemma keeps_mutation_authority: "keeps_log (mutation_authority E r x)"
  unfolding mutation_authority_def by (intro keeps_intros)

lemma keeps_cleanup_authority: "keeps_log (cleanup_authority E r x)"
  unfolding cleanup_authority_def by (intro keeps_intros)

lemma keeps_worker_transition:
  "ta_phase a \<noteq> RecoveryRequired \<Longrightarrow> keeps_log (worker_transition E r a)"
  unfolding worker_transition_def
  by (rule keeps_attempt) (auto intro!: keeps_intros keeps_job_transition split: if_splits)

lemma keeps_worker_fail: "keeps_log (worker_fail E r result subcode)"
  unfolding worker_fail_def by (intro keeps_intros keeps_job_transition) (simp add: move_to_def)

lemma keeps_pause_on_custody: "pause_on_custody n e = Some w \<Longrightarrow> keeps_log w"
  by (auto simp: pause_on_custody_def keeps_raise split: exc.splits)

text \<open>Recovery: the four events come together, whatever another one cuts short.\<close>

lemma quiet_all: "list_all quiet evs \<Longrightarrow> L l (evs @ l)"
  by (induction evs) (auto intro: L_refl L_quiet L_trans)

lemma quiet2: "quiet e1 \<Longrightarrow> quiet e2 \<Longrightarrow> L l (e2 # e1 # l)"
  using quiet_all [of "[e2, e1]" l] by simp

lemma quiet3: "quiet e1 \<Longrightarrow> quiet e2 \<Longrightarrow> quiet e3 \<Longrightarrow> L l (e3 # e2 # e1 # l)"
  using quiet_all [of "[e3, e2, e1]" l] by simp

lemma recovery_move:
  assumes "bn_log b = JobRead q' # LocalCleaned eid # JobRead q # l" "ta_phase a = RecoveryRequired"
    "execution_id (ou_platform E) q = Some eid" "\<not> is_terminal q"
  shows "L (JobRead q # l) (bn_log (snd (job_transition E job_id revision a b)))"
proof (cases rule: job_transition_cases [of E job_id revision a b])
  case (refused e e' b')
  then show ?thesis using assms(1) by (simp add: quiet3)
next
  case (moved r b')
  then show ?thesis using assms by (simp add: L_recovery)
qed

lemma recovery_tail:
  assumes b: "bn_log b = LocalCleaned eid # JobRead q # l" and a: "ta_phase a = RecoveryRequired"
    and q: "execution_id (ou_platform E) q = Some eid" "\<not> is_terminal q"
  shows "L (JobRead q # l) (bn_log (snd (sequel (job_get E job_id) (\<lambda>current.
     if is_terminal current then return_work current
     else job_transition E (rc_job_id current) (rc_revision current) a) b)))"
proof (cases rule: manager_call_cases [of E JobRead "\<lambda>t. async_get (ou_platform E) (ou_load E t) job_id" b])
  case (refused e e' b')
  then show ?thesis using b by (simp add: sequel_def attempt_def job_get_def quiet2)
next
  case (answered q' b')
  note m = recovery_move [OF answered(2) [unfolded b] a q, of "rc_job_id q'" "rc_revision q'"]
  show ?thesis using answered b m by (simp add: sequel_def attempt_def job_get_def quiet2)
qed

lemma keeps_worker_recovery: "keeps_log (worker_recovery E r result subcode)"
  unfolding relates_def
proof
  fix b
  let ?a = "(move_to RecoveryRequired)\<lparr>ta_result_code := Some result, ta_result_subcode := Some subcode\<rparr>"
  show "L (bn_log b) (bn_log (snd (worker_recovery E r result subcode b)))"
  proof (cases rule: manager_call_cases [of E JobRead "\<lambda>t. async_get (ou_platform E) (ou_load E t) (rc_job_id r)" b])
    case (refused e e' b')
    then show ?thesis by (simp add: worker_recovery_def sequel_def attempt_def job_get_def L_quiet)
  next
    case (answered q b1)
    then have get: "job_get E (rc_job_id r) b = (Inr q, b1)" by (simp add: job_get_def)
    have one: "L (bn_log b) (JobRead q # bn_log b)" by (simp add: L_quiet)
    show ?thesis
    proof (cases "is_terminal q \<or> execution_id (ou_platform E) q = None")
      case True
      then show ?thesis using get answered(2) one
        by (auto simp: worker_recovery_def sequel_def attempt_def or_other_def)
    next
      case False
      then obtain eid where eid: "execution_id (ou_platform E) q = Some eid" and nt: "\<not> is_terminal q" by blast
      obtain res b2 where c: "cleanup_local E eid b1 = (res, b2)" by fastforce
      then have l2: "\<exists>ev. quiet ev \<and> bn_log b2 = ev # JobRead q # bn_log b \<and> (res = Inr () \<longrightarrow> ev = LocalCleaned eid)"
        using answered(2) by (auto simp: cleanup_local_def ask_def Let_def outcome_def split: if_splits reply.splits)
      have run: "worker_recovery E r result subcode b = attempt (cleanup_local E eid) (pause_on_custody True)
          (\<lambda>_. sequel (job_get E (rc_job_id r)) (\<lambda>current. if is_terminal current then return_work current
             else job_transition E (rc_job_id current) (rc_revision current) ?a)) b1"
        using get eid nt by (simp add: worker_recovery_def sequel_def attempt_def or_other_def)
      have "L (JobRead q # bn_log b) (bn_log (snd (worker_recovery E r result subcode b)))"
      proof (cases res)
        case (Inl e)
        then obtain ev where "quiet ev" "bn_log b2 = ev # JobRead q # bn_log b" using l2 by blast
        then show ?thesis using c Inl unfolding run
          by (auto simp: attempt_def pause_on_custody_def L_quiet split: exc.splits option.splits)
      next
        case (Inr u)
        then have l2': "bn_log b2 = LocalCleaned eid # JobRead q # bn_log b" using l2 by auto
        have "ta_phase ?a = RecoveryRequired" by (simp add: move_to_def)
        from recovery_tail [OF l2' this eid nt, of "rc_job_id r"] show ?thesis
          using c Inr unfolding run by (simp add: attempt_def)
      qed
      then show ?thesis by (rule L_trans [OF one])
    qed
  qed
qed

lemma attempt_from:
  assumes m: "keeps_from b m" and h: "\<And>e w. h e = Some w \<Longrightarrow> keeps_log w"
    and k: "\<And>x. keeps_log (k x)"
  shows "keeps_from b (attempt m h k)"
proof -
  obtain res b1 where r: "m b = (res, b1)" by fastforce
  then have m1: "L (bn_log b) (bn_log b1)" using m by (simp add: relates_from_def)
  show ?thesis
  proof (cases res)
    case (Inl e)
    show ?thesis
    proof (cases "h e")
      case None
      then show ?thesis using r Inl m1 by (simp add: attempt_def relates_from_def)
    next
      case (Some w)
      have "L (bn_log b1) (bn_log (snd (w b1)))" by (rule keeps_at [OF h [OF Some]])
      with m1 show ?thesis using r Inl Some by (simp add: attempt_def relates_from_def) (rule L_trans)
    qed
  next
    case (Inr x)
    have "L (bn_log b1) (bn_log (snd (k x b1)))" by (rule keeps_at [OF k])
    with m1 show ?thesis using r Inr by (simp add: attempt_def relates_from_def) (rule L_trans)
  qed
qed

lemma sequel_from:
  assumes "keeps_from b m" and "\<And>x. keeps_log (k x)"
  shows "keeps_from b (sequel m k)"
  unfolding sequel_def using assms(1) by (rule attempt_from) (simp_all add: assms(2))

lemma keeps_with_mutation:
  assumes "\<And>e w. h e = Some w \<Longrightarrow> keeps_log w"
    and "\<And>c held b. mutation_held E (rc_phase r) c held b \<Longrightarrow> keeps_from b (k (c, held))"
  shows "keeps_log (attempt (mutation_authority E r x) h k)"
proof (rule keeps_attempt_at [OF keeps_mutation_authority])
  show "keeps_log w" if "h e = Some w" for e w using assms(1) that .
  fix y b b' assume m: "mutation_authority E r x b = (Inr y, b')"
  obtain c held where y: "y = (c, held)" by fastforce
  show "L (bn_log b') (bn_log (snd (k y b')))"
    unfolding y relates_from_def [symmetric] by (rule assms(2)) (use mutation_authority_held m y in blast)
qed

lemma keeps_with_cleanup:
  assumes "\<And>e w. h e = Some w \<Longrightarrow> keeps_log w"
    and "\<And>c held b. cleanup_held (rc_phase r) c held b \<Longrightarrow> keeps_from b (k (c, held))"
  shows "keeps_log (attempt (cleanup_authority E r x) h k)"
proof (rule keeps_attempt_at [OF keeps_cleanup_authority])
  show "keeps_log w" if "h e = Some w" for e w using assms(1) that .
  fix y b b' assume m: "cleanup_authority E r x b = (Inr y, b')"
  obtain c held where y: "y = (c, held)" by fastforce
  show "L (bn_log b') (bn_log (snd (k y b')))"
    unfolding y relates_from_def [symmetric] by (rule assms(2)) (use cleanup_authority_held m y in blast)
qed

text \<open>A call that changes the panel, once its root mode is known.\<close>

lemma panel_call_from:
  "allowed c \<Longrightarrow> permitted E (authority (bn_log b)) c credential \<Longrightarrow> keeps_from b (panel_call E c x credential f)"
  by (simp add: relates_from_def panel_call_def ask_log L_change)

lemma change_from:
  assumes "allowed c" "permitted E (authority (bn_log b)) c credential"
  shows "keeps_from b (sequel (expected_root_mode r) (\<lambda>_. panel_call E c x credential f))"
  using panel_call_from [OF assms]
  by (auto simp: relates_from_def sequel_def attempt_def expected_root_mode_def L_refl split: option.split)

lemma remove_staged_from:
  assumes "allowed (RemoveStaged sg why)" "cleanup_held p c held b"
    "p = (case why of CleanupCancelled \<Rightarrow> Staging | CleanupRefused \<Rightarrow> Installing | CleanupInstalled \<Rightarrow> Launching)"
  shows "keeps_from b (remove_staged E x c held sg why)"
  unfolding remove_staged_def
  by (rule change_from) (use assms in \<open>auto simp: permitted_def cleanup_held_def\<close>)

lemma start_app_from:
  assumes "allowed LaunchApp" "mutation_held E p c held b" "p \<in> {Launching, HealthCheck}"
  shows "keeps_from b (start_app E x c held)"
  unfolding start_app_def
  by (rule change_from) (use assms in \<open>auto simp: permitted_def mutation_held_def\<close>)

end

text \<open>The changes the worker makes in a phase.\<close>

fun changes_in :: "install_phase \<Rightarrow> panel_change \<Rightarrow> bool" where
  "changes_in Staging c = (case c of StageApk _ \<Rightarrow> True | RemoveStaged _ why \<Rightarrow> why = CleanupCancelled | _ \<Rightarrow> False)"
| "changes_in Installing c = (case c of InstallApk \<Rightarrow> True | RemoveStaged _ why \<Rightarrow> why = CleanupRefused | _ \<Rightarrow> False)"
| "changes_in Launching c = (case c of LaunchApp \<Rightarrow> True | RemoveStaged _ why \<Rightarrow> why = CleanupInstalled | _ \<Rightarrow> False)"
| "changes_in HealthCheck c = (c \<in> {LaunchApp, ApplySizing, SettleDisplay})"
| "changes_in _ c = False"

section \<open>The worker's methods keep the relation\<close>

context log_relation
begin

lemma keeps_cleanup_then_fail: "keeps_log (cleanup_local_then_fail E r eid result subcode)"
  unfolding cleanup_local_then_fail_def
  by (rule keeps_attempt) (auto intro: keeps_intros keeps_worker_recovery keeps_worker_fail split: exc.splits)

lemma keeps_clear_stale: "keeps_log (clear_stale_partial E eid removed)"
  unfolding clear_stale_partial_def
  by (intro keeps_choice keeps_raise keeps_attempt keeps_cleanup_local keeps_return) (rule keeps_pause_on_custody)

lemma keeps_worker_claim: "keeps_log (worker_claim E r)"
  unfolding worker_claim_def
  by (rule keeps_attempt)
    (auto intro!: keeps_intros keeps_attempt dest: keeps_pause_on_custody split: if_splits)

text \<open>The handlers, all of which go through recovery or failure.\<close>

lemma keeps_settle_handler: "settle_handler E r e = Some w \<Longrightarrow> keeps_log w"
  by (auto simp: settle_handler_def intro: keeps_return keeps_worker_recovery split: exc.splits if_splits)

lemma keeps_launch_handler: "launch_handler E r e = Some w \<Longrightarrow> keeps_log w"
  by (auto simp: launch_handler_def intro: keeps_worker_recovery keeps_worker_fail split: exc.splits if_splits)

lemma keeps_launched: "keeps_log (launched E r launch)"
  by (auto simp: launched_def move_to_def intro: keeps_worker_recovery keeps_worker_fail keeps_worker_transition
      split: launch_outcome.split)

lemma keeps_install_refused:
  assumes "rc_phase r = Installing" and "\<And>sg. allowed (RemoveStaged sg CleanupRefused)"
  shows "keeps_log (install_refused E r x sg)"
  unfolding install_refused_def Let_def
proof (rule keeps_with_cleanup, goal_cases)
  case (2 c held b)
  have r: "keeps_from b (remove_staged E x c held sg CleanupRefused)"
    by (rule remove_staged_from [OF assms(2) 2]) (simp add: assms(1))
  show ?case unfolding prod.case
    by (rule attempt_from [OF sequel_from [OF r]])
      (auto intro: keeps_cleanup_local keeps_worker_recovery keeps_worker_fail split: exc.splits if_splits)
qed (auto intro: keeps_worker_recovery split: exc.splits if_splits)

lemma keeps_launch_part:
  assumes "rc_phase r \<in> {Launching, HealthCheck}" "allowed LaunchApp" "\<And>h e w. hd' h e = Some w \<Longrightarrow> keeps_log w"
    and "\<And>h launch. keeps_log (k h launch)" and "\<And>e w. hd0 e = Some w \<Longrightarrow> keeps_log w"
  shows "keeps_log (attempt (mutation_authority E r x) hd0 (\<lambda>(credential, h).
     attempt (start_app E x credential h) (hd' h) (k h)))"
proof (rule keeps_with_mutation, goal_cases)
  case (1 e w)
  then show ?case by (rule assms(5))
next
  case (2 c held b)
  show ?case unfolding prod.case
    by (rule attempt_from [OF start_app_from [OF assms(2) 2 assms(1)]]) (rule assms(3), assumption, rule assms(4))
qed

lemma keeps_cleanup_and_launch:
  assumes "rc_phase r = Launching" "allowed LaunchApp" "\<And>sg. allowed (RemoveStaged sg CleanupInstalled)"
  shows "keeps_log (cleanup_and_launch E r x sg)"
  unfolding cleanup_and_launch_def Let_def
proof (rule keeps_with_cleanup, goal_cases)
  case (2 c held b)
  have ph: "rc_phase held \<in> {Launching, HealthCheck}" using 2 assms(1) by (simp add: cleanup_held_def)
  have r: "keeps_from b (remove_staged E x c held sg CleanupInstalled)"
    by (rule remove_staged_from [OF assms(3) 2]) (simp add: assms(1))
  show ?case unfolding prod.case
    by (rule attempt_from [OF r])
      (auto intro!: keeps_launch_part ph assms(2) keeps_launched dest: keeps_launch_handler
        intro: keeps_worker_recovery split: exc.splits if_splits)
qed (auto intro: keeps_worker_recovery split: exc.splits if_splits)

lemma keeps_health_loop: "keeps_log (health_loop E x n failure)"
proof (induction n arbitrary: failure)
  case (Suc n)
  have again: "keeps_log (if n = 0 then health_loop E x n why
      else sequel (pause_between E) (\<lambda>_. health_loop E x n why))" for why
    by (intro keeps_choice keeps_sequel keeps_pause Suc)
  show ?case unfolding health_loop.simps Let_def
    by (rule keeps_attempt)
      (auto intro!: keeps_intros keeps_attempt again Suc split: exc.splits if_splits)
qed (simp add: keeps_return)

lemma keeps_worker_health: "keeps_log (worker_health E x)"
  unfolding worker_health_def by (rule keeps_health_loop)

lemma keeps_settled_health: "keeps_log (settled_health E r x)"
  unfolding settled_health_def
  by (rule keeps_sequel [OF keeps_worker_health]) (auto intro: keeps_worker_recovery keeps_return split: prod.split)

lemma keeps_offer_sizing:
  assumes "rc_phase r = HealthCheck" "allowed ApplySizing"
  shows "keeps_log (offer_display_sizing E r x)"
  unfolding offer_display_sizing_def
proof (rule keeps_sequel, goal_cases)
  case (2 recommended)
  have "keeps_log (attempt (mutation_authority E r x) (\<lambda>_. None) (\<lambda>(c, h).
      sequel (panel_call E ApplySizing x c (ou_apply_sizing E)) (\<lambda>_. return_work ())))"
  proof (rule keeps_with_mutation, goal_cases)
    case (2 c held b)
    have "keeps_from b (panel_call E ApplySizing x c (ou_apply_sizing E))"
      by (rule panel_call_from) (use 2 assms in \<open>simp_all add: permitted_def mutation_held_def\<close>)
    then show ?case unfolding prod.case by (rule sequel_from) (rule keeps_return)
  qed simp
  then show ?case unfolding sequel_def [of "mutation_authority E r x"] by (simp add: keeps_return)
qed (rule keeps_ask, simp)

lemma keeps_settle_display:
  assumes ph: "rc_phase r = HealthCheck" and al: "allowed SettleDisplay" "allowed LaunchApp"
  shows "keeps_log (settle_display_and_launch E r x)"
  unfolding settle_display_and_launch_def
proof (rule keeps_with_mutation, goal_cases)
  case (2 c held b)
  have hp: "rc_phase held = HealthCheck" using 2 ph by (simp add: mutation_held_def)
  have s: "keeps_from b (settle_display E x c held)"
    unfolding settle_display_def
    by (rule change_from) (use 2 al ph in \<open>simp_all add: permitted_def mutation_held_def\<close>)
  have re: "keeps_log (relaunch_settled E h x)" if "rc_phase h = HealthCheck" for h
    unfolding relaunch_settled_def
    by (rule keeps_launch_part) (use that al in \<open>auto intro: keeps_settled_health keeps_worker_recovery
        dest: keeps_settle_handler split: if_splits\<close>)
  have size: "keeps_log (read_size E h)" for h
    unfolding read_size_def by (intro keeps_intros) simp
  have mid: "keeps_log (attempt (mutation_authority E held x) (settle_handler E held) (\<lambda>(c, h).
      attempt (read_size E h) (settle_handler E h) (\<lambda>size.
        if size \<noteq> Some (ar_apk_size (rc_artifact h))
        then worker_recovery E h VerificationRequired ''display_settlement:artifact_changed''
        else relaunch_settled E h x)))"
  proof (rule keeps_with_mutation, goal_cases)
    case (2 c h b)
    have "rc_phase h = HealthCheck" using 2 hp by (simp add: mutation_held_def)
    then show ?case unfolding prod.case
      by (intro attempt_from keeps_from_log [OF size] keeps_choice keeps_worker_recovery re) (rule keeps_settle_handler)
  qed (rule keeps_settle_handler)
  show ?case unfolding prod.case
    by (intro attempt_from [OF s] keeps_choice keeps_return keeps_worker_recovery mid) (rule keeps_settle_handler)
qed (rule keeps_settle_handler)

lemma ta_phase_move_to [simp]: "ta_phase (move_to p) = p"
  by (simp add: move_to_def)

lemma keeps_hold: "keeps_log m \<Longrightarrow> keeps_log (hold w m)"
  unfolding hold_def by (intro keeps_sequel keeps_return)

lemma keeps_frozen: "keeps_log (frozen E r)"
  by (simp add: relates_def frozen_def or_other_def L_refl split: option.split)

lemma keeps_cancel_local: "keeps_log (cancel_local E r x has_local)"
  unfolding cancel_local_def Let_def
  by (intro keeps_choice keeps_attempt)
    (auto intro!: keeps_intros keeps_worker_transition keeps_worker_recovery
      split: exc.splits if_splits)

lemma keeps_cancel_requested:
  assumes "rc_phase r = Staging \<Longrightarrow> (\<And>sg. allowed (RemoveStaged sg CleanupCancelled))"
  shows "keeps_log (cancel_requested E r has_local sg)"
  unfolding cancel_requested_def
proof (rule keeps_sequel [OF keeps_frozen])
  fix x
  have removed: "keeps_log (attempt (cleanup_authority E r x) (h r) (\<lambda>(c, h').
      attempt (remove_staged E x c h' s CleanupCancelled) (h h') (\<lambda>_. cancel_local E h' x has_local)))"
    if "rc_phase r = Staging" and h: "\<And>q e w. h q e = Some w \<Longrightarrow> keeps_log w" for s h
  proof (rule keeps_with_cleanup, goal_cases)
    case (2 c held b)
    have "keeps_from b (remove_staged E x c held s CleanupCancelled)"
      by (rule remove_staged_from [OF assms [OF that(1)] 2]) (simp add: that(1))
    then show ?case unfolding prod.case by (rule attempt_from) (rule h, assumption, rule keeps_cancel_local)
  qed (rule h)
  show "keeps_log (case sg of
       Some s \<Rightarrow> (if rc_phase r = Staging then
         (let handler = (\<lambda>r e. case e of
                AdbError c \<Rightarrow> Some (worker_recovery E r (cleanup_result c) (result_subcode e))
              | _ \<Rightarrow> if transport_exc e
                    then Some (worker_recovery E r VerificationRequired (result_subcode e)) else None)
          in attempt (cleanup_authority E r x) (handler r) (\<lambda>(credential, r).
             attempt (remove_staged E x credential r s CleanupCancelled) (handler r) (\<lambda>_.
             cancel_local E r x has_local)))
         else cancel_local E r x has_local)
     | None \<Rightarrow> cancel_local E r x has_local)"
    unfolding Let_def
    by (auto intro!: keeps_cancel_local removed intro: keeps_worker_recovery
        split: option.split exc.splits if_splits)
qed

lemma keeps_custody_failure: "keeps_log (custody_failure E w eid c)"
  unfolding custody_failure_def
  by (intro keeps_choice keeps_sequel keeps_clear_stale keeps_return keeps_hold keeps_cleanup_then_fail)

lemmas keeps_ends = keeps_hold keeps_worker_fail keeps_worker_recovery keeps_worker_transition
  keeps_cleanup_then_fail keeps_custody_failure keeps_intros

lemma keeps_run_authorizing: "keeps_log (run_authorizing E w)"
  unfolding run_authorizing_def Let_def
  by (rule keeps_attempt) (auto intro!: keeps_ends split: if_splits)

lemma keeps_run_preflight: "keeps_log (run_preflight E x w)"
  unfolding run_preflight_def Let_def observe_panel_def
  by (rule keeps_attempt)
    (auto intro!: keeps_ends keeps_panel_preflight keeps_installed_bytes
      split: exc.splits if_splits option.splits)

lemma keeps_run_downloading: "keeps_log (run_downloading E x w)"
  unfolding run_downloading_def Let_def
  by (intro keeps_attempt keeps_sequel)
    (auto intro!: keeps_ends split: exc.splits)

lemma keeps_run_artifact_ready: "keeps_log (run_artifact_ready E x w)"
  unfolding run_artifact_ready_def Let_def
  by (rule keeps_attempt)
    (auto intro!: keeps_ends keeps_ensure_local split: exc.splits option.split)

lemma keeps_run_revalidating: "keeps_log (run_revalidating E x w)"
  unfolding run_revalidating_def Let_def revalidate_panel_def
  by (intro keeps_attempt keeps_sequel)
    (auto intro!: keeps_ends keeps_ensure_local keeps_panel_preflight
      split: exc.splits option.split if_splits)

lemma keeps_stage_handler: "stage_handler E eid w e = Some m \<Longrightarrow> keeps_log m"
  by (auto simp: stage_handler_def Let_def intro: keeps_ends split: exc.splits if_splits)

lemma keeps_run_staging:
  assumes "rc_phase (wk_receipt w) = Staging" "\<And>p. allowed (StageApk p)"
  shows "keeps_log (run_staging E x w)"
proof (cases "wk_local w")
  case None
  then show ?thesis by (simp add: run_staging_def Let_def keeps_hold keeps_worker_recovery)
next
  case (Some local)
  show ?thesis unfolding run_staging_def Let_def Some option.case
  proof (rule keeps_with_mutation, goal_cases)
    case (2 c held b)
    have s: "keeps_from b (stage_apk E x c held local)"
      unfolding stage_apk_def
      by (rule change_from) (use 2 assms in \<open>simp_all add: permitted_def mutation_held_def\<close>)
    show ?case unfolding prod.case
      by (rule attempt_from [OF s])
        (auto intro!: keeps_attempt keeps_hold keeps_worker_transition keeps_require
          dest: keeps_stage_handler)
  qed (rule keeps_stage_handler)
qed

lemma keeps_run_installed: "keeps_log (run_installed E x w)"
  unfolding run_installed_def Let_def
  by (intro keeps_hold keeps_attempt) (auto intro!: keeps_ends split: if_splits)

lemma keeps_run_launching:
  assumes "rc_phase (wk_receipt w) = Launching" "allowed LaunchApp" "\<And>sg. allowed (RemoveStaged sg CleanupInstalled)"
  shows "keeps_log (run_launching E x w)"
  using assms
  by (auto simp: run_launching_def intro!: keeps_hold keeps_worker_recovery keeps_cleanup_and_launch split: option.split)

lemma keeps_install_handler:
  assumes "rc_phase r = Installing" "\<And>sg. allowed (RemoveStaged sg CleanupRefused)" "install_handler E x sg r e = Some w"
  shows "keeps_log w"
  using assms by (auto simp: install_handler_def intro: keeps_worker_recovery keeps_install_refused
      split: exc.splits if_splits)

lemma install_apk_from:
  assumes "mutation_held E Installing c held b" "allowed InstallApk"
  shows "keeps_from b (install_apk E x c held)"
proof -
  have call: "L (bn_log b) (bn_log (snd (panel_call E InstallApk x c (ou_installed E) b1)))"
    if "bn_log b1 = InstallOpened # bn_log b" for b1
  proof -
    have "keeps_from b1 (panel_call E InstallApk x c (ou_installed E))"
      by (rule panel_call_from) (use assms that in \<open>simp_all add: permitted_def mutation_held_def\<close>)
    then show ?thesis using that L_quiet [of InstallOpened "bn_log b"]
      by (simp add: relates_from_def) (rule L_trans)
  qed
  show ?thesis
    using call [of "b\<lparr>bn_time := bn_time b + 1, bn_log := InstallOpened # bn_log b\<rparr>"]
    by (auto simp: relates_from_def install_apk_def sequel_def attempt_def expected_root_mode_def ask_def Let_def
        require_build_admission_def require_def L_refl L_quiet split: option.split sum.split)
qed

lemma keeps_install_staged:
  assumes ph: "rc_phase r = Installing" and al: "allowed InstallApk" "\<And>sg. allowed (RemoveStaged sg CleanupRefused)"
  shows "keeps_log (install_staged E x r sg)"
  unfolding install_staged_def
proof (rule keeps_with_mutation, goal_cases)
  case (1 e m)
  then show ?case by (rule keeps_install_handler [OF ph al(2)])
next
  case (2 c held b)
  then have m: "mutation_held E Installing c held b" and hp: "rc_phase held = Installing"
    using ph by (simp_all add: mutation_held_def)
  show ?case unfolding prod.case
    by (rule attempt_from [OF install_apk_from [OF m al(1)]])
      (auto intro!: keeps_install_refused hp al keeps_worker_transition keeps_worker_recovery
        dest: keeps_install_handler [OF hp al(2)] split: install_outcome.split)
qed

lemma keeps_run_installing:
  assumes "rc_phase (wk_receipt w) = Installing" "allowed InstallApk" "\<And>sg. allowed (RemoveStaged sg CleanupRefused)"
  shows "keeps_log (run_installing E x w)"
  unfolding run_installing_def
  by (auto intro!: keeps_hold keeps_worker_recovery keeps_install_staged assms split: option.split)

lemma keeps_finish_health:
  assumes "rc_phase r = HealthCheck" "allowed SettleDisplay" "allowed LaunchApp"
  shows "keeps_log (finish_health E x r)"
proof -
  have done': "keeps_log (\<lambda>b. worker_transition E q ((move_to HealthyUnclaimed)\<lparr>
       ta_health_checked_at := Some (ou_clock E (bn_time b)),
       ta_home_claim_deferred := Some (rc_home_claim_deferred q)\<rparr>) b)" for q
    unfolding relates_def by (intro allI keeps_at keeps_worker_transition) simp
  show ?thesis unfolding finish_health_def
    by (intro keeps_sequel keeps_settle_display assms keeps_choice keeps_return done')
qed

lemma keeps_run_health_check:
  assumes "rc_phase (wk_receipt w) = HealthCheck" "allowed SettleDisplay" "allowed LaunchApp" "allowed ApplySizing"
  shows "keeps_log (run_health_check E x w)"
  unfolding run_health_check_def Let_def
  by (intro keeps_hold keeps_sequel keeps_worker_health)
    (auto intro!: keeps_worker_recovery keeps_sequel keeps_ask keeps_finish_health keeps_attempt keeps_offer_sizing
      assms dest: keeps_settle_handler split: prod.split)

lemma keeps_run_phase:
  assumes "\<And>c. changes_in (rc_phase (wk_receipt w)) c \<Longrightarrow> allowed c"
  shows "keeps_log (run_phase E w)"
proof (cases "rc_cancel_requested (wk_receipt w)")
  case True
  have "keeps_log (cancel_requested E (wk_receipt w) (wk_local w \<noteq> None) (wk_staged w))"
    by (rule keeps_cancel_requested) (simp add: assms)
  with True show ?thesis by (simp add: run_phase_def Let_def keeps_hold)
next
  case False
  note a = assms
  show ?thesis using False unfolding run_phase_def Let_def
    by (cases "rc_phase (wk_receipt w)")
      (simp_all add: keeps_sequel keeps_frozen keeps_raise keeps_hold keeps_worker_transition a
        keeps_run_authorizing keeps_run_preflight keeps_run_downloading keeps_run_artifact_ready
        keeps_run_revalidating keeps_run_staging keeps_run_installing keeps_run_installed
        keeps_run_launching keeps_run_health_check)
qed

lemma keeps_run_loop:
  assumes "\<And>c. allowed c"
  shows "keeps_log (run_loop E n w)"
proof (induction n arbitrary: w)
  case (Suc n)
  then show ?case by (auto intro!: keeps_return keeps_sequel keeps_run_phase assms)
qed (simp add: keeps_return)

lemma keeps_take_up: "keeps_log (take_up E job_id)"
  unfolding take_up_def
  by (intro keeps_sequel keeps_job_get keeps_attempt keeps_worker_claim keeps_return)
    (auto intro!: keeps_sequel keeps_job_get keeps_worker_claim split: if_splits)

lemma keeps_run_body: "(\<And>c. allowed c) \<Longrightarrow> keeps_log (run_body E fuel job_id)"
  unfolding run_body_def by (intro keeps_sequel keeps_take_up keeps_run_loop)

lemma run_log: "(\<And>c. allowed c) \<Longrightarrow> L (bn_log b) (bn_log (snd (async_run E fuel job_id b)))"
  using keeps_at [OF keeps_run_body, of b fuel job_id] by (auto simp: async_run_def split: prod.split)

end

section \<open>Every change is permitted\<close>

text \<open>The first relation: a log whose changes are permitted stays one.\<close>

definition stays_authorised :: "outside \<Rightarrow> event list \<Rightarrow> event list \<Rightarrow> bool" where
  "stays_authorised E l l' \<longleftrightarrow> (authorised E l \<longrightarrow> authorised E l')"

interpretation authority_kept: log_relation E "stays_authorised E" "\<lambda>_. True" for E
proof
  show "stays_authorised E l (ev # l)" if "quiet ev" for l ev
    using that by (cases ev) (simp_all add: stays_authorised_def)
qed (simp_all add: stays_authorised_def)

end
