(* ===== verification/Executor_Progress.thy ===== *)
theory Executor_Progress
  imports Executor_Runs
begin

text \<open>
  What a worker's methods return: every phase moves its receipt on, takes up a requested
  cancellation, or has removed one stale partial file; a cancelled receipt ends or another
  writer got in between.  From this come the bound of the loop and how often a worker copies
  and installs.
\<close>

section \<open>Counting events\<close>

definition made :: "(panel_change \<Rightarrow> bool) \<Rightarrow> event list \<Rightarrow> nat" where
  "made Q l = length (filter (\<lambda>ev. case ev of Changed c _ _ \<Rightarrow> Q c | _ \<Rightarrow> False) l)"

lemma made_simps [simp]:
  "made Q [] = 0" "made Q (Changed c t g # l) = (if Q c then Suc (made Q l) else made Q l)"
  by (simp_all add: made_def)

lemma made_quiet: "quiet ev \<Longrightarrow> made Q (ev # l) = made Q l"
  by (cases ev) (simp_all add: made_def)

lemma made_other [simp]: "made Q (Moved r # l) = made Q l" "made Q (JobRead r # l) = made Q l"
  "made Q (LocalCleaned eid # l) = made Q l"
  by (simp_all add: made_def)

interpretation change_count: log_relation E "\<lambda>l l'. made Q l' = made Q l" "\<lambda>c. \<not> Q c" for E Q
  by unfold_locales (simp_all add: made_quiet)

definition refusals :: "event list \<Rightarrow> nat" where
  "refusals l = length (filter (\<lambda>ev. ev = Refused RevisionError) l)"

lemma refusals_simps [simp]: "refusals [] = 0"
  "refusals (ev # l) = (if ev = Refused RevisionError then Suc (refusals l) else refusals l)"
  by (simp_all add: refusals_def)

interpretation refusal_count: log_relation E "\<lambda>l l'. refusals l \<le> refusals l'" "\<lambda>_. True" for E
  by unfold_locales auto

section \<open>What a method returns\<close>

definition yields :: "('a \<Rightarrow> bool) \<Rightarrow> 'a work \<Rightarrow> bool" where
  "yields Q m \<longleftrightarrow> (\<forall>b x b'. m b = (Inr x, b') \<longrightarrow> Q x)"

lemma yieldsD: "yields Q m \<Longrightarrow> m b = (Inr x, b') \<Longrightarrow> Q x"
  by (auto simp: yields_def)

lemma yields_mono: "yields Q m \<Longrightarrow> (\<And>x. Q x \<Longrightarrow> R x) \<Longrightarrow> yields R m"
  by (auto simp: yields_def)

lemma yields_return: "Q x \<Longrightarrow> yields Q (return_work x)" and yields_raise: "yields Q (raise_work e)"
  by (simp_all add: yields_def)

lemma yields_attempt_if:
  assumes "yields R m" "\<And>e w. h e = Some w \<Longrightarrow> yields Q w" "\<And>x. R x \<Longrightarrow> yields Q (k x)"
  shows "yields Q (attempt m h k)"
  using assms unfolding yields_def attempt_Inr by blast

lemma yields_any: "yields (\<lambda>_. True) m"
  by (simp add: yields_def)

lemmas yields_attempt = yields_attempt_if [OF yields_any]

lemma yields_sequel: "(\<And>x. yields Q (k x)) \<Longrightarrow> yields Q (sequel m k)"
  unfolding sequel_def by (rule yields_attempt) simp_all

lemma yields_if: "(c \<Longrightarrow> yields Q m) \<Longrightarrow> (\<not> c \<Longrightarrow> yields Q m') \<Longrightarrow> yields Q (if c then m else m')"
  by simp

lemma yields_moved: "(\<And>r. rc_phase r = ta_phase a \<Longrightarrow> Q r) \<Longrightarrow> yields Q (job_transition E j v a)"
  by (auto simp: yields_def dest: job_transition_Inr)

lemma yields_worker_fail: "yields is_terminal (worker_fail E r result subcode)"
  unfolding worker_fail_def
  by (intro yields_sequel yields_if yields_return yields_moved) (simp_all add: is_terminal_def terminal_phases_def)

lemma yields_pause: "pause_on_custody n e = Some w \<Longrightarrow> yields Q w"
  by (auto simp: pause_on_custody_def yields_raise split: exc.splits)

lemma yields_worker_recovery: "yields is_terminal (worker_recovery E r result subcode)"
  unfolding worker_recovery_def
  by (intro yields_sequel yields_if yields_return yields_moved yields_attempt)
    (auto simp: is_terminal_def terminal_phases_def dest: yields_pause)

lemma yields_cleanup_then_fail: "yields is_terminal (cleanup_local_then_fail E r eid result subcode)"
  unfolding cleanup_local_then_fail_def
  by (intro yields_attempt yields_worker_fail)
    (auto simp: yields_raise yields_worker_recovery split: exc.splits if_splits)

text \<open>A transition moves to its phase, or another writer was first and asked for cancellation.\<close>

lemma worker_transition_Inr:
  assumes "worker_transition E r a b = (Inr r', b')"
  shows "rc_phase r' = ta_phase a
    \<or> (rc_cancel_requested r' \<and> rc_phase r' = rc_phase r \<and> refusals (bn_log b) < refusals (bn_log b'))"
  using assms unfolding worker_transition_def attempt_Inr
proof (elim disjE exE conjE, goal_cases)
  case (1 x b1)
  then show ?case by (auto dest: job_transition_Inr)
next
  case (2 e b1 w)
  then have w: "e = JobError RevisionError"
      "sequel (job_get E (rc_job_id r)) (\<lambda>current. if cancel_seen current r then return_work current
         else raise_work e) b1 = (Inr r', b')"
    by (auto split: if_splits)
  obtain e' where e': "job_exc e' = e" "bn_log b1 = Refused e' # bn_log b"
    using 2(1) by (auto simp: job_transition_def manager_call_def Let_def split: prod.splits sum.splits)
  then have "refusals (bn_log b) < refusals (bn_log b1)"
    using w(1) by (auto simp: job_exc_def split: job_error.splits)
  moreover have "refusals (bn_log b1) \<le> refusals (bn_log b')"
    using w(2) by (auto simp: work_Inr job_get_def manager_call_Inr split: if_splits)
  moreover have "rc_cancel_requested r' \<and> rc_phase r' = rc_phase r"
    using w(2) by (auto simp: work_Inr cancel_seen_def split: if_splits)
  ultimately show ?case by simp
qed

text \<open>Terminal, in phase \<open>p\<close>, or cancelled.\<close>

definition reaches :: "install_phase \<Rightarrow> receipt \<Rightarrow> bool" where
  "reaches p r \<longleftrightarrow> is_terminal r \<or> rc_phase r = p \<or> rc_cancel_requested r"

lemma yields_worker_transition: "ta_phase a = p \<Longrightarrow> yields (reaches p) (worker_transition E r a)"
  by (auto simp: yields_def reaches_def dest: worker_transition_Inr)

lemma yields_terminal:
  "yields (reaches p) (worker_fail E r result subcode)"
  "yields (reaches p) (worker_recovery E r result subcode)"
  "yields (reaches p) (cleanup_local_then_fail E r eid result subcode)"
  by (rule yields_mono [OF yields_worker_fail] yields_mono [OF yields_worker_recovery]
      yields_mono [OF yields_cleanup_then_fail]; simp add: reaches_def)+

lemma yields_install_refused: "yields (reaches p) (install_refused E r x sg)"
  unfolding install_refused_def Let_def
  by (intro yields_attempt) (auto intro!: yields_attempt yields_terminal split: exc.splits if_splits)

lemma yields_launch_handler: "launch_handler E r e = Some w \<Longrightarrow> yields (reaches p) w"
  by (auto simp: launch_handler_def yields_terminal split: exc.splits if_splits)

lemma yields_launched: "yields (reaches HealthCheck) (launched E r launch)"
  by (auto simp: launched_def intro!: yields_terminal yields_worker_transition split: launch_outcome.split)

lemma yields_cleanup_and_launch: "yields (reaches HealthCheck) (cleanup_and_launch E r x sg)"
  unfolding cleanup_and_launch_def Let_def
  by (intro yields_attempt) (auto intro!: yields_attempt yields_terminal yields_launched
      dest: yields_launch_handler split: exc.splits if_splits)

section \<open>Observed cancellations\<close>

text \<open>A method raises \<open>CancellationObserved\<close> only with a cancelled receipt.\<close>

definition observes :: "'a work \<Rightarrow> bool" where
  "observes m \<longleftrightarrow> (\<forall>b c b'. m b = (Inl (CancellationObserved c), b') \<longrightarrow> rc_cancel_requested c)"

lemma observes_basic [simp]:
  "observes (return_work x)" "observes (require c TaskCancelled)" "observes (or_other y)"
  "observes (require c (AdbError a))" "observes (require c (NetworkError n))" "observes (require c (JobError j))"
  "observes (require c CredentialError)" "observes (require c (CustodyError k))"
  by (auto simp: observes_def require_def or_other_def split: option.splits)

lemma observes_sequel: "observes m \<Longrightarrow> (\<And>x. observes (k x)) \<Longrightarrow> observes (sequel m k)"
  by (auto simp: observes_def sequel_def attempt_def split: prod.splits sum.splits)

lemma observes_if: "observes m \<Longrightarrow> observes m' \<Longrightarrow> observes (if c then m else m')"
  by simp

lemma observes_ask: "(\<And>t c. f t \<noteq> Inl (CancellationObserved c)) \<Longrightarrow> observes (ask E ev f)"
  by (auto simp: observes_def ask_def Let_def split: if_splits)

lemma job_exc_observed [simp]: "job_exc e \<noteq> CancellationObserved c" "CancellationObserved c \<noteq> job_exc e"
  by (auto simp: job_exc_def split: job_error.splits)

lemma observes_manager: "observes (manager_call E ev f)"
  by (auto simp: observes_def manager_call_def Let_def split: prod.splits sum.splits)

lemma observes_panel_call: "observes (panel_call E c x credential f)"
  unfolding panel_call_def by (rule observes_ask) (simp add: outcome_def split: reply.split)

lemma observes_root_mode: "observes (expected_root_mode r)"
  by (auto simp: observes_def expected_root_mode_def split: option.splits)

lemma observes_credential: "observes (current_credential E r)"
  unfolding current_credential_def
  by (intro observes_sequel observes_ask observes_basic) (simp add: outcome_def split: reply.split)

lemma map_sum_Inl: "map_sum f g s = Inl y \<longleftrightarrow> (\<exists>e. s = Inl e \<and> y = f e)"
  by (cases s) auto

lemma observes_pin: "observes (require_pin E pinned)"
  unfolding require_pin_def
  by (intro observes_sequel observes_ask observes_basic) (auto simp: map_sum_Inl network_exc_def split: if_splits)

lemma observes_seen: "observes (require c (if cancel_seen q r then CancellationObserved q else JobError RevisionError))"
  by (auto simp: observes_def require_def cancel_seen_def split: if_splits)

lemma observes_mutation_authority: "observes (mutation_authority E r x)"
  unfolding mutation_authority_def job_get_def job_mutation_barrier_def require_build_admission_def
  by (intro observes_sequel observes_pin observes_manager observes_seen observes_credential observes_if observes_basic)

lemma observes_stage: "observes (stage_apk E x credential r local)" and observes_start: "observes (start_app E x credential r)"
  and observes_settle: "observes (settle_display E x credential r)"
  by (simp_all add: stage_apk_def start_app_def settle_display_def observes_sequel observes_root_mode observes_panel_call)

lemma observes_read_size: "observes (read_size E r)"
  unfolding read_size_def
  by (intro observes_sequel observes_root_mode observes_ask) (simp add: outcome_def split: reply.split)

lemma observes_offer: "observes (offer_display_sizing E r x)"
  unfolding offer_display_sizing_def
  by (intro observes_sequel observes_ask observes_if)
    (auto intro!: observes_sequel observes_mutation_authority observes_panel_call
      simp: outcome_def split: reply.split prod.split)

lemma yields_observed:
  assumes "observes m" "\<And>e w. h e = Some w \<Longrightarrow> (\<And>c. e = CancellationObserved c \<Longrightarrow> rc_cancel_requested c) \<Longrightarrow> yields Q w"
    and "\<And>x b b'. m b = (Inr x, b') \<Longrightarrow> yields Q (k x)"
  shows "yields Q (attempt m h k)"
  using assms unfolding yields_def attempt_Inr observes_def by metis

lemma yields_settle_handler:
  "settle_handler E r e = Some w \<Longrightarrow> (\<And>c. e = CancellationObserved c \<Longrightarrow> rc_cancel_requested c)
     \<Longrightarrow> yields (reaches p) w"
  by (auto simp: settle_handler_def yields_terminal reaches_def intro!: yields_return split: exc.splits if_splits)

lemma yields_settled_health: "rc_phase r = HealthCheck \<Longrightarrow> yields (reaches HealthCheck) (settled_health E r x)"
  unfolding settled_health_def
  by (rule yields_sequel) (auto simp: reaches_def intro!: yields_terminal yields_return split: prod.split)

lemma yields_relaunch:
  assumes "rc_phase r = HealthCheck"
  shows "yields (reaches HealthCheck) (relaunch_settled E r x)"
  unfolding relaunch_settled_def
proof (rule yields_observed [OF observes_mutation_authority])
  fix y b b' assume m: "mutation_authority E r x b = (Inr y, b')"
  obtain c h where y: "y = (c, h)" by fastforce
  have h: "rc_phase h = HealthCheck" using mutation_authority_Inr(3) m y assms by simp
  show "yields (reaches HealthCheck) (case y of (credential, r) \<Rightarrow>
      attempt (start_app E x credential r) (settle_handler E r) (\<lambda>launch.
      if la_outcome launch \<noteq> AppStarted
      then worker_recovery E r VerificationRequired ''display_settlement:launch_refused''
      else settled_health E (r\<lparr>rc_home_claim_deferred := la_home_chooser launch = Some ''deferred''\<rparr>) x))"
    unfolding y prod.case
    by (rule yields_observed [OF observes_start])
      (auto intro!: yields_terminal yields_settled_health simp: h intro: yields_settle_handler)
qed (rule yields_settle_handler)

lemma yields_settle_display:
  assumes "rc_phase r = HealthCheck"
  shows "yields (reaches HealthCheck) (settle_display_and_launch E r x)"
  unfolding settle_display_and_launch_def
proof (rule yields_observed [OF observes_mutation_authority], rule yields_settle_handler, assumption, assumption, goal_cases)
  case (1 y b b')
  obtain c h where y: "y = (c, h)" by fastforce
  have h: "rc_phase h = HealthCheck" using mutation_authority_Inr(3) 1 y assms by simp
  have mid: "yields (reaches HealthCheck) (attempt (mutation_authority E h x) (settle_handler E h) (\<lambda>(c, q).
      attempt (read_size E q) (settle_handler E q) (\<lambda>size.
        if size \<noteq> Some (ar_apk_size (rc_artifact q))
        then worker_recovery E q VerificationRequired ''display_settlement:artifact_changed''
        else relaunch_settled E q x)))"
  proof (rule yields_observed [OF observes_mutation_authority], rule yields_settle_handler, assumption, assumption, goal_cases)
    case (1 z b b')
    obtain c q where z: "z = (c, q)" by fastforce
    have q: "rc_phase q = HealthCheck" using mutation_authority_Inr(3) 1 z h by simp
    show ?case unfolding z prod.case
      by (rule yields_observed [OF observes_read_size])
        (auto intro!: yields_terminal yields_relaunch q intro: yields_settle_handler)
  qed
  show ?case unfolding y prod.case
    by (rule yields_observed [OF observes_settle])
      (auto intro!: yields_terminal mid yields_return simp: h reaches_def intro: yields_settle_handler)
qed

section \<open>Progress\<close>

text \<open>One iteration of an uncancelled worker: a later phase, a cancellation taken up, or the one
  stale partial file removed.\<close>

definition progresses :: "worker \<Rightarrow> worker \<Rightarrow> bool" where
  "progresses w w' \<longleftrightarrow>
     (phase_rank (rc_phase (wk_receipt w)) < phase_rank (rc_phase (wk_receipt w'))
        \<and> (wk_stale_removed w \<longrightarrow> wk_stale_removed w'))
     \<or> rc_cancel_requested (wk_receipt w')
     \<or> (wk_receipt w' = wk_receipt w \<and> \<not> wk_stale_removed w \<and> wk_stale_removed w'
        \<and> rc_phase (wk_receipt w) \<in> {Downloading, ArtifactReady, Revalidating})"

lemma terminal_rank: "is_terminal r \<Longrightarrow> 12 \<le> phase_rank (rc_phase r)"
  by (auto simp: is_terminal_def terminal_phases_def)

lemma unfinished_rank: "\<not> worker_finished w \<Longrightarrow> phase_rank (rc_phase (wk_receipt w)) \<le> 10"
  by (cases "rc_phase (wk_receipt w)") (auto simp: worker_finished_def is_terminal_def terminal_phases_def)

text \<open>\<open>v\<close> is the worker's state with variables set on the way: same receipt phase, same flag.\<close>

definition same_stage :: "worker \<Rightarrow> worker \<Rightarrow> bool" where
  "same_stage w v \<longleftrightarrow> rc_phase (wk_receipt v) = rc_phase (wk_receipt w) \<and> wk_stale_removed v = wk_stale_removed w"

lemma same_stage_simps [simp]: "same_stage w w" "same_stage w (w\<lparr>wk_local := x\<rparr>)" "same_stage w (w\<lparr>wk_staged := y\<rparr>)"
  "same_stage w (w\<lparr>wk_receipt := r, wk_staged := y\<rparr>) = (rc_phase r = rc_phase (wk_receipt w))"
  "same_stage w (w\<lparr>wk_receipt := r\<rparr>) = (rc_phase r = rc_phase (wk_receipt w))"
  by (simp_all add: same_stage_def)

lemma yields_hold:
  assumes "\<not> worker_finished w" "same_stage w v" "yields (reaches p) m"
    and "phase_rank (rc_phase (wk_receipt w)) < phase_rank p"
  shows "yields (progresses w) (hold v m)"
  unfolding yields_def hold_def work_Inr
proof (intro allI impI, elim exE conjE)
  fix b w' b' r b1 assume m: "m b = (Inr r, b1)" and w': "return_work (v\<lparr>wk_receipt := r\<rparr>) b1 = (Inr w', b')"
  have "reaches p r" by (rule yieldsD [OF assms(3) m])
  then have "rc_cancel_requested r \<or> phase_rank (rc_phase (wk_receipt w)) < phase_rank (rc_phase r)"
    using terminal_rank [of r] unfinished_rank [OF assms(1)] assms(4) by (auto simp: reaches_def)
  then show "progresses w w'" using w' assms(2) by (auto simp: progresses_def same_stage_def)
qed

lemma yields_ends:
  assumes "\<not> worker_finished w" "same_stage w v"
  shows "yields (progresses w) (hold v (worker_fail E r result subcode))"
    "yields (progresses w) (hold v (worker_recovery E r result subcode))"
    "yields (progresses w) (hold v (cleanup_local_then_fail E r eid result subcode))"
  using unfinished_rank [OF assms(1)] by (auto intro!: yields_hold [OF assms yields_terminal(1) [where p = Failed]]
      yields_hold [OF assms yields_terminal(2) [where p = Failed]] yields_hold [OF assms yields_terminal(3) [where p = Failed]])

lemma yields_custody_failure:
  assumes "\<not> worker_finished w" "same_stage w v" "wk_receipt v = wk_receipt w"
    and "rc_phase (wk_receipt w) \<in> {Downloading, ArtifactReady, Revalidating}"
  shows "yields (progresses w) (custody_failure E v eid c)"
proof -
  have "progresses w w'"
    if "attempt (cleanup_local E eid) (pause_on_custody False) (\<lambda>_. return_work True) b = (Inr removed, b1)"
      "\<not> wk_stale_removed v" "w' = v\<lparr>wk_stale_removed := removed\<rparr>" for b removed b1 w'
  proof -
    have "yields (\<lambda>x. x) (attempt (cleanup_local E eid) (pause_on_custody False) (\<lambda>_. return_work True))"
      by (rule yields_attempt) (rule yields_pause, assumption, rule yields_return, rule TrueI)
    then have removed using that(1) by (rule yieldsD)
    with that assms show ?thesis by (simp add: progresses_def same_stage_def)
  qed
  then show ?thesis
    unfolding custody_failure_def
    by (intro yields_if yields_ends(3) assms(1,2))
      (auto simp: yields_def work_Inr clear_stale_partial_def split: if_splits)
qed

lemmas yields_steps = yields_ends yields_custody_failure yields_hold [OF _ _ yields_worker_transition]

lemma progress_authorizing:
  "\<not> worker_finished w \<Longrightarrow> rc_phase (wk_receipt w) = Authorizing \<Longrightarrow> yields (progresses w) (run_authorizing E w)"
  unfolding run_authorizing_def Let_def
  by (rule yields_attempt) (auto intro!: yields_steps split: if_splits)

lemma progress_preflight:
  "\<not> worker_finished w \<Longrightarrow> rc_phase (wk_receipt w) = Preflight \<Longrightarrow> yields (progresses w) (run_preflight E x w)"
  unfolding run_preflight_def Let_def
  by (rule yields_attempt) (auto intro!: yields_steps split: exc.splits option.split if_splits)

lemma progress_downloading:
  "\<not> worker_finished w \<Longrightarrow> rc_phase (wk_receipt w) = Downloading \<Longrightarrow> yields (progresses w) (run_downloading E x w)"
  unfolding run_downloading_def Let_def
  by (intro yields_attempt) (auto intro!: yields_steps split: exc.splits)

lemma progress_artifact_ready:
  "\<not> worker_finished w \<Longrightarrow> rc_phase (wk_receipt w) = ArtifactReady \<Longrightarrow> yields (progresses w) (run_artifact_ready E x w)"
  unfolding run_artifact_ready_def Let_def
  by (rule yields_attempt) (auto intro!: yields_steps split: exc.splits)

lemma progress_revalidating:
  "\<not> worker_finished w \<Longrightarrow> rc_phase (wk_receipt w) = Revalidating \<Longrightarrow> yields (progresses w) (run_revalidating E x w)"
  unfolding run_revalidating_def Let_def
  by (intro yields_attempt) (auto intro!: yields_steps split: exc.splits if_splits)

lemma yields_stage_handler:
  assumes "stage_handler E eid v e = Some m" "\<And>c. e = CancellationObserved c \<Longrightarrow> rc_cancel_requested c"
    and "\<not> worker_finished w" "same_stage w v"
  shows "yields (progresses w) m"
  using assms(1,2)
  by (auto simp: stage_handler_def Let_def progresses_def intro!: yields_ends assms(3,4) yields_return
      split: exc.splits if_splits)

lemma progress_staging:
  assumes "\<not> worker_finished w" "rc_phase (wk_receipt w) = Staging"
  shows "yields (progresses w) (run_staging E x w)"
proof (cases "wk_local w")
  case None
  then show ?thesis using assms by (simp add: run_staging_def Let_def yields_ends)
next
  case (Some local)
  show ?thesis unfolding run_staging_def Let_def Some option.case
  proof (rule yields_observed [OF observes_mutation_authority], goal_cases)
    case (1 e m)
    then show ?case by (rule yields_stage_handler) (simp_all add: assms)
  next
    case (2 y b b')
    obtain c h where y: "y = (c, h)" by fastforce
    have h: "rc_phase h = Staging" using mutation_authority_Inr(3) 2 y assms by simp
    have st: "same_stage w (w\<lparr>wk_receipt := h\<rparr>)" "same_stage w (w\<lparr>wk_receipt := h, wk_staged := Some sg\<rparr>)" for sg
      by (simp_all add: h assms)
    have checked: "yields (progresses w) (attempt
        (require (sg = staged_of (ou_platform E) (rc_artifact h)) (AdbError StageVerificationFailed))
        (stage_handler E (fx_execution_id x) (w\<lparr>wk_receipt := h, wk_staged := Some sg\<rparr>))
        (\<lambda>_. hold (w\<lparr>wk_receipt := h, wk_staged := Some sg\<rparr>) (worker_transition E h (move_to Installing))))" for sg
      by (rule yields_observed [OF observes_basic(4)], rule yields_stage_handler [OF _ _ assms(1) st(2)], assumption, assumption)
        (rule yields_hold [OF assms(1) st(2) yields_worker_transition [where p = Installing]], simp_all add: assms)
    show ?case unfolding y prod.case
      by (rule yields_observed [OF observes_stage], rule yields_stage_handler [OF _ _ assms(1) st(1)], assumption, assumption)
        (rule checked)
  qed
qed

lemma yields_install_handler: "install_handler E x sg r e = Some m \<Longrightarrow> yields (reaches p) m"
  by (auto simp: install_handler_def yields_terminal yields_install_refused split: exc.splits if_splits)

lemma progress_installing:
  assumes "\<not> worker_finished w" "rc_phase (wk_receipt w) = Installing"
  shows "yields (progresses w) (run_installing E x w)"
  unfolding run_installing_def install_staged_def
  by (rule yields_hold [OF assms(1), where p = Installed])
    (auto intro!: yields_terminal yields_attempt yields_install_refused yields_worker_transition
      dest: yields_install_handler simp: assms split: option.split install_outcome.split)

lemma progress_installed:
  assumes "\<not> worker_finished w" "rc_phase (wk_receipt w) = Installed"
  shows "yields (progresses w) (run_installed E x w)"
  unfolding run_installed_def Let_def
  by (rule yields_hold [OF assms(1), where p = Launching])
    (auto intro!: yields_attempt yields_terminal yields_worker_transition simp: assms split: if_splits)

lemma progress_launching:
  assumes "\<not> worker_finished w" "rc_phase (wk_receipt w) = Launching"
  shows "yields (progresses w) (run_launching E x w)"
  unfolding run_launching_def
  by (rule yields_hold [OF assms(1), where p = HealthCheck])
    (auto intro!: yields_terminal yields_cleanup_and_launch simp: assms split: option.split)

lemma yields_finish_health:
  assumes "rc_phase r = HealthCheck"
  shows "yields (reaches HealthyUnclaimed) (finish_health E x r)"
  unfolding finish_health_def sequel_def
proof (rule yields_attempt_if [OF yields_settle_display [OF assms]])
  fix q assume q: "reaches HealthCheck q"
  show "yields (reaches HealthyUnclaimed) (if rc_phase q \<noteq> HealthCheck \<or> rc_cancel_requested q then return_work q
     else (\<lambda>b. worker_transition E q ((move_to HealthyUnclaimed)\<lparr>
       ta_health_checked_at := Some (ou_clock E (bn_time b)),
       ta_home_claim_deferred := Some (rc_home_claim_deferred q)\<rparr>) b))"
    using q by (auto simp: reaches_def yields_def dest: worker_transition_Inr)
qed simp

lemma progress_health_check:
  assumes "\<not> worker_finished w" "rc_phase (wk_receipt w) = HealthCheck"
  shows "yields (progresses w) (run_health_check E x w)"
  unfolding run_health_check_def Let_def
proof (rule yields_hold [OF assms(1), where p = HealthyUnclaimed])
  have offer: "yields (reaches HealthyUnclaimed) (attempt (offer_display_sizing E (wk_receipt w) x)
      (settle_handler E (wk_receipt w)) (\<lambda>_. finish_health E x (wk_receipt w)))"
    by (rule yields_observed [OF observes_offer])
      (auto intro: yields_settle_handler yields_finish_health assms)
  show "yields (reaches HealthyUnclaimed) (sequel (worker_health E x) (\<lambda>(health, subcode).
     if health_refused health (wk_receipt w)
     then worker_recovery E (wk_receipt w) VerificationRequired (subcode_or subcode ''health:identity_mismatch'')
     else sequel (ask E WebviewProvisioned (\<lambda>_. Inr ())) (\<lambda>_.
     sequel (ask E UrlOffered (\<lambda>t. outcome (\<lambda>_. OtherError) (ou_offer_url E t))) (\<lambda>setup_state.
     if setup_state \<in> {''setup_complete'', ''setup_state_unreadable''} then finish_health E x (wk_receipt w)
     else attempt (offer_display_sizing E (wk_receipt w) x) (settle_handler E (wk_receipt w))
            (\<lambda>_. finish_health E x (wk_receipt w))))))"
    by (rule yields_sequel)
      (auto intro!: yields_sequel yields_terminal yields_finish_health offer simp: assms split: prod.split)
qed (simp_all add: assms)

lemma progress_phase:
  assumes "\<not> worker_finished w" "\<not> rc_cancel_requested (wk_receipt w)"
  shows "yields (progresses w) (run_phase E w)"
  using assms unfolding run_phase_def Let_def
  by (cases "rc_phase (wk_receipt w)")
    (simp_all add: yields_sequel yields_raise yields_steps progress_authorizing progress_preflight
      progress_downloading progress_artifact_ready progress_revalidating progress_staging progress_installing
      progress_installed progress_launching progress_health_check)

section \<open>A cancelled worker\<close>

text \<open>Its iteration ends the job, or another writer was refused to it and the receipt stays
  cancelled.\<close>

definition cancel_ends :: "receipt work \<Rightarrow> bool" where
  "cancel_ends m \<longleftrightarrow> (\<forall>b r b'. m b = (Inr r, b') \<longrightarrow> is_terminal r
     \<or> (rc_cancel_requested r \<and> refusals (bn_log b) < refusals (bn_log b')))"

lemma cancel_ends_terminal: "yields is_terminal m \<Longrightarrow> cancel_ends m"
  by (auto simp: cancel_ends_def yields_def)

lemma cancel_ends_recovery: "cancel_ends (worker_recovery E r result subcode)"
  by (rule cancel_ends_terminal [OF yields_worker_recovery])

lemma cancel_ends_raise: "cancel_ends (raise_work e)"
  by (simp add: cancel_ends_def)

lemma cancel_ends_transition: "ta_phase a = Cancelled \<Longrightarrow> cancel_ends (worker_transition E r a)"
  by (auto simp: cancel_ends_def is_terminal_def terminal_phases_def dest!: worker_transition_Inr)

lemma refusals_grow: "relates (\<lambda>l l'. refusals l \<le> refusals l') m \<Longrightarrow> m b = (res, b') \<Longrightarrow>
  refusals (bn_log b) \<le> refusals (bn_log b')"
  unfolding relates_def by (metis snd_conv)

lemma cancel_ends_attempt:
  assumes m: "relates (\<lambda>l l'. refusals l \<le> refusals l') m" and h: "\<And>e w. h e = Some w \<Longrightarrow> cancel_ends w"
    and k: "\<And>x. cancel_ends (k x)"
  shows "cancel_ends (attempt m h k)"
  unfolding cancel_ends_def attempt_Inr
proof (intro allI impI, elim disjE exE conjE)
  fix b r b' x b1 assume "m b = (Inr x, b1)" "k x b1 = (Inr r, b')"
  then show "is_terminal r \<or> rc_cancel_requested r \<and> refusals (bn_log b) < refusals (bn_log b')"
    using refusals_grow [OF m] k [of x] by (fastforce simp: cancel_ends_def)
next
  fix b r b' e b1 w assume "m b = (Inl e, b1)" "h e = Some w" "w b1 = (Inr r, b')"
  then show "is_terminal r \<or> rc_cancel_requested r \<and> refusals (bn_log b) < refusals (bn_log b')"
    using refusals_grow [OF m] h [of e w] by (fastforce simp: cancel_ends_def)
qed

lemma cancel_ends_local: "cancel_ends (cancel_local E r x has_local)"
proof -
  have fin: "cancel_ends (worker_transition E r ((move_to Cancelled)\<lparr>ta_result_code := Some c\<rparr>))" for c
    by (rule cancel_ends_transition) simp
  have cleaned: "cancel_ends (attempt (cleanup_local E (fx_execution_id x)) h (\<lambda>_. m))"
    if "\<And>e w. h e = Some w \<Longrightarrow> cancel_ends w" "cancel_ends m" for h m
    by (rule cancel_ends_attempt [OF refusal_count.keeps_cleanup_local that(1)]) (simp_all add: that(2))
  show ?thesis unfolding cancel_local_def Let_def
    by (auto intro!: cleaned fin cancel_ends_raise cancel_ends_recovery split: exc.splits if_splits)
qed

lemma cancel_ends_requested: "cancel_ends (cancel_requested E r has_local sg)"
proof -
  have removed: "cancel_ends (attempt (cleanup_authority E r x) (h r) (\<lambda>(c, q).
      attempt (remove_staged E x c q s CleanupCancelled) (h q) (\<lambda>_. cancel_local E q x has_local)))"
    if "rc_phase r = Staging" and h: "\<And>q e w. h q e = Some w \<Longrightarrow> cancel_ends w" for s h x
  proof (rule cancel_ends_attempt [OF refusal_count.keeps_cleanup_authority h], assumption)
    fix y :: "string \<times> receipt"
    obtain c q where y: "y = (c, q)" by fastforce
    have "relates (\<lambda>l l'. refusals l \<le> refusals l') (remove_staged E x c q s CleanupCancelled)"
      by (simp add: relates_def remove_staged_def sequel_def attempt_def expected_root_mode_def panel_call_def ask_log
          split: option.split)
    then show "cancel_ends (case y of (c, q) \<Rightarrow>
        attempt (remove_staged E x c q s CleanupCancelled) (h q) (\<lambda>_. cancel_local E q x has_local))"
      unfolding y prod.case by (rule cancel_ends_attempt) (rule h, assumption, rule cancel_ends_local)
  qed
  show ?thesis unfolding cancel_requested_def Let_def sequel_def [of "frozen E r"]
    by (rule cancel_ends_attempt [OF refusal_count.keeps_frozen])
      (auto intro!: cancel_ends_local removed cancel_ends_recovery
        split: option.split exc.splits if_splits)
qed

section \<open>The bound of the loop\<close>

text \<open>How many iterations an uncancelled worker has left.\<close>

definition budget :: "worker \<Rightarrow> nat" where
  "budget w = (if rc_cancel_requested (wk_receipt w) then 0
     else 1 + (if wk_stale_removed w then 0 else 1) + 2 * (11 - phase_rank (rc_phase (wk_receipt w))))"

lemma budget_le: "budget w \<le> 24"
  using diff_le_self [of 11 "phase_rank (rc_phase (wk_receipt w))"] by (auto simp: budget_def)

lemma progress_budget: "\<not> rc_cancel_requested (wk_receipt w) \<Longrightarrow> phase_rank (rc_phase (wk_receipt w)) \<le> 10
  \<Longrightarrow> progresses w w' \<Longrightarrow> budget w' < budget w"
  by (auto simp: progresses_def budget_def)

lemma loop_bound:
  "run_loop E n w b = (Inr None, b') \<Longrightarrow> n + refusals (bn_log b) \<le> budget w + refusals (bn_log b')"
proof (induction n arbitrary: w b)
  case 0
  then show ?case by (simp split: if_splits)
next
  case (Suc n)
  then obtain w1 b1 where go: "\<not> worker_finished w" "run_phase E w b = (Inr w1, b1)" "run_loop E n w1 b1 = (Inr None, b')"
    by (auto simp: work_Inr split: if_splits)
  have going: "\<not> worker_finished w1" using go(3) by (cases n) (auto split: if_splits)
  note more = Suc.IH [OF go(3)]
  show ?case
  proof (cases "rc_cancel_requested (wk_receipt w)")
    case True
    then have "hold w (cancel_requested E (wk_receipt w) (wk_local w \<noteq> None) (wk_staged w)) b = (Inr w1, b1)"
      using go(2) by (simp add: run_phase_def Let_def)
    then have "rc_cancel_requested (wk_receipt w1) \<and> refusals (bn_log b) < refusals (bn_log b1)"
      using cancel_ends_requested going by (fastforce simp: cancel_ends_def hold_def work_Inr worker_finished_def)
    then show ?thesis using more by (simp add: budget_def)
  next
    case False
    have "budget w1 < budget w"
      using progress_budget [OF False unfinished_rank [OF go(1)]] yieldsD [OF progress_phase [OF go(1) False] go(2)] .
    moreover have "refusals (bn_log b) \<le> refusals (bn_log b1)"
      using refusals_grow [OF refusal_count.keeps_run_phase go(2)] by simp
    ultimately show ?thesis using more by simp
  qed
qed

end
