(* ===== verification/Executor_Outcomes.thy ===== *)
theory Executor_Outcomes
  imports Executor_Progress
begin

text \<open>
  What a whole run of a worker does: it copies and installs at most once, it puts a job into
  recovery only after removing the local file, and it gives a receipt to the flow only after
  the panel itself answered as the app the receipt installed.
\<close>

section \<open>How often a change is made\<close>

definition costs :: "(panel_change \<Rightarrow> bool) \<Rightarrow> nat \<Rightarrow> 'a work \<Rightarrow> bool" where
  "costs Q n m \<longleftrightarrow> (\<forall>b. made Q (bn_log (snd (m b))) \<le> made Q (bn_log b) + n)"

lemma costs_nothing: "relates (\<lambda>l l'. made Q l' = made Q l) m \<Longrightarrow> costs Q 0 m"
  by (simp add: relates_def costs_def)

lemma costs_mono: "costs Q i m \<Longrightarrow> i \<le> j \<Longrightarrow> costs Q j m"
  unfolding costs_def using add_left_mono le_trans by blast

lemma costs_attempt:
  assumes m: "costs Q i m" and h: "\<And>e w. h e = Some w \<Longrightarrow> costs Q j w"
    and k: "\<And>x b b'. m b = (Inr x, b') \<Longrightarrow> costs Q j (k x)"
  shows "costs Q (i + j) (attempt m h k)"
  unfolding costs_def
proof
  fix b
  obtain res b1 where r: "m b = (res, b1)" by fastforce
  then have one: "made Q (bn_log b1) \<le> made Q (bn_log b) + i" using m by (auto simp: costs_def dest: spec [of _ b])
  show "made Q (bn_log (snd (attempt m h k b))) \<le> made Q (bn_log b) + (i + j)"
  proof (cases res)
    case (Inl e)
    show ?thesis
    proof (cases "h e")
      case None
      then show ?thesis using r Inl one by (simp add: attempt_def)
    next
      case (Some w)
      then have "made Q (bn_log (snd (w b1))) \<le> made Q (bn_log b1) + j" using h by (simp add: costs_def)
      then show ?thesis using r Inl Some one by (simp add: attempt_def)
    qed
  next
    case (Inr x)
    then have "made Q (bn_log (snd (k x b1))) \<le> made Q (bn_log b1) + j" using k r by (simp add: costs_def)
    then show ?thesis using r Inr one by (simp add: attempt_def)
  qed
qed

lemma costs_sequel: "costs Q i m \<Longrightarrow> (\<And>x. costs Q j (k x)) \<Longrightarrow> costs Q (i + j) (sequel m k)"
  unfolding sequel_def by (rule costs_attempt) simp_all

lemma costs_hold: "costs Q n m \<Longrightarrow> costs Q n (hold w m)"
  unfolding hold_def using costs_sequel [of Q n m 0 "\<lambda>r. return_work (w\<lparr>wk_receipt := r\<rparr>)"]
  by (simp add: costs_def)

lemma costs_panel_call: "costs Q 1 (panel_call E c x credential f)"
  by (simp add: costs_def panel_call_def ask_log)

lemma costs_root_mode: "costs Q 0 (expected_root_mode r)"
  by (simp add: costs_def expected_root_mode_def split: option.split)

lemma costs_stage_apk: "costs Q 1 (stage_apk E x credential r local)"
  unfolding stage_apk_def using costs_sequel [OF costs_root_mode costs_panel_call] by simp

lemma costs_install_apk: "costs Q 1 (install_apk E x credential r)"
proof -
  have "costs Q (0 + (0 + (0 + 1))) (install_apk E x credential r)"
    unfolding install_apk_def require_build_admission_def
    by (intro costs_sequel costs_root_mode costs_panel_call)
      (simp_all add: costs_def ask_log made_quiet require_def)
  then show ?thesis by simp
qed

abbreviation installs :: "panel_change \<Rightarrow> bool" where
  "installs c \<equiv> c = InstallApk"

abbreviation copies :: "panel_change \<Rightarrow> bool" where
  "copies c \<equiv> (case c of StageApk _ \<Rightarrow> True | _ \<Rightarrow> False)"

lemma costs_install_staged:
  assumes "rc_phase r = Installing"
  shows "costs installs 1 (install_staged E x r sg)"
proof -
  have handled: "costs installs 0 m" if "rc_phase r = Installing" "install_handler E x sg r e = Some m" for r e m
    by (rule costs_nothing, rule change_count.keeps_install_handler [OF that(1) _ that(2)]) simp
  have "costs installs (0 + (1 + 0)) (install_staged E x r sg)"
    unfolding install_staged_def
  proof (rule costs_attempt [OF costs_nothing [OF change_count.keeps_mutation_authority]], goal_cases)
    case (1 e m)
    then show ?case using handled [OF assms] costs_mono [of installs 0 m "1 + 0"] by simp
  next
    case (2 y b b')
    obtain c h where y: "y = (c, h)" by fastforce
    have h: "rc_phase h = Installing" using mutation_authority_Inr(3) 2 y assms by simp
    show ?case unfolding y prod.case
      by (rule costs_attempt [OF costs_install_apk handled [OF h]])
        (auto intro!: costs_nothing change_count.keeps_install_refused change_count.keeps_worker_transition
          change_count.keeps_worker_recovery simp: h split: install_outcome.split)
  qed
  then show ?thesis by simp
qed

lemma costs_run_installing:
  "rc_phase (wk_receipt w) = Installing \<Longrightarrow> costs installs 1 (run_installing E x w)"
  unfolding run_installing_def
  using costs_install_staged costs_mono [OF costs_nothing [OF change_count.keeps_worker_recovery], of 1 installs]
  by (auto intro!: costs_hold split: option.split)

lemma costs_run_staging:
  assumes "rc_phase (wk_receipt w) = Staging"
  shows "costs copies 1 (run_staging E x w)"
proof (cases "wk_local w")
  case None
  then show ?thesis unfolding run_staging_def Let_def
    by (auto intro!: costs_hold costs_mono [OF costs_nothing [OF change_count.keeps_worker_recovery]])
next
  case (Some local)
  have handled: "costs copies 0 m" if "stage_handler E eid v e = Some m" for eid v e m
    by (rule costs_nothing [OF change_count.keeps_stage_handler [OF that]])
  have "costs copies (0 + (1 + 0)) (run_staging E x w)"
    unfolding run_staging_def Let_def Some option.case
  proof (rule costs_attempt [OF costs_nothing [OF change_count.keeps_mutation_authority]], goal_cases)
    case (1 e m)
    then show ?case using handled costs_mono [of copies 0 m "1 + 0"] by simp
  next
    case (2 y b b')
    obtain c h where y: "y = (c, h)" by fastforce
    show ?case unfolding y prod.case
      by (rule costs_attempt [OF costs_stage_apk handled], assumption)
        (auto intro!: costs_nothing change_count.keeps_attempt change_count.keeps_require change_count.keeps_hold
          change_count.keeps_worker_transition dest: change_count.keeps_stage_handler)
  qed
  then show ?thesis by simp
qed

text \<open>
  A change made only in phase \<open>p\<close>, once there: a loop makes it once if it is not yet past \<open>p\<close>,
  and never if it is, or once cancellation is requested.
\<close>

definition once_in :: "(panel_change \<Rightarrow> bool) \<Rightarrow> install_phase \<Rightarrow> bool" where
  "once_in Q p \<longleftrightarrow> (\<forall>sg. \<not> Q (RemoveStaged sg CleanupCancelled)) \<and> p \<in> {Staging, Installing}
     \<and> (\<forall>q c. q \<noteq> p \<longrightarrow> changes_in q c \<longrightarrow> \<not> Q c)
     \<and> (\<forall>E w. rc_phase (wk_receipt w) = p \<longrightarrow> \<not> rc_cancel_requested (wk_receipt w) \<longrightarrow> costs Q 1 (run_phase E w))"

lemma run_phase_cancelled:
  assumes "rc_cancel_requested (wk_receipt w)"
  shows "run_phase E w = hold w (cancel_requested E (wk_receipt w) (wk_local w \<noteq> None) (wk_staged w))"
  using assms by (simp add: run_phase_def Let_def)

lemma once_in_loop:
  assumes once: "once_in Q p"
  shows "made Q (bn_log (snd (run_loop E n w b))) \<le> made Q (bn_log b)
     + (if rc_cancel_requested (wk_receipt w) \<or> phase_rank p < phase_rank (rc_phase (wk_receipt w)) then 0 else 1)"
    (is "_ \<le> _ + ?more w")
proof (induction n arbitrary: w b)
  case (Suc n)
  show ?case
  proof (cases "worker_finished w")
    case False
    let ?here = "rc_phase (wk_receipt w) = p \<and> \<not> rc_cancel_requested (wk_receipt w)"
    have one: "costs Q (if ?here then 1 else 0) (run_phase E w)"
    proof (cases "rc_cancel_requested (wk_receipt w)")
      case True
      have "costs Q 0 (run_phase E w)" unfolding run_phase_cancelled [OF True]
        by (intro costs_nothing change_count.keeps_hold change_count.keeps_cancel_requested)
          (use once in \<open>simp add: once_in_def\<close>)
      then show ?thesis using True by simp
    next
      case False
      show ?thesis
      proof (cases "rc_phase (wk_receipt w) = p")
        case True
        then show ?thesis using once False by (simp add: once_in_def)
      next
        case other: False
        have "costs Q 0 (run_phase E w)"
          by (rule costs_nothing, rule change_count.keeps_run_phase) (use once other in \<open>auto simp: once_in_def\<close>)
        then show ?thesis using other by simp
      qed
    qed
    obtain res b1 where r: "run_phase E w b = (res, b1)" by fastforce
    have first: "made Q (bn_log b1) \<le> made Q (bn_log b) + (if ?here then 1 else 0)"
      using one r unfolding costs_def by (metis snd_conv)
    show ?thesis
    proof (cases res)
      case (Inl e)
      have "(if ?here then 1 else 0 :: nat) \<le> ?more w" by auto
      then show ?thesis using False r Inl first by (simp add: sequel_def attempt_def)
    next
      case (Inr w1)
      have rest: "made Q (bn_log (snd (run_loop E n w1 b1))) \<le> made Q (bn_log b1) + ?more w1" by (rule Suc)
      have "(if ?here then 1 else 0 :: nat) + ?more w1 \<le> ?more w"
      proof (cases "rc_cancel_requested (wk_receipt w)")
        case True
        then have "worker_finished w1 \<or> rc_cancel_requested (wk_receipt w1)"
          using r Inr cancel_ends_requested unfolding run_phase_cancelled [OF True]
          by (fastforce simp: cancel_ends_def hold_def work_Inr worker_finished_def)
        moreover have "phase_rank p < phase_rank (rc_phase (wk_receipt w1))" if "worker_finished w1"
          using that once terminal_rank [of "wk_receipt w1"] by (auto simp: worker_finished_def once_in_def)
        ultimately show ?thesis using True by auto
      next
        case nc: False
        have "progresses w w1" using yieldsD [OF progress_phase [OF False nc]] r Inr by simp
        moreover have "p \<in> {Staging, Installing}" using once by (simp add: once_in_def)
        ultimately show ?thesis using nc by (auto simp: progresses_def)
      qed
      then show ?thesis using False r Inr first rest by (simp add: sequel_def attempt_def)
    qed
  qed simp
qed simp

lemma once_installs: "once_in installs Installing"
proof -
  have "costs installs 1 (run_phase E w)" if "rc_phase (wk_receipt w) = Installing" "\<not> rc_cancel_requested (wk_receipt w)" for E w
    using that costs_sequel [OF costs_nothing [OF change_count.keeps_frozen] costs_run_installing [OF that(1)]]
    by (simp add: run_phase_def Let_def)
  moreover have "\<not> installs c" if "q \<noteq> Installing" "changes_in q c" for q c
    using that by (cases q; cases c) auto
  ultimately show ?thesis by (simp add: once_in_def)
qed

lemma once_copies: "once_in copies Staging"
proof -
  have "costs copies 1 (run_phase E w)" if "rc_phase (wk_receipt w) = Staging" "\<not> rc_cancel_requested (wk_receipt w)" for E w
    using that costs_sequel [OF costs_nothing [OF change_count.keeps_frozen] costs_run_staging [OF that(1)]]
    by (simp add: run_phase_def Let_def)
  moreover have "\<not> copies c" if "q \<noteq> Staging" "changes_in q c" for q c
    using that by (cases q; cases c) auto
  ultimately show ?thesis by (simp add: once_in_def)
qed

lemma once_in_run:
  assumes "once_in Q p"
  shows "made Q (bn_log (snd (async_run E fuel job_id b))) \<le> made Q (bn_log b) + 1"
proof -
  have "costs Q (0 + 1) (run_body E fuel job_id)"
    unfolding run_body_def
  proof (rule costs_sequel [OF costs_nothing [OF change_count.keeps_take_up]])
    show "costs Q 1 (run_loop E fuel \<lparr>wk_receipt = r, wk_local = None, wk_staged = None, wk_stale_removed = False\<rparr>)" for r
      unfolding costs_def
    proof
      fix b
      show "made Q (bn_log (snd (run_loop E fuel \<lparr>wk_receipt = r, wk_local = None, wk_staged = None,
          wk_stale_removed = False\<rparr> b))) \<le> made Q (bn_log b) + 1"
        by (rule le_trans [OF once_in_loop [OF assms]]) simp
    qed
  qed
  then show ?thesis by (auto simp: costs_def async_run_def split: prod.split dest: spec [of _ b])
qed

section \<open>The local file goes before recovery\<close>

text \<open>Each move into recovery directly follows the removal of the local file under the name the
  receipt derives, and the receipt was not ended when the removal began.\<close>

fun custody_released :: "platform \<Rightarrow> event list \<Rightarrow> bool" where
  "custody_released P [] \<longleftrightarrow> True"
| "custody_released P (Moved r # l) \<longleftrightarrow> custody_released P l
     \<and> (rc_phase r = RecoveryRequired \<longrightarrow> (case l of
          JobRead _ # LocalCleaned eid # JobRead q # _ \<Rightarrow> execution_id P q = Some eid \<and> \<not> is_terminal q
        | _ \<Rightarrow> False))"
| "custody_released P (_ # l) \<longleftrightarrow> custody_released P l"

definition stays_released :: "platform \<Rightarrow> event list \<Rightarrow> event list \<Rightarrow> bool" where
  "stays_released P l l' \<longleftrightarrow> (custody_released P l \<longrightarrow> custody_released P l')"

interpretation custody: log_relation E "stays_released (ou_platform E)" "\<lambda>_. True" for E
proof
  show "stays_released (ou_platform E) l (ev # l)" if "quiet ev" for l ev
    using that by (cases ev) (simp_all add: stays_released_def)
qed (simp_all add: stays_released_def)

section \<open>A healthy receipt is proven\<close>

text \<open>Health read at \<open>t\<close> and the home screen right after it: the installed app, in front.\<close>

definition proven_at :: "outside \<Rightarrow> install_artifact \<Rightarrow> nat \<Rightarrow> bool" where
  "proven_at E a t \<longleftrightarrow> (\<exists>h ui. ou_health E t = Reply h
     \<and> health_is_installed_app h (ar_version_name a) (ar_package_id a)
     \<and> ou_status E (t + 1) = Reply ui \<and> home_ui_allows_setup ui)"

lemma require_pin_time: "require_pin E pinned b = (Inr u, b') \<Longrightarrow> bn_time b' = bn_time b + 1"
  by (auto simp: require_pin_def work_Inr)

lemma read_health_Inr: "read_health E b = (Inr h, b') \<Longrightarrow> ou_health E (bn_time b) = Reply h \<and> bn_time b' = bn_time b + 1"
  by (auto simp: read_health_def work_Inr outcome_def split: reply.splits)

lemma read_home_ui_Inr: "read_home_ui E b = (Inr ui, b') \<Longrightarrow> ou_status E (bn_time b) = Reply ui"
  by (auto simp: read_home_ui_def work_Inr outcome_def split: reply.splits)

text \<open>No call goes back in time.\<close>

definition advances :: "'a work \<Rightarrow> bool" where
  "advances m \<longleftrightarrow> (\<forall>b. bn_time b \<le> bn_time (snd (m b)))"

lemma advances_basic: "advances (return_work x)" "advances (raise_work e)" "advances (require c e)"
  "advances (ask E ev f)"
  by (simp_all add: advances_def require_def ask_def Let_def)

lemma advances_sequel: "advances m \<Longrightarrow> (\<And>x. advances (k x)) \<Longrightarrow> advances (sequel m k)"
  unfolding advances_def
proof
  fix b assume m: "\<forall>b. bn_time b \<le> bn_time (snd (m b))" and k: "\<And>x. \<forall>b. bn_time b \<le> bn_time (snd (k x b))"
  obtain res b1 where r: "m b = (res, b1)" by fastforce
  then have "bn_time b \<le> bn_time b1" using m by (metis snd_conv)
  moreover have "bn_time b1 \<le> bn_time (snd (k x b1))" for x using k by blast
  ultimately show "bn_time b \<le> bn_time (snd (sequel m k b))"
    using r by (cases res) (auto simp: sequel_def attempt_def intro: order_trans)
qed

lemma advancesD: "advances m \<Longrightarrow> m b = (res, b') \<Longrightarrow> bn_time b \<le> bn_time b'"
  unfolding advances_def by (metis snd_conv)

lemma advances_reads: "advances (sequel (require_pin E pinned) (\<lambda>_. read_health E))" "advances (read_home_ui E)"
  "advances (pause_between E)"
  by (auto simp: require_pin_def read_health_def read_home_ui_def pause_between_def intro!: advances_sequel advances_basic)

lemma health_loop_proven:
  assumes "health_loop E x n failure b = (Inr (Some h, s), b')" "fx_descriptor x = descriptor_of a"
    and "health_is_installed_app h (ar_version_name a) (ar_package_id a)"
  shows "\<exists>t \<ge> bn_time b. proven_at E a t"
  using assms(1)
proof (induction n arbitrary: failure b)
  case (Suc n)
  have again: "\<exists>t \<ge> bn_time b. proven_at E a t"
    if t: "bn_time b \<le> bn_time b1" and run: "(if n = 0 then health_loop E x n why
          else sequel (pause_between E) (\<lambda>_. health_loop E x n why)) b1 = (Inr (Some h, s), b')" for b1 why
  proof -
    have "\<exists>b2. bn_time b1 \<le> bn_time b2 \<and> health_loop E x n why b2 = (Inr (Some h, s), b')"
    proof (cases "n = 0")
      case True
      then show ?thesis using run by auto
    next
      case False
      then obtain b2 where "pause_between E b1 = (Inr (), b2)" "health_loop E x n why b2 = (Inr (Some h, s), b')"
        using run by (auto simp: work_Inr)
      then show ?thesis using advancesD [OF advances_reads(3)] by blast
    qed
    then show ?thesis using Suc.IH t order_trans by meson
  qed
  have d: "ds_version_name (fx_descriptor x) = ar_version_name a" "ds_package_id (fx_descriptor x) = ar_package_id a"
    by (simp_all add: assms(2) descriptor_of_def)
  from Suc.prems show ?case unfolding health_loop.simps Let_def attempt_Inr d
  proof (elim disjE exE conjE, goal_cases)
    case (1 g b1)
    note t1 = advancesD [OF advances_reads(1) 1(1)]
    obtain t where b3: "bn_time b \<le> t" "ou_health E t = Reply g" "bn_time b1 = t + 1"
    proof -
      obtain b2 where "require_pin E (fx_pinned x) b = (Inr (), b2)" "read_health E b2 = (Inr g, b1)"
        using 1(1) by (auto simp: work_Inr)
      with require_pin_time read_health_Inr that [of "bn_time b2"] show thesis by force
    qed
    show ?case
    proof (cases "health_is_installed_app g (ar_version_name a) (ar_package_id a)")
      case inst: True
      from 1(2) show ?thesis unfolding attempt_Inr if_P [OF inst]
      proof (elim disjE exE conjE, goal_cases)
        case (1 ui b2)
        note ui = read_home_ui_Inr [OF 1(1)]
        show ?case
        proof (cases "home_ui_allows_setup ui")
          case True
          then show ?thesis using b3 ui inst by (auto simp: proven_at_def)
        next
          case False
          show ?thesis
            by (rule again [of b2 "''home_ui:not_ready''"])
              (use 1 False t1 advancesD [OF advances_reads(2) 1(1)] in \<open>auto simp: if_distrib [of "\<lambda>f. f _"]\<close>)
        qed
      next
        case (2 e b2 w)
        then show ?case using again [of b2 "''home_ui:unavailable''"] t1 advancesD [OF advances_reads(2) 2(1)]
          by (auto split: if_splits)
      qed
    next
      case False
      then have "n \<noteq> 0" using 1(2) assms(3) by (cases "n = 0") auto
      then have "(if n = 0 then health_loop E x n failure
          else sequel (pause_between E) (\<lambda>_. health_loop E x n failure)) b1 = (Inr (Some h, s), b')"
        using 1(2) False by simp
      then show ?thesis by (rule again [OF t1])
    qed
  next
    case (2 e b1 w)
    note t1 = advancesD [OF advances_reads(1) 2(1)]
    show ?case using 2 again [OF t1] by (auto split: exc.splits)
  qed
qed simp

lemma frozen_Inr:
  assumes "frozen E r b = (Inr x, b')"
  shows "b' = b" "fx_descriptor x = descriptor_of (rc_artifact r)"
  using assms by (auto simp: frozen_def work_Inr frozen_execution_def Let_def bind_eq_Some_conv)

lemma health_phase_proven:
  assumes run: "run_phase E w b = (Inr w', b')" and "rc_phase (wk_receipt w) = HealthCheck"
    "\<not> rc_cancel_requested (wk_receipt w)" and healthy: "rc_phase (wk_receipt w') = HealthyUnclaimed"
  shows "\<exists>t \<ge> bn_time b. proven_at E (rc_artifact (wk_receipt w)) t"
proof -
  let ?r = "wk_receipt w"
  obtain x where x: "frozen E ?r b = (Inr x, b)" "run_health_check E x w b = (Inr w', b')"
  proof -
    obtain x b1 where "frozen E ?r b = (Inr x, b1)" "run_health_check E x w b1 = (Inr w', b')"
      using run assms(2,3) by (auto simp: run_phase_def Let_def work_Inr)
    with frozen_Inr(1) [OF this(1)] that show thesis by simp
  qed
  obtain health sub b1 where h: "worker_health E x b = (Inr (health, sub), b1)"
    and rest: "(if health_refused health ?r
     then worker_recovery E ?r VerificationRequired (subcode_or sub ''health:identity_mismatch'')
     else sequel (ask E WebviewProvisioned (\<lambda>_. Inr ())) (\<lambda>_.
     sequel (ask E UrlOffered (\<lambda>t. outcome (\<lambda>_. OtherError) (ou_offer_url E t))) (\<lambda>setup_state.
     if setup_state \<in> {''setup_complete'', ''setup_state_unreadable''} then finish_health E x ?r
     else attempt (offer_display_sizing E ?r x) (settle_handler E ?r) (\<lambda>_. finish_health E x ?r)))) b1
       = (Inr (wk_receipt w'), b')"
    using x(2) by (auto simp: run_health_check_def Let_def hold_def work_Inr)
  have "\<not> health_refused health ?r"
  proof
    assume refused: "health_refused health ?r"
    have "is_terminal (wk_receipt w')"
      using rest unfolding if_P [OF refused] by (rule yieldsD [OF yields_worker_recovery])
    then show False using healthy by (simp add: is_terminal_def terminal_phases_def)
  qed
  then obtain g where g: "health = Some g"
      "health_is_installed_app g (ar_version_name (rc_artifact ?r)) (ar_package_id (rc_artifact ?r))"
    by (auto simp: health_refused_def split: option.splits)
  show ?thesis
    using h g(2) unfolding worker_health_def g(1) by (rule health_loop_proven [OF _ frozen_Inr(2) [OF x(1)]])
qed

section \<open>Ending\<close>

text \<open>With fuel for 24 iterations, and one more for each time another writer was first, a run
  ends.\<close>

lemma run_ends:
  assumes "24 + refusals (bn_log (snd (async_run E fuel job_id b))) < fuel + refusals (bn_log b)"
  shows "fst (async_run E fuel job_id b) \<noteq> RunLooping"
proof
  assume loop: "fst (async_run E fuel job_id b) = RunLooping"
  obtain res b' where r: "run_body E fuel job_id b = (res, b')" by fastforce
  have "res = Inr None"
    using loop r by (auto simp: async_run_def run_end_of_def split: sum.splits option.splits exc.splits if_splits)
  with r obtain q b1 where q: "take_up E job_id b = (Inr q, b1)"
      "run_loop E fuel \<lparr>wk_receipt = q, wk_local = None, wk_staged = None, wk_stale_removed = False\<rparr> b1 = (Inr None, b')"
    by (auto simp: run_body_def work_Inr)
  have "refusals (bn_log b) \<le> refusals (bn_log b1)"
    using refusals_grow [OF refusal_count.keeps_take_up q(1)] .
  moreover have "fuel + refusals (bn_log b1) \<le> 24 + refusals (bn_log b')"
    using loop_bound [OF q(2)] budget_le order_trans add_right_mono by blast
  ultimately show False using assms r by (simp add: async_run_def)
qed

end
