(* ===== verification/Smooth_Phases.thy ===== *)
theory Smooth_Phases
  imports Smooth_Run Executor_Outcomes
begin

text \<open>
  The phases of a smooth run, one lemma each, and their sequence: the worker takes the approved
  receipt up and leaves it healthy.
\<close>

section \<open>One phase\<close>

definition at_phase :: "outside \<Rightarrow> receipt \<Rightarrow> root_mode \<Rightarrow> install_phase \<Rightarrow> custodied_artifact option \<Rightarrow>
    staged_apk option \<Rightarrow> worker" where
  "at_phase E r m p c sg = \<lparr>wk_receipt = smooth_receipt E r m p, wk_local = c, wk_staged = sg, wk_stale_removed = False\<rparr>"

lemma at_phase_simps [simp]: "wk_receipt (at_phase E r m p c sg) = smooth_receipt E r m p"
  "wk_local (at_phase E r m p c sg) = c" "wk_staged (at_phase E r m p c sg) = sg"
  "(at_phase E r m p c sg)\<lparr>wk_receipt := smooth_receipt E r m q\<rparr> = at_phase E r m q c sg"
  "(at_phase E r m p c sg)\<lparr>wk_local := c'\<rparr> = at_phase E r m p c' sg"
  "(at_phase E r m p c sg)\<lparr>wk_staged := sg'\<rparr> = at_phase E r m p c sg'"
  by (simp_all add: at_phase_def)

text \<open>The phase \<open>p\<close> runs to the next one.\<close>

definition runs_on :: "outside \<Rightarrow> receipt \<Rightarrow> root_mode \<Rightarrow> install_phase \<Rightarrow> custodied_artifact option \<Rightarrow> staged_apk option
    \<Rightarrow> custodied_artifact option \<Rightarrow> staged_apk option \<Rightarrow> bool" where
  "runs_on E r m p c sg c' sg' \<longleftrightarrow> (\<forall>l. \<exists>l'.
     run_phase E (at_phase E r m p c sg) (smooth_bench E (smooth_receipt E r m p) (saved_at p + 1) l)
     = (Inr (at_phase E r m (after p) c' sg'),
        smooth_bench E (smooth_receipt E r m (after p)) (saved_at (after p) + 1) l')
     \<and> refusals l' = refusals l)"

lemma told_eqs: "told E r m Approved = move_to Authorizing" "told E r m Authorizing = move_to Preflight"
  "told E r m Preflight = (move_to Downloading)\<lparr>ta_root_mode := Some (root_mode_value m)\<rparr>"
  "told E r m Downloading = (move_to ArtifactReady)\<lparr>ta_actual_apk_bytes := Some (ar_apk_size (rc_artifact r))\<rparr>"
  "told E r m ArtifactReady = move_to Revalidating" "told E r m Revalidating = move_to Staging"
  "told E r m Staging = move_to Installing" "told E r m Installing = move_to Installed"
  "told E r m Installed = move_to Launching"
  "told E r m Launching = (move_to HealthCheck)\<lparr>ta_home_claim_deferred := Some False\<rparr>"
  "told E r m HealthCheck = (move_to HealthyUnclaimed)\<lparr>ta_health_checked_at := Some (ou_clock E 52),
     ta_home_claim_deferred := Some False\<rparr>"
  by (simp_all add: told_def move_to_def)

lemma bench_log [simp]: "smooth_bench E q t l = smooth_bench E q t l' \<longleftrightarrow> l = l'"
  by (auto simp: smooth_bench_def)

lemmas work_steps = sequel_def attempt_def hold_def run_phase_def Let_def return_work_def before_end_def told_eqs

lemma phase_approved: "smooth E r m x c \<Longrightarrow> runs_on E r m Approved None None None None"
  by (simp add: runs_on_def work_steps smooth_frozen smooth_next numeral_2_eq_2 numeral_3_eq_3)

lemma phase_authorizing: "smooth E r m x c \<Longrightarrow> runs_on E r m Authorizing None None None None"
  by (simp add: runs_on_def work_steps smooth_frozen smooth_next run_authorizing_def smooth_credential)

lemma smooth_observed:
  assumes "smooth E r m x c"
  shows "\<exists>v. observe_panel E (smooth_receipt E r m p) x (smooth_bench E q t l)
    = (Inr (v, None), smooth_bench E q (t + 3) (Preflighted # CredentialRead # Revalidated # l)) \<and> pv_root_mode v = m"
  using smooth_preflighted [OF assms, of p q t l]
  by (auto simp: observe_panel_def sequel_def attempt_def return_work_def)

lemma phase_preflight:
  assumes S: "smooth E r m x c"
  shows "runs_on E r m Preflight None None None None"
  unfolding runs_on_def
proof
  fix l
  obtain v where "observe_panel E (smooth_receipt E r m Preflight) x (smooth_bench E (smooth_receipt E r m Preflight) 5 l)
      = (Inr (v, None), smooth_bench E (smooth_receipt E r m Preflight) (5 + 3) (Preflighted # CredentialRead # Revalidated # l))"
      "pv_root_mode v = m"
    using smooth_observed [OF S, of Preflight "smooth_receipt E r m Preflight" 5 l] by auto
  then show "\<exists>l'. run_phase E (at_phase E r m Preflight None None)
      (smooth_bench E (smooth_receipt E r m Preflight) (saved_at Preflight + 1) l)
     = (Inr (at_phase E r m (after Preflight) None None),
        smooth_bench E (smooth_receipt E r m (after Preflight)) (saved_at (after Preflight) + 1) l')
     \<and> refusals l' = refusals l"
    by (simp add: work_steps smooth_frozen [OF S] smooth_next [OF S] run_preflight_def)
qed

lemma smooth_file:
  assumes "smooth E r m x c"
  shows "download E x (smooth_bench E q t l) = (Inr c, smooth_bench E q (t + 1) (Downloaded (fx_release x) # l))"
    "require_local_artifact c (fx_execution_id x) (rc_artifact r) b = (Inr (), b)" "cu_size c = ar_apk_size (rc_artifact r)"
  using smooth_panelD(16) [OF assms]
  by (simp_all add: download_def smooth_ask [OF assms] smooth_panelD(5) [OF assms] outcome_def require_local_artifact_def
      require_step local_artifact_ok_def)

lemma phase_downloading:
  assumes S: "smooth E r m x c"
  shows "runs_on E r m Downloading None None (Some c) None"
  by (simp add: runs_on_def work_steps smooth_frozen [OF S] smooth_next [OF S] run_downloading_def
      smooth_admission [OF S] smooth_file [OF S])

lemma phase_artifact_ready:
  assumes S: "smooth E r m x c"
  shows "runs_on E r m ArtifactReady (Some c) None (Some c) None"
  by (simp add: runs_on_def work_steps smooth_frozen [OF S] smooth_next [OF S] run_artifact_ready_def smooth_file [OF S])

lemma smooth_revalidated:
  assumes S: "smooth E r m x c"
  shows "revalidate_panel E (smooth_receipt E r m Revalidating) x (smooth_bench E q t l)
    = (Inr (), smooth_bench E q (t + 3) (Preflighted # CredentialRead # Revalidated # l))"
  using smooth_preflighted [OF S, of Revalidating q t l]
  by (auto simp: revalidate_panel_def sequel_def attempt_def require_step root_mode_required_phases_def)

lemma phase_revalidating:
  assumes S: "smooth E r m x c"
  shows "runs_on E r m Revalidating (Some c) None (Some c) None"
  by (simp add: runs_on_def work_steps smooth_frozen [OF S] smooth_next [OF S] run_revalidating_def
      smooth_admission [OF S] smooth_revalidated [OF S])

lemma phase_staging:
  assumes S: "smooth E r m x c"
  shows "runs_on E r m Staging (Some c) None (Some c) (Some (staged_of (ou_platform E) (rc_artifact r)))"
  by (simp add: runs_on_def work_steps smooth_frozen [OF S] smooth_next [OF S] run_staging_def
      smooth_authority [OF S] mutation_barriers_def stage_apk_def smooth_root root_mode_required_phases_def
      smooth_change [OF S smooth_panelD(7) [OF S]] require_step)

lemma phase_installing:
  assumes S: "smooth E r m x c"
  shows "runs_on E r m Installing (Some c) (Some sg) (Some c) (Some sg)"
  by (simp add: runs_on_def work_steps smooth_frozen [OF S] smooth_next [OF S] run_installing_def install_staged_def
      smooth_authority [OF S] mutation_barriers_def install_apk_def smooth_root root_mode_required_phases_def
      smooth_ask [OF S] smooth_panelD(8) [OF S] outcome_def smooth_admission [OF S]
      smooth_change [OF S smooth_panelD(9) [OF S]])

lemma phase_installed:
  assumes S: "smooth E r m x c"
  shows "runs_on E r m Installed (Some c) sg (Some c) (Some (staged_of (ou_platform E) (rc_artifact r)))"
  by (simp add: runs_on_def work_steps smooth_frozen [OF S] smooth_next [OF S] run_installed_def smooth_local_gone [OF S])

lemma phase_launching:
  assumes S: "smooth E r m x c"
  shows "runs_on E r m Launching (Some c) (Some sg) (Some c) (Some sg)"
proof -
  obtain a where a: "ou_launch E 40 = Reply a" "la_outcome a = AppStarted" "la_home_chooser a \<noteq> Some ''deferred''"
    using smooth_panelD(11) [OF S] by blast
  show ?thesis
    by (simp add: runs_on_def work_steps smooth_frozen [OF S] smooth_next [OF S] run_launching_def cleanup_and_launch_def
        smooth_cleanup [OF S] remove_staged_def smooth_root root_mode_required_phases_def
        smooth_change [OF S smooth_panelD(10) [OF S]] smooth_authority [OF S] mutation_barriers_def start_app_def
        smooth_change [OF S, where f = "ou_launch E" and t = 40, OF a(1)] launched_def a(2,3))
qed

lemma smooth_health:
  assumes S: "smooth E r m x c"
  shows "\<exists>h. worker_health E x (smooth_bench E q t l)
      = (Inr (Some h, None), smooth_bench E q (t + 3) (StatusRead # HealthRead # Revalidated # l))
    \<and> \<not> health_refused (Some h) (smooth_receipt E r m p)"
proof -
  obtain h where h: "ou_health E (Suc t) = Reply h"
      "health_is_installed_app h (ar_version_name (rc_artifact r)) (ar_package_id (rc_artifact r))"
    using smooth_panelD(12) [OF S] by blast
  obtain ui where ui: "ou_status E (Suc (Suc t)) = Reply ui" "home_ui_allows_setup ui"
    using smooth_panelD(13) [OF S] by blast
  have "fx_descriptor x = descriptor_of (rc_artifact r)"
    using frozen_Inr(2) [OF smooth_frozen [OF S, of HealthCheck undefined]] by simp
  then have d: "ds_version_name (fx_descriptor x) = ar_version_name (rc_artifact r)"
      "ds_package_id (fx_descriptor x) = ar_package_id (rc_artifact r)"
    by (simp_all add: descriptor_of_def)
  have "health_loop E x (Suc n) why (smooth_bench E q t l)
      = (Inr (Some h, None), smooth_bench E q (t + 3) (StatusRead # HealthRead # Revalidated # l))" for n why
    using h ui
    by (simp add: Let_def sequel_def attempt_def smooth_pin [OF S] read_health_def read_home_ui_def
        smooth_ask [OF S] outcome_def d return_work_def numeral_3_eq_3)
  from this [of 89 "''health:unavailable''"] show ?thesis
    using h(2) by (simp add: worker_health_def health_refused_def)
qed

lemma smooth_settled:
  assumes S: "smooth E r m x c"
  shows "settle_display_and_launch E (smooth_receipt E r m HealthCheck) x (smooth_bench E (smooth_receipt E r m HealthCheck) t l)
    = (Inr (smooth_receipt E r m HealthCheck), smooth_bench E (smooth_receipt E r m HealthCheck) (t + 5)
        (Changed SettleDisplay (fx_adb_target x) (rc_adb_credential_id r) # CredentialRead
          # Barred (smooth_receipt E r m HealthCheck) # JobRead (smooth_receipt E r m HealthCheck) # Revalidated # l))"
  by (simp add: settle_display_and_launch_def attempt_def sequel_def return_work_def smooth_authority [OF S]
      mutation_barriers_def settle_display_def smooth_root root_mode_required_phases_def
      smooth_change [OF S smooth_panelD(15) [OF S]] numeral_eq_Suc)

lemma phase_health:
  assumes S: "smooth E r m x c"
  shows "runs_on E r m HealthCheck (Some c) sg (Some c) sg"
  unfolding runs_on_def
proof
  fix l
  let ?q = "smooth_receipt E r m HealthCheck"
  obtain h where h: "worker_health E x (smooth_bench E ?q 42 l)
      = (Inr (Some h, None), smooth_bench E ?q (42 + 3) (StatusRead # HealthRead # Revalidated # l))"
      "\<not> health_refused (Some h) ?q"
    using smooth_health [OF S, of ?q 42 l HealthCheck] by blast
  show "\<exists>l'. run_phase E (at_phase E r m HealthCheck (Some c) sg) (smooth_bench E ?q (saved_at HealthCheck + 1) l)
     = (Inr (at_phase E r m (after HealthCheck) (Some c) sg),
        smooth_bench E (smooth_receipt E r m (after HealthCheck)) (saved_at (after HealthCheck) + 1) l')
     \<and> refusals l' = refusals l"
    using h by (simp add: work_steps smooth_frozen [OF S] run_health_check_def smooth_ask [OF S] outcome_def
        smooth_panelD(14) [OF S] finish_health_def smooth_settled [OF S] smooth_next [OF S])
qed

section \<open>The run\<close>

lemma loop_on:
  assumes "runs_on E r m p c sg c' sg'" "p \<in> before_end"
    and rest: "\<And>l. \<exists>l'. run_loop E n (at_phase E r m (after p) c' sg')
        (smooth_bench E (smooth_receipt E r m (after p)) (saved_at (after p) + 1) l) = (res, b l') \<and> refusals l' = refusals l"
  shows "\<exists>l'. run_loop E (Suc n) (at_phase E r m p c sg) (smooth_bench E (smooth_receipt E r m p) (saved_at p + 1) l)
    = (res, b l') \<and> refusals l' = refusals l"
proof -
  have "\<not> worker_finished (at_phase E r m p c sg)"
    using assms(2) by (auto simp: worker_finished_def is_terminal_def terminal_phases_def before_end_def)
  moreover obtain l1 where "run_phase E (at_phase E r m p c sg) (smooth_bench E (smooth_receipt E r m p) (saved_at p + 1) l)
      = (Inr (at_phase E r m (after p) c' sg'), smooth_bench E (smooth_receipt E r m (after p)) (saved_at (after p) + 1) l1)"
      "refusals l1 = refusals l"
    using assms(1) unfolding runs_on_def by blast
  moreover obtain l2 where "run_loop E n (at_phase E r m (after p) c' sg')
      (smooth_bench E (smooth_receipt E r m (after p)) (saved_at (after p) + 1) l1) = (res, b l2)" "refusals l2 = refusals l1"
    using rest [of l1] by blast
  ultimately show ?thesis by (auto simp: sequel_def attempt_def)
qed

text \<open>The receipt at the end, and the bench the run leaves.\<close>

abbreviation done_worker :: "outside \<Rightarrow> receipt \<Rightarrow> root_mode \<Rightarrow> custodied_artifact \<Rightarrow> worker" where
  "done_worker E r m c \<equiv> at_phase E r m HealthyUnclaimed (Some c) (Some (staged_of (ou_platform E) (rc_artifact r)))"

lemma smooth_loop:
  assumes S: "smooth E r m x c"
  shows "\<exists>l'. run_loop E (11 + n) (at_phase E r m Approved None None) (smooth_bench E (smooth_receipt E r m Approved) 2 l)
    = (Inr (Some (done_worker E r m c)), smooth_bench E (smooth_receipt E r m HealthyUnclaimed) 53 l') \<and> refusals l' = refusals l"
proof -
  have fin: "run_loop E n (done_worker E r m c) b = (Inr (Some (done_worker E r m c)), b)" for b
    by (cases n) (simp_all add: worker_finished_def return_work_def)
  have num: "11 + n = Suc (Suc (Suc (Suc (Suc (Suc (Suc (Suc (Suc (Suc (Suc n))))))))))" by simp
  have two: "2 = saved_at Approved + 1" by simp
  show ?thesis
    unfolding num two
    by (rule loop_on [OF phase_approved [OF S]], simp add: before_end_def, unfold after.simps,
        rule loop_on [OF phase_authorizing [OF S]], simp add: before_end_def, unfold after.simps,
        rule loop_on [OF phase_preflight [OF S]], simp add: before_end_def, unfold after.simps,
        rule loop_on [OF phase_downloading [OF S]], simp add: before_end_def, unfold after.simps,
        rule loop_on [OF phase_artifact_ready [OF S]], simp add: before_end_def, unfold after.simps,
        rule loop_on [OF phase_revalidating [OF S]], simp add: before_end_def, unfold after.simps,
        rule loop_on [OF phase_staging [OF S]], simp add: before_end_def, unfold after.simps,
        rule loop_on [OF phase_installing [OF S]], simp add: before_end_def, unfold after.simps,
        rule loop_on [OF phase_installed [OF S]], simp add: before_end_def, unfold after.simps,
        rule loop_on [OF phase_launching [OF S]], simp add: before_end_def, unfold after.simps,
        rule loop_on [OF phase_health [OF S]], simp add: before_end_def, unfold after.simps)
      (simp add: fin)
qed

lemma smooth_run:
  assumes S: "smooth E r m x c" and fuel: "11 \<le> fuel"
  shows "\<exists>l'. async_run E fuel (rc_job_id r) \<lparr>bn_jobs = unread (ou_platform E) r, bn_time = 0, bn_log = []\<rparr>
    = (RunFinished (done_worker E r m c), smooth_bench E (smooth_receipt E r m HealthyUnclaimed) 53 l') \<and> refusals l' = 0"
proof -
  obtain n where n: "fuel = 11 + n" using fuel le_Suc_ex by blast
  have "take_up E (rc_job_id r) \<lparr>bn_jobs = unread (ou_platform E) r, bn_time = 0, bn_log = []\<rparr>
      = (Inr (smooth_receipt E r m Approved), smooth_bench E (smooth_receipt E r m Approved) 2
          [Claimed (smooth_receipt E r m Approved), JobRead r])"
    by (simp add: take_up_def worker_claim_def sequel_def attempt_def return_work_def smooth_first(1) [OF S]
        smooth_first(2) [OF S, unfolded One_nat_def])
  moreover obtain l' where "run_loop E fuel (at_phase E r m Approved None None)
      (smooth_bench E (smooth_receipt E r m Approved) 2 [Claimed (smooth_receipt E r m Approved), JobRead r])
    = (Inr (Some (done_worker E r m c)), smooth_bench E (smooth_receipt E r m HealthyUnclaimed) 53 l')"
      "refusals l' = 0"
    using smooth_loop [OF S, of n "[Claimed (smooth_receipt E r m Approved), JobRead r]"] n by auto
  ultimately show ?thesis
    by (auto simp: async_run_def run_body_def run_end_of_def sequel_def attempt_def at_phase_def)
qed

end
