(* ===== verification/Executor_Sample.thy ===== *)
theory Executor_Sample
  imports Smooth_Phases
begin

text \<open>
  A clean install that goes well: the receipts it passes through, the answers of the panel and
  the stores, and the run of the worker over them, to the receipt it leaves for the flow.
\<close>

section \<open>The receipts\<close>

definition clean_artifact :: install_artifact where
  "clean_artifact = sample_artifact\<lparr>ar_protocol_min := Some 5, ar_protocol_max := Some 5\<rparr>"

definition clean_now :: string where
  "clean_now = ''2026-01-02T03:04:06+00:00''"

definition clean_start :: receipt where
  "clean_start = sample_receipt\<lparr>rc_artifact := clean_artifact\<rparr>"

text \<open>The receipt in phase \<open>p\<close>, claimed \<open>g\<close> times, at revision \<open>v\<close>.\<close>

definition clean_receipt :: "int \<Rightarrow> string \<Rightarrow> install_phase \<Rightarrow> int \<Rightarrow> receipt" where
  "clean_receipt g now p v = clean_start\<lparr>rc_revision := v, rc_executor_generation := g, rc_attempt := g,
     rc_updated_at := now, rc_phase := p,
     rc_preflight_root_mode := (if p \<in> root_mode_required_phases then Some ''rootless'' else None),
     rc_actual_apk_bytes := (if p \<in> artifact_required_phases then Some 1000 else None),
     rc_health_checked_at := (if p = HealthyUnclaimed then Some now else None)\<rparr>"

lemma clean_artifact_facts: "artifact_facts clean_artifact"
  by code_simp

lemma clean_plan: "install_plan_sha256 sample_platform sample_target clean_artifact sample_digest schema = Some sample_digest"
proof -
  have "safe_str sample_digest 64 \<and> sha256_text sample_digest" by code_simp
  then show ?thesis
    by (simp add: install_plan_sha256_eq sample_target_facts clean_artifact_facts json_digest_def sample_sha256)
qed

lemma clean_time: "safe_str clean_now 40" "timestamp_text clean_now" "clock clean_now = Inr clean_now"
  "terminal_retention \<le> ts_seconds clean_now" "rc_created_at sample_receipt \<le> clean_now"
  by code_simp+

section \<open>The size of a text\<close>

text \<open>An upper bound of the length of a printed value without floats, at depth \<open>l\<close>.\<close>

fun text_bound :: "nat \<Rightarrow> pyval \<Rightarrow> nat" where
  "text_bound l PNone = 4"
| "text_bound l (PBool b) = 5"
| "text_bound l (PInt i) = length (int_string i)"
| "text_bound l (PFloat f) = 0"
| "text_bound l (PStr s) = 6 * length s + 2"
| "text_bound l (PList xs) = 4 * l + 6 + sum_list (map (\<lambda>x. text_bound (Suc l) x + 2 * l + 4) xs)"
| "text_bound l (PTuple xs) = 4 * l + 6 + sum_list (map (\<lambda>x. text_bound (Suc l) x + 2 * l + 4) xs)"
| "text_bound l (PDict d) = 4 * l + 6 + sum_list (map (\<lambda>(k, v). 6 * length k + 4 + text_bound (Suc l) v + 2 * l + 4) d)"

lemma length_json_string: "length (json_string s) \<le> 6 * length s + 2"
proof -
  have "length (json_escape c) \<le> 6" for c by (simp add: json_escape_def)
  then have "length (concat (map json_escape s)) \<le> 6 * length s"
    by (induction s) (auto intro: add_mono)
  then show ?thesis by (simp add: json_string_def)
qed

lemma join_length_bound: "length (join_with sep parts) \<le> sum_list (map (\<lambda>p. length p + length sep) parts)"
  by (induction sep parts rule: join_with.induct) auto

lemma block_length_bound:
  "length (json_block True l c d parts) \<le> 4 * l + 6 + sum_list (map (\<lambda>p. length p + 2 * l + 4) parts)"
proof -
  have sep: "length (CHR '','' # json_newline True (Suc l)) = 2 * l + 4" by (simp add: json_newline_def)
  have "length (join_with (CHR '','' # json_newline True (Suc l)) parts) \<le> sum_list (map (\<lambda>p. length p + 2 * l + 4) parts)"
    using join_length_bound [of "CHR '','' # json_newline True (Suc l)" parts] unfolding sep by (simp add: add.assoc)
  moreover have "length (json_newline True n) = 1 + 2 * n" for n by (simp add: json_newline_def)
  ultimately show ?thesis by (simp add: json_block_def)
qed

fun floatless :: "pyval \<Rightarrow> bool" where
  "floatless (PFloat f) = False"
| "floatless (PList xs) = list_all floatless xs"
| "floatless (PTuple xs) = list_all floatless xs"
| "floatless (PDict d) = list_all (\<lambda>(k, v). floatless v) d"
| "floatless _ = True"

lemma length_json_print: "floatless v \<Longrightarrow> length (json_print fr True l v) \<le> text_bound l v"
proof (induction fr True l v rule: json_print.induct)
  case (6 fr l xs)
  then have "sum_list (map (\<lambda>p. length p + 2 * l + 4) (map (json_print fr True (Suc l)) xs))
      \<le> sum_list (map (\<lambda>x. text_bound (Suc l) x + 2 * l + 4) xs)"
    by (simp add: comp_def list_all_iff sum_list_mono)
  then show ?case using block_length_bound [of l "CHR ''[''" "CHR '']''" "map (json_print fr True (Suc l)) xs"] by simp
next
  case (7 fr l xs)
  then have "sum_list (map (\<lambda>p. length p + 2 * l + 4) (map (json_print fr True (Suc l)) xs))
      \<le> sum_list (map (\<lambda>x. text_bound (Suc l) x + 2 * l + 4) xs)"
    by (simp add: comp_def list_all_iff sum_list_mono)
  then show ?case using block_length_bound [of l "CHR ''[''" "CHR '']''" "map (json_print fr True (Suc l)) xs"] by simp
next
  case (8 fr l d)
  let ?parts = "map (\<lambda>(k, v). json_string k @ json_colon True @ json_print fr True (Suc l) v) d"
  have "sum_list (map (\<lambda>p. length p + 2 * l + 4) ?parts)
      \<le> sum_list (map (\<lambda>(k, v). 6 * length k + 4 + text_bound (Suc l) v + 2 * l + 4) d)"
    unfolding map_map comp_def
  proof (rule sum_list_mono)
    fix e assume e: "e \<in> set d"
    obtain k v where kv: "e = (k, v)" by fastforce
    have "length (json_print fr True (Suc l) v) \<le> text_bound (Suc l) v"
      using 8 e kv by (auto simp: list_all_iff)
    then show "length (case e of (k, v) \<Rightarrow> json_string k @ json_colon True @ json_print fr True (Suc l) v) + 2 * l + 4
        \<le> (case e of (k, v) \<Rightarrow> 6 * length k + 4 + text_bound (Suc l) v + 2 * l + 4)"
      using length_json_string [of k] by (simp add: kv json_colon_def)
  qed
  then show ?case using block_length_bound [of l "CHR ''{''" "CHR ''}''" ?parts] by simp
qed (use length_json_string in auto)

section \<open>The receipts are valid\<close>

lemma clean_listed: "serialize_document (one_job r) = PDict [(''format'', PStr jobs_format), (''jobs'', PList [serialize_receipt r])]"
  by (simp add: serialize_document_def one_job_listed)

lemma clean_artifact_text:
  "floatless (PDict (artifact_document PList clean_artifact))"
  "text_bound 4 (PDict (artifact_document PList clean_artifact)) \<le> 9000"
  by code_simp+

lemma clean_target_text:
  "floatless (PDict (target_document sample_target))" "text_bound 4 (PDict (target_document sample_target)) \<le> 2000"
  by code_simp+

lemma revision_text: "v \<in> {0..12} \<Longrightarrow> length (int_string v) \<le> 2"
proof -
  have "\<forall>n \<in> set [0, 1, 2, 3, 4, 5, 6, 7, 8, 9, 10, 11, 12 :: int]. length (int_string n) \<le> 2" by code_simp
  moreover assume "v \<in> {0..12}"
  then have "v \<in> set [0, 1, 2, 3, 4, 5, 6, 7, 8, 9, 10, 11, 12]" by (auto simp: atLeastAtMost_iff) presburger
  ultimately show ?thesis by blast
qed

lemma phase_text: "length (phase_value p) \<le> 20"
  by (cases p) simp_all

lemma clean_fields [simp]:
  "rc_job_id (clean_receipt g now p v) = replicate 32 (CHR ''b'')" "rc_revision (clean_receipt g now p v) = v"
  "rc_executor_generation (clean_receipt g now p v) = g" "rc_attempt (clean_receipt g now p v) = g"
  "rc_created_at (clean_receipt g now p v) = ''2026-01-02T03:04:05+00:00''" "rc_updated_at (clean_receipt g now p v) = now"
  "rc_phase (clean_receipt g now p v) = p" "\<not> rc_cancel_requested (clean_receipt g now p v)"
  "rc_target (clean_receipt g now p v) = sample_target" "rc_artifact (clean_receipt g now p v) = clean_artifact"
  "rc_plan_sha256 (clean_receipt g now p v) = sample_digest" "rc_adb_credential_id (clean_receipt g now p v) = sample_digest"
  "rc_preflight_root_mode (clean_receipt g now p v) = (if p \<in> root_mode_required_phases then Some ''rootless'' else None)"
  "rc_actual_apk_bytes (clean_receipt g now p v) = (if p \<in> artifact_required_phases then Some 1000 else None)"
  "rc_health_checked_at (clean_receipt g now p v) = (if p = HealthyUnclaimed then Some now else None)"
  "rc_result_code (clean_receipt g now p v) = None" "rc_consumed_entry_id (clean_receipt g now p v) = None"
  "rc_failure_stage (clean_receipt g now p v) = None" "rc_result_subcode (clean_receipt g now p v) = None"
  "\<not> rc_home_claim_deferred (clean_receipt g now p v)"
  by (simp_all add: clean_receipt_def clean_start_def sample_receipt_def)

text \<open>The whole document, around the target's and the artifact's.\<close>

definition around :: "pyval \<Rightarrow> pyval \<Rightarrow> int \<Rightarrow> string \<Rightarrow> string \<Rightarrow> int \<Rightarrow> pyval \<Rightarrow> pyval \<Rightarrow> pyval \<Rightarrow> pyval" where
  "around t a g now ph v m n h = PDict [(''version'', PInt 1), (''minor_version'', PInt 1),
     (''key'', PStr jobs_store_key), (''data'', PDict [(''format'', PStr jobs_format),
     (''jobs'', PList [PDict [(''job_id'', PStr (replicate 32 (CHR ''b''))), (''revision'', PInt v),
       (''executor_generation'', PInt g), (''created_at'', PStr ''2026-01-02T03:04:05+00:00''),
       (''updated_at'', PStr now), (''phase'', PStr ph), (''cancel_requested'', PBool False), (''attempt'', PInt g),
       (''target'', t), (''artifact'', a), (''plan_sha256'', PStr sample_digest),
       (''adb_credential_id'', PStr sample_digest), (''preflight_root_mode'', m), (''actual_apk_bytes'', n),
       (''health_checked_at'', h), (''result_code'', PNone), (''consumed_entry_id'', PNone)]])])]"

lemma around_floatless:
  "floatless t \<Longrightarrow> floatless a \<Longrightarrow> floatless m \<Longrightarrow> floatless n \<Longrightarrow> floatless h \<Longrightarrow> floatless (around t a g now ph v m n h)"
  by (simp add: around_def)

lemma around_bound:
  assumes "text_bound 4 t \<le> 2000" "text_bound 4 a \<le> 9000" "length now \<le> 30" "length ph \<le> 20" "length (int_string v) \<le> 2" "length (int_string g) \<le> 2"
    "text_bound 4 m \<le> 200" "text_bound 4 n \<le> 200" "text_bound 4 h \<le> 200"
  shows "text_bound 0 (around t a g now ph v m n h) \<le> 131072"
proof -
  have four: "(4::nat) = Suc (Suc (Suc (Suc 0)))" by simp
  have "length (int_string 1) = 1" by code_simp
  then show ?thesis using assms unfolding four
    by (simp add: around_def jobs_store_key_def jobs_format_def sample_digest_def)
qed

lemma clean_document:
  "wrapped_document jobs_store_key (serialize_document (one_job (clean_receipt g now p v))) =
     around (PDict (target_document sample_target)) (PDict (artifact_document PList clean_artifact)) g now (phase_value p) v
       (opt_str (if p \<in> root_mode_required_phases then Some ''rootless'' else None))
       (opt_int (if p \<in> artifact_required_phases then Some 1000 else None))
       (opt_str (if p = HealthyUnclaimed then Some now else None))"
  by (simp only: wrapped_document_def clean_listed serialize_receipt_def receipt_document_def around_def clean_fields
      result_pyval_def option.case opt_str_def if_False append_Nil2 simp_thms)

text \<open>The moments of the receipts: created, and claimed.\<close>

definition clean_moment :: "int \<Rightarrow> string \<Rightarrow> bool" where
  "clean_moment g now \<longleftrightarrow> (g, now) \<in> {(0, ''2026-01-02T03:04:05+00:00''), (1, clean_now)}"

lemma clean_moment_facts:
  assumes "clean_moment g now"
  shows "g \<in> {0, 1}" "length (int_string g) \<le> 2" "length now = 25" "safe_str now 40" "timestamp_text now"
    "''2026-01-02T03:04:05+00:00'' \<le> now"
proof -
  have "list_all (\<lambda>(g, now). length (int_string g) \<le> 2 \<and> length now = 25 \<and> safe_str now 40 \<and> timestamp_text now
      \<and> ''2026-01-02T03:04:05+00:00'' \<le> now) [(0, ''2026-01-02T03:04:05+00:00''), (1, clean_now)]"
    by code_simp
  then show "g \<in> {0, 1}" "length (int_string g) \<le> 2" "length now = 25" "safe_str now 40" "timestamp_text now"
      "''2026-01-02T03:04:05+00:00'' \<le> now"
    using assms by (auto simp: clean_moment_def)
qed

lemma clean_size:
  assumes "v \<in> {0..12}" and now: "clean_moment g now"
  shows "length (stored_text sample_platform (clean_receipt g now p v)) \<le> 131072"
proof -
  have num: "length (int_string 1000) = 4" by code_simp
  have "length (stored_text sample_platform (clean_receipt g now p v)) \<le> text_bound 0
      (wrapped_document jobs_store_key (serialize_document (one_job (clean_receipt g now p v))))"
    unfolding stored_text_def json_indented_def
    by (rule length_json_print, unfold clean_document,
        rule around_floatless [OF clean_target_text(1) clean_artifact_text(1)]) (simp_all add: opt_str_def opt_int_def)
  also have "\<dots> \<le> 131072"
    unfolding clean_document
    by (rule around_bound [OF clean_target_text(2) clean_artifact_text(2) _ phase_text revision_text [OF assms(1)]
          clean_moment_facts(2) [OF now]])
      (simp_all add: num clean_moment_facts(3) [OF now] opt_str_def opt_int_def)
  finally show ?thesis .
qed

lemma clean_receipt_ok:
  assumes p: "p \<in> set smooth_path" and v: "v \<in> {0..12}" and now: "clean_moment g now" and gv: "g \<le> v"
  shows "receipt_ok sample_platform (clean_receipt g now p v)"
proof -
  note m = clean_moment_facts [OF now]
  have ids: "hex_32 (replicate 32 (CHR ''b''))" "safe_str sample_digest 64" "sha256_text sample_digest"
      "safe_str ''2026-01-02T03:04:05+00:00'' 40" "timestamp_text ''2026-01-02T03:04:05+00:00''"
      "safe_str (replicate 32 (CHR ''b'')) 32"
    by code_simp+
  have abi: "tg_primary_abi sample_target \<in> set (ar_supported_abis clean_artifact)"
      "ar_min_sdk clean_artifact \<le> tg_android_sdk sample_target" "ar_apk_size clean_artifact = 1000"
    by code_simp+
  have "receipt_facts sample_platform (clean_receipt g now p v)"
    using v m by (auto simp: receipt_facts_def sample_target_facts clean_artifact_facts ids root_modes_def)
  moreover have "bookkeeping_ok sample_platform (clean_receipt g now p v)"
    using v gv m(1,6) ids abi by (auto simp: bookkeeping_ok_def plan_matches_def install_plan_schemas_def clean_plan)
  moreover have "phase_facts_ok (clean_receipt g now p v)" "failure_detail_ok (clean_receipt g now p v)"
      "result_facts_ok (clean_receipt g now p v)"
    using p m(6) by (auto simp: root_modes_def smooth_path_def phase_facts_ok_def failure_detail_ok_def result_facts_ok_def
        root_mode_required_phases_def root_mode_forbidden_phases_def artifact_required_phases_def is_terminal_def terminal_phases_def)
  ultimately show ?thesis by (simp add: receipt_ok_parts)
qed

lemma clean_storable:
  assumes "p \<in> set smooth_path" "v \<in> {0..12}" "clean_moment g now" "g \<le> v"
  shows "storable sample_platform (clean_receipt g now p v)"
  using assms clean_receipt_ok [OF assms] clean_size [OF assms(2,3), of p]
  by (auto simp: storable_def smooth_path_def is_terminal_def terminal_phases_def)

section \<open>The world\<close>

definition clean_file :: custodied_artifact where
  "clean_file = \<lparr>cu_job_id = take 32 sample_digest, cu_path = ''/artifact'', cu_size = 1000, cu_sha256 = sample_digest\<rparr>"

text \<open>Each save of the run leaves its receipt on the disk.\<close>

definition clean_world :: outside where
  "clean_world = \<lparr>ou_platform = sample_platform, ou_integration = ''1.0.0'', ou_url_join = (\<lambda>u p. u @ p),
     ou_feed_url = (\<lambda>_. None), ou_stop = (\<lambda>_. False), ou_requests = (\<lambda>_. []), ou_load = (\<lambda>_. quiet_load),
     ou_durable = (\<lambda>_. (quiet_load, quiet_load)),
     ou_save = (\<lambda>t. quiet_save (case find (\<lambda>p. saved_at p = t) smooth_path of None \<Rightarrow> absent_file
        | Some p \<Rightarrow> stored sample_platform (clean_receipt 1 clean_now p (saves p)))),
     ou_clock = (\<lambda>_. clean_now), ou_resolver = (\<lambda>_ _ _. ResolverFailed), ou_credential = (\<lambda>_. Reply sample_digest),
     ou_preflight = (\<lambda>_. Reply \<lparr>pv_serial = ''SER-1'', pv_model = ''Panel 7'', pv_primary_abi = ''arm64-v8a'',
       pv_android_sdk = 30, pv_root_mode = Rootless, pv_target_installed = False\<rparr>),
     ou_size = (\<lambda>_. Reply None), ou_download = (\<lambda>_. Reply clean_file),
     ou_clean_local = (\<lambda>_. Reply ()), ou_stage = (\<lambda>_. Reply (staged_of sample_platform clean_artifact)),
     ou_install_opened = (\<lambda>_. Reply ()), ou_installed = (\<lambda>_. Reply PackageInstalled), ou_remove_staged = (\<lambda>_. Reply ()),
     ou_launch = (\<lambda>_. Reply \<lparr>la_outcome = AppStarted, la_home_chooser = None\<rparr>), ou_verify = (\<lambda>_. Reply ()),
     ou_health = (\<lambda>_. Reply \<lparr>ah_version = ''1.2.3'', ah_package = Some package_id_current\<rparr>),
     ou_status = (\<lambda>_. Reply (Some [(''state'', PStr ''ready'')])), ou_offer_url = (\<lambda>_. Reply ''setup_complete''),
     ou_sizing = (\<lambda>_. Reply False), ou_apply_sizing = (\<lambda>_. Reply True), ou_settle = (\<lambda>_. Reply ''skipped'')\<rparr>"

lemma clean_start_eq: "clean_start = clean_receipt 0 ''2026-01-02T03:04:05+00:00'' Approved 0"
  by (simp add: clean_receipt_def clean_start_def sample_receipt_def root_mode_required_phases_def artifact_required_phases_def)

lemma clean_size_field: "ar_apk_size clean_artifact = 1000"
  by code_simp

lemma clean_smooth_receipt:
  "smooth_receipt clean_world clean_start Rootless p = clean_receipt 1 clean_now p (saves p)"
  by (simp add: smooth_receipt_def Let_def clean_world_def clean_receipt_def clean_size_field)
    (simp add: clean_start_def sample_receipt_def clean_size_field)

definition clean_address :: panel_address where
  "clean_address = \<lparr>pa_host = ''192.168.1.5'', pa_port = 8080\<rparr>"

definition clean_plan_of :: frozen_execution where
  "clean_plan_of = \<lparr>fx_pinned = \<lparr>pt_original = clean_address, pt_pinned = clean_address\<rparr>,
     fx_adb_target = \<lparr>at_address = clean_address, at_serial = ''SER-1'', at_model = ''Panel 7'',
       at_primary_abi = ''arm64-v8a'', at_android_sdk = 30\<rparr>,
     fx_descriptor = descriptor_of clean_artifact,
     fx_release = \<lparr>ra_tag = ar_release_tag clean_artifact, ra_version = ar_version_name clean_artifact,
       ra_apk_name = ar_apk_name clean_artifact, ra_apk_url = apk_url (\<lambda>u p. u @ p) clean_start None,
       ra_sha256 = ar_apk_sha256 clean_artifact, ra_descriptor = descriptor_of clean_artifact,
       ra_protocol_min = ar_protocol_min clean_artifact, ra_protocol_max = ar_protocol_max clean_artifact\<rparr>,
     fx_execution_id = take 32 sample_digest\<rparr>"

lemma clean_frozen: "frozen_execution sample_platform (\<lambda>u p. u @ p) clean_start None = Some clean_plan_of"
proof -
  have "bytes_fromhex (replicate 32 (CHR ''b'')) \<noteq> None" "bytes_fromhex sample_digest \<noteq> None" by code_simp+
  then have "execution_id sample_platform clean_start = Some (take 32 sample_digest)"
    by (auto simp: execution_id_def clean_start_def sample_receipt_def sample_sha256)
  moreover have "normalize_address ''192.168.1.5:8080'' = Some clean_address" by code_simp
  ultimately show ?thesis
    by (simp add: frozen_execution_def Let_def pinned_target_def adb_target_of_def clean_plan_of_def)
      (simp add: clean_start_def sample_receipt_def sample_target_def)
qed

lemma clean_job: "smooth_job clean_world clean_start"
proof -
  have m: "clean_moment 0 ''2026-01-02T03:04:05+00:00''" by (simp add: clean_moment_def)
  have "storable sample_platform clean_start"
    unfolding clean_start_eq by (rule clean_storable [OF _ _ m]) (simp_all add: smooth_path_def)
  moreover have "\<not> attempts_exhausted clean_start" "''2026-01-02T03:04:05+00:00'' \<le> clean_now"
    "build_admitted ''1.0.0'' clean_artifact"
    by code_simp+
  ultimately show ?thesis
    by (simp add: smooth_job_def clean_world_def) (simp add: clean_start_eq)
qed

lemma clean_saved: "smooth_saves clean_world clean_start Rootless"
proof -
  have m: "clean_moment 1 clean_now" by (simp add: clean_moment_def)
  have "storable sample_platform (clean_receipt 1 clean_now p (saves p))" if "p \<in> set smooth_path" for p
    by (rule clean_storable [OF that _ m]) (use that in \<open>auto simp: smooth_path_def\<close>)
  moreover have "find (\<lambda>q. saved_at q = saved_at p) smooth_path = Some p" if "p \<in> set smooth_path" for p
    using that by (auto simp: smooth_path_def)
  ultimately show ?thesis
    by (simp add: smooth_saves_def Let_def clean_smooth_receipt) (simp add: clean_world_def clean_time)
qed

lemma clean_panel: "smooth_panel clean_world clean_start Rootless clean_plan_of clean_file"
proof -
  have "async_revalidate_install_target sample_platform (\<lambda>_ _. ResolverFailed)
      \<lparr>pt_original = clean_address, pt_pinned = clean_address\<rparr> = Inr \<lparr>pt_original = clean_address, pt_pinned = clean_address\<rparr>"
    "local_artifact_ok clean_file (take 32 sample_digest) clean_artifact"
    "health_is_installed_app \<lparr>ah_version = ''1.2.3'', ah_package = Some package_id_current\<rparr>
       (ar_version_name clean_artifact) (ar_package_id clean_artifact)"
    "home_ui_allows_setup (Some [(''state'', PStr ''ready'')])"
    by code_simp+
  then show ?thesis using clean_frozen
    by (simp add: smooth_panel_def clean_plan_of_def same_physical_target_def)
      (simp add: clean_world_def clean_start_def sample_receipt_def)
qed

lemma clean_smooth: "smooth clean_world clean_start Rootless clean_plan_of clean_file"
  using clean_job clean_saved clean_panel
  by (simp add: smooth_def smooth_calls_def) (simp add: clean_world_def)

end
