(* ===== verification/Executor_Properties.thy ===== *)
theory Executor_Properties
  imports Executor_Sample
begin

text \<open>
  The properties of the installer's worker, each with the concrete install of
  \<open>Executor_Sample\<close> where it has a hypothesis.
\<close>

section \<open>What a run may change\<close>


text \<open>C7. Safety. One run of a worker asks the package manager to install at most once and copies
  the application to the panel at most once, whatever fails and however often the loop goes
  round.\<close>

theorem changes_once:
  "made installs (bn_log (snd (async_run E fuel job_id (b\<lparr>bn_log := []\<rparr>)))) \<le> 1
   \<and> made copies (bn_log (snd (async_run E fuel job_id (b\<lparr>bn_log := []\<rparr>)))) \<le> 1"
  using once_in_run [OF once_installs, of E fuel job_id "b\<lparr>bn_log := []\<rparr>"]
    once_in_run [OF once_copies, of E fuel job_id "b\<lparr>bn_log := []\<rparr>"]
  by simp

text \<open>Safety. A worker moves a job into recovery only right after it removed the local file
  under the name the durable receipt derives, and read the receipt again: a job that waits for an
  administrator holds no file.\<close>

theorem recovery_releases_file:
  "custody_released (ou_platform E) (bn_log (snd (async_run E fuel job_id (b\<lparr>bn_log := []\<rparr>))))"
  using custody.run_log [where E = E and fuel = fuel and job_id = job_id and b = "b\<lparr>bn_log := []\<rparr>"]
  by (simp add: stays_released_def)

section \<open>How a run ends\<close>


text \<open>The bench at the start of the clean install.\<close>

definition clean_bench :: bench where
  "clean_bench = \<lparr>bn_jobs = unread sample_platform clean_start, bn_time = 0, bn_log = []\<rparr>"

lemma clean_run: "11 \<le> fuel \<Longrightarrow> \<exists>l. async_run clean_world fuel (rc_job_id clean_start) clean_bench
   = (RunFinished (done_worker clean_world clean_start Rootless clean_file),
      smooth_bench clean_world (smooth_receipt clean_world clean_start Rootless HealthyUnclaimed) 53 l) \<and> refusals l = 0"
  using smooth_run [OF clean_smooth] by (simp add: clean_bench_def) (simp add: clean_world_def)




section \<open>What a healthy receipt proves\<close>

text \<open>C12. Safety. The health phase gives a receipt to the setup flow only after the panel answered,
  during this phase, as the application and version of the plan, and right after that reported a
  home screen setup may continue from.\<close>

theorem healthy_means_proven:
  assumes "run_phase E w b = (Inr w', b')" "rc_phase (wk_receipt w) = HealthCheck"
    "\<not> rc_cancel_requested (wk_receipt w)" "rc_phase (wk_receipt w') = HealthyUnclaimed"
  shows "\<exists>t \<ge> bn_time b. proven_at E (rc_artifact (wk_receipt w)) t"
  using assms by (rule health_phase_proven)

theorem healthy_means_proven_witness:
  "\<exists>t \<ge> 42. proven_at clean_world clean_artifact t"
proof -
  obtain l where "run_phase clean_world (at_phase clean_world clean_start Rootless HealthCheck (Some clean_file) None)
      (smooth_bench clean_world (smooth_receipt clean_world clean_start Rootless HealthCheck) (saved_at HealthCheck + 1) [])
     = (Inr (at_phase clean_world clean_start Rootless (after HealthCheck) (Some clean_file) None),
        smooth_bench clean_world (smooth_receipt clean_world clean_start Rootless (after HealthCheck))
          (saved_at (after HealthCheck) + 1) l)"
    using phase_health [OF clean_smooth, of None] unfolding runs_on_def by blast
  from healthy_means_proven [OF this] show ?thesis by (simp add: clean_start_def)
qed

end
