(* ===== verification/Install_Finalizer.thy ===== *)
theory Install_Finalizer
  imports Executor_Runs
begin

text \<open>
  The rest of install\_executor.py: who may turn a healthy receipt into an entry, the proof that
  comes first, the settling of a receipt whose entry exists, the table of workers and the resumption
  of jobs after a restart.

  The awaited calls of one coroutine run in the world of \<open>Executor_World\<close>.  The tables of the
  executor (\<open>desk\<close>) are shared between coroutines and only ever change between two awaits; each such
  stretch of code is one function on the desk here, and \<open>Finalizer_Desk\<close> interleaves them.
\<close>

section \<open>Verdicts\<close>

datatype finalization_outcome = FinVerified | FinBusy | FinRetry | FinRecoveryRequired | FinReceiptError

record finalization_result =
  fr_outcome :: finalization_outcome
  fr_health :: "app_health option"

definition verdict :: "finalization_outcome \<Rightarrow> finalization_result" where
  "verdict o' = \<lparr>fr_outcome = o', fr_health = None\<rparr>"

definition finalizer_id :: "string \<Rightarrow> bool" where
  "finalizer_id s \<longleftrightarrow> 1 \<le> length s \<and> length s \<le> 128
     \<and> list_all (\<lambda>c. is_alnum c \<or> c = CHR ''_'' \<or> c = CHR ''-'') s"

section \<open>Proving a healthy receipt again\<close>

text \<open>\<open>except Exception\<close>: everything but a cancellation.\<close>

definition ordinary :: "(exc \<Rightarrow> 'a work) \<Rightarrow> exc \<Rightarrow> 'a work option" where
  "ordinary h e = (if e = TaskCancelled then None else Some (h e))"

definition reject_healthy :: "outside \<Rightarrow> receipt \<Rightarrow> string \<Rightarrow> finalization_result work" where
  "reject_healthy E r subcode =
     attempt (job_transition E (rc_job_id r) (rc_revision r)
         ((move_to RecoveryRequired)\<lparr>ta_result_code := Some VerificationRequired,
            ta_result_subcode := Some subcode\<rparr>))
       (ordinary (\<lambda>_. return_work (verdict FinReceiptError)))
       (\<lambda>_. return_work (verdict FinRecoveryRequired))"

text \<open>The panel's own answers, once its address, credential and installed package are proven.\<close>

definition reverify_home :: "outside \<Rightarrow> receipt \<Rightarrow> app_health \<Rightarrow> finalization_result work" where
  "reverify_home E r health =
     attempt (read_home_ui E)
       (\<lambda>e. case e of CannotConnect \<Rightarrow> Some (return_work (verdict FinRetry))
          | InvalidResponse \<Rightarrow> Some (reject_healthy E r ''home_ui:invalid_response'')
          | _ \<Rightarrow> None)
       (\<lambda>home_ui. if home_ui_allows_setup home_ui
          then return_work \<lparr>fr_outcome = FinVerified, fr_health = Some health\<rparr>
          else reject_healthy E r ''home_ui:not_ready'')"

definition reverify_health :: "outside \<Rightarrow> receipt \<Rightarrow> finalization_result work" where
  "reverify_health E r =
     attempt (read_health E)
       (\<lambda>e. case e of CannotConnect \<Rightarrow> Some (return_work (verdict FinRetry))
          | InvalidResponse \<Rightarrow> Some (reject_healthy E r ''health:invalid_response'')
          | _ \<Rightarrow> None)
       (\<lambda>health. if health_is_installed_app health (ar_version_name (rc_artifact r)) (ar_package_id (rc_artifact r))
          then reverify_home E r health
          else reject_healthy E r ''health:identity_mismatch'')"

definition reverify_target :: "outside \<Rightarrow> receipt \<Rightarrow> string \<Rightarrow> finalization_result work" where
  "reverify_target E r stored_root_mode =
     sequel (or_other (adb_target_of r)) (\<lambda>target.
     attempt (sequel (or_other (root_mode_of_value stored_root_mode)) (\<lambda>mode.
              ask E TargetVerified (\<lambda>t. outcome AdbError (ou_verify E t))))
       (\<lambda>e. case e of
            AdbError c \<Rightarrow> Some (if c = TargetUnreachable then return_work (verdict FinRetry)
              else reject_healthy E r (result_subcode e))
          | _ \<Rightarrow> None)
       (\<lambda>_. reverify_health E r))"

definition reverify_credential :: "outside \<Rightarrow> receipt \<Rightarrow> finalization_result work" where
  "reverify_credential E r =
     attempt (ask E CredentialRead (\<lambda>t. outcome (\<lambda>_. CredentialError) (ou_credential E t)))
       (ordinary (\<lambda>e. reject_healthy E r (if e = CredentialError then result_subcode e
          else ''finalization:credential_error'')))
       (\<lambda>generation.
          if generation \<noteq> rc_adb_credential_id r then reject_healthy E r ''finalization:credential_changed''
          else (case rc_preflight_root_mode r of
              None \<Rightarrow> reject_healthy E r ''finalization:root_mode_missing''
            | Some stored \<Rightarrow> reverify_target E r stored))"

definition async_reverify :: "outside \<Rightarrow> receipt \<Rightarrow> finalization_result work" where
  "async_reverify E r =
     attempt (sequel (or_other (pinned_target r)) (\<lambda>pinned.
              ask E Revalidated (\<lambda>t. map_sum network_exc id
                (async_revalidate_install_target (ou_platform E) (ou_resolver E t) pinned))))
       (\<lambda>e. case e of
            NetworkError c \<Rightarrow> Some (if c \<in> {ResolutionFailed, ResolutionTimeout}
              then return_work (verdict FinRetry) else reject_healthy E r (result_subcode e))
          | _ \<Rightarrow> None)
       (\<lambda>_. reverify_credential E r)"

text \<open>
  The body of \<open>async_verify_finalization\<close> between the lease's reservation and its \<open>finally\<close>.
  \<open>requested\<close> is the lease's release flag when the receipt has been read.
\<close>

definition prove_receipt :: "outside \<Rightarrow> bool \<Rightarrow> receipt \<Rightarrow> finalization_result work" where
  "prove_receipt E requested r =
     (if rc_phase r \<noteq> HealthyUnclaimed \<or> requested then return_work (verdict FinBusy) else async_reverify E r)"

definition failed_proof :: "exc \<Rightarrow> finalization_result" where
  "failed_proof e = (case e of JobError _ \<Rightarrow> verdict FinReceiptError | _ \<Rightarrow> verdict FinRetry)"

definition verification :: "outside \<Rightarrow> string \<Rightarrow> bool \<Rightarrow> finalization_result work" where
  "verification E job_id requested =
     attempt (sequel (job_get E job_id) (prove_receipt E requested))
       (ordinary (\<lambda>e. return_work (failed_proof e))) return_work"

section \<open>Leases\<close>

record lease =
  ls_owner :: string
  ls_verifying :: bool
  ls_release_requested :: bool

text \<open>
  A coroutine holds on to the lease object it reserved, whatever the table says meanwhile, so a
  lease is an object under a reference.  \<open>dk_workers\<close> is \<open>_tasks\<close>, \<open>dk_barred\<close> is
  \<open>_nonrestartable_workers\<close>.
\<close>

record desk =
  dk_finalizers :: "string \<Rightarrow> nat option"
  dk_leases :: "nat \<Rightarrow> lease option"
  dk_next :: nat
  dk_workers :: "string \<Rightarrow> nat option"
  dk_next_worker :: nat
  dk_barred :: "string set"

definition fresh_desk :: desk where
  "fresh_desk = \<lparr>dk_finalizers = Map.empty, dk_leases = Map.empty, dk_next = 0, dk_workers = Map.empty,
     dk_next_worker = 0, dk_barred = {}\<rparr>"

definition lease_at :: "desk \<Rightarrow> string \<Rightarrow> (nat \<times> lease) option" where
  "lease_at d job = (case dk_finalizers d job of None \<Rightarrow> None
     | Some i \<Rightarrow> map_option (Pair i) (dk_leases d i))"

definition update_lease :: "nat \<Rightarrow> (lease \<Rightarrow> lease) \<Rightarrow> desk \<Rightarrow> desk" where
  "update_lease i f d = d\<lparr>dk_leases := (dk_leases d)(i := map_option f (dk_leases d i))\<rparr>"

definition new_lease :: "string \<Rightarrow> string \<Rightarrow> bool \<Rightarrow> desk \<Rightarrow> desk" where
  "new_lease job owner verifying d = d\<lparr>dk_finalizers := (dk_finalizers d)(job \<mapsto> dk_next d),
     dk_leases := (dk_leases d)(dk_next d \<mapsto> \<lparr>ls_owner = owner, ls_verifying = verifying, ls_release_requested = False\<rparr>),
     dk_next := dk_next d + 1\<rparr>"

definition release_finalizer :: "string \<Rightarrow> string \<Rightarrow> desk \<Rightarrow> desk" where
  "release_finalizer job owner d = (case lease_at d job of
     None \<Rightarrow> d
   | Some (i, l) \<Rightarrow>
       if ls_owner l \<noteq> owner then d
       else if ls_verifying l then update_lease i (ls_release_requested_update (\<lambda>_. True)) d
       else d\<lparr>dk_finalizers := (dk_finalizers d)(job := None)\<rparr>)"

definition is_finalizer_active :: "desk \<Rightarrow> string \<Rightarrow> bool" where
  "is_finalizer_active d job \<longleftrightarrow> dk_finalizers d job \<noteq> None"

text \<open>\<open>_async_acquire_finalizer\<close> once the receipt is read: the lease, if it is granted.\<close>

definition acquire_finalizer :: "string \<Rightarrow> string \<Rightarrow> receipt \<Rightarrow> desk \<Rightarrow> bool \<times> desk" where
  "acquire_finalizer job owner r d =
     (if rc_phase r \<noteq> HealthyUnclaimed then (False, d)
      else case lease_at d job of
          None \<Rightarrow> (True, new_lease job owner False d)
        | Some (i, l) \<Rightarrow> (ls_owner l = owner, d))"

text \<open>The start of \<open>async_verify_finalization\<close>: a verdict at once, or the reserved lease.\<close>

definition begin_verification :: "string \<Rightarrow> string \<Rightarrow> desk \<Rightarrow> (finalization_result + nat) \<times> desk" where
  "begin_verification job owner d =
     (if \<not> finalizer_id owner then (Inl (verdict FinReceiptError), d)
      else case lease_at d job of
          None \<Rightarrow> (Inr (dk_next d), new_lease job owner True d)
        | Some (i, l) \<Rightarrow>
            if ls_owner l \<noteq> owner \<or> ls_verifying l then (Inl (verdict FinBusy), d)
            else (Inr i, update_lease i (ls_verifying_update (\<lambda>_. True)) d))"

definition asked_to_release :: "desk \<Rightarrow> nat \<Rightarrow> bool" where
  "asked_to_release d i = (case dk_leases d i of None \<Rightarrow> False | Some l \<Rightarrow> ls_release_requested l)"

text \<open>Its \<open>finally\<close>; \<open>keep\<close> says that the verdict is \<open>VERIFIED\<close>.\<close>

definition end_verification :: "string \<Rightarrow> string \<Rightarrow> nat \<Rightarrow> bool \<Rightarrow> desk \<Rightarrow> desk" where
  "end_verification job owner i keep d =
     (let d' = update_lease i (ls_verifying_update (\<lambda>_. False)) d
      in if \<not> keep \<or> asked_to_release d' i then release_finalizer job owner d' else d')"

section \<open>Settling a receipt whose entry exists\<close>

text \<open>A flow that has just added the entry, or the entry's own first health read after a restart.\<close>

datatype settlement = EntryAdded string | EntryLoaded string app_health

definition consumed_as :: "string \<Rightarrow> transition_args" where
  "consumed_as entry_id = (move_to Consumed)\<lparr>ta_result_code := Some EntryCreated,
     ta_consumed_entry_id := Some entry_id\<rparr>"

definition settled_as :: "settlement \<Rightarrow> receipt \<Rightarrow> transition_args" where
  "settled_as s r = (case s of
     EntryAdded entry_id \<Rightarrow> consumed_as entry_id
   | EntryLoaded entry_id health \<Rightarrow>
       if health_is_installed_app health (ar_version_name (rc_artifact r)) (ar_package_id (rc_artifact r))
       then consumed_as entry_id
       else (move_to RecoveryRequired)\<lparr>ta_result_code := Some VerificationRequired,
         ta_result_subcode := Some ''finalization:entry_health_mismatch''\<rparr>)"

text \<open>What follows the acquired lease; the entries told that their installation is finished.\<close>

definition settle :: "outside \<Rightarrow> settlement \<Rightarrow> string \<Rightarrow> receipt \<Rightarrow> string list work" where
  "settle E s job_id r =
     sequel (job_transition E job_id (rc_revision r) (settled_as s r)) (\<lambda>_.
     return_work (case ta_consumed_entry_id (settled_as s r) of None \<Rightarrow> [] | Some entry_id \<Rightarrow> [entry_id]))"

definition setup_owner :: "string \<Rightarrow> string" where
  "setup_owner entry_id = ''setup_'' @ entry_id"

text \<open>The receipt an entry at this address may be the result of.\<close>

definition unclaimed_at :: "string \<Rightarrow> receipt list \<Rightarrow> string option" where
  "unclaimed_at address rs = map_option rc_job_id
     (find (\<lambda>r. rc_phase r = HealthyUnclaimed \<and> tg_address (rc_target r) = address) rs)"

section \<open>Workers\<close>

definition settled_phase :: "receipt \<Rightarrow> bool" where
  "settled_phase r \<longleftrightarrow> is_terminal r \<or> rc_phase r = HealthyUnclaimed"

definition start_worker :: "string \<Rightarrow> desk \<Rightarrow> nat option \<times> desk" where
  "start_worker job d = (Some (dk_next_worker d),
     d\<lparr>dk_workers := (dk_workers d)(job \<mapsto> dk_next_worker d), dk_next_worker := dk_next_worker d + 1\<rparr>)"

text \<open>\<open>async_ensure_job\<close>: the worker that runs, or one that starts, or none.\<close>

definition async_ensure_job :: "outside \<Rightarrow> string \<Rightarrow> desk \<Rightarrow> (nat option \<times> desk) work" where
  "async_ensure_job E job d = (case dk_workers d job of
     Some t \<Rightarrow> return_work (Some t, d)
   | None \<Rightarrow>
       if job \<in> dk_barred d then return_work (None, d)
       else sequel (job_get E job) (\<lambda>r.
         return_work (if settled_phase r then (None, d) else start_worker job d)))"

text \<open>\<open>failed\<close>: the task was cancelled or ended in an exception.\<close>

definition worker_done :: "string \<Rightarrow> nat \<Rightarrow> bool \<Rightarrow> desk \<Rightarrow> desk" where
  "worker_done job t failed d =
     (let d' = (if dk_workers d job = Some t then d\<lparr>dk_workers := (dk_workers d)(job := None)\<rparr> else d)
      in if failed then d'\<lparr>dk_barred := insert job (dk_barred d')\<rparr> else d')"

section \<open>After a restart\<close>

definition safe_resume_phases :: "install_phase set" where
  "safe_resume_phases = {Approved, Authorizing, Preflight, Downloading, ArtifactReady, Revalidating, Installed, HealthCheck}"

fun paused :: "exc \<Rightarrow> bool" where
  "paused (PauseJob _) = True"
| "paused _ = False"

text \<open>A receipt in an ambiguous phase is claimed, and once more as it is now if another writer was first.\<close>

definition reclaim :: "outside \<Rightarrow> receipt \<Rightarrow> unit work" where
  "reclaim E r =
     attempt (worker_claim E r)
       (\<lambda>e. if paused e then Some (return_work ())
          else if e = JobError RevisionError
          then Some (sequel (job_get E (rc_job_id r)) (\<lambda>current.
            if \<not> is_terminal current \<and> rc_phase current \<in> restart_ambiguous_phases
            then attempt (worker_claim E current)
              (\<lambda>e. if paused e \<or> e = JobError RevisionError then Some (return_work ()) else None)
              (\<lambda>_. return_work ())
            else return_work ()))
          else None)
       (\<lambda>_. return_work ())"

text \<open>\<open>meanwhile\<close> is what other coroutines did to the desk before each of its uses.\<close>

fun resume_jobs ::
  "outside \<Rightarrow> (nat \<Rightarrow> desk \<Rightarrow> desk) \<Rightarrow> receipt list \<Rightarrow> desk \<Rightarrow> (string list \<times> desk) work" where
  "resume_jobs E meanwhile [] d = return_work ([], d)"
| "resume_jobs E meanwhile (r # rs) d =
     (if settled_phase r then resume_jobs E meanwhile rs d
      else if rc_phase r \<in> restart_ambiguous_phases then sequel (reclaim E r) (\<lambda>_. resume_jobs E meanwhile rs d)
      else if rc_phase r \<notin> safe_resume_phases then resume_jobs E meanwhile rs d
      else (\<lambda>b. sequel (async_ensure_job E (rc_job_id r) (meanwhile (bn_time b) d)) (\<lambda>(task, d1).
        sequel (resume_jobs E meanwhile rs d1) (\<lambda>(jobs, d2).
        return_work (if task = None then jobs else rc_job_id r # jobs, d2))) b))"

definition async_resume_loaded_jobs ::
  "outside \<Rightarrow> (nat \<Rightarrow> desk \<Rightarrow> desk) \<Rightarrow> desk \<Rightarrow> (string list \<times> desk) work" where
  "async_resume_loaded_jobs E meanwhile d = sequel (job_list E) (\<lambda>rs. resume_jobs E meanwhile rs d)"

text \<open>The execution ids whose files survive the first use of the executor in a process.\<close>

definition live_executions :: "platform \<Rightarrow> receipt list \<Rightarrow> string list option" where
  "live_executions P rs = those (map (execution_id P) (filter (\<lambda>r. \<not> is_terminal r) rs))"

end
