(* ===== verification/Finalizer_Desk.thy ===== *)
theory Finalizer_Desk
  imports Install_Finalizer
begin

text \<open>
  The executor's tables under every interleaving of the coroutines that use them: verifications,
  settlements, releases and workers.  A step is the code of one coroutine between two awaits; what
  an awaited call answered is part of the step.  \<open>of_entitled\<close> only records who was told \<open>VERIFIED\<close>
  and has neither given the lease back nor asked again.
\<close>

section \<open>Steps\<close>

record visit =
  vs_job :: string
  vs_owner :: string
  vs_lease :: nat
  vs_proving :: bool

record taker =
  tk_job :: string
  tk_owner :: string
  tk_held :: bool

record office =
  of_desk :: desk
  of_visits :: "nat \<Rightarrow> visit option"
  of_takers :: "nat \<Rightarrow> taker option"
  of_entitled :: "(string \<times> string) set"
  of_running :: "(string \<times> nat) set"

definition empty_office :: office where
  "empty_office = \<lparr>of_desk = fresh_desk, of_visits = Map.empty, of_takers = Map.empty, of_entitled = {}, of_running = {}\<rparr>"

datatype desk_event =
    AskVerify nat string string
  | ReceiptRead nat "exc + receipt"
  | Proved nat "exc + finalization_result"
  | AskSettle nat string string
  | TakenUp nat receipt
  | TakerEnds nat
  | GiveBack string string
  | EnsureWorker string receipt
  | WorkerGone string nat bool

definition ask_verify :: "nat \<Rightarrow> string \<Rightarrow> string \<Rightarrow> office \<Rightarrow> office" where
  "ask_verify v job owner w = (case begin_verification job owner (of_desk w) of
     (Inl result, d) \<Rightarrow> w\<lparr>of_desk := d\<rparr>
   | (Inr i, d) \<Rightarrow> w\<lparr>of_desk := d,
       of_visits := (of_visits w)(v \<mapsto> \<lparr>vs_job = job, vs_owner = owner, vs_lease = i, vs_proving = False\<rparr>),
       of_entitled := of_entitled w - {(job, owner)}\<rparr>)"

text \<open>The coroutine leaves with a verdict, or with \<open>None\<close> when it was cancelled.\<close>

definition verified :: "finalization_result option \<Rightarrow> bool" where
  "verified result \<longleftrightarrow> (case result of None \<Rightarrow> False | Some x \<Rightarrow> fr_outcome x = FinVerified)"

definition leave :: "nat \<Rightarrow> visit \<Rightarrow> finalization_result option \<Rightarrow> office \<Rightarrow> office" where
  "leave v x result w = w\<lparr>of_desk := end_verification (vs_job x) (vs_owner x) (vs_lease x) (verified result) (of_desk w),
     of_visits := (of_visits w)(v := None),
     of_entitled := (if verified result \<and> \<not> asked_to_release (of_desk w) (vs_lease x)
       then insert (vs_job x, vs_owner x) (of_entitled w) else of_entitled w)\<rparr>"

definition receipt_read :: "nat \<Rightarrow> visit \<Rightarrow> exc + receipt \<Rightarrow> office \<Rightarrow> office" where
  "receipt_read v x answer w = (case answer of
     Inl e \<Rightarrow> leave v x (if e = TaskCancelled then None else Some (failed_proof e)) w
   | Inr r \<Rightarrow> if rc_phase r \<noteq> HealthyUnclaimed \<or> asked_to_release (of_desk w) (vs_lease x)
       then leave v x (Some (verdict FinBusy)) w
       else w\<lparr>of_visits := (of_visits w)(v \<mapsto> x\<lparr>vs_proving := True\<rparr>)\<rparr>)"

definition proved :: "nat \<Rightarrow> visit \<Rightarrow> exc + finalization_result \<Rightarrow> office \<Rightarrow> office" where
  "proved v x answer w = leave v x (case answer of
     Inl e \<Rightarrow> if e = TaskCancelled then None else Some (failed_proof e) | Inr result \<Rightarrow> Some result) w"

definition give_back :: "string \<Rightarrow> string \<Rightarrow> office \<Rightarrow> office" where
  "give_back job owner w = w\<lparr>of_desk := release_finalizer job owner (of_desk w),
     of_entitled := of_entitled w - {(job, owner)}\<rparr>"

definition taker_ends :: "nat \<Rightarrow> taker \<Rightarrow> office \<Rightarrow> office" where
  "taker_ends c t w = give_back (tk_job t) (tk_owner t) (w\<lparr>of_takers := (of_takers w)(c := None)\<rparr>)"

definition taken_up :: "nat \<Rightarrow> taker \<Rightarrow> receipt \<Rightarrow> office \<Rightarrow> office" where
  "taken_up c t r w = (case acquire_finalizer (tk_job t) (tk_owner t) r (of_desk w) of (granted, d) \<Rightarrow>
     let w' = w\<lparr>of_desk := d\<rparr>
     in if granted \<and> finalizer_id (tk_owner t) then w'\<lparr>of_takers := (of_takers w)(c \<mapsto> t\<lparr>tk_held := True\<rparr>)\<rparr>
        else taker_ends c t w)"

definition ensure_worker :: "string \<Rightarrow> receipt \<Rightarrow> office \<Rightarrow> office" where
  "ensure_worker job r w = (if dk_workers (of_desk w) job \<noteq> None \<or> job \<in> dk_barred (of_desk w) \<or> settled_phase r then w
     else case start_worker job (of_desk w) of (task, d) \<Rightarrow>
       w\<lparr>of_desk := d, of_running := of_running w \<union> (\<lambda>t. (job, t)) ` set_option task\<rparr>)"

definition worker_gone :: "string \<Rightarrow> nat \<Rightarrow> bool \<Rightarrow> office \<Rightarrow> office" where
  "worker_gone job t failed w = (if (job, t) \<notin> of_running w then w
     else w\<lparr>of_desk := worker_done job t failed (of_desk w), of_running := of_running w - {(job, t)}\<rparr>)"

text \<open>An event of a coroutine that is not there changes nothing.\<close>

fun react :: "desk_event \<Rightarrow> office \<Rightarrow> office" where
  "react (AskVerify v job owner) w = (case of_visits w v of Some x \<Rightarrow> w | None \<Rightarrow> ask_verify v job owner w)"
| "react (ReceiptRead v answer) w = (case of_visits w v of None \<Rightarrow> w
     | Some x \<Rightarrow> if vs_proving x then w else receipt_read v x answer w)"
| "react (Proved v answer) w = (case of_visits w v of None \<Rightarrow> w
     | Some x \<Rightarrow> if vs_proving x then proved v x answer w else w)"
| "react (AskSettle c job owner) w = (case of_takers w c of Some t \<Rightarrow> w
     | None \<Rightarrow> w\<lparr>of_takers := (of_takers w)(c \<mapsto> \<lparr>tk_job = job, tk_owner = owner, tk_held = False\<rparr>)\<rparr>)"
| "react (TakenUp c r) w = (case of_takers w c of None \<Rightarrow> w
     | Some t \<Rightarrow> if tk_held t then w else taken_up c t r w)"
| "react (TakerEnds c) w = (case of_takers w c of None \<Rightarrow> w | Some t \<Rightarrow> taker_ends c t w)"
| "react (GiveBack job owner) w = give_back job owner w"
| "react (EnsureWorker job r) w = ensure_worker job r w"
| "react (WorkerGone job t failed) w = worker_gone job t failed w"

inductive office_reachable :: "office \<Rightarrow> bool" where
  opened: "office_reachable empty_office"
| reacted: "office_reachable w \<Longrightarrow> office_reachable (react e w)"

section \<open>The lease of a job\<close>

definition desk_ok :: "desk \<Rightarrow> bool" where
  "desk_ok d \<longleftrightarrow> (\<forall>job i. dk_finalizers d job = Some i \<longrightarrow> dk_leases d i \<noteq> None)
     \<and> (\<forall>i. dk_leases d i \<noteq> None \<longrightarrow> i < dk_next d)
     \<and> (\<forall>job job' i. dk_finalizers d job = Some i \<longrightarrow> dk_finalizers d job' = Some i \<longrightarrow> job = job')"

lemma desk_okD:
  assumes "desk_ok d"
  shows "dk_finalizers d job = Some i \<Longrightarrow> \<exists>l. dk_leases d i = Some l \<and> i < dk_next d"
    "dk_finalizers d job = Some i \<Longrightarrow> dk_finalizers d job' = Some i \<Longrightarrow> job = job'"
  using assms by (fastforce simp: desk_ok_def)+

lemma lease_at_Some: "lease_at d job = Some (i, l) \<longleftrightarrow> dk_finalizers d job = Some i \<and> dk_leases d i = Some l"
  by (auto simp: lease_at_def split: option.splits)

lemma lease_at_None: "desk_ok d \<Longrightarrow> lease_at d job = None \<longleftrightarrow> dk_finalizers d job = None"
  by (auto simp: lease_at_def desk_ok_def split: option.splits)

lemma lease_at_inj: "desk_ok d \<Longrightarrow> lease_at d job = Some (i, l) \<Longrightarrow> lease_at d job' = Some (i, l') \<Longrightarrow> job = job'"
  by (auto simp: lease_at_Some dest: desk_okD)

lemma lease_old: "desk_ok d \<Longrightarrow> lease_at d job = Some (i, l) \<Longrightarrow> i < dk_next d"
  by (auto simp: lease_at_Some dest: desk_okD(1))

lemma update_lease_ok [simp]: "desk_ok d \<Longrightarrow> desk_ok (update_lease i f d)"
  by (auto simp: desk_ok_def update_lease_def)

lemma new_lease_ok: "desk_ok d \<Longrightarrow> desk_ok (new_lease job owner v d)"
  unfolding desk_ok_def new_lease_def by (auto simp: less_Suc_eq)

lemma lease_at_update:
  "lease_at (update_lease i f d) job = map_option (\<lambda>(j, l). (j, if j = i then f l else l)) (lease_at d job)"
  by (auto simp: lease_at_def update_lease_def option.map_comp comp_def split: option.split)

lemma lease_at_new:
  assumes "desk_ok d"
  shows "lease_at (new_lease job owner v d) job' = (if job' = job
    then Some (dk_next d, \<lparr>ls_owner = owner, ls_verifying = v, ls_release_requested = False\<rparr>) else lease_at d job')"
  using desk_okD(1) [OF assms, of job'] by (auto simp: lease_at_def new_lease_def split: option.split)

lemma release_ok [simp]: "desk_ok d \<Longrightarrow> desk_ok (release_finalizer job owner d)"
  by (auto simp: release_finalizer_def desk_ok_def update_lease_def split: option.split)

lemma lease_at_release:
  assumes "desk_ok d"
  shows "lease_at (release_finalizer job owner d) job' = (case lease_at d job' of
     None \<Rightarrow> None
   | Some (i, l) \<Rightarrow> if job' \<noteq> job \<or> ls_owner l \<noteq> owner then Some (i, l)
       else if ls_verifying l then Some (i, l\<lparr>ls_release_requested := True\<rparr>) else None)"
proof (cases "lease_at d job")
  case None
  then show ?thesis by (auto simp: release_finalizer_def split: option.split)
next
  case (Some p)
  obtain i l where p: "lease_at d job = Some (i, l)" using Some by (cases p) simp
  have other: "j \<noteq> i" if "lease_at d job' = Some (j, l')" "job' \<noteq> job" for j l'
    using lease_at_inj [OF assms, of job j _ job'] p that by auto
  have gone: "lease_at (d\<lparr>dk_finalizers := (dk_finalizers d)(job := None)\<rparr>) job'
      = (if job' = job then None else lease_at d job')"
    by (auto simp: lease_at_def split: option.split)
  show ?thesis
    using p other by (auto simp: release_finalizer_def lease_at_update gone split: option.split)
qed

section \<open>What holds under every interleaving\<close>

definition visit_at :: "office \<Rightarrow> string \<Rightarrow> nat \<Rightarrow> visit \<Rightarrow> bool" where
  "visit_at w job v x \<longleftrightarrow> of_visits w v = Some x \<and> vs_job x = job"

definition holder_at :: "office \<Rightarrow> string \<Rightarrow> string \<Rightarrow> bool" where
  "holder_at w job owner \<longleftrightarrow> (job, owner) \<in> of_entitled w
     \<or> (\<exists>c t. of_takers w c = Some t \<and> tk_job t = job \<and> tk_owner t = owner \<and> tk_held t)"

text \<open>What holds of one job.\<close>

definition job_kept :: "office \<Rightarrow> string \<Rightarrow> bool" where
  "job_kept w job \<longleftrightarrow>
     (\<forall>v x. visit_at w job v x \<longrightarrow> (\<exists>l. lease_at (of_desk w) job = Some (vs_lease x, l) \<and> ls_owner l = vs_owner x \<and> ls_verifying l))
   \<and> (\<forall>v x v' x'. visit_at w job v x \<longrightarrow> visit_at w job v' x' \<longrightarrow> v = v')
   \<and> (\<forall>owner. (job, owner) \<in> of_entitled w \<longrightarrow> (\<exists>i l. lease_at (of_desk w) job = Some (i, l) \<and> ls_owner l = owner \<and> \<not> ls_verifying l))
   \<and> (case lease_at (of_desk w) job of None \<Rightarrow> True
      | Some (i, l) \<Rightarrow> if ls_verifying l then \<exists>v x. visit_at w job v x
          else \<not> ls_release_requested l \<and> holder_at w job (ls_owner l))"

definition workers_kept :: "office \<Rightarrow> bool" where
  "workers_kept w \<longleftrightarrow> (\<forall>job t. (job, t) \<in> of_running w \<longrightarrow> dk_workers (of_desk w) job = Some t \<and> job \<notin> dk_barred (of_desk w))"

definition office_ok :: "office \<Rightarrow> bool" where
  "office_ok w \<longleftrightarrow> desk_ok (of_desk w) \<and> (\<forall>job. job_kept w job) \<and> workers_kept w"


lemma job_kept_weak:
  assumes "job_kept w job"
    and "lease_at (of_desk w') job = lease_at (of_desk w) job"
    and "\<And>v x. visit_at w' job v x \<longleftrightarrow> visit_at w job v x"
    and "\<And>owner. (job, owner) \<in> of_entitled w' \<longleftrightarrow> (job, owner) \<in> of_entitled w"
    and "\<And>i l. lease_at (of_desk w) job = Some (i, l) \<Longrightarrow> \<not> ls_verifying l \<Longrightarrow> holder_at w job (ls_owner l)
      \<Longrightarrow> holder_at w' job (ls_owner l)"
  shows "job_kept w' job"
  using assms(1) unfolding job_kept_def assms(2) assms(3) assms(4)
  by (auto split: option.splits if_splits intro: assms(5))

lemma job_kept_cong:
  assumes "job_kept w job"
    and "lease_at (of_desk w') job = lease_at (of_desk w) job"
    and "\<And>v x. visit_at w' job v x \<longleftrightarrow> visit_at w job v x"
    and "\<And>owner. (job, owner) \<in> of_entitled w' \<longleftrightarrow> (job, owner) \<in> of_entitled w"
    and "\<And>owner. holder_at w job owner \<Longrightarrow> holder_at w' job owner"
  shows "job_kept w' job"
  using assms(1) unfolding job_kept_def assms(2) assms(3) assms(4)
  by (auto split: option.splits if_splits intro: assms(5))

lemma job_keptD:
  assumes "job_kept w job"
  shows "visit_at w job v x \<Longrightarrow> \<exists>l. lease_at (of_desk w) job = Some (vs_lease x, l) \<and> ls_owner l = vs_owner x \<and> ls_verifying l"
    "visit_at w job v x \<Longrightarrow> visit_at w job v' x' \<Longrightarrow> v = v'"
    "(job, owner) \<in> of_entitled w \<Longrightarrow> \<exists>i l. lease_at (of_desk w) job = Some (i, l) \<and> ls_owner l = owner \<and> \<not> ls_verifying l"
    "lease_at (of_desk w) job = Some (i, l) \<Longrightarrow> ls_verifying l \<Longrightarrow> \<exists>v x. visit_at w job v x"
    "lease_at (of_desk w) job = Some (i, l) \<Longrightarrow> \<not> ls_verifying l \<Longrightarrow> \<not> ls_release_requested l \<and> holder_at w job (ls_owner l)"
  using assms unfolding job_kept_def by (blast, blast, blast, auto)

lemma fresh_kept: "office_ok empty_office"
  by (auto simp: office_ok_def empty_office_def fresh_desk_def desk_ok_def job_kept_def workers_kept_def visit_at_def
      lease_at_def)

lemma give_back_fields [simp]:
  "of_visits (give_back job owner w) = of_visits w" "of_takers (give_back job owner w) = of_takers w"
  "of_entitled (give_back job owner w) = of_entitled w - {(job, owner)}" "of_running (give_back job owner w) = of_running w"
  "of_desk (give_back job owner w) = release_finalizer job owner (of_desk w)"
  by (simp_all add: give_back_def)

lemma give_back_kept:
  assumes ok: "desk_ok (of_desk w)" and kept: "job_kept w job'"
  shows "job_kept (give_back job owner w) job'"
proof -
  let ?w = "give_back job owner w"
  have at: "lease_at (of_desk ?w) j = (case lease_at (of_desk w) j of
     None \<Rightarrow> None
   | Some (i, l) \<Rightarrow> if j \<noteq> job \<or> ls_owner l \<noteq> owner then Some (i, l)
       else if ls_verifying l then Some (i, l\<lparr>ls_release_requested := True\<rparr>) else None)" for j
    by (simp add: lease_at_release [OF ok])
  have visits: "visit_at ?w j v x \<longleftrightarrow> visit_at w j v x" for j v x
    by (simp add: visit_at_def)
  have holds: "holder_at ?w j o' \<longleftrightarrow> holder_at w j o'" if "(j, o') \<noteq> (job, owner)" for j o'
    using that by (auto simp: holder_at_def)
  show ?thesis
  proof (cases "job' = job")
    case False
    then show ?thesis
      by (intro job_kept_cong [OF kept]) (auto simp: at [simplified] visits holds split: option.split)
  next
    case True
    show ?thesis
    proof (cases "lease_at (of_desk w) job")
      case None
      then show ?thesis using kept visits unfolding True job_kept_def by (auto simp: at [simplified])
    next
      case (Some p)
      obtain i l where p: "lease_at (of_desk w) job = Some (i, l)" using Some by (cases p) simp
      note k = kept [unfolded True]
      show ?thesis
        using job_keptD [OF k] p unfolding True job_kept_def at visits
        by (auto simp: holder_at_def split: if_splits; blast)
    qed
  qed
qed


text \<open>Every operation below starts in a good office.\<close>

lemma office_okD:
  assumes "office_ok w"
  shows "desk_ok (of_desk w)" "job_kept w job" "workers_kept w"
  using assms by (simp_all add: office_ok_def)

lemma give_back_ok:
  assumes "office_ok w"
  shows "office_ok (give_back job owner w)"
proof -
  have "dk_workers (release_finalizer job owner d) = dk_workers d" "dk_barred (release_finalizer job owner d) = dk_barred d" for d
    by (auto simp: release_finalizer_def update_lease_def split: option.split)
  then show ?thesis
    using assms give_back_kept by (auto simp: office_ok_def workers_kept_def)
qed

text \<open>A desk that differs in one job's lease.\<close>

lemma desk_workers [simp]:
  "dk_workers (new_lease job owner v d) = dk_workers d" "dk_barred (new_lease job owner v d) = dk_barred d"
  "dk_workers (update_lease i f d) = dk_workers d" "dk_barred (update_lease i f d) = dk_barred d"
  by (simp_all add: new_lease_def update_lease_def)

lemma begin_verification_Inl: "begin_verification job owner d = (Inl result, d') \<Longrightarrow> d' = d"
  by (auto simp: begin_verification_def split: if_splits option.splits)

lemma begin_verification_Inr:
  assumes "begin_verification job owner d = (Inr i, d')"
  obtains (new) "lease_at d job = None" "i = dk_next d" "d' = new_lease job owner True d"
  | (again) l where "lease_at d job = Some (i, l)" "ls_owner l = owner" "\<not> ls_verifying l"
      "d' = update_lease i (ls_verifying_update (\<lambda>_. True)) d"
  using assms by (auto simp: begin_verification_def split: if_splits option.splits)

lemma update_elsewhere:
  assumes "desk_ok d" "lease_at d job = Some (i, l)" "job' \<noteq> job"
  shows "lease_at (update_lease i f d) job' = lease_at d job'"
proof (cases "lease_at d job'")
  case (Some p)
  then show ?thesis using lease_at_inj [OF assms(1,2), of job'] assms(3) by (cases p) (auto simp: lease_at_update)
qed (simp add: lease_at_update)

text \<open>A lease taken for a verification: the office before knew no visit of this job.\<close>

lemma reserve_kept:
  assumes kept: "\<And>job'. job_kept w job'" and free: "of_visits w v = None"
    and here: "lease_at d job = Some (i, l)" "ls_owner l = owner" "ls_verifying l"
    and there: "\<And>job'. job' \<noteq> job \<Longrightarrow> lease_at d job' = lease_at (of_desk w) job'"
    and before: "\<And>j k. lease_at (of_desk w) job = Some (j, k) \<Longrightarrow> \<not> ls_verifying k \<and> ls_owner k = owner"
  shows "job_kept (w\<lparr>of_desk := d,
     of_visits := (of_visits w)(v \<mapsto> \<lparr>vs_job = job, vs_owner = owner, vs_lease = i, vs_proving = False\<rparr>),
     of_entitled := of_entitled w - {(job, owner)}\<rparr>) job'" (is "job_kept ?w job'")
proof (cases "job' = job")
  case True
  have none: "\<not> visit_at w job v' x'" for v' x'
    using job_keptD(1) [OF kept, of job v' x'] before by auto
  have entitled: "(job, o') \<in> of_entitled w \<Longrightarrow> o' = owner" for o'
    using job_keptD(3) [OF kept, of job o'] before by auto
  have v: "visit_at ?w job v' x \<longleftrightarrow> v' = v \<and> x = \<lparr>vs_job = job, vs_owner = owner, vs_lease = i, vs_proving = False\<rparr>" for v' x
    using none [of v' x] by (auto simp: visit_at_def)
  show ?thesis unfolding True job_kept_def v using here entitled by auto
next
  case False
  have "visit_at ?w job' v' x \<longleftrightarrow> visit_at w job' v' x" for v' x
    using False free by (auto simp: visit_at_def)
  then show ?thesis
    by (intro job_kept_cong [OF kept]) (use False there in \<open>auto simp: holder_at_def\<close>)
qed

lemma ask_verify_ok:
  assumes ok: "office_ok w" and free: "of_visits w v = None"
  shows "office_ok (ask_verify v job owner w)"
proof (cases "begin_verification job owner (of_desk w)")
  case (Pair res d)
  note okd = office_okD(1) [OF ok]
  show ?thesis
  proof (cases res)
    case (Inl result)
    then have "d = of_desk w" using Pair begin_verification_Inl by metis
    then show ?thesis using ok Pair Inl by (simp add: ask_verify_def)
  next
    case (Inr i)
    from Pair Inr have b: "begin_verification job owner (of_desk w) = (Inr i, d)" by simp
    then show ?thesis
    proof (cases rule: begin_verification_Inr)
      case new
      then show ?thesis
        using office_okD [OF ok] Pair Inr
        by (auto simp: ask_verify_def office_ok_def workers_kept_def new_lease_ok lease_at_new [OF okd] intro!: reserve_kept [OF _ free])
    next
      case (again l)
      have "lease_at d job = Some (i, l\<lparr>ls_verifying := True\<rparr>)" using again by (simp add: lease_at_update)
      moreover have "lease_at d job' = lease_at (of_desk w) job'" if "job' \<noteq> job" for job'
        using update_elsewhere [OF okd again(1) that] again(4) by simp
      ultimately show ?thesis
        using office_okD [OF ok] Pair Inr again
        by (auto simp: ask_verify_def office_ok_def workers_kept_def intro!: reserve_kept [OF _ free])
    qed
  qed
qed

section \<open>Leaving\<close>

lemma leave_kept:
  assumes okd: "desk_ok (of_desk w)" and kept: "\<And>job'. job_kept w job'" and v: "of_visits w v = Some x"
  shows "job_kept (leave v x result w) job'" "desk_ok (of_desk (leave v x result w))"
proof -
  let ?w = "leave v x result w" and ?i = "vs_lease x" and ?job = "vs_job x" and ?owner = "vs_owner x"
  have vx: "visit_at w ?job v x" using v by (simp add: visit_at_def)
  obtain l where l: "lease_at (of_desk w) ?job = Some (?i, l)" "ls_owner l = ?owner" "ls_verifying l"
    using job_keptD(1) [OF kept vx] by auto
  have only: "visit_at w ?job v' x' \<Longrightarrow> v' = v" for v' x'
    using job_keptD(2) [OF kept vx] by auto
  have nobody: "(?job, o') \<notin> of_entitled w" for o'
    using job_keptD(3) [OF kept, of ?job o'] l by auto
  define d where "d = update_lease ?i (ls_verifying_update (\<lambda>_. False)) (of_desk w)"
  have d: "desk_ok d" "lease_at d ?job = Some (?i, l\<lparr>ls_verifying := False\<rparr>)"
    "\<And>job'. job' \<noteq> ?job \<Longrightarrow> lease_at d job' = lease_at (of_desk w) job'"
    using okd l update_elsewhere [OF okd l(1)] by (auto simp: d_def lease_at_update)
  have asked: "asked_to_release d ?i = ls_release_requested l" "asked_to_release (of_desk w) ?i = ls_release_requested l"
    using l(1) d(2) by (auto simp: asked_to_release_def lease_at_Some)
  define keep where "keep = (verified result \<and> \<not> ls_release_requested l)"
  have desk: "of_desk ?w = (if keep then d else release_finalizer ?job ?owner d)"
    by (simp add: leave_def end_verification_def Let_def d_def [symmetric] asked keep_def)
  have entitled: "of_entitled ?w = (if keep then insert (?job, ?owner) (of_entitled w) else of_entitled w)"
    by (simp add: leave_def asked keep_def)
  have visits: "visit_at ?w j v' x' \<longleftrightarrow> visit_at w j v' x' \<and> v' \<noteq> v" for j v' x'
    by (auto simp: visit_at_def leave_def)
  have takers: "of_takers ?w = of_takers w" by (simp add: leave_def)
  have here: "lease_at (of_desk ?w) ?job = (if keep then Some (?i, l\<lparr>ls_verifying := False\<rparr>) else None)"
    using d(2) l(2) by (simp add: desk lease_at_release [OF d(1)])
  have there: "lease_at (of_desk ?w) j = lease_at (of_desk w) j" if "j \<noteq> ?job" for j
    using d(3) [OF that] that by (auto simp: desk lease_at_release [OF d(1)] split: option.split)
  show "desk_ok (of_desk ?w)" using d(1) by (simp add: desk)
  show "job_kept ?w job'"
  proof (cases "job' = ?job")
    case True
    have "\<not> visit_at ?w ?job v' x'" for v' x' using only by (auto simp: visits)
    then show ?thesis
      unfolding True job_kept_def here using l(2) nobody
      by (auto simp: entitled holder_at_def keep_def)
  next
    case False
    have "visit_at ?w job' v' x' \<longleftrightarrow> visit_at w job' v' x'" for v' x'
      unfolding visits using False v by (auto simp: visit_at_def)
    then show ?thesis
      by (intro job_kept_cong [OF kept]) (use False there in \<open>auto simp: holder_at_def entitled takers\<close>)
  qed
qed


lemma end_verification_workers [simp]:
  "dk_workers (end_verification job owner i keep d) = dk_workers d" "dk_barred (end_verification job owner i keep d) = dk_barred d"
  by (auto simp: end_verification_def release_finalizer_def Let_def split: option.split)

lemma leave_ok:
  assumes ok: "office_ok w" and v: "of_visits w v = Some x"
  shows "office_ok (leave v x result w)"
  using leave_kept [OF office_okD(1,2) [OF ok] v] office_okD(3) [OF ok]
  by (simp add: office_ok_def workers_kept_def) (simp add: leave_def)

section \<open>Settling\<close>

lemma takers_kept:
  assumes kept: "job_kept w job"
    and "\<And>owner. holder_at w job owner \<Longrightarrow> holder_at (w\<lparr>of_takers := T\<rparr>) job owner"
  shows "job_kept (w\<lparr>of_takers := T\<rparr>) job"
  by (rule job_kept_cong [OF kept]) (use assms(2) in \<open>auto simp: visit_at_def\<close>)

lemma holder_update:
  assumes "holder_at w job owner" "of_entitled w' = of_entitled w" "of_takers w' = (of_takers w)(c := new)"
    and "\<And>t. of_takers w c = Some t \<Longrightarrow> tk_job t \<noteq> job \<or> tk_owner t \<noteq> owner \<or> \<not> tk_held t"
  shows "holder_at w' job owner"
proof (cases "(job, owner) \<in> of_entitled w")
  case False
  with assms(1) obtain c' t where t: "of_takers w c' = Some t" "tk_job t = job" "tk_owner t = owner" "tk_held t"
    by (auto simp: holder_at_def)
  then have "c' \<noteq> c" using assms(4) by auto
  with t show ?thesis unfolding holder_at_def assms(3) by (metis fun_upd_other)
qed (simp add: holder_at_def assms(2))

lemma taker_waits_kept:
  assumes "office_ok w" "of_takers w c = None \<or> (\<exists>t. of_takers w c = Some t \<and> \<not> tk_held t)"
  shows "office_ok (w\<lparr>of_takers := (of_takers w)(c := new)\<rparr>)"
proof -
  have "holder_at (w\<lparr>of_takers := (of_takers w)(c := new)\<rparr>) job owner" if h: "holder_at w job owner" for job owner
    by (rule holder_update [OF h, of _ c new]) (use assms(2) in auto)
  then have "job_kept (w\<lparr>of_takers := (of_takers w)(c := new)\<rparr>) job" for job
    by (intro takers_kept office_okD(2) [OF assms(1)])
  then show ?thesis using assms(1) by (simp add: office_ok_def workers_kept_def)
qed

text \<open>A settlement that ends gives its lease back, so that no one is left holding it.\<close>

lemma taker_ends_ok:
  assumes ok: "office_ok w" and t: "of_takers w c = Some t"
  shows "office_ok (taker_ends c t w)"
proof -
  let ?job = "tk_job t" and ?owner = "tk_owner t"
  let ?w = "taker_ends c t w" and ?g = "give_back (tk_job t) (tk_owner t) w"
  have g: "office_ok ?g" by (rule give_back_ok [OF ok])
  have w: "?w = ?g\<lparr>of_takers := (of_takers w)(c := None)\<rparr>" by (simp add: taker_ends_def give_back_def)
  have gone: "ls_verifying l" if "lease_at (of_desk ?g) ?job = Some (i, l)" "ls_owner l = ?owner" for i l
    using that by (auto simp: lease_at_release [OF office_okD(1) [OF ok]] split: option.splits if_splits)
  have "job_kept ?w job" for job
  proof (rule job_kept_weak [OF office_okD(2) [OF g]])
    fix i l
    assume p: "lease_at (of_desk ?g) job = Some (i, l)" "\<not> ls_verifying l" "holder_at ?g job (ls_owner l)"
    have "tk_job t \<noteq> job \<or> tk_owner t \<noteq> ls_owner l" using gone p by metis
    then show "holder_at ?w job (ls_owner l)"
      unfolding w by (intro holder_update [OF p(3), of _ c None]) (use t in auto)
  qed (auto simp: w visit_at_def)
  then show ?thesis using g unfolding w by (simp add: office_ok_def workers_kept_def)
qed

lemma acquire_new:
  assumes "desk_ok (of_desk w)" "\<And>job. job_kept w job" "of_takers w c = Some t" "lease_at (of_desk w) (tk_job t) = None"
  shows "job_kept (w\<lparr>of_desk := new_lease (tk_job t) (tk_owner t) False (of_desk w),
    of_takers := (of_takers w)(c \<mapsto> t\<lparr>tk_held := True\<rparr>)\<rparr>) job" (is "job_kept ?w job")
proof -
  have v: "visit_at ?w job v x \<longleftrightarrow> visit_at w job v x" for v x by (simp add: visit_at_def)
  have at: "lease_at (of_desk ?w) job = (if job = tk_job t
      then Some (dk_next (of_desk w), \<lparr>ls_owner = tk_owner t, ls_verifying = False, ls_release_requested = False\<rparr>)
      else lease_at (of_desk w) job)"
    by (simp add: lease_at_new [OF assms(1)])
  show ?thesis
  proof (cases "job = tk_job t")
    case True
    have "holder_at ?w job (tk_owner t)" unfolding True by (auto simp: holder_at_def)
    moreover have "\<not> visit_at w job v x" for v x
      using job_keptD(1) [OF assms(2), of job v x] assms(4) True by auto
    moreover have "(job, o') \<notin> of_entitled w" for o'
      using job_keptD(3) [OF assms(2), of job o'] assms(4) True by auto
    ultimately show ?thesis using True unfolding job_kept_def v at by simp
  next
    case False
    have "holder_at ?w job owner" if h: "holder_at w job owner" for owner
      by (rule holder_update [OF h, of _ c "Some (t\<lparr>tk_held := True\<rparr>)"]) (use assms(3) False in auto)
    then show ?thesis
      using at v False by (intro job_kept_cong [OF assms(2)]) auto
  qed
qed

lemma taken_up_ok:
  assumes ok: "office_ok w" and t: "of_takers w c = Some t" "\<not> tk_held t"
  shows "office_ok (taken_up c t r w)"
proof (cases "acquire_finalizer (tk_job t) (tk_owner t) r (of_desk w)")
  case (Pair granted d)
  show ?thesis
  proof (cases "granted \<and> finalizer_id (tk_owner t)")
    case False
    then show ?thesis using Pair taker_ends_ok [OF ok t(1)] unfolding taken_up_def Let_def by auto
  next
    case True
    with Pair consider "lease_at (of_desk w) (tk_job t) = None" "d = new_lease (tk_job t) (tk_owner t) False (of_desk w)"
      | i l where "lease_at (of_desk w) (tk_job t) = Some (i, l)" "d = of_desk w"
      by (auto simp: acquire_finalizer_def split: if_splits option.splits)
    then show ?thesis
    proof cases
      case 1
      then show ?thesis
        using acquire_new [OF office_okD(1,2) [OF ok] t(1) 1(1)] office_okD [OF ok] Pair True
        by (simp add: taken_up_def Let_def office_ok_def workers_kept_def new_lease_ok)
    next
      case 2
      then show ?thesis
        using taker_waits_kept [OF ok, of c "Some (t\<lparr>tk_held := True\<rparr>)"] t Pair True
        by (simp add: taken_up_def Let_def)
    qed
  qed
qed

section \<open>Workers\<close>

lemma workers_desk:
  assumes "office_ok w" "dk_finalizers d = dk_finalizers (of_desk w)" "dk_leases d = dk_leases (of_desk w)"
    "dk_next d = dk_next (of_desk w)" "workers_kept (w\<lparr>of_desk := d, of_running := R\<rparr>)"
  shows "office_ok (w\<lparr>of_desk := d, of_running := R\<rparr>)"
proof -
  have lease: "lease_at d job = lease_at (of_desk w) job" for job using assms(2,3) by (simp add: lease_at_def cong: option.case_cong)
  have "desk_ok d" using assms by (simp add: office_ok_def desk_ok_def)
  moreover have "job_kept (w\<lparr>of_desk := d, of_running := R\<rparr>) job" for job
    by (intro job_kept_cong [OF office_okD(2) [OF assms(1)]]) (auto simp: visit_at_def holder_at_def lease)
  ultimately show ?thesis using assms(5) by (simp add: office_ok_def)
qed

lemma workers_keptD:
  assumes "office_ok w" "(job, t) \<in> of_running w"
  shows "dk_workers (of_desk w) job = Some t" "job \<notin> dk_barred (of_desk w)"
  using assms by (auto simp: office_ok_def workers_kept_def)

lemma ensure_worker_ok:
  assumes "office_ok w" shows "office_ok (ensure_worker job r w)"
proof (cases "dk_workers (of_desk w) job \<noteq> None \<or> job \<in> dk_barred (of_desk w) \<or> settled_phase r")
  case False
  let ?d = "snd (start_worker job (of_desk w))" and ?R = "insert (job, dk_next_worker (of_desk w)) (of_running w)"
  have "workers_kept (w\<lparr>of_desk := ?d, of_running := ?R\<rparr>)"
    using False office_okD(3) [OF assms] by (simp add: workers_kept_def start_worker_def) (metis option.distinct(1))
  from workers_desk [OF assms _ _ _ this] have "office_ok (w\<lparr>of_desk := ?d, of_running := ?R\<rparr>)"
    by (simp add: start_worker_def)
  then show ?thesis using False by (simp add: ensure_worker_def start_worker_def)
qed (use assms in \<open>auto simp: ensure_worker_def\<close>)

lemma worker_gone_ok:
  assumes "office_ok w" shows "office_ok (worker_gone job t failed w)"
proof (cases "(job, t) \<in> of_running w")
  case True
  let ?d = "worker_done job t failed (of_desk w)" and ?R = "of_running w - {(job, t)}"
  have "workers_kept (w\<lparr>of_desk := ?d, of_running := ?R\<rparr>)"
    using True office_okD(3) [OF assms] by (simp add: workers_kept_def worker_done_def Let_def) (metis option.inject)
  from workers_desk [OF assms _ _ _ this] show ?thesis
    using True by (simp add: worker_gone_def worker_done_def Let_def)
qed (use assms in \<open>simp add: worker_gone_def\<close>)

lemma visit_proves_ok:
  assumes "office_ok w" "of_visits w v = Some x"
  shows "office_ok (w\<lparr>of_visits := (of_visits w)(v \<mapsto> x\<lparr>vs_proving := True\<rparr>)\<rparr>)" (is "office_ok ?w")
proof -
  have v: "visit_at ?w job v' x' \<longleftrightarrow> (\<exists>y. visit_at w job v' y \<and> x' = (if v' = v then y\<lparr>vs_proving := True\<rparr> else y))" for job v' x'
    using assms(2) by (auto simp: visit_at_def)
  have "job_kept ?w job" for job
    using office_okD(2) [OF assms(1), of job] unfolding job_kept_def v
    by (auto simp: holder_at_def split: option.splits; (metis visit.simps)?; fastforce)
  then show ?thesis using assms(1) by (simp add: office_ok_def workers_kept_def)
qed

lemma react_ok: "office_ok w \<Longrightarrow> office_ok (react e w)"
  by (cases e) (auto simp: receipt_read_def proved_def ask_verify_ok leave_ok taken_up_ok taker_ends_ok give_back_ok
      ensure_worker_ok worker_gone_ok taker_waits_kept visit_proves_ok split: option.split sum.split)

lemma office_reachable_ok: "office_reachable w \<Longrightarrow> office_ok w"
  by (induction rule: office_reachable.induct) (auto simp: fresh_kept react_ok)

end
