(* ===== verification/Finalizer_Properties.thy ===== *)
theory Finalizer_Properties
  imports Finalizer_Desk Executor_Sample
begin

text \<open>
  What makes the finalization of an installation correct: what a verdict rests on, and that no two
  coroutines ever finalize one job or run two workers for it.
\<close>

section \<open>What a verdict rests on\<close>

text \<open>Events of a verification that only read.\<close>

fun looked :: "event \<Rightarrow> bool" where
  "looked Revalidated \<longleftrightarrow> True"
| "looked CredentialRead \<longleftrightarrow> True"
| "looked TargetVerified \<longleftrightarrow> True"
| "looked HealthRead \<longleftrightarrow> True"
| "looked StatusRead \<longleftrightarrow> True"
| "looked (JobRead r) \<longleftrightarrow> True"
| "looked (Refused e) \<longleftrightarrow> True"
| "looked _ \<longleftrightarrow> False"

definition concluded :: "(app_health \<Rightarrow> bool) \<Rightarrow> bench \<Rightarrow> (exc + finalization_result) \<times> bench \<Rightarrow> bool" where
  "concluded P b x \<longleftrightarrow> (\<exists>new. bn_log (snd x) = new @ bn_log b \<and> (case fst x of
     Inl e \<Rightarrow> list_all looked new
   | Inr result \<Rightarrow> (case fr_outcome result of
       FinVerified \<Rightarrow> (\<exists>health. fr_health result = Some health \<and> P health) \<and> list_all looked new
     | FinRecoveryRequired \<Rightarrow> (\<exists>r l. new = Moved r # l \<and> rc_phase r = RecoveryRequired \<and> list_all looked l)
     | _ \<Rightarrow> list_all looked new)))"

lemma concluded_later:
  assumes "bn_log b1 = ev # bn_log b" "looked ev" "concluded P b1 x"
  shows "concluded P b x"
proof -
  obtain new where new: "bn_log (snd x) = new @ bn_log b1"
      "case fst x of Inl e \<Rightarrow> list_all looked new
       | Inr result \<Rightarrow> (case fr_outcome result of
           FinVerified \<Rightarrow> (\<exists>health. fr_health result = Some health \<and> P health) \<and> list_all looked new
         | FinRecoveryRequired \<Rightarrow> (\<exists>r l. new = Moved r # l \<and> rc_phase r = RecoveryRequired \<and> list_all looked l)
         | _ \<Rightarrow> list_all looked new)"
    using assms(3) unfolding concluded_def by blast
  have "bn_log (snd x) = (new @ [ev]) @ bn_log b" using new(1) assms(1) by simp
  then show ?thesis
    unfolding concluded_def
    by (rule exI [of _ "new @ [ev]", OF conjI]) (use new(2) assms(2) in \<open>auto split: sum.splits finalization_outcome.splits\<close>)
qed

named_theorems concluded_intro \<open>verifications that conclude\<close>

lemma concluded_verdict [concluded_intro]:
  "o' \<notin> {FinVerified, FinRecoveryRequired} \<Longrightarrow> concluded P b (Inr (verdict o'), b)"
  by (cases o') (simp_all add: concluded_def verdict_def)

lemma concluded_verified: "P health \<Longrightarrow> concluded P b (Inr \<lparr>fr_outcome = FinVerified, fr_health = Some health\<rparr>, b)"
  by (simp add: concluded_def)

lemma concluded_raise [concluded_intro]: "concluded P b (Inl e, b)"
  by (simp add: concluded_def)

lemma concluded_ask:
  assumes "looked ev"
    and "\<And>x b1. f (bn_time b) = Inr x \<Longrightarrow> \<not> ou_stop E (bn_time b) \<Longrightarrow> bn_time b1 = bn_time b + 1 \<Longrightarrow> concluded P b1 (k x b1)"
    and "\<And>e w b1. h e = Some w \<Longrightarrow> concluded P b1 (w b1)"
  shows "concluded P b (attempt (ask E ev f) h k b)"
proof -
  let ?b = "b\<lparr>bn_time := bn_time b + 1, bn_log := ev # bn_log b\<rparr>"
  have step: "concluded P ?b x \<Longrightarrow> concluded P b x" for x
    by (rule concluded_later [of ?b ev]) (simp_all add: assms(1))
  have failed: "concluded P ?b (case h e of None \<Rightarrow> (Inl e, ?b) | Some w \<Rightarrow> w ?b)" for e
  proof (cases "h e")
    case None
    then show ?thesis using concluded_raise [of P ?b e] by simp
  next
    case (Some w)
    then show ?thesis using assms(3) [of e w ?b] by simp
  qed
  have failing: "concluded P b (case h e of None \<Rightarrow> (Inl e, ?b) | Some w \<Rightarrow> w ?b)" for e
    by (rule step [OF failed])
  show ?thesis
  proof (cases "ou_stop E (bn_time b)")
    case True
    have "attempt (ask E ev f) h k b = (case h TaskCancelled of None \<Rightarrow> (Inl TaskCancelled, ?b) | Some w \<Rightarrow> w ?b)"
      using True by (auto simp: attempt_def ask_def Let_def split: option.split)
    then show ?thesis using failing [of TaskCancelled] by simp
  next
    case False
    then have a: "ask E ev f b = (f (bn_time b), ?b)" by (simp add: ask_def Let_def)
    show ?thesis
    proof (cases "f (bn_time b)")
      case (Inl e)
      have "attempt (ask E ev f) h k b = (case h e of None \<Rightarrow> (Inl e, ?b) | Some w \<Rightarrow> w ?b)"
        by (auto simp: attempt_def a Inl split: option.split)
      then show ?thesis using failing [of e] by simp
    next
      case (Inr x)
      have "concluded P ?b (k x ?b)" by (rule assms(2) [OF Inr False]) simp
      from step [OF this] show ?thesis by (simp add: attempt_def a Inr)
    qed
  qed
qed

lemma concluded_or_other:
  assumes "\<And>y. x = Some y \<Longrightarrow> concluded P b (k y b)"
  shows "concluded P b (sequel (or_other x) k b)"
  using assms by (cases x) (auto simp: sequel_def attempt_def or_other_def concluded_def)

lemma concluded_reject [concluded_intro]: "concluded P b (reject_healthy E r subcode b)"
proof -
  let ?a = "(move_to RecoveryRequired)\<lparr>ta_result_code := Some VerificationRequired, ta_result_subcode := Some subcode\<rparr>"
  show ?thesis
  proof (cases rule: job_transition_cases [of E "rc_job_id r" "rc_revision r" ?a b])
    case (refused e e' b')
    then show ?thesis by (auto simp: reject_healthy_def attempt_def ordinary_def concluded_def verdict_def)
  next
    case (moved r' b')
    then show ?thesis by (auto simp: reject_healthy_def attempt_def concluded_def verdict_def move_to_def)
  qed
qed

lemma concluded_ordinary: "ordinary h e = Some w \<Longrightarrow> concluded P b (h e b) \<Longrightarrow> concluded P b (w b)"
  by (auto simp: ordinary_def split: if_splits)

lemma outcome_Reply: "outcome f r = Inr x \<longleftrightarrow> r = Reply x"
  by (cases r) (auto simp: outcome_def)

lemma concluded_home:
  assumes "\<And>home_ui. ou_status E (bn_time b) = Reply home_ui \<Longrightarrow> home_ui_allows_setup home_ui \<Longrightarrow> P health"
  shows "concluded P b (reverify_home E r health b)"
  unfolding reverify_home_def read_home_ui_def
  by (rule concluded_ask)
    (use assms in \<open>auto simp: outcome_Reply split: exc.splits intro!: concluded_intro concluded_verified\<close>)

text \<open>The answers that prove the panel, in the order of the calls from \<open>t\<close>.\<close>

definition app_proof :: "outside \<Rightarrow> receipt \<Rightarrow> app_health \<Rightarrow> nat \<Rightarrow> bool" where
  "app_proof E r health t \<longleftrightarrow> ou_health E t = Reply health
     \<and> health_is_installed_app health (ar_version_name (rc_artifact r)) (ar_package_id (rc_artifact r))
     \<and> (\<exists>home_ui. ou_status E (t + 1) = Reply home_ui \<and> home_ui_allows_setup home_ui)"

definition finalization_proof :: "outside \<Rightarrow> receipt \<Rightarrow> app_health \<Rightarrow> nat \<Rightarrow> bool" where
  "finalization_proof E r health t \<longleftrightarrow>
     (\<exists>pinned now. pinned_target r = Some pinned
        \<and> async_revalidate_install_target (ou_platform E) (ou_resolver E t) pinned = Inr now)
   \<and> ou_credential E (t + 1) = Reply (rc_adb_credential_id r)
   \<and> (\<exists>mode. rc_preflight_root_mode r = Some (root_mode_value mode)) \<and> ou_verify E (t + 2) = Reply ()
   \<and> app_proof E r health (t + 3)"

lemma concluded_health:
  assumes "\<And>health. app_proof E r health (bn_time b) \<Longrightarrow> P health"
  shows "concluded P b (reverify_health E r b)"
  unfolding reverify_health_def read_health_def
proof (rule concluded_ask)
  fix health :: app_health and b1 :: bench
  assume h: "outcome panel_exc (ou_health E (bn_time b)) = Inr health" "bn_time b1 = bn_time b + 1"
  show "concluded P b1 ((if health_is_installed_app health (ar_version_name (rc_artifact r)) (ar_package_id (rc_artifact r))
      then reverify_home E r health else reject_healthy E r ''health:identity_mismatch'') b1)"
    using h assms by (auto simp: outcome_Reply app_proof_def intro!: concluded_intro concluded_home)
qed (auto split: exc.splits intro!: concluded_intro)

lemma root_mode_of_value_Some: "root_mode_of_value s = Some m \<Longrightarrow> s = root_mode_value m"
  by (auto simp: root_mode_of_value_def split: if_splits)

lemma concluded_sequel_ask:
  fixes f :: "'b \<Rightarrow> nat \<Rightarrow> exc + 'a" and k :: "'a \<Rightarrow> finalization_result work"
  assumes "x \<noteq> None \<Longrightarrow> concluded P b (attempt (ask E ev (f (the x))) h k b)"
    and "h OtherError = None"
  shows "concluded P b (attempt (sequel (or_other x) (\<lambda>y. ask E ev (f y))) h k b)"
proof (cases x)
  case None
  then show ?thesis using assms(2) by (simp add: attempt_def sequel_def or_other_def concluded_def)
next
  case (Some y)
  have "sequel (or_other x) (\<lambda>y. ask E ev (f y)) = ask E ev (f y)"
    by (rule ext) (simp add: Some sequel_def or_other_def attempt_def)
  then show ?thesis using assms(1) Some by simp
qed

lemma concluded_target:
  assumes "\<And>health mode. mode_text = root_mode_value mode \<Longrightarrow> ou_verify E (bn_time b) = Reply ()
      \<Longrightarrow> app_proof E r health (bn_time b + 1) \<Longrightarrow> P health"
  shows "concluded P b (reverify_target E r mode_text b)"
  unfolding reverify_target_def
proof (intro concluded_or_other concluded_sequel_ask)
  fix target :: adb_target
  assume m: "root_mode_of_value mode_text \<noteq> None"
  then obtain mode where mode: "mode_text = root_mode_value mode" by (auto dest: root_mode_of_value_Some)
  show "concluded P b (attempt (ask E TargetVerified (\<lambda>t. outcome AdbError (ou_verify E t)))
      (\<lambda>e. case e of AdbError c \<Rightarrow> Some (if c = TargetUnreachable then return_work (verdict FinRetry)
              else reject_healthy E r (result_subcode e)) | _ \<Rightarrow> None) (\<lambda>_. reverify_health E r) b)"
  proof (rule concluded_ask)
    fix x :: unit and b1 :: bench
    assume h: "outcome AdbError (ou_verify E (bn_time b)) = Inr x" "bn_time b1 = bn_time b + 1"
    show "concluded P b1 (reverify_health E r b1)"
      by (rule concluded_health) (use h assms [OF mode] in \<open>auto simp: outcome_Reply\<close>)
  qed (auto split: exc.splits if_splits intro!: concluded_intro)
qed simp

lemma concluded_credential:
  assumes "\<And>health mode. ou_credential E (bn_time b) = Reply (rc_adb_credential_id r)
      \<Longrightarrow> rc_preflight_root_mode r = Some (root_mode_value mode) \<Longrightarrow> ou_verify E (bn_time b + 1) = Reply ()
      \<Longrightarrow> app_proof E r health (bn_time b + 2) \<Longrightarrow> P health"
  shows "concluded P b (reverify_credential E r b)"
  unfolding reverify_credential_def
proof (rule concluded_ask)
  fix generation and b1 :: bench
  assume h: "outcome (\<lambda>_. CredentialError) (ou_credential E (bn_time b)) = Inr generation" "bn_time b1 = bn_time b + 1"
  show "concluded P b1 ((if generation \<noteq> rc_adb_credential_id r then reject_healthy E r ''finalization:credential_changed''
      else (case rc_preflight_root_mode r of None \<Rightarrow> reject_healthy E r ''finalization:root_mode_missing''
        | Some mode_text \<Rightarrow> reverify_target E r mode_text)) b1)"
    using h assms by (auto simp: outcome_Reply split: option.split intro!: concluded_intro concluded_target)
qed (auto elim!: concluded_ordinary intro!: concluded_intro)

lemma concluded_reverify:
  assumes "\<And>health. finalization_proof E r health (bn_time b) \<Longrightarrow> P health"
  shows "concluded P b (async_reverify E r b)"
  unfolding async_reverify_def
proof (rule concluded_sequel_ask)
  assume p: "pinned_target r \<noteq> None"
  show "concluded P b (attempt (ask E Revalidated (\<lambda>t. map_sum network_exc id
      (async_revalidate_install_target (ou_platform E) (ou_resolver E t) (the (pinned_target r)))))
    (\<lambda>e. case e of NetworkError c \<Rightarrow> Some (if c \<in> {ResolutionFailed, ResolutionTimeout}
        then return_work (verdict FinRetry) else reject_healthy E r (result_subcode e)) | _ \<Rightarrow> None)
    (\<lambda>_. reverify_credential E r) b)"
  proof (rule concluded_ask)
    fix x and b1 :: bench
    assume h: "map_sum network_exc id (async_revalidate_install_target (ou_platform E) (ou_resolver E (bn_time b)) (the (pinned_target r)))
        = Inr x" "bn_time b1 = bn_time b + 1"
    then have "\<exists>now. async_revalidate_install_target (ou_platform E) (ou_resolver E (bn_time b)) (the (pinned_target r)) = Inr now"
      by (cases "async_revalidate_install_target (ou_platform E) (ou_resolver E (bn_time b)) (the (pinned_target r))") auto
    with p have "\<exists>pinned now. pinned_target r = Some pinned
        \<and> async_revalidate_install_target (ou_platform E) (ou_resolver E (bn_time b)) pinned = Inr now" by auto
    with h assms show "concluded P b1 (reverify_credential E r b1)"
      by (intro concluded_credential) (auto simp: finalization_proof_def numeral_eq_Suc)
  qed (auto split: exc.splits if_splits intro!: concluded_intro)
qed simp


text \<open>What a verification left behind: the receipts it moved and what it changed on the panel.\<close>

fun moved_by :: "event list \<Rightarrow> receipt list" where
  "moved_by [] = []"
| "moved_by (Moved r # l) = r # moved_by l"
| "moved_by (ev # l) = moved_by l"

fun changes_by :: "event list \<Rightarrow> panel_change list" where
  "changes_by [] = []"
| "changes_by (Changed c target credential # l) = c # changes_by l"
| "changes_by (ev # l) = changes_by l"

lemma looked_leaves: "list_all looked l \<Longrightarrow> moved_by l = [] \<and> changes_by l = []"
proof (induction l)
  case (Cons ev l)
  then show ?case by (cases ev) auto
qed simp

definition rests_on_proof :: "(app_health \<Rightarrow> bool) \<Rightarrow> exc + finalization_result \<Rightarrow> event list \<Rightarrow> bool" where
  "rests_on_proof P x new \<longleftrightarrow> changes_by new = [] \<and> (case x of
     Inl e \<Rightarrow> e = TaskCancelled \<and> moved_by new = []
   | Inr result \<Rightarrow> (case fr_outcome result of
       FinVerified \<Rightarrow> moved_by new = [] \<and> (\<exists>health. fr_health result = Some health \<and> P health)
     | FinRecoveryRequired \<Rightarrow> (\<exists>r. moved_by new = [r] \<and> rc_phase r = RecoveryRequired)
     | _ \<Rightarrow> moved_by new = []))"

lemma concluded_rests:
  assumes "concluded P b x" "\<And>e. fst x = Inl e \<Longrightarrow> e = TaskCancelled"
  shows "\<exists>new. bn_log (snd x) = new @ bn_log b \<and> rests_on_proof P (fst x) new"
  using assms unfolding concluded_def rests_on_proof_def
  by (force dest: looked_leaves split: sum.splits finalization_outcome.splits)

lemma concluded_catch:
  assumes "concluded P b (m b)"
  shows "concluded P b (attempt m (ordinary (\<lambda>e. return_work (failed_proof e))) return_work b)"
    "fst (attempt m (ordinary (\<lambda>e. return_work (failed_proof e))) return_work b) = Inl e \<Longrightarrow> e = TaskCancelled"
proof -
  have f: "fr_outcome (failed_proof e) \<in> {FinRetry, FinReceiptError}" for e
    by (cases e) (simp_all add: failed_proof_def verdict_def)
  obtain x b' where m: "m b = (x, b')" by (cases "m b")
  show "concluded P b (attempt m (ordinary (\<lambda>e. return_work (failed_proof e))) return_work b)"
  proof (cases x)
    case (Inl e)
    then show ?thesis
      using assms f [of e] by (auto simp: m attempt_def ordinary_def concluded_def split: finalization_outcome.splits)
  next
    case (Inr result)
    then show ?thesis using assms by (simp add: m attempt_def)
  qed
  show "fst (attempt m (ordinary (\<lambda>e. return_work (failed_proof e))) return_work b) = Inl e \<Longrightarrow> e = TaskCancelled"
    by (cases x) (auto simp: m attempt_def ordinary_def split: if_splits)
qed

lemma concluded_prove:
  assumes "\<And>health. rc_phase r = HealthyUnclaimed \<Longrightarrow> \<not> requested \<Longrightarrow> finalization_proof E r health (bn_time b) \<Longrightarrow> P health"
  shows "concluded P b (prove_receipt E requested r b)"
  using assms by (auto simp: prove_receipt_def intro!: concluded_intro concluded_reverify)

lemma concluded_get:
  assumes "\<And>r b1. job_get E job_id b = (Inr r, b1) \<Longrightarrow> concluded P b1 (k r b1)"
  shows "concluded P b (sequel (job_get E job_id) k b)"
  unfolding job_get_def
proof (cases rule: manager_call_cases [of E JobRead "\<lambda>t. async_get (ou_platform E) (ou_load E t) job_id" b])
  case (refused e e' b')
  then show "concluded P b (sequel (manager_call E JobRead (\<lambda>t. async_get (ou_platform E) (ou_load E t) job_id)) k b)"
    by (simp add: sequel_def attempt_def concluded_def)
next
  case (answered r b')
  from assms [unfolded job_get_def, OF answered(1)] have "concluded P b (k r b')"
    by (rule concluded_later [OF answered(2), rotated]) simp
  then show "concluded P b (sequel (manager_call E JobRead (\<lambda>t. async_get (ou_platform E) (ou_load E t) job_id)) k b)"
    by (simp add: sequel_def attempt_def answered(1))
qed

lemma concluded_verification:
  "concluded (\<lambda>health. \<exists>r b1. job_get E job_id b = (Inr r, b1) \<and> rc_phase r = HealthyUnclaimed \<and> \<not> requested
     \<and> finalization_proof E r health (bn_time b1)) b (verification E job_id requested b)"
  unfolding verification_def
  by (intro concluded_catch(1) concluded_get concluded_prove) blast


text \<open>An installation in which nothing failed is verified: on a panel that answers as the receipt says, the flow gets
  the verdict \<open>VERIFIED\<close> with the app's health.\<close>

theorem finalization_completes:
  assumes "smooth E r m x c" "job_id = rc_job_id r" "\<And>t. ou_verify E t = Reply ()"
  shows "\<exists>health. ou_health E (t + 4) = Reply health
    \<and> fst (verification E job_id False (smooth_bench E (smooth_receipt E r m HealthyUnclaimed) t l))
      = Inr \<lparr>fr_outcome = FinVerified, fr_health = Some health\<rparr>"
proof -
  let ?q = "smooth_receipt E r m HealthyUnclaimed"
  note S = assms(1)
  note facts = smooth_panelD [OF S]
  have path: "HealthyUnclaimed \<in> set smooth_path" by (simp add: smooth_path_def)
  have get: "job_get E job_id (smooth_bench E ?q t l) = (Inr ?q, smooth_bench E ?q (t + 1) (JobRead ?q # l))"
    using smooth_get [OF S path] assms(2) by simp
  have q: "rc_phase ?q = HealthyUnclaimed" "rc_artifact ?q = rc_artifact r" "rc_adb_credential_id ?q = rc_adb_credential_id r"
      "rc_preflight_root_mode ?q = Some (root_mode_value m)" "rc_target ?q = rc_target r"
    by (simp_all add: smooth_receipt_def Let_def root_mode_required_phases_def)
  have pinned: "pinned_target ?q = Some (fx_pinned x)" and adb: "adb_target_of ?q = Some (fx_adb_target x)"
    using facts(1) [of 0] by (auto simp: pinned_target_def adb_target_of_def frozen_execution_def Let_def q(5)
        bind_eq_Some_conv)
  have mode: "root_mode_of_value (root_mode_value m) = Some m"
    by (cases m) (simp_all add: root_mode_of_value_def)
  obtain health where h: "ou_health E (t + 4) = Reply health"
      "health_is_installed_app health (ar_version_name (rc_artifact r)) (ar_package_id (rc_artifact r))"
    using facts(12) [of "t + 4"] by blast
  obtain ui where ui: "ou_status E (t + 5) = Reply ui" "home_ui_allows_setup ui"
    using facts(13) [of "t + 5"] by blast
  have asks: "ask E ev f (smooth_bench E ?q s l) = (f s, smooth_bench E ?q (s + 1) (ev # l))" for ev f s l
    by (rule smooth_ask [OF S])
  have "fst (reverify_health E ?q (smooth_bench E ?q (t + 4) l)) = Inr \<lparr>fr_outcome = FinVerified, fr_health = Some health\<rparr>" for l
    using h ui ui(1) [unfolded add.commute [of t 5]] by (simp add: reverify_health_def reverify_home_def read_health_def read_home_ui_def attempt_def asks outcome_def q)
  then have "fst (reverify_target E ?q (root_mode_value m) (smooth_bench E ?q (t + 3) l))
      = Inr \<lparr>fr_outcome = FinVerified, fr_health = Some health\<rparr>" for l
    by (simp add: reverify_target_def sequel_def attempt_def or_other_def adb mode asks outcome_def assms(3) ac_simps)
  then have "fst (reverify_credential E ?q (smooth_bench E ?q (t + 2) l))
      = Inr \<lparr>fr_outcome = FinVerified, fr_health = Some health\<rparr>" for l
    by (simp add: reverify_credential_def attempt_def asks outcome_def facts(3) q root_mode_required_phases_def numeral_3_eq_3)
  then have "fst (async_reverify E ?q (smooth_bench E ?q (t + 1) l))
      = Inr \<lparr>fr_outcome = FinVerified, fr_health = Some health\<rparr>" for l
    by (simp add: async_reverify_def sequel_def attempt_def or_other_def pinned asks facts(2) ac_simps)
  then have "fst (verification E job_id False (smooth_bench E ?q t l)) = Inr \<lparr>fr_outcome = FinVerified, fr_health = Some health\<rparr>"
    using get q(1) by (simp add: verification_def sequel_def attempt_def prove_receipt_def prod.case_eq_if split: sum.split)
  then show ?thesis using h(1) by simp
qed

theorem finalization_completes_witness:
  "fst (verification clean_world (rc_job_id clean_start) False
     (smooth_bench clean_world (smooth_receipt clean_world clean_start Rootless HealthyUnclaimed) 7 []))
   = Inr \<lparr>fr_outcome = FinVerified, fr_health = Some \<lparr>ah_version = ''1.2.3'', ah_package = Some package_id_current\<rparr>\<rparr>"
  using finalization_completes [OF clean_smooth refl, of 7 "[]"] by (simp add: clean_world_def)

section \<open>One at a time\<close>

text \<open>C15. However the coroutines interleave, one job has at most one verification in progress, and none while an owner
  holds a verdict; such an owner is the only one, and every other is refused the lease.  A lease no verification uses is
  held by someone who will give it back: an owner with a verdict or a settlement in progress.\<close>

theorem one_finalizer:
  assumes "office_reachable w"
  shows "(\<forall>v x v' x'. visit_at w job v x \<and> visit_at w job v' x' \<longrightarrow> v = v')
    \<and> (\<forall>owner. (job, owner) \<in> of_entitled w \<longrightarrow> (\<forall>v x. \<not> visit_at w job v x)
         \<and> (\<forall>other. other \<noteq> owner \<longrightarrow> (job, other) \<notin> of_entitled w
              \<and> (finalizer_id other \<longrightarrow> begin_verification job other (of_desk w) = (Inl (verdict FinBusy), of_desk w))
              \<and> (\<forall>r. acquire_finalizer job other r (of_desk w) = (False, of_desk w))))
    \<and> (is_finalizer_active (of_desk w) job \<longrightarrow> (\<exists>v x. visit_at w job v x) \<or> (\<exists>owner. holder_at w job owner))"
proof -
  have ok: "office_ok w" by (rule office_reachable_ok [OF assms])
  note k = job_keptD [OF office_okD(2) [OF ok, of job]]
  have "visit_at w job v x \<Longrightarrow> visit_at w job v' x' \<Longrightarrow> v = v'" for v x v' x' by (rule k(2))
  moreover have "\<not> visit_at w job v x" "other \<noteq> owner \<Longrightarrow> (job, other) \<notin> of_entitled w
      \<and> (finalizer_id other \<longrightarrow> begin_verification job other (of_desk w) = (Inl (verdict FinBusy), of_desk w))
      \<and> (\<forall>r. acquire_finalizer job other r (of_desk w) = (False, of_desk w))"
    if e: "(job, owner) \<in> of_entitled w" for owner other v x
  proof -
    obtain i l where l: "lease_at (of_desk w) job = Some (i, l)" "ls_owner l = owner" "\<not> ls_verifying l"
      using k(3) [OF e] by blast
    show "\<not> visit_at w job v x" using k(1) [of v x] l by auto
    assume o': "other \<noteq> owner"
    have "(job, other) \<notin> of_entitled w" using k(3) [of other] l o' by auto
    then show "(job, other) \<notin> of_entitled w
      \<and> (finalizer_id other \<longrightarrow> begin_verification job other (of_desk w) = (Inl (verdict FinBusy), of_desk w))
      \<and> (\<forall>r. acquire_finalizer job other r (of_desk w) = (False, of_desk w))"
      using l o' by (simp add: begin_verification_def acquire_finalizer_def)
  qed
  moreover have "(\<exists>v x. visit_at w job v x) \<or> (\<exists>owner. holder_at w job owner)" if active: "is_finalizer_active (of_desk w) job"
  proof -
    obtain i l where "lease_at (of_desk w) job = Some (i, l)"
      using active lease_at_None [OF office_okD(1) [OF ok], of job]
      by (cases "lease_at (of_desk w) job") (auto simp: is_finalizer_active_def)
    then show ?thesis using k(4) k(5) by blast
  qed
  ultimately show ?thesis by blast
qed

text \<open>A flow is told \<open>VERIFIED\<close>; another flow, an entry that loads and the same job's worker are kept off.\<close>

definition sample_finalizing :: office where
  "sample_finalizing = fold react [AskVerify 0 ''job'' ''flow_a'', AskVerify 1 ''job'' ''flow_b'',
     ReceiptRead 0 (Inr (clean_receipt 1 clean_now HealthyUnclaimed 9)),
     Proved 0 (Inr \<lparr>fr_outcome = FinVerified, fr_health = None\<rparr>),
     AskSettle 2 ''job'' ''setup_x'', TakenUp 2 (clean_receipt 1 clean_now HealthyUnclaimed 9)] empty_office"

lemma fold_react_reachable: "office_reachable w \<Longrightarrow> office_reachable (fold react es w)"
  by (induction es arbitrary: w) (auto intro: office_reachable.reacted)

lemma sample_finalizing_reachable: "office_reachable sample_finalizing"
  unfolding sample_finalizing_def by (rule fold_react_reachable [OF office_reachable.opened])

lemma sample_finalizing_entitled: "of_entitled sample_finalizing = {(''job'', ''flow_a'')}"
proof -
  have "finalizer_id ''flow_a''" "finalizer_id ''flow_b''" "finalizer_id ''setup_x''"
    "rc_phase (clean_receipt 1 clean_now HealthyUnclaimed 9) = HealthyUnclaimed" by code_simp+
  then show ?thesis
    by (simp add: sample_finalizing_def empty_office_def fresh_desk_def ask_verify_def begin_verification_def lease_at_def
        new_lease_def receipt_read_def proved_def leave_def verified_def end_verification_def update_lease_def
        asked_to_release_def Let_def taken_up_def acquire_finalizer_def taker_ends_def give_back_def release_finalizer_def)
qed

theorem one_finalizer_witness:
  "office_reachable sample_finalizing \<and> (''job'', ''flow_a'') \<in> of_entitled sample_finalizing
   \<and> begin_verification ''job'' ''flow_b'' (of_desk sample_finalizing) = (Inl (verdict FinBusy), of_desk sample_finalizing)"
proof -
  have "finalizer_id ''flow_b''" by code_simp
  then show ?thesis
    using one_finalizer [OF sample_finalizing_reachable, of "''job''"] sample_finalizing_reachable
    by (simp add: sample_finalizing_entitled)
qed

lemma acquire_workers: "acquire_finalizer job owner r d = (granted, d') \<Longrightarrow> dk_barred d' = dk_barred d"
  by (auto simp: acquire_finalizer_def split: if_splits option.splits)

lemma begin_workers: "begin_verification job owner d = (x, d') \<Longrightarrow> dk_barred d' = dk_barred d"
  by (auto simp: begin_verification_def split: if_splits option.splits)

lemma barred_simps [simp]:
  "dk_barred (release_finalizer job owner d) = dk_barred d"
  "dk_barred (of_desk (leave v x result w)) = dk_barred (of_desk w)"
  "dk_barred (of_desk (taker_ends c t w)) = dk_barred (of_desk w)"
  "dk_barred (of_desk (ask_verify v job owner w)) = dk_barred (of_desk w)"
  "dk_barred (of_desk (taken_up c t r w)) = dk_barred (of_desk w)"
  "dk_barred (of_desk (receipt_read v x answer w)) = dk_barred (of_desk w)"
  "dk_barred (of_desk (proved v x answer' w)) = dk_barred (of_desk w)"
  "dk_barred (of_desk (ensure_worker job r w)) = dk_barred (of_desk w)"
proof -
  show r: "dk_barred (release_finalizer job owner d) = dk_barred d" for job owner d
    by (simp add: release_finalizer_def split: option.split)
  show l: "dk_barred (of_desk (leave v x result w)) = dk_barred (of_desk w)" for v x result
    by (simp add: leave_def)
  show t: "dk_barred (of_desk (taker_ends c t w)) = dk_barred (of_desk w)" for c t
    by (simp add: taker_ends_def give_back_def r)
  show "dk_barred (of_desk (ask_verify v job owner w)) = dk_barred (of_desk w)"
    by (auto simp: ask_verify_def split: prod.split sum.split dest: begin_workers)
  show "dk_barred (of_desk (taken_up c t r w)) = dk_barred (of_desk w)"
    by (auto simp: taken_up_def Let_def t split: prod.split dest: acquire_workers)
  show "dk_barred (of_desk (receipt_read v x answer w)) = dk_barred (of_desk w)"
    by (simp add: receipt_read_def l split: sum.split)
  show "dk_barred (of_desk (proved v x answer' w)) = dk_barred (of_desk w)"
    by (simp add: proved_def l)
  show "dk_barred (of_desk (ensure_worker job r w)) = dk_barred (of_desk w)"
    by (simp add: ensure_worker_def start_worker_def)
qed

lemma react_barred: "job \<in> dk_barred (of_desk w) \<Longrightarrow> job \<in> dk_barred (of_desk (react e w))"
  by (cases e) (simp_all add: give_back_def worker_gone_def worker_done_def Let_def split: option.split)

lemma fold_react_barred: "job \<in> dk_barred (of_desk w) \<Longrightarrow> job \<in> dk_barred (of_desk (fold react es w))"
  by (induction es arbitrary: w) (auto intro: react_barred)

text \<open>C32. A job has at most one worker at any time, the one the table knows, and none ever again in this process once one
  of its workers was cancelled or failed.\<close>

theorem one_worker:
  assumes "office_reachable w" "(job, t) \<in> of_running w"
  shows "dk_workers (of_desk w) job = Some t \<and> (\<forall>t'. (job, t') \<in> of_running w \<longrightarrow> t' = t)
    \<and> (\<forall>es t'. (job, t') \<notin> of_running (fold react es (react (WorkerGone job t True) w)))"
proof -
  have ok: "office_ok w" by (rule office_reachable_ok [OF assms(1)])
  have barred: "job \<in> dk_barred (of_desk (fold react es (react (WorkerGone job t True) w)))" for es
    by (rule fold_react_barred) (use assms(2) in \<open>simp add: worker_gone_def worker_done_def Let_def\<close>)
  have "(job, t') \<notin> of_running (fold react es (react (WorkerGone job t True) w))" for es t'
    using workers_keptD(2) [OF office_reachable_ok [OF fold_react_reachable [OF office_reachable.reacted [OF assms(1)]]]] barred by blast
  moreover have "t' = t" if "(job, t') \<in> of_running w" for t'
    using workers_keptD(1) [OF ok that] workers_keptD(1) [OF ok assms(2)] by simp
  ultimately show ?thesis using workers_keptD(1) [OF ok assms(2)] by blast
qed

theorem one_worker_witness:
  "\<exists>w. office_reachable w \<and> (''job'', 0) \<in> of_running w
     \<and> (\<forall>es t'. (''job'', t') \<notin> of_running (fold react es (react (WorkerGone ''job'' 0 True) w)))"
proof -
  let ?w = "react (EnsureWorker ''job'' clean_start) empty_office"
  have r: "office_reachable ?w" by (intro office_reachable.intros)
  have "\<not> settled_phase clean_start" by code_simp
  then have "(''job'', 0) \<in> of_running ?w"
    by (simp add: ensure_worker_def start_worker_def empty_office_def fresh_desk_def)
  with one_worker [OF r this] r show ?thesis by blast
qed


section \<open>After a restart\<close>

text \<open>A job that is resumed was listed in a phase the worker may take up again.\<close>

lemma resumed_jobs_safe:
  assumes "resume_jobs E meanwhile rs d b = (Inr (jobs, d'), b')" "job \<in> set jobs"
  shows "\<exists>r \<in> set rs. rc_job_id r = job \<and> rc_phase r \<in> safe_resume_phases \<and> \<not> is_terminal r"
  using assms
proof (induction E meanwhile rs d arbitrary: b jobs d' b' rule: resume_jobs.induct)
  case (2 E meanwhile r rs d)
  show ?case
  proof (cases "settled_phase r \<or> rc_phase r \<in> restart_ambiguous_phases \<or> rc_phase r \<notin> safe_resume_phases")
    case True
    then obtain b1 where "resume_jobs E meanwhile rs d b1 = (Inr (jobs, d'), b')"
      using "2.prems"(1) by (auto simp: sequel_Inr split: if_splits)
    then show ?thesis using "2.IH" True "2.prems"(2) by (auto split: if_splits; metis)
  next
    case False
    then obtain task d1 b1 jobs1 b2 where s: "resume_jobs E meanwhile rs d1 b1 = (Inr (jobs1, d'), b2)"
        "jobs = (if task = (None :: nat option) then jobs1 else rc_job_id r # jobs1)"
      using "2.prems"(1) by (auto simp: sequel_Inr split: prod.splits)
    show ?thesis
    proof (cases "job \<in> set jobs1")
      case True
      with "2.IH"(4) s(1) False show ?thesis by fastforce
    next
      case no: False
      with s(2) "2.prems"(2) have "job = rc_job_id r" by (auto split: if_splits)
      with False show ?thesis by (auto simp: settled_phase_def)
    qed
  qed
qed simp

text \<open>A settlement consumes the receipt only for an entry whose app is the one that was installed.\<close>

lemma settle_consumes:
  assumes "settle E s job_id r b = (Inr informed, b')"
  shows "\<exists>r'. bn_log b' = Moved r' # bn_log b \<and> rc_phase r' = ta_phase (settled_as s r)
    \<and> (informed \<noteq> [] \<longleftrightarrow> rc_phase r' = Consumed)"
proof -
  from assms obtain r' b1 where m: "job_transition E job_id (rc_revision r) (settled_as s r) b = (Inr r', b1)"
      "b' = b1" "informed = (case ta_consumed_entry_id (settled_as s r) of None \<Rightarrow> [] | Some entry_id \<Rightarrow> [entry_id])"
    by (auto simp: settle_def sequel_Inr)
  then show ?thesis
    using job_transition_Inr [OF m(1)]
    by (auto simp: settled_as_def consumed_as_def move_to_def split: settlement.splits if_splits)
qed

end
