(* ===== verification/Adb_Frames.thy ===== *)
theory Adb_Frames
  imports Executor_World
begin

text \<open>
  The framed answers of adb\_protocol.py: each shell program the installer sends prints a marker
  with a nonce before and after each of its commands, and the parser of its answer takes the
  sections apart again.  A body is a string of bytes, a line a string of code points up to U+00FF.
  \<open>None\<close> is the code's \<open>_MalformedAdbResponse\<close>.
\<close>

section \<open>Lines\<close>

text \<open>Where \<open>str.splitlines\<close> ends a line, up to U+00FF.\<close>

definition is_line_break :: "char \<Rightarrow> bool" where
  "is_line_break c \<longleftrightarrow> code_of c \<in> {10, 11, 12, 13, 28, 29, 30, 133}"

text \<open>\<open>str.splitlines\<close> of a text without a carriage return.\<close>

fun splitlines :: "string \<Rightarrow> string list" where
  "splitlines [] = []"
| "splitlines (c # s) = (if is_line_break c then [] # splitlines s
     else (case splitlines s of [] \<Rightarrow> [[c]] | l # ls \<Rightarrow> (c # l) # ls))"

text \<open>\<open>text.replace("\r\n", "\n")\<close>\<close>

fun replace_crlf :: "string \<Rightarrow> string" where
  "replace_crlf (c # d # s) = (if c = CHR 0x0D \<and> d = CHR 0x0A then CHR 0x0A # replace_crlf s
     else c # replace_crlf (d # s))"
| "replace_crlf s = s"

abbreviation max_shell_response_bytes :: nat where
  "max_shell_response_bytes \<equiv> 32 * 1024"

definition decode_lines :: "string \<Rightarrow> string list option" where
  "decode_lines body = do {
     guard (body \<noteq> [] \<and> length body \<le> max_shell_response_bytes);
     decoded \<leftarrow> utf8_decode body;
     let text = replace_crlf decoded;
     guard (CHR 0x0D \<notin> set text \<and> ends_with text [CHR 0x0A]);
     Some (splitlines text) }"

text \<open>\<open>str.encode()\<close>, as far as U+00FF.\<close>

definition utf8_char :: "char \<Rightarrow> string" where
  "utf8_char c = (if code_of c < 128 then [c]
     else [char_of (192 + code_of c div 64), char_of (128 + code_of c mod 64)])"

definition utf8_encode :: "string \<Rightarrow> string" where
  "utf8_encode s = concat (map utf8_char s)"

text \<open>\<open>("\n".join(lines) + "\n").encode()\<close>\<close>

definition lines_text :: "string list \<Rightarrow> string" where
  "lines_text ls = join_with [CHR 0x0A] ls @ [CHR 0x0A]"

definition frame_bytes :: "string list \<Rightarrow> string" where
  "frame_bytes ls = utf8_encode (lines_text ls)"

definition one_line :: "string \<Rightarrow> bool" where
  "one_line l \<longleftrightarrow> list_all (\<lambda>c. \<not> is_line_break c) l"

lemma utf8_encode_simps [simp]: "utf8_encode [] = []" "utf8_encode (c # s) = utf8_char c @ utf8_encode s"
  by (simp_all add: utf8_encode_def)

lemma utf8_decode_char: "utf8_decode (utf8_char c @ s) = map_option ((#) c) (utf8_decode s)"
proof (cases "code_of c < 128")
  case True
  then show ?thesis by (simp add: utf8_char_def)
next
  case False
  define n where "n = code_of c"
  have n: "128 \<le> n" "n < 256" using False code_of_less [of c] by (simp_all add: n_def)
  then have d: "n div 64 = 2 \<or> n div 64 = 3" by linarith
  then have hi: "code_of (char_of (192 + n div 64)) = 192 + n div 64" by (auto simp: code_of_def)
  have lo: "code_of (char_of (128 + n mod 64)) = 128 + n mod 64" by (simp add: code_of_def)
  have "64 * (n div 64) + n mod 64 = n" by simp
  then show ?thesis using False d hi lo unfolding n_def [symmetric]
    by (auto simp: utf8_char_def n_def [symmetric]) (simp_all add: n_def)
qed

lemma utf8_decode_encode [simp]: "utf8_decode (utf8_encode s) = Some s"
  by (induction s) (simp_all add: utf8_decode_char)

lemma utf8_encode_ne [simp]: "utf8_encode s = [] \<longleftrightarrow> s = []"
  by (cases s) (simp_all add: utf8_char_def)

lemma splitlines_line: "one_line l \<Longrightarrow> splitlines (l @ CHR 0x0A # s) = l # splitlines s"
  by (induction l) (simp_all add: one_line_def is_line_break_def code_of_def)

lemma lines_text_Cons: "ls \<noteq> [] \<Longrightarrow> lines_text (l # ls) = l @ CHR 0x0A # lines_text ls"
  by (cases ls) (simp_all add: lines_text_def)

lemma splitlines_text: "ls \<noteq> [] \<Longrightarrow> list_all one_line ls \<Longrightarrow> splitlines (lines_text ls) = ls"
proof (induction ls)
  case (Cons l ls)
  then show ?case
    by (cases "ls = []") (simp_all add: lines_text_Cons splitlines_line, simp add: lines_text_def splitlines_line [of l "[]", simplified])
qed simp

lemma replace_crlf_none: "CHR 0x0D \<notin> set s \<Longrightarrow> replace_crlf s = s"
  by (induction s rule: replace_crlf.induct) auto

lemma lines_text_no_cr: "list_all one_line ls \<Longrightarrow> CHR 0x0D \<notin> set (lines_text ls)"
proof (induction ls)
  case Nil
  then show ?case by (simp add: lines_text_def)
next
  case (Cons l ls)
  have "CHR 0x0D \<notin> set l" using Cons.prems by (auto simp: one_line_def list_all_iff is_line_break_def code_of_def)
  with Cons show ?case by (cases "ls = []") (simp_all add: lines_text_Cons, simp add: lines_text_def)
qed

lemma ends_with_snoc [simp]: "ends_with (s @ [c]) [c]"
  by (simp add: ends_with_def)

text \<open>A frame of whole lines decodes to these lines, if it fits the bound.\<close>

lemma decode_frame:
  assumes "ls \<noteq> []" "list_all one_line ls"
  shows "decode_lines (frame_bytes ls) = (if length (frame_bytes ls) \<le> max_shell_response_bytes then Some ls else None)"
proof -
  have "lines_text ls \<noteq> []" "ends_with (lines_text ls) [CHR 0x0A]" by (simp_all add: lines_text_def)
  then show ?thesis
    using assms by (simp add: decode_lines_def frame_bytes_def replace_crlf_none lines_text_no_cr splitlines_text guard_def)
qed

lemma splitlines_one_line: "list_all one_line (splitlines s)"
  by (induction s) (auto simp: one_line_def split: list.splits)

lemma decode_lines_one_line: "decode_lines body = Some ls \<Longrightarrow> list_all one_line ls"
  by (auto simp: decode_lines_def Let_def bind_eq_Some_conv splitlines_one_line)

lemma splitlines_Nil: "splitlines s = [] \<longleftrightarrow> s = []"
  by (induction s) (auto split: list.splits)

lemma replace_crlf_ne: "s \<noteq> [] \<Longrightarrow> replace_crlf s \<noteq> []"
  by (induction s rule: replace_crlf.induct) auto

lemma decode_lines_ne: "decode_lines body = Some ls \<Longrightarrow> ls \<noteq> []"
  by (auto simp: decode_lines_def Let_def bind_eq_Some_conv splitlines_Nil ends_with_def)

section \<open>Markers\<close>

definition marker :: string where "marker = ''HAPANELD_''"

definition begin_mark :: "string \<Rightarrow> string \<Rightarrow> string" where
  "begin_mark prefix nonce = marker @ prefix @ ''_BEGIN:'' @ nonce"

definition end_mark :: "string \<Rightarrow> string \<Rightarrow> string" where
  "end_mark prefix nonce = marker @ prefix @ ''_END:'' @ nonce"

definition status_mark :: "string \<Rightarrow> string \<Rightarrow> int \<Rightarrow> string" where
  "status_mark prefix nonce st = end_mark prefix nonce @ '':'' @ int_string st"

definition section_of :: "string \<Rightarrow> string \<Rightarrow> string" where
  "section_of prefix name = prefix @ ''_'' @ name"

text \<open>\<open>_parse_status\<close>; the nonces are hexadecimal, so nothing of them is a pattern.\<close>

definition parse_status :: "string \<Rightarrow> string \<Rightarrow> string \<Rightarrow> int option" where
  "parse_status line prefix nonce = (let m = end_mark prefix nonce @ '':''; digits = drop (length m) line in
     if starts_with line m \<and> length digits \<in> {1, 2, 3} \<and> list_all is_digit digits
     then Some (dec_value digits) else None)"

lemma starts_with_self_append [simp]: "starts_with (p @ s) p"
  by (simp add: starts_with_def)

lemma starts_with_trans: "starts_with s (p @ q) \<Longrightarrow> starts_with s p"
  by (auto simp: starts_with_def dest: arg_cong [where f = "take (length p)"])

lemma status_starts: "parse_status line prefix nonce = Some st \<Longrightarrow> starts_with line marker"
  by (auto simp: parse_status_def Let_def end_mark_def split: if_splits intro: starts_with_trans)

lemma dec_string_all_digits: "0 \<le> n \<Longrightarrow> list_all is_digit (dec_string n)"
proof (induction n rule: dec_string.induct)
  case (1 n)
  then show ?case by (subst dec_string.simps) auto
qed

lemma dec_string_short: "0 \<le> n \<Longrightarrow> n < 1000 \<Longrightarrow> length (dec_string n) \<in> {1, 2, 3}"
  by (subst dec_string.simps, subst dec_string.simps, subst dec_string.simps) auto

lemma parse_status_mark: "0 \<le> st \<Longrightarrow> st < 1000 \<Longrightarrow> parse_status (status_mark prefix nonce st) prefix nonce = Some st"
  using dec_string_short [of st]
  by (simp add: parse_status_def status_mark_def Let_def int_string_def dec_string_all_digits)
    (simp add: starts_with_def)

lemma parse_status_range: "parse_status line prefix nonce = Some st \<Longrightarrow> 0 \<le> st \<and> st < 1000"
proof -
  assume a: "parse_status line prefix nonce = Some st"
  define ds where "ds = drop (length (end_mark prefix nonce @ '':'')) line"
  have ds: "length ds \<in> {1, 2, 3}" "list_all is_digit ds" "st = dec_value ds"
    using a by (auto simp: parse_status_def Let_def ds_def split: if_splits)
  have d: "0 \<le> digit_value c \<and> digit_value c \<le> 9" if "is_digit c" for c
    using that by (simp add: is_digit_def digit_value_def less_eq_char_def code_of_def)
  from ds(1) consider a where "ds = [a]" | a b where "ds = [a, b]" | a b c where "ds = [a, b, c]"
    by (auto simp: length_Suc_conv numeral_eq_Suc)
  then show ?thesis
  proof cases
    case (1 a)
    then show ?thesis using ds d [of a] by (simp add: dec_value_def)
  next
    case (2 a b)
    then show ?thesis using ds d [of a] d [of b] by (simp add: dec_value_def)
  next
    case (3 a b c)
    then show ?thesis using ds d [of a] d [of b] d [of c] by (simp add: dec_value_def)
  qed
qed

section \<open>Sections\<close>

type_synonym sections = "(string \<times> string list \<times> int) list"

text \<open>The lines of one section up to its status line, and what follows.\<close>

fun scan_section :: "string \<Rightarrow> string \<Rightarrow> string list \<Rightarrow> (string list \<times> int \<times> string list) option" where
  "scan_section label nonce [] = None"
| "scan_section label nonce (l # ls) = (case parse_status l label nonce of
     Some st \<Rightarrow> Some ([], st, ls)
   | None \<Rightarrow> (if starts_with l marker then None
       else map_option (\<lambda>(vs, st, r). (l # vs, st, r)) (scan_section label nonce ls)))"

fun read_sections :: "string \<Rightarrow> string \<Rightarrow> string list \<Rightarrow> string list \<Rightarrow> sections option" where
  "read_sections prefix nonce [] ls = (if ls = [] then Some [] else None)"
| "read_sections prefix nonce (n # ns) ls = (case ls of
     [] \<Rightarrow> None
   | l # r \<Rightarrow> (if l \<noteq> begin_mark (section_of prefix n) nonce then None
       else (case scan_section (section_of prefix n) nonce r of
           None \<Rightarrow> None
         | Some (vs, st, r') \<Rightarrow> map_option ((#) (n, vs, st)) (read_sections prefix nonce ns r'))))"

text \<open>\<open>_parse_sections\<close>: the sections in the order of the names, all of them and no other line.\<close>

definition parse_sections :: "string \<Rightarrow> string \<Rightarrow> string \<Rightarrow> string list \<Rightarrow> sections option" where
  "parse_sections body prefix nonce names = do {
     ls \<leftarrow> decode_lines body;
     guard (hd ls = begin_mark prefix nonce \<and> last ls = end_mark prefix nonce);
     read_sections prefix nonce names (tl (butlast ls)) }"

text \<open>\<open>_parse_single_section\<close>\<close>

definition parse_single_section :: "string \<Rightarrow> string \<Rightarrow> string \<Rightarrow> (string list \<times> int) option" where
  "parse_single_section body prefix nonce = do {
     ls \<leftarrow> decode_lines body;
     guard (hd ls = begin_mark prefix nonce);
     st \<leftarrow> parse_status (last ls) prefix nonce;
     guard (\<not> list_ex (\<lambda>l. starts_with l marker) (tl (butlast ls)));
     Some (tl (butlast ls), st) }"

text \<open>\<open>_sections_as_frame\<close>\<close>

definition section_lines :: "string \<Rightarrow> string \<Rightarrow> string \<times> string list \<times> int \<Rightarrow> string list" where
  "section_lines prefix nonce = (\<lambda>(n, vs, st).
     begin_mark (section_of prefix n) nonce # vs @ [status_mark (section_of prefix n) nonce st])"

definition frame_lines :: "string \<Rightarrow> string \<Rightarrow> sections \<Rightarrow> string list" where
  "frame_lines prefix nonce secs =
     begin_mark prefix nonce # concat (map (section_lines prefix nonce) secs) @ [end_mark prefix nonce]"

definition section_get :: "sections \<Rightarrow> string \<Rightarrow> string list \<times> int" where
  "section_get secs name = (case map_of secs name of None \<Rightarrow> ([], -1) | Some s \<Rightarrow> s)"

definition sections_as_frame :: "sections \<Rightarrow> string \<Rightarrow> string \<Rightarrow> string list \<Rightarrow> string" where
  "sections_as_frame secs prefix nonce names =
     frame_bytes (frame_lines prefix nonce (map (\<lambda>n. (n, section_get secs n)) names))"

text \<open>What a section may hold: whole lines, none of which looks like a marker, and an exit status.\<close>

definition section_ok :: "string list \<times> int \<Rightarrow> bool" where
  "section_ok = (\<lambda>(vs, st). list_all (\<lambda>l. one_line l \<and> \<not> starts_with l marker) vs \<and> 0 \<le> st \<and> st < 1000)"

lemma scan_section_lines:
  assumes "list_all (\<lambda>l. \<not> starts_with l marker) vs" "0 \<le> st" "st < 1000"
  shows "scan_section label nonce (vs @ status_mark label nonce st # r) = Some (vs, st, r)"
  using assms
proof (induction vs)
  case (Cons l vs)
  have "parse_status l label nonce = None"
    using Cons.prems status_starts [of l label nonce] by (cases "parse_status l label nonce") auto
  then show ?case using Cons by simp
qed (simp add: parse_status_mark)

lemma read_section_lines:
  assumes "list_all (section_ok \<circ> snd) secs"
  shows "read_sections prefix nonce (map fst secs) (concat (map (section_lines prefix nonce) secs)) = Some secs"
  using assms
proof (induction secs)
  case (Cons s secs)
  obtain n vs st where s: "s = (n, vs, st)" by (cases s) auto
  have ok: "list_all (\<lambda>l. \<not> starts_with l marker) vs" "0 \<le> st" "st < 1000"
    using Cons.prems by (auto simp: s section_ok_def list_all_iff)
  show ?case
    using Cons by (simp add: s section_lines_def scan_section_lines [OF ok])
qed simp

text \<open>Text that is safe in a marker: letters, digits and underscores.\<close>

definition plain_mark :: "string \<Rightarrow> bool" where
  "plain_mark s \<longleftrightarrow> list_all (\<lambda>c. is_alnum c \<or> c = CHR ''_'') s"

lemma plain_one_line: "plain_mark s \<Longrightarrow> one_line s"
  by (auto simp: plain_mark_def one_line_def list_all_iff is_alnum_def is_digit_def is_lower_def is_upper_def
      is_line_break_def less_eq_char_def code_of_def)

lemma one_line_Cons [simp]: "one_line [] \<longleftrightarrow> True" "one_line (c # s) \<longleftrightarrow> \<not> is_line_break c \<and> one_line s"
  by (simp_all add: one_line_def)

lemma one_line_append [simp]: "one_line (a @ b) \<longleftrightarrow> one_line a \<and> one_line b"
  by (simp add: one_line_def)

lemma one_line_int: "0 \<le> st \<Longrightarrow> one_line (int_string st)"
proof -
  assume "0 \<le> st"
  then have "list_all is_digit (int_string st)" by (simp add: int_string_def dec_string_all_digits)
  then show ?thesis by (auto simp: one_line_def list_all_iff is_digit_def is_line_break_def less_eq_char_def code_of_def)
qed

lemma marks_one_line:
  assumes "plain_mark prefix" "plain_mark nonce"
  shows "one_line (begin_mark prefix nonce)" "one_line (end_mark prefix nonce)"
    "0 \<le> st \<Longrightarrow> one_line (status_mark prefix nonce st)"
proof -
  show "one_line (begin_mark prefix nonce)" "one_line (end_mark prefix nonce)"
    "0 \<le> st \<Longrightarrow> one_line (status_mark prefix nonce st)"
    using assms by (simp_all add: begin_mark_def end_mark_def status_mark_def marker_def plain_one_line one_line_int
        is_line_break_def code_of_def)
qed

lemma plain_section: "plain_mark prefix \<Longrightarrow> plain_mark n \<Longrightarrow> plain_mark (section_of prefix n)"
  by (simp add: plain_mark_def section_of_def)

lemma frame_one_line:
  assumes "plain_mark prefix" "plain_mark nonce" "list_all (\<lambda>(n, s). plain_mark n \<and> section_ok s) secs"
  shows "list_all one_line (frame_lines prefix nonce secs)"
proof -
  have "list_all one_line (section_lines prefix nonce s)" if "s \<in> set secs" for s
  proof -
    obtain n vs st where s: "s = (n, vs, st)" by (cases s) auto
    have n: "plain_mark n" "section_ok (vs, st)" using assms(3) that s by (auto simp: list_all_iff)
    note m = marks_one_line [OF plain_section [OF assms(1) n(1)] assms(2)]
    show ?thesis using n(2) m by (auto simp: s section_lines_def section_ok_def list_all_iff)
  qed
  then show ?thesis
    using marks_one_line [OF assms(1,2)] by (auto simp: frame_lines_def list_all_iff)
qed

text \<open>A frame parses back to its sections.\<close>

lemma parse_frame:
  assumes "plain_mark prefix" "plain_mark nonce" "list_all (\<lambda>(n, s). plain_mark n \<and> section_ok s) secs"
  shows "parse_sections (frame_bytes (frame_lines prefix nonce secs)) prefix nonce (map fst secs)
    = (if length (frame_bytes (frame_lines prefix nonce secs)) \<le> max_shell_response_bytes then Some secs else None)"
proof -
  have ok: "list_all (section_ok \<circ> snd) secs" using assms(3) by (auto simp: list_all_iff)
  have "decode_lines (frame_bytes (frame_lines prefix nonce secs))
    = (if length (frame_bytes (frame_lines prefix nonce secs)) \<le> max_shell_response_bytes
       then Some (frame_lines prefix nonce secs) else None)"
    by (rule decode_frame [OF _ frame_one_line [OF assms]]) (simp add: frame_lines_def)
  moreover have "tl (butlast (frame_lines prefix nonce secs)) = concat (map (section_lines prefix nonce) secs)"
    "hd (frame_lines prefix nonce secs) = begin_mark prefix nonce"
    "last (frame_lines prefix nonce secs) = end_mark prefix nonce"
    by (simp_all add: frame_lines_def)
  ultimately show ?thesis
    using read_section_lines [OF ok] by (simp add: parse_sections_def guard_def)
qed

text \<open>What is accepted has exactly the named sections, each of them plain.\<close>

lemma scan_section_ok:
  "scan_section label nonce ls = Some (vs, st, r) \<Longrightarrow> list_all one_line ls \<Longrightarrow> section_ok (vs, st) \<and> list_all one_line r"
proof (induction ls arbitrary: vs)
  case (Cons l ls)
  then show ?case
    by (fastforce simp: section_ok_def split: option.splits if_splits dest: parse_status_range)
qed simp

lemma read_sections_ok:
  "read_sections prefix nonce names ls = Some secs \<Longrightarrow> list_all one_line ls \<Longrightarrow>
     map fst secs = names \<and> list_all (section_ok \<circ> snd) secs"
proof (induction names arbitrary: ls secs)
  case (Cons n ns)
  then obtain r vs st r' secs' where s: "ls = begin_mark (section_of prefix n) nonce # r"
      "scan_section (section_of prefix n) nonce r = Some (vs, st, r')"
      "read_sections prefix nonce ns r' = Some secs'" "secs = (n, vs, st) # secs'"
    by (auto split: list.splits option.splits if_splits)
  moreover have "section_ok (vs, st) \<and> list_all one_line r'"
    using s Cons.prems(2) by (intro scan_section_ok) auto
  ultimately show ?case using Cons.IH by simp
qed (auto split: if_splits)

lemma parse_sections_ok:
  assumes "parse_sections body prefix nonce names = Some secs"
  shows "map fst secs = names" "list_all (section_ok \<circ> snd) secs"
proof -
  obtain ls where ls: "decode_lines body = Some ls" "read_sections prefix nonce names (tl (butlast ls)) = Some secs"
    using assms by (auto simp: parse_sections_def bind_eq_Some_conv)
  have "list_all one_line (tl (butlast ls))"
    using decode_lines_one_line [OF ls(1)] by (auto simp: list_all_iff dest: in_set_butlastD list.set_sel(2)
        intro: in_set_butlastD) (metis in_set_butlastD list.set_sel(2) tl_Nil)
  from read_sections_ok [OF ls(2) this] show "map fst secs = names" "list_all (section_ok \<circ> snd) secs" by simp_all
qed

section \<open>The shell\<close>

text \<open>
  A POSIX shell that is given the commands of a program one after the other: an \<open>echo\<close> of a marker
  prints the marker, with the last exit status for \<open>$?\<close>; any other command prints and returns what
  \<open>run\<close> says.
\<close>

fun shell_run :: "(string \<Rightarrow> string list \<times> int) \<Rightarrow> int \<Rightarrow> string list \<Rightarrow> string list" where
  "shell_run run st [] = []"
| "shell_run run st (c # cs) =
     (if starts_with c ''echo HAPANELD_''
      then (let t = drop 5 c in
        (if ends_with t ''$?'' then take (length t - 2) t @ int_string st else t) # shell_run run 0 cs)
      else (case run c of (out, s) \<Rightarrow> out @ shell_run run s cs))"

definition echo :: "string \<Rightarrow> string" where
  "echo s = ''echo '' @ s"

text \<open>The commands of one section, and of a framed program.\<close>

definition section_commands :: "string \<Rightarrow> string \<Rightarrow> string \<times> string \<Rightarrow> string list" where
  "section_commands prefix nonce = (\<lambda>(n, command). [echo (begin_mark (section_of prefix n) nonce), command,
     echo (end_mark (section_of prefix n) nonce @ '':$?'')])"

definition framed_commands :: "string \<Rightarrow> string \<Rightarrow> (string \<times> string) list \<Rightarrow> string list" where
  "framed_commands prefix nonce secs = echo (begin_mark prefix nonce)
     # concat (map (section_commands prefix nonce) secs) @ [echo (end_mark prefix nonce)]"

lemma echo_mark: "starts_with (echo (begin_mark p nonce)) ''echo HAPANELD_''"
  "starts_with (echo (end_mark p nonce @ t)) ''echo HAPANELD_''" "starts_with (echo (end_mark p nonce)) ''echo HAPANELD_''"
  by (simp_all add: echo_def begin_mark_def end_mark_def marker_def starts_with_def)

lemma drop_echo: "drop 5 (echo s) = s"
  by (simp add: echo_def)

lemma ends_with_last: "ends_with s p \<Longrightarrow> p \<noteq> [] \<Longrightarrow> last s = last p"
  unfolding ends_with_def by (metis append_take_drop_id last_appendR)

lemma not_status:
  assumes "nonce \<noteq> []" "plain_mark nonce"
  shows "\<not> ends_with (begin_mark p nonce) ''$?''" "\<not> ends_with (end_mark p nonce) ''$?''"
proof -
  have "is_alnum (last nonce) \<or> last nonce = CHR ''_''"
    using assms last_in_set [OF assms(1)] by (simp add: plain_mark_def list_all_iff)
  then have "last nonce \<noteq> CHR ''?''"
    by (auto simp: is_alnum_def is_digit_def is_lower_def is_upper_def less_eq_char_def)
  then show "\<not> ends_with (begin_mark p nonce) ''$?''" "\<not> ends_with (end_mark p nonce) ''$?''"
    using assms(1) by (auto simp: begin_mark_def end_mark_def dest!: ends_with_last)
qed

lemma shell_section:
  assumes "nonce \<noteq> []" "plain_mark nonce" "\<not> starts_with command ''echo HAPANELD_''"
  shows "shell_run run st (section_commands prefix nonce (n, command) @ cs)
    = section_lines prefix nonce (n, run command) @ shell_run run 0 cs"
proof -
  have e: "ends_with (end_mark p nonce @ '':$?'') ''$?''" "take (length (end_mark p nonce @ '':$?'') - 2) (end_mark p nonce @ '':$?'')
      = end_mark p nonce @ '':''" for p
    by (simp_all add: ends_with_def)
  show ?thesis
    using assms(3) not_status [OF assms(1,2)] e
    by (simp add: section_commands_def section_lines_def echo_mark drop_echo Let_def status_mark_def split: prod.split)
qed

lemma shell_frame:
  assumes "nonce \<noteq> []" "plain_mark nonce" "list_all (\<lambda>(n, c). \<not> starts_with c ''echo HAPANELD_'') secs"
  shows "shell_run run st (framed_commands prefix nonce secs)
    = frame_lines prefix nonce (map (\<lambda>(n, c). (n, run c)) secs)"
proof -
  have "shell_run run st (concat (map (section_commands prefix nonce) secs) @ [echo (end_mark prefix nonce)])
    = concat (map (section_lines prefix nonce) (map (\<lambda>(n, c). (n, run c)) secs)) @ [end_mark prefix nonce]" for st
    using assms(3)
  proof (induction secs arbitrary: st)
    case Nil
    then show ?case using not_status [OF assms(1,2)] by (simp add: echo_mark drop_echo Let_def)
  next
    case (Cons s secs)
    obtain n c where s: "s = (n, c)" by fastforce
    then show ?case using Cons shell_section [OF assms(1,2), of c run st prefix n] by simp
  qed
  then show ?thesis
    using not_status [OF assms(1,2)]
    by (simp add: framed_commands_def frame_lines_def echo_mark drop_echo Let_def)
qed

text \<open>A shell whose commands print whole lines that are no markers, and return an exit status.\<close>

definition honest_shell :: "(string \<Rightarrow> string list \<times> int) \<Rightarrow> string list \<Rightarrow> bool" where
  "honest_shell run commands \<longleftrightarrow> list_all (\<lambda>c. section_ok (run c)) commands"

text \<open>The command and the parser of its answer agree.\<close>

lemma framed_answer:
  assumes "nonce \<noteq> []" "plain_mark nonce" "plain_mark prefix"
    and "list_all (\<lambda>(n, c). plain_mark n \<and> \<not> starts_with c ''echo HAPANELD_'') secs"
    and "honest_shell run (map snd secs)"
  shows "parse_sections (frame_bytes (shell_run run 0 (framed_commands prefix nonce secs))) prefix nonce (map fst secs)
    = (if length (frame_bytes (shell_run run 0 (framed_commands prefix nonce secs))) \<le> max_shell_response_bytes
       then Some (map (\<lambda>(n, c). (n, run c)) secs) else None)"
proof -
  have q: "list_all (\<lambda>(n, c). \<not> starts_with c ''echo HAPANELD_'') secs"
    using assms(4) by (auto simp: list_all_iff)
  have "list_all (\<lambda>(n, s). plain_mark n \<and> section_ok s) (map (\<lambda>(n, c). (n, run c)) secs)"
    using assms(4,5) by (auto simp: list_all_iff honest_shell_def)
  from parse_frame [OF assms(3,2) this] show ?thesis
    by (simp add: shell_frame [OF assms(1,2) q] comp_def case_prod_unfold)
qed

end
