(* ===== verification/Adb_Commands.thy ===== *)
theory Adb_Commands
  imports Adb_Frames
begin

text \<open>
  The shell programs of adb\_protocol.py and previous\_home.py, as their exact text.  A framed
  program is the list of its commands; what is sent is their text joined by \<open>; \<close>.
\<close>

section \<open>What is asked about\<close>

definition probed_package_ids :: "string list" where
  "probed_package_ids = [legacy_package_id, package_id_current]"

definition root_data_bases :: "string list" where
  "root_data_bases = [''/data/user/0'', ''/data/data'', ''/data/user_de/0'']"

definition residue_probes :: "(string \<times> string) list" where
  "residue_probes = concat (map (\<lambda>p. map (\<lambda>b. (p, b @ ''/'' @ p)) root_data_bases) probed_package_ids)"

definition residue_paths :: "string list" where
  "residue_paths = map snd residue_probes"

definition su_prefixes :: "string list" where
  "su_prefixes = [''su 0'', ''su 0 sh -c'', ''su root'', ''su root sh -c'', ''su -c'']"

definition liveness_package :: string where "liveness_package = ''android''"

text \<open>\<open>f"NAME{index}"\<close> for every index below \<open>n\<close>\<close>

definition numbered :: "string \<Rightarrow> nat \<Rightarrow> string list" where
  "numbered name n = map (\<lambda>i. name @ int_string (int i)) [0..<n]"

section \<open>Framed programs\<close>

definition program :: "string list \<Rightarrow> string" where
  "program commands = join_with ''; '' commands"

definition property_sections :: "(string \<times> string) list" where
  "property_sections = [(''MODEL'', ''ro.product.model''), (''SERIAL'', ''ro.serialno''),
     (''ABI'', ''ro.product.cpu.abi''), (''SDK'', ''ro.build.version.sdk'')]"

definition property_names :: "string list" where
  "property_names = map fst property_sections"

text \<open>The sections of \<open>_framed_value_commands\<close>\<close>

definition value_sections :: "(string \<times> string) list" where
  "value_sections = map (\<lambda>(n, p). (n, ''getprop '' @ p)) property_sections"

definition framed_value_commands :: "string \<Rightarrow> string \<Rightarrow> string list" where
  "framed_value_commands prefix nonce = framed_commands prefix nonce value_sections"

definition su_observation_command :: string where
  "su_observation_command = ''if command -v su >/dev/null 2>&1; then echo present; ''
     @ ''else hapaneld_su_status=$?; ''
     @ ''if [ \"$hapaneld_su_status\" -eq 1 ]; then echo absent; ''
     @ ''else echo abnormal; fi; fi''"

definition presence_command :: "string \<Rightarrow> string" where
  "presence_command path = ''if [ -e '' @ path @ '' ] || [ -L '' @ path @ '' ]; then ''
     @ ''echo present; else echo absent; fi''"

definition base_command :: "string \<Rightarrow> string" where
  "base_command path = ''if [ -L '' @ path @ '' ] || [ -d '' @ path @ '' ]; then ''
     @ ''if ls -1A '' @ path @ '' >/dev/null 2>&1; then echo readable; ''
     @ ''else echo unreadable; fi; else echo unreadable; fi''"

definition posture_sections :: "(string \<times> string) list" where
  "posture_sections = [(''UID'', ''id -u''), (''SECURE'', ''getprop ro.secure''),
     (''DEBUGGABLE'', ''getprop ro.debuggable''), (''SU'', su_observation_command)]"

definition package_sections :: "(string \<times> string) list" where
  "package_sections = concat (map (\<lambda>(i, p).
     [(''PACKAGE'' @ int_string (int i), ''pm path '' @ p),
      (''RETAINED'' @ int_string (int i), ''pm list packages -u '' @ p)]) (enumerate 0 probed_package_ids))"

definition base_sections :: "(string \<times> string) list" where
  "base_sections = zip (numbered ''BASE'' (length root_data_bases)) (map base_command root_data_bases)"

definition residue_sections :: "(string \<times> string) list" where
  "residue_sections = zip (numbered ''RESIDUE'' (length residue_paths)) (map presence_command residue_paths)"

definition preflight_sections :: "(string \<times> string) list" where
  "preflight_sections = value_sections @ posture_sections
     @ [(''LIVE'', ''pm path '' @ liveness_package)] @ package_sections @ base_sections @ residue_sections"

definition preflight_commands :: "string \<Rightarrow> string list" where
  "preflight_commands nonce = framed_commands ''PREFLIGHT'' nonce preflight_sections"

definition preflight_command :: "string \<Rightarrow> string" where
  "preflight_command nonce = program (preflight_commands nonce)"

definition identity_root_sections :: "(string \<times> string) list" where
  "identity_root_sections = value_sections @ posture_sections"

definition identity_root_commands :: "string \<Rightarrow> string list" where
  "identity_root_commands nonce = framed_commands ''POSTURE'' nonce identity_root_sections"

definition identity_root_command :: "string \<Rightarrow> string" where
  "identity_root_command nonce = program (identity_root_commands nonce)"

section \<open>Delegated root\<close>

definition su_base_command :: "string \<Rightarrow> string" where
  "su_base_command path = ''if [ -d '' @ path @ '' ] && ls -1A '' @ path @ '' >/dev/null 2>&1; ''
     @ ''then echo readable; else echo unreadable; fi''"

definition su_sections :: "bool \<Rightarrow> (string \<times> string) list" where
  "su_sections clean = (''UID'', ''id -u'') # (if clean
     then zip (numbered ''BASE'' (length root_data_bases)) (map su_base_command root_data_bases) @ residue_sections
     else [])"

definition su_inspection_commands :: "string \<Rightarrow> bool \<Rightarrow> string list" where
  "su_inspection_commands nonce clean = framed_commands ''SU'' nonce (su_sections clean)"

definition su_inspection_command :: "string \<Rightarrow> bool \<Rightarrow> string" where
  "su_inspection_command nonce clean = program (su_inspection_commands nonce clean)"

text \<open>
  \<open>shlex.quote\<close>: a text of safe characters alone stays as it is; any other is put between single
  quotes, each of its own single quotes closing, quoting and reopening.
\<close>

definition shell_safe :: "char \<Rightarrow> bool" where
  "shell_safe c \<longleftrightarrow> is_alnum c \<or> c \<in> set ''_@%+=:,./-''"

definition single_quote :: char where "single_quote = CHR 0x27"

definition quote_step :: "char \<Rightarrow> string" where
  "quote_step c = (if c = single_quote
     then [single_quote, quote_char, single_quote, quote_char, single_quote] else [c])"

definition shlex_quote :: "string \<Rightarrow> string" where
  "shlex_quote s = (if s = [] then [single_quote, single_quote]
     else if list_all shell_safe s then s
     else single_quote # concat (map quote_step s) @ [single_quote])"

definition su_attempt_command :: "string \<Rightarrow> string \<Rightarrow> bool \<Rightarrow> string" where
  "su_attempt_command prefix nonce clean = ''echo HAPANELD_DELEGATE_BEGIN:'' @ nonce @ ''; '' @ prefix @ '' ''
     @ shlex_quote (su_inspection_command nonce clean) @ ''; echo HAPANELD_DELEGATE_END:'' @ nonce @ '':$?''"

section \<open>One section\<close>

definition single_command :: "string \<Rightarrow> string \<Rightarrow> string \<Rightarrow> string list" where
  "single_command prefix nonce command =
     [echo (begin_mark prefix nonce), command, echo (end_mark prefix nonce @ '':$?'')]"

definition path_state_command :: "string \<Rightarrow> string \<Rightarrow> string" where
  "path_state_command nonce path = program (single_command ''PATH'' nonce (presence_command path))"

definition package_command :: "string \<Rightarrow> string \<Rightarrow> string" where
  "package_command nonce package = program (single_command ''PACKAGE'' nonce (''pm path '' @ package))"

definition artifact_sections :: "string \<Rightarrow> bool \<Rightarrow> (string \<times> string) list" where
  "artifact_sections path prepare = (if prepare then [(''CHMOD'', ''chmod 0644 '' @ path)] else [])
     @ [(''MODE'', ''stat -c %f '' @ path), (''SIZE'', ''wc -c < '' @ path), (''SHA'', ''sha256sum '' @ path)]"

definition artifact_observation_command :: "string \<Rightarrow> string \<Rightarrow> bool \<Rightarrow> string" where
  "artifact_observation_command nonce path prepare =
     program (framed_commands ''ARTIFACT'' nonce (artifact_sections path prepare))"

definition remote_artifact_command :: "string \<Rightarrow> string \<Rightarrow> string" where
  "remote_artifact_command nonce path = artifact_observation_command nonce path True"

definition launch_command :: "string \<Rightarrow> string \<Rightarrow> string \<Rightarrow> string" where
  "launch_command nonce package component = program (single_command ''LAUNCH'' nonce
     (''am start -W -n '' @ component @ '' -p '' @ package))"

section \<open>The previous HOME\<close>

definition home_query :: string where
  "home_query = ''cmd package resolve-activity --brief ''
     @ ''-a android.intent.action.MAIN -c android.intent.category.HOME 2>/dev/null'' @ '' | tail -n 1''"

definition component_pattern :: string where
  "component_pattern = ''^[A-Za-z][A-Za-z0-9_.]*/[A-Za-z.][A-Za-z0-9_.$]*$''"

definition home_parents :: string where
  "home_parents = join_with '' && ''
     (map (\<lambda>p. ''[ ! -L '' @ p @ '' ]'') [''/data'', ''/data/local'', ''/data/local/tmp''])"

definition owned_file :: "string \<Rightarrow> string" where
  "owned_file path = home_parents @ '' && [ ! -L '' @ path @ '' ] && [ -f '' @ path @ '' ] && ''
     @ ''[ \"$(stat -c %h '' @ path @ '')\" = 1 ] && ''
     @ ''{ [ \"$(stat -c %u '' @ path @ '')\" = 0 ] || ''
     @ ''[ \"$(stat -c %u '' @ path @ '')\" = 2000 ]; } && ''
     @ ''[ \"$(stat -c %a '' @ path @ '')\" = 600 ] && ''
     @ ''[ \"$(stat -c %s '' @ path @ '')\" -le 512 ]''"

definition previous_home_path :: "string \<Rightarrow> string" where
  "previous_home_path apk = apk @ ''.previous-home''"

text \<open>\<open>printf '%s\n' "$name"\<close>\<close>

definition print_line :: "string \<Rightarrow> string" where
  "print_line name = ''printf '' @ [single_quote] @ ''%s'' @ [backslash_char] @ ''n'' @ [single_quote]
     @ '' \"$'' @ name @ ''\"''"

definition quoted :: "string \<Rightarrow> string" where
  "quoted s = single_quote # s @ [single_quote]"

definition snapshot_previous_home :: "string \<Rightarrow> string" where
  "snapshot_previous_home apk = (let path = previous_home_path apk in
     ''if '' @ home_parents @ ''; then if [ -e '' @ path @ '' ] || [ -L '' @ path @ '' ]; ''
     @ ''then '' @ owned_file path @ ''; else hp_previous=$('' @ home_query @ ''); ''
     @ ''case \"$hp_previous\" in android/*|com.android.settings/*|''
     @ ''io.panelassistant.android/*|io.github.maxlyth.hapaneld/*) ''
     @ ''hp_previous=none ;; *) if ! '' @ print_line ''hp_previous'' @ '' | ''
     @ ''grep -Eq '' @ quoted component_pattern @ ''; then hp_previous=none; fi ;; esac; ''
     @ ''(umask 077; set -C; '' @ print_line ''hp_previous'' @ '' > '' @ path @ ''); ''
     @ ''fi; else false; fi'')"

definition preserve_receiver :: "string \<Rightarrow> string" where
  "preserve_receiver package = package @ ''/io.panelassistant.android.platform.PreservePreviousHomeReceiver''"

definition receiver_absence_check :: "string \<Rightarrow> string" where
  "receiver_absence_check package =
     ''hp_receivers=$(cmd package query-receivers --query-flags 512 --user 0 ''
     @ ''--brief --components -n '' @ preserve_receiver package @ '' 2>/dev/null); hp_receivers_status=$?; ''
     @ ''hp_package=$(dumpsys package '' @ package @ '' 2>/dev/null); ''
     @ ''hp_package_status=$?; ''
     @ ''[ \"$hp_receivers_status\" -eq 0 ] && ''
     @ ''[ \"$hp_receivers\" = \"No receivers found\" ] && ''
     @ ''[ \"$hp_package_status\" -eq 0 ] && ''
     @ print_line ''hp_package'' @ '' | grep -Fq '' @ quoted (''Package ['' @ package @ '']'')"

definition transfer_previous_home :: "string \<Rightarrow> string" where
  "transfer_previous_home apk = (let path = previous_home_path apk;
       broadcast = ''am broadcast --include-stopped-packages -n '' @ preserve_receiver package_id_current in
     ''if [ ! -e '' @ path @ '' ] && [ ! -L '' @ path @ '' ]; then true; ''
     @ ''elif '' @ owned_file path @ ''; then hp_previous=$(cat '' @ path @ ''); ''
     @ ''if [ \"$hp_previous\" = none ]; then hp_extra=; ''
     @ ''elif '' @ print_line ''hp_previous'' @ '' | ''
     @ ''grep -Eq '' @ quoted component_pattern @ ''; then hp_extra=--es; ''
     @ ''else hp_extra=invalid; fi; ''
     @ ''if [ \"$hp_extra\" != invalid ]; then ''
     @ ''if [ \"$hp_extra\" = --es ]; then hp_record=$('' @ broadcast @ '' ''
     @ ''--es previous_home_component \"$hp_previous\" 2>/dev/null); ''
     @ ''else hp_record=$('' @ broadcast @ '' 2>/dev/null); fi; ''
     @ ''case \"$hp_record\" in *\"Broadcast completed: result=1\"*) ''
     @ ''rm '' @ path @ '' ;; ''
     @ ''*) if '' @ receiver_absence_check package_id_current @ ''; ''
     @ ''then rm '' @ path @ ''; else false; fi ;; esac; else false; fi; else false; fi'')"

definition discard_previous_home :: "string \<Rightarrow> string" where
  "discard_previous_home apk = (let path = previous_home_path apk in
     ''if [ ! -e '' @ path @ '' ] && [ ! -L '' @ path @ '' ]; then true; ''
     @ ''elif '' @ owned_file path @ ''; then rm '' @ path @ ''; else false; fi'')"

section \<open>Installing and cleaning up\<close>

definition install_command :: "string \<Rightarrow> string \<Rightarrow> int \<Rightarrow> string" where
  "install_command nonce path sdk = program (single_command ''INSTALL'' nonce
     (''if '' @ snapshot_previous_home path @ ''; then ''
      @ ''pm install '' @ (if 28 \<le> sdk then ''-R '' else []) @ path @ ''; hp_install=$?; ''
      @ ''if [ \"$hp_install\" -eq 0 ]; then '' @ transfer_previous_home path @ ''; ''
      @ ''else (exit \"$hp_install\"); fi; else false; fi''))"

definition update_install_command :: "string \<Rightarrow> string \<Rightarrow> string" where
  "update_install_command nonce path = program (single_command ''INSTALL'' nonce (''pm install -r '' @ path))"

definition cleanup_sections :: "string \<Rightarrow> bool \<Rightarrow> (string \<times> string) list" where
  "cleanup_sections path preserve =
     [(''RM'', (if preserve then ''true'' else discard_previous_home path) @ '' && rm -f '' @ path),
      (''STATE'', presence_command path)]"

definition cleanup_command :: "string \<Rightarrow> string \<Rightarrow> bool \<Rightarrow> string" where
  "cleanup_command nonce path preserve = program (framed_commands ''CLEANUP'' nonce (cleanup_sections path preserve))"

text \<open>\<open>transfer_previous_home\<close> with its own marker, as a launch sends it.\<close>

definition transfer_command :: "string \<Rightarrow> string \<Rightarrow> string" where
  "transfer_command nonce path = transfer_previous_home path @ ''; echo HAPANELD_PREVIOUS_HOME:'' @ nonce @ '':$?''"

end
