(* ===== verification/Adb_Answers.thy ===== *)
theory Adb_Answers
  imports Adb_Commands
begin

text \<open>
  The parsers of the panel's answers (adb\_protocol.py), one for each program of
  \<open>Adb_Commands\<close>.  \<open>Malformed\<close> is \<open>_MalformedAdbResponse\<close>, \<open>Failed\<close> an \<open>InstallAdbError\<close>.
\<close>

datatype adb_failure = Malformed | Failed adb_code

type_synonym 'a answer = "adb_failure + 'a"

abbreviation well_formed :: "'a option \<Rightarrow> 'a answer" where
  "well_formed x \<equiv> or_raise x Malformed"

definition demand :: "bool \<Rightarrow> adb_failure \<Rightarrow> unit answer" where
  "demand b e = (if b then Inr () else Inl e)"

lemma demand_Inr_iff [simp]: "demand b e = Inr u \<longleftrightarrow> b"
  by (simp add: demand_def)

lemma demand_True [simp]: "demand True e = Inr ()"
  by (simp add: demand_def)

named_theorems answer_iff \<open>when a step of a parser gives a value\<close>

declare bind_res_Inr_iff [answer_iff] or_raise_Inr_iff [answer_iff]

section \<open>Identity\<close>

record observed_target =
  ob_model :: string
  ob_serial :: string
  ob_primary_abi :: string
  ob_android_sdk :: int

definition model_text :: "string \<Rightarrow> bool" where
  "model_text s \<longleftrightarrow> s = py_strip s \<and> 1 \<le> length s \<and> length s \<le> 128 \<and> list_all is_printable s"

definition sdk_text :: "string \<Rightarrow> bool" where
  "sdk_text s \<longleftrightarrow> length s \<in> {1, 2, 3} \<and> list_all is_digit s"

text \<open>A section that succeeded with one line.\<close>

definition one_line_of :: "string list \<times> int \<Rightarrow> string option" where
  "one_line_of s = (case s of ([l], st) \<Rightarrow> if st = 0 then Some l else None | _ \<Rightarrow> None)"

definition parse_identity :: "string \<Rightarrow> string \<Rightarrow> string \<Rightarrow> observed_target option" where
  "parse_identity body nonce prefix = do {
     secs \<leftarrow> parse_sections body prefix nonce property_names;
     model \<leftarrow> one_line_of (section_get secs ''MODEL'');
     serial \<leftarrow> one_line_of (section_get secs ''SERIAL'');
     abi \<leftarrow> one_line_of (section_get secs ''ABI'');
     sdk \<leftarrow> one_line_of (section_get secs ''SDK'');
     guard (model_text model \<and> adb_serial_text serial \<and> abi_text abi \<and> sdk_text sdk);
     guard (1 \<le> dec_value sdk \<and> dec_value sdk \<le> 100);
     Some \<lparr>ob_model = model, ob_serial = serial, ob_primary_abi = abi, ob_android_sdk = dec_value sdk\<rparr> }"

definition observed_same :: "observed_target \<Rightarrow> adb_target \<Rightarrow> bool" where
  "observed_same ob t \<longleftrightarrow> (ob_serial ob, ob_model ob, ob_primary_abi ob, ob_android_sdk ob)
     = (at_serial t, at_model t, at_primary_abi t, at_android_sdk t)"

definition require_same_target :: "observed_target \<Rightarrow> adb_target \<Rightarrow> unit answer" where
  "require_same_target ob t = demand (observed_same ob t) (Failed TargetChanged)"

section \<open>Root mode\<close>

definition parse_root_mode :: "sections \<Rightarrow> root_mode answer" where
  "parse_root_mode secs =
     (case (section_get secs ''UID'', section_get secs ''SECURE'', section_get secs ''DEBUGGABLE'',
            section_get secs ''SU'') of
       ((uid, uid_st), (secure, secure_st), (debuggable, debuggable_st), (su, su_st)) \<Rightarrow>
     if uid_st \<noteq> 0 \<or> length uid \<noteq> 1 \<or> secure_st \<noteq> 0 \<or> secure \<notin> {[''0''], [''1'']}
        \<or> debuggable_st \<noteq> 0 \<or> debuggable \<notin> {[''0''], [''1'']}
        \<or> su_st \<noteq> 0 \<or> su \<notin> {[''absent''], [''present''], [''abnormal'']}
     then Inl Malformed
     else if su = [''abnormal''] then Inl Malformed
     else if uid = [''0''] then Inr RootAdbd
     else if uid = [''2000''] \<and> su = [''present''] then Inr RootSu
     else if uid = [''2000''] \<and> secure = [''1''] \<and> debuggable = [''0''] \<and> su = [''absent''] then Inr Rootless
     else Inl (Failed RootStateAmbiguous))"

section \<open>Preflight\<close>

definition is_package_path :: "string \<Rightarrow> bool" where
  "is_package_path line \<longleftrightarrow> starts_with line ''package:/'' \<and> length line > 9
     \<and> list_all (\<lambda>c. c \<noteq> CHR '' '' \<and> c \<noteq> CHR 0x09) (drop 9 line)"

definition classify_target_packages :: "string \<Rightarrow> string list \<Rightarrow> string set \<Rightarrow> bool \<Rightarrow> bool answer" where
  "classify_target_packages target installed residue admit =
     (if target \<in> set installed then
        (if \<not> admit \<or> set installed \<union> residue \<noteq> {target} then Inl (Failed TargetNotClean) else Inr True)
      else if installed \<noteq> [] \<or> residue \<noteq> {} then Inl (Failed TargetNotClean) else Inr False)"

definition package_observed :: "sections \<Rightarrow> nat \<Rightarrow> string \<Rightarrow> bool answer" where
  "package_observed secs i package =
     (case (section_get secs (''PACKAGE'' @ int_string (int i)), section_get secs (''RETAINED'' @ int_string (int i))) of
       ((paths, path_st), (retained, retained_st)) \<Rightarrow>
     if list_ex (\<lambda>l. l = ''package:'' @ package) retained \<or> list_ex is_package_path paths then Inr True
     else if path_st \<notin> {0, 1} \<or> paths \<noteq> [] \<or> retained_st \<noteq> 0 \<or> retained \<noteq> [] then Inl Malformed
     else Inr False)"

fun installed_packages :: "sections \<Rightarrow> (nat \<times> string) list \<Rightarrow> string list answer" where
  "installed_packages secs [] = Inr []"
| "installed_packages secs ((i, package) # ps) =
     bind_res (package_observed secs i package) (\<lambda>present.
     bind_res (installed_packages secs ps) (\<lambda>rest. Inr (if present then package # rest else rest)))"

definition word_in :: "string list \<Rightarrow> string list \<times> int \<Rightarrow> bool" where
  "word_in words s \<longleftrightarrow> snd s = 0 \<and> fst s \<in> set (map (\<lambda>w. [w]) words)"

definition base_names :: "string list" where
  "base_names = numbered ''BASE'' (length root_data_bases)"

definition residue_names :: "string list" where
  "residue_names = numbered ''RESIDUE'' (length residue_paths)"

definition bases_readable :: "sections \<Rightarrow> bool answer" where
  "bases_readable secs = bind_res
     (demand (list_all (\<lambda>n. word_in [''readable'', ''unreadable''] (section_get secs n)) base_names) Malformed)
     (\<lambda>_. Inr (list_all (\<lambda>n. fst (section_get secs n) = [''readable'']) base_names))"

definition residue_owners :: "sections \<Rightarrow> string set answer" where
  "residue_owners secs = bind_res
     (demand (list_all (\<lambda>n. word_in [''absent'', ''present''] (section_get secs n)) residue_names) Malformed)
     (\<lambda>_. Inr (set (map (fst \<circ> fst) (filter (\<lambda>(p, n). fst (section_get secs n) = [''present''])
        (zip residue_probes residue_names)))))"

definition preflight_names :: "string list" where
  "preflight_names = property_names @ [''UID'', ''SECURE'', ''DEBUGGABLE'', ''SU'', ''LIVE'']
     @ concat (map (\<lambda>i. [''PACKAGE'' @ int_string (int i), ''RETAINED'' @ int_string (int i)])
         [0..<length probed_package_ids])
     @ base_names @ residue_names"

text \<open>\<open>_parse_preflight\<close> after the sections have been read\<close>

definition admit_sections ::
  "sections \<Rightarrow> observed_target \<Rightarrow> adb_target \<Rightarrow> install_descriptor \<Rightarrow> bool \<Rightarrow> adb_preflight answer" where
  "admit_sections secs ob target descriptor admit =
     bind_res (require_same_target ob target) (\<lambda>_.
     bind_res (demand (snd (section_get secs ''LIVE'') = 0 \<and> fst (section_get secs ''LIVE'') \<noteq> []
         \<and> list_all is_package_path (fst (section_get secs ''LIVE''))) Malformed) (\<lambda>_.
     bind_res (installed_packages secs (enumerate 0 probed_package_ids)) (\<lambda>installed.
     bind_res (bases_readable secs) (\<lambda>readable.
     bind_res (residue_owners secs) (\<lambda>residue.
     bind_res (classify_target_packages (ds_package_id descriptor) installed residue admit) (\<lambda>target_installed.
     bind_res (parse_root_mode secs) (\<lambda>mode.
     bind_res (demand (mode = RootAdbd \<longrightarrow> readable) (Failed RootStateAmbiguous)) (\<lambda>_.
     bind_res (demand (ds_min_sdk descriptor \<le> ob_android_sdk ob
         \<and> ob_primary_abi ob \<in> set (ds_supported_abis descriptor)) (Failed TargetIncompatible)) (\<lambda>_.
     Inr \<lparr>pv_serial = ob_serial ob, pv_model = ob_model ob, pv_primary_abi = ob_primary_abi ob,
          pv_android_sdk = ob_android_sdk ob, pv_root_mode = mode, pv_target_installed = target_installed\<rparr>)))))))))"

definition parse_preflight ::
  "string \<Rightarrow> string \<Rightarrow> adb_target \<Rightarrow> install_descriptor \<Rightarrow> bool \<Rightarrow> adb_preflight answer" where
  "parse_preflight body nonce target descriptor admit =
     bind_res (well_formed (parse_sections body ''PREFLIGHT'' nonce preflight_names)) (\<lambda>secs.
     bind_res (well_formed (parse_identity (sections_as_frame secs ''PREFLIGHT'' nonce property_names)
        nonce ''PREFLIGHT'')) (\<lambda>ob.
     admit_sections secs ob target descriptor admit))"

definition parse_identity_root :: "string \<Rightarrow> string \<Rightarrow> adb_target \<Rightarrow> root_mode answer" where
  "parse_identity_root body nonce target =
     bind_res (well_formed (parse_sections body ''POSTURE'' nonce
        (property_names @ [''UID'', ''SECURE'', ''DEBUGGABLE'', ''SU'']))) (\<lambda>secs.
     bind_res (well_formed (parse_identity (sections_as_frame secs ''POSTURE'' nonce property_names)
        nonce ''POSTURE'')) (\<lambda>ob.
     bind_res (require_same_target ob target) (\<lambda>_. parse_root_mode secs)))"

section \<open>Files on the panel\<close>

definition parse_path_state :: "string \<Rightarrow> string \<Rightarrow> bool option" where
  "parse_path_state body nonce = do {
     s \<leftarrow> parse_single_section body ''PATH'' nonce;
     guard (word_in [''absent'', ''present''] s);
     Some (fst s = [''present'']) }"

definition is_blank :: "char \<Rightarrow> bool" where
  "is_blank c \<longleftrightarrow> c = CHR '' '' \<or> c = CHR 0x09"

definition trim_blanks :: "string \<Rightarrow> string" where
  "trim_blanks s = rev (dropWhile is_blank (rev (dropWhile is_blank s)))"

definition mode_text :: "string \<Rightarrow> bool" where
  "mode_text s \<longleftrightarrow> 1 \<le> length s \<and> length s \<le> 8 \<and> list_all is_hex s"

definition size_text :: "string \<Rightarrow> bool" where
  "size_text s \<longleftrightarrow> 1 \<le> length (trim_blanks s) \<and> length (trim_blanks s) \<le> 10 \<and> list_all is_digit (trim_blanks s)"

text \<open>The line of \<open>sha256sum\<close>: a digest, blanks, the path.\<close>

definition sha_line :: "string \<Rightarrow> string \<Rightarrow> string option" where
  "sha_line path line = (let digest = take 64 line; rest = drop 64 line;
       blanks = take (length rest - length path) rest in
     if sha256_text digest \<and> ends_with rest path \<and> blanks \<noteq> [] \<and> list_all is_blank blanks
     then Some digest else None)"

definition artifact_names :: "bool \<Rightarrow> string list" where
  "artifact_names prepare = (if prepare then [''CHMOD''] else []) @ [''MODE'', ''SIZE'', ''SHA'']"

definition parse_artifact_observation :: "string \<Rightarrow> string \<Rightarrow> string \<Rightarrow> bool \<Rightarrow> (int \<times> int \<times> string) option" where
  "parse_artifact_observation body nonce path prepare = do {
     secs \<leftarrow> parse_sections body ''ARTIFACT'' nonce (artifact_names prepare);
     guard (prepare \<longrightarrow> section_get secs ''CHMOD'' = ([], 0));
     mode \<leftarrow> one_line_of (section_get secs ''MODE'');
     size \<leftarrow> one_line_of (section_get secs ''SIZE'');
     sha \<leftarrow> one_line_of (section_get secs ''SHA'');
     guard (mode_text mode \<and> size_text size);
     digest \<leftarrow> sha_line path sha;
     guard (dec_value (trim_blanks size) \<le> max_apk_bytes);
     Some (hex_value mode, dec_value (trim_blanks size), digest) }"

definition parse_remote_artifact :: "string \<Rightarrow> string \<Rightarrow> string \<Rightarrow> (int \<times> int \<times> string) option" where
  "parse_remote_artifact body nonce path = parse_artifact_observation body nonce path True"

definition apk_path_char :: "char \<Rightarrow> bool" where
  "apk_path_char c \<longleftrightarrow> is_alnum c \<or> c \<in> set ''_./=+~-''"

text \<open>\<open>_INSTALLED_APK_PATH_PATTERN\<close>\<close>

definition installed_apk_pattern :: "string \<Rightarrow> bool" where
  "installed_apk_pattern path \<longleftrightarrow> starts_with path ''/data/app/'' \<and> ends_with path ''/base.apk''
     \<and> 19 < length path \<and> list_all apk_path_char (take (length path - 19) (drop 10 path))"

text \<open>\<open>"//" in path\<close>\<close>

fun has_double :: "string \<Rightarrow> bool" where
  "has_double (c # d # s) \<longleftrightarrow> (c = CHR ''/'' \<and> d = CHR ''/'') \<or> has_double (d # s)"
| "has_double _ \<longleftrightarrow> False"

definition safe_apk_path :: "string \<Rightarrow> bool" where
  "safe_apk_path path \<longleftrightarrow> installed_apk_pattern path \<and> \<not> has_double path
     \<and> list_all (\<lambda>part. part \<notin> {''.'', ''..''}) (split_on (CHR ''/'') path)"

definition parse_installed_apk_path :: "string \<Rightarrow> string \<Rightarrow> string option option" where
  "parse_installed_apk_path body nonce = do {
     s \<leftarrow> parse_single_section body ''PACKAGE'' nonce;
     if s = ([], 1) then Some None
     else (case s of
         ([line], st) \<Rightarrow> do {
           guard (st = 0 \<and> is_package_path line);
           let path = remove_prefix ''package:'' line;
           guard (safe_apk_path path);
           Some (Some path) }
       | _ \<Rightarrow> None) }"

definition parse_package_present :: "string \<Rightarrow> string \<Rightarrow> unit answer" where
  "parse_package_present body nonce =
     bind_res (well_formed (parse_single_section body ''PACKAGE'' nonce)) (\<lambda>(lines, st).
     if st = 1 \<and> lines = [] then Inl (Failed InstalledPackageMissing)
     else demand (st = 0 \<and> lines \<noteq> [] \<and> list_all is_package_path lines) Malformed)"

section \<open>Outcomes\<close>

definition upper_token :: "char \<Rightarrow> bool" where
  "upper_token c \<longleftrightarrow> is_upper c \<or> is_digit c \<or> c = CHR ''_''"

text \<open>\<open>Failure [INSTALL_...]\<close> with an optional \<open>: \<close> and its text\<close>

definition install_failure :: "string \<Rightarrow> bool" where
  "install_failure line \<longleftrightarrow> (let inner = take (length line - 18) (drop 17 line);
       name = takeWhile upper_token inner; rest = dropWhile upper_token inner in
     starts_with line ''Failure [INSTALL_'' \<and> ends_with line '']'' \<and> 18 < length line \<and> name \<noteq> []
     \<and> (rest = [] \<or> (starts_with rest '': '' \<and> 2 < length rest \<and> length rest \<le> 1026
           \<and> list_all is_ascii_print (drop 2 rest))))"

definition parse_install_outcome :: "string \<Rightarrow> string \<Rightarrow> install_outcome option" where
  "parse_install_outcome body nonce = do {
     s \<leftarrow> parse_single_section body ''INSTALL'' nonce;
     if s = ([''Success''], 0) then Some PackageInstalled
     else (case s of ([line], st) \<Rightarrow> if st = 1 \<and> install_failure line then Some PackageRefused else None
       | _ \<Rightarrow> None) }"

definition parse_launch_outcome :: "string \<Rightarrow> string \<Rightarrow> launch_outcome option" where
  "parse_launch_outcome body nonce = do {
     s \<leftarrow> parse_single_section body ''LAUNCH'' nonce;
     if snd s = 0 then Some AppStarted else if snd s = 1 then Some AppRefused else None }"

definition parse_cleanup :: "string \<Rightarrow> string \<Rightarrow> unit option" where
  "parse_cleanup body nonce = do {
     secs \<leftarrow> parse_sections body ''CLEANUP'' nonce [''RM'', ''STATE''];
     guard (section_get secs ''RM'' = ([], 0) \<and> section_get secs ''STATE'' = ([''absent''], 0));
     Some () }"

end
