(* ===== verification/Adb_Line.thy ===== *)
theory Adb_Line
  imports Adb_Answers
begin

text \<open>
  The installer's connection to a panel (install\_adb.py, adb\_protocol.py).  The panel, the file
  system and the clock are answers in the order of the calls (\<open>adb_world\<close>); what was done on the
  line is its log.  Every operation of \<open>Adb_Install\<close> runs on such a line.
\<close>

section \<open>Answers and failures\<close>

text \<open>
  \<open>Expired\<close> is the operation's own \<open>asyncio.timeout\<close>, which cuts it wherever it is;
  \<open>SilentPanel\<close> the timeout of one call; \<open>LostPanel\<close> \<open>AdbConnectionError\<close> and \<open>OSError\<close>;
  \<open>UnsafePacket\<close> what the bounded transport refuses and the library's protocol errors.
\<close>

datatype adb_exc =
    Raised adb_code | BadAnswer | SilentPanel | Expired | LostPanel | UnsafePacket
  | Interrupted  \<comment> \<open>\<open>asyncio.CancelledError\<close> of the caller\<close>
  | Unforeseen

fun failure_exc :: "adb_failure \<Rightarrow> adb_exc" where
  "failure_exc Malformed = BadAnswer"
| "failure_exc (Failed c) = Raised c"

text \<open>How the library ends a call: \<open>WireExpired\<close> is the deadline of the operation around it.\<close>

datatype wire_end = WireSilent | WireExpired | WireLost | WireUnsafe | WireCut | WireOther

fun wire_exc :: "wire_end \<Rightarrow> adb_exc" where
  "wire_exc WireSilent = SilentPanel"
| "wire_exc WireExpired = Expired"
| "wire_exc WireLost = LostPanel"
| "wire_exc WireUnsafe = UnsafePacket"
| "wire_exc WireCut = Interrupted"
| "wire_exc WireOther = Unforeseen"

text \<open>
  A cancellation that arrives while a task is awaited to its end is the caller's, or that of the
  deadline when one is running.
\<close>

datatype cut = ByCaller | ByDeadline

definition cut_exc :: "bool \<Rightarrow> cut \<Rightarrow> adb_exc" where
  "cut_exc deadline c = (if deadline \<and> c = ByDeadline then Expired else Interrupted)"

text \<open>A shell stream: the chunks it yields and how it ends.\<close>

record shell_stream =
  sh_chunks :: "string list"
  sh_end :: "wire_end option"

datatype connect_end = ConnectDone | ConnectDenied | ConnectLost | ConnectUnsafe | ConnectUnready
  | ConnectExpired | ConnectCancelled | ConnectOther

record connect_reply =
  cn_prompted :: bool  \<comment> \<open>the panel asked for the public key\<close>
  cn_end :: connect_end

record apk_observation =
  ap_path :: "file_stat option"
  ap_opened :: bool
  ap_first :: "file_stat option"
  ap_chunks :: "string option list"
  ap_again :: "file_stat option"
  ap_path_again :: "file_stat option"
  ap_seek :: bool

record adb_world =
  aw_platform :: platform
  aw_nonce :: "nat \<Rightarrow> string"
  aw_connect :: "nat \<Rightarrow> connect_reply"
  aw_shell :: "nat \<Rightarrow> string \<Rightarrow> shell_stream"
  aw_push :: "nat \<Rightarrow> wire_end option"
  aw_maxdata :: "nat \<Rightarrow> int option"  \<comment> \<open>\<open>None\<close>: no \<open>int\<close> (or a \<open>bool\<close>)\<close>
  aw_close_cut :: "nat \<Rightarrow> cut option"
  aw_apk :: "nat \<Rightarrow> apk_observation"
  aw_apk_cut :: "nat \<Rightarrow> cut option"
  aw_approval :: "nat \<Rightarrow> adb_exc option"  \<comment> \<open>\<open>before_install\<close>\<close>

datatype adb_event =
    Dialled | HungUp | Sent string string shell_stream | Pushed string | Consented
  | FileOpened | FileClosed

record adb_line =
  al_calls :: nat
  al_log :: "adb_event list"  \<comment> \<open>newest first\<close>

type_synonym 'a task = "adb_line \<Rightarrow> (adb_exc + 'a) \<times> adb_line"

definition give :: "'a \<Rightarrow> 'a task" where
  "give x l = (Inr x, l)"

definition throw :: "adb_exc \<Rightarrow> 'a task" where
  "throw e l = (Inl e, l)"

text \<open>\<open>try: x = m except e: h(e) else: k(x)\<close>\<close>

definition trying :: "'a task \<Rightarrow> (adb_exc \<Rightarrow> 'b task) \<Rightarrow> ('a \<Rightarrow> 'b task) \<Rightarrow> 'b task" where
  "trying m h k l = (case m l of (Inl e, l') \<Rightarrow> h e l' | (Inr x, l') \<Rightarrow> k x l')"

definition chain :: "'a task \<Rightarrow> ('a \<Rightarrow> 'b task) \<Rightarrow> 'b task" where
  "chain m k = trying m throw k"

text \<open>\<open>try: m finally: c\<close>; an exception of \<open>c\<close> replaces what \<open>m\<close> ended with.\<close>

definition lastly :: "'a task \<Rightarrow> unit task \<Rightarrow> 'a task" where
  "lastly m c = trying m (\<lambda>e. chain c (\<lambda>_. throw e)) (\<lambda>x. chain c (\<lambda>_. give x))"

definition check :: "bool \<Rightarrow> adb_exc \<Rightarrow> unit task" where
  "check b e = (if b then give () else throw e)"

definition of_answer :: "'a answer \<Rightarrow> 'a task" where
  "of_answer a = (case a of Inl e \<Rightarrow> throw (failure_exc e) | Inr x \<Rightarrow> give x)"

definition of_parse :: "'a option \<Rightarrow> 'a task" where
  "of_parse x = of_answer (well_formed x)"

definition tell :: "adb_event \<Rightarrow> unit task" where
  "tell e l = (Inr (), l\<lparr>al_log := e # al_log l\<rparr>)"

definition tick :: "nat task" where
  "tick l = (Inr (al_calls l), l\<lparr>al_calls := Suc (al_calls l)\<rparr>)"

section \<open>The shell\<close>

text \<open>\<open>_async_shell\<close>: the chunks together, as long as they stay within the bound.\<close>

fun collect :: "nat \<Rightarrow> string \<Rightarrow> string list \<Rightarrow> string option" where
  "collect bound body [] = Some body"
| "collect bound body (c # cs) =
     (if bound < length body + length c then None else collect bound (body @ c) cs)"

definition shell_body :: "shell_stream \<Rightarrow> adb_exc + string" where
  "shell_body s = (case collect max_shell_response_bytes [] (sh_chunks s) of
     None \<Rightarrow> Inl BadAnswer
   | Some body \<Rightarrow> (case sh_end s of None \<Rightarrow> Inr body | Some e \<Rightarrow> Inl (wire_exc e)))"

text \<open>Send the program for a fresh nonce; the answer with its nonce.\<close>

definition inquire :: "adb_world \<Rightarrow> (string \<Rightarrow> string) \<Rightarrow> (string \<times> string) task" where
  "inquire W command = chain tick (\<lambda>i. let nonce = aw_nonce W i; text = command nonce; s = aw_shell W i text in
     chain (tell (Sent nonce text s)) (\<lambda>_. case shell_body s of
         Inl e \<Rightarrow> throw e | Inr body \<Rightarrow> give (nonce, body)))"

section \<open>Connecting and closing\<close>

definition connect_error :: "bool \<Rightarrow> connect_reply \<Rightarrow> adb_exc option" where
  "connect_error authorize r = (let asked = (if cn_prompted r then AuthorizationRequired else TargetUnreachable) in
     if cn_prompted r \<and> \<not> authorize then Some (Raised AuthorizationRequired)
     else (case cn_end r of
         ConnectDone \<Rightarrow> None
       | ConnectDenied \<Rightarrow> Some (Raised AuthorizationRequired)
       | ConnectLost \<Rightarrow> Some (Raised asked)
       | ConnectUnready \<Rightarrow> Some (Raised asked)
       | ConnectUnsafe \<Rightarrow> Some (Raised TargetResponseInvalid)
       | ConnectExpired \<Rightarrow> Some Expired
       | ConnectCancelled \<Rightarrow> Some Interrupted
       | ConnectOther \<Rightarrow> Some Unforeseen))"

definition async_close :: "adb_world \<Rightarrow> bool \<Rightarrow> unit task" where
  "async_close W deadline = chain tick (\<lambda>i. chain (tell HungUp) (\<lambda>_.
     case aw_close_cut W i of None \<Rightarrow> give () | Some c \<Rightarrow> throw (cut_exc deadline c)))"

text \<open>
  \<open>_async_connect\<close>: a failed connection is closed before the error leaves; an error no handler
  names leaves it as it is.
\<close>

definition abandon :: "adb_world \<Rightarrow> adb_exc \<Rightarrow> unit task" where
  "abandon W e = (if e = Unforeseen then throw e
     else if e \<in> {Interrupted, Expired} then trying (async_close W True) (\<lambda>_. throw e) (\<lambda>_. throw e)
     else chain (async_close W True) (\<lambda>_. throw e))"

definition async_connect :: "adb_world \<Rightarrow> bool \<Rightarrow> unit task" where
  "async_connect W authorize = chain tick (\<lambda>i. chain (tell Dialled) (\<lambda>_.
     case connect_error authorize (aw_connect W i) of None \<Rightarrow> give () | Some e \<Rightarrow> abandon W e))"

text \<open>
  One operation on a connection of its own: \<open>blame\<close> is its \<open>except\<close> clauses, and the connection
  is closed in the end, whatever happened.
\<close>

definition on_panel :: "adb_world \<Rightarrow> bool \<Rightarrow> (adb_exc \<Rightarrow> adb_exc) \<Rightarrow> 'a task \<Rightarrow> 'a task" where
  "on_panel W authorize blame m = trying (async_connect W authorize) (\<lambda>e. throw (blame e))
     (\<lambda>_. lastly (trying m (\<lambda>e. throw (blame e)) give) (async_close W False))"

definition communication_failures :: "adb_exc set" where
  "communication_failures = {BadAnswer, SilentPanel, Expired, LostPanel, UnsafePacket}"

definition blamed :: "adb_code \<Rightarrow> adb_exc \<Rightarrow> adb_exc" where
  "blamed c e = (if e \<in> communication_failures then Raised c else e)"

text \<open>The clauses that tell a silent panel from one that answers nonsense.\<close>

definition silent_or_invalid :: "adb_exc \<Rightarrow> adb_exc" where
  "silent_or_invalid e = (if e \<in> {SilentPanel, Expired, LostPanel} then Raised TargetUnreachable
     else if e \<in> {BadAnswer, UnsafePacket} then Raised TargetResponseInvalid else e)"

section \<open>The local file\<close>

definition same_apk :: "platform \<Rightarrow> file_stat \<Rightarrow> int \<Rightarrow> bool" where
  "same_apk P s n \<longleftrightarrow> is_regular (st_mode s) \<and> permission_bits (st_mode s) = 384
     \<and> st_uid s = pf_euid P \<and> st_nlink s = 1 \<and> st_size s = n"

definition verified_apk_identity :: "platform \<Rightarrow> file_stat option \<Rightarrow> int \<Rightarrow> file_stat option" where
  "verified_apk_identity P s n = do { st \<leftarrow> s; guard (same_apk P st n); Some st }"

fun read_apk :: "int \<Rightarrow> string option list \<Rightarrow> string \<Rightarrow> string option" where
  "read_apk n [] body = Some body"
| "read_apk n (None # cs) body = None"
| "read_apk n (Some c # cs) body =
     (if c = [] then Some body
      else if n < int (length (body @ c)) then None
      else read_apk n cs (body @ c))"

text \<open>\<open>_open_verified_apk\<close>: every refusal is \<open>LOCAL_ARTIFACT_INVALID\<close>.\<close>

definition open_verified_apk :: "platform \<Rightarrow> apk_observation \<Rightarrow> install_descriptor \<Rightarrow> string option" where
  "open_verified_apk P ob d = do {
     path_stat \<leftarrow> ap_path ob;
     guard (ap_opened ob);
     path_identity \<leftarrow> verified_apk_identity P (Some path_stat) (ds_apk_size d);
     opened \<leftarrow> verified_apk_identity P (ap_first ob) (ds_apk_size d);
     guard (opened = path_identity);
     body \<leftarrow> read_apk (ds_apk_size d) (ap_chunks ob) [];
     guard (int (length body) = ds_apk_size d \<and> pf_sha256 P body = ds_apk_sha256 d);
     again \<leftarrow> verified_apk_identity P (ap_again ob) (ds_apk_size d);
     path_again \<leftarrow> verified_apk_identity P (ap_path_again ob) (ds_apk_size d);
     guard (again = opened \<and> path_again = opened \<and> ap_seek ob);
     Some body }"

text \<open>
  \<open>_async_open_verified_apk\<close>: a caller cancelled while the worker thread reads closes what it
  opened.
\<close>

definition keep_apk :: "bool \<Rightarrow> cut option \<Rightarrow> unit task" where
  "keep_apk deadline c = chain (tell FileOpened) (\<lambda>_. case c of None \<Rightarrow> give ()
     | Some c \<Rightarrow> chain (tell FileClosed) (\<lambda>_. throw (cut_exc deadline c)))"

definition async_open_verified_apk :: "adb_world \<Rightarrow> bool \<Rightarrow> install_descriptor \<Rightarrow> unit task" where
  "async_open_verified_apk W deadline d = chain tick (\<lambda>i.
     case open_verified_apk (aw_platform W) (aw_apk W i) d of
       None \<Rightarrow> throw (case aw_apk_cut W i of None \<Rightarrow> Raised LocalArtifactInvalid | Some c \<Rightarrow> cut_exc deadline c)
     | Some body \<Rightarrow> keep_apk deadline (aw_apk_cut W i))"

definition async_push :: "adb_world \<Rightarrow> string \<Rightarrow> unit task" where
  "async_push W path = chain tick (\<lambda>i. chain (tell (Pushed path)) (\<lambda>_.
     case aw_push W i of None \<Rightarrow> give () | Some e \<Rightarrow> throw (wire_exc e)))"

definition validate_filesync_maxdata :: "adb_world \<Rightarrow> unit task" where
  "validate_filesync_maxdata W = chain tick (\<lambda>i. case aw_maxdata W i of
     None \<Rightarrow> throw (Raised FilesyncUnsafe)
   | Some m \<Rightarrow> check (4096 \<le> m \<and> m \<le> 1048576) (Raised FilesyncUnsafe))"

definition before_install :: "adb_world \<Rightarrow> unit task" where
  "before_install W = chain tick (\<lambda>i. case aw_approval W i of
     None \<Rightarrow> tell Consented | Some e \<Rightarrow> throw e)"

end
