(* ===== verification/Adb_Admission.thy ===== *)
theory Adb_Admission
  imports Adb_Answers
begin

text \<open>
  What an admission proves.  The first part joins the preflight program with the parser of its
  answer: on a panel whose shell answers each command in whole lines, the parser sees exactly what
  each command printed.  The second part reads an accepted answer backwards, to the facts about the
  panel it stands for.
\<close>

section \<open>Reading named sections\<close>

definition run_sections :: "(string \<Rightarrow> string list \<times> int) \<Rightarrow> (string \<times> string) list \<Rightarrow> sections" where
  "run_sections run secs = map (\<lambda>(n, c). (n, run c)) secs"

lemma run_sections_names [simp]: "map fst (run_sections run secs) = map fst secs"
  by (simp add: run_sections_def comp_def case_prod_unfold)

lemma section_get_run:
  "(n, c) \<in> set secs \<Longrightarrow> distinct (map fst secs) \<Longrightarrow> section_get (run_sections run secs) n = run c"
proof (induction secs)
  case (Cons s secs)
  then show ?case by (cases s) (force simp: section_get_def run_sections_def)
qed simp

lemma section_get_append:
  "n \<in> fst ` set a \<Longrightarrow> section_get (a @ b) n = section_get a n"
  by (simp add: section_get_def map_add_def split: option.splits)
    (metis domIff dom_map_of_conv_image_fst option.distinct(1))

lemma sections_get_all: "distinct (map fst secs) \<Longrightarrow> map (\<lambda>n. (n, section_get secs n)) (map fst secs) = secs"
proof (induction secs)
  case (Cons s secs)
  have tail: "section_get (s # secs) n = section_get secs n" if "n \<in> fst ` set secs" for n
    using Cons.prems that by (cases s) (auto simp: section_get_def)
  have "map (\<lambda>n. (n, section_get (s # secs) n)) (map fst secs) = map (\<lambda>n. (n, section_get secs n)) (map fst secs)"
    by (simp add: tail)
  also have "\<dots> = secs" using Cons by simp
  finally have "map (\<lambda>n. (n, section_get (s # secs) n)) (map fst secs) = secs" .
  moreover have "(fst s, section_get (s # secs) (fst s)) = s" by (cases s) (simp add: section_get_def)
  ultimately show ?case by (simp del: map_map)
qed simp

lemma preflight_names_sections: "preflight_names = map fst preflight_sections"
  by code_simp

lemma preflight_names_distinct: "distinct (map fst preflight_sections)"
  by code_simp

lemma preflight_names_plain: "list_all plain_mark preflight_names"
  by code_simp

lemma preflight_not_marks: "list_all (\<lambda>(n, c). \<not> starts_with c ''echo HAPANELD_'') preflight_sections"
  by code_simp

lemma posture_names_sections: "property_names @ [''UID'', ''SECURE'', ''DEBUGGABLE'', ''SU''] = map fst identity_root_sections"
  by code_simp

lemma posture_distinct: "distinct (map fst identity_root_sections)"
  by code_simp

lemma posture_names_plain: "list_all plain_mark (map fst identity_root_sections)"
  by code_simp

lemma posture_not_marks: "list_all (\<lambda>(n, c). \<not> starts_with c ''echo HAPANELD_'') identity_root_sections"
  by code_simp

section \<open>The size of a frame\<close>

lemma utf8_encode_append [simp]: "utf8_encode (a @ b) = utf8_encode a @ utf8_encode b"
  by (simp add: utf8_encode_def)

lemma frame_bytes_length:
  "ls \<noteq> [] \<Longrightarrow> length (frame_bytes ls) = sum_list (map (\<lambda>l. Suc (length (utf8_encode l))) ls)"
proof (induction ls)
  case (Cons l ls)
  have nl: "length (utf8_char (CHR 0x0A)) = 1" by code_simp
  show ?case
  proof (cases "ls = []")
    case True
    then show ?thesis by (simp add: frame_bytes_def lines_text_def nl)
  next
    case False
    then show ?thesis using Cons.IH by (simp add: frame_bytes_def lines_text_Cons nl)
  qed
qed simp

lemma frame_part_length:
  "length (frame_bytes (frame_lines prefix nonce a)) \<le> length (frame_bytes (frame_lines prefix nonce (a @ b)))"
  by (simp add: frame_bytes_length frame_lines_def)

section \<open>The identity\<close>

definition identity_of :: "sections \<Rightarrow> observed_target option" where
  "identity_of secs = do {
     model \<leftarrow> one_line_of (section_get secs ''MODEL'');
     serial \<leftarrow> one_line_of (section_get secs ''SERIAL'');
     abi \<leftarrow> one_line_of (section_get secs ''ABI'');
     sdk \<leftarrow> one_line_of (section_get secs ''SDK'');
     guard (model_text model \<and> adb_serial_text serial \<and> abi_text abi \<and> sdk_text sdk);
     guard (1 \<le> dec_value sdk \<and> dec_value sdk \<le> 100);
     Some \<lparr>ob_model = model, ob_serial = serial, ob_primary_abi = abi, ob_android_sdk = dec_value sdk\<rparr> }"

lemma property_names_plain: "list_all plain_mark property_names"
  by code_simp

lemma property_names_eq: "property_names = [''MODEL'', ''SERIAL'', ''ABI'', ''SDK'']"
  by code_simp

lemma section_get_map: "n \<in> set ns \<Longrightarrow> section_get (map (\<lambda>n. (n, section_get secs n)) ns) n = section_get secs n"
  by (induction ns) (auto simp: section_get_def)

lemma identity_of_map: "identity_of (map (\<lambda>n. (n, section_get secs n)) property_names) = identity_of secs"
proof -
  have "section_get (map (\<lambda>n. (n, section_get secs n)) property_names) n = section_get secs n"
    if "n \<in> {''MODEL'', ''SERIAL'', ''ABI'', ''SDK''}" for n
    using that by (intro section_get_map) (auto simp: property_names_eq)
  then show ?thesis by (simp add: identity_of_def)
qed

lemma parse_identity_alt:
  "parse_identity body nonce prefix = parse_sections body prefix nonce property_names \<bind> identity_of"
  by (simp add: parse_identity_def identity_of_def [abs_def])

definition subframe :: "sections \<Rightarrow> string \<Rightarrow> string \<Rightarrow> string" where
  "subframe secs prefix nonce = sections_as_frame secs prefix nonce property_names"

lemma parse_identity_frame:
  assumes "plain_mark prefix" "plain_mark nonce" "\<forall>n \<in> set property_names. section_ok (section_get secs n)"
  shows "parse_identity (sections_as_frame secs prefix nonce property_names) nonce prefix
    = (if length (subframe secs prefix nonce) \<le> max_shell_response_bytes then identity_of secs else None)"
proof -
  let ?part = "map (\<lambda>n. (n, section_get secs n)) property_names"
  have ok: "list_all (\<lambda>(n, s). plain_mark n \<and> section_ok s) ?part"
    using assms(3) property_names_plain by (auto simp: list_all_iff)
  have "map fst ?part = property_names" by (simp add: comp_def)
  with parse_frame [OF assms(1,2) ok] show ?thesis
    by (simp add: parse_identity_alt sections_as_frame_def subframe_def identity_of_map)
qed

section \<open>Command and parser agree\<close>

definition preflight_answer :: "(string \<Rightarrow> string list \<times> int) \<Rightarrow> string \<Rightarrow> string" where
  "preflight_answer run nonce = frame_bytes (shell_run run 0 (preflight_commands nonce))"

definition posture_answer :: "(string \<Rightarrow> string list \<times> int) \<Rightarrow> string \<Rightarrow> string" where
  "posture_answer run nonce = frame_bytes (shell_run run 0 (identity_root_commands nonce))"

lemma shell_frame_run:
  assumes "nonce \<noteq> []" "plain_mark nonce" "list_all (\<lambda>(n, c). \<not> starts_with c ''echo HAPANELD_'') secs"
  shows "shell_run run 0 (framed_commands prefix nonce secs) = frame_lines prefix nonce (run_sections run secs)"
  using shell_frame [OF assms] by (simp add: run_sections_def)

lemma framed_answer_run:
  assumes "nonce \<noteq> []" "plain_mark nonce" "plain_mark prefix" "list_all plain_mark (map fst secs)"
    and "list_all (\<lambda>(n, c). \<not> starts_with c ''echo HAPANELD_'') secs" "honest_shell run (map snd secs)"
    and "length (frame_bytes (shell_run run 0 (framed_commands prefix nonce secs))) \<le> max_shell_response_bytes"
  shows "parse_sections (frame_bytes (shell_run run 0 (framed_commands prefix nonce secs))) prefix nonce (map fst secs)
    = Some (run_sections run secs)"
proof -
  have "list_all (\<lambda>(n, c). plain_mark n \<and> \<not> starts_with c ''echo HAPANELD_'') secs"
    using assms(4,5) by (auto simp: list_all_iff)
  from framed_answer [OF assms(1-3) this assms(6)] assms(7) show ?thesis by (simp add: run_sections_def)
qed

lemma identity_run:
  assumes "nonce \<noteq> []" "plain_mark nonce" "plain_mark prefix" "secs = value_sections @ others"
    and "distinct (map fst secs)" "list_all (\<lambda>(n, c). \<not> starts_with c ''echo HAPANELD_'') secs"
    and "honest_shell run (map snd secs)"
    and "length (frame_bytes (shell_run run 0 (framed_commands prefix nonce secs))) \<le> max_shell_response_bytes"
  shows "parse_identity (sections_as_frame (run_sections run secs) prefix nonce property_names) nonce prefix
    = identity_of (run_sections run secs)"
proof -
  let ?s = "run_sections run secs" and ?v = "run_sections run value_sections"
  have names: "map fst ?v = property_names" by (simp add: property_names_def value_sections_def comp_def case_prod_unfold)
  have split: "?s = ?v @ run_sections run others" by (simp add: assms(4) run_sections_def)
  have get: "section_get ?s n = section_get ?v n" if "n \<in> set property_names" for n
    using that unfolding split names [symmetric] by (intro section_get_append) (simp del: run_sections_names)
  have "map (\<lambda>n. (n, section_get ?s n)) property_names = map (\<lambda>n. (n, section_get ?v n)) (map fst ?v)"
    unfolding names by (simp add: get)
  also have "\<dots> = ?v" using assms(4,5) by (intro sections_get_all) simp
  finally have part: "map (\<lambda>n. (n, section_get ?s n)) property_names = ?v" .
  have ok: "\<forall>n \<in> set property_names. section_ok (section_get ?s n)"
  proof
    fix n assume n: "n \<in> set property_names"
    then obtain c where c: "(n, c) \<in> set value_sections"
      unfolding names [symmetric] by (auto simp: run_sections_def)
    then have "section_get ?s n = run c" using assms(4,5) by (intro section_get_run) auto
    moreover have "c \<in> set (map snd secs)" using assms(4) c by force
    then have "section_ok (run c)" using assms(7) by (auto simp: honest_shell_def list_all_iff)
    ultimately show "section_ok (section_get ?s n)" by simp
  qed
  have "length (subframe ?s prefix nonce) = length (frame_bytes (frame_lines prefix nonce ?v))"
    by (simp only: subframe_def sections_as_frame_def part)
  also have "\<dots> \<le> length (frame_bytes (frame_lines prefix nonce ?s))"
    unfolding split by (rule frame_part_length)
  also have "\<dots> \<le> max_shell_response_bytes"
    using assms(8) by (simp add: shell_frame_run [OF assms(1,2,6)])
  finally show ?thesis using parse_identity_frame [OF assms(3,2) ok] by simp
qed

lemma preflight_starts: "preflight_sections = value_sections @ drop 4 preflight_sections"
  by (simp add: preflight_sections_def value_sections_def property_sections_def)

lemma posture_starts: "identity_root_sections = value_sections @ posture_sections"
  by (simp add: identity_root_sections_def)

definition preflight_seen :: "(string \<Rightarrow> string list \<times> int) \<Rightarrow> sections" where
  "preflight_seen run = run_sections run preflight_sections"

definition posture_seen :: "(string \<Rightarrow> string list \<times> int) \<Rightarrow> sections" where
  "posture_seen run = run_sections run identity_root_sections"

definition preflight_honest :: "(string \<Rightarrow> string list \<times> int) \<Rightarrow> string \<Rightarrow> bool" where
  "preflight_honest run nonce \<longleftrightarrow> nonce \<noteq> [] \<and> plain_mark nonce \<and> honest_shell run (map snd preflight_sections)
     \<and> length (preflight_answer run nonce) \<le> max_shell_response_bytes"

definition posture_honest :: "(string \<Rightarrow> string list \<times> int) \<Rightarrow> string \<Rightarrow> bool" where
  "posture_honest run nonce \<longleftrightarrow> nonce \<noteq> [] \<and> plain_mark nonce \<and> honest_shell run (map snd identity_root_sections)
     \<and> length (posture_answer run nonce) \<le> max_shell_response_bytes"

lemma prefixes_plain: "plain_mark ''PREFLIGHT''" "plain_mark ''POSTURE''" "plain_mark ''SU''"
  by code_simp+

lemma parse_preflight_run:
  assumes "preflight_honest run nonce"
  shows "parse_preflight (preflight_answer run nonce) nonce target descriptor admit
    = bind_res (well_formed (identity_of (preflight_seen run))) (\<lambda>ob.
        admit_sections (preflight_seen run) ob target descriptor admit)"
proof -
  have a: "nonce \<noteq> []" "plain_mark nonce" "honest_shell run (map snd preflight_sections)"
      "length (frame_bytes (shell_run run 0 (framed_commands ''PREFLIGHT'' nonce preflight_sections))) \<le> max_shell_response_bytes"
    using assms by (simp_all add: preflight_honest_def preflight_answer_def preflight_commands_def)
  have "parse_sections (preflight_answer run nonce) ''PREFLIGHT'' nonce preflight_names = Some (preflight_seen run)"
    unfolding preflight_answer_def preflight_commands_def preflight_names_sections preflight_seen_def
    by (rule framed_answer_run [OF a(1,2) prefixes_plain(1) _ preflight_not_marks a(3,4)])
      (use preflight_names_plain in \<open>simp add: preflight_names_sections\<close>)
  moreover have "parse_identity (sections_as_frame (preflight_seen run) ''PREFLIGHT'' nonce property_names) nonce ''PREFLIGHT''
      = identity_of (preflight_seen run)"
    unfolding preflight_seen_def
    by (rule identity_run [OF a(1,2) prefixes_plain(1) preflight_starts preflight_names_distinct preflight_not_marks a(3,4)])
  ultimately show ?thesis by (simp add: parse_preflight_def)
qed

lemma parse_posture_run:
  assumes "posture_honest run nonce"
  shows "parse_identity_root (posture_answer run nonce) nonce target
    = bind_res (well_formed (identity_of (posture_seen run))) (\<lambda>ob.
        bind_res (require_same_target ob target) (\<lambda>_. parse_root_mode (posture_seen run)))"
proof -
  have a: "nonce \<noteq> []" "plain_mark nonce" "honest_shell run (map snd identity_root_sections)"
      "length (frame_bytes (shell_run run 0 (framed_commands ''POSTURE'' nonce identity_root_sections))) \<le> max_shell_response_bytes"
    using assms by (simp_all add: posture_honest_def posture_answer_def identity_root_commands_def)
  have "parse_sections (posture_answer run nonce) ''POSTURE'' nonce (map fst identity_root_sections) = Some (posture_seen run)"
    unfolding posture_answer_def identity_root_commands_def posture_seen_def
    by (rule framed_answer_run [OF a(1,2) prefixes_plain(2) posture_names_plain posture_not_marks a(3,4)])
  moreover have "parse_identity (sections_as_frame (posture_seen run) ''POSTURE'' nonce property_names) nonce ''POSTURE''
      = identity_of (posture_seen run)"
    unfolding posture_seen_def
    by (rule identity_run [OF a(1,2) prefixes_plain(2) posture_starts posture_distinct posture_not_marks a(3,4)])
  ultimately show ?thesis by (simp add: parse_identity_root_def posture_names_sections)
qed

section \<open>What an admission means\<close>

definition reads :: "(string \<Rightarrow> string list \<times> int) \<Rightarrow> string \<Rightarrow> string \<Rightarrow> bool" where
  "reads run command l \<longleftrightarrow> run command = ([l], 0)"

text \<open>The panel neither holds the package nor remembers it.\<close>

definition package_absent :: "(string \<Rightarrow> string list \<times> int) \<Rightarrow> string \<Rightarrow> bool" where
  "package_absent run package \<longleftrightarrow> fst (run (''pm path '' @ package)) = []
     \<and> run (''pm list packages -u '' @ package) = ([], 0)"

definition no_residue :: "(string \<Rightarrow> string list \<times> int) \<Rightarrow> string \<Rightarrow> bool" where
  "no_residue run path \<longleftrightarrow> run (presence_command path) = ([''absent''], 0)"

lemma preflight_get:
  "(n, c) \<in> set preflight_sections \<Longrightarrow> section_get (preflight_seen run) n = run c"
  unfolding preflight_seen_def by (rule section_get_run [OF _ preflight_names_distinct])

lemma posture_get:
  "(n, c) \<in> set identity_root_sections \<Longrightarrow> section_get (posture_seen run) n = run c"
  unfolding posture_seen_def by (rule section_get_run [OF _ posture_distinct])

lemma one_line_of_iff: "one_line_of s = Some l \<longleftrightarrow> s = ([l], 0)"
  by (cases s) (auto simp: one_line_of_def split: list.splits)

lemma value_in: "(''MODEL'', ''getprop ro.product.model'') \<in> set preflight_sections"
    "(''SERIAL'', ''getprop ro.serialno'') \<in> set preflight_sections"
    "(''ABI'', ''getprop ro.product.cpu.abi'') \<in> set preflight_sections"
    "(''SDK'', ''getprop ro.build.version.sdk'') \<in> set preflight_sections"
  by (simp_all add: preflight_sections_def value_sections_def property_sections_def)

text \<open>What the identity commands printed, for an identity that was read.\<close>

definition identity_printed :: "(string \<Rightarrow> string list \<times> int) \<Rightarrow> string \<Rightarrow> string \<Rightarrow> string \<Rightarrow> int \<Rightarrow> bool" where
  "identity_printed run serial model abi sdk \<longleftrightarrow> reads run ''getprop ro.serialno'' serial
     \<and> reads run ''getprop ro.product.model'' model \<and> reads run ''getprop ro.product.cpu.abi'' abi
     \<and> (\<exists>s. reads run ''getprop ro.build.version.sdk'' s \<and> sdk_text s \<and> dec_value s = sdk)"

lemma identity_seen:
  assumes "identity_of (preflight_seen run) = Some ob"
  shows "identity_printed run (ob_serial ob) (ob_model ob) (ob_primary_abi ob) (ob_android_sdk ob)"
  using assms value_in [THEN preflight_get, of run]
  by (auto simp: identity_of_def bind_eq_Some_conv one_line_of_iff identity_printed_def reads_def)

lemma package_in:
  "(i, p) \<in> set (enumerate 0 probed_package_ids) \<Longrightarrow>
     (''PACKAGE'' @ int_string (int i), ''pm path '' @ p) \<in> set preflight_sections
     \<and> (''RETAINED'' @ int_string (int i), ''pm list packages -u '' @ p) \<in> set preflight_sections"
  by (simp add: preflight_sections_def package_sections_def) force

lemma residue_sections_alt: "residue_sections = zip residue_names (map presence_command residue_paths)"
  by (simp add: residue_sections_def residue_names_def)

lemma residue_in:
  "(p, n) \<in> set (zip residue_probes residue_names) \<Longrightarrow> (n, presence_command (snd p)) \<in> set preflight_sections"
proof -
  assume "(p, n) \<in> set (zip residue_probes residue_names)"
  then obtain i where i: "i < length residue_probes" "i < length residue_names" "p = residue_probes ! i" "n = residue_names ! i"
    by (auto simp: set_zip)
  have l: "length residue_names = length residue_paths" by (simp add: residue_names_def numbered_def)
  have "residue_sections ! i = (n, presence_command (snd p))" "i < length residue_sections"
    using i l by (simp_all add: residue_sections_alt residue_paths_def)
  then have "(n, presence_command (snd p)) \<in> set residue_sections" by (metis nth_mem)
  then show ?thesis by (simp add: preflight_sections_def)
qed

lemma residue_paired: "path \<in> set residue_paths \<Longrightarrow> \<exists>p n. (p, n) \<in> set (zip residue_probes residue_names) \<and> snd p = path"
proof -
  assume "path \<in> set residue_paths"
  then obtain i where i: "i < length residue_probes" "snd (residue_probes ! i) = path"
    by (auto simp: residue_paths_def in_set_conv_nth)
  have "length residue_names = length residue_probes" by (simp add: residue_names_def numbered_def residue_paths_def)
  with i show ?thesis
    by (intro exI [of _ "residue_probes ! i"] exI [of _ "residue_names ! i"]) (auto simp: set_zip)
qed

lemma installed_packages_sound:
  "installed_packages secs ps = Inr installed \<Longrightarrow> (i, p) \<in> set ps \<Longrightarrow> p \<notin> set installed \<Longrightarrow>
     package_observed secs i p = Inr False"
proof (induction ps arbitrary: installed)
  case (Cons q ps)
  obtain j r where q: "q = (j, r)" by fastforce
  then obtain b rest where o: "package_observed secs j r = Inr b" "installed_packages secs ps = Inr rest"
      "installed = (if b then r # rest else rest)"
    using Cons.prems(1) by (auto simp: answer_iff)
  show ?case
  proof (cases "(i, p) = q")
    case True
    then show ?thesis using o q Cons.prems(3) by (cases b) auto
  next
    case False
    then show ?thesis using Cons.IH [OF o(2)] Cons.prems(2,3) o(3) by (auto split: if_splits)
  qed
qed simp

lemma package_observed_absent:
  "package_observed secs i p = Inr False \<Longrightarrow> (i, p) \<in> set (enumerate 0 probed_package_ids) \<Longrightarrow>
     secs = preflight_seen run \<Longrightarrow> package_absent run p"
  using package_in [of i p] preflight_get [of "''PACKAGE'' @ int_string (int i)" "''pm path '' @ p" run]
    preflight_get [of "''RETAINED'' @ int_string (int i)" "''pm list packages -u '' @ p" run]
  by (auto simp: package_observed_def package_absent_def prod_eq_iff split: prod.splits if_splits)

lemma residue_owners_empty:
  assumes "residue_owners (preflight_seen run) = Inr owners" "path \<in> set residue_paths"
    and "\<And>p. (p, path) \<in> set residue_probes \<Longrightarrow> p \<notin> owners"
  shows "no_residue run path"
proof -
  obtain p n where pn: "(p, n) \<in> set (zip residue_probes residue_names)" "snd p = path"
    using residue_paired [OF assms(2)] by blast
  then have n: "n \<in> set residue_names" "p \<in> set residue_probes" by (auto dest: set_zip_leftD set_zip_rightD)
  have get: "section_get (preflight_seen run) n = run (presence_command path)"
    using preflight_get [OF residue_in [OF pn(1)]] pn(2) by simp
  have w: "word_in [''absent'', ''present''] (run (presence_command path))"
    using assms(1) n(1) get by (auto simp: residue_owners_def answer_iff list_all_iff)
  have "fst p \<notin> owners" using assms(3) [of "fst p"] pn(2) n(2) by (cases p) auto
  moreover have "fst p \<in> owners" if "fst (run (presence_command path)) = [''present'']"
  proof -
    have "(p, n) \<in> set (filter (\<lambda>(p, n). fst (section_get (preflight_seen run) n) = [''present''])
        (zip residue_probes residue_names))"
      using that pn(1) get by simp
    from imageI [OF this, of "fst \<circ> fst"] show ?thesis
      using assms(1) by (auto simp: residue_owners_def answer_iff)
  qed
  ultimately have "fst (run (presence_command path)) \<noteq> [''present'']" by blast
  then show ?thesis using w by (auto simp: no_residue_def word_in_def prod_eq_iff)
qed

lemma classify_false:
  "classify_target_packages target installed residue admit = Inr False \<Longrightarrow> installed = [] \<and> residue = {}"
  by (auto simp: classify_target_packages_def split: if_splits)

lemma classify_true:
  "classify_target_packages target installed residue admit = Inr True \<Longrightarrow>
     admit \<and> target \<in> set installed \<and> set installed \<union> residue = {target}"
  by (auto simp: classify_target_packages_def split: if_splits)

lemma admit_sections_parts:
  assumes "admit_sections secs ob target descriptor admit = Inr p"
  obtains installed readable residue where
    "observed_same ob target" "installed_packages secs (enumerate 0 probed_package_ids) = Inr installed"
    "bases_readable secs = Inr readable" "residue_owners secs = Inr residue"
    "classify_target_packages (ds_package_id descriptor) installed residue admit = Inr (pv_target_installed p)"
    "parse_root_mode secs = Inr (pv_root_mode p)" "pv_root_mode p = RootAdbd \<longrightarrow> readable"
    "ds_min_sdk descriptor \<le> ob_android_sdk ob" "ob_primary_abi ob \<in> set (ds_supported_abis descriptor)"
    "pv_serial p = ob_serial ob" "pv_model p = ob_model ob" "pv_primary_abi p = ob_primary_abi ob"
    "pv_android_sdk p = ob_android_sdk ob"
  using assms by (auto simp: admit_sections_def require_same_target_def answer_iff)

end
