(* ===== verification/Adb_Install.thy ===== *)
theory Adb_Install
  imports Adb_Line Adb_Admission
begin

text \<open>
  The installer's operations over ADB (install\_adb.py): preflight, the proof of delegated root,
  staging, installing, updating, verifying and cleaning up.
\<close>

section \<open>Requests\<close>

definition target_valid :: "adb_target \<Rightarrow> bool" where
  "target_valid t \<longleftrightarrow> 1 \<le> pa_port (at_address t) \<and> pa_port (at_address t) \<le> 65535
     \<and> (case ip_address (pa_host (at_address t)) of None \<Rightarrow> False | Some a \<Rightarrow> is_allowed_install_address a)
     \<and> adb_serial_text (at_serial t) \<and> model_text (at_model t) \<and> abi_text (at_primary_abi t)
     \<and> 1 \<le> at_android_sdk t \<and> at_android_sdk t \<le> 100"

definition install_descriptor_valid :: "install_descriptor \<Rightarrow> bool" where
  "install_descriptor_valid d \<longleftrightarrow> ds_schema d \<in> set install_descriptor_schemas
     \<and> is_launch_component (PStr (ds_package_id d)) (PStr (ds_launch_component d))
     \<and> ds_signer d = release_signer \<and> ds_supported_abis d = supported_abis \<and> sha256_text (ds_apk_sha256 d)
     \<and> 1 \<le> ds_apk_size d \<and> ds_apk_size d \<le> max_apk_bytes
     \<and> 1 \<le> ds_min_sdk d \<and> ds_min_sdk d \<le> max_android_sdk
     \<and> 1 \<le> ds_version_code d \<and> ds_version_code d \<le> max_android_version_code
     \<and> database_range_valid (ds_database d)
     \<and> artifact_identity_matches (ds_release_tag d) (ds_version_name d) (PInt (ds_version_code d))
         (ds_apk_name d) (ds_apk_sha256 d) (PStr (ds_package_id d))"

definition descriptor_valid :: "install_descriptor \<Rightarrow> bool" where
  "descriptor_valid d \<longleftrightarrow> install_descriptor_valid d \<and> apk_name_text (ds_apk_name d)"

definition valid_request :: "adb_target \<Rightarrow> install_descriptor \<Rightarrow> unit task" where
  "valid_request t d = check (target_valid t \<and> descriptor_valid d) (Raised AdbInvalidRequest)"

definition remote_path :: "string \<Rightarrow> string option" where
  "remote_path job_id = (if hex_32 job_id then Some (remote_staging_prefix @ job_id @ ''.apk'') else None)"

definition remote_path_task :: "string \<Rightarrow> string task" where
  "remote_path_task job_id = (case remote_path job_id of None \<Rightarrow> throw (Raised AdbInvalidRequest) | Some p \<Rightarrow> give p)"

definition staged_path :: "staged_apk \<Rightarrow> string option" where
  "staged_path s = do {
     path \<leftarrow> remote_path (sg_job_id s);
     guard (sg_remote_path s = path \<and> 1 \<le> sg_apk_size s \<and> sg_apk_size s \<le> max_apk_bytes \<and> sha256_text (sg_apk_sha256 s));
     Some path }"

section \<open>Delegated root\<close>

fun residue_verdict :: "adb_preflight \<Rightarrow> string option \<Rightarrow> sections \<Rightarrow> ((string \<times> string) \<times> string) list \<Rightarrow> unit answer" where
  "residue_verdict p target secs [] = Inr ()"
| "residue_verdict p target secs (((owner, path), n) # rest) =
     (if \<not> word_in [''absent'', ''present''] (section_get secs n) then Inl Malformed
      else if fst (section_get secs n) = [''present''] \<and> \<not> (pv_target_installed p \<and> Some owner = target)
      then Inl (Failed TargetNotClean)
      else residue_verdict p target secs rest)"

definition su_verdict :: "adb_preflight option \<Rightarrow> string option \<Rightarrow> sections \<Rightarrow> unit answer" where
  "su_verdict admitted target secs =
     bind_res (demand (section_get secs ''UID'' = ([''0''], 0)) (Failed RootStateAmbiguous)) (\<lambda>_.
     case admitted of None \<Rightarrow> Inr ()
     | Some p \<Rightarrow> bind_res (demand (list_all (\<lambda>n. section_get secs n = ([''readable''], 0)) base_names)
           (Failed RootStateAmbiguous)) (\<lambda>_. residue_verdict p target secs (zip residue_probes residue_names)))"

text \<open>One dialect's answer: \<open>False\<close> when the next dialect has to be tried.\<close>

definition read_su :: "string \<Rightarrow> string \<Rightarrow> adb_preflight option \<Rightarrow> string option \<Rightarrow> bool answer" where
  "read_su body nonce admitted target =
     bind_res (well_formed (decode_lines body)) (\<lambda>ls.
     bind_res (demand (hd ls = begin_mark ''DELEGATE'' nonce) Malformed) (\<lambda>_.
     bind_res (well_formed (parse_status (last ls) ''DELEGATE'' nonce)) (\<lambda>st.
     if st \<noteq> 0 then Inr False
     else bind_res (well_formed (parse_sections (frame_bytes (tl (butlast ls))) ''SU'' nonce
            (map fst (su_sections (admitted \<noteq> None))))) (\<lambda>secs.
          bind_res (su_verdict admitted target secs) (\<lambda>_. Inr True)))))"

fun su_forms :: "adb_world \<Rightarrow> adb_preflight option \<Rightarrow> string option \<Rightarrow> string list \<Rightarrow> bool \<Rightarrow> string task" where
  "su_forms W admitted target [] answered =
     throw (Raised (if answered then RootStateAmbiguous else TargetUnreachable))"
| "su_forms W admitted target (prefix # prefixes) answered =
     trying (inquire W (\<lambda>nonce. su_attempt_command prefix nonce (admitted \<noteq> None)))
       (\<lambda>e. if e = SilentPanel then su_forms W admitted target prefixes answered else throw e)
       (\<lambda>(nonce, body). chain (of_answer (read_su body nonce admitted target)) (\<lambda>proved.
          if proved then give prefix else su_forms W admitted target prefixes True))"

definition async_prove_su :: "adb_world \<Rightarrow> adb_preflight option \<Rightarrow> string option \<Rightarrow> string task" where
  "async_prove_su W admitted target = su_forms W admitted target su_prefixes False"

section \<open>Steps on an open connection\<close>

definition async_preflight_on_device ::
  "adb_world \<Rightarrow> adb_target \<Rightarrow> install_descriptor \<Rightarrow> bool \<Rightarrow> adb_preflight task" where
  "async_preflight_on_device W t d admit = chain (inquire W preflight_command) (\<lambda>(nonce, body).
     chain (of_answer (parse_preflight body nonce t d admit)) (\<lambda>p.
     chain (if pv_root_mode p = RootSu
            then chain (async_prove_su W (Some p) (Some (ds_package_id d))) (\<lambda>_. give ()) else give ()) (\<lambda>_.
     give p)))"

definition require_expected_root_mode :: "root_mode \<Rightarrow> root_mode \<Rightarrow> unit task" where
  "require_expected_root_mode observed expected = check (observed = expected) (Raised RootModeChanged)"

definition async_require_identity_root :: "adb_world \<Rightarrow> adb_target \<Rightarrow> root_mode \<Rightarrow> unit task" where
  "async_require_identity_root W t expected = chain (inquire W identity_root_command) (\<lambda>(nonce, body).
     chain (of_answer (parse_identity_root body nonce t)) (\<lambda>mode.
     chain (require_expected_root_mode mode expected) (\<lambda>_.
     if mode = RootSu then chain (async_prove_su W None None) (\<lambda>_. give ()) else give ())))"

definition async_verify_remote_artifact :: "adb_world \<Rightarrow> string \<Rightarrow> install_descriptor \<Rightarrow> unit task" where
  "async_verify_remote_artifact W path d = chain (inquire W (\<lambda>n. remote_artifact_command n path)) (\<lambda>(nonce, body).
     case parse_remote_artifact body nonce path of
       None \<Rightarrow> throw (Raised StageVerificationFailed)
     | Some (mode, bytes, digest) \<Rightarrow> check (is_regular mode \<and> permission_bits mode = 420
         \<and> bytes = ds_apk_size d \<and> digest = ds_apk_sha256 d) (Raised StageVerificationFailed))"

definition async_path_state :: "adb_world \<Rightarrow> string \<Rightarrow> bool task" where
  "async_path_state W path = chain (inquire W (\<lambda>n. path_state_command n path)) (\<lambda>(nonce, body).
     of_parse (parse_path_state body nonce))"

definition async_cleanup :: "adb_world \<Rightarrow> string \<Rightarrow> bool \<Rightarrow> unit task" where
  "async_cleanup W path preserve = chain (inquire W (\<lambda>n. cleanup_command n path preserve)) (\<lambda>(nonce, body).
     of_parse (parse_cleanup body nonce))"

definition async_package_present :: "adb_world \<Rightarrow> string \<Rightarrow> unit task" where
  "async_package_present W package = chain (inquire W (\<lambda>n. package_command n package)) (\<lambda>(nonce, body).
     of_answer (parse_package_present body nonce))"

definition async_installed_artifact_size_on_device :: "adb_world \<Rightarrow> install_descriptor \<Rightarrow> int option task" where
  "async_installed_artifact_size_on_device W d =
     chain (inquire W (\<lambda>n. package_command n (ds_package_id d))) (\<lambda>(nonce, body).
     chain (of_parse (parse_installed_apk_path body nonce)) (\<lambda>found. case found of
         None \<Rightarrow> give None
       | Some path \<Rightarrow> chain (inquire W (\<lambda>n. artifact_observation_command n path False)) (\<lambda>(nonce', body').
           chain (of_parse (parse_artifact_observation body' nonce' path False)) (\<lambda>(mode, bytes, digest).
           give (if is_regular mode \<and> bytes = ds_apk_size d \<and> digest = ds_apk_sha256 d then Some bytes else None)))))"

section \<open>Reading operations\<close>

definition async_preflight_install ::
  "adb_world \<Rightarrow> adb_target \<Rightarrow> install_descriptor \<Rightarrow> bool \<Rightarrow> bool \<Rightarrow> adb_preflight task" where
  "async_preflight_install W t d admit authorize = chain (valid_request t d) (\<lambda>_.
     on_panel W authorize (blamed TargetUnreachable) (async_preflight_on_device W t d admit))"

definition async_verify_installed_target :: "adb_world \<Rightarrow> adb_target \<Rightarrow> root_mode \<Rightarrow> string \<Rightarrow> unit task" where
  "async_verify_installed_target W t expected package =
     chain (check (package = package_id_current \<and> target_valid t) (Raised AdbInvalidRequest)) (\<lambda>_.
     on_panel W True silent_or_invalid (chain (async_require_identity_root W t expected) (\<lambda>_.
       async_package_present W package)))"

definition async_installed_artifact_size ::
  "adb_world \<Rightarrow> adb_target \<Rightarrow> install_descriptor \<Rightarrow> root_mode \<Rightarrow> bool \<Rightarrow> int option task" where
  "async_installed_artifact_size W t d expected authorize = chain (valid_request t d) (\<lambda>_.
     on_panel W authorize silent_or_invalid (chain (async_require_identity_root W t expected) (\<lambda>_.
       async_installed_artifact_size_on_device W d)))"

section \<open>Staging\<close>

definition swallow :: "adb_exc \<Rightarrow> unit task" where
  "swallow e = (if e \<in> {Interrupted, Unforeseen} then throw e else give ())"

definition clear_stage :: "adb_world \<Rightarrow> adb_target \<Rightarrow> root_mode \<Rightarrow> string \<Rightarrow> unit task" where
  "clear_stage W t mode path = chain (async_require_identity_root W t mode) (\<lambda>_. async_cleanup W path False)"

text \<open>\<open>_async_clear_interrupted_stage\<close> on a connection of its own, and on the caller's.\<close>

definition async_clear_interrupted_stage :: "adb_world \<Rightarrow> adb_target \<Rightarrow> root_mode \<Rightarrow> string \<Rightarrow> unit task" where
  "async_clear_interrupted_stage W t mode path = trying (async_connect W True) swallow
     (\<lambda>_. lastly (trying (clear_stage W t mode path) swallow give) (async_close W False))"

definition clear_on_device :: "adb_world \<Rightarrow> adb_target \<Rightarrow> root_mode \<Rightarrow> string \<Rightarrow> unit task" where
  "clear_on_device W t mode path = trying (clear_stage W t mode path) swallow give"

text \<open>Everything of \<open>async_stage_apk\<close> before the copy starts.\<close>

definition stage_admission ::
  "adb_world \<Rightarrow> adb_target \<Rightarrow> install_descriptor \<Rightarrow> root_mode \<Rightarrow> string \<Rightarrow> unit task" where
  "stage_admission W t d expected path = chain (async_preflight_on_device W t d False) (\<lambda>p.
     chain (require_expected_root_mode (pv_root_mode p) expected) (\<lambda>_.
     chain (async_path_state W path) (\<lambda>occupied.
     chain (if occupied
       then trying (async_cleanup W path False)
              (\<lambda>e. throw (if e = BadAnswer then Raised StagingPathOccupied else e)) give
       else give ()) (\<lambda>_. validate_filesync_maxdata W))))"

text \<open>The copy; a failure drops the connection and tries once to remove what was left.\<close>

definition stage_copy ::
  "adb_world \<Rightarrow> adb_target \<Rightarrow> install_descriptor \<Rightarrow> root_mode \<Rightarrow> string \<Rightarrow> unit task" where
  "stage_copy W t d expected path =
     trying (chain (async_push W path) (\<lambda>_. async_verify_remote_artifact W path d))
       (\<lambda>e. if e \<in> {Interrupted, Unforeseen} then lastly (throw e) (async_close W False)
            else trying (async_close W False)
              (\<lambda>c. lastly (throw c) (async_close W False))
              (\<lambda>_. chain (async_clear_interrupted_stage W t expected path) (\<lambda>_. throw (blamed StageInterrupted e))))
       (\<lambda>_. async_close W False)"

definition async_stage_apk ::
  "adb_world \<Rightarrow> adb_target \<Rightarrow> install_descriptor \<Rightarrow> string \<Rightarrow> root_mode \<Rightarrow> staged_apk task" where
  "async_stage_apk W t d job_id expected = chain (valid_request t d) (\<lambda>_.
     chain (remote_path_task job_id) (\<lambda>path.
     trying (async_open_verified_apk W True d) (\<lambda>e. throw (blamed TargetUnreachable e)) (\<lambda>_. lastly
       (trying (async_connect W True) (\<lambda>e. throw (blamed TargetUnreachable e)) (\<lambda>_.
        trying (stage_admission W t d expected path)
          (\<lambda>e. lastly (throw (blamed TargetUnreachable e)) (async_close W False))
          (\<lambda>_. chain (stage_copy W t d expected path) (\<lambda>_.
             give \<lparr>sg_job_id = job_id, sg_remote_path = path, sg_apk_size = ds_apk_size d,
                   sg_apk_sha256 = ds_apk_sha256 d\<rparr>))))
       (tell FileClosed))))"

section \<open>Installing\<close>

definition install_admission ::
  "adb_world \<Rightarrow> adb_target \<Rightarrow> install_descriptor \<Rightarrow> root_mode \<Rightarrow> string \<Rightarrow> unit task" where
  "install_admission W t d expected path = chain (async_preflight_on_device W t d False) (\<lambda>p.
     chain (require_expected_root_mode (pv_root_mode p) expected) (\<lambda>_.
     chain (async_verify_remote_artifact W path d) (\<lambda>_. before_install W)))"

definition install_run :: "adb_world \<Rightarrow> (string \<Rightarrow> string) \<Rightarrow> install_outcome task" where
  "install_run W command = chain (inquire W command) (\<lambda>(nonce, body). of_parse (parse_install_outcome body nonce))"

definition async_install_staged_apk ::
  "adb_world \<Rightarrow> adb_target \<Rightarrow> install_descriptor \<Rightarrow> string \<Rightarrow> root_mode \<Rightarrow> install_outcome task" where
  "async_install_staged_apk W t d job_id expected = chain (valid_request t d) (\<lambda>_.
     chain (remote_path_task job_id) (\<lambda>path.
     on_panel W True (blamed TargetUnreachable) (chain (install_admission W t d expected path) (\<lambda>_.
       trying (install_run W (\<lambda>n. install_command n path (at_android_sdk t)))
         (\<lambda>e. throw (blamed InstallAmbiguous e)) give))))"

definition async_cleanup_staged_apk ::
  "adb_world \<Rightarrow> adb_target \<Rightarrow> staged_apk \<Rightarrow> cleanup_reason \<Rightarrow> root_mode \<Rightarrow> unit task" where
  "async_cleanup_staged_apk W t s reason expected =
     chain (check (target_valid t) (Raised AdbInvalidRequest)) (\<lambda>_.
     case staged_path s of None \<Rightarrow> throw (Raised AdbInvalidRequest)
     | Some path \<Rightarrow> on_panel W True (blamed TargetUnreachable) (chain (async_require_identity_root W t expected) (\<lambda>_.
         trying (async_cleanup W path (reason = CleanupInstalled)) (\<lambda>e. throw (blamed CleanupAmbiguous e)) give)))"

section \<open>Updating\<close>

text \<open>\<open>async_update_installed_apk\<close> up to the copy, up to the install, and after it.\<close>

definition update_admission ::
  "adb_world \<Rightarrow> adb_target \<Rightarrow> install_descriptor \<Rightarrow> string \<Rightarrow> root_mode task" where
  "update_admission W t d path = chain (async_preflight_on_device W t d True) (\<lambda>p.
     chain (async_package_present W (ds_package_id d)) (\<lambda>_.
     chain (async_path_state W path) (\<lambda>occupied.
     chain (check (\<not> occupied) (Raised StagingPathOccupied)) (\<lambda>_.
     chain (validate_filesync_maxdata W) (\<lambda>_. give (pv_root_mode p))))))"

definition update_copy ::
  "adb_world \<Rightarrow> adb_target \<Rightarrow> install_descriptor \<Rightarrow> string \<Rightarrow> root_mode \<Rightarrow> unit task" where
  "update_copy W t d path mode = chain (async_push W path) (\<lambda>_.
     chain (async_verify_remote_artifact W path d) (\<lambda>_.
     chain (async_preflight_on_device W t d True) (\<lambda>p.
     chain (require_expected_root_mode (pv_root_mode p) mode) (\<lambda>_.
     chain (async_package_present W (ds_package_id d)) (\<lambda>_.
     chain (async_verify_remote_artifact W path d) (\<lambda>_. before_install W))))))"

definition update_on_device ::
  "adb_world \<Rightarrow> adb_target \<Rightarrow> install_descriptor \<Rightarrow> string \<Rightarrow> install_outcome task" where
  "update_on_device W t d path =
     (let ending = (\<lambda>e. lastly (throw e) (async_close W False)) in
     trying (update_admission W t d path) (\<lambda>e. ending (blamed TargetUnreachable e)) (\<lambda>mode.
     trying (update_copy W t d path mode)
       (\<lambda>e. lastly (throw (blamed StageAmbiguous e))
          (chain (clear_on_device W t mode path) (\<lambda>_. async_close W False))) (\<lambda>_.
     trying (install_run W (\<lambda>n. update_install_command n path)) (\<lambda>e. ending (blamed InstallAmbiguous e)) (\<lambda>outcome.
     trying (async_cleanup W path False) (\<lambda>e. ending (blamed CleanupAmbiguous e)) (\<lambda>_.
     chain (async_close W False) (\<lambda>_. give outcome))))))"

definition async_update_installed_apk ::
  "adb_world \<Rightarrow> adb_target \<Rightarrow> install_descriptor \<Rightarrow> install_outcome task" where
  "async_update_installed_apk W t d = chain (valid_request t d) (\<lambda>_.
     chain (async_open_verified_apk W False d) (\<lambda>_.
     chain tick (\<lambda>i. case remote_path (aw_nonce W i) of
       None \<Rightarrow> throw (Raised AdbInvalidRequest)
     | Some path \<Rightarrow> lastly
         (trying (async_connect W True) (\<lambda>e. throw (blamed TargetUnreachable e)) (\<lambda>_. update_on_device W t d path))
         (tell FileClosed))))"

end
