(* ===== verification/Adb_Runs.thy ===== *)
theory Adb_Runs
  imports Adb_Install
begin

text \<open>
  Reasoning about what an operation does on the line: \<open>does m Q\<close> holds when every run of \<open>m\<close>
  adds events \<open>new\<close> (newest first) and ends with \<open>r\<close> such that \<open>Q new r\<close>.  One rule for each way
  of putting tasks together, and from them what every operation of \<open>Adb_Install\<close> adds.
\<close>

definition does :: "'a task \<Rightarrow> (adb_event list \<Rightarrow> adb_exc + 'a \<Rightarrow> bool) \<Rightarrow> bool" where
  "does m Q \<longleftrightarrow> (\<forall>l. \<exists>new. al_log (snd (m l)) = new @ al_log l \<and> Q new (fst (m l)))"

lemma doesD: "does m Q \<Longrightarrow> m l = (r, l') \<Longrightarrow> \<exists>new. al_log l' = new @ al_log l \<and> Q new r"
  unfolding does_def by (metis fst_conv snd_conv)

lemma does_mono: "does m Q \<Longrightarrow> (\<And>new r. Q new r \<Longrightarrow> R new r) \<Longrightarrow> does m R"
  unfolding does_def by blast

lemma does_conj: "does m Q \<Longrightarrow> does m R \<Longrightarrow> does m (\<lambda>new r. Q new r \<and> R new r)"
  unfolding does_def
proof
  fix l assume a: "\<forall>l. \<exists>new. al_log (snd (m l)) = new @ al_log l \<and> Q new (fst (m l))"
    "\<forall>l. \<exists>new. al_log (snd (m l)) = new @ al_log l \<and> R new (fst (m l))"
  from a(1) [rule_format, of l] a(2) [rule_format, of l]
  show "\<exists>new. al_log (snd (m l)) = new @ al_log l \<and> Q new (fst (m l)) \<and> R new (fst (m l))"
    by auto
qed

lemma does_give: "Q [] (Inr x) \<Longrightarrow> does (give x) Q"
  by (simp add: does_def give_def)

lemma does_throw: "Q [] (Inl e) \<Longrightarrow> does (throw e) Q"
  by (simp add: does_def throw_def)

lemma does_tell: "Q [e] (Inr ()) \<Longrightarrow> does (tell e) Q"
  by (simp add: does_def tell_def)

lemma does_tick: "(\<And>i. Q [] (Inr i)) \<Longrightarrow> does tick Q"
  by (simp add: does_def tick_def)

lemma does_trying:
  assumes "does m P"
    and "\<And>e. does (h e) (\<lambda>new r. \<forall>old. P old (Inl e) \<longrightarrow> Q (new @ old) r)"
    and "\<And>x. does (k x) (\<lambda>new r. \<forall>old. P old (Inr x) \<longrightarrow> Q (new @ old) r)"
  shows "does (trying m h k) Q"
  unfolding does_def
proof
  fix l
  obtain old where old: "al_log (snd (m l)) = old @ al_log l" "P old (fst (m l))"
    using assms(1) by (auto simp: does_def)
  show "\<exists>new. al_log (snd (trying m h k l)) = new @ al_log l \<and> Q new (fst (trying m h k l))"
  proof (cases "m l")
    case (Pair r l1)
    show ?thesis
    proof (cases r)
      case (Inl e)
      obtain new where "al_log (snd (h e l1)) = new @ al_log l1" "\<forall>old. P old (Inl e) \<longrightarrow> Q (new @ old) (fst (h e l1))"
        using assms(2) [of e] by (auto simp: does_def)
      then show ?thesis using old Pair Inl by (intro exI [of _ "new @ old"]) (simp add: trying_def)
    next
      case (Inr x)
      obtain new where "al_log (snd (k x l1)) = new @ al_log l1" "\<forall>old. P old (Inr x) \<longrightarrow> Q (new @ old) (fst (k x l1))"
        using assms(3) [of x] by (auto simp: does_def)
      then show ?thesis using old Pair Inr by (intro exI [of _ "new @ old"]) (simp add: trying_def)
    qed
  qed
qed

lemma does_chain:
  assumes "does m P" "\<And>old e. P old (Inl e) \<Longrightarrow> Q old (Inl e)"
    and "\<And>x. does (k x) (\<lambda>new r. \<forall>old. P old (Inr x) \<longrightarrow> Q (new @ old) r)"
  shows "does (chain m k) Q"
  unfolding chain_def by (rule does_trying [OF assms(1) _ assms(3)]) (auto intro!: does_throw intro: assms(2))

section \<open>Events of one kind\<close>

text \<open>
  \<open>only K m\<close>: every event of \<open>m\<close> is of kind \<open>K\<close>; it follows the structure of \<open>m\<close>.
\<close>

definition only :: "(adb_event \<Rightarrow> bool) \<Rightarrow> 'a task \<Rightarrow> bool" where
  "only K m \<longleftrightarrow> does m (\<lambda>new r. list_all K new)"

named_theorems only_intro \<open>how the events of a task follow from those of its parts\<close>

lemma only_give [only_intro]: "only K (give x)"
  by (simp add: only_def does_give)

lemma only_throw [only_intro]: "only K (throw e)"
  by (simp add: only_def does_throw)

lemma only_tell [only_intro]: "K e \<Longrightarrow> only K (tell e)"
  by (simp add: only_def does_tell)

lemma only_tick [only_intro]: "only K tick"
  by (simp add: only_def does_tick)

lemma only_trying [only_intro]:
  "only K m \<Longrightarrow> (\<And>e. only K (h e)) \<Longrightarrow> (\<And>x. only K (k x)) \<Longrightarrow> only K (trying m h k)"
proof -
  assume a: "only K m" "\<And>e. only K (h e)" "\<And>x. only K (k x)"
  show ?thesis unfolding only_def
  proof (rule does_trying [OF a(1) [unfolded only_def]])
    show "does (h e) (\<lambda>new r. \<forall>old. list_all K old \<longrightarrow> list_all K (new @ old))" for e
      by (rule does_mono [OF a(2) [unfolded only_def]]) simp
    show "does (k x) (\<lambda>new r. \<forall>old. list_all K old \<longrightarrow> list_all K (new @ old))" for x
      by (rule does_mono [OF a(3) [unfolded only_def]]) simp
  qed
qed

lemma only_chain [only_intro]: "only K m \<Longrightarrow> (\<And>x. only K (k x)) \<Longrightarrow> only K (chain m k)"
  unfolding chain_def by (intro only_intro)

lemma only_lastly [only_intro]: "only K m \<Longrightarrow> only K c \<Longrightarrow> only K (lastly m c)"
  unfolding lastly_def by (intro only_intro)

lemma only_cond [only_intro]: "only K a \<Longrightarrow> only K b \<Longrightarrow> only K (if c then a else b)"
  by simp

lemma only_check [only_intro]: "only K (check b e)"
  by (simp add: check_def only_intro)

lemma only_answer [only_intro]: "only K (of_answer a)"
  by (simp add: of_answer_def only_intro split: sum.splits)

lemma only_parse [only_intro]: "only K (of_parse x)"
  by (simp add: of_parse_def only_intro)

lemma only_inquire: "(\<And>n s. K (Sent n (command n) s)) \<Longrightarrow> only K (inquire W command)"
  unfolding inquire_def by (intro only_intro) (auto simp: Let_def intro!: only_intro split: sum.splits)

section \<open>What a program does\<close>

definition begins :: "string \<Rightarrow> string \<Rightarrow> bool" where
  "begins text name \<longleftrightarrow> starts_with text (''echo HAPANELD_'' @ name @ ''_BEGIN:'')"

text \<open>The events on an open connection, and those that do not run the package manager's install.\<close>

fun on_line :: "adb_event \<Rightarrow> bool" where
  "on_line (Sent n text s) \<longleftrightarrow> True"
| "on_line (Pushed path) \<longleftrightarrow> True"
| "on_line Consented \<longleftrightarrow> True"
| "on_line _ \<longleftrightarrow> False"

fun installs :: "adb_event \<Rightarrow> bool" where
  "installs (Sent n text s) \<longleftrightarrow> begins text ''INSTALL''"
| "installs _ \<longleftrightarrow> False"

text \<open>A read of the panel, with or without the removal of a staged file.\<close>

fun asks :: "adb_event \<Rightarrow> bool" where
  "asks (Sent n text s) \<longleftrightarrow> \<not> begins text ''INSTALL''"
| "asks _ \<longleftrightarrow> False"

lemma program_begins: "program (a # b # cs) = a @ ''; '' @ program (b # cs)"
  by (simp add: program_def)

lemma framed_begins: "\<exists>rest. program (framed_commands prefix nonce secs) = ''echo HAPANELD_'' @ prefix @ ''_BEGIN:'' @ rest"
proof -
  obtain c cs where "concat (map (section_commands prefix nonce) secs) @ [echo (end_mark prefix nonce)] = c # cs"
    by (metis append_is_Nil_conv neq_Nil_conv)
  then have "framed_commands prefix nonce secs = echo (begin_mark prefix nonce) # c # cs"
    by (simp add: framed_commands_def)
  then show ?thesis
    by (simp add: program_begins) (simp add: echo_def begin_mark_def marker_def)
qed

lemma single_begins: "\<exists>rest. program (single_command prefix nonce command) = ''echo HAPANELD_'' @ prefix @ ''_BEGIN:'' @ rest"
  by (simp add: single_command_def program_begins) (simp add: echo_def begin_mark_def marker_def)

lemma framed_not_install: "c \<noteq> CHR ''I'' \<Longrightarrow> \<not> begins (program (framed_commands (c # p) nonce secs)) ''INSTALL''"
  using framed_begins [of "c # p" nonce secs] by (auto simp: begins_def starts_with_def)

lemma single_not_install: "c \<noteq> CHR ''I'' \<Longrightarrow> \<not> begins (program (single_command (c # p) nonce command)) ''INSTALL''"
  using single_begins [of "c # p" nonce command] by (auto simp: begins_def starts_with_def)

lemma single_install: "begins (program (single_command ''INSTALL'' nonce command)) ''INSTALL''"
  using single_begins [of "''INSTALL''" nonce command] by (auto simp: begins_def starts_with_def)

lemma programs_not_install [simp]:
  "\<not> begins (preflight_command n) ''INSTALL''" "\<not> begins (identity_root_command n) ''INSTALL''"
  "\<not> begins (su_attempt_command prefix n clean) ''INSTALL''" "\<not> begins (path_state_command n path) ''INSTALL''"
  "\<not> begins (package_command n package) ''INSTALL''" "\<not> begins (artifact_observation_command n path prepare) ''INSTALL''"
  "\<not> begins (remote_artifact_command n path) ''INSTALL''" "\<not> begins (cleanup_command n path preserve) ''INSTALL''"
  by (simp_all add: preflight_command_def preflight_commands_def identity_root_command_def identity_root_commands_def
      path_state_command_def package_command_def artifact_observation_command_def remote_artifact_command_def
      cleanup_command_def framed_not_install single_not_install)
    (simp add: su_attempt_command_def begins_def starts_with_def)

lemma install_begins [simp]: "begins (install_command n path sdk) ''INSTALL''" "begins (update_install_command n path) ''INSTALL''"
  by (simp_all add: install_command_def update_install_command_def single_install)

section \<open>The steps of an operation\<close>

lemma only_inquires: "(\<And>n. \<not> begins (command n) ''INSTALL'') \<Longrightarrow> only asks (inquire W command)"
  by (rule only_inquire) simp

lemma su_forms_asks: "only asks (su_forms W admitted target prefixes answered)"
proof (induction prefixes arbitrary: answered)
  case (Cons prefix prefixes)
  show ?case
    by (auto intro!: only_intro only_inquires Cons.IH split: prod.split)
qed (simp add: only_intro)

lemma prove_su_asks: "only asks (async_prove_su W admitted target)"
  by (simp add: async_prove_su_def su_forms_asks)

lemma preflight_asks: "only asks (async_preflight_on_device W t d admit)"
  unfolding async_preflight_on_device_def
  by (auto intro!: only_intro only_inquires prove_su_asks split: prod.split)

lemma identity_root_asks: "only asks (async_require_identity_root W t expected)"
  unfolding async_require_identity_root_def require_expected_root_mode_def
  by (auto intro!: only_intro only_inquires prove_su_asks split: prod.split)

lemma verify_remote_asks: "only asks (async_verify_remote_artifact W path d)"
  unfolding async_verify_remote_artifact_def
  by (auto intro!: only_intro only_inquires split: prod.split option.split)

lemma path_state_asks: "only asks (async_path_state W path)"
  unfolding async_path_state_def by (auto intro!: only_intro only_inquires split: prod.split)

lemma cleanup_asks: "only asks (async_cleanup W path preserve)"
  unfolding async_cleanup_def by (auto intro!: only_intro only_inquires split: prod.split)

lemma package_present_asks: "only asks (async_package_present W package)"
  unfolding async_package_present_def by (auto intro!: only_intro only_inquires split: prod.split)

lemma installed_size_asks: "only asks (async_installed_artifact_size_on_device W d)"
  unfolding async_installed_artifact_size_on_device_def
  by (auto intro!: only_intro only_inquires split: prod.split option.split)

lemma maxdata_silent: "only K (validate_filesync_maxdata W)"
  unfolding validate_filesync_maxdata_def by (auto intro!: only_intro split: option.split)

lemma clear_stage_asks: "only asks (clear_stage W t mode path)"
  unfolding clear_stage_def by (intro only_intro identity_root_asks cleanup_asks)

lemma only_swallow [only_intro]: "only K (swallow e)"
  by (simp add: swallow_def only_intro)

lemma clear_on_device_asks: "only asks (clear_on_device W t mode path)"
  unfolding clear_on_device_def by (intro only_intro clear_stage_asks)

lemma only_mono: "only K m \<Longrightarrow> (\<And>e. K e \<Longrightarrow> L e) \<Longrightarrow> only L m"
  unfolding only_def by (erule does_mono) (auto simp: list_all_iff)

lemma asks_on_line: "asks e \<Longrightarrow> on_line e"
  by (cases e) auto

lemma asks_not_install: "asks e \<Longrightarrow> \<not> installs e"
  by (cases e) auto

end
