(* ===== verification/Adb_Closing.thy ===== *)
theory Adb_Closing
  imports Adb_Runs
begin

text \<open>
  Connections and files are given back: after every operation the connection it dialled is hung up
  and the local file it opened is closed, whatever the panel answered.
\<close>

section \<open>The state of the line\<close>

fun line_state :: "adb_event list \<Rightarrow> bool option" where
  "line_state [] = None"
| "line_state (e # es) = (if e = Dialled then Some True else if e = HungUp then Some False else line_state es)"

fun file_state :: "adb_event list \<Rightarrow> bool option" where
  "file_state [] = None"
| "file_state (e # es) = (if e = FileOpened then Some True else if e = FileClosed then Some False else file_state es)"

lemma line_state_append: "line_state (a @ b) = (case line_state a of None \<Rightarrow> line_state b | Some s \<Rightarrow> Some s)"
  by (induction a) auto

lemma file_state_append: "file_state (a @ b) = (case file_state a of None \<Rightarrow> file_state b | Some s \<Rightarrow> Some s)"
  by (induction a) auto

lemma line_state_on_line: "list_all on_line new \<Longrightarrow> line_state new = None"
  by (induction new) auto

lemma file_state_on_line: "list_all on_line new \<Longrightarrow> file_state new = None"
  by (induction new) auto

definition down :: "adb_event list \<Rightarrow> adb_exc + 'a \<Rightarrow> bool" where
  "down new r \<longleftrightarrow> r = Inl Unforeseen \<or> line_state new \<noteq> Some True"

definition downed :: "adb_event list \<Rightarrow> adb_exc + 'a \<Rightarrow> bool" where
  "downed new r \<longleftrightarrow> r = Inl Unforeseen \<or> line_state new = Some False"

abbreviation ends_down :: "'a task \<Rightarrow> bool" where
  "ends_down m \<equiv> does m down"

abbreviation hangs_up :: "'a task \<Rightarrow> bool" where
  "hangs_up m \<equiv> does m downed"

lemma hangs_up_ends_down: "hangs_up m \<Longrightarrow> ends_down m"
  by (erule does_mono) (auto simp: down_def downed_def)

lemma only_ends_down: "only on_line m \<Longrightarrow> ends_down m"
  unfolding only_def by (erule does_mono) (simp add: down_def line_state_on_line)

named_theorems down_intro \<open>operations that leave no connection open\<close>

lemma down_chain [down_intro]:
  assumes "ends_down m" "\<And>x. ends_down (k x)"
  shows "ends_down (chain m k)"
proof (rule does_chain [OF assms(1)])
  show "down old (Inl e)" if "down old (Inl e)" for old :: "adb_event list" and e
    using that by (simp add: down_def)
  show "does (k x) (\<lambda>new r. \<forall>old. down old (Inr x) \<longrightarrow> down (new @ old) r)" for x
    by (rule does_mono [OF assms(2)]) (auto simp: down_def line_state_append split: option.split)
qed

lemma down_close: "does (async_close W deadline) (\<lambda>new r. new = [HungUp])"
  unfolding async_close_def
  by (rule does_chain [OF does_tick [where Q = "\<lambda>new r. new = [] \<and> (\<exists>i. r = Inr i)"]], simp, simp,
      rule does_chain [OF does_tell [where Q = "\<lambda>new r. new = [HungUp] \<and> r = Inr ()"]], simp, simp)
    (auto intro!: does_give does_throw split: option.split)

lemma hang_lastly:
  assumes "only on_line m"
  shows "does (lastly m (async_close W deadline)) (\<lambda>new r. line_state new = Some False)"
proof -
  have c: "does (chain (async_close W deadline) (\<lambda>_. q)) (\<lambda>new r. line_state new = Some False)"
    if "does q (\<lambda>new r. new = [])" for q :: "'x task"
    by (rule does_chain [OF down_close]) (auto intro!: does_mono [OF that])
  show ?thesis unfolding lastly_def
    by (rule does_trying [OF assms [unfolded only_def]])
      (auto simp: line_state_append intro!: does_mono [OF c] does_throw does_give)
qed

lemma hangs_lastly: "only on_line m \<Longrightarrow> hangs_up (lastly m (async_close W deadline))"
  by (rule does_mono [OF hang_lastly]) (auto simp: downed_def)

lemma connect_down: "does (async_connect W authorize) (\<lambda>new r. case r of Inl e \<Rightarrow> down new r | Inr _ \<Rightarrow> new = [Dialled])"
proof -
  have fail: "does (abandon W e)
       (\<lambda>new r. (\<exists>f. r = Inl f) \<and> (r = Inl Unforeseen \<or> line_state new = Some False))" for e
  proof -
    have t: "does (trying (async_close W True) (\<lambda>_. throw x) (\<lambda>_. throw x)) (\<lambda>new r. (\<exists>f. r = Inl f) \<and> line_state new = Some False)" for x
      by (rule does_trying [OF down_close]) (auto intro!: does_throw)
    have c: "does (chain (async_close W True) (\<lambda>_. throw x)) (\<lambda>new r. (\<exists>f. r = Inl f) \<and> line_state new = Some False)" for x
      by (rule does_chain [OF down_close]) (auto intro!: does_throw)
    show ?thesis unfolding abandon_def
      by (auto intro!: does_throw intro: does_mono [OF t] does_mono [OF c])
  qed
  show ?thesis
    unfolding async_connect_def
    apply (rule does_chain [OF does_tick [where Q = "\<lambda>new r. new = [] \<and> (\<exists>i. r = Inr i)"]], simp, simp)
    apply (rule does_chain [OF does_tell [where Q = "\<lambda>new r. new = [Dialled] \<and> r = Inr ()"]], simp, simp)
    apply (auto split: option.split intro!: does_give does_mono [OF fail] simp: down_def line_state_append)
    done
qed

lemma blame_known: "e \<noteq> Unforeseen \<Longrightarrow> blamed c e \<noteq> Unforeseen" "e \<noteq> Unforeseen \<Longrightarrow> silent_or_invalid e \<noteq> Unforeseen"
  by (simp_all add: blamed_def silent_or_invalid_def)

text \<open>Connect, then something that hangs up.\<close>

lemma connect_hang:
  assumes "\<And>e. ends_down (h e)" "\<And>e. only on_line (h e)" "\<And>old r. does (h Unforeseen) (\<lambda>new r. r = Inl Unforeseen)"
    and "\<And>x. hangs_up (k x)"
  shows "ends_down (trying (async_connect W authorize) h k)"
proof (rule does_trying [OF connect_down], goal_cases)
  case (1 e)
  show ?case
  proof (cases "e = Unforeseen")
    case True
    then show ?thesis by (auto simp: down_def intro: does_mono [OF assms(3)])
  next
    case False
    show ?thesis
      by (rule does_mono [OF assms(2) [unfolded only_def]])
        (auto simp: down_def False line_state_append line_state_on_line)
  qed
next
  case (2 x)
  show ?case
    by (rule does_mono [OF assms(4)]) (auto simp: down_def downed_def line_state_append)
qed

lemma blame_throw [down_intro]: "ends_down (throw e)"
  by (rule does_throw) (simp add: down_def)

lemma asks_line: "only asks m \<Longrightarrow> only on_line m"
  by (erule only_mono) (rule asks_on_line)

text \<open>\<open>on_panel\<close> is such an operation, for every blame that keeps an unforeseen error as it is.\<close>

lemma on_panel_down:
  assumes "only on_line m" "blame Unforeseen = Unforeseen"
  shows "ends_down (on_panel W authorize blame m)"
  unfolding on_panel_def
  by (rule connect_hang)
    (auto intro!: hangs_lastly only_intro assms(1) does_throw simp: down_def assms(2))

lemma request_line: "only K (valid_request t d)" "only K (remote_path_task job)"
  by (simp_all add: valid_request_def remote_path_task_def only_intro split: option.split)

lemma blamed_unforeseen [simp]: "blamed c Unforeseen = Unforeseen" "silent_or_invalid Unforeseen = Unforeseen"
  by (simp_all add: blamed_def silent_or_invalid_def communication_failures_def)

lemma before_install_line: "only on_line (before_install W)"
  unfolding before_install_def by (auto intro!: only_intro split: option.split)

lemma install_run_line: "only on_line (install_run W command)"
  unfolding install_run_def by (auto intro!: only_intro only_inquire split: prod.split)

lemma install_admission_line: "only on_line (install_admission W t d expected path)"
  unfolding install_admission_def require_expected_root_mode_def
  by (intro only_intro before_install_line asks_line [OF preflight_asks] asks_line [OF verify_remote_asks])

lemma preflight_down: "ends_down (async_preflight_install W t d admit authorize)"
  unfolding async_preflight_install_def
  by (intro down_chain only_ends_down [OF request_line(1)] on_panel_down asks_line [OF preflight_asks]) simp

lemma verify_installed_down: "ends_down (async_verify_installed_target W t expected package)"
  unfolding async_verify_installed_target_def
  by (intro down_chain only_ends_down [OF only_check] on_panel_down only_intro
      asks_line [OF identity_root_asks] asks_line [OF package_present_asks]) simp

lemma installed_size_down: "ends_down (async_installed_artifact_size W t d expected authorize)"
  unfolding async_installed_artifact_size_def
  by (intro down_chain only_ends_down [OF request_line(1)] on_panel_down only_intro
      asks_line [OF identity_root_asks] asks_line [OF installed_size_asks]) simp

lemma install_down: "ends_down (async_install_staged_apk W t d job expected)"
  unfolding async_install_staged_apk_def
  by (intro down_chain only_ends_down [OF request_line(1)] only_ends_down [OF request_line(2)] on_panel_down only_intro
      install_admission_line install_run_line) simp

lemma cleanup_down: "ends_down (async_cleanup_staged_apk W t s reason expected)"
  unfolding async_cleanup_staged_apk_def
  by (auto intro!: down_intro only_ends_down [OF only_check] on_panel_down only_intro
      asks_line [OF identity_root_asks] asks_line [OF cleanup_asks] split: option.split)

lemma clear_interrupted_down: "ends_down (async_clear_interrupted_stage W t mode path)"
  unfolding async_clear_interrupted_stage_def
  by (rule connect_hang)
    (auto intro!: hangs_lastly only_intro only_ends_down asks_line [OF clear_stage_asks] simp: swallow_def down_def intro!: does_throw)

section \<open>Staging\<close>

lemma stage_admission_line: "only on_line (stage_admission W t d expected path)"
  unfolding stage_admission_def require_expected_root_mode_def
  by (intro only_intro asks_line [OF preflight_asks] asks_line [OF path_state_asks] asks_line [OF cleanup_asks] maxdata_silent)

lemma async_push_line: "only on_line (async_push W path)"
  unfolding async_push_def by (auto intro!: only_intro split: option.split)

lemma hangs_close_chain:
  assumes "ends_down m"
  shows "hangs_up (chain (async_close W deadline) (\<lambda>_. m))"
  by (rule does_chain [OF down_close])
    (auto simp: downed_def down_def line_state_append intro!: does_mono [OF assms] split: option.splits)

lemma hangs_trying:
  assumes "only on_line m" "\<And>e. hangs_up (h e)" "\<And>x. hangs_up (k x)"
  shows "hangs_up (trying m h k)"
  by (rule does_trying [OF assms(1) [unfolded only_def]])
    (auto simp: downed_def line_state_append line_state_on_line intro!: does_mono [OF assms(2)] does_mono [OF assms(3)])

lemma close_hangs: "hangs_up (async_close W deadline)"
  by (rule does_mono [OF down_close]) (simp add: downed_def)

lemma hangs_trying_close:
  assumes "\<And>e. hangs_up (h e)" "\<And>x. ends_down (k x)"
  shows "hangs_up (trying (async_close W deadline) h k)"
  by (rule does_trying [OF down_close])
    (auto simp: downed_def down_def line_state_append intro!: does_mono [OF assms(1)] does_mono [OF assms(2)]
      split: option.splits)

lemma stage_copy_hangs: "hangs_up (stage_copy W t d expected path)"
  unfolding stage_copy_def
  by (intro hangs_trying only_intro async_push_line asks_line [OF verify_remote_asks])
    (auto intro!: hangs_lastly only_intro hangs_trying_close down_intro clear_interrupted_down close_hangs)

lemma hangs_chain_give: "hangs_up m \<Longrightarrow> hangs_up (chain m (\<lambda>_. give x))"
  by (erule does_chain) (auto simp: downed_def intro!: does_give)

text \<open>The file of a stage or an update: opened, then closed whatever happens.\<close>

definition file_kept :: "adb_event list \<Rightarrow> adb_exc + 'a \<Rightarrow> bool" where
  "file_kept new r \<longleftrightarrow> line_state new = None \<and> (case r of Inl e \<Rightarrow> file_state new \<noteq> Some True | Inr _ \<Rightarrow> file_state new = Some True)"

lemma open_apk_file: "does (async_open_verified_apk W deadline d) file_kept"
proof -
  have opened: "does (keep_apk deadline cut) file_kept" for cut
    unfolding keep_apk_def
  proof (rule does_chain [OF does_tell [where Q = "\<lambda>new r. new = [FileOpened] \<and> r = Inr ()"]], simp, simp)
    fix x
    have close: "does (chain (tell FileClosed) (\<lambda>_. throw (cut_exc deadline c)))
        (\<lambda>new r. \<forall>old. old = [FileOpened] \<and> Inr x = Inr () \<longrightarrow> file_kept (new @ old) r)" for c
      by (rule does_chain [OF does_tell [where Q = "\<lambda>new r. new = [FileClosed] \<and> r = Inr ()"]])
        (auto intro!: does_throw simp: file_kept_def)
    show "does (case cut of None \<Rightarrow> give () | Some c \<Rightarrow> chain (tell FileClosed) (\<lambda>_. throw (cut_exc deadline c)))
        (\<lambda>new r. \<forall>old. old = [FileOpened] \<and> Inr x = Inr () \<longrightarrow> file_kept (new @ old) r)"
      using close by (auto intro!: does_give simp: file_kept_def split: option.split)
  qed
  show ?thesis
    unfolding async_open_verified_apk_def
    by (rule does_chain [OF does_tick [where Q = "\<lambda>new r. new = [] \<and> (\<exists>i. r = Inr i)"]], simp, simp)
      (auto intro!: does_throw does_mono [OF opened] simp: file_kept_def split: option.split)
qed

definition settled :: "adb_event list \<Rightarrow> adb_exc + 'a \<Rightarrow> bool" where
  "settled new r \<longleftrightarrow> down new r \<and> file_state new \<noteq> Some True"

lemma closes_file:
  assumes "does m Q" "\<And>new r. Q new r \<Longrightarrow> R (FileClosed # new) r"
    and "\<And>new r. R new r \<Longrightarrow> file_state new = Some False \<Longrightarrow> S new r"
  shows "does (lastly m (tell FileClosed)) S"
proof -
  have t: "does (tell FileClosed) (\<lambda>new r. new = [FileClosed] \<and> r = Inr ())" by (rule does_tell) simp
  have throwing: "does (chain (tell FileClosed) (\<lambda>_. throw e)) (\<lambda>new r. \<forall>old. Q old (Inl e) \<longrightarrow> S (new @ old) r)" for e
    by (rule does_chain [OF t]) (auto intro!: does_throw assms)
  have giving: "does (chain (tell FileClosed) (\<lambda>_. give x)) (\<lambda>new r. \<forall>old. Q old (Inr x) \<longrightarrow> S (new @ old) r)" for x
    by (rule does_chain [OF t]) (auto intro!: does_give assms)
  show ?thesis unfolding lastly_def by (rule does_trying [OF assms(1) throwing giving])
qed

lemma stage_down: "does (async_stage_apk W t d job expected) settled"
proof -
  let ?work = "\<lambda>path. trying (async_connect W True) (\<lambda>e. throw (blamed TargetUnreachable e)) (\<lambda>_.
        trying (stage_admission W t d expected path)
          (\<lambda>e. lastly (throw (blamed TargetUnreachable e)) (async_close W False))
          (\<lambda>_. chain (stage_copy W t d expected path) (\<lambda>_.
             give \<lparr>sg_job_id = job, sg_remote_path = path, sg_apk_size = ds_apk_size d,
                   sg_apk_sha256 = ds_apk_sha256 d\<rparr>)))"
  have work: "ends_down (?work path)" for path
    by (rule connect_hang)
      (auto intro!: does_throw only_intro hangs_trying stage_admission_line hangs_lastly hangs_chain_give
        stage_copy_hangs simp: down_def)
  have closed: "does (lastly (?work path) (tell FileClosed)) (\<lambda>new r. down new r \<and> file_state new = Some False)" for path
    by (rule closes_file [OF work, where R = down]) (auto simp: down_def)
  have filed: "does (trying (async_open_verified_apk W True d) (\<lambda>e. throw (blamed TargetUnreachable e))
      (\<lambda>_. lastly (?work path) (tell FileClosed))) settled" for path
  proof (rule does_trying [OF open_apk_file], goal_cases)
    case (1 e)
    then show ?case by (rule does_throw) (auto simp: settled_def down_def file_kept_def)
  next
    case (2 x)
    then show ?case
      by (rule does_mono [OF closed]) (auto simp: settled_def down_def file_kept_def line_state_append file_state_append split: option.splits)
  qed
  have quiet: "does (valid_request t d) (\<lambda>new r. list_all (\<lambda>_. False) new)"
      "does (remote_path_task job) (\<lambda>new r. list_all (\<lambda>_. False) new)"
    using request_line [of "\<lambda>_. False"] by (simp_all add: only_def)
  have pathed: "does (chain (remote_path_task job) (\<lambda>path. trying (async_open_verified_apk W True d)
      (\<lambda>e. throw (blamed TargetUnreachable e)) (\<lambda>_. lastly (?work path) (tell FileClosed)))) settled"
    by (rule does_chain [OF quiet(2)]) (auto intro!: does_mono [OF filed] simp: settled_def down_def list_all_iff)
  show ?thesis
    unfolding async_stage_apk_def
    by (rule does_chain [OF quiet(1)]) (auto intro!: does_mono [OF pathed] simp: settled_def down_def list_all_iff)
qed

section \<open>Updating\<close>

text \<open>
  An update gives back its file always and its connection unless the caller cancels it while the
  copied file is being removed: the removal then leaves the \<open>finally\<close> block before the close.
\<close>

definition update_settled :: "adb_event list \<Rightarrow> adb_exc + 'a \<Rightarrow> bool" where
  "update_settled new r \<longleftrightarrow> (r \<in> {Inl Interrupted, Inl Unforeseen} \<or> line_state new \<noteq> Some True)
     \<and> file_state new \<noteq> Some True"

definition update_downed :: "adb_event list \<Rightarrow> adb_exc + 'a \<Rightarrow> bool" where
  "update_downed new r \<longleftrightarrow> r \<in> {Inl Interrupted, Inl Unforeseen} \<or> line_state new = Some False"

lemma downed_update: "hangs_up m \<Longrightarrow> does m update_downed"
  by (erule does_mono) (auto simp: downed_def update_downed_def)

lemma only_doesI: "only K m \<Longrightarrow> does m (\<lambda>new r. list_all K new)"
  by (simp add: only_def)

lemma clear_on_device_ends: "does (clear_on_device W t mode path)
    (\<lambda>new r. list_all on_line new \<and> (\<forall>e. r = Inl e \<longrightarrow> e \<in> {Interrupted, Unforeseen}))"
  unfolding clear_on_device_def
proof (rule does_trying [OF only_doesI [OF asks_line [OF clear_stage_asks]]], goal_cases)
  case (1 e)
  then show ?case by (auto simp: swallow_def intro!: does_throw does_give)
next
  case (2 x)
  then show ?case by (auto intro!: does_give)
qed

lemma clear_close: "does (chain (clear_on_device W t mode path) (\<lambda>_. async_close W False))
    (\<lambda>new r. line_state new = Some False \<or> (\<exists>e. r = Inl e \<and> e \<in> {Interrupted, Unforeseen}))"
  by (rule does_chain [OF clear_on_device_ends]) (auto intro!: does_mono [OF down_close])

lemma update_copy_line: "only on_line (update_copy W t d path mode)"
  unfolding update_copy_def require_expected_root_mode_def
  by (intro only_intro async_push_line before_install_line asks_line [OF preflight_asks] asks_line [OF verify_remote_asks]
      asks_line [OF package_present_asks])

lemma update_admission_line: "only on_line (update_admission W t d path)"
  unfolding update_admission_def
  by (intro only_intro maxdata_silent asks_line [OF preflight_asks] asks_line [OF path_state_asks]
      asks_line [OF package_present_asks])

lemma update_copy_failure:
  "does (lastly (throw e) (chain (clear_on_device W t mode path) (\<lambda>_. async_close W False)) :: 'a task) update_downed"
  unfolding lastly_def
proof (rule does_trying [OF does_throw [where Q = "\<lambda>new r. new = [] \<and> r = Inl e"]], goal_cases)
  case (2 f)
  have "does (chain (chain (clear_on_device W t mode path) (\<lambda>_. async_close W False)) (\<lambda>_. throw f) :: 'a task) update_downed"
    by (rule does_chain [OF clear_close]) (auto simp: update_downed_def intro!: does_throw)
  then show ?case by (rule does_mono) auto
next
  case (3 x)
  have "does (chain (chain (clear_on_device W t mode path) (\<lambda>_. async_close W False)) (\<lambda>_. give x) :: 'a task) update_downed"
    by (rule does_chain [OF clear_close]) (auto simp: update_downed_def intro!: does_give)
  then show ?case by (rule does_mono) auto
qed simp

lemma update_trying:
  assumes "only on_line m" "\<And>e. does (h e) update_downed" "\<And>x. does (k x) update_downed"
  shows "does (trying m h k) update_downed"
  by (rule does_trying [OF only_doesI [OF assms(1)]])
    (auto simp: update_downed_def line_state_append line_state_on_line intro!: does_mono [OF assms(2)] does_mono [OF assms(3)])

lemma update_on_device_downed: "does (update_on_device W t d path) update_downed"
  unfolding update_on_device_def Let_def
  by (intro update_trying update_admission_line update_copy_line install_run_line asks_line [OF cleanup_asks]
      update_copy_failure downed_update hangs_chain_give close_hangs)
    (auto intro!: downed_update hangs_lastly only_intro)

lemma update_on_device_connected: "does (trying (async_connect W True) (\<lambda>e. throw (blamed TargetUnreachable e))
    (\<lambda>_. update_on_device W t d path))
    (\<lambda>new r. r \<in> {Inl Interrupted, Inl Unforeseen} \<or> line_state new \<noteq> Some True)"
proof (rule does_trying [OF connect_down], goal_cases)
  case (1 e)
  then show ?case by (rule does_throw) (auto simp: down_def)
next
  case (2 x)
  show ?case by (rule does_mono [OF update_on_device_downed]) (auto simp: update_downed_def line_state_append)
qed

lemma update_down:
  assumes "\<And>i. hex_32 (aw_nonce W i)"
  shows "does (async_update_installed_apk W t d) update_settled"
proof -
  let ?work = "\<lambda>path. trying (async_connect W True) (\<lambda>e. throw (blamed TargetUnreachable e))
    (\<lambda>_. update_on_device W t d path)"
  have closed: "does (lastly (?work path) (tell FileClosed))
      (\<lambda>new r. update_settled new r \<and> file_state new = Some False)" for path
    by (rule closes_file [OF update_on_device_connected,
          where R = "\<lambda>new r. r \<in> {Inl Interrupted, Inl Unforeseen} \<or> line_state new \<noteq> Some True"])
      (auto simp: update_settled_def)
  have named: "does (chain tick (\<lambda>i. case remote_path (aw_nonce W i) of None \<Rightarrow> throw (Raised AdbInvalidRequest)
      | Some path \<Rightarrow> lastly (?work path) (tell FileClosed)))
      (\<lambda>new r. update_settled new r \<and> file_state new = Some False)"
    using assms by (auto intro!: does_chain [OF does_tick [where Q = "\<lambda>new r. new = [] \<and> (\<exists>i. r = Inr i)"]]
        does_mono [OF closed] simp: remote_path_def)
  have filed: "does (chain (async_open_verified_apk W False d) (\<lambda>_. chain tick (\<lambda>i. case remote_path (aw_nonce W i) of
      None \<Rightarrow> throw (Raised AdbInvalidRequest) | Some path \<Rightarrow> lastly (?work path) (tell FileClosed)))) update_settled"
    by (rule does_chain [OF open_apk_file])
      (auto simp: file_kept_def update_settled_def line_state_append file_state_append intro!: does_mono [OF named]
        split: option.splits)
  have quiet: "does (valid_request t d) (\<lambda>new r. list_all (\<lambda>_. False) new)"
    using request_line(1) [of "\<lambda>_. False"] by (simp add: only_def)
  show ?thesis
    unfolding async_update_installed_apk_def
    by (rule does_chain [OF quiet]) (auto intro!: does_mono [OF filed] simp: update_settled_def list_all_iff)
qed

end
