(* ===== verification/Adb_Effects.thy ===== *)
theory Adb_Effects
  imports Adb_Closing
begin

text \<open>
  What an operation does to the panel, and on which evidence: an install program is sent, and a
  file copied, only after the answers on the same connection that admit it.
\<close>

section \<open>One question\<close>

definition answered :: "adb_world \<Rightarrow> adb_event list \<Rightarrow> (string \<Rightarrow> string) \<Rightarrow> string \<Rightarrow> string \<Rightarrow> bool" where
  "answered W new command nonce body \<longleftrightarrow> (\<exists>i s. nonce = aw_nonce W i \<and> s = aw_shell W i (command nonce)
     \<and> Sent nonce (command nonce) s \<in> set new \<and> shell_body s = Inr body)"

lemma answered_append: "answered W b c n body \<Longrightarrow> answered W (a @ b) c n body"
  "answered W a c n body \<Longrightarrow> answered W (a @ b) c n body"
  "answered W a c n body \<Longrightarrow> answered W (e # a) c n body"
  by (auto simp: answered_def)

text \<open>What a stream can end with.\<close>

definition unsent :: "adb_exc set" where
  "unsent = communication_failures \<union> {Interrupted, Unforeseen}"

lemma shell_body_unsent: "shell_body s = Inl e \<Longrightarrow> e \<in> unsent"
proof -
  assume "shell_body s = Inl e"
  then consider "e = BadAnswer" | w where "e = wire_exc w"
    by (auto simp: shell_body_def split: option.splits)
  then show ?thesis
  proof cases
    case (2 w)
    then show ?thesis by (cases w) (simp_all add: unsent_def communication_failures_def)
  qed (simp add: unsent_def communication_failures_def)
qed

lemma does_inquire: "does (inquire W command) (\<lambda>new r. \<exists>i n s. new = [Sent n (command n) s] \<and> n = aw_nonce W i
    \<and> s = aw_shell W i (command n)
    \<and> (case r of Inl e \<Rightarrow> e \<in> unsent | Inr (m, body) \<Rightarrow> m = n \<and> shell_body s = Inr body))"
  unfolding does_def
proof
  fix l :: adb_line
  define n where "n = aw_nonce W (al_calls l)"
  define s where "s = aw_shell W (al_calls l) (command n)"
  have "inquire W command l = (case shell_body s of Inl e \<Rightarrow> Inl e | Inr body \<Rightarrow> Inr (n, body),
      l\<lparr>al_calls := Suc (al_calls l), al_log := Sent n (command n) s # al_log l\<rparr>)"
    by (simp add: inquire_def chain_def trying_def tick_def tell_def Let_def n_def s_def throw_def give_def split: sum.splits)
  then show "\<exists>new. al_log (snd (inquire W command l)) = new @ al_log l \<and> (\<exists>i n s. new = [Sent n (command n) s]
    \<and> n = aw_nonce W i \<and> s = aw_shell W i (command n)
    \<and> (case fst (inquire W command l) of Inl e \<Rightarrow> e \<in> unsent | Inr (m, body) \<Rightarrow> m = n \<and> shell_body s = Inr body))"
    using n_def s_def by (auto split: sum.splits intro: shell_body_unsent)
qed

text \<open>Ask and read the answer: what is known when it was read, and how it can fail.\<close>

lemma inquire_read:
  assumes "\<And>n body. does (k (n, body)) (\<lambda>new r. new = [] \<and> (case r of Inl e \<Rightarrow> e \<in> E | Inr x \<Rightarrow> R n body x))"
  shows "does (chain (inquire W command) k) (\<lambda>new r. (case r of Inl e \<Rightarrow> e \<in> E \<union> unsent
    | Inr x \<Rightarrow> \<exists>n body. answered W new command n body \<and> R n body x))"
proof (rule does_chain [OF does_inquire], goal_cases)
  case (2 x)
  obtain n body where x: "x = (n, body)" by fastforce
  show ?case unfolding x
    by (rule does_mono [OF assms])
      (force simp: answered_def split: sum.splits)
qed (auto split: sum.splits)

lemma answer_outcome:
  "does (of_answer a) (\<lambda>new r. new = [] \<and> (case r of Inl e \<Rightarrow> (\<exists>f. a = Inl f \<and> e = failure_exc f) | Inr x \<Rightarrow> a = Inr x))"
  by (auto simp: of_answer_def intro!: does_throw does_give split: sum.split)

lemma parse_outcome:
  "does (of_parse a) (\<lambda>new r. new = [] \<and> (case r of Inl e \<Rightarrow> e = BadAnswer | Inr x \<Rightarrow> a = Some x))"
  by (auto simp: of_parse_def of_answer_def intro!: does_throw does_give split: sum.split option.split) (cases a; simp)+

section \<open>Admission\<close>

definition su_proved_by :: "adb_world \<Rightarrow> adb_event list \<Rightarrow> adb_preflight option \<Rightarrow> string option \<Rightarrow> bool" where
  "su_proved_by W new p target \<longleftrightarrow> (\<exists>prefix n body. answered W new (\<lambda>n. su_attempt_command prefix n (p \<noteq> None)) n body
     \<and> read_su body n p target = Inr True)"

definition admitted_by :: "adb_world \<Rightarrow> adb_target \<Rightarrow> install_descriptor \<Rightarrow> bool \<Rightarrow> adb_event list \<Rightarrow> adb_preflight \<Rightarrow> bool" where
  "admitted_by W t d admit new p \<longleftrightarrow> (\<exists>n body. answered W new preflight_command n body
     \<and> parse_preflight body n t d admit = Inr p)
     \<and> (pv_root_mode p = RootSu \<longrightarrow> su_proved_by W new (Some p) (Some (ds_package_id d)))"

definition verified_by :: "adb_world \<Rightarrow> string \<Rightarrow> install_descriptor \<Rightarrow> adb_event list \<Rightarrow> bool" where
  "verified_by W path d new \<longleftrightarrow> (\<exists>n body mode. answered W new (\<lambda>n. remote_artifact_command n path) n body
     \<and> parse_remote_artifact body n path = Some (mode, ds_apk_size d, ds_apk_sha256 d)
     \<and> is_regular mode \<and> permission_bits mode = 420)"

lemma su_proved_append: "su_proved_by W b p target \<Longrightarrow> su_proved_by W (a @ b) p target"
  "su_proved_by W a p target \<Longrightarrow> su_proved_by W (a @ b) p target"
  by (auto simp: su_proved_by_def intro: answered_append)

lemma admitted_append: "admitted_by W t d admit b p \<Longrightarrow> admitted_by W t d admit (a @ b) p"
  "admitted_by W t d admit a p \<Longrightarrow> admitted_by W t d admit (a @ b) p"
  by (auto simp: admitted_by_def intro: answered_append su_proved_append)

lemma verified_append: "verified_by W path d b \<Longrightarrow> verified_by W path d (a @ b)"
  "verified_by W path d a \<Longrightarrow> verified_by W path d (a @ b)"
  by (auto simp: verified_by_def intro: answered_append)

text \<open>The codes a preflight and the proofs of root fail with.\<close>

definition admission_codes :: "adb_code set" where
  "admission_codes = {TargetChanged, TargetNotClean, RootStateAmbiguous, TargetIncompatible, TargetUnreachable, RootModeChanged}"

lemma admission_codes_mem [simp]: "TargetChanged \<in> admission_codes" "TargetNotClean \<in> admission_codes"
  "RootStateAmbiguous \<in> admission_codes" "TargetIncompatible \<in> admission_codes" "TargetUnreachable \<in> admission_codes"
  "RootModeChanged \<in> admission_codes"
  by (simp_all add: admission_codes_def)

definition fails_in :: "adb_code set \<Rightarrow> adb_exc \<Rightarrow> bool" where
  "fails_in C e \<longleftrightarrow> e \<in> unsent \<or> (\<exists>c \<in> C. e = Raised c)"

lemma fails_in_unsent: "e \<in> unsent \<Longrightarrow> fails_in C e"
  by (simp add: fails_in_def)

lemma fails_in_cut [simp]: "fails_in C Interrupted" "fails_in C Expired"
  by (simp_all add: fails_in_def unsent_def communication_failures_def)

lemma bad_answer_unsent [simp]: "BadAnswer \<in> unsent"
  by (simp add: unsent_def communication_failures_def)

definition answer_in :: "adb_code set \<Rightarrow> 'a answer \<Rightarrow> bool" where
  "answer_in C a \<longleftrightarrow> (\<forall>c. a = Inl (Failed c) \<longrightarrow> c \<in> C)"

named_theorems answer_intro \<open>the codes a parser fails with\<close>

lemma answer_in_bind [answer_intro]: "answer_in C m \<Longrightarrow> (\<And>x. answer_in C (f x)) \<Longrightarrow> answer_in C (bind_res m f)"
  by (cases m) (simp_all add: answer_in_def)

lemma answer_in_Inr [answer_intro]: "answer_in C (Inr x)"
  by (simp add: answer_in_def)

lemma answer_in_well_formed [answer_intro]: "answer_in C (well_formed x)"
  by (cases x) (simp_all add: answer_in_def)

lemma answer_in_demand [answer_intro]: "c \<in> C \<Longrightarrow> answer_in C (demand b (Failed c))"
  by (simp add: answer_in_def demand_def)

lemma answer_in_demand_malformed [answer_intro]: "answer_in C (demand b Malformed)"
  by (simp add: answer_in_def demand_def)

lemma failure_fails_in: "answer_in C a \<Longrightarrow> a = Inl f \<Longrightarrow> fails_in C (failure_exc f)"
  by (cases f) (auto simp: answer_in_def fails_in_def)

lemma root_mode_codes [answer_intro]: "answer_in admission_codes (parse_root_mode secs)"
  by (auto simp: parse_root_mode_def answer_in_def split: prod.splits if_splits)

lemma installed_packages_codes [answer_intro]: "answer_in C (installed_packages secs ps)"
proof (induction ps)
  case (Cons q ps)
  have "answer_in C (package_observed secs i p)" for i p
    by (auto simp: package_observed_def answer_in_def split: prod.splits if_splits)
  then show ?case using Cons by (cases q) (auto intro!: answer_intro)
qed (simp add: answer_intro)

lemma classify_codes [answer_intro]: "answer_in admission_codes (classify_target_packages target installed residue admit)"
  by (auto simp: classify_target_packages_def answer_in_def split: if_splits)

lemma parse_preflight_codes: "answer_in admission_codes (parse_preflight body n t d admit)"
  unfolding parse_preflight_def admit_sections_def require_same_target_def bases_readable_def residue_owners_def
  by (intro answer_intro) simp_all

lemma parse_identity_root_codes: "answer_in admission_codes (parse_identity_root body n t)"
  unfolding parse_identity_root_def require_same_target_def
  by (intro answer_intro) simp_all

lemma residue_verdict_codes [answer_intro]: "answer_in admission_codes (residue_verdict p target secs ps)"
proof (induction ps)
  case (Cons q ps)
  then show ?case by (cases q) (auto simp: answer_in_def split: if_splits)
qed (simp add: answer_intro)

lemma read_su_codes: "answer_in admission_codes (read_su body n p target)"
proof -
  have v: "answer_in admission_codes (su_verdict p target secs)" for secs
    unfolding su_verdict_def by (auto intro!: answer_intro split: option.split)
  then show ?thesis unfolding read_su_def by (auto intro!: answer_intro)
qed

lemma su_forms_does: "does (su_forms W p target prefixes b) (\<lambda>new r. case r of Inl e \<Rightarrow> fails_in admission_codes e
    | Inr x \<Rightarrow> su_proved_by W new p target)"
proof (induction prefixes arbitrary: b)
  case Nil
  then show ?case by (auto intro!: does_throw simp: fails_in_def)
next
  case (Cons prefix prefixes)
  have later: "does (su_forms W p target prefixes b) (\<lambda>new r. \<forall>old. A old \<longrightarrow> (case r of Inl e \<Rightarrow> fails_in admission_codes e
    | Inr x \<Rightarrow> su_proved_by W (new @ old) p target))" for A b
    by (rule does_mono [OF Cons]) (auto split: sum.splits intro: su_proved_append)
  show ?case unfolding su_forms.simps
  proof (rule does_trying [OF does_inquire], goal_cases)
    case (1 e)
    show ?case
      by (cases "e = SilentPanel") (auto intro!: later does_throw fails_in_unsent)
  next
    case (2 x)
    obtain n body where x: "x = (n, body)" by fastforce
    show ?case unfolding x prod.case
    proof (rule does_chain [OF answer_outcome], goal_cases)
      case (1 old e)
      then show ?case using failure_fails_in [OF read_su_codes] by fastforce
    next
      case (2 proved)
      show ?case
      proof (cases proved)
        case True
        then show ?thesis by (auto intro!: does_give simp: su_proved_by_def answered_def) blast
      next
        case False
        then show ?thesis
          by (simp, intro does_mono [OF Cons]) (auto split: sum.splits intro: su_proved_append)
      qed
    qed
  qed
qed

lemma prove_su_does: "does (async_prove_su W p target) (\<lambda>new r. case r of Inl e \<Rightarrow> fails_in admission_codes e
    | Inr x \<Rightarrow> su_proved_by W new p target)"
  unfolding async_prove_su_def by (rule su_forms_does)

lemma preflight_does: "does (async_preflight_on_device W t d admit) (\<lambda>new r. case r of Inl e \<Rightarrow> fails_in admission_codes e
    | Inr p \<Rightarrow> admitted_by W t d admit new p)"
proof -
  let ?P = "\<lambda>new r. case r of Inl e \<Rightarrow> fails_in admission_codes e | Inr p \<Rightarrow> admitted_by W t d admit new p"
  have proof_of: "does (chain (if pv_root_mode p = RootSu
            then chain (async_prove_su W (Some p) (Some (ds_package_id d))) (\<lambda>_. give ()) else give ()) (\<lambda>_. give p))
     (\<lambda>new r. case r of Inl e \<Rightarrow> fails_in admission_codes e | Inr q \<Rightarrow> q = p
        \<and> (pv_root_mode p = RootSu \<longrightarrow> su_proved_by W new (Some p) (Some (ds_package_id d))))" for p
  proof (cases "pv_root_mode p = RootSu")
    case True
    have "does (chain (async_prove_su W (Some p) (Some (ds_package_id d))) (\<lambda>_. give ()))
       (\<lambda>new r. case r of Inl e \<Rightarrow> fails_in admission_codes e | Inr u \<Rightarrow> su_proved_by W new (Some p) (Some (ds_package_id d)))"
      by (rule does_chain [OF prove_su_does]) (auto intro!: does_give)
    then have "does (chain (chain (async_prove_su W (Some p) (Some (ds_package_id d))) (\<lambda>_. give ())) (\<lambda>_. give p))
       (\<lambda>new r. case r of Inl e \<Rightarrow> fails_in admission_codes e | Inr q \<Rightarrow> q = p
          \<and> su_proved_by W new (Some p) (Some (ds_package_id d)))"
      by (rule does_chain) (auto intro!: does_give)
    then show ?thesis using True by (simp, elim does_mono) (auto split: sum.splits)
  next
    case False
    then show ?thesis
      by (auto intro!: does_chain [OF does_give [where Q = "\<lambda>new r. new = [] \<and> r = Inr ()"]] does_give)
  qed
  show ?thesis unfolding async_preflight_on_device_def
  proof (rule does_chain [OF does_inquire], goal_cases)
    case (1 old e)
    then show ?case by (auto intro: fails_in_unsent)
  next
    case (2 x)
    obtain n body where x: "x = (n, body)" by fastforce
    show ?case unfolding x prod.case
    proof (rule does_chain [OF answer_outcome], goal_cases)
      case (1 old e)
      then show ?case using failure_fails_in [OF parse_preflight_codes] by fastforce
    next
      case (2 p)
      show ?case
        by (rule does_mono [OF proof_of])
          (fastforce simp: admitted_by_def answered_def split: sum.splits intro: su_proved_append)
    qed
  qed
qed

lemma identity_root_does: "does (async_require_identity_root W t expected) (\<lambda>new r. case r of Inl e \<Rightarrow> fails_in admission_codes e
    | Inr u \<Rightarrow> True)"
  unfolding async_require_identity_root_def
proof (rule does_chain [OF does_inquire], goal_cases)
  case (1 old e)
  then show ?case by (auto intro: fails_in_unsent)
next
  case (2 x)
  obtain n body where x: "x = (n, body)" by fastforce
  have su: "does (chain (async_prove_su W None None) (\<lambda>_. give ())) (\<lambda>new r. case r of Inl e \<Rightarrow> fails_in admission_codes e | Inr u \<Rightarrow> True)"
    by (rule does_chain [OF prove_su_does]) (auto intro!: does_give)
  have mode: "does (chain (require_expected_root_mode m expected) (\<lambda>_. if m = RootSu then chain (async_prove_su W None None) (\<lambda>_. give ())
      else give ())) (\<lambda>new r. case r of Inl e \<Rightarrow> fails_in admission_codes e | Inr u \<Rightarrow> True)" for m
    unfolding require_expected_root_mode_def check_def
    by (rule does_chain [where P = "\<lambda>new r. case r of Inl e \<Rightarrow> fails_in admission_codes e | Inr u \<Rightarrow> True"])
      (auto intro!: does_throw does_give does_mono [OF su] simp: fails_in_def)
  show ?case unfolding x prod.case
    by (rule does_chain [OF answer_outcome])
      (use failure_fails_in [OF parse_identity_root_codes] in \<open>fastforce intro!: does_mono [OF mode]\<close>)+
qed

section \<open>The installation\<close>

definition verification_codes :: "adb_code set" where
  "verification_codes = insert StageVerificationFailed admission_codes"

lemma fails_in_mono: "fails_in C e \<Longrightarrow> C \<subseteq> D \<Longrightarrow> fails_in D e"
  by (auto simp: fails_in_def)

lemma verify_remote_does: "does (async_verify_remote_artifact W path d) (\<lambda>new r. case r of
    Inl e \<Rightarrow> fails_in verification_codes e | Inr u \<Rightarrow> verified_by W path d new)"
  unfolding async_verify_remote_artifact_def
proof (rule does_chain [OF does_inquire], goal_cases)
  case (1 old e)
  then show ?case by (auto intro: fails_in_unsent)
next
  case (2 x)
  obtain n body where x: "x = (n, body)" by fastforce
  show ?case
  proof (cases "parse_remote_artifact body n path")
    case None
    then show ?thesis by (auto intro!: does_throw simp: x fails_in_def verification_codes_def)
  next
    case (Some m)
    obtain mode bytes digest where m: "m = (mode, bytes, digest)" by (cases m)
    show ?thesis
    proof (cases "is_regular mode \<and> permission_bits mode = 420 \<and> bytes = ds_apk_size d \<and> digest = ds_apk_sha256 d")
      case True
      have "verified_by W path d [Sent n (remote_artifact_command n path) s]"
        if "n = aw_nonce W i" "s = aw_shell W i (remote_artifact_command n path)" "shell_body s = Inr body" for i s
        unfolding verified_by_def answered_def using that Some m True by (intro exI conjI) auto
      then show ?thesis using Some m True by (auto simp: x check_def intro!: does_give)
    next
      case False
      then show ?thesis using Some m by (auto simp: x check_def intro!: does_throw simp: fails_in_def verification_codes_def)
    qed
  qed
qed

text \<open>What the installer's callback may raise: none of the installer's own codes.\<close>

definition plain_approval :: "adb_world \<Rightarrow> bool" where
  "plain_approval W \<longleftrightarrow> (\<forall>i c. aw_approval W i \<noteq> Some (Raised c))"

lemma before_install_does: "plain_approval W \<Longrightarrow>
    does (before_install W) (\<lambda>new r. case r of Inl e \<Rightarrow> (\<forall>c. e \<noteq> Raised c) | Inr u \<Rightarrow> new = [Consented])"
  unfolding before_install_def
  by (rule does_chain [OF does_tick [where Q = "\<lambda>new r. new = [] \<and> (\<exists>i. r = Inr i)"]])
    (auto simp: plain_approval_def intro!: does_throw does_tell split: option.split)

definition install_ready ::
  "adb_world \<Rightarrow> adb_target \<Rightarrow> install_descriptor \<Rightarrow> root_mode \<Rightarrow> string \<Rightarrow> adb_event list \<Rightarrow> bool" where
  "install_ready W t d expected path new \<longleftrightarrow> (\<exists>p. admitted_by W t d False new p \<and> pv_root_mode p = expected)
     \<and> verified_by W path d new \<and> Consented \<in> set new"

lemma install_ready_append: "install_ready W t d expected path b \<Longrightarrow> install_ready W t d expected path (a @ b)"
  "install_ready W t d expected path a \<Longrightarrow> install_ready W t d expected path (a @ b)"
  by (auto simp: install_ready_def intro: admitted_append verified_append)

lemma install_admission_does:
  assumes "plain_approval W"
  shows "does (install_admission W t d expected path) (\<lambda>new r. case r of
    Inl e \<Rightarrow> e \<noteq> Raised InstallAmbiguous | Inr u \<Rightarrow> install_ready W t d expected path new)"
proof -
  have known: "fails_in verification_codes e \<Longrightarrow> e \<noteq> Raised InstallAmbiguous" for e
    by (auto simp: fails_in_def verification_codes_def admission_codes_def unsent_def communication_failures_def)
  have late: "does (chain (async_verify_remote_artifact W path d) (\<lambda>_. before_install W)) (\<lambda>new r. case r of
      Inl e \<Rightarrow> e \<noteq> Raised InstallAmbiguous | Inr u \<Rightarrow> verified_by W path d new \<and> Consented \<in> set new)"
    by (rule does_chain [OF verify_remote_does])
      (auto simp: known intro!: does_mono [OF before_install_does [OF assms]] split: sum.splits intro: verified_append)
  have moded: "does (chain (require_expected_root_mode (pv_root_mode p) expected) (\<lambda>_.
      chain (async_verify_remote_artifact W path d) (\<lambda>_. before_install W))) (\<lambda>new r. case r of
      Inl e \<Rightarrow> e \<noteq> Raised InstallAmbiguous
    | Inr u \<Rightarrow> pv_root_mode p = expected \<and> verified_by W path d new \<and> Consented \<in> set new)" for p
    unfolding require_expected_root_mode_def check_def
    by (rule does_chain [where P = "\<lambda>new r. new = [] \<and> (case r of Inl e \<Rightarrow> e = Raised RootModeChanged | Inr u \<Rightarrow> pv_root_mode p = expected)"])
      (auto intro!: does_throw does_give does_mono [OF late] split: sum.splits)
  show ?thesis unfolding install_admission_def
  proof (rule does_chain [OF preflight_does], goal_cases)
    case (1 old e)
    then show ?case using known [OF fails_in_mono [of admission_codes]] by (auto simp: verification_codes_def)
  next
    case (2 p)
    show ?case
      by (rule does_mono [OF moded])
        (auto simp: install_ready_def split: sum.splits intro: admitted_append verified_append)
  qed
qed

section \<open>Around the connection\<close>

fun wire :: "adb_event \<Rightarrow> bool" where
  "wire Dialled \<longleftrightarrow> True"
| "wire HungUp \<longleftrightarrow> True"
| "wire _ \<longleftrightarrow> False"

definition connect_codes :: "adb_code set" where
  "connect_codes = {AuthorizationRequired, TargetUnreachable, TargetResponseInvalid}"

lemma close_does: "does (async_close W deadline) (\<lambda>new r. new = [HungUp]
    \<and> (\<forall>e. r = Inl e \<longrightarrow> e \<in> {Interrupted, Expired} \<and> (deadline \<or> e = Interrupted)))"
  unfolding async_close_def
  by (rule does_chain [OF does_tick [where Q = "\<lambda>new r. new = [] \<and> (\<exists>i. r = Inr i)"]], simp, simp,
      rule does_chain [OF does_tell [where Q = "\<lambda>new r. new = [HungUp] \<and> r = Inr ()"]], simp, simp)
    (auto intro!: does_give does_throw simp: cut_exc_def split: option.split)

lemma connect_error_codes: "connect_error authorize c = Some e \<Longrightarrow> fails_in connect_codes e"
  by (auto simp: connect_error_def Let_def fails_in_def connect_codes_def unsent_def communication_failures_def
      split: connect_end.splits if_splits)

lemma abandon_does: "fails_in connect_codes e \<Longrightarrow>
    does (abandon W e) (\<lambda>new r. list_all wire new \<and> (\<exists>f. r = Inl f \<and> fails_in connect_codes f))"
proof -
  assume e: "fails_in connect_codes e"
  have t: "does (trying (async_close W True) (\<lambda>_. throw e) (\<lambda>_. throw e)) (\<lambda>new r. list_all wire new \<and> (\<exists>f. r = Inl f \<and> fails_in connect_codes f))"
    by (rule does_trying [OF close_does]) (auto intro!: does_throw e)
  have c: "does (chain (async_close W True) (\<lambda>_. throw e)) (\<lambda>new r. list_all wire new \<and> (\<exists>f. r = Inl f \<and> fails_in connect_codes f))"
    by (rule does_chain [OF close_does])
      (auto intro!: does_throw e)
  have th: "does (throw e) (\<lambda>new r. list_all wire new \<and> (\<exists>f. r = Inl f \<and> fails_in connect_codes f))"
    by (rule does_throw) (simp add: e)
  have "abandon W e \<in> {throw e, trying (async_close W True) (\<lambda>_. throw e) (\<lambda>_. throw e),
      chain (async_close W True) (\<lambda>_. throw e)}"
    by (simp add: abandon_def)
  then show ?thesis using t c th by (elim insertE emptyE) simp_all
qed

lemma connect_does: "does (async_connect W authorize) (\<lambda>new r. list_all wire new \<and> (case r of
    Inl e \<Rightarrow> fails_in connect_codes e | Inr u \<Rightarrow> new = [Dialled]))"
proof -
  have failed: "does (abandon W e) (\<lambda>new r. list_all wire (new @ [Dialled]) \<and> (case r of
    Inl e \<Rightarrow> fails_in connect_codes e | Inr u \<Rightarrow> new @ [Dialled] = [Dialled]))" if "connect_error authorize c = Some e" for c e
    by (rule does_mono [OF abandon_does [OF connect_error_codes [OF that]]]) auto
  show ?thesis unfolding async_connect_def
    by (rule does_chain [OF does_tick [where Q = "\<lambda>new r. new = [] \<and> (\<exists>i. r = Inr i)"]], simp, simp,
        rule does_chain [OF does_tell [where Q = "\<lambda>new r. new = [Dialled] \<and> r = Inr ()"]], simp, simp)
      (auto intro!: does_give does_mono [OF failed] split: option.split sum.splits)
qed

definition blame_result :: "(adb_exc \<Rightarrow> adb_exc) \<Rightarrow> adb_exc + 'a \<Rightarrow> adb_exc + 'a" where
  "blame_result blame r = (case r of Inl e \<Rightarrow> Inl (blame e) | Inr x \<Rightarrow> Inr x)"

lemma lastly_does:
  assumes "does m Q"
  shows "does (lastly m (async_close W False)) (\<lambda>new r. \<exists>mid q. new = HungUp # mid \<and> Q mid q \<and> (r = q \<or> r = Inl Interrupted))"
proof -
  have c: "does (chain (async_close W False) (\<lambda>_. q)) (\<lambda>new r. new = [HungUp] \<and> (r = v \<or> r = Inl Interrupted))"
    if "does q (\<lambda>new r. new = [] \<and> r = v)" for q :: "'x task" and v
    by (rule does_chain [OF close_does]) (auto intro!: does_mono [OF that])
  show ?thesis unfolding lastly_def
  proof (rule does_trying [OF assms], goal_cases)
    case (1 e)
    show ?case by (rule does_mono [OF c [of _ "Inl e"]]) (auto intro!: does_throw)
  next
    case (2 x)
    show ?case by (rule does_mono [OF c [of _ "Inr x"]]) (auto intro!: does_give)
  qed
qed

lemma blaming_does: "does m Q \<Longrightarrow> does (trying m (\<lambda>e. throw (blame e)) give) (\<lambda>new r. \<exists>q. Q new q \<and> r = blame_result blame q)"
  by (erule does_trying) (auto intro!: does_throw does_give simp: blame_result_def)

lemma on_panel_does:
  assumes "does m Q"
  shows "does (on_panel W authorize blame m) (\<lambda>new r.
     (list_all wire new \<and> (\<exists>e. fails_in connect_codes e \<and> r = Inl (blame e)))
     \<or> (\<exists>mid q. new = HungUp # mid @ [Dialled] \<and> Q mid q \<and> (r = blame_result blame q \<or> r = Inl Interrupted)))"
  unfolding on_panel_def
proof (rule does_trying [OF connect_does], goal_cases)
  case (1 e)
  then show ?case by (rule does_throw) auto
next
  case (2 x)
  show ?case by (rule does_mono [OF lastly_does [OF blaming_does [OF assms]]]) auto
qed

section \<open>Installing\<close>

lemma install_run_does: "does (install_run W command) (\<lambda>new r. \<exists>n s. new = [Sent n (command n) s]
    \<and> (\<forall>e. r = Inl e \<longrightarrow> e \<in> unsent)
    \<and> (\<forall>x. r = Inr x \<longrightarrow> (\<exists>body. shell_body s = Inr body \<and> parse_install_outcome body n = Some x)))"
  unfolding install_run_def
proof (rule does_chain [OF does_inquire], goal_cases)
  case (1 old e)
  then show ?case by auto
next
  case (2 x)
  obtain n body where x: "x = (n, body)" by fastforce
  show ?case unfolding x prod.case by (rule does_mono [OF parse_outcome]) (fastforce split: sum.splits)
qed

abbreviation no_install :: "adb_event list \<Rightarrow> bool" where
  "no_install new \<equiv> list_all (\<lambda>e. \<not> installs e) new"

definition one_install :: "(adb_event list \<Rightarrow> bool) \<Rightarrow> (string \<Rightarrow> string) \<Rightarrow> adb_event list \<Rightarrow> adb_exc + install_outcome \<Rightarrow> bool" where
  "one_install ready command new r \<longleftrightarrow> (\<exists>post n s pre. new = post @ Sent n (command n) s # pre
     \<and> no_install post \<and> no_install pre \<and> ready pre \<and> (\<forall>e. r = Inl e \<longrightarrow> e \<in> {Raised InstallAmbiguous, Interrupted, Unforeseen})
     \<and> (\<forall>x. r = Inr x \<longrightarrow> (\<exists>body. shell_body s = Inr body \<and> parse_install_outcome body n = Some x)))"

definition install_effect ::
  "(adb_event list \<Rightarrow> bool) \<Rightarrow> (string \<Rightarrow> string) \<Rightarrow> adb_event list \<Rightarrow> adb_exc + install_outcome \<Rightarrow> bool" where
  "install_effect ready command new r \<longleftrightarrow>
     (no_install new \<and> (\<forall>x. r \<noteq> Inr x) \<and> r \<noteq> Inl (Raised InstallAmbiguous)) \<or> one_install ready command new r"

lemma admission_no_install: "only (\<lambda>e. \<not> installs e) (install_admission W t d expected path)"
proof -
  have a: "only (\<lambda>e. \<not> installs e) m" if "only asks m" for m :: "'x task"
    using that by (rule only_mono) (rule asks_not_install)
  show ?thesis
    unfolding install_admission_def require_expected_root_mode_def before_install_def
    by (intro only_intro a [OF preflight_asks] a [OF verify_remote_asks]) (auto intro!: only_intro split: option.split)
qed

lemma install_body_does:
  assumes "plain_approval W" "\<And>n. begins (command n) ''INSTALL''"
  shows "does (chain (install_admission W t d expected path) (\<lambda>_.
       trying (install_run W command) (\<lambda>e. throw (blamed InstallAmbiguous e)) give))
     (install_effect (install_ready W t d expected path) command)"
proof -
  have a: "does (install_admission W t d expected path) (\<lambda>new r. no_install new \<and> (case r of
      Inl e \<Rightarrow> e \<noteq> Raised InstallAmbiguous | Inr u \<Rightarrow> install_ready W t d expected path new))"
    using does_conj [OF admission_no_install [unfolded only_def] install_admission_does [OF assms(1)]] .
  have b: "does (trying (install_run W command) (\<lambda>e. throw (blamed InstallAmbiguous e)) give)
      (\<lambda>new r. \<exists>n s. new = [Sent n (command n) s] \<and> (\<forall>e. r = Inl e \<longrightarrow> e \<in> {Raised InstallAmbiguous, Interrupted, Unforeseen})
        \<and> (\<forall>x. r = Inr x \<longrightarrow> (\<exists>body. shell_body s = Inr body \<and> parse_install_outcome body n = Some x)))"
  proof (rule does_mono [OF blaming_does [OF install_run_does]], elim exE conjE)
    fix new q n s and r :: "adb_exc + install_outcome"
    assume "new = [Sent n (command n) s]" "r = blame_result (blamed InstallAmbiguous) q" "\<forall>e. q = Inl e \<longrightarrow> e \<in> unsent"
      "\<forall>x. q = Inr x \<longrightarrow> (\<exists>body. shell_body s = Inr body \<and> parse_install_outcome body n = Some x)"
    then show "\<exists>n s. new = [Sent n (command n) s] \<and> (\<forall>e. r = Inl e \<longrightarrow> e \<in> {Raised InstallAmbiguous, Interrupted, Unforeseen})
        \<and> (\<forall>x. r = Inr x \<longrightarrow> (\<exists>body. shell_body s = Inr body \<and> parse_install_outcome body n = Some x))"
      by (cases q) (auto simp: blame_result_def blamed_def unsent_def split: if_splits)
  qed
  show ?thesis
  proof (rule does_chain [OF a], goal_cases)
    case (1 old e)
    then show ?case by (simp add: install_effect_def)
  next
    case (2 x)
    show ?case
    proof (rule does_mono [OF b], intro allI impI)
      fix new old and r :: "adb_exc + install_outcome"
      assume n: "\<exists>n s. new = [Sent n (command n) s] \<and> (\<forall>e. r = Inl e \<longrightarrow> e \<in> {Raised InstallAmbiguous, Interrupted, Unforeseen})
        \<and> (\<forall>x. r = Inr x \<longrightarrow> (\<exists>body. shell_body s = Inr body \<and> parse_install_outcome body n = Some x))"
        and o: "no_install old \<and> (case Inr x of Inl e \<Rightarrow> e \<noteq> Raised InstallAmbiguous
          | Inr u \<Rightarrow> install_ready W t d expected path old)"
      from n obtain n s where ns: "new @ old = [] @ Sent n (command n) s # old" "\<forall>e. r = Inl e \<longrightarrow> e \<in> {Raised InstallAmbiguous, Interrupted, Unforeseen}"
        "\<forall>x. r = Inr x \<longrightarrow> (\<exists>body. shell_body s = Inr body \<and> parse_install_outcome body n = Some x)" by auto
      have "one_install (install_ready W t d expected path) command (new @ old) r"
        unfolding one_install_def
        by (rule exI [of _ "[]"], rule exI [of _ n], rule exI [of _ s], rule exI [of _ old]) (use ns o in auto)
      then show "install_effect (install_ready W t d expected path) command (new @ old) r"
        by (simp add: install_effect_def)
    qed
  qed
qed

lemma no_install_wire: "list_all wire new \<Longrightarrow> no_install new"
proof (induction new)
  case (Cons e new)
  then show ?case by (cases e) auto
qed simp

text \<open>The frame of a connection around one install.\<close>

lemma one_install_frame:
  assumes "one_install ready command mid q" "\<And>a b. ready a \<Longrightarrow> ready (a @ b)" "no_install front" "no_install back"
    and "r = blame_result (blamed TargetUnreachable) q \<or> r = Inl Interrupted"
  shows "one_install ready command (front @ mid @ back) r"
proof -
  obtain post n s pre where o: "mid = post @ Sent n (command n) s # pre" "no_install post" "no_install pre" "ready pre"
      "\<forall>e. q = Inl e \<longrightarrow> e \<in> {Raised InstallAmbiguous, Interrupted, Unforeseen}"
      "\<forall>x. q = Inr x \<longrightarrow> (\<exists>body. shell_body s = Inr body \<and> parse_install_outcome body n = Some x)"
    using assms(1) unfolding one_install_def by blast
  have "front @ mid @ back = (front @ post) @ Sent n (command n) s # pre @ back" using o(1) by simp
  moreover have "ready (pre @ back)" using o(4) assms(2) by blast
  moreover have "\<forall>e. r = Inl e \<longrightarrow> e \<in> {Raised InstallAmbiguous, Interrupted, Unforeseen}" "\<forall>x. r = Inr x \<longrightarrow> q = Inr x"
    using assms(5) o(5) by (auto simp: blame_result_def blamed_def communication_failures_def split: sum.splits if_splits)
  ultimately show ?thesis
    unfolding one_install_def using o assms(3,4) by (intro exI [of _ "front @ post"] exI [of _ n] exI [of _ s] exI [of _ "pre @ back"]) auto
qed

lemma does_after_silent:
  assumes "only (\<lambda>_. False) m" "\<And>x. does (k x) Q" "\<And>e. (\<exists>l l'. m l = (Inl e, l')) \<Longrightarrow> Q [] (Inl e)"
  shows "does (chain m k) Q"
proof -
  have "does m (\<lambda>new r. new = [] \<and> (\<forall>e. r = Inl e \<longrightarrow> (\<exists>l l'. m l = (Inl e, l'))))"
    using assms(1) unfolding only_def does_def
    by (auto simp: list_all_iff) (metis (no_types) append_Nil empty_set equals0I in_set_conv_nth prod.collapse)
  then show ?thesis
    by (rule does_chain) (auto intro: assms(3) intro!: does_mono [OF assms(2)])
qed

lemma check_failure: "check b e l = (Inl f, l') \<Longrightarrow> f = e \<and> \<not> b"
  by (auto simp: check_def give_def throw_def split: if_splits)

lemma install_panel_does:
  assumes "plain_approval W" "\<And>n. begins (command n) ''INSTALL''"
  shows "does (on_panel W True (blamed TargetUnreachable) (chain (install_admission W t d expected path) (\<lambda>_.
       trying (install_run W command) (\<lambda>e. throw (blamed InstallAmbiguous e)) give)))
     (install_effect (install_ready W t d expected path) command)"
proof (rule does_mono [OF on_panel_does [OF install_body_does [OF assms]]])
  fix new and r :: "adb_exc + install_outcome"
  let ?ready = "install_ready W t d expected path"
  assume "(list_all wire new \<and> (\<exists>e. fails_in connect_codes e \<and> r = Inl (blamed TargetUnreachable e)))
     \<or> (\<exists>mid q. new = HungUp # mid @ [Dialled] \<and> install_effect ?ready command mid q
         \<and> (r = blame_result (blamed TargetUnreachable) q \<or> r = Inl Interrupted))"
  then consider e where "list_all wire new" "fails_in connect_codes e" "r = Inl (blamed TargetUnreachable e)"
    | mid q where "new = HungUp # mid @ [Dialled]" "install_effect ?ready command mid q"
        "r = blame_result (blamed TargetUnreachable) q \<or> r = Inl Interrupted" by blast
  then show "install_effect ?ready command new r"
  proof cases
    case (1 e)
    then have "r \<noteq> Inl (Raised InstallAmbiguous)"
      by (auto simp: blamed_def fails_in_def connect_codes_def unsent_def split: if_splits)
    with 1 show ?thesis by (simp add: install_effect_def no_install_wire)
  next
    case (2 mid q)
    show ?thesis
    proof (cases "one_install ?ready command mid q")
      case True
      from one_install_frame [OF this install_ready_append(2) _ _ 2(3), of "[HungUp]" "[Dialled]"]
      show ?thesis by (simp add: install_effect_def 2(1))
    next
      case False
      then have q: "no_install mid" "\<forall>x. q \<noteq> Inr x" "q \<noteq> Inl (Raised InstallAmbiguous)"
        using 2(2) by (auto simp: install_effect_def)
      then have "\<forall>x. r \<noteq> Inr x" "r \<noteq> Inl (Raised InstallAmbiguous)"
        using 2(3) by (auto simp: blame_result_def blamed_def split: sum.splits if_splits)
      with q(1) show ?thesis by (simp add: install_effect_def 2(1))
    qed
  qed
qed

lemma install_does:
  assumes "plain_approval W" "remote_path job = Some path"
  shows "does (async_install_staged_apk W t d job expected)
     (install_effect (\<lambda>pre. target_valid t \<and> descriptor_valid d \<and> install_ready W t d expected path pre)
        (\<lambda>n. install_command n path (at_android_sdk t)))"
proof (cases "target_valid t \<and> descriptor_valid d")
  case False
  then have "async_install_staged_apk W t d job expected = throw (Raised AdbInvalidRequest)"
    by (auto simp: async_install_staged_apk_def valid_request_def check_def chain_def trying_def throw_def fun_eq_iff)
  then show ?thesis by (auto intro!: does_throw simp: install_effect_def)
next
  case True
  then have "async_install_staged_apk W t d job expected =
      on_panel W True (blamed TargetUnreachable) (chain (install_admission W t d expected path) (\<lambda>_.
       trying (install_run W (\<lambda>n. install_command n path (at_android_sdk t))) (\<lambda>e. throw (blamed InstallAmbiguous e)) give))"
    by (simp add: async_install_staged_apk_def valid_request_def check_def chain_def trying_def throw_def give_def
        fun_eq_iff remote_path_task_def assms(2))
  moreover have "install_effect (install_ready W t d expected path) (\<lambda>n. install_command n path (at_android_sdk t)) new r \<Longrightarrow>
      install_effect (\<lambda>pre. target_valid t \<and> descriptor_valid d \<and> install_ready W t d expected path pre)
        (\<lambda>n. install_command n path (at_android_sdk t)) new r" for new r
    using True by (auto simp: install_effect_def one_install_def)
  ultimately show ?thesis
    using does_mono [OF install_panel_does [OF assms(1)]] by simp
qed

section \<open>Staging\<close>

definition path_clear :: "adb_world \<Rightarrow> string \<Rightarrow> adb_event list \<Rightarrow> bool" where
  "path_clear W path new \<longleftrightarrow> (\<exists>n body. answered W new (\<lambda>n. path_state_command n path) n body \<and> parse_path_state body n = Some False)
     \<or> (\<exists>n body. answered W new (\<lambda>n. cleanup_command n path False) n body \<and> parse_cleanup body n = Some ())"

definition stage_ready ::
  "adb_world \<Rightarrow> adb_target \<Rightarrow> install_descriptor \<Rightarrow> root_mode \<Rightarrow> string \<Rightarrow> adb_event list \<Rightarrow> bool" where
  "stage_ready W t d expected path new \<longleftrightarrow> (\<exists>p. admitted_by W t d False new p \<and> pv_root_mode p = expected)
     \<and> path_clear W path new"

lemma path_clear_append: "path_clear W path b \<Longrightarrow> path_clear W path (a @ b)" "path_clear W path a \<Longrightarrow> path_clear W path (a @ b)"
  unfolding path_clear_def by (blast intro: answered_append)+

lemma stage_ready_append: "stage_ready W t d expected path b \<Longrightarrow> stage_ready W t d expected path (a @ b)"
  "stage_ready W t d expected path a \<Longrightarrow> stage_ready W t d expected path (a @ b)"
  by (auto simp: stage_ready_def intro: admitted_append path_clear_append)

abbreviation done_with :: "(adb_event list \<Rightarrow> 'a \<Rightarrow> bool) \<Rightarrow> adb_event list \<Rightarrow> adb_exc + 'a \<Rightarrow> bool" where
  "done_with R new r \<equiv> (case r of Inl e \<Rightarrow> True | Inr x \<Rightarrow> R new x)"

lemma path_state_does: "does (async_path_state W path) (done_with (\<lambda>new x.
    \<exists>n body. answered W new (\<lambda>n. path_state_command n path) n body \<and> parse_path_state body n = Some x))"
  unfolding async_path_state_def
proof (rule does_chain [OF does_inquire], goal_cases)
  case (2 x)
  obtain n body where x: "x = (n, body)" by fastforce
  show ?case unfolding x prod.case
    by (rule does_mono [OF parse_outcome]) (fastforce simp: answered_def split: sum.splits)
qed simp

lemma cleanup_does: "does (async_cleanup W path preserve) (done_with (\<lambda>new x.
    \<exists>n body. answered W new (\<lambda>n. cleanup_command n path preserve) n body \<and> parse_cleanup body n = Some ()))"
  unfolding async_cleanup_def
proof (rule does_chain [OF does_inquire], goal_cases)
  case (2 x)
  obtain n body where x: "x = (n, body)" by fastforce
  show ?case unfolding x prod.case
    by (rule does_mono [OF parse_outcome]) (fastforce simp: answered_def split: sum.splits)
qed simp

lemma silent_nil: "only (\<lambda>_. False) m \<Longrightarrow> does m (\<lambda>new r. new = [])"
  unfolding only_def by (erule does_mono) (case_tac new; simp)

lemma stage_admission_does: "does (stage_admission W t d expected path) (done_with (\<lambda>new x. stage_ready W t d expected path new))"
proof -
  have clear: "does (chain (if occupied
       then trying (async_cleanup W path False)
              (\<lambda>e. throw (if e = BadAnswer then Raised StagingPathOccupied else e)) give
       else give ()) (\<lambda>_. validate_filesync_maxdata W)) (done_with (\<lambda>new x. occupied \<longrightarrow> path_clear W path new))" for occupied
  proof (cases occupied)
    case True
    have "does (trying (async_cleanup W path False)
              (\<lambda>e. throw (if e = BadAnswer then Raised StagingPathOccupied else e)) give) (done_with (\<lambda>new x. path_clear W path new))"
      by (rule does_trying [OF cleanup_does]) (auto intro!: does_throw does_give simp: path_clear_def)
    then show ?thesis using True
      by (auto intro!: does_chain does_mono [OF silent_nil [OF maxdata_silent]] split: sum.splits)
  next
    case False
    then show ?thesis by (auto intro!: does_chain [where P = "\<lambda>new r. True"] does_give does_mono [OF silent_nil [OF maxdata_silent]] split: sum.splits)
  qed
  have state: "does (chain (async_path_state W path) (\<lambda>occupied. chain (if occupied
       then trying (async_cleanup W path False)
              (\<lambda>e. throw (if e = BadAnswer then Raised StagingPathOccupied else e)) give
       else give ()) (\<lambda>_. validate_filesync_maxdata W))) (done_with (\<lambda>new x. path_clear W path new))"
  proof (rule does_chain [OF path_state_does], goal_cases)
    case (2 occupied)
    show ?case
    proof (rule does_mono [OF clear [of occupied]], cases occupied)
      case True
      fix new r assume "done_with (\<lambda>new x. occupied \<longrightarrow> path_clear W path new) new r"
      then show "\<forall>old. done_with (\<lambda>new x. \<exists>n body. answered W new (\<lambda>n. path_state_command n path) n body
          \<and> parse_path_state body n = Some x) old (Inr occupied) \<longrightarrow> done_with (\<lambda>new x. path_clear W path new) (new @ old) r"
        using True by (auto split: sum.splits intro: path_clear_append)
    next
      case False
      fix new r assume "done_with (\<lambda>new x. occupied \<longrightarrow> path_clear W path new) new r"
      then show "\<forall>old. done_with (\<lambda>new x. \<exists>n body. answered W new (\<lambda>n. path_state_command n path) n body
          \<and> parse_path_state body n = Some x) old (Inr occupied) \<longrightarrow> done_with (\<lambda>new x. path_clear W path new) (new @ old) r"
        using False unfolding path_clear_def by (auto split: sum.splits intro: answered_append)
    qed
  qed simp
  have moded: "does (chain (require_expected_root_mode (pv_root_mode p) expected) (\<lambda>_.
      chain (async_path_state W path) (\<lambda>occupied. chain (if occupied
       then trying (async_cleanup W path False)
              (\<lambda>e. throw (if e = BadAnswer then Raised StagingPathOccupied else e)) give
       else give ()) (\<lambda>_. validate_filesync_maxdata W))))
      (done_with (\<lambda>new x. pv_root_mode p = expected \<and> path_clear W path new))" for p
    unfolding require_expected_root_mode_def check_def
    by (rule does_chain [where P = "\<lambda>new r. new = [] \<and> (case r of Inl e \<Rightarrow> True | Inr u \<Rightarrow> pv_root_mode p = expected)"])
      (auto intro!: does_throw does_give does_mono [OF state] split: sum.splits)
  show ?thesis unfolding stage_admission_def
  proof (rule does_chain [OF preflight_does], goal_cases)
    case (2 p)
    show ?case
      by (rule does_mono [OF moded])
        (auto simp: stage_ready_def split: sum.splits intro: admitted_append path_clear_append)
  qed simp
qed

fun pushes :: "adb_event \<Rightarrow> bool" where
  "pushes (Pushed path) \<longleftrightarrow> True"
| "pushes _ \<longleftrightarrow> False"

abbreviation no_push :: "adb_event list \<Rightarrow> bool" where
  "no_push new \<equiv> list_all (\<lambda>e. \<not> pushes e) new"

abbreviation silent_on_files :: "'a task \<Rightarrow> bool" where
  "silent_on_files m \<equiv> only (\<lambda>e. \<not> pushes e) m"

lemma asks_no_push: "only asks m \<Longrightarrow> silent_on_files m"
  by (erule only_mono) (case_tac e; simp)

lemma close_only [only_intro]: "K HungUp \<Longrightarrow> only K (async_close W deadline)"
  unfolding async_close_def by (auto intro!: only_intro split: option.split)

lemma abandon_only [only_intro]: "K HungUp \<Longrightarrow> only K (abandon W e)"
  by (simp add: abandon_def only_intro)

lemma connect_only [only_intro]: "K HungUp \<Longrightarrow> K Dialled \<Longrightarrow> only K (async_connect W authorize)"
  unfolding async_connect_def by (auto intro!: only_intro split: option.split)

lemma clear_interrupted_no_push: "silent_on_files (async_clear_interrupted_stage W t mode path)"
  unfolding async_clear_interrupted_stage_def
  by (intro only_intro asks_no_push [OF clear_stage_asks]) simp_all

lemma open_apk_only: "K FileOpened \<Longrightarrow> K FileClosed \<Longrightarrow> only K (async_open_verified_apk W deadline d)"
  unfolding async_open_verified_apk_def keep_apk_def by (auto intro!: only_intro split: option.split)

lemma stage_admission_no_push: "silent_on_files (stage_admission W t d expected path)"
  unfolding stage_admission_def require_expected_root_mode_def
  by (intro only_intro asks_no_push [OF preflight_asks] asks_no_push [OF path_state_asks] asks_no_push [OF cleanup_asks] maxdata_silent)

definition copied :: "string \<Rightarrow> (adb_event list \<Rightarrow> bool) \<Rightarrow> adb_event list \<Rightarrow> bool" where
  "copied path ready new \<longleftrightarrow> (\<exists>post pre. new = post @ Pushed path # pre \<and> no_push post \<and> no_push pre \<and> ready pre)"

lemma copied_frame: "copied path ready mid \<Longrightarrow> (\<And>a b. ready a \<Longrightarrow> ready (a @ b)) \<Longrightarrow> no_push front \<Longrightarrow> no_push back \<Longrightarrow>
    copied path ready (front @ mid @ back)"
proof -
  assume a: "copied path ready mid" "\<And>a b. ready a \<Longrightarrow> ready (a @ b)" "no_push front" "no_push back"
  then obtain post pre where o: "mid = post @ Pushed path # pre" "no_push post" "no_push pre" "ready pre"
    by (auto simp: copied_def)
  have "front @ mid @ back = (front @ post) @ Pushed path # (pre @ back)" by (simp add: o(1))
  then show ?thesis
    unfolding copied_def using o a by (intro exI [of _ "front @ post"] exI [of _ "pre @ back"]) auto
qed

lemma copied_last: "no_push post \<Longrightarrow> copied path (\<lambda>_. True) (post @ [Pushed path])"
  unfolding copied_def by (rule exI [of _ post], rule exI [of _ "[]"]) simp

lemma copied_one: "copied path (\<lambda>_. True) [Pushed path]"
  using copied_last [of "[]"] by simp

lemma push_does: "does (async_push W path) (\<lambda>new r. new = [Pushed path])"
  unfolding async_push_def
  by (rule does_chain [OF does_tick [where Q = "\<lambda>new r. new = [] \<and> (\<exists>i. r = Inr i)"]], simp, simp,
      rule does_chain [OF does_tell [where Q = "\<lambda>new r. new = [Pushed path] \<and> r = Inr ()"]], simp, simp)
    (auto intro!: does_give does_throw split: option.split)

definition copy_result :: "adb_world \<Rightarrow> string \<Rightarrow> install_descriptor \<Rightarrow> adb_event list \<Rightarrow> adb_exc + unit \<Rightarrow> bool" where
  "copy_result W path d new r \<longleftrightarrow> copied path (\<lambda>_. True) new \<and> (\<forall>u. r = Inr u \<longrightarrow> verified_by W path d new)"

lemma copy_result_front: "copy_result W path d old q \<Longrightarrow> no_push new \<Longrightarrow> (\<forall>u. r = Inr u \<longrightarrow> (\<exists>v. q = Inr v)) \<Longrightarrow>
    copy_result W path d (new @ old) r"
  using copied_frame [of path "\<lambda>_. True" old new "[]"] by (auto simp: copy_result_def intro: verified_append)

lemma stage_copy_does: "does (stage_copy W t d expected path) (copy_result W path d)"
proof -
  have c: "does (chain (async_push W path) (\<lambda>_. async_verify_remote_artifact W path d)) (copy_result W path d)"
  proof (rule does_chain [OF push_does], goal_cases)
    case (1 old e)
    then show ?case by (auto simp: copy_result_def copied_one)
  next
    case (2 x)
    have "does (async_verify_remote_artifact W path d) (\<lambda>new r. no_push new \<and> (\<forall>u. r = Inr u \<longrightarrow> verified_by W path d new))"
      by (rule does_mono [OF does_conj [OF asks_no_push [OF verify_remote_asks, unfolded only_def] verify_remote_does]])
        (auto split: sum.splits)
    then show ?case
      by (rule does_mono) (auto simp: copy_result_def intro: verified_append copied_last)
  qed
  have failing: "does m (\<lambda>new r. no_push new \<and> (\<forall>u. r \<noteq> Inr u)) \<Longrightarrow>
      does m (\<lambda>new r. \<forall>old. copy_result W path d old q \<longrightarrow> copy_result W path d (new @ old) r)" for m :: "unit task" and q
    by (erule does_mono) (auto intro: copy_result_front)
  have fails: "does (lastly (throw e) (async_close W False)) (\<lambda>new r. no_push new \<and> (\<forall>u. r \<noteq> Inr (u :: unit)))" for e
    by (rule does_mono [OF lastly_does [OF does_throw [where Q = "\<lambda>new r. new = [] \<and> r = Inl e"]]]) auto
  have cleared: "does (chain (async_clear_interrupted_stage W t expected path) (\<lambda>_. throw e))
      (\<lambda>new r. no_push new \<and> (\<forall>u. r \<noteq> Inr (u :: unit)))" for e
    by (rule does_chain [OF clear_interrupted_no_push [unfolded only_def]]) (auto simp: does_def throw_def)
  show ?thesis unfolding stage_copy_def
  proof (rule does_trying [OF c], goal_cases)
    case (1 e)
    have "does (trying (async_close W False) (\<lambda>c. lastly (throw c) (async_close W False))
        (\<lambda>_. chain (async_clear_interrupted_stage W t expected path) (\<lambda>_. throw (blamed StageInterrupted e))))
        (\<lambda>new r. no_push new \<and> (\<forall>u. r \<noteq> Inr (u :: unit)))"
    proof (rule does_trying [OF close_does], goal_cases)
      case (1 c)
      show ?case by (rule does_mono [OF fails]) auto
    next
      case (2 x)
      show ?case by (rule does_mono [OF cleared]) auto
    qed
    then show ?case using fails [of e] by (auto intro!: failing)
  next
    case (2 x)
    have front: "copy_result W path d (HungUp # old) r" if "copy_result W path d old (Inr ())" for old and r :: "adb_exc + unit"
      using copy_result_front [OF that, of "[HungUp]" r] by simp
    show ?case by (rule does_mono [OF close_does]) (auto intro!: front)
  qed
qed

definition staged_as :: "string \<Rightarrow> string \<Rightarrow> install_descriptor \<Rightarrow> staged_apk" where
  "staged_as job path d = \<lparr>sg_job_id = job, sg_remote_path = path, sg_apk_size = ds_apk_size d,
     sg_apk_sha256 = ds_apk_sha256 d\<rparr>"

definition stage_effect ::
  "adb_world \<Rightarrow> string \<Rightarrow> string \<Rightarrow> install_descriptor \<Rightarrow> (adb_event list \<Rightarrow> bool) \<Rightarrow> adb_event list \<Rightarrow> adb_exc + staged_apk \<Rightarrow> bool" where
  "stage_effect W job path d ready new r \<longleftrightarrow> (no_push new \<and> (\<forall>s. r \<noteq> Inr s))
     \<or> (copied path ready new \<and> (\<forall>s. r = Inr s \<longrightarrow> verified_by W path d new \<and> s = staged_as job path d))"

lemma stage_effect_frame:
  assumes "stage_effect W job path d ready mid q" "\<And>a b. ready a \<Longrightarrow> ready (a @ b)" "no_push front" "no_push back"
    and "\<forall>s. r = Inr s \<longrightarrow> q = Inr s"
  shows "stage_effect W job path d ready (front @ mid @ back) r"
proof (cases "copied path ready mid \<and> (\<forall>s. q = Inr s \<longrightarrow> verified_by W path d mid \<and> s = staged_as job path d)")
  case True
  then have "copied path ready (front @ mid @ back)" using copied_frame assms(2-4) by blast
  moreover have "verified_by W path d (front @ mid @ back) \<and> s = staged_as job path d" if "r = Inr s" for s
  proof -
    have v: "verified_by W path d mid" "s = staged_as job path d" using True assms(5) that by auto
    then show ?thesis using verified_append(1) [OF verified_append(2) [OF v(1)]] by simp
  qed
  ultimately show ?thesis by (simp add: stage_effect_def)
next
  case False
  then show ?thesis using assms by (auto simp: stage_effect_def)
qed

lemma stage_work_does:
  "does (trying (stage_admission W t d expected path)
          (\<lambda>e. lastly (throw (blamed TargetUnreachable e)) (async_close W False))
          (\<lambda>_. chain (stage_copy W t d expected path) (\<lambda>_. give (staged_as job path d))))
     (stage_effect W job path d (stage_ready W t d expected path))"
proof (rule does_trying [OF does_conj [OF stage_admission_no_push [unfolded only_def] stage_admission_does]], goal_cases)
  case (1 e)
  have "does (lastly (throw (blamed TargetUnreachable e)) (async_close W False)) (\<lambda>new r. no_push new \<and> (\<forall>u. r \<noteq> Inr (u :: staged_apk)))"
    by (rule does_mono [OF lastly_does [OF does_throw [where Q = "\<lambda>new r. new = [] \<and> r = Inl (blamed TargetUnreachable e)"]]]) auto
  then show ?case by (rule does_mono) (auto simp: stage_effect_def)
next
  case (2 x)
  have "does (chain (stage_copy W t d expected path) (\<lambda>_. give (staged_as job path d)))
      (\<lambda>new r. copied path (\<lambda>_. True) new \<and> (\<forall>s. r = Inr s \<longrightarrow> verified_by W path d new \<and> s = staged_as job path d))"
    by (rule does_chain [OF stage_copy_does]) (auto simp: copy_result_def intro!: does_give)
  then show ?case
  proof (rule does_mono, intro allI impI)
    fix new old and r :: "adb_exc + staged_apk"
    assume n: "copied path (\<lambda>_. True) new \<and> (\<forall>s. r = Inr s \<longrightarrow> verified_by W path d new \<and> s = staged_as job path d)"
      and o: "no_push old \<and> done_with (\<lambda>new x. stage_ready W t d expected path new) old (Inr x)"
    then obtain post pre where p: "new = post @ Pushed path # pre" "no_push post" "no_push pre" by (auto simp: copied_def)
    have "new @ old = post @ Pushed path # (pre @ old)" by (simp add: p(1))
    then have "copied path (stage_ready W t d expected path) (new @ old)"
      unfolding copied_def using p o stage_ready_append(1)
      by (intro exI [of _ post] exI [of _ "pre @ old"]) auto
    then show "stage_effect W job path d (stage_ready W t d expected path) (new @ old) r"
      using n by (auto simp: stage_effect_def intro: verified_append)
  qed
qed

lemma stage_panel_does:
  "does (trying (async_open_verified_apk W True d) (\<lambda>e. throw (blamed TargetUnreachable e)) (\<lambda>_. lastly
       (trying (async_connect W True) (\<lambda>e. throw (blamed TargetUnreachable e)) (\<lambda>_.
        trying (stage_admission W t d expected path)
          (\<lambda>e. lastly (throw (blamed TargetUnreachable e)) (async_close W False))
          (\<lambda>_. chain (stage_copy W t d expected path) (\<lambda>_. give (staged_as job path d)))))
       (tell FileClosed)))
     (stage_effect W job path d (stage_ready W t d expected path))" (is "does (trying ?open ?h (\<lambda>_. lastly (trying ?connect ?h (\<lambda>_. ?work)) ?close)) ?Q")
proof -
  have connected: "does (trying ?connect ?h (\<lambda>_. ?work)) ?Q"
  proof (rule does_trying [OF connect_only [where K = "\<lambda>e. \<not> pushes e", unfolded only_def]], goal_cases)
    case (3 e)
    then show ?case by (auto intro!: does_throw simp: stage_effect_def)
  next
    case (4 x)
    show ?case
    proof (rule does_mono [OF stage_work_does], intro allI impI)
      fix new old and r :: "adb_exc + staged_apk"
      assume "?Q new r" "no_push old"
      from stage_effect_frame [OF this(1) stage_ready_append(2), of "[]" old r] this(2) show "?Q (new @ old) r" by simp
    qed
  qed simp_all
  have frame: "?Q (FileClosed # new) r" if "?Q new r" for new r
    using stage_effect_frame [OF that stage_ready_append(2), of "[FileClosed]" "[]" r] by simp
  have closing: "does (lastly (trying ?connect ?h (\<lambda>_. ?work)) ?close) ?Q"
    by (rule closes_file [OF connected, where R = ?Q]) (rule frame)
  show ?thesis
  proof (rule does_trying [OF open_apk_only [where K = "\<lambda>e. \<not> pushes e", unfolded only_def]], goal_cases)
    case (3 e)
    then show ?case by (auto intro!: does_throw simp: stage_effect_def)
  next
    case (4 x)
    show ?case
    proof (rule does_mono [OF closing], intro allI impI)
      fix new old and r :: "adb_exc + staged_apk"
      assume "?Q new r" "no_push old"
      from stage_effect_frame [OF this(1) stage_ready_append(2), of "[]" old r] this(2) show "?Q (new @ old) r" by simp
    qed
  qed simp_all
qed

lemma stage_does:
  assumes "remote_path job = Some path"
  shows "does (async_stage_apk W t d job expected)
     (stage_effect W job path d (\<lambda>pre. target_valid t \<and> descriptor_valid d \<and> stage_ready W t d expected path pre))"
proof (cases "target_valid t \<and> descriptor_valid d")
  case False
  then have "async_stage_apk W t d job expected = throw (Raised AdbInvalidRequest)"
    by (auto simp: async_stage_apk_def valid_request_def check_def chain_def trying_def throw_def fun_eq_iff)
  then show ?thesis by (auto intro!: does_throw simp: stage_effect_def)
next
  case True
  have "async_stage_apk W t d job expected = trying (async_open_verified_apk W True d)
      (\<lambda>e. throw (blamed TargetUnreachable e)) (\<lambda>_. lastly
       (trying (async_connect W True) (\<lambda>e. throw (blamed TargetUnreachable e)) (\<lambda>_.
        trying (stage_admission W t d expected path)
          (\<lambda>e. lastly (throw (blamed TargetUnreachable e)) (async_close W False))
          (\<lambda>_. chain (stage_copy W t d expected path) (\<lambda>_. give (staged_as job path d)))))
       (tell FileClosed))"
    using True by (simp add: async_stage_apk_def valid_request_def check_def remote_path_task_def assms staged_as_def [symmetric])
      (simp add: chain_def trying_def give_def fun_eq_iff)
  moreover have "stage_effect W job path d (stage_ready W t d expected path) new r \<Longrightarrow>
      stage_effect W job path d (\<lambda>pre. target_valid t \<and> descriptor_valid d \<and> stage_ready W t d expected path pre) new r" for new r
    using True by (simp add: stage_effect_def copied_def)
  ultimately show ?thesis using does_mono [OF stage_panel_does] by simp
qed

end
