(* ===== verification/Adb_Sample.thy ===== *)
theory Adb_Sample
  imports Adb_Effects Executor_Sample
begin

text \<open>A panel for the witnesses: a clean, rootless one whose shell answers every command in whole lines.\<close>

definition sample_answers :: "(string \<times> (string list \<times> int)) list" where
  "sample_answers =
    [(''getprop ro.product.model'', [''NSPanel Pro''], 0), (''getprop ro.serialno'', [''SN123''], 0),
     (''getprop ro.product.cpu.abi'', [''arm64-v8a''], 0), (''getprop ro.build.version.sdk'', [''27''], 0),
     (''id -u'', [''2000''], 0), (''getprop ro.secure'', [''1''], 0), (''getprop ro.debuggable'', [''0''], 0),
     (su_observation_command, [''absent''], 0),
     (''pm path android'', [''package:/system/framework/framework-res.apk''], 0)]
    @ map (\<lambda>p. (''pm path '' @ p, ([], 1))) probed_package_ids
    @ map (\<lambda>p. (''pm list packages -u '' @ p, ([], 0))) probed_package_ids
    @ map (\<lambda>b. (base_command b, ([''unreadable''], 0))) root_data_bases
    @ map (\<lambda>p. (presence_command p, ([''absent''], 0))) residue_paths"

definition sample_shell :: "string \<Rightarrow> string list \<times> int" where
  "sample_shell command = (case map_of sample_answers command of None \<Rightarrow> ([], 127) | Some a \<Rightarrow> a)"

definition sample_nonce :: string where "sample_nonce = ''00112233445566778899aabbccddeeff''"

lemma sample_honest: "honest_shell sample_shell (map snd preflight_sections)"
  by code_simp

fun short_line :: "'a list \<Rightarrow> 'b list \<Rightarrow> bool" where
  "short_line [] b = True"
| "short_line (c # l) [] = False"
| "short_line (c # l) (d # b) = short_line l b"

lemma short_line_length: "short_line l b \<Longrightarrow> length l \<le> length b"
  by (induction l b rule: short_line.induct) auto

lemma utf8_length: "length (utf8_encode l) \<le> 2 * length l"
  by (induction l) (auto simp: utf8_char_def)

lemma frame_length_bound:
  assumes "ls \<noteq> []" "list_all (\<lambda>l. length l \<le> 80) ls" "length ls \<le> 200"
  shows "length (frame_bytes ls) \<le> max_shell_response_bytes"
proof -
  have "Suc (length (utf8_encode l)) \<le> 161" if "l \<in> set ls" for l
  proof -
    have "length l \<le> 80" using assms(2) that by (simp add: list_all_iff)
    then show ?thesis using utf8_length [of l] by linarith
  qed
  then have "sum_list (map (\<lambda>l. Suc (length (utf8_encode l))) ls) \<le> sum_list (map (\<lambda>_. 161) ls)"
    by (intro sum_list_mono) auto
  also have "\<dots> \<le> 161 * 200" using assms(3) by (simp add: sum_list_triv)
  finally show ?thesis using frame_bytes_length [OF assms(1)] by simp
qed

definition sample_lines :: "string list" where
  "sample_lines = frame_lines ''PREFLIGHT'' sample_nonce (run_sections sample_shell preflight_sections)"

definition line_ruler :: string where
  "line_ruler = ''........................................'' @ ''........................................''"

lemma sample_lines_short: "list_all (\<lambda>l. short_line l line_ruler) sample_lines"
  by code_simp

lemma sample_lines_few: "short_line sample_lines line_ruler"
  by code_simp

lemma line_ruler_length: "length line_ruler = 80"
  by (simp add: line_ruler_def)

lemma sample_nonce_plain: "sample_nonce \<noteq> []" "plain_mark sample_nonce" "hex_32 sample_nonce"
  by code_simp+

lemma sample_preflight_honest: "preflight_honest sample_shell sample_nonce"
proof -
  have "length (frame_bytes sample_lines) \<le> max_shell_response_bytes"
  proof (rule frame_length_bound)
    show "sample_lines \<noteq> []" by (simp add: sample_lines_def frame_lines_def)
    show "list_all (\<lambda>l. length l \<le> 80) sample_lines"
      using sample_lines_short by (auto simp: list_all_iff line_ruler_length dest!: short_line_length)
    show "length sample_lines \<le> 200"
      using short_line_length [OF sample_lines_few] by (simp add: line_ruler_length)
  qed
  moreover have "shell_run sample_shell 0 (preflight_commands sample_nonce) = sample_lines"
    unfolding preflight_commands_def sample_lines_def
    by (rule shell_frame_run [OF sample_nonce_plain(1,2) preflight_not_marks])
  ultimately show ?thesis
    by (simp add: preflight_honest_def sample_nonce_plain sample_honest preflight_answer_def)
qed

definition sample_adb_target :: adb_target where
  "sample_adb_target = \<lparr>at_address = \<lparr>pa_host = ''192.168.1.5'', pa_port = 8080\<rparr>, at_serial = ''SN123'',
     at_model = ''NSPanel Pro'', at_primary_abi = ''arm64-v8a'', at_android_sdk = 27\<rparr>"

definition sample_observed :: observed_target where
  "sample_observed = \<lparr>ob_model = ''NSPanel Pro'', ob_serial = ''SN123'', ob_primary_abi = ''arm64-v8a'', ob_android_sdk = 27\<rparr>"

definition sample_admitted :: adb_preflight where
  "sample_admitted = \<lparr>pv_serial = ''SN123'', pv_model = ''NSPanel Pro'', pv_primary_abi = ''arm64-v8a'',
     pv_android_sdk = 27, pv_root_mode = Rootless, pv_target_installed = False\<rparr>"

definition sample_descriptor :: install_descriptor where
  "sample_descriptor = descriptor_of clean_artifact"

lemma sample_identity: "identity_of (preflight_seen sample_shell) = Some sample_observed"
  by code_simp

lemma sample_admission:
  "admit_sections (preflight_seen sample_shell) sample_observed sample_adb_target sample_descriptor False = Inr sample_admitted"
  by code_simp

section \<open>A run\<close>

definition stream :: "string \<Rightarrow> shell_stream" where
  "stream body = \<lparr>sh_chunks = [body], sh_end = None\<rparr>"

definition sample_path :: string where
  "sample_path = remote_staging_prefix @ sample_nonce @ ''.apk''"

definition sample_artifact_sections :: sections where
  "sample_artifact_sections = [(''CHMOD'', [], 0), (''MODE'', [''81a4''], 0), (''SIZE'', [''1000''], 0),
     (''SHA'', [ds_apk_sha256 sample_descriptor @ ''  '' @ sample_path], 0)]"

definition sample_artifact_answer :: string where
  "sample_artifact_answer = frame_bytes (frame_lines ''ARTIFACT'' sample_nonce sample_artifact_sections)"

definition sample_install_answer :: string where
  "sample_install_answer = frame_bytes [begin_mark ''INSTALL'' sample_nonce, ''Success'', status_mark ''INSTALL'' sample_nonce 0]"

text \<open>The panel of \<open>sample_shell\<close>, answering the calls of one installation in their order.\<close>

definition sample_world :: adb_world where
  "sample_world = \<lparr>aw_platform = sample_platform, aw_nonce = (\<lambda>_. sample_nonce),
     aw_connect = (\<lambda>_. \<lparr>cn_prompted = False, cn_end = ConnectDone\<rparr>),
     aw_shell = (\<lambda>i text. stream (if i = 1 then preflight_answer sample_shell sample_nonce
        else if i = 2 then sample_artifact_answer else sample_install_answer)),
     aw_push = (\<lambda>_. None), aw_maxdata = (\<lambda>_. Some 65536), aw_close_cut = (\<lambda>_. None),
     aw_apk = (\<lambda>_. \<lparr>ap_path = None, ap_opened = False, ap_first = None, ap_chunks = [], ap_again = None,
        ap_path_again = None, ap_seek = False\<rparr>),
     aw_apk_cut = (\<lambda>_. None), aw_approval = (\<lambda>_. None)\<rparr>"

lemma shell_body_stream: "length body \<le> max_shell_response_bytes \<Longrightarrow> shell_body (stream body) = Inr body"
  by (simp add: shell_body_def stream_def)

lemma parse_single_frame:
  assumes "plain_mark prefix" "plain_mark nonce" "section_ok (vs, st)"
    and "length (frame_bytes (begin_mark prefix nonce # vs @ [status_mark prefix nonce st])) \<le> max_shell_response_bytes"
  shows "parse_single_section (frame_bytes (begin_mark prefix nonce # vs @ [status_mark prefix nonce st])) prefix nonce = Some (vs, st)"
proof -
  have ok: "list_all (\<lambda>l. one_line l \<and> \<not> starts_with l marker) vs" "0 \<le> st" "st < 1000"
    using assms(3) by (simp_all add: section_ok_def)
  have "decode_lines (frame_bytes (begin_mark prefix nonce # vs @ [status_mark prefix nonce st]))
      = Some (begin_mark prefix nonce # vs @ [status_mark prefix nonce st])"
    using decode_frame [of "begin_mark prefix nonce # vs @ [status_mark prefix nonce st]"] assms(4)
      marks_one_line [OF assms(1,2)] ok by (auto simp: list_all_iff)
  moreover have "\<not> list_ex (\<lambda>l. starts_with l marker) vs" using ok(1) by (auto simp: list_all_iff list_ex_iff)
  ultimately show ?thesis
    using parse_status_mark [OF ok(2,3)] by (simp add: parse_single_section_def guard_def)
qed

lemma sample_install_read: "parse_install_outcome sample_install_answer sample_nonce = Some PackageInstalled"
  "length sample_install_answer \<le> max_shell_response_bytes"
proof -
  let ?ls = "begin_mark ''INSTALL'' sample_nonce # [''Success''] @ [status_mark ''INSTALL'' sample_nonce 0]"
  have l: "length (frame_bytes ?ls) \<le> max_shell_response_bytes"
  proof (rule frame_length_bound)
    have "list_all (\<lambda>l. short_line l line_ruler) ?ls" by code_simp
    then show "list_all (\<lambda>l. length l \<le> 80) ?ls"
      by (auto simp: list_all_iff line_ruler_length dest!: short_line_length)
  qed simp_all
  then show "length sample_install_answer \<le> max_shell_response_bytes" by (simp add: sample_install_answer_def)
  have "plain_mark ''INSTALL''" "section_ok ([''Success''], 0)" by code_simp+
  from parse_single_frame [OF this(1) sample_nonce_plain(2) this(2) l]
  show "parse_install_outcome sample_install_answer sample_nonce = Some PackageInstalled"
    by (simp add: parse_install_outcome_def sample_install_answer_def)
qed

lemma sample_artifact_read:
  "parse_remote_artifact sample_artifact_answer sample_nonce sample_path
     = Some (33188, ds_apk_size sample_descriptor, ds_apk_sha256 sample_descriptor)"
  "length sample_artifact_answer \<le> max_shell_response_bytes"
proof -
  let ?ls = "frame_lines ''ARTIFACT'' sample_nonce sample_artifact_sections"
  have l: "length (frame_bytes ?ls) \<le> max_shell_response_bytes"
  proof -
    have "list_all (\<lambda>l. short_line l (line_ruler @ line_ruler)) ?ls \<and> short_line ?ls line_ruler" by code_simp
    then have b: "\<forall>l \<in> set ?ls. length l \<le> 160" "length ?ls \<le> 80"
      by (auto simp: list_all_iff line_ruler_length dest!: short_line_length)
    have "sum_list (map (\<lambda>l. Suc (length (utf8_encode l))) ?ls) \<le> sum_list (map (\<lambda>_. 321) ?ls)"
    proof (rule sum_list_mono)
      fix l assume "l \<in> set ?ls"
      then have "length l \<le> 160" using b(1) by blast
      then show "Suc (length (utf8_encode l)) \<le> 321" using utf8_length [of l] by linarith
    qed
    also have "\<dots> \<le> 321 * 80" using b(2) by (simp add: sum_list_triv)
    finally show ?thesis by (subst frame_bytes_length) (simp_all add: frame_lines_def)
  qed
  then show "length sample_artifact_answer \<le> max_shell_response_bytes" by (simp add: sample_artifact_answer_def)
  have ok: "plain_mark ''ARTIFACT''" "list_all (\<lambda>(n, s). plain_mark n \<and> section_ok s) sample_artifact_sections"
    by code_simp+
  have names: "map fst sample_artifact_sections = artifact_names True" by code_simp
  have secs: "parse_sections sample_artifact_answer ''ARTIFACT'' sample_nonce (artifact_names True) = Some sample_artifact_sections"
    using parse_frame [OF ok(1) sample_nonce_plain(2) ok(2)] l by (simp add: sample_artifact_answer_def names)
  have "section_get sample_artifact_sections ''CHMOD'' = ([], 0)"
    "one_line_of (section_get sample_artifact_sections ''MODE'') = Some ''81a4''"
    "one_line_of (section_get sample_artifact_sections ''SIZE'') = Some ''1000''"
    "one_line_of (section_get sample_artifact_sections ''SHA'') = Some (ds_apk_sha256 sample_descriptor @ ''  '' @ sample_path)"
    by (simp_all add: sample_artifact_sections_def section_get_def one_line_of_def)
  moreover have "mode_text ''81a4'' \<and> size_text ''1000'' \<and> dec_value (trim_blanks ''1000'') = 1000 \<and> hex_value ''81a4'' = 33188
      \<and> sha_line sample_path (ds_apk_sha256 sample_descriptor @ ''  '' @ sample_path) = Some (ds_apk_sha256 sample_descriptor)
      \<and> ds_apk_size sample_descriptor = 1000" by code_simp
  ultimately show "parse_remote_artifact sample_artifact_answer sample_nonce sample_path
     = Some (33188, ds_apk_size sample_descriptor, ds_apk_sha256 sample_descriptor)"
    by (simp add: parse_remote_artifact_def parse_artifact_observation_def secs)
qed

lemma sample_preflight_length: "length (preflight_answer sample_shell sample_nonce) \<le> max_shell_response_bytes"
  using sample_preflight_honest by (simp add: preflight_honest_def)

lemma sample_preflight_read:
  "parse_preflight (preflight_answer sample_shell sample_nonce) sample_nonce sample_adb_target sample_descriptor False
     = Inr sample_admitted"
  by (simp add: parse_preflight_run [OF sample_preflight_honest] sample_identity sample_admission)

lemma sample_request: "target_valid sample_adb_target" "descriptor_valid sample_descriptor"
  by code_simp+

lemma sample_remote_path: "remote_path sample_nonce = Some sample_path"
  by (simp add: remote_path_def sample_nonce_plain sample_path_def)

lemma sample_bodies:
  "shell_body (stream (preflight_answer sample_shell sample_nonce)) = Inr (preflight_answer sample_shell sample_nonce)"
  "shell_body (stream sample_artifact_answer) = Inr sample_artifact_answer"
  "shell_body (stream sample_install_answer) = Inr sample_install_answer"
  by (rule shell_body_stream [OF sample_preflight_length] shell_body_stream [OF sample_artifact_read(2)]
      shell_body_stream [OF sample_install_read(2)])+

lemma chain_Inr: "m l = (Inr x, l') \<Longrightarrow> chain m k l = k x l'"
  by (simp add: chain_def trying_def)

lemma trying_Inr: "m l = (Inr x, l') \<Longrightarrow> trying m h k l = k x l'"
  by (simp add: trying_def)

lemma inquire_stream:
  assumes "aw_shell W i (command (aw_nonce W i)) = stream body" "shell_body (stream body) = Inr body"
  shows "inquire W command \<lparr>al_calls = i, al_log = es\<rparr> = (Inr (aw_nonce W i, body),
     \<lparr>al_calls = Suc i, al_log = Sent (aw_nonce W i) (command (aw_nonce W i)) (stream body) # es\<rparr>)"
  using assms by (simp add: inquire_def chain_def trying_def tick_def tell_def give_def Let_def)

definition blank_line :: adb_line where
  "blank_line = \<lparr>al_calls = 0, al_log = []\<rparr>"

lemma sample_world_fields: "aw_connect sample_world i = \<lparr>cn_prompted = False, cn_end = ConnectDone\<rparr>"
  "aw_approval sample_world i = None" "aw_close_cut sample_world i = None" "aw_nonce sample_world i = sample_nonce"
  "aw_shell sample_world 1 text = stream (preflight_answer sample_shell sample_nonce)"
  "aw_shell sample_world 2 text = stream sample_artifact_answer" "aw_shell sample_world 4 text = stream sample_install_answer"
  by (simp_all add: sample_world_def)

abbreviation preflight_sent :: adb_event where
  "preflight_sent \<equiv> Sent sample_nonce (preflight_command sample_nonce) (stream (preflight_answer sample_shell sample_nonce))"

abbreviation artifact_sent :: adb_event where
  "artifact_sent \<equiv> Sent sample_nonce (remote_artifact_command sample_nonce sample_path) (stream sample_artifact_answer)"

abbreviation install_sent :: adb_event where
  "install_sent \<equiv> Sent sample_nonce (install_command sample_nonce sample_path 27) (stream sample_install_answer)"

lemma sample_preflight_run:
  "async_preflight_on_device sample_world sample_adb_target sample_descriptor False \<lparr>al_calls = 1, al_log = es\<rparr>
     = (Inr sample_admitted, \<lparr>al_calls = 2, al_log = preflight_sent # es\<rparr>)"
proof -
  have "inquire sample_world preflight_command \<lparr>al_calls = 1, al_log = es\<rparr>
      = (Inr (sample_nonce, preflight_answer sample_shell sample_nonce), \<lparr>al_calls = 2, al_log = preflight_sent # es\<rparr>)"
    using inquire_stream [of sample_world 1 preflight_command, OF sample_world_fields(5) sample_bodies(1)]
    by (simp add: sample_world_fields numeral_2_eq_2)
  then show ?thesis
    unfolding async_preflight_on_device_def
    by (simp add: chain_Inr sample_preflight_read of_answer_def give_def sample_admitted_def)
qed

lemma sample_artifact_run:
  "async_verify_remote_artifact sample_world sample_path sample_descriptor \<lparr>al_calls = 2, al_log = es\<rparr>
     = (Inr (), \<lparr>al_calls = 3, al_log = artifact_sent # es\<rparr>)"
proof -
  have regular: "is_regular 33188" "permission_bits 33188 = 420" by code_simp+
  have "inquire sample_world (\<lambda>n. remote_artifact_command n sample_path) \<lparr>al_calls = 2, al_log = es\<rparr>
      = (Inr (sample_nonce, sample_artifact_answer), \<lparr>al_calls = 3, al_log = artifact_sent # es\<rparr>)"
    using inquire_stream [of sample_world 2 "\<lambda>n. remote_artifact_command n sample_path", OF sample_world_fields(6) sample_bodies(2)]
    by (simp add: sample_world_fields numeral_3_eq_3 numeral_2_eq_2)
  then show ?thesis
    unfolding async_verify_remote_artifact_def
    by (simp add: chain_Inr sample_artifact_read(1) check_def regular give_def)
qed

lemma sample_install_step:
  "install_run sample_world (\<lambda>n. install_command n sample_path 27) \<lparr>al_calls = 4, al_log = es\<rparr>
     = (Inr PackageInstalled, \<lparr>al_calls = 5, al_log = install_sent # es\<rparr>)"
proof -
  have "inquire sample_world (\<lambda>n. install_command n sample_path 27) \<lparr>al_calls = 4, al_log = es\<rparr>
      = (Inr (sample_nonce, sample_install_answer), \<lparr>al_calls = 5, al_log = install_sent # es\<rparr>)"
    using inquire_stream [of sample_world 4 "\<lambda>n. install_command n sample_path 27", OF sample_world_fields(7) sample_bodies(3)]
    by (simp add: sample_world_fields)
  then show ?thesis
    unfolding install_run_def by (simp add: chain_Inr of_parse_def of_answer_def sample_install_read(1) give_def)
qed

lemma sample_installation:
  "async_install_staged_apk sample_world sample_adb_target sample_descriptor sample_nonce Rootless blank_line =
    (Inr PackageInstalled, \<lparr>al_calls = 6, al_log = [HungUp, install_sent, Consented, artifact_sent, preflight_sent, Dialled]\<rparr>)"
proof -
  have sdk: "at_android_sdk sample_adb_target = 27" by (simp add: sample_adb_target_def)
  have moded: "require_expected_root_mode (pv_root_mode sample_admitted) Rootless l = (Inr (), l)" for l
    by (simp add: require_expected_root_mode_def check_def give_def sample_admitted_def)
  have consent: "before_install sample_world \<lparr>al_calls = 3, al_log = es\<rparr> = (Inr (), \<lparr>al_calls = 4, al_log = Consented # es\<rparr>)" for es
    by (simp add: before_install_def chain_def trying_def tick_def tell_def sample_world_fields)
  have admission: "install_admission sample_world sample_adb_target sample_descriptor Rootless sample_path
      \<lparr>al_calls = 1, al_log = [Dialled]\<rparr> = (Inr (), \<lparr>al_calls = 4, al_log = [Consented, artifact_sent, preflight_sent, Dialled]\<rparr>)"
    unfolding install_admission_def
    by (simp del: One_nat_def add: chain_Inr sample_preflight_run moded sample_artifact_run consent)
  have connect: "async_connect sample_world True blank_line = (Inr (), \<lparr>al_calls = 1, al_log = [Dialled]\<rparr>)"
    by (simp add: async_connect_def chain_def trying_def tick_def tell_def sample_world_fields connect_error_def give_def blank_line_def)
  have close: "async_close sample_world False \<lparr>al_calls = 5, al_log = es\<rparr> = (Inr (), \<lparr>al_calls = 6, al_log = HungUp # es\<rparr>)" for es
    by (simp add: async_close_def chain_def trying_def tick_def tell_def sample_world_fields give_def)
  have body: "chain (install_admission sample_world sample_adb_target sample_descriptor Rootless sample_path)
      (\<lambda>_. trying (install_run sample_world (\<lambda>n. install_command n sample_path 27)) (\<lambda>e. throw (blamed InstallAmbiguous e)) give)
      \<lparr>al_calls = 1, al_log = [Dialled]\<rparr> = (Inr PackageInstalled, \<lparr>al_calls = 5,
        al_log = [install_sent, Consented, artifact_sent, preflight_sent, Dialled]\<rparr>)"
    by (simp del: One_nat_def add: chain_Inr admission trying_Inr sample_install_step give_def)
  have panel: "on_panel sample_world True (blamed TargetUnreachable) (chain (install_admission sample_world
      sample_adb_target sample_descriptor Rootless sample_path)
      (\<lambda>_. trying (install_run sample_world (\<lambda>n. install_command n sample_path 27)) (\<lambda>e. throw (blamed InstallAmbiguous e)) give))
      blank_line = (Inr PackageInstalled, \<lparr>al_calls = 6,
        al_log = [HungUp, install_sent, Consented, artifact_sent, preflight_sent, Dialled]\<rparr>)"
    unfolding on_panel_def lastly_def
    by (simp del: One_nat_def add: trying_Inr connect body chain_Inr close give_def)
  have asked: "chain (valid_request sample_adb_target sample_descriptor) k l = k () l" for k :: "unit \<Rightarrow> install_outcome task" and l
    by (rule chain_Inr) (simp add: valid_request_def check_def sample_request give_def)
  have named: "chain (remote_path_task sample_nonce) k l = k sample_path l" for k :: "string \<Rightarrow> install_outcome task" and l
    by (rule chain_Inr) (simp add: remote_path_task_def sample_remote_path give_def)
  show ?thesis
    unfolding async_install_staged_apk_def by (simp add: asked named sdk panel)
qed

section \<open>A staging\<close>

definition sample_path_answer :: string where
  "sample_path_answer = frame_bytes [begin_mark ''PATH'' sample_nonce, ''absent'', status_mark ''PATH'' sample_nonce 0]"

definition sample_file :: file_stat where
  "sample_file = \<lparr>st_dev = 1, st_ino = 2, st_mode = 33152, st_uid = pf_euid sample_platform, st_nlink = 1, st_size = 1000,
     st_mtime_ns = 3, st_ctime_ns = 4\<rparr>"

definition sample_apk :: apk_observation where
  "sample_apk = \<lparr>ap_path = Some sample_file, ap_opened = True, ap_first = Some sample_file,
     ap_chunks = [Some (replicate 1000 (CHR ''x'')), Some []], ap_again = Some sample_file, ap_path_again = Some sample_file,
     ap_seek = True\<rparr>"

definition stage_world :: adb_world where
  "stage_world = sample_world\<lparr>aw_apk := (\<lambda>_. sample_apk),
     aw_shell := (\<lambda>i text. stream (if i = 2 then preflight_answer sample_shell sample_nonce
        else if i = 3 then sample_path_answer else sample_artifact_answer))\<rparr>"

lemma sample_path_read: "parse_path_state sample_path_answer sample_nonce = Some False"
  "length sample_path_answer \<le> max_shell_response_bytes"
proof -
  let ?ls = "begin_mark ''PATH'' sample_nonce # [''absent''] @ [status_mark ''PATH'' sample_nonce 0]"
  have l: "length (frame_bytes ?ls) \<le> max_shell_response_bytes"
  proof (rule frame_length_bound)
    have "list_all (\<lambda>l. short_line l line_ruler) ?ls" by code_simp
    then show "list_all (\<lambda>l. length l \<le> 80) ?ls"
      by (auto simp: list_all_iff line_ruler_length dest!: short_line_length)
  qed simp_all
  then show "length sample_path_answer \<le> max_shell_response_bytes" by (simp add: sample_path_answer_def)
  have "plain_mark ''PATH''" "section_ok ([''absent''], 0)" by code_simp+
  from parse_single_frame [OF this(1) sample_nonce_plain(2) this(2) l]
  show "parse_path_state sample_path_answer sample_nonce = Some False"
    by (simp add: parse_path_state_def sample_path_answer_def word_in_def)
qed

lemma stage_world_fields: "aw_connect stage_world i = \<lparr>cn_prompted = False, cn_end = ConnectDone\<rparr>"
  "aw_close_cut stage_world i = None" "aw_nonce stage_world i = sample_nonce" "aw_push stage_world i = None"
  "aw_maxdata stage_world i = Some 65536" "aw_apk_cut stage_world i = None" "aw_apk stage_world i = sample_apk"
  "aw_platform stage_world = sample_platform"
  "aw_shell stage_world 2 text = stream (preflight_answer sample_shell sample_nonce)"
  "aw_shell stage_world 3 text = stream sample_path_answer" "aw_shell stage_world 6 text = stream sample_artifact_answer"
  by (simp_all add: sample_world_def stage_world_def)

abbreviation path_sent :: adb_event where
  "path_sent \<equiv> Sent sample_nonce (path_state_command sample_nonce sample_path) (stream sample_path_answer)"

lemma stage_inquiries:
  "inquire stage_world preflight_command \<lparr>al_calls = 2, al_log = es\<rparr>
     = (Inr (sample_nonce, preflight_answer sample_shell sample_nonce), \<lparr>al_calls = 3, al_log = preflight_sent # es\<rparr>)"
  "inquire stage_world (\<lambda>n. path_state_command n sample_path) \<lparr>al_calls = 3, al_log = es\<rparr>
     = (Inr (sample_nonce, sample_path_answer), \<lparr>al_calls = 4, al_log = path_sent # es\<rparr>)"
  "inquire stage_world (\<lambda>n. remote_artifact_command n sample_path) \<lparr>al_calls = 6, al_log = es\<rparr>
     = (Inr (sample_nonce, sample_artifact_answer), \<lparr>al_calls = 7, al_log = artifact_sent # es\<rparr>)"
proof -
  show "inquire stage_world preflight_command \<lparr>al_calls = 2, al_log = es\<rparr>
     = (Inr (sample_nonce, preflight_answer sample_shell sample_nonce), \<lparr>al_calls = 3, al_log = preflight_sent # es\<rparr>)"
    using inquire_stream [of stage_world 2 preflight_command, OF stage_world_fields(9) sample_bodies(1)]
    by (simp add: stage_world_fields)
  show "inquire stage_world (\<lambda>n. path_state_command n sample_path) \<lparr>al_calls = 3, al_log = es\<rparr>
     = (Inr (sample_nonce, sample_path_answer), \<lparr>al_calls = 4, al_log = path_sent # es\<rparr>)"
    using inquire_stream [of stage_world 3 "\<lambda>n. path_state_command n sample_path", OF stage_world_fields(10)
        shell_body_stream [OF sample_path_read(2)]]
    by (simp add: stage_world_fields)
  show "inquire stage_world (\<lambda>n. remote_artifact_command n sample_path) \<lparr>al_calls = 6, al_log = es\<rparr>
     = (Inr (sample_nonce, sample_artifact_answer), \<lparr>al_calls = 7, al_log = artifact_sent # es\<rparr>)"
    using inquire_stream [of stage_world 6 "\<lambda>n. remote_artifact_command n sample_path", OF stage_world_fields(11) sample_bodies(2)]
    by (simp add: stage_world_fields)
qed

lemma sample_apk_opens: "open_verified_apk sample_platform sample_apk sample_descriptor \<noteq> None"
proof -
  have size: "ds_apk_size sample_descriptor = 1000" by code_simp
  have mode: "is_regular 33152" "permission_bits 33152 = 384" by code_simp+
  have same: "same_apk sample_platform sample_file 1000" by (simp add: same_apk_def sample_file_def mode)
  have sha: "pf_sha256 sample_platform s = ds_apk_sha256 sample_descriptor" for s
    by (simp add: sample_descriptor_def descriptor_of_def clean_artifact_def sample_artifact_def sample_sha256)
  show ?thesis
    by (simp add: open_verified_apk_def sample_apk_def size verified_apk_identity_def same sha guard_def)
qed

lemma sample_staging:
  "async_stage_apk stage_world sample_adb_target sample_descriptor sample_nonce Rootless blank_line =
    (Inr (staged_as sample_nonce sample_path sample_descriptor), \<lparr>al_calls = 8, al_log = [FileClosed, HungUp, artifact_sent,
       Pushed sample_path, path_sent, preflight_sent, Dialled, FileOpened]\<rparr>)"
proof -
  have opened: "async_open_verified_apk stage_world True sample_descriptor blank_line
      = (Inr (), \<lparr>al_calls = 1, al_log = [FileOpened]\<rparr>)"
    using sample_apk_opens
    by (auto simp: async_open_verified_apk_def keep_apk_def chain_def trying_def tick_def tell_def give_def blank_line_def
        stage_world_fields)
  have connect: "async_connect stage_world True \<lparr>al_calls = 1, al_log = es\<rparr> = (Inr (), \<lparr>al_calls = 2, al_log = Dialled # es\<rparr>)" for es
    by (simp add: async_connect_def chain_def trying_def tick_def tell_def stage_world_fields connect_error_def give_def)
  have preflight: "async_preflight_on_device stage_world sample_adb_target sample_descriptor False \<lparr>al_calls = 2, al_log = es\<rparr>
     = (Inr sample_admitted, \<lparr>al_calls = 3, al_log = preflight_sent # es\<rparr>)" for es
    unfolding async_preflight_on_device_def
    by (simp add: chain_Inr stage_inquiries sample_preflight_read of_answer_def give_def sample_admitted_def)
  have moded: "require_expected_root_mode (pv_root_mode sample_admitted) Rootless l = (Inr (), l)" for l
    by (simp add: require_expected_root_mode_def check_def give_def sample_admitted_def)
  have state: "async_path_state stage_world sample_path \<lparr>al_calls = 3, al_log = es\<rparr>
     = (Inr False, \<lparr>al_calls = 4, al_log = path_sent # es\<rparr>)" for es
    unfolding async_path_state_def
    by (simp add: chain_Inr stage_inquiries of_parse_def of_answer_def sample_path_read(1) give_def)
  have state_chain: "chain (async_path_state stage_world sample_path) k \<lparr>al_calls = 3, al_log = es\<rparr>
     = k False \<lparr>al_calls = 4, al_log = path_sent # es\<rparr>" for k :: "bool \<Rightarrow> unit task" and es
    by (simp add: chain_def trying_def state)
  have maxdata: "validate_filesync_maxdata stage_world \<lparr>al_calls = 4, al_log = es\<rparr> = (Inr (), \<lparr>al_calls = 5, al_log = es\<rparr>)" for es
    by (simp add: validate_filesync_maxdata_def chain_def trying_def tick_def stage_world_fields check_def give_def)
  have admission: "stage_admission stage_world sample_adb_target sample_descriptor Rootless sample_path \<lparr>al_calls = 2, al_log = es\<rparr>
     = (Inr (), \<lparr>al_calls = 5, al_log = path_sent # preflight_sent # es\<rparr>)" for es
    unfolding stage_admission_def
    by (simp add: chain_Inr preflight moded state_chain) (simp add: chain_Inr [where x = "()" and m = "give ()"] give_def maxdata)
  have push: "async_push stage_world sample_path \<lparr>al_calls = 5, al_log = es\<rparr> = (Inr (), \<lparr>al_calls = 6, al_log = Pushed sample_path # es\<rparr>)" for es
    by (simp add: async_push_def chain_def trying_def tick_def tell_def stage_world_fields give_def)
  have regular: "is_regular 33188" "permission_bits 33188 = 420" by code_simp+
  have verify: "async_verify_remote_artifact stage_world sample_path sample_descriptor \<lparr>al_calls = 6, al_log = es\<rparr>
     = (Inr (), \<lparr>al_calls = 7, al_log = artifact_sent # es\<rparr>)" for es
    unfolding async_verify_remote_artifact_def
    by (simp add: chain_Inr stage_inquiries sample_artifact_read(1) check_def regular give_def)
  have close: "async_close stage_world False \<lparr>al_calls = 7, al_log = es\<rparr> = (Inr (), \<lparr>al_calls = 8, al_log = HungUp # es\<rparr>)" for es
    by (simp add: async_close_def chain_def trying_def tick_def tell_def stage_world_fields give_def)
  have copy: "stage_copy stage_world sample_adb_target sample_descriptor Rootless sample_path \<lparr>al_calls = 5, al_log = es\<rparr>
     = (Inr (), \<lparr>al_calls = 8, al_log = HungUp # artifact_sent # Pushed sample_path # es\<rparr>)" for es
    unfolding stage_copy_def by (simp add: trying_Inr chain_Inr push verify close)
  have asked: "chain (valid_request sample_adb_target sample_descriptor) k l = k () l" for k :: "unit \<Rightarrow> staged_apk task" and l
    by (rule chain_Inr) (simp add: valid_request_def check_def sample_request give_def)
  have named: "chain (remote_path_task sample_nonce) k l = k sample_path l" for k :: "string \<Rightarrow> staged_apk task" and l
    by (rule chain_Inr) (simp add: remote_path_task_def sample_remote_path give_def)
  show ?thesis
    unfolding async_stage_apk_def lastly_def staged_as_def [symmetric]
    by (simp del: One_nat_def add: asked named trying_Inr opened connect admission chain_Inr copy give_def tell_def)
qed

end
