(* ===== verification/Adb_Properties.thy ===== *)
theory Adb_Properties
  imports Adb_Sample
begin

text \<open>
  The properties of the installer's ADB side: what its questions and answers mean, what it does to a
  panel and on which evidence, and what it gives back.
\<close>

section \<open>Errors\<close>

definition coded :: "adb_event list \<Rightarrow> adb_exc + 'a \<Rightarrow> bool" where
  "coded new r \<longleftrightarrow> (\<forall>e. r = Inl e \<longrightarrow> e \<notin> communication_failures)"

named_theorems coded_intro \<open>operations whose communication failures have become codes\<close>

lemma coded_throw [coded_intro]: "e \<notin> communication_failures \<Longrightarrow> does (throw e) coded"
  by (rule does_throw) (simp add: coded_def)

lemma coded_give [coded_intro]: "does (give x) coded"
  by (rule does_give) (simp add: coded_def)

lemma coded_tell [coded_intro]: "does (tell e) coded"
  by (rule does_tell) (simp add: coded_def)

lemma coded_tick [coded_intro]: "does tick coded"
  by (rule does_tick) (simp add: coded_def)

lemma coded_trying:
  assumes "does m P" "\<And>e. does (h e) coded" "\<And>x. does (k x) coded"
  shows "does (trying m h k) coded"
  by (rule does_trying [OF assms(1)]) (auto simp: coded_def intro!: does_mono [OF assms(2)] does_mono [OF assms(3)])

lemma coded_chain [coded_intro]: "does m coded \<Longrightarrow> (\<And>x. does (k x) coded) \<Longrightarrow> does (chain m k) coded"
proof -
  assume a: "does m coded" "\<And>x. does (k x) coded"
  show "does (chain m k) coded"
    by (rule does_chain [OF a(1)]) (auto simp: coded_def intro!: does_mono [OF a(2)])
qed

lemma coded_lastly [coded_intro]: "does m coded \<Longrightarrow> does c coded \<Longrightarrow> does (lastly m c) coded"
proof -
  assume a: "does m coded" "does c coded"
  have t: "does (chain c (\<lambda>_. throw e)) (\<lambda>new r. \<forall>old. coded old (Inl e :: adb_exc + 'a) \<longrightarrow> coded (new @ old) (r :: adb_exc + 'a))" for e
    by (rule does_chain [OF a(2)]) (auto simp: coded_def intro!: does_throw)
  have g: "does (chain c (\<lambda>_. give x)) (\<lambda>new r. \<forall>old. coded old (Inr x) \<longrightarrow> coded (new @ old) r)" for x :: 'a
    by (rule does_chain [OF a(2)]) (auto simp: coded_def intro!: does_give)
  show ?thesis unfolding lastly_def by (rule does_trying [OF a(1) t g])
qed

lemma blamed_coded [simp]: "blamed c e \<notin> communication_failures" "silent_or_invalid e \<notin> communication_failures"
  by (auto simp: blamed_def silent_or_invalid_def communication_failures_def)

lemma coded_check [coded_intro]: "e \<notin> communication_failures \<Longrightarrow> does (check b e) coded"
  by (simp add: check_def coded_intro)

lemma raised_coded [simp]: "Raised c \<notin> communication_failures" "Interrupted \<notin> communication_failures"
  "Unforeseen \<notin> communication_failures"
  by (simp_all add: communication_failures_def)

lemma coded_close [coded_intro]: "does (async_close W False) coded"
proof (rule does_mono [OF close_does])
  fix new :: "adb_event list" and r :: "adb_exc + unit"
  assume "new = [HungUp] \<and> (\<forall>e. r = Inl e \<longrightarrow> e \<in> {Interrupted, Expired} \<and> (False \<or> e = Interrupted))"
  then show "coded new r" by (cases r) (auto simp: coded_def)
qed

lemma coded_close_trying:
  assumes "does (h Interrupted) coded" "\<And>x. does (k x) coded" and total: "\<And>e. does (h e) (\<lambda>new r. True)"
  shows "does (trying (async_close W False) h k) coded"
proof (rule does_trying [OF close_does], goal_cases)
  case (1 e)
  show ?case
  proof (cases "e = Interrupted")
    case True
    show ?thesis unfolding True by (rule does_mono [OF assms(1)]) (simp add: coded_def)
  next
    case False
    have "\<exists>new. al_log (snd (h e l)) = new @ al_log l" for l
      using total [of e] by (auto simp: does_def)
    with False show ?thesis by (auto simp: does_def)
  qed
next
  case (2 x)
  show ?case by (rule does_mono [OF assms(2)]) (simp add: coded_def)
qed

lemma coded_panel:
  assumes "only K m" "\<And>e. blame e \<notin> communication_failures"
  shows "does (on_panel W authorize blame m) coded"
proof (rule does_mono [OF on_panel_does [OF assms(1) [unfolded only_def]]])
  fix new and r :: "adb_exc + 'a"
  assume "(list_all wire new \<and> (\<exists>e. fails_in connect_codes e \<and> r = Inl (blame e)))
     \<or> (\<exists>mid q. new = HungUp # mid @ [Dialled] \<and> list_all K mid \<and> (r = blame_result blame q \<or> r = Inl Interrupted))"
  then consider e where "r = Inl (blame e)" | q where "r = blame_result blame q" | "r = Inl Interrupted" by blast
  then show "coded new r"
  proof cases
    case (2 q)
    then show ?thesis using assms(2) by (cases q) (auto simp: coded_def blame_result_def)
  qed (auto simp: coded_def assms(2))
qed

lemma coded_request [coded_intro]: "does (valid_request t d) coded" "does (remote_path_task job) coded"
proof -
  show "does (valid_request t d) coded" by (simp add: valid_request_def coded_check)
  show "does (remote_path_task job) coded"
    by (cases "remote_path job") (simp_all add: remote_path_task_def coded_throw coded_give)
qed

lemma coded_swallow [coded_intro]: "does (swallow e) coded"
  by (auto simp: swallow_def intro!: coded_throw coded_give)

lemma coded_clear_interrupted [coded_intro]: "does (async_clear_interrupted_stage W t mode path) coded"
  unfolding async_clear_interrupted_stage_def
  by (intro coded_trying [OF connect_does] coded_intro coded_trying [OF clear_stage_asks [unfolded only_def]])

lemma coded_clear_on_device [coded_intro]: "does (clear_on_device W t mode path) coded"
  unfolding clear_on_device_def by (intro coded_intro coded_trying [OF clear_stage_asks [unfolded only_def]])

lemma coded_preflight: "does (async_preflight_install W t d admit authorize) coded"
  unfolding async_preflight_install_def by (intro coded_intro coded_panel [OF preflight_asks]) simp

lemma coded_verify: "does (async_verify_installed_target W t expected package) coded"
  unfolding async_verify_installed_target_def
  by (intro coded_intro coded_panel [where K = asks] only_intro identity_root_asks package_present_asks) simp_all

lemma coded_size: "does (async_installed_artifact_size W t d expected authorize) coded"
  unfolding async_installed_artifact_size_def
  by (intro coded_intro coded_panel [where K = asks] only_intro identity_root_asks installed_size_asks) simp_all

lemma coded_install: "does (async_install_staged_apk W t d job expected) coded"
  unfolding async_install_staged_apk_def
  by (intro coded_intro coded_panel [where K = on_line] only_intro install_admission_line install_run_line) simp_all

lemma coded_cleanup: "does (async_cleanup_staged_apk W t s reason expected) coded"
  unfolding async_cleanup_staged_apk_def
  by (auto intro!: coded_intro coded_panel [where K = asks] only_intro identity_root_asks cleanup_asks split: option.split)

lemma coded_stage_copy: "does (stage_copy W t d expected path) coded"
  unfolding stage_copy_def
proof (rule coded_trying [OF only_doesI [OF only_chain [OF async_push_line asks_line [OF verify_remote_asks]]]], goal_cases)
  case (1 e)
  have "does (trying (async_close W False) (\<lambda>c. lastly (throw c) (async_close W False))
      (\<lambda>_. chain (async_clear_interrupted_stage W t expected path) (\<lambda>_. throw (blamed StageInterrupted e))) :: unit task) coded"
  proof (intro coded_close_trying coded_intro)
    show "does (lastly (throw c) (async_close W False) :: unit task) (\<lambda>new r. True)" for c
      by (rule does_mono [OF hang_lastly [OF only_throw]]) simp
  qed simp_all
  then show ?case by (auto intro!: coded_lastly coded_throw coded_close)
next
  case (2 x)
  show ?case by (rule coded_close)
qed

lemma open_does: "does (async_open_verified_apk W deadline d) (\<lambda>new r. list_all (\<lambda>_. True) new)"
  using open_apk_only [of "\<lambda>_. True"] by (simp add: only_def)

lemma coded_stage: "does (async_stage_apk W t d job expected) coded"
  unfolding async_stage_apk_def
  by (intro coded_intro coded_trying [OF open_does] coded_trying [OF connect_does]
      coded_trying [OF only_doesI [OF stage_admission_line]] coded_stage_copy) simp_all

lemma coded_update_on_device: "does (update_on_device W t d path) coded"
  unfolding update_on_device_def Let_def
  by (intro coded_trying [OF only_doesI [OF update_admission_line]] coded_trying [OF only_doesI [OF update_copy_line]]
      coded_trying [OF only_doesI [OF install_run_line]] coded_trying [OF only_doesI [OF cleanup_asks]] coded_intro) simp_all

lemma coded_update: "does (async_update_installed_apk W t d) coded"
proof -
  have rest: "does (trying (async_connect W True) (\<lambda>e. throw (blamed TargetUnreachable e)) (\<lambda>_. update_on_device W t d path)) coded" for path
    by (intro coded_trying [OF connect_does] coded_throw coded_update_on_device) simp
  have named: "does (chain tick (\<lambda>i. case remote_path (aw_nonce W i) of None \<Rightarrow> throw (Raised AdbInvalidRequest)
      | Some path \<Rightarrow> lastly (trying (async_connect W True) (\<lambda>e. throw (blamed TargetUnreachable e))
          (\<lambda>_. update_on_device W t d path)) (tell FileClosed))) coded"
    by (rule coded_chain [OF coded_tick]) (auto intro!: coded_throw coded_lastly rest coded_tell split: option.split)
  have opened: "does (async_open_verified_apk W False d) coded"
  proof -
    have cut: "cut_exc False c = Interrupted" for c by (simp add: cut_exc_def)
    show ?thesis
      unfolding async_open_verified_apk_def keep_apk_def
      by (rule coded_chain [OF coded_tick])
        (auto intro!: coded_chain coded_throw coded_give coded_tell simp: cut split: option.split)
  qed
  show ?thesis
    unfolding async_update_installed_apk_def
    by (intro coded_chain [OF coded_request(1)] coded_chain [OF opened] named)
qed

text \<open>No failure of the connection, of its deadline or of an answer leaves an operation as it is.\<close>

definition speaks_codes :: "'a task \<Rightarrow> bool" where
  "speaks_codes m \<longleftrightarrow> (\<forall>l. case fst (m l) of
     Inl e \<Rightarrow> e \<in> {Interrupted, Unforeseen} \<union> range Raised | Inr x \<Rightarrow> True)"

lemma coded_speaks: "does m coded \<Longrightarrow> speaks_codes m"
  unfolding speaks_codes_def
proof
  fix l assume "does m coded"
  then have "coded new (fst (m l))" if "al_log (snd (m l)) = new @ al_log l" for new
    using that by (fastforce simp: does_def coded_def)
  moreover obtain new where "al_log (snd (m l)) = new @ al_log l" using \<open>does m coded\<close> by (auto simp: does_def)
  ultimately have c: "coded new (fst (m l))" by blast
  show "case fst (m l) of Inl e \<Rightarrow> e \<in> {Interrupted, Unforeseen} \<union> range Raised | Inr x \<Rightarrow> True"
  proof (cases "fst (m l)")
    case (Inl e)
    then show ?thesis using c by (cases e) (auto simp: coded_def communication_failures_def)
  qed simp
qed

text \<open>C26. Whatever the panel, the network, the deadline or the answers do, an operation of the installer ends in a
  value, in one of the installer's own codes, in the cancellation of its caller or in an exception no handler names;
  a broken answer or a lost connection never leaves it as it is.\<close>

theorem failures_are_codes:
  "speaks_codes (async_preflight_install W t d admit authorize) \<and> speaks_codes (async_verify_installed_target W t mode package)
   \<and> speaks_codes (async_installed_artifact_size W t d mode authorize) \<and> speaks_codes (async_stage_apk W t d job mode)
   \<and> speaks_codes (async_install_staged_apk W t d job mode) \<and> speaks_codes (async_update_installed_apk W t d)
   \<and> speaks_codes (async_cleanup_staged_apk W t s reason mode)"
  by (intro conjI coded_speaks coded_preflight coded_verify coded_size coded_stage coded_install coded_update coded_cleanup)

section \<open>Connections\<close>

definition gives_back :: "'a task \<Rightarrow> bool" where
  "gives_back m \<longleftrightarrow> (\<forall>l. \<exists>new. al_log (snd (m l)) = new @ al_log l
     \<and> (fst (m l) = Inl Unforeseen \<or> line_state new \<noteq> Some True) \<and> file_state new \<noteq> Some True)"

lemma settled_gives_back: "does m settled \<Longrightarrow> gives_back m"
  by (auto simp: does_def gives_back_def settled_def down_def)

fun no_file :: "adb_event \<Rightarrow> bool" where
  "no_file FileOpened \<longleftrightarrow> False"
| "no_file _ \<longleftrightarrow> True"

lemma no_file_state: "list_all no_file new \<Longrightarrow> file_state new \<noteq> Some True"
  by (induction new) auto

lemma asks_no_file: "only asks m \<Longrightarrow> only no_file m"
  by (erule only_mono) (case_tac e; simp)

lemma on_panel_no_file: "only no_file m \<Longrightarrow> only no_file (on_panel W authorize blame m)"
  unfolding on_panel_def by (intro only_intro) simp_all

lemma down_gives_back: "ends_down m \<Longrightarrow> only no_file m \<Longrightarrow> gives_back m"
proof (rule settled_gives_back)
  assume "ends_down m" "only no_file m"
  from does_conj [OF this(1) this(2) [unfolded only_def]] show "does m settled"
    by (rule does_mono) (auto simp: settled_def dest: no_file_state)
qed

lemma line_no_file: "only on_line m \<Longrightarrow> only no_file m"
  by (erule only_mono) (case_tac e; simp)


section \<open>Evidence\<close>




lemma blank_log: "al_log blank_line = []"
  by (simp add: blank_line_def)


section \<open>Answers\<close>

text \<open>C19. The preflight program and the parser of its answer agree: on a panel whose shell prints whole lines that are no
  markers, within the bound, the parser sees of every command exactly what it printed and how it ended, and decides on
  that alone.\<close>

theorem preflight_reads_what_was_printed:
  assumes "preflight_honest run nonce"
  shows "parse_preflight (preflight_answer run nonce) nonce target descriptor admit
    = bind_res (well_formed (identity_of (map (\<lambda>(name, command). (name, run command)) preflight_sections))) (\<lambda>observed.
        admit_sections (map (\<lambda>(name, command). (name, run command)) preflight_sections) observed target descriptor admit)"
  using parse_preflight_run [OF assms] by (simp add: preflight_seen_def run_sections_def)

theorem preflight_reads_what_was_printed_witness:
  "preflight_honest sample_shell sample_nonce
   \<and> parse_preflight (preflight_answer sample_shell sample_nonce) sample_nonce sample_adb_target sample_descriptor False
     = Inr sample_admitted"
  using preflight_reads_what_was_printed [OF sample_preflight_honest, of sample_adb_target sample_descriptor False]
    sample_identity sample_admission
  by (simp add: sample_preflight_honest preflight_seen_def run_sections_def)

text \<open>The old app and its data are absent, and of the package itself what a clean or an installed target may have.\<close>

definition only_target :: "(string \<Rightarrow> string list \<times> int) \<Rightarrow> string \<Rightarrow> bool" where
  "only_target run target \<longleftrightarrow> (\<forall>package \<in> set probed_package_ids - {target}. package_absent run package)
     \<and> (\<forall>(package, path) \<in> set residue_probes. package \<noteq> target \<longrightarrow> no_residue run path)"

definition nothing_there :: "(string \<Rightarrow> string list \<times> int) \<Rightarrow> bool" where
  "nothing_there run \<longleftrightarrow> (\<forall>package \<in> set probed_package_ids. package_absent run package)
     \<and> (\<forall>path \<in> set residue_paths. no_residue run path)"

definition root_printed :: "(string \<Rightarrow> string list \<times> int) \<Rightarrow> root_mode \<Rightarrow> bool" where
  "root_printed run mode \<longleftrightarrow> (case mode of
     RootAdbd \<Rightarrow> reads run ''id -u'' ''0'' \<and> (\<forall>b \<in> set root_data_bases. reads run (base_command b) ''readable'')
   | RootSu \<Rightarrow> reads run ''id -u'' ''2000'' \<and> reads run su_observation_command ''present''
   | Rootless \<Rightarrow> reads run ''id -u'' ''2000'' \<and> reads run su_observation_command ''absent''
       \<and> reads run ''getprop ro.secure'' ''1'' \<and> reads run ''getprop ro.debuggable'' ''0'')"

lemma absent_of:
  assumes "installed_packages (preflight_seen run) (enumerate 0 probed_package_ids) = Inr installed"
    and "package \<in> set probed_package_ids" "package \<notin> set installed"
  shows "package_absent run package"
proof -
  obtain i where i: "i < length probed_package_ids" "probed_package_ids ! i = package"
    using assms(2) by (auto simp: in_set_conv_nth)
  then have m: "(i, package) \<in> set (enumerate 0 probed_package_ids)"
    by (auto simp: in_set_enumerate_eq)
  from installed_packages_sound [OF assms(1) m assms(3)] show ?thesis
    by (rule package_observed_absent [OF _ m refl])
qed

lemma posture_get_preflight:
  "section_get (preflight_seen run) ''UID'' = run ''id -u''"
  "section_get (preflight_seen run) ''SECURE'' = run ''getprop ro.secure''"
  "section_get (preflight_seen run) ''DEBUGGABLE'' = run ''getprop ro.debuggable''"
  "section_get (preflight_seen run) ''SU'' = run su_observation_command"
  by (rule preflight_get, simp add: preflight_sections_def posture_sections_def)+

lemma base_in: "b \<in> set root_data_bases \<Longrightarrow> \<exists>n \<in> set base_names. (n, base_command b) \<in> set preflight_sections"
proof -
  assume "b \<in> set root_data_bases"
  then obtain i where i: "i < length root_data_bases" "root_data_bases ! i = b" by (auto simp: in_set_conv_nth)
  have s: "base_sections = zip base_names (map base_command root_data_bases)" by (simp add: base_sections_def base_names_def)
  have l: "length base_names = length root_data_bases" by (simp add: base_names_def numbered_def)
  have "base_sections ! i = (base_names ! i, base_command b)" "i < length base_sections" using i l by (simp_all add: s)
  then have "(base_names ! i, base_command b) \<in> set base_sections" by (metis nth_mem)
  then show ?thesis using i l by (auto simp: preflight_sections_def intro!: bexI [of _ "base_names ! i"])
qed

lemma distinct_snd_eq: "distinct (map snd ps) \<Longrightarrow> (a, c) \<in> set ps \<Longrightarrow> (b, c) \<in> set ps \<Longrightarrow> a = b"
proof (induction ps)
  case (Cons p ps)
  then show ?case by (cases p) (force simp: image_iff)
qed simp

lemma root_mode_printed:
  assumes "parse_root_mode (preflight_seen run) = Inr mode" "bases_readable (preflight_seen run) = Inr readable"
    and "mode = RootAdbd \<longrightarrow> readable"
  shows "root_printed run mode"
proof -
  have base: "reads run (base_command b) ''readable''" if ok: "readable" and b: "b \<in> set root_data_bases" for b
  proof -
    obtain n where n: "n \<in> set base_names" "(n, base_command b) \<in> set preflight_sections" using base_in [OF b] by blast
    have "word_in [''readable'', ''unreadable''] (section_get (preflight_seen run) n)"
        "fst (section_get (preflight_seen run) n) = [''readable'']"
      using assms(2) ok n(1) by (auto simp: bases_readable_def answer_iff list_all_iff)
    then show ?thesis using preflight_get [OF n(2)] by (simp add: reads_def word_in_def prod_eq_iff)
  qed
  show ?thesis
    using assms(1,3) base
    by (auto simp: parse_root_mode_def posture_get_preflight root_printed_def reads_def split: prod.splits if_splits)
qed

text \<open>C5. What an accepted preflight proves of the panel, for every panel whose shell prints whole lines: it printed the
  target's own serial, model, ABI and SDK, its SDK and ABI are among those the descriptor supports, its root mode is the
  one reported, and neither app is installed, remembered or has left data behind; where the caller asked for it, the
  target alone may be there, and is then reported as such.\<close>

theorem admitted_panel_is_clean:
  assumes "preflight_honest run nonce"
    and "parse_preflight (preflight_answer run nonce) nonce target descriptor admit = Inr p"
  shows "identity_printed run (at_serial target) (at_model target) (at_primary_abi target) (at_android_sdk target)
    \<and> ds_min_sdk descriptor \<le> at_android_sdk target \<and> at_primary_abi target \<in> set (ds_supported_abis descriptor)
    \<and> root_printed run (pv_root_mode p)
    \<and> (if pv_target_installed p then admit \<and> only_target run (ds_package_id descriptor) else nothing_there run)"
proof -
  obtain ob where ob: "identity_of (preflight_seen run) = Some ob"
      "admit_sections (preflight_seen run) ob target descriptor admit = Inr p"
    using assms(2) unfolding parse_preflight_run [OF assms(1)] by (auto simp: answer_iff)
  from admit_sections_parts [OF ob(2)] obtain installed readable residue where a:
    "observed_same ob target" "installed_packages (preflight_seen run) (enumerate 0 probed_package_ids) = Inr installed"
    "bases_readable (preflight_seen run) = Inr readable" "residue_owners (preflight_seen run) = Inr residue"
    "classify_target_packages (ds_package_id descriptor) installed residue admit = Inr (pv_target_installed p)"
    "parse_root_mode (preflight_seen run) = Inr (pv_root_mode p)" "pv_root_mode p = RootAdbd \<longrightarrow> readable"
    "ds_min_sdk descriptor \<le> ob_android_sdk ob" "ob_primary_abi ob \<in> set (ds_supported_abis descriptor)" by metis
  have same: "ob_serial ob = at_serial target" "ob_model ob = at_model target" "ob_primary_abi ob = at_primary_abi target"
      "ob_android_sdk ob = at_android_sdk target"
    using a(1) by (simp_all add: observed_same_def)
  have absent: "package_absent run q" if "q \<in> set probed_package_ids" "q \<notin> set installed" for q
    by (rule absent_of [OF a(2) that])
  have residues: "no_residue run path" if "path \<in> set residue_paths" "\<And>q. (q, path) \<in> set residue_probes \<Longrightarrow> q \<notin> residue" for path
    by (rule residue_owners_empty [OF a(4) that])
  have owner: "q = q'" if "(q, path) \<in> set residue_probes" "(q', path) \<in> set residue_probes" for q q' path
  proof -
    have "distinct (map snd residue_probes)" by code_simp
    then show ?thesis using that by (rule distinct_snd_eq)
  qed
  have "if pv_target_installed p then admit \<and> only_target run (ds_package_id descriptor) else nothing_there run"
  proof (cases "pv_target_installed p")
    case True
    with a(5) have "classify_target_packages (ds_package_id descriptor) installed residue admit = Inr True" by simp
    note c = classify_true [OF this]
    have clear: "no_residue run path" if r: "(q, path) \<in> set residue_probes" and q: "q \<noteq> ds_package_id descriptor" for q path
    proof (rule residues)
      show "path \<in> set residue_paths" using r by (force simp: residue_paths_def)
      show "q' \<notin> residue" if "(q', path) \<in> set residue_probes" for q'
        using owner [OF r that] q c by blast
    qed
    have gone: "package_absent run q" if "q \<in> set probed_package_ids - {ds_package_id descriptor}" for q
      using that c by (intro absent) blast+
    show ?thesis using True c clear gone unfolding only_target_def by auto
  next
    case False
    with a(5) have "classify_target_packages (ds_package_id descriptor) installed residue admit = Inr False" by simp
    from classify_false [OF this] have e: "installed = []" "residue = {}" by simp_all
    show ?thesis using False absent residues unfolding nothing_there_def e by simp
  qed
  then show ?thesis
    using identity_seen [OF ob(1)] a(8,9) root_mode_printed [OF a(6,3,7)] by (simp add: same)
qed

theorem admitted_panel_is_clean_witness:
  "preflight_honest sample_shell sample_nonce
   \<and> parse_preflight (preflight_answer sample_shell sample_nonce) sample_nonce sample_adb_target sample_descriptor False
     = Inr sample_admitted \<and> nothing_there sample_shell"
  using admitted_panel_is_clean [OF sample_preflight_honest sample_preflight_read]
  by (simp add: sample_preflight_honest sample_preflight_read sample_admitted_def)

section \<open>What reaches the shell\<close>

text \<open>
  How a POSIX shell reads one word of a command line: outside quotes a character that is safe stands
  for itself and any other would be interpreted (\<open>None\<close>), between single quotes all stand for
  themselves, between double quotes all but the dollar, the back quote and the backslash.
\<close>

datatype quoting = Bare | InSingle | InDouble

definition expands :: "char \<Rightarrow> bool" where
  "expands c \<longleftrightarrow> c \<in> {CHR 0x24, CHR 0x60, backslash_char}"

fun shell_word :: "quoting \<Rightarrow> string \<Rightarrow> string option" where
  "shell_word q [] = (if q = Bare then Some [] else None)"
| "shell_word Bare (c # s) = (if c = single_quote then shell_word InSingle s
     else if c = quote_char then shell_word InDouble s
     else if shell_safe c then map_option ((#) c) (shell_word Bare s) else None)"
| "shell_word InSingle (c # s) = (if c = single_quote then shell_word Bare s
     else map_option ((#) c) (shell_word InSingle s))"
| "shell_word InDouble (c # s) = (if c = quote_char then shell_word Bare s
     else if expands c then None else map_option ((#) c) (shell_word InDouble s))"

lemma quotes_unsafe: "\<not> shell_safe single_quote" "\<not> shell_safe quote_char" "single_quote \<noteq> quote_char" "quote_char \<noteq> single_quote" "\<not> expands single_quote"
  by code_simp+

lemma shell_word_safe: "list_all shell_safe s \<Longrightarrow> shell_word Bare s = Some s"
proof (induction s)
  case (Cons c s)
  then have "c \<noteq> single_quote" "c \<noteq> quote_char" using quotes_unsafe by auto
  then show ?case using Cons by simp
qed simp

lemma shell_word_quoted: "shell_word InSingle (concat (map quote_step s) @ [single_quote]) = Some s"
  by (induction s) (simp_all add: quote_step_def quotes_unsafe)

text \<open>\<open>shlex.quote\<close> hides any text from the shell: the word the shell reads back is the text itself, character by
  character.  So what \<open>su\<close> is given to run is exactly the fixed read-only inspection program.\<close>

lemma quoted_text_reads_back:
  "shell_word Bare (shlex_quote s) = Some s"
  using shell_word_safe [of s] shell_word_quoted [of s] by (simp add: shlex_quote_def quotes_unsafe)

text \<open>What a shell or a path could take for something else: white space, operators, expansions, quotes and globs.\<close>

definition shell_special :: "char \<Rightarrow> bool" where
  "shell_special c \<longleftrightarrow> code_of c \<le> 32 \<or> code_of c \<ge> 127 \<or> c \<in> set ''|&;<>()$*?[]{}#!%,:@^'' \<or> expands c
     \<or> c = single_quote \<or> c = quote_char"

lemma apk_path_char_plain: "apk_path_char c \<Longrightarrow> \<not> shell_special c"
  by (auto simp: apk_path_char_def shell_special_def expands_def is_alnum_def is_digit_def is_lower_def is_upper_def
      less_eq_char_def code_of_def single_quote_def quote_char_def backslash_char_def)

lemma safe_apk_path_chars:
  assumes "safe_apk_path path"
  shows "list_all apk_path_char path"
proof -
  have p: "starts_with path ''/data/app/''" "ends_with path ''/base.apk''" "19 < length path"
      "list_all apk_path_char (take (length path - 19) (drop 10 path))"
    using assms by (simp_all add: safe_apk_path_def installed_apk_pattern_def)
  have "path = take 10 path @ take (length path - 19) (drop 10 path) @ drop (length path - 9) path"
  proof -
    have "drop 10 path = take (length path - 19) (drop 10 path) @ drop (length path - 19) (drop 10 path)"
      by (rule append_take_drop_id [symmetric])
    also have "drop (length path - 19) (drop 10 path) = drop (length path - 9) path" using p(3) by (simp add: add.commute)
    finally show ?thesis by (metis append_take_drop_id)
  qed
  moreover have "take 10 path = ''/data/app/''" using p(1) by (simp add: starts_with_def numeral_eq_Suc)
  moreover have "drop (length path - 9) path = ''/base.apk''" using p(2) by (simp add: ends_with_def numeral_eq_Suc)
  moreover have "list_all apk_path_char ''/data/app/''" "list_all apk_path_char ''/base.apk''" by code_simp+
  ultimately show ?thesis using p(4) by (metis list_all_append)
qed

text \<open>The path of an installed application, which the panel chose and which the next program is built from, is
  only ever one that stays in \<open>/data/app\<close>, ends in \<open>base.apk\<close> and holds nothing the shell interprets and no step to a
  parent directory.\<close>

theorem installed_path_is_plain:
  assumes "parse_installed_apk_path body nonce = Some (Some path)"
  shows "starts_with path ''/data/app/'' \<and> ends_with path ''/base.apk'' \<and> list_all (\<lambda>c. \<not> shell_special c) path
    \<and> ''..'' \<notin> set (split_on (CHR ''/'') path)"
proof -
  have safe: "safe_apk_path path"
    using assms by (auto simp: parse_installed_apk_path_def Let_def bind_eq_Some_conv split: if_splits list.splits prod.splits)
  from safe_apk_path_chars [OF this] have "list_all (\<lambda>c. \<not> shell_special c) path"
    by (auto simp: list_all_iff apk_path_char_plain)
  then show ?thesis using safe by (auto simp: safe_apk_path_def installed_apk_pattern_def list_all_iff)
qed

definition sample_apk_path :: string where
  "sample_apk_path = ''/data/app/~~aB==/io.panelassistant.android-x_1/base.apk''"

definition sample_package_answer :: string where
  "sample_package_answer = frame_bytes (begin_mark ''PACKAGE'' sample_nonce # [''package:'' @ sample_apk_path]
     @ [status_mark ''PACKAGE'' sample_nonce 0])"

lemma sample_package_read: "parse_installed_apk_path sample_package_answer sample_nonce = Some (Some sample_apk_path)"
proof -
  let ?ls = "begin_mark ''PACKAGE'' sample_nonce # [''package:'' @ sample_apk_path] @ [status_mark ''PACKAGE'' sample_nonce 0]"
  have l: "length (frame_bytes ?ls) \<le> max_shell_response_bytes"
  proof (rule frame_length_bound)
    have "list_all (\<lambda>l. short_line l line_ruler) ?ls" by code_simp
    then show "list_all (\<lambda>l. length l \<le> 80) ?ls"
      by (auto simp: list_all_iff line_ruler_length dest!: short_line_length)
  qed simp_all
  have "plain_mark ''PACKAGE''" "section_ok ([''package:'' @ sample_apk_path], 0)" by code_simp+
  from parse_single_frame [OF this(1) sample_nonce_plain(2) this(2) l]
  have "parse_single_section sample_package_answer ''PACKAGE'' sample_nonce = Some ([''package:'' @ sample_apk_path], 0)"
    by (simp add: sample_package_answer_def)
  moreover have "is_package_path (''package:'' @ sample_apk_path) \<and> safe_apk_path sample_apk_path
      \<and> remove_prefix ''package:'' (''package:'' @ sample_apk_path) = sample_apk_path" by code_simp
  ultimately show ?thesis by (simp add: parse_installed_apk_path_def guard_def)
qed

theorem installed_path_is_plain_witness:
  "parse_installed_apk_path sample_package_answer sample_nonce = Some (Some sample_apk_path)
   \<and> list_all (\<lambda>c. \<not> shell_special c) sample_apk_path"
  using installed_path_is_plain [OF sample_package_read] by (simp add: sample_package_read)

end
