(* ===== verification/Transport_Protocol.thy ===== *)
theory Transport_Protocol
  imports Net_Address Release_Identity
begin

text \<open>
  The wire vocabulary of the native transport (transport_protocol.py): the scalar validators,
  the schema of each message and the check of an observation's value against its channel's
  descriptor.  A validator returns the accepted value, or \<open>None\<close> when it raises (\<open>vol.Invalid\<close> in
  the schemas, \<open>ValueRejected\<close> in the value checks; a descriptor without a field it must have is
  a \<open>KeyError\<close>, also \<open>None\<close>).

  voluptuous, yarl and Home Assistant's date parser are not part of the repository.  A schema is
  written down as data, as the source writes it, and the record below carries what runs it.
\<close>

section \<open>Libraries the validators call\<close>

text \<open>A schema handed to voluptuous: a callable, a literal, \<open>vol.In\<close>, \<open>object\<close>, a dict (its flag
  says whether other keys are removed or refused) and \<open>vol.All\<close>.\<close>

datatype extra_keys = RemoveExtra | PreventExtra

datatype schema =
    Check "pyval \<Rightarrow> pyval option"
  | Literal pyval
  | OneOf "pyval list"
  | AnyObject
  | Fields extra_keys "schema_field list"
  | AllOf "schema list"
and schema_field =
    Required string schema
  | Optional string "pyval option" schema

record moment =
  mo_has_zone :: bool
  mo_utc_offset :: "rat option"

record transport_libs =
  tl_schema :: "schema \<Rightarrow> pyval \<Rightarrow> pyval option"
  tl_url :: "string \<Rightarrow> (string \<times> string option) option"
  tl_datetime :: "string \<Rightarrow> moment option"

section \<open>Bounds and vocabulary\<close>

abbreviation max_channels :: nat where "max_channels \<equiv> 256"
abbreviation max_observations :: nat where "max_observations \<equiv> 256"
abbreviation max_capabilities :: nat where "max_capabilities \<equiv> 16"
abbreviation max_unsupported :: nat where "max_unsupported \<equiv> 128"
abbreviation max_options :: nat where "max_options \<equiv> 64"
abbreviation max_attributes :: nat where "max_attributes \<equiv> 32"
abbreviation max_family_index :: int where "max_family_index \<equiv> 64"
abbreviation max_string_length :: nat where "max_string_length \<equiv> 255"
abbreviation max_unit_length :: nat where "max_unit_length \<equiv> 16"
abbreviation max_url_length :: nat where "max_url_length \<equiv> 2048"
abbreviation max_placeholders :: nat where "max_placeholders \<equiv> 8"
abbreviation max_headers :: nat where "max_headers \<equiv> 16"
abbreviation max_header_length :: nat where "max_header_length \<equiv> 1024"
abbreviation max_event_id :: int where "max_event_id \<equiv> 9223372036854775807"
abbreviation max_json_integer :: int where "max_json_integer \<equiv> 9223372036854775808"

definition known_capabilities :: "string list" where
  "known_capabilities = [''state'', ''logs'', ''events'', ''commands'', ''approval'', ''voice'',
     ''media'', ''voice_stream_session'', ''management'', ''local_adb'', ''ui_subscribe'',
     ''ui_bundle'', ''unknown_state'']"

definition outcomes :: "string list" where
  "outcomes = [''applied'', ''superseded'', ''pending_approval'', ''refused'', ''failed'']"

definition outcomes_with_code :: "string list" where
  "outcomes_with_code = [''refused'', ''failed'']"

definition outcome_codes :: "string list" where
  "outcome_codes = [''unknown_command'', ''unknown_channel'', ''invalid_value'',
     ''not_commandable'', ''expired'', ''approval_denied'', ''approval_timeout'',
     ''refused_hardened'', ''hardware_unavailable'', ''failed'']"

definition platforms :: "string list" where
  "platforms = [''binary_sensor'', ''button'', ''camera'', ''event'', ''light'', ''media_player'',
     ''number'', ''select'', ''sensor'', ''switch'', ''text'', ''update'', ''image'']"

definition strs :: "string list \<Rightarrow> pyval list" where
  "strs = map PStr"

section \<open>Scalar validators\<close>

definition head_then :: "(char \<Rightarrow> bool) \<Rightarrow> (char \<Rightarrow> bool) \<Rightarrow> nat \<Rightarrow> string \<Rightarrow> bool" where
  "head_then h t n s \<longleftrightarrow> s \<noteq> [] \<and> h (hd s) \<and> list_all t (tl s) \<and> length s \<le> Suc n"

definition word_char :: "char \<Rightarrow> bool" where
  "word_char c \<longleftrightarrow> is_lower c \<or> is_digit c \<or> c = CHR ''_''"

definition token_char :: "char \<Rightarrow> bool" where
  "token_char c \<longleftrightarrow> is_alnum c \<or> c = CHR ''_'' \<or> c = CHR ''-''"

definition channel_pattern :: "string \<Rightarrow> bool" where
  "channel_pattern = head_then is_lower word_char 47"

definition code_pattern :: "string \<Rightarrow> bool" where
  "code_pattern = head_then is_lower word_char 63"

definition unique_suffix_pattern :: "string \<Rightarrow> bool" where
  "unique_suffix_pattern = head_then (\<lambda>c. is_lower c \<or> is_digit c) word_char 47"

definition digest_pattern :: "string \<Rightarrow> bool" where
  "digest_pattern s \<longleftrightarrow> length s = 64 \<and> list_all is_lower_hex s"

definition session_token_pattern :: "string \<Rightarrow> bool" where
  "session_token_pattern s \<longleftrightarrow> s \<noteq> [] \<and> length s \<le> 64 \<and> list_all token_char s"

definition sendspin_key :: "string \<Rightarrow> bool" where
  "sendspin_key s \<longleftrightarrow> length s = 43 \<and> list_all token_char s"

definition header_name_pattern :: "string \<Rightarrow> bool" where
  "header_name_pattern = head_then (\<lambda>c. is_lower c \<or> is_digit c)
     (\<lambda>c. is_lower c \<or> is_digit c \<or> c = CHR ''-'') 63"

definition pattern :: "(string \<Rightarrow> bool) \<Rightarrow> pyval \<Rightarrow> pyval option" where
  "pattern p v = (case v of PStr s \<Rightarrow> (if p s then Some v else None) | _ \<Rightarrow> None)"

definition strict_bool :: "pyval \<Rightarrow> pyval option" where
  "strict_bool v = (case v of PBool b \<Rightarrow> Some v | _ \<Rightarrow> None)"

definition strict_int :: "int \<Rightarrow> int \<Rightarrow> pyval \<Rightarrow> pyval option" where
  "strict_int low high v =
     (case v of PInt i \<Rightarrow> (if low \<le> i \<and> i \<le> high then Some v else None) | _ \<Rightarrow> None)"

definition is_finite_number :: "pyval \<Rightarrow> bool" where
  "is_finite_number v = (case v of
     PInt i \<Rightarrow> - max_json_integer \<le> i \<and> i \<le> max_json_integer
   | PFloat (FFinite q) \<Rightarrow> True
   | _ \<Rightarrow> False)"

definition finite_number :: "pyval \<Rightarrow> pyval option" where
  "finite_number v = (if is_finite_number v then Some v else None)"

definition nullable :: "(pyval \<Rightarrow> pyval option) \<Rightarrow> pyval \<Rightarrow> pyval option" where
  "nullable f v = (if v = PNone then Some PNone else f v)"

definition plain_string :: "nat \<Rightarrow> pyval \<Rightarrow> pyval option" where
  "plain_string n v = (case v of
     PStr s \<Rightarrow> (if n < length s \<or> list_ex is_control s then None else Some v) | _ \<Rightarrow> None)"

definition unit_text :: "pyval \<Rightarrow> pyval option" where
  "unit_text v = do { t \<leftarrow> plain_string max_unit_length v;
     (if t = PStr [] then None else Some t) }"

text \<open>\<open>[f(x) for x in xs]\<close> where \<open>f\<close> may raise.\<close>

fun opt_map :: "('a \<Rightarrow> 'b option) \<Rightarrow> 'a list \<Rightarrow> 'b list option" where
  "opt_map f [] = Some []"
| "opt_map f (x # xs) = do { y \<leftarrow> f x; ys \<leftarrow> opt_map f xs; Some (y # ys) }"

definition bounded_list :: "transport_libs \<Rightarrow> nat \<Rightarrow> schema \<Rightarrow> pyval \<Rightarrow> pyval option" where
  "bounded_list L n item v = (case v of
     PList xs \<Rightarrow> (if n < length xs then None
                  else map_option PList (opt_map (tl_schema L item) xs))
   | _ \<Rightarrow> None)"

definition interface_address :: "pyval \<Rightarrow> pyval option" where
  "interface_address v = (case v of
     PStr s \<Rightarrow> (if 45 < length s \<or> CHR ''%'' \<in> set s then None
       else case ip_address s of None \<Rightarrow> None | Some parsed \<Rightarrow>
         (let a = (case parsed of IPv6 n z \<Rightarrow>
                     (case ipv4_mapped n of Some m \<Rightarrow> IPv4 m | None \<Rightarrow> parsed)
                   | IPv4 n \<Rightarrow> parsed)
          in if is_loopback a \<or> is_link_local a \<or> is_unspecified a \<or> is_multicast a then None
             else Some (PStr (ip_string a))))
   | _ \<Rightarrow> None)"

definition options_list :: "transport_libs \<Rightarrow> pyval \<Rightarrow> pyval option" where
  "options_list L v = (case bounded_list L max_options (Check (pattern code_pattern)) v of
     Some (PList xs) \<Rightarrow> (if xs = [] \<or> \<not> distinct xs then None else Some (PList xs))
   | _ \<Rightarrow> None)"

section \<open>Comparing numbers\<close>

text \<open>Python's \<open><\<close> of two numbers is exact across \<open>int\<close> and \<open>float\<close>; \<open>None\<close> is the \<open>TypeError\<close>
  of any other operand.\<close>

definition py_number :: "pyval \<Rightarrow> pyfloat option" where
  "py_number v = (case v of PInt i \<Rightarrow> Some (FFinite (of_int i)) | PFloat f \<Rightarrow> Some f
     | PBool b \<Rightarrow> Some (FFinite (if b then 1 else 0)) | _ \<Rightarrow> None)"

fun float_less :: "pyfloat \<Rightarrow> pyfloat \<Rightarrow> bool" where
  "float_less (FFinite p) (FFinite q) \<longleftrightarrow> p < q"
| "float_less FNegInf (FFinite q) \<longleftrightarrow> True"
| "float_less FNegInf FInf \<longleftrightarrow> True"
| "float_less (FFinite p) FInf \<longleftrightarrow> True"
| "float_less _ _ \<longleftrightarrow> False"

definition py_less :: "pyval \<Rightarrow> pyval \<Rightarrow> bool option" where
  "py_less a b = (case (py_number a, py_number b) of
     (Some x, Some y) \<Rightarrow> Some (float_less x y) | _ \<Rightarrow> None)"

text \<open>\<open>d[k]\<close>: \<open>None\<close> is the \<open>KeyError\<close>.\<close>

abbreviation item :: "pydict \<Rightarrow> string \<Rightarrow> pyval option" where
  "item d k \<equiv> map_of d k"

section \<open>Descriptors\<close>

definition descriptor_consistent :: "pyval \<Rightarrow> pyval option" where
  "descriptor_consistent v = (case v of
     PDict d \<Rightarrow> do {
       family \<leftarrow> item d ''family''; index \<leftarrow> item d ''index'';
       guard ((family = PNone) = (index = PNone));
       low \<leftarrow> item d ''min''; high \<leftarrow> item d ''max''; step \<leftarrow> item d ''step'';
       exceeds \<leftarrow> (if low \<noteq> PNone \<and> high \<noteq> PNone then py_less high low else Some False);
       guard (\<not> exceeds);
       positive \<leftarrow> (if step \<noteq> PNone then py_less (PInt 0) step else Some True);
       guard positive;
       platf \<leftarrow> item d ''platform''; options \<leftarrow> item d ''options'';
       guard (\<not> (platf = PStr ''select'' \<and> options = PNone));
       Some v }
   | _ \<Rightarrow> None)"

definition descriptor_schema :: "transport_libs \<Rightarrow> schema" where
  "descriptor_schema L = AllOf [
     Fields RemoveExtra [
       Required ''channel'' (Check (pattern channel_pattern)),
       Required ''platform'' (OneOf (strs platforms)),
       Required ''translation_key'' (Check (pattern code_pattern)),
       Required ''unique_suffix'' (Check (pattern unique_suffix_pattern)),
       Optional ''family'' (Some PNone) (Check (nullable (pattern code_pattern))),
       Optional ''index'' (Some PNone) (Check (nullable (strict_int 0 max_family_index))),
       Optional ''entity_category'' (Some PNone)
         (OneOf [PNone, PStr ''config'', PStr ''diagnostic'']),
       Optional ''enabled_default'' (Some (PBool True)) (Check strict_bool),
       Optional ''device_class'' (Some PNone) (Check (nullable (pattern code_pattern))),
       Optional ''unit'' (Some PNone) (Check (nullable unit_text)),
       Optional ''state_class'' (Some PNone) (Check (nullable (pattern code_pattern))),
       Optional ''force_update'' (Some (PBool False)) (Check strict_bool),
       Optional ''options'' (Some PNone) (Check (nullable (options_list L))),
       Optional ''min'' (Some PNone) (Check (nullable finite_number)),
       Optional ''max'' (Some PNone) (Check (nullable finite_number)),
       Optional ''step'' (Some PNone) (Check (nullable finite_number)),
       Optional ''commandable'' (Some (PBool False)) (Check strict_bool),
       Optional ''sensitive'' (Some (PBool False)) (Check strict_bool),
       Optional ''retain_last'' (Some (PBool False)) (Check strict_bool)],
     Check descriptor_consistent]"

definition dict_field :: "string \<Rightarrow> pyval \<Rightarrow> pyval option" where
  "dict_field k v = (case v of PDict d \<Rightarrow> item d k | _ \<Rightarrow> None)"

definition channels :: "transport_libs \<Rightarrow> pyval \<Rightarrow> pyval option" where
  "channels L v = (case bounded_list L max_channels (descriptor_schema L) v of
     Some (PList ds) \<Rightarrow> do { names \<leftarrow> opt_map (dict_field ''channel'') ds;
       (if distinct names then Some (PList ds) else None) }
   | _ \<Rightarrow> None)"

section \<open>The hello\<close>

definition protocol_range :: "pyval \<Rightarrow> pyval option" where
  "protocol_range v = (case v of
     PDict d \<Rightarrow> do { low \<leftarrow> item d ''min''; high \<leftarrow> item d ''max'';
       exceeds \<leftarrow> py_less high low; (if exceeds then None else Some v) }
   | _ \<Rightarrow> None)"

definition panel_version :: "pyval \<Rightarrow> pyval option" where
  "panel_version = pattern is_valid_panel_version"

definition did :: "pyval \<Rightarrow> pyval option" where
  "did = pattern is_valid_discovery_id"

definition hello_schema :: "transport_libs \<Rightarrow> schema" where
  "hello_schema L = Fields RemoveExtra [
     Required ''type'' (Literal (PStr ''panel_assistant/hello'')),
     Required ''protocol'' (AllOf [
       Fields RemoveExtra [
         Required ''min'' (Check (strict_int 1 1000)),
         Required ''max'' (Check (strict_int 1 1000))],
       Check protocol_range]),
     Optional ''did'' (Some PNone) (Check (nullable did)),
     Required ''app'' (Fields RemoveExtra [
       Optional ''package'' None (Check (plain_string 256)),
       Required ''version'' (Check panel_version),
       Required ''version_code'' (Check (strict_int 0 max_android_integer))]),
     Optional ''logs'' None (Fields PreventExtra [
       Optional ''saved_sink'' None (Fields PreventExtra [
         Required ''enabled'' (Check strict_bool),
         Required ''system_enabled'' (Check strict_bool),
         Required ''host'' (Check (plain_string 2048)),
         Required ''port'' (Check (strict_int 1 65535)),
         Required ''protocol'' (OneOf (strs [''udp'', ''tcp'', ''http'']))])]),
     Optional ''http_port'' None (Check (strict_int 1024 65535)),
     Optional ''addresses'' (Some (PList [])) (Check (bounded_list L 16 (Check interface_address))),
     Required ''contract_digest'' (Check (pattern digest_pattern)),
     Required ''capabilities''
       (Check (bounded_list L max_capabilities (Check (pattern code_pattern)))),
     Required ''channels'' (Check (channels L)),
     Optional ''unsupported'' (Some (PList []))
       (Check (bounded_list L max_unsupported (Check (pattern channel_pattern)))),
     Optional ''voice_stream_session'' None (Fields RemoveExtra [
       Required ''client_id'' (Check (pattern sendspin_key))])]"

section \<open>Reports\<close>

definition observation_consistent :: "pyval \<Rightarrow> pyval option" where
  "observation_consistent v = (case v of
     PDict d \<Rightarrow> do { state \<leftarrow> item d ''state'';
       guard (\<not> (state = PStr ''known'' \<and> item d ''value'' = None));
       guard ((state = PStr ''unknown'') = (item d ''reason'' \<noteq> None));
       Some v }
   | _ \<Rightarrow> None)"

definition observation_schema :: schema where
  "observation_schema = AllOf [
     Fields RemoveExtra [
       Required ''channel'' (Check (pattern channel_pattern)),
       Required ''state'' (OneOf (strs [''known'', ''unavailable'', ''unknown''])),
       Optional ''reason'' None (Check (pattern code_pattern)),
       Optional ''value'' None AnyObject,
       Optional ''attributes'' None AnyObject,
       Optional ''refresh'' (Some (PBool False)) (Check strict_bool)],
     Check observation_consistent]"

definition report_state_schema :: "transport_libs \<Rightarrow> schema" where
  "report_state_schema L = Fields RemoveExtra [
     Required ''type'' (Literal (PStr ''panel_assistant/report_state'')),
     Required ''session'' (Check (pattern session_token_pattern)),
     Required ''sync'' (OneOf (strs [''full_begin'', ''delta'', ''full_end''])),
     Required ''observations'' (Check (bounded_list L max_observations observation_schema))]"

definition report_event_schema :: schema where
  "report_event_schema = Fields RemoveExtra [
     Required ''type'' (Literal (PStr ''panel_assistant/report_event'')),
     Required ''session'' (Check (pattern session_token_pattern)),
     Required ''channel'' (Check (pattern channel_pattern)),
     Required ''event_id'' (Check (strict_int 0 max_event_id)),
     Required ''event_type'' (Check (pattern code_pattern))]"

definition restart_notice_schema :: schema where
  "restart_notice_schema = Fields RemoveExtra [
     Required ''type'' (Literal (PStr ''panel_assistant/restart_notice'')),
     Required ''session'' (Check (pattern session_token_pattern)),
     Required ''scope'' (OneOf (strs [''app'', ''panel''])),
     Required ''reason'' (OneOf (strs [''update'', ''settings'', ''recovery'', ''reboot''])),
     Required ''expected_back_ms'' (Check (strict_int 1 300000))]"

definition ui_update_schema :: "transport_libs \<Rightarrow> schema" where
  "ui_update_schema L = Fields RemoveExtra [
     Required ''type'' (Literal (PStr ''panel_assistant/ui_update'')),
     Required ''session'' (Check (pattern session_token_pattern)),
     Required ''subscription'' (Check (pattern session_token_pattern)),
     Required ''observations'' (Check (bounded_list L max_observations (AllOf [
       Fields RemoveExtra [
         Required ''channel'' (Check (pattern channel_pattern)),
         Required ''state'' (OneOf (strs [''known'', ''unavailable''])),
         Optional ''value'' None AnyObject],
       Check observation_consistent])))]"

section \<open>Command results\<close>

text \<open>A dict comprehension over a received dict, whose keys are already distinct.\<close>

fun opt_items :: "(pyval \<Rightarrow> pyval option) \<Rightarrow> (pyval \<Rightarrow> pyval option) \<Rightarrow> pydict \<Rightarrow> pydict option" where
  "opt_items f g [] = Some []"
| "opt_items f g ((k, v) # d) = do {
     f (PStr k); w \<leftarrow> g v; rest \<leftarrow> opt_items f g d; Some ((k, w) # rest) }"

definition placeholders :: "pyval \<Rightarrow> pyval option" where
  "placeholders v = (case v of
     PDict d \<Rightarrow> (if max_placeholders < length d then None
       else map_option PDict (opt_items (pattern code_pattern) (plain_string max_string_length) d))
   | _ \<Rightarrow> None)"

definition headers :: "pyval \<Rightarrow> pyval option" where
  "headers v = (case v of
     PDict d \<Rightarrow> (if max_headers < length d then None
       else map_option PDict
              (opt_items (pattern header_name_pattern) (plain_string max_header_length) d))
   | _ \<Rightarrow> None)"

definition outcome_consistent :: "pyval \<Rightarrow> pyval option" where
  "outcome_consistent v = (case v of
     PDict d \<Rightarrow> do { out \<leftarrow> item d ''outcome'';
       guard ((out \<in> set (strs outcomes_with_code)) = (item d ''code'' \<noteq> None));
       Some v }
   | _ \<Rightarrow> None)"

definition command_result_schema :: schema where
  "command_result_schema = AllOf [
     Fields RemoveExtra [
       Required ''type'' (Literal (PStr ''panel_assistant/command_result'')),
       Required ''session'' (Check (pattern session_token_pattern)),
       Required ''command_id'' (Check (pattern session_token_pattern)),
       Required ''outcome'' (OneOf (strs outcomes)),
       Optional ''code'' None (OneOf (strs outcome_codes)),
       Optional ''placeholders'' None (Check placeholders),
       Optional ''result'' None AnyObject,
       Optional ''status'' None (Check (strict_int 100 599)),
       Optional ''headers'' None (Check headers),
       Optional ''interim'' None (Check strict_bool)],
     Check outcome_consistent]"

section \<open>Values, typed by the platform the descriptor declared\<close>

definition byte_value :: "pyval \<Rightarrow> pyval option" where
  "byte_value v = strict_int 0 255 v"

definition url_value :: "transport_libs \<Rightarrow> string list \<Rightarrow> pyval \<Rightarrow> pyval option" where
  "url_value L schemes v = (case v of
     PStr s \<Rightarrow> (if max_url_length < length s \<or> list_ex is_space s then None
       else case tl_url L s of None \<Rightarrow> None | Some (scheme, host) \<Rightarrow>
         (if scheme \<notin> set schemes \<or> host = None \<or> host = Some [] then None else Some v))
   | _ \<Rightarrow> None)"

definition mapping_value :: "pyval \<Rightarrow> pydict option" where
  "mapping_value v = (case v of PDict d \<Rightarrow> Some d | _ \<Rightarrow> None)"

text \<open>\<open>x in options\<close> of a descriptor's list.\<close>

definition in_options :: "pyval \<Rightarrow> pyval \<Rightarrow> bool option" where
  "in_options x options = (case options of PList xs \<Rightarrow> Some (x \<in> set xs) | _ \<Rightarrow> None)"

definition light_color :: "pyval \<Rightarrow> pyval option" where
  "light_color v = do { color \<leftarrow> mapping_value v;
     r \<leftarrow> byte_value (dict_get color ''r''); g \<leftarrow> byte_value (dict_get color ''g'');
     b \<leftarrow> byte_value (dict_get color ''b'');
     Some (PDict [(''r'', r), (''g'', g), (''b'', b)]) }"

definition light_effect :: "pydict \<Rightarrow> pyval \<Rightarrow> pyval option" where
  "light_effect descriptor effect = do {
     options \<leftarrow> item descriptor ''options'';
     pattern code_pattern effect;
     listed \<leftarrow> (if options = PNone then Some True else in_options effect options);
     (if listed then Some effect else None) }"

definition validate_light :: "pyval \<Rightarrow> pydict \<Rightarrow> pyval option" where
  "validate_light v descriptor = do {
     light \<leftarrow> mapping_value v;
     on \<leftarrow> strict_bool (dict_get light ''on'');
     brightness \<leftarrow> (let b = dict_get light ''brightness'' in
       if b = PNone then Some [] else do { x \<leftarrow> byte_value b; Some [(''brightness'', x)] });
     color \<leftarrow> (let c = dict_get light ''color'' in
       if c = PNone then Some [] else do { x \<leftarrow> light_color c; Some [(''color'', x)] });
     effect \<leftarrow> (let e = dict_get light ''effect'' in
       if e = PNone then Some []
       else do { x \<leftarrow> light_effect descriptor e; Some [(''effect'', x)] });
     Some (PDict ([(''on'', on)] @ brightness @ color @ effect)) }"

definition validate_number :: "pyval \<Rightarrow> pydict \<Rightarrow> pyval option" where
  "validate_number v descriptor = do {
     guard (is_finite_number v);
     low \<leftarrow> item descriptor ''min''; high \<leftarrow> item descriptor ''max'';
     below \<leftarrow> (if low \<noteq> PNone then py_less v low else Some False);
     guard (\<not> below);
     above \<leftarrow> (if high \<noteq> PNone then py_less high v else Some False);
     guard (\<not> above);
     Some v }"

definition validate_option :: "pyval \<Rightarrow> pydict \<Rightarrow> pyval option" where
  "validate_option v descriptor = (case v of
     PStr s \<Rightarrow> do { options \<leftarrow> item descriptor ''options'';
       listed \<leftarrow> (if options = PNone then Some False else in_options v options);
       (if listed then Some v else None) }
   | _ \<Rightarrow> None)"

definition validate_text :: "pyval \<Rightarrow> pydict \<Rightarrow> pyval option" where
  "validate_text v _ = plain_string max_string_length v"

definition validate_timestamp :: "transport_libs \<Rightarrow> pyval \<Rightarrow> pyval option" where
  "validate_timestamp L v = (case validate_text v [] of
     Some (PStr s) \<Rightarrow> (case tl_datetime L s of
        None \<Rightarrow> None | Some m \<Rightarrow> (if mo_has_zone m then Some (PStr s) else None))
   | _ \<Rightarrow> None)"

definition validate_sensor :: "transport_libs \<Rightarrow> pyval \<Rightarrow> pydict \<Rightarrow> pyval option" where
  "validate_sensor L v descriptor = do {
     options \<leftarrow> item descriptor ''options'';
     (if options \<noteq> PNone then validate_option v descriptor
      else do {
        device_class \<leftarrow> item descriptor ''device_class'';
        (if device_class = PStr ''timestamp'' then validate_timestamp L v
         else do {
           unit \<leftarrow> item descriptor ''unit'';
           state_class \<leftarrow> item descriptor ''state_class'';
           (if is_finite_number v then Some v
            else if unit \<noteq> PNone \<or> state_class \<noteq> PNone \<or> device_class \<noteq> PNone then None
            else validate_text v descriptor) }) }) }"

definition validate_boolean :: "pyval \<Rightarrow> pydict \<Rightarrow> pyval option" where
  "validate_boolean v _ = strict_bool v"

definition optional_version :: "pyval \<Rightarrow> pyval option" where
  "optional_version v = (if v = PNone then Some PNone else plain_string max_string_length v)"

definition validate_update :: "transport_libs \<Rightarrow> pyval \<Rightarrow> pydict \<Rightarrow> pyval option" where
  "validate_update L v _ = do {
     update \<leftarrow> mapping_value v;
     in_progress \<leftarrow> strict_bool (dict_get_default update ''in_progress'' (PBool False));
     installed \<leftarrow> optional_version (dict_get update ''installed_version'');
     latest \<leftarrow> optional_version (dict_get update ''latest_version'');
     release_url \<leftarrow> (let u = dict_get update ''release_url'' in
       if u = PNone then Some PNone else url_value L [''https''] u);
     Some (PDict [(''installed_version'', installed), (''latest_version'', latest),
       (''release_url'', release_url), (''in_progress'', in_progress)]) }"

definition media_states :: "string list" where
  "media_states = [''idle'', ''playing'', ''paused'', ''buffering'']"

definition validate_media :: "pyval \<Rightarrow> pydict \<Rightarrow> pyval option" where
  "validate_media v _ = do {
     media \<leftarrow> mapping_value v;
     state \<leftarrow> pattern (\<lambda>s. s \<in> set media_states) (dict_get media ''state'');
     muted \<leftarrow> strict_bool (dict_get media ''muted'');
     Some (PDict [(''state'', state), (''muted'', muted)]) }"

definition not_reported :: "pyval \<Rightarrow> pydict \<Rightarrow> pyval option" where
  "not_reported _ _ = None"

definition value_validators ::
  "transport_libs \<Rightarrow> (string \<times> (pyval \<Rightarrow> pydict \<Rightarrow> pyval option)) list" where
  "value_validators L = [
     (''binary_sensor'', validate_boolean), (''button'', not_reported),
     (''camera'', validate_boolean), (''event'', not_reported),
     (''light'', validate_light), (''media_player'', validate_media),
     (''number'', validate_number), (''select'', validate_option),
     (''sensor'', validate_sensor L), (''switch'', validate_boolean),
     (''text'', validate_text), (''update'', validate_update L)]"

definition attribute_value :: "pyval \<Rightarrow> bool" where
  "attribute_value v \<longleftrightarrow> v = PNone \<or> (case v of PBool b \<Rightarrow> True | _ \<Rightarrow> False) \<or> is_finite_number v
     \<or> plain_string max_string_length v \<noteq> None"

definition validate_attributes :: "pyval \<Rightarrow> pydict option" where
  "validate_attributes v = (if v = PNone then Some [] else do {
     attributes \<leftarrow> mapping_value v;
     guard (length attributes \<le> max_attributes);
     opt_items (pattern code_pattern) (\<lambda>x. if attribute_value x then Some x else None) attributes })"

section \<open>Log batches\<close>

text \<open>The length of a text's UTF-8 form, for code points up to U+00FF.\<close>

definition utf8_length :: "string \<Rightarrow> nat" where
  "utf8_length s = sum_list (map (\<lambda>c. if code_of c < 128 then 1 else 2) s)"

definition log_timestamp :: "transport_libs \<Rightarrow> pyval \<Rightarrow> pyval option" where
  "log_timestamp L v = (case plain_string 40 v of
     Some (PStr s) \<Rightarrow> (case tl_datetime L s of
        None \<Rightarrow> None | Some m \<Rightarrow> (if mo_utc_offset m = Some 0 then Some (PStr s) else None))
   | _ \<Rightarrow> None)"

definition log_message :: "pyval \<Rightarrow> pyval option" where
  "log_message v = (case v of
     PStr s \<Rightarrow> (if 8192 < utf8_length s then None else Some v) | _ \<Rightarrow> None)"

fun text_length :: "pyval \<Rightarrow> nat option" where
  "text_length (PStr s) = Some (utf8_length s)"
| "text_length _ = None"

definition record_length :: "pyval \<Rightarrow> nat option" where
  "record_length r = map_option sum_list
     (opt_map (\<lambda>k. do { v \<leftarrow> dict_field k r; text_length v })
       [''timestamp'', ''source'', ''tag'', ''message''])"

definition log_batch :: "pyval \<Rightarrow> pyval option" where
  "log_batch v = (case dict_field ''records'' v of
     Some (PList rs) \<Rightarrow> do { ns \<leftarrow> opt_map record_length rs;
       (if 256 * 1024 < sum_list ns then None else Some v) }
   | _ \<Rightarrow> None)"

definition report_log_schema :: "transport_libs \<Rightarrow> schema" where
  "report_log_schema L = AllOf [
     Fields RemoveExtra [
       Required ''type'' (Literal (PStr ''panel_assistant/report_log'')),
       Required ''session'' (Check (pattern session_token_pattern)),
       Required ''records'' (Check (bounded_list L 200 (Fields PreventExtra [
         Required ''timestamp'' (Check (log_timestamp L)),
         Required ''source'' (OneOf (strs [''app'', ''system''])),
         Required ''priority'' (Check (strict_int 2 7)),
         Required ''tag'' (Check (plain_string 128)),
         Required ''pid'' (Check (strict_int 0 max_android_integer)),
         Required ''message'' (Check log_message)]))),
       Required ''dropped'' (Check (strict_int 0 max_android_integer))],
     Check log_batch]"

end
