(* ===== verification/Transport_Sessions.thy ===== *)
theory Transport_Sessions
  imports Transport_Protocol
begin

text \<open>
  The live panel sessions and the commands sent on them (transport_sessions.py).  Python's
  session and command objects are compared with \<open>is\<close> and shared between tables and coroutines,
  so they live in two stores, named by a reference; the tables map to references.  What the code
  tells others (messages on a connection, dispatcher signals, callbacks) is appended to the list
  of effects in the order it happens; a \<open>Changed\<close> effect also records the session a listener
  finds in the table at that moment.
\<close>

section \<open>Objects\<close>

type_synonym session_ref = nat
type_synonym command_ref = nat
type_synonym connection = nat

record observation =
  ob_state :: string
  ob_value :: pyval
  ob_attributes :: pydict
  ob_refresh :: bool
  ob_received_at :: rat
  ob_reason :: "string option"

record command_outcome =
  co_outcome :: string
  co_code :: "string option"
  co_result :: pyval
  co_status :: "int option"
  co_headers :: "pydict option"

text \<open>A future: not done, or done with an outcome (\<open>None\<close> when the session ended first).\<close>

datatype future = Waiting | Resolved "command_outcome option"

text \<open>What \<open>on_interim\<close> does with the timeout of the wait: end it now, or move it.\<close>

datatype interim = EndWait | ExtendBy rat

record pending_command =
  pc_channel :: string
  pc_future :: future
  pc_approval_pending :: bool
  pc_on_interim :: "interim option"
  pc_on_settled :: "nat option"
  pc_deadline :: rat

record recent_outcome =
  ro_channel :: string
  ro_outcome :: string
  ro_code :: "string option"
  ro_late :: bool
  ro_at :: rat

text \<open>\<open>ps_ui_relays\<close> holds the relays' references; \<open>voice\<close>, a projection kept by voice.py, is not
  modelled.\<close>

record panel_session =
  ps_entry_id :: string
  ps_did :: string
  ps_token :: string
  ps_connection :: connection
  ps_subscription_id :: int
  ps_user_id :: string
  ps_protocol :: int
  ps_app_version :: string
  ps_app_version_code :: int
  ps_contract_digest :: string
  ps_capabilities :: "string list"
  ps_descriptors :: "(string \<times> pydict) list"
  ps_opened_at :: rat
  ps_remote :: "string option"
  ps_addresses :: "string list"
  ps_http_port :: "int option"
  ps_unknown_channels :: "string list"
  ps_observations :: "(string \<times> observation) list"
  ps_full_sync_begun :: bool
  ps_full_sync_complete :: bool
  ps_rejected_observations :: int
  ps_events_received :: int
  ps_last_event_id :: int
  ps_rejections :: "(string \<times> string) list"
  ps_closed_at :: "rat option"
  ps_prerelease_panel_builds :: "bool option"
  ps_ui_relays :: "(string \<times> nat list) list"
  ps_voice_stream_client_id :: "string option"
  ps_log_sources :: "(string \<times> int) list"
  ps_saved_log_sink :: "pydict option"
  ps_app_package :: string
  ps_pending :: "(string \<times> command_ref) list"
  ps_late :: "(string \<times> command_ref) list"
  ps_recent_outcomes :: "recent_outcome list"
  ps_command_counts :: "(string \<times> int) list"
  ps_local_adb_deferred :: bool
  ps_local_adb_identity :: "(string \<times> string \<times> string \<times> int) option"

record restart_notice =
  rn_scope :: string
  rn_reason :: string
  rn_expected_back_ms :: int
  rn_deadline :: rat

datatype effect =
    Message connection int pydict
  | ErrorSent connection int string
  | ResultSent connection int pyval
  | Changed string "session_ref option"
  | Observed string "string list"
  | EventFired session_ref int string string
  | Settled nat
  | RelayEnded nat
  | StreamDetached string

text \<open>\<open>w_timers\<close> is \<open>_restart_timers\<close> (entry to timer handle); \<open>w_scheduled\<close> the event loop's timers
  not yet run or cancelled, with the entry each clears.  \<open>w_voice_stream\<close>: whether the voice stream
  server exists.\<close>

record world =
  w_sessions :: "session_ref \<Rightarrow> panel_session"
  w_commands :: "command_ref \<Rightarrow> pending_command"
  w_by_entry :: "(string \<times> session_ref) list"
  w_by_token :: "(string \<times> session_ref) list"
  w_last_by_entry :: "(string \<times> session_ref) list"
  w_restart :: "(string \<times> restart_notice) list"
  w_timers :: "(string \<times> nat) list"
  w_scheduled :: "(nat \<times> string) list"
  w_subscriptions :: "connection \<Rightarrow> (int \<times> session_ref) list"
  w_voice_stream :: bool
  w_effects :: "effect list"

abbreviation max_late_commands :: nat where "max_late_commands \<equiv> 16"
abbreviation max_recent_outcomes :: nat where "max_recent_outcomes \<equiv> 16"
abbreviation command_timeout :: rat where "command_timeout \<equiv> 30"
abbreviation manage_timeout :: rat where "manage_timeout \<equiv> 10"
abbreviation command_deadline_ms :: int where "command_deadline_ms \<equiv> 10000"
abbreviation max_command_deadline_ms :: int where "max_command_deadline_ms \<equiv> 60000"

definition emit :: "effect list \<Rightarrow> world \<Rightarrow> world" where
  "emit es w = w\<lparr>w_effects := w_effects w @ es\<rparr>"

definition set_session :: "session_ref \<Rightarrow> (panel_session \<Rightarrow> panel_session) \<Rightarrow> world \<Rightarrow> world" where
  "set_session r f w = w\<lparr>w_sessions := (w_sessions w)(r := f (w_sessions w r))\<rparr>"

definition set_command :: "command_ref \<Rightarrow> (pending_command \<Rightarrow> pending_command) \<Rightarrow> world \<Rightarrow> world" where
  "set_command c f w = w\<lparr>w_commands := (w_commands w)(c := f (w_commands w c))\<rparr>"

text \<open>\<open>PanelSession.count\<close>\<close>

definition count_fact :: "string \<Rightarrow> panel_session \<Rightarrow> panel_session" where
  "count_fact name s = s\<lparr>ps_command_counts :=
     AList.update name (case map_of (ps_command_counts s) name of None \<Rightarrow> 1 | Some n \<Rightarrow> n + 1)
       (ps_command_counts s)\<rparr>"

text \<open>\<open>PendingCommand.settle\<close>\<close>

definition settle :: "command_ref \<Rightarrow> world \<Rightarrow> world" where
  "settle c w = (case pc_on_settled (w_commands w c) of
     None \<Rightarrow> w
   | Some cb \<Rightarrow> emit [Settled cb] (set_command c (\<lambda>p. p\<lparr>pc_on_settled := None\<rparr>) w))"

definition settle_all :: "command_ref list \<Rightarrow> world \<Rightarrow> world" where
  "settle_all cs w = fold settle cs w"

section \<open>The session table\<close>

definition get :: "world \<Rightarrow> string \<Rightarrow> session_ref option" where
  "get w e = map_of (w_by_entry w) e"

definition latest :: "world \<Rightarrow> string \<Rightarrow> session_ref option" where
  "latest w e = (case map_of (w_by_entry w) e of Some r \<Rightarrow> Some r
     | None \<Rightarrow> map_of (w_last_by_entry w) e)"

definition changed :: "string \<Rightarrow> world \<Rightarrow> world" where
  "changed e w = emit [Changed e (get w e)] w"

definition broadcast_lifecycle :: "pydict \<Rightarrow> world \<Rightarrow> world" where
  "broadcast_lifecycle event w = emit (map (\<lambda>(e, r). Message (ps_connection (w_sessions w r))
     (ps_subscription_id (w_sessions w r))
     (dict_update [(''kind'', PStr ''lifecycle'')] event)) (w_by_entry w)) w"

definition restart_notice_of :: "world \<Rightarrow> rat \<Rightarrow> string \<Rightarrow> restart_notice option" where
  "restart_notice_of w now e = (case map_of (w_restart w) e of
     Some n \<Rightarrow> (if now < rn_deadline n then Some n else None) | None \<Rightarrow> None)"

text \<open>\<open>timers.pop(entry, None)\<close> and \<open>cancel()\<close>.\<close>

definition cancel_timer :: "string \<Rightarrow> world \<Rightarrow> world" where
  "cancel_timer e w = (case map_of (w_timers w) e of
     None \<Rightarrow> w
   | Some t \<Rightarrow> w\<lparr>w_timers := AList.delete e (w_timers w),
               w_scheduled := AList.delete t (w_scheduled w)\<rparr>)"

text \<open>\<open>t\<close> is the handle \<open>call_later\<close> returns.\<close>

definition set_restart_notice ::
  "rat \<Rightarrow> nat \<Rightarrow> string \<Rightarrow> string \<Rightarrow> string \<Rightarrow> int \<Rightarrow> world \<Rightarrow> world" where
  "set_restart_notice now t e scope reason remaining_ms w =
     (let w1 = cancel_timer e w;
          notice = \<lparr>rn_scope = scope, rn_reason = reason, rn_expected_back_ms = remaining_ms,
                    rn_deadline = now + of_int remaining_ms / 1000\<rparr>
      in changed e (w1\<lparr>w_restart := AList.update e notice (w_restart w1),
             w_timers := AList.update e t (w_timers w1),
             w_scheduled := (t, e) # w_scheduled w1\<rparr>))"

definition clear_restart_notice :: "string \<Rightarrow> world \<Rightarrow> world" where
  "clear_restart_notice e w =
     (let w1 = cancel_timer e w in
      case map_of (w_restart w1) e of
        None \<Rightarrow> w1
      | Some n \<Rightarrow> changed e (w1\<lparr>w_restart := AList.delete e (w_restart w1)\<rparr>))"

definition forget_entry :: "string \<Rightarrow> world \<Rightarrow> world" where
  "forget_entry e w =
     clear_restart_notice e (w\<lparr>w_last_by_entry := AList.delete e (w_last_by_entry w)\<rparr>)"

definition for_request :: "world \<Rightarrow> string \<Rightarrow> connection \<Rightarrow> session_ref option" where
  "for_request w token conn = (case map_of (w_by_token w) token of
     None \<Rightarrow> None
   | Some r \<Rightarrow> (if ps_connection (w_sessions w r) = conn then Some r else None))"

text \<open>\<open>_forget\<close>: whether the session was live, and the table without it.\<close>

definition fail_pending :: "command_ref list \<Rightarrow> world \<Rightarrow> world" where
  "fail_pending cs w = fold (\<lambda>c. set_command c (\<lambda>p.
     if pc_future p = Waiting then p\<lparr>pc_future := Resolved None\<rparr> else p)) cs w"

definition forget :: "rat \<Rightarrow> session_ref \<Rightarrow> world \<Rightarrow> world" where
  "forget now r w = (let s = w_sessions w r;
     w1 = set_session r (\<lambda>s. s\<lparr>ps_closed_at := Some now\<rparr>)
       (w\<lparr>w_by_entry := AList.delete (ps_entry_id s) (w_by_entry w),
          w_by_token := AList.delete (ps_token s) (w_by_token w),
          w_last_by_entry := AList.update (ps_entry_id s) r (w_last_by_entry w)\<rparr>);
     w2 = set_session r (\<lambda>s. s\<lparr>ps_pending := []\<rparr>) (fail_pending (map snd (ps_pending s)) w1);
     w3 = settle_all (map snd (ps_late s)) (set_session r (\<lambda>s. s\<lparr>ps_late := []\<rparr>) w2);
     w4 = emit (map RelayEnded (concat (map snd (ps_ui_relays s))))
       (set_session r (\<lambda>s. s\<lparr>ps_ui_relays := []\<rparr>) w3)
     in if ps_voice_stream_client_id s \<noteq> None \<and> w_voice_stream w4
        then emit [StreamDetached (ps_token s)] w4 else w4)"

definition is_live :: "world \<Rightarrow> session_ref \<Rightarrow> bool" where
  "is_live w r \<longleftrightarrow> get w (ps_entry_id (w_sessions w r)) = Some r"

definition close :: "rat \<Rightarrow> session_ref \<Rightarrow> string \<Rightarrow> bool \<Rightarrow> world \<Rightarrow> world" where
  "close now r reason announce w =
     (if \<not> is_live w r then w
      else let w1 = forget now r w; s = w_sessions w1 r;
               w2 = emit [Message (ps_connection s) (ps_subscription_id s)
                      [(''kind'', PStr ''session_closed''), (''reason'', PStr reason)]]
                 (w1\<lparr>w_subscriptions := (w_subscriptions w1)(ps_connection s :=
                    AList.delete (ps_subscription_id s) (w_subscriptions w1 (ps_connection s)))\<rparr>)
           in if announce then changed (ps_entry_id s) w2 else w2)"

definition open_session :: "rat \<Rightarrow> session_ref \<Rightarrow> world \<Rightarrow> world" where
  "open_session now r w = (let s = w_sessions w r; e = ps_entry_id s;
     w1 = (case get w e of Some old \<Rightarrow> close now old ''superseded'' False w | None \<Rightarrow> w);
     w2 = clear_restart_notice e w1;
     w3 = w2\<lparr>w_last_by_entry := AList.delete e (w_last_by_entry w2),
            w_by_entry := AList.update e r (w_by_entry w2),
            w_by_token := AList.update (ps_token s) r (w_by_token w2),
            w_subscriptions := (w_subscriptions w2)(ps_connection s :=
              AList.update (ps_subscription_id s) r (w_subscriptions w2 (ps_connection s)))\<rparr>
     in changed e w3)"

definition close_entry :: "rat \<Rightarrow> string \<Rightarrow> string \<Rightarrow> world \<Rightarrow> world" where
  "close_entry now e reason w = (case get w e of None \<Rightarrow> w | Some r \<Rightarrow> close now r reason True w)"

definition close_user :: "rat \<Rightarrow> string \<Rightarrow> string \<Rightarrow> world \<Rightarrow> world" where
  "close_user now user reason w = fold (\<lambda>r. close now r reason True)
     (filter (\<lambda>r. ps_user_id (w_sessions w r) = user) (map snd (w_by_entry w))) w"

definition mark_changed :: "session_ref \<Rightarrow> world \<Rightarrow> world" where
  "mark_changed r w = (if is_live w r then changed (ps_entry_id (w_sessions w r)) w else w)"

text \<open>Home Assistant runs the teardown when the connection closes or the panel unsubscribes.\<close>

definition teardown :: "rat \<Rightarrow> session_ref \<Rightarrow> world \<Rightarrow> world" where
  "teardown now r w = (if is_live w r
     then changed (ps_entry_id (w_sessions w r)) (forget now r w) else w)"

text \<open>\<open>allowed\<close> is \<open>prereleases_allowed(entry)\<close>.\<close>

definition apply_update_policy :: "rat \<Rightarrow> string \<Rightarrow> bool \<Rightarrow> world \<Rightarrow> world" where
  "apply_update_policy now e allowed w = (case get w e of
     None \<Rightarrow> w
   | Some r \<Rightarrow> (case ps_prerelease_panel_builds (w_sessions w r) of
        None \<Rightarrow> w
      | Some granted \<Rightarrow> (if granted \<noteq> allowed
           then close now r ''update_policy_changed'' True w else w)))"

definition session_available :: "world \<Rightarrow> string \<Rightarrow> bool" where
  "session_available w e = (case get w e of None \<Rightarrow> False
     | Some r \<Rightarrow> ps_full_sync_complete (w_sessions w r))"

section \<open>Commands\<close>

text \<open>The loop of \<open>_stop_waiting\<close> over the late commands, oldest first.\<close>

fun trim_late :: "(string \<times> command_ref) list \<Rightarrow> world \<Rightarrow> (string \<times> command_ref) list \<times> world" where
  "trim_late [] w = ([], w)"
| "trim_late ((k, c) # late) w =
     (if max_late_commands < length ((k, c) # late) then trim_late late (settle c w)
      else ((k, c) # late, w))"

definition stop_waiting :: "session_ref \<Rightarrow> string \<Rightarrow> world \<Rightarrow> world" where
  "stop_waiting r cid w = (case map_of (ps_pending (w_sessions w r)) cid of
     None \<Rightarrow> w
   | Some c \<Rightarrow>
      (let w1 = set_session r (\<lambda>s. s\<lparr>ps_pending := AList.delete cid (ps_pending s)\<rparr>) w
       in if ps_closed_at (w_sessions w1 r) \<noteq> None then w1
          else case trim_late (AList.update cid c (ps_late (w_sessions w1 r))) w1 of
                 (late, w2) \<Rightarrow> set_session r (\<lambda>s. s\<lparr>ps_late := late\<rparr>) w2))"

text \<open>What a call of \<open>async_deliver\<close> was given; \<open>dv_id\<close> is the given command id or a new token.\<close>

record delivery =
  dv_session :: session_ref
  dv_label :: string
  dv_fields :: pydict
  dv_wait_seconds :: rat
  dv_kind :: string
  dv_id :: string
  dv_deadline_ms :: int
  dv_approval_seconds :: rat
  dv_wait_for_approval :: bool
  dv_on_settled :: "nat option"

datatype delivery_result = Returned command_outcome | Raised string | CallerCancelled

text \<open>\<open>async_deliver\<close> up to its wait; \<open>c\<close> is the new command object.\<close>

definition deliver_event :: "world \<Rightarrow> delivery \<Rightarrow> effect" where
  "deliver_event w d = (let s = w_sessions w (dv_session d) in
     Message (ps_connection s) (ps_subscription_id s)
       (dict_of ([(''kind'', PStr (dv_kind d)), (''command_id'', PStr (dv_id d)),
                  (''session'', PStr (ps_token s))] @ dv_fields d
                 @ [(''deadline_ms'', PInt (min (dv_deadline_ms d) max_command_deadline_ms))])))"

definition deliver_start :: "rat \<Rightarrow> command_ref \<Rightarrow> delivery \<Rightarrow> world \<Rightarrow> world" where
  "deliver_start now c d w =
     (let command = \<lparr>pc_channel = dv_label d, pc_future = Waiting, pc_approval_pending = False,
            pc_on_interim = (if \<not> dv_wait_for_approval d then Some EndWait
               else if dv_approval_seconds d \<noteq> 0
               then Some (ExtendBy (dv_approval_seconds d + dv_wait_seconds d)) else None),
            pc_on_settled = dv_on_settled d, pc_deadline = now + dv_wait_seconds d\<rparr>
      in emit [deliver_event w d]
           (set_session (dv_session d) (\<lambda>s. count_fact ''sent''
              (s\<lparr>ps_pending := AList.update (dv_id d) c (ps_pending s)\<rparr>))
            (set_command c (\<lambda>_. command) w)))"

text \<open>The \<open>finally\<close> of the wait.\<close>

definition end_wait :: "command_ref \<Rightarrow> delivery \<Rightarrow> world \<Rightarrow> world" where
  "end_wait c d w = (let w1 = set_command c (\<lambda>p. p\<lparr>pc_on_interim := None\<rparr>) w in
     if pc_future (w_commands w1 c) = Waiting then stop_waiting (dv_session d) (dv_id d) w1 else w1)"

text \<open>What follows the wait: the future's result.\<close>

definition deliver_result ::
  "delivery \<Rightarrow> command_outcome option \<Rightarrow> world \<Rightarrow> world \<times> delivery_result" where
  "deliver_result d res w = (case res of
     None \<Rightarrow> (set_session (dv_session d) (count_fact ''session_ended'') w,
              Raised ''panel_unavailable'')
   | Some out \<Rightarrow> (w, Returned out))"

text \<open>How the wait ends: the future is done (\<open>None\<close> while it is not), the timeout fires, or the
  caller is cancelled.\<close>

definition deliver_resume ::
  "command_ref \<Rightarrow> delivery \<Rightarrow> world \<Rightarrow> (world \<times> delivery_result) option" where
  "deliver_resume c d w = (case pc_future (w_commands w c) of
     Waiting \<Rightarrow> None
   | Resolved res \<Rightarrow> Some (deliver_result d res (end_wait c d w)))"

definition deliver_expire :: "command_ref \<Rightarrow> delivery \<Rightarrow> world \<Rightarrow> world \<times> delivery_result" where
  "deliver_expire c d w = (case pc_future (w_commands w c) of
     Waiting \<Rightarrow> (end_wait c d (set_session (dv_session d) (count_fact ''timed_out'') w),
        Raised (if pc_approval_pending (w_commands w c) then ''approval_pending''
                else ''panel_unavailable''))
   | Resolved res \<Rightarrow> deliver_result d res (end_wait c d w))"

definition deliver_abort :: "command_ref \<Rightarrow> delivery \<Rightarrow> world \<Rightarrow> world \<times> delivery_result" where
  "deliver_abort c d w = (end_wait c d w, CallerCancelled)"

text \<open>\<open>async_send_command\<close>: what it refuses before sending, what it sends, and what it makes of
  the delivery's result (\<open>None\<close>: the call returns).\<close>

definition send_refusal :: "world \<Rightarrow> session_ref option \<Rightarrow> string option" where
  "send_refusal w session = (case session of
     None \<Rightarrow> Some ''panel_unavailable''
   | Some r \<Rightarrow> (if \<not> is_live w r \<or> \<not> ps_full_sync_complete (w_sessions w r)
                then Some ''panel_unavailable''
                else if ''commands'' \<notin> set (ps_capabilities (w_sessions w r))
                then Some ''not_commandable'' else None))"

definition command_delivery :: "session_ref \<Rightarrow> string \<Rightarrow> pyval \<Rightarrow> string \<Rightarrow> delivery" where
  "command_delivery r channel value token =
     \<lparr>dv_session = r, dv_label = channel,
      dv_fields = [(''channel'', PStr channel), (''value'', value)],
      dv_wait_seconds = command_timeout, dv_kind = ''command'', dv_id = token,
      dv_deadline_ms = command_deadline_ms, dv_approval_seconds = 0,
      dv_wait_for_approval = True, dv_on_settled = None\<rparr>"

definition send_result :: "world \<Rightarrow> session_ref \<Rightarrow> string \<Rightarrow> delivery_result \<Rightarrow> delivery_result option" where
  "send_result w r channel res = (case res of
     Raised key \<Rightarrow> (if channel = ''reboot'' \<and> ps_closed_at (w_sessions w r) \<noteq> None
                   then None else Some (Raised key))
   | Returned out \<Rightarrow> (if co_outcome out \<in> set outcomes_with_code
                    then Some (Raised (case co_code out of Some k \<Rightarrow> k | None \<Rightarrow> []))
                    else None)
   | CallerCancelled \<Rightarrow> Some CallerCancelled)"

definition session_manages :: "world \<Rightarrow> session_ref option \<Rightarrow> bool" where
  "session_manages w session = (case session of None \<Rightarrow> False
     | Some r \<Rightarrow> ''management'' \<in> set (ps_capabilities (w_sessions w r)))"

text \<open>\<open>async_manage_outcome\<close> and \<open>async_manage\<close>, the same way.\<close>

definition manage_refusal :: "world \<Rightarrow> session_ref \<Rightarrow> string option" where
  "manage_refusal w r = (if \<not> is_live w r \<or> \<not> session_manages w (Some r)
     then Some ''panel_unavailable'' else None)"

definition manage_delivery ::
  "session_ref \<Rightarrow> string \<Rightarrow> pydict \<Rightarrow> rat \<Rightarrow> rat \<Rightarrow> bool \<Rightarrow> string \<Rightarrow> delivery" where
  "manage_delivery r op extra wait approval wait_for_approval token =
     \<lparr>dv_session = r, dv_label = ''manage:'' @ op,
      dv_fields = dict_update [(''op'', PStr op)] extra,
      dv_wait_seconds = wait, dv_kind = ''manage'', dv_id = token,
      dv_deadline_ms = command_deadline_ms, dv_approval_seconds = approval,
      dv_wait_for_approval = wait_for_approval, dv_on_settled = None\<rparr>"

definition manage_wait :: "string \<Rightarrow> rat" where
  "manage_wait op = (if op = ''snapshot'' then manage_timeout else command_timeout)"

definition manage_result :: "delivery_result \<Rightarrow> delivery_result + pydict" where
  "manage_result res = (case res of
     Returned out \<Rightarrow>
       (if co_outcome out \<in> set outcomes_with_code
        then Inl (Raised (case co_code out of Some k \<Rightarrow> k | None \<Rightarrow> []))
        else if co_outcome out \<noteq> ''applied'' then Inl (Raised ''panel_unavailable'')
        else case co_result out of
               PNone \<Rightarrow> Inr [] | PDict d \<Rightarrow> Inr d | _ \<Rightarrow> Inl (Raised ''panel_unavailable''))
   | Raised key \<Rightarrow> Inl (Raised key)
   | CallerCancelled \<Rightarrow> Inl CallerCancelled)"

end
