(* ===== verification/Transport_Handlers.thy ===== *)
theory Transport_Handlers
  imports Transport_Sessions
begin

text \<open>
  The handlers of an open session (transport.py): state reports, restart notices, events and
  command results.  Each runs to its end without yielding, so it is one step of the world.  A
  message is given by the fields its schema leaves in it (Transport_Protocol); an answer or an
  error to the panel is an effect.
\<close>

section \<open>State reports\<close>

text \<open>\<open>om_value\<close> and \<open>om_attributes\<close> are \<open>observation.get(...)\<close>; a known observation has a value
  (\<open>observation_consistent\<close>).\<close>

record observation_msg =
  om_channel :: string
  om_state :: string
  om_value :: pyval
  om_attributes :: pyval
  om_refresh :: bool
  om_reason :: "string option"

definition validator_for ::
  "transport_libs \<Rightarrow> pydict \<Rightarrow> (pyval \<Rightarrow> pydict \<Rightarrow> pyval option) option" where
  "validator_for L descriptor = (case item descriptor ''platform'' of
     Some (PStr p) \<Rightarrow> map_of (value_validators L) p | _ \<Rightarrow> None)"

text \<open>The value and attributes of one observation; \<open>None\<close> is \<open>ValueRejected\<close>.\<close>

definition checked_value ::
  "(pyval \<Rightarrow> pydict \<Rightarrow> pyval option) \<Rightarrow> pydict \<Rightarrow> observation_msg \<Rightarrow> (pyval \<times> pydict) option" where
  "checked_value validator descriptor m =
     (if om_state m = ''known''
      then do { v \<leftarrow> validator (om_value m) descriptor;
                a \<leftarrow> validate_attributes (om_attributes m); Some (v, a) }
      else Some (PNone, []))"

text \<open>One turn of the loop: the session, the rejections and the accepted channels so far.\<close>

definition report_one ::
  "transport_libs \<Rightarrow> rat \<Rightarrow> observation_msg \<Rightarrow> panel_session \<times> (string \<times> string) list \<times> string list
     \<Rightarrow> panel_session \<times> (string \<times> string) list \<times> string list" where
  "report_one L now m acc = (case acc of (s, rejected, accepted) \<Rightarrow>
     (case map_of (ps_descriptors s) (om_channel m) of
        None \<Rightarrow> (s, rejected @ [(om_channel m, ''unknown_channel'')], accepted)
      | Some descriptor \<Rightarrow>
        (case validator_for L descriptor of
           None \<Rightarrow> (s, rejected @ [(om_channel m, ''unknown_channel'')], accepted)
         | Some validator \<Rightarrow>
           (case checked_value validator descriptor m of
              None \<Rightarrow> (s\<lparr>ps_rejections := AList.update (om_channel m) ''invalid_value''
                          (ps_rejections s)\<rparr>,
                       rejected @ [(om_channel m, ''invalid_value'')], accepted)
            | Some (v, a) \<Rightarrow>
               (s\<lparr>ps_rejections := AList.delete (om_channel m) (ps_rejections s),
                  ps_observations := AList.update (om_channel m)
                    \<lparr>ob_state = om_state m, ob_value = v, ob_attributes = a,
                     ob_refresh = om_refresh m, ob_received_at = now, ob_reason = om_reason m\<rparr>
                    (ps_observations s)\<rparr>,
                rejected, List.insert (om_channel m) accepted)))))"

definition rejected_answer :: "(string \<times> string) list \<Rightarrow> pyval" where
  "rejected_answer rejected = PDict [(''rejected'', PList (map (\<lambda>(channel, code).
     PDict [(''channel'', PStr channel), (''code'', PStr code)]) rejected))]"

text \<open>What the \<open>sync\<close> of the report does to the session; only the first full sync announces.\<close>

definition apply_sync :: "string \<Rightarrow> session_ref \<Rightarrow> world \<Rightarrow> world" where
  "apply_sync sync r w =
     (if sync = ''full_begin'' then set_session r (\<lambda>s. s\<lparr>ps_full_sync_begun := True\<rparr>) w
      else if sync = ''full_end'' then
        (let w1 = set_session r (\<lambda>s. s\<lparr>ps_full_sync_begun := False\<rparr>) w
         in if \<not> ps_full_sync_complete (w_sessions w1 r)
            then mark_changed r (set_session r (\<lambda>s. s\<lparr>ps_full_sync_complete := True\<rparr>) w1)
            else w1)
      else w)"

definition ws_report_state ::
  "transport_libs \<Rightarrow> rat \<Rightarrow> connection \<Rightarrow> int \<Rightarrow> string \<Rightarrow> string \<Rightarrow> observation_msg list \<Rightarrow> world
     \<Rightarrow> world" where
  "ws_report_state L now conn mid token sync observations w =
     (case for_request w token conn of
        None \<Rightarrow> emit [ErrorSent conn mid ''session_unknown''] w
      | Some r \<Rightarrow>
        (let s = w_sessions w r in
         if sync = ''full_end'' \<and> \<not> ps_full_sync_begun s \<and> \<not> ps_full_sync_complete s
         then emit [ErrorSent conn mid ''invalid_format''] w
         else (case fold (report_one L now) observations (s, [], []) of
           (s1, rejected, accepted) \<Rightarrow>
             (let w1 = set_session r (\<lambda>_. s1\<lparr>ps_rejected_observations :=
                         ps_rejected_observations s1 + int (length rejected)\<rparr>) w;
                  w2 = (if accepted \<noteq> [] then emit [Observed (ps_entry_id s) accepted] w1 else w1)
              in emit [ResultSent conn mid (rejected_answer rejected)] (apply_sync sync r w2)))))"

section \<open>Restart notices and events\<close>

definition ws_restart_notice ::
  "rat \<Rightarrow> nat \<Rightarrow> connection \<Rightarrow> int \<Rightarrow> string \<Rightarrow> string \<Rightarrow> string \<Rightarrow> int \<Rightarrow> world \<Rightarrow> world" where
  "ws_restart_notice loop_now timer conn mid token scope reason expected_back_ms w =
     (case for_request w token conn of
        None \<Rightarrow> emit [ErrorSent conn mid ''session_unknown''] w
      | Some r \<Rightarrow> emit [ResultSent conn mid (PDict [])]
          (set_restart_notice loop_now timer (ps_entry_id (w_sessions w r)) scope reason
             expected_back_ms w))"

definition event_error :: "panel_session \<Rightarrow> string \<Rightarrow> string \<Rightarrow> string option" where
  "event_error s channel event_type = (case map_of (ps_descriptors s) channel of
     None \<Rightarrow> Some ''unknown_channel''
   | Some descriptor \<Rightarrow>
     (if item descriptor ''platform'' \<noteq> Some (PStr ''event'') then Some ''unknown_channel''
      else if \<not> ps_full_sync_complete s then Some ''invalid_format''
      else case item descriptor ''options'' of
        Some (PList options) \<Rightarrow>
          (if PStr event_type \<notin> set options then Some ''invalid_value'' else None)
      | _ \<Rightarrow> None))"

definition ws_report_event ::
  "connection \<Rightarrow> int \<Rightarrow> string \<Rightarrow> string \<Rightarrow> int \<Rightarrow> string \<Rightarrow> world \<Rightarrow> world" where
  "ws_report_event conn mid token channel event_id event_type w =
     (case for_request w token conn of
        None \<Rightarrow> emit [ErrorSent conn mid ''session_unknown''] w
      | Some r \<Rightarrow> (case event_error (w_sessions w r) channel event_type of
          Some code \<Rightarrow> emit [ErrorSent conn mid code] w
        | None \<Rightarrow> emit [ResultSent conn mid PNone]
            (if ps_last_event_id (w_sessions w r) < event_id
             then emit [EventFired r event_id channel event_type]
               (set_session r (\<lambda>s. s\<lparr>ps_last_event_id := event_id,
                  ps_events_received := ps_events_received s + 1\<rparr>) w)
             else w)))"

section \<open>Command results\<close>

record result_msg =
  rm_command_id :: string
  rm_outcome :: string
  rm_code :: "string option"
  rm_result :: pyval
  rm_status :: "int option"
  rm_headers :: "pydict option"

text \<open>\<open>deque(maxlen=16).append\<close>\<close>

definition push_recent :: "'a \<Rightarrow> 'a list \<Rightarrow> 'a list" where
  "push_recent x xs = drop (length xs + 1 - max_recent_outcomes) (xs @ [x])"

definition record_outcome ::
  "rat \<Rightarrow> pending_command \<Rightarrow> result_msg \<Rightarrow> bool \<Rightarrow> panel_session \<Rightarrow> panel_session" where
  "record_outcome now command m late s =
     (let s1 = count_fact (rm_outcome m) s;
          s2 = (if late then count_fact ''late'' s1 else s1)
      in s2\<lparr>ps_recent_outcomes := push_recent \<lparr>ro_channel = pc_channel command,
            ro_outcome = rm_outcome m, ro_code = rm_code m, ro_late = late, ro_at = now\<rparr>
           (ps_recent_outcomes s2)\<rparr>)"

definition run_interim :: "rat \<Rightarrow> command_ref \<Rightarrow> world \<Rightarrow> world" where
  "run_interim loop_now c w = (case pc_on_interim (w_commands w c) of
     None \<Rightarrow> w
   | Some EndWait \<Rightarrow> set_command c (\<lambda>p. p\<lparr>pc_deadline := loop_now\<rparr>) w
   | Some (ExtendBy d) \<Rightarrow> set_command c (\<lambda>p. p\<lparr>pc_deadline := loop_now + d\<rparr>) w)"

definition outcome_of :: "result_msg \<Rightarrow> command_outcome" where
  "outcome_of m = \<lparr>co_outcome = rm_outcome m, co_code = rm_code m, co_result = rm_result m,
     co_status = rm_status m, co_headers = rm_headers m\<rparr>"

text \<open>The command a result names: waited for, or kept for its late answer.\<close>

definition named_command :: "panel_session \<Rightarrow> string \<Rightarrow> (command_ref \<times> bool) option" where
  "named_command s cid = (case map_of (ps_pending s) cid of
     Some c \<Rightarrow> Some (c, False)
   | None \<Rightarrow> map_option (\<lambda>c. (c, True)) (map_of (ps_late s) cid))"

definition resolve_command ::
  "rat \<Rightarrow> session_ref \<Rightarrow> command_ref \<Rightarrow> bool \<Rightarrow> result_msg \<Rightarrow> world \<Rightarrow> world" where
  "resolve_command loop_now r c late m w =
     (if rm_outcome m = ''pending_approval''
      then run_interim loop_now c (set_command c (\<lambda>p. p\<lparr>pc_approval_pending := True\<rparr>) w)
      else if late
      then settle c (set_session r (\<lambda>s. s\<lparr>ps_late := AList.delete (rm_command_id m) (ps_late s)\<rparr>) w)
      else set_command c (\<lambda>p. if pc_future p = Waiting
             then p\<lparr>pc_future := Resolved (Some (outcome_of m))\<rparr> else p)
           (set_session r (\<lambda>s. s\<lparr>ps_pending := AList.delete (rm_command_id m) (ps_pending s)\<rparr>) w))"

definition ws_command_result ::
  "rat \<Rightarrow> rat \<Rightarrow> connection \<Rightarrow> int \<Rightarrow> string \<Rightarrow> result_msg \<Rightarrow> world \<Rightarrow> world" where
  "ws_command_result now loop_now conn mid token m w =
     (case for_request w token conn of
        None \<Rightarrow> emit [ErrorSent conn mid ''session_unknown''] w
      | Some r \<Rightarrow> emit [ResultSent conn mid PNone]
          (case named_command (w_sessions w r) (rm_command_id m) of
             None \<Rightarrow> set_session r (count_fact ''ignored'') w
           | Some (c, late) \<Rightarrow>
             (if rm_outcome m = ''pending_approval'' \<and> pc_approval_pending (w_commands w c)
              then set_session r (count_fact ''ignored'') w
              else resolve_command loop_now r c late m
                (set_session r (record_outcome now (w_commands w c) m late) w))))"

end
