(* ===== verification/Transport_Views.thy ===== *)
theory Transport_Views
  imports Transport_Handlers
begin

text \<open>
  What keeps the session table sound depends only on a small view of the world: who is live, under
  which token, what each session waits for, which futures are done.  The view has an abstract
  machine of its own, with an invariant its steps keep; the second half says what each operation
  of the code does to the view.
\<close>

section \<open>The abstract machine\<close>

record core =
  co_entry :: string
  co_token :: string
  co_connection :: connection
  co_closed :: bool
  co_pending :: "(string \<times> command_ref) list"
  co_late :: "(string \<times> command_ref) list"

record view =
  vw_core :: "session_ref \<Rightarrow> core"
  vw_future :: "command_ref \<Rightarrow> future"
  vw_live :: "string \<Rightarrow> session_ref option"
  vw_token :: "string \<Rightarrow> session_ref option"
  vw_last :: "string \<Rightarrow> session_ref option"

type_synonym waits = "(command_ref \<times> delivery) list"

definition core_of :: "panel_session \<Rightarrow> core" where
  "core_of s = \<lparr>co_entry = ps_entry_id s, co_token = ps_token s, co_connection = ps_connection s,
     co_closed = (ps_closed_at s \<noteq> None), co_pending = ps_pending s, co_late = ps_late s\<rparr>"

definition view_of :: "world \<Rightarrow> view" where
  "view_of w = \<lparr>vw_core = (\<lambda>r. core_of (w_sessions w r)),
     vw_future = (\<lambda>c. pc_future (w_commands w c)), vw_live = map_of (w_by_entry w),
     vw_token = map_of (w_by_token w), vw_last = map_of (w_last_by_entry w)\<rparr>"

definition vw_is_live :: "view \<Rightarrow> session_ref \<Rightarrow> bool" where
  "vw_is_live v r \<longleftrightarrow> vw_live v (co_entry (vw_core v r)) = Some r"

definition vw_set_core :: "session_ref \<Rightarrow> core \<Rightarrow> view \<Rightarrow> view" where
  "vw_set_core r k v = v\<lparr>vw_core := (vw_core v)(r := k)\<rparr>"

definition vw_forget :: "session_ref \<Rightarrow> view \<Rightarrow> view" where
  "vw_forget r v = (let k = vw_core v r in
     v\<lparr>vw_core := (vw_core v)(r := k\<lparr>co_closed := True, co_pending := [], co_late := []\<rparr>),
       vw_future := (\<lambda>c. if c \<in> snd ` set (co_pending k) \<and> vw_future v c = Waiting
                         then Resolved None else vw_future v c),
       vw_live := (vw_live v)(co_entry k := None),
       vw_token := (vw_token v)(co_token k := None),
       vw_last := (vw_last v)(co_entry k := Some r)\<rparr>)"

definition vw_insert :: "session_ref \<Rightarrow> core \<Rightarrow> view \<Rightarrow> view" where
  "vw_insert r k v = v\<lparr>vw_core := (vw_core v)(r := k), vw_live := (vw_live v)(co_entry k := Some r),
     vw_token := (vw_token v)(co_token k := Some r), vw_last := (vw_last v)(co_entry k := None)\<rparr>"

definition vw_start :: "session_ref \<Rightarrow> string \<Rightarrow> command_ref \<Rightarrow> view \<Rightarrow> view" where
  "vw_start r cid c v = (let k = vw_core v r in
     v\<lparr>vw_core := (vw_core v)(r := k\<lparr>co_pending := AList.update cid c (co_pending k)\<rparr>),
       vw_future := (vw_future v)(c := Waiting)\<rparr>)"

definition vw_answer :: "session_ref \<Rightarrow> string \<Rightarrow> command_ref \<Rightarrow> command_outcome \<Rightarrow> view \<Rightarrow> view" where
  "vw_answer r cid c out v = (let k = vw_core v r in
     v\<lparr>vw_core := (vw_core v)(r := k\<lparr>co_pending := AList.delete cid (co_pending k)\<rparr>),
       vw_future := (if vw_future v c = Waiting then (vw_future v)(c := Resolved (Some out))
                     else vw_future v)\<rparr>)"

definition vw_keep_late :: "session_ref \<Rightarrow> string \<Rightarrow> (string \<times> command_ref) list \<Rightarrow> view \<Rightarrow> view" where
  "vw_keep_late r cid late v = (let k = vw_core v r in
     vw_set_core r (k\<lparr>co_pending := AList.delete cid (co_pending k), co_late := late\<rparr>) v)"

definition vw_drop_late :: "session_ref \<Rightarrow> string \<Rightarrow> view \<Rightarrow> view" where
  "vw_drop_late r cid v = (let k = vw_core v r in
     vw_set_core r (k\<lparr>co_late := AList.delete cid (co_late k)\<rparr>) v)"

text \<open>The invariant: live sessions are filed under their own entry and token, open, and wait only
  for futures not done, each for one delivery; an ended session waits for nothing; and a delivery
  whose future is not done belongs to a live session that still waits for it.\<close>

definition live_ok :: "waits \<Rightarrow> view \<Rightarrow> session_ref \<Rightarrow> bool" where
  "live_ok ws v r \<longleftrightarrow> (let k = vw_core v r in \<not> co_closed k \<and> vw_token v (co_token k) = Some r
     \<and> dict_ok (co_pending k) \<and> length (co_late k) \<le> max_late_commands
     \<and> (\<forall>(cid, c) \<in> set (co_pending k). vw_future v c = Waiting
          \<and> (\<exists>d. (c, d) \<in> set ws \<and> dv_session d = r \<and> dv_id d = cid)))"

definition ended_ok :: "view \<Rightarrow> session_ref \<Rightarrow> bool" where
  "ended_ok v r \<longleftrightarrow> (let k = vw_core v r in co_closed k \<and> co_pending k = [] \<and> co_late k = [])"

definition wait_ok :: "view \<Rightarrow> command_ref \<times> delivery \<Rightarrow> bool" where
  "wait_ok v cd \<longleftrightarrow> (case cd of (c, d) \<Rightarrow> vw_future v c = Waiting \<longrightarrow> vw_is_live v (dv_session d)
     \<and> map_of (co_pending (vw_core v (dv_session d))) (dv_id d) = Some c)"

definition view_ok :: "waits \<Rightarrow> view \<Rightarrow> bool" where
  "view_ok ws v \<longleftrightarrow>
     (\<forall>e r. vw_live v e = Some r \<longrightarrow> co_entry (vw_core v r) = e \<and> live_ok ws v r)
     \<and> (\<forall>t r. vw_token v t = Some r \<longrightarrow> co_token (vw_core v r) = t \<and> vw_is_live v r)
     \<and> (\<forall>e r. vw_last v e = Some r \<longrightarrow> co_entry (vw_core v r) = e \<and> ended_ok v r)
     \<and> distinct (map fst ws) \<and> (\<forall>cd \<in> set ws. wait_ok v cd)"

inductive view_step :: "view \<times> waits \<Rightarrow> view \<times> waits \<Rightarrow> bool" where
  stay: "view_step (v, ws) (v, ws)"
| ends: "vw_is_live v r \<Longrightarrow> view_step (v, ws) (vw_forget r v, ws)"
| begins: "vw_live v (co_entry k) = None \<Longrightarrow> vw_token v (co_token k) = None \<Longrightarrow> \<not> co_closed k
     \<Longrightarrow> co_pending k = [] \<Longrightarrow> co_late k = [] \<Longrightarrow> r \<notin> ran (vw_live v) \<Longrightarrow> r \<notin> ran (vw_last v)
     \<Longrightarrow> r \<notin> ran (vw_token v) \<Longrightarrow> r \<notin> (\<lambda>(c, d). dv_session d) ` set ws
     \<Longrightarrow> view_step (v, ws) (vw_insert r k v, ws)"
| sends: "vw_is_live v (dv_session d) \<Longrightarrow> c \<notin> fst ` set ws
     \<Longrightarrow> dv_id d \<notin> dict_keys (co_pending (vw_core v (dv_session d)))
     \<Longrightarrow> view_step (v, ws) (vw_start (dv_session d) (dv_id d) c v, (c, d) # ws)"
| answers: "vw_is_live v r \<Longrightarrow> map_of (co_pending (vw_core v r)) cid = Some c
     \<Longrightarrow> view_step (v, ws) (vw_answer r cid c out v, ws)"
| keeps_late: "(c, d) \<in> set ws \<Longrightarrow> vw_future v c = Waiting \<Longrightarrow> length late \<le> max_late_commands
     \<Longrightarrow> view_step (v, ws) (vw_keep_late (dv_session d) (dv_id d) late v, remove1 (c, d) ws)"
| returns: "(c, d) \<in> set ws \<Longrightarrow> vw_future v c \<noteq> Waiting \<Longrightarrow> view_step (v, ws) (v, remove1 (c, d) ws)"
| drops_late: "vw_is_live v r \<Longrightarrow> view_step (v, ws) (vw_drop_late r cid v, ws)"
| forgets: "view_step (v, ws) (v\<lparr>vw_last := (vw_last v)(e := None)\<rparr>, ws)"

inductive_cases view_stepE: "view_step (v, ws) (v', ws')"

subsection \<open>The machine keeps the invariant\<close>

lemma view_okD:
  assumes "view_ok ws v"
  shows "vw_live v e = Some r \<Longrightarrow> co_entry (vw_core v r) = e"
    and "vw_live v e = Some r \<Longrightarrow> live_ok ws v r"
    and "vw_token v t = Some r \<Longrightarrow> co_token (vw_core v r) = t"
    and "vw_token v t = Some r \<Longrightarrow> vw_is_live v r"
    and "vw_last v e = Some r \<Longrightarrow> co_entry (vw_core v r) = e"
    and "vw_last v e = Some r \<Longrightarrow> ended_ok v r"
    and "distinct (map fst ws)"
    and "cd \<in> set ws \<Longrightarrow> wait_ok v cd"
  using assms by (simp_all add: view_ok_def)

lemma view_okI:
  assumes "\<And>e r. vw_live v e = Some r \<Longrightarrow> co_entry (vw_core v r) = e"
    and "\<And>e r. vw_live v e = Some r \<Longrightarrow> live_ok ws v r"
    and "\<And>t r. vw_token v t = Some r \<Longrightarrow> co_token (vw_core v r) = t \<and> vw_is_live v r"
    and "\<And>e r. vw_last v e = Some r \<Longrightarrow> co_entry (vw_core v r) = e"
    and "\<And>e r. vw_last v e = Some r \<Longrightarrow> ended_ok v r"
    and "distinct (map fst ws)" and "\<And>c d. (c, d) \<in> set ws \<Longrightarrow> wait_ok v (c, d)"
  shows "view_ok ws v"
  using assms unfolding view_ok_def by auto

lemma live_okD: "view_ok ws v \<Longrightarrow> vw_is_live v r \<Longrightarrow> live_ok ws v r"
  by (simp add: vw_is_live_def view_okD(2))

lemma same_wait: "distinct (map fst ws) \<Longrightarrow> (c, d) \<in> set ws \<Longrightarrow> (c, d') \<in> set ws \<Longrightarrow> d = d'"
  by (rule eq_key_imp_eq_value)

text \<open>Two live sessions never wait for the same command.\<close>

lemma pending_apart:
  assumes ok: "view_ok ws v" and "vw_is_live v r" "vw_is_live v q"
    and c: "(i, c) \<in> set (co_pending (vw_core v r))" "(j, c) \<in> set (co_pending (vw_core v q))"
  shows "r = q \<and> i = j"
proof -
  obtain d where d: "(c, d) \<in> set ws" "dv_session d = r" "dv_id d = i"
    using live_okD [OF ok assms(2)] c(1) by (auto simp: live_ok_def Let_def)
  obtain d' where d': "(c, d') \<in> set ws" "dv_session d' = q" "dv_id d' = j"
    using live_okD [OF ok assms(3)] c(2) by (auto simp: live_ok_def Let_def)
  show ?thesis using same_wait [OF view_okD(7) [OF ok] d(1) d'(1)] d d' by simp
qed

lemma forget_ok:
  assumes ok: "view_ok ws v" and lv: "vw_is_live v r"
  shows "view_ok ws (vw_forget r v)"
proof -
  let ?v = "vw_forget r v" and ?k = "vw_core v r"
  have core: "vw_core ?v q = (if q = r then ?k\<lparr>co_closed := True, co_pending := [], co_late := []\<rparr>
      else vw_core v q)" for q
    by (simp add: vw_forget_def Let_def)
  have entry: "co_entry (vw_core ?v q) = co_entry (vw_core v q)" for q by (simp add: core)
  have tables: "vw_live ?v = (vw_live v)(co_entry ?k := None)"
      "vw_token ?v = (vw_token v)(co_token ?k := None)"
      "vw_last ?v = (vw_last v)(co_entry ?k := Some r)"
    by (simp_all add: vw_forget_def Let_def)
  have fut: "vw_future ?v c = (if c \<in> snd ` set (co_pending ?k) \<and> vw_future v c = Waiting
      then Resolved None else vw_future v c)" for c
    by (simp add: vw_forget_def Let_def)
  have other: "q \<noteq> r" if "vw_live ?v e = Some q" for e q
    using that view_okD(1) [OF ok] by (auto simp: tables split: if_splits)
  have was: "vw_live v e = Some q" if "vw_live ?v e = Some q" for e q
    using that by (auto simp: tables split: if_splits)
  have lq: "live_ok ws ?v q" if "vw_live ?v e = Some q" for e q
  proof -
    have q: "q \<noteq> r" "vw_is_live v q" "live_ok ws v q"
      using other [OF that] was [OF that] view_okD(1,2) [OF ok was [OF that]]
      by (auto simp: vw_is_live_def)
    have tok: "co_token (vw_core v q) \<noteq> co_token ?k"
      using q live_okD [OF ok lv] by (auto simp: live_ok_def Let_def)
    have "c \<notin> snd ` set (co_pending ?k)" if "(i, c) \<in> set (co_pending (vw_core v q))" for i c
      using pending_apart [OF ok lv q(2) _ that] q(1) by auto
    with q tok show ?thesis by (auto simp: live_ok_def Let_def core fut tables)
  qed
  have eq: "ended_ok ?v q" "co_entry (vw_core ?v q) = e" if "vw_last ?v e = Some q" for e q
    using that view_okD(5,6) [OF ok, of e q]
    by (auto simp: tables ended_ok_def Let_def core split: if_splits)
  have tq: "co_token (vw_core ?v q) = t \<and> vw_is_live ?v q" if "vw_token ?v t = Some q" for t q
  proof -
    have t: "vw_token v t = Some q" "t \<noteq> co_token ?k" using that by (auto simp: tables split: if_splits)
    then have q: "co_token (vw_core v q) = t" "vw_is_live v q" using view_okD(3,4) [OF ok] by auto
    then have "q \<noteq> r" using t by auto
    moreover have "co_entry (vw_core v q) \<noteq> co_entry ?k"
      using q(2) lv \<open>q \<noteq> r\<close> by (auto simp: vw_is_live_def)
    ultimately show ?thesis using q by (simp add: core vw_is_live_def tables)
  qed
  have wq: "wait_ok ?v (c, d)" if "(c, d) \<in> set ws" for c d
  proof (cases "vw_future ?v c = Waiting")
    case True
    then have w: "vw_future v c = Waiting" "c \<notin> snd ` set (co_pending ?k)"
      by (auto simp: fut split: if_splits)
    with view_okD(8) [OF ok that] have d: "vw_is_live v (dv_session d)"
        "map_of (co_pending (vw_core v (dv_session d))) (dv_id d) = Some c"
      by (simp_all add: wait_ok_def)
    have "dv_session d \<noteq> r" using d(2) w(2) map_of_SomeD by force
    moreover have "co_entry (vw_core v (dv_session d)) \<noteq> co_entry ?k"
      using d(1) lv \<open>dv_session d \<noteq> r\<close> by (auto simp: vw_is_live_def)
    ultimately show ?thesis using d by (simp add: wait_ok_def core vw_is_live_def tables)
  qed (simp add: wait_ok_def)
  have "co_entry (vw_core ?v q) = e" if "vw_live ?v e = Some q" for e q
    using view_okD(1) [OF ok was [OF that]] by (simp add: entry)
  then show ?thesis using lq eq tq wq view_okD(7) [OF ok] by (intro view_okI) blast+
qed

lemma insert_ok:
  assumes ok: "view_ok ws v" and free: "vw_live v (co_entry k) = None" "vw_token v (co_token k) = None"
    and new: "\<not> co_closed k" "co_pending k = []" "co_late k = []"
    and unused: "r \<notin> ran (vw_live v)" "r \<notin> ran (vw_last v)" "r \<notin> ran (vw_token v)"
    and idle: "r \<notin> (\<lambda>(c, d). dv_session d) ` set ws"
  shows "view_ok ws (vw_insert r k v)"
proof -
  let ?v = "vw_insert r k v"
  have core: "vw_core ?v q = (if q = r then k else vw_core v q)" for q by (simp add: vw_insert_def)
  have tables: "vw_live ?v = (vw_live v)(co_entry k := Some r)"
      "vw_token ?v = (vw_token v)(co_token k := Some r)"
      "vw_last ?v = (vw_last v)(co_entry k := None)" "vw_future ?v = vw_future v"
    by (simp_all add: vw_insert_def)
  have other: "q \<noteq> r" if "vw_live v e = Some q \<or> vw_token v e = Some q \<or> vw_last v e = Some q" for e q
    using that unused by (auto simp: ran_def)
  have live_q: "vw_is_live ?v q" if "vw_is_live v q" for q
    using that other [of "co_entry (vw_core v q)" q] free(1) by (auto simp: vw_is_live_def core tables)
  show ?thesis
  proof (rule view_okI)
    fix e q assume q: "vw_live ?v e = Some q"
    show "co_entry (vw_core ?v q) = e"
      using q view_okD(1) [OF ok] other by (auto simp: core tables split: if_splits)
    show "live_ok ws ?v q"
    proof (cases "q = r")
      case True
      then show ?thesis using new by (simp add: live_ok_def Let_def core tables)
    next
      case False
      then have "live_ok ws v q" using q view_okD(2) [OF ok, of e q] by (auto simp: tables split: if_splits)
      then show ?thesis using False free(2) by (auto simp: live_ok_def Let_def core tables)
    qed
  next
    fix t q assume q: "vw_token ?v t = Some q"
    show "co_token (vw_core ?v q) = t \<and> vw_is_live ?v q"
    proof (cases "q = r")
      case True
      then have "t = co_token k" using q unused(3) by (auto simp: tables ran_def split: if_splits)
      then show ?thesis using True by (simp add: core vw_is_live_def tables)
    next
      case False
      then have "vw_token v t = Some q" using q by (auto simp: tables split: if_splits)
      then show ?thesis using False view_okD(3,4) [OF ok] live_q by (simp add: core)
    qed
  next
    fix e q assume "vw_last ?v e = Some q"
    then have q: "vw_last v e = Some q" by (auto simp: tables split: if_splits)
    then have "q \<noteq> r" using other by blast
    then show "co_entry (vw_core ?v q) = e" "ended_ok ?v q"
      using view_okD(5,6) [OF ok q] by (simp_all add: core ended_ok_def)
  next
    fix c d assume cd: "(c, d) \<in> set ws"
    show "wait_ok ?v (c, d)"
    proof (cases "vw_future v c = Waiting")
      case True
      then have "dv_session d \<noteq> r" using idle cd by force
      then show ?thesis using view_okD(8) [OF ok cd] live_q by (simp add: wait_ok_def tables core)
    qed (simp add: wait_ok_def tables)
  qed (rule view_okD(7) [OF ok])
qed

text \<open>Steps that change one live session's commands and one future.\<close>

lemma commands_ok:
  assumes ok: "view_ok ws v" and "vw_is_live v r"
    and core: "\<And>q. vw_core v' q = (if q = r then (vw_core v r)\<lparr>co_pending := p, co_late := l\<rparr> else vw_core v q)"
    and tables: "vw_live v' = vw_live v" "vw_token v' = vw_token v" "vw_last v' = vw_last v"
    and mine: "dict_ok p" "length l \<le> max_late_commands"
      "\<And>i c. (i, c) \<in> set p \<Longrightarrow> vw_future v' c = Waiting
         \<and> (\<exists>d. (c, d) \<in> set ws' \<and> dv_session d = r \<and> dv_id d = i)"
    and others: "\<And>q i c. q \<noteq> r \<Longrightarrow> vw_is_live v q \<Longrightarrow> (i, c) \<in> set (co_pending (vw_core v q))
         \<Longrightarrow> vw_future v' c = vw_future v c \<and> (\<forall>d. (c, d) \<in> set ws \<longrightarrow> (c, d) \<in> set ws')"
    and waits: "distinct (map fst ws')" "\<And>c d. (c, d) \<in> set ws' \<Longrightarrow> wait_ok v' (c, d)"
  shows "view_ok ws' v'"
proof (rule view_okI)
  have entry: "co_entry (vw_core v' q) = co_entry (vw_core v q)" for q by (simp add: core)
  have live_q: "vw_is_live v' q \<longleftrightarrow> vw_is_live v q" for q by (simp add: vw_is_live_def entry tables)
  {
    fix e q assume q: "vw_live v' e = Some q"
    show "co_entry (vw_core v' q) = e" using q view_okD(1) [OF ok] by (simp add: entry tables)
    have lq: "live_ok ws v q" "vw_is_live v q"
      using q view_okD(1,2) [OF ok, of e q] by (simp_all add: tables vw_is_live_def)
    show "live_ok ws' v' q"
    proof (cases "q = r")
      case True
      then show ?thesis using lq(1) mine by (auto simp: live_ok_def Let_def core tables)
    next
      case False
      then show ?thesis using lq(1) others [OF False lq(2)]
        by (fastforce simp: live_ok_def Let_def core tables)
    qed
  next
    fix t q assume "vw_token v' t = Some q"
    then show "co_token (vw_core v' q) = t \<and> vw_is_live v' q"
      using view_okD(3,4) [OF ok, of t q] by (auto simp add: tables live_q core)
  next
    fix e q assume q: "vw_last v' e = Some q"
    then have "vw_last v e = Some q" by (simp add: tables)
    note l = view_okD(5,6) [OF ok this]
    have "q \<noteq> r" using l(2) live_okD [OF ok assms(2)] by (auto simp: ended_ok_def live_ok_def Let_def)
    with l show "co_entry (vw_core v' q) = e" "ended_ok v' q" by (simp_all add: core ended_ok_def)
  }
qed (use waits in auto)

lemma start_ok:
  assumes ok: "view_ok ws v" and lv: "vw_is_live v (dv_session d)" and c: "c \<notin> fst ` set ws"
    and id: "dv_id d \<notin> dict_keys (co_pending (vw_core v (dv_session d)))"
  shows "view_ok ((c, d) # ws) (vw_start (dv_session d) (dv_id d) c v)"
proof -
  let ?r = "dv_session d" and ?v = "vw_start (dv_session d) (dv_id d) c v"
  note l = live_okD [OF ok lv]
  have core: "vw_core ?v q = (if q = ?r then (vw_core v ?r)\<lparr>co_pending :=
      AList.update (dv_id d) c (co_pending (vw_core v ?r)), co_late := co_late (vw_core v ?r)\<rparr>
      else vw_core v q)" for q
    by (simp add: vw_start_def Let_def)
  have fut: "vw_future ?v x = (if x = c then Waiting else vw_future v x)" for x
    by (simp add: vw_start_def Let_def)
  have tables: "vw_live ?v = vw_live v" "vw_token ?v = vw_token v" "vw_last ?v = vw_last v"
    by (simp_all add: vw_start_def Let_def)
  have new: "x \<noteq> c" if "vw_is_live v q" "(i, x) \<in> set (co_pending (vw_core v q))" for q i x
    using live_okD [OF ok that(1)] that(2) c by (force simp: live_ok_def Let_def)
  show ?thesis
  proof (rule commands_ok [OF ok lv core tables])
    show "dict_ok (AList.update (dv_id d) c (co_pending (vw_core v ?r)))"
        "length (co_late (vw_core v ?r)) \<le> max_late_commands"
      using l by (auto simp: live_ok_def Let_def)
  next
    fix i x assume x: "(i, x) \<in> set (AList.update (dv_id d) c (co_pending (vw_core v ?r)))"
    have "dict_ok (co_pending (vw_core v ?r))" using l by (simp add: live_ok_def Let_def)
    with x have "(i = dv_id d \<and> x = c) \<or> (i, x) \<in> set (co_pending (vw_core v ?r))"
      by (auto simp: dict_mem_update split: if_splits)
    then show "vw_future ?v x = Waiting
        \<and> (\<exists>d'. (x, d') \<in> set ((c, d) # ws) \<and> dv_session d' = ?r \<and> dv_id d' = i)"
      using l by (fastforce simp: live_ok_def Let_def fut)
  next
    fix q i x assume "vw_is_live v q" "(i, x) \<in> set (co_pending (vw_core v q))"
    then show "vw_future ?v x = vw_future v x \<and> (\<forall>d'. (x, d') \<in> set ws \<longrightarrow> (x, d') \<in> set ((c, d) # ws))"
      using new by (simp add: fut)
  next
    show "distinct (map fst ((c, d) # ws))" using c view_okD(7) [OF ok] by simp
  next
    fix x d' assume x: "(x, d') \<in> set ((c, d) # ws)"
    have live_q: "vw_is_live ?v q \<longleftrightarrow> vw_is_live v q" for q
      by (simp add: vw_is_live_def core tables)
    show "wait_ok ?v (x, d')"
    proof (cases "x = c")
      case True
      then have "d' = d" using x c by force
      then show ?thesis using True lv by (simp add: wait_ok_def core live_q update_conv')
    next
      case False
      then have w: "wait_ok v (x, d')" using x view_okD(8) [OF ok] by auto
      have "dv_id d' \<noteq> dv_id d" if "dv_session d' = ?r" "map_of (co_pending (vw_core v ?r)) (dv_id d') = Some x"
        using that(2) id by (auto simp: dict_keys_def dest!: map_of_SomeD) (metis fst_conv image_eqI)
      with w False show ?thesis by (auto simp: wait_ok_def live_q core fut update_conv')
    qed
  qed
qed

text \<open>Taking a command out of what its session waits for.\<close>

lemma removed_ok:
  assumes ok: "view_ok ws v" and lv: "vw_is_live v r" and p: "map_of (co_pending (vw_core v r)) cid = Some c"
    and core: "\<And>q. vw_core v' q = (if q = r then (vw_core v r)\<lparr>co_pending :=
        AList.delete cid (co_pending (vw_core v r)), co_late := l\<rparr> else vw_core v q)"
    and tables: "vw_live v' = vw_live v" "vw_token v' = vw_token v" "vw_last v' = vw_last v"
    and late: "length l \<le> max_late_commands"
    and fut: "\<And>x. x \<noteq> c \<Longrightarrow> vw_future v' x = vw_future v x"
    and ws': "distinct (map fst ws')" "set ws' \<subseteq> set ws"
      "\<And>x d. (x, d) \<in> set ws \<Longrightarrow> x \<noteq> c \<Longrightarrow> (x, d) \<in> set ws'"
      "\<And>d. (c, d) \<in> set ws' \<Longrightarrow> vw_future v' c \<noteq> Waiting"
  shows "view_ok ws' v'"
proof (rule commands_ok [OF ok lv core tables])
  note l = live_okD [OF ok lv]
  have pc: "(cid, c) \<in> set (co_pending (vw_core v r))" using p map_of_SomeD by fast
  have not_c: "x \<noteq> c" if "vw_is_live v q" "(i, x) \<in> set (co_pending (vw_core v q))" "q = r \<longrightarrow> i \<noteq> cid" for q i x
    using pending_apart [OF ok that(1) lv _ pc, of i] that(2,3) by auto
  show "dict_ok (AList.delete cid (co_pending (vw_core v r)))" "length l \<le> max_late_commands"
    using l late by (auto simp: live_ok_def Let_def)
  fix i x assume "(i, x) \<in> set (AList.delete cid (co_pending (vw_core v r)))"
  then have x: "i \<noteq> cid" "(i, x) \<in> set (co_pending (vw_core v r))" by (simp_all add: dict_mem_delete)
  then have "x \<noteq> c" using not_c lv by blast
  with l x(2) fut ws'(3) show "vw_future v' x = Waiting
      \<and> (\<exists>d. (x, d) \<in> set ws' \<and> dv_session d = r \<and> dv_id d = i)"
    by (fastforce simp: live_ok_def Let_def)
next
  fix q i x assume "q \<noteq> r" "vw_is_live v q" "(i, x) \<in> set (co_pending (vw_core v q))"
  then have "x \<noteq> c" using pending_apart [OF ok _ lv, of q i x cid] p map_of_SomeD by fastforce
  then show "vw_future v' x = vw_future v x \<and> (\<forall>d. (x, d) \<in> set ws \<longrightarrow> (x, d) \<in> set ws')"
    using fut ws'(3) by blast
next
  fix x d assume x: "(x, d) \<in> set ws'"
  have live_q: "vw_is_live v' q \<longleftrightarrow> vw_is_live v q" for q by (simp add: vw_is_live_def core tables)
  show "wait_ok v' (x, d)"
  proof (cases "x = c")
    case True
    then show ?thesis using ws'(4) x by (simp add: wait_ok_def)
  next
    case False
    have w: "wait_ok v (x, d)" using x ws'(2) view_okD(8) [OF ok] by blast
    have "dv_id d \<noteq> cid" if "dv_session d = r" "map_of (co_pending (vw_core v r)) (dv_id d) = Some x"
      using that p False by auto
    then show ?thesis using w False fut by (auto simp: wait_ok_def live_q core delete_conv')
  qed
qed (rule ws'(1))

lemma answer_ok:
  assumes "view_ok ws v" "vw_is_live v r" "map_of (co_pending (vw_core v r)) cid = Some c"
  shows "view_ok ws (vw_answer r cid c out v)"
proof (rule removed_ok [OF assms, where l = "co_late (vw_core v r)"])
  show "length (co_late (vw_core v r)) \<le> max_late_commands"
    using live_okD [OF assms(1,2)] by (simp add: live_ok_def Let_def)
qed (use view_okD(7) [OF assms(1)] in \<open>auto simp: vw_answer_def Let_def\<close>)

lemma remove1_waits:
  assumes "distinct (map fst ws)" "(c, d) \<in> set ws"
  shows "distinct (map fst (remove1 (c, d) ws))" "set (remove1 (c, d) ws) \<subseteq> set ws"
    and "(x, e) \<in> set ws \<Longrightarrow> x \<noteq> c \<Longrightarrow> (x, e) \<in> set (remove1 (c, d) ws)"
    and "(c, e) \<notin> set (remove1 (c, d) ws)"
proof -
  have dw: "distinct ws" using assms(1) by (simp add: distinct_map)
  show "set (remove1 (c, d) ws) \<subseteq> set ws" by (rule set_remove1_subset)
  show "distinct (map fst (remove1 (c, d) ws))"
    using assms(1) by (auto simp: distinct_map dest: notin_set_remove1 intro: inj_on_subset)
  show "(x, e) \<in> set ws \<Longrightarrow> x \<noteq> c \<Longrightarrow> (x, e) \<in> set (remove1 (c, d) ws)" by simp
  show "(c, e) \<notin> set (remove1 (c, d) ws)"
    using same_wait [OF assms(1,2), of e] dw by (auto simp: set_remove1_eq)
qed

lemma keep_late_ok:
  assumes ok: "view_ok ws v" and cd: "(c, d) \<in> set ws" and wt: "vw_future v c = Waiting"
    and late: "length late \<le> max_late_commands"
  shows "view_ok (remove1 (c, d) ws) (vw_keep_late (dv_session d) (dv_id d) late v)"
proof -
  have w: "vw_is_live v (dv_session d)"
      "map_of (co_pending (vw_core v (dv_session d))) (dv_id d) = Some c"
    using view_okD(8) [OF ok cd] wt by (simp_all add: wait_ok_def)
  note rm = remove1_waits [OF view_okD(7) [OF ok] cd]
  show ?thesis
    by (rule removed_ok [OF ok w, where l = late])
      (use rm late in \<open>auto simp: vw_keep_late_def vw_set_core_def Let_def\<close>)
qed

lemma returns_ok:
  assumes ok: "view_ok ws v" and cd: "(c, d) \<in> set ws" and fin: "vw_future v c \<noteq> Waiting"
  shows "view_ok (remove1 (c, d) ws) v"
proof (rule view_okI)
  note rm = remove1_waits [OF view_okD(7) [OF ok] cd]
  fix e r assume r: "vw_live v e = Some r"
  show "co_entry (vw_core v r) = e" by (rule view_okD(1) [OF ok r])
  have "x \<noteq> c" if "(i, x) \<in> set (co_pending (vw_core v r))" for i x
    using that view_okD(2) [OF ok r] fin by (auto simp: live_ok_def Let_def)
  with view_okD(2) [OF ok r] rm(3) show "live_ok (remove1 (c, d) ws) v r"
    by (fastforce simp: live_ok_def Let_def)
next
  show "distinct (map fst (remove1 (c, d) ws))"
    by (rule remove1_waits [OF view_okD(7) [OF ok] cd])
next
  fix x e assume "(x, e) \<in> set (remove1 (c, d) ws)"
  then show "wait_ok v (x, e)" using view_okD(8) [OF ok] notin_set_remove1 by fast
qed (use view_okD(3-6) [OF ok] in blast)+

lemma drop_late_ok:
  assumes ok: "view_ok ws v" and lv: "vw_is_live v r"
  shows "view_ok ws (vw_drop_late r cid v)"
proof -
  let ?v = "vw_drop_late r cid v"
  note l = live_okD [OF ok lv]
  have core: "vw_core ?v q = (if q = r then (vw_core v r)\<lparr>co_pending := co_pending (vw_core v r),
      co_late := AList.delete cid (co_late (vw_core v r))\<rparr> else vw_core v q)" for q
    by (simp add: vw_drop_late_def vw_set_core_def Let_def)
  have rest: "vw_live ?v = vw_live v" "vw_token ?v = vw_token v" "vw_last ?v = vw_last v" "vw_future ?v = vw_future v"
    by (simp_all add: vw_drop_late_def vw_set_core_def Let_def)
  show ?thesis
  proof (rule commands_ok [OF ok lv core rest(1-3)])
    show "dict_ok (co_pending (vw_core v r))" using l by (simp add: live_ok_def Let_def)
    have "length (AList.delete cid (co_late (vw_core v r))) \<le> length (co_late (vw_core v r))"
      by (simp add: AList.delete_eq)
    then show "length (AList.delete cid (co_late (vw_core v r))) \<le> max_late_commands"
      using l by (simp add: live_ok_def Let_def)
  next
    fix i c assume "(i, c) \<in> set (co_pending (vw_core v r))"
    then show "vw_future ?v c = Waiting \<and> (\<exists>d. (c, d) \<in> set ws \<and> dv_session d = r \<and> dv_id d = i)"
      using l by (auto simp: live_ok_def Let_def rest)
  next
    fix c d assume "(c, d) \<in> set ws"
    then show "wait_ok ?v (c, d)"
      using view_okD(8) [OF ok] by (auto simp: wait_ok_def vw_is_live_def core rest)
  qed (use view_okD(7) [OF ok] rest in auto)
qed

lemma forgets_ok:
  assumes ok: "view_ok ws v" shows "view_ok ws (v\<lparr>vw_last := (vw_last v)(e := None)\<rparr>)"
proof -
  have "live_ok ws (v\<lparr>vw_last := l\<rparr>) r = live_ok ws v r" "vw_is_live (v\<lparr>vw_last := l\<rparr>) r = vw_is_live v r"
      "ended_ok (v\<lparr>vw_last := l\<rparr>) r = ended_ok v r" "wait_ok (v\<lparr>vw_last := l\<rparr>) cd = wait_ok v cd" for l r cd
    by (simp_all add: live_ok_def vw_is_live_def ended_ok_def wait_ok_def)
  with ok show ?thesis by (simp add: view_ok_def)
qed

theorem view_step_ok: "view_step (v, ws) (v', ws') \<Longrightarrow> view_ok ws v \<Longrightarrow> view_ok ws' v'"
  by (erule view_stepE)
    (auto intro: forget_ok insert_ok start_ok answer_ok keep_late_ok returns_ok drop_late_ok forgets_ok)

section \<open>The view of each operation\<close>

lemma core_of_simps [simp]:
  "co_entry (core_of s) = ps_entry_id s" "co_token (core_of s) = ps_token s"
  "co_connection (core_of s) = ps_connection s" "co_closed (core_of s) \<longleftrightarrow> ps_closed_at s \<noteq> None"
  "co_pending (core_of s) = ps_pending s" "co_late (core_of s) = ps_late s"
  by (simp_all add: core_of_def)

lemma view_of_simps [simp]:
  "vw_core (view_of w) r = core_of (w_sessions w r)"
  "vw_future (view_of w) c = pc_future (w_commands w c)"
  "vw_live (view_of w) = map_of (w_by_entry w)" "vw_token (view_of w) = map_of (w_by_token w)"
  "vw_last (view_of w) = map_of (w_last_by_entry w)"
  by (simp_all add: view_of_def)

lemma view_eqI:
  assumes "\<And>r. vw_core v r = vw_core v' r" "\<And>c. vw_future v c = vw_future v' c"
    and "vw_live v = vw_live v'" "vw_token v = vw_token v'" "vw_last v = vw_last v'"
  shows "v = (v' :: view)"
proof -
  have "vw_core v = vw_core v'" "vw_future v = vw_future v'" using assms(1,2) by auto
  with assms(3-5) show ?thesis by (cases v; cases v') simp
qed

lemma is_live_view: "is_live w r \<longleftrightarrow> vw_is_live (view_of w) r"
  by (simp add: is_live_def vw_is_live_def get_def)

lemma core_of_count [simp]: "core_of (count_fact n s) = core_of s"
  by (simp add: core_of_def count_fact_def)

lemma emit_simps [simp]:
  "w_sessions (emit es w) = w_sessions w" "w_commands (emit es w) = w_commands w"
  "w_by_entry (emit es w) = w_by_entry w" "w_by_token (emit es w) = w_by_token w"
  "w_last_by_entry (emit es w) = w_last_by_entry w" "w_restart (emit es w) = w_restart w"
  "w_timers (emit es w) = w_timers w" "w_scheduled (emit es w) = w_scheduled w"
  "w_subscriptions (emit es w) = w_subscriptions w" "w_voice_stream (emit es w) = w_voice_stream w"
  "w_effects (emit es w) = w_effects w @ es"
  by (simp_all add: emit_def)

lemma set_session_simps [simp]:
  "w_sessions (set_session r f w) = (w_sessions w)(r := f (w_sessions w r))"
  "w_commands (set_session r f w) = w_commands w" "w_by_entry (set_session r f w) = w_by_entry w"
  "w_by_token (set_session r f w) = w_by_token w" "w_last_by_entry (set_session r f w) = w_last_by_entry w"
  "w_restart (set_session r f w) = w_restart w" "w_subscriptions (set_session r f w) = w_subscriptions w"
  "w_voice_stream (set_session r f w) = w_voice_stream w" "w_effects (set_session r f w) = w_effects w"
  by (simp_all add: set_session_def)

lemma set_command_simps [simp]:
  "w_commands (set_command c f w) = (w_commands w)(c := f (w_commands w c))"
  "w_sessions (set_command c f w) = w_sessions w" "w_by_entry (set_command c f w) = w_by_entry w"
  "w_by_token (set_command c f w) = w_by_token w" "w_last_by_entry (set_command c f w) = w_last_by_entry w"
  "w_restart (set_command c f w) = w_restart w" "w_subscriptions (set_command c f w) = w_subscriptions w"
  "w_voice_stream (set_command c f w) = w_voice_stream w" "w_effects (set_command c f w) = w_effects w"
  by (simp_all add: set_command_def)

lemma view_of_emit [simp]: "view_of (emit es w) = view_of w"
  by (rule view_eqI) simp_all

lemma view_of_changed [simp]: "view_of (changed e w) = view_of w"
  by (simp add: changed_def)

lemma view_of_set_session:
  "core_of (f (w_sessions w r)) = core_of (w_sessions w r) \<Longrightarrow> view_of (set_session r f w) = view_of w"
  by (rule view_eqI) simp_all

lemma view_of_set_command:
  "pc_future (f (w_commands w c)) = pc_future (w_commands w c) \<Longrightarrow> view_of (set_command c f w) = view_of w"
  by (rule view_eqI) simp_all

lemma settle_sessions [simp]:
  "w_sessions (settle c w) = w_sessions w" "w_voice_stream (settle c w) = w_voice_stream w"
  "view_of (settle c w) = view_of w"
  by (simp_all add: settle_def view_of_set_command split: option.split)

lemma settle_all_simps [simp]:
  "w_sessions (settle_all cs w) = w_sessions w" "w_voice_stream (settle_all cs w) = w_voice_stream w"
  "view_of (settle_all cs w) = view_of w"
  by (induction cs arbitrary: w) (simp_all add: settle_all_def)

lemma fail_pending_simps [simp]:
  "w_sessions (fail_pending cs w) = w_sessions w" "w_by_entry (fail_pending cs w) = w_by_entry w"
  "w_by_token (fail_pending cs w) = w_by_token w" "w_last_by_entry (fail_pending cs w) = w_last_by_entry w"
  "w_effects (fail_pending cs w) = w_effects w"
  by (induction cs arbitrary: w) (simp_all add: fail_pending_def)

lemma fail_pending_future [simp]:
  "pc_future (w_commands (fail_pending cs w) c) =
     (if c \<in> set cs \<and> pc_future (w_commands w c) = Waiting then Resolved None
      else pc_future (w_commands w c))"
  by (induction cs arbitrary: w) (auto simp: fail_pending_def)

lemma view_of_late [simp]:
  "view_of (set_session r (\<lambda>s. s\<lparr>ps_late := l\<rparr>) w)
     = vw_set_core r ((vw_core (view_of w) r)\<lparr>co_late := l\<rparr>) (view_of w)"
  by (rule view_eqI) (simp_all add: vw_set_core_def core_of_def)

lemma view_of_relays [simp]:
  "view_of (set_session r (\<lambda>s. s\<lparr>ps_ui_relays := l\<rparr>) w) = view_of w"
  by (rule view_of_set_session) (simp add: core_of_def)

lemma view_of_forget [simp]: "view_of (forget now r w) = vw_forget r (view_of w)"
proof -
  let ?s = "w_sessions w r"
  let ?w1 = "set_session r (\<lambda>s. s\<lparr>ps_closed_at := Some now\<rparr>)
       (w\<lparr>w_by_entry := AList.delete (ps_entry_id ?s) (w_by_entry w),
          w_by_token := AList.delete (ps_token ?s) (w_by_token w),
          w_last_by_entry := AList.update (ps_entry_id ?s) r (w_last_by_entry w)\<rparr>)"
  let ?w2 = "set_session r (\<lambda>s. s\<lparr>ps_pending := []\<rparr>) (fail_pending (map snd (ps_pending ?s)) ?w1)"
  have "view_of (forget now r w) = vw_set_core r ((vw_core (view_of ?w2) r)\<lparr>co_late := []\<rparr>) (view_of ?w2)"
    by (simp add: forget_def Let_def)
  also have "\<dots> = vw_forget r (view_of w)"
    by (rule view_eqI)
      (auto simp: vw_set_core_def vw_forget_def Let_def core_of_def delete_conv' update_conv' image_iff)
  finally show ?thesis .
qed

lemma view_of_subscriptions [simp]: "view_of (w\<lparr>w_subscriptions := x\<rparr>) = view_of w"
  by (rule view_eqI) simp_all

lemma view_of_close: "view_of (close now r reason announce w) =
    (if is_live w r then vw_forget r (view_of w) else view_of w)"
  by (simp add: close_def Let_def)

lemma view_of_cancel_timer [simp]: "view_of (cancel_timer e w) = view_of w"
  by (rule view_eqI) (simp_all add: cancel_timer_def split: option.split)

lemma view_of_restart [simp]:
  "view_of (w\<lparr>w_restart := x\<rparr>) = view_of w"
  "view_of (w\<lparr>w_restart := x, w_timers := y, w_scheduled := z\<rparr>) = view_of w"
  by (rule view_eqI; simp)+

lemma view_of_notices [simp]:
  "view_of (set_restart_notice now t e scope reason ms w) = view_of w"
  "view_of (clear_restart_notice e w) = view_of w"
  by (simp_all add: set_restart_notice_def clear_restart_notice_def Let_def split: option.split)

lemma view_of_teardown: "view_of (teardown now r w) =
    (if is_live w r then vw_forget r (view_of w) else view_of w)"
  by (simp add: teardown_def)

lemma view_of_mark_changed [simp]: "view_of (mark_changed r w) = view_of w"
  by (simp add: mark_changed_def)

lemma clear_restart_sessions [simp]:
  "w_sessions (cancel_timer e w) = w_sessions w" "w_sessions (changed e w) = w_sessions w"
  "w_sessions (clear_restart_notice e w) = w_sessions w"
  by (simp_all add: clear_restart_notice_def cancel_timer_def changed_def Let_def split: option.split)

lemma forget_other [simp]: "q \<noteq> r \<Longrightarrow> w_sessions (forget now r w) q = w_sessions w q"
  by (simp add: forget_def Let_def)

lemma forget_self: "ps_entry_id (w_sessions (forget now r w) r) = ps_entry_id (w_sessions w r)"
  by (simp add: forget_def Let_def)

lemma close_other [simp]: "q \<noteq> r \<Longrightarrow> w_sessions (close now r reason announce w) q = w_sessions w q"
  by (simp add: close_def Let_def)

lemma view_of_insert:
  assumes "w_sessions w r = s"
  shows "view_of (w\<lparr>w_last_by_entry := AList.delete (ps_entry_id s) (w_last_by_entry w),
      w_by_entry := AList.update (ps_entry_id s) r (w_by_entry w),
      w_by_token := AList.update (ps_token s) r (w_by_token w), w_subscriptions := subs\<rparr>)
    = vw_insert r (core_of s) (view_of w)"
  using assms by (intro view_eqI) (auto simp: vw_insert_def delete_conv' update_conv')

lemma view_of_open:
  assumes "get w (ps_entry_id (w_sessions w r)) \<noteq> Some r"
  shows "view_of (open_session now r w) = vw_insert r (core_of (w_sessions w r))
    (case get w (ps_entry_id (w_sessions w r)) of None \<Rightarrow> view_of w
     | Some old \<Rightarrow> view_of (close now old ''superseded'' False w))"
proof -
  define w1 where "w1 = (case get w (ps_entry_id (w_sessions w r)) of
    Some old \<Rightarrow> close now old ''superseded'' False w | None \<Rightarrow> w)"
  have same: "w_sessions w1 r = w_sessions w r"
    using assms by (auto simp: w1_def split: option.split)
  have "view_of (open_session now r w) = vw_insert r (core_of (w_sessions w r)) (view_of w1)"
    unfolding open_session_def Let_def w1_def [symmetric] view_of_changed
    by (subst view_of_insert) (simp_all add: same)
  then show ?thesis by (simp add: w1_def split: option.split)
qed

lemma view_of_start:
  "view_of (deliver_start now c d w) = vw_start (dv_session d) (dv_id d) c (view_of w)"
  by (rule view_eqI) (auto simp: deliver_start_def vw_start_def Let_def core_of_def count_fact_def)

lemma trim_late_simps:
  "view_of (snd (trim_late l w)) = view_of w" "w_sessions (snd (trim_late l w)) = w_sessions w"
  "length (fst (trim_late l w)) \<le> max_late_commands"
  by (induction l w rule: trim_late.induct) simp_all

lemma view_of_stop_waiting:
  assumes "map_of (ps_pending (w_sessions w r)) cid = Some c" "ps_closed_at (w_sessions w r) = None"
  shows "\<exists>late. length late \<le> max_late_commands \<and> view_of (stop_waiting r cid w) = vw_keep_late r cid late (view_of w)"
proof -
  let ?w1 = "set_session r (\<lambda>s. s\<lparr>ps_pending := AList.delete cid (ps_pending s)\<rparr>) w"
  obtain late w2 where t: "trim_late (AList.update cid c (ps_late (w_sessions ?w1 r))) ?w1 = (late, w2)"
    by fastforce
  have v2: "view_of w2 = view_of ?w1" "w_sessions w2 = w_sessions ?w1" "length late \<le> max_late_commands"
    using trim_late_simps [of "AList.update cid c (ps_late (w_sessions ?w1 r))" ?w1] unfolding t by simp_all
  have "view_of (stop_waiting r cid w) = view_of (set_session r (\<lambda>s. s\<lparr>ps_late := late\<rparr>) w2)"
    using assms t by (simp add: stop_waiting_def)
  also have "\<dots> = vw_keep_late r cid late (view_of w)"
    unfolding view_of_late v2(1)
    by (rule view_eqI) (auto simp: vw_keep_late_def vw_set_core_def Let_def core_of_def)
  finally show ?thesis using v2(3) by blast
qed

lemma view_of_end_wait:
  assumes "pc_future (w_commands w c) \<noteq> Waiting
    \<or> (map_of (ps_pending (w_sessions w (dv_session d))) (dv_id d) = Some c
        \<and> ps_closed_at (w_sessions w (dv_session d)) = None)"
  shows "if pc_future (w_commands w c) = Waiting
    then \<exists>late. length late \<le> max_late_commands
      \<and> view_of (end_wait c d w) = vw_keep_late (dv_session d) (dv_id d) late (view_of w)
    else view_of (end_wait c d w) = view_of w"
proof -
  let ?w1 = "set_command c (\<lambda>p. p\<lparr>pc_on_interim := None\<rparr>) w"
  have v: "view_of ?w1 = view_of w" by (rule view_of_set_command) simp
  show ?thesis
    using assms view_of_stop_waiting [of ?w1 "dv_session d" "dv_id d" c] v
    by (auto simp: end_wait_def Let_def)
qed

lemma view_of_result [simp]: "view_of (fst (deliver_result d res w)) = view_of w"
  by (simp add: deliver_result_def view_of_set_session split: option.split)

subsection \<open>Reports and results\<close>

lemma core_of_report_one: "core_of (fst (report_one L now m (s, x))) = core_of s"
  by (cases x) (auto simp: report_one_def core_of_def split: option.splits)

lemma core_of_reports: "core_of (fst (fold (report_one L now) ms (s, x))) = core_of s"
proof (induction ms arbitrary: s x)
  case (Cons m ms)
  obtain s' x' where "report_one L now m (s, x) = (s', x')" by (cases "report_one L now m (s, x)")
  with core_of_report_one [of L now m s x] Cons show ?case by simp
qed simp

lemma view_of_apply_sync [simp]: "view_of (apply_sync sync r w) = view_of w"
proof -
  have "view_of (set_session r (\<lambda>s. s\<lparr>ps_full_sync_begun := b\<rparr>) u) = view_of u"
      "view_of (set_session r (\<lambda>s. s\<lparr>ps_full_sync_complete := b\<rparr>) u) = view_of u" for b u
    by (rule view_of_set_session; simp add: core_of_def)+
  then show ?thesis by (simp add: apply_sync_def Let_def)
qed

lemma view_of_report_state [simp]:
  "view_of (ws_report_state L now conn mid token sync observations w) = view_of w"
proof (cases "for_request w token conn")
  case (Some r)
  obtain s1 rejected accepted where f:
      "fold (report_one L now) observations (w_sessions w r, [], []) = (s1, rejected, accepted)"
    using prod_cases3 by blast
  have "core_of (s1\<lparr>ps_rejected_observations := n\<rparr>) = core_of (w_sessions w r)" for n
    using core_of_reports [of L now observations "w_sessions w r" "([], [])"] f by (simp add: core_of_def)
  then have "view_of (set_session r (\<lambda>_. s1\<lparr>ps_rejected_observations := n\<rparr>) w) = view_of w" for n
    by (rule view_of_set_session)
  then show ?thesis using Some f by (simp add: ws_report_state_def Let_def)
qed (simp add: ws_report_state_def)

lemma view_of_restart_notice [simp]:
  "view_of (ws_restart_notice loop_now t conn mid token scope reason ms w) = view_of w"
  by (simp add: ws_restart_notice_def split: option.split)

lemma view_of_report_event [simp]:
  "view_of (ws_report_event conn mid token channel event_id event_type w) = view_of w"
proof -
  have "view_of (set_session r (\<lambda>s. s\<lparr>ps_last_event_id := i, ps_events_received := ps_events_received s + 1\<rparr>) w)
      = view_of w" for r i
    by (rule view_of_set_session) (simp add: core_of_def)
  then show ?thesis by (simp add: ws_report_event_def split: option.split)
qed

lemma core_of_recent [simp]: "core_of (s\<lparr>ps_recent_outcomes := x\<rparr>) = core_of s"
  by (simp add: core_of_def)

lemma core_of_record [simp]: "core_of (record_outcome now p m late s) = core_of s"
  by (simp add: record_outcome_def Let_def)

lemma view_of_interim [simp]: "view_of (run_interim loop_now c w) = view_of w"
  by (simp add: run_interim_def view_of_set_command split: option.split interim.split)

text \<open>A command result leaves the view, answers a command its session waits for, or drops a late
  one.\<close>

lemma view_of_resolve:
  "view_of (resolve_command loop_now r c late m w) \<in> {view_of w,
     if late then vw_drop_late r (rm_command_id m) (view_of w)
     else vw_answer r (rm_command_id m) c (outcome_of m) (view_of w)}"
proof -
  have a: "view_of (run_interim loop_now c (set_command c (\<lambda>p. p\<lparr>pc_approval_pending := True\<rparr>) w)) = view_of w"
    by (simp add: view_of_set_command)
  have b: "view_of (settle c (set_session r (\<lambda>s. s\<lparr>ps_late := AList.delete i (ps_late s)\<rparr>) w))
      = vw_drop_late r i (view_of w)" for i
    unfolding settle_sessions
    by (rule view_eqI) (auto simp: vw_drop_late_def vw_set_core_def Let_def core_of_def)
  have "view_of (set_command c (\<lambda>p. if pc_future p = Waiting then p\<lparr>pc_future := Resolved (Some out)\<rparr> else p)
      (set_session r (\<lambda>s. s\<lparr>ps_pending := AList.delete i (ps_pending s)\<rparr>) w)) = vw_answer r i c out (view_of w)" for i out
    by (rule view_eqI) (auto simp: vw_answer_def Let_def core_of_def)
  with a b show ?thesis by (simp add: resolve_command_def)
qed

lemma view_of_command_result:
  obtains (same) "view_of (ws_command_result now loop_now conn mid token m w) = view_of w"
  | (answer) r c where "for_request w token conn = Some r"
      "map_of (ps_pending (w_sessions w r)) (rm_command_id m) = Some c"
      "view_of (ws_command_result now loop_now conn mid token m w)
         = vw_answer r (rm_command_id m) c (outcome_of m) (view_of w)"
  | (drop) r where "for_request w token conn = Some r"
      "view_of (ws_command_result now loop_now conn mid token m w) = vw_drop_late r (rm_command_id m) (view_of w)"
proof (cases "for_request w token conn")
  case None
  then show thesis by (intro same) (simp add: ws_command_result_def)
next
  case (Some r)
  show thesis
  proof (cases "named_command (w_sessions w r) (rm_command_id m)")
    case None
    then show thesis using Some by (intro same) (simp add: ws_command_result_def view_of_set_session)
  next
    case (Some cl)
    obtain c late where cl: "cl = (c, late)" by fastforce
    let ?w1 = "set_session r (record_outcome now (w_commands w c) m late) w"
    have v1: "view_of ?w1 = view_of w" by (rule view_of_set_session) simp
    show thesis
    proof (cases "rm_outcome m = ''pending_approval'' \<and> pc_approval_pending (w_commands w c)")
      case True
      then show thesis using Some cl \<open>for_request w token conn = Some r\<close>
        by (intro same) (simp add: ws_command_result_def view_of_set_session)
    next
      case False
      then have "view_of (ws_command_result now loop_now conn mid token m w)
          = view_of (resolve_command loop_now r c late m ?w1)"
        using Some cl \<open>for_request w token conn = Some r\<close> by (auto simp: ws_command_result_def)
      moreover have "map_of (ps_pending (w_sessions w r)) (rm_command_id m) = Some c" if "\<not> late"
        using Some cl that by (auto simp: named_command_def split: option.splits)
      ultimately show thesis
        using view_of_resolve [of loop_now r c late m ?w1] v1 \<open>for_request w token conn = Some r\<close>
          same answer drop
        by (cases late) auto
    qed
  qed
qed

end
