(* ===== verification/Transport_Runs.thy ===== *)
theory Transport_Runs
  imports Transport_Views
begin

text \<open>
  The session table as a system: the world with the deliveries now waiting, and everything that
  can happen to it.  Every step is a short run of the abstract machine of Transport_Views, so
  every reachable system keeps its invariant.
\<close>

section \<open>Steps\<close>

record system =
  sy_world :: world
  sy_waits :: waits

abbreviation at_world :: "system \<Rightarrow> world \<Rightarrow> system" where
  "at_world y w \<equiv> y\<lparr>sy_world := w\<rparr>"

text \<open>What the constructor leaves in a new session's bookkeeping.\<close>

definition new_session :: "panel_session \<Rightarrow> bool" where
  "new_session s \<longleftrightarrow> ps_closed_at s = None \<and> ps_pending s = [] \<and> ps_late s = []
     \<and> ps_observations s = [] \<and> ps_rejections s = [] \<and> ps_recent_outcomes s = []
     \<and> \<not> ps_full_sync_begun s \<and> \<not> ps_full_sync_complete s
     \<and> ps_last_event_id s = -1 \<and> ps_events_received s = 0"

text \<open>A new object is none that a table or a waiting delivery still holds, and no event was ever
  counted on it.\<close>

definition new_ref :: "system \<Rightarrow> session_ref \<Rightarrow> bool" where
  "new_ref y r \<longleftrightarrow> r \<notin> snd ` set (w_by_entry (sy_world y)) \<and> r \<notin> snd ` set (w_by_token (sy_world y))
     \<and> r \<notin> snd ` set (w_last_by_entry (sy_world y)) \<and> r \<notin> (\<lambda>(c, d). dv_session d) ` set (sy_waits y)
     \<and> list_all (\<lambda>e. case e of EventFired q i ch et \<Rightarrow> q \<noteq> r | _ \<Rightarrow> True) (w_effects (sy_world y))"

text \<open>A new command object, and an id its session does not already wait under.\<close>

definition new_command :: "system \<Rightarrow> command_ref \<Rightarrow> delivery \<Rightarrow> bool" where
  "new_command y c d \<longleftrightarrow> c \<notin> fst ` set (sy_waits y)
     \<and> dv_id d \<notin> dict_keys (ps_pending (w_sessions (sy_world y) (dv_session d)))"

inductive sys_step :: "transport_libs \<Rightarrow> system \<Rightarrow> system \<Rightarrow> bool" for L where
  hello: "new_session s \<Longrightarrow> new_ref y r \<Longrightarrow> ps_token s \<notin> dict_keys (w_by_token (sy_world y)) \<Longrightarrow>
    sys_step L y (at_world y (open_session now r (set_session r (\<lambda>_. s) (sy_world y))))"
| closing: "sys_step L y (at_world y (close now r reason announce (sy_world y)))"
| closing_entry: "sys_step L y (at_world y (close_entry now e reason (sy_world y)))"
| closing_user: "sys_step L y (at_world y (close_user now user reason (sy_world y)))"
| gone: "sys_step L y (at_world y (teardown now r (sy_world y)))"
| policy: "sys_step L y (at_world y (apply_update_policy now e allowed (sy_world y)))"
| entry_removed: "sys_step L y (at_world y (forget_entry e (sy_world y)))"
| notice_over: "sys_step L y (at_world y (clear_restart_notice e (sy_world y)))"
| lifecycle: "sys_step L y (at_world y (broadcast_lifecycle event (sy_world y)))"
| state: "sys_step L y (at_world y (ws_report_state L now conn mid token sync observations (sy_world y)))"
| notice: "sys_step L y
    (at_world y (ws_restart_notice loop_now t conn mid token scope reason ms (sy_world y)))"
| event: "sys_step L y
    (at_world y (ws_report_event conn mid token channel event_id event_type (sy_world y)))"
| result: "sys_step L y (at_world y (ws_command_result now loop_now conn mid token m (sy_world y)))"
| command: "send_refusal (sy_world y) (Some r) = None \<Longrightarrow> d = command_delivery r channel v tok \<Longrightarrow>
    new_command y c d \<Longrightarrow>
    sys_step L y \<lparr>sy_world = deliver_start now c d (sy_world y), sy_waits = (c, d) # sy_waits y\<rparr>"
| manage: "manage_refusal (sy_world y) r = None \<Longrightarrow>
    d = manage_delivery r op extra wait approval wait_for_approval tok \<Longrightarrow> new_command y c d \<Longrightarrow>
    sys_step L y \<lparr>sy_world = deliver_start now c d (sy_world y), sy_waits = (c, d) # sy_waits y\<rparr>"
| resumes: "(c, d) \<in> set (sy_waits y) \<Longrightarrow> deliver_resume c d (sy_world y) = Some (w', res) \<Longrightarrow>
    sys_step L y \<lparr>sy_world = w', sy_waits = remove1 (c, d) (sy_waits y)\<rparr>"
| expires: "(c, d) \<in> set (sy_waits y) \<Longrightarrow> deliver_expire c d (sy_world y) = (w', res) \<Longrightarrow>
    sys_step L y \<lparr>sy_world = w', sy_waits = remove1 (c, d) (sy_waits y)\<rparr>"
| aborts: "(c, d) \<in> set (sy_waits y) \<Longrightarrow> deliver_abort c d (sy_world y) = (w', res) \<Longrightarrow>
    sys_step L y \<lparr>sy_world = w', sy_waits = remove1 (c, d) (sy_waits y)\<rparr>"

text \<open>The systems reached from an empty table, whatever connections it meets.\<close>

definition start_world :: "world \<Rightarrow> bool" where
  "start_world w \<longleftrightarrow> w_by_entry w = [] \<and> w_by_token w = [] \<and> w_last_by_entry w = []
     \<and> w_restart w = [] \<and> w_timers w = [] \<and> w_scheduled w = [] \<and> w_effects w = []
     \<and> (\<forall>r. ps_observations (w_sessions w r) = [] \<and> ps_rejections (w_sessions w r) = []
          \<and> ps_recent_outcomes (w_sessions w r) = [])"

inductive reachable :: "transport_libs \<Rightarrow> system \<Rightarrow> bool" for L where
  start: "start_world w \<Longrightarrow> reachable L \<lparr>sy_world = w, sy_waits = []\<rparr>"
| step: "reachable L y \<Longrightarrow> sys_step L y y' \<Longrightarrow> reachable L y'"

section \<open>Every step is a run of the abstract machine\<close>

definition abs_of :: "system \<Rightarrow> view \<times> waits" where
  "abs_of y = (view_of (sy_world y), sy_waits y)"

definition sys_ok :: "system \<Rightarrow> bool" where
  "sys_ok y \<longleftrightarrow> view_ok (sy_waits y) (view_of (sy_world y))"

abbreviation view_run :: "view \<times> waits \<Rightarrow> view \<times> waits \<Rightarrow> bool" where
  "view_run \<equiv> rtranclp view_step"

lemma run_stay: "view_run (v, ws) (v, ws)"
  by simp

lemma run_step: "view_step a b \<Longrightarrow> view_run a b"
  by simp

lemma run_close: "view_run (view_of w, ws) (view_of (close now r reason announce w), ws)"
  by (cases "is_live w r") (auto simp: view_of_close is_live_view intro: view_step.ends)

lemma run_teardown: "view_run (view_of w, ws) (view_of (teardown now r w), ws)"
  by (cases "is_live w r") (auto simp: view_of_teardown is_live_view intro: view_step.ends)

lemma run_close_user: "view_run (view_of w, ws) (view_of (close_user now user reason w), ws)"
proof -
  have "view_run (view_of w, ws) (view_of (fold (\<lambda>r. close now r reason True) rs w), ws)" for rs
  proof (induction rs arbitrary: w)
    case (Cons r rs)
    show ?case using rtranclp_trans [OF run_close Cons.IH] by simp
  qed simp
  then show ?thesis by (simp add: close_user_def)
qed

lemma ran_map_of: "x \<notin> snd ` set ps \<Longrightarrow> x \<notin> ran (map_of ps)"
  by (auto simp: ran_def dest!: map_of_SomeD) (metis image_eqI snd_conv)

lemma map_of_dict_keys: "k \<notin> dict_keys d \<longleftrightarrow> map_of d k = None"
  by (simp add: dict_keys_def map_of_eq_None_iff)

lemma run_hello:
  assumes ok: "sys_ok y" and s: "new_session s" and r: "new_ref y r"
    and t: "ps_token s \<notin> dict_keys (w_by_token (sy_world y))"
  shows "view_run (abs_of y)
    (view_of (open_session now r (set_session r (\<lambda>_. s) (sy_world y))), sy_waits y)"
proof -
  let ?w = "sy_world y" and ?k = "core_of s"
  let ?u = "set_session r (\<lambda>_. s) ?w"
  let ?ws = "sy_waits y"
  have unused: "r \<notin> ran (map_of (w_by_entry ?w))" "r \<notin> ran (map_of (w_last_by_entry ?w))"
      "r \<notin> ran (map_of (w_by_token ?w))"
    using r by (simp_all add: new_ref_def ran_map_of)
  have idle: "r \<notin> (\<lambda>(c, d). dv_session d) ` set ?ws"
    using r by (simp add: new_ref_def)
  have k: "\<not> co_closed ?k" "co_pending ?k = []" "co_late ?k = []" using s by (simp_all add: new_session_def)
  have tok: "map_of (w_by_token ?w) (ps_token s) = None" using t by (simp add: map_of_dict_keys)
  have insert_from: "vw_insert r ?k (view_of ?u) = vw_insert r ?k (view_of ?w)"
    by (rule view_eqI) (auto simp: vw_insert_def)
  have not_r: "get ?u (ps_entry_id s) \<noteq> Some r"
    using unused(1) by (auto simp: get_def ran_def)
  show ?thesis
  proof (cases "get ?w (ps_entry_id s)")
    case None
    then have step: "view_step (view_of ?w, ?ws) (vw_insert r ?k (view_of ?w), ?ws)"
      using tok k unused idle by (intro view_step.begins) (simp_all add: get_def)
    have opened: "view_of (open_session now r ?u) = vw_insert r ?k (view_of ?u)"
      using view_of_open [of ?u r now] None not_r by (simp add: get_def)
    have "view_of (open_session now r ?u) = vw_insert r ?k (view_of ?w)"
      by (rule trans [OF opened insert_from])
    then show ?thesis unfolding abs_of_def by (rule ssubst) (rule run_step [OF step])
  next
    case (Some old)
    have old: "is_live ?w old" "old \<noteq> r" "ps_entry_id (w_sessions ?w old) = ps_entry_id s"
      using Some unused(1) view_okD(1) [OF ok [unfolded sys_ok_def], of "ps_entry_id s" old]
      by (auto simp: is_live_def get_def ran_def)
    let ?f = "vw_forget old (view_of ?w)"
    have live0: "is_live ?u old" using old by (simp add: is_live_def get_def)
    have step1: "view_step (view_of ?w, ?ws) (?f, ?ws)"
      using old(1) by (intro view_step.ends) (simp add: is_live_view)
    have rans: "r \<notin> ran (vw_live ?f)" "r \<notin> ran (vw_last ?f)" "r \<notin> ran (vw_token ?f)"
      using unused old(2) by (auto simp: vw_forget_def Let_def ran_def split: if_splits)
    have step2: "view_step (?f, ?ws) (vw_insert r ?k ?f, ?ws)"
      using tok k rans idle old(3)
      by (intro view_step.begins) (simp_all add: vw_forget_def Let_def)
    have "vw_insert r ?k (view_of (close now old ''superseded'' False ?u)) = vw_insert r ?k ?f"
      unfolding view_of_close using live0 old(2)
      by (intro view_eqI) (auto simp: vw_insert_def vw_forget_def Let_def)
    then have "view_of (open_session now r ?u) = vw_insert r ?k ?f"
      using view_of_open [of ?u r now] Some not_r by (simp add: get_def)
    then show ?thesis using step1 step2 by (simp add: abs_of_def)
  qed
qed

lemma run_policy: "view_run (view_of w, ws) (view_of (apply_update_policy now e allowed w), ws)"
  using run_close by (simp add: apply_update_policy_def split: option.split)

lemma run_close_entry: "view_run (view_of w, ws) (view_of (close_entry now e reason w), ws)"
  using run_close by (simp add: close_entry_def split: option.split)

lemma run_forget_entry: "view_run (view_of w, ws) (view_of (forget_entry e w), ws)"
proof -
  have "view_of (forget_entry e w) = (view_of w)\<lparr>vw_last := (vw_last (view_of w))(e := None)\<rparr>"
    unfolding forget_entry_def view_of_notices
    by (rule view_eqI) (simp_all add: delete_conv')
  then show ?thesis using view_step.forgets [of "view_of w" ws e] by simp
qed

lemma for_request_live:
  assumes "sys_ok y" "for_request (sy_world y) token conn = Some r"
  shows "vw_is_live (view_of (sy_world y)) r" "ps_connection (w_sessions (sy_world y) r) = conn"
    "ps_token (w_sessions (sy_world y) r) = token"
  using assms(2) view_okD(3,4) [OF assms(1) [unfolded sys_ok_def], of token r]
  by (auto simp: for_request_def split: option.splits if_splits)

lemma run_result:
  assumes "sys_ok y"
  shows "view_run (abs_of y)
    (view_of (ws_command_result now loop_now conn mid token m (sy_world y)), sy_waits y)"
proof (cases rule: view_of_command_result [of now loop_now conn mid token m "sy_world y"])
  case (answer r c)
  have "view_step (abs_of y) (vw_answer r (rm_command_id m) c (outcome_of m) (view_of (sy_world y)), sy_waits y)"
    unfolding abs_of_def
    by (rule view_step.answers) (use for_request_live [OF assms answer(1)] answer(2) in simp_all)
  then show ?thesis using answer(3) by simp
next
  case (drop r)
  have "view_step (abs_of y) (vw_drop_late r (rm_command_id m) (view_of (sy_world y)), sy_waits y)"
    unfolding abs_of_def by (rule view_step.drops_late) (rule for_request_live [OF assms drop(1)])
  then show ?thesis using drop(2) by simp
qed (simp add: abs_of_def)

lemma run_start:
  assumes "is_live (sy_world y) (dv_session d)" "new_command y c d"
  shows "view_run (abs_of y) (abs_of \<lparr>sy_world = deliver_start now c d (sy_world y), sy_waits = (c, d) # sy_waits y\<rparr>)"
  using assms view_step.sends [of "view_of (sy_world y)" d c "sy_waits y"]
  by (auto simp: abs_of_def view_of_start is_live_view new_command_def)

text \<open>The end of a wait: its command is kept late, or its future was done.\<close>

lemma wait_end:
  assumes ok: "sys_ok y" and cd: "(c, d) \<in> set (sy_waits y)"
  shows "view_run (abs_of y) (view_of (end_wait c d (sy_world y)), remove1 (c, d) (sy_waits y))"
proof (cases "pc_future (w_commands (sy_world y) c) = Waiting")
  case True
  let ?v = "view_of (sy_world y)" and ?r = "dv_session d"
  have w: "vw_is_live ?v ?r" "map_of (ps_pending (w_sessions (sy_world y) ?r)) (dv_id d) = Some c"
    using view_okD(8) [OF ok [unfolded sys_ok_def] cd] True by (simp_all add: wait_ok_def)
  then have "ps_closed_at (w_sessions (sy_world y) ?r) = None"
    using live_okD [OF ok [unfolded sys_ok_def]] by (auto simp: live_ok_def Let_def)
  then obtain late where "length late \<le> max_late_commands"
      "view_of (end_wait c d (sy_world y)) = vw_keep_late ?r (dv_id d) late ?v"
    using view_of_end_wait [of "sy_world y" c d] True w(2) by auto
  then show ?thesis using view_step.keeps_late [OF cd, of ?v late] True by (simp add: abs_of_def)
next
  case False
  then have "view_of (end_wait c d (sy_world y)) = view_of (sy_world y)"
    using view_of_end_wait [of "sy_world y" c d] by simp
  then show ?thesis using view_step.returns [OF cd, of "view_of (sy_world y)"] False by (simp add: abs_of_def)
qed

lemma wait_end_at:
  assumes "sys_ok y" "(c, d) \<in> set (sy_waits y)" "view_of w = view_of (sy_world y)"
  shows "view_run (abs_of y) (view_of (end_wait c d w), remove1 (c, d) (sy_waits y))"
  using wait_end [of "at_world y w" c d] assms by (simp add: sys_ok_def abs_of_def)

lemma run_wait:
  assumes ok: "sys_ok y" and cd: "(c, d) \<in> set (sy_waits y)"
  shows "deliver_resume c d (sy_world y) = Some (w', res) \<Longrightarrow>
      view_run (abs_of y) (view_of w', remove1 (c, d) (sy_waits y))"
    and "deliver_expire c d (sy_world y) = (w', res) \<Longrightarrow>
      view_run (abs_of y) (view_of w', remove1 (c, d) (sy_waits y))"
    and "deliver_abort c d (sy_world y) = (w', res) \<Longrightarrow>
      view_run (abs_of y) (view_of w', remove1 (c, d) (sy_waits y))"
proof -
  note wait = wait_end [OF ok cd]
  have counted: "view_of (set_session r (count_fact n) w) = view_of w" for r n w
    by (rule view_of_set_session) simp
  have res: "view_of w' = view_of w" if "deliver_result d out w = (w', res)" for out w
    using view_of_result [of d out w] that by simp
  show "deliver_resume c d (sy_world y) = Some (w', res) \<Longrightarrow>
      view_run (abs_of y) (view_of w', remove1 (c, d) (sy_waits y))"
    using wait res by (auto simp: deliver_resume_def split: future.splits)
  show "deliver_expire c d (sy_world y) = (w', res) \<Longrightarrow>
      view_run (abs_of y) (view_of w', remove1 (c, d) (sy_waits y))"
    using wait res wait_end_at [OF ok cd counted] by (auto simp: deliver_expire_def split: future.splits)
  show "deliver_abort c d (sy_world y) = (w', res) \<Longrightarrow>
      view_run (abs_of y) (view_of w', remove1 (c, d) (sy_waits y))"
    using wait by (simp add: deliver_abort_def)
qed

theorem sys_step_run: "sys_step L y y' \<Longrightarrow> sys_ok y \<Longrightarrow> view_run (abs_of y) (abs_of y')"
proof (induction rule: sys_step.induct)
  case (command y r d channel v tok c now)
  then have "is_live (sy_world y) (dv_session d)"
    by (auto simp: send_refusal_def command_delivery_def split: if_splits)
  then show ?case using command run_start by blast
next
  case (manage y r d op extra wait approval wait_for_approval tok c now)
  then have "is_live (sy_world y) (dv_session d)"
    by (auto simp: manage_refusal_def manage_delivery_def split: if_splits)
  then show ?case using manage run_start by blast
next
  case (hello s y r now)
  then show ?case using run_hello by (simp add: abs_of_def)
next
  case (result y now loop_now conn mid token m)
  then show ?case using run_result by (simp add: abs_of_def)
next
  case (resumes c d y w' res)
  then show ?case using run_wait(1) by (simp add: abs_of_def)
next
  case (expires c d y w' res)
  then show ?case using run_wait(2) by (simp add: abs_of_def)
next
  case (aborts c d y w' res)
  then show ?case using run_wait(3) by (simp add: abs_of_def)
qed (simp_all add: abs_of_def run_close run_close_entry run_close_user run_teardown run_policy
  run_forget_entry broadcast_lifecycle_def)

lemma view_run_ok: "view_run a b \<Longrightarrow> view_ok (snd a) (fst a) \<Longrightarrow> view_ok (snd b) (fst b)"
  by (induction rule: rtranclp_induct) (auto dest: view_step_ok)

lemma sys_step_ok: "sys_step L y y' \<Longrightarrow> sys_ok y \<Longrightarrow> sys_ok y'"
  using view_run_ok [OF sys_step_run] by (simp add: sys_ok_def abs_of_def)

lemma reachable_ok: "reachable L y \<Longrightarrow> sys_ok y"
proof (induction rule: reachable.induct)
  case (start w)
  then show ?case by (simp add: sys_ok_def view_ok_def start_world_def)
qed (rule sys_step_ok)

end
