(* ===== verification/Transport_Traces.thy ===== *)
theory Transport_Traces
  imports Transport_Runs
begin

text \<open>
  What the system never does, beyond the table itself: an event of a session fires at most once,
  and what a session stores of its reports stays within what its hello described.  Both are
  invariants of one session's fields and of the list of effects, which most operations leave
  alone.
\<close>

section \<open>Events\<close>

fun fired_id :: "session_ref \<Rightarrow> effect \<Rightarrow> int list" where
  "fired_id r (EventFired q i ch et) = (if q = r then [i] else [])"
| "fired_id r _ = []"

definition fired_ids :: "session_ref \<Rightarrow> effect list \<Rightarrow> int list" where
  "fired_ids r es = concat (map (fired_id r) es)"

lemma fired_ids_append [simp]: "fired_ids r (es @ fs) = fired_ids r es @ fired_ids r fs"
  by (simp add: fired_ids_def)

lemma fired_ids_Cons [simp]: "fired_ids r (e # es) = fired_id r e @ fired_ids r es" "fired_ids r [] = []"
  by (simp_all add: fired_ids_def)

text \<open>What the other operations keep of a session.\<close>

record kept =
  kp_fired :: "int list"
  kp_last :: int
  kp_store :: "(string \<times> pydict) list \<times> (string \<times> observation) list \<times> (string \<times> string) list"

definition kept_of :: "world \<Rightarrow> session_ref \<Rightarrow> kept" where
  "kept_of w r = \<lparr>kp_fired = fired_ids r (w_effects w), kp_last = ps_last_event_id (w_sessions w r),
     kp_store = (ps_descriptors (w_sessions w r), ps_observations (w_sessions w r),
                 ps_rejections (w_sessions w r))\<rparr>"

lemma kept_emit: "(\<And>r. fired_ids r es = []) \<Longrightarrow> kept_of (emit es w) = kept_of w"
  by (rule ext) (simp add: kept_of_def)

lemma kept_set_session:
  "ps_last_event_id (f (w_sessions w r)) = ps_last_event_id (w_sessions w r) \<Longrightarrow>
     ps_descriptors (f (w_sessions w r)) = ps_descriptors (w_sessions w r) \<Longrightarrow>
     ps_observations (f (w_sessions w r)) = ps_observations (w_sessions w r) \<Longrightarrow>
     ps_rejections (f (w_sessions w r)) = ps_rejections (w_sessions w r) \<Longrightarrow>
     kept_of (set_session r f w) = kept_of w"
  by (rule ext) (simp add: kept_of_def)

lemma kept_set_command [simp]: "kept_of (set_command c f w) = kept_of w"
  by (rule ext) (simp add: kept_of_def)

lemma kept_cong:
  "w_sessions w = w_sessions w' \<Longrightarrow> w_effects w = w_effects w' \<Longrightarrow> kept_of w = kept_of w'"
  by (rule ext) (simp add: kept_of_def)

lemma kept_tables [simp]:
  "kept_of (w\<lparr>w_by_entry := a\<rparr>) = kept_of w" "kept_of (w\<lparr>w_by_token := a\<rparr>) = kept_of w"
  "kept_of (w\<lparr>w_last_by_entry := b\<rparr>) = kept_of w" "kept_of (w\<lparr>w_subscriptions := c\<rparr>) = kept_of w"
  "kept_of (w\<lparr>w_restart := d\<rparr>) = kept_of w" "kept_of (w\<lparr>w_timers := x\<rparr>) = kept_of w"
  "kept_of (w\<lparr>w_scheduled := y\<rparr>) = kept_of w"
  by (rule kept_cong; simp)+

lemma kept_changed [simp]: "kept_of (changed e w) = kept_of w"
  unfolding changed_def by (rule kept_emit) simp

lemma kept_settle [simp]: "kept_of (settle c w) = kept_of w"
  by (simp add: settle_def kept_emit split: option.split)

lemma kept_settle_all [simp]: "kept_of (settle_all cs w) = kept_of w"
  by (induction cs arbitrary: w) (simp_all add: settle_all_def)

lemma kept_fail_pending [simp]: "kept_of (fail_pending cs w) = kept_of w"
  by (rule kept_cong) simp_all

lemma kept_fields [simp]:
  "kept_of (set_session r (\<lambda>s. s\<lparr>ps_closed_at := a\<rparr>) w) = kept_of w"
  "kept_of (set_session r (\<lambda>s. s\<lparr>ps_pending := b\<rparr>) w) = kept_of w"
  "kept_of (set_session r (\<lambda>s. s\<lparr>ps_pending := AList.delete k (ps_pending s)\<rparr>) w) = kept_of w"
  "kept_of (set_session r (\<lambda>s. s\<lparr>ps_late := c\<rparr>) w) = kept_of w"
  "kept_of (set_session r (\<lambda>s. s\<lparr>ps_late := AList.delete k (ps_late s)\<rparr>) w) = kept_of w"
  "kept_of (set_session r (\<lambda>s. s\<lparr>ps_ui_relays := d\<rparr>) w) = kept_of w"
  "kept_of (set_session r (\<lambda>s. s\<lparr>ps_full_sync_begun := e\<rparr>) w) = kept_of w"
  "kept_of (set_session r (\<lambda>s. s\<lparr>ps_full_sync_complete := e\<rparr>) w) = kept_of w"
  "kept_of (set_session r (count_fact n) w) = kept_of w"
  "kept_of (set_session r (record_outcome now p m late) w) = kept_of w"
  by (rule kept_set_session; simp add: count_fact_def record_outcome_def Let_def)+

lemma kept_relays [simp]: "fired_ids r (map RelayEnded xs) = []"
  by (induction xs) simp_all

lemma kept_forget [simp]: "kept_of (forget now r w) = kept_of w"
  by (simp add: forget_def Let_def kept_emit)

lemma kept_close [simp]: "kept_of (close now r reason announce w) = kept_of w"
  by (simp add: close_def Let_def kept_emit)

lemma kept_fold_close [simp]: "kept_of (fold (\<lambda>r. close now r reason True) rs w) = kept_of w"
  by (induction rs arbitrary: w) simp_all

lemma kept_cancel_timer [simp]: "kept_of (cancel_timer e w) = kept_of w"
  by (simp add: cancel_timer_def split: option.split)

lemma kept_clear [simp]: "kept_of (clear_restart_notice e w) = kept_of w"
  by (simp add: clear_restart_notice_def Let_def split: option.split)

lemma kept_set_notice [simp]: "kept_of (set_restart_notice now t e scope reason ms w) = kept_of w"
  by (simp add: set_restart_notice_def Let_def)

lemma kept_open [simp]: "kept_of (open_session now r w) = kept_of w"
  by (simp add: open_session_def Let_def split: option.split)

lemma kept_trim [simp]: "kept_of (snd (trim_late l w)) = kept_of w"
  by (induction l w rule: trim_late.induct) simp_all

lemma kept_stop_waiting [simp]: "kept_of (stop_waiting r cid w) = kept_of w"
proof -
  have "kept_of w2 = kept_of u" if "trim_late l u = (late, w2)" for l u late w2
    using kept_trim [of l u] that by simp
  then show ?thesis by (auto simp: stop_waiting_def Let_def split: option.split prod.split)
qed

lemma kept_deliver [simp]:
  "kept_of (deliver_start now c d w) = kept_of w" "kept_of (end_wait c d w) = kept_of w"
  "kept_of (fst (deliver_result d res w)) = kept_of w"
proof -
  have "kept_of (set_session r (\<lambda>s. count_fact n (s\<lparr>ps_pending := AList.update i c (ps_pending s)\<rparr>)) u) = kept_of u"
    for r n i u
    by (rule kept_set_session) (simp_all add: count_fact_def)
  then show "kept_of (deliver_start now c d w) = kept_of w"
    by (simp add: deliver_start_def Let_def kept_emit deliver_event_def)
qed (simp_all add: end_wait_def Let_def deliver_result_def split: option.split)

lemma kept_wait_ends:
  "deliver_resume c d w = Some (w', res) \<Longrightarrow> kept_of w' = kept_of w"
  "deliver_expire c d w = (w', res) \<Longrightarrow> kept_of w' = kept_of w"
  "deliver_abort c d w = (w', res) \<Longrightarrow> kept_of w' = kept_of w"
proof -
  have r: "kept_of w' = kept_of u" if "deliver_result d out u = (w', res)" for out u
    using kept_deliver(3) [of d out u] that by simp
  show "deliver_resume c d w = Some (w', res) \<Longrightarrow> kept_of w' = kept_of w"
    "deliver_expire c d w = (w', res) \<Longrightarrow> kept_of w' = kept_of w"
    "deliver_abort c d w = (w', res) \<Longrightarrow> kept_of w' = kept_of w"
    using r by (auto simp: deliver_resume_def deliver_expire_def deliver_abort_def split: future.splits)
qed

lemma kept_result [simp]: "kept_of (ws_command_result now loop_now conn mid token m w) = kept_of w"
  by (simp add: ws_command_result_def resolve_command_def run_interim_def kept_emit
      split: option.split interim.split prod.split)

lemma kept_mark [simp]: "kept_of (mark_changed r w) = kept_of w"
  by (simp add: mark_changed_def)

lemma kept_apply_sync [simp]: "kept_of (apply_sync sync r w) = kept_of w"
  by (simp add: apply_sync_def Let_def)

section \<open>Accepted values are accepted again\<close>

lemma pattern_Some: "pattern p v = Some w \<longleftrightarrow> w = v \<and> (\<exists>s. v = PStr s \<and> p s)"
  by (auto simp: pattern_def split: pyval.splits)

lemma strict_bool_Some: "strict_bool v = Some w \<longleftrightarrow> w = v \<and> (\<exists>b. v = PBool b)"
  by (auto simp: strict_bool_def split: pyval.splits)

lemma strict_int_Some: "strict_int l h v = Some w \<longleftrightarrow> w = v \<and> (\<exists>i. v = PInt i \<and> l \<le> i \<and> i \<le> h)"
  by (auto simp: strict_int_def split: pyval.splits)

lemma plain_string_Some:
  "plain_string n v = Some w \<longleftrightarrow> w = v \<and> (\<exists>s. v = PStr s \<and> length s \<le> n \<and> \<not> list_ex is_control s)"
  by (auto simp: plain_string_def split: pyval.splits)

lemma mapping_value_Some: "mapping_value v = Some d \<longleftrightarrow> v = PDict d"
  by (auto simp: mapping_value_def split: pyval.splits)

lemma url_value_Some: "url_value L ss v = Some w \<Longrightarrow> w = v \<and> (\<exists>s. v = PStr s \<and> length s \<le> max_url_length)"
  by (auto simp: url_value_def split: pyval.splits if_splits option.splits prod.splits)

lemmas value_iffs = pattern_Some strict_bool_Some strict_int_Some plain_string_Some mapping_value_Some

lemma validate_text_Some: "validate_text v d = Some w \<longleftrightarrow> w = v \<and> plain_string max_string_length v = Some v"
  by (auto simp: validate_text_def plain_string_Some)

lemma validate_option_Some: "validate_option v d = Some w \<Longrightarrow> w = v \<and> (\<exists>s. v = PStr s)"
  by (auto simp: validate_option_def bind_eq_Some_conv split: pyval.splits if_splits)

lemma validate_number_Some: "validate_number v d = Some w \<Longrightarrow> w = v \<and> is_finite_number v"
  by (auto simp: validate_number_def bind_eq_Some_conv)

lemma validate_timestamp_Some: "validate_timestamp L v = Some w \<Longrightarrow> w = v"
  by (auto simp: validate_timestamp_def validate_text_Some split: option.splits pyval.splits if_splits)

lemma validate_sensor_Some: "validate_sensor L v d = Some w \<Longrightarrow> w = v"
  by (auto simp: validate_sensor_def bind_eq_Some_conv validate_text_Some
      dest: validate_option_Some validate_timestamp_Some split: if_splits)

lemma light_color_again: "light_color v = Some w \<Longrightarrow> light_color w = Some w \<and> w \<noteq> PNone"
  by (auto simp: light_color_def bind_eq_Some_conv byte_value_def value_iffs)

lemma light_effect_Some: "light_effect d e = Some x \<Longrightarrow> x = e"
  by (auto simp: light_effect_def bind_eq_Some_conv split: if_splits)

lemma validate_light_again:
  assumes "validate_light v d = Some w" shows "validate_light w d = Some w"
proof -
  obtain light on br co ef where
    s: "mapping_value v = Some light" "strict_bool (dict_get light ''on'') = Some on"
      "(let b = dict_get light ''brightness'' in
         if b = PNone then Some [] else do { x \<leftarrow> byte_value b; Some [(''brightness'', x)] }) = Some br"
      "(let c = dict_get light ''color'' in
         if c = PNone then Some [] else do { x \<leftarrow> light_color c; Some [(''color'', x)] }) = Some co"
      "(let e = dict_get light ''effect'' in
         if e = PNone then Some [] else do { x \<leftarrow> light_effect d e; Some [(''effect'', x)] }) = Some ef"
    and w: "w = PDict ([(''on'', on)] @ br @ co @ ef)"
    using assms unfolding validate_light_def bind_eq_Some_conv by blast
  have on: "strict_bool on = Some on" using s(2) by (auto simp: strict_bool_Some)
  have br: "br = [] \<or> (\<exists>x. br = [(''brightness'', x)] \<and> byte_value x = Some x \<and> x \<noteq> PNone)"
    using s(3) by (auto simp: Let_def bind_eq_Some_conv byte_value_def strict_int_Some split: if_splits)
  have co: "co = [] \<or> (\<exists>x. co = [(''color'', x)] \<and> light_color x = Some x \<and> x \<noteq> PNone)"
    using s(4) by (auto simp: Let_def bind_eq_Some_conv dest: light_color_again split: if_splits)
  have ef: "ef = [] \<or> (\<exists>x. ef = [(''effect'', x)] \<and> light_effect d x = Some x \<and> x \<noteq> PNone)"
    using s(5) by (auto simp: Let_def bind_eq_Some_conv dest: light_effect_Some split: if_splits)
  show ?thesis
    using br co ef on by (elim disjE exE conjE) (simp_all add: w validate_light_def mapping_value_def)
qed

lemma validate_media_again: "validate_media v d = Some w \<Longrightarrow> validate_media w d = Some w"
  by (auto simp: validate_media_def bind_eq_Some_conv value_iffs)

lemma optional_version_Some: "optional_version v = Some w \<Longrightarrow> w = v"
  by (auto simp: optional_version_def plain_string_Some split: if_splits)

lemma validate_update_again:
  assumes "validate_update L v d = Some w" shows "validate_update L w d = Some w"
proof -
  obtain u p i l r where
    s: "strict_bool (dict_get_default u ''in_progress'' (PBool False)) = Some p"
      "optional_version (dict_get u ''installed_version'') = Some i"
      "optional_version (dict_get u ''latest_version'') = Some l"
      "(let u = dict_get u ''release_url'' in if u = PNone then Some PNone else url_value L [''https''] u) = Some r"
    and w: "w = PDict [(''installed_version'', i), (''latest_version'', l), (''release_url'', r), (''in_progress'', p)]"
    using assms unfolding validate_update_def bind_eq_Some_conv by blast
  have "strict_bool p = Some p" using s(1) by (auto simp: strict_bool_Some)
  moreover have "optional_version i = Some i" "optional_version l = Some l"
    using s(2,3) optional_version_Some by metis+
  moreover have "(if r = PNone then Some PNone else url_value L [''https''] r) = Some r"
    using s(4) by (auto simp: Let_def split: if_splits dest: url_value_Some)
  ultimately show ?thesis by (simp add: w validate_update_def mapping_value_def)
qed

lemma value_validator_again:
  assumes "(p, f) \<in> set (value_validators L)" "f v d = Some w"
  shows "f w d = Some w"
  using assms
  by (auto simp: value_validators_def validate_boolean_def strict_bool_Some not_reported_def
      validate_light_again validate_media_again validate_update_again validate_text_Some
      dest: validate_number_Some validate_option_Some validate_sensor_Some)

lemma opt_items_same:
  "opt_items f g d = Some e \<Longrightarrow> (\<And>x y. g x = Some y \<Longrightarrow> y = x) \<Longrightarrow> e = d"
proof (induction d arbitrary: e)
  case (Cons p d)
  then show ?case by (cases p) (auto simp: bind_eq_Some_conv)
qed simp

lemma validate_attributes_again:
  assumes "validate_attributes v = Some a" shows "validate_attributes (PDict a) = Some a"
proof -
  consider "a = []" | "v = PDict a"
    using assms
    by (auto simp: validate_attributes_def bind_eq_Some_conv mapping_value_Some
        dest!: opt_items_same split: if_splits)
  then show ?thesis using assms by cases (simp_all add: validate_attributes_def mapping_value_def)
qed

section \<open>What a session stores\<close>

text \<open>Everything a session keeps of its reports is about channels its hello described, and every
  stored value still passes the validator of its channel.\<close>

definition observation_ok :: "transport_libs \<Rightarrow> pydict \<Rightarrow> observation \<Rightarrow> bool" where
  "observation_ok L descriptor ob \<longleftrightarrow> (case validator_for L descriptor of
     None \<Rightarrow> False
   | Some f \<Rightarrow> (if ob_state ob = ''known''
       then f (ob_value ob) descriptor = Some (ob_value ob)
         \<and> validate_attributes (PDict (ob_attributes ob)) = Some (ob_attributes ob)
       else ob_value ob = PNone \<and> ob_attributes ob = []))"

definition stored_ok :: "transport_libs \<Rightarrow> panel_session \<Rightarrow> bool" where
  "stored_ok L s \<longleftrightarrow> dict_ok (ps_observations s) \<and> dict_ok (ps_rejections s)
     \<and> dict_keys (ps_rejections s) \<subseteq> dict_keys (ps_descriptors s)
     \<and> (\<forall>(ch, ob) \<in> set (ps_observations s).
          \<exists>d. map_of (ps_descriptors s) ch = Some d \<and> observation_ok L d ob)"

lemma validator_for_member: "validator_for L d = Some f \<Longrightarrow> \<exists>p. (p, f) \<in> set (value_validators L)"
  by (auto simp: validator_for_def split: option.splits pyval.splits dest!: map_of_SomeD)

lemma checked_value_ok:
  assumes "validator_for L d = Some f" "checked_value f d m = Some (v, a)"
  shows "observation_ok L d \<lparr>ob_state = om_state m, ob_value = v, ob_attributes = a,
     ob_refresh = x, ob_received_at = y, ob_reason = z\<rparr>"
proof -
  obtain p where "(p, f) \<in> set (value_validators L)" using validator_for_member [OF assms(1)] ..
  then show ?thesis using assms
    by (auto simp: observation_ok_def checked_value_def bind_eq_Some_conv
        intro: value_validator_again validate_attributes_again split: if_splits)
qed

lemma dict_keys_update: "dict_keys (AList.update k v d) = insert k (dict_keys d)"
  by (auto simp: dict_keys_def update_conv' simp flip: dom_map_of_conv_image_fst)

lemma dict_keys_mem: "map_of d k = Some v \<Longrightarrow> k \<in> dict_keys d"
  by (auto simp: dict_keys_def dest: map_of_SomeD) (metis fst_conv image_eqI map_of_SomeD)

lemma dict_keys_delete_subset: "dict_keys (AList.delete k d) \<subseteq> dict_keys d"
  by (auto simp: dict_keys_def AList.delete_eq)

lemma report_one_ok:
  assumes "stored_ok L s"
  shows "stored_ok L (fst (report_one L now m (s, x)))
     \<and> ps_descriptors (fst (report_one L now m (s, x))) = ps_descriptors s
     \<and> ps_last_event_id (fst (report_one L now m (s, x))) = ps_last_event_id s"
proof -
  obtain rejected accepted where x: "x = (rejected, accepted)" by fastforce
  show ?thesis
  proof (cases "map_of (ps_descriptors s) (om_channel m)")
    case None
    then show ?thesis using assms by (simp add: report_one_def x)
  next
    case (Some d)
    note d = Some
    show ?thesis
    proof (cases "validator_for L d")
      case None
      then show ?thesis using assms d by (simp add: report_one_def x)
    next
      case (Some f)
      note f = Some
      show ?thesis
      proof (cases "checked_value f d m")
        case None
        then show ?thesis using assms d f dict_keys_mem [OF d]
          by (auto simp: report_one_def x stored_ok_def dict_keys_update)
      next
        case (Some va)
        obtain v a where va: "va = (v, a)" by fastforce
        let ?ob = "\<lparr>ob_state = om_state m, ob_value = v, ob_attributes = a, ob_refresh = om_refresh m,
          ob_received_at = now, ob_reason = om_reason m\<rparr>"
        have "observation_ok L d ?ob" using checked_value_ok [OF f] Some va by simp
        then show ?thesis using assms d f Some va dict_keys_delete_subset [of "om_channel m" "ps_rejections s"]
          by (auto simp: report_one_def x stored_ok_def dict_mem_update split: if_splits)
      qed
    qed
  qed
qed

lemma reports_ok:
  "stored_ok L s \<Longrightarrow> stored_ok L (fst (fold (report_one L now) ms (s, x)))
     \<and> ps_descriptors (fst (fold (report_one L now) ms (s, x))) = ps_descriptors s
     \<and> ps_last_event_id (fst (fold (report_one L now) ms (s, x))) = ps_last_event_id s"
proof (induction ms arbitrary: s x)
  case (Cons m ms)
  obtain s' x' where r: "report_one L now m (s, x) = (s', x')" by (cases "report_one L now m (s, x)")
  then show ?case using report_one_ok [OF Cons.prems, of now m x] Cons.IH [of s' x'] by simp
qed simp

section \<open>The invariant of the traces\<close>

definition session_trace_ok :: "transport_libs \<Rightarrow> world \<Rightarrow> session_ref \<Rightarrow> bool" where
  "session_trace_ok L w r \<longleftrightarrow> stored_ok L (w_sessions w r)
     \<and> sorted_wrt (<) (fired_ids r (w_effects w))
     \<and> (\<forall>i \<in> set (fired_ids r (w_effects w)). i \<le> ps_last_event_id (w_sessions w r))"

lemma trace_kept:
  assumes "kept_of w' = kept_of w" "session_trace_ok L w r" shows "session_trace_ok L w' r"
proof -
  have "kept_of w' r = kept_of w r" by (simp add: assms(1))
  then show ?thesis using assms(2) by (simp add: session_trace_ok_def kept_of_def stored_ok_def)
qed

lemma fired_none: "list_all (\<lambda>e. case e of EventFired q i ch et \<Rightarrow> q \<noteq> r | _ \<Rightarrow> True) es \<Longrightarrow> fired_ids r es = []"
  by (induction es) (auto split: effect.splits)

lemma report_state_trace:
  assumes "\<And>r. session_trace_ok L w r"
  shows "session_trace_ok L (ws_report_state L now conn mid token sync observations w) r"
proof (cases "for_request w token conn")
  case None
  then have "kept_of (ws_report_state L now conn mid token sync observations w) = kept_of w"
    by (simp add: ws_report_state_def kept_emit)
  then show ?thesis by (rule trace_kept) (rule assms)
next
  case (Some q)
  obtain s1 rejected accepted where f:
      "fold (report_one L now) observations (w_sessions w q, [], []) = (s1, rejected, accepted)"
    using prod_cases3 by blast
  let ?w1 = "set_session q (\<lambda>_. s1\<lparr>ps_rejected_observations := ps_rejected_observations s1 + int (length rejected)\<rparr>) w"
  have "stored_ok L s1" "ps_last_event_id s1 = ps_last_event_id (w_sessions w q)"
    using reports_ok [of L "w_sessions w q" now observations "([], [])"] assms [of q] f
    by (simp_all add: session_trace_ok_def)
  then have "session_trace_ok L ?w1 r"
    using assms [of r] by (auto simp: session_trace_ok_def stored_ok_def)
  moreover have "kept_of (ws_report_state L now conn mid token sync observations w) \<in> {kept_of w, kept_of ?w1}"
    using Some f by (auto simp: ws_report_state_def Let_def kept_emit)
  ultimately show ?thesis
    using assms [of r] by (auto intro: trace_kept [of _ w] trace_kept [of _ ?w1])
qed

lemma report_event_trace:
  assumes "\<And>r. session_trace_ok L w r"
  shows "session_trace_ok L (ws_report_event conn mid token channel event_id event_type w) r"
proof -
  let ?f = "\<lambda>s. s\<lparr>ps_last_event_id := event_id, ps_events_received := ps_events_received s + 1\<rparr>"
  have "kept_of (ws_report_event conn mid token channel event_id event_type w) \<in> {kept_of w} \<union>
      {kept_of (emit [EventFired q event_id channel event_type] (set_session q ?f w)) | q.
         ps_last_event_id (w_sessions w q) < event_id}"
    by (auto simp: ws_report_event_def kept_emit split: option.split)
  then consider "kept_of (ws_report_event conn mid token channel event_id event_type w) = kept_of w"
    | q where "ps_last_event_id (w_sessions w q) < event_id"
        "kept_of (ws_report_event conn mid token channel event_id event_type w)
          = kept_of (emit [EventFired q event_id channel event_type] (set_session q ?f w))"
    by blast
  then show ?thesis
  proof cases
    case 1
    then show ?thesis by (rule trace_kept) (rule assms)
  next
    case (2 q)
    have "session_trace_ok L (emit [EventFired q event_id channel event_type] (set_session q ?f w)) r"
      using assms [of r] 2(1)
      by (fastforce simp: session_trace_ok_def stored_ok_def sorted_wrt_append)
    with 2(2) show ?thesis by (rule trace_kept)
  qed
qed

lemma hello_trace:
  assumes "\<And>r. session_trace_ok L (sy_world y) r" "new_session s" "new_ref y q"
  shows "session_trace_ok L (open_session now q (set_session q (\<lambda>_. s) (sy_world y))) r"
proof -
  have "fired_ids q (w_effects (sy_world y)) = []" using assms(3) by (simp add: new_ref_def fired_none)
  then have "session_trace_ok L (set_session q (\<lambda>_. s) (sy_world y)) r"
    using assms(1) [of r] assms(2)
    by (auto simp: session_trace_ok_def stored_ok_def new_session_def dict_keys_def)
  then show ?thesis by (rule trace_kept [OF kept_open])
qed

lemma sys_step_trace:
  "sys_step L y y' \<Longrightarrow> (\<And>r. session_trace_ok L (sy_world y) r) \<Longrightarrow> session_trace_ok L (sy_world y') r"
proof (induction arbitrary: r rule: sys_step.induct)
  case (hello s y r now)
  then show ?case using hello_trace by simp
next
  case (state y now conn mid token sync observations)
  then show ?case using report_state_trace by simp
next
  case (event y conn mid token channel event_id event_type)
  then show ?case using report_event_trace by simp
next
  case (resumes c d y w' res)
  then show ?case by (auto intro: trace_kept [OF kept_wait_ends(1)])
next
  case (expires c d y w' res)
  then show ?case by (auto intro: trace_kept [OF kept_wait_ends(2)])
next
  case (aborts c d y w' res)
  then show ?case by (auto intro: trace_kept [OF kept_wait_ends(3)])
next
  case (lifecycle y event)
  have "kept_of (broadcast_lifecycle event (sy_world y)) = kept_of (sy_world y)"
    unfolding broadcast_lifecycle_def by (rule kept_emit) (auto simp: fired_ids_def)
  with lifecycle show ?case by (auto intro: trace_kept)
next
  case (closing_entry y now e reason)
  have "kept_of (close_entry now e reason (sy_world y)) = kept_of (sy_world y)"
    by (simp add: close_entry_def split: option.split)
  with closing_entry show ?case by (auto intro: trace_kept)
next
  case (closing_user y now user reason)
  have "kept_of (close_user now user reason (sy_world y)) = kept_of (sy_world y)" by (simp add: close_user_def)
  with closing_user show ?case by (auto intro: trace_kept)
next
  case (gone y now r)
  have "kept_of (teardown now r (sy_world y)) = kept_of (sy_world y)" by (simp add: teardown_def)
  with gone show ?case by (auto intro: trace_kept)
next
  case (policy y now e allowed)
  have "kept_of (apply_update_policy now e allowed (sy_world y)) = kept_of (sy_world y)"
    by (simp add: apply_update_policy_def split: option.split)
  with policy show ?case by (auto intro: trace_kept)
next
  case (entry_removed y e)
  have "kept_of (forget_entry e (sy_world y)) = kept_of (sy_world y)" by (simp add: forget_entry_def)
  with entry_removed show ?case by (auto intro: trace_kept)
next
  case (notice y loop_now t conn mid token scope reason ms)
  have "kept_of (ws_restart_notice loop_now t conn mid token scope reason ms (sy_world y)) = kept_of (sy_world y)"
    by (simp add: ws_restart_notice_def kept_emit split: option.split)
  with notice show ?case by (auto intro: trace_kept)
qed (auto intro: trace_kept [OF kept_close] trace_kept [OF kept_clear] trace_kept [OF kept_result]
  trace_kept [OF kept_deliver(1)])

lemma reachable_trace: "reachable L y \<Longrightarrow> session_trace_ok L (sy_world y) r"
proof (induction arbitrary: r rule: reachable.induct)
  case (start w)
  then show ?case by (simp add: session_trace_ok_def stored_ok_def start_world_def dict_keys_def)
qed (rule sys_step_trace)

end
