(* ===== verification/Transport_Properties.thy ===== *)
theory Transport_Properties
  imports Transport_Traces
begin

text \<open>
  The properties of the native transport: what its validators let through, that the session table
  is sound in every reachable system, what the callers of a command get, and what a session
  stores.  The sample run at the end of the first section opens a session, sends one management
  request and closes the session; the properties are applied to it.
\<close>

section \<open>A sample run\<close>

definition blank_session :: panel_session where
  "blank_session = \<lparr>ps_entry_id = ''entry'', ps_did = ''did'', ps_token = ''tok'', ps_connection = 7,
     ps_subscription_id = 5, ps_user_id = ''user'', ps_protocol = 5, ps_app_version = ''1.0.0'',
     ps_app_version_code = 1, ps_contract_digest = [], ps_capabilities = [''management''],
     ps_descriptors = [], ps_opened_at = 0, ps_remote = None, ps_addresses = [], ps_http_port = None,
     ps_unknown_channels = [], ps_observations = [], ps_full_sync_begun = False,
     ps_full_sync_complete = False, ps_rejected_observations = 0, ps_events_received = 0,
     ps_last_event_id = -1, ps_rejections = [], ps_closed_at = None,
     ps_prerelease_panel_builds = None, ps_ui_relays = [], ps_voice_stream_client_id = None,
     ps_log_sources = [], ps_saved_log_sink = None, ps_app_package = [], ps_pending = [],
     ps_late = [], ps_recent_outcomes = [], ps_command_counts = [], ps_local_adb_deferred = False,
     ps_local_adb_identity = None\<rparr>"

definition blank_world :: world where
  "blank_world = \<lparr>w_sessions = (\<lambda>_. blank_session), w_commands = (\<lambda>_. \<lparr>pc_channel = [],
     pc_future = Waiting, pc_approval_pending = False, pc_on_interim = None, pc_on_settled = None,
     pc_deadline = 0\<rparr>), w_by_entry = [], w_by_token = [], w_last_by_entry = [], w_restart = [],
     w_timers = [], w_scheduled = [], w_subscriptions = (\<lambda>_. []), w_voice_stream = False, w_effects = []\<rparr>"

definition sample_opened :: world where
  "sample_opened = open_session 0 0 (set_session 0 (\<lambda>_. blank_session) blank_world)"

definition sample_delivery :: delivery where
  "sample_delivery = manage_delivery 0 ''snapshot'' [] manage_timeout 0 True ''cmd''"

definition sample_sent :: world where
  "sample_sent = deliver_start 1 0 sample_delivery sample_opened"

definition sample_closed :: world where
  "sample_closed = close 2 0 ''entry_unloaded'' True sample_sent"

lemma reach_blank: "reachable L \<lparr>sy_world = blank_world, sy_waits = []\<rparr>"
  by (rule reachable.start) (simp add: start_world_def blank_world_def blank_session_def)

lemma new_session_blank: "new_session blank_session"
  by (simp add: new_session_def blank_session_def)

lemma new_ref_blank: "new_ref \<lparr>sy_world = blank_world, sy_waits = []\<rparr> 0"
  by (simp add: new_ref_def blank_world_def)

lemma reach_opened: "reachable L \<lparr>sy_world = sample_opened, sy_waits = []\<rparr>"
proof -
  have "sys_step L \<lparr>sy_world = blank_world, sy_waits = []\<rparr>
      (at_world \<lparr>sy_world = blank_world, sy_waits = []\<rparr>
        (open_session 0 0 (set_session 0 (\<lambda>_. blank_session) (sy_world \<lparr>sy_world = blank_world, sy_waits = []\<rparr>))))"
    by (rule sys_step.hello [OF new_session_blank new_ref_blank])
      (simp add: blank_world_def dict_keys_def)
  from reachable.step [OF reach_blank this] show ?thesis by (simp add: sample_opened_def)
qed

lemma sample_opened_facts:
  "w_by_entry sample_opened = [(''entry'', 0)]" "w_by_token sample_opened = [(''tok'', 0)]"
  "w_sessions sample_opened 0 = blank_session" "get sample_opened ''entry'' = Some 0"
proof -
  show "w_by_entry sample_opened = [(''entry'', 0)]" "w_by_token sample_opened = [(''tok'', 0)]"
    by code_simp+
  then show "get sample_opened ''entry'' = Some 0" by (simp add: get_def)
  have "get blank_world ''entry'' = None" by (simp add: get_def blank_world_def)
  then show "w_sessions sample_opened 0 = blank_session"
    by (simp add: sample_opened_def open_session_def Let_def blank_session_def get_def)
qed

lemma reach_sent: "reachable L \<lparr>sy_world = sample_sent, sy_waits = [(0, sample_delivery)]\<rparr>"
proof -
  let ?y = "\<lparr>sy_world = sample_opened, sy_waits = []\<rparr>"
  have "manage_refusal (sy_world ?y) 0 = None"
    by (simp add: manage_refusal_def is_live_def session_manages_def sample_opened_facts)
      (simp add: sample_opened_facts blank_session_def)
  moreover have "new_command ?y 0 sample_delivery"
    by (simp add: new_command_def sample_delivery_def manage_delivery_def sample_opened_facts)
      (simp add: blank_session_def dict_keys_def)
  ultimately have "sys_step L ?y \<lparr>sy_world = deliver_start 1 0 sample_delivery (sy_world ?y),
      sy_waits = (0, sample_delivery) # sy_waits ?y\<rparr>"
    by (intro sys_step.manage) (auto simp: sample_delivery_def)
  from reachable.step [OF reach_opened this] show ?thesis by (simp add: sample_sent_def)
qed

lemma reach_closed: "reachable L \<lparr>sy_world = sample_closed, sy_waits = [(0, sample_delivery)]\<rparr>"
  using reachable.step [OF reach_sent sys_step.closing [of L _ 2 0 "''entry_unloaded''" True]]
  by (simp add: sample_closed_def)

lemma sample_sent_facts:
  "for_request sample_sent ''tok'' 7 = Some 0" "pc_future (w_commands sample_sent 0) = Waiting"
  "dv_id sample_delivery = ''cmd''" "dv_session sample_delivery = 0"
  "ps_entry_id (w_sessions sample_sent 0) = ''entry''" "get sample_sent ''entry'' = Some 0"
  using sample_opened_facts
  by (simp_all add: sample_sent_def deliver_start_def Let_def for_request_def count_fact_def get_def
      sample_delivery_def manage_delivery_def blank_session_def)

lemma sample_closed_facts: "\<not> is_live sample_closed 0"
proof -
  have "is_live sample_sent 0" using sample_sent_facts(5,6) by (simp add: is_live_def)
  then have "view_of sample_closed = vw_forget 0 (view_of sample_sent)"
    by (simp add: sample_closed_def view_of_close)
  then show ?thesis unfolding is_live_view by (simp add: vw_is_live_def vw_forget_def Let_def)
qed

section \<open>The validators\<close>

text \<open>A channel list that a hello may carry is a list of at most 256 descriptors, each a dict
  with a channel, no channel twice, whatever voluptuous does with each descriptor.\<close>

theorem channels_bounded:
  "case channels L v of
     None \<Rightarrow> True
   | Some w \<Rightarrow> (\<exists>ds names. w = PList ds \<and> length ds \<le> max_channels
        \<and> opt_map (dict_field ''channel'') ds = Some names \<and> distinct names)"
proof -
  have len: "length ys = length xs" if "opt_map f xs = Some ys" for f :: "pyval \<Rightarrow> pyval option" and xs ys
    using that by (induction xs arbitrary: ys) (auto simp: bind_eq_Some_conv)
  show ?thesis
    by (auto simp: channels_def bounded_list_def bind_eq_Some_conv dest: len
        split: option.split pyval.splits if_splits)
qed

text \<open>The validators are stable: what one accepts and stores, for whatever descriptor, it
  accepts again unchanged.\<close>

theorem validators_stable:
  assumes "(p, f) \<in> set (value_validators L)" "f v d = Some w"
  shows "f w d = Some w"
  using assms by (rule value_validator_again)

theorem validators_stable_witness:
  "validate_light (PDict [(''on'', PBool True), (''brightness'', PInt 7)]) []
     = Some (PDict [(''on'', PBool True), (''brightness'', PInt 7)])"
proof (rule validators_stable)
  show "(''light'', validate_light) \<in> set (value_validators \<lparr>tl_schema = (\<lambda>s v. None),
      tl_url = (\<lambda>s. None), tl_datetime = (\<lambda>s. None)\<rparr>)"
    by (simp add: value_validators_def)
  show "validate_light (PDict [(''on'', PBool True), (''brightness'', PInt 7), (''extra'', PNone)]) []
      = Some (PDict [(''on'', PBool True), (''brightness'', PInt 7)])"
    by code_simp
qed

text \<open>Attributes that are accepted are at most 32, with short lower-case names and scalar
  values: nothing, a boolean, a finite number or a short text without control characters.\<close>

theorem attributes_bounded:
  "case validate_attributes v of
     None \<Rightarrow> True
   | Some a \<Rightarrow> length a \<le> max_attributes \<and> list_all (\<lambda>(k, x). code_pattern k \<and> attribute_value x) a"
proof -
  have items: "length e = length d \<and> list_all (\<lambda>(k, x). code_pattern k \<and> attribute_value x) e"
    if "opt_items (pattern code_pattern) (\<lambda>x. if attribute_value x then Some x else None) d = Some e" for d e
    using that
  proof (induction d arbitrary: e)
    case (Cons p d)
    then show ?case by (cases p) (auto simp: bind_eq_Some_conv pattern_Some split: if_splits)
  qed simp
  show ?thesis
    using items
    by (auto simp: validate_attributes_def bind_eq_Some_conv mapping_value_Some split: option.split if_splits)
qed

section \<open>The session table\<close>

text \<open>C35. In every reachable system an entry's live session is exactly the one its own token and
  connection name: a token finds a session only on that session's connection, only while it is
  the live session of its entry, and no closed session is found.\<close>

theorem session_table_sound:
  assumes "reachable L y"
  shows "(get (sy_world y) e = Some r \<longleftrightarrow> ps_entry_id (w_sessions (sy_world y) r) = e
      \<and> for_request (sy_world y) (ps_token (w_sessions (sy_world y) r))
          (ps_connection (w_sessions (sy_world y) r)) = Some r)
    \<and> (for_request (sy_world y) token conn = Some r \<longrightarrow>
        ps_token (w_sessions (sy_world y) r) = token \<and> ps_connection (w_sessions (sy_world y) r) = conn
        \<and> ps_closed_at (w_sessions (sy_world y) r) = None
        \<and> length (ps_late (w_sessions (sy_world y) r)) \<le> max_late_commands)"
proof -
  note ok = reachable_ok [OF assms]
  note v = ok [unfolded sys_ok_def]
  have "ps_entry_id (w_sessions (sy_world y) r) = e
      \<and> for_request (sy_world y) (ps_token (w_sessions (sy_world y) r))
          (ps_connection (w_sessions (sy_world y) r)) = Some r" if "get (sy_world y) e = Some r"
    using that view_okD(1,2) [OF v, of e r] by (simp add: get_def live_ok_def Let_def for_request_def)
  moreover have "get (sy_world y) e = Some r" if "ps_entry_id (w_sessions (sy_world y) r) = e"
      "for_request (sy_world y) t c = Some r" for t c
    using that for_request_live(1) [OF ok that(2)] by (simp add: vw_is_live_def get_def)
  moreover have "ps_closed_at (w_sessions (sy_world y) r) = None
      \<and> length (ps_late (w_sessions (sy_world y) r)) \<le> max_late_commands"
    if "for_request (sy_world y) token conn = Some r"
    using live_okD [OF v for_request_live(1) [OF ok that]] by (simp add: live_ok_def Let_def)
  ultimately show ?thesis using for_request_live(2,3) [OF ok, of token conn r] by blast
qed

theorem session_table_sound_witness:
  "ps_closed_at (w_sessions sample_sent 0) = None"
  using session_table_sound [OF reach_sent, of "''entry''" 0 "''tok''" 7] sample_sent_facts(1)
  by simp

text \<open>C36. No caller waits on a session that is gone: in every reachable system a delivery whose
  session is no longer live can resume at once, and one that still waits is named by its own
  command id in its live session, so an answer to it finds it.\<close>

theorem no_wait_outlives_session:
  assumes "reachable L y" "(c, d) \<in> set (sy_waits y)"
  shows "deliver_resume c d (sy_world y) \<noteq> None
    \<or> (is_live (sy_world y) (dv_session d)
        \<and> named_command (w_sessions (sy_world y) (dv_session d)) (dv_id d) = Some (c, False))"
  using view_okD(8) [OF reachable_ok [OF assms(1), unfolded sys_ok_def] assms(2)]
  by (cases "pc_future (w_commands (sy_world y) c)")
    (auto simp: wait_ok_def deliver_resume_def is_live_view named_command_def)

theorem no_wait_outlives_session_witness:
  "deliver_resume 0 sample_delivery sample_closed \<noteq> None"
  using no_wait_outlives_session [OF reach_closed, of 0 sample_delivery] sample_closed_facts
  by (simp add: sample_sent_facts)

text \<open>C37. An answer reaches its caller: when the panel reports a final outcome for a command still
  waited for, on the session's own connection and token, the caller's wait ends with exactly that
  outcome.\<close>

theorem answer_reaches_caller:
  assumes "reachable L y" "(c, d) \<in> set (sy_waits y)" "pc_future (w_commands (sy_world y) c) = Waiting"
    and "for_request (sy_world y) token conn = Some (dv_session d)"
    and "rm_command_id m = dv_id d" "rm_outcome m \<noteq> ''pending_approval''"
  shows "\<exists>w'. deliver_resume c d (ws_command_result now loop_now conn mid token m (sy_world y))
     = Some (w', Returned (outcome_of m))"
proof -
  let ?w = "sy_world y" and ?s = "w_sessions (sy_world y) (dv_session d)"
  have "map_of (ps_pending ?s) (dv_id d) = Some c"
    using view_okD(8) [OF reachable_ok [OF assms(1), unfolded sys_ok_def] assms(2)] assms(3)
    by (simp add: wait_ok_def)
  then have "named_command ?s (rm_command_id m) = Some (c, False)"
    by (simp add: named_command_def assms(5))
  then have "pc_future (w_commands (ws_command_result now loop_now conn mid token m ?w) c)
      = Resolved (Some (outcome_of m))"
    using assms(3,4,6) by (simp add: ws_command_result_def resolve_command_def)
  then show ?thesis by (simp add: deliver_resume_def deliver_result_def)
qed

theorem answer_reaches_caller_witness:
  "\<exists>w'. deliver_resume 0 sample_delivery (ws_command_result 3 3 7 9 ''tok''
      \<lparr>rm_command_id = ''cmd'', rm_outcome = ''applied'', rm_code = None, rm_result = PDict [],
       rm_status = None, rm_headers = None\<rparr> sample_sent)
     = Some (w', Returned (outcome_of \<lparr>rm_command_id = ''cmd'', rm_outcome = ''applied'', rm_code = None,
         rm_result = PDict [], rm_status = None, rm_headers = None\<rparr>))"
  using answer_reaches_caller [OF reach_sent, of 0 sample_delivery "''tok''" 7
      "\<lparr>rm_command_id = ''cmd'', rm_outcome = ''applied'', rm_code = None, rm_result = PDict [],
        rm_status = None, rm_headers = None\<rparr>" 3 3 9]
  by (simp add: sample_sent_facts)

text \<open>C38. Every step of the code (a hello, a report, a result, a send, the end of a wait, a
  closing, a teardown, a policy change) is a run of the abstract machine over who is live, under
  which token, and what each session waits for.\<close>

theorem table_refines_machine:
  assumes "reachable L y" "sys_step L y y'"
  shows "view_run (abs_of y) (abs_of y')"
  by (rule sys_step_run [OF assms(2) reachable_ok [OF assms(1)]])

theorem table_refines_machine_witness:
  "view_run (abs_of \<lparr>sy_world = sample_sent, sy_waits = [(0, sample_delivery)]\<rparr>)
     (abs_of \<lparr>sy_world = sample_closed, sy_waits = [(0, sample_delivery)]\<rparr>)"
  using table_refines_machine [OF reach_sent sys_step.closing [of undefined _ 2 0 "''entry_unloaded''" True]]
  by (simp add: sample_closed_def)

text \<open>C39. An event fires at most once: the ids a session's events fired with are strictly
  increasing, whatever is retried, repeated or sent out of order.\<close>

theorem events_fire_once:
  assumes "reachable L y"
  shows "sorted_wrt (<) (fired_ids r (w_effects (sy_world y)))"
  using reachable_trace [OF assms] by (simp add: session_trace_ok_def)

theorem events_fire_once_witness: "sorted_wrt (<) (fired_ids 0 (w_effects sample_closed))"
  using events_fire_once [OF reach_closed, of 0] by simp

text \<open>C40. A session stores observations and rejections only for channels its hello described, at
  most one each, and every stored known value still passes its channel's validator.\<close>

theorem reports_stay_described:
  assumes "reachable L y"
  shows "stored_ok L (w_sessions (sy_world y) r)
    \<and> length (ps_observations (w_sessions (sy_world y) r)) \<le> length (ps_descriptors (w_sessions (sy_world y) r))"
proof -
  let ?s = "w_sessions (sy_world y) r"
  have ok: "stored_ok L ?s" using reachable_trace [OF assms] by (simp add: session_trace_ok_def)
  have "dict_keys (ps_observations ?s) \<subseteq> dict_keys (ps_descriptors ?s)"
  proof
    fix ch assume "ch \<in> dict_keys (ps_observations ?s)"
    then obtain ob where "(ch, ob) \<in> set (ps_observations ?s)" by (auto simp: dict_keys_def)
    then obtain d where "map_of (ps_descriptors ?s) ch = Some d" using ok by (auto simp: stored_ok_def)
    then show "ch \<in> dict_keys (ps_descriptors ?s)" by (rule dict_keys_mem)
  qed
  then have "card (dict_keys (ps_observations ?s)) \<le> card (dict_keys (ps_descriptors ?s))"
    by (intro card_mono) (simp_all add: dict_keys_def)
  moreover have "card (dict_keys (ps_observations ?s)) = length (ps_observations ?s)"
    using ok distinct_card [of "map fst (ps_observations ?s)"]
    by (simp only: stored_ok_def dict_keys_def dict_ok_def length_map)
  moreover have "card (dict_keys (ps_descriptors ?s)) \<le> length (ps_descriptors ?s)"
    unfolding dict_keys_def by (metis card_length length_map)
  ultimately show ?thesis using ok by simp
qed

theorem reports_stay_described_witness:
  "length (ps_observations (w_sessions sample_sent 0)) \<le> length (ps_descriptors (w_sessions sample_sent 0))"
  using reports_stay_described [OF reach_sent, where r = 0] by simp

end
