(* ===== verification/Session_Frames.thy ===== *)
theory Session_Frames
  imports Transport_Traces
begin

text \<open>
  What a hello fixes of a session no later operation changes.  The locale says which fields of a
  session the operations write; whatever does not depend on them is the same after every step that
  opens no session.
\<close>

locale fixed_part =
  fixes f :: "panel_session \<Rightarrow> 'a"
  assumes fields:
    "f (s\<lparr>ps_closed_at := a\<rparr>) = f s" "f (s\<lparr>ps_pending := b\<rparr>) = f s" "f (s\<lparr>ps_late := b\<rparr>) = f s"
    "f (s\<lparr>ps_ui_relays := c\<rparr>) = f s" "f (s\<lparr>ps_full_sync_begun := d\<rparr>) = f s"
    "f (s\<lparr>ps_full_sync_complete := d\<rparr>) = f s" "f (s\<lparr>ps_command_counts := k\<rparr>) = f s"
    "f (s\<lparr>ps_recent_outcomes := ro\<rparr>) = f s" "f (s\<lparr>ps_rejections := rj\<rparr>) = f s"
    "f (s\<lparr>ps_observations := obs\<rparr>) = f s" "f (s\<lparr>ps_rejected_observations := n\<rparr>) = f s"
    "f (s\<lparr>ps_last_event_id := n\<rparr>) = f s" "f (s\<lparr>ps_events_received := n\<rparr>) = f s"
begin

definition fixed_of :: "world \<Rightarrow> session_ref \<Rightarrow> 'a" where
  "fixed_of w r = f (w_sessions w r)"

lemma fixed_set_session: "f (g (w_sessions w r)) = f (w_sessions w r) \<Longrightarrow> fixed_of (set_session r g w) = fixed_of w"
  by (rule ext) (simp add: fixed_of_def)

lemma fixed_cong: "w_sessions w = w_sessions w' \<Longrightarrow> fixed_of w = fixed_of w'"
  by (rule ext) (simp add: fixed_of_def)

lemma fixed_tables [simp]:
  "fixed_of (w\<lparr>w_by_entry := a\<rparr>) = fixed_of w" "fixed_of (w\<lparr>w_by_token := a\<rparr>) = fixed_of w"
  "fixed_of (w\<lparr>w_last_by_entry := b\<rparr>) = fixed_of w" "fixed_of (w\<lparr>w_subscriptions := c\<rparr>) = fixed_of w"
  "fixed_of (w\<lparr>w_restart := d\<rparr>) = fixed_of w" "fixed_of (w\<lparr>w_timers := x\<rparr>) = fixed_of w"
  "fixed_of (w\<lparr>w_scheduled := y\<rparr>) = fixed_of w" "fixed_of (emit es w) = fixed_of w"
  "fixed_of (set_command q h w) = fixed_of w" "fixed_of (changed e w) = fixed_of w"
  by (rule fixed_cong; simp add: changed_def)+

lemma fixed_count: "f (count_fact n s) = f s"
  by (simp add: count_fact_def fields)

lemma fixed_record: "f (record_outcome now p m late s) = f s"
  by (simp add: record_outcome_def Let_def fixed_count fields)

lemma fixed_fields [simp]:
  "fixed_of (set_session r (\<lambda>s. s\<lparr>ps_closed_at := a\<rparr>) w) = fixed_of w"
  "fixed_of (set_session r (\<lambda>s. s\<lparr>ps_pending := b\<rparr>) w) = fixed_of w"
  "fixed_of (set_session r (\<lambda>s. s\<lparr>ps_pending := AList.delete k (ps_pending s)\<rparr>) w) = fixed_of w"
  "fixed_of (set_session r (\<lambda>s. s\<lparr>ps_late := c\<rparr>) w) = fixed_of w"
  "fixed_of (set_session r (\<lambda>s. s\<lparr>ps_late := AList.delete k (ps_late s)\<rparr>) w) = fixed_of w"
  "fixed_of (set_session r (\<lambda>s. s\<lparr>ps_ui_relays := d\<rparr>) w) = fixed_of w"
  "fixed_of (set_session r (\<lambda>s. s\<lparr>ps_full_sync_begun := e\<rparr>) w) = fixed_of w"
  "fixed_of (set_session r (\<lambda>s. s\<lparr>ps_full_sync_complete := e\<rparr>) w) = fixed_of w"
  "fixed_of (set_session r (count_fact n) w) = fixed_of w"
  "fixed_of (set_session r (record_outcome now p m late) w) = fixed_of w"
  by (rule fixed_set_session; simp add: fields fixed_count fixed_record)+

lemma fixed_settle [simp]: "fixed_of (settle c w) = fixed_of w"
  by (simp add: settle_def split: option.split)

lemma fixed_settle_all [simp]: "fixed_of (settle_all cs w) = fixed_of w"
  by (induction cs arbitrary: w) (simp_all add: settle_all_def)

lemma fixed_fail_pending [simp]: "fixed_of (fail_pending cs w) = fixed_of w"
  by (rule fixed_cong) simp

lemma fixed_forget [simp]: "fixed_of (forget now r w) = fixed_of w"
  by (simp add: forget_def Let_def)

lemma fixed_close [simp]: "fixed_of (close now r reason announce w) = fixed_of w"
  by (simp add: close_def Let_def)

lemma fixed_close_entry [simp]: "fixed_of (close_entry now e reason w) = fixed_of w"
  by (simp add: close_entry_def split: option.split)

lemma fixed_close_user [simp]: "fixed_of (close_user now user reason w) = fixed_of w"
proof -
  have "fixed_of (fold (\<lambda>r. close now r reason True) rs w) = fixed_of w" for rs
    by (induction rs arbitrary: w) simp_all
  then show ?thesis by (simp add: close_user_def)
qed

lemma fixed_cancel_timer [simp]: "fixed_of (cancel_timer e w) = fixed_of w"
  by (simp add: cancel_timer_def split: option.split)

lemma fixed_clear [simp]: "fixed_of (clear_restart_notice e w) = fixed_of w"
  by (simp add: clear_restart_notice_def Let_def split: option.split)

lemma fixed_open [simp]: "fixed_of (open_session now r w) = fixed_of w"
  by (simp add: open_session_def Let_def split: option.split)

lemma fixed_trim [simp]: "fixed_of (snd (trim_late l w)) = fixed_of w"
  by (induction l w rule: trim_late.induct) simp_all

lemma fixed_stop_waiting [simp]: "fixed_of (stop_waiting r cid w) = fixed_of w"
proof -
  have "fixed_of w2 = fixed_of u" if "trim_late l u = (late, w2)" for l u late w2
    using fixed_trim [of l u] that by simp
  then show ?thesis by (auto simp: stop_waiting_def Let_def split: option.split prod.split)
qed

lemma fixed_deliver [simp]:
  "fixed_of (deliver_start now c d w) = fixed_of w" "fixed_of (end_wait c d w) = fixed_of w"
  "fixed_of (fst (deliver_result d res w)) = fixed_of w"
proof -
  have "fixed_of (set_session r (\<lambda>s. count_fact n (s\<lparr>ps_pending := AList.update i c (ps_pending s)\<rparr>)) u) = fixed_of u"
    for r n i u
    by (rule fixed_set_session) (simp add: fixed_count fields)
  then show "fixed_of (deliver_start now c d w) = fixed_of w"
    by (simp add: deliver_start_def Let_def)
qed (simp_all add: end_wait_def Let_def deliver_result_def split: option.split)

lemma fixed_wait_ends:
  "deliver_resume c d w = Some (w', res) \<Longrightarrow> fixed_of w' = fixed_of w"
  "deliver_expire c d w = (w', res) \<Longrightarrow> fixed_of w' = fixed_of w"
  "deliver_abort c d w = (w', res) \<Longrightarrow> fixed_of w' = fixed_of w"
proof -
  have r: "fixed_of w' = fixed_of u" if "deliver_result d out u = (w', res)" for out u
    using fixed_deliver(3) [of d out u] that by simp
  show "deliver_resume c d w = Some (w', res) \<Longrightarrow> fixed_of w' = fixed_of w"
    "deliver_expire c d w = (w', res) \<Longrightarrow> fixed_of w' = fixed_of w"
    "deliver_abort c d w = (w', res) \<Longrightarrow> fixed_of w' = fixed_of w"
    using r by (auto simp: deliver_resume_def deliver_expire_def deliver_abort_def split: future.splits)
qed

lemma fixed_result [simp]: "fixed_of (ws_command_result now loop_now conn mid token m w) = fixed_of w"
  by (simp add: ws_command_result_def resolve_command_def run_interim_def
      split: option.split interim.split prod.split)

lemma fixed_report_one: "f (fst (report_one L now m (s, x))) = f s"
  by (auto simp: report_one_def fields split: prod.split option.split)

lemma fixed_reports: "f (fst (fold (report_one L now) ms (s, x))) = f s"
proof (induction ms arbitrary: s x)
  case (Cons m ms)
  obtain s' x' where "report_one L now m (s, x) = (s', x')" by (cases "report_one L now m (s, x)")
  then show ?case using fixed_report_one [of L now m s x] Cons.IH [of s' x'] by simp
qed simp

lemma fixed_apply_sync [simp]: "fixed_of (apply_sync sync r w) = fixed_of w"
  by (simp add: apply_sync_def Let_def mark_changed_def)

lemma fixed_report_state [simp]:
  "fixed_of (ws_report_state L now conn mid token sync observations w) = fixed_of w"
proof (cases "for_request w token conn")
  case (Some r)
  obtain s1 rejected accepted where folded:
      "fold (report_one L now) observations (w_sessions w r, [], []) = (s1, rejected, accepted)"
    using prod_cases3 by blast
  have "f s1 = f (w_sessions w r)"
    using fixed_reports [of L now observations "w_sessions w r" "([], [])"] folded by simp
  then have "fixed_of (set_session r (\<lambda>_. s1\<lparr>ps_rejected_observations := n\<rparr>) w) = fixed_of w" for n
    by (intro fixed_set_session) (simp add: fields)
  then show ?thesis using Some folded by (simp add: ws_report_state_def Let_def)
qed (simp add: ws_report_state_def)

lemma fixed_report_event [simp]:
  "fixed_of (ws_report_event conn mid token channel event_id event_type w) = fixed_of w"
proof -
  have "fixed_of (set_session r (\<lambda>s. s\<lparr>ps_last_event_id := i, ps_events_received := ps_events_received s + 1\<rparr>) u)
      = fixed_of u" for r i u
    by (rule fixed_set_session) (simp add: fields)
  then show ?thesis by (simp add: ws_report_event_def split: option.split)
qed

end

definition no_new_session :: "system \<Rightarrow> system \<Rightarrow> bool" where
  "no_new_session y y' \<longleftrightarrow> (\<forall>e r. get (sy_world y') e = Some r \<longrightarrow> get (sy_world y) e = Some r)"

lemma get_open: "get (open_session now r w) (ps_entry_id (w_sessions w r)) = Some r"
proof -
  have "w_by_entry (changed e v) = w_by_entry v" for e v by (simp add: changed_def emit_def)
  then show ?thesis by (simp add: open_session_def Let_def get_def update_conv')
qed

context fixed_part begin

lemma step_keeps:
  "sys_step L y y' \<Longrightarrow> no_new_session y y' \<Longrightarrow> fixed_of (sy_world y') = fixed_of (sy_world y)"
proof (induction rule: sys_step.induct)
  case (hello s y r now)
  have "get (open_session now r (set_session r (\<lambda>_. s) (sy_world y))) (ps_entry_id s) = Some r"
    using get_open [of now r "set_session r (\<lambda>_. s) (sy_world y)"] by simp
  then have "get (sy_world y) (ps_entry_id s) = Some r"
    using hello by (simp add: no_new_session_def)
  then have "r \<in> snd ` set (w_by_entry (sy_world y))"
    unfolding get_def by (metis image_eqI map_of_SomeD snd_conv)
  then show ?case using hello.hyps(2) by (simp add: new_ref_def)
next
  case (lifecycle y event)
  then show ?case by (simp add: broadcast_lifecycle_def)
qed (auto simp: teardown_def apply_update_policy_def forget_entry_def ws_restart_notice_def
    set_restart_notice_def Let_def dest: fixed_wait_ends split: option.split)

end

text \<open>What admission fixes: the entry, the identity, the account, the capabilities, the log sources.\<close>

definition grant_of :: "panel_session \<Rightarrow> string \<times> string \<times> string \<times> string list \<times> (string \<times> int) list" where
  "grant_of s = (ps_entry_id s, ps_did s, ps_user_id s, ps_capabilities s, ps_log_sources s)"

interpretation grant: fixed_part grant_of
  by unfold_locales (simp_all add: grant_of_def)

end
