(* ===== verification/Channel_Catalogue.thy ===== *)
theory Channel_Catalogue
  imports Transport_Protocol
begin

text \<open>
  The channel catalogue (contract.py): which descriptors of a hello are known, and which entity a
  channel ID stands for.  The rows are those of \<open>panel_assistant_transport_v1.json\<close>, in its order;
  \<open>attributes\<close>, \<open>color_modes\<close>, \<open>options\<close> and \<open>mode\<close>, which only the entities read, are left out.
\<close>

section \<open>The contract's rows\<close>

record catalogue_row =
  cr_channel :: "string option"
  cr_family :: "string option"
  cr_platform :: string
  cr_translation_key :: string
  cr_unique_suffix :: string

type_synonym row_fields = "string option \<times> string option \<times> string \<times> string \<times> string"

definition catalogue_row_of :: "row_fields \<Rightarrow> catalogue_row" where
  "catalogue_row_of = (\<lambda>(channel, family, platform, key, suffix).
     \<lparr>cr_channel = channel, cr_family = family, cr_platform = platform,
      cr_translation_key = key, cr_unique_suffix = suffix\<rparr>)"

definition contract_rows :: "row_fields list" where
  "contract_rows =
  [((Some ''auto_sleep_activity''), None, ''binary_sensor'', ''auto_sleep_activity'', ''auto_sleep_activity''),
   ((Some ''diag_usb_debugging''), None, ''binary_sensor'', ''usb_debugging'', ''usb_debugging''),
   ((Some ''proximity''), None, ''binary_sensor'', ''proximity'', ''proximity''),
   ((Some ''reboot''), None, ''button'', ''reboot'', ''reboot''),
   ((Some ''reload''), None, ''button'', ''reload'', ''reload''),
   ((Some ''android_settings''), None, ''button'', ''android_settings'', ''android_settings''),
   ((Some ''launcher''), None, ''button'', ''launcher'', ''launcher''),
   ((Some ''recents''), None, ''button'', ''recents'', ''recents''),
   ((Some ''dashboard''), None, ''button'', ''dashboard'', ''dashboard''),
   ((Some ''back''), None, ''button'', ''back'', ''back''),
   ((Some ''button''), None, ''event'', ''button'', ''button''),
   (None, (Some ''button_led''), ''light'', ''button_led'', ''button_led{index}''),
   ((Some ''buttons''), None, ''light'', ''buttons'', ''buttons''),
   ((Some ''led''), None, ''light'', ''led'', ''led''),
   ((Some ''screen''), None, ''light'', ''screen'', ''screen''),
   ((Some ''media''), None, ''media_player'', ''media'', ''media''),
   ((Some ''dashboard_idle_return''), None, ''number'', ''dashboard_idle_return'', ''dashboard_idle_return''),
   ((Some ''screen_off_timeout''), None, ''number'', ''screen_off_timeout'', ''screen_off_timeout''),
   ((Some ''volume''), None, ''number'', ''volume'', ''volume''),
   ((Some ''companion_update_channel''), None, ''select'', ''companion_update_channel'', ''companion_update_channel''),
   ((Some ''cpu_governor''), None, ''select'', ''cpu_governor'', ''cpu_governor''),
   ((Some ''dashboard_theme''), None, ''select'', ''dashboard_theme'', ''dashboard_theme''),
   ((Some ''navbar''), None, ''select'', ''navbar'', ''navbar''),
   ((Some ''update_channel''), None, ''select'', ''update_channel'', ''update_channel''),
   ((Some ''diag_boot''), None, ''sensor'', ''diag_boot'', ''diag_boot''),
   ((Some ''diag_cpu''), None, ''sensor'', ''diag_cpu'', ''diag_cpu''),
   ((Some ''diag_ip''), None, ''sensor'', ''diag_ip'', ''diag_ip''),
   ((Some ''diag_memory''), None, ''sensor'', ''diag_memory'', ''diag_memory''),
   ((Some ''diag_soc_temp''), None, ''sensor'', ''diag_soc_temp'', ''diag_soc_temp''),
   ((Some ''diag_wifi_outages_24h''), None, ''sensor'', ''diag_wifi_outages_24h'', ''diag_wifi_outages_24h''),
   ((Some ''diag_wifi_rssi''), None, ''sensor'', ''diag_wifi_rssi'', ''diag_wifi_rssi''),
   ((Some ''diag_wifi_ssid''), None, ''sensor'', ''diag_wifi_ssid'', ''diag_wifi_ssid''),
   ((Some ''humidity''), None, ''sensor'', ''humidity'', ''humidity''),
   ((Some ''illuminance''), None, ''sensor'', ''illuminance'', ''illuminance''),
   ((Some ''proximity_level''), None, ''sensor'', ''proximity_level'', ''proximity_level''),
   ((Some ''room_humidity''), None, ''sensor'', ''room_humidity'', ''room_humidity''),
   ((Some ''room_temp''), None, ''sensor'', ''room_temp'', ''room_temp''),
   ((Some ''storage_health''), None, ''sensor'', ''storage_health'', ''storage_health''),
   ((Some ''temperature''), None, ''sensor'', ''temperature'', ''temperature''),
   ((Some ''zigbee_gateway_health''), None, ''sensor'', ''zigbee_gateway_health'', ''zigbee_gateway_health''),
   ((Some ''auto_brightness''), None, ''switch'', ''auto_brightness'', ''auto_brightness''),
   ((Some ''auto_sleep''), None, ''switch'', ''auto_sleep'', ''auto_sleep''),
   ((Some ''camera_enabled''), None, ''camera'', ''camera'', ''camera''),
   ((Some ''companion_auto_update''), None, ''switch'', ''companion_auto_update'', ''companion_auto_update''),
   ((Some ''kiosk_lock''), None, ''switch'', ''kiosk_lock'', ''kiosk_lock''),
   ((Some ''network_adb''), None, ''switch'', ''network_adb'', ''network_adb''),
   ((Some ''prevent_idle_dim''), None, ''switch'', ''prevent_idle_dim'', ''prevent_idle_dim''),
   (None, (Some ''relay''), ''switch'', ''relay'', ''relay{index}''),
   ((Some ''self_update''), None, ''switch'', ''self_update'', ''self_update''),
   ((Some ''silence_boot_chime''), None, ''switch'', ''silence_boot_chime'', ''silence_boot_chime''),
   ((Some ''touch_sound''), None, ''switch'', ''touch_sound'', ''touch_sound''),
   ((Some ''wake_on_wave''), None, ''switch'', ''wake_on_wave'', ''wake_on_wave''),
   ((Some ''watchdog''), None, ''switch'', ''watchdog'', ''watchdog''),
   ((Some ''webview_auto_update''), None, ''switch'', ''webview_auto_update'', ''webview_auto_update''),
   ((Some ''zigbee_router''), None, ''switch'', ''zigbee_router'', ''zigbee_router''),
   ((Some ''home_dashboard''), None, ''text'', ''home_dashboard'', ''home_dashboard''),
   ((Some ''navigate''), None, ''text'', ''navigate'', ''navigate''),
   ((Some ''update_companion''), None, ''update'', ''update_companion'', ''ha_companion_update''),
   ((Some ''update_paneld''), None, ''update'', ''update_paneld'', ''ha_paneld_update'')]"

definition contract_channels :: "catalogue_row list" where
  "contract_channels = map catalogue_row_of contract_rows"

text \<open>\<open>_BY_CHANNEL\<close> and \<open>_BY_FAMILY\<close>\<close>

definition channel_rows :: "(string option \<times> catalogue_row) list" where
  "channel_rows = map (\<lambda>r. (cr_channel r, r)) (filter (\<lambda>r. cr_family r = None) contract_channels)"

definition family_rows :: "(string \<times> catalogue_row) list" where
  "family_rows = [(f, r). r \<leftarrow> contract_channels, f \<leftarrow> (case cr_family r of None \<Rightarrow> [] | Some f \<Rightarrow> [f])]"

definition by_channel :: "string \<Rightarrow> catalogue_row option" where
  "by_channel ch = map_of channel_rows (Some ch)"

definition by_family :: "string \<Rightarrow> catalogue_row option" where
  "by_family f = map_of family_rows f"

section \<open>Lookups\<close>

text \<open>\<open>template.format(index=i)\<close>\<close>

function format_index :: "int \<Rightarrow> string \<Rightarrow> string" where
  "format_index i [] = []"
| "format_index i (c # s) = (if starts_with (c # s) ''{index}''
     then int_string i @ format_index i (drop 6 s) else c # format_index i s)"
  by pat_completeness auto
termination
  by (relation "measure (\<lambda>(i, s). length s)") auto

text \<open>\<open>f"{family}{index}"\<close>\<close>

definition member_channel :: "string \<Rightarrow> int \<Rightarrow> string" where
  "member_channel family i = family @ int_string i"

text \<open>The exact shape by which older apps describe their camera control.\<close>

definition legacy_camera :: "pydict \<Rightarrow> bool" where
  "legacy_camera d \<longleftrightarrow> item d ''channel'' = Some (PStr ''camera_enabled'')
     \<and> item d ''platform'' = Some (PStr ''switch'')
     \<and> item d ''translation_key'' = Some (PStr ''camera_enabled'')
     \<and> item d ''unique_suffix'' = Some (PStr ''camera_enabled'')"

definition as_switch :: "catalogue_row \<Rightarrow> catalogue_row" where
  "as_switch row = row\<lparr>cr_platform := ''switch'', cr_translation_key := ''camera_enabled'',
     cr_unique_suffix := ''camera_enabled''\<rparr>"

text \<open>The row and suffix a descriptor names, before its other fields are compared.\<close>

definition named_row :: "pydict \<Rightarrow> (catalogue_row \<times> string) option" where
  "named_row d = (case item d ''family'' of
     Some PNone \<Rightarrow> (case item d ''channel'' of
        Some (PStr ch) \<Rightarrow> map_option (\<lambda>row. let row1 = (if legacy_camera d then as_switch row else row)
                                in (row1, cr_unique_suffix row1)) (by_channel ch)
      | _ \<Rightarrow> None)
   | Some (PStr family) \<Rightarrow> (case by_family family of
        None \<Rightarrow> None
      | Some row \<Rightarrow> (case item d ''index'' of
          Some (PInt i) \<Rightarrow> (if i < 1 \<or> item d ''channel'' \<noteq> Some (PStr (member_channel family i)) then None
             else Some (row, format_index i (cr_unique_suffix row)))
        | _ \<Rightarrow> None))
   | _ \<Rightarrow> None)"

definition catalogue_entry :: "pydict \<Rightarrow> catalogue_row option" where
  "catalogue_entry d = (case named_row d of
     None \<Rightarrow> None
   | Some (row, suffix) \<Rightarrow>
       (if item d ''platform'' \<noteq> Some (PStr (cr_platform row))
          \<or> item d ''translation_key'' \<noteq> Some (PStr (cr_translation_key row))
          \<or> item d ''unique_suffix'' \<noteq> Some (PStr suffix) then None else Some row))"

text \<open>\<open>index.isdecimal() and str(int(index)) == index and 1 <= int(index) <= max_family_index\<close>\<close>

definition family_index :: "string \<Rightarrow> int option" where
  "family_index s = (if s \<noteq> [] \<and> list_all is_digit s \<and> int_string (dec_value s) = s
     \<and> 1 \<le> dec_value s \<and> dec_value s \<le> max_family_index then Some (dec_value s) else None)"

fun family_member :: "string \<Rightarrow> (string \<times> catalogue_row) list \<Rightarrow> (catalogue_row \<times> string) option" where
  "family_member ch [] = None"
| "family_member ch ((family, row) # rest) =
     (let index = remove_prefix family ch in
      if index = ch then family_member ch rest
      else (case family_index index of
        None \<Rightarrow> family_member ch rest
      | Some i \<Rightarrow> Some (row, format_index i (cr_unique_suffix row))))"

definition catalogue_entry_for_channel :: "string \<Rightarrow> (catalogue_row \<times> string) option" where
  "catalogue_entry_for_channel ch = (case by_channel ch of
     Some row \<Rightarrow> Some (row, cr_unique_suffix row)
   | None \<Rightarrow> family_member ch family_rows)"

section \<open>The rows\<close>

definition button_led_row :: catalogue_row where
  "button_led_row = \<lparr>cr_channel = None, cr_family = Some ''button_led'', cr_platform = ''light'',
     cr_translation_key = ''button_led'', cr_unique_suffix = ''button_led{index}''\<rparr>"

definition relay_row :: catalogue_row where
  "relay_row = \<lparr>cr_channel = None, cr_family = Some ''relay'', cr_platform = ''switch'',
     cr_translation_key = ''relay'', cr_unique_suffix = ''relay{index}''\<rparr>"

lemma family_rows_eq: "family_rows = [(''button_led'', button_led_row), (''relay'', relay_row)]"
  by code_simp

lemma by_family_cases:
  "by_family f = Some row \<longleftrightarrow> (f = ''button_led'' \<and> row = button_led_row) \<or> (f = ''relay'' \<and> row = relay_row)"
  by (auto simp: by_family_def family_rows_eq split: if_splits)

text \<open>What the whole catalogue satisfies, row by row.\<close>

definition plain_row :: "string option \<times> catalogue_row \<Rightarrow> bool" where
  "plain_row = (\<lambda>(ch, row). cr_family row = None \<and> ch = cr_channel row
     \<and> (case ch of None \<Rightarrow> False | Some c \<Rightarrow> \<not> starts_with c ''relay'' \<and> \<not> starts_with c ''button_led'')
     \<and> \<not> starts_with (cr_unique_suffix row) ''relay'' \<and> \<not> starts_with (cr_unique_suffix row) ''button_led'')"

lemma channel_rows_plain: "list_all plain_row channel_rows"
  by code_simp

lemma channel_rows_distinct: "distinct (map fst channel_rows)"
  by code_simp

lemma channel_entities_distinct:
  "distinct (map (\<lambda>(ch, row). (cr_platform row, cr_unique_suffix row)) channel_rows)"
  by code_simp

lemma by_channel_SomeD:
  assumes "by_channel ch = Some row"
  shows "(Some ch, row) \<in> set channel_rows" "cr_family row = None" "cr_channel row = Some ch"
    "\<not> starts_with ch ''relay''" "\<not> starts_with ch ''button_led''"
    "\<not> starts_with (cr_unique_suffix row) ''relay''" "\<not> starts_with (cr_unique_suffix row) ''button_led''"
proof -
  show mem: "(Some ch, row) \<in> set channel_rows"
    using assms unfolding by_channel_def by (rule map_of_SomeD)
  then have "plain_row (Some ch, row)" using channel_rows_plain by (simp add: list_all_iff)
  then show "cr_family row = None" "cr_channel row = Some ch"
    "\<not> starts_with ch ''relay''" "\<not> starts_with ch ''button_led''"
    "\<not> starts_with (cr_unique_suffix row) ''relay''" "\<not> starts_with (cr_unique_suffix row) ''button_led''"
    by (simp_all add: plain_row_def)
qed

lemma starts_with_append: "starts_with (p @ s) p"
  by (simp add: starts_with_def)

lemma remove_prefix_append [simp]: "remove_prefix p (p @ s) = s"
  by (simp add: remove_prefix_def starts_with_append)

lemma remove_prefix_changes: "remove_prefix p s \<noteq> s \<Longrightarrow> s = p @ remove_prefix p s"
  by (simp add: remove_prefix_def starts_with_def split: if_splits) (metis append_take_drop_id)

lemma family_member_no_channel: "by_family f = Some row \<Longrightarrow> by_channel (f @ s) = None"
  by (cases "by_channel (f @ s)") (auto simp: by_family_cases starts_with_def dest: by_channel_SomeD(4,5))

section \<open>Family members\<close>

lemma family_index_Some: "family_index s = Some i \<longleftrightarrow> s = int_string i \<and> 1 \<le> i \<and> i \<le> max_family_index"
  by (auto simp: family_index_def int_string_digits dec_string_digits)

lemma format_members:
  "format_index i (cr_unique_suffix button_led_row) = ''button_led'' @ int_string i"
  "format_index i (cr_unique_suffix relay_row) = ''relay'' @ int_string i"
  by (simp_all add: button_led_row_def relay_row_def starts_with_def)

definition members_apart :: "(string \<times> catalogue_row) list \<Rightarrow> bool" where
  "members_apart ps \<longleftrightarrow> (\<forall>p \<in> set ps. fst p \<noteq> [])
     \<and> (\<forall>p \<in> set ps. \<forall>i. format_index i (cr_unique_suffix (snd p)) = member_channel (fst p) i)
     \<and> (\<forall>p \<in> set ps. \<forall>q \<in> set ps. p \<noteq> q \<longrightarrow> (\<forall>s t. fst p @ s \<noteq> fst q @ t))"

definition member_of :: "(string \<times> catalogue_row) list \<Rightarrow> string \<Rightarrow> catalogue_row \<Rightarrow> int \<Rightarrow> bool" where
  "member_of ps ch row i \<longleftrightarrow> 1 \<le> i \<and> i \<le> max_family_index
     \<and> (\<exists>f. (f, row) \<in> set ps \<and> ch = member_channel f i)"

lemma family_member_gen:
  "members_apart ps \<Longrightarrow> family_member ch ps = Some (row, s) \<longleftrightarrow> s = ch \<and> (\<exists>i. member_of ps ch row i)"
proof (induction ps)
  case (Cons p ps)
  obtain f r where p: "p = (f, r)" by (cases p)
  have fmt: "format_index i (cr_unique_suffix r) = f @ int_string i" for i
    using Cons.prems by (simp add: members_apart_def p member_channel_def)
  have IH: "family_member ch ps = Some (row, s) \<longleftrightarrow> s = ch \<and> (\<exists>i. member_of ps ch row i)"
    using Cons by (simp add: members_apart_def)
  show ?case
  proof (cases "\<exists>i. 1 \<le> i \<and> i \<le> max_family_index \<and> ch = member_channel f i")
    case True
    then obtain i where i: "1 \<le> i" "i \<le> max_family_index" "ch = f @ int_string i"
      by (auto simp: member_channel_def)
    have "f \<noteq> []" using Cons.prems by (simp add: members_apart_def p)
    then have "family_member ch (p # ps) = Some (r, ch)"
      using i family_index_Some [of "int_string i" i] fmt [of i] by (simp add: p Let_def)
    moreover have "(\<exists>j. member_of (p # ps) ch row j) \<longleftrightarrow> row = r"
    proof
      assume "\<exists>j. member_of (p # ps) ch row j"
      then obtain g j where "(g, row) \<in> set (p # ps)" "f @ int_string i = g @ int_string j"
        by (auto simp: member_of_def member_channel_def i(3))
      then have "(g, row) = p" using Cons.prems unfolding members_apart_def by (metis fst_conv list.set_intros(1) p)
      then show "row = r" by (simp add: p)
    qed (use i in \<open>auto simp: member_of_def member_channel_def p\<close>)
    ultimately show ?thesis by auto
  next
    case False
    have other: "family_member ch (p # ps) = family_member ch ps"
    proof (cases "remove_prefix f ch = ch")
      case neq: False
      then have "ch = f @ remove_prefix f ch" by (rule remove_prefix_changes)
      then have "family_index (remove_prefix f ch) = None"
        using False by (metis family_index_Some member_channel_def not_None_eq)
      then show ?thesis using neq by (simp add: p)
    qed (simp add: p)
    have "member_of (p # ps) ch row i \<longleftrightarrow> member_of ps ch row i" for i
      using False by (auto simp: member_of_def p)
    then show ?thesis using other IH by simp
  qed
qed (simp add: member_of_def)

lemma family_rows_apart: "members_apart family_rows"
  by (auto simp: members_apart_def family_rows_eq format_members member_channel_def)

lemma by_family_mem: "(f, row) \<in> set family_rows \<longleftrightarrow> by_family f = Some row"
  by (auto simp: by_family_cases family_rows_eq)

lemma family_member_iff:
  "family_member ch family_rows = Some (row, s) \<longleftrightarrow> s = ch \<and> (\<exists>f i. by_family f = Some row
     \<and> 1 \<le> i \<and> i \<le> max_family_index \<and> ch = member_channel f i)"
  by (auto simp: family_member_gen [OF family_rows_apart] member_of_def by_family_mem)

text \<open>A channel ID is a catalogue channel of its own, or one member of one family.\<close>

lemma for_channel_iff:
  "catalogue_entry_for_channel ch = Some (row, s) \<longleftrightarrow>
     (by_channel ch = Some row \<and> s = cr_unique_suffix row)
     \<or> (s = ch \<and> (\<exists>f i. by_family f = Some row \<and> 1 \<le> i \<and> i \<le> max_family_index \<and> ch = member_channel f i))"
proof (cases "by_channel ch")
  case None
  then show ?thesis by (simp add: catalogue_entry_for_channel_def family_member_iff)
next
  case (Some r)
  then have "\<not> (by_family f = Some row \<and> ch = member_channel f i)" for f i
    using family_member_no_channel [of f row "int_string i"] by (auto simp: member_channel_def)
  then show ?thesis using Some by (auto simp: catalogue_entry_for_channel_def)
qed

lemma int_string_inject: "0 \<le> i \<Longrightarrow> 0 \<le> j \<Longrightarrow> int_string i = int_string j \<Longrightarrow> i = j"
  by (metis dec_value_string int_string_digits)

text \<open>Two channel IDs never name the same entity.\<close>

lemma for_channel_entity:
  assumes "catalogue_entry_for_channel c1 = Some (r1, s)" "catalogue_entry_for_channel c2 = Some (r2, s)"
    and "cr_platform r1 = cr_platform r2"
  shows "c1 = c2"
proof (cases "by_channel c1"; cases "by_channel c2")
  fix a b assume ab: "by_channel c1 = Some a" "by_channel c2 = Some b"
  then have "a = r1" "b = r2" "s = cr_unique_suffix r1" "cr_unique_suffix r2 = cr_unique_suffix r1"
    using assms(1,2) by (auto simp: catalogue_entry_for_channel_def)
  then have "(\<lambda>(ch, row). (cr_platform row, cr_unique_suffix row)) (Some c1, a)
      = (\<lambda>(ch, row). (cr_platform row, cr_unique_suffix row)) (Some c2, b)"
    using assms(3) by simp
  then have "(Some c1, a) = (Some c2, b)"
    using channel_entities_distinct by_channel_SomeD(1) [OF ab(1)] by_channel_SomeD(1) [OF ab(2)]
    unfolding distinct_map by (meson inj_onD)
  then show ?thesis by simp
next
  fix a assume a: "by_channel c1 = Some a" and none: "by_channel c2 = None"
  have "s = cr_unique_suffix a" using assms(1) a by (auto simp: catalogue_entry_for_channel_def)
  moreover obtain f t where "by_family f = Some r2" "s = f @ t"
    using assms(2) none by (auto simp: for_channel_iff member_channel_def)
  ultimately show ?thesis
    using by_channel_SomeD(6,7) [OF a] starts_with_append [of f t] by (auto simp: by_family_cases)
next
  fix b assume b: "by_channel c2 = Some b" and none: "by_channel c1 = None"
  have "s = cr_unique_suffix b" using assms(2) b by (auto simp: catalogue_entry_for_channel_def)
  moreover obtain f t where "by_family f = Some r1" "s = f @ t"
    using assms(1) none by (auto simp: for_channel_iff member_channel_def)
  ultimately show ?thesis
    using by_channel_SomeD(6,7) [OF b] starts_with_append [of f t] by (auto simp: by_family_cases)
next
  assume "by_channel c1 = None" "by_channel c2 = None"
  then have "s = c1" "s = c2" using assms(1,2) by (auto simp: for_channel_iff)
  then show ?thesis by simp
qed

section \<open>Descriptors and channel IDs agree\<close>

lemma catalogue_entry_SomeD:
  assumes "catalogue_entry d = Some row"
  obtains s where "named_row d = Some (row, s)" "item d ''platform'' = Some (PStr (cr_platform row))"
    "item d ''translation_key'' = Some (PStr (cr_translation_key row))"
    "item d ''unique_suffix'' = Some (PStr s)"
  using assms by (auto simp: catalogue_entry_def split: option.splits if_splits)

lemma format_member: "by_family f = Some row \<Longrightarrow> format_index i (cr_unique_suffix row) = member_channel f i"
  by (auto simp: by_family_cases format_members member_channel_def)

lemma named_row_cases:
  assumes "named_row d = Some (row, s)"
  shows "(\<exists>ch r. item d ''channel'' = Some (PStr ch) \<and> by_channel ch = Some r
      \<and> row = (if legacy_camera d then as_switch r else r) \<and> s = cr_unique_suffix row)
    \<or> (\<exists>f i. item d ''channel'' = Some (PStr s) \<and> by_family f = Some row \<and> 1 \<le> i
      \<and> item d ''index'' = Some (PInt i) \<and> s = member_channel f i)"
proof (cases "item d ''family''")
  case (Some v)
  show ?thesis
  proof (cases v)
    case PNone
    then obtain ch where "item d ''channel'' = Some (PStr ch)"
      using assms Some by (auto simp: named_row_def split: option.splits pyval.splits)
    then show ?thesis using assms Some PNone
      by (auto simp: named_row_def Let_def simp del: if_split split del: if_split)
  next
    case (PStr f)
    then obtain r where r: "by_family f = Some r"
      using assms Some by (cases "by_family f") (auto simp: named_row_def)
    then obtain i where "item d ''index'' = Some (PInt i)"
      using assms Some PStr by (auto simp: named_row_def split: option.splits pyval.splits)
    then show ?thesis using assms Some PStr r
      by (auto simp: named_row_def format_member split: if_splits)
  qed (use assms Some in \<open>simp_all add: named_row_def\<close>)
qed (use assms in \<open>simp add: named_row_def\<close>)

text \<open>A known descriptor, other than the older camera switch, is its channel ID's own row.\<close>

lemma known_descriptor_channel:
  assumes known: "catalogue_entry d = Some row" and camera: "\<not> legacy_camera d"
    and index: "\<And>i. item d ''index'' = Some (PInt i) \<Longrightarrow> i \<le> max_family_index"
  shows "\<exists>ch s. item d ''channel'' = Some (PStr ch) \<and> item d ''unique_suffix'' = Some (PStr s)
    \<and> item d ''platform'' = Some (PStr (cr_platform row)) \<and> catalogue_entry_for_channel ch = Some (row, s)"
proof -
  from known obtain s where s: "named_row d = Some (row, s)"
      "item d ''platform'' = Some (PStr (cr_platform row))" "item d ''unique_suffix'' = Some (PStr s)"
    by (rule catalogue_entry_SomeD)
  from named_row_cases [OF s(1)] have "\<exists>ch. item d ''channel'' = Some (PStr ch)
      \<and> catalogue_entry_for_channel ch = Some (row, s)"
  proof
    assume "\<exists>ch r. item d ''channel'' = Some (PStr ch) \<and> by_channel ch = Some r
        \<and> row = (if legacy_camera d then as_switch r else r) \<and> s = cr_unique_suffix row"
    then show ?thesis using camera by (auto simp: for_channel_iff)
  next
    assume "\<exists>f i. item d ''channel'' = Some (PStr s) \<and> by_family f = Some row \<and> 1 \<le> i
        \<and> item d ''index'' = Some (PInt i) \<and> s = member_channel f i"
    then show ?thesis using index by (auto simp: for_channel_iff)
  qed
  then show ?thesis using s by blast
qed

end
