(* ===== verification/Panel_Entries.thy ===== *)
theory Panel_Entries
  imports Transport_Traces Channel_Catalogue
begin

text \<open>
  What the integration keeps about its panels in Home Assistant: the config entries with the
  runtime state of their coordinators, the entities and devices registered for them, Repairs
  issues, and the session system of Transport_Runs.  Home Assistant's registries are not part of
  the repository: they are read as the lists below, and the two operations that change the entity
  registry are the fields of \<open>registry_lib\<close>, with what the code relies on as \<open>registry_lawful\<close>.
\<close>

section \<open>Config entries\<close>

text \<open>The coordinator's fields that admission reads and sets; \<open>cs_health_did\<close> is
  \<open>coordinator.data.health.discovery_id\<close> (\<open>None\<close> also without a snapshot).\<close>

record coordinator =
  cs_identity_mismatch :: bool
  cs_health_did :: "string option"
  cs_last_update_success :: bool
  cs_reachable :: bool
  cs_health_peer :: "string option"
  cs_refused_hellos :: "(string \<times> string option \<times> string list) list"

text \<open>The record of a panel's move off MQTT; of each entity only its \<open>mqtt_device_id\<close>, \<open>None\<close> when
  it is not a text.\<close>

record cutover =
  cu_did :: "string option"
  cu_panel_id :: string
  cu_entities :: "(string \<times> string option) list"

record pending_identity =
  pi_did :: "string option"
  pi_legacy_did :: "string option"
  pi_address :: string

text \<open>\<open>entry.data\<close>: a missing key is \<open>None\<close>, or \<open>False\<close> where the code tests \<open>is True\<close>.\<close>

record entry_data =
  ed_address :: string
  ed_user_id :: "string option"
  ed_installation :: bool
  ed_previous :: "string option"
  ed_legacy_did :: "string option"
  ed_pending :: "pending_identity option"
  ed_cutover :: "cutover option"

record config_entry =
  en_id :: string
  en_loaded :: bool
  en_unique_id :: "string option"
  en_data :: entry_data
  en_prerelease :: bool
  en_coordinator :: "coordinator option"

section \<open>Registries\<close>

record entity_item =
  ei_entity_id :: string
  ei_domain :: string
  ei_platform :: string
  ei_unique_id :: string
  ei_entry_id :: "string option"

record device_item =
  di_identifiers :: "(string \<times> string) list"
  di_entry_id :: "string option"

text \<open>\<open>di_composites\<close>: the config entries of the parts of a composite device ID.\<close>

record device_registry =
  dr_devices :: "(string \<times> device_item) list"
  dr_deleted :: "(string \<times> device_item) list"
  dr_composites :: "string \<Rightarrow> string option list"

abbreviation domain :: string where "domain \<equiv> ''panel_assistant''"

definition entity_key :: "entity_item \<Rightarrow> string \<times> string \<times> string" where
  "entity_key i = (ei_domain i, ei_platform i, ei_unique_id i)"

text \<open>\<open>registry.async_get_entity_id(domain, platform, unique_id)\<close> and \<open>registry.async_get\<close>\<close>

definition get_entity_id :: "entity_item list \<Rightarrow> string \<Rightarrow> string \<Rightarrow> string \<Rightarrow> string option" where
  "get_entity_id items d p u = map_option ei_entity_id (find (\<lambda>i. entity_key i = (d, p, u)) items)"

definition get_entity :: "entity_item list \<Rightarrow> string \<Rightarrow> entity_item option" where
  "get_entity items e = find (\<lambda>i. ei_entity_id i = e) items"

text \<open>\<open>er.async_entries_for_config_entry\<close>\<close>

definition entities_of :: "entity_item list \<Rightarrow> string \<Rightarrow> entity_item list" where
  "entities_of items entry_id = filter (\<lambda>i. ei_entry_id i = Some entry_id) items"

text \<open>\<open>async_update_entity(entity_id, new_unique_id=...)\<close> (\<open>None\<close>: it raises) and
  \<open>async_remove(entity_id)\<close>.\<close>

record registry_lib =
  rl_rekey :: "entity_item list \<Rightarrow> string \<Rightarrow> string \<Rightarrow> entity_item list option"
  rl_remove :: "entity_item list \<Rightarrow> string \<Rightarrow> entity_item list"

definition rekeyed :: "string \<Rightarrow> string \<Rightarrow> entity_item \<Rightarrow> entity_item" where
  "rekeyed e u i = (if ei_entity_id i = e then i\<lparr>ei_unique_id := u\<rparr> else i)"

text \<open>An entity registry holds each entity ID once and each key once.\<close>

definition registry_ok :: "entity_item list \<Rightarrow> bool" where
  "registry_ok items \<longleftrightarrow> distinct (map ei_entity_id items) \<and> distinct (map entity_key items)"

text \<open>Home Assistant's documented behaviour: a new unique ID that no other entity of the same
  domain and platform holds is written to that entity alone (a taken one raises, or changes
  nothing here: nothing is said of it), and a removed entity is gone.\<close>

definition registry_lawful :: "registry_lib \<Rightarrow> bool" where
  "registry_lawful R \<longleftrightarrow>
     (\<forall>items e u i. registry_ok items \<longrightarrow> get_entity items e = Some i
        \<longrightarrow> (ei_domain i, ei_platform i, u) \<notin> set (map entity_key items)
        \<longrightarrow> rl_rekey R items e u = Some (map (rekeyed e u) items))
   \<and> (\<forall>items e. rl_remove R items e = filter (\<lambda>i. ei_entity_id i \<noteq> e) items)"

section \<open>The state\<close>

text \<open>A Repairs issue: its translation key and data; texts and links are left out.\<close>

record issue =
  is_translation_key :: string
  is_data :: pydict

text \<open>What a caller of the WebSocket API is: the account, whether Home Assistant made it, its
  refresh token if the connection has one, and the socket's address.\<close>

record client_connection =
  cc_ref :: connection
  cc_user_id :: string
  cc_system_generated :: bool
  cc_refresh_token :: "string option"
  cc_remote :: "string option"

datatype hass_effect =
    FollowRefused string string
  | ReloadScheduled string
  | OffersClosed string "string option"
  | NativeRemoved string "string list"
  | VolumeRetirement string string
  | UpdateError string
  | RemovalDismissed string
  | DeferredStarted connection int
  | RefreshAsked string

record hass =
  hs_sys :: system
  hs_entries :: "config_entry list"
  hs_entities :: "entity_item list"
  hs_devices :: device_registry
  hs_issues :: "(string \<times> issue) list"
  hs_removed :: "(string \<times> string) list"
  hs_requests :: "(string \<times> string \<times> rat) list"
  hs_operations :: "string list"
  hs_tokens :: "string list"
  hs_log_policy :: pydict
  hs_log_busy :: "string list"
  hs_effects :: "hass_effect list"

abbreviation hs_world :: "hass \<Rightarrow> world" where
  "hs_world h \<equiv> sy_world (hs_sys h)"

definition in_world :: "(world \<Rightarrow> world) \<Rightarrow> hass \<Rightarrow> hass" where
  "in_world f h = h\<lparr>hs_sys := (hs_sys h)\<lparr>sy_world := f (hs_world h)\<rparr>\<rparr>"

definition tell :: "hass_effect list \<Rightarrow> hass \<Rightarrow> hass" where
  "tell es h = h\<lparr>hs_effects := hs_effects h @ es\<rparr>"

text \<open>An entry object is changed in place, so every reader sees the change.\<close>

definition update_entry :: "string \<Rightarrow> (config_entry \<Rightarrow> config_entry) \<Rightarrow> hass \<Rightarrow> hass" where
  "update_entry e f h = h\<lparr>hs_entries := map (\<lambda>en. if en_id en = e then f en else en) (hs_entries h)\<rparr>"

definition update_data :: "string \<Rightarrow> (entry_data \<Rightarrow> entry_data) \<Rightarrow> hass \<Rightarrow> hass" where
  "update_data e f = update_entry e (\<lambda>en. en\<lparr>en_data := f (en_data en)\<rparr>)"

definition get_entry :: "hass \<Rightarrow> string \<Rightarrow> config_entry option" where
  "get_entry h e = find (\<lambda>en. en_id en = e) (hs_entries h)"

definition loaded_entries :: "hass \<Rightarrow> config_entry list" where
  "loaded_entries h = filter en_loaded (hs_entries h)"

definition create_issue :: "string \<Rightarrow> issue \<Rightarrow> hass \<Rightarrow> hass" where
  "create_issue i v h = h\<lparr>hs_issues := AList.update i v (hs_issues h)\<rparr>"

definition delete_issue :: "string \<Rightarrow> hass \<Rightarrow> hass" where
  "delete_issue i h = h\<lparr>hs_issues := AList.delete i (hs_issues h)\<rparr>"

section \<open>One app-changing operation at a time (panel_operations.py)\<close>

definition claim_panel_operation :: "string \<Rightarrow> hass \<Rightarrow> bool \<times> hass" where
  "claim_panel_operation e h = (if e \<in> set (hs_operations h) then (False, h)
     else (True, h\<lparr>hs_operations := e # hs_operations h\<rparr>))"

definition release_panel_operation :: "string \<Rightarrow> hass \<Rightarrow> hass" where
  "release_panel_operation e h = h\<lparr>hs_operations := removeAll e (hs_operations h)\<rparr>"

section \<open>Frames\<close>

lemma in_world_simps [simp]:
  "hs_world (in_world f h) = f (hs_world h)" "hs_entries (in_world f h) = hs_entries h"
  "hs_entities (in_world f h) = hs_entities h" "hs_issues (in_world f h) = hs_issues h"
  "hs_removed (in_world f h) = hs_removed h" "hs_requests (in_world f h) = hs_requests h"
  "hs_operations (in_world f h) = hs_operations h" "hs_tokens (in_world f h) = hs_tokens h"
  "hs_log_policy (in_world f h) = hs_log_policy h" "hs_log_busy (in_world f h) = hs_log_busy h"
  "hs_effects (in_world f h) = hs_effects h" "hs_devices (in_world f h) = hs_devices h"
  "sy_waits (hs_sys (in_world f h)) = sy_waits (hs_sys h)"
  by (simp_all add: in_world_def)

lemma tell_simps [simp]:
  "hs_sys (tell es h) = hs_sys h" "hs_entries (tell es h) = hs_entries h"
  "hs_entities (tell es h) = hs_entities h" "hs_issues (tell es h) = hs_issues h"
  "hs_removed (tell es h) = hs_removed h" "hs_requests (tell es h) = hs_requests h"
  "hs_operations (tell es h) = hs_operations h" "hs_tokens (tell es h) = hs_tokens h"
  "hs_devices (tell es h) = hs_devices h" "hs_log_policy (tell es h) = hs_log_policy h"
  by (simp_all add: tell_def)

lemma issue_simps [simp]:
  "hs_sys (create_issue i v h) = hs_sys h" "hs_entries (create_issue i v h) = hs_entries h"
  "hs_entities (create_issue i v h) = hs_entities h" "hs_requests (create_issue i v h) = hs_requests h"
  "hs_sys (delete_issue i h) = hs_sys h" "hs_entries (delete_issue i h) = hs_entries h"
  "hs_entities (delete_issue i h) = hs_entities h" "hs_requests (delete_issue i h) = hs_requests h"
  "hs_log_policy (create_issue i v h) = hs_log_policy h" "hs_log_policy (delete_issue i h) = hs_log_policy h"
  by (simp_all add: create_issue_def delete_issue_def)

lemma update_entry_simps [simp]:
  "hs_sys (update_entry e f h) = hs_sys h" "hs_entities (update_entry e f h) = hs_entities h"
  "hs_issues (update_entry e f h) = hs_issues h" "hs_requests (update_entry e f h) = hs_requests h"
  "hs_sys (update_data e g h) = hs_sys h" "hs_entities (update_data e g h) = hs_entities h"
  "hs_issues (update_data e g h) = hs_issues h" "hs_requests (update_data e g h) = hs_requests h"
  "hs_log_policy (update_entry e f h) = hs_log_policy h" "hs_log_policy (update_data e g h) = hs_log_policy h"
  by (simp_all add: update_entry_def update_data_def)

end
