(* ===== verification/Bounded_Dict.thy ===== *)
theory Bounded_Dict
  imports Panel_Prelude "HOL-Library.Multiset"
begin

text \<open>
  A Python dict the code keeps to a bound by forgetting its oldest entries: the removed panels,
  the hellos a coordinator remembers, the accounts that asked to be bound.  The locale is the
  contract they share: what was remembered last is there, the bound holds, and nothing is found
  that was not remembered.  \<open>timely\<close> says when an entry counts as the newest.
\<close>

locale bounded_dict =
  fixes remember :: "'k \<Rightarrow> 'v \<Rightarrow> ('k \<times> 'v) list \<Rightarrow> ('k \<times> 'v) list" and cap :: nat
    and timely :: "'v \<Rightarrow> ('k \<times> 'v) list \<Rightarrow> bool"
  assumes remember_ok: "dict_ok d \<Longrightarrow> dict_ok (remember k v d)"
    and remember_bounded: "dict_ok d \<Longrightarrow> length d \<le> cap \<Longrightarrow> length (remember k v d) \<le> cap"
    and remembered: "dict_ok d \<Longrightarrow> length d \<le> cap \<Longrightarrow> timely v d \<Longrightarrow> map_of (remember k v d) k = Some v"
    and no_other: "dict_ok d \<Longrightarrow> map_of (remember k v d) j = Some u \<Longrightarrow> (j = k \<and> u = v) \<or> map_of d j = Some u"
begin

definition remember_all :: "('k \<times> 'v) list \<Rightarrow> ('k \<times> 'v) list \<Rightarrow> ('k \<times> 'v) list" where
  "remember_all kvs d = foldl (\<lambda>acc (k, v). remember k v acc) d kvs"

lemma remember_all_snoc: "remember_all (kvs @ [(k, v)]) d = remember k v (remember_all kvs d)"
  by (simp add: remember_all_def)

lemma remember_all_ok:
  "dict_ok d \<Longrightarrow> length d \<le> cap \<Longrightarrow> dict_ok (remember_all kvs d) \<and> length (remember_all kvs d) \<le> cap"
  by (induction kvs rule: rev_induct)
    (auto simp: remember_all_snoc remember_ok remember_bounded, simp_all add: remember_all_def)

lemma remember_all_only:
  "dict_ok d \<Longrightarrow> length d \<le> cap \<Longrightarrow> map_of (remember_all kvs d) k = Some v
    \<Longrightarrow> (k, v) \<in> set kvs \<or> map_of d k = Some v"
proof (induction kvs rule: rev_induct)
  case (snoc p kvs)
  obtain j u where p: "p = (j, u)" by (cases p)
  have "dict_ok (remember_all kvs d)" using remember_all_ok snoc.prems(1,2) by blast
  then show ?case using snoc no_other [of "remember_all kvs d" j u k v] by (auto simp: p remember_all_snoc)
qed (simp add: remember_all_def)

lemma last_remembered:
  assumes "dict_ok d" "length d \<le> cap" "timely v (remember_all kvs d)"
  shows "map_of (remember_all (kvs @ [(k, v)]) d) k = Some v"
  using remember_all_ok [OF assms(1,2), of kvs] assms(3) by (simp add: remember_all_snoc remembered)

end

section \<open>Popped, set again, and the first dropped\<close>

lemma update_new: "map_of d k = None \<Longrightarrow> AList.update k v d = d @ [(k, v)]"
  by (induction d) (auto split: if_splits)

lemma pop_and_set: "AList.update k v (AList.delete k d) = AList.delete k d @ [(k, v)]"
  by (rule update_new) (simp add: delete_conv')

lemma dict_ok_drop: "dict_ok d \<Longrightarrow> dict_ok (drop n d)"
  by (simp add: dict_ok_def flip: drop_map)

lemma map_of_drop: "dict_ok d \<Longrightarrow> map_of (drop n d) k = Some v \<Longrightarrow> map_of d k = Some v"
  by (metis dict_ok_drop in_set_dropD map_of_dict_iff)

lemma dict_ok_popped: "dict_ok d \<Longrightarrow> dict_ok (AList.delete k d @ [(k, v)])"
  using dict_ok_update [OF dict_ok_delete, of d k v k] by (simp add: pop_and_set)

definition newest :: "nat \<Rightarrow> 'k \<Rightarrow> 'v \<Rightarrow> ('k \<times> 'v) list \<Rightarrow> ('k \<times> 'v) list" where
  "newest cap k v d = (let e = AList.update k v (AList.delete k d) in drop (length e - cap) e)"

lemma newest_dict: "0 < cap \<Longrightarrow> bounded_dict (newest cap) cap (\<lambda>v d. True)"
proof (unfold_locales)
  fix d :: "('a \<times> 'b) list" and k v assume cap: "0 < cap" and ok: "dict_ok d"
  let ?e = "AList.delete k d @ [(k, v)]" and ?n = "length (AList.delete k d @ [(k, v)]) - cap"
  have e: "dict_ok ?e" by (rule dict_ok_popped [OF ok])
  have new: "newest cap k v d = drop ?n ?e" by (simp only: newest_def Let_def pop_and_set)
  show ok': "dict_ok (newest cap k v d)" unfolding new by (rule dict_ok_drop [OF e])
  show "length (newest cap k v d) \<le> cap" unfolding new by simp
  have "(k, v) \<in> set (newest cap k v d)" using cap unfolding new by simp
  then show "map_of (newest cap k v d) k = Some v" using ok' by (simp add: map_of_dict_iff)
  fix j u assume "map_of (newest cap k v d) j = Some u"
  then have "map_of ?e j = Some u" unfolding new by (rule map_of_drop [OF e])
  then show "(j = k \<and> u = v) \<or> map_of d j = Some u"
    by (auto simp: delete_conv' map_add_def split: if_splits option.splits)
qed

section \<open>Sorted by age\<close>

lemma sort_key_snoc_max:
  assumes "\<And>y. y \<in> set xs \<Longrightarrow> f y \<le> f x"
  shows "sort_key f (xs @ [x]) = sort_key f xs @ [x]"
proof (rule properties_for_sort_key)
  show "mset (sort_key f xs @ [x]) = mset (xs @ [x])" by simp
  show "filter (\<lambda>y. f k = f y) (sort_key f xs @ [x]) = filter (\<lambda>y. f k = f y) (xs @ [x])" for k
    using sort_key_stable [of f "f k" xs] by (simp add: eq_commute [of "f k"])
  show "sorted (map f (sort_key f xs @ [x]))"
    using assms by (auto simp: sorted_append)
qed

text \<open>\<open>for stale in sorted(d, key=...)[:-cap]: del d[stale]\<close>\<close>

definition without_stale :: "('v \<Rightarrow> 't::linorder) \<Rightarrow> nat \<Rightarrow> ('k \<times> 'v) list \<Rightarrow> ('k \<times> 'v) list" where
  "without_stale age cap d = (let order = sort_key (\<lambda>(k, v). age v) d
     in fold AList.delete (map fst (take (length order - cap) order)) d)"

lemma fold_delete: "fold AList.delete ks d = filter (\<lambda>(k, v). k \<notin> set ks) d"
proof (induction ks arbitrary: d)
  case (Cons k ks)
  then show ?case by (auto simp: AList.delete_eq filter_filter intro!: filter_cong)
qed simp

lemma without_stale_set: "without_stale age cap d = filter (\<lambda>(k, v). k \<notin> set (map fst
    (take (length d - cap) (sort_key (\<lambda>(k, v). age v) d)))) d"
  by (simp add: without_stale_def Let_def fold_delete)

lemma without_stale_length:
  assumes "dict_ok d"
  shows "length (without_stale age cap d) \<le> cap"
proof -
  let ?n = "length d - cap" and ?s = "sort_key (\<lambda>(k, v). age v) d"
  have ds: "distinct (map fst ?s)" using assms unfolding dict_ok_def
    by (metis distinct_map distinct_sort mset_eq_imp_distinct_iff mset_map mset_sort)
  have "set (without_stale age cap d) \<subseteq> set (drop ?n ?s)"
  proof
    fix p assume p: "p \<in> set (without_stale age cap d)"
    then have "p \<in> set ?s" "fst p \<notin> set (map fst (take ?n ?s))"
      unfolding without_stale_set by (simp_all add: case_prod_unfold)
    then show "p \<in> set (drop ?n ?s)"
      by (metis append_take_drop_id Un_iff image_eqI list.set_map set_append)
  qed
  moreover have "distinct (without_stale age cap d)"
    using assms unfolding without_stale_set dict_ok_def by (intro distinct_filter) (simp add: distinct_map)
  ultimately have "length (without_stale age cap d) \<le> length (drop ?n ?s)"
    by (metis card_length card_mono distinct_card le_trans List.finite_set)
  then show ?thesis by simp
qed

lemma timed_dict:
  fixes age :: "'v \<Rightarrow> 't::linorder"
  assumes "0 < cap"
  shows "bounded_dict (\<lambda>k v d. without_stale age cap (AList.update k v d)) cap
    (\<lambda>v d. \<forall>(j, u) \<in> set d. age u \<le> age v)"
proof (unfold_locales)
  fix d :: "('k \<times> 'v) list" and k v assume ok: "dict_ok d"
  let ?e = "AList.update k v d"
  have e: "dict_ok ?e" using ok by (rule dict_ok_update)
  then show ok': "dict_ok (without_stale age cap ?e)" by (simp add: without_stale_set dict_ok_filter)
  show "length (without_stale age cap ?e) \<le> cap" using e by (rule without_stale_length)
  show "(j = k \<and> u = v) \<or> map_of d j = Some u" if "map_of (without_stale age cap ?e) j = Some u" for j u
  proof -
    have "(j, u) \<in> set ?e" using map_of_SomeD [OF that] by (simp add: without_stale_set)
    then show ?thesis using ok by (auto simp: dict_mem_update map_of_dict_iff split: if_splits)
  qed
  assume len: "length d \<le> cap" and newest: "\<forall>(j, u) \<in> set d. age u \<le> age v"
  have "k \<notin> set (map fst (take (length ?e - cap) (sort_key (\<lambda>(k, v). age v) ?e)))"
  proof (cases "map_of d k")
    case None
    have "sort_key (\<lambda>(k, v). age v) ?e = sort_key (\<lambda>(k, v). age v) d @ [(k, v)]"
      unfolding update_new [OF None] using newest by (intro sort_key_snoc_max) auto
    moreover have "length ?e - cap \<le> length d" using len assms by (simp add: update_new [OF None])
    moreover have "k \<notin> fst ` set d" using None by (simp add: map_of_eq_None_iff)
    ultimately have "take (length ?e - cap) (sort_key (\<lambda>(k, v). age v) ?e)
        = take (length ?e - cap) (sort_key (\<lambda>(k, v). age v) d)" "k \<notin> fst ` set (sort_key (\<lambda>(k, v). age v) d)"
      by simp_all
    then show ?thesis by (metis image_mono set_map set_take_subset subsetD)
  next
    case (Some u)
    then have "k \<in> fst ` set d" by (metis map_of_SomeD fst_conv image_eqI)
    then have "length ?e = length d" by (induction d) auto
    then show ?thesis using len by simp
  qed
  moreover have "(k, v) \<in> set ?e" using ok by (simp add: dict_mem_update)
  ultimately have "(k, v) \<in> set (without_stale age cap ?e)" by (auto simp: without_stale_set)
  then show "map_of (without_stale age cap ?e) k = Some v" using ok' by (simp add: map_of_dict_iff)
qed

end
