(* ===== verification/Account_Binding.thy ===== *)
theory Account_Binding
  imports Panel_Entries Bounded_Dict
begin

text \<open>
  Which Home Assistant account may hold a panel's session (transport_binding.py): requests to be
  bound that were made before the panel had an entry, the Repairs issue that asks an administrator
  about another account, and binding itself.
\<close>

section \<open>Requests before there is an entry\<close>

abbreviation binding_request_ttl :: rat where "binding_request_ttl \<equiv> 1800"
abbreviation max_binding_requests :: nat where "max_binding_requests \<equiv> 16"

text \<open>\<open>refresh_token_id\<close> resolves while its token is one Home Assistant still knows.\<close>

definition may_ask_to_bind :: "hass \<Rightarrow> client_connection \<Rightarrow> bool" where
  "may_ask_to_bind h conn \<longleftrightarrow> \<not> cc_system_generated conn
     \<and> (case cc_refresh_token conn of None \<Rightarrow> False | Some t \<Rightarrow> t \<in> set (hs_tokens h))"

definition record_request ::
  "string \<Rightarrow> string \<times> rat \<Rightarrow> (string \<times> string \<times> rat) list \<Rightarrow> (string \<times> string \<times> rat) list" where
  "record_request panel request requests =
     without_stale snd max_binding_requests (AList.update panel request requests)"

definition async_record_binding_request :: "rat \<Rightarrow> string \<Rightarrow> string \<Rightarrow> hass \<Rightarrow> hass" where
  "async_record_binding_request now panel user h =
     h\<lparr>hs_requests := record_request panel (user, now) (hs_requests h)\<rparr>"

definition async_binding_request :: "rat \<Rightarrow> string option \<Rightarrow> hass \<Rightarrow> string option \<times> hass" where
  "async_binding_request now panel h = (case panel of
     None \<Rightarrow> (None, h)
   | Some d \<Rightarrow> (case map_of (hs_requests h) d of
       None \<Rightarrow> (None, h)
     | Some (user, asked_at) \<Rightarrow>
        (if binding_request_ttl < now - asked_at
         then (None, h\<lparr>hs_requests := AList.delete d (hs_requests h)\<rparr>)
         else (Some user, h))))"

text \<open>A user as Home Assistant returns it: whether it is active, whether it is Core's own.\<close>

record user =
  us_id :: string
  us_active :: bool
  us_system_generated :: bool

definition async_confirmable_user :: "(string \<Rightarrow> user option) \<Rightarrow> string option \<Rightarrow> user option" where
  "async_confirmable_user users user_id = (case user_id of
     None \<Rightarrow> None
   | Some i \<Rightarrow> (if i = [] then None else case users i of
        None \<Rightarrow> None
      | Some u \<Rightarrow> (if \<not> us_active u \<or> us_system_generated u then None else Some u)))"

definition async_discard_binding_request :: "string option \<Rightarrow> hass \<Rightarrow> hass" where
  "async_discard_binding_request panel h = (case panel of
     None \<Rightarrow> h | Some d \<Rightarrow> h\<lparr>hs_requests := AList.delete d (hs_requests h)\<rparr>)"

section \<open>The Repairs issue\<close>

definition binding_issue_id :: "string \<Rightarrow> string" where
  "binding_issue_id entry_id = ''panel_user_mismatch_'' @ entry_id"

definition issue_user :: "issue \<Rightarrow> pyval" where
  "issue_user i = dict_get (is_data i) ''user_id''"

definition async_raise_binding_issue :: "string \<Rightarrow> string \<Rightarrow> hass \<Rightarrow> hass" where
  "async_raise_binding_issue entry_id user h =
     (let h1 = delete_issue (''another_home_assistant_'' @ entry_id) h;
          i = binding_issue_id entry_id;
          h2 = (case map_of (hs_issues h1) i of
             None \<Rightarrow> h1
           | Some found \<Rightarrow> (if issue_user found \<noteq> PStr user then delete_issue i h1 else h1))
      in create_issue i \<lparr>is_translation_key = ''panel_user_mismatch'',
           is_data = [(''entry_id'', PStr entry_id), (''user_id'', PStr user)]\<rparr> h2)"

definition async_delete_binding_issue :: "string \<Rightarrow> string option \<Rightarrow> hass \<Rightarrow> hass" where
  "async_delete_binding_issue entry_id user h =
     (let i = binding_issue_id entry_id in
      case map_of (hs_issues h) i of
        None \<Rightarrow> h
      | Some found \<Rightarrow> (case user of
          None \<Rightarrow> delete_issue i h
        | Some u \<Rightarrow> (if issue_user found = PStr u then delete_issue i h else h)))"

section \<open>Binding\<close>

definition entry_user :: "hass \<Rightarrow> string \<Rightarrow> string option" where
  "entry_user h e = (case get_entry h e of None \<Rightarrow> None | Some en \<Rightarrow> ed_user_id (en_data en))"

definition async_bind_user :: "rat \<Rightarrow> string \<Rightarrow> string \<Rightarrow> hass \<Rightarrow> hass" where
  "async_bind_user now e user h =
     (let h1 = (case get (hs_world h) e of
             None \<Rightarrow> h
           | Some r \<Rightarrow> (if ps_user_id (w_sessions (hs_world h) r) \<noteq> user
               then in_world (close now r ''binding_changed'' True) h else h));
          h2 = (if entry_user h1 e \<noteq> Some user
             then update_data e (\<lambda>d. d\<lparr>ed_user_id := Some user\<rparr>) h1 else h1)
      in async_delete_binding_issue e (Some user) h2)"

definition async_unbind_user :: "string \<Rightarrow> hass \<Rightarrow> hass" where
  "async_unbind_user e h = (if entry_user h e \<noteq> None
     then update_data e (\<lambda>d. d\<lparr>ed_user_id := None\<rparr>) h else h)"

text \<open>\<open>_user_removed\<close>, the listener transport.py registers: the removed account's sessions end, its
  panels are released and its requests withdrawn.\<close>

definition release_entry :: "string \<Rightarrow> string \<Rightarrow> hass \<Rightarrow> hass" where
  "release_entry user e h =
     (let h1 = async_delete_binding_issue e (Some user) h
      in if entry_user h1 e = Some user then update_data e (\<lambda>d. d\<lparr>ed_user_id := None\<rparr>) h1 else h1)"

definition user_removed :: "rat \<Rightarrow> string \<Rightarrow> hass \<Rightarrow> hass" where
  "user_removed now user h = fold (release_entry user) (map en_id (hs_entries h))
     (in_world (close_user now user ''user_removed'') h)"

section \<open>Facts about requests\<close>

interpretation requests: bounded_dict record_request max_binding_requests
    "\<lambda>(v :: string \<times> rat) d. \<forall>(j :: string, u) \<in> set d. snd u \<le> snd v"
  unfolding record_request_def by (rule timed_dict) simp

lemma requests_kept:
  assumes "dict_ok (hs_requests h)" "length (hs_requests h) \<le> max_binding_requests"
  shows "dict_ok (hs_requests (async_record_binding_request now panel user h))"
    "length (hs_requests (async_record_binding_request now panel user h)) \<le> max_binding_requests"
  using assms requests.remember_ok requests.remember_bounded
  by (simp_all add: async_record_binding_request_def)

lemma request_answered:
  assumes "dict_ok (hs_requests h)" "length (hs_requests h) \<le> max_binding_requests"
    and "\<forall>(j, u, t) \<in> set (hs_requests h). t \<le> now" "now \<le> later" "later - now \<le> binding_request_ttl"
  shows "fst (async_binding_request later (Some panel) (async_record_binding_request now panel user h)) = Some user"
proof -
  have "map_of (record_request panel (user, now) (hs_requests h)) panel = Some (user, now)"
    using assms(3) by (intro requests.remembered assms(1,2)) auto
  then show ?thesis using assms(5)
    by (simp add: async_binding_request_def async_record_binding_request_def)
qed

lemma request_known:
  assumes "fst (async_binding_request now panel h) = Some user"
  obtains d asked where "panel = Some d" "map_of (hs_requests h) d = Some (user, asked)"
    "now - asked \<le> binding_request_ttl"
  using assms by (auto simp: async_binding_request_def split: option.splits if_splits)

end
