(* ===== verification/Entry_Identity.thy ===== *)
theory Entry_Identity
  imports Account_Binding
begin

text \<open>
  Installation identity (identity.py): which panel an entry belongs to, how an entry moves to a new
  identity of the panel it already holds (migration to the installation protocol, or a clean
  reinstall), and what a health answer under another identity withdraws.  A registry update that
  raises stops the code where it is: the second component is \<open>None\<close> then.
\<close>

section \<open>What health says\<close>

record panel_health =
  hl_discovery_id :: "string option"
  hl_legacy_discovery_id :: "string option"
  hl_installation_identity :: bool

abbreviation installation :: "config_entry \<Rightarrow> bool" where
  "installation en \<equiv> ed_installation (en_data en)"

definition others :: "hass \<Rightarrow> string \<Rightarrow> config_entry list" where
  "others h e = filter (\<lambda>m. en_id m \<noteq> e) (hs_entries h)"

definition identity_available :: "hass \<Rightarrow> string \<Rightarrow> string \<Rightarrow> bool" where
  "identity_available h e new \<longleftrightarrow> \<not> list_ex (\<lambda>m. en_unique_id m = Some new) (others h e)"

text \<open>\<open>re.fullmatch(r"[0-9a-f]{64}_.+", unique_id)\<close>\<close>

definition native_unique_id :: "string \<Rightarrow> bool" where
  "native_unique_id u \<longleftrightarrow> 65 < length u \<and> list_all is_lower_hex (take 64 u) \<and> u ! 64 = CHR ''_''
     \<and> CHR 0x0A \<notin> set (drop 65 u)"

definition native_identities :: "hass \<Rightarrow> string \<Rightarrow> string list" where
  "native_identities h e = remdups (map (\<lambda>i. take 64 (ei_unique_id i))
     (filter (\<lambda>i. ei_platform i = domain \<and> native_unique_id (ei_unique_id i)) (entities_of (hs_entities h) e)))"

definition migration_candidate :: "config_entry \<Rightarrow> panel_health \<Rightarrow> bool" where
  "migration_candidate en health \<longleftrightarrow> \<not> installation en \<and> en_unique_id en \<noteq> None
     \<and> hl_installation_identity health \<and> hl_discovery_id health \<noteq> None
     \<and> hl_discovery_id health \<noteq> en_unique_id en \<and> hl_legacy_discovery_id health = en_unique_id en"

definition link_holders :: "hass \<Rightarrow> string \<Rightarrow> string option \<Rightarrow> config_entry list" where
  "link_holders h e link = filter (\<lambda>m. ed_legacy_did (en_data m) = link) (others h e)"

definition linked_reinstall :: "hass \<Rightarrow> config_entry \<Rightarrow> panel_health \<Rightarrow> bool" where
  "linked_reinstall h en health \<longleftrightarrow> installation en \<and> en_unique_id en \<noteq> None
     \<and> hl_installation_identity health
     \<and> (case hl_discovery_id health of None \<Rightarrow> False
        | Some new \<Rightarrow> Some new \<noteq> en_unique_id en \<and> hl_legacy_discovery_id health \<noteq> None
            \<and> ed_legacy_did (en_data en) = hl_legacy_discovery_id health
            \<and> identity_available h (en_id en) new)"

definition reinstalled :: "hass \<Rightarrow> config_entry \<Rightarrow> panel_health \<Rightarrow> bool" where
  "reinstalled h en health \<longleftrightarrow> linked_reinstall h en health
     \<and> link_holders h (en_id en) (hl_legacy_discovery_id health) = []"

section \<open>Evidence of a prior installation\<close>

definition mqtt_values :: "device_item \<Rightarrow> string list" where
  "mqtt_values dev = [v. (d, v) \<leftarrow> di_identifiers dev, d = ''mqtt'']"

definition device_uids :: "device_item \<Rightarrow> string list" where
  "device_uids dev = remdups (map (remove_prefix ''ha-paneld-uid-'')
     (filter (\<lambda>v. starts_with v ''ha-paneld-uid-'') (mqtt_values dev)))"

definition device_panel_ids :: "device_item \<Rightarrow> string list" where
  "device_panel_ids dev = filter (\<lambda>v. starts_with v ''ha-paneld-'' \<and> \<not> starts_with v ''ha-paneld-uid-''
     \<and> \<not> starts_with v ''ha-paneld-aid-'') (mqtt_values dev)"

definition uid_identity :: "platform \<Rightarrow> string \<Rightarrow> string" where
  "uid_identity P uid = pf_sha256 P (''panel-assistant-mdns-v1'' @ CHR 0x00 # uid)"

definition named_devices :: "cutover \<Rightarrow> string list" where
  "named_devices c = remdups [i. (k, Some i) \<leftarrow> cu_entities c]"

definition device_proves :: "platform \<Rightarrow> hass \<Rightarrow> config_entry \<Rightarrow> cutover \<Rightarrow> string \<Rightarrow> string \<Rightarrow> bool" where
  "device_proves P h en c new device_id =
     (case (case map_of (dr_devices (hs_devices h)) device_id of Some d \<Rightarrow> Some d
            | None \<Rightarrow> map_of (dr_deleted (hs_devices h)) device_id) of
        None \<Rightarrow> False
      | Some dev \<Rightarrow> (case device_uids dev of
          [uid] \<Rightarrow> length uid = 32 \<and> list_all is_lower_hex uid \<and> uid_identity P uid = new
            \<and> set (device_panel_ids dev) = {''ha-paneld-'' @ cu_panel_id c}
            \<and> (let parts = dr_composites (hs_devices h) device_id;
                   owners = (if parts = [] then [di_entry_id dev] else parts)
               in list_all (\<lambda>m. Some (en_id m) \<notin> set owners
                    \<and> (case ed_cutover (en_data m) of None \<Rightarrow> True
                       | Some oc \<Rightarrow> device_id \<notin> set (named_devices oc))) (others h (en_id en)))
        | _ \<Rightarrow> False))"

definition prior_installation :: "platform \<Rightarrow> hass \<Rightarrow> config_entry \<Rightarrow> string \<Rightarrow> bool" where
  "prior_installation P h en new =
     (if list_ex (\<lambda>m. en_unique_id en \<in> {en_unique_id m, ed_previous (en_data m)}) (others h (en_id en))
      then False
      else (case ed_cutover (en_data en) of
          None \<Rightarrow> False
        | Some c \<Rightarrow> cu_did c = en_unique_id en \<and> named_devices c \<noteq> []
            \<and> list_all (device_proves P h en c new) (named_devices c)))"

section \<open>Moving an entry's entities\<close>

text \<open>An entity of the entry's own whose unique ID starts with an identity, and its new unique ID.\<close>

definition owned :: "string \<Rightarrow> string \<Rightarrow> entity_item \<Rightarrow> bool" where
  "owned e old i \<longleftrightarrow> ei_entry_id i = Some e \<and> ei_platform i = domain
     \<and> starts_with (ei_unique_id i) (old @ ''_'')"

definition target_id :: "string \<Rightarrow> string \<Rightarrow> entity_item \<Rightarrow> string" where
  "target_id old new i = new @ drop (length old) (ei_unique_id i)"

definition target_free :: "entity_item list \<Rightarrow> string \<Rightarrow> string \<Rightarrow> entity_item \<Rightarrow> bool" where
  "target_free items old new i \<longleftrightarrow>
     (case get_entity_id items (ei_domain i) domain (target_id old new i) of
        None \<Rightarrow> True | Some holder \<Rightarrow> holder = ei_entity_id i)"

definition identity_changes :: "entity_item list \<Rightarrow> string \<Rightarrow> string \<Rightarrow> string \<Rightarrow> (string \<times> string) list" where
  "identity_changes items e old new =
     map (\<lambda>i. (ei_entity_id i, target_id old new i)) (filter (owned e old) items)"

fun rekey_all :: "registry_lib \<Rightarrow> (string \<times> string) list \<Rightarrow> entity_item list \<Rightarrow> entity_item list \<times> bool" where
  "rekey_all R [] items = (items, True)"
| "rekey_all R ((e, u) # rest) items = (case rl_rekey R items e u of
     None \<Rightarrow> (items, False)
   | Some items1 \<Rightarrow> rekey_all R rest items1)"

text \<open>No entity of the entry that must move meets another entity under its new unique ID.\<close>

definition can_move :: "hass \<Rightarrow> string \<Rightarrow> string \<Rightarrow> string \<Rightarrow> bool" where
  "can_move h e old new \<longleftrightarrow> set (native_identities h e) \<subseteq> {old, new}
     \<and> list_all (target_free (hs_entities h) old new) (filter (owned e old) (hs_entities h))"

section \<open>Committing an identity\<close>

definition mismatch_issue_id :: "string \<Rightarrow> string" where
  "mismatch_issue_id e = ''panel_identity_mismatch_'' @ e"

definition confirmation_issue_id :: "string \<Rightarrow> string" where
  "confirmation_issue_id e = ''panel_identity_confirmation_'' @ e"

definition committed_data :: "string \<Rightarrow> string \<Rightarrow> entry_data \<Rightarrow> entry_data" where
  "committed_data old new d = d\<lparr>ed_cutover := (case ed_cutover d of
        None \<Rightarrow> None
      | Some c \<Rightarrow> Some (if cu_did c = Some old then c\<lparr>cu_did := Some new\<rparr> else c)),
     ed_installation := True, ed_previous := Some old, ed_pending := None\<rparr>"

definition commit_identity ::
  "registry_lib \<Rightarrow> rat \<Rightarrow> config_entry \<Rightarrow> string \<Rightarrow> string \<Rightarrow> bool \<Rightarrow> hass \<Rightarrow> hass \<times> unit option" where
  "commit_identity R now en old new reload h =
     (let e = en_id en;
          changes = identity_changes (hs_entities h) e old new;
          h1 = in_world (close_entry now e ''entry_unloaded'') h;
          h2 = update_data e (\<lambda>d. d\<lparr>ed_pending := Some \<lparr>pi_did = Some new, pi_legacy_did = Some old,
                  pi_address = ed_address d\<rparr>\<rparr>) h1
      in case rekey_all R changes (hs_entities h2) of
           (items, False) \<Rightarrow> (h2\<lparr>hs_entities := items\<rparr>, None)
         | (items, True) \<Rightarrow>
             (let h3 = h2\<lparr>hs_entities := items\<rparr>;
                  h4 = update_entry e (\<lambda>n. n\<lparr>en_unique_id := Some new,
                         en_data := committed_data old new (en_data n)\<rparr>) h3;
                  h5 = delete_issue (mismatch_issue_id e) (delete_issue (confirmation_issue_id e) h4);
                  h6 = tell (OffersClosed (ed_address (en_data en)) (Some new)
                         # (if reload then [ReloadScheduled e] else [])) h5
              in (h6, Some ())))"

definition can_confirm_identity :: "hass \<Rightarrow> config_entry \<Rightarrow> panel_health \<Rightarrow> bool" where
  "can_confirm_identity h en health =
     (if \<not> migration_candidate en health then False
      else case (hl_discovery_id health, en_unique_id en) of
        (Some new, Some old) \<Rightarrow>
          (ed_pending (en_data en) = None \<or> ed_pending (en_data en) = Some \<lparr>pi_did = Some new,
             pi_legacy_did = Some old, pi_address = ed_address (en_data en)\<rparr>)
          \<and> identity_available h (en_id en) new \<and> can_move h (en_id en) old new
      | _ \<Rightarrow> False)"

text \<open>The result of the code that follows is \<open>Some\<close> its boolean, or \<open>None\<close> when it raised.\<close>

definition confirm_identity ::
  "registry_lib \<Rightarrow> rat \<Rightarrow> config_entry \<Rightarrow> panel_health \<Rightarrow> hass \<Rightarrow> hass \<times> bool option" where
  "confirm_identity R now en health h =
     (if \<not> can_confirm_identity h en health then (h, Some False)
      else case (hl_discovery_id health, en_unique_id en) of
        (Some new, Some old) \<Rightarrow> (let (h1, end_state) = commit_identity R now en old new True h
          in (h1, map_option (\<lambda>_. True) end_state))
      | _ \<Rightarrow> (h, Some False))"

definition adopt_moved_identity ::
  "registry_lib \<Rightarrow> rat \<Rightarrow> config_entry \<Rightarrow> string \<Rightarrow> bool \<Rightarrow> hass \<Rightarrow> hass \<times> bool option" where
  "adopt_moved_identity R now en new reload h =
     (case en_unique_id en of
        None \<Rightarrow> (h, Some False)
      | Some old \<Rightarrow>
         (if \<not> is_valid_discovery_id new \<or> new = old \<or> \<not> identity_available h (en_id en) new
             \<or> \<not> can_move h (en_id en) old new then (h, Some False)
          else (let (h1, end_state) = commit_identity R now en old new reload h
                in (h1, map_option (\<lambda>_. True) end_state))))"

section \<open>After a restart\<close>

text \<open>A rekey whose entry was saved but whose entities were not, or not all.\<close>

definition finish_rekey ::
  "registry_lib \<Rightarrow> config_entry \<Rightarrow> string option \<Rightarrow> string list \<Rightarrow> hass \<Rightarrow> hass \<times> bool option" where
  "finish_rekey R en previous recorded h =
     (case (if installation en then previous else None) of
        None \<Rightarrow> (h, Some (set recorded \<subseteq> (case en_unique_id en of None \<Rightarrow> {} | Some own \<Rightarrow> {own})))
      | Some old \<Rightarrow> (case en_unique_id en of
          None \<Rightarrow> (h, Some False)
        | Some own \<Rightarrow>
            (if \<not> identity_available h (en_id en) own \<or> \<not> can_move h (en_id en) old own
             then (h, Some False)
             else (case rekey_all R (identity_changes (hs_entities h) (en_id en) old own) (hs_entities h) of
                 (items, True) \<Rightarrow> (h\<lparr>hs_entities := items\<rparr>, Some True)
               | (items, False) \<Rightarrow> (h\<lparr>hs_entities := items\<rparr>, None)))))"

definition reconcile_identity ::
  "registry_lib \<Rightarrow> rat \<Rightarrow> config_entry \<Rightarrow> hass \<Rightarrow> hass \<times> bool option" where
  "reconcile_identity R now en h =
     (let previous = ed_previous (en_data en);
          recorded = native_identities h (en_id en)
      in case (if installation en then (en_unique_id en, recorded) else (None, [])) of
           (Some own, [ahead]) \<Rightarrow>
             (if ahead \<noteq> own \<and> Some ahead \<noteq> previous \<and> identity_available h (en_id en) ahead
              then (let (h1, end_state) = commit_identity R now en own ahead False h
                    in (h1, map_option (\<lambda>_. True) end_state))
              else finish_rekey R en previous recorded h)
         | _ \<Rightarrow> finish_rekey R en previous recorded h)"

section \<open>Health\<close>

definition set_coordinator :: "string \<Rightarrow> (coordinator \<Rightarrow> coordinator) \<Rightarrow> hass \<Rightarrow> hass" where
  "set_coordinator e f = update_entry e (\<lambda>en. en\<lparr>en_coordinator := map_option f (en_coordinator en)\<rparr>)"

definition withdraw_authority :: "rat \<Rightarrow> string \<Rightarrow> hass \<Rightarrow> hass" where
  "withdraw_authority now e h = in_world (close_entry now e ''entry_unloaded'')
     (set_coordinator e (\<lambda>c. c\<lparr>cs_identity_mismatch := True, cs_health_peer := None,
        cs_last_update_success := False\<rparr>) h)"

text \<open>\<open>shared\<close>: other entries hold the panel's link.\<close>

definition reject_health :: "rat \<Rightarrow> string \<Rightarrow> bool \<Rightarrow> hass \<Rightarrow> hass" where
  "reject_health now e shared h =
     (let h1 = (case map_of (hs_issues h) (confirmation_issue_id e) of
          Some i \<Rightarrow> h
        | None \<Rightarrow> create_issue (mismatch_issue_id e) \<lparr>is_translation_key =
             (if shared then ''panel_link_shared'' else ''panel_identity_mismatch''), is_data = []\<rparr> h)
      in withdraw_authority now e h1)"

definition accepted :: "panel_health \<Rightarrow> entry_data \<Rightarrow> entry_data" where
  "accepted health d =
     (let d1 = (if hl_installation_identity health then d\<lparr>ed_installation := True\<rparr> else d)
      in case hl_legacy_discovery_id health of None \<Rightarrow> d1 | Some l \<Rightarrow> d1\<lparr>ed_legacy_did := Some l\<rparr>)"

definition answers_as_itself :: "hass \<Rightarrow> config_entry \<Rightarrow> bool" where
  "answers_as_itself h en = (case en_coordinator en of
     None \<Rightarrow> False
   | Some c \<Rightarrow> get (hs_world h) (en_id en) \<noteq> None
       \<or> (cs_last_update_success c \<and> cs_health_did c = en_unique_id en))"

definition drop_link :: "config_entry \<Rightarrow> hass \<Rightarrow> hass" where
  "drop_link en h = (if answers_as_itself h en then h
     else update_data (en_id en) (\<lambda>d. d\<lparr>ed_legacy_did := None\<rparr>) h)"

definition claim_link :: "string \<Rightarrow> hass \<Rightarrow> hass" where
  "claim_link e h = (case get_entry h e of
     None \<Rightarrow> h
   | Some en \<Rightarrow> (case ed_legacy_did (en_data en) of
       None \<Rightarrow> h
     | Some link \<Rightarrow> fold drop_link (link_holders h e (Some link)) h))"

definition adopt_reinstalled ::
  "registry_lib \<Rightarrow> rat \<Rightarrow> config_entry \<Rightarrow> string \<Rightarrow> hass \<Rightarrow> hass \<times> bool option" where
  "adopt_reinstalled R now en new h =
     (let e = en_id en; (claimed, h1) = claim_panel_operation e h
      in if \<not> claimed then (withdraw_authority now e h1, Some False)
         else (case adopt_moved_identity R now en new True h1 of
             (h2, Some True) \<Rightarrow>
               (release_panel_operation e (tell [RemovalDismissed e]
                  (delete_issue (''remove_from_panel_'' @ e) (async_unbind_user e h2))), Some True)
           | (h2, Some False) \<Rightarrow> (release_panel_operation e (reject_health now e False h2), Some False)
           | (h2, None) \<Rightarrow> (release_panel_operation e h2, None)))"

text \<open>An entry without an identity takes the one its own entities recorded, when there is one;
  \<open>None\<close>: they recorded several.\<close>

definition recover_unique_id :: "config_entry \<Rightarrow> hass \<Rightarrow> hass option" where
  "recover_unique_id en h =
     (let recorded = native_identities h (en_id en);
          old = (case ed_cutover (en_data en) of None \<Rightarrow> None | Some c \<Rightarrow> cu_did c);
          found = (case old of Some d \<Rightarrow> if is_valid_discovery_id d then List.insert d recorded else recorded
                   | None \<Rightarrow> recorded)
      in case found of
           [] \<Rightarrow> Some h
         | [d] \<Rightarrow> Some (update_entry (en_id en) (\<lambda>n. n\<lparr>en_unique_id := Some d\<rparr>) h)
         | _ \<Rightarrow> None)"

definition confirmation_issue :: "config_entry \<Rightarrow> string \<Rightarrow> issue" where
  "confirmation_issue en new = \<lparr>is_translation_key = ''panel_identity_confirmation'',
     is_data = [(''entry_id'', PStr (en_id en)), (''did'', PStr new),
       (''legacy_did'', (case en_unique_id en of None \<Rightarrow> PNone | Some u \<Rightarrow> PStr u)),
       (''address'', PStr (ed_address (en_data en)))]\<rparr>"

text \<open>\<open>accept_health\<close> once the entry's identity is known not to be the answer's.\<close>

definition other_identity ::
  "registry_lib \<Rightarrow> rat \<Rightarrow> config_entry \<Rightarrow> panel_health \<Rightarrow> hass \<Rightarrow> hass \<times> bool option" where
  "other_identity R now en health h = (let e = en_id en in
     if reinstalled h en health
     then (case hl_discovery_id health of
         Some new \<Rightarrow> adopt_reinstalled R now en new h | None \<Rightarrow> (h, None))
     else (reject_health now e (linked_reinstall h en health
             \<and> link_holders h e (hl_legacy_discovery_id health) \<noteq> []) h, Some False))"

definition migrate_identity ::
  "registry_lib \<Rightarrow> platform \<Rightarrow> rat \<Rightarrow> config_entry \<Rightarrow> panel_health \<Rightarrow> string \<Rightarrow> hass \<Rightarrow> hass \<times> bool option" where
  "migrate_identity R P now en health new h =
     (case (if prior_installation P h en new then confirm_identity R now en health h else (h, Some False)) of
        (h1, Some True) \<Rightarrow> (h1, Some True)
      | (h1, None) \<Rightarrow> (h1, None)
      | (h1, Some False) \<Rightarrow> other_identity R now en health
          (create_issue (confirmation_issue_id (en_id en)) (confirmation_issue en new) h1))"

definition accept_pending ::
  "registry_lib \<Rightarrow> rat \<Rightarrow> config_entry \<Rightarrow> panel_health \<Rightarrow> pending_identity \<Rightarrow> hass \<Rightarrow> hass \<times> bool option" where
  "accept_pending R now en health pending h =
     (case (if pending = \<lparr>pi_did = hl_discovery_id health, pi_legacy_did = hl_legacy_discovery_id health,
              pi_address = ed_address (en_data en)\<rparr>
            then confirm_identity R now en health h else (h, Some False)) of
        (h1, Some False) \<Rightarrow> (reject_health now (en_id en) False h1, Some False)
      | result \<Rightarrow> result)"

text \<open>The entry as it is once it holds an identity, or still none.\<close>

definition accept_known ::
  "registry_lib \<Rightarrow> platform \<Rightarrow> rat \<Rightarrow> config_entry \<Rightarrow> panel_health \<Rightarrow> hass \<Rightarrow> hass \<times> bool option" where
  "accept_known R P now en health h = (let e = en_id en in
     case ed_pending (en_data en) of
       Some pending \<Rightarrow> accept_pending R now en health pending h
     | None \<Rightarrow>
       (case (en_unique_id en, hl_discovery_id health) of
          (None, None) \<Rightarrow> (h, Some True)
        | (None, Some new) \<Rightarrow>
            (if \<not> identity_available h e new then (reject_health now e False h, Some False)
             else (claim_link e (update_data e (accepted health)
                     (update_entry e (\<lambda>n. n\<lparr>en_unique_id := Some new\<rparr>) h)), Some True))
        | (Some own, found) \<Rightarrow>
            (if found = Some own
             then (claim_link e (update_data e (accepted health) (delete_issue (mismatch_issue_id e) h)),
                   Some True)
             else if migration_candidate en health
             then (case found of Some new \<Rightarrow> migrate_identity R P now en health new h
                   | None \<Rightarrow> (h, None))
             else other_identity R now en health h)))"

definition accept_health ::
  "registry_lib \<Rightarrow> platform \<Rightarrow> rat \<Rightarrow> string \<Rightarrow> panel_health \<Rightarrow> hass \<Rightarrow> hass \<times> bool option" where
  "accept_health R P now e health h = (case get_entry h e of
     None \<Rightarrow> (h, Some False)
   | Some en \<Rightarrow>
      (case (if en_unique_id en = None then recover_unique_id en h else Some h) of
         None \<Rightarrow> (reject_health now e False h, Some False)
       | Some h1 \<Rightarrow> (case get_entry h1 e of
           None \<Rightarrow> (h1, Some False)
         | Some en1 \<Rightarrow> accept_known R P now en1 health h1)))"

end
