(* ===== verification/Removed_Panels.thy ===== *)
theory Removed_Panels
  imports Panel_Entries Bounded_Dict
begin

text \<open>
  The panels whose entry was removed (removed_panels.py): a dict from identity to removal time,
  oldest first, kept to 64 and written to Home Assistant's storage as one JSON document.  The
  storage's write is an effect the caller sees only as a raise, which both callers swallow.
\<close>

abbreviation max_removed_panels :: nat where "max_removed_panels \<equiv> 64"

type_synonym removed_panels = "(string \<times> string) list"

text \<open>\<open>_trim\<close>: the first key goes while there are too many.\<close>

function trim :: "('k \<times> 'v) list \<Rightarrow> ('k \<times> 'v) list" where
  "trim d = (if max_removed_panels < length d then trim (tl d) else d)"
  by pat_completeness auto
termination
  by (relation "measure length") auto

declare trim.simps [simp del]

text \<open>One stored item, when it is well formed.\<close>

definition removed_item :: "pyval \<Rightarrow> (string \<times> string) option" where
  "removed_item v = (case v of
     PDict d \<Rightarrow> (case (dict_get d ''did'', dict_get d ''removed_at'') of
        (PStr panel, PStr time) \<Rightarrow> (if is_valid_discovery_id panel then Some (panel, time) else None)
      | _ \<Rightarrow> None)
   | _ \<Rightarrow> None)"

definition stored_items :: "pyval \<Rightarrow> pyval list" where
  "stored_items data = (case data of
     PDict d \<Rightarrow> (case dict_get d ''panels'' of PList items \<Rightarrow> items | _ \<Rightarrow> [])
   | _ \<Rightarrow> [])"

definition load_removed :: "pyval \<Rightarrow> removed_panels" where
  "load_removed data = trim (dict_of (List.map_filter removed_item (stored_items data)))"

definition removed_document :: "removed_panels \<Rightarrow> pyval" where
  "removed_document removed = PDict [(''panels'', PList (map (\<lambda>(panel, time).
     PDict [(''did'', PStr panel), (''removed_at'', PStr time)]) removed))]"

text \<open>\<open>async_add\<close> and \<open>async_discard\<close>, with the document each saves, if any.\<close>

definition add_removed :: "string \<Rightarrow> string \<Rightarrow> removed_panels \<Rightarrow> removed_panels" where
  "add_removed panel time removed = trim (AList.update panel time (AList.delete panel removed))"

definition async_add :: "string \<Rightarrow> string \<Rightarrow> removed_panels \<Rightarrow> removed_panels \<times> pyval option" where
  "async_add panel now removed =
     (let r = add_removed panel now removed in (r, Some (removed_document r)))"

definition async_discard :: "string \<Rightarrow> removed_panels \<Rightarrow> removed_panels \<times> pyval option" where
  "async_discard panel removed = (case map_of removed panel of
     None \<Rightarrow> (removed, None)
   | Some time \<Rightarrow> (let r = AList.delete panel removed in (r, Some (removed_document r))))"

text \<open>\<open>_panel_did\<close> of transport.py: the saved identity, or what an entry that predates it reports.\<close>

definition reported_did :: "config_entry \<Rightarrow> string option" where
  "reported_did en = (case en_coordinator en of None \<Rightarrow> None | Some c \<Rightarrow> cs_health_did c)"

definition panel_did :: "config_entry \<Rightarrow> string option" where
  "panel_did en = (case en_unique_id en of
     Some u \<Rightarrow> (if is_valid_discovery_id u then Some u else reported_did en)
   | None \<Rightarrow> reported_did en)"

definition forget_removed_panel :: "config_entry \<Rightarrow> hass \<Rightarrow> hass" where
  "forget_removed_panel en h = (case panel_did en of
     None \<Rightarrow> h | Some d \<Rightarrow> h\<lparr>hs_removed := fst (async_discard d (hs_removed h))\<rparr>)"

definition remember_removed_panel :: "string \<Rightarrow> config_entry \<Rightarrow> hass \<Rightarrow> hass" where
  "remember_removed_panel now en h = (case panel_did en of
     None \<Rightarrow> h
   | Some d \<Rightarrow> (if is_valid_discovery_id d
       then h\<lparr>hs_removed := fst (async_add d now (hs_removed h))\<rparr> else h))"

section \<open>Bounds\<close>

lemma trim_drop: "trim d = drop (length d - max_removed_panels) d"
proof (induction d rule: trim.induct)
  case (1 d)
  show ?case
  proof (cases "max_removed_panels < length d")
    case True
    then have "Suc (length (tl d) - max_removed_panels) = length d - max_removed_panels" by simp
    then have "drop (length (tl d) - max_removed_panels) (tl d) = drop (length d - max_removed_panels) d"
      by (metis drop_Suc)
    then show ?thesis using 1 True by (simp add: trim.simps [of d])
  qed (simp add: trim.simps [of d])
qed

lemma add_removed_newest: "add_removed panel time removed = newest max_removed_panels panel time removed"
  by (simp add: add_removed_def newest_def trim_drop Let_def)

interpretation removed: bounded_dict add_removed max_removed_panels "\<lambda>v d. True"
  unfolding add_removed_newest by (rule newest_dict) simp

definition removed_ok :: "removed_panels \<Rightarrow> bool" where
  "removed_ok r \<longleftrightarrow> dict_ok r \<and> length r \<le> max_removed_panels \<and> list_all (\<lambda>(d, t). is_valid_discovery_id d) r"

lemma map_filter_valid:
  "list_all (\<lambda>(d, t). is_valid_discovery_id d) (List.map_filter removed_item items)"
  by (induction items) (auto simp: List.map_filter_def removed_item_def split: pyval.splits if_splits)

lemma dict_of_mem: "(k, v) \<in> set (dict_of ps) \<Longrightarrow> (k, v) \<in> set ps"
  unfolding map_of_dict_iff [OF dict_ok_dict_of, symmetric]
  by (auto simp: dict_of_def map_of_dict_update dest: map_of_SomeD split: option.splits)

lemma load_removed_ok: "removed_ok (load_removed data)"
proof -
  let ?d = "dict_of (List.map_filter removed_item (stored_items data))"
  have "list_all (\<lambda>(d, t). is_valid_discovery_id d) ?d"
    using map_filter_valid [of "stored_items data"] dict_of_mem by (fastforce simp: list_all_iff)
  then show ?thesis
    by (auto simp: removed_ok_def load_removed_def trim_drop dict_ok_drop list_all_iff dest: in_set_dropD)
qed

lemma dict_of_id: "dict_ok ps \<Longrightarrow> dict_of ps = ps"
proof (induction ps rule: rev_induct)
  case (snoc p ps)
  obtain k v where p: "p = (k, v)" by (cases p)
  have "dict_ok ps" "map_of ps k = None"
    using snoc.prems by (auto simp: dict_ok_def p map_of_eq_None_iff)
  then show ?case using snoc.IH by (simp add: dict_of_def dict_update_def p update_new)
qed (simp add: dict_of_def dict_update_def)

lemma load_document: "removed_ok r \<Longrightarrow> load_removed (removed_document r) = r"
proof -
  assume ok: "removed_ok r"
  have "List.map_filter removed_item (map (\<lambda>(d, t). PDict [(''did'', PStr d), (''removed_at'', PStr t)]) r) = r"
    using ok unfolding removed_ok_def
    by (induction r) (auto simp: List.map_filter_def removed_item_def dict_ok_def)
  then show ?thesis using ok
    by (simp add: load_removed_def removed_document_def stored_items_def dict_of_id removed_ok_def trim_drop)
qed

interpretation removed_file: codec removed_document "\<lambda>d. Some (load_removed d)" removed_ok "\<lambda>r. r"
  by unfold_locales (simp add: load_document)

lemma add_removed_ok:
  assumes "removed_ok r" "is_valid_discovery_id d"
  shows "removed_ok (add_removed d t r)"
proof -
  have r: "dict_ok r" "length r \<le> max_removed_panels" using assms(1) by (simp_all add: removed_ok_def)
  have "is_valid_discovery_id k" if "(k, v) \<in> set (add_removed d t r)" for k v
  proof -
    have "map_of (add_removed d t r) k = Some v"
      using that removed.remember_ok [OF r(1)] by (simp add: map_of_dict_iff)
    then show ?thesis
      using removed.no_other [OF r(1), of d t k v] assms by (auto simp: removed_ok_def list_all_iff dest: map_of_SomeD)
  qed
  then show ?thesis
    using removed.remember_ok [OF r(1), of d t] removed.remember_bounded [OF r, of d t]
    by (auto simp: removed_ok_def list_all_iff)
qed

lemma discard_ok: "removed_ok r \<Longrightarrow> removed_ok (fst (async_discard d r))"
  using length_delete_le [of d r]
  by (auto simp: removed_ok_def async_discard_def Let_def list_all_iff dict_ok_delete dict_mem_delete
      split: option.splits)

end
