(* ===== verification/Panel_Logs.thy ===== *)
theory Panel_Logs
  imports Panel_Entries
begin

text \<open>
  Panel log delivery (panel_logs.py): one policy for the fleet, one outstanding batch per panel,
  and the lines written to Home Assistant's log or sent to a log receiver.  yarl is a parameter;
  whether a receiver took a batch is an argument.
\<close>

section \<open>The policy\<close>

record url_parts =
  up_scheme :: string
  up_host :: "string option"
  up_user :: "string option"
  up_fragment :: string

text \<open>\<open>URL(text)\<close> and \<open>URL.build(scheme="http", host=text)\<close>; \<open>None\<close>: it raises.\<close>

record url_lib =
  ul_parse :: "string \<Rightarrow> url_parts option"
  ul_build :: "string \<Rightarrow> url_parts option"

fun contains :: "string \<Rightarrow> string \<Rightarrow> bool" where
  "contains p [] \<longleftrightarrow> p = []"
| "contains p (c # s) \<longleftrightarrow> starts_with (c # s) p \<or> contains p s"

definition http_endpoint :: "url_lib \<Rightarrow> string \<Rightarrow> bool" where
  "http_endpoint U host = (case (if contains ''://'' host then ul_parse U host else ul_build U host) of
     None \<Rightarrow> False
   | Some u \<Rightarrow> up_scheme u \<in> {''http'', ''https''} \<and> up_host u \<notin> {None, Some []}
       \<and> up_user u \<in> {None, Some []} \<and> up_fragment u = [])"

definition log_levels :: "int list" where
  "log_levels = [2, 3, 4, 5, 6, 7]"

definition valid_source :: "string \<times> pyval \<Rightarrow> bool" where
  "valid_source = (\<lambda>(source, level). source \<in> {''app'', ''system''}
     \<and> (case level of PInt n \<Rightarrow> n \<in> set log_levels | _ \<Rightarrow> False))"

definition valid_endpoint :: "string \<Rightarrow> int \<Rightarrow> bool" where
  "valid_endpoint host port \<longleftrightarrow> py_strip host \<noteq> [] \<and> length host \<le> 2048
     \<and> list_all (\<lambda>c. 32 \<le> code_of c) host \<and> 1 \<le> port \<and> port \<le> 65535"

text \<open>A destination that is not \<open>None\<close>, as it is kept.\<close>

definition checked_destination :: "url_lib \<Rightarrow> pyval \<Rightarrow> pydict option" where
  "checked_destination U v = (case v of
     PDict d \<Rightarrow> (case dict_get d ''protocol'' of
        PStr protocol \<Rightarrow>
         (if protocol = ''home_assistant'' then Some [(''protocol'', PStr ''home_assistant'')]
          else if protocol \<in> {''udp'', ''tcp'', ''http''} then
            (case (dict_get d ''host'', dict_get d ''port'') of
               (PStr host, PInt port) \<Rightarrow>
                 (if valid_endpoint host port
                    \<and> (if protocol = ''http'' then http_endpoint U (py_strip host)
                       else list_all (\<lambda>c. c \<notin> set ''/@?# '') host)
                  then Some [(''protocol'', PStr protocol), (''host'', PStr (py_strip host)), (''port'', PInt port)]
                  else None)
             | _ \<Rightarrow> None)
          else None)
      | _ \<Rightarrow> None)
   | _ \<Rightarrow> None)"

definition validate_policy :: "url_lib \<Rightarrow> pydict \<Rightarrow> pydict option" where
  "validate_policy U value = (case dict_get value ''sources'' of
     PDict sources \<Rightarrow>
       (if \<not> list_all valid_source sources then None
        else do {
          destination \<leftarrow> (case dict_get value ''destination'' of PNone \<Rightarrow> Some PNone
             | v \<Rightarrow> map_option PDict (checked_destination U v));
          also \<leftarrow> (case dict_get_default value ''also_home_assistant'' (PBool False) of
             PBool b \<Rightarrow> Some b | _ \<Rightarrow> None);
          Some ([(''destination'', destination), (''sources'', PDict sources)]
            @ (case destination of
                 PDict d \<Rightarrow> (if also \<and> dict_get d ''protocol'' \<noteq> PStr ''home_assistant''
                   then [(''also_home_assistant'', PBool True)] else [])
               | _ \<Rightarrow> []))})
   | _ \<Rightarrow> None)"

definition default_policy :: pydict where
  "default_policy = [(''destination'', PNone), (''sources'', PDict [(''app'', PInt 5)])]"

definition load_policy :: "url_lib \<Rightarrow> pyval \<Rightarrow> pydict" where
  "load_policy U raw = (case raw of
     PDict d \<Rightarrow> (case validate_policy U d of None \<Rightarrow> default_policy | Some p \<Rightarrow> p)
   | _ \<Rightarrow> default_policy)"

text \<open>\<open>dict(self.policy["sources"]) if self.policy["destination"] else {}\<close>\<close>

definition policy_sources :: "pydict \<Rightarrow> (string \<times> int) list" where
  "policy_sources policy = (case (dict_get policy ''destination'', dict_get policy ''sources'') of
     (PDict (f # d), PDict sources) \<Rightarrow> [(s, n). (s, PInt n) \<leftarrow> sources]
   | _ \<Rightarrow> [])"

section \<open>Grants\<close>

abbreviation session_of :: "hass \<Rightarrow> session_ref \<Rightarrow> panel_session" where
  "session_of h r \<equiv> w_sessions (hs_world h) r"

definition close_log_session :: "rat \<Rightarrow> string \<Rightarrow> hass \<Rightarrow> hass" where
  "close_log_session now e h = (case get (hs_world h) e of
     None \<Rightarrow> h
   | Some r \<Rightarrow> (if ''logs'' \<in> set (ps_capabilities (session_of h r))
       then in_world (close now r ''log_policy_changed'' True) h else h))"

text \<open>\<open>async_configure\<close> once the store has saved the validated policy.\<close>

definition configure_logs :: "rat \<Rightarrow> pydict \<Rightarrow> hass \<Rightarrow> hass" where
  "configure_logs now policy h =
     fold (close_log_session now) (map en_id (hs_entries h)) (h\<lparr>hs_log_policy := policy\<rparr>)"

definition saved_sinks :: "hass \<Rightarrow> (string \<times> pydict) list" where
  "saved_sinks h = (if dict_get (hs_log_policy h) ''destination'' \<noteq> PNone then []
     else dict_of (concat (map (\<lambda>en. case get (hs_world h) (en_id en) of
        None \<Rightarrow> []
      | Some r \<Rightarrow> (case ps_saved_log_sink (session_of h r) of
          Some sink \<Rightarrow> (if ''logs'' \<in> set (ps_capabilities (session_of h r))
            then [(ps_did (session_of h r), sink)] else [])
        | None \<Rightarrow> [])) (hs_entries h))))"

section \<open>Batches\<close>

record log_record =
  lg_timestamp :: string
  lg_source :: string
  lg_priority :: int
  lg_tag :: string
  lg_pid :: int
  lg_message :: string

datatype admission_answer = LogRefused string | LogTaken

definition accept_logs :: "connection \<Rightarrow> int \<Rightarrow> session_ref \<Rightarrow> hass \<Rightarrow> hass \<times> admission_answer" where
  "accept_logs conn mid r h =
     (if ''logs'' \<notin> set (ps_capabilities (session_of h r))
      then (in_world (emit [ErrorSent conn mid ''logs_not_granted'']) h, LogRefused ''logs_not_granted'')
      else if ps_did (session_of h r) \<in> set (hs_log_busy h)
      then (in_world (emit [ErrorSent conn mid ''log_busy'']) h, LogRefused ''log_busy'')
      else (h\<lparr>hs_log_busy := ps_did (session_of h r) # hs_log_busy h\<rparr>, LogTaken))"

definition ws_report_log :: "connection \<Rightarrow> int \<Rightarrow> string \<Rightarrow> hass \<Rightarrow> hass \<times> admission_answer" where
  "ws_report_log conn mid token h = (case for_request (hs_world h) token conn of
     None \<Rightarrow> (in_world (emit [ErrorSent conn mid ''session_unknown'']) h, LogRefused ''session_unknown'')
   | Some r \<Rightarrow> accept_logs conn mid r h)"

definition granted_record :: "panel_session \<Rightarrow> log_record \<Rightarrow> bool" where
  "granted_record s rec = (case map_of (ps_log_sources s) (lg_source rec) of
     None \<Rightarrow> False | Some level \<Rightarrow> level \<le> lg_priority rec)"

definition dropped_notice :: "string \<Rightarrow> int \<Rightarrow> log_record" where
  "dropped_notice now n = \<lparr>lg_timestamp = now, lg_source = ''app'', lg_priority = 5, lg_tag = ''PanelLogs'',
     lg_pid = 0, lg_message = ''Panel dropped '' @ int_string n @ '' log records before this batch.''\<rparr>"

definition delivery_records :: "panel_session \<Rightarrow> string \<Rightarrow> log_record list \<Rightarrow> int \<Rightarrow> log_record list" where
  "delivery_records s now records dropped =
     filter (granted_record s) records @ (if dropped \<noteq> 0 then [dropped_notice now dropped] else [])"

definition is_current :: "hass \<Rightarrow> session_ref \<Rightarrow> bool" where
  "is_current h r \<longleftrightarrow>
     for_request (hs_world h) (ps_token (session_of h r)) (ps_connection (session_of h r)) = Some r"

text \<open>Where the batch goes: to Home Assistant's log, to the receiver.  \<open>policy\<close> is the copy taken when
  the batch was accepted.\<close>

definition delivery_targets :: "pydict \<Rightarrow> bool \<times> bool" where
  "delivery_targets policy = (case dict_get policy ''destination'' of
     PDict d \<Rightarrow> (let ha = dict_get d ''protocol'' = PStr ''home_assistant''
        in (ha \<or> dict_get policy ''also_home_assistant'' = PBool True, \<not> ha))
   | _ \<Rightarrow> (False, False))"

text \<open>The end of a delivery: \<open>ok\<close> says that nothing raised, \<open>current\<close> that the session was current when
  it began.\<close>

definition deliver_end ::
  "bool \<Rightarrow> bool \<Rightarrow> int \<Rightarrow> int \<Rightarrow> int \<Rightarrow> session_ref \<Rightarrow> hass \<Rightarrow> hass" where
  "deliver_end current ok mid accepted_count dropped r h =
     (let s = session_of h r;
          h1 = (if current \<and> is_current h r
             then in_world (emit [if ok
                then ResultSent (ps_connection s) mid (PDict [(''accepted'', PInt accepted_count), (''dropped'', PInt dropped)])
                else ErrorSent (ps_connection s) mid ''log_delivery_failed'']) h
             else h)
      in h1\<lparr>hs_log_busy := removeAll (ps_did s) (hs_log_busy h1)\<rparr>)"

section \<open>Lines\<close>

definition priority_letter :: "int \<Rightarrow> string" where
  "priority_letter p = the (map_of [(2, ''V''), (3, ''D''), (4, ''I''), (5, ''W''), (6, ''E''), (7, ''F'')] p)"

definition severity :: "int \<Rightarrow> int" where
  "severity p = the (map_of [(2, 7), (3, 7), (4, 6), (5, 4), (6, 3), (7, 2)] p)"

definition forward_message :: "log_record \<Rightarrow> string" where
  "forward_message rec = lg_source rec @ '' '' @ priority_letter (lg_priority rec) @ ''/'' @ lg_tag rec
     @ ''('' @ int_string (lg_pid rec) @ ''): '' @ lg_message rec"

text \<open>\<open>s.replace(c, r)\<close> for one character\<close>

definition replace_char :: "char \<Rightarrow> string \<Rightarrow> string \<Rightarrow> string" where
  "replace_char c r s = concat (map (\<lambda>x. if x = c then r else [x]) s)"

definition one_line :: "string \<Rightarrow> string" where
  "one_line message = (if CHR 0x0A \<in> set message \<or> CHR 0x0D \<in> set message
     then replace_char CHR 0x0A [CHR 0x5C, CHR ''n''] (replace_char CHR 0x0D [CHR 0x5C, CHR ''r'']
       (replace_char CHR 0x5C [CHR 0x5C, CHR 0x5C] message))
     else message)"

definition param_value :: "string \<Rightarrow> string" where
  "param_value s = replace_char CHR '']'' [CHR 0x5C, CHR '']''] (replace_char CHR 0x22 [CHR 0x5C, CHR 0x22]
     (replace_char CHR 0x5C [CHR 0x5C, CHR 0x5C] s))"

definition syslog :: "panel_session \<Rightarrow> log_record \<Rightarrow> string" where
  "syslog s rec = ''<'' @ int_string (8 + severity (lg_priority rec)) @ ''>1 '' @ lg_timestamp rec @ '' ''
     @ ps_did s @ '' ha-paneld - - '' @ ''[hapaneld@32473 versionCode='' @ [CHR 0x22]
     @ int_string (ps_app_version_code s) @ [CHR 0x22] @ '' package='' @ [CHR 0x22]
     @ param_value (ps_app_package s) @ [CHR 0x22] @ ''] '' @ one_line (forward_message rec) @ [CHR 0x0A]"

end
