(* ===== verification/Transport_Hello.thy ===== *)
theory Transport_Hello
  imports Entry_Identity Removed_Panels Panel_Logs
begin

text \<open>
  The admission of a panel's hello (transport.py): which entry it names, whether the account it came
  from may hold that entry's session, and what a granted session is given.  A hello that offers
  \<open>local_adb\<close> and \<open>management\<close> waits for the install receipts to be read; what the code does before
  and after that read are two steps.
\<close>

section \<open>The message and its surroundings\<close>

text \<open>The fields \<open>HELLO_SCHEMA\<close> leaves.\<close>

record hello_msg =
  hm_did :: "string option"
  hm_min :: int
  hm_max :: int
  hm_version :: string
  hm_version_code :: int
  hm_package :: "string option"
  hm_contract_digest :: string
  hm_capabilities :: "string list"
  hm_channels :: "pydict list"
  hm_unsupported :: "string list"
  hm_addresses :: "string list"
  hm_http_port :: "int option"
  hm_voice_client :: "string option"
  hm_saved_sink :: "pydict option"

text \<open>What the grant reads from elsewhere: a fresh token, the time, this integration's version, the
  lifecycle and connection parts of the answer, the expected entity count, the voice stream's
  grant.\<close>

record hello_env =
  he_now :: rat
  he_token :: string
  he_version :: string
  he_lifecycle :: pyval
  he_connection :: pyval
  he_entity_count :: "int option"
  he_voice_grant :: pyval

datatype hello_result = HelloRefused string | HelloGranted session_ref | HelloDeferred

section \<open>The entry a hello names\<close>

datatype entry_match = NoEntry | OneEntry config_entry | SharedEntries "config_entry list"

definition entry_for_did :: "hass \<Rightarrow> string \<Rightarrow> entry_match" where
  "entry_for_did h panel =
     (let matches = filter (\<lambda>en. panel_did en = Some panel) (loaded_entries h) in
      case matches of
        [] \<Rightarrow> NoEntry
      | [en] \<Rightarrow> OneEntry en
      | _ \<Rightarrow> (case filter (\<lambda>en. reported_did en = Some panel) matches of
          [en] \<Rightarrow> OneEntry en
        | _ \<Rightarrow> SharedEntries matches))"

definition merged_identity_issue_id :: "string \<Rightarrow> string" where
  "merged_identity_issue_id panel = ''merged_panel_identity_'' @ panel"

definition raise_merged_identity_issue :: "string \<Rightarrow> hass \<Rightarrow> hass" where
  "raise_merged_identity_issue panel = create_issue (merged_identity_issue_id panel)
     \<lparr>is_translation_key = ''merged_panel_identity'', is_data = []\<rparr>"

definition delete_merged_identity_issue :: "config_entry \<Rightarrow> hass \<Rightarrow> hass" where
  "delete_merged_identity_issue en h = (case panel_did en of
     None \<Rightarrow> h | Some d \<Rightarrow> delete_issue (merged_identity_issue_id d) h)"

section \<open>A refused panel is still followed\<close>

abbreviation max_refused_hellos :: nat where "max_refused_hellos \<equiv> 16"

text \<open>\<open>async_follow_refused_hello\<close> of coordinator.py\<close>

definition remember_hello :: "string \<Rightarrow> string option \<times> string list
     \<Rightarrow> (string \<times> string option \<times> string list) list \<Rightarrow> (string \<times> string option \<times> string list) list" where
  "remember_hello panel place hellos =
     (let d = AList.update panel place (AList.delete panel hellos)
      in if max_refused_hellos < length d then tl d else d)"

definition follow_refused_hello ::
  "string \<Rightarrow> string option \<Rightarrow> string list \<Rightarrow> config_entry \<Rightarrow> hass \<Rightarrow> hass" where
  "follow_refused_hello panel remote addresses en h = (case en_coordinator en of
     None \<Rightarrow> h
   | Some c \<Rightarrow> (let h1 = set_coordinator (en_id en) (\<lambda>c. c\<lparr>cs_refused_hellos :=
           remember_hello panel (remote, addresses) (cs_refused_hellos c)\<rparr>) h
       in if cs_reachable c then h1 else tell [FollowRefused (en_id en) panel] h1))"

definition follow_refused_panel :: "client_connection \<Rightarrow> hello_msg \<Rightarrow> string \<Rightarrow> hass \<Rightarrow> hass" where
  "follow_refused_panel conn m panel h =
     (let candidates = (case entry_for_did h panel of
          SharedEntries es \<Rightarrow> []
        | OneEntry en \<Rightarrow> [en]
        | NoEntry \<Rightarrow> filter (\<lambda>en. ed_legacy_did (en_data en) \<noteq> None) (loaded_entries h))
      in fold (follow_refused_hello panel (cc_remote conn) (hm_addresses m))
           (filter (\<lambda>en. ed_user_id (en_data en) = Some (cc_user_id conn)) candidates) h)"

section \<open>Entities a hello retires\<close>

text \<open>An entity of this entry under the unique ID, removed.\<close>

definition remove_own_entity ::
  "registry_lib \<Rightarrow> string \<Rightarrow> string \<Rightarrow> string \<Rightarrow> hass \<Rightarrow> hass \<times> bool" where
  "remove_own_entity R e platform_domain unique_id h =
     (case get_entity_id (hs_entities h) platform_domain domain unique_id of
        None \<Rightarrow> (h, False)
      | Some i \<Rightarrow> (case get_entity (hs_entities h) i of
          None \<Rightarrow> (h, False)
        | Some found \<Rightarrow> (if ei_entry_id found = Some e
            then (h\<lparr>hs_entities := rl_remove R (hs_entities h) i\<rparr>, True) else (h, False))))"

text \<open>Their routes come and go, so these are kept.\<close>

definition kept_channels :: "string list" where
  "kept_channels = [''reboot'', ''reload'', ''back'']"

definition remove_unsupported_one ::
  "registry_lib \<Rightarrow> string \<Rightarrow> string \<Rightarrow> string \<Rightarrow> hass \<times> string list \<Rightarrow> hass \<times> string list" where
  "remove_unsupported_one R e panel channel acc = (case acc of (h, removed) \<Rightarrow>
     (case catalogue_entry_for_channel channel of
        None \<Rightarrow> (h, removed)
      | Some (row, suffix) \<Rightarrow>
          (let unique_id = panel @ ''_'' @ suffix in
           if channel \<in> set kept_channels then (h, removed)
           else (case remove_own_entity R e (cr_platform row) unique_id h of
             (h1, True) \<Rightarrow> (h1, removed @ [unique_id])
           | (h1, False) \<Rightarrow> (h1, removed)))))"

definition remove_unsupported_channels ::
  "registry_lib \<Rightarrow> string \<Rightarrow> string \<Rightarrow> string list \<Rightarrow> hass \<Rightarrow> hass" where
  "remove_unsupported_channels R e panel names h =
     (case fold (remove_unsupported_one R e panel) names (h, []) of
        (h1, removed) \<Rightarrow> (if removed \<noteq> [] then tell [NativeRemoved e removed] h1 else h1))"

definition retire_entity ::
  "registry_lib \<Rightarrow> string \<Rightarrow> string \<Rightarrow> string \<times> string \<Rightarrow> hass \<Rightarrow> hass" where
  "retire_entity R e panel = (\<lambda>(platform_domain, suffix) h.
     (case remove_own_entity R e platform_domain (panel @ ''_'' @ suffix) h of
        (h1, True) \<Rightarrow> tell [NativeRemoved e [panel @ ''_'' @ suffix]] h1
      | (h1, False) \<Rightarrow> h1))"

text \<open>The channel whose entity another described channel shows (native.py).\<close>

definition shown_by :: "(string \<times> string) list" where
  "shown_by = [(''volume'', ''media'')]"

definition shown_elsewhere :: "string \<Rightarrow> (string \<times> pydict) list \<Rightarrow> string list \<Rightarrow> bool" where
  "shown_elsewhere channel descriptors unknown = (case map_of shown_by channel of
     None \<Rightarrow> False
   | Some owner \<Rightarrow> owner \<in> dict_keys descriptors \<and> owner \<notin> set unknown)"

section \<open>The grant\<close>

definition granted_capabilities :: "hello_msg \<Rightarrow> bool \<Rightarrow> bool \<Rightarrow> string list" where
  "granted_capabilities m local_ok voice_stream =
     (let offered = filter (\<lambda>c. c \<in> set (hm_capabilities m)) known_capabilities;
          c1 = (if ''management'' \<notin> set offered \<or> \<not> local_ok
                then removeAll ''local_adb'' offered else offered)
      in if hm_voice_client m = None \<or> \<not> voice_stream
         then removeAll ''voice_stream_session'' c1 else c1)"

definition hello_descriptors :: "hello_msg \<Rightarrow> (string \<times> pydict) list" where
  "hello_descriptors m = dict_of [(ch, d). d \<leftarrow> hm_channels m,
     ch \<leftarrow> (case item d ''channel'' of Some (PStr ch) \<Rightarrow> [ch] | _ \<Rightarrow> [])]"

definition unknown_channels :: "(string \<times> pydict) list \<Rightarrow> string list" where
  "unknown_channels descriptors = [ch. (ch, d) \<leftarrow> descriptors, catalogue_entry d = None]"

definition unsupported_channels :: "hello_msg \<Rightarrow> string list" where
  "unsupported_channels m = filter (\<lambda>ch. ch \<notin> dict_keys (hello_descriptors m)) (remdups (hm_unsupported m))"

text \<open>\<open>validate_policy\<close> of the panel's saved destination; what it raises is suppressed.\<close>

definition saved_log_sink :: "url_lib \<Rightarrow> pydict option \<Rightarrow> pydict option" where
  "saved_log_sink U sink = (case sink of
     None \<Rightarrow> None
   | Some s \<Rightarrow> (if dict_get s ''enabled'' \<noteq> PBool True then None
       else (case validate_policy U [(''destination'', PDict [(k, dict_get s k). k \<leftarrow> [''protocol'', ''host'', ''port'']]),
                (''sources'', PDict [])] of
           None \<Rightarrow> None
         | Some p \<Rightarrow> (case dict_get p ''destination'' of PDict d \<Rightarrow> Some d | _ \<Rightarrow> None))))"

definition granted_session ::
  "url_lib \<Rightarrow> hello_env \<Rightarrow> client_connection \<Rightarrow> int \<Rightarrow> hello_msg \<Rightarrow> string \<Rightarrow> config_entry \<Rightarrow> int
     \<Rightarrow> bool \<Rightarrow> hass \<Rightarrow> panel_session" where
  "granted_session U env conn mid m panel en high local_ok h =
     (let capabilities = granted_capabilities m local_ok (w_voice_stream (hs_world h));
          descriptors = hello_descriptors m;
          logs = ''logs'' \<in> set capabilities
      in \<lparr>ps_entry_id = en_id en, ps_did = panel, ps_token = he_token env, ps_connection = cc_ref conn,
          ps_subscription_id = mid, ps_user_id = cc_user_id conn, ps_protocol = high,
          ps_app_version = hm_version m, ps_app_version_code = hm_version_code m,
          ps_contract_digest = hm_contract_digest m, ps_capabilities = capabilities,
          ps_descriptors = descriptors, ps_opened_at = he_now env, ps_remote = cc_remote conn,
          ps_addresses = hm_addresses m, ps_http_port = hm_http_port m,
          ps_unknown_channels = unknown_channels descriptors, ps_observations = [],
          ps_full_sync_begun = False, ps_full_sync_complete = False, ps_rejected_observations = 0,
          ps_events_received = 0, ps_last_event_id = -1, ps_rejections = [], ps_closed_at = None,
          ps_prerelease_panel_builds = Some (prereleases_allowed (he_version env) (en_prerelease en)),
          ps_ui_relays = [],
          ps_voice_stream_client_id = (if ''voice_stream_session'' \<in> set capabilities
             then hm_voice_client m else None),
          ps_log_sources = (if logs then policy_sources (hs_log_policy h) else []),
          ps_saved_log_sink = (if logs then saved_log_sink U (hm_saved_sink m) else None),
          ps_app_package = (case (logs, hm_package m) of (True, Some p) \<Rightarrow> p | _ \<Rightarrow> package_id_current),
          ps_pending = [], ps_late = [], ps_recent_outcomes = [], ps_command_counts = [],
          ps_local_adb_deferred = \<not> local_ok, ps_local_adb_identity = None\<rparr>)"

definition hello_answer :: "hello_env \<Rightarrow> panel_session \<Rightarrow> config_entry \<Rightarrow> pyval" where
  "hello_answer env s en = PDict (
     [(''protocol'', PInt (ps_protocol s)), (''session'', PStr (ps_token s)), (''entry_id'', PStr (en_id en)),
      (''capabilities'', PList (strs (sort (ps_capabilities s)))),
      (''integration'', PDict [(''version'', PStr (he_version env))]),
      (''lifecycle'', he_lifecycle env),
      (''update_policy'', PDict [(''protocolMin'', PInt protocol_min), (''protocolMax'', PInt protocol_max),
         (''prerelease'', PBool (prereleases_allowed (he_version env) (en_prerelease en)))]),
      (''connection'', he_connection env),
      (''channels'', PDict [(''accepted'', PInt (int (length (ps_descriptors s)))),
         (''unknown'', PList (strs (sort (ps_unknown_channels s))))])]
     @ (case he_entity_count env of None \<Rightarrow> [] | Some n \<Rightarrow> [(''expected_entity_count'', PInt n)])
     @ (if ps_voice_stream_client_id s \<noteq> None then [(''voice_stream_session'', he_voice_grant env)] else [])
     @ (if ''logs'' \<in> set (ps_capabilities s)
        then [(''logs'', PDict [(''sources'', PDict [(k, PInt n). (k, n) \<leftarrow> ps_log_sources s])])] else []))"

definition retired_entities :: "(string \<times> pydict) list \<Rightarrow> string list \<Rightarrow> string list \<Rightarrow> (string \<times> string) list" where
  "retired_entities descriptors unknown unsupported = (''image'', ''camera_snapshot'')
     # (if (case map_of descriptors ''camera_enabled'' of None \<Rightarrow> False
            | Some d \<Rightarrow> ''camera_enabled'' \<notin> set unknown \<and> item d ''platform'' = Some (PStr ''camera''))
          \<or> ''camera_enabled'' \<in> set unsupported
        then [(''switch'', ''camera_enabled'')] else [])"

definition accept_hello ::
  "registry_lib \<Rightarrow> url_lib \<Rightarrow> hello_env \<Rightarrow> session_ref \<Rightarrow> client_connection \<Rightarrow> int \<Rightarrow> hello_msg
     \<Rightarrow> string \<Rightarrow> config_entry \<Rightarrow> int \<Rightarrow> bool \<Rightarrow> hass \<Rightarrow> hass \<times> hello_result" where
  "accept_hello R U env r conn mid m panel en high local_ok h =
     (let e = en_id en;
          h1 = async_delete_binding_issue e (Some (cc_user_id conn)) (delete_merged_identity_issue en h);
          descriptors = hello_descriptors m;
          unknown = unknown_channels descriptors;
          unsupported = unsupported_channels m;
          h2 = fold (retire_entity R e panel) (retired_entities descriptors unknown unsupported) h1;
          h3 = (if shown_elsewhere ''volume'' descriptors unknown then tell [VolumeRetirement e panel] h2 else h2);
          h4 = remove_unsupported_channels R e panel unsupported h3;
          s = granted_session U env conn mid m panel en high local_ok h4;
          h5 = in_world (\<lambda>w. open_session (he_now env) r (set_session r (\<lambda>_. s) w)) h4;
          h6 = in_world (emit [ResultSent (cc_ref conn) mid (hello_answer env s en)]) h5
      in (h6, HelloGranted r))"

section \<open>Admission\<close>

text \<open>A hello whose grant waits: \<open>_accept_local_hello\<close> before its first turn or while it reads.\<close>

record deferred_hello =
  df_conn :: client_connection
  df_mid :: int
  df_msg :: hello_msg
  df_panel :: string
  df_entry :: string
  df_high :: int

record admission =
  ad_hass :: hass
  ad_deferred :: "deferred_hello list"

abbreviation with_hass :: "(hass \<Rightarrow> hass) \<Rightarrow> admission \<Rightarrow> admission" where
  "with_hass f a \<equiv> a\<lparr>ad_hass := f (ad_hass a)\<rparr>"

definition refuse :: "client_connection \<Rightarrow> int \<Rightarrow> string \<Rightarrow> hass \<Rightarrow> hass \<times> hello_result" where
  "refuse conn mid code h = (in_world (emit [ErrorSent (cc_ref conn) mid code]) h, HelloRefused code)"

definition mismatched :: "config_entry \<Rightarrow> bool" where
  "mismatched en = (case en_coordinator en of None \<Rightarrow> False | Some c \<Rightarrow> cs_identity_mismatch c)"

text \<open>The identity conditions on the entry, for the protocol version that was agreed.\<close>

definition unconfirmed :: "config_entry \<Rightarrow> int \<Rightarrow> bool" where
  "unconfirmed en high \<longleftrightarrow> ed_pending (en_data en) \<noteq> None \<or> mismatched en
     \<or> (\<not> installation en \<and> 3 \<le> high)"

text \<open>The account: \<open>None\<close> refuses it (an administrator is asked, if it may ask), \<open>Some\<close> binds a new
  panel to the account it signs in as.\<close>

definition admit_account :: "rat \<Rightarrow> client_connection \<Rightarrow> config_entry \<Rightarrow> hass \<Rightarrow> hass \<times> bool" where
  "admit_account now conn en h =
     (let user = cc_user_id conn; bound = ed_user_id (en_data en) in
      if bound = Some user then (h, True)
      else (let may_ask = may_ask_to_bind h conn in
        if bound = None \<and> may_ask then (async_bind_user now (en_id en) user h, True)
        else ((if may_ask then async_raise_binding_issue (en_id en) user h else h), False)))"

definition hello_unknown ::
  "rat \<Rightarrow> client_connection \<Rightarrow> int \<Rightarrow> hello_msg \<Rightarrow> string \<Rightarrow> hass \<Rightarrow> hass \<times> hello_result" where
  "hello_unknown now conn mid m panel h =
     (let h1 = follow_refused_panel conn m panel h;
          h2 = (if may_ask_to_bind h1 conn then async_record_binding_request now panel (cc_user_id conn) h1 else h1)
      in if panel \<in> dict_keys (hs_removed h2) \<and> \<not> list_ex (\<lambda>en. panel_did en = Some panel) (hs_entries h2)
         then refuse conn mid ''entry_removed'' h2
         else refuse conn mid ''unknown_panel'' h2)"

definition agreed_protocol :: "hello_msg \<Rightarrow> int" where
  "agreed_protocol m = min (hm_max m) protocol_max"

definition ws_hello ::
  "registry_lib \<Rightarrow> url_lib \<Rightarrow> hello_env \<Rightarrow> session_ref \<Rightarrow> client_connection \<Rightarrow> int \<Rightarrow> hello_msg
     \<Rightarrow> admission \<Rightarrow> admission \<times> hello_result" where
  "ws_hello R U env r conn mid m a = (let h = ad_hass a; high = agreed_protocol m;
      plain = (\<lambda>(h1, res). (a\<lparr>ad_hass := h1\<rparr>, res)) in
     case hm_did m of
       None \<Rightarrow> plain (refuse conn mid ''panel_identity_unavailable'' h)
     | Some panel \<Rightarrow>
        (if \<not> overlaps (hm_min m) (hm_max m)
         then plain (refuse conn mid ''protocol_unsupported'' (follow_refused_panel conn m panel h))
         else (case entry_for_did h panel of
            SharedEntries es \<Rightarrow> plain (refuse conn mid ''unknown_panel'' (raise_merged_identity_issue panel h))
          | NoEntry \<Rightarrow> plain (hello_unknown (he_now env) conn mid m panel h)
          | OneEntry en \<Rightarrow>
             (if unconfirmed en high then plain (refuse conn mid ''unknown_panel'' h)
              else (case admit_account (he_now env) conn en h of
                 (h1, False) \<Rightarrow> plain (refuse conn mid ''panel_user_mismatch'' h1)
               | (h1, True) \<Rightarrow>
                  (if ''local_adb'' \<in> set (hm_capabilities m) \<and> ''management'' \<in> set (hm_capabilities m)
                   then (a\<lparr>ad_hass := h1, ad_deferred := \<lparr>df_conn = conn, df_mid = mid, df_msg = m,
                           df_panel = panel, df_entry = en_id en, df_high = high\<rparr> # ad_deferred a\<rparr>, HelloDeferred)
                   else plain (accept_hello R U env r conn mid m panel en high True h1)))))))"

text \<open>\<open>custody\<close>: the address and phase of every stored receipt, \<open>None\<close> when reading them failed.\<close>

definition local_adb_allowed :: "string \<Rightarrow> (string \<times> string \<times> bool) list option \<Rightarrow> bool" where
  "local_adb_allowed address custody = (case custody of
     None \<Rightarrow> False
   | Some jobs \<Rightarrow> list_all (\<lambda>(target, pinned, terminal). terminal \<or> address \<notin> {target, pinned}) jobs)"

text \<open>\<open>_accept_local_hello\<close> after the read: admission must still be what it was.\<close>

definition accept_local_hello ::
  "registry_lib \<Rightarrow> url_lib \<Rightarrow> hello_env \<Rightarrow> session_ref \<Rightarrow> (string \<times> string \<times> bool) list option
     \<Rightarrow> deferred_hello \<Rightarrow> admission \<Rightarrow> admission \<times> hello_result" where
  "accept_local_hello R U env r custody d a =
     (let h = ad_hass a; conn = df_conn d; mid = df_mid d;
          a1 = a\<lparr>ad_deferred := remove1 d (ad_deferred a)\<rparr>;
          plain = (\<lambda>(h1, res). (a1\<lparr>ad_hass := h1\<rparr>, res))
      in case entry_for_did h (df_panel d) of
           OneEntry en \<Rightarrow>
             (if en_id en \<noteq> df_entry d \<or> unconfirmed en (df_high d)
                \<or> ed_user_id (en_data en) \<noteq> Some (cc_user_id conn)
              then plain (refuse conn mid ''unknown_panel'' h)
              else plain (accept_hello R U env r conn mid (df_msg d) (df_panel d) en (df_high d)
                     (local_adb_allowed (ed_address (en_data en)) custody) h))
         | _ \<Rightarrow> plain (refuse conn mid ''unknown_panel'' h))"

end
