(* ===== verification/Admission_Runs.thy ===== *)
theory Admission_Runs
  imports Session_Frames Transport_Hello
begin

text \<open>
  Admission as a system: the entries, the session table, the hellos whose grant waits, and
  everything that changes them.  The invariant says who may hold an entry's session; it is proved
  of every operation in the form \<open>held X q h \<Longrightarrow> held X q (operation h)\<close>, which composes.
\<close>

section \<open>The invariant\<close>

definition entry_ok :: "config_entry \<Rightarrow> bool" where
  "entry_ok en \<longleftrightarrow> (case en_unique_id en of None \<Rightarrow> reported_did en = None | Some u \<Rightarrow> is_valid_discovery_id u)"

text \<open>The entry and the session belong together: the entry is loaded, speaks the installation
  protocol, and is bound to the session's account under the session's identity.\<close>

definition owns :: "config_entry \<Rightarrow> panel_session \<Rightarrow> bool" where
  "owns en s \<longleftrightarrow> en_loaded en \<and> installation en \<and> ed_user_id (en_data en) = Some (ps_user_id s)
     \<and> en_unique_id en = Some (ps_did s)"

definition session_held :: "hass \<Rightarrow> string \<Rightarrow> session_ref \<Rightarrow> bool" where
  "session_held h e r \<longleftrightarrow> (\<exists>en. get_entry h e = Some en \<and> owns en (session_of h r))
     \<and> (''logs'' \<in> set (ps_capabilities (session_of h r))
          \<longrightarrow> ps_log_sources (session_of h r) = policy_sources (hs_log_policy h))"

text \<open>\<open>X\<close>: entries that are known to have an identity; \<open>q\<close>: the log policy.\<close>

definition held :: "string set \<Rightarrow> pydict \<Rightarrow> hass \<Rightarrow> bool" where
  "held X q h \<longleftrightarrow> sys_ok (hs_sys h) \<and> distinct (map en_id (hs_entries h)) \<and> hs_log_policy h = q
     \<and> (\<forall>en \<in> set (hs_entries h). entry_ok en \<and> (en_id en \<in> X \<longrightarrow> en_unique_id en \<noteq> None))
     \<and> (\<forall>e r. get (hs_world h) e = Some r \<longrightarrow> session_held h e r)"

lemma get_entry_Some:
  "get_entry h e = Some en \<Longrightarrow> en \<in> set (hs_entries h) \<and> en_id en = e"
  by (auto simp: get_entry_def find_Some_iff)

lemma get_entry_mem:
  "distinct (map en_id (hs_entries h)) \<Longrightarrow> en \<in> set (hs_entries h) \<Longrightarrow> get_entry h (en_id en) = Some en"
proof -
  have "distinct (map en_id es) \<Longrightarrow> en \<in> set es \<Longrightarrow> find (\<lambda>x. en_id x = en_id en) es = Some en" for es
    by (induction es) (auto simp: rev_image_eqI)
  then show "distinct (map en_id (hs_entries h)) \<Longrightarrow> en \<in> set (hs_entries h) \<Longrightarrow> get_entry h (en_id en) = Some en"
    by (simp add: get_entry_def)
qed

lemma held_cong:
  "hs_sys h' = hs_sys h \<Longrightarrow> hs_entries h' = hs_entries h \<Longrightarrow> hs_log_policy h' = hs_log_policy h
    \<Longrightarrow> held X q h' \<longleftrightarrow> held X q h"
  by (simp add: held_def session_held_def get_entry_def)

lemma held_simps [simp]:
  "held X q (tell es h) \<longleftrightarrow> held X q h" "held X q (create_issue i v h) \<longleftrightarrow> held X q h"
  "held X q (delete_issue i h) \<longleftrightarrow> held X q h" "held X q (h\<lparr>hs_entities := es'\<rparr>) \<longleftrightarrow> held X q h"
  "held X q (h\<lparr>hs_operations := ops\<rparr>) \<longleftrightarrow> held X q h" "held X q (h\<lparr>hs_requests := rq\<rparr>) \<longleftrightarrow> held X q h"
  "held X q (h\<lparr>hs_removed := rm\<rparr>) \<longleftrightarrow> held X q h" "held X q (h\<lparr>hs_tokens := tk\<rparr>) \<longleftrightarrow> held X q h"
  "held X q (h\<lparr>hs_log_busy := lb\<rparr>) \<longleftrightarrow> held X q h" "held X q (h\<lparr>hs_devices := dv\<rparr>) \<longleftrightarrow> held X q h"
  "held X q (h\<lparr>hs_issues := iss\<rparr>) \<longleftrightarrow> held X q h" "held X q (release_panel_operation e h) \<longleftrightarrow> held X q h"
  by (rule held_cong; simp add: release_panel_operation_def)+

section \<open>The session system\<close>

lemma held_system:
  assumes h: "held X q h" and ok: "sys_ok y'" and old: "no_new_session (hs_sys h) y'"
    and same: "\<And>r. grant_of (w_sessions (sy_world y') r) = grant_of (session_of h r)"
  shows "held X q (h\<lparr>hs_sys := y'\<rparr>)"
proof -
  have "session_held (h\<lparr>hs_sys := y'\<rparr>) e r" if "get (sy_world y') e = Some r" for e r
  proof -
    have "get (hs_world h) e = Some r" using old that by (simp add: no_new_session_def)
    then have "session_held h e r" using h by (simp add: held_def)
    then show ?thesis using same [of r] by (auto simp: session_held_def owns_def grant_of_def get_entry_def)
  qed
  then show ?thesis using h ok by (simp add: held_def)
qed

lemma held_step:
  assumes "held X q h" "sys_step L (hs_sys h) y'" "no_new_session (hs_sys h) y'"
  shows "held X q (h\<lparr>hs_sys := y'\<rparr>)"
proof (rule held_system [OF assms(1) _ assms(3)])
  show "sys_ok y'" using sys_step_ok [OF assms(2)] assms(1) by (simp add: held_def)
  show "grant_of (w_sessions (sy_world y') r) = grant_of (session_of h r)" for r
    using grant.step_keeps [OF assms(2,3)] by (simp add: grant.fixed_of_def fun_eq_iff)
qed

lemma get_close: "get (close now r reason a w) e = Some q \<Longrightarrow> get w e = Some q"
proof -
  have "get (close now r reason a w) e = vw_live (view_of (close now r reason a w)) e" by (simp add: get_def)
  moreover assume "get (close now r reason a w) e = Some q"
  ultimately show ?thesis by (auto simp: view_of_close vw_forget_def Let_def get_def split: if_splits)
qed

lemma get_close_self:
  assumes "is_live w r"
  shows "get (close now r reason a w) (ps_entry_id (w_sessions w r)) = None"
proof -
  have "get (close now r reason a w) e = vw_live (view_of (close now r reason a w)) e" for e by (simp add: get_def)
  then show ?thesis using assms by (simp add: view_of_close vw_forget_def Let_def)
qed

lemma get_fold_close: "get (fold (\<lambda>r. close now r reason True) rs w) e = Some q \<Longrightarrow> get w e = Some q"
  by (induction rs arbitrary: w) (auto dest: get_close)

lemma get_close_entry: "get (close_entry now e' reason w) e = Some q \<Longrightarrow> get w e = Some q"
  by (auto simp: close_entry_def dest: get_close split: option.splits)

lemma get_close_user: "get (close_user now u reason w) e = Some q \<Longrightarrow> get w e = Some q"
  by (auto simp: close_user_def dest: get_fold_close)

lemma held_close [intro]: "held X q h \<Longrightarrow> held X q (in_world (close now r reason a) h)"
  unfolding in_world_def by (rule held_step [OF _ sys_step.closing]) (auto simp: no_new_session_def dest: get_close)

lemma held_close_entry [intro]: "held X q h \<Longrightarrow> held X q (in_world (close_entry now e reason) h)"
  unfolding in_world_def
  by (rule held_step [OF _ sys_step.closing_entry]) (auto simp: no_new_session_def dest: get_close_entry)

lemma held_close_user [intro]: "held X q h \<Longrightarrow> held X q (in_world (close_user now u reason) h)"
  unfolding in_world_def
  by (rule held_step [OF _ sys_step.closing_user]) (auto simp: no_new_session_def dest: get_close_user)

lemma held_emit [simp]: "held X q (in_world (emit es) h) \<longleftrightarrow> held X q h"
proof -
  have "view_of (emit es w) = view_of w" "get (emit es w) e = get w e" for w e
    by (simp_all add: emit_def view_of_def get_def)
  then show ?thesis
    by (simp add: held_def session_held_def in_world_def sys_ok_def get_entry_def)
qed

lemma live_entry: "sys_ok y \<Longrightarrow> get (sy_world y) e = Some r \<Longrightarrow> is_live (sy_world y) r \<and> ps_entry_id (w_sessions (sy_world y) r) = e"
  using view_okD(1) [of "sy_waits y" "view_of (sy_world y)" e r] by (simp add: sys_ok_def is_live_def get_def)

lemma closed_entry:
  assumes "sys_ok (hs_sys h)"
  shows "get (hs_world (in_world (close_entry now e reason) h)) e = None"
proof (cases "get (hs_world h) e")
  case (Some r)
  then show ?thesis using live_entry [OF assms Some] get_close_self [of "hs_world h" r]
    by (auto simp: close_entry_def)
qed (simp add: close_entry_def)

section \<open>Entries\<close>

lemma get_entry_update:
  assumes "\<And>en. en_id (f en) = en_id en"
  shows "get_entry (update_entry e f h) e' = map_option (\<lambda>en. if en_id en = e then f en else en) (get_entry h e')"
proof -
  have "find (\<lambda>en. en_id en = e') (map (\<lambda>en. if en_id en = e then f en else en) es)
      = map_option (\<lambda>en. if en_id en = e then f en else en) (find (\<lambda>en. en_id en = e') es)" for es
    using assms by (induction es) auto
  then show ?thesis by (simp add: get_entry_def update_entry_def)
qed

text \<open>An update of one entry keeps the invariant when it keeps what a session of it rests on, or
  when the entry has no session.\<close>

lemma held_update:
  assumes h: "held X q h" and id: "\<And>en. en_id (f en) = en_id en"
    and entry: "\<And>en. en \<in> set (hs_entries h) \<Longrightarrow> en_id en = e \<Longrightarrow> entry_ok en \<Longrightarrow>
      entry_ok (f en) \<and> (en_unique_id en \<noteq> None \<longrightarrow> en_unique_id (f en) \<noteq> None)"
    and live: "\<And>en s. en \<in> set (hs_entries h) \<Longrightarrow> en_id en = e \<Longrightarrow> get (hs_world h) e \<noteq> None \<Longrightarrow>
      owns en s \<Longrightarrow> owns (f en) s"
  shows "held X q (update_entry e f h)"
proof -
  have ids: "map en_id (hs_entries (update_entry e f h)) = map en_id (hs_entries h)"
    using id by (simp add: update_entry_def)
  have "entry_ok en \<and> (en_id en \<in> X \<longrightarrow> en_unique_id en \<noteq> None)" if "en \<in> set (hs_entries (update_entry e f h))" for en
    using that h entry id by (fastforce simp: update_entry_def held_def)
  moreover have "session_held (update_entry e f h) e' r" if r: "get (hs_world h) e' = Some r" for e' r
  proof -
    obtain en where en: "get_entry h e' = Some en" "owns en (session_of h r)"
        and logs: "''logs'' \<in> set (ps_capabilities (session_of h r))
          \<longrightarrow> ps_log_sources (session_of h r) = policy_sources (hs_log_policy h)"
    proof -
      have "session_held h e' r" using h r by (simp add: held_def)
      with that show thesis by (auto simp: session_held_def)
    qed
    have mem: "en \<in> set (hs_entries h)" "en_id en = e'" using get_entry_Some [OF en(1)] by auto
    have "owns (if en_id en = e then f en else en) (session_of h r)"
      using live [OF mem(1)] mem en(2) r by auto
    then show ?thesis using en(1) logs by (simp add: session_held_def get_entry_update [OF id])
  qed
  ultimately show ?thesis using h ids by (auto simp: held_def)
qed

lemma held_update_same:
  assumes "held X q h" "\<And>en. en_id (f en) = en_id en" "\<And>en. en_loaded (f en) = en_loaded en"
    "\<And>en. en_unique_id (f en) = en_unique_id en" "\<And>en. installation en \<Longrightarrow> installation (f en)"
    "\<And>en. ed_user_id (en_data (f en)) = ed_user_id (en_data en)" "\<And>en. reported_did (f en) = reported_did en"
  shows "held X q (update_entry e f h)"
  by (rule held_update [OF assms(1,2)]) (use assms in \<open>auto simp: entry_ok_def owns_def split: option.splits\<close>)

lemma held_data:
  assumes "held X q h" "\<And>d. ed_installation d \<Longrightarrow> ed_installation (f d)" "\<And>d. ed_user_id (f d) = ed_user_id d"
  shows "held X q (update_data e f h)"
  unfolding update_data_def by (rule held_update_same [OF assms(1)]) (simp_all add: assms reported_did_def)

lemma held_coordinator:
  assumes "held X q h" "\<And>c. cs_health_did (f c) = cs_health_did c"
  shows "held X q (set_coordinator e f h)"
  unfolding set_coordinator_def
  by (rule held_update_same [OF assms(1)]) (auto simp: assms(2) reported_did_def split: option.split)

text \<open>With no session left, only the identity matters.\<close>

lemma held_no_session:
  assumes "held X q h" "get (hs_world h) e = None" "\<And>en. en_id (f en) = en_id en"
    "\<And>en. en_unique_id en \<noteq> None \<Longrightarrow> en_unique_id (f en) \<noteq> None" "\<And>en. entry_ok en \<Longrightarrow> entry_ok (f en)"
  shows "held X q (update_entry e f h)"
  by (rule held_update [OF assms(1,3)]) (use assms in auto)

section \<open>Binding keeps the invariant\<close>

lemma entry_user_get: "entry_user h e = (case get_entry h e of None \<Rightarrow> None | Some en \<Rightarrow> ed_user_id (en_data en))"
  by (simp add: entry_user_def)

lemma held_session_user:
  assumes "held X q h" "get (hs_world h) e = Some r"
  shows "entry_user h e = Some (ps_user_id (session_of h r))"
proof -
  have "session_held h e r" using assms by (simp add: held_def)
  then show ?thesis by (auto simp: session_held_def owns_def entry_user_def)
qed

lemma held_delete_binding [simp]: "held X q (async_delete_binding_issue e u h) \<longleftrightarrow> held X q h"
  by (simp add: async_delete_binding_issue_def Let_def split: option.split)

lemma held_raise_binding [simp]: "held X q (async_raise_binding_issue e u h) \<longleftrightarrow> held X q h"
  by (simp add: async_raise_binding_issue_def Let_def split: option.split)

lemma entry_user_in_world [simp]: "entry_user (in_world f h) e = entry_user h e"
  by (simp add: entry_user_def get_entry_def)

lemma held_bind: assumes h: "held X q h" shows "held X q (async_bind_user now e user h)"
proof -
  define h1 where "h1 = (case get (hs_world h) e of None \<Rightarrow> h
    | Some r \<Rightarrow> (if ps_user_id (session_of h r) \<noteq> user then in_world (close now r ''binding_changed'' True) h else h))"
  have h1: "held X q h1" using h by (auto simp: h1_def split: option.split)
  have free: "get (hs_world h1) e = None \<or> entry_user h1 e = Some user"
  proof (cases "get (hs_world h) e")
    case (Some r)
    have "sys_ok (hs_sys h)" using h by (simp add: held_def)
    from live_entry [OF this Some] have "get (hs_world (in_world (close now r ''binding_changed'' True) h)) e = None"
      using get_close_self [of "hs_world h" r] by auto
    then show ?thesis using held_session_user [OF h Some] Some by (simp add: h1_def)
  qed (simp add: h1_def)
  have "held X q (if entry_user h1 e \<noteq> Some user then update_data e (\<lambda>d. d\<lparr>ed_user_id := Some user\<rparr>) h1 else h1)"
    using free h1 unfolding update_data_def
    by (auto intro!: held_no_session simp: entry_ok_def reported_did_def split: option.splits)
  then show ?thesis by (simp add: async_bind_user_def Let_def flip: h1_def)
qed

lemma held_unbind:
  assumes "held X q h" "get (hs_world h) e = None" shows "held X q (async_unbind_user e h)"
  using assms unfolding async_unbind_user_def update_data_def
  by (auto intro!: held_no_session simp: entry_ok_def reported_did_def split: option.splits)

definition filed :: "world \<Rightarrow> bool" where
  "filed w \<longleftrightarrow> (\<forall>e r. get w e = Some r \<longrightarrow> ps_entry_id (w_sessions w r) = e)"

interpretation entry_part: fixed_part ps_entry_id
  by unfold_locales simp_all

interpretation user_part: fixed_part ps_user_id
  by unfold_locales simp_all

lemma entry_of_close [simp]: "ps_entry_id (w_sessions (close now r reason a w) q) = ps_entry_id (w_sessions w q)"
  using fun_cong [OF entry_part.fixed_close] unfolding entry_part.fixed_of_def .

lemma filed_close: "filed w \<Longrightarrow> filed (close now r reason a w)"
  by (auto simp: filed_def dest: get_close)

lemma close_gone: "filed w \<Longrightarrow> get (close now r reason a w) e \<noteq> Some r"
proof
  assume f: "filed w" and g: "get (close now r reason a w) e = Some r"
  have "get w e = Some r" using get_close [OF g] .
  then have "ps_entry_id (w_sessions w r) = e" "is_live w r" using f by (simp_all add: filed_def is_live_def)
  then show False using get_close_self [of w r now reason a] g by simp
qed

lemma fold_close_gone:
  "filed w \<Longrightarrow> get (fold (\<lambda>r. close now r reason True) rs w) e = Some q \<Longrightarrow> q \<notin> set rs"
proof (induction rs arbitrary: w)
  case (Cons r rs)
  have "get (close now r reason True w) e = Some q" using Cons.prems(2) by (auto dest: get_fold_close)
  then have "q \<noteq> r" using close_gone [OF Cons.prems(1)] by auto
  then show ?case using Cons.IH [OF filed_close [OF Cons.prems(1)]] Cons.prems(2) by simp
qed simp

lemma close_user_gone:
  assumes "filed w" "get (close_user now user reason w) e = Some q"
  shows "ps_user_id (w_sessions w q) \<noteq> user"
proof
  assume u: "ps_user_id (w_sessions w q) = user"
  have "get w e = Some q" by (rule get_close_user [OF assms(2)])
  then have "(e, q) \<in> set (w_by_entry w)" by (auto simp: get_def dest: map_of_SomeD)
  then have "q \<in> set (filter (\<lambda>r. ps_user_id (w_sessions w r) = user) (map snd (w_by_entry w)))"
    using u by force
  then show False
    using fold_close_gone [OF assms(1) assms(2) [unfolded close_user_def]] by blast
qed

lemma held_filed: "held X q h \<Longrightarrow> filed (hs_world h)"
  using live_entry by (auto simp: held_def filed_def)

text \<open>No live session belongs to the account.\<close>

definition without_user :: "string \<Rightarrow> hass \<Rightarrow> bool" where
  "without_user user h \<longleftrightarrow> (\<forall>e r. get (hs_world h) e = Some r \<longrightarrow> ps_user_id (session_of h r) \<noteq> user)"

lemma without_user_closed:
  assumes "held X q h" shows "without_user user (in_world (close_user now user reason) h)"
proof -
  have "ps_user_id (w_sessions (close_user now user reason w) r) = ps_user_id (w_sessions w r)" for w r
    using fun_cong [OF user_part.fixed_close_user] unfolding user_part.fixed_of_def .
  then show ?thesis using close_user_gone [OF held_filed [OF assms]] by (simp add: without_user_def)
qed

lemma release_entry_frame: "hs_sys (release_entry user e h) = hs_sys h"
  by (simp add: release_entry_def Let_def async_delete_binding_issue_def split: option.split)

lemma held_release:
  assumes "held X q h" "without_user user h" shows "held X q (release_entry user e h)"
proof -
  let ?h = "async_delete_binding_issue e (Some user) h"
  have h: "held X q ?h" using assms(1) by simp
  have sys: "hs_sys ?h = hs_sys h"
    by (simp add: async_delete_binding_issue_def Let_def split: option.split)
  have "get (hs_world ?h) e = None" if "entry_user ?h e = Some user"
  proof (rule ccontr)
    assume "get (hs_world ?h) e \<noteq> None"
    then obtain r where r: "get (hs_world ?h) e = Some r" by blast
    have "get (hs_world h) e = Some r" using r by (simp only: sys)
    then have "ps_user_id (session_of h r) \<noteq> user" using assms(2) by (simp add: without_user_def)
    moreover have "entry_user ?h e = Some (ps_user_id (session_of h r))"
      using held_session_user [OF h r] by (simp only: sys)
    ultimately show False using that by simp
  qed
  then show ?thesis using h unfolding release_entry_def Let_def update_data_def
    by (auto intro!: held_no_session simp: entry_ok_def reported_did_def split: option.splits)
qed

lemma held_user_removed: assumes "held X q h" shows "held X q (user_removed now user h)"
proof -
  have "held X q (fold (release_entry user) es g)" if "held X q g" "without_user user g" for es g
    using that
  proof (induction es arbitrary: g)
    case (Cons e es)
    have "without_user user (release_entry user e g)"
      using Cons.prems(2) by (simp add: without_user_def release_entry_frame)
    then show ?case using Cons.IH held_release [OF Cons.prems] by simp
  qed simp
  then show ?thesis unfolding user_removed_def
    using held_close_user [OF assms] without_user_closed [OF assms] by blast
qed

end
