(* ===== verification/Admission_Identity.thy ===== *)
theory Admission_Identity
  imports Admission_Runs
begin

text \<open>
  The identity operations keep the invariant of Admission_Runs: an entry moves to another identity
  only once its session is closed, and none loses the identity it has.
\<close>

section \<open>Parts\<close>

lemma recorded_valid: "u \<in> set (native_identities h e) \<Longrightarrow> is_valid_discovery_id u"
  by (auto simp: native_identities_def native_unique_id_def is_valid_discovery_id_def)

lemma live_sys [simp]: "hs_sys (set_coordinator e f h) = hs_sys h"
  by (simp add: set_coordinator_def)

lemma held_withdraw: "held X q h \<Longrightarrow> held X q (withdraw_authority now e h)"
  unfolding withdraw_authority_def by (intro held_close_entry held_coordinator) simp_all

lemma withdraw_closes: "held X q h \<Longrightarrow> get (hs_world (withdraw_authority now e h)) e = None"
  unfolding withdraw_authority_def by (rule closed_entry) (simp add: held_def)

lemma held_reject: "held X q h \<Longrightarrow> held X q (reject_health now e shared h)"
  unfolding reject_health_def Let_def by (rule held_withdraw) (simp split: option.split)

lemma held_drop_link: "held X q h \<Longrightarrow> held X q (drop_link en h)"
  by (auto simp: drop_link_def intro: held_data)

lemma held_fold: "(\<And>x g. held X q g \<Longrightarrow> held X q (f x g)) \<Longrightarrow> held X q h \<Longrightarrow> held X q (fold f xs h)"
  by (induction xs arbitrary: h) auto

lemma held_claim_link: "held X q h \<Longrightarrow> held X q (claim_link e h)"
  by (auto simp: claim_link_def intro!: held_fold held_drop_link split: option.split)

lemma held_accepted: "held X q h \<Longrightarrow> held X q (update_data e (accepted health) h)"
  by (rule held_data) (auto simp: accepted_def Let_def split: option.split)

text \<open>An entry without an identity has no session.\<close>

lemma no_identity_no_session:
  assumes "held X q h" "get_entry h e = Some en" "en_unique_id en = None"
  shows "get (hs_world h) e = None"
proof (rule ccontr)
  assume "get (hs_world h) e \<noteq> None"
  then obtain r where "get (hs_world h) e = Some r" by blast
  then have "session_held h e r" using assms(1) by (simp add: held_def)
  then show False using assms(2,3) by (auto simp: session_held_def owns_def)
qed

lemma held_identity:
  assumes "held X q h" "get (hs_world h) e = None" "is_valid_discovery_id u"
  shows "held X q (update_entry e (\<lambda>n. n\<lparr>en_unique_id := Some u\<rparr>) h)"
  by (rule held_no_session [OF assms(1,2)]) (simp_all add: entry_ok_def assms(3))

lemma held_recover:
  assumes "held X q h" "get_entry h (en_id en) = Some en" "en_unique_id en = None"
    and "recover_unique_id en h = Some h1"
  shows "held X q h1"
proof -
  let ?recorded = "native_identities h (en_id en)"
  let ?old = "case ed_cutover (en_data en) of None \<Rightarrow> None | Some c \<Rightarrow> cu_did c"
  let ?found = "case ?old of Some d \<Rightarrow> if is_valid_discovery_id d then List.insert d ?recorded else ?recorded
    | None \<Rightarrow> ?recorded"
  have valid: "\<forall>u \<in> set ?found. is_valid_discovery_id u"
    using recorded_valid by (auto split: option.split)
  have free: "get (hs_world h) (en_id en) = None"
    by (rule no_identity_no_session [OF assms(1,2,3)])
  consider "?found = []" | u where "?found = [u]" | x y zs where "?found = x # y # zs"
    by (metis neq_Nil_conv)
  then show ?thesis
  proof cases
    case 1
    then show ?thesis using assms(1,4) by (simp add: recover_unique_id_def Let_def)
  next
    case (2 u)
    then have "h1 = update_entry (en_id en) (\<lambda>n. n\<lparr>en_unique_id := Some u\<rparr>) h"
      using assms(4) by (simp add: recover_unique_id_def Let_def)
    moreover have "is_valid_discovery_id u" using valid 2 by simp
    ultimately show ?thesis using held_identity [OF assms(1) free] by simp
  next
    case 3
    then show ?thesis using assms(4) by (simp add: recover_unique_id_def Let_def)
  qed
qed

section \<open>Committing and adopting\<close>

lemma held_commit:
  assumes "held X q h" "is_valid_discovery_id new"
  shows "held X q (fst (commit_identity R now en old new reload h))"
proof -
  let ?e = "en_id en"
  let ?h1 = "in_world (close_entry now ?e ''entry_unloaded'') h"
  let ?h2 = "update_data ?e (\<lambda>d. d\<lparr>ed_pending := Some \<lparr>pi_did = Some new, pi_legacy_did = Some old,
    pi_address = ed_address d\<rparr>\<rparr>) ?h1"
  have h2: "held X q ?h2" by (rule held_data) (use assms(1) in auto)
  have free: "get (hs_world ?h2) ?e = None"
    using closed_entry [of h now ?e "''entry_unloaded''"] assms(1) by (simp add: held_def)
  let ?f = "\<lambda>n. n\<lparr>en_unique_id := Some new, en_data := committed_data old new (en_data n)\<rparr>"
  have "held X q (update_entry ?e ?f (?h2\<lparr>hs_entities := items\<rparr>))" for items
    by (rule held_no_session) (use h2 free assms(2) in \<open>simp_all add: entry_ok_def\<close>)
  then show ?thesis using h2 by (simp add: commit_identity_def Let_def split: prod.split bool.split)
qed

lemma commit_closes:
  assumes "held X q h"
  shows "get (hs_world (fst (commit_identity R now en old new reload h))) (en_id en) = None"
proof -
  have "hs_sys (fst (commit_identity R now en old new reload h))
      = hs_sys (in_world (close_entry now (en_id en) ''entry_unloaded'') h)"
    by (simp add: commit_identity_def Let_def split: prod.split bool.split)
  then show ?thesis using closed_entry [of h now "en_id en"] assms by (simp add: held_def)
qed

lemma held_confirm:
  assumes "held X q h" "\<And>d. hl_discovery_id health = Some d \<Longrightarrow> is_valid_discovery_id d"
  shows "held X q (fst (confirm_identity R now en health h))"
  using assms held_commit [OF assms(1)]
  by (auto simp: confirm_identity_def split: option.split prod.split)
    (metis fst_conv)

lemma held_adopt_moved:
  assumes "held X q h" shows "held X q (fst (adopt_moved_identity R now en new reload h))"
  using assms held_commit [OF assms, of new R now en _ reload]
  by (auto simp: adopt_moved_identity_def split: option.split prod.split) (metis fst_conv)

lemma adopt_moved_closes:
  assumes "held X q h" "adopt_moved_identity R now en new reload h = (h1, Some True)"
  shows "get (hs_world h1) (en_id en) = None"
  using assms(2) commit_closes [OF assms(1), of R now en _ new reload]
  by (auto simp: adopt_moved_identity_def split: option.splits prod.splits if_splits) (metis fst_conv)

lemma held_claim: "held X q (snd (claim_panel_operation e h)) \<longleftrightarrow> held X q h"
  by (simp add: claim_panel_operation_def)

lemma held_adopt_reinstalled:
  assumes "held X q h" shows "held X q (fst (adopt_reinstalled R now en new h))"
proof -
  obtain claimed h1 where c: "claim_panel_operation (en_id en) h = (claimed, h1)" by (cases "claim_panel_operation (en_id en) h")
  then have h1: "held X q h1" using held_claim [of X q "en_id en" h] assms by simp
  show ?thesis
  proof (cases claimed)
    case True
    obtain h2 res where m: "adopt_moved_identity R now en new True h1 = (h2, res)" by fastforce
    have h2: "held X q h2" using held_adopt_moved [OF h1, of R now en new True] m by simp
    show ?thesis
    proof (cases "res = Some True")
      case adopted: True
      then have "held X q (async_unbind_user (en_id en) h2)"
        using held_unbind [OF h2] adopt_moved_closes [OF h1] m by simp
      then show ?thesis using True c m adopted by (simp add: adopt_reinstalled_def Let_def)
    next
      case False
      then have "res = None \<or> res = Some False" by (cases res) auto
      then show ?thesis using True c m h2 held_reject [OF h2] by (auto simp: adopt_reinstalled_def Let_def)
    qed
  next
    case False
    then show ?thesis using c held_withdraw [OF h1] by (simp add: adopt_reinstalled_def Let_def)
  qed
qed

section \<open>Health and restarts\<close>

lemma held_other: "held X q h \<Longrightarrow> held X q (fst (other_identity R now en health h))"
  by (auto simp: other_identity_def Let_def intro: held_reject held_adopt_reinstalled split: option.split)

lemma held_migrate:
  assumes "held X q h" "\<And>d. hl_discovery_id health = Some d \<Longrightarrow> is_valid_discovery_id d"
  shows "held X q (fst (migrate_identity R P now en health new h))"
proof -
  obtain h1 res where c: "(if prior_installation P h en new then confirm_identity R now en health h
      else (h, Some False)) = (h1, res)" by fastforce
  then have h1: "held X q h1"
    using assms(1) held_confirm [OF assms, where R = R and now = now and en = en] by (auto split: if_splits) (metis fst_conv)
  show ?thesis
    using h1 held_other [of X q "create_issue (confirmation_issue_id (en_id en)) (confirmation_issue en new) h1"]
    by (simp add: migrate_identity_def c split: option.split bool.split)
qed

lemma held_pending:
  assumes "held X q h" "\<And>d. hl_discovery_id health = Some d \<Longrightarrow> is_valid_discovery_id d"
  shows "held X q (fst (accept_pending R now en health pending h))"
proof -
  let ?p = "pending = \<lparr>pi_did = hl_discovery_id health, pi_legacy_did = hl_legacy_discovery_id health,
    pi_address = ed_address (en_data en)\<rparr>"
  obtain h1 res where c: "(if ?p then confirm_identity R now en health h else (h, Some False)) = (h1, res)"
    by fastforce
  then have h1: "held X q h1"
    using assms(1) held_confirm [OF assms, where R = R and now = now and en = en] by (auto split: if_splits) (metis fst_conv)
  show ?thesis
    using h1 held_reject [OF h1] by (simp add: accept_pending_def c split: option.split bool.split)
qed

lemma held_known:
  assumes h: "held X q h" and en: "get_entry h (en_id en) = Some en"
    and valid: "\<And>d. hl_discovery_id health = Some d \<Longrightarrow> is_valid_discovery_id d"
  shows "held X q (fst (accept_known R P now en health h))"
proof (cases "ed_pending (en_data en)")
  case (Some pending)
  then show ?thesis using held_pending [OF h valid] by (simp add: accept_known_def Let_def)
next
  case none: None
  let ?e = "en_id en"
  show ?thesis
  proof (cases "en_unique_id en")
    case None
    have "held X q (claim_link ?e (update_data ?e (accepted health)
        (update_entry ?e (\<lambda>n. n\<lparr>en_unique_id := Some new\<rparr>) h)))" if "hl_discovery_id health = Some new" for new
      using no_identity_no_session [OF h en None] valid [OF that]
      by (intro held_claim_link held_accepted held_identity h)
    then show ?thesis using none None h held_reject [OF h]
      by (auto simp: accept_known_def Let_def split: option.split)
  next
    case (Some own)
    have "held X q (claim_link ?e (update_data ?e (accepted health) (delete_issue (mismatch_issue_id ?e) h)))"
      using h by (intro held_claim_link held_accepted) simp
    moreover have "held X q (fst (migrate_identity R P now en health new h))" for new
      by (rule held_migrate [OF h valid])
    ultimately show ?thesis using none Some h held_other [OF h]
      by (auto simp: accept_known_def Let_def split: option.split)
  qed
qed

lemma held_health:
  assumes h: "held X q h" and valid: "\<And>d. hl_discovery_id health = Some d \<Longrightarrow> is_valid_discovery_id d"
  shows "held X q (fst (accept_health R P now e health h))"
proof (cases "get_entry h e")
  case (Some en)
  have e: "en_id en = e" using get_entry_Some [OF Some] by simp
  show ?thesis
  proof (cases "if en_unique_id en = None then recover_unique_id en h else Some h")
    case None
    then show ?thesis using Some held_reject [OF h] by (simp add: accept_health_def)
  next
    case (Some h1)
    have h1: "held X q h1"
      using held_recover [OF h] \<open>get_entry h e = Some en\<close> e Some h by (auto split: if_splits)
    have "held X q (fst (accept_known R P now en1 health h1))" if "get_entry h1 e = Some en1" for en1
      using held_known [OF h1 _ valid] that get_entry_Some [OF that] by simp
    then show ?thesis using \<open>get_entry h e = Some en\<close> Some h1
      by (auto simp: accept_health_def split: option.split)
  qed
qed (simp add: accept_health_def h)

lemma held_finish: "held X q h \<Longrightarrow> held X q (fst (finish_rekey R en previous recorded h))"
  by (auto simp: finish_rekey_def split: option.split prod.split bool.split)

lemma held_reconcile:
  assumes "held X q h" shows "held X q (fst (reconcile_identity R now en h))"
proof -
  have "held X q (fst (commit_identity R now en own ahead False h))"
    if "native_identities h (en_id en) = [ahead]" for own ahead
    using held_commit [OF assms] recorded_valid [of ahead h "en_id en"] that by simp
  then show ?thesis using held_finish [OF assms]
    by (auto simp: reconcile_identity_def Let_def split: option.split list.split prod.split) (metis fst_conv)+
qed

end
