(* ===== verification/Admission_Steps.thy ===== *)
theory Admission_Steps
  imports Admission_Identity
begin

text \<open>
  A hello keeps the invariant of Admission_Runs: what it grants is held.  The last section is the
  system: every operation on entries, bindings, log policy and sessions as a step, and the states
  reached from an empty table.
\<close>

section \<open>What a hello opens\<close>

lemma get_open_other:
  assumes "get (open_session now r (set_session r (\<lambda>_. s) w)) e = Some q" "e \<noteq> ps_entry_id s"
  shows "get w e = Some q"
proof -
  let ?u = "set_session r (\<lambda>_. s) w"
  have changed: "w_by_entry (changed d v) = w_by_entry v" for d v by (simp add: changed_def emit_def)
  have clear: "get (clear_restart_notice d v) e = get v e" for d v
    by (simp add: get_def clear_restart_notice_def cancel_timer_def changed_def emit_def Let_def split: option.split)
  have "get (clear_restart_notice (ps_entry_id s) (case get ?u (ps_entry_id s) of
      Some old \<Rightarrow> close now old ''superseded'' False ?u | None \<Rightarrow> ?u)) e = Some q"
    using assms by (simp add: open_session_def Let_def get_def update_conv' changed)
  then have "get ?u e = Some q" by (auto simp: clear dest: get_close split: option.splits)
  then show ?thesis by (simp add: get_def)
qed

lemma held_hello:
  assumes h: "held X q h" and en: "get_entry h (ps_entry_id s) = Some en" "owns en s"
    and logs: "''logs'' \<in> set (ps_capabilities s) \<Longrightarrow> ps_log_sources s = policy_sources q"
    and new: "new_session s" "new_ref (hs_sys h) r" "ps_token s \<notin> dict_keys (w_by_token (hs_world h))"
  shows "held X q (in_world (\<lambda>w. open_session now r (set_session r (\<lambda>_. s) w)) h)"
proof -
  let ?w = "open_session now r (set_session r (\<lambda>_. s) (hs_world h))"
  let ?y = "at_world (hs_sys h) ?w"
  have "sys_ok ?y"
    using sys_step_ok [OF sys_step.hello [OF new]] h by (simp add: held_def)
  moreover have grants: "grant_of (w_sessions ?w p) = (if p = r then grant_of s else grant_of (session_of h p))" for p
    using fun_cong [OF grant.fixed_open, of now r "set_session r (\<lambda>_. s) (hs_world h)" p]
    unfolding grant.fixed_of_def by simp
  have "session_held (h\<lparr>hs_sys := ?y\<rparr>) e p" if p: "get ?w e = Some p" for e p
  proof (cases "e = ps_entry_id s")
    case True
    have "get ?w (ps_entry_id s) = Some r"
      using get_open [of now r "set_session r (\<lambda>_. s) (hs_world h)"] by simp
    then have "grant_of (w_sessions ?w p) = grant_of s" using grants p True by simp
    then show ?thesis using en logs h True
      by (auto simp: session_held_def owns_def grant_of_def get_entry_def held_def)
  next
    case False
    have old: "get (hs_world h) e = Some p" using get_open_other [OF p False] .
    then have "p \<in> snd ` set (w_by_entry (hs_world h))"
      unfolding get_def by (metis image_eqI map_of_SomeD snd_conv)
    then have "p \<noteq> r" using new(2) by (auto simp: new_ref_def)
    then have "grant_of (w_sessions ?w p) = grant_of (session_of h p)" using grants by simp
    moreover have "session_held h e p" using h old by (simp add: held_def)
    ultimately show ?thesis by (auto simp: session_held_def owns_def grant_of_def get_entry_def)
  qed
  ultimately show ?thesis using h by (simp add: held_def in_world_def)
qed

section \<open>Retiring entities\<close>

text \<open>These operations touch only entities, issues and effects.\<close>

definition same_core :: "hass \<Rightarrow> hass \<Rightarrow> bool" where
  "same_core h h' \<longleftrightarrow> hs_sys h' = hs_sys h \<and> hs_entries h' = hs_entries h \<and> hs_log_policy h' = hs_log_policy h"

lemma same_core_refl [simp]: "same_core h h"
  by (simp add: same_core_def)

lemma same_core_trans: "same_core a b \<Longrightarrow> same_core b c \<Longrightarrow> same_core a c"
  by (simp add: same_core_def)

lemma same_core_held: "same_core h h' \<Longrightarrow> held X q h' \<longleftrightarrow> held X q h"
  by (rule held_cong) (simp_all add: same_core_def)

lemma same_core_basic [simp]:
  "same_core h (tell es h)" "same_core h (create_issue i v h)" "same_core h (delete_issue i h)"
  "same_core h (h\<lparr>hs_entities := x\<rparr>)" "same_core h (h\<lparr>hs_requests := rq\<rparr>)"
  by (simp_all add: same_core_def tell_def create_issue_def delete_issue_def)

lemma same_core_fold: "(\<And>x g. same_core g (f x g)) \<Longrightarrow> same_core h (fold f xs h)"
  by (induction xs arbitrary: h) (auto intro: same_core_trans)

lemma same_core_remove: "same_core h (fst (remove_own_entity R e d u h))"
  by (simp add: remove_own_entity_def split: option.split)

lemma same_core_retire: "same_core h (retire_entity R e panel x h)"
proof -
  obtain d u where x: "x = (d, u)" by (cases x)
  show ?thesis using same_core_remove [of h R e d "panel @ ''_'' @ u"]
    by (auto simp: retire_entity_def x intro: same_core_trans split: prod.split bool.split)
qed

lemma same_core_unsupported_one: "same_core (fst acc) (fst (remove_unsupported_one R e panel ch acc))"
proof -
  obtain h removed where acc: "acc = (h, removed)" by (cases acc)
  show ?thesis using same_core_remove
    by (auto simp: remove_unsupported_one_def acc Let_def split: option.split prod.split bool.split) (metis fst_conv)+
qed

lemma same_core_unsupported: "same_core h (remove_unsupported_channels R e panel names h)"
proof -
  have "same_core (fst acc) (fst (fold (remove_unsupported_one R e panel) names acc))" for acc
  proof (induction names arbitrary: acc)
    case (Cons ch names)
    show ?case using same_core_trans [OF same_core_unsupported_one Cons.IH] by simp
  qed simp
  from this [of "(h, [])"] show ?thesis
    by (auto simp: remove_unsupported_channels_def intro: same_core_trans split: prod.split)
qed

lemma same_core_merged: "same_core h (delete_merged_identity_issue en h)" "same_core h (raise_merged_identity_issue panel h)"
  by (simp_all add: delete_merged_identity_issue_def raise_merged_identity_issue_def split: option.split)

lemma same_core_binding_issue: "same_core h (async_delete_binding_issue e u h)"
  by (simp add: async_delete_binding_issue_def Let_def split: option.split)

section \<open>The grant\<close>

text \<open>Up to the opening of the session.\<close>

definition prepared ::
  "registry_lib \<Rightarrow> client_connection \<Rightarrow> hello_msg \<Rightarrow> string \<Rightarrow> config_entry \<Rightarrow> hass \<Rightarrow> hass" where
  "prepared R conn m panel en h = (let e = en_id en;
     h1 = async_delete_binding_issue e (Some (cc_user_id conn)) (delete_merged_identity_issue en h);
     descriptors = hello_descriptors m; unknown = unknown_channels descriptors; unsupported = unsupported_channels m;
     h2 = fold (retire_entity R e panel) (retired_entities descriptors unknown unsupported) h1;
     h3 = (if shown_elsewhere ''volume'' descriptors unknown then tell [VolumeRetirement e panel] h2 else h2)
   in remove_unsupported_channels R e panel unsupported h3)"

lemma prepared_core: "same_core h (prepared R conn m panel en h)"
proof -
  let ?h1 = "async_delete_binding_issue (en_id en) (Some (cc_user_id conn)) (delete_merged_identity_issue en h)"
  let ?d = "hello_descriptors m" and ?un = "unsupported_channels m"
  let ?h2 = "fold (retire_entity R (en_id en) panel) (retired_entities ?d (unknown_channels ?d) ?un) ?h1"
  let ?h3 = "if shown_elsewhere ''volume'' ?d (unknown_channels ?d)
    then tell [VolumeRetirement (en_id en) panel] ?h2 else ?h2"
  have "same_core h ?h1" by (rule same_core_trans [OF same_core_merged(1) same_core_binding_issue])
  moreover have "same_core ?h1 ?h2" by (rule same_core_fold) (rule same_core_retire)
  moreover have "same_core ?h2 ?h3" by simp
  ultimately have "same_core h ?h3" by (blast intro: same_core_trans)
  then show ?thesis unfolding prepared_def Let_def by (rule same_core_trans) (rule same_core_unsupported)
qed

lemma accept_hello_prepared:
  "fst (accept_hello R U env r conn mid m panel en high local_ok h) =
     (let h4 = prepared R conn m panel en h; s = granted_session U env conn mid m panel en high local_ok h4
      in in_world (emit [ResultSent (cc_ref conn) mid (hello_answer env s en)])
           (in_world (\<lambda>w. open_session (he_now env) r (set_session r (\<lambda>_. s) w)) h4))"
  by (simp add: accept_hello_def prepared_def Let_def)

lemma granted_fields:
  fixes U env conn mid m panel en high local_ok h
  defines "s \<equiv> granted_session U env conn mid m panel en high local_ok h"
  shows "ps_entry_id s = en_id en" "ps_did s = panel" "ps_user_id s = cc_user_id conn"
    "ps_token s = he_token env" "new_session s"
    "ps_capabilities s = granted_capabilities m local_ok (w_voice_stream (hs_world h))"
    "''logs'' \<in> set (ps_capabilities s) \<Longrightarrow> ps_log_sources s = policy_sources (hs_log_policy h)"
  by (simp_all add: s_def granted_session_def Let_def new_session_def)

lemma held_accept:
  assumes h: "held X q h" and en: "get_entry h (en_id en) = Some en'"
    and owned: "en_loaded en'" "installation en'" "ed_user_id (en_data en') = Some (cc_user_id conn)"
      "en_unique_id en' = Some panel"
    and new: "new_ref (hs_sys h) r" "he_token env \<notin> dict_keys (w_by_token (hs_world h))"
  shows "held X q (fst (accept_hello R U env r conn mid m panel en high local_ok h))"
proof -
  let ?h4 = "prepared R conn m panel en h"
  let ?s = "granted_session U env conn mid m panel en high local_ok ?h4"
  have core: "same_core h ?h4" by (rule prepared_core)
  then have h4: "held X q ?h4" using same_core_held [OF core] h by simp
  have en4: "get_entry ?h4 (ps_entry_id ?s) = Some en'"
    using core en by (simp add: granted_fields(1) same_core_def get_entry_def)
  have own: "owns en' ?s" using owned by (simp add: owns_def granted_fields)
  have "held X q (in_world (\<lambda>w. open_session (he_now env) r (set_session r (\<lambda>_. ?s) w)) ?h4)"
  proof (rule held_hello [OF h4 en4 own])
    show "''logs'' \<in> set (ps_capabilities ?s) \<Longrightarrow> ps_log_sources ?s = policy_sources q"
      using granted_fields(7) [of U env conn mid m panel en high local_ok ?h4] h4 by (simp add: held_def)
    show "new_session ?s" by (rule granted_fields)
    show "new_ref (hs_sys ?h4) r" "ps_token ?s \<notin> dict_keys (w_by_token (hs_world ?h4))"
      using new core by (simp_all add: same_core_def granted_fields(4))
  qed
  then show ?thesis by (simp add: accept_hello_prepared Let_def)
qed

section \<open>Admission\<close>

lemma one_entry:
  assumes "entry_for_did h panel = OneEntry en"
  shows "en \<in> set (hs_entries h)" "en_loaded en" "panel_did en = Some panel"
proof -
  let ?ms = "filter (\<lambda>en. panel_did en = Some panel) (loaded_entries h)"
  have "en \<in> set ?ms"
  proof (cases ?ms rule: remdups_adj.cases)
    case (3 x y zs)
    then have "filter (\<lambda>en. reported_did en = Some panel) ?ms = [en]"
      using assms by (auto simp: entry_for_did_def Let_def split: list.splits if_splits)
    then have "en \<in> set (filter (\<lambda>en. reported_did en = Some panel) ?ms)" by simp
    then show ?thesis by simp
  qed (use assms in \<open>auto simp: entry_for_did_def\<close>)
  then show "en \<in> set (hs_entries h)" "en_loaded en" "panel_did en = Some panel"
    by (auto simp: loaded_entries_def)
qed

lemma panel_did_unique: "entry_ok en \<Longrightarrow> panel_did en = Some d \<Longrightarrow> en_unique_id en = Some d"
  by (auto simp: entry_ok_def panel_did_def split: option.splits if_splits)

lemma named_entry:
  assumes "held X q h" "entry_for_did h panel = OneEntry en"
  shows "get_entry h (en_id en) = Some en" "en_unique_id en = Some panel" "en_loaded en"
  using assms one_entry [OF assms(2)] panel_did_unique [of en panel] get_entry_mem
  by (auto simp: held_def)

lemma no_user_no_session:
  assumes "held X q h" "entry_user h e = None" shows "get (hs_world h) e = None"
  using held_session_user [OF assms(1), of e] assms(2) by (cases "get (hs_world h) e") auto

text \<open>A new panel is bound without touching a session.\<close>

lemma bind_new:
  assumes h: "held X q h" and en: "get_entry h e = Some en" "ed_user_id (en_data en) = None"
  shows "hs_sys (async_bind_user now e user h) = hs_sys h"
    "get_entry (async_bind_user now e user h) e = Some (en\<lparr>en_data := (en_data en)\<lparr>ed_user_id := Some user\<rparr>\<rparr>)"
proof -
  have user: "entry_user h e = None" using en by (simp add: entry_user_def)
  have free: "get (hs_world h) e = None" by (rule no_user_no_session [OF h user])
  have sys: "hs_sys (async_delete_binding_issue e u g) = hs_sys g" "hs_entries (async_delete_binding_issue e u g) = hs_entries g"
    for u g
    using same_core_binding_issue [of g e u] by (simp_all add: same_core_def)
  show "hs_sys (async_bind_user now e user h) = hs_sys h"
    by (simp add: async_bind_user_def Let_def free sys)
  show "get_entry (async_bind_user now e user h) e = Some (en\<lparr>en_data := (en_data en)\<lparr>ed_user_id := Some user\<rparr>\<rparr>)"
    using get_entry_Some [OF en(1)] en(1) user
    by (simp add: async_bind_user_def Let_def free get_entry_def sys)
      (simp add: update_data_def get_entry_update get_entry_def [symmetric])
qed

lemma admitted_account:
  assumes h: "held X q h" and en: "get_entry h (en_id en) = Some en"
    and ok: "admit_account now conn en h = (h1, True)"
  obtains en' where "held X q h1" "hs_sys h1 = hs_sys h" "get_entry h1 (en_id en) = Some en'"
    "ed_user_id (en_data en') = Some (cc_user_id conn)" "en_loaded en' = en_loaded en"
    "en_unique_id en' = en_unique_id en" "installation en' = installation en"
proof (cases "ed_user_id (en_data en) = Some (cc_user_id conn)")
  case True
  then have "h1 = h" using ok by (simp add: admit_account_def Let_def)
  then show ?thesis using that [of en] True h en by simp
next
  case False
  then have none: "ed_user_id (en_data en) = None" and h1: "h1 = async_bind_user now (en_id en) (cc_user_id conn) h"
    using ok by (auto simp: admit_account_def Let_def split: if_splits)
  show ?thesis
    using that [of "en\<lparr>en_data := (en_data en)\<lparr>ed_user_id := Some (cc_user_id conn)\<rparr>\<rparr>"]
      bind_new [OF h en none] held_bind [OF h] by (simp add: h1)
qed

lemma held_follow: "held X q h \<Longrightarrow> held X q (follow_refused_panel conn m panel h)"
  unfolding follow_refused_panel_def Let_def
  by (rule held_fold) (auto simp: follow_refused_hello_def Let_def intro!: held_coordinator split: option.split)

lemma held_refuse [simp]: "held X q (fst (refuse conn mid code h)) \<longleftrightarrow> held X q h"
  by (simp add: refuse_def)

lemma held_unknown: "held X q h \<Longrightarrow> held X q (fst (hello_unknown now conn mid m panel h))"
  using held_follow [of X q h conn m panel]
  by (simp add: hello_unknown_def Let_def async_record_binding_request_def)

lemma admit_refused: "held X q h \<Longrightarrow> held X q (fst (admit_account now conn en h))"
  using held_bind by (simp add: admit_account_def Let_def)

lemma agreed: "overlaps (hm_min m) (hm_max m) \<Longrightarrow> agreed_protocol m = 5"
  by (simp add: overlaps_def agreed_protocol_def)

lemma confirmed: "\<not> unconfirmed en high \<Longrightarrow> 3 \<le> high \<Longrightarrow> installation en"
  by (simp add: unconfirmed_def)

definition gate_held :: "string set \<Rightarrow> pydict \<Rightarrow> admission \<Rightarrow> bool" where
  "gate_held X q a \<longleftrightarrow> held X q (ad_hass a) \<and> list_all (\<lambda>d. 3 \<le> df_high d) (ad_deferred a)"

lemma held_ws_hello:
  assumes a: "gate_held X q a"
    and new: "new_ref (hs_sys (ad_hass a)) r" "he_token env \<notin> dict_keys (w_by_token (hs_world (ad_hass a)))"
  shows "gate_held X q (fst (ws_hello R U env r conn mid m a))"
proof -
  let ?h = "ad_hass a"
  have h: "held X q ?h" using a by (simp add: gate_held_def)
  have plain: "gate_held X q (a\<lparr>ad_hass := g\<rparr>)" if "held X q g" for g using a that by (simp add: gate_held_def)
  show ?thesis
  proof (cases "hm_did m")
    case None
    then show ?thesis using plain held_refuse h by (simp add: ws_hello_def Let_def case_prod_unfold)
  next
    case panel: (Some panel)
    show ?thesis
    proof (cases "overlaps (hm_min m) (hm_max m)")
      case False
      then show ?thesis using panel plain held_follow [OF h] by (simp add: ws_hello_def Let_def case_prod_unfold)
    next
      case True
      show ?thesis
      proof (cases "entry_for_did ?h panel")
        case NoEntry
        then show ?thesis using panel True plain held_unknown [OF h]
          by (simp add: ws_hello_def Let_def case_prod_unfold)
      next
        case (SharedEntries es)
        then show ?thesis using panel True plain h
          by (simp add: ws_hello_def Let_def case_prod_unfold raise_merged_identity_issue_def)
      next
        case (OneEntry en)
        note e = named_entry [OF h OneEntry]
        show ?thesis
        proof (cases "unconfirmed en (agreed_protocol m)")
          case True
          then show ?thesis using panel \<open>overlaps _ _\<close> OneEntry plain h
            by (simp add: ws_hello_def Let_def case_prod_unfold)
        next
          case False
          then have inst: "installation en" using confirmed agreed [OF True] by simp
          obtain h1 ok where adm: "admit_account (he_now env) conn en ?h = (h1, ok)" by fastforce
          have h1: "held X q h1" using admit_refused [OF h, of "he_now env" conn en] adm by simp
          show ?thesis
          proof (cases ok)
            case refused: False
            then show ?thesis using panel True OneEntry False adm plain h1
              by (simp add: ws_hello_def Let_def case_prod_unfold)
          next
            case granted: True
            obtain en' where en': "hs_sys h1 = hs_sys ?h" "get_entry h1 (en_id en) = Some en'"
                "ed_user_id (en_data en') = Some (cc_user_id conn)" "en_loaded en' = en_loaded en"
                "en_unique_id en' = en_unique_id en" "installation en' = installation en"
              using admitted_account [OF h e(1)] adm granted by metis
            have "held X q (fst (accept_hello R U env r conn mid m panel en high True h1))" for high
              using en' e inst new by (intro held_accept [OF h1 en'(2)]) simp_all
            then show ?thesis using panel True OneEntry False adm granted plain h1 a agreed [OF True]
              by (simp add: ws_hello_def Let_def case_prod_unfold gate_held_def)
          qed
        qed
      qed
    qed
  qed
qed

lemma held_local_hello:
  assumes a: "gate_held X q a" and d: "d \<in> set (ad_deferred a)"
    and new: "new_ref (hs_sys (ad_hass a)) r" "he_token env \<notin> dict_keys (w_by_token (hs_world (ad_hass a)))"
  shows "gate_held X q (fst (accept_local_hello R U env r custody d a))"
proof -
  let ?h = "ad_hass a"
  have h: "held X q ?h" using a by (simp add: gate_held_def)
  have high: "3 \<le> df_high d" using a d by (simp add: gate_held_def list_all_iff)
  have plain: "gate_held X q (a\<lparr>ad_deferred := remove1 d (ad_deferred a), ad_hass := g\<rparr>)" if "held X q g" for g
    using a that by (auto simp: gate_held_def list_all_iff dest!: subsetD [OF set_remove1_subset])
  show ?thesis
  proof (cases "entry_for_did ?h (df_panel d)")
    case (OneEntry en)
    note e = named_entry [OF h OneEntry]
    have "held X q (fst (accept_hello R U env r (df_conn d) (df_mid d) (df_msg d) (df_panel d) en (df_high d) ok ?h))"
      if "\<not> unconfirmed en (df_high d)" "ed_user_id (en_data en) = Some (cc_user_id (df_conn d))" for ok
      using that e confirmed [OF that(1) high] new by (intro held_accept [OF h e(1)]) simp_all
    then show ?thesis using OneEntry plain h
      by (simp add: accept_local_hello_def Let_def case_prod_unfold)
  qed (use plain h in \<open>simp_all add: accept_local_hello_def Let_def case_prod_unfold\<close>)
qed

text \<open>A panel that returns while its restart notice still stands is announced twice, first without a
  session: listeners run in between.\<close>

lemma open_after_notice_announces_gap:
  assumes "get w (ps_entry_id (w_sessions w r)) = None" "map_of (w_restart w) (ps_entry_id (w_sessions w r)) = Some n"
  shows "w_effects (open_session now r w)
    = w_effects w @ [Changed (ps_entry_id (w_sessions w r)) None, Changed (ps_entry_id (w_sessions w r)) (Some r)]"
proof -
  have "w_restart (cancel_timer e w) = w_restart w" "w_by_entry (cancel_timer e w) = w_by_entry w" "w_effects (cancel_timer e w) = w_effects w" for e
    by (simp_all add: cancel_timer_def split: option.split)
  then show ?thesis using assms
    by (simp add: open_session_def Let_def clear_restart_notice_def changed_def get_def update_conv')
qed

end
