(* ===== verification/Admission_System.thy ===== *)
theory Admission_System
  imports Admission_Steps
begin

text \<open>
  The whole of admission as one system.  Its steps are the operations of transport.py,
  transport_binding.py, identity.py and panel_logs.py, those of the session system that open no
  session, and what Home Assistant does to entries: adding, setting up, loading, unloading and
  removing them.  Every reachable state keeps the invariant of Admission_Runs.
\<close>

section \<open>Steps\<close>

text \<open>\<open>gt_accepted\<close>: health answers that were accepted and whose snapshot is still to be stored, with
  the entry and the identity each had.\<close>

record gate =
  gt_admission :: admission
  gt_accepted :: "(string \<times> string option) list"

abbreviation gate_hass :: "gate \<Rightarrow> hass" where
  "gate_hass g \<equiv> ad_hass (gt_admission g)"

abbreviation at_hass :: "gate \<Rightarrow> hass \<Rightarrow> gate" where
  "at_hass g h \<equiv> g\<lparr>gt_admission := (gt_admission g)\<lparr>ad_hass := h\<rparr>\<rparr>"

definition new_entry :: "gate \<Rightarrow> config_entry \<Rightarrow> bool" where
  "new_entry g en \<longleftrightarrow> en_id en \<notin> en_id ` set (hs_entries (gate_hass g)) \<and> en_id en \<notin> fst ` set (gt_accepted g)
     \<and> get (hs_world (gate_hass g)) (en_id en) = None \<and> \<not> en_loaded en \<and> en_coordinator en = None
     \<and> (case en_unique_id en of None \<Rightarrow> True | Some u \<Rightarrow> is_valid_discovery_id u)"

text \<open>The identities health carries are checked when the answer is read (client.py).\<close>

definition read_health :: "panel_health \<Rightarrow> bool" where
  "read_health health \<longleftrightarrow> (\<forall>d. hl_discovery_id health = Some d \<longrightarrow> is_valid_discovery_id d)"

definition unload_entry :: "rat \<Rightarrow> string \<Rightarrow> hass \<Rightarrow> hass" where
  "unload_entry now e h = update_entry e (\<lambda>en. en\<lparr>en_loaded := False, en_coordinator := None\<rparr>)
     (in_world (close_entry now e ''entry_unloaded'') h)"

definition remove_entry :: "string \<Rightarrow> config_entry \<Rightarrow> hass \<Rightarrow> hass" where
  "remove_entry now en h = remember_removed_panel now en (delete_merged_identity_issue en
     (in_world (forget_entry (en_id en)) (h\<lparr>hs_entries := filter (\<lambda>x. en_id x \<noteq> en_id en) (hs_entries h)\<rparr>)))"

inductive gate_step ::
  "registry_lib \<Rightarrow> url_lib \<Rightarrow> platform \<Rightarrow> transport_libs \<Rightarrow> gate \<Rightarrow> gate \<Rightarrow> bool" for R U P L where
  hello: "new_ref (hs_sys (gate_hass g)) r \<Longrightarrow> he_token env \<notin> dict_keys (w_by_token (hs_world (gate_hass g))) \<Longrightarrow>
    ws_hello R U env r conn mid m (gt_admission g) = (a, res) \<Longrightarrow>
    gate_step R U P L g (g\<lparr>gt_admission := a\<rparr>)"
| later: "d \<in> set (ad_deferred (gt_admission g)) \<Longrightarrow> new_ref (hs_sys (gate_hass g)) r \<Longrightarrow>
    he_token env \<notin> dict_keys (w_by_token (hs_world (gate_hass g))) \<Longrightarrow>
    accept_local_hello R U env r custody d (gt_admission g) = (a, res) \<Longrightarrow>
    gate_step R U P L g (g\<lparr>gt_admission := a\<rparr>)"
| cancelled: "gate_step R U P L g (g\<lparr>gt_admission := (gt_admission g)\<lparr>ad_deferred :=
    remove1 d (ad_deferred (gt_admission g))\<rparr>\<rparr>)"
| transport: "sys_step L (hs_sys (gate_hass g)) y \<Longrightarrow> no_new_session (hs_sys (gate_hass g)) y \<Longrightarrow>
    gate_step R U P L g (at_hass g ((gate_hass g)\<lparr>hs_sys := y\<rparr>))"
| health: "read_health health \<Longrightarrow> accept_health R P now e health (gate_hass g) = (h, res) \<Longrightarrow>
    gate_step R U P L g ((at_hass g h)\<lparr>gt_accepted :=
      (if res = Some True then (e, hl_discovery_id health) # gt_accepted g else gt_accepted g)\<rparr>)"
| snapshot: "(e, d) \<in> set (gt_accepted g) \<Longrightarrow> gate_step R U P L g (at_hass g (set_coordinator e
    (\<lambda>c. c\<lparr>cs_identity_mismatch := False, cs_health_did := d, cs_last_update_success := True\<rparr>) (gate_hass g)))"
| polled: "(\<And>c. cs_health_did (f c) = cs_health_did c) \<Longrightarrow>
    gate_step R U P L g (at_hass g (set_coordinator e f (gate_hass g)))"
| confirmed: "read_health health \<Longrightarrow> get_entry (gate_hass g) e = Some en \<Longrightarrow>
    confirm_identity R now en health (gate_hass g) = (h, res) \<Longrightarrow> gate_step R U P L g (at_hass g h)"
| restarted: "get_entry (gate_hass g) e = Some en \<Longrightarrow> reconcile_identity R now en (gate_hass g) = (h, res) \<Longrightarrow>
    gate_step R U P L g (at_hass g h)"
| bound: "gate_step R U P L g (at_hass g (async_bind_user now e user (gate_hass g)))"
| user_gone: "gate_step R U P L g (at_hass g (user_removed now user (gate_hass g)))"
| added: "new_entry g en \<Longrightarrow> gate_step R U P L g (at_hass g ((gate_hass g)\<lparr>hs_entries :=
    hs_entries (gate_hass g) @ [en]\<rparr>))"
| setting_up: "cs_health_did c = None \<Longrightarrow> gate_step R U P L g (at_hass g
    (update_entry e (\<lambda>en. en\<lparr>en_coordinator := Some c\<rparr>) (gate_hass g)))"
| loaded: "get_entry (gate_hass g) e = Some en \<Longrightarrow> gate_step R U P L g (at_hass g
    (update_entry e (\<lambda>en. en\<lparr>en_loaded := True\<rparr>) (forget_removed_panel en (gate_hass g))))"
| unloaded: "gate_step R U P L g (at_hass g (unload_entry now e (gate_hass g)))"
| removed: "get_entry (gate_hass g) e = Some en \<Longrightarrow> \<not> en_loaded en \<Longrightarrow>
    gate_step R U P L g (at_hass g (remove_entry now en (gate_hass g)))"
| moved: "gate_step R U P L g (at_hass g (update_data e (\<lambda>d. d\<lparr>ed_address := a\<rparr>) (gate_hass g)))"
| options: "gate_step R U P L g (at_hass g (update_entry e (\<lambda>en. en\<lparr>en_prerelease := b\<rparr>) (gate_hass g)))"
| logs_configured: "validate_policy U p = Some q \<Longrightarrow>
    gate_step R U P L g (at_hass g (configure_logs now q (gate_hass g)))"
| logs: "ws_report_log conn mid token (gate_hass g) = (h, ans) \<Longrightarrow> gate_step R U P L g (at_hass g h)"
| logs_done: "gate_step R U P L g (at_hass g (deliver_end current ok mid n dropped r (gate_hass g)))"
| surroundings: "same_core (gate_hass g) h \<Longrightarrow> gate_step R U P L g (at_hass g h)"

definition start_gate :: "gate \<Rightarrow> bool" where
  "start_gate g \<longleftrightarrow> start_world (hs_world (gate_hass g)) \<and> sy_waits (hs_sys (gate_hass g)) = []
     \<and> hs_entries (gate_hass g) = [] \<and> ad_deferred (gt_admission g) = [] \<and> gt_accepted g = []"

inductive gate_reachable ::
  "registry_lib \<Rightarrow> url_lib \<Rightarrow> platform \<Rightarrow> transport_libs \<Rightarrow> gate \<Rightarrow> bool" for R U P L where
  start: "start_gate g \<Longrightarrow> gate_reachable R U P L g"
| step: "gate_reachable R U P L g \<Longrightarrow> gate_step R U P L g g' \<Longrightarrow> gate_reachable R U P L g'"

section \<open>Log policy\<close>

lemma held_policy:
  assumes "held X q h" "\<And>e r. get (hs_world h) e = Some r \<Longrightarrow> ''logs'' \<notin> set (ps_capabilities (session_of h r))"
  shows "held X p (h\<lparr>hs_log_policy := p\<rparr>)"
proof -
  have "session_held (h\<lparr>hs_log_policy := p\<rparr>) e r" if "get (hs_world h) e = Some r" for e r
  proof -
    have "session_held h e r" using assms(1) that by (simp add: held_def)
    then show ?thesis using assms(2) [OF that] by (auto simp: session_held_def get_entry_def)
  qed
  then show ?thesis using assms(1) by (simp add: held_def)
qed

lemma close_log_policy: "close_log_session now e (h\<lparr>hs_log_policy := p\<rparr>) = (close_log_session now e h)\<lparr>hs_log_policy := p\<rparr>"
  by (simp add: close_log_session_def in_world_def split: option.split)

lemma fold_close_log_policy:
  "fold (close_log_session now) es (h\<lparr>hs_log_policy := p\<rparr>) = (fold (close_log_session now) es h)\<lparr>hs_log_policy := p\<rparr>"
  by (induction es arbitrary: h) (simp_all add: close_log_policy)

lemma held_close_log: "held X q h \<Longrightarrow> held X q (close_log_session now e h)"
  by (auto simp: close_log_session_def split: option.split)

lemma close_log_get: "get (hs_world (close_log_session now e' h)) e = Some r \<Longrightarrow> get (hs_world h) e = Some r"
  by (auto simp: close_log_session_def dest: get_close split: option.splits if_splits)

lemma close_log_session_same: "grant_of (session_of (close_log_session now e h) r) = grant_of (session_of h r)"
  using fun_cong [OF grant.fixed_close] unfolding grant.fixed_of_def
  by (simp add: close_log_session_def split: option.split)

lemma fold_log_get:
  "get (hs_world (fold (close_log_session now) es h)) e = Some r \<Longrightarrow> get (hs_world h) e = Some r"
  by (induction es arbitrary: h) (auto dest: close_log_get)

lemma fold_log_same: "grant_of (session_of (fold (close_log_session now) es h) r) = grant_of (session_of h r)"
  by (induction es arbitrary: h) (simp_all add: close_log_session_same)

lemma close_log_gone:
  assumes "held X q h" "get (hs_world (close_log_session now e h)) e = Some r"
  shows "''logs'' \<notin> set (ps_capabilities (session_of h r))"
proof
  assume logs: "''logs'' \<in> set (ps_capabilities (session_of h r))"
  have r: "get (hs_world h) e = Some r" by (rule close_log_get [OF assms(2)])
  have "sys_ok (hs_sys h)" using assms(1) by (simp add: held_def)
  note live_entry [OF this r]
  then show False using assms(2) r logs get_close_self [of "hs_world h" r]
    by (auto simp: close_log_session_def)
qed

lemma fold_log_gone:
  "held X q h \<Longrightarrow> e \<in> set es \<Longrightarrow> get (hs_world (fold (close_log_session now) es h)) e = Some r
    \<Longrightarrow> ''logs'' \<notin> set (ps_capabilities (session_of h r))"
proof (induction es arbitrary: h)
  case (Cons e' es)
  let ?h = "close_log_session now e' h"
  have h: "held X q ?h" by (rule held_close_log [OF Cons.prems(1)])
  have same: "grant_of (session_of ?h r) = grant_of (session_of h r)" by (rule close_log_session_same)
  show ?case
  proof (cases "e = e'")
    case True
    have "get (hs_world ?h) e = Some r" using Cons.prems(3) by (auto dest: fold_log_get)
    then show ?thesis using close_log_gone [OF Cons.prems(1)] True by simp
  next
    case False
    then show ?thesis using Cons.IH [OF h] Cons.prems(2,3) same by (simp add: grant_of_def)
  qed
qed simp

lemma held_configure:
  assumes h: "held X q h" shows "held X p (configure_logs now p h)"
proof -
  let ?es = "map en_id (hs_entries h)"
  let ?h = "fold (close_log_session now) ?es h"
  have "held X q ?h" by (rule held_fold [OF _ h]) (rule held_close_log)
  moreover have "''logs'' \<notin> set (ps_capabilities (session_of ?h r))" if r: "get (hs_world ?h) e = Some r" for e r
  proof -
    have "session_held h e r" using h fold_log_get [OF r] by (simp add: held_def)
    then obtain en where "get_entry h e = Some en" by (auto simp: session_held_def)
    then have "e \<in> set ?es" using get_entry_Some by fastforce
    then show ?thesis using fold_log_gone [OF h _ r] fold_log_same [of now ?es h r] by (simp add: grant_of_def)
  qed
  ultimately have "held X p (?h\<lparr>hs_log_policy := p\<rparr>)" by (rule held_policy)
  then show ?thesis by (simp add: configure_logs_def fold_close_log_policy)
qed

section \<open>An accepted answer leaves an identity\<close>

lemma held_insert:
  assumes "held X q h" "get_entry h e = Some en" "en_unique_id en \<noteq> None" shows "held (insert e X) q h"
proof -
  have "en' = en" if "en' \<in> set (hs_entries h)" "en_id en' = e" for en'
    using get_entry_mem [OF _ that(1)] assms(1,2) that(2) by (simp add: held_def)
  then show ?thesis using assms by (auto simp: held_def)
qed

lemma accepted_identity:
  assumes h: "held X q h" and en: "get_entry h (en_id en) = Some en" and ok: "read_health health"
    and done': "accept_known R P now en health h = (h1, Some True)" and d: "hl_discovery_id health = Some d"
  shows "held (insert (en_id en) X) q h1"
proof (cases "en_unique_id en")
  case (Some own)
  have "held (insert (en_id en) X) q h" by (rule held_insert [OF h en]) (simp add: Some)
  from held_known [OF this en, of health R P now] show ?thesis
    using ok done' by (simp add: read_health_def)
next
  case None
  show ?thesis
  proof (cases "ed_pending (en_data en)")
    case (Some p)
    have "\<not> can_confirm_identity h en health" using None by (simp add: can_confirm_identity_def split: option.split)
    then have "snd (accept_pending R now en health p h) = Some False"
      by (simp add: accept_pending_def confirm_identity_def)
    then show ?thesis using done' Some by (simp add: accept_known_def Let_def)
  next
    case no_pending: None
    let ?e = "en_id en"
    let ?u = "update_entry ?e (\<lambda>n. n\<lparr>en_unique_id := Some d\<rparr>) h"
    have h1: "h1 = claim_link ?e (update_data ?e (accepted health) ?u)"
      using done' None no_pending d by (simp add: accept_known_def Let_def split: if_splits)
    have "held X q ?u" using held_identity [OF h no_identity_no_session [OF h en None]] ok d
      by (simp add: read_health_def)
    moreover have "get_entry ?u ?e = Some (en\<lparr>en_unique_id := Some d\<rparr>)"
      by (simp add: get_entry_update en)
    ultimately have "held (insert ?e X) q ?u" by (rule held_insert) simp
    then show ?thesis unfolding h1 by (intro held_claim_link held_accepted)
  qed
qed

lemma held_health_accepted:
  assumes h: "held X q h" and ok: "read_health health"
    and res: "accept_health R P now e health h = (h1, Some True)" and d: "hl_discovery_id health = Some d"
  shows "held (insert e X) q h1"
proof (cases "get_entry h e")
  case (Some en)
  have e: "en_id en = e" using get_entry_Some [OF Some] by simp
  obtain g where g: "(if en_unique_id en = None then recover_unique_id en h else Some h) = Some g"
    using res Some by (cases "if en_unique_id en = None then recover_unique_id en h else Some h")
      (simp_all add: accept_health_def)
  have hg: "held X q g" using held_recover [OF h] Some e g h by (auto split: if_splits)
  obtain en1 where en1: "get_entry g e = Some en1" "accept_known R P now en1 health g = (h1, Some True)"
    using res Some g by (cases "get_entry g e") (simp_all add: accept_health_def)
  have "en_id en1 = e" using get_entry_Some [OF en1(1)] by simp
  then show ?thesis using accepted_identity [OF hg _ ok en1(2) d] en1(1) by simp
qed (use res in \<open>simp add: accept_health_def\<close>)

section \<open>Every step keeps the invariant\<close>

definition known_ids :: "gate \<Rightarrow> string set" where
  "known_ids g = {e. \<exists>d. (e, Some d) \<in> set (gt_accepted g)}"

definition gate_ok :: "gate \<Rightarrow> bool" where
  "gate_ok g \<longleftrightarrow> gate_held (known_ids g) (hs_log_policy (gate_hass g)) (gt_admission g)"

lemma gate_okI: "gate_held (known_ids g) q (gt_admission g) \<Longrightarrow> gate_ok g"
  by (simp add: gate_ok_def gate_held_def held_def)

lemma gate_at_hass: "gate_ok g \<Longrightarrow> held (known_ids g) q h \<Longrightarrow> gate_ok (at_hass g h)"
  by (auto simp: gate_ok_def gate_held_def known_ids_def held_def)

lemma gate_at_same:
  "gate_ok g \<Longrightarrow> (\<And>q. held (known_ids g) q (gate_hass g) \<Longrightarrow> held (known_ids g) q h) \<Longrightarrow> gate_ok (at_hass g h)"
  by (rule gate_at_hass [of g "hs_log_policy (gate_hass g)"]) (simp_all add: gate_ok_def gate_held_def)

lemma held_removed_entry:
  assumes h: "held X q h" and en: "get_entry h (en_id en) = Some en" "\<not> en_loaded en"
  shows "held X q (h\<lparr>hs_entries := filter (\<lambda>x. en_id x \<noteq> en_id en) (hs_entries h)\<rparr>)"
proof -
  let ?h = "h\<lparr>hs_entries := filter (\<lambda>x. en_id x \<noteq> en_id en) (hs_entries h)\<rparr>"
  have other: "e \<noteq> en_id en \<Longrightarrow> get_entry ?h e = get_entry h e" for e
  proof -
    assume "e \<noteq> en_id en"
    then have "find (\<lambda>x. en_id x = e) (filter (\<lambda>x. en_id x \<noteq> en_id en) es) = find (\<lambda>x. en_id x = e) es" for es
      by (induction es) auto
    then show ?thesis by (simp add: get_entry_def)
  qed
  have "session_held ?h e r" if r: "get (hs_world h) e = Some r" for e r
  proof -
    have s: "session_held h e r" using h r by (simp add: held_def)
    then have "e \<noteq> en_id en" using en by (auto simp: session_held_def owns_def)
    then show ?thesis using s other by (simp add: session_held_def)
  qed
  then show ?thesis using h by (auto simp: held_def distinct_map_filter)
qed

lemma held_forget_entry: "held X q h \<Longrightarrow> held X q (in_world (forget_entry e) h)"
proof -
  have "get (forget_entry e w) e' = get w e'" for w e'
    by (simp add: get_def forget_entry_def clear_restart_notice_def cancel_timer_def changed_def emit_def Let_def
        split: option.split)
  then show "held X q h \<Longrightarrow> held X q (in_world (forget_entry e) h)"
    unfolding in_world_def by (intro held_step [OF _ sys_step.entry_removed]) (auto simp: no_new_session_def)
qed

lemma held_remove_entry:
  assumes "held X q h" "get_entry h e = Some en" "\<not> en_loaded en" shows "held X q (remove_entry now en h)"
proof -
  have "get_entry h (en_id en) = Some en" using assms(2) get_entry_Some by fastforce
  from held_forget_entry [OF held_removed_entry [OF assms(1) this assms(3)]]
  show ?thesis
    by (simp add: remove_entry_def remember_removed_panel_def delete_merged_identity_issue_def split: option.split)
qed

lemma held_unload: assumes "held X q h" shows "held X q (unload_entry now e h)"
  unfolding unload_entry_def
proof (rule held_no_session)
  show "held X q (in_world (close_entry now e ''entry_unloaded'') h)" using assms by (rule held_close_entry)
  show "get (hs_world (in_world (close_entry now e ''entry_unloaded'') h)) e = None"
    using closed_entry assms by (simp add: held_def)
qed (simp_all add: entry_ok_def reported_did_def split: option.splits)

lemma held_added:
  assumes h: "held X q (gate_hass g)" and en: "new_entry g en" and X: "X \<subseteq> fst ` set (gt_accepted g)"
  shows "held X q ((gate_hass g)\<lparr>hs_entries := hs_entries (gate_hass g) @ [en]\<rparr>)"
proof -
  let ?h = "gate_hass g"
  let ?h' = "?h\<lparr>hs_entries := hs_entries ?h @ [en]\<rparr>"
  have "entry_ok en" using en by (auto simp: new_entry_def entry_ok_def reported_did_def split: option.splits)
  moreover have "en_id en \<notin> X" using en X by (auto simp: new_entry_def)
  moreover have "session_held ?h' e r" if r: "get (hs_world ?h) e = Some r" for e r
  proof -
    have s: "session_held ?h e r" using h r by (simp add: held_def)
    have "find P (es @ [en]) = find P es" if "find P es \<noteq> None" for P es
      using that by (induction es) auto
    then have "get_entry ?h' e = get_entry ?h e" if "get_entry ?h e \<noteq> None"
      using that by (simp add: get_entry_def)
    then show ?thesis using s by (auto simp: session_held_def)
  qed
  ultimately show ?thesis using h en by (auto simp: held_def new_entry_def)
qed

lemma held_logs: "held X q h \<Longrightarrow> ws_report_log conn mid token h = (h', ans) \<Longrightarrow> held X q h'"
  by (auto simp: ws_report_log_def accept_logs_def split: option.splits if_splits)

lemma held_logs_done: "held X q h \<Longrightarrow> held X q (deliver_end current ok mid n dropped r h)"
  by (simp add: deliver_end_def Let_def)

lemma held_snapshot:
  assumes g: "gate_ok g" and mem: "(e, d) \<in> set (gt_accepted g)"
  shows "held (known_ids g) (hs_log_policy (gate_hass g)) (set_coordinator e (\<lambda>c. c\<lparr>cs_identity_mismatch := False,
    cs_health_did := d, cs_last_update_success := True\<rparr>) (gate_hass g))"
proof -
  have h: "held (known_ids g) (hs_log_policy (gate_hass g)) (gate_hass g)"
    using g by (simp add: gate_ok_def gate_held_def)
  have known: "d = None" if "en \<in> set (hs_entries (gate_hass g))" "en_id en = e" "en_unique_id en = None" for en
    using h mem that by (cases d) (fastforce simp: held_def known_ids_def)+
  show ?thesis unfolding set_coordinator_def
    by (rule held_update [OF h])
      (use known in \<open>auto simp: entry_ok_def owns_def reported_did_def split: option.splits\<close>)
qed

theorem gate_step_ok: "gate_step R U P L g g' \<Longrightarrow> gate_ok g \<Longrightarrow> gate_ok g'"
proof (induction rule: gate_step.induct)
  case (hello g r env conn mid m a res)
  show ?case
    using held_ws_hello [of "known_ids g" _ "gt_admission g" r env R U conn mid m] hello
    by (intro gate_okI [of _ "hs_log_policy (gate_hass g)"]) (simp add: gate_ok_def known_ids_def)
next
  case (later d g r env custody a res)
  show ?case
    using held_local_hello [of "known_ids g" _ "gt_admission g" d r env R U custody] later
    by (intro gate_okI [of _ "hs_log_policy (gate_hass g)"]) (simp add: gate_ok_def known_ids_def)
next
  case (cancelled g d)
  then show ?case
    by (auto simp: gate_ok_def gate_held_def known_ids_def list_all_iff dest!: subsetD [OF set_remove1_subset])
next
  case (transport g y)
  then show ?case using held_step by (intro gate_at_hass) (auto simp: gate_ok_def gate_held_def)
next
  case (health health now e g h res)
  let ?q = "hs_log_policy (gate_hass g)"
  have g: "held (known_ids g) ?q (gate_hass g)" "list_all (\<lambda>d. 3 \<le> df_high d) (ad_deferred (gt_admission g))"
    using health.prems by (simp_all add: gate_ok_def gate_held_def)
  have h: "held (known_ids g) ?q h"
    using held_health [OF g(1), of health R P now e] health.hyps by (simp add: read_health_def)
  show ?case
  proof (cases "res = Some True \<and> hl_discovery_id health \<noteq> None")
    case True
    then have "held (insert e (known_ids g)) ?q h"
      using held_health_accepted [OF g(1) health.hyps(1)] health.hyps(2) by blast
    moreover have "known_ids (g\<lparr>gt_accepted := (e, hl_discovery_id health) # gt_accepted g\<rparr>) = insert e (known_ids g)"
      using True by (auto simp: known_ids_def)
    ultimately show ?thesis using True g(2)
      by (intro gate_okI [of _ ?q]) (simp add: gate_held_def known_ids_def)
  next
    case False
    then have "known_ids ((at_hass g h)\<lparr>gt_accepted := (if res = Some True
        then (e, hl_discovery_id health) # gt_accepted g else gt_accepted g)\<rparr>) = known_ids g"
      by (auto simp: known_ids_def)
    then show ?thesis using h g(2) by (intro gate_okI [of _ ?q]) (simp add: gate_held_def)
  qed
next
  case (snapshot e d g)
  then show ?case using held_snapshot by (intro gate_at_hass) auto
next
  case (polled f g e)
  have "held (known_ids g) (hs_log_policy (gate_hass g)) (gate_hass g)"
    using polled.prems by (simp add: gate_ok_def gate_held_def)
  then have "held (known_ids g) (hs_log_policy (gate_hass g)) (set_coordinator e f (gate_hass g))"
    by (rule held_coordinator) (rule polled.hyps)
  then show ?case by (rule gate_at_hass [OF polled.prems])
next
  case (confirmed health g e en now h res)
  then show ?case using held_confirm [of "known_ids g" _ "gate_hass g" health R now en]
    by (intro gate_at_hass) (auto simp: gate_ok_def gate_held_def read_health_def)
next
  case (restarted g e en now h res)
  then show ?case using held_reconcile [of "known_ids g" _ "gate_hass g" R now en]
    by (intro gate_at_hass) (auto simp: gate_ok_def gate_held_def)
next
  case (added g en)
  have "held (known_ids g) (hs_log_policy (gate_hass g)) (gate_hass g)"
    using added.prems by (simp add: gate_ok_def gate_held_def)
  moreover have "known_ids g \<subseteq> fst ` set (gt_accepted g)" by (force simp: known_ids_def)
  ultimately show ?case using held_added [OF _ added.hyps] by (intro gate_at_hass [OF added.prems]) blast
next
  case (setting_up c g e)
  show ?case
    by (rule gate_at_hass [OF setting_up.prems], rule held_update)
      (use setting_up in \<open>auto simp: gate_ok_def gate_held_def entry_ok_def owns_def reported_did_def split: option.splits\<close>)
next
  case (loaded g e en)
  have "held (known_ids g) (hs_log_policy (gate_hass g)) (forget_removed_panel en (gate_hass g))"
    using loaded.prems by (simp add: gate_ok_def gate_held_def forget_removed_panel_def split: option.split)
  then have "held (known_ids g) (hs_log_policy (gate_hass g))
      (update_entry e (\<lambda>en. en\<lparr>en_loaded := True\<rparr>) (forget_removed_panel en (gate_hass g)))"
    by (rule held_update) (auto simp: entry_ok_def owns_def reported_did_def split: option.splits)
  then show ?case by (rule gate_at_hass [OF loaded.prems])
next
  case (moved g e a)
  then show ?case by (intro gate_at_hass [of g "hs_log_policy (gate_hass g)"] held_data)
      (simp_all add: gate_ok_def gate_held_def)
next
  case (options g e b)
  show ?case
    by (rule gate_at_hass [OF options.prems], rule held_update_same)
      (use options.prems in \<open>auto simp: gate_ok_def gate_held_def reported_did_def\<close>)
next
  case (logs_configured p q g now)
  then show ?case using held_configure by (intro gate_at_hass [of g q]) (auto simp: gate_ok_def gate_held_def)
next
  case (logs conn mid token g h ans)
  then show ?case using held_logs by (intro gate_at_hass) (auto simp: gate_ok_def gate_held_def)
next
  case (surroundings g h)
  then show ?case using same_core_held by (intro gate_at_hass) (auto simp: gate_ok_def gate_held_def)
qed (blast intro: gate_at_same held_bind held_user_removed held_unload held_remove_entry held_logs_done)+

theorem gate_reachable_ok: "gate_reachable R U P L g \<Longrightarrow> gate_ok g"
proof (induction rule: gate_reachable.induct)
  case (start g)
  have "get (hs_world (gate_hass g)) e = None" for e
    using start by (simp add: start_gate_def start_world_def get_def)
  moreover have "sys_ok (hs_sys (gate_hass g))"
    using start reachable_ok [OF reachable.start, of "hs_world (gate_hass g)"]
    by (cases "hs_sys (gate_hass g)") (simp add: start_gate_def)
  ultimately show ?case using start by (simp add: gate_ok_def gate_held_def held_def start_gate_def)
qed (rule gate_step_ok)

end
