(* ===== verification/Admission_Outcomes.thy ===== *)
theory Admission_Outcomes
  imports Admission_System
begin

text \<open>
  What one hello leaves behind, branch by branch: a refused one changes no session, no binding and
  no entity; a granted one files exactly its session; and only an entry that is bound to no account
  is ever bound by one.
\<close>

section \<open>The branches\<close>

lemma accept_hello_pair:
  "accept_hello R U env r conn mid m panel en high ok h
     = (fst (accept_hello R U env r conn mid m panel en high ok h), HelloGranted r)"
  by (simp add: accept_hello_def Let_def)

definition may_enter :: "client_connection \<Rightarrow> config_entry \<Rightarrow> hass \<Rightarrow> bool" where
  "may_enter conn en h \<longleftrightarrow> ed_user_id (en_data en) = Some (cc_user_id conn)
     \<or> (ed_user_id (en_data en) = None \<and> may_ask_to_bind h conn)"

lemma admit_account_iff: "snd (admit_account now conn en h) \<longleftrightarrow> may_enter conn en h"
  by (simp add: admit_account_def may_enter_def Let_def)

definition offers_local_adb :: "hello_msg \<Rightarrow> bool" where
  "offers_local_adb m \<longleftrightarrow> ''local_adb'' \<in> set (hm_capabilities m) \<and> ''management'' \<in> set (hm_capabilities m)"

text \<open>The entry a hello may open: its own, confirmed, of the account or of none.\<close>

definition admitted :: "client_connection \<Rightarrow> hello_msg \<Rightarrow> hass \<Rightarrow> config_entry \<Rightarrow> bool" where
  "admitted conn m h en \<longleftrightarrow> overlaps (hm_min m) (hm_max m)
     \<and> (\<exists>panel. hm_did m = Some panel \<and> entry_for_did h panel = OneEntry en)
     \<and> \<not> unconfirmed en (agreed_protocol m) \<and> may_enter conn en h"

lemma ws_hello_admitted:
  assumes "admitted conn m (ad_hass a) en"
  obtains panel h1 where "hm_did m = Some panel" "entry_for_did (ad_hass a) panel = OneEntry en"
    "admit_account (he_now env) conn en (ad_hass a) = (h1, True)"
    "ws_hello R U env r conn mid m a = (if offers_local_adb m
       then (a\<lparr>ad_hass := h1, ad_deferred := \<lparr>df_conn = conn, df_mid = mid, df_msg = m,
               df_panel = panel, df_entry = en_id en, df_high = agreed_protocol m\<rparr> # ad_deferred a\<rparr>, HelloDeferred)
       else (a\<lparr>ad_hass := fst (accept_hello R U env r conn mid m panel en (agreed_protocol m) True h1)\<rparr>,
             HelloGranted r))"
proof -
  obtain panel where panel: "hm_did m = Some panel" "entry_for_did (ad_hass a) panel = OneEntry en"
    using assms by (auto simp: admitted_def)
  obtain h1 where h1: "admit_account (he_now env) conn en (ad_hass a) = (h1, True)"
    using assms admit_account_iff [of "he_now env" conn en "ad_hass a"]
    by (cases "admit_account (he_now env) conn en (ad_hass a)") (simp add: admitted_def)
  show ?thesis
    by (rule that [OF panel h1])
      (use assms panel h1 in \<open>simp add: ws_hello_def admitted_def offers_local_adb_def Let_def,
        subst accept_hello_pair, simp\<close>)
qed

text \<open>What a refusal does before it answers.\<close>

definition before_refusal ::
  "rat \<Rightarrow> client_connection \<Rightarrow> hello_msg \<Rightarrow> hass \<Rightarrow> hass \<Rightarrow> bool" where
  "before_refusal now conn m h h1 \<longleftrightarrow> h1 = h \<or> (\<exists>panel. h1 = follow_refused_panel conn m panel h)
     \<or> (\<exists>panel. h1 = raise_merged_identity_issue panel h)
     \<or> (\<exists>panel user. h1 = async_record_binding_request now panel user (follow_refused_panel conn m panel h))
     \<or> (\<exists>e user. h1 = async_raise_binding_issue e user h)"

lemma before_refusal_simps [simp]:
  "before_refusal now conn m h h" "before_refusal now conn m h (follow_refused_panel conn m panel h)"
  "before_refusal now conn m h (raise_merged_identity_issue panel h)"
  unfolding before_refusal_def by blast+

lemma ws_hello_refused:
  assumes "\<And>en. \<not> admitted conn m (ad_hass a) en"
  obtains h1 code where "before_refusal (he_now env) conn m (ad_hass a) h1"
    "ws_hello R U env r conn mid m a = (a\<lparr>ad_hass := fst (refuse conn mid code h1)\<rparr>, HelloRefused code)"
proof (cases "hm_did m")
  case None
  then show ?thesis by (intro that [OF before_refusal_simps(1), of "''panel_identity_unavailable''"])
      (simp add: ws_hello_def Let_def refuse_def)
next
  case panel: (Some panel)
  show ?thesis
  proof (cases "overlaps (hm_min m) (hm_max m)")
    case False
    then show ?thesis using panel by (intro that [OF before_refusal_simps(2), of "''protocol_unsupported''" panel])
        (simp add: ws_hello_def Let_def refuse_def)
  next
    case overlap: True
    show ?thesis
    proof (cases "entry_for_did (ad_hass a) panel")
      case NoEntry
      define h2 where "h2 = (let h1 = follow_refused_panel conn m panel (ad_hass a) in
        if may_ask_to_bind h1 conn then async_record_binding_request (he_now env) panel (cc_user_id conn) h1 else h1)"
      have "before_refusal (he_now env) conn m (ad_hass a) h2"
        unfolding h2_def before_refusal_def Let_def by (cases "may_ask_to_bind (follow_refused_panel conn m panel (ad_hass a)) conn") auto
      moreover define code where "code = (if panel \<in> dict_keys (hs_removed h2)
        \<and> \<not> list_ex (\<lambda>en. panel_did en = Some panel) (hs_entries h2) then ''entry_removed'' else ''unknown_panel'')"
      moreover have "hello_unknown (he_now env) conn mid m panel (ad_hass a) = refuse conn mid code h2"
        unfolding hello_unknown_def Let_def h2_def [unfolded Let_def, symmetric] code_def by simp
      ultimately show ?thesis using panel overlap NoEntry
        by (intro that [of h2 code]) (simp_all add: ws_hello_def Let_def refuse_def)
    next
      case (SharedEntries es)
      then show ?thesis using panel overlap by (intro that [OF before_refusal_simps(3), of "''unknown_panel''" panel])
          (simp add: ws_hello_def Let_def refuse_def)
    next
      case (OneEntry en)
      show ?thesis
      proof (cases "unconfirmed en (agreed_protocol m)")
        case True
        then show ?thesis using panel overlap OneEntry by (intro that [OF before_refusal_simps(1), of "''unknown_panel''"])
            (simp add: ws_hello_def Let_def refuse_def)
      next
        case False
        then have no: "\<not> may_enter conn en (ad_hass a)"
          using assms [of en] panel overlap OneEntry by (simp add: admitted_def)
        define h1 where "h1 = fst (admit_account (he_now env) conn en (ad_hass a))"
        have adm: "admit_account (he_now env) conn en (ad_hass a) = (h1, False)"
          using no admit_account_iff [of "he_now env" conn en "ad_hass a"] by (simp add: h1_def prod_eq_iff)
        have "before_refusal (he_now env) conn m (ad_hass a) h1"
          using no unfolding h1_def admit_account_def may_enter_def before_refusal_def Let_def by auto
        then show ?thesis using that panel overlap OneEntry False adm
          by (simp add: ws_hello_def Let_def refuse_def)
      qed
    qed
  qed
qed

lemma ws_hello_result:
  "(\<exists>q. snd (ws_hello R U env r conn mid m a) = HelloGranted q)
     \<longleftrightarrow> (\<exists>en. admitted conn m (ad_hass a) en) \<and> \<not> offers_local_adb m"
  "snd (ws_hello R U env r conn mid m a) = HelloDeferred
     \<longleftrightarrow> (\<exists>en. admitted conn m (ad_hass a) en) \<and> offers_local_adb m"
proof -
  consider en where "admitted conn m (ad_hass a) en" | "\<And>en. \<not> admitted conn m (ad_hass a) en" by blast
  then have "((\<exists>q. snd (ws_hello R U env r conn mid m a) = HelloGranted q)
     \<longleftrightarrow> (\<exists>en. admitted conn m (ad_hass a) en) \<and> \<not> offers_local_adb m)
   \<and> (snd (ws_hello R U env r conn mid m a) = HelloDeferred
     \<longleftrightarrow> (\<exists>en. admitted conn m (ad_hass a) en) \<and> offers_local_adb m)"
  proof cases
    case (1 en)
    obtain x where "ws_hello R U env r conn mid m a = (if offers_local_adb m then (fst x, HelloDeferred)
        else (snd x, HelloGranted r))" by (rule ws_hello_admitted [OF 1, of env R U r mid]) (metis fst_conv snd_conv)
    then show ?thesis using 1 by (cases "offers_local_adb m") auto
  next
    case 2
    obtain x code where "ws_hello R U env r conn mid m a = (x, HelloRefused code)"
      by (rule ws_hello_refused [OF 2, of env R U r mid]) simp
    then show ?thesis using 2 by simp
  qed
  then show "(\<exists>q. snd (ws_hello R U env r conn mid m a) = HelloGranted q)
     \<longleftrightarrow> (\<exists>en. admitted conn m (ad_hass a) en) \<and> \<not> offers_local_adb m"
  "snd (ws_hello R U env r conn mid m a) = HelloDeferred
     \<longleftrightarrow> (\<exists>en. admitted conn m (ad_hass a) en) \<and> offers_local_adb m" by blast+
qed

section \<open>Bindings and sessions\<close>

text \<open>What a refusal must leave alone.\<close>

definition same_standing :: "hass \<Rightarrow> hass \<Rightarrow> bool" where
  "same_standing h h' \<longleftrightarrow> w_by_entry (hs_world h') = w_by_entry (hs_world h)
     \<and> w_by_token (hs_world h') = w_by_token (hs_world h) \<and> w_sessions (hs_world h') = w_sessions (hs_world h)
     \<and> hs_entities h' = hs_entities h \<and> (\<forall>e. entry_user h' e = entry_user h e)"

lemma same_standing_refl [simp]: "same_standing h h"
  by (simp add: same_standing_def)

lemma same_standing_trans: "same_standing a b \<Longrightarrow> same_standing b c \<Longrightarrow> same_standing a c"
  by (simp add: same_standing_def)

lemma entry_user_update:
  assumes "\<And>en. en_id (f en) = en_id en" "\<And>en. ed_user_id (en_data (f en)) = ed_user_id (en_data en)"
  shows "entry_user (update_entry e f h) e' = entry_user h e'"
  by (simp add: entry_user_def get_entry_update assms split: option.split)

lemma same_standing_coordinator: "same_standing h (set_coordinator e f h)"
  by (simp add: same_standing_def set_coordinator_def entry_user_update)

lemma same_standing_basic [simp]:
  "same_standing h (tell es g) \<longleftrightarrow> same_standing h g" "same_standing h (create_issue i v g) \<longleftrightarrow> same_standing h g"
  "same_standing h (delete_issue i g) \<longleftrightarrow> same_standing h g"
  "same_standing h (g\<lparr>hs_requests := rq\<rparr>) \<longleftrightarrow> same_standing h g"
  "same_standing h (in_world (emit xs) g) \<longleftrightarrow> same_standing h g"
  by (simp_all add: same_standing_def entry_user_def get_entry_def)

lemma same_standing_fold: "(\<And>x g. same_standing g (f x g)) \<Longrightarrow> same_standing h (fold f xs h)"
  by (induction xs arbitrary: h) (auto intro: same_standing_trans)

lemma same_standing_follow: "same_standing h (follow_refused_panel conn m panel h)"
  unfolding follow_refused_panel_def Let_def
  by (rule same_standing_fold)
    (auto simp: follow_refused_hello_def Let_def intro: same_standing_coordinator split: option.split)

lemma same_standing_binding_issue: "same_standing h (async_raise_binding_issue e user h)"
  by (auto simp: async_raise_binding_issue_def Let_def split: option.split)

lemma before_refusal_standing: "before_refusal now conn m h h1 \<Longrightarrow> same_standing h h1"
  using same_standing_follow same_standing_binding_issue
  by (auto simp: before_refusal_def raise_merged_identity_issue_def async_record_binding_request_def)

lemma refused_standing:
  assumes "ws_hello R U env r conn mid m a = (a', HelloRefused code)"
  shows "same_standing (ad_hass a) (ad_hass a')" "ad_deferred a' = ad_deferred a"
proof -
  have none: "\<not> admitted conn m (ad_hass a) en" for en
    using ws_hello_result [of R U env r conn mid m a] assms by (cases "offers_local_adb m") auto
  obtain h1 c where h1: "before_refusal (he_now env) conn m (ad_hass a) h1"
      "ws_hello R U env r conn mid m a = (a\<lparr>ad_hass := fst (refuse conn mid c h1)\<rparr>, HelloRefused c)"
    by (rule ws_hello_refused [OF none])
  have "same_standing h1 (fst (refuse conn mid c h1))" by (simp add: refuse_def)
  then have "same_standing (ad_hass a) (fst (refuse conn mid c h1))"
    using before_refusal_standing [OF h1(1)] same_standing_trans by blast
  then show "same_standing (ad_hass a) (ad_hass a')" "ad_deferred a' = ad_deferred a"
    using assms h1(2) by auto
qed

lemma same_core_user: "same_core h h' \<Longrightarrow> entry_user h' e = entry_user h e"
  by (simp add: same_core_def entry_user_def get_entry_def)

lemma accept_hello_user: "entry_user (fst (accept_hello R U env r conn mid m panel en high ok h)) e = entry_user h e"
  by (simp add: accept_hello_prepared Let_def same_core_user [OF prepared_core])

text \<open>Only an entry bound to no account is bound, to the account that signs in, when it may ask.\<close>

lemma admit_account_user:
  assumes "get_entry h (en_id en) = Some en"
  shows "entry_user (fst (admit_account now conn en h)) e = (if e = en_id en \<and> ed_user_id (en_data en) = None
     \<and> may_ask_to_bind h conn then Some (cc_user_id conn) else entry_user h e)"
proof -
  have data: "entry_user (update_data e' (\<lambda>d. d\<lparr>ed_user_id := u\<rparr>) g) x
      = (if x = e' \<and> get_entry g x \<noteq> None then u else entry_user g x)" for e' u g x
    using get_entry_Some [of g x] by (cases "get_entry g x") (auto simp: entry_user_def update_data_def get_entry_update)
  have issue: "entry_user (async_delete_binding_issue e' u g) x = entry_user g x" for e' u g x
    by (simp add: async_delete_binding_issue_def Let_def entry_user_def get_entry_def split: option.split)
  have raise: "entry_user (async_raise_binding_issue e' u g) x = entry_user g x" for e' u g x
    using same_standing_binding_issue by (auto simp: same_standing_def)
  have world: "get_entry (in_world f g) x = get_entry g x" for f g x by (simp add: get_entry_def)
  have user: "entry_user h (en_id en) = ed_user_id (en_data en)" using assms by (simp add: entry_user_def)
  show ?thesis
    using assms user
    by (auto simp: admit_account_def Let_def async_bind_user_def issue data raise world split: option.split)
qed

section \<open>The session that is filed\<close>

interpretation connection_part: fixed_part ps_connection
  by unfold_locales simp_all

interpretation capability_part: fixed_part ps_capabilities
  by unfold_locales simp_all

lemma accept_files:
  fixes h R U env r conn mid m panel en high ok
  defines "h' \<equiv> fst (accept_hello R U env r conn mid m panel en high ok h)"
  shows "get (hs_world h') (en_id en) = Some r"
    "for_request (hs_world h') (he_token env) (cc_ref conn) = Some r"
    "ps_user_id (session_of h' r) = cc_user_id conn"
    "ps_capabilities (session_of h' r) = granted_capabilities m ok (w_voice_stream (hs_world h))"
proof -
  let ?h4 = "prepared R conn m panel en h"
  let ?s = "granted_session U env conn mid m panel en high ok ?h4"
  let ?w = "open_session (he_now env) r (set_session r (\<lambda>_. ?s) (hs_world ?h4))"
  have world: "hs_world h' = emit [ResultSent (cc_ref conn) mid (hello_answer env ?s en)] ?w"
    by (simp add: h'_def accept_hello_prepared Let_def)
  have voice: "w_voice_stream (hs_world ?h4) = w_voice_stream (hs_world h)"
    using prepared_core [of h R conn m panel en] by (simp add: same_core_def)
  note f = granted_fields [of U env conn mid m panel en high ok ?h4]
  have conn: "ps_connection ?s = cc_ref conn" by (simp add: granted_session_def Let_def)
  have "ps_connection (w_sessions ?w r) = cc_ref conn"
    using fun_cong [OF connection_part.fixed_open, of _ r] unfolding connection_part.fixed_of_def by (simp add: conn)
  moreover have "map_of (w_by_token ?w) (he_token env) = Some r"
    by (simp add: open_session_def Let_def update_conv' f(4) changed_def emit_def)
  ultimately show "for_request (hs_world h') (he_token env) (cc_ref conn) = Some r"
    by (simp add: world for_request_def)
  have "get ?w (ps_entry_id ?s) = Some r"
    using get_open [of "he_now env" r "set_session r (\<lambda>_. ?s) (hs_world ?h4)"] by simp
  then show "get (hs_world h') (en_id en) = Some r" by (simp add: world get_def f(1))
  show "ps_user_id (session_of h' r) = cc_user_id conn"
    using fun_cong [OF user_part.fixed_open, of _ r] unfolding user_part.fixed_of_def by (simp add: world f(3))
  show "ps_capabilities (session_of h' r) = granted_capabilities m ok (w_voice_stream (hs_world h))"
    using fun_cong [OF capability_part.fixed_open, of _ r] unfolding capability_part.fixed_of_def
    by (simp add: world f(6) voice)
qed

lemma local_adb_granted:
  "''local_adb'' \<in> set (granted_capabilities m ok v) \<longleftrightarrow> offers_local_adb m \<and> ok"
  by (auto simp: granted_capabilities_def offers_local_adb_def Let_def known_capabilities_def)

section \<open>The entities a grant retires\<close>

text \<open>The registry keys of the entities a hello retires: replaced ones, and those of the channels the
  panel says it cannot have.\<close>

definition unsupported_key :: "string \<Rightarrow> string \<Rightarrow> (string \<times> string \<times> string) list" where
  "unsupported_key panel ch = (case catalogue_entry_for_channel ch of
     None \<Rightarrow> []
   | Some (row, suffix) \<Rightarrow> (if ch \<in> set kept_channels then [] else [(cr_platform row, domain, panel @ ''_'' @ suffix)]))"

definition retired_keys :: "string \<Rightarrow> hello_msg \<Rightarrow> (string \<times> string \<times> string) list" where
  "retired_keys panel m = (let d = hello_descriptors m; un = unsupported_channels m in
     map (\<lambda>(p, s). (p, domain, panel @ ''_'' @ s)) (retired_entities d (unknown_channels d) un)
     @ concat (map (unsupported_key panel) un))"

definition without_keys ::
  "string \<Rightarrow> (string \<times> string \<times> string) list \<Rightarrow> entity_item list \<Rightarrow> entity_item list" where
  "without_keys e ks = filter (\<lambda>i. \<not> (ei_entry_id i = Some e \<and> entity_key i \<in> set ks))"

lemma without_keys_ok: "registry_ok items \<Longrightarrow> registry_ok (without_keys e ks items)"
  by (simp add: registry_ok_def without_keys_def distinct_map_filter)

lemma without_keys_append: "without_keys e ks (without_keys e js items) = without_keys e (js @ ks) items"
  by (auto simp: without_keys_def intro!: filter_cong)

lemma without_no_keys [simp]: "without_keys e [] items = items"
  by (simp add: without_keys_def)

lemma remove_own_without:
  assumes R: "registry_lawful R" and ok: "registry_ok (hs_entities h)"
  shows "hs_entities (fst (remove_own_entity R e p u h)) = without_keys e [(p, domain, u)] (hs_entities h)"
proof -
  let ?items = "hs_entities h" and ?k = "(p, domain, u)"
  have none: "without_keys e [?k] ?items = ?items" if "\<And>i. i \<in> set ?items \<Longrightarrow> entity_key i = ?k \<Longrightarrow> ei_entry_id i \<noteq> Some e"
    using that by (auto simp: without_keys_def intro!: filter_True)
  show ?thesis
  proof (cases "find (\<lambda>i. entity_key i = ?k) ?items")
    case None
    then have "i \<in> set ?items \<Longrightarrow> entity_key i \<noteq> ?k" for i by (simp add: find_None_iff)
    then show ?thesis using None none by (simp add: remove_own_entity_def get_entity_id_def)
  next
    case (Some i)
    then have i: "i \<in> set ?items" "entity_key i = ?k" by (auto simp: find_Some_iff)
    have only: "k = i" if "k \<in> set ?items" "entity_key k = ?k" for k
      using that i ok by (auto simp: registry_ok_def distinct_map inj_on_def)
    have same: "k = i" if "k \<in> set ?items" "ei_entity_id k = ei_entity_id i" for k
      using that i(1) ok by (auto simp: registry_ok_def distinct_map inj_on_def)
    have found: "get_entity ?items (ei_entity_id i) = Some i"
    proof (cases "get_entity ?items (ei_entity_id i)")
      case None
      then show ?thesis using i(1) by (auto simp: get_entity_def find_None_iff)
    next
      case (Some k)
      then show ?thesis using same [of k] by (auto simp: get_entity_def find_Some_iff)
    qed
    have id: "get_entity_id ?items p domain u = Some (ei_entity_id i)"
      using Some by (simp add: get_entity_id_def)
    show ?thesis
    proof (cases "ei_entry_id i = Some e")
      case True
      have each: "ei_entity_id k \<noteq> ei_entity_id i \<longleftrightarrow> \<not> (ei_entry_id k = Some e \<and> entity_key k \<in> set [?k])"
        if k: "k \<in> set ?items" for k
      proof (cases "k = i")
        case False
        then show ?thesis using only [OF k] same [OF k] by auto
      qed (use True i(2) in simp)
      have "rl_remove R ?items (ei_entity_id i) = filter (\<lambda>k. ei_entity_id k \<noteq> ei_entity_id i) ?items"
        using R by (simp add: registry_lawful_def)
      also have "\<dots> = without_keys e [?k] ?items"
        unfolding without_keys_def by (rule filter_cong [OF refl]) (rule each)
      finally have "rl_remove R ?items (ei_entity_id i) = without_keys e [?k] ?items" .
      then show ?thesis using True id found by (simp only: remove_own_entity_def option.case if_True fst_conv) simp
    next
      case False
      have "without_keys e [?k] ?items = ?items" by (rule none) (use only False in blast)
      then show ?thesis using id found False by (simp add: remove_own_entity_def)
    qed
  qed
qed

lemma retire_without:
  assumes "registry_lawful R" "registry_ok (hs_entities h)"
  shows "hs_entities (retire_entity R e panel (p, s) h) = without_keys e [(p, domain, panel @ ''_'' @ s)] (hs_entities h)"
  using remove_own_without [OF assms, of e p "panel @ ''_'' @ s"]
  by (cases "remove_own_entity R e p (panel @ ''_'' @ s) h") (auto simp: retire_entity_def split: bool.split)

lemma fold_retire_without:
  assumes R: "registry_lawful R"
  shows "registry_ok (hs_entities h) \<Longrightarrow> hs_entities (fold (retire_entity R e panel) xs h)
    = without_keys e (map (\<lambda>(p, s). (p, domain, panel @ ''_'' @ s)) xs) (hs_entities h)"
proof (induction xs arbitrary: h)
  case (Cons x xs)
  obtain p s where x: "x = (p, s)" by (cases x)
  note r = retire_without [OF R Cons.prems, of e panel p s]
  have "registry_ok (hs_entities (retire_entity R e panel (p, s) h))" using without_keys_ok [OF Cons.prems] r by simp
  from Cons.IH [OF this] show ?case by (simp add: x r without_keys_append)
qed simp

lemma unsupported_one_without:
  assumes "registry_lawful R" "registry_ok (hs_entities (fst acc))"
  shows "hs_entities (fst (remove_unsupported_one R e panel ch acc))
    = without_keys e (unsupported_key panel ch) (hs_entities (fst acc))"
proof -
  obtain h removed where acc: "acc = (h, removed)" by (cases acc)
  show ?thesis
  proof (cases "catalogue_entry_for_channel ch")
    case (Some x)
    obtain row s where x: "x = (row, s)" by (cases x)
    have "registry_ok (hs_entities h)" using assms(2) acc by simp
    note r = remove_own_without [OF assms(1) this, of e "cr_platform row" "panel @ ''_'' @ s"]
    obtain g b where g: "remove_own_entity R e (cr_platform row) (panel @ ''_'' @ s) h = (g, b)" by fastforce
    have "hs_entities g = without_keys e [(cr_platform row, domain, panel @ ''_'' @ s)] (hs_entities h)"
      using r unfolding g by simp
    then show ?thesis using Some g
      by (cases b) (simp_all add: remove_unsupported_one_def unsupported_key_def acc x Let_def)
  qed (simp add: remove_unsupported_one_def unsupported_key_def acc)
qed

lemma fold_unsupported_without:
  assumes R: "registry_lawful R"
  shows "registry_ok (hs_entities (fst acc)) \<Longrightarrow> hs_entities (fst (fold (remove_unsupported_one R e panel) chs acc))
    = without_keys e (concat (map (unsupported_key panel) chs)) (hs_entities (fst acc))"
proof (induction chs arbitrary: acc)
  case (Cons ch chs)
  note r = unsupported_one_without [OF R Cons.prems, of e panel ch]
  have "registry_ok (hs_entities (fst (remove_unsupported_one R e panel ch acc)))"
    using without_keys_ok [OF Cons.prems] r by simp
  from Cons.IH [OF this] show ?case by (simp add: r without_keys_append)
qed simp

lemma remove_unsupported_without:
  assumes "registry_lawful R" "registry_ok (hs_entities h)"
  shows "hs_entities (remove_unsupported_channels R e panel chs h)
    = without_keys e (concat (map (unsupported_key panel) chs)) (hs_entities h)"
  using fold_unsupported_without [of R "(h, [])" e panel chs] assms
  by (cases "fold (remove_unsupported_one R e panel) chs (h, [])") (auto simp: remove_unsupported_channels_def)

lemma accept_entities:
  assumes R: "registry_lawful R" and ok: "registry_ok (hs_entities h)"
  shows "hs_entities (fst (accept_hello R U env r conn mid m panel en high local_ok h))
    = without_keys (en_id en) (retired_keys panel m) (hs_entities h)"
proof -
  have issue: "hs_entities (async_delete_binding_issue e u (delete_merged_identity_issue en h)) = hs_entities h" for e u
    by (simp add: async_delete_binding_issue_def delete_merged_identity_issue_def Let_def split: option.split)
  let ?h1 = "async_delete_binding_issue (en_id en) (Some (cc_user_id conn)) (delete_merged_identity_issue en h)"
  let ?d = "hello_descriptors m" and ?un = "unsupported_channels m"
  let ?ks = "map (\<lambda>(p, s). (p, domain, panel @ ''_'' @ s)) (retired_entities ?d (unknown_channels ?d) ?un)"
  let ?h2 = "fold (retire_entity R (en_id en) panel) (retired_entities ?d (unknown_channels ?d) ?un) ?h1"
  let ?h3 = "if shown_elsewhere ''volume'' ?d (unknown_channels ?d)
    then tell [VolumeRetirement (en_id en) panel] ?h2 else ?h2"
  have h2: "hs_entities ?h2 = without_keys (en_id en) ?ks (hs_entities h)"
    using fold_retire_without [OF R, of ?h1] ok issue by simp
  then have h3: "hs_entities ?h3 = without_keys (en_id en) ?ks (hs_entities h)" by simp
  have "registry_ok (hs_entities ?h3)" using without_keys_ok [OF ok] h3 by simp
  from remove_unsupported_without [OF R this] show ?thesis
    by (simp add: accept_hello_prepared Let_def prepared_def h3 without_keys_append retired_keys_def del: if_split)
qed

end
