(* ===== verification/Identity_Moves.thy ===== *)
theory Identity_Moves
  imports Admission_Runs
begin

text \<open>
  What moving an entry to a new identity does to the entity registry: exactly the entry's own
  entities change, each keeps its entity ID and suffix, and an interrupted move is finished from
  whichever of the two stores was saved.
\<close>

section \<open>All of the changes succeed\<close>

definition moved_item :: "string \<Rightarrow> string \<Rightarrow> string \<Rightarrow> entity_item \<Rightarrow> entity_item" where
  "moved_item e old new i = (if owned e old i then i\<lparr>ei_unique_id := target_id old new i\<rparr> else i)"

definition moved_in :: "string set \<Rightarrow> string \<Rightarrow> string \<Rightarrow> string \<Rightarrow> entity_item \<Rightarrow> entity_item" where
  "moved_in S e old new i = (if ei_entity_id i \<in> S then moved_item e old new i else i)"

lemma moved_fields [simp]:
  "ei_entity_id (moved_item e old new i) = ei_entity_id i" "ei_entry_id (moved_item e old new i) = ei_entry_id i"
  "ei_domain (moved_item e old new i) = ei_domain i" "ei_platform (moved_item e old new i) = ei_platform i"
  "ei_entity_id (moved_in S e old new i) = ei_entity_id i" "ei_domain (moved_in S e old new i) = ei_domain i"
  by (simp_all add: moved_item_def moved_in_def)

lemma owned_id:
  assumes "owned e old i" shows "ei_unique_id i = old @ drop (length old) (ei_unique_id i)"
proof -
  have "take (length (old @ ''_'')) (ei_unique_id i) = old @ ''_''" using assms by (simp add: owned_def starts_with_def)
  then have "take (length old) (ei_unique_id i) = old"
    using take_take [of "length old" "length (old @ ''_'')" "ei_unique_id i"] by simp
  then show ?thesis by (metis append_take_drop_id)
qed

lemma owned_platform: "owned e old i \<Longrightarrow> ei_platform i = domain"
  by (simp add: owned_def)

lemma free_holder:
  assumes "registry_ok items" "target_free items old new i" "k \<in> set items"
    and "entity_key k = (ei_domain i, domain, target_id old new i)"
  shows "ei_entity_id k = ei_entity_id i"
proof -
  have "find (\<lambda>i'. entity_key i' = (ei_domain i, domain, target_id old new i)) items = Some k"
    using assms(1,3,4) unfolding registry_ok_def
  proof (induction items)
    case (Cons x xs)
    then show ?case by (cases "entity_key x = (ei_domain i, domain, target_id old new i)") (auto simp: rev_image_eqI)
  qed simp
  then show ?thesis using assms(2) by (simp add: target_free_def get_entity_id_def)
qed

definition movable :: "entity_item list \<Rightarrow> string \<Rightarrow> string \<Rightarrow> string \<Rightarrow> bool" where
  "movable items e old new \<longleftrightarrow> registry_ok items \<and> old \<noteq> new
     \<and> list_all (target_free items old new) (filter (owned e old) items)"

lemma movableD:
  assumes "movable items e old new"
  shows "registry_ok items" "old \<noteq> new" "list_all (target_free items old new) (filter (owned e old) items)"
  using assms by (simp_all add: movable_def)

lemma same_item: "registry_ok items \<Longrightarrow> i \<in> set items \<Longrightarrow> k \<in> set items \<Longrightarrow> ei_entity_id i = ei_entity_id k \<Longrightarrow> i = k"
  by (auto simp: registry_ok_def distinct_map inj_on_def)

lemma same_key: "registry_ok items \<Longrightarrow> i \<in> set items \<Longrightarrow> k \<in> set items \<Longrightarrow> entity_key i = entity_key k \<Longrightarrow> i = k"
  by (auto simp: registry_ok_def distinct_map inj_on_def)

lemma target_taken_by_itself:
  assumes m: "movable items e old new" and i: "i \<in> set items" "owned e old i" "k \<in> set items" and
    key: "entity_key (moved_in S e old new k) = (ei_domain i, domain, target_id old new i)"
  shows "k = i"
proof (cases "ei_entity_id k \<in> S \<and> owned e old k")
  case True
  then have "drop (length old) (ei_unique_id k) = drop (length old) (ei_unique_id i)" "ei_domain k = ei_domain i"
    using key by (simp_all add: moved_in_def moved_item_def entity_key_def target_id_def)
  moreover have "ei_unique_id k = old @ drop (length old) (ei_unique_id k)"
      "ei_unique_id i = old @ drop (length old) (ei_unique_id i)"
    using owned_id True i(2) by blast+
  ultimately have "ei_unique_id k = ei_unique_id i" "ei_domain k = ei_domain i" by simp_all
  then have "entity_key k = entity_key i"
    using True i(2) by (simp add: entity_key_def owned_def)
  then show ?thesis using same_key [OF movableD(1) [OF m] i(3,1)] by blast
next
  case False
  then have "moved_in S e old new k = k" by (auto simp: moved_in_def moved_item_def)
  moreover have "target_free items old new i" using movableD(3) [OF m] i by (simp add: list_all_iff)
  ultimately have "ei_entity_id k = ei_entity_id i"
    using free_holder [OF movableD(1) [OF m] _ i(3)] key by simp
  then show ?thesis using same_item [OF movableD(1) [OF m] i(3,1)] by blast
qed

lemma moved_in_ok:
  assumes m: "movable items e old new" shows "registry_ok (map (moved_in S e old new) items)"
proof -
  have "inj_on (\<lambda>i. entity_key (moved_in S e old new i)) (set items)"
  proof (rule inj_onI)
    fix i k assume i: "i \<in> set items" and k: "k \<in> set items"
      and eq: "entity_key (moved_in S e old new i) = entity_key (moved_in S e old new k)"
    consider "ei_entity_id i \<in> S \<and> owned e old i" | "ei_entity_id k \<in> S \<and> owned e old k"
      | "moved_in S e old new i = i" "moved_in S e old new k = k"
      by (cases "ei_entity_id i \<in> S \<and> owned e old i"; cases "ei_entity_id k \<in> S \<and> owned e old k")
        (auto simp: moved_in_def moved_item_def)
    then show "i = k"
    proof cases
      case 1
      then have "entity_key (moved_in S e old new i) = (ei_domain i, domain, target_id old new i)"
        by (simp add: moved_in_def moved_item_def entity_key_def owned_def)
      then show ?thesis using target_taken_by_itself [OF m i _ k] 1 eq by metis
    next
      case 2
      then have "entity_key (moved_in S e old new k) = (ei_domain k, domain, target_id old new k)"
        by (simp add: moved_in_def moved_item_def entity_key_def owned_def)
      then show ?thesis using target_taken_by_itself [OF m k _ i] 2 eq by metis
    next
      case 3
      then show ?thesis using same_key [OF movableD(1) [OF m] i k] eq by simp
    qed
  qed
  then show ?thesis using movableD(1) [OF m] by (simp add: registry_ok_def distinct_map inj_on_def comp_def)
qed

lemma target_not_taken:
  assumes m: "movable items e old new" and i: "i \<in> set items" "owned e old i" "ei_entity_id i \<notin> S"
  shows "(ei_domain i, domain, target_id old new i) \<notin> set (map entity_key (map (moved_in S e old new) items))"
proof
  assume "(ei_domain i, domain, target_id old new i) \<in> set (map entity_key (map (moved_in S e old new) items))"
  then obtain k where k: "k \<in> set items" "entity_key (moved_in S e old new k) = (ei_domain i, domain, target_id old new i)"
    by auto
  then have "k = i" using target_taken_by_itself [OF m i(1,2)] by blast
  then have "ei_unique_id i = target_id old new i" using k(2) i(3) by (simp add: moved_in_def entity_key_def)
  then show False using owned_id [OF i(2)] movableD(2) [OF m]
    by (metis append_same_eq target_id_def)
qed

lemma find_moved:
  assumes "registry_ok items" "i \<in> set items" "ei_entity_id i \<notin> S"
  shows "get_entity (map (moved_in S e old new) items) (ei_entity_id i) = Some i"
proof -
  have "distinct (map ei_entity_id xs) \<Longrightarrow> i \<in> set xs \<Longrightarrow>
      find (\<lambda>k. ei_entity_id k = ei_entity_id i) (map (moved_in S e old new) xs) = Some (moved_in S e old new i)" for xs
    by (induction xs) (auto simp: rev_image_eqI)
  from this [of items] show ?thesis using assms by (simp add: get_entity_def registry_ok_def) (simp add: moved_in_def)
qed

lemma rekey_todo:
  assumes R: "registry_lawful R" and m: "movable items e old new"
  shows "distinct (map ei_entity_id todo) \<Longrightarrow> set todo \<subseteq> set (filter (owned e old) items) \<Longrightarrow>
    ei_entity_id ` set todo \<inter> S = {} \<Longrightarrow>
    rekey_all R (map (\<lambda>i. (ei_entity_id i, target_id old new i)) todo) (map (moved_in S e old new) items)
      = (map (moved_in (S \<union> ei_entity_id ` set todo) e old new) items, True)"
proof (induction todo arbitrary: S)
  case (Cons i todo)
  have i: "i \<in> set items" "owned e old i" "ei_entity_id i \<notin> S" using Cons.prems by auto
  let ?cur = "map (moved_in S e old new) items" and ?u = "target_id old new i"
  have "rl_rekey R ?cur (ei_entity_id i) ?u = Some (map (rekeyed (ei_entity_id i) ?u) ?cur)"
    using R [unfolded registry_lawful_def, THEN conjunct1, rule_format, OF moved_in_ok [OF m]
      find_moved [OF movableD(1) [OF m] i(1,3)]] target_not_taken [OF m i] by (simp add: owned_platform [OF i(2)])
  moreover have "map (rekeyed (ei_entity_id i) ?u) ?cur = map (moved_in (insert (ei_entity_id i) S) e old new) items"
  proof -
    have "rekeyed (ei_entity_id i) ?u (moved_in S e old new k) = moved_in (insert (ei_entity_id i) S) e old new k"
      if "k \<in> set items" for k
    proof (cases "ei_entity_id k = ei_entity_id i")
      case True
      then have "k = i" using same_item [OF movableD(1) [OF m] that i(1)] by simp
      then show ?thesis using i by (simp add: rekeyed_def moved_in_def moved_item_def)
    qed (simp add: rekeyed_def moved_in_def)
    then show ?thesis by simp
  qed
  ultimately have "rl_rekey R ?cur (ei_entity_id i) ?u = Some (map (moved_in (insert (ei_entity_id i) S) e old new) items)"
    by (simp only:)
  then show ?case
    using Cons.IH [of "insert (ei_entity_id i) S"] Cons.prems by simp
qed simp

lemma rekey_moves:
  assumes R: "registry_lawful R" and m: "movable items e old new"
  shows "rekey_all R (identity_changes items e old new) items = (map (moved_item e old new) items, True)"
proof -
  let ?todo = "filter (owned e old) items"
  have "distinct (map ei_entity_id ?todo)" 
    using movableD(1) [OF m] by (simp add: registry_ok_def distinct_map_filter)
  from rekey_todo [OF R m this, of "{}"]
  have "rekey_all R (identity_changes items e old new) (map (moved_in {} e old new) items)
      = (map (moved_in (ei_entity_id ` set ?todo) e old new) items, True)"
    by (simp add: identity_changes_def)
  moreover have "map (moved_in {} e old new) items = items" by (simp add: moved_in_def map_idI)
  moreover have "moved_in (ei_entity_id ` set ?todo) e old new i = moved_item e old new i" if "i \<in> set items" for i
    using same_item [OF movableD(1) [OF m] that] that by (auto simp: moved_in_def moved_item_def)
  ultimately show ?thesis by simp
qed

lemma moved_registry_ok:
  "movable items e old new \<Longrightarrow> registry_ok (map (moved_item e old new) items)"
proof -
  have "moved_in UNIV e old new = moved_item e old new" by (rule ext) (simp add: moved_in_def)
  then show "movable items e old new \<Longrightarrow> registry_ok (map (moved_item e old new) items)"
    using moved_in_ok [of items e old new UNIV] by simp
qed

section \<open>The commit\<close>

lemma can_move_movable:
  "registry_ok (hs_entities h) \<Longrightarrow> old \<noteq> new \<Longrightarrow> can_move h e old new \<Longrightarrow> movable (hs_entities h) e old new"
  by (simp add: movable_def can_move_def)

definition committed_entry :: "string \<Rightarrow> string \<Rightarrow> config_entry \<Rightarrow> config_entry" where
  "committed_entry old new en = en\<lparr>en_unique_id := Some new, en_data := committed_data old new (en_data en)\<rparr>"

lemma commit_outcome:
  assumes "registry_lawful R" "movable (hs_entities h) (en_id en) old new"
  obtains h' where "commit_identity R now en old new reload h = (h', Some ())"
    "hs_entities h' = map (moved_item (en_id en) old new) (hs_entities h)"
    "hs_entries h' = map (\<lambda>n. if en_id n = en_id en then committed_entry old new n else n) (hs_entries h)"
proof -
  let ?e = "en_id en"
  obtain h' where h': "commit_identity R now en old new reload h = (h', Some ())"
    "hs_entities h' = map (moved_item ?e old new) (hs_entities h)"
    "hs_entries h' = map (\<lambda>n. if en_id n = ?e then n\<lparr>en_unique_id := Some new,
         en_data := committed_data old new (en_data n)\<rparr> else n)
       (map (\<lambda>n. if en_id n = ?e then n\<lparr>en_data := (en_data n)\<lparr>ed_pending := Some \<lparr>pi_did = Some new,
         pi_legacy_did = Some old, pi_address = ed_address (en_data n)\<rparr>\<rparr>\<rparr> else n) (hs_entries h))"
    using rekey_moves [OF assms]
    by (simp add: commit_identity_def Let_def tell_def delete_issue_def) (simp add: update_entry_def update_data_def)
  have "hs_entries h' = map (\<lambda>n. if en_id n = ?e then committed_entry old new n else n) (hs_entries h)"
    unfolding h'(3) by (auto simp: committed_entry_def committed_data_def)
  with h'(1,2) show ?thesis by (rule that)
qed

lemma adopt_moves:
  assumes "registry_lawful R" "registry_ok (hs_entities h)" "en_unique_id en = Some old"
    and "is_valid_discovery_id new" "new \<noteq> old" "identity_available h (en_id en) new" "can_move h (en_id en) old new"
  obtains h' where "adopt_moved_identity R now en new reload h = (h', Some True)"
    "hs_entities h' = map (moved_item (en_id en) old new) (hs_entities h)"
    "hs_entries h' = map (\<lambda>n. if en_id n = en_id en then committed_entry old new n else n) (hs_entries h)"
proof -
  have "movable (hs_entities h) (en_id en) old new" 
    by (rule can_move_movable [OF assms(2) assms(5) [symmetric] assms(7)])
  from commit_outcome [OF assms(1) this] obtain h' where
      h': "commit_identity R now en old new reload h = (h', Some ())"
      "hs_entities h' = map (moved_item (en_id en) old new) (hs_entities h)"
      "hs_entries h' = map (\<lambda>n. if en_id n = en_id en then committed_entry old new n else n) (hs_entries h)" .
  have "adopt_moved_identity R now en new reload h = (h', Some True)"
    using assms(3-7) by (simp add: adopt_moved_identity_def h'(1))
  then show ?thesis using h'(2,3) by (rule that)
qed

section \<open>Interrupted moves\<close>

lemma native_owned:
  assumes "native_unique_id u" "take 64 u = old" shows "starts_with u (old @ ''_'')"
proof -
  have "64 < length u" "u ! 64 = CHR ''_''" "length old = 64" using assms by (auto simp: native_unique_id_def)
  then have "take 65 u = old @ ''_''" using take_Suc_conv_app_nth [of 64 u] assms(2) by simp
  then show ?thesis using \<open>length old = 64\<close> by (simp add: starts_with_def)
qed

lemma owned_prefix: "starts_with u (old @ ''_'') \<Longrightarrow> length old = 64 \<Longrightarrow> take 64 u = old"
proof -
  assume s: "starts_with u (old @ ''_'')" and l: "length old = 64"
  have "take (length old) (take (length (old @ ''_'')) u) = old" using s by (simp add: starts_with_def)
  then show "take 64 u = old" using l by simp
qed

lemma moved_id: "length old = length new \<Longrightarrow> owned e old i \<Longrightarrow> starts_with (target_id old new i) (new @ ''_'')"
proof -
  assume len: "length old = length new" and own: "owned e old i"
  then have "take (Suc (length old)) (ei_unique_id i) = old @ ''_''" by (simp add: owned_def starts_with_def)
  then have "take 1 (drop (length old) (ei_unique_id i)) = ''_''"
    by (metis append_eq_conv_conj append_take_drop_id diff_Suc_1 diff_add_inverse drop_take plus_1_eq_Suc
        add.commute)
  then show "starts_with (target_id old new i) (new @ ''_'')"
    by (simp add: starts_with_def target_id_def)
qed

text \<open>After the move the entry's native entities carry the new identity only.\<close>

lemma moved_identities:
  assumes ids: "set (native_identities h e) \<subseteq> {old, new}" and len: "length old = 64" "length new = 64"
    and h': "hs_entities h' = map (moved_item e old new) (hs_entities h)"
  shows "set (native_identities h' e) \<subseteq> {new}"
proof
  fix u assume "u \<in> set (native_identities h' e)"
  then obtain i where i: "i \<in> set (hs_entities h)" "ei_entry_id i = Some e" "ei_platform i = domain"
      "native_unique_id (ei_unique_id (moved_item e old new i))" "u = take 64 (ei_unique_id (moved_item e old new i))"
    by (auto simp: native_identities_def entities_of_def h')
  show "u \<in> {new}"
  proof (cases "owned e old i")
    case True
    then have "starts_with (ei_unique_id (moved_item e old new i)) (new @ ''_'')"
      using moved_id [of old new e i] len by (simp add: moved_item_def)
    then show ?thesis using owned_prefix [of _ new] len i(5) by simp
  next
    case False
    then have "u \<in> set (native_identities h e)"
      using i by (force simp: native_identities_def entities_of_def moved_item_def)
    moreover have "u \<noteq> old" using native_owned [of "ei_unique_id i" old] False i by (auto simp: owned_def moved_item_def)
    ultimately show ?thesis using ids by auto
  qed
qed

lemma nothing_left_to_move:
  assumes "length old = 64" "length new = 64" "old \<noteq> new"
  shows "identity_changes (map (moved_item e old new) items) e old new = []"
proof -
  have "\<not> owned e old (moved_item e old new i)" for i
  proof (cases "owned e old i")
    case True
    then have "starts_with (target_id old new i) (new @ ''_'')" using moved_id assms by simp
    then have "take 64 (target_id old new i) = new" using owned_prefix assms by blast
    then have "\<not> starts_with (target_id old new i) (old @ ''_'')" using owned_prefix [of _ old] assms by auto
    then show ?thesis using True by (simp add: moved_item_def owned_def)
  qed (simp add: moved_item_def)
  then show ?thesis by (simp add: identity_changes_def)
qed

lemma others_same:
  assumes "hs_entries h' = map (\<lambda>n. if en_id n = e then f n else n) (hs_entries h)" "\<And>n. en_id (f n) = en_id n"
  shows "others h' e = others h e"
proof -
  have "filter (\<lambda>m. en_id m \<noteq> e) (map (\<lambda>n. if en_id n = e then f n else n) es) = filter (\<lambda>m. en_id m \<noteq> e) es" for es
    using assms(2) by (induction es) auto
  then show ?thesis by (simp add: others_def assms(1))
qed

text \<open>The entry was saved under its new identity, its entities were not.\<close>

lemma entries_saved_first:
  assumes R: "registry_lawful R" and items: "registry_ok (hs_entities h)"
    and old: "length old = 64" and new: "length new = 64" "new \<noteq> old"
    and can: "can_move h e old new" and free: "identity_available h e new"
    and en: "en_id en = e" "en_unique_id en = Some new" "installation en" "ed_previous (en_data en) = Some old"
  shows "reconcile_identity R now en h =
    (h\<lparr>hs_entities := map (moved_item e old new) (hs_entities h)\<rparr>, Some True)"
proof -
  have m: "movable (hs_entities h) e old new" by (rule can_move_movable [OF items new(2) [symmetric] can])
  let ?recorded = "native_identities h e"
  have finish: "finish_rekey R en (Some old) recorded h
      = (h\<lparr>hs_entities := map (moved_item e old new) (hs_entities h)\<rparr>, Some True)" for recorded
    using rekey_moves [OF R m] can free en by (simp add: finish_rekey_def)
  show ?thesis
  proof (cases ?recorded rule: remdups_adj.cases)
    case (2 ahead)
    then have "ahead = old \<or> ahead = new" using can by (auto simp: can_move_def)
    then show ?thesis using 2 finish en by (auto simp: reconcile_identity_def Let_def)
  qed (use finish en in \<open>simp_all add: reconcile_identity_def Let_def\<close>)
qed

text \<open>The entities were saved under the new identity, the entry was not.\<close>

lemma registry_saved_first:
  assumes R: "registry_lawful R" and items: "registry_ok (hs_entities h)"
    and old: "length old = 64" and new: "length new = 64" "new \<noteq> old"
    and can: "can_move h e old new" and free: "identity_available h e new"
    and en: "en_id en = e" "en_unique_id en = Some old" "installation en" "ed_previous (en_data en) \<noteq> Some new"
    and some: "native_identities (h\<lparr>hs_entities := map (moved_item e old new) (hs_entities h)\<rparr>) e \<noteq> []"
  obtains h' where "reconcile_identity R now en (h\<lparr>hs_entities := map (moved_item e old new) (hs_entities h)\<rparr>)
      = (h', Some True)" "hs_entities h' = map (moved_item e old new) (hs_entities h)"
    "hs_entries h' = map (\<lambda>n. if en_id n = e then committed_entry old new n else n) (hs_entries h)"
proof -
  let ?h = "h\<lparr>hs_entities := map (moved_item e old new) (hs_entities h)\<rparr>"
  have m: "movable (hs_entities h) e old new" by (rule can_move_movable [OF items new(2) [symmetric] can])
  have "set (native_identities ?h e) \<subseteq> {new}"
    by (rule moved_identities [of h e old new]) (use can old new in \<open>auto simp: can_move_def\<close>)
  moreover have "distinct (native_identities ?h e)" by (simp add: native_identities_def)
  ultimately have recorded: "native_identities ?h e = [new]"
    using some by (cases "native_identities ?h e" rule: remdups_adj.cases) auto
  have free': "identity_available ?h e new" using free by (simp add: identity_available_def others_def)
  have none: "filter (owned e old) (hs_entities ?h) = []"
    using nothing_left_to_move [OF old new(1) new(2) [symmetric], of e "hs_entities h"]
    by (simp add: identity_changes_def)
  have "movable (hs_entities ?h) (en_id en) old new"
    using moved_registry_ok [OF m] new(2) none by (simp add: movable_def en(1))
  from commit_outcome [OF R this] obtain h' where
      h': "commit_identity R now en old new False ?h = (h', Some ())"
      "hs_entities h' = map (moved_item e old new) (hs_entities ?h)"
      "hs_entries h' = map (\<lambda>n. if en_id n = e then committed_entry old new n else n) (hs_entries ?h)"
    unfolding en(1) .
  have "moved_item e old new i = i" if "i \<in> set (hs_entities ?h)" for i
  proof -
    have "\<not> owned e old i" using none that unfolding filter_empty_conv by blast
    then show ?thesis by (simp add: moved_item_def)
  qed
  then have entities: "hs_entities h' = hs_entities ?h" unfolding h'(2) by (rule map_idI)
  have finished: "reconcile_identity R now en ?h = (h', Some True)"
    using recorded en new(2) free' h'(1) by (simp add: reconcile_identity_def Let_def en(1))
  show ?thesis by (rule that [OF finished]) (simp_all add: entities h'(3) del: map_map map_eq_conv)
qed

end
