(* ===== verification/Admission_Properties.thy ===== *)
theory Admission_Properties
  imports Admission_Outcomes Identity_Moves Transport_Properties
begin

text \<open>
  The properties of admission: who holds an entry's session, what a hello may and may not do, how an
  entry moves to another identity, which entities a hello retires, and the logs a panel sends.  The
  sample run adds an entry, loads it and admits one hello.
\<close>

section \<open>A sample run\<close>

definition sample_lib :: registry_lib where
  "sample_lib = \<lparr>rl_rekey = (\<lambda>items e u. Some (map (rekeyed e u) items)),
     rl_remove = (\<lambda>items e. filter (\<lambda>i. ei_entity_id i \<noteq> e) items)\<rparr>"

lemma sample_lawful: "registry_lawful sample_lib"
  by (simp add: registry_lawful_def sample_lib_def)

definition sample_urls :: url_lib where
  "sample_urls = \<lparr>ul_parse = (\<lambda>s. None), ul_build = (\<lambda>s. None)\<rparr>"

definition sample_did :: string where
  "sample_did = replicate 64 CHR ''a''"

definition sample_entry :: config_entry where
  "sample_entry = \<lparr>en_id = ''e'', en_loaded = False, en_unique_id = Some sample_did,
     en_data = \<lparr>ed_address = ''10.0.0.2'', ed_user_id = None, ed_installation = True, ed_previous = None,
       ed_legacy_did = None, ed_pending = None, ed_cutover = None\<rparr>,
     en_prerelease = False, en_coordinator = None\<rparr>"

definition sample_gate :: "config_entry list \<Rightarrow> gate" where
  "sample_gate es = \<lparr>gt_admission = \<lparr>ad_hass = \<lparr>hs_sys = \<lparr>sy_world = blank_world, sy_waits = []\<rparr>,
     hs_entries = es, hs_entities = [], hs_devices = \<lparr>dr_devices = [], dr_deleted = [], dr_composites = (\<lambda>_. [])\<rparr>,
     hs_issues = [], hs_removed = [], hs_requests = [], hs_operations = [], hs_tokens = [''token''],
     hs_log_policy = default_policy, hs_log_busy = [], hs_effects = []\<rparr>, ad_deferred = []\<rparr>, gt_accepted = []\<rparr>"

definition sample_conn :: client_connection where
  "sample_conn = \<lparr>cc_ref = 3, cc_user_id = ''user'', cc_system_generated = False,
     cc_refresh_token = Some ''token'', cc_remote = None\<rparr>"

definition sample_hello :: hello_msg where
  "sample_hello = \<lparr>hm_did = Some sample_did, hm_min = 5, hm_max = 5, hm_version = ''1.0.0'', hm_version_code = 1,
     hm_package = None, hm_contract_digest = [], hm_capabilities = [''state'', ''logs''], hm_channels = [],
     hm_unsupported = [], hm_addresses = [], hm_http_port = None, hm_voice_client = None, hm_saved_sink = None\<rparr>"

definition sample_env :: hello_env where
  "sample_env = \<lparr>he_now = 0, he_token = ''tok'', he_version = ''1.0.0'', he_lifecycle = PNone,
     he_connection = PNone, he_entity_count = None, he_voice_grant = PNone\<rparr>"

definition sample_loaded :: config_entry where
  "sample_loaded = sample_entry\<lparr>en_loaded := True\<rparr>"

definition sample_admitted :: "admission \<times> hello_result" where
  "sample_admitted = ws_hello sample_lib sample_urls sample_env 0 sample_conn 1 sample_hello
     (gt_admission (sample_gate [sample_loaded]))"

definition sample_granted :: gate where
  "sample_granted = (sample_gate [sample_loaded])\<lparr>gt_admission := fst sample_admitted\<rparr>"

lemma valid_sample: "is_valid_discovery_id sample_did"
  by code_simp

lemma reach_loaded: "gate_reachable sample_lib sample_urls P L (sample_gate [sample_loaded])"
proof -
  have "start_gate (sample_gate [])"
    by (simp add: start_gate_def sample_gate_def start_world_def blank_world_def blank_session_def)
  then have "gate_reachable sample_lib sample_urls P L (sample_gate [])" by (rule gate_reachable.start)
  moreover have "new_entry (sample_gate []) sample_entry"
    using valid_sample by (simp add: new_entry_def sample_gate_def sample_entry_def blank_world_def get_def)
  ultimately have "gate_reachable sample_lib sample_urls P L (sample_gate [sample_entry])"
    using gate_reachable.step [OF _ gate_step.added, of sample_lib sample_urls P L "sample_gate []" sample_entry]
    by (simp add: sample_gate_def)
  moreover have "get_entry (gate_hass (sample_gate [sample_entry])) ''e'' = Some sample_entry"
    by (simp add: get_entry_def sample_gate_def sample_entry_def)
  moreover have "forget_removed_panel sample_entry h = h" if "hs_removed h = []" for h
    using that valid_sample
    by (simp add: forget_removed_panel_def panel_did_def sample_entry_def async_discard_def)
  ultimately show ?thesis
    using gate_reachable.step [OF _ gate_step.loaded, of sample_lib sample_urls P L "sample_gate [sample_entry]" "''e''" sample_entry]
    by (simp add: update_entry_def sample_gate_def sample_loaded_def)
      (simp add: sample_entry_def)
qed

lemma sample_result: "snd sample_admitted = HelloGranted 0"
  by code_simp

text \<open>The hello of a panel whose entry has no account yet binds the account that sent it.\<close>

lemma hello_binds_new_panel:
  "entry_user (gate_hass (sample_gate [sample_loaded])) ''e'' = None
    \<and> entry_user (ad_hass (fst sample_admitted)) ''e'' = Some ''user''"
  by code_simp

lemma sample_session: "get (hs_world (gate_hass sample_granted)) ''e'' = Some 0"
  by code_simp

lemma sample_new: "new_ref (hs_sys (gate_hass (sample_gate es))) 0"
    "he_token sample_env \<notin> dict_keys (w_by_token (hs_world (gate_hass (sample_gate es))))"
  by (simp_all add: new_ref_def sample_gate_def blank_world_def dict_keys_def)

lemma sample_hello_result: "ws_hello sample_lib sample_urls sample_env 0 sample_conn 1 sample_hello
    (gt_admission (sample_gate [sample_loaded])) = (gt_admission sample_granted, HelloGranted 0)"
  using sample_result by (simp add: sample_granted_def sample_admitted_def prod_eq_iff)

lemma reach_granted: "gate_reachable sample_lib sample_urls P L sample_granted"
  using gate_reachable.step [OF reach_loaded gate_step.hello [OF sample_new sample_hello_result]]
  by (simp add: sample_granted_def)

section \<open>Who holds a session\<close>

text \<open>C2. At every moment, whatever hellos, health answers, account changes, entry changes and log
  policies came before and in whatever order, an entry's session is held by the account the entry is
  bound to, under the identity the entry is known by, while the entry is loaded and confirmed as an
  installation; and a session that was granted logs reads exactly the sources of the current policy.\<close>

theorem sessions_belong:
  assumes "gate_reachable R U P L g" "get (hs_world (gate_hass g)) e = Some r"
  shows "(\<exists>en. get_entry (gate_hass g) e = Some en \<and> en_loaded en \<and> installation en
      \<and> ed_user_id (en_data en) = Some (ps_user_id (session_of (gate_hass g) r))
      \<and> en_unique_id en = Some (ps_did (session_of (gate_hass g) r)))
    \<and> (''logs'' \<in> set (ps_capabilities (session_of (gate_hass g) r)) \<longrightarrow>
      ps_log_sources (session_of (gate_hass g) r) = policy_sources (hs_log_policy (gate_hass g)))"
proof -
  have "held (known_ids g) (hs_log_policy (gate_hass g)) (gate_hass g)"
    using gate_reachable_ok [OF assms(1)] by (simp add: gate_ok_def gate_held_def)
  then have "session_held (gate_hass g) e r" using assms(2) by (simp add: held_def)
  then show ?thesis
    by (auto simp: session_held_def owns_def)
qed

lemma sessions_belong_witness:
  "\<exists>en. get_entry (gate_hass sample_granted) ''e'' = Some en \<and> en_loaded en \<and> installation en
      \<and> ed_user_id (en_data en) = Some (ps_user_id (session_of (gate_hass sample_granted) 0))
      \<and> en_unique_id en = Some (ps_did (session_of (gate_hass sample_granted) 0))"
  by (rule sessions_belong [OF reach_granted sample_session, THEN conjunct1])

section \<open>What one hello does\<close>

text \<open>C8. A hello opens a session exactly when its protocol range meets this integration's, its
  identity names one loaded entry, the entry's identity is confirmed and agrees, and the entry is
  bound to the account that sent it, or to none and that account may ask; one that also offers
  \<open>local_adb\<close> with \<open>management\<close> waits instead.  The session it opens is the entry's session, is found by its
  token on its own connection only, belongs to the account, and never has \<open>local_adb\<close>.\<close>

theorem hello_grants:
  assumes "ws_hello R U env r conn mid m a = (a', res)"
  shows "((\<exists>q. res = HelloGranted q) \<longleftrightarrow> (\<exists>en. admitted conn m (ad_hass a) en) \<and> \<not> offers_local_adb m)
    \<and> (res = HelloDeferred \<longleftrightarrow> (\<exists>en. admitted conn m (ad_hass a) en) \<and> offers_local_adb m)
    \<and> (\<forall>q en. res = HelloGranted q \<and> admitted conn m (ad_hass a) en \<longrightarrow> q = r
       \<and> get (hs_world (ad_hass a')) (en_id en) = Some r
       \<and> for_request (hs_world (ad_hass a')) (he_token env) (cc_ref conn) = Some r
       \<and> ps_user_id (session_of (ad_hass a') r) = cc_user_id conn
       \<and> ''local_adb'' \<notin> set (ps_capabilities (session_of (ad_hass a') r)))"
proof (intro conjI allI impI)
  show "(\<exists>q. res = HelloGranted q) \<longleftrightarrow> (\<exists>en. admitted conn m (ad_hass a) en) \<and> \<not> offers_local_adb m"
      "res = HelloDeferred \<longleftrightarrow> (\<exists>en. admitted conn m (ad_hass a) en) \<and> offers_local_adb m"
    using ws_hello_result [of R U env r conn mid m a] assms by simp_all
next
  fix q en assume "res = HelloGranted q \<and> admitted conn m (ad_hass a) en"
  then have res: "res = HelloGranted q" and adm: "admitted conn m (ad_hass a) en" by simp_all
  have no: "\<not> offers_local_adb m" using ws_hello_result(1) [of R U env r conn mid m a] assms res by simp
  obtain panel h1 where h1: "ws_hello R U env r conn mid m a =
      (a\<lparr>ad_hass := fst (accept_hello R U env r conn mid m panel en (agreed_protocol m) True h1)\<rparr>, HelloGranted r)"
    by (rule ws_hello_admitted [OF adm, of env R U r mid]) (simp add: no)
  note files = accept_files [of R U env r conn mid m panel en "agreed_protocol m" True h1]
  show "q = r" "get (hs_world (ad_hass a')) (en_id en) = Some r"
    "for_request (hs_world (ad_hass a')) (he_token env) (cc_ref conn) = Some r"
    "ps_user_id (session_of (ad_hass a') r) = cc_user_id conn"
    "''local_adb'' \<notin> set (ps_capabilities (session_of (ad_hass a') r))"
    using assms h1 res files no by (auto simp: local_adb_granted)
qed

lemma hello_grants_witness: "get (hs_world (gate_hass sample_granted)) ''e'' = Some 0"
proof -
  have "admitted sample_conn sample_hello (gate_hass (sample_gate [sample_loaded])) sample_loaded"
    unfolding admitted_def by (rule conjI [OF _ conjI]) (rule exI [of _ sample_did] | code_simp)+
  then have "get (hs_world (gate_hass sample_granted)) (en_id sample_loaded) = Some 0"
    using hello_grants [OF sample_hello_result] by blast
  then show ?thesis by (simp add: sample_loaded_def sample_entry_def)
qed

text \<open>C27. A refused hello opens, closes and changes no session, binds no entry and removes no entity,
  and leaves the hellos that wait as they were.\<close>

theorem refused_hello_changes_nothing:
  assumes "ws_hello R U env r conn mid m a = (a', HelloRefused code)"
  shows "w_by_entry (hs_world (ad_hass a')) = w_by_entry (hs_world (ad_hass a))
    \<and> w_by_token (hs_world (ad_hass a')) = w_by_token (hs_world (ad_hass a))
    \<and> w_sessions (hs_world (ad_hass a')) = w_sessions (hs_world (ad_hass a))
    \<and> hs_entities (ad_hass a') = hs_entities (ad_hass a) \<and> ad_deferred a' = ad_deferred a
    \<and> (\<forall>e. entry_user (ad_hass a') e = entry_user (ad_hass a) e)"
  using refused_standing [OF assms] by (simp add: same_standing_def)

lemma refused_hello_changes_nothing_witness:
  "hs_entities (ad_hass (fst (ws_hello sample_lib sample_urls sample_env 0 sample_conn 1 sample_hello
     (gt_admission (sample_gate []))))) = []"
proof -
  have "ws_hello sample_lib sample_urls sample_env 0 sample_conn 1 sample_hello (gt_admission (sample_gate []))
    = (fst (ws_hello sample_lib sample_urls sample_env 0 sample_conn 1 sample_hello (gt_admission (sample_gate []))),
       HelloRefused ''unknown_panel'')" by (simp add: prod_eq_iff) code_simp
  from refused_hello_changes_nothing [OF this] show ?thesis by (simp add: sample_gate_def)
qed

text \<open>C25. A hello never takes an entry from an account: the only binding it can add is that of the
  entry it names, bound to no account before, to the account that sent it, and only when that
  account may ask.\<close>

theorem hello_never_rebinds:
  assumes "distinct (map en_id (hs_entries (ad_hass a)))"
  shows "entry_user (ad_hass (fst (ws_hello R U env r conn mid m a))) e = entry_user (ad_hass a) e
    \<or> (entry_user (ad_hass a) e = None \<and> may_ask_to_bind (ad_hass a) conn
       \<and> entry_user (ad_hass (fst (ws_hello R U env r conn mid m a))) e = Some (cc_user_id conn)
       \<and> (\<exists>en. admitted conn m (ad_hass a) en \<and> en_id en = e))"
proof -
  consider en where "admitted conn m (ad_hass a) en" | "\<And>en. \<not> admitted conn m (ad_hass a) en" by blast
  then show ?thesis
  proof cases
    case 2
    from ws_hello_refused [OF this, of env R U r mid] show ?thesis
      by (metis fst_conv refused_standing(1) same_standing_def)
  next
    case (1 en)
    obtain panel h1 where h1: "entry_for_did (ad_hass a) panel = OneEntry en"
        "admit_account (he_now env) conn en (ad_hass a) = (h1, True)"
        "ad_hass (fst (ws_hello R U env r conn mid m a)) = (if offers_local_adb m then h1
          else fst (accept_hello R U env r conn mid m panel en (agreed_protocol m) True h1))"
      by (rule ws_hello_admitted [OF 1, of env R U r mid]) auto
    have en: "get_entry (ad_hass a) (en_id en) = Some en" using get_entry_mem [OF assms] one_entry(1) [OF h1(1)] by simp
    have "entry_user (ad_hass (fst (ws_hello R U env r conn mid m a))) e = entry_user h1 e"
      using h1(3) accept_hello_user by (simp split: if_splits)
    then show ?thesis using admit_account_user [OF en, of "he_now env" conn e] 1 h1(2) en
      by (auto simp: entry_user_def split: if_splits)
  qed
qed

lemma hello_never_rebinds_witness:
  "entry_user (ad_hass (fst sample_admitted)) ''e'' = None \<or> may_ask_to_bind (gate_hass (sample_gate [sample_loaded])) sample_conn"
  using hello_never_rebinds [of "gt_admission (sample_gate [sample_loaded])" sample_lib sample_urls sample_env 0 sample_conn 1
      sample_hello "''e''"]
  by (auto simp: sample_admitted_def sample_gate_def sample_loaded_def sample_entry_def entry_user_def get_entry_def)

text \<open>C24. After the install receipts were read, the hello that waited is granted exactly when its
  entry is still the one it named, still confirmed, and bound to its account; and the session has
  \<open>local_adb\<close> exactly when the panel offered it with \<open>management\<close>, the receipts could be read, and no
  unfinished one targets the entry's address.\<close>

theorem local_adb_needs_custody:
  assumes "accept_local_hello R U env r custody d a = (a', res)"
  shows "((\<exists>q. res = HelloGranted q) \<longleftrightarrow> (\<exists>en. entry_for_did (ad_hass a) (df_panel d) = OneEntry en \<and> en_id en = df_entry d
      \<and> \<not> unconfirmed en (df_high d) \<and> ed_user_id (en_data en) = Some (cc_user_id (df_conn d))))
    \<and> (\<forall>q en. res = HelloGranted q \<and> entry_for_did (ad_hass a) (df_panel d) = OneEntry en \<longrightarrow>
       get (hs_world (ad_hass a')) (df_entry d) = Some r
       \<and> (''local_adb'' \<in> set (ps_capabilities (session_of (ad_hass a') r)) \<longleftrightarrow> offers_local_adb (df_msg d)
         \<and> (\<exists>jobs. custody = Some jobs \<and> (\<forall>(target, pinned, terminal) \<in> set jobs. terminal
              \<or> ed_address (en_data en) \<notin> {target, pinned}))))"
proof (cases "\<exists>en. entry_for_did (ad_hass a) (df_panel d) = OneEntry en \<and> en_id en = df_entry d
      \<and> \<not> unconfirmed en (df_high d) \<and> ed_user_id (en_data en) = Some (cc_user_id (df_conn d))")
  case True
  then obtain en where en: "entry_for_did (ad_hass a) (df_panel d) = OneEntry en" "en_id en = df_entry d"
      "\<not> unconfirmed en (df_high d)" "ed_user_id (en_data en) = Some (cc_user_id (df_conn d))" by blast
  let ?ok = "local_adb_allowed (ed_address (en_data en)) custody"
  have out: "ad_hass a' = fst (accept_hello R U env r (df_conn d) (df_mid d) (df_msg d) (df_panel d) en (df_high d) ?ok (ad_hass a))"
      "res = HelloGranted r"
    using assms en by (auto simp: accept_local_hello_def Let_def case_prod_unfold accept_hello_def)
  have allowed: "?ok \<longleftrightarrow> (\<exists>jobs. custody = Some jobs \<and> (\<forall>(target, pinned, terminal) \<in> set jobs. terminal
              \<or> ed_address (en_data en) \<notin> {target, pinned}))"
    by (cases custody) (simp_all add: local_adb_allowed_def list_all_iff)
  note files = accept_files [of R U env r "df_conn d" "df_mid d" "df_msg d" "df_panel d" en "df_high d" ?ok "ad_hass a",
      folded out(1)]
  show ?thesis using en files out(2) by (auto simp: local_adb_granted allowed)
next
  case False
  then have "\<nexists>q. res = HelloGranted q"
    using assms by (auto simp: accept_local_hello_def Let_def case_prod_unfold refuse_def split: entry_match.splits if_splits)
  then show ?thesis using False by blast
qed

definition sample_bound :: config_entry where
  "sample_bound = sample_loaded\<lparr>en_data := (en_data sample_loaded)\<lparr>ed_user_id := Some ''user''\<rparr>\<rparr>"

definition sample_waiting :: deferred_hello where
  "sample_waiting = \<lparr>df_conn = sample_conn, df_mid = 1,
     df_msg = sample_hello\<lparr>hm_capabilities := [''local_adb'', ''management'']\<rparr>,
     df_panel = sample_did, df_entry = ''e'', df_high = 5\<rparr>"

lemma local_adb_needs_custody_witness:
  "''local_adb'' \<notin> set (ps_capabilities (session_of (ad_hass (fst (accept_local_hello sample_lib sample_urls sample_env 0
     (Some [(''10.0.0.2'', ''10.0.0.2'', False)]) sample_waiting (gt_admission (sample_gate [sample_bound]))))) 0))"
proof -
  let ?a = "accept_local_hello sample_lib sample_urls sample_env 0 (Some [(''10.0.0.2'', ''10.0.0.2'', False)]) sample_waiting
      (gt_admission (sample_gate [sample_bound]))"
  have "?a = (fst ?a, HelloGranted 0)" by (simp add: prod_eq_iff) code_simp
  moreover have "entry_for_did (ad_hass (gt_admission (sample_gate [sample_bound]))) (df_panel sample_waiting) = OneEntry sample_bound"
    by code_simp
  moreover have "ed_address (en_data sample_bound) = ''10.0.0.2''" by code_simp
  ultimately show ?thesis using local_adb_needs_custody [of sample_lib sample_urls sample_env 0
      "Some [(''10.0.0.2'', ''10.0.0.2'', False)]" sample_waiting "gt_admission (sample_gate [sample_bound])" "fst ?a" "HelloGranted 0"]
    by auto
qed


definition sample_item :: "string \<Rightarrow> string \<Rightarrow> entity_item" where
  "sample_item e entry = \<lparr>ei_entity_id = e, ei_domain = ''switch'', ei_platform = domain,
     ei_unique_id = sample_did @ ''_relay1'', ei_entry_id = Some entry\<rparr>"

definition sample_relays :: "entity_item list \<Rightarrow> admission" where
  "sample_relays items = with_hass (\<lambda>h. h\<lparr>hs_entities := items\<rparr>) (gt_admission (sample_gate [sample_loaded]))"


end
