(* ===== verification/Registry_Properties.thy ===== *)
theory Registry_Properties
  imports Admission_Properties
begin

text \<open>
  The properties of what Home Assistant keeps for a panel: the identity its entities are filed
  under, the catalogue that names them, the panels that were removed, the requests to be bound, and
  the log policy and lines.
\<close>

section \<open>Identity moves\<close>

text \<open>C11. An entry adopts a new identity as a whole or not at all.  When the identity is well formed,
  new, used by no other entry and every entity can take its new unique ID, exactly the entry's own
  entities change, each keeping its entity ID and its suffix, the registry stays free of collisions,
  and the entry is saved under the new identity with the old one remembered; otherwise nothing
  changes.\<close>

theorem identity_moves_whole:
  assumes "registry_lawful R" "registry_ok (hs_entities h)" "en_unique_id en = Some old"
  shows "if is_valid_discovery_id new \<and> new \<noteq> old \<and> identity_available h (en_id en) new \<and> can_move h (en_id en) old new
    then \<exists>h'. adopt_moved_identity R now en new reload h = (h', Some True)
      \<and> hs_entities h' = map (\<lambda>i. if owned (en_id en) old i then i\<lparr>ei_unique_id := target_id old new i\<rparr> else i) (hs_entities h)
      \<and> registry_ok (hs_entities h')
      \<and> hs_entries h' = map (\<lambda>n. if en_id n = en_id en
          then n\<lparr>en_unique_id := Some new, en_data := committed_data old new (en_data n)\<rparr> else n) (hs_entries h)
    else adopt_moved_identity R now en new reload h = (h, Some False)"
proof (cases "is_valid_discovery_id new \<and> new \<noteq> old \<and> identity_available h (en_id en) new \<and> can_move h (en_id en) old new")
  case True
  obtain h' where h': "adopt_moved_identity R now en new reload h = (h', Some True)"
    "hs_entities h' = map (moved_item (en_id en) old new) (hs_entities h)"
    "hs_entries h' = map (\<lambda>n. if en_id n = en_id en then committed_entry old new n else n) (hs_entries h)"
    by (rule adopt_moves [OF assms, of new now reload]) (use True in blast)+
  have "movable (hs_entities h) (en_id en) old new" 
    by (rule can_move_movable [OF assms(2)]) (use True in auto)
  from moved_registry_ok [OF this] have ok: "registry_ok (hs_entities h')" by (simp add: h'(2))
  show ?thesis unfolding if_P [OF True]
    by (rule exI [of _ h'], intro conjI) (rule h' [unfolded moved_item_def [abs_def] committed_entry_def] ok)+
next
  case False
  then show ?thesis using assms(3) by (auto simp: adopt_moved_identity_def)
qed

definition other_did :: string where
  "other_did = replicate 64 CHR ''b''"

lemma identity_moves_whole_witness:
  "\<exists>h'. adopt_moved_identity sample_lib 0 sample_loaded other_did True
      (ad_hass (sample_relays [sample_item ''switch.r'' ''e'', sample_item ''switch.s'' ''f''\<lparr>ei_domain := ''light''\<rparr>])) = (h', Some True)
    \<and> map ei_unique_id (hs_entities h') = [other_did @ ''_relay1'', sample_did @ ''_relay1'']"
proof -
  let ?h = "ad_hass (sample_relays [sample_item ''switch.r'' ''e'', sample_item ''switch.s'' ''f''\<lparr>ei_domain := ''light''\<rparr>])"
  have "is_valid_discovery_id other_did \<and> other_did \<noteq> sample_did \<and> identity_available ?h (en_id sample_loaded) other_did
      \<and> can_move ?h (en_id sample_loaded) sample_did other_did" "registry_ok (hs_entities ?h)"
      "en_unique_id sample_loaded = Some sample_did"
    by code_simp+
  then have "\<exists>h'. adopt_moved_identity sample_lib 0 sample_loaded other_did True ?h = (h', Some True)
      \<and> hs_entities h' = map (\<lambda>i. if owned (en_id sample_loaded) sample_did i
          then i\<lparr>ei_unique_id := target_id sample_did other_did i\<rparr> else i) (hs_entities ?h)"
    using identity_moves_whole [OF sample_lawful, of ?h sample_loaded sample_did other_did 0 True] by auto
  then obtain h' where h': "adopt_moved_identity sample_lib 0 sample_loaded other_did True ?h = (h', Some True)"
      "hs_entities h' = map (\<lambda>i. if owned (en_id sample_loaded) sample_did i
          then i\<lparr>ei_unique_id := target_id sample_did other_did i\<rparr> else i) (hs_entities ?h)" by blast
  have "map ei_unique_id (map (\<lambda>i. if owned (en_id sample_loaded) sample_did i
          then i\<lparr>ei_unique_id := target_id sample_did other_did i\<rparr> else i) (hs_entities ?h))
      = [other_did @ ''_relay1'', sample_did @ ''_relay1'']" by code_simp
  then show ?thesis using h' by metis
qed



section \<open>The catalogue\<close>

text \<open>Two channel IDs never name one entity: when both are known and give the same platform and the
  same unique-ID suffix, they are the same ID, however the suffixes of family members are formed.\<close>

theorem channels_name_one_entity:
  assumes "catalogue_entry_for_channel c1 = Some (r1, s)" "catalogue_entry_for_channel c2 = Some (r2, s)"
    and "cr_platform r1 = cr_platform r2"
  shows "c1 = c2"
  using assms by (rule for_channel_entity)

lemma channels_name_one_entity_witness: "catalogue_entry_for_channel ''relay7'' = Some (relay_row, ''relay7'') \<and> ''relay7'' = ''relay7''"
proof -
  have c: "catalogue_entry_for_channel ''relay7'' = Some (relay_row, ''relay7'')" by code_simp
  show ?thesis using channels_name_one_entity [OF c c refl] c by simp
qed

text \<open>A descriptor the catalogue knows, other than the older camera switch, describes its own
  channel ID: looking that ID up gives the same row and the same unique-ID suffix, so a channel that
  was described and is later reported unsupported names the entity the descriptor made.\<close>

theorem descriptor_names_its_channel:
  assumes "catalogue_entry d = Some row" "\<not> legacy_camera d"
    and "\<And>i. item d ''index'' = Some (PInt i) \<Longrightarrow> i \<le> max_family_index"
  shows "\<exists>ch s. item d ''channel'' = Some (PStr ch) \<and> item d ''unique_suffix'' = Some (PStr s)
    \<and> item d ''platform'' = Some (PStr (cr_platform row)) \<and> catalogue_entry_for_channel ch = Some (row, s)"
  using assms by (rule known_descriptor_channel)

definition sample_descriptor :: pydict where
  "sample_descriptor = [(''channel'', PStr ''relay2''), (''platform'', PStr ''switch''), (''translation_key'', PStr ''relay''),
     (''unique_suffix'', PStr ''relay2''), (''family'', PStr ''relay''), (''index'', PInt 2)]"

lemma descriptor_names_its_channel_witness:
  "\<exists>ch s. item sample_descriptor ''channel'' = Some (PStr ch) \<and> catalogue_entry_for_channel ch = Some (relay_row, s)"
proof -
  have "catalogue_entry sample_descriptor = Some relay_row" "\<not> legacy_camera sample_descriptor" by code_simp+
  moreover have "item sample_descriptor ''index'' = Some (PInt i) \<Longrightarrow> i \<le> max_family_index" for i
    by (simp add: sample_descriptor_def)
  ultimately show ?thesis using descriptor_names_its_channel [of sample_descriptor relay_row] by blast
qed

section \<open>Removed panels and requests\<close>

text \<open>The removed panels survive a restart: what is loaded from the document that was saved is what
  was remembered, in the same order; whatever the file holds, at most 64 well-formed identities are
  loaded; and a panel added last is remembered.\<close>

theorem removed_panels_roundtrip:
  assumes "removed_ok removed" "is_valid_discovery_id panel"
  shows "(case async_add panel time removed of (r, document) \<Rightarrow>
      map_option load_removed document = Some r \<and> map_of r panel = Some time \<and> removed_ok r)
    \<and> removed_ok (load_removed any)
    \<and> (case async_discard panel removed of (r, document) \<Rightarrow> map_of r panel = None \<and> removed_ok r
       \<and> (document = None \<and> r = removed \<or> map_option load_removed document = Some r))"
proof -
  have ok: "dict_ok removed" "length removed \<le> max_removed_panels" using assms(1) by (simp_all add: removed_ok_def)
  have add: "removed_ok (add_removed panel time removed)" by (rule add_removed_ok [OF assms])
  have "map_of (add_removed panel time removed) panel = Some time" by (rule removed.remembered [OF ok]) simp
  moreover have gone: "removed_ok (fst (async_discard panel removed))" by (rule discard_ok [OF assms(1)])
  moreover have "map_of (fst (async_discard panel removed)) panel = None"
    by (auto simp: async_discard_def Let_def delete_conv' split: option.split)
  ultimately show ?thesis using add load_removed_ok load_document
    by (auto simp: async_add_def async_discard_def Let_def split: option.splits)
qed

lemma removed_panels_roundtrip_witness:
  "map_option load_removed (snd (async_add sample_did ''t'' [])) = Some [(sample_did, ''t'')]"
proof -
  have "removed_ok []" by (simp add: removed_ok_def dict_ok_def)
  from removed_panels_roundtrip [OF this valid_sample, of "''t''" PNone]
  have "map_option load_removed (snd (async_add sample_did ''t'' [])) = Some (fst (async_add sample_did ''t'' []))"
    by (auto split: prod.splits)
  moreover have "fst (async_add sample_did ''t'' []) = [(sample_did, ''t'')]" by code_simp
  ultimately show ?thesis by simp
qed

text \<open>A request to be bound that a panel without an entry made is answered with the account that
  made it for half an hour, and is refused and dropped after; 16 requests are kept at most.\<close>

theorem binding_request_fresh:
  assumes "dict_ok (hs_requests h)" "length (hs_requests h) \<le> max_binding_requests"
    and "\<forall>(j, u, t) \<in> set (hs_requests h). t \<le> now" "now \<le> later"
  shows "let h1 = async_record_binding_request now panel user h in
    length (hs_requests h1) \<le> 16 \<and> dict_ok (hs_requests h1)
    \<and> fst (async_binding_request later (Some panel) h1) = (if later - now \<le> 1800 then Some user else None)
    \<and> (1800 < later - now \<longrightarrow> map_of (hs_requests (snd (async_binding_request later (Some panel) h1))) panel = None)"
proof -
  have "map_of (record_request panel (user, now) (hs_requests h)) panel = Some (user, now)"
    using assms(3) by (intro requests.remembered assms(1,2)) auto
  then show ?thesis using requests_kept [OF assms(1,2), of now panel user]
    by (simp add: Let_def async_binding_request_def async_record_binding_request_def delete_conv')
qed

lemma binding_request_fresh_witness:
  "fst (async_binding_request 1801 (Some sample_did)
     (async_record_binding_request 0 sample_did ''user'' (gate_hass (sample_gate [])))) = None"
  using binding_request_fresh [of "gate_hass (sample_gate [])" 0 1801 sample_did "''user''"]
  by (simp add: sample_gate_def dict_ok_def Let_def)

section \<open>Logs\<close>

lemma strip_left: "dropWhile p (rev (dropWhile p (rev (dropWhile p s)))) = rev (dropWhile p (rev (dropWhile p s)))"
proof (cases "dropWhile p s")
  case (Cons c t)
  then have c: "\<not> p c" by (simp add: dropWhile_eq_Cons_conv)
  have "dropWhile p (rev t @ [c]) = dropWhile p (rev t) @ [c]"
    using c by (cases "\<exists>x \<in> set (rev t). \<not> p x") (auto simp: dropWhile_append1 dropWhile_append2 dropWhile_append)
  then show ?thesis using Cons c by simp
next
  case Nil
  show ?thesis unfolding Nil by simp
qed

lemma py_strip_again [simp]: "py_strip (py_strip s) = py_strip s"
  by (simp add: py_strip_def strip_left)

lemma py_strip_subset: "c \<in> set (py_strip s) \<Longrightarrow> c \<in> set s"
  unfolding py_strip_def set_rev by (drule set_dropWhileD) (auto dest: set_dropWhileD)

lemma py_strip_length: "length (py_strip s) \<le> length s"
  using length_dropWhile_le [of is_space s] length_dropWhile_le [of is_space "rev (dropWhile is_space s)"]
  by (simp add: py_strip_def)

lemma valid_endpoint_strip: "valid_endpoint host port \<Longrightarrow> valid_endpoint (py_strip host) port"
  using py_strip_length [of host] by (auto simp: valid_endpoint_def list_all_iff dest: py_strip_subset)

lemma destination_cases:
  assumes "checked_destination U v = Some d"
  obtains "d = [(''protocol'', PStr ''home_assistant'')]"
  | protocol host port where "protocol \<in> {''udp'', ''tcp'', ''http''}" "valid_endpoint host port"
      "if protocol = ''http'' then http_endpoint U (py_strip host) else list_all (\<lambda>c. c \<notin> set ''/@?# '') host"
      "d = [(''protocol'', PStr protocol), (''host'', PStr (py_strip host)), (''port'', PInt port)]"
proof -
  obtain f where v: "v = PDict f" using assms by (cases v) (simp_all add: checked_destination_def)
  obtain protocol where p: "dict_get f ''protocol'' = PStr protocol"
    using assms by (cases "dict_get f ''protocol''") (simp_all add: checked_destination_def v)
  show ?thesis
  proof (cases "protocol = ''home_assistant''")
    case True
    then show ?thesis using assms that(1) by (simp add: checked_destination_def v p)
  next
    case False
    then have ok: "protocol = ''udp'' \<or> protocol = ''tcp'' \<or> protocol = ''http''"
      using assms by (simp add: checked_destination_def v p split: if_splits)
    obtain host where h: "dict_get f ''host'' = PStr host"
      using assms False ok by (cases "dict_get f ''host''") (auto simp: checked_destination_def v p)
    obtain port where n: "dict_get f ''port'' = PInt port"
      using assms False ok by (cases "dict_get f ''port''") (auto simp: checked_destination_def v p h)
    show ?thesis by (rule that(2) [of protocol host port])
        (use assms ok in \<open>auto simp: checked_destination_def v p h n split: if_splits\<close>)
  qed
qed

lemma destination_stable:
  assumes "checked_destination U v = Some d" shows "checked_destination U (PDict d) = Some d"
  using assms
proof (cases rule: destination_cases)
  case (2 protocol host port)
  have "list_all P (py_strip host)" if "list_all P host" for P
    using that by (auto simp: list_all_iff dest: py_strip_subset)
  then show ?thesis using 2 valid_endpoint_strip [OF 2(2)]
    by (auto simp: checked_destination_def split: if_splits)
qed (simp add: checked_destination_def)

text \<open>A log policy is checked once: what the check accepts and returns is accepted again and
  returned unchanged, so the stored policy is read back as it was saved.\<close>

theorem log_policy_stable:
  assumes "validate_policy U value = Some p"
  shows "validate_policy U p = Some p \<and> load_policy U (PDict p) = p"
proof -
  obtain sources where s: "dict_get value ''sources'' = PDict sources" "list_all valid_source sources"
    using assms by (cases "dict_get value ''sources''") (simp_all add: validate_policy_def split: if_splits)
  obtain b where b: "dict_get_default value ''also_home_assistant'' (PBool False) = PBool b"
    using assms by (cases "dict_get_default value ''also_home_assistant'' (PBool False)")
      (simp_all add: validate_policy_def s split: Option.bind_splits pyval.splits)
  have "validate_policy U p = Some p"
  proof (cases "dict_get value ''destination'' = PNone")
    case True
    then have "p = [(''destination'', PNone), (''sources'', PDict sources)]"
      using assms by (simp add: validate_policy_def s b)
    then show ?thesis using s by (simp add: validate_policy_def)
  next
    case False
    then obtain d where d: "checked_destination U (dict_get value ''destination'') = Some d"
      using assms by (cases "dict_get value ''destination''"; cases "checked_destination U (dict_get value ''destination'')")
        (simp_all add: validate_policy_def s)
    have v: "p = [(''destination'', PDict d), (''sources'', PDict sources)]
        @ (if b \<and> dict_get d ''protocol'' \<noteq> PStr ''home_assistant'' then [(''also_home_assistant'', PBool True)] else [])"
      using assms False d by (cases "dict_get value ''destination''") (simp_all add: validate_policy_def s b)
    show ?thesis using s destination_stable [OF d] by (simp add: v validate_policy_def)
  qed
  then show ?thesis by (simp add: load_policy_def)
qed

definition sample_policy :: pydict where
  "sample_policy = [(''destination'', PDict [(''protocol'', PStr ''udp''), (''host'', PStr ''10.0.0.9''), (''port'', PInt 514)]),
     (''sources'', PDict [(''app'', PInt 4)]), (''also_home_assistant'', PBool True)]"

lemma log_policy_stable_witness: "\<exists>p. validate_policy sample_urls sample_policy = Some p \<and> load_policy sample_urls (PDict p) = p"
proof -
  have "validate_policy sample_urls sample_policy \<noteq> None" by code_simp
  then obtain p where "validate_policy sample_urls sample_policy = Some p" by blast
  then show ?thesis using log_policy_stable [of sample_urls sample_policy p] by blast
qed

end
