(* ===== verification/Panel_Status.thy ===== *)
theory Panel_Status
  imports Json_Text
begin

text \<open>
  The status a panel reports about itself (status.py, webview.py): from the text of the answer to the
  bounded projection of known fields the integration keeps.  A validator returns the value it keeps or
  raises; \<open>Unhashable\<close> is the \<open>TypeError\<close> of a membership test in a frozenset, which no handler names.
\<close>

datatype status_error = BadStatus | Unhashable

type_synonym 'a checked = "status_error + 'a"

type_synonym validator = "pyval \<Rightarrow> pyval checked"

definition keep_if :: "bool \<Rightarrow> 'a \<Rightarrow> 'a checked" where
  "keep_if b x = (if b then Inr x else Inl BadStatus)"

text \<open>\<open>None if value is None else check(value)\<close>\<close>

definition optional_by :: "validator \<Rightarrow> validator" where
  "optional_by check v = (if v = PNone then Inr PNone else check v)"

abbreviation max_status_integer :: int where "max_status_integer \<equiv> 2 ^ 63 - 1"
abbreviation max_status_token_length :: nat where "max_status_token_length \<equiv> 128"

section \<open>Validators\<close>

definition status_token_char :: "char \<Rightarrow> bool" where
  "status_token_char c \<longleftrightarrow> is_alnum c \<or> c = CHR ''_'' \<or> c = CHR ''.'' \<or> c = CHR ''-''"

definition token_pattern :: "string \<Rightarrow> bool" where
  "token_pattern s \<longleftrightarrow> (case s of [] \<Rightarrow> False
     | c # cs \<Rightarrow> is_alnum c \<and> list_all status_token_char cs \<and> length s \<le> max_status_token_length)"

definition fault_detail_pattern :: "string \<Rightarrow> bool" where
  "fault_detail_pattern s \<longleftrightarrow> s \<noteq> [] \<and> length s \<le> 40 \<and> list_all (\<lambda>c. is_alnum c \<or> c = CHR ''_'') s"

definition plain_text :: "nat \<Rightarrow> string \<Rightarrow> bool" where
  "plain_text n s \<longleftrightarrow> s \<noteq> [] \<and> length s \<le> n \<and> list_all (\<lambda>c. \<not> is_control c) s"

definition text_check :: "(string \<Rightarrow> bool) \<Rightarrow> validator" where
  "text_check p v = (case v of PStr s \<Rightarrow> keep_if (p s) v | _ \<Rightarrow> Inl BadStatus)"

definition check_token :: validator where
  "check_token = text_check token_pattern"

definition nullable_token :: validator where
  "nullable_token = optional_by check_token"

definition fault_detail :: validator where
  "fault_detail = optional_by (text_check fault_detail_pattern)"

definition short_text :: validator where
  "short_text = text_check (plain_text max_status_token_length)"

definition nullable_short_text :: validator where
  "nullable_short_text = optional_by short_text"

definition nullable_zigbee_role :: validator where
  "nullable_zigbee_role = optional_by (text_check (plain_text 64))"

definition boolean :: validator where
  "boolean v = (case v of PBool b \<Rightarrow> Inr v | _ \<Rightarrow> Inl BadStatus)"

definition nullable_boolean :: validator where
  "nullable_boolean = optional_by boolean"

definition integer_check :: "int \<Rightarrow> int \<Rightarrow> validator" where
  "integer_check lo hi v = (case v of PInt i \<Rightarrow> keep_if (lo \<le> i \<and> i \<le> hi) v | _ \<Rightarrow> Inl BadStatus)"

definition nonnegative_integer :: validator where
  "nonnegative_integer = integer_check 0 max_status_integer"

definition nullable_nonnegative_integer :: validator where
  "nullable_nonnegative_integer = optional_by nonnegative_integer"

definition nullable_android_integer :: validator where
  "nullable_android_integer = optional_by (integer_check (- (2 ^ 31)) (2 ^ 31 - 1))"

text \<open>\<open>0 <= value <= limit\<close> of an int or a float, which no infinity and no NaN passes.\<close>

definition number_within :: "int \<Rightarrow> pyval \<Rightarrow> bool" where
  "number_within limit v = (case v of
     PInt i \<Rightarrow> 0 \<le> i \<and> i \<le> limit
   | PFloat (FFinite q) \<Rightarrow> 0 \<le> q \<and> q \<le> of_int limit
   | _ \<Rightarrow> False)"

definition nonnegative_number :: validator where
  "nonnegative_number v = keep_if (number_within max_status_integer v) v"

definition nullable_nonnegative_number :: validator where
  "nullable_nonnegative_number = optional_by nonnegative_number"

definition nullable_percent :: validator where
  "nullable_percent v = bind_res (nullable_nonnegative_number v) (\<lambda>result.
     keep_if (result = PNone \<or> number_within 100 result) result)"

definition nullable_zigbee_cpu_percent :: validator where
  "nullable_zigbee_cpu_percent v = bind_res (nullable_nonnegative_integer v) (\<lambda>result.
     keep_if (result = PNone \<or> number_within 1000 result) result)"

definition nullable_port :: validator where
  "nullable_port = optional_by (\<lambda>v. bind_res (nonnegative_integer v) (integer_check 1 65535))"

text \<open>\<open>[check(item) for item in value]\<close>: the first item that raises ends it.\<close>

fun check_all :: "validator \<Rightarrow> pyval list \<Rightarrow> pyval list checked" where
  "check_all check [] = Inr []"
| "check_all check (v # vs) = bind_res (check v) (\<lambda>x. bind_res (check_all check vs) (\<lambda>xs. Inr (x # xs)))"

definition reason_codes :: validator where
  "reason_codes v = (case v of
     PList xs \<Rightarrow> if length xs > 32 then Inl BadStatus else map_sum id PList (check_all check_token xs)
   | _ \<Rightarrow> Inl BadStatus)"

text \<open>Two lower-case hex digits, then five times a colon and two more.\<close>

fun hex_pairs :: "nat \<Rightarrow> string \<Rightarrow> bool" where
  "hex_pairs 0 s \<longleftrightarrow> s = []"
| "hex_pairs (Suc n) (c # a # b # s) \<longleftrightarrow> c = CHR '':'' \<and> is_lower_hex a \<and> is_lower_hex b \<and> hex_pairs n s"
| "hex_pairs (Suc n) _ \<longleftrightarrow> False"

definition mac_address :: "string \<Rightarrow> bool" where
  "mac_address s \<longleftrightarrow> hex_pairs 6 (CHR '':'' # s)"

text \<open>\<open>match\<close> with a final \<open>$\<close>, which also stands before a last line break.\<close>

definition mac_pattern :: "string \<Rightarrow> bool" where
  "mac_pattern s \<longleftrightarrow> mac_address s \<or> (s \<noteq> [] \<and> last s = CHR 0x0A \<and> mac_address (butlast s))"

definition network_macs :: validator where
  "network_macs v = (case v of
     PList xs \<Rightarrow> Inr (PList (take 4 (filter (\<lambda>x. case x of PStr s \<Rightarrow> mac_pattern s | _ \<Rightarrow> False) xs)))
   | _ \<Rightarrow> Inr (PList []))"

text \<open>\<open>value not in (...)\<close> compares; \<open>value not in frozenset\<close> hashes first.\<close>

definition word_check :: "string list \<Rightarrow> validator" where
  "word_check ws = text_check (\<lambda>s. s \<in> set ws)"

fun hashable :: "pyval \<Rightarrow> bool" where
  "hashable (PList xs) \<longleftrightarrow> False"
| "hashable (PDict d) \<longleftrightarrow> False"
| "hashable (PTuple xs) \<longleftrightarrow> list_all hashable xs"
| "hashable _ \<longleftrightarrow> True"

definition home_ui_state :: validator where
  "home_ui_state = word_check [''ready'', ''setup'', ''blocked'', ''unknown'']"

definition permission_state :: validator where
  "permission_state = word_check [''held'', ''missing'', ''not_required'', ''unreadable'']"

definition proximity_states :: "string list" where
  "proximity_states = [''calibration_required'', ''calibrating'', ''ready'', ''source_unavailable'']"

definition proximity_state :: validator where
  "proximity_state v = (if hashable v then word_check proximity_states v else Inl Unhashable)"

section \<open>Components\<close>

type_synonym fields = "(string \<times> validator) list"

definition hardware_fields :: fields where
  "hardware_fields = [(''firmware'', short_text), (''android_release'', short_text),
     (''serial_number'', short_text), (''network_macs'', network_macs)]"

definition zigbee_fields :: fields where
  "zigbee_fields = [(''state'', check_token), (''firmware'', nullable_short_text),
     (''product_version'', nullable_short_text), (''gateway_layout'', check_token),
     (''gateway_package_version'', nullable_short_text), (''joined'', nullable_boolean),
     (''role'', nullable_zigbee_role), (''gateway_cpu_percent'', nullable_zigbee_cpu_percent),
     (''guard_cpu_percent'', nullable_zigbee_cpu_percent), (''restart_count_10m'', nonnegative_integer),
     (''containment_result'', check_token), (''recursive_watchdog_assignment'', boolean)]"

definition storage_fields :: fields where
  "storage_fields = [(''state'', check_token), (''pressure_state'', check_token),
     (''usable_bytes'', nullable_nonnegative_integer), (''total_bytes'', nullable_nonnegative_integer),
     (''used_percent'', nullable_percent), (''database_bytes'', nullable_nonnegative_integer),
     (''wal_bytes'', nullable_nonnegative_integer), (''page_size_bytes'', nullable_nonnegative_integer),
     (''page_count'', nullable_nonnegative_integer), (''freelist_count'', nullable_nonnegative_integer),
     (''schema_version'', nullable_nonnegative_integer), (''quick_check'', check_token),
     (''auto_vacuum'', check_token), (''checked_at'', nullable_nonnegative_integer),
     (''failure'', nullable_token), (''failure_operation'', nullable_token)]"

definition renderer_fields :: fields where
  "renderer_fields = [(''mode'', check_token), (''state'', check_token), (''outcome'', check_token),
     (''fault'', check_token), (''fault_detail'', fault_detail), (''recovery'', check_token),
     (''transport'', check_token), (''address_family_policy'', check_token),
     (''observed_age_ms'', nullable_nonnegative_integer), (''process_age_ms'', nonnegative_integer),
     (''package_updated_age_ms'', nullable_nonnegative_integer), (''rendered'', boolean),
     (''theme_policy'', check_token), (''theme_effective'', nullable_token), (''theme_overridden'', boolean),
     (''entity_hold'', nullable_token), (''entity_hold_state'', nullable_token),
     (''entity_hold_age_ms'', nullable_nonnegative_integer)]"

definition home_ui_fields :: fields where
  "home_ui_fields = [(''state'', home_ui_state), (''reason'', check_token), (''evidence'', check_token)]"

definition permission_names :: "string list" where
  "permission_names = [''notifications'', ''write_settings'', ''overlay'', ''accessibility'', ''microphone'', ''camera'']"

text \<open>The iteration order of the frozenset is not specified; the order of the source stands for any.\<close>

definition permission_fields :: fields where
  "permission_fields = map (\<lambda>n. (n, permission_state)) permission_names"

definition proximity_fields :: fields where
  "proximity_fields = [(''state'', proximity_state), (''wake_ready'', boolean)]"

definition camera_fields :: fields where
  "camera_fields = [(''state'', check_token), (''outcome'', check_token), (''fault'', check_token),
     (''fault_detail'', fault_detail), (''recovery'', check_token), (''clients'', nonnegative_integer),
     (''last_frame_age_ms'', nullable_nonnegative_integer), (''consecutive_failures'', nonnegative_integer),
     (''indication'', check_token), (''live'', boolean), (''stream_clients'', nonnegative_integer),
     (''stream_port'', nullable_port), (''encoder'', nullable_short_text),
     (''encode_width'', nullable_nonnegative_integer), (''encode_height'', nullable_nonnegative_integer),
     (''encode_fps'', nullable_nonnegative_integer), (''encode_kbps'', nullable_nonnegative_integer),
     (''delivered_fps'', nullable_nonnegative_number), (''delivered_kbps'', nullable_nonnegative_integer)]"

definition power_fields :: fields where
  "power_fields = [(''state'', check_token), (''warning'', boolean), (''repair_capability'', check_token),
     (''repair_available'', boolean), (''manual_only'', boolean), (''acknowledge_available'', boolean),
     (''acknowledged'', boolean), (''reason_codes'', reason_codes), (''keep_awake_configured'', boolean),
     (''wake_lock_held'', boolean), (''wifi_lock_required'', boolean), (''wifi_lock_held'', boolean),
     (''prevent_idle_dim_configured'', boolean), (''screen_off_timeout_ms'', nullable_android_integer),
     (''interactive'', nullable_boolean), (''power_source'', check_token),
     (''plugged_mask'', nullable_nonnegative_integer), (''stay_on_while_plugged_in'', nullable_android_integer),
     (''stay_on_effective'', nullable_boolean), (''device_idle'', nullable_boolean),
     (''doze_exempt'', nullable_boolean), (''screen_off_mechanism'', check_token)]"

text \<open>\<open>{field: validator(value[field]) for field, validator in fields.items() if field in value}\<close>\<close>

fun project :: "fields \<Rightarrow> pydict \<Rightarrow> pydict checked" where
  "project [] d = Inr []"
| "project ((name, check) # fs) d = (case map_of d name of
     None \<Rightarrow> project fs d
   | Some v \<Rightarrow> bind_res (check v) (\<lambda>x. bind_res (project fs d) (\<lambda>rest. Inr ((name, x) # rest))))"

definition sanitize_component ::
  "pydict \<Rightarrow> string \<Rightarrow> fields \<Rightarrow> string list \<Rightarrow> bool \<Rightarrow> pydict option checked" where
  "sanitize_component obj name fs required null_ok = (case map_of obj name of
     None \<Rightarrow> Inr None
   | Some v \<Rightarrow>
       if v = PNone \<and> null_ok then Inr None
       else (case v of
           PDict d \<Rightarrow> if list_all (\<lambda>k. map_of d k \<noteq> None) required then map_sum id Some (project fs d) else Inl BadStatus
         | _ \<Rightarrow> Inl BadStatus))"

section \<open>The device\<close>

record panel_device =
  pd_name :: "string option"
  pd_manufacturer :: "string option"
  pd_model :: "string option"
  pd_hw_version :: "string option"
  pd_area :: "string option"

definition device_field_names :: "string list" where
  "device_field_names = [''name'', ''manufacturer'', ''model'', ''hw_version'', ''area'']"

text \<open>\<open>unicodedata.category\<close> begins with C: up to U+00FF the controls and the soft hyphen.\<close>

definition category_c :: "char \<Rightarrow> bool" where
  "category_c c \<longleftrightarrow> code_of c < 32 \<or> (127 \<le> code_of c \<and> code_of c < 160) \<or> code_of c = 173"

definition device_text :: "string \<Rightarrow> bool" where
  "device_text s \<longleftrightarrow> s \<noteq> [] \<and> length s \<le> 128 \<and> s = py_strip s \<and> list_all (\<lambda>c. \<not> category_c c) s"

text \<open>Up to U+00FF \<open>casefold\<close> of a text is \<open>null\<close> exactly when its lower case is.\<close>

definition null_area :: "string \<Rightarrow> pyval \<Rightarrow> bool" where
  "null_area name v = (name = ''area'' \<and> (case v of PStr s \<Rightarrow> py_lower (py_strip s) = ''null'' | _ \<Rightarrow> False))"

definition device_value :: "pydict \<Rightarrow> string \<Rightarrow> string option checked" where
  "device_value d name = (case map_of d name of
     None \<Rightarrow> Inr None
   | Some v \<Rightarrow> if null_area name v then Inr None
       else (case v of PStr s \<Rightarrow> keep_if (device_text s) (Some s) | _ \<Rightarrow> Inl BadStatus))"

definition parse_panel_device :: "pydict \<Rightarrow> panel_device option checked" where
  "parse_panel_device obj = (case map_of obj ''panel_assistant_device'' of
     None \<Rightarrow> Inr None
   | Some (PDict d) \<Rightarrow>
       if \<not> list_all (\<lambda>(k, v). k \<in> set device_field_names) d then Inl BadStatus
       else bind_res (device_value d ''name'') (\<lambda>n. bind_res (device_value d ''manufacturer'') (\<lambda>ma.
            bind_res (device_value d ''model'') (\<lambda>mo. bind_res (device_value d ''hw_version'') (\<lambda>hw.
            bind_res (device_value d ''area'') (\<lambda>ar.
              Inr (if list_all ((=) None) [n, ma, mo, hw, ar] then None
                else Some \<lparr>pd_name = n, pd_manufacturer = ma, pd_model = mo, pd_hw_version = hw, pd_area = ar\<rparr>))))))
   | Some v \<Rightarrow> Inl BadStatus)"

section \<open>The browser engine (webview.py)\<close>

record webview_status =
  wv_supported :: bool
  wv_eligible :: bool
  wv_reason :: "string option"
  wv_candidate :: "string option"
  wv_state :: "string option"
  wv_transaction_reason :: "string option"
  wv_request_id :: "string option"

definition active_states :: "string list" where
  "active_states = [''downloading'', ''verified'', ''installing'']"

definition attention_states :: "string list" where
  "attention_states = [''submitted_unknown'', ''deferred'', ''rejected'']"

definition transaction_states :: "string list" where
  "transaction_states = active_states @ attention_states @ [''installed'']"

definition state_in :: "webview_status \<Rightarrow> string list \<Rightarrow> bool" where
  "state_in w names \<longleftrightarrow> (case wv_state w of None \<Rightarrow> False | Some s \<Rightarrow> s \<in> set names)"

definition needs_attention :: "webview_status \<Rightarrow> bool" where
  "needs_attention w \<longleftrightarrow>
     \<not> (wv_reason w = Some ''current''
        \<and> (wv_state w = None \<or> state_in w [''installed'', ''deferred'', ''rejected'', ''submitted_unknown'']))
     \<and> wv_supported w \<and> wv_candidate w \<noteq> None \<and> (wv_eligible w \<or> state_in w attention_states)"

definition download_unpublished :: "webview_status \<Rightarrow> bool" where
  "download_unpublished w \<longleftrightarrow> wv_state w = Some ''deferred'' \<and> wv_transaction_reason w = Some ''download_failed''"

definition webview_settled :: "webview_status \<Rightarrow> bool" where
  "webview_settled w \<longleftrightarrow> \<not> state_in w active_states
     \<and> (wv_state w \<noteq> Some ''submitted_unknown'' \<or> (wv_reason w = Some ''current'' \<and> wv_candidate w \<noteq> None))
     \<and> (\<not> needs_attention w \<or> download_unpublished w)"

definition webview_word :: "string \<Rightarrow> bool" where
  "webview_word s \<longleftrightarrow> s \<noteq> [] \<and> length s \<le> 128
     \<and> list_all (\<lambda>c. is_alnum c \<or> c \<in> {CHR ''_'', CHR ''.'', CHR '':'', CHR ''-''}) s"

definition webview_text :: "pyval \<Rightarrow> string option checked" where
  "webview_text v = (case v of PNone \<Rightarrow> Inr None | PStr s \<Rightarrow> keep_if (webview_word s) (Some s) | _ \<Rightarrow> Inl BadStatus)"

definition webview_digest :: "pyval \<Rightarrow> string option checked" where
  "webview_digest candidate = (case candidate of
     PNone \<Rightarrow> Inr None
   | PDict c \<Rightarrow> (case dict_get c ''sha256'' of
         PStr s \<Rightarrow> keep_if (length s = 64 \<and> list_all is_lower_hex s) (Some s)
       | _ \<Rightarrow> Inl BadStatus)
   | _ \<Rightarrow> Inl BadStatus)"

definition webview_transaction :: "pyval \<Rightarrow> (string option \<times> string option \<times> string option) checked" where
  "webview_transaction transaction = (case transaction of
     PNone \<Rightarrow> Inr (None, None, None)
   | PDict t \<Rightarrow> (case dict_get t ''state'' of
         PStr s \<Rightarrow> if s \<notin> set transaction_states then Inl BadStatus
           else bind_res (webview_text (dict_get t ''reason'')) (\<lambda>reason.
                bind_res (webview_text (dict_get t ''request_id'')) (\<lambda>request_id.
                Inr (Some s, reason, request_id)))
       | _ \<Rightarrow> Inl BadStatus)
   | _ \<Rightarrow> Inl BadStatus)"

definition parse_webview :: "pyval \<Rightarrow> webview_status checked" where
  "parse_webview v = (case v of
     PDict d \<Rightarrow>
       if dict_get d ''schema'' \<noteq> PInt 1 then Inl BadStatus
       else (case (dict_get d ''supported'', dict_get d ''eligible'') of
           (PBool supported, PBool eligible) \<Rightarrow>
             bind_res (webview_digest (dict_get d ''candidate'')) (\<lambda>digest.
             bind_res (webview_transaction (dict_get d ''transaction'')) (\<lambda>(state, reason', request_id).
             bind_res (webview_text (dict_get d ''reason'')) (\<lambda>reason.
             Inr \<lparr>wv_supported = supported, wv_eligible = eligible, wv_reason = reason, wv_candidate = digest,
               wv_state = state, wv_transaction_reason = reason', wv_request_id = request_id\<rparr>)))
         | _ \<Rightarrow> Inl BadStatus)
   | _ \<Rightarrow> Inl BadStatus)"


text \<open>
  \<open>async_provision_webview\<close>: the requests it makes.  \<open>None\<close> is a request that failed or an answer
  that never came; \<open>later\<close> are the answers read until the deadline.
\<close>

datatype webview_request = ReadWebview | InstallWebview string

definition webview_read :: "pyval option \<Rightarrow> webview_status option" where
  "webview_read answer = (case answer of None \<Rightarrow> None
     | Some v \<Rightarrow> (case parse_webview v of Inl e \<Rightarrow> None | Inr w \<Rightarrow> Some w))"

fun follow_webview :: "webview_status \<Rightarrow> pyval option list \<Rightarrow> webview_request list" where
  "follow_webview w [] = []"
| "follow_webview w (a # later) = (if \<not> state_in w active_states then []
     else ReadWebview # follow_webview (case webview_read a of None \<Rightarrow> w | Some w' \<Rightarrow> w') later)"

definition installable :: "webview_status \<Rightarrow> string option" where
  "installable w = (if wv_state w = None \<and> wv_supported w \<and> wv_eligible w then wv_candidate w else None)"

definition async_provision_webview ::
  "pyval option \<Rightarrow> pyval option \<Rightarrow> pyval option list \<Rightarrow> webview_request list" where
  "async_provision_webview first posted later = ReadWebview # (case webview_read first of
     None \<Rightarrow> []
   | Some w \<Rightarrow> (case installable w of
       None \<Rightarrow> follow_webview w later
     | Some digest \<Rightarrow> InstallWebview digest # (case webview_read posted of
           None \<Rightarrow> [] | Some w' \<Rightarrow> follow_webview w' later)))"

section \<open>The status\<close>

record panel_status =
  sr_warning_count :: nat
  sr_capability_count :: nat
  sr_install_capability :: "string option"
  sr_root_lost :: pyval
  sr_screen_lock :: pyval
  sr_zigbee_gateway :: "pydict option"
  sr_storage_health :: "pydict option"
  sr_renderer :: "pydict option"
  sr_home_ui :: "pydict option"
  sr_camera :: "pydict option"
  sr_power_safety :: "pydict option"
  sr_device :: "panel_device option"
  sr_hardware :: "pydict option"
  sr_permissions :: "pydict option"
  sr_proximity :: "pydict option"
  sr_webview :: "webview_status option"

definition optional_text :: "pyval \<Rightarrow> nat \<Rightarrow> bool" where
  "optional_text v limit \<longleftrightarrow> v = PNone \<or> (case v of PStr s \<Rightarrow> s \<noteq> [] \<and> length s \<le> limit | _ \<Rightarrow> False)"

definition capability_ok :: "pyval \<Rightarrow> bool" where
  "capability_ok v \<longleftrightarrow> (case v of
     PDict c \<Rightarrow> list_all (\<lambda>(field, limit). optional_text (dict_get c field) limit)
       [(''name'', 128), (''note'', 512), (''color'', 32)]
   | _ \<Rightarrow> False)"

definition warning_ok :: "pyval \<Rightarrow> bool" where
  "warning_ok v \<longleftrightarrow> (case v of PStr s \<Rightarrow> length s \<le> 2048 | _ \<Rightarrow> False)"

definition validate_original_arrays :: "pydict \<Rightarrow> (nat \<times> nat) checked" where
  "validate_original_arrays obj = (case (dict_get obj ''warnings'', dict_get obj ''capabilities'') of
     (PList ws, PList cs) \<Rightarrow> keep_if (length ws \<le> 32 \<and> length cs \<le> 32 \<and> list_all warning_ok ws \<and> list_all capability_ok cs)
       (length ws, length cs)
   | _ \<Rightarrow> Inl BadStatus)"

definition install_capability :: "pyval \<Rightarrow> string option checked" where
  "install_capability v = (case v of PNone \<Rightarrow> Inr None
     | PStr s \<Rightarrow> keep_if (s \<in> {''api'', ''none''}) (Some s) | _ \<Rightarrow> Inl BadStatus)"

definition optional_webview :: "pyval \<Rightarrow> webview_status option checked" where
  "optional_webview v = (if v = PNone then Inr None else map_sum id Some (parse_webview v))"

text \<open>The projection of the decoded object, in the order of the keyword arguments.\<close>

definition parse_status_object :: "pydict \<Rightarrow> panel_status checked" where
  "parse_status_object obj =
     bind_res (validate_original_arrays obj) (\<lambda>(warnings, capabilities).
     bind_res (install_capability (dict_get obj ''install_capability'')) (\<lambda>install.
     bind_res (nullable_boolean (dict_get obj ''root_lost_since_boot'')) (\<lambda>root_lost.
     bind_res (nullable_boolean (dict_get obj ''screen_lock_secure'')) (\<lambda>screen_lock.
     bind_res (sanitize_component obj ''zigbee_gateway'' zigbee_fields [''state''] True) (\<lambda>zigbee.
     bind_res (sanitize_component obj ''storage_health'' storage_fields [''state''] False) (\<lambda>storage.
     bind_res (sanitize_component obj ''renderer'' renderer_fields [''mode'', ''state''] False) (\<lambda>renderer.
     bind_res (sanitize_component obj ''home_ui'' home_ui_fields [''state'', ''reason'', ''evidence''] False) (\<lambda>home_ui.
     bind_res (sanitize_component obj ''camera'' camera_fields [''state''] False) (\<lambda>camera.
     bind_res (sanitize_component obj ''power_safety'' power_fields [''state''] False) (\<lambda>power.
     bind_res (parse_panel_device obj) (\<lambda>device.
     bind_res (sanitize_component obj ''panel_assistant_hardware'' hardware_fields [] False) (\<lambda>hardware.
     bind_res (sanitize_component obj ''permissions'' permission_fields [] False) (\<lambda>permissions.
     bind_res (sanitize_component obj ''proximity'' proximity_fields [''state''] False) (\<lambda>proximity.
     bind_res (optional_webview (dict_get obj ''webview'')) (\<lambda>webview.
     Inr \<lparr>sr_warning_count = warnings, sr_capability_count = capabilities, sr_install_capability = install,
       sr_root_lost = root_lost, sr_screen_lock = screen_lock, sr_zigbee_gateway = zigbee, sr_storage_health = storage,
       sr_renderer = renderer, sr_home_ui = home_ui, sr_camera = camera, sr_power_safety = power, sr_device = device,
       sr_hardware = hardware, sr_permissions = permissions, sr_proximity = proximity, sr_webview = webview\<rparr>)))))))))))))))"

text \<open>
  \<open>json.loads\<close> with the strict hooks: no key twice, none of the three constants that are no JSON.
  A number of the text may still round to an infinity; only the constants are refused, so they are
  looked for in a reading whose numbers are all finite.
\<close>

fun all_finite :: "pyval \<Rightarrow> bool" where
  "all_finite (PFloat (FFinite q)) \<longleftrightarrow> True"
| "all_finite (PFloat f) \<longleftrightarrow> False"
| "all_finite (PList xs) \<longleftrightarrow> list_all all_finite xs"
| "all_finite (PTuple xs) \<longleftrightarrow> list_all all_finite xs"
| "all_finite (PDict d) \<longleftrightarrow> list_all (\<lambda>(k, v). all_finite v) d"
| "all_finite _ \<longleftrightarrow> True"

definition strict_loads :: "(string \<Rightarrow> pyfloat) \<Rightarrow> string \<Rightarrow> pyval option" where
  "strict_loads rd text = do {
     constants \<leftarrow> json_loads (\<lambda>_. FFinite 0) text;
     guard (all_finite constants);
     json_loads rd text }"

definition parse_status_response :: "(string \<Rightarrow> pyfloat) \<Rightarrow> string \<Rightarrow> panel_status checked" where
  "parse_status_response rd body = (case strict_loads rd body of
     Some (PDict obj) \<Rightarrow> parse_status_object obj | _ \<Rightarrow> Inl BadStatus)"

section \<open>What a status allows\<close>

definition component_text :: "pydict option \<Rightarrow> string \<Rightarrow> pyval" where
  "component_text c field = (case c of None \<Rightarrow> PNone | Some d \<Rightarrow> dict_get d field)"

definition home_ui_allows :: "panel_status \<Rightarrow> bool \<Rightarrow> bool" where
  "home_ui_allows s setup =
     (if setup then component_text (sr_home_ui s) ''state'' \<in> {PStr ''ready'', PStr ''setup''}
      else component_text (sr_home_ui s) ''state'' = PStr ''ready''
        \<and> (sr_renderer s = None \<or> component_text (sr_renderer s) ''mode'' \<noteq> PStr ''builtin''
           \<or> component_text (sr_renderer s) ''state'' = PStr ''rendered''))"

text \<open>The copy for diagnostics.\<close>

definition text_or_none :: "string option \<Rightarrow> pyval" where
  "text_or_none s = (case s of None \<Rightarrow> PNone | Some t \<Rightarrow> PStr t)"

definition copy_component :: "pydict option \<Rightarrow> pyval" where
  "copy_component c = (case c of None \<Rightarrow> PNone | Some d \<Rightarrow> PDict d)"

definition device_as_dict :: "panel_device \<Rightarrow> pydict" where
  "device_as_dict d = [(''name'', text_or_none (pd_name d)), (''manufacturer'', text_or_none (pd_manufacturer d)),
     (''model'', text_or_none (pd_model d)), (''hw_version'', text_or_none (pd_hw_version d)),
     (''area'', text_or_none (pd_area d))]"

definition webview_as_dict :: "webview_status \<Rightarrow> pydict" where
  "webview_as_dict w = [(''supported'', PBool (wv_supported w)), (''eligible'', PBool (wv_eligible w)),
     (''reason'', text_or_none (wv_reason w)), (''candidate_sha256'', text_or_none (wv_candidate w)),
     (''transaction_state'', text_or_none (wv_state w)), (''transaction_reason'', text_or_none (wv_transaction_reason w)),
     (''request_id'', text_or_none (wv_request_id w))]"

definition status_as_dict :: "panel_status \<Rightarrow> pydict" where
  "status_as_dict s = [(''warning_count'', PInt (int (sr_warning_count s))),
     (''capability_count'', PInt (int (sr_capability_count s))),
     (''install_capability'', text_or_none (sr_install_capability s)),
     (''root_lost_since_boot'', sr_root_lost s), (''screen_lock_secure'', sr_screen_lock s),
     (''zigbee_gateway'', copy_component (sr_zigbee_gateway s)), (''storage_health'', copy_component (sr_storage_health s)),
     (''renderer'', copy_component (sr_renderer s)), (''home_ui'', copy_component (sr_home_ui s)),
     (''camera'', copy_component (sr_camera s)), (''power_safety'', copy_component (sr_power_safety s)),
     (''permissions'', copy_component (sr_permissions s)), (''proximity'', copy_component (sr_proximity s)),
     (''webview'', case sr_webview s of None \<Rightarrow> PNone | Some w \<Rightarrow> PDict (webview_as_dict w)),
     (''panel_assistant_device'', case sr_device s of None \<Rightarrow> PNone | Some d \<Rightarrow> PDict (device_as_dict d)),
     (''panel_assistant_hardware'', copy_component (sr_hardware s))]"

end
