(* ===== verification/Status_Properties.thy ===== *)
theory Status_Properties
  imports Panel_Status Install_Executor
begin

text \<open>
  What is kept of a panel's status is bounded and made of known fields only, and nothing else of the
  answer has any influence on it.
\<close>

section \<open>Validators keep bounded values, and keep them as they are\<close>

fun bounded_value :: "pyval \<Rightarrow> bool" where
  "bounded_value PNone \<longleftrightarrow> True"
| "bounded_value (PBool b) \<longleftrightarrow> True"
| "bounded_value (PInt i) \<longleftrightarrow> - (2 ^ 31) \<le> i \<and> i \<le> max_status_integer"
| "bounded_value (PFloat (FFinite q)) \<longleftrightarrow> 0 \<le> q \<and> q \<le> of_int max_status_integer"
| "bounded_value (PFloat f) \<longleftrightarrow> False"
| "bounded_value (PStr s) \<longleftrightarrow> plain_text max_status_token_length s"
| "bounded_value (PList xs) \<longleftrightarrow> length xs \<le> 32
     \<and> list_all (\<lambda>x. case x of PStr s \<Rightarrow> length s \<le> max_status_token_length | _ \<Rightarrow> False) xs"
| "bounded_value _ \<longleftrightarrow> False"

definition sound_check :: "validator \<Rightarrow> bool" where
  "sound_check check \<longleftrightarrow> (\<forall>v x. check v = Inr x \<longrightarrow> bounded_value x \<and> check x = Inr x)"

named_theorems sound_checks \<open>validators that keep bounded values only\<close>

lemma keep_if_Inr [simp]: "keep_if b x = Inr y \<longleftrightarrow> b \<and> y = x"
  by (auto simp: keep_if_def)

lemma bind_checked_Inr: "bind_res m f = Inr y \<longleftrightarrow> (\<exists>x. m = Inr x \<and> f x = Inr y)"
  by (cases m) auto

lemma bind_checked_InrE: "bind_res m f = Inr y \<Longrightarrow> (\<And>x. m = Inr x \<Longrightarrow> f x = Inr y \<Longrightarrow> R) \<Longrightarrow> R"
  by (cases m) auto

lemma map_sum_Inr: "map_sum id f m = Inr y \<longleftrightarrow> (\<exists>x. m = Inr x \<and> y = f x)"
  by (cases m) auto

lemma sound_nullable: "sound_check check \<Longrightarrow> sound_check (optional_by check)"
  by (auto simp: sound_check_def optional_by_def)

lemma sound_text: "(\<And>s. p s \<Longrightarrow> plain_text max_status_token_length s) \<Longrightarrow> sound_check (text_check p)"
  by (auto simp: sound_check_def text_check_def split: pyval.splits)

lemma token_char_plain: "status_token_char c \<Longrightarrow> \<not> is_control c"
  by (auto simp: status_token_char_def is_control_def is_alnum_def is_digit_def is_lower_def is_upper_def less_eq_char_def
      code_of_def)

lemma alnum_token: "is_alnum c \<Longrightarrow> status_token_char c" "status_token_char (CHR ''_'')"
  by (simp_all add: status_token_char_def)

lemma token_plain: "token_pattern s \<Longrightarrow> plain_text max_status_token_length s"
  by (auto simp: token_pattern_def plain_text_def list_all_iff alnum_token token_char_plain split: list.splits)

lemma fault_plain: "fault_detail_pattern s \<Longrightarrow> plain_text max_status_token_length s"
proof -
  have "\<not> is_control c" if "is_alnum c \<or> c = CHR ''_''" for c
    using that token_char_plain alnum_token by blast
  then show "fault_detail_pattern s \<Longrightarrow> plain_text max_status_token_length s"
    by (auto simp: fault_detail_pattern_def plain_text_def list_all_iff)
qed

lemma plain_text_less: "m \<le> n \<Longrightarrow> plain_text m s \<Longrightarrow> plain_text n s"
  by (auto simp: plain_text_def)

lemma sound_token [sound_checks]: "sound_check check_token"
  by (simp add: check_token_def sound_text token_plain)

lemma sound_short_text [sound_checks]: "sound_check short_text"
  by (simp add: short_text_def sound_text)

lemma sound_boolean [sound_checks]: "sound_check boolean"
  by (auto simp: sound_check_def boolean_def split: pyval.splits)

lemma sound_integer: "- (2 ^ 31) \<le> lo \<Longrightarrow> hi \<le> max_status_integer \<Longrightarrow> sound_check (integer_check lo hi)"
  by (auto simp: sound_check_def integer_check_def split: pyval.splits)

lemma sound_nonnegative [sound_checks]: "sound_check nonnegative_integer"
  by (simp add: nonnegative_integer_def sound_integer)

lemma sound_number [sound_checks]: "sound_check nonnegative_number"
  by (auto simp: sound_check_def nonnegative_number_def number_within_def split: pyval.splits pyfloat.splits)

lemma sound_narrowed:
  assumes "sound_check check" "\<And>x. narrow x \<in> {Inl BadStatus, Inr x}"
  shows "sound_check (\<lambda>v. bind_res (check v) narrow)"
  using assms unfolding sound_check_def
  by (auto simp: bind_checked_Inr) (metis Inl_Inr_False insertE singletonD sum.inject(2))+

lemma sound_nullables [sound_checks]:
  "sound_check nullable_token" "sound_check fault_detail" "sound_check nullable_short_text" "sound_check nullable_zigbee_role"
  "sound_check nullable_boolean" "sound_check nullable_nonnegative_integer" "sound_check nullable_android_integer"
  "sound_check nullable_nonnegative_number"
  by (auto simp: nullable_token_def fault_detail_def nullable_short_text_def nullable_zigbee_role_def nullable_boolean_def
      nullable_nonnegative_integer_def nullable_android_integer_def nullable_nonnegative_number_def
      intro!: sound_nullable sound_checks sound_text sound_integer elim: fault_plain plain_text_less [rotated])

lemma sound_narrow_checks [sound_checks]:
  "sound_check nullable_percent" "sound_check nullable_zigbee_cpu_percent" "sound_check nullable_port"
proof -
  show "sound_check nullable_percent"
    unfolding nullable_percent_def [abs_def] by (rule sound_narrowed [OF sound_nullables(8)]) (simp add: keep_if_def)
  show "sound_check nullable_zigbee_cpu_percent"
    unfolding nullable_zigbee_cpu_percent_def [abs_def] by (rule sound_narrowed [OF sound_nullables(6)]) (simp add: keep_if_def)
  show "sound_check nullable_port"
    unfolding nullable_port_def
    by (intro sound_nullable sound_narrowed [OF sound_nonnegative]) (auto simp: integer_check_def keep_if_def split: pyval.split)
qed

lemma check_all_Inr:
  assumes "sound_check check"
  shows "check_all check vs = Inr xs \<Longrightarrow> length xs = length vs \<and> list_all bounded_value xs \<and> check_all check xs = Inr xs"
  using assms by (induction vs arbitrary: xs) (auto simp: bind_checked_Inr sound_check_def)

lemma check_token_all: "check_all check_token vs = Inr xs \<Longrightarrow>
    list_all (\<lambda>x. case x of PStr s \<Rightarrow> length s \<le> max_status_token_length | _ \<Rightarrow> False) xs"
  by (induction vs arbitrary: xs)
    (auto simp: bind_checked_Inr check_token_def text_check_def plain_text_def dest: token_plain split: pyval.splits)

lemma sound_reason_codes [sound_checks]: "sound_check reason_codes"
  by (auto simp: sound_check_def reason_codes_def map_sum_Inr dest: check_all_Inr [OF sound_token] check_token_all
      split: pyval.splits if_splits)

lemma hex_pairs_length: "hex_pairs n s \<Longrightarrow> length s = 3 * n"
  by (induction n s rule: hex_pairs.induct) auto

lemma mac_length: "mac_pattern s \<Longrightarrow> length s \<le> 18"
proof -
  have "length s = 17" if "mac_address s" for s
    using hex_pairs_length [OF that [unfolded mac_address_def]] by simp
  then show "mac_pattern s \<Longrightarrow> length s \<le> 18"
    by (fastforce simp: mac_pattern_def)
qed

lemma sound_network_macs [sound_checks]: "sound_check network_macs"
proof -
  let ?p = "\<lambda>x. case x of PStr s \<Rightarrow> mac_pattern s | _ \<Rightarrow> False"
  have "bounded_value (PList (take 4 (filter ?p xs)))" for xs
    by (auto simp: list_all_iff dest!: in_set_takeD mac_length split: pyval.splits)
  moreover have "filter ?p (take 4 (filter ?p xs)) = take 4 (filter ?p xs)" for xs
    by (auto simp: filter_id_conv dest!: in_set_takeD)
  ultimately show ?thesis
    by (auto simp: sound_check_def network_macs_def split: pyval.splits)
qed

lemma word_check_text: "word_check ws v = Inr x \<Longrightarrow> hashable x"
  by (auto simp: word_check_def text_check_def split: pyval.splits)

lemma sound_words [sound_checks]:
  "sound_check home_ui_state" "sound_check permission_state" "sound_check proximity_state"
proof -
  have w: "sound_check (word_check ws)" if "list_all (plain_text max_status_token_length) ws" for ws
    using that by (auto simp: word_check_def list_all_iff intro!: sound_text)
  have "list_all (plain_text max_status_token_length) [''ready'', ''setup'', ''blocked'', ''unknown'']"
    "list_all (plain_text max_status_token_length) [''held'', ''missing'', ''not_required'', ''unreadable'']"
    "list_all (plain_text max_status_token_length) proximity_states"
    by code_simp+
  from this [THEN w] show "sound_check home_ui_state" "sound_check permission_state" "sound_check proximity_state"
    by (auto simp: home_ui_state_def permission_state_def proximity_state_def sound_check_def dest: word_check_text)
qed

section \<open>Components\<close>

definition sound_fields :: "fields \<Rightarrow> bool" where
  "sound_fields fs \<longleftrightarrow> distinct (map fst fs) \<and> list_all (\<lambda>(name, check). sound_check check) fs"

lemma component_fields_sound:
  "sound_fields hardware_fields" "sound_fields zigbee_fields" "sound_fields storage_fields" "sound_fields renderer_fields"
  "sound_fields home_ui_fields" "sound_fields permission_fields" "sound_fields proximity_fields" "sound_fields camera_fields"
  "sound_fields power_fields"
  by (simp_all add: sound_fields_def sound_checks hardware_fields_def zigbee_fields_def storage_fields_def renderer_fields_def
      home_ui_fields_def permission_fields_def permission_names_def proximity_fields_def camera_fields_def power_fields_def)

definition component_ok :: "fields \<Rightarrow> string list \<Rightarrow> pydict \<Rightarrow> bool" where
  "component_ok fs required p \<longleftrightarrow> dict_ok p \<and> set (map fst p) \<subseteq> set (map fst fs) \<and> set required \<subseteq> set (map fst p)
     \<and> list_all (\<lambda>(k, v). bounded_value v) p"

lemma project_keys: "project fs d = Inr p \<Longrightarrow> map fst p = filter (\<lambda>n. map_of d n \<noteq> None) (map fst fs)"
  by (induction fs arbitrary: p) (auto simp: bind_checked_Inr split: option.splits)

lemma project_bounded: "list_all (\<lambda>(name, check). sound_check check) fs \<Longrightarrow> project fs d = Inr p \<Longrightarrow> list_all (\<lambda>(k, v). bounded_value v) p"
  by (induction fs arbitrary: p) (auto simp: bind_checked_Inr sound_check_def split: option.splits)

lemma project_other: "name \<notin> set (map fst fs) \<Longrightarrow> project fs ((name, x) # d) = project fs d"
  by (induction fs) (auto split: option.split)

lemma project_again: "sound_fields fs \<Longrightarrow> project fs d = Inr p \<Longrightarrow> project fs p = Inr p"
proof (induction fs arbitrary: p)
  case (Cons f fs)
  obtain name check where f: "f = (name, check)" by (cases f)
  from Cons.prems have s: "sound_fields fs" "sound_check check" "name \<notin> set (map fst fs)"
    by (auto simp: sound_fields_def f)
  show ?case
  proof (cases "map_of d name")
    case None
    with Cons.prems have p: "project fs d = Inr p" by (simp add: f)
    from project_keys [OF p] have "set (map fst p) \<subseteq> set (map fst fs)" by (metis filter_is_subset list.set_map set_filter)
    with s(3) have "map_of p name = None" by (auto simp: map_of_eq_None_iff)
    then show ?thesis using Cons.IH [OF s(1) p] by (simp add: f)
  next
    case (Some v)
    with Cons.prems obtain x rest where x: "check v = Inr x" "project fs d = Inr rest" "p = (name, x) # rest"
      by (auto simp: f bind_checked_Inr)
    have "check x = Inr x" using s(2) x(1) by (auto simp: sound_check_def)
    then show ?thesis using Cons.IH [OF s(1) x(2)] x(3) project_other [OF s(3)] by (simp add: f)
  qed
qed simp

lemma component_bounded:
  assumes "sanitize_component obj name fs required null_ok = Inr (Some p)" "sound_fields fs" "set required \<subseteq> set (map fst fs)"
  shows "component_ok fs required p"
proof -
  from assms(1) obtain d where d: "project fs d = Inr p" "list_all (\<lambda>k. map_of d k \<noteq> None) required"
    by (auto simp: sanitize_component_def map_sum_Inr split: option.splits pyval.splits if_splits)
  note k = project_keys [OF d(1)]
  have "distinct (map fst p)" using assms(2) by (simp add: k sound_fields_def)
  moreover have "set (map fst p) = {n \<in> set (map fst fs). map_of d n \<noteq> None}" unfolding k by simp
  ultimately show ?thesis
    using d(2) assms(2,3) project_bounded [OF _ d(1)]
    by (auto simp: component_ok_def dict_ok_def sound_fields_def list_all_iff)
qed


section \<open>The whole status\<close>

definition optional :: "('a \<Rightarrow> bool) \<Rightarrow> 'a option \<Rightarrow> bool" where
  "optional p x \<longleftrightarrow> (case x of None \<Rightarrow> True | Some y \<Rightarrow> p y)"

definition device_ok :: "panel_device \<Rightarrow> bool" where
  "device_ok d \<longleftrightarrow> list_all (optional device_text) [pd_name d, pd_manufacturer d, pd_model d, pd_hw_version d, pd_area d]"

definition webview_ok :: "webview_status \<Rightarrow> bool" where
  "webview_ok w \<longleftrightarrow> optional (\<lambda>s. length s = 64 \<and> list_all is_lower_hex s) (wv_candidate w)
     \<and> optional (\<lambda>s. s \<in> set transaction_states) (wv_state w)
     \<and> list_all (optional webview_word) [wv_reason w, wv_transaction_reason w, wv_request_id w]"

definition status_ok :: "panel_status \<Rightarrow> bool" where
  "status_ok s \<longleftrightarrow> sr_warning_count s \<le> 32 \<and> sr_capability_count s \<le> 32
     \<and> sr_install_capability s \<in> {None, Some ''api'', Some ''none''}
     \<and> sr_root_lost s \<in> insert PNone (range PBool) \<and> sr_screen_lock s \<in> insert PNone (range PBool)
     \<and> optional (component_ok zigbee_fields [''state'']) (sr_zigbee_gateway s)
     \<and> optional (component_ok storage_fields [''state'']) (sr_storage_health s)
     \<and> optional (component_ok renderer_fields [''mode'', ''state'']) (sr_renderer s)
     \<and> optional (component_ok home_ui_fields [''state'', ''reason'', ''evidence'']) (sr_home_ui s)
     \<and> optional (component_ok camera_fields [''state'']) (sr_camera s)
     \<and> optional (component_ok power_fields [''state'']) (sr_power_safety s)
     \<and> optional (component_ok hardware_fields []) (sr_hardware s)
     \<and> optional (component_ok permission_fields []) (sr_permissions s)
     \<and> optional (component_ok proximity_fields [''state'']) (sr_proximity s)
     \<and> optional device_ok (sr_device s) \<and> optional webview_ok (sr_webview s)"

lemma optional_component:
  assumes "sanitize_component obj name fs required null_ok = Inr c" "sound_fields fs" "set required \<subseteq> set (map fst fs)"
  shows "optional (component_ok fs required) c"
  using component_bounded [OF _ assms(2,3)] assms(1) by (cases c) (auto simp: optional_def)

lemma device_value_ok: "device_value d name = Inr x \<Longrightarrow> optional device_text x"
  by (auto simp: device_value_def optional_def split: option.splits pyval.splits if_splits)

lemma parse_device_ok:
  assumes "parse_panel_device obj = Inr x"
  shows "optional device_ok x"
proof (cases x)
  case (Some dev)
  obtain d where d: "map_of obj ''panel_assistant_device'' = Some (PDict d)"
    using assms Some by (auto simp: parse_panel_device_def split: option.splits pyval.splits)
  from assms Some d have "bind_res (device_value d ''name'') (\<lambda>n. bind_res (device_value d ''manufacturer'') (\<lambda>ma.
      bind_res (device_value d ''model'') (\<lambda>mo. bind_res (device_value d ''hw_version'') (\<lambda>hw.
      bind_res (device_value d ''area'') (\<lambda>ar. Inr (if list_all ((=) None) [n, ma, mo, hw, ar] then None
        else Some \<lparr>pd_name = n, pd_manufacturer = ma, pd_model = mo, pd_hw_version = hw, pd_area = ar\<rparr>)))))) = Inr (Some dev)"
    by (simp add: parse_panel_device_def split: if_splits)
  then have "device_ok dev"
    by (elim bind_checked_InrE) (simp only: sum.inject split: if_splits, auto simp: device_ok_def device_value_ok)
  then show ?thesis by (simp add: Some optional_def)
qed (simp add: optional_def)

lemma webview_text_ok: "webview_text v = Inr x \<Longrightarrow> optional webview_word x"
  by (auto simp: webview_text_def optional_def split: pyval.splits)

lemma webview_digest_ok: "webview_digest v = Inr x \<Longrightarrow> optional (\<lambda>s. length s = 64 \<and> list_all is_lower_hex s) x"
  by (auto simp: webview_digest_def optional_def split: pyval.splits)

lemma webview_transaction_ok: "webview_transaction v = Inr (state, reason, request_id) \<Longrightarrow>
    optional (\<lambda>s. s \<in> set transaction_states) state \<and> optional webview_word reason \<and> optional webview_word request_id"
  by (auto simp: webview_transaction_def optional_def bind_checked_Inr split: pyval.splits if_splits)
    (auto simp: optional_def dest: webview_text_ok)

lemma parse_webview_ok: "parse_webview v = Inr w \<Longrightarrow> webview_ok w"
  by (auto simp: parse_webview_def webview_ok_def bind_checked_Inr dest: webview_text_ok webview_digest_ok webview_transaction_ok
      split: pyval.splits if_splits)

lemma optional_webview_ok: "optional_webview v = Inr w \<Longrightarrow> optional webview_ok w"
  by (auto simp: optional_webview_def optional_def map_sum_Inr parse_webview_ok split: if_splits)

lemma nullable_boolean_ok: "nullable_boolean v = Inr x \<Longrightarrow> x \<in> insert PNone (range PBool)"
  by (auto simp: nullable_boolean_def optional_by_def boolean_def split: if_splits pyval.splits)

lemma install_capability_ok: "install_capability v = Inr x \<Longrightarrow> x \<in> {None, Some ''api'', Some ''none''}"
  by (auto simp: install_capability_def split: pyval.splits)

lemma arrays_ok: "validate_original_arrays obj = Inr (ws, cs) \<Longrightarrow> ws \<le> 32 \<and> cs \<le> 32"
  by (auto simp: validate_original_arrays_def split: pyval.splits)

lemma parse_status_parts:
  assumes "parse_status_object obj = Inr s"
  shows "validate_original_arrays obj = Inr (sr_warning_count s, sr_capability_count s)"
    "install_capability (dict_get obj ''install_capability'') = Inr (sr_install_capability s)"
    "nullable_boolean (dict_get obj ''root_lost_since_boot'') = Inr (sr_root_lost s)"
    "nullable_boolean (dict_get obj ''screen_lock_secure'') = Inr (sr_screen_lock s)"
    "sanitize_component obj ''zigbee_gateway'' zigbee_fields [''state''] True = Inr (sr_zigbee_gateway s)"
    "sanitize_component obj ''storage_health'' storage_fields [''state''] False = Inr (sr_storage_health s)"
    "sanitize_component obj ''renderer'' renderer_fields [''mode'', ''state''] False = Inr (sr_renderer s)"
    "sanitize_component obj ''home_ui'' home_ui_fields [''state'', ''reason'', ''evidence''] False = Inr (sr_home_ui s)"
    "sanitize_component obj ''camera'' camera_fields [''state''] False = Inr (sr_camera s)"
    "sanitize_component obj ''power_safety'' power_fields [''state''] False = Inr (sr_power_safety s)"
    "sanitize_component obj ''panel_assistant_hardware'' hardware_fields [] False = Inr (sr_hardware s)"
    "sanitize_component obj ''permissions'' permission_fields [] False = Inr (sr_permissions s)"
    "sanitize_component obj ''proximity'' proximity_fields [''state''] False = Inr (sr_proximity s)"
    "parse_panel_device obj = Inr (sr_device s)" "optional_webview (dict_get obj ''webview'') = Inr (sr_webview s)"
proof -
  obtain w c where a: "validate_original_arrays obj = Inr (w, c)"
    using assms by (cases "validate_original_arrays obj") (auto simp: parse_status_object_def)
  note body = assms [unfolded parse_status_object_def a bind_res_simps prod.case]
  from body show "validate_original_arrays obj = Inr (sr_warning_count s, sr_capability_count s)"
    by (elim bind_checked_InrE) (drule sum.inject(2) [THEN iffD1], erule subst, simp only: panel_status.simps a)
  from body show "install_capability (dict_get obj ''install_capability'') = Inr (sr_install_capability s)"
    by (elim bind_checked_InrE) (drule sum.inject(2) [THEN iffD1], erule subst, simp only: panel_status.simps)
  from body show "nullable_boolean (dict_get obj ''root_lost_since_boot'') = Inr (sr_root_lost s)"
    by (elim bind_checked_InrE) (drule sum.inject(2) [THEN iffD1], erule subst, simp only: panel_status.simps)
  from body show "nullable_boolean (dict_get obj ''screen_lock_secure'') = Inr (sr_screen_lock s)"
    by (elim bind_checked_InrE) (drule sum.inject(2) [THEN iffD1], erule subst, simp only: panel_status.simps)
  from body show "sanitize_component obj ''zigbee_gateway'' zigbee_fields [''state''] True = Inr (sr_zigbee_gateway s)"
    by (elim bind_checked_InrE) (drule sum.inject(2) [THEN iffD1], erule subst, simp only: panel_status.simps)
  from body show "sanitize_component obj ''storage_health'' storage_fields [''state''] False = Inr (sr_storage_health s)"
    by (elim bind_checked_InrE) (drule sum.inject(2) [THEN iffD1], erule subst, simp only: panel_status.simps)
  from body show "sanitize_component obj ''renderer'' renderer_fields [''mode'', ''state''] False = Inr (sr_renderer s)"
    by (elim bind_checked_InrE) (drule sum.inject(2) [THEN iffD1], erule subst, simp only: panel_status.simps)
  from body show "sanitize_component obj ''home_ui'' home_ui_fields [''state'', ''reason'', ''evidence''] False = Inr (sr_home_ui s)"
    by (elim bind_checked_InrE) (drule sum.inject(2) [THEN iffD1], erule subst, simp only: panel_status.simps)
  from body show "sanitize_component obj ''camera'' camera_fields [''state''] False = Inr (sr_camera s)"
    by (elim bind_checked_InrE) (drule sum.inject(2) [THEN iffD1], erule subst, simp only: panel_status.simps)
  from body show "sanitize_component obj ''power_safety'' power_fields [''state''] False = Inr (sr_power_safety s)"
    by (elim bind_checked_InrE) (drule sum.inject(2) [THEN iffD1], erule subst, simp only: panel_status.simps)
  from body show "sanitize_component obj ''panel_assistant_hardware'' hardware_fields [] False = Inr (sr_hardware s)"
    by (elim bind_checked_InrE) (drule sum.inject(2) [THEN iffD1], erule subst, simp only: panel_status.simps)
  from body show "sanitize_component obj ''permissions'' permission_fields [] False = Inr (sr_permissions s)"
    by (elim bind_checked_InrE) (drule sum.inject(2) [THEN iffD1], erule subst, simp only: panel_status.simps)
  from body show "sanitize_component obj ''proximity'' proximity_fields [''state''] False = Inr (sr_proximity s)"
    by (elim bind_checked_InrE) (drule sum.inject(2) [THEN iffD1], erule subst, simp only: panel_status.simps)
  from body show "parse_panel_device obj = Inr (sr_device s)"
    by (elim bind_checked_InrE) (drule sum.inject(2) [THEN iffD1], erule subst, simp only: panel_status.simps)
  from body show "optional_webview (dict_get obj ''webview'') = Inr (sr_webview s)"
    by (elim bind_checked_InrE) (drule sum.inject(2) [THEN iffD1], erule subst, simp only: panel_status.simps)
qed

lemma required_known:
  "set [''state''] \<subseteq> set (map fst zigbee_fields)" "set [''state''] \<subseteq> set (map fst storage_fields)"
  "set [''mode'', ''state''] \<subseteq> set (map fst renderer_fields)"
  "set [''state'', ''reason'', ''evidence''] \<subseteq> set (map fst home_ui_fields)"
  "set [''state''] \<subseteq> set (map fst camera_fields)" "set [''state''] \<subseteq> set (map fst power_fields)"
  "set [''state''] \<subseteq> set (map fst proximity_fields)"
  by (simp_all add: zigbee_fields_def storage_fields_def renderer_fields_def home_ui_fields_def camera_fields_def
      power_fields_def proximity_fields_def)

lemma parse_status_ok:
  assumes "parse_status_object obj = Inr s"
  shows "status_ok s"
proof -
  note req = required_known
  note p = parse_status_parts [OF assms]
  have "optional (component_ok hardware_fields []) (sr_hardware s)" "optional (component_ok permission_fields []) (sr_permissions s)"
    using optional_component [OF p(11) component_fields_sound(1)] optional_component [OF p(12) component_fields_sound(6)] by simp_all
  then show ?thesis
    using arrays_ok [OF p(1)] install_capability_ok [OF p(2)] nullable_boolean_ok [OF p(3)] nullable_boolean_ok [OF p(4)]
      optional_component [OF p(5) component_fields_sound(2) req(1)] optional_component [OF p(6) component_fields_sound(3) req(2)]
      optional_component [OF p(7) component_fields_sound(4) req(3)] optional_component [OF p(8) component_fields_sound(5) req(4)]
      optional_component [OF p(9) component_fields_sound(8) req(5)] optional_component [OF p(10) component_fields_sound(9) req(6)]
      optional_component [OF p(13) component_fields_sound(7) req(7)] parse_device_ok [OF p(14)] optional_webview_ok [OF p(15)]
    unfolding status_ok_def by blast
qed



definition sample_status_text :: string where
  "sample_status_text = (let q = [quote_char] in ''{'' @ q @ ''warnings'' @ q @ '':[],'' @ q @ ''capabilities'' @ q @ '':[],''
     @ q @ ''secret'' @ q @ '':7,'' @ q @ ''home_ui'' @ q @ '':{'' @ q @ ''state'' @ q @ '':'' @ q @ ''ready'' @ q @ '',''
     @ q @ ''reason'' @ q @ '':'' @ q @ ''ok'' @ q @ '',''  @ q @ ''evidence'' @ q @ '':'' @ q @ ''window'' @ q @ ''}}'')"

definition sample_status :: panel_status where
  "sample_status = \<lparr>sr_warning_count = 0, sr_capability_count = 0, sr_install_capability = None, sr_root_lost = PNone,
     sr_screen_lock = PNone, sr_zigbee_gateway = None, sr_storage_health = None, sr_renderer = None,
     sr_home_ui = Some [(''state'', PStr ''ready''), (''reason'', PStr ''ok''), (''evidence'', PStr ''window'')],
     sr_camera = None, sr_power_safety = None, sr_device = None, sr_hardware = None, sr_permissions = None,
     sr_proximity = None, sr_webview = None\<rparr>"

lemma sample_status_read: "parse_status_response (\<lambda>_. FNaN) sample_status_text = Inr sample_status"
  by code_simp


section \<open>Nothing else of the answer matters\<close>

text \<open>The fields the projection knows, by component; the others are read as they are.\<close>

definition known_components :: "(string \<times> fields) list" where
  "known_components = [(''zigbee_gateway'', zigbee_fields), (''storage_health'', storage_fields),
     (''renderer'', renderer_fields), (''home_ui'', home_ui_fields), (''camera'', camera_fields),
     (''power_safety'', power_fields), (''panel_assistant_hardware'', hardware_fields),
     (''permissions'', permission_fields), (''proximity'', proximity_fields)]"

definition plain_names :: "string list" where
  "plain_names = [''warnings'', ''capabilities'', ''install_capability'', ''root_lost_since_boot'',
     ''screen_lock_secure'', ''panel_assistant_device'', ''webview'']"

definition only_fields :: "fields \<Rightarrow> pyval \<Rightarrow> pyval" where
  "only_fields fs v = (case v of PDict d \<Rightarrow> PDict (filter (\<lambda>(k, x). k \<in> set (map fst fs)) d) | _ \<Rightarrow> v)"

definition known_value :: "string \<Rightarrow> pyval \<Rightarrow> pyval" where
  "known_value name v = (case map_of known_components name of None \<Rightarrow> v | Some fs \<Rightarrow> only_fields fs v)"

definition known_part :: "pydict \<Rightarrow> pydict" where
  "known_part obj = map (\<lambda>(k, v). (k, known_value k v))
     (filter (\<lambda>(k, v). k \<in> set plain_names \<or> map_of known_components k \<noteq> None) obj)"

lemma map_of_known_part: "map_of (known_part obj) k = (if k \<in> set plain_names \<or> map_of known_components k \<noteq> None
    then map_option (known_value k) (map_of obj k) else None)"
  by (induction obj) (auto simp: known_part_def)

lemma map_of_filter_key: "map_of (filter (\<lambda>(k, x). k \<in> A) d) name = (if name \<in> A then map_of d name else None)"
  by (induction d) auto

lemma project_only: "set (map fst gs) \<subseteq> A \<Longrightarrow> project gs (filter (\<lambda>(k, x). k \<in> A) d) = project gs d"
proof (induction gs)
  case (Cons g gs)
  then show ?case by (cases g) (auto simp: map_of_filter_key split: option.split)
qed simp

lemma sanitize_known:
  assumes "map_of known_components name = Some fs" "set required \<subseteq> set (map fst fs)"
  shows "sanitize_component (known_part obj) name fs required null_ok = sanitize_component obj name fs required null_ok"
proof (cases "map_of obj name")
  case (Some v)
  have at: "map_of (known_part obj) name = Some (only_fields fs v)"
    using assms(1) Some by (simp add: map_of_known_part known_value_def)
  show ?thesis
  proof (cases "\<exists>d. v = PDict d")
    case True
    then obtain d where v: "v = PDict d" by blast
    have "list_all (\<lambda>k. map_of (filter (\<lambda>(k, x). k \<in> set (map fst fs)) d) k \<noteq> None) required
        = list_all (\<lambda>k. map_of d k \<noteq> None) required"
      using assms(2) by (induction required) (auto simp: map_of_filter_key)
    then show ?thesis
      using at Some project_only [of fs "set (map fst fs)" d] by (simp add: sanitize_component_def v only_fields_def)
  next
    case False
    then show ?thesis using at Some by (cases v) (auto simp: sanitize_component_def only_fields_def)
  qed
qed (simp add: sanitize_component_def map_of_known_part)

lemma plain_known:
  assumes "name \<in> set plain_names"
  shows "dict_get (known_part obj) name = dict_get obj name" "map_of (known_part obj) name = map_of obj name"
proof -
  have "list_all (\<lambda>n. map_of known_components n = None) plain_names" by code_simp
  with assms have "map_of known_components name = None" by (simp add: list_all_iff)
  then have "known_value name = id" by (auto simp: known_value_def)
  then show "map_of (known_part obj) name = map_of obj name" using assms by (simp add: map_of_known_part option.map_id0)
  then show "dict_get (known_part obj) name = dict_get obj name" by (simp add: dict_get_def)
qed

text \<open>C21. What is kept of a status is a function of its known fields alone: dropping every other top-level object and
  every unknown field of the components changes neither the result nor the failure, so a newer app may add to its
  status and nothing private in it is kept.\<close>

theorem unknown_fields_ignored:
  "parse_status_object (known_part obj) = parse_status_object obj"
proof -
  have names: "''warnings'' \<in> set plain_names" "''capabilities'' \<in> set plain_names" "''install_capability'' \<in> set plain_names"
    "''root_lost_since_boot'' \<in> set plain_names" "''screen_lock_secure'' \<in> set plain_names"
    "''panel_assistant_device'' \<in> set plain_names" "''webview'' \<in> set plain_names"
    by (simp_all add: plain_names_def)
  have comps: "map_of known_components ''zigbee_gateway'' = Some zigbee_fields"
    "map_of known_components ''storage_health'' = Some storage_fields" "map_of known_components ''renderer'' = Some renderer_fields"
    "map_of known_components ''home_ui'' = Some home_ui_fields" "map_of known_components ''camera'' = Some camera_fields"
    "map_of known_components ''power_safety'' = Some power_fields"
    "map_of known_components ''panel_assistant_hardware'' = Some hardware_fields"
    "map_of known_components ''permissions'' = Some permission_fields"
    "map_of known_components ''proximity'' = Some proximity_fields"
    by (simp_all add: known_components_def)
  note req = required_known
  have "validate_original_arrays (known_part obj) = validate_original_arrays obj"
    "parse_panel_device (known_part obj) = parse_panel_device obj"
    by (simp_all add: validate_original_arrays_def parse_panel_device_def plain_known names)
  moreover note sanitize_known [OF comps(1) req(1)] sanitize_known [OF comps(2) req(2)] sanitize_known [OF comps(3) req(3)]
    sanitize_known [OF comps(4) req(4)] sanitize_known [OF comps(5) req(5)] sanitize_known [OF comps(6) req(6)]
    sanitize_known [OF comps(9) req(7)] sanitize_known [OF comps(7), of "[]"] sanitize_known [OF comps(8), of "[]"]
  ultimately show ?thesis
    unfolding parse_status_object_def by (simp add: plain_known names)
qed


section \<open>The browser engine\<close>

fun install_posts :: "webview_request list \<Rightarrow> string list" where
  "install_posts [] = []"
| "install_posts (InstallWebview digest # rs) = digest # install_posts rs"
| "install_posts (ReadWebview # rs) = install_posts rs"

lemma follow_only_reads: "install_posts (follow_webview w later) = []"
  by (induction w later rule: follow_webview.induct) auto

text \<open>Provisioning the browser engine asks the panel to install at most once, whatever is answered or lost, and only
  the very file the panel's own first answer offered as supported, eligible and not yet in a transaction.\<close>

lemma one_webview_install:
  "install_posts (async_provision_webview first posted later) = []
   \<or> (\<exists>v w digest. first = Some v \<and> parse_webview v = Inr w \<and> wv_candidate w = Some digest \<and> wv_supported w \<and> wv_eligible w
        \<and> wv_state w = None \<and> install_posts (async_provision_webview first posted later) = [digest])"
  by (auto simp: async_provision_webview_def webview_read_def installable_def follow_only_reads
      split: option.splits sum.splits if_splits)

text \<open>The status the installer's health check reads and the one a proof of the home screen reads agree.\<close>

lemma home_ui_allows_setup_eq: "home_ui_allows s True = home_ui_allows_setup (sr_home_ui s)"
  by (auto simp: home_ui_allows_def home_ui_allows_setup_def component_text_def split: option.split)

text \<open>A proximity state that is a list or an object ends in an exception no handler of the client names.\<close>

lemma unhashable_proximity:
  "parse_status_object [(''warnings'', PList []), (''capabilities'', PList []), (''proximity'', PDict [(''state'', PList [])])]
   = Inl Unhashable"
  by code_simp

end
