(* ===== verification/Spec2Isabelle.thy ===== *)
theory Spec2Isabelle
  imports Install_Properties Executor_Properties Finalizer_Properties Adb_Properties Transport_Properties Registry_Properties Status_Properties
begin

text \<open>
  Panel Assistant for Home Assistant, a verification development.

  The integration (custom_components/panel_assistant) lets Home Assistant own Android wall panels.
  A panel signs in over Home Assistant's own WebSocket, says who it is (a hello), and is given a
  session on which it reports state and events and is sent commands.  Separately, the integration
  can install its app on a panel that has none, over ADB, as a job that survives restarts.  What
  is modelled is the logic of these two halves; the two meet where a hello that offers
  \<open>local_adb\<close> must first read the install receipts.

  The installer.
  \<^item> Install_Receipt (install_receipt.py): one receipt, its phases, codes, readers, writer, invariants,
    the phase graph, the plan digest.
  \<^item> Install_Store (install_jobs.py, module level): the two documents on disk, their readers and
    writers, their join, the guarded read.
  \<^item> Install_Jobs (\<open>InstallJobManager\<close>): loading, saving with read-back, pruning, creating, claiming,
    advancing, cancelling, the two barriers.  The disk and the event loop are arguments (\<open>op_io\<close>).
  \<^item> Install_Workflow: what these do to one receipt and over many calls.  Install_Sample and
    Install_Properties: concrete values, and the properties.
  \<^item> Json_Text: Python's JSON writer and reader, as far as the documents use them.  Net_Address
    (client.py, address.py, install_network.py) and Release_Identity (client.py, app_identity.py,
    release.py, update_policy.py): addresses, versions, tags, which build may replace which.

  \<^item> Executor_World (install_executor.py and the types of adb_protocol.py, install_adb.py,
    install_artifacts.py, release.py it uses): what a worker rebuilds from its receipt, its
    decisions, and the record \<open>outside\<close> that answers each of its awaited calls by number.
    Install_Executor: \<open>InstallExecutor._async_run\<close> and every method it calls, phase by phase.
  \<^item> Executor_Runs: the locale \<open>log_relation\<close> carries a relation of event logs through every method
    of the worker; it is interpreted for the barrier before each panel change, for counts of
    changes and of lost races, and for the file that goes before recovery (Executor_Progress,
    Executor_Outcomes).  Quiet_Store, Smooth_Run, Smooth_Phases: the job manager on a disk that works
    and a run in which nothing fails.  Executor_Sample, Executor_Properties.
  \<^item> Install_Finalizer (install_executor.py): proving a healthy receipt again before its entry is
    added, the leases of finalization, settling a receipt whose entry exists, the table of workers,
    resuming after a restart.  Finalizer_Desk: these under every interleaving of their coroutines,
    as a step relation with its invariant.  Finalizer_Properties.

  The installer's ADB side, below those calls.
  \<^item> Adb_Frames, Adb_Commands, Adb_Answers (adb_protocol.py, previous_home.py, home_chooser.py): the
    markers that frame an answer, the exact text of every shell program the installer sends, and
    every parser of what the panel prints.  Adb_Admission: the programs and the parsers agree on any
    shell that prints whole lines.
  \<^item> Adb_Line (adb_protocol.py, install_adb.py): one connection as the answers to its awaited calls
    in order (\<open>adb_world\<close>), with a log of what was sent, copied, dialled and closed; connecting,
    hanging up, asking, handlers.  Adb_Install (install_adb.py): preflight, proof of root, staging,
    installing, updating, cleaning up, measuring the installed app.
  \<^item> Adb_Runs, Adb_Closing, Adb_Effects: the calculus \<open>does\<close>/\<open>only\<close> of what an operation logs and
    returns, which connections and files it closes, which answers precede a change of the panel.
    Adb_Sample, Adb_Properties.

  The transport.
  \<^item> Transport_Protocol (transport_protocol.py): every validator and schema.
  \<^item> Transport_Sessions (transport_sessions.py): the session table, restart notices, delivery of
    commands.  Transport_Handlers (transport.py): reports, events, results.
  \<^item> Transport_Views, Transport_Runs, Transport_Traces: the abstract machine the table refines, the
    steps of the session system with its invariant, and what fires in a run.  Transport_Properties.
  \<^item> Channel_Catalogue (contract.py and the JSON file beside it): which entity a channel is.
  \<^item> Panel_Entries: config entries, entities, devices, issues, one panel operation at a time
    (panel_operations.py).  Account_Binding (transport_binding.py), Entry_Identity (identity.py),
    Removed_Panels (removed_panels.py), Panel_Logs (panel_logs.py).
  \<^item> Transport_Hello (transport.py): the admission of a hello, with all it changes.
  \<^item> Session_Frames, Admission_Runs, Admission_Identity, Admission_Steps, Admission_System: all of it as
    one step relation (\<open>gate_step\<close>) with the invariant of who may hold a session.
  \<^item> Admission_Outcomes and Identity_Moves: what one hello leaves behind, what a move to another
    identity does and how an interrupted one is finished.  Admission_Properties, Registry_Properties.

  What a panel says of itself.
  \<^item> Panel_Status (status.py, webview.py): the validators, the tables of known fields, the device, the
    browser engine, from the text of an answer to the status that is kept.  Status_Properties: what
    is kept is bounded and a function of the known fields alone; provisioning the browser engine asks
    for one install at most.

  Panel_Prelude and Bounded_Dict hold what the parts share: Python values (\<open>pyval\<close>), dicts as
  association lists in insertion order, results as sums, strings of code points up to U+00FF, the
  locales \<open>codec\<close> and \<open>codec_chain\<close> (a writer and a reader that agree) and \<open>bounded_dict\<close> (a dict that
  forgets its oldest).  The locale \<open>fixed_part\<close> says what of a session no later step changes.

  State and operations.  A Python object that is shared and compared by identity (a session, a
  command) lives in a store under a reference; any other state is a record that an operation
  returns updated.  A handler that does not yield is one step; an operation that awaits is split
  where it does, and what may happen meanwhile is either an argument (the installer, under its
  lock) or any other step of the system (the transport).  An exception is a branch: \<open>None\<close>, or an
  error value where callers tell errors apart.  What is told to others is a list of effects in order.

  Bounds and fuel.  The JSON reader has fuel; the length of the text is always enough, which the
  round trips use.  The worker's loop has fuel for its rounds: 24, and one for each time another
  writer changed the receipt first, are always enough, and 11 where nothing fails.  Nothing else
  has fuel: loops are folds, structural recursion or recursion with a
  measure.  The limits of the code (4 active jobs, 32 terminal ones, 128 KiB, 64 removed panels,
  16 requests, and the counts in the schemas) are abbreviations with the code's values.

  Libraries.  Home Assistant's registries are lists with two operations in \<open>registry_lib\<close> and the
  law \<open>registry_lawful\<close>; voluptuous, yarl, the date parser, the JSON float formatter, SHA-256 and the
  resolver are parameters.  Nothing is assumed of them beyond what a theorem states.

  The calls of a worker over ADB and HTTP, its downloads and the credential store are not code the
  worker decides anything in: \<open>outside\<close> gives each call any answer or failure its type allows, and
  theorems hold for every \<open>outside\<close> unless they say which one.  A cancelled task is an answer too.

  On the ADB side the same is done one level down: \<open>adb_world\<close> gives each shell program any chunks
  or failure, each connection attempt and copy any outcome, each deadline and cancellation any place;
  \<open>preflight_honest\<close> is the one assumption on a shell, that it prints whole lines that are no markers.

  Not modelled: starting the installed app with its grants, and vendor and display set-up, of
  install_adb.py; entity platforms, forms, repairs flows and pictures (glue of Home Assistant with little logic of its own);
  what an ADB or HTTP client does inside one call, sockets, signatures and image processing
  (I/O and libraries); the texts of issues, errors and logs; code points above U+00FF.
\<close>

end
